(* ===== verification/Prelude.thy ===== *)
theory Prelude
  imports Main "HOL-Library.List_Lexorder" "HOL-Library.Char_ord"
begin

text \<open>
  Shared vocabulary of the development: the fragment of Python's values, strings and
  dictionaries that the modelled code uses, results that may be an exception, state
  transformers that may raise, and transition systems.

  \<^item> A Python \<open>str\<close> is an Isabelle \<^typ>\<open>string\<close>; a character stands for a code point
    below 256, and \<open>strip\<close>, \<open>lower\<close> and the comparison operators are those of CPython
    on that range. Comparison of strings is the lexicographic order of code points
    (\<open>List_Lexorder\<close> over \<open>Char_ord\<close>).
  \<^item> A JSON-like Python value is a \<open>pyval\<close>; a dictionary is its list of items in
    insertion order. Floating point numbers are not represented.
  \<^item> A call that may raise returns \<open>'e + 'a\<close> with \<^const>\<open>Inl\<close> for the exception; a call
    that also changes a store is a function from the store to the outcome and the new
    store.
\<close>

named_theorems py_defs \<open>definitions of the Python string and dictionary operations\<close>
named_theorems mon_simps \<open>equations of the exception and state combinators\<close>

section \<open>Strings\<close>

definition is_space :: "char \<Rightarrow> bool" where
  "is_space c = (let n = (of_char c :: nat) in
     (9 \<le> n \<and> n \<le> 13) \<or> (28 \<le> n \<and> n \<le> 32) \<or> n = 133 \<or> n = 160)"

definition str_lstrip :: "string \<Rightarrow> string" where
  "str_lstrip s = dropWhile is_space s"

definition str_rstrip_by :: "(char \<Rightarrow> bool) \<Rightarrow> string \<Rightarrow> string" where
  "str_rstrip_by p s = rev (dropWhile p (rev s))"

definition str_strip :: "string \<Rightarrow> string" where
  "str_strip s = str_rstrip_by is_space (str_lstrip s)"

definition lower_char :: "char \<Rightarrow> char" where
  "lower_char c = (let n = (of_char c :: nat) in
     if (65 \<le> n \<and> n \<le> 90) \<or> (192 \<le> n \<and> n \<le> 222 \<and> n \<noteq> 215) then char_of (n + 32) else c)"

definition upper_char :: "char \<Rightarrow> char" where
  "upper_char c = (let n = (of_char c :: nat) in
     if (97 \<le> n \<and> n \<le> 122) \<or> (224 \<le> n \<and> n \<le> 254 \<and> n \<noteq> 247) then char_of (n - 32) else c)"

definition str_lower :: "string \<Rightarrow> string" where
  "str_lower s = map lower_char s"

definition str_upper :: "string \<Rightarrow> string" where
  "str_upper s = map upper_char s"

definition str_startswith :: "string \<Rightarrow> string \<Rightarrow> bool" where
  "str_startswith s p = (take (length p) s = p)"

text \<open>\<open>sub in s\<close>: some suffix of \<open>s\<close> starts with \<open>sub\<close>.\<close>

fun str_contains :: "string \<Rightarrow> string \<Rightarrow> bool" where
  "str_contains sub [] = (sub = [])"
| "str_contains sub (c # s) = (str_startswith (c # s) sub \<or> str_contains sub s)"

definition str_contains_any :: "string list \<Rightarrow> string \<Rightarrow> bool" where
  "str_contains_any subs s = list_ex (\<lambda>sub. str_contains sub s) subs"

text \<open>\<open>s.rsplit(".", 1)\<close> when a dot occurs, \<open>None\<close> otherwise.\<close>

definition str_rsplit_dot :: "string \<Rightarrow> (string \<times> string) option" where
  "str_rsplit_dot s =
     (case dropWhile (\<lambda>c. c \<noteq> CHR ''.'') (rev s) of
        [] \<Rightarrow> None
      | _ # l \<Rightarrow> Some (rev l, rev (takeWhile (\<lambda>c. c \<noteq> CHR ''.'') (rev s))))"

fun str_join :: "string \<Rightarrow> string list \<Rightarrow> string" where
  "str_join sep [] = []"
| "str_join sep [s] = s"
| "str_join sep (s # t # ss) = s @ sep @ str_join sep (t # ss)"

text \<open>\<open>s.split(sep)\<close> for a single character, and the text before and after its first occurrence.\<close>

fun str_split :: "char \<Rightarrow> string \<Rightarrow> string list" where
  "str_split sep [] = [[]]"
| "str_split sep (c # cs) =
     (case str_split sep cs of
        w # ws \<Rightarrow> if c = sep then [] # w # ws else (c # w) # ws
      | [] \<Rightarrow> [])"

definition before_char :: "char \<Rightarrow> string \<Rightarrow> string" where
  "before_char c s = takeWhile (\<lambda>d. d \<noteq> c) s"

definition after_char :: "char \<Rightarrow> string \<Rightarrow> string" where
  "after_char c s = drop 1 (dropWhile (\<lambda>d. d \<noteq> c) s)"

text \<open>\<open>s.split()\<close>: the maximal runs of non-space characters.\<close>

function str_words :: "string \<Rightarrow> string list" where
  "str_words s =
     (case str_lstrip s of
        [] \<Rightarrow> []
      | c # r \<Rightarrow> (c # takeWhile (\<lambda>d. \<not> is_space d) r) #
                 str_words (dropWhile (\<lambda>d. \<not> is_space d) r))"
  by pat_completeness auto

lemma length_str_lstrip: "length (str_lstrip s) \<le> length s"
  by (simp add: str_lstrip_def length_dropWhile_le)

termination str_words
proof (relation "measure length", simp)
  fix s c r
  assume "str_lstrip s = c # r"
  then have "length r < length s"
    using length_str_lstrip [of s] by simp
  then show "(dropWhile (\<lambda>d. \<not> is_space d) r, s) \<in> measure length"
    using length_dropWhile_le [of "\<lambda>d. \<not> is_space d" r] by simp
qed

declare str_words.simps [simp del]

fun nat_digits :: "nat \<Rightarrow> string" where
  "nat_digits n =
     (if n < 10 then [char_of (48 + n)] else nat_digits (n div 10) @ [char_of (48 + n mod 10)])"

declare nat_digits.simps [simp del]

definition int_str :: "int \<Rightarrow> string" where
  "int_str i = (if i < 0 then CHR ''-'' # nat_digits (nat (- i)) else nat_digits (nat i))"

lemmas str_strip_defs [py_defs] =
  str_strip_def str_rstrip_by_def str_lstrip_def str_lower_def str_upper_def

lemma str_strip_Nil [simp]: "str_strip [] = []"
  by (simp add: py_defs)

lemma str_strip_id:
  assumes "s \<noteq> []" "\<not> is_space (hd s)" "\<not> is_space (last s)"
  shows "str_strip s = s"
proof -
  have "str_lstrip s = s" using assms(1,2) by (cases s) (simp_all add: str_lstrip_def)
  moreover have "str_rstrip_by is_space s = s"
    using assms(1,3) by (cases s rule: rev_cases) (simp_all add: str_rstrip_by_def)
  ultimately show ?thesis by (simp add: str_strip_def)
qed

lemma str_strip_ends:
  assumes "str_strip s \<noteq> []"
  shows "\<not> is_space (hd (str_strip s))" "\<not> is_space (last (str_strip s))"
proof -
  let ?l = "dropWhile is_space s"
  have strip: "str_strip s = rev (dropWhile is_space (rev ?l))" by (simp add: str_strip_def py_defs)
  with assms have ne: "dropWhile is_space (rev ?l) \<noteq> []" by simp
  from hd_dropWhile [OF ne] ne show "\<not> is_space (last (str_strip s))" by (simp add: strip last_rev)
  have l: "?l \<noteq> []" using ne by (metis dropWhile.simps(1) rev.simps(1))
  obtain t where t: "rev ?l = t @ dropWhile is_space (rev ?l)" by (metis takeWhile_dropWhile_id)
  then have "?l = str_strip s @ rev t" by (metis rev_append rev_rev_ident strip)
  then have "hd ?l = hd (str_strip s)" using assms by (metis hd_append2)
  with hd_dropWhile [OF l] show "\<not> is_space (hd (str_strip s))" by simp
qed

lemma str_strip_idem [simp]: "str_strip (str_strip s) = str_strip s"
  by (cases "str_strip s = []") (simp_all add: str_strip_id str_strip_ends)

lemma str_startswith_Nil [simp]: "str_startswith s []"
  by (simp add: str_startswith_def)

lemma str_startswith_iff: "str_startswith s p \<longleftrightarrow> (\<exists>r. s = p @ r)"
  unfolding str_startswith_def
  by (metis append_eq_conv_conj append_take_drop_id)

lemma str_contains_iff: "str_contains sub s \<longleftrightarrow> (\<exists>l r. s = l @ sub @ r)"
proof (induction s)
  case Nil
  then show ?case by auto
next
  case (Cons c s)
  show ?case
  proof
    assume "str_contains sub (c # s)"
    then consider "str_startswith (c # s) sub" | "str_contains sub s" by auto
    then show "\<exists>l r. c # s = l @ sub @ r"
    proof cases
      case 1
      then show ?thesis unfolding str_startswith_iff by (metis append_Nil)
    next
      case 2
      with Cons.IH show ?thesis by (metis append_Cons)
    qed
  next
    assume "\<exists>l r. c # s = l @ sub @ r"
    then obtain l r where eq: "c # s = l @ sub @ r" by blast
    show "str_contains sub (c # s)"
    proof (cases l)
      case Nil
      with eq have "str_startswith (c # s) sub" by (simp add: str_startswith_iff)
      then show ?thesis by simp
    next
      case (Cons d l')
      with eq have "s = l' @ sub @ r" by simp
      with Cons.IH show ?thesis by auto
    qed
  qed
qed

lemma lower_char_idem [simp]: "lower_char (lower_char c) = lower_char c"
proof -
  have "of_char c < (256 :: nat)" by simp
  then show ?thesis
    by (auto simp: lower_char_def Let_def)
qed

lemma str_lower_idem [simp]: "str_lower (str_lower s) = str_lower s"
  by (simp add: str_lower_def)

section \<open>Values\<close>

datatype pyval =
    PNone
  | PBool bool
  | PInt int
  | PStr string
  | PList "pyval list"
  | PDict "(string \<times> pyval) list"

type_synonym pydict = "(string \<times> pyval) list"

definition dict_get :: "(string \<times> 'a) list \<Rightarrow> string \<Rightarrow> 'a option" where
  "dict_get d k = map_of d k"

definition dict_has :: "(string \<times> 'a) list \<Rightarrow> string \<Rightarrow> bool" where
  "dict_has d k = (map_of d k \<noteq> None)"

text \<open>\<open>d[k] = v\<close>: an existing key keeps its place, a new key goes last.\<close>

fun dict_set :: "(string \<times> 'a) list \<Rightarrow> string \<Rightarrow> 'a \<Rightarrow> (string \<times> 'a) list" where
  "dict_set [] k v = [(k, v)]"
| "dict_set ((k', v') # d) k v = (if k' = k then (k, v) # d else (k', v') # dict_set d k v)"

fun dict_update :: "(string \<times> 'a) list \<Rightarrow> (string \<times> 'a) list \<Rightarrow> (string \<times> 'a) list" where
  "dict_update d [] = d"
| "dict_update d ((k, v) # e) = dict_update (dict_set d k v) e"

definition dict_pop :: "(string \<times> 'a) list \<Rightarrow> string \<Rightarrow> (string \<times> 'a) list" where
  "dict_pop d k = filter (\<lambda>(k', _). k' \<noteq> k) d"

text \<open>\<open>d.get(k, default)\<close>\<close>

definition dict_get_or :: "(string \<times> 'a) list \<Rightarrow> string \<Rightarrow> 'a \<Rightarrow> 'a" where
  "dict_get_or d k v = (case dict_get d k of None \<Rightarrow> v | Some w \<Rightarrow> w)"

lemmas dict_defs [py_defs] = dict_get_def dict_has_def dict_pop_def dict_get_or_def

lemma map_of_dict_set [simp]: "map_of (dict_set d k v) = (map_of d)(k \<mapsto> v)"
  by (induction d k v rule: dict_set.induct) (auto simp: fun_eq_iff)

lemma dict_set_view:
  "map_of d k = Some v \<Longrightarrow> g v' = g v \<Longrightarrow>
     map (\<lambda>(k, v). (k, g v)) (dict_set d k v') = map (\<lambda>(k, v). (k, g v)) d"
  by (induction d) (auto split: if_splits)

lemma dict_set_keys:
  "map fst (dict_set d k v) = (if k \<in> fst ` set d then map fst d else map fst d @ [k])"
  by (induction d) (auto simp: rev_image_eqI)

lemma dict_set_in:
  "distinct (map fst d) \<Longrightarrow> ((a, b) \<in> set (dict_set d k v)) = (if a = k then b = v else (a, b) \<in> set d)"
  by (induction d) (force split: if_splits)+

lemma dict_set_new: "k \<notin> fst ` set d \<Longrightarrow> dict_set d k v = d @ [(k, v)]"
  by (induction d) auto

lemma map_of_dict_pop [simp]: "map_of (dict_pop d k) = (map_of d)(k := None)"
  by (induction d) (auto simp: dict_pop_def fun_eq_iff)

lemma map_of_first: "map_of d k = (case filter (\<lambda>p. fst p = k) d of [] \<Rightarrow> None | p # _ \<Rightarrow> Some (snd p))"
  by (induction d) auto

lemma map_of_sort_keys [simp]: "map_of (sort_key fst d) = map_of d"
  by (rule ext) (simp add: map_of_first sort_key_stable)

lemma map_of_dict_update:
  "map_of (dict_update d e) k = (case map_of (rev e) k of None \<Rightarrow> map_of d k | Some v \<Rightarrow> Some v)"
proof (induction d e rule: dict_update.induct)
  case (2 d k' v e)
  then show ?case by (auto simp: map_add_Some_iff split: option.splits)
qed simp

text \<open>Truth value of an object in a condition.\<close>

fun truthy :: "pyval \<Rightarrow> bool" where
  "truthy PNone = False"
| "truthy (PBool b) = b"
| "truthy (PInt i) = (i \<noteq> 0)"
| "truthy (PStr s) = (s \<noteq> [])"
| "truthy (PList xs) = (xs \<noteq> [])"
| "truthy (PDict d) = (d \<noteq> [])"

fun is_dict :: "pyval \<Rightarrow> bool" where
  "is_dict (PDict _) = True"
| "is_dict _ = False"

text \<open>\<open>repr\<close> of a string: single quotes unless the text has a single quote and no double
  one; backslash, the quote and the control characters are escaped.\<close>

definition hex_digit :: "nat \<Rightarrow> char" where
  "hex_digit n = (if n < 10 then char_of (48 + n) else char_of (87 + n))"

definition repr_char :: "char \<Rightarrow> char \<Rightarrow> string" where
  "repr_char q c = (let n = (of_char c :: nat) in
     if n = 92 then [c, c]
     else if c = q then [char_of (92 :: nat), c]
     else if n = 9 then [char_of (92 :: nat), CHR ''t'']
     else if n = 10 then [char_of (92 :: nat), CHR ''n'']
     else if n = 13 then [char_of (92 :: nat), CHR ''r'']
     else if n < 32 \<or> (127 \<le> n \<and> n \<le> 160) \<or> n = 173
       then [char_of (92 :: nat), CHR ''x'', hex_digit (n div 16), hex_digit (n mod 16)]
     else [c])"

definition repr_str :: "string \<Rightarrow> string" where
  "repr_str s = (let sq = char_of (39 :: nat); dq = char_of (34 :: nat);
       q = (if sq \<in> set s \<and> dq \<notin> set s then dq else sq)
     in [q] @ concat (map (repr_char q) s) @ [q])"

fun py_repr :: "pyval \<Rightarrow> string" where
  "py_repr PNone = ''None''"
| "py_repr (PBool b) = (if b then ''True'' else ''False'')"
| "py_repr (PInt i) = int_str i"
| "py_repr (PStr s) = repr_str s"
| "py_repr (PList xs) = ''['' @ str_join '', '' (map py_repr xs) @ '']''"
| "py_repr (PDict d) =
     ''{'' @ str_join '', '' (map (\<lambda>(k, v). repr_str k @ '': '' @ py_repr v) d) @ ''}''"

text \<open>\<open>str(value)\<close>\<close>

fun py_str :: "pyval \<Rightarrow> string" where
  "py_str (PStr s) = s"
| "py_str v = py_repr v"

text \<open>\<open>str(value or "")\<close>\<close>

definition text_or_empty :: "pyval \<Rightarrow> string" where
  "text_or_empty v = (if truthy v then py_str v else [])"

lemma text_or_empty_str [simp]: "text_or_empty (PStr s) = s"
  by (simp add: text_or_empty_def)

text \<open>\<open>json.dumps(..., sort_keys=True)\<close> read back: every dictionary comes out ordered by key.\<close>

fun sort_keys :: "pyval \<Rightarrow> pyval" where
  "sort_keys (PList xs) = PList (map sort_keys xs)"
| "sort_keys (PDict d) = PDict (sort_key fst (map (\<lambda>(k, v). (k, sort_keys v)) d))"
| "sort_keys v = v"

text \<open>\<open>==\<close> on values: a Boolean equals the integer 0 or 1, and dictionaries compare
  without regard to the order of their keys.\<close>

function py_eq :: "pyval \<Rightarrow> pyval \<Rightarrow> bool" where
  "py_eq PNone w = (w = PNone)"
| "py_eq (PBool b) w =
     (case w of PBool c \<Rightarrow> b = c | PInt j \<Rightarrow> (if b then 1 else 0) = j | _ \<Rightarrow> False)"
| "py_eq (PInt i) w =
     (case w of PBool c \<Rightarrow> i = (if c then 1 else 0) | PInt j \<Rightarrow> i = j | _ \<Rightarrow> False)"
| "py_eq (PStr s) w = (w = PStr s)"
| "py_eq (PList xs) w =
     (case w of PList ys \<Rightarrow> length xs = length ys \<and> list_all (\<lambda>(x, y). py_eq x y) (zip xs ys)
      | _ \<Rightarrow> False)"
| "py_eq (PDict d) w =
     (case w of
        PDict e \<Rightarrow> length d = length e \<and>
          list_all (\<lambda>(k, v). case map_of e k of None \<Rightarrow> False | Some u \<Rightarrow> py_eq v u) d
      | _ \<Rightarrow> False)"
  by pat_completeness auto

lemma size_zip_left: "(x, y) \<in> set (zip xs ys) \<Longrightarrow> size x < Suc (size_list size xs)"
  by (drule set_zip_leftD) (simp add: size_list_estimation less_Suc_eq_le size_list_estimation')

lemma size_item:
  "(k, v) \<in> set d \<Longrightarrow> size v < Suc (size_list (size_prod (\<lambda>_. 0) size) d)"
  by (induction d) auto

termination py_eq
  by (relation "measure (\<lambda>(v, _). size v)") (auto simp: size_zip_left size_item)

text \<open>\<open>_opt_str\<close>-style normalisation of an optional text: stripped, empty as absent.\<close>

definition strip_or_none :: "string \<Rightarrow> string option" where
  "strip_or_none s = (let t = str_strip s in if t = [] then None else Some t)"

lemma strip_or_none_Some: "strip_or_none s = Some t \<Longrightarrow> t \<noteq> []"
  by (auto simp: strip_or_none_def Let_def split: if_splits)

text \<open>\<open>max(xs, key=f)\<close> on a non-empty list: the first element with the largest key.\<close>

fun max_by :: "('a \<Rightarrow> 'k :: linorder) \<Rightarrow> 'a \<Rightarrow> 'a list \<Rightarrow> 'a" where
  "max_by f best [] = best"
| "max_by f best (x # xs) = max_by f (if f best < f x then x else best) xs"

lemma max_by_in: "max_by f best xs \<in> insert best (set xs)"
  by (induction f best xs rule: max_by.induct) auto

lemma max_by_best: "f best \<le> f (max_by f best xs)"
  by (induction f best xs rule: max_by.induct) (auto split: if_splits)

lemma max_by_ge: "y \<in> insert best (set xs) \<Longrightarrow> f y \<le> f (max_by f best xs)"
proof (induction f best xs rule: max_by.induct)
  case (2 f best x xs)
  let ?b = "if f best < f x then x else best"
  have b: "f ?b \<le> f (max_by f ?b xs)" by (rule max_by_best)
  show ?case
  proof (cases "y \<in> set xs")
    case True
    with 2 show ?thesis by simp
  next
    case False
    with "2.prems" have "f y \<le> f ?b" by auto
    with b show ?thesis by (auto intro: order_trans)
  qed
qed simp

section \<open>Results and state transformers\<close>

definition rbind :: "('e + 'a) \<Rightarrow> ('a \<Rightarrow> 'e + 'b) \<Rightarrow> 'e + 'b" where
  "rbind r f = (case r of Inl e \<Rightarrow> Inl e | Inr a \<Rightarrow> f a)"

fun res_filter :: "('a \<Rightarrow> 'e + bool) \<Rightarrow> 'a list \<Rightarrow> 'e + 'a list" where
  "res_filter p [] = Inr []"
| "res_filter p (x # xs) =
     rbind (p x) (\<lambda>b. rbind (res_filter p xs) (\<lambda>ys. Inr (if b then x # ys else ys)))"

text \<open>Short-circuit conjunction and disjunction of tests that may raise.\<close>

fun res_all :: "('a \<Rightarrow> 'e + bool) \<Rightarrow> 'a list \<Rightarrow> 'e + bool" where
  "res_all p [] = Inr True"
| "res_all p (x # xs) = rbind (p x) (\<lambda>b. if b then res_all p xs else Inr False)"

fun res_any :: "('a \<Rightarrow> 'e + bool) \<Rightarrow> 'a list \<Rightarrow> 'e + bool" where
  "res_any p [] = Inr False"
| "res_any p (x # xs) = rbind (p x) (\<lambda>b. if b then Inr True else res_any p xs)"

definition st_bind ::
  "('s \<Rightarrow> ('e + 'a) \<times> 's) \<Rightarrow> ('a \<Rightarrow> 's \<Rightarrow> ('e + 'b) \<times> 's) \<Rightarrow> 's \<Rightarrow> ('e + 'b) \<times> 's" where
  "st_bind m f s = (case m s of (Inl e, t) \<Rightarrow> (Inl e, t) | (Inr a, t) \<Rightarrow> f a t)"

text \<open>A database transaction: an exception inside the block rolls the store back.\<close>

definition in_transaction :: "('s \<Rightarrow> ('e + 'a) \<times> 's) \<Rightarrow> 's \<Rightarrow> ('e + 'a) \<times> 's" where
  "in_transaction m s = (case m s of (Inl e, _) \<Rightarrow> (Inl e, s) | (Inr a, t) \<Rightarrow> (Inr a, t))"

lemma rbind_simps [simp, mon_simps]:
  "rbind (Inl e) f = Inl e" "rbind (Inr a) f = f a"
  by (simp_all add: rbind_def)

lemma rbind_Inr_iff: "rbind r f = Inr b \<longleftrightarrow> (\<exists>a. r = Inr a \<and> f a = Inr b)"
  by (cases r) auto

lemma rbind_InrE [elim!]:
  assumes "rbind r f = Inr b"
  obtains a where "r = Inr a" and "f a = Inr b"
  using assms by (auto simp: rbind_Inr_iff)

lemma st_bind_Inl [mon_simps]: "m s = (Inl e, t) \<Longrightarrow> st_bind m f s = (Inl e, t)"
  by (simp add: st_bind_def)

lemma st_bind_Inr [mon_simps]: "m s = (Inr a, t) \<Longrightarrow> st_bind m f s = f a t"
  by (simp add: st_bind_def)

lemma st_bind_InrE:
  assumes "st_bind m f s = (Inr b, u)"
  obtains a t where "m s = (Inr a, t)" and "f a t = (Inr b, u)"
  using assms by (auto simp: st_bind_def split: prod.splits sum.splits)

lemma in_transaction_Inl: "fst (in_transaction m s) = Inl e \<Longrightarrow> snd (in_transaction m s) = s"
  by (auto simp: in_transaction_def split: prod.splits sum.splits)

lemma in_transaction_InrD: "in_transaction m s = (Inr a, t) \<Longrightarrow> m s = (Inr a, t)"
  by (auto simp: in_transaction_def split: prod.splits sum.splits)

lemma res_filter_subset: "res_filter p xs = Inr ys \<Longrightarrow> set ys \<subseteq> set xs"
  by (induction xs arbitrary: ys) (auto split: if_splits)

lemma res_filter_iff:
  "res_filter p xs = Inr ys \<Longrightarrow> x \<in> set ys \<longleftrightarrow> x \<in> set xs \<and> p x = Inr True"
  by (induction xs arbitrary: ys) (auto split: if_splits)

lemma res_filter_defined: "res_filter p xs = Inr ys \<Longrightarrow> x \<in> set xs \<Longrightarrow> \<exists>b. p x = Inr b"
  by (induction xs arbitrary: ys) auto

lemma res_all_Inr_True: "res_all p xs = Inr True \<longleftrightarrow> (\<forall>x\<in>set xs. p x = Inr True)"
proof (induction xs)
  case (Cons x xs)
  then show ?case by (cases "p x") auto
qed simp

section \<open>Transition systems\<close>

text \<open>The states reachable from a given one by a step relation, and the proof rule that an
  invariant kept by every step holds in all of them.\<close>

inductive reach :: "('s \<Rightarrow> 's \<Rightarrow> bool) \<Rightarrow> 's \<Rightarrow> 's \<Rightarrow> bool" for step where
  reach_refl: "reach step s s"
| reach_step: "reach step s t \<Longrightarrow> step t u \<Longrightarrow> reach step s u"

lemma reach_one: "step s t \<Longrightarrow> reach step s t"
  by (rule reach_step [OF reach_refl])

lemma reach_trans: "reach step s t \<Longrightarrow> reach step t u \<Longrightarrow> reach step s u"
  by (rotate_tac 1, induction rule: reach.induct) (auto intro: reach.intros)

locale invariant_system =
  fixes step :: "'s \<Rightarrow> 's \<Rightarrow> bool" and inv :: "'s \<Rightarrow> bool"
  assumes inv_step: "inv s \<Longrightarrow> step s t \<Longrightarrow> inv t"
begin

lemma inv_reach: "reach step s t \<Longrightarrow> inv s \<Longrightarrow> inv t"
  by (induction rule: reach.induct) (auto intro: inv_step)

end

text \<open>A quantity that no step lowers, under an invariant of the system.\<close>

locale monotone_system = invariant_system step inv
  for step :: "'s \<Rightarrow> 's \<Rightarrow> bool" and inv :: "'s \<Rightarrow> bool" +
  fixes level :: "'s \<Rightarrow> 'k :: order"
  assumes level_step: "inv s \<Longrightarrow> step s t \<Longrightarrow> level s \<le> level t"
begin

lemma level_reach: "reach step s t \<Longrightarrow> inv s \<Longrightarrow> level s \<le> level t"
proof (induction rule: reach.induct)
  case (reach_step s t u)
  then have "inv t" by (auto intro: inv_reach)
  with reach_step show ?case by (auto dest: level_step intro: order_trans)
qed simp

end

text \<open>Calls that are sequences of the steps of a system with an invariant: what the steps keep,
  the calls keep.\<close>

locale simulated_system = invariant_system step inv
  for step :: "'s \<Rightarrow> 's \<Rightarrow> bool" and inv :: "'s \<Rightarrow> bool" +
  fixes call :: "'s \<Rightarrow> 's \<Rightarrow> bool"
  assumes call_steps: "inv s \<Longrightarrow> call s t \<Longrightarrow> reach step s t"
begin

lemma calls_steps: "reach call s t \<Longrightarrow> inv s \<Longrightarrow> reach step s t"
proof (induction rule: reach.induct)
  case (reach_step s t u)
  then have "inv t" by (auto intro: inv_reach)
  with reach_step show ?case by (auto dest: call_steps intro: reach_trans)
qed (rule reach_refl)

lemma calls_inv: "reach call s t \<Longrightarrow> inv s \<Longrightarrow> inv t"
  by (auto dest: calls_steps intro: inv_reach)

lemma calls_keep:
  assumes keep: "\<And>u v. inv u \<Longrightarrow> P u \<Longrightarrow> step u v \<Longrightarrow> P v"
    and "reach call s t" "inv s" "P s"
  shows "P t"
proof -
  have "reach step s t" using assms by (auto intro: calls_steps)
  then show ?thesis using \<open>inv s\<close> \<open>P s\<close>
    by (induction rule: reach.induct) (auto intro: keep inv_reach)
qed

end

section \<open>Optional texts\<close>

text \<open>Truth value of an optional text: absent and empty are both false.\<close>

definition opt_truthy :: "string option \<Rightarrow> bool" where
  "opt_truthy x = (case x of None \<Rightarrow> False | Some s \<Rightarrow> s \<noteq> [])"

definition opt_or :: "string option \<Rightarrow> string \<Rightarrow> string" where
  "opt_or x s = (case x of Some t \<Rightarrow> if t \<noteq> [] then t else s | None \<Rightarrow> s)"

lemma opt_truthy_simps [simp]:
  "\<not> opt_truthy None" "opt_truthy (Some s) \<longleftrightarrow> s \<noteq> []"
  by (simp_all add: opt_truthy_def)

text \<open>\<open>str(d.get(key, "")).strip()\<close>\<close>

definition text_field :: "pydict \<Rightarrow> string \<Rightarrow> string" where
  "text_field d key = str_strip (py_str (dict_get_or d key (PStr [])))"

end
