(* ===== verification/Policy_Models.thy ===== *)
theory Policy_Models
  imports Prelude
begin

text \<open>
  The data of the policy module (\<open>modules/policy/models.py\<close>, \<open>constants.py\<close>) and the
  authorization descriptors of \<open>modules/tool/plugin_api.py\<close>. The \<open>Literal\<close> types that the
  code only builds from its own constants are datatypes; the fields the code validates at
  run time (\<open>effect\<close>, \<open>duration_type\<close>, the mode) and time stamps stay strings. Time stamps
  are the ISO-8601 texts the code compares with \<open><\<close> and \<open><=\<close>.
\<close>

section \<open>Risk\<close>

datatype risk_class =
    Read | Write | Exec | State_change | Destructive | Financial | Security

datatype side_effects = SE_none | SE_local | SE_remote | SE_external_account

datatype reversibility = Reversible | Partially_reversible | Irreversible | Rev_unknown

text \<open>\<open>POLICY_RISK_ORDER\<close>\<close>

fun POLICY_RISK_ORDER :: "risk_class \<Rightarrow> int" where
  "POLICY_RISK_ORDER Read = 0"
| "POLICY_RISK_ORDER Write = 1"
| "POLICY_RISK_ORDER State_change = 2"
| "POLICY_RISK_ORDER Exec = 3"
| "POLICY_RISK_ORDER Security = 4"
| "POLICY_RISK_ORDER Financial = 5"
| "POLICY_RISK_ORDER Destructive = 6"

definition POLICY_HIGH_CONFIRM_RISKS :: "risk_class list" where
  "POLICY_HIGH_CONFIRM_RISKS = [Destructive, Financial, Security]"

definition POLICY_SIDE_EFFECT_CONFIRM_RISKS :: "risk_class list" where
  "POLICY_SIDE_EFFECT_CONFIRM_RISKS = [Exec, State_change]"

record risk_spec =
  risk_class :: risk_class
  side_effects :: side_effects
  reversibility :: reversibility
  default_confirm :: bool
  sensitive_targets :: "pyval list"

fun risk_class_str :: "risk_class \<Rightarrow> string" where
  "risk_class_str Read = ''read''"
| "risk_class_str Write = ''write''"
| "risk_class_str Exec = ''exec''"
| "risk_class_str State_change = ''state_change''"
| "risk_class_str Destructive = ''destructive''"
| "risk_class_str Financial = ''financial''"
| "risk_class_str Security = ''security''"

fun side_effects_str :: "side_effects \<Rightarrow> string" where
  "side_effects_str SE_none = ''none''"
| "side_effects_str SE_local = ''local''"
| "side_effects_str SE_remote = ''remote''"
| "side_effects_str SE_external_account = ''external_account''"

fun reversibility_str :: "reversibility \<Rightarrow> string" where
  "reversibility_str Reversible = ''reversible''"
| "reversibility_str Partially_reversible = ''partially_reversible''"
| "reversibility_str Irreversible = ''irreversible''"
| "reversibility_str Rev_unknown = ''unknown''"

definition parse_by :: "('a \<Rightarrow> string) \<Rightarrow> 'a list \<Rightarrow> string \<Rightarrow> 'a option" where
  "parse_by show all s = find (\<lambda>a. show a = s) all"

definition parse_risk_class :: "string \<Rightarrow> risk_class option" where
  "parse_risk_class = parse_by risk_class_str
     [Read, Write, Exec, State_change, Destructive, Financial, Security]"

definition parse_side_effects :: "string \<Rightarrow> side_effects option" where
  "parse_side_effects = parse_by side_effects_str
     [SE_none, SE_local, SE_remote, SE_external_account]"

definition parse_reversibility :: "string \<Rightarrow> reversibility option" where
  "parse_reversibility = parse_by reversibility_str
     [Reversible, Partially_reversible, Irreversible, Rev_unknown]"

definition RiskSpec_to_dict :: "risk_spec \<Rightarrow> pydict" where
  "RiskSpec_to_dict r =
     [(''risk_class'', PStr (risk_class_str (risk_class r))),
      (''side_effects'', PStr (side_effects_str (side_effects r))),
      (''reversibility'', PStr (reversibility_str (reversibility r))),
      (''default_confirm'', PBool (default_confirm r)),
      (''sensitive_targets'', PList (sensitive_targets r))]"

text \<open>\<open>RiskSpec.from_dict\<close> casts its strings unchecked; \<open>None\<close> here is a text outside the
  \<open>Literal\<close> types, on which the code later raises \<open>KeyError\<close> in the risk order.
  A \<open>sensitive_targets\<close> entry that is not a list is outside the annotated type.\<close>

definition RiskSpec_from_dict :: "pydict \<Rightarrow> risk_spec option" where
  "RiskSpec_from_dict d =
     (case parse_risk_class (py_str (dict_get_or d ''risk_class'' (PStr ''read''))) of
        None \<Rightarrow> None
      | Some c \<Rightarrow>
     (case parse_side_effects (py_str (dict_get_or d ''side_effects'' (PStr ''none''))) of
        None \<Rightarrow> None
      | Some e \<Rightarrow>
     (case parse_reversibility (py_str (dict_get_or d ''reversibility'' (PStr ''unknown''))) of
        None \<Rightarrow> None
      | Some v \<Rightarrow>
     (case dict_get_or d ''sensitive_targets'' (PList []) of
        PList ts \<Rightarrow>
          Some \<lparr>risk_class = c, side_effects = e, reversibility = v,
                default_confirm = truthy (dict_get_or d ''default_confirm'' (PBool False)),
                sensitive_targets = ts\<rparr>
      | _ \<Rightarrow> None))))"

section \<open>Authorization descriptors\<close>

record auth_descriptor =
  ad_risk_class :: risk_class
  ad_side_effects :: side_effects
  ad_reversibility :: reversibility
  ad_confirmation_ttl_seconds :: int
  ad_required_subject_id :: "string option"
  ad_requires_session :: bool

definition POLICY_AUTHORIZATION_DESCRIPTORS :: "((string \<times> string) \<times> auth_descriptor) list" where
  "POLICY_AUTHORIZATION_DESCRIPTORS =
     [((''blockchain'', ''send_transaction''),
       \<lparr>ad_risk_class = Financial, ad_side_effects = SE_external_account,
        ad_reversibility = Irreversible, ad_confirmation_ttl_seconds = 600,
        ad_required_subject_id = None, ad_requires_session = False\<rparr>),
      ((''commerce'', ''prepare_order''),
       \<lparr>ad_risk_class = State_change, ad_side_effects = SE_external_account,
        ad_reversibility = Reversible, ad_confirmation_ttl_seconds = 600,
        ad_required_subject_id = Some ''local'', ad_requires_session = True\<rparr>),
      ((''commerce'', ''place_order''),
       \<lparr>ad_risk_class = Financial, ad_side_effects = SE_external_account,
        ad_reversibility = Irreversible, ad_confirmation_ttl_seconds = 600,
        ad_required_subject_id = Some ''local'', ad_requires_session = True\<rparr>),
      ((''commerce'', ''apply_order_action''),
       \<lparr>ad_risk_class = Financial, ad_side_effects = SE_external_account,
        ad_reversibility = Partially_reversible, ad_confirmation_ttl_seconds = 600,
        ad_required_subject_id = Some ''local'', ad_requires_session = True\<rparr>)]"

definition auth_descriptor_of :: "string \<Rightarrow> string \<Rightarrow> auth_descriptor option" where
  "auth_descriptor_of tool method = map_of POLICY_AUTHORIZATION_DESCRIPTORS (tool, method)"

definition is_policy_authorization_pair :: "string \<Rightarrow> string \<Rightarrow> bool" where
  "is_policy_authorization_pair tool method =
     ((tool, method) \<in> fst ` set POLICY_AUTHORIZATION_DESCRIPTORS)"

definition is_exact_ops_command :: "string \<Rightarrow> string \<Rightarrow> bool" where
  "is_exact_ops_command tool method = (tool = ''ops.command'' \<and> method = ''run'')"

definition is_exact_blockchain_send :: "string \<Rightarrow> string \<Rightarrow> bool" where
  "is_exact_blockchain_send tool method = (tool = ''blockchain'' \<and> method = ''send_transaction'')"

text \<open>\<open>EXACT_CONFIRMATION_PAIRS\<close>\<close>

definition is_exact_pair :: "string \<Rightarrow> string \<Rightarrow> bool" where
  "is_exact_pair tool method =
     (is_policy_authorization_pair tool method \<or> (tool, method) = (''ops.command'', ''run''))"

section \<open>Rules, configuration, grants, decisions\<close>

datatype rule_mode = Block | Ask | Auto

record policy_rule =
  rule_tool_name :: string
  rule_min_risk_class :: "risk_class option"
  rule_mode :: rule_mode

record policy_config =
  cfg_mode :: string
  cfg_default_action :: string
  cfg_default_duration :: string
  cfg_sandbox_path_prefixes :: "string list"
  cfg_allow_read_only_without_prompt :: bool
  cfg_rules :: "policy_rule list"
  cfg_affirmative_tokens :: "string list"
  cfg_negative_tokens :: "string list"
  cfg_subject_id_default :: string
  cfg_decision_log_enabled :: bool

definition default_policy_config :: policy_config where
  "default_policy_config = \<lparr>cfg_mode = ''enforce'', cfg_default_action = ''require_confirm'',
     cfg_default_duration = ''once'', cfg_sandbox_path_prefixes = [''/sandbox'', ''./sandbox''],
     cfg_allow_read_only_without_prompt = True, cfg_rules = [],
     cfg_affirmative_tokens = [''yes'', ''y'', ''proceed'', ''go'', ''confirm'', ''sure'',
       ''affirmative'', ''sounds good''],
     cfg_negative_tokens = [''no'', ''n'', ''cancel'', ''stop'', ''abort'', ''not now''],
     cfg_subject_id_default = ''local'', cfg_decision_log_enabled = True\<rparr>"

record grant_input =
  gi_effect :: string
  gi_tool :: string
  gi_method :: string
  gi_target_json :: pydict
  gi_duration_type :: string
  gi_subject_id :: string
  gi_expires_at :: "string option"
  gi_session_id :: "string option"
  gi_invocation_hash :: "string option"
  gi_max_uses :: "int option"
  gi_reason :: "string option"
  gi_created_trace_id :: "string option"
  gi_risk_floor :: "risk_class option"
  gi_approval_id :: "string option"

record policy_grant =
  g_grant_id :: string
  g_subject_id :: string
  g_effect :: string
  g_tool :: string
  g_method :: string
  g_target_json :: pydict
  g_duration_type :: string
  g_expires_at :: "string option"
  g_session_id :: "string option"
  g_invocation_hash :: "string option"
  g_max_uses :: "int option"
  g_uses_count :: int
  g_created_at :: string
  g_updated_at :: string
  g_revoked_at :: "string option"
  g_reason :: "string option"
  g_created_trace_id :: "string option"
  g_risk_floor :: "risk_class option"
  g_approval_id :: "string option"

definition PolicyGrant_active :: "policy_grant \<Rightarrow> bool" where
  "PolicyGrant_active g = (g_revoked_at g = None)"

record invocation_summary =
  inv_invocation_id :: string
  inv_tool :: string
  inv_method :: string
  inv_args :: pydict
  inv_hash :: string

record context_summary =
  ctx_trace_id :: "string option"
  ctx_session_id :: "string option"
  ctx_agent_id :: "string option"
  ctx_subject_id :: "string option"
  ctx_mode_name :: "string option"

datatype decision_type = ALLOW | DENY | REQUIRE_CONFIRM

record policy_decision =
  d_decision :: decision_type
  d_reason_code :: string
  d_reason :: string
  d_risk :: risk_spec
  d_matched_grant_id :: "string option"
  d_confirm_request :: "pydict option"
  d_details :: pydict
  d_approval_id :: "string option"
  d_invocation_hash :: "string option"
  d_confirmation_preview :: "pydict option"

text \<open>A decision built from its first four arguments, the others at their defaults.\<close>

definition mk_decision :: "decision_type \<Rightarrow> string \<Rightarrow> string \<Rightarrow> risk_spec \<Rightarrow> policy_decision" where
  "mk_decision d code reason risk =
     \<lparr>d_decision = d, d_reason_code = code, d_reason = reason, d_risk = risk,
      d_matched_grant_id = None, d_confirm_request = None, d_details = [],
      d_approval_id = None, d_invocation_hash = None, d_confirmation_preview = None\<rparr>"

datatype pending_state = Pending | Allowed | Denied | Expired

record pending_confirmation =
  pc_approval_id :: string
  pc_subject_id :: string
  pc_tool :: string
  pc_method :: string
  pc_invocation_hash :: string
  pc_invocation_id :: string
  pc_trace_id :: "string option"
  pc_session_id :: "string option"
  pc_preview :: pydict
  pc_state :: pending_state
  pc_resolution_action :: "string option"
  pc_grant_id :: "string option"
  pc_created_at :: string
  pc_expires_at :: string
  pc_resolved_at :: "string option"

datatype policy_error =
    ValueError string
  | RuntimeError string
  | AssertionError
  | RegexError string
  | IntegrityError string
  | PolicyControlError string string pydict

type_synonym 'a policy_result = "policy_error + 'a"

section \<open>Redaction and bounded previews\<close>

definition SECRET_TOKENS :: "string list" where
  "SECRET_TOKENS = [''token'', ''secret'', ''password'', ''key'', ''authorization'']"

fun sanitize_value :: "pyval \<Rightarrow> pyval" where
  "sanitize_value (PList xs) = PDict [(''_type'', PStr ''array''), (''size'', PInt (int (length xs)))]"
| "sanitize_value (PDict d) = PDict [(''_type'', PStr ''object''), (''size'', PInt (int (length d)))]"
| "sanitize_value v = v"

definition sanitize_args :: "pydict \<Rightarrow> pydict" where
  "sanitize_args args = map (\<lambda>(k, v).
     (k, if str_contains_any SECRET_TOKENS (str_lower k) then PStr ''[REDACTED]''
         else sanitize_value v)) args"

definition TRUNCATED :: pyval where
  "TRUNCATED = PStr ''[TRUNCATED]''"

text \<open>\<open>_bounded_preview_value\<close> with the depth left, three at the top.\<close>

fun bounded_preview :: "nat \<Rightarrow> pyval \<Rightarrow> pyval" where
  "bounded_preview 0 v = TRUNCATED"
| "bounded_preview (Suc n) (PStr s) =
     PStr (if length s \<le> 120 then s else take 117 s @ ''...'')"
| "bounded_preview (Suc n) (PDict d) =
     (let b = map (\<lambda>(k, c).
            (k, case c of
                  PStr s \<Rightarrow> if Suc n = 3 \<and> k = ''command'' then PStr s else bounded_preview n c
                | _ \<Rightarrow> bounded_preview n c)) (take 8 d)
      in PDict (if length d > 8 then dict_set b ''...'' (PStr (int_str (int (length d) - 8) @ '' more''))
                else b))"
| "bounded_preview (Suc n) (PList xs) =
     PList (map (bounded_preview n) (take 5 xs) @
       (if length xs > 5 then [PStr (''['' @ int_str (int (length xs) - 5) @ '' more]'')] else []))"
| "bounded_preview (Suc n) v = v"

definition bounded_preview_value :: "pyval \<Rightarrow> pyval" where
  "bounded_preview_value v = bounded_preview 3 v"

section \<open>Lemmas\<close>

lemma parse_by_inverse:
  assumes "inj_on show (set all)" and "a \<in> set all"
  shows "parse_by show all (show a) = Some a"
proof (cases "parse_by show all (show a)")
  case None
  with assms show ?thesis by (auto simp: parse_by_def find_None_iff)
next
  case (Some b)
  then have "show b = show a" and "b \<in> set all"
    by (auto simp: parse_by_def find_Some_iff)
  with assms Some show ?thesis by (auto simp: inj_on_def)
qed

lemma parse_risk_class_inverse [simp]: "parse_risk_class (risk_class_str c) = Some c"
  by (cases c) (simp_all add: parse_risk_class_def parse_by_def)

lemma parse_side_effects_inverse [simp]: "parse_side_effects (side_effects_str e) = Some e"
  by (cases e) (simp_all add: parse_side_effects_def parse_by_def)

lemma parse_reversibility_inverse [simp]: "parse_reversibility (reversibility_str v) = Some v"
  by (cases v) (simp_all add: parse_reversibility_def parse_by_def)

lemma risk_order_inj: "POLICY_RISK_ORDER a = POLICY_RISK_ORDER b \<longleftrightarrow> a = b"
  by (cases a; cases b) simp_all

lemma authorization_pair_iff:
  "is_policy_authorization_pair tool method \<longleftrightarrow>
     (tool = ''blockchain'' \<and> method = ''send_transaction'') \<or>
     (tool = ''commerce'' \<and> method \<in> {''prepare_order'', ''place_order'', ''apply_order_action''})"
  by (auto simp: is_policy_authorization_pair_def POLICY_AUTHORIZATION_DESCRIPTORS_def)

lemma auth_descriptor_iff:
  "auth_descriptor_of tool method \<noteq> None \<longleftrightarrow> is_policy_authorization_pair tool method"
  by (auto simp: auth_descriptor_of_def is_policy_authorization_pair_def map_of_eq_None_iff)

lemma mk_decision_simps [simp]:
  "d_decision (mk_decision d c r k) = d"
  "d_reason_code (mk_decision d c r k) = c"
  "d_risk (mk_decision d c r k) = k"
  "d_matched_grant_id (mk_decision d c r k) = None"
  "d_approval_id (mk_decision d c r k) = None"
  by (simp_all add: mk_decision_def)

end
