(* ===== verification/SQL_Table.thy ===== *)
theory SQL_Table
  imports Prelude
begin

text \<open>
  The SQL statements that the stores issue, over a table given as the list of its rows in
  insertion order: \<open>SELECT ... WHERE key = ?\<close>, \<open>UPDATE ... WHERE\<close> with its row count,
  \<open>INSERT\<close> under a primary key, \<open>ORDER BY ... DESC\<close>. Rows with equal sort keys keep their
  insertion order, a choice the standard leaves open; no lemma below depends on it.
  The locale \<open>keyed_update\<close> is the contract of an update that leaves the primary key
  alone; every update statement of the modelled stores is an interpretation of it.
\<close>

definition sql_get :: "('r \<Rightarrow> 'k) \<Rightarrow> 'k \<Rightarrow> 'r list \<Rightarrow> 'r option" where
  "sql_get key k t = find (\<lambda>r. key r = k) t"

definition sql_update :: "('r \<Rightarrow> bool) \<Rightarrow> ('r \<Rightarrow> 'r) \<Rightarrow> 'r list \<Rightarrow> 'r list" where
  "sql_update p f t = map (\<lambda>r. if p r then f r else r) t"

definition sql_count :: "('r \<Rightarrow> bool) \<Rightarrow> 'r list \<Rightarrow> nat" where
  "sql_count p t = length (filter p t)"

text \<open>\<open>None\<close> is the integrity error of a duplicate primary key.\<close>

definition sql_insert :: "('r \<Rightarrow> 'k) \<Rightarrow> 'r \<Rightarrow> 'r list \<Rightarrow> 'r list option" where
  "sql_insert key r t = (if key r \<in> key ` set t then None else Some (t @ [r]))"

definition sql_order_desc :: "('r \<Rightarrow> 'k :: linorder) \<Rightarrow> 'r list \<Rightarrow> 'r list" where
  "sql_order_desc f t = rev (sort_key f (rev t))"

definition keys_unique :: "('r \<Rightarrow> 'k) \<Rightarrow> 'r list \<Rightarrow> bool" where
  "keys_unique key t = distinct (map key t)"

lemma set_sql_order_desc [simp]: "set (sql_order_desc f t) = set t"
  by (simp add: sql_order_desc_def)

lemma sql_order_desc_hd:
  assumes "sql_order_desc f t = x # xs" and "y \<in> set t"
  shows "f y \<le> f x"
proof -
  have s: "sorted (map f (sort_key f (rev t)))" by simp
  have "rev (x # xs) = sort_key f (rev t)"
    using assms(1) by (metis rev_rev_ident sql_order_desc_def)
  then have eq: "sort_key f (rev t) = rev xs @ [x]" by simp
  from assms(2) have "y \<in> set (sort_key f (rev t))" by simp
  with s eq show ?thesis by (auto simp: sorted_append)
qed

lemma sql_get_Some: "sql_get key k t = Some r \<Longrightarrow> r \<in> set t \<and> key r = k"
  by (auto simp: sql_get_def find_Some_iff)

lemma sql_get_None: "sql_get key k t = None \<longleftrightarrow> k \<notin> key ` set t"
  by (auto simp: sql_get_def find_None_iff)

lemma sql_get_unique:
  assumes "keys_unique key t" and "r \<in> set t"
  shows "sql_get key (key r) t = Some r"
proof (cases "sql_get key (key r) t")
  case None
  with assms show ?thesis by (auto simp: sql_get_None)
next
  case (Some q)
  with assms have "q = r"
    by (auto simp: keys_unique_def distinct_map inj_on_def dest!: sql_get_Some)
  with Some show ?thesis by simp
qed

lemma set_sql_update: "set (sql_update p f t) = (\<lambda>r. if p r then f r else r) ` set t"
  by (auto simp: sql_update_def)

lemma sql_update_none: "sql_count p t = 0 \<Longrightarrow> sql_update p f t = t"
  by (auto simp: sql_count_def sql_update_def filter_empty_conv intro: map_idI)

lemma sql_update_inv:
  assumes "\<forall>r\<in>set t. Q r" and "\<And>r. Q r \<Longrightarrow> p r \<Longrightarrow> Q (f r)"
  shows "\<forall>r\<in>set (sql_update p f t). Q r"
  using assms by (auto simp: set_sql_update)

lemma length_sql_update [simp]: "length (sql_update p f t) = length t"
  by (simp add: sql_update_def)

lemma sql_insert_Some:
  "sql_insert key r t = Some t' \<longleftrightarrow> key r \<notin> key ` set t \<and> t' = t @ [r]"
  by (auto simp: sql_insert_def)

lemma sql_insert_get:
  "sql_insert key r t = (case sql_get key (key r) t of None \<Rightarrow> Some (t @ [r]) | Some _ \<Rightarrow> None)"
  using sql_get_None [of key "key r" t] unfolding sql_insert_def
  by (cases "sql_get key (key r) t") simp_all

lemma keys_unique_insert: "sql_insert key r t = Some t' \<Longrightarrow> keys_unique key t \<Longrightarrow> keys_unique key t'"
  by (auto simp: sql_insert_Some keys_unique_def)

lemma keys_unique_Nil [simp]: "keys_unique key []"
  by (simp add: keys_unique_def)

lemma sql_count_key:
  assumes "keys_unique key t"
  shows "sql_count (\<lambda>r. key r = k \<and> p r) t =
    (case sql_get key k t of None \<Rightarrow> 0 | Some r \<Rightarrow> if p r then 1 else 0)"
  using assms
proof (induction t)
  case (Cons r t)
  show ?case
  proof (cases "key r = k")
    case True
    with Cons.prems have "filter (\<lambda>q. key q = k \<and> p q) t = []"
      by (auto simp: keys_unique_def filter_empty_conv rev_image_eqI)
    with True show ?thesis by (simp add: sql_count_def sql_get_def)
  next
    case False
    with Cons show ?thesis by (simp add: sql_count_def sql_get_def keys_unique_def)
  qed
qed (simp add: sql_count_def sql_get_def)

lemma find_by_key:
  assumes "keys_unique key t"
  shows "find (\<lambda>r. key r = k \<and> P r) t = (case sql_get key k t of None \<Rightarrow> None | Some r \<Rightarrow> if P r then Some r else None)"
proof (cases "find (\<lambda>r. key r = k \<and> P r) t")
  case None
  then have "\<not> P r" if "sql_get key k t = Some r" for r
    using sql_get_Some [OF that] by (auto simp: find_None_iff)
  with None show ?thesis by (auto split: option.split)
next
  case (Some r)
  then have "r \<in> set t" "key r = k" "P r" by (auto simp: find_Some_iff)
  with assms Some sql_get_unique [OF assms, of r] show ?thesis by simp
qed

lemma filter_by_key:
  assumes "keys_unique key t"
  shows "filter (\<lambda>r. key r = k) t = (case sql_get key k t of None \<Rightarrow> [] | Some r \<Rightarrow> [r])"
  using assms
proof (induction t)
  case (Cons x t)
  have "filter (\<lambda>r. key r = k) t = []" if "key x = k"
    using Cons.prems that by (auto simp: keys_unique_def filter_empty_conv rev_image_eqI)
  with Cons show ?case by (auto simp: sql_get_def keys_unique_def)
qed (simp add: sql_get_def)

lemma sql_get_append:
  "sql_get key k (t @ [row]) =
     (case sql_get key k t of Some r \<Rightarrow> Some r | None \<Rightarrow> if key row = k then Some row else None)"
  by (induction t) (auto simp: sql_get_def)

lemma sql_get_replace:
  "sql_get key k (sql_update (\<lambda>r. key r = key row) (\<lambda>_. row) t) =
     (if k = key row then (if key row \<in> key ` set t then Some row else None) else sql_get key k t)"
  by (cases "k = key row"; induction t) (auto simp: sql_get_def sql_update_def)

locale keyed_update =
  fixes key :: "'r \<Rightarrow> 'k" and upd :: "'r \<Rightarrow> 'r"
  assumes key_upd: "key (upd r) = key r"
begin

lemma keys_update: "map key (sql_update p upd t) = map key t"
  by (simp add: sql_update_def key_upd)

lemma unique_update: "keys_unique key (sql_update p upd t) = keys_unique key t"
  by (simp add: keys_unique_def keys_update)

lemma get_update:
  "sql_get key k (sql_update p upd t) =
     map_option (\<lambda>r. if p r then upd r else r) (sql_get key k t)"
  by (induction t) (auto simp: sql_get_def sql_update_def key_upd)

lemma get_update_key:
  "sql_get key k' (sql_update (\<lambda>r. key r = k \<and> p r) upd t) =
     (if k' = k then map_option (\<lambda>r. if p r then upd r else r) (sql_get key k t) else sql_get key k' t)"
  by (cases "sql_get key k' t") (auto simp: get_update dest: sql_get_Some)

lemmas get_update_at = get_update_key [where p = "\<lambda>_. True", simplified]

lemma in_update:
  assumes "r' \<in> set (sql_update p upd t)"
  obtains r where "r \<in> set t" and "key r = key r'" and "r' = (if p r then upd r else r)"
  using assms by (auto simp: set_sql_update key_upd)

end

end
