(* ===== verification/Policy_Store.thy ===== *)
theory Policy_Store
  imports Policy_Models SQL_Table
begin

text \<open>
  The policy store (\<open>modules/policy/storage/store.py\<close>, class \<open>_PolicyStoreMixin\<close> shared by
  the SQLite and Postgres back ends). The four tables are lists of rows. Every operation
  takes the clock readings and fresh identifiers it draws (\<open>utc_now_iso\<close>, \<open>uuid4\<close>) as
  arguments. A block under \<open>record_store.transaction()\<close> is an \<^const>\<open>in_transaction\<close>: an
  exception raised inside it undoes its writes. \<open>preview_invalid\<close> stands for
  \<open>parse_blockchain_send_confirmation_preview\<close> of the blockchain tool. JSON columns hold
  the value itself.
\<close>

record decision_row =
  dr_decision_id :: string
  dr_trace_id :: "string option"
  dr_session_id :: "string option"
  dr_agent_id :: "string option"
  dr_invocation_id :: string
  dr_tool :: string
  dr_method :: string
  dr_decision :: string
  dr_matched_grant_id :: "string option"
  dr_reason_code :: string
  dr_approval_id :: "string option"
  dr_invocation_hash :: "string option"
  dr_risk_spec :: pydict
  dr_created_at :: string

record policy_store =
  grants :: "policy_grant list"
  pendings :: "pending_confirmation list"
  decisions :: "decision_row list"
  settings :: "(string \<times> string) list"

definition empty_store :: policy_store where
  "empty_store = \<lparr>grants = [], pendings = [], decisions = [], settings = []\<rparr>"

type_synonym 'a store_op = "policy_store \<Rightarrow> 'a policy_result \<times> policy_store"

section \<open>Operations\<close>

fun mapping_contains :: "pydict \<Rightarrow> pydict \<Rightarrow> bool"
and mapping_item_ok :: "pydict \<Rightarrow> string \<Rightarrow> pyval \<Rightarrow> bool" where
  "mapping_contains value [] = True"
| "mapping_contains value ((key, expected) # required) =
     (mapping_item_ok value key expected \<and> mapping_contains value required)"
| "mapping_item_ok value key (PDict expected) =
     (case dict_get value key of Some (PDict actual) \<Rightarrow> mapping_contains actual expected
      | _ \<Rightarrow> False)"
| "mapping_item_ok value key expected =
     py_eq (case dict_get value key of None \<Rightarrow> PNone | Some actual \<Rightarrow> actual) expected"

definition insert_grant :: "string \<Rightarrow> grant_input \<Rightarrow> string \<Rightarrow> unit store_op" where
  "insert_grant grant_id gi now s =
     (case sql_insert g_grant_id
        \<lparr>g_grant_id = grant_id, g_subject_id = gi_subject_id gi, g_effect = gi_effect gi,
         g_tool = gi_tool gi, g_method = gi_method gi, g_target_json = gi_target_json gi,
         g_duration_type = gi_duration_type gi, g_expires_at = gi_expires_at gi,
         g_session_id = gi_session_id gi, g_invocation_hash = gi_invocation_hash gi,
         g_max_uses = gi_max_uses gi, g_uses_count = 0, g_created_at = now,
         g_updated_at = now, g_revoked_at = None, g_reason = gi_reason gi,
         g_created_trace_id = gi_created_trace_id gi, g_risk_floor = gi_risk_floor gi,
         g_approval_id = gi_approval_id gi\<rparr> (grants s) of
        None \<Rightarrow> (Inl (IntegrityError ''policy_grants.grant_id''), s)
      | Some t \<Rightarrow> (Inr (), s\<lparr>grants := t\<rparr>))"

definition store_create_grant :: "string \<Rightarrow> string \<Rightarrow> grant_input \<Rightarrow> string store_op" where
  "store_create_grant now grant_id gi =
     st_bind (insert_grant grant_id gi now) (\<lambda>_ s. (Inr grant_id, s))"

definition set_revoked :: "string \<Rightarrow> policy_grant \<Rightarrow> policy_grant" where
  "set_revoked now g = g\<lparr>g_revoked_at := Some now, g_updated_at := now\<rparr>"

definition revoke_grant :: "string \<Rightarrow> string \<Rightarrow> policy_store \<Rightarrow> bool \<times> policy_store" where
  "revoke_grant now grant_id s =
     (let p = (\<lambda>g. g_grant_id g = grant_id \<and> g_revoked_at g = None)
      in (sql_count p (grants s) > 0, s\<lparr>grants := sql_update p (set_revoked now) (grants s)\<rparr>))"

definition not_expired :: "string \<Rightarrow> policy_grant \<Rightarrow> bool" where
  "not_expired now g = (case g_expires_at g of None \<Rightarrow> True | Some e \<Rightarrow> now < e)"

definition uses_left :: "policy_grant \<Rightarrow> bool" where
  "uses_left g = (case g_max_uses g of None \<Rightarrow> True | Some m \<Rightarrow> g_uses_count g < m)"

text \<open>The condition under which every consuming statement touches a row.\<close>

definition usable :: "string \<Rightarrow> policy_grant \<Rightarrow> bool" where
  "usable now g = (g_revoked_at g = None \<and> not_expired now g \<and> uses_left g)"

text \<open>A filter argument of \<open>list_grants\<close>: absent or empty means no condition.\<close>

definition filter_arg :: "string option \<Rightarrow> string \<Rightarrow> bool" where
  "filter_arg arg value = (opt_truthy arg \<longrightarrow> arg = Some value)"

definition list_grants ::
  "string \<Rightarrow> string option \<Rightarrow> string option \<Rightarrow> string option \<Rightarrow> string option \<Rightarrow> bool \<Rightarrow>
   policy_store \<Rightarrow> policy_grant list" where
  "list_grants now subject_id effect tool method active_only s =
     sql_order_desc g_created_at (filter (\<lambda>g.
       filter_arg subject_id (g_subject_id g) \<and> filter_arg effect (g_effect g) \<and>
       filter_arg tool (g_tool g) \<and> filter_arg method (g_method g) \<and>
       (active_only \<longrightarrow> g_revoked_at g = None \<and> not_expired now g)) (grants s))"

definition get_grant :: "string \<Rightarrow> policy_store \<Rightarrow> policy_grant option" where
  "get_grant grant_id s = sql_get g_grant_id grant_id (grants s)"

definition revoke_on_use :: "string \<Rightarrow> policy_grant \<Rightarrow> string option" where
  "revoke_on_use now g =
     (if g_duration_type g = ''once'' \<or>
         (case g_max_uses g of None \<Rightarrow> False | Some m \<Rightarrow> g_uses_count g + 1 \<ge> m)
      then Some now else None)"

definition set_used :: "string \<Rightarrow> string option \<Rightarrow> policy_grant \<Rightarrow> policy_grant" where
  "set_used now revoke_at g =
     g\<lparr>g_uses_count := g_uses_count g + 1, g_updated_at := now,
       g_revoked_at := (case revoke_at of Some r \<Rightarrow> Some r | None \<Rightarrow> g_revoked_at g)\<rparr>"

definition consume_grant_use ::
  "string \<Rightarrow> string \<Rightarrow> policy_store \<Rightarrow> policy_grant option \<times> policy_store" where
  "consume_grant_use now grant_id s =
     (case get_grant grant_id s of
        None \<Rightarrow> (None, s)
      | Some g \<Rightarrow>
          if g_revoked_at g \<noteq> None
             \<or> (case g_expires_at g of None \<Rightarrow> False | Some e \<Rightarrow> e \<le> now)
             \<or> (case g_max_uses g of None \<Rightarrow> False | Some m \<Rightarrow> g_uses_count g \<ge> m)
          then (None, s)
          else let p = (\<lambda>r. g_grant_id r = grant_id \<and> usable now r);
                   t = s\<lparr>grants := sql_update p (set_used now (revoke_on_use now g)) (grants s)\<rparr>
               in (if sql_count p (grants s) = 1 then get_grant grant_id t else None, t))"

definition resolve_active_grant_for_use ::
  "string \<Rightarrow> string \<Rightarrow> string \<Rightarrow> string \<Rightarrow> string \<Rightarrow> pydict option \<Rightarrow>
   policy_store \<Rightarrow> policy_grant option \<times> policy_store" where
  "resolve_active_grant_for_use now grant_id subject_id tool method required_target s =
     (case find (\<lambda>g. g_grant_id g = grant_id \<and> g_subject_id g = subject_id \<and>
          g_effect g = ''allow'' \<and> g_tool g = tool \<and> g_method g = method \<and> usable now g)
          (grants s) of
        None \<Rightarrow> (None, s)
      | Some g \<Rightarrow>
          if (case required_target of None \<Rightarrow> False
              | Some req \<Rightarrow> \<not> mapping_contains (g_target_json g) req)
          then (None, s)
          else let p = (\<lambda>r. g_grant_id r = grant_id \<and> usable now r);
                   t = s\<lparr>grants := sql_update p (set_used now (revoke_on_use now g)) (grants s)\<rparr>
               in (if sql_count p (grants s) = 1 then Some g else None, t))"

text \<open>The three \<open>UPDATE policy_pending_confirmations\<close> statements, each guarded by
  \<open>state = 'pending'\<close>.\<close>

definition set_resolved ::
  "pending_state \<Rightarrow> string option \<Rightarrow> string option \<Rightarrow> string \<Rightarrow>
   pending_confirmation \<Rightarrow> pending_confirmation" where
  "set_resolved state action grant_id now c =
     c\<lparr>pc_state := state, pc_resolution_action := action, pc_grant_id := grant_id,
       pc_resolved_at := Some now\<rparr>"

definition set_denied :: "string \<Rightarrow> pending_confirmation \<Rightarrow> pending_confirmation" where
  "set_denied now c =
     c\<lparr>pc_state := Denied, pc_resolution_action := Some ''deny'', pc_resolved_at := Some now\<rparr>"

definition set_expired :: "string \<Rightarrow> pending_confirmation \<Rightarrow> pending_confirmation" where
  "set_expired now c = c\<lparr>pc_state := Expired, pc_resolved_at := Some now\<rparr>"

definition update_pending ::
  "string \<Rightarrow> (pending_confirmation \<Rightarrow> pending_confirmation) \<Rightarrow> policy_store \<Rightarrow> policy_store" where
  "update_pending approval_id f s =
     s\<lparr>pendings := sql_update (\<lambda>c. pc_approval_id c = approval_id \<and> pc_state c = Pending) f
        (pendings s)\<rparr>"

record pending_request =
  pr_subject_id :: string
  pr_tool :: string
  pr_method :: string
  pr_invocation_hash :: string
  pr_invocation_id :: string
  pr_trace_id :: "string option"
  pr_session_id :: "string option"
  pr_preview :: pydict

text \<open>\<open>COALESCE(session_id, '')\<close> and \<open>session_id or ""\<close>\<close>

definition or_empty :: "string option \<Rightarrow> string" where
  "or_empty x = (case x of None \<Rightarrow> [] | Some s \<Rightarrow> s)"

definition insert_pending ::
  "string \<Rightarrow> string \<Rightarrow> string \<Rightarrow> pending_request \<Rightarrow> pending_confirmation store_op" where
  "insert_pending now expires_at approval_id r s =
     (let c = \<lparr>pc_approval_id = approval_id, pc_subject_id = pr_subject_id r,
           pc_tool = pr_tool r, pc_method = pr_method r,
           pc_invocation_hash = pr_invocation_hash r, pc_invocation_id = pr_invocation_id r,
           pc_trace_id = pr_trace_id r, pc_session_id = pr_session_id r,
           pc_preview = pr_preview r, pc_state = Pending, pc_resolution_action = None,
           pc_grant_id = None, pc_created_at = now, pc_expires_at = expires_at,
           pc_resolved_at = None\<rparr>
      in case sql_insert pc_approval_id c (pendings s) of
           None \<Rightarrow> (Inl (IntegrityError ''policy_pending_confirmations.approval_id''), s)
         | Some t \<Rightarrow> (Inr c, s\<lparr>pendings := t\<rparr>))"

definition get_or_create_pending_confirmation ::
  "(pydict \<Rightarrow> bool) \<Rightarrow> string \<Rightarrow> string \<Rightarrow> string \<Rightarrow> pending_request \<Rightarrow>
   pending_confirmation store_op" where
  "get_or_create_pending_confirmation preview_invalid now expires_at approval_id r =
     in_transaction (\<lambda>s.
       case sql_order_desc pc_created_at (filter (\<lambda>c.
              pc_subject_id c = pr_subject_id r \<and> pc_tool c = pr_tool r \<and>
              pc_method c = pr_method r \<and> pc_invocation_hash c = pr_invocation_hash r \<and>
              pc_state c = Pending \<and>
              or_empty (pc_session_id c) = or_empty (pr_session_id r) \<and>
              now < pc_expires_at c) (pendings s)) of
         c # _ \<Rightarrow>
           if is_exact_blockchain_send (pr_tool r) (pr_method r) \<and> preview_invalid (pc_preview c)
           then insert_pending now expires_at approval_id r
                  (update_pending (pc_approval_id c) (set_denied now) s)
           else (Inr c, s)
       | [] \<Rightarrow> insert_pending now expires_at approval_id r s)"

definition confirmation_grant_input :: "pending_confirmation \<Rightarrow> string \<Rightarrow> grant_input" where
  "confirmation_grant_input c action =
     \<lparr>gi_effect = ''allow'', gi_tool = pc_tool c, gi_method = pc_method c, gi_target_json = [],
      gi_duration_type = ''once'', gi_subject_id = pc_subject_id c, gi_expires_at = None,
      gi_session_id = pc_session_id c, gi_invocation_hash = Some (pc_invocation_hash c),
      gi_max_uses = Some 1, gi_reason = Some (''created_from_confirmation:'' @ action),
      gi_created_trace_id = pc_trace_id c, gi_risk_floor = None,
      gi_approval_id = Some (pc_approval_id c)\<rparr>"

definition PREVIEW_INVALID_MESSAGE :: string where
  "PREVIEW_INVALID_MESSAGE = ''Blockchain transaction approval preview could not be verified.''"

definition preview_invalid_error :: "string \<Rightarrow> policy_error" where
  "preview_invalid_error approval_id =
     PolicyControlError ''BLOCKCHAIN_CONFIRMATION_PREVIEW_INVALID'' PREVIEW_INVALID_MESSAGE
       [(''approval_id'', PStr approval_id)]"

text \<open>The block under the transaction returns the grant id together with the
  \<open>invalid_preview\<close> flag; the exception for an invalid preview is raised after the commit.\<close>

definition resolve_confirmation_body ::
  "(pydict \<Rightarrow> bool) \<Rightarrow> string \<Rightarrow> string \<Rightarrow> string \<Rightarrow> string \<Rightarrow> (bool \<times> string option) store_op" where
  "resolve_confirmation_body preview_invalid now new_grant_id approval_id action s =
     (case sql_get pc_approval_id approval_id (pendings s) of
        None \<Rightarrow> (Inl (PolicyControlError ''PENDING_CONFIRMATION_NOT_FOUND''
                   ''Pending confirmation was not found.'' []), s)
      | Some c \<Rightarrow>
        if action = ''allow_once'' \<and> is_exact_blockchain_send (pc_tool c) (pc_method c)
           \<and> preview_invalid (pc_preview c)
        then (Inr (True, None), update_pending approval_id (set_denied now) s)
        else if pc_state c \<noteq> Pending
        then (if pc_resolution_action c = Some action then (Inr (False, pc_grant_id c), s)
              else (Inl (PolicyControlError ''PENDING_CONFIRMATION_ALREADY_RESOLVED''
                     ''Pending confirmation was already resolved.'' []), s))
        else if pc_expires_at c \<le> now
        then (Inl (PolicyControlError ''PENDING_CONFIRMATION_EXPIRED''
                ''Pending confirmation expired.'' []),
              update_pending approval_id (set_expired now) s)
        else if action = ''allow_once''
        then st_bind (insert_grant new_grant_id (confirmation_grant_input c action) now)
               (\<lambda>_ t. (Inr (False, Some new_grant_id),
                  update_pending approval_id
                    (set_resolved Allowed (Some action) (Some new_grant_id) now) t)) s
        else if action \<noteq> ''deny''
        then (Inl (ValueError ''confirmation action must be allow_once|deny''), s)
        else (Inr (False, None),
              update_pending approval_id (set_resolved Denied (Some action) None now) s))"

definition resolve_confirmation ::
  "(pydict \<Rightarrow> bool) \<Rightarrow> string \<Rightarrow> string \<Rightarrow> string \<Rightarrow> string \<Rightarrow> string option store_op" where
  "resolve_confirmation preview_invalid now new_grant_id approval_id action =
     st_bind (in_transaction
         (resolve_confirmation_body preview_invalid now new_grant_id approval_id action))
       (\<lambda>(invalid_preview, grant_id) s.
          if invalid_preview then (Inl (preview_invalid_error approval_id), s)
          else (Inr grant_id, s))"

text \<open>The transaction returns the consumed grant and, if the stored preview of the
  approval no longer parses, its approval id.\<close>

definition matching_active_body ::
  "(pydict \<Rightarrow> bool) \<Rightarrow> string \<Rightarrow> string \<Rightarrow> string \<Rightarrow> string \<Rightarrow> string \<Rightarrow> string option \<Rightarrow>
   policy_store \<Rightarrow> (policy_grant option \<times> string option) \<times> policy_store" where
  "matching_active_body preview_invalid now subject_id tool method invocation_hash session_id s =
     (case sql_order_desc g_created_at (filter (\<lambda>g.
            g_subject_id g = subject_id \<and> g_effect g = ''allow'' \<and> g_tool g = tool \<and>
            g_method g = method \<and> g_invocation_hash g = Some invocation_hash \<and>
            (case session_id of None \<Rightarrow> True | Some sid \<Rightarrow> or_empty (g_session_id g) = sid) \<and>
            g_duration_type g = ''once'' \<and> g_approval_id g \<noteq> None \<and> usable now g) (grants s)) of
        [] \<Rightarrow> ((None, None), s)
      | g # _ \<Rightarrow>
        (case find (\<lambda>c. Some (pc_approval_id c) = g_approval_id g \<and> pc_tool c = tool \<and>
               pc_method c = method \<and> pc_invocation_hash c = invocation_hash) (pendings s) of
           None \<Rightarrow> ((None, None), s)
         | Some c \<Rightarrow>
           if pc_state c \<noteq> Allowed \<or> pc_subject_id c \<noteq> subject_id
              \<or> (case session_id of None \<Rightarrow> False | Some sid \<Rightarrow> or_empty (pc_session_id c) \<noteq> sid)
           then ((None, None), s)
           else if is_exact_blockchain_send tool method \<and> preview_invalid (pc_preview c)
           then ((None, Some (or_empty (g_approval_id g))),
                 s\<lparr>grants := sql_update
                    (\<lambda>r. g_grant_id r = g_grant_id g \<and> g_revoked_at r = None)
                    (set_revoked now) (grants s)\<rparr>)
           else let p = (\<lambda>r. g_grant_id r = g_grant_id g \<and> g_revoked_at r = None \<and> uses_left r)
                in ((if sql_count p (grants s) = 1 then Some g else None, None),
                    s\<lparr>grants := sql_update p (set_used now (Some now)) (grants s)\<rparr>)))"

definition resolve_matching_active_grant_for_use ::
  "(pydict \<Rightarrow> bool) \<Rightarrow> string \<Rightarrow> string \<Rightarrow> string \<Rightarrow> string \<Rightarrow> string \<Rightarrow> string option \<Rightarrow>
   policy_grant option store_op" where
  "resolve_matching_active_grant_for_use preview_invalid now subject_id tool method
       invocation_hash session_id s =
     (if \<not> is_exact_pair tool method then (Inr None, s)
      else if (case auth_descriptor_of tool method of None \<Rightarrow> False
               | Some d \<Rightarrow> (ad_requires_session d \<and> \<not> opt_truthy session_id)
                   \<or> ad_required_subject_id d \<notin> {None, Some subject_id})
      then (Inr None, s)
      else case matching_active_body preview_invalid now subject_id tool method
                  invocation_hash session_id s of
             ((_, Some approval_id), t) \<Rightarrow> (Inl (preview_invalid_error approval_id), t)
           | ((consumed, None), t) \<Rightarrow> (Inr consumed, t))"

definition expired_at :: "string \<Rightarrow> policy_grant \<Rightarrow> bool" where
  "expired_at now g =
     (g_revoked_at g = None \<and> (case g_expires_at g of None \<Rightarrow> False | Some e \<Rightarrow> e \<le> now))"

definition cleanup_expired :: "string \<Rightarrow> policy_store \<Rightarrow> nat \<times> policy_store" where
  "cleanup_expired now s =
     (sql_count (expired_at now) (grants s),
      s\<lparr>grants := sql_update (expired_at now) (set_revoked now) (grants s)\<rparr>)"

definition log_decision :: "string \<Rightarrow> decision_row \<Rightarrow> string store_op" where
  "log_decision now row s =
     (case sql_insert dr_decision_id (row\<lparr>dr_created_at := now\<rparr>) (decisions s) of
        None \<Rightarrow> (Inl (IntegrityError ''policy_decisions.decision_id''), s)
      | Some t \<Rightarrow> (Inr (dr_decision_id row), s\<lparr>decisions := t\<rparr>))"

definition list_decisions :: "int \<Rightarrow> policy_store \<Rightarrow> decision_row list" where
  "list_decisions limit s =
     take (nat (max 1 limit)) (sql_order_desc dr_created_at (decisions s))"

definition set_setting :: "string \<Rightarrow> string \<Rightarrow> policy_store \<Rightarrow> policy_store" where
  "set_setting key value s = s\<lparr>settings := dict_set (settings s) key value\<rparr>"

definition get_setting :: "string \<Rightarrow> policy_store \<Rightarrow> string option" where
  "get_setting key s = dict_get (settings s) key"

end
