(* ===== verification/Policy_Store_Inv.thy ===== *)
theory Policy_Store_Inv
  imports Policy_Store
begin

text \<open>
  What the policy store keeps true. \<open>grant_ok\<close> bounds the use counter of a grant;
  \<open>approved_by\<close> ties a grant of an authorization pair to the one confirmation it came
  from; \<open>store_inv\<close> is kept by every operation. The locale \<open>use_budget\<close> is the contract a
  consuming operation offers its callers; the three consuming operations of the store,
  in any mixture and on any grants, are its interpretation.
\<close>

section \<open>Invariants\<close>

definition grant_ok :: "policy_grant \<Rightarrow> bool" where
  "grant_ok g =
     (0 \<le> g_uses_count g \<and>
      (case g_max_uses g of None \<Rightarrow> True | Some m \<Rightarrow> g_uses_count g \<le> max 0 m) \<and>
      (g_duration_type g = ''once'' \<longrightarrow>
         g_uses_count g \<le> 1 \<and> (g_uses_count g = 1 \<longrightarrow> g_revoked_at g \<noteq> None)))"

text \<open>The columns of a grant that no statement updates.\<close>

definition frozen :: "policy_grant \<Rightarrow> policy_grant" where
  "frozen g = g\<lparr>g_uses_count := 0, g_updated_at := [], g_revoked_at := None\<rparr>"

definition approved_by :: "pending_confirmation \<Rightarrow> policy_grant \<Rightarrow> bool" where
  "approved_by c g =
     (pc_state c = Allowed \<and> pc_grant_id c = Some (g_grant_id g) \<and>
      g_approval_id g = Some (pc_approval_id c) \<and> g_tool g = pc_tool c \<and>
      g_method g = pc_method c \<and> g_subject_id g = pc_subject_id c \<and>
      g_session_id g = pc_session_id c \<and>
      g_invocation_hash g = Some (pc_invocation_hash c) \<and>
      g_effect g = ''allow'' \<and> g_duration_type g = ''once'' \<and> g_max_uses g = Some 1)"

text \<open>The grants that only a confirmation may create: those of an authorization pair and
  those that name an approval.\<close>

definition needs_approval :: "policy_grant \<Rightarrow> bool" where
  "needs_approval g =
     (is_policy_authorization_pair (g_tool g) (g_method g) \<or> g_approval_id g \<noteq> None)"

definition store_inv :: "policy_store \<Rightarrow> bool" where
  "store_inv s =
     (keys_unique g_grant_id (grants s) \<and> keys_unique pc_approval_id (pendings s) \<and>
      (\<forall>c\<in>set (pendings s). pc_invocation_hash c \<noteq> [] \<and> is_exact_pair (pc_tool c) (pc_method c)) \<and>
      (\<forall>g\<in>set (grants s). grant_ok g) \<and>
      (\<forall>g\<in>set (grants s). needs_approval g \<longrightarrow> (\<exists>c\<in>set (pendings s). approved_by c g)))"

lemma store_inv_empty: "store_inv empty_store"
  by (simp add: store_inv_def empty_store_def)

lemma store_invD:
  assumes "store_inv s"
  shows "keys_unique g_grant_id (grants s)" "keys_unique pc_approval_id (pendings s)"
    "c \<in> set (pendings s) \<Longrightarrow> pc_invocation_hash c \<noteq> [] \<and> is_exact_pair (pc_tool c) (pc_method c)"
    "g \<in> set (grants s) \<Longrightarrow> grant_ok g"
    "g \<in> set (grants s) \<Longrightarrow> needs_approval g \<Longrightarrow> \<exists>c\<in>set (pendings s). approved_by c g"
  using assms by (auto simp: store_inv_def)

section \<open>The update statements leave keys and frozen columns alone\<close>

interpretation revoke_rows: keyed_update g_grant_id "set_revoked now" for now
  by unfold_locales (simp add: set_revoked_def)

interpretation use_rows: keyed_update g_grant_id "set_used now r" for now r
  by unfold_locales (simp add: set_used_def)

interpretation resolve_rows: keyed_update pc_approval_id "set_resolved st a g now" for st a g now
  by unfold_locales (simp add: set_resolved_def)

interpretation deny_rows: keyed_update pc_approval_id "set_denied now" for now
  by unfold_locales (simp add: set_denied_def)

interpretation expire_rows: keyed_update pc_approval_id "set_expired now" for now
  by unfold_locales (simp add: set_expired_def)

lemma frozen_updates [simp]:
  "frozen (set_revoked now g) = frozen g" "frozen (set_used now r g) = frozen g"
  by (simp_all add: frozen_def set_revoked_def set_used_def)

lemma frozen_fields:
  assumes "frozen g = frozen h"
  shows "g_grant_id g = g_grant_id h" "g_subject_id g = g_subject_id h" "g_effect g = g_effect h"
    "g_tool g = g_tool h" "g_method g = g_method h" "g_duration_type g = g_duration_type h"
    "g_max_uses g = g_max_uses h" "g_approval_id g = g_approval_id h"
    "g_session_id g = g_session_id h" "g_invocation_hash g = g_invocation_hash h"
    "g_expires_at g = g_expires_at h" "g_target_json g = g_target_json h"
    "g_risk_floor g = g_risk_floor h"
  using assms by (cases g; cases h; simp add: frozen_def)+

lemma approved_by_frozen:
  assumes "frozen g = frozen h"
  shows "approved_by c g = approved_by c h"
  using frozen_fields [OF assms] by (simp add: approved_by_def)

lemma needs_approval_frozen:
  assumes "frozen g = frozen h"
  shows "needs_approval g = needs_approval h"
  using frozen_fields [OF assms] by (simp add: needs_approval_def)

lemma grant_ok_revoked: "grant_ok g \<Longrightarrow> grant_ok (set_revoked now g)"
  by (auto simp: grant_ok_def set_revoked_def split: option.splits)

lemma grant_ok_used:
  assumes "grant_ok g" and "g_revoked_at g = None" and "uses_left g"
    and "g_duration_type g = ''once'' \<Longrightarrow> r \<noteq> None"
  shows "grant_ok (set_used now r g)"
  using assms by (auto simp: grant_ok_def set_used_def uses_left_def split: option.splits)

text \<open>An update of the grants that respects \<^const>\<open>frozen\<close> and \<^const>\<open>grant_ok\<close> keeps the
  invariant.\<close>

lemma store_inv_update_grants:
  assumes inv: "store_inv s"
    and fr: "\<And>g. frozen (f g) = frozen g"
    and ok: "\<And>g. g \<in> set (grants s) \<Longrightarrow> grant_ok g \<Longrightarrow> p g \<Longrightarrow> grant_ok (f g)"
  shows "store_inv (s\<lparr>grants := sql_update p f (grants s)\<rparr>)"
proof -
  have key: "g_grant_id (f g) = g_grant_id g" for g
    by (rule frozen_fields(1) [OF fr])
  have keys: "map g_grant_id (sql_update p f (grants s)) = map g_grant_id (grants s)"
    by (simp add: sql_update_def key)
  have "needs_approval (f g) = needs_approval g" "approved_by c (f g) = approved_by c g" for g c
    by (rule needs_approval_frozen [OF fr], rule approved_by_frozen [OF fr])
  then show ?thesis
    using inv ok by (auto simp: store_inv_def keys_unique_def keys set_sql_update)
qed

text \<open>Rows of the confirmation table change only while they are pending, so an approval
  that a grant refers to stays as it is.\<close>

lemma store_inv_update_pending:
  assumes inv: "store_inv s" and key: "\<And>c. pc_approval_id (f c) = pc_approval_id c"
    and same: "\<And>c. pc_invocation_hash (f c) = pc_invocation_hash c \<and> pc_tool (f c) = pc_tool c \<and>
      pc_method (f c) = pc_method c"
  shows "store_inv (update_pending a f s)"
proof -
  let ?t = "sql_update (\<lambda>c. pc_approval_id c = a \<and> pc_state c = Pending) f (pendings s)"
  have "map pc_approval_id ?t = map pc_approval_id (pendings s)"
    by (simp add: sql_update_def key)
  moreover have "c \<in> set ?t" if "c \<in> set (pendings s)" "approved_by c g" for c g
    using that by (force simp: set_sql_update approved_by_def image_iff)
  moreover have "\<forall>c\<in>set ?t. pc_invocation_hash c \<noteq> [] \<and> is_exact_pair (pc_tool c) (pc_method c)"
    using inv by (auto simp: set_sql_update same store_inv_def)
  ultimately show ?thesis
    using inv by (fastforce simp: store_inv_def keys_unique_def update_pending_def)
qed

lemma store_inv_other [simp]:
  "store_inv (s\<lparr>decisions := d\<rparr>) = store_inv s" "store_inv (s\<lparr>settings := x\<rparr>) = store_inv s"
  by (simp_all add: store_inv_def)

section \<open>Every operation keeps the invariant\<close>

lemma insert_grant_inv:
  assumes "store_inv s" and "insert_grant gid gi now s = (r, t)"
    and "\<not> is_policy_authorization_pair (gi_tool gi) (gi_method gi)" and "gi_approval_id gi = None"
  shows "store_inv t"
  using assms
  by (auto simp: insert_grant_def store_inv_def sql_insert_Some keys_unique_def grant_ok_def
      needs_approval_def split: option.splits)

lemma revoke_grant_inv: "store_inv s \<Longrightarrow> store_inv (snd (revoke_grant now gid s))"
  by (auto simp: revoke_grant_def Let_def intro!: store_inv_update_grants grant_ok_revoked)

lemma cleanup_expired_inv: "store_inv s \<Longrightarrow> store_inv (snd (cleanup_expired now s))"
  by (auto simp: cleanup_expired_def intro!: store_inv_update_grants grant_ok_revoked)

lemma same_row:
  "store_inv s \<Longrightarrow> g \<in> set (grants s) \<Longrightarrow> h \<in> set (grants s) \<Longrightarrow> g_grant_id g = g_grant_id h \<Longrightarrow> g = h"
  by (auto simp: store_inv_def keys_unique_def distinct_map inj_on_def)

lemma use_row_inv:
  assumes inv: "store_inv s" and g: "g \<in> set (grants s)" "g_grant_id g = gid"
    and p: "\<And>r. p r \<Longrightarrow> g_grant_id r = gid \<and> g_revoked_at r = None \<and> uses_left r"
    and r: "g_duration_type g = ''once'' \<Longrightarrow> rv \<noteq> None"
  shows "store_inv (s\<lparr>grants := sql_update p (set_used now rv) (grants s)\<rparr>)"
proof (rule store_inv_update_grants [OF inv])
  fix h assume h: "h \<in> set (grants s)" "grant_ok h" "p h"
  with p have "h = g" using same_row [OF inv h(1) g(1)] g(2) by auto
  with h p r show "grant_ok (set_used now rv h)" by (auto intro: grant_ok_used)
qed simp

lemma revoke_on_use_once: "g_duration_type g = ''once'' \<Longrightarrow> revoke_on_use now g \<noteq> None"
  by (simp add: revoke_on_use_def)

lemma consume_grant_use_inv:
  assumes "store_inv s"
  shows "store_inv (snd (consume_grant_use now gid s))"
proof (cases "get_grant gid s")
  case None
  with assms show ?thesis by (simp add: consume_grant_use_def)
next
  case (Some g)
  then have "g \<in> set (grants s)" "g_grant_id g = gid"
    by (auto simp: get_grant_def dest: sql_get_Some)
  from use_row_inv [OF assms this, of "\<lambda>r. g_grant_id r = gid \<and> usable now r"
      "revoke_on_use now g" now]
  have "store_inv (s\<lparr>grants := sql_update (\<lambda>r. g_grant_id r = gid \<and> usable now r)
      (set_used now (revoke_on_use now g)) (grants s)\<rparr>)"
    by (simp add: usable_def revoke_on_use_once)
  with Some assms show ?thesis by (simp add: consume_grant_use_def Let_def)
qed

lemma resolve_active_inv:
  assumes "store_inv s"
  shows "store_inv (snd (resolve_active_grant_for_use now gid sub tool meth req s))"
proof (cases "find (\<lambda>g. g_grant_id g = gid \<and> g_subject_id g = sub \<and> g_effect g = ''allow'' \<and>
    g_tool g = tool \<and> g_method g = meth \<and> usable now g) (grants s)")
  case None
  with assms show ?thesis by (simp add: resolve_active_grant_for_use_def)
next
  case (Some g)
  then have "g \<in> set (grants s)" "g_grant_id g = gid"
    by (auto simp: find_Some_iff)
  from use_row_inv [OF assms this, of "\<lambda>r. g_grant_id r = gid \<and> usable now r"
      "revoke_on_use now g" now]
  have "store_inv (s\<lparr>grants := sql_update (\<lambda>r. g_grant_id r = gid \<and> usable now r)
      (set_used now (revoke_on_use now g)) (grants s)\<rparr>)"
    by (simp add: usable_def revoke_on_use_once)
  with Some assms show ?thesis by (simp add: resolve_active_grant_for_use_def Let_def)
qed

lemma insert_pending_inv:
  assumes "store_inv s" and "pr_invocation_hash r \<noteq> [] \<and> is_exact_pair (pr_tool r) (pr_method r)"
    and "insert_pending now e a r s = (c, t)"
  shows "store_inv t"
  using assms
  by (auto simp: insert_pending_def store_inv_def sql_insert_Some keys_unique_def Let_def
      split: option.splits)

lemma in_transaction_keeps:
  assumes "\<And>r t. m s = (r, t) \<Longrightarrow> P t" and "P s"
  shows "P (snd (in_transaction m s))"
  using assms by (auto simp: in_transaction_def split: prod.splits sum.splits)

lemma get_or_create_pending_inv:
  assumes "store_inv s" and "pr_invocation_hash r \<noteq> [] \<and> is_exact_pair (pr_tool r) (pr_method r)"
  shows "store_inv (snd (get_or_create_pending_confirmation pinv now e a r s))"
proof -
  have u: "store_inv (update_pending x (set_denied now) s)" for x
    by (rule store_inv_update_pending [OF assms(1)]) (simp_all add: set_denied_def)
  show ?thesis
    unfolding get_or_create_pending_confirmation_def
    by (rule in_transaction_keeps)
      (auto split: list.splits if_splits simp: assms
        dest: insert_pending_inv [OF u assms(2)] insert_pending_inv [OF assms])
qed

section \<open>Resolving a confirmation\<close>

lemma update_pending_grants [simp]: "grants (update_pending a f s) = grants s"
  by (simp add: update_pending_def)

text \<open>The one place that creates a grant of an authorization pair: the confirmation it
  comes from becomes \<^const>\<open>Allowed\<close> in the same transaction.\<close>

lemma resolve_allow_inv:
  assumes inv: "store_inv s" and c: "sql_get pc_approval_id a (pendings s) = Some c"
    and pend: "pc_state c = Pending"
    and ins: "insert_grant gid (confirmation_grant_input c act) now s = (Inr (), t)"
  shows "store_inv (update_pending a (set_resolved Allowed (Some act) (Some gid) now) t)"
proof -
  let ?f = "set_resolved Allowed (Some act) (Some gid) now"
  let ?u = "update_pending a ?f s"
  have cin: "c \<in> set (pendings s)" "pc_approval_id c = a"
    using c by (auto dest: sql_get_Some)
  have "store_inv ?u"
    by (rule store_inv_update_pending [OF inv]) (simp_all add: set_resolved_def)
  moreover have "?f c \<in> set (pendings ?u)"
    using cin pend by (force simp: update_pending_def set_sql_update image_iff)
  ultimately show ?thesis
    using ins cin
    by (fastforce simp: insert_grant_def sql_insert_Some store_inv_def keys_unique_def
        confirmation_grant_input_def grant_ok_def approved_by_def set_resolved_def
        update_pending_def split: option.splits)
qed

lemma resolve_confirmation_body_inv:
  assumes inv: "store_inv s" and run: "resolve_confirmation_body pinv now gid a act s = (Inr x, t)"
  shows "store_inv t"
proof (cases "sql_get pc_approval_id a (pendings s)")
  case None
  with run show ?thesis by (simp add: resolve_confirmation_body_def)
next
  case (Some c)
  consider (allow) v where "pc_state c = Pending"
      "insert_grant gid (confirmation_grant_input c act) now s = (Inr (), v)"
      "t = update_pending a (set_resolved Allowed (Some act) (Some gid) now) v"
    | (deny) "t = update_pending a (set_resolved Denied (Some act) None now) s"
    | (invalid) "t = update_pending a (set_denied now) s"
    | (same) "t = s"
    using run Some
    by (auto simp: resolve_confirmation_body_def st_bind_def split: if_splits prod.splits sum.splits)
  then show ?thesis
  proof cases
    case allow
    then show ?thesis using resolve_allow_inv [OF inv Some] by simp
  qed (use inv in \<open>auto intro!: store_inv_update_pending simp: set_denied_def set_resolved_def\<close>)
qed

lemma st_bind_keeps:
  assumes "P (snd (m s))" and "\<And>a t. P t \<Longrightarrow> P (snd (f a t))"
  shows "P (snd (st_bind m f s))"
  using assms by (auto simp: st_bind_def split: prod.splits sum.splits)

lemma in_transaction_keeps_Inr:
  assumes "\<And>x t. m s = (Inr x, t) \<Longrightarrow> P t" and "P s"
  shows "P (snd (in_transaction m s))"
  using assms by (auto simp: in_transaction_def split: prod.splits sum.splits)

lemma resolve_confirmation_inv:
  assumes "store_inv s"
  shows "store_inv (snd (resolve_confirmation pinv now gid a act s))"
proof -
  let ?m = "resolve_confirmation_body pinv now gid a act"
  have "store_inv (snd (in_transaction ?m s))"
    by (rule in_transaction_keeps_Inr, erule resolve_confirmation_body_inv [OF assms], rule assms)
  then show ?thesis
    unfolding resolve_confirmation_def by (rule st_bind_keeps) (simp split: prod.splits)
qed

lemma sql_order_desc_Cons:
  assumes "sql_order_desc f (filter q t) = x # xs"
  shows "x \<in> set t \<and> q x"
proof -
  from assms have "x \<in> set (sql_order_desc f (filter q t))" by simp
  then show ?thesis by simp
qed

lemma matching_active_body_inv:
  assumes inv: "store_inv s"
  shows "store_inv (snd (matching_active_body pinv now sub tool meth h sid s))"
proof -
  have revoke: "store_inv (s\<lparr>grants := sql_update p (set_revoked now) (grants s)\<rparr>)" for p
    by (rule store_inv_update_grants [OF inv]) (auto intro: grant_ok_revoked)
  have use: "store_inv (s\<lparr>grants := sql_update
      (\<lambda>r. g_grant_id r = g_grant_id g \<and> g_revoked_at r = None \<and> uses_left r)
      (set_used now (Some now)) (grants s)\<rparr>)" if "g \<in> set (grants s)" for g
    by (rule use_row_inv [OF inv that refl]) auto
  show ?thesis
    unfolding matching_active_body_def
    by (auto simp: Let_def inv revoke split: list.splits option.splits
        intro!: use dest!: sql_order_desc_Cons)
qed

lemma resolve_matching_active_inv:
  assumes "store_inv s"
  shows "store_inv (snd (resolve_matching_active_grant_for_use pinv now sub tool meth h sid s))"
  using matching_active_body_inv [OF assms, of pinv now sub tool meth h sid] assms
  by (auto simp: resolve_matching_active_grant_for_use_def split: prod.splits option.splits)

lemma log_decision_inv: "store_inv s \<Longrightarrow> store_inv (snd (log_decision now row s))"
  by (auto simp: log_decision_def split: option.splits)

lemma set_setting_inv: "store_inv s \<Longrightarrow> store_inv (set_setting k v s)"
  by (simp add: set_setting_def)

lemmas store_op_invs = insert_grant_inv revoke_grant_inv cleanup_expired_inv
  consume_grant_use_inv resolve_active_inv get_or_create_pending_inv
  resolve_confirmation_inv resolve_matching_active_inv log_decision_inv set_setting_inv

section \<open>Use budgets\<close>

text \<open>The number of calls, out of a sequence, that return a grant.\<close>

fun successes :: "('t \<Rightarrow> 's \<Rightarrow> 'g option \<times> 's) \<Rightarrow> 't list \<Rightarrow> 's \<Rightarrow> nat" where
  "successes consume [] s = 0"
| "successes consume (t # ts) s =
     (case consume t s of
        (None, s') \<Rightarrow> successes consume ts s'
      | (Some _, s') \<Rightarrow> Suc (successes consume ts s'))"

locale use_budget =
  fixes consume :: "'t \<Rightarrow> 's \<Rightarrow> 'g option \<times> 's" and budget :: "'s \<Rightarrow> nat" and inv :: "'s \<Rightarrow> bool"
  assumes consume_inv: "inv s \<Longrightarrow> inv (snd (consume t s))"
    and consume_Some: "inv s \<Longrightarrow> consume t s = (Some g, s') \<Longrightarrow> budget s' < budget s"
    and consume_None: "inv s \<Longrightarrow> consume t s = (None, s') \<Longrightarrow> budget s' \<le> budget s"
begin

lemma successes_le_budget: "inv s \<Longrightarrow> successes consume ts s \<le> budget s"
proof (induction ts arbitrary: s)
  case (Cons t ts)
  obtain r s' where run: "consume t s = (r, s')" by (cases "consume t s")
  with consume_inv [OF Cons.prems, of t] have "inv s'" by simp
  with Cons.IH have "successes consume ts s' \<le> budget s'" by blast
  with run Cons.prems show ?case
    by (cases r) (auto dest: consume_Some consume_None)
qed simp

end

definition limited :: "policy_grant \<Rightarrow> bool" where
  "limited g = (g_duration_type g = ''once'' \<or> g_max_uses g \<noteq> None)"

definition uses_remaining :: "string \<Rightarrow> policy_store \<Rightarrow> nat" where
  "uses_remaining gid s =
     (case get_grant gid s of
        None \<Rightarrow> 0
      | Some g \<Rightarrow>
          if g_revoked_at g \<noteq> None then 0
          else if g_duration_type g = ''once'' then 1
          else (case g_max_uses g of None \<Rightarrow> 0 | Some m \<Rightarrow> nat (m - g_uses_count g)))"

text \<open>The three calls that spend a grant. The last one chooses the grant itself; when the stored
  preview of the approval no longer parses it raises, and spends none.\<close>

datatype use_call =
    Consume string string
  | Resolve_active string string string string string "pydict option"
  | Resolve_matching "pydict \<Rightarrow> bool" string string string string string "string option"

fun perform_use :: "use_call \<Rightarrow> policy_store \<Rightarrow> policy_grant option \<times> policy_store" where
  "perform_use (Consume now gid) s = consume_grant_use now gid s"
| "perform_use (Resolve_active now gid sub tool meth req) s =
     resolve_active_grant_for_use now gid sub tool meth req s"
| "perform_use (Resolve_matching pinv now sub tool meth h sid) s =
     (case resolve_matching_active_grant_for_use pinv now sub tool meth h sid s of
        (Inl _, t) \<Rightarrow> (None, t) | (Inr r, t) \<Rightarrow> (r, t))"

text \<open>The calls that spend one grant, among the calls that spend any.\<close>

definition spend_of :: "string \<Rightarrow> use_call \<Rightarrow> policy_store \<Rightarrow> policy_grant option \<times> policy_store" where
  "spend_of gid c s =
     (case perform_use c s of
        (Some g, t) \<Rightarrow> (if g_grant_id g = gid then Some g else None, t)
      | (None, t) \<Rightarrow> (None, t))"

definition limited_rows :: "string \<Rightarrow> policy_grant list \<Rightarrow> bool" where
  "limited_rows gid gs = (\<forall>g\<in>set gs. g_grant_id g = gid \<longrightarrow> limited g)"

definition limited_store :: "string \<Rightarrow> policy_store \<Rightarrow> bool" where
  "limited_store gid s = (store_inv s \<and> limited_rows gid (grants s))"

lemma get_grant_use:
  "get_grant gid (s\<lparr>grants := sql_update p (set_used now r) (grants s)\<rparr>) =
     map_option (\<lambda>g. if p g then set_used now r g else g) (get_grant gid s)"
  by (simp add: get_grant_def use_rows.get_update)

lemma get_grant_revoke:
  "get_grant gid (s\<lparr>grants := sql_update p (set_revoked now) (grants s)\<rparr>) =
     map_option (\<lambda>g. if p g then set_revoked now g else g) (get_grant gid s)"
  by (simp add: get_grant_def revoke_rows.get_update)

lemma get_grant_row: "get_grant gid s = Some g \<Longrightarrow> g \<in> set (grants s) \<and> g_grant_id g = gid"
  by (auto simp: get_grant_def dest: sql_get_Some)

text \<open>Statements on the rows of another grant leave the budget alone; revoking never raises it.\<close>

lemma uses_remaining_other:
  assumes "\<And>r. p r \<Longrightarrow> g_grant_id r \<noteq> gid"
  shows "uses_remaining gid (s\<lparr>grants := sql_update p (set_used now k) (grants s)\<rparr>) = uses_remaining gid s"
  using assms get_grant_row [of gid s]
  by (cases "get_grant gid s") (auto simp: uses_remaining_def get_grant_use)

lemma uses_remaining_revoke:
  "uses_remaining gid (s\<lparr>grants := sql_update p (set_revoked now) (grants s)\<rparr>) \<le> uses_remaining gid s"
  by (cases "get_grant gid s") (auto simp: uses_remaining_def get_grant_revoke set_revoked_def)

lemma uses_remaining_use:
  assumes inv: "limited_store gid s" and g: "get_grant gid s = Some g" and p: "usable now g"
    and q: "\<And>r. p r \<longleftrightarrow> g_grant_id r = gid \<and> usable now r"
  shows "uses_remaining gid (s\<lparr>grants := sql_update p (set_used now (revoke_on_use now g)) (grants s)\<rparr>)
    < uses_remaining gid s"
proof -
  have row: "g \<in> set (grants s)" "g_grant_id g = gid"
    using g by (auto simp: get_grant_def dest: sql_get_Some)
  with inv have "limited g" by (auto simp: limited_store_def limited_rows_def)
  with p show ?thesis
    unfolding uses_remaining_def get_grant_use g
    by (auto simp: q row usable_def uses_left_def limited_def revoke_on_use_def set_used_def
        split: option.splits)
qed

lemma use_row_outcome:
  fixes now :: string
  assumes inv: "limited_store gid s" and g: "get_grant gid s = Some g"
  defines "p \<equiv> \<lambda>r. g_grant_id r = gid \<and> usable now r"
  shows "(sql_count p (grants s) = 1 \<and>
      uses_remaining gid (s\<lparr>grants := sql_update p (set_used now (revoke_on_use now g)) (grants s)\<rparr>)
        < uses_remaining gid s) \<or>
    (sql_count p (grants s) = 0 \<and>
      s\<lparr>grants := sql_update p (set_used now (revoke_on_use now g)) (grants s)\<rparr> = s)"
proof -
  have uniq: "keys_unique g_grant_id (grants s)"
    using inv by (auto simp: limited_store_def store_inv_def)
  have count: "sql_count p (grants s) = (if usable now g then 1 else 0)"
    using sql_count_key [OF uniq, of gid "usable now"] g by (simp add: p_def get_grant_def)
  show ?thesis
  proof (cases "usable now g")
    case True
    then show ?thesis using count uses_remaining_use [OF inv g True, of p] by (simp add: p_def)
  next
    case False
    then show ?thesis using count by (simp add: sql_update_none)
  qed
qed

lemma limited_frozen:
  assumes "frozen g = frozen h"
  shows "limited g = limited h"
  using frozen_fields [OF assms] by (simp add: limited_def)

lemma limited_update:
  assumes "limited_rows gid gs"
  shows "limited_rows gid (sql_update p (set_used now r) gs)" and "limited_rows gid (sql_update p (set_revoked now) gs)"
  using assms limited_frozen [OF frozen_updates(1)] limited_frozen [OF frozen_updates(2)]
  by (auto simp: limited_rows_def set_sql_update use_rows.key_upd revoke_rows.key_upd)

lemma matching_active_limited:
  "limited_rows gid (grants s) \<Longrightarrow> limited_rows gid (grants (snd (matching_active_body pinv now sub tool meth h sid s)))"
  by (simp add: matching_active_body_def Let_def limited_update split: list.split option.split)

lemma perform_use_limited:
  assumes "limited_store gid s"
  shows "limited_store gid (snd (perform_use c s))"
proof (cases c)
  case (Consume now gid')
  with assms consume_grant_use_inv [of s now gid'] show ?thesis
    using limited_update [of gid "grants s"]
    by (auto simp: limited_store_def consume_grant_use_def Let_def split: option.splits)
next
  case (Resolve_active now gid' sub tool meth req)
  with assms resolve_active_inv [of s now gid' sub tool meth req] show ?thesis
    using limited_update [of gid "grants s"]
    by (auto simp: limited_store_def resolve_active_grant_for_use_def Let_def split: option.splits)
next
  case (Resolve_matching pinv now sub tool meth h sid)
  with assms resolve_matching_active_inv [of s pinv now sub tool meth h sid] show ?thesis
    using matching_active_limited [of gid s pinv now sub tool meth h sid]
    by (auto simp: limited_store_def resolve_matching_active_grant_for_use_def split: prod.splits option.splits sum.splits)
qed

lemma find_is_get_grant:
  assumes "store_inv s" and "find (\<lambda>g. g_grant_id g = gid \<and> P g) (grants s) = Some g"
  shows "get_grant gid s = Some g"
proof -
  from assms(2) have "g \<in> set (grants s)" "g_grant_id g = gid" by (auto simp: find_Some_iff)
  with assms(1) show ?thesis
    by (auto simp: get_grant_def store_inv_def dest: sql_get_unique)
qed

text \<open>What a spending call does to the budget of one grant.\<close>

definition spends_fairly :: "string \<Rightarrow> policy_store \<Rightarrow> policy_grant option \<times> policy_store \<Rightarrow> bool" where
  "spends_fairly gid s res =
     (if (case fst res of None \<Rightarrow> False | Some g \<Rightarrow> g_grant_id g = gid)
      then uses_remaining gid (snd res) < uses_remaining gid s
      else uses_remaining gid (snd res) \<le> uses_remaining gid s)"

lemma consume_fair:
  assumes "limited_store gid s"
  shows "spends_fairly gid s (consume_grant_use now gid' s)"
proof (cases "get_grant gid' s")
  case (Some g)
  note row = get_grant_row [OF Some]
  show ?thesis
  proof (cases "gid' = gid")
    case True
    with use_row_outcome [OF assms, of g now] Some show ?thesis
      by (auto simp: spends_fairly_def consume_grant_use_def Let_def get_grant_use split: if_splits)
  next
    case False
    then have "uses_remaining gid (s\<lparr>grants := sql_update (\<lambda>r. g_grant_id r = gid' \<and> usable now r) (set_used now k) (grants s)\<rparr>) =
        uses_remaining gid s" for k by (intro uses_remaining_other) auto
    with False Some row show ?thesis
      by (auto simp: spends_fairly_def consume_grant_use_def Let_def get_grant_use use_rows.key_upd split: option.splits)
  qed
qed (simp add: spends_fairly_def consume_grant_use_def)

lemma resolve_active_fair:
  assumes "limited_store gid s"
  shows "spends_fairly gid s (resolve_active_grant_for_use now gid' sub tool meth req s)"
proof (cases "find (\<lambda>g. g_grant_id g = gid' \<and> g_subject_id g = sub \<and> g_effect g = ''allow'' \<and>
      g_tool g = tool \<and> g_method g = meth \<and> usable now g) (grants s)")
  case (Some g)
  have g: "get_grant gid' s = Some g"
    by (rule find_is_get_grant [OF _ Some]) (use assms in \<open>simp add: limited_store_def\<close>)
  note row = get_grant_row [OF g]
  show ?thesis
  proof (cases "gid' = gid")
    case True
    with use_row_outcome [OF assms, of g now] Some g show ?thesis
      by (auto simp: spends_fairly_def resolve_active_grant_for_use_def Let_def split: if_splits)
  next
    case False
    then have "uses_remaining gid (s\<lparr>grants := sql_update (\<lambda>r. g_grant_id r = gid' \<and> usable now r) (set_used now k) (grants s)\<rparr>) =
        uses_remaining gid s" for k by (intro uses_remaining_other) auto
    with False Some row show ?thesis by (auto simp: spends_fairly_def resolve_active_grant_for_use_def Let_def)
  qed
qed (simp add: spends_fairly_def resolve_active_grant_for_use_def)

text \<open>The grant that the third call chooses is a usable one-time grant, which one use exhausts.\<close>

lemma once_spent:
  assumes "limited_store gid s" and "g \<in> set (grants s)" and "usable now g" and "g_duration_type g = ''once''"
    and "p = (\<lambda>r. g_grant_id r = g_grant_id g \<and> g_revoked_at r = None \<and> uses_left r)"
  shows "spends_fairly gid s (Some g, s\<lparr>grants := sql_update p (set_used now (Some now)) (grants s)\<rparr>)"
proof (cases "g_grant_id g = gid")
  case True
  have "get_grant gid s = Some g"
    using assms(1,2) True sql_get_unique [of g_grant_id "grants s" g] by (auto simp: get_grant_def limited_store_def store_inv_def)
  with assms(3-5) True show ?thesis
    by (simp add: spends_fairly_def uses_remaining_def get_grant_use usable_def set_used_def)
next
  case False
  with uses_remaining_other [of p gid now "Some now" s] assms(5) show ?thesis by (simp add: spends_fairly_def)
qed

lemma matching_active_fair:
  assumes "limited_store gid s"
  shows "spends_fairly gid s (case matching_active_body pinv now sub tool meth h sid s of ((r, _), t) \<Rightarrow> (r, t))"
proof -
  have unused: "spends_fairly gid s (None, t)" if "spends_fairly gid s (Some g, t)" for g t
    using that by (auto simp: spends_fairly_def split: if_splits)
  show ?thesis using once_spent [OF assms _ _ _ refl]
    by (auto simp: matching_active_body_def Let_def split: list.splits option.splits dest!: sql_order_desc_Cons intro: unused)
       (simp_all add: spends_fairly_def uses_remaining_revoke)
qed

lemma perform_use_fair: "limited_store gid s \<Longrightarrow> spends_fairly gid s (perform_use c s)"
proof (cases c)
  case (Resolve_matching pinv now sub tool meth h sid)
  assume "limited_store gid s"
  from matching_active_fair [OF this, of pinv now sub tool meth h sid] Resolve_matching show ?thesis
    by (auto simp: resolve_matching_active_grant_for_use_def spends_fairly_def split: prod.splits option.splits if_splits)
qed (auto intro: consume_fair resolve_active_fair)

interpretation grant_use: use_budget "spend_of gid" "uses_remaining gid" "limited_store gid" for gid
proof
  show "limited_store gid (snd (spend_of gid c s))" if "limited_store gid s" for s c
    using perform_use_limited [OF that, of c] by (auto simp: spend_of_def split: prod.splits option.splits)
  show "uses_remaining gid s' < uses_remaining gid s" if "limited_store gid s" "spend_of gid c s = (Some g, s')" for s c g s'
    using perform_use_fair [OF that(1), of c] that(2) by (auto simp: spend_of_def spends_fairly_def split: prod.splits option.splits if_splits)
  show "uses_remaining gid s' \<le> uses_remaining gid s" if "limited_store gid s" "spend_of gid c s = (None, s')" for s c s'
    using perform_use_fair [OF that(1), of c] that(2) by (auto simp: spend_of_def spends_fairly_def split: prod.splits option.splits if_splits)
qed

end
