(* ===== verification/Policy_Grants.thy ===== *)
theory Policy_Grants
  imports Policy_Store_Inv
begin

text \<open>
  Grants (\<open>modules/policy/grants.py\<close>): validation of a new grant, the terms a confirmation
  turns into, specificity, the choice among matching grants and the decision it leads to.
  \<open>iso_parse\<close> is the outcome of \<open>datetime.fromisoformat\<close>: not a time stamp, one without a
  time zone, or one with its UTC rendering.
\<close>

datatype iso_parse = Iso_invalid | Iso_naive | Iso_aware string

definition requires_once_duration :: "string \<Rightarrow> string \<Rightarrow> risk_class option \<Rightarrow> bool" where
  "requires_once_duration tool method risk_floor =
     (let normalized_tool = str_lower (str_strip tool);
          normalized_method = str_lower (str_strip method)
      in normalized_tool = ''financial''
         \<or> is_policy_authorization_pair normalized_tool normalized_method
         \<or> (normalized_tool = ''ops.command'' \<and> normalized_method = ''run'')
         \<or> (normalized_tool = ''project'' \<and> normalized_method = ''start'')
         \<or> risk_floor = Some Financial)"

definition validate_grant_input ::
  "(string \<Rightarrow> iso_parse) \<Rightarrow> grant_input \<Rightarrow> grant_input policy_result" where
  "validate_grant_input fromisoformat g =
     (if gi_effect g \<notin> {''allow'', ''deny''}
      then Inl (ValueError ''grant.effect must be allow|deny'')
      else if gi_duration_type g \<notin> {''once'', ''until'', ''session'', ''forever''}
      then Inl (ValueError ''grant.duration_type must be once|until|session|forever'')
      else if gi_duration_type g = ''session'' \<and> \<not> opt_truthy (gi_session_id g)
      then Inl (ValueError ''session grants require a non-empty session_id'')
      else if requires_once_duration (gi_tool g) (gi_method g) (gi_risk_floor g)
              \<and> gi_duration_type g \<noteq> ''once''
      then Inl (ValueError (gi_tool g @ ''.'' @ gi_method g @ '' grants must be allow once''))
      else if gi_duration_type g = ''once'' \<and> \<not> opt_truthy (gi_invocation_hash g)
      then Inl (ValueError ''once grants require invocation_hash'')
      else if gi_duration_type g = ''until''
      then (case gi_expires_at g of
              None \<Rightarrow> Inl (ValueError ''until grants require expires_at'')
            | Some e \<Rightarrow>
                if e = [] then Inl (ValueError ''until grants require expires_at'')
                else (case fromisoformat e of
                        Iso_invalid \<Rightarrow> Inl (ValueError ''expires_at must be an ISO-8601 timestamp'')
                      | Iso_naive \<Rightarrow> Inl (ValueError ''expires_at must include a timezone'')
                      | Iso_aware utc \<Rightarrow> Inr (g\<lparr>gi_expires_at := Some utc\<rparr>)))
      else Inr g)"

text \<open>\<open>plus_seconds n\<close> is \<open>(datetime.now(utc) + timedelta(seconds=n)).isoformat()\<close>.\<close>

definition confirmation_grant_terms ::
  "(int \<Rightarrow> string) \<Rightarrow> string \<Rightarrow> string option \<Rightarrow> string \<Rightarrow> int option \<Rightarrow>
   (string \<times> string option \<times> string option \<times> string option) policy_result" where
  "confirmation_grant_terms plus_seconds action session_id invocation_hash until_seconds =
     (if action = ''allow_once'' then Inr (''once'', None, None, Some invocation_hash)
      else if action = ''allow_until''
      then Inr (''until'',
             Some (plus_seconds (max 1 (case until_seconds of None \<Rightarrow> 600
                                        | Some n \<Rightarrow> if n = 0 then 600 else n))), None, None)
      else if action \<in> {''allow_session'', ''allow_session_exact''}
      then (if \<not> opt_truthy session_id
            then Inl (ValueError ''session approval requires a non-empty session_id'')
            else Inr (''session'', None, session_id,
                   if action = ''allow_session_exact'' then Some invocation_hash else None))
      else if action = ''allow_forever'' then Inr (''forever'', None, None, None)
      else Inl (ValueError (''Unsupported confirmation action: '' @ action)))"

record grant_match =
  gm_grant :: policy_grant
  gm_score :: int

definition grant_specificity_score :: "policy_grant \<Rightarrow> int" where
  "grant_specificity_score g =
     (if g_tool g \<noteq> ''*'' then 8 else 0) + (if g_method g \<noteq> ''*'' then 6 else 0) +
     (if g_target_json g \<noteq> [] then 4 + int (length (g_target_json g)) else 0) +
     (if g_risk_floor g \<noteq> None then 1 else 0)"

text \<open>The matches of the highest score, the denying ones alone if there are any.\<close>

definition best_matches :: "grant_match list \<Rightarrow> grant_match list" where
  "best_matches matches =
     (case matches of
        [] \<Rightarrow> []
      | m # ms \<Rightarrow>
          let best_score = gm_score (max_by gm_score m ms);
              same = filter (\<lambda>i. gm_score i = best_score) matches;
              deny = filter (\<lambda>i. g_effect (gm_grant i) = ''deny'') same
          in if deny \<noteq> [] then deny else same)"

definition select_grant_match :: "grant_match list \<Rightarrow> grant_match option" where
  "select_grant_match matches =
     (case best_matches matches of
        [] \<Rightarrow> None
      | x # xs \<Rightarrow> Some (max_by (\<lambda>i. g_created_at (gm_grant i)) x xs))"

definition narrow_matches :: "invocation_summary \<Rightarrow> risk_spec \<Rightarrow> grant_match list \<Rightarrow> grant_match list" where
  "narrow_matches iv risk matches =
     (let once = (if requires_once_duration (inv_tool iv) (inv_method iv) (Some (risk_class risk))
                  then filter (\<lambda>m. g_effect (gm_grant m) = ''deny''
                         \<or> g_duration_type (gm_grant m) = ''once'') matches
                  else matches)
      in if is_policy_authorization_pair (inv_tool iv) (inv_method iv)
         then filter (\<lambda>m. opt_truthy (g_approval_id (gm_grant m))) once
         else once)"

definition explicit_deny :: "policy_grant \<Rightarrow> risk_spec \<Rightarrow> policy_decision" where
  "explicit_deny g risk =
     (mk_decision DENY ''EXPLICIT_DENY'' ''Denied by explicit grant rule'' risk)
       \<lparr>d_matched_grant_id := Some (g_grant_id g), d_details := [(''grant_id'', PStr (g_grant_id g))]\<rparr>"

definition explicit_allow :: "policy_grant \<Rightarrow> invocation_summary \<Rightarrow> risk_spec \<Rightarrow> policy_decision" where
  "explicit_allow g iv risk =
     (mk_decision ALLOW ''EXPLICIT_ALLOW'' ''Allowed by explicit grant'' risk)
       \<lparr>d_matched_grant_id := Some (g_grant_id g), d_approval_id := g_approval_id g,
        d_invocation_hash := Some (inv_hash iv),
        d_details := [(''grant_id'', PStr (g_grant_id g))]\<rparr>"

definition matching_grant_decision ::
  "string \<Rightarrow> grant_match list \<Rightarrow> invocation_summary \<Rightarrow> risk_spec \<Rightarrow> bool \<Rightarrow>
   policy_store \<Rightarrow> policy_decision option \<times> policy_store" where
  "matching_grant_decision now matches iv risk consume_grants s =
     (case select_grant_match (narrow_matches iv risk matches) of
        None \<Rightarrow> (None, s)
      | Some selected \<Rightarrow>
          let g = gm_grant selected in
          if g_effect g = ''deny'' then (Some (explicit_deny g risk), s)
          else if is_exact_ops_command (inv_tool iv) (inv_method iv) then (None, s)
          else if consume_grants \<and> \<not> is_policy_authorization_pair (inv_tool iv) (inv_method iv)
          then (case consume_grant_use now (g_grant_id g) s of
                  (None, t) \<Rightarrow> (None, t)
                | (Some _, t) \<Rightarrow> (Some (explicit_allow g iv risk), t))
          else (Some (explicit_allow g iv risk), s))"

section \<open>Lemmas\<close>

lemma decision_fields [simp]:
  "d_decision (explicit_deny g risk) = DENY" "d_reason_code (explicit_deny g risk) = ''EXPLICIT_DENY''"
  "d_matched_grant_id (explicit_deny g risk) = Some (g_grant_id g)"
  "d_decision (explicit_allow g iv risk) = ALLOW"
  "d_reason_code (explicit_allow g iv risk) = ''EXPLICIT_ALLOW''"
  "d_matched_grant_id (explicit_allow g iv risk) = Some (g_grant_id g)"
  "d_approval_id (explicit_allow g iv risk) = g_approval_id g"
  "d_risk (explicit_allow g iv risk) = risk"
  by (simp_all add: explicit_deny_def explicit_allow_def)

lemma best_matches_in:
  assumes "m \<in> set (best_matches matches)"
  shows "m \<in> set matches" and "\<forall>x\<in>set matches. gm_score x \<le> gm_score m"
    and "\<forall>x\<in>set matches. gm_score x = gm_score m \<longrightarrow> g_effect (gm_grant x) = ''deny''
           \<longrightarrow> g_effect (gm_grant m) = ''deny''"
proof -
  obtain h t where ms: "matches = h # t"
    using assms by (cases matches) (auto simp: best_matches_def)
  have top: "gm_score x \<le> gm_score (max_by gm_score h t)" if "x \<in> set matches" for x
    using that ms max_by_ge [of x h t gm_score] by simp
  have pool: "m \<in> set matches" "gm_score m = gm_score (max_by gm_score h t)"
    "g_effect (gm_grant m) = ''deny'' \<or>
      (\<forall>x\<in>set matches. gm_score x = gm_score (max_by gm_score h t) \<longrightarrow> g_effect (gm_grant x) \<noteq> ''deny'')"
    using assms unfolding best_matches_def ms list.case
    by (auto simp: Let_def filter_empty_conv split: if_splits)
  then show "m \<in> set matches" "\<forall>x\<in>set matches. gm_score x \<le> gm_score m"
    "\<forall>x\<in>set matches. gm_score x = gm_score m \<longrightarrow> g_effect (gm_grant x) = ''deny''
       \<longrightarrow> g_effect (gm_grant m) = ''deny''"
    using top by auto
qed

lemma best_matches_Nil: "best_matches matches = [] \<longleftrightarrow> matches = []"
proof (cases matches)
  case (Cons h t)
  have "max_by gm_score h t \<in> set (filter (\<lambda>i. gm_score i = gm_score (max_by gm_score h t)) (h # t))"
    using max_by_in [of gm_score h t] by auto
  then have "filter (\<lambda>i. gm_score i = gm_score (max_by gm_score h t)) (h # t) \<noteq> []"
    by (metis list.set(1) empty_iff)
  then show ?thesis
    unfolding best_matches_def Cons list.case by (simp add: Let_def)
qed (simp add: best_matches_def)

lemma select_grant_match_best: "select_grant_match matches = Some m \<Longrightarrow> m \<in> set (best_matches matches)"
proof (cases "best_matches matches")
  case (Cons x xs)
  assume "select_grant_match matches = Some m"
  with Cons have "m = max_by (\<lambda>i. g_created_at (gm_grant i)) x xs"
    by (simp add: select_grant_match_def)
  with Cons show ?thesis using max_by_in [of "\<lambda>i. g_created_at (gm_grant i)" x xs] by simp
qed (simp add: select_grant_match_def)

lemmas select_grant_match_Some = best_matches_in [OF select_grant_match_best]

lemma select_grant_match_None: "select_grant_match matches = None \<longleftrightarrow> matches = []"
  using best_matches_Nil [of matches] by (auto simp: select_grant_match_def split: list.splits)

lemma narrow_matches_subset: "m \<in> set (narrow_matches iv risk matches) \<Longrightarrow> m \<in> set matches"
  by (auto simp: narrow_matches_def Let_def split: if_splits)

lemma pair_requires_once:
  assumes "is_policy_authorization_pair tool method"
  shows "requires_once_duration tool method r"
proof -
  have "str_lower (str_strip tool) = tool \<and> str_lower (str_strip method) = method"
    using assms unfolding authorization_pair_iff
    by (elim disjE conjE insertE emptyE; hypsubst; code_simp)
  with assms show ?thesis by (simp add: requires_once_duration_def)
qed

lemma narrow_matches_pair:
  assumes "is_policy_authorization_pair (inv_tool iv) (inv_method iv)"
    and "m \<in> set (narrow_matches iv risk matches)"
  shows "opt_truthy (g_approval_id (gm_grant m))"
    and "g_effect (gm_grant m) = ''deny'' \<or> g_duration_type (gm_grant m) = ''once''"
  using assms pair_requires_once [OF assms(1)]
  by (auto simp: narrow_matches_def Let_def)

text \<open>An answer comes from a grant among the matches, and an allowing one was not a denial.\<close>

lemma matching_grant_decision_Some:
  assumes "matching_grant_decision now ms iv risk c s = (Some d, t)"
  shows "\<exists>m\<in>set (narrow_matches iv risk ms). select_grant_match (narrow_matches iv risk ms) = Some m \<and>
    (if g_effect (gm_grant m) = ''deny'' then d = explicit_deny (gm_grant m) risk \<and> t = s
     else d = explicit_allow (gm_grant m) iv risk \<and> \<not> is_exact_ops_command (inv_tool iv) (inv_method iv))"
proof -
  obtain m where m: "select_grant_match (narrow_matches iv risk ms) = Some m"
    using assms by (auto simp: matching_grant_decision_def split: option.splits)
  with assms have "m \<in> set (narrow_matches iv risk ms)" by (blast dest: select_grant_match_Some)
  with m assms show ?thesis
    by (intro bexI [of _ m])
      (auto simp: matching_grant_decision_def Let_def split: option.splits prod.splits if_splits)
qed

text \<open>No match leads to no answer and no change.\<close>

lemma matching_grant_decision_none:
  "narrow_matches iv risk ms = [] \<Longrightarrow> matching_grant_decision now ms iv risk c s = (None, s)"
  by (simp add: matching_grant_decision_def select_grant_match_None [THEN iffD2])

lemma matching_grant_decision_frame:
  assumes "matching_grant_decision now ms iv risk c s = (r, t)"
  shows "pendings t = pendings s \<and> decisions t = decisions s \<and> settings t = settings s"
  using assms
  by (auto simp: matching_grant_decision_def consume_grant_use_def Let_def
      split: option.splits prod.splits if_splits)

lemma matching_grant_decision_dry: "snd (matching_grant_decision now ms iv risk False s) = s"
  by (auto simp: matching_grant_decision_def Let_def split: option.splits)

end
