(* ===== verification/Policy_Risk.thy ===== *)
theory Policy_Risk
  imports Policy_Grants
begin

text \<open>
  Risk classification: the configured rules and the tool declarations of
  \<open>modules/policy/runtime/action_policy.py\<close>, and the risk registry look-up with its
  fall-back inference (\<open>PolicyCtl._resolve_risk\<close>, \<open>_infer_risk\<close> of
  \<open>modules/policy/runtime/service.py\<close>). The registry is a dictionary from
  \<open>tool.method\<close> keys to risk specifications.
\<close>

type_synonym risk_registry = "(string \<times> risk_spec) list"

section \<open>Configured rules\<close>

fun rule_priority :: "rule_mode \<Rightarrow> int" where
  "rule_priority Auto = 0"
| "rule_priority Ask = 1"
| "rule_priority Block = 2"

definition rule_matches :: "invocation_summary \<Rightarrow> risk_spec \<Rightarrow> policy_rule \<Rightarrow> bool" where
  "rule_matches iv risk rule =
     (rule_tool_name rule =
        (if inv_method iv = ''default'' then inv_tool iv else inv_tool iv @ ''.'' @ inv_method iv) \<and>
      (case rule_min_risk_class rule of
         None \<Rightarrow> True
       | Some c \<Rightarrow> POLICY_RISK_ORDER (risk_class risk) \<ge> POLICY_RISK_ORDER c))"

definition select_policy_rule ::
  "invocation_summary \<Rightarrow> risk_spec \<Rightarrow> policy_config \<Rightarrow> policy_rule option" where
  "select_policy_rule iv risk config =
     (case filter (rule_matches iv risk) (cfg_rules config) of
        [] \<Rightarrow> None
      | r # rs \<Rightarrow> Some (max_by (\<lambda>rule. rule_priority (rule_mode rule)) r rs))"

definition blocked_rule_decision :: "policy_rule option \<Rightarrow> risk_spec \<Rightarrow> policy_decision option" where
  "blocked_rule_decision matching_rule risk =
     (case matching_rule of
        None \<Rightarrow> None
      | Some rule \<Rightarrow>
          if rule_mode rule \<noteq> Block then None
          else Some ((mk_decision DENY ''CONFIG_RULE_BLOCK'' ''Denied by configured exact-tool rule'' risk)
            \<lparr>d_details := [(''rule_mode'', PStr ''block''), (''tool_name'', PStr (rule_tool_name rule))]\<rparr>))"

definition merge_policy_risk :: "risk_spec \<Rightarrow> risk_spec option \<Rightarrow> risk_spec" where
  "merge_policy_risk registered command =
     (case command of
        None \<Rightarrow> registered
      | Some c \<Rightarrow>
          if POLICY_RISK_ORDER (risk_class c) \<le> POLICY_RISK_ORDER (risk_class registered)
          then registered
          else registered\<lparr>risk_class := risk_class c\<rparr>)"

section \<open>Risk of declared tools\<close>

record tool_decl =
  td_min_scope :: "string option"
  td_dangerous :: bool
  td_idempotent :: bool
  td_policy_risk :: "string option"

definition mk_risk :: "risk_class \<Rightarrow> side_effects \<Rightarrow> reversibility \<Rightarrow> bool \<Rightarrow> risk_spec" where
  "mk_risk c e r d = \<lparr>risk_class = c, side_effects = e, reversibility = r, default_confirm = d,
     sensitive_targets = []\<rparr>"

definition derive_tool_risk_spec :: "string \<Rightarrow> tool_decl \<Rightarrow> risk_spec" where
  "derive_tool_risk_spec tool_name tool =
     (let (tool_id, method) = (case str_rsplit_dot tool_name of None \<Rightarrow> ([], tool_name) | Some p \<Rightarrow> p) in
      case auth_descriptor_of tool_id method of
        Some d \<Rightarrow> mk_risk (ad_risk_class d) (ad_side_effects d) (ad_reversibility d) True
      | None \<Rightarrow>
          let min_scope = str_upper (str_strip (opt_or (td_min_scope tool) ''READ_ONLY''));
              dangerous = (td_dangerous tool \<or>
                str_lower (str_strip (opt_or (td_policy_risk tool) [])) \<in> {''high'', ''critical''});
              idempotent = td_idempotent tool
          in if dangerous then mk_risk Destructive SE_local Irreversible True
             else if min_scope = ''READ_ONLY'' then mk_risk Read SE_none Reversible False
             else if min_scope = ''WRITE_SAFE''
             then mk_risk Write SE_local (if idempotent then Reversible else Rev_unknown) (\<not> idempotent)
             else if min_scope \<in> {''POWER_USER'', ''UI_AUTOMATION''}
             then mk_risk Exec SE_local Rev_unknown True
             else mk_risk Write SE_local Rev_unknown (\<not> idempotent))"

fun derive_tool_risk_registry_from ::
  "risk_registry \<Rightarrow> (string \<times> tool_decl) list \<Rightarrow> risk_registry" where
  "derive_tool_risk_registry_from risks [] = risks"
| "derive_tool_risk_registry_from risks ((name, tool) # tools) =
     (let risk = derive_tool_risk_spec name tool;
          risks1 = dict_set risks name risk
      in derive_tool_risk_registry_from
           (if CHR ''.'' \<in> set name then risks1 else dict_set risks1 (name @ ''.default'') risk) tools)"

definition derive_tool_risk_registry :: "(string \<times> tool_decl) list \<Rightarrow> risk_registry" where
  "derive_tool_risk_registry tools = derive_tool_risk_registry_from [] tools"

text \<open>The context manager \<open>temporary_tool_risks\<close>: on entry the previous entries are saved
  and the declared ones installed; on exit, whatever the body did, each saved key is put
  back.\<close>

definition temporary_enter ::
  "risk_registry \<Rightarrow> (string \<times> tool_decl) list \<Rightarrow> (string \<times> risk_spec option) list \<times> risk_registry" where
  "temporary_enter registry tools =
     (let risks = derive_tool_risk_registry tools
      in (map (\<lambda>(key, _). (key, dict_get registry key)) risks, dict_update registry risks))"

fun temporary_exit :: "(string \<times> risk_spec option) list \<Rightarrow> risk_registry \<Rightarrow> risk_registry" where
  "temporary_exit [] registry = registry"
| "temporary_exit ((key, spec) # previous) registry =
     temporary_exit previous
       (case spec of None \<Rightarrow> dict_pop registry key | Some r \<Rightarrow> dict_set registry key r)"

definition temporary_tool_risks ::
  "(risk_registry \<Rightarrow> 'e \<times> risk_registry) \<Rightarrow> (string \<times> tool_decl) list \<Rightarrow>
   risk_registry \<Rightarrow> 'e \<times> risk_registry" where
  "temporary_tool_risks body tools registry =
     (let (previous, entered) = temporary_enter registry tools;
          (outcome, left) = body entered
      in (outcome, temporary_exit previous left))"

section \<open>Inference\<close>

definition infer_risk :: "invocation_summary \<Rightarrow> risk_spec" where
  "infer_risk iv =
     (let meth = str_lower (inv_method iv);
          tool = str_lower (inv_tool iv);
          txt = tool @ ''.'' @ meth
      in if str_contains_any [''read'', ''list'', ''show'', ''get'', ''status'', ''which'',
             ''snapshot'', ''tail''] meth
         then mk_risk Read SE_none Reversible False
         else if str_contains_any [''delete'', ''remove'', ''rm'', ''drop'', ''destroy'', ''wipe'',
             ''kill''] txt
         then mk_risk Destructive SE_local Irreversible True
         else if str_contains_any [''pay'', ''buy'', ''transfer'', ''charge''] txt
         then mk_risk Financial SE_external_account Rev_unknown True
         else if str_contains_any [''exec'', ''run'', ''ssh'', ''shell''] txt
         then mk_risk Exec (if str_contains ''ssh'' txt then SE_remote else SE_local) Rev_unknown True
         else if str_contains_any [''click'', ''submit'', ''apply'', ''start'', ''stop'', ''restart'',
             ''write'', ''update''] txt
         then mk_risk State_change
                (if str_contains ''browser'' tool then SE_external_account else SE_local)
                Partially_reversible True
         else if dict_has (inv_args iv) ''path'' \<or> dict_has (inv_args iv) ''content''
         then mk_risk Write SE_local Partially_reversible True
         else mk_risk Read SE_none Rev_unknown False)"

definition resolve_risk :: "risk_registry \<Rightarrow> invocation_summary \<Rightarrow> risk_spec" where
  "resolve_risk registry iv =
     (let keys = [inv_tool iv @ ''.'' @ inv_method iv, inv_tool iv @ ''.*'',
                  ''*.'' @ inv_method iv, ''*.*'']
      in case find (dict_has registry) keys of
           Some key \<Rightarrow> (case dict_get registry key of Some r \<Rightarrow> r | None \<Rightarrow> infer_risk iv)
         | None \<Rightarrow> infer_risk iv)"

section \<open>Lemmas\<close>

lemma rule_priority_block: "2 \<le> rule_priority m \<longleftrightarrow> m = Block"
  by (cases m) simp_all

lemma select_policy_rule_block:
  assumes "rule \<in> set (cfg_rules config)" and "rule_matches iv risk rule" and "rule_mode rule = Block"
  shows "\<exists>r. select_policy_rule iv risk config = Some r \<and> rule_mode r = Block"
proof -
  let ?f = "\<lambda>rule. rule_priority (rule_mode rule)"
  have "rule \<in> set (filter (rule_matches iv risk) (cfg_rules config))" using assms by simp
  then obtain r rs where rs: "filter (rule_matches iv risk) (cfg_rules config) = r # rs"
    by (cases "filter (rule_matches iv risk) (cfg_rules config)") auto
  with \<open>rule \<in> set (filter _ _)\<close> have "?f rule \<le> ?f (max_by ?f r rs)"
    by (intro max_by_ge) auto
  with assms(3) have "rule_mode (max_by ?f r rs) = Block" by (simp add: rule_priority_block)
  with rs show ?thesis by (simp add: select_policy_rule_def)
qed

lemma select_policy_rule_Some:
  assumes "select_policy_rule iv risk config = Some r"
  shows "r \<in> set (cfg_rules config) \<and> rule_matches iv risk r"
proof -
  obtain x xs where x: "filter (rule_matches iv risk) (cfg_rules config) = x # xs"
    "r = max_by (\<lambda>rule. rule_priority (rule_mode rule)) x xs"
    using assms by (auto simp: select_policy_rule_def split: list.splits)
  have "r \<in> set (filter (rule_matches iv risk) (cfg_rules config))"
    unfolding x(1) using max_by_in [of _ x xs] x(2) by auto
  then show ?thesis by simp
qed

lemma blocked_rule_decision_Some:
  "blocked_rule_decision r risk = Some d \<Longrightarrow>
     d_decision d = DENY \<and> d_reason_code d = ''CONFIG_RULE_BLOCK''"
  by (auto simp: blocked_rule_decision_def split: option.splits if_splits)

lemma merge_policy_risk_order:
  "POLICY_RISK_ORDER (risk_class (merge_policy_risk registered command)) =
     (case command of None \<Rightarrow> POLICY_RISK_ORDER (risk_class registered)
      | Some c \<Rightarrow> max (POLICY_RISK_ORDER (risk_class registered)) (POLICY_RISK_ORDER (risk_class c)))"
  by (auto simp: merge_policy_risk_def split: option.splits)

lemma temporary_exit_other:
  "k \<notin> fst ` set previous \<Longrightarrow> map_of (temporary_exit previous registry) k = map_of registry k"
  by (induction previous registry rule: temporary_exit.induct) (auto split: option.splits)

lemma temporary_exit_saved:
  assumes "\<forall>(key, spec)\<in>set previous. spec = old key" and "k \<in> fst ` set previous"
  shows "map_of (temporary_exit previous registry) k = old k"
  using assms
proof (induction previous registry rule: temporary_exit.induct)
  case (2 key spec previous registry)
  show ?case
  proof (cases "k \<in> fst ` set previous")
    case True
    with 2 show ?thesis by simp
  next
    case False
    with 2 show ?thesis by (auto simp: temporary_exit_other split: option.splits)
  qed
qed simp

end
