(* ===== verification/Policy_Confirmation.thy ===== *)
theory Policy_Confirmation
  imports Policy_Risk
begin

text \<open>
  Confirmations (\<open>modules/policy/runtime/confirmation.py\<close>): the preflight checks of
  exact-authorization actions, the pending confirmation such an action asks for, the
  confirmation request shown to the operator, and the reading of the operator's reply.
  \<open>policy_env\<close> collects what a call draws from outside: clock readings, one per call site,
  fresh identifiers, and the functions of other packages.
\<close>

record policy_env =
  at_cleanup :: string
  at_list :: string
  at_match :: "string \<Rightarrow> string"
  at_use :: string
  at_exact :: string
  at_pending :: string
  at_log :: string
  plus_seconds :: "int \<Rightarrow> string"
  new_approval_id :: string
  new_decision_id :: string
  preview_invalid :: "pydict \<Rightarrow> bool"
  fromisoformat :: "string \<Rightarrow> iso_parse"
  re_search :: "string \<Rightarrow> string \<Rightarrow> bool policy_result"
  fnmatch :: "string \<Rightarrow> string \<Rightarrow> bool"
  url_hostname :: "string \<Rightarrow> string option policy_result"
  expanduser :: "string \<Rightarrow> string policy_result"
  digest :: "string \<Rightarrow> string \<Rightarrow> pydict \<Rightarrow> string"

definition OPS_COMMAND_CONFIRMATION_TTL_SECONDS :: int where
  "OPS_COMMAND_CONFIRMATION_TTL_SECONDS = 600"

text \<open>\<open>list(invocation.args.get("argv", ()))\<close>: a missing \<open>argv\<close> is empty, a string is the
  list of its characters, a dictionary the list of its keys; other values raise
  \<open>TypeError\<close>, a \<^const>\<open>RuntimeError\<close> here.\<close>

fun py_list_of :: "pyval option \<Rightarrow> pyval list policy_result" where
  "py_list_of None = Inr []"
| "py_list_of (Some (PList xs)) = Inr xs"
| "py_list_of (Some (PStr s)) = Inr (map (\<lambda>c. PStr [c]) s)"
| "py_list_of (Some (PDict d)) = Inr (map (\<lambda>(k, _). PStr k) d)"
| "py_list_of (Some v) = Inl (RuntimeError ''object is not iterable'')"

definition arg_str :: "pydict \<Rightarrow> string \<Rightarrow> pyval" where
  "arg_str args key = PStr (py_str (dict_get_or args key (PStr [])))"

definition ops_preview :: "pydict \<Rightarrow> pydict policy_result" where
  "ops_preview args =
     rbind (py_list_of (dict_get args ''argv'')) (\<lambda>argv.
       Inr [(''plan_id'', arg_str args ''plan_id''),
            (''plan_hash'', arg_str args ''plan_hash''),
            (''target_id'', arg_str args ''target_id''),
            (''target_revision'', dict_get_or args ''target_revision'' PNone),
            (''argv'', PList argv),
            (''cwd'', arg_str args ''cwd''),
            (''timeout_seconds'', dict_get_or args ''timeout_seconds'' PNone),
            (''expires_at'', arg_str args ''expires_at'')])"

definition get_or_create_exact_confirmation ::
  "policy_env \<Rightarrow> invocation_summary \<Rightarrow> context_summary \<Rightarrow> string \<Rightarrow> pydict option \<Rightarrow>
   pending_confirmation store_op" where
  "get_or_create_exact_confirmation env iv csum subject_id confirmation_preview s =
     (let descriptor = auth_descriptor_of (inv_tool iv) (inv_method iv);
          preview = (case descriptor of
              Some _ \<Rightarrow> (case confirmation_preview of
                           None \<Rightarrow> Inl AssertionError
                         | Some p \<Rightarrow> Inr (dict_pop p ''display_lines''))
            | None \<Rightarrow> ops_preview (inv_args iv));
          ttl = (case descriptor of Some d \<Rightarrow> ad_confirmation_ttl_seconds d
                 | None \<Rightarrow> OPS_COMMAND_CONFIRMATION_TTL_SECONDS)
      in case preview of
           Inl e \<Rightarrow> (Inl e, s)
         | Inr p \<Rightarrow>
             get_or_create_pending_confirmation (preview_invalid env) (at_pending env)
               (plus_seconds env ttl) (new_approval_id env)
               \<lparr>pr_subject_id = subject_id, pr_tool = inv_tool iv, pr_method = inv_method iv,
                pr_invocation_hash = inv_hash iv, pr_invocation_id = inv_invocation_id iv,
                pr_trace_id = ctx_trace_id csum, pr_session_id = ctx_session_id csum,
                pr_preview = p\<rparr> s)"

definition resolve_exact_ops_decision ::
  "policy_env \<Rightarrow> invocation_summary \<Rightarrow> context_summary \<Rightarrow> string \<Rightarrow> risk_spec \<Rightarrow>
   policy_decision option store_op" where
  "resolve_exact_ops_decision env iv csum subject_id risk =
     st_bind (resolve_matching_active_grant_for_use (preview_invalid env) (at_exact env)
         subject_id (inv_tool iv) (inv_method iv) (inv_hash iv) (ctx_session_id csum))
       (\<lambda>grant s.
          (Inr (case grant of
             None \<Rightarrow> None
           | Some g \<Rightarrow> Some ((mk_decision ALLOW ''EXACT_PENDING_ALLOW''
                 ''Allowed by exact pending confirmation'' risk)
               \<lparr>d_matched_grant_id := Some (g_grant_id g), d_approval_id := g_approval_id g,
                d_invocation_hash := Some (inv_hash iv),
                d_details := [(''grant_id'', PStr (g_grant_id g)),
                              (''duration_type'', PStr (g_duration_type g))]\<rparr>)), s))"

text \<open>\<open>confirm\<close> is the service's \<open>_confirm_decision\<close>, given its reason code and reason.\<close>

definition resolve_exact_authorization_decision ::
  "policy_env \<Rightarrow> invocation_summary \<Rightarrow> context_summary \<Rightarrow> string \<Rightarrow> risk_spec \<Rightarrow>
   (string \<Rightarrow> string \<Rightarrow> policy_decision store_op) \<Rightarrow> policy_decision option store_op" where
  "resolve_exact_authorization_decision env iv csum subject_id risk confirm =
     (if is_policy_authorization_pair (inv_tool iv) (inv_method iv)
      then st_bind (confirm ''EXACT_AUTHORIZATION_REQUIRED''
             ''Exact authorization is required for this action'') (\<lambda>d s. (Inr (Some d), s))
      else if \<not> is_exact_ops_command (inv_tool iv) (inv_method iv)
      then (\<lambda>s. (Inr None, s))
      else st_bind (resolve_exact_ops_decision env iv csum subject_id risk)
             (\<lambda>decision s. case decision of
                Some d \<Rightarrow> (Inr (Some d), s)
              | None \<Rightarrow> st_bind (confirm ''EXACT_AUTHORIZATION_REQUIRED''
                  ''Policy confirmation is required for this exact operations command'')
                  (\<lambda>d s. (Inr (Some d), s)) s))"

definition BLOCKCHAIN_PREVIEW_ERROR_REASONS :: "string list" where
  "BLOCKCHAIN_PREVIEW_ERROR_REASONS =
     [''request_schema'', ''preparation_digest'', ''call_context'', ''calldata_limit'',
      ''preview_limit'']"

definition blockchain_preview_invalid_decision ::
  "string \<Rightarrow> risk_spec \<Rightarrow> string option \<Rightarrow> policy_decision" where
  "blockchain_preview_invalid_decision invocation_hash risk reason =
     (mk_decision DENY ''BLOCKCHAIN_CONFIRMATION_PREVIEW_INVALID'' PREVIEW_INVALID_MESSAGE risk)
       \<lparr>d_invocation_hash := Some invocation_hash,
        d_details := [(''reason'', PStr (case reason of
            Some r \<Rightarrow> if r \<in> set BLOCKCHAIN_PREVIEW_ERROR_REASONS then r else ''request_schema''
          | None \<Rightarrow> ''request_schema''))]\<rparr>"

definition authorization_preflight_decision ::
  "invocation_summary \<Rightarrow> context_summary \<Rightarrow> risk_spec \<Rightarrow> string \<Rightarrow> pydict option \<Rightarrow>
   string option \<Rightarrow> policy_decision option" where
  "authorization_preflight_decision iv csum risk mode confirmation_preview confirmation_preview_error =
     (let tool = inv_tool iv; method = inv_method iv; h = inv_hash iv;
          subject_problem = (\<lambda>d. (ad_required_subject_id d \<noteq> None \<and>
                ctx_subject_id csum \<noteq> ad_required_subject_id d) \<or>
              (ad_requires_session d \<and> \<not> opt_truthy (ctx_session_id csum)));
          first = (if is_exact_blockchain_send tool method
             then (if confirmation_preview = None
                   then Some (blockchain_preview_invalid_decision h risk confirmation_preview_error)
                   else None)
             else (case auth_descriptor_of tool method of
                     None \<Rightarrow> None
                   | Some d \<Rightarrow>
                       if subject_problem d
                       then Some ((mk_decision DENY ''SUBJECT_UNAVAILABLE''
                             ''Authorization requires the trusted subject and session.'' risk)
                           \<lparr>d_invocation_hash := Some h\<rparr>)
                       else if confirmation_preview = None
                       then Some ((mk_decision DENY
                             (str_upper tool @ ''_CONFIRMATION_PREVIEW_INVALID'')
                             ''Approval preview could not be verified.'' risk)
                           \<lparr>d_invocation_hash := Some h\<rparr>)
                       else None))
      in case first of
           Some d \<Rightarrow> Some d
         | None \<Rightarrow>
             if (is_policy_authorization_pair tool method \<or> is_exact_ops_command tool method)
                \<and> mode \<notin> {''disabled'', ''enforce'', ''enforce_safe''}
             then Some ((mk_decision DENY ''POLICY_MODE_UNSUPPORTED''
                    (''Enforcing policy is required for '' @
                     (if is_exact_ops_command tool method then ''operations command''
                      else tool @ '' '' @ method) @ ''.'') risk)
                  \<lparr>d_invocation_hash := Some h, d_details := [(''mode'', PStr mode)]\<rparr>)
             else None)"

section \<open>The operator's reply\<close>

definition normalize_confirmation_token :: "string \<Rightarrow> string" where
  "normalize_confirmation_token value =
     str_join '' '' (str_words (str_rstrip_by (\<lambda>c. c \<in> set ''.,!?'') (str_lower (str_strip value))))"

definition normalized_tokens :: "string list \<Rightarrow> string list" where
  "normalized_tokens tokens =
     filter (\<lambda>t. t \<noteq> []) (map normalize_confirmation_token tokens)"

datatype confirm_response = Affirm | Deny_response | Unclear

definition parse_confirmation_response ::
  "string \<Rightarrow> string list option \<Rightarrow> string list option \<Rightarrow> confirm_response" where
  "parse_confirmation_response text affirmative_tokens negative_tokens =
     (let normalized = normalize_confirmation_token text in
      if normalized = [] then Unclear
      else let affirmative = normalized_tokens
                 (case affirmative_tokens of Some ts \<Rightarrow> ts
                  | None \<Rightarrow> cfg_affirmative_tokens default_policy_config);
               negative = normalized_tokens
                 (case negative_tokens of Some ts \<Rightarrow> ts
                  | None \<Rightarrow> cfg_negative_tokens default_policy_config)
           in if normalized \<in> set affirmative \<and> normalized \<notin> set negative then Affirm
              else if normalized \<in> set negative \<and> normalized \<notin> set affirmative then Deny_response
              else Unclear)"

section \<open>The request shown to the operator\<close>

definition opt_val :: "string option \<Rightarrow> pyval" where
  "opt_val x = (case x of None \<Rightarrow> PNone | Some s \<Rightarrow> PStr s)"

definition build_confirm_request ::
  "invocation_summary \<Rightarrow> context_summary \<Rightarrow> risk_spec \<Rightarrow> pydict \<Rightarrow> pydict" where
  "build_confirm_request iv csum risk target_scope =
     (let tool = (''tool'', PStr (inv_tool iv)); method = (''method'', PStr (inv_method iv));
          target = (''target'', PDict target_scope);
          choice = (\<lambda>action label. PDict [(''action'', PStr action), (''label'', PStr label)])
      in [(''trace_id'', opt_val (ctx_trace_id csum)),
          (''invocation_id'', PStr (inv_invocation_id iv)),
          (''summary'', PDict [tool, method, (''args'', PDict (sanitize_args (inv_args iv)))]),
          (''risk'', PDict
             [(''risk_class'', PStr (risk_class_str (risk_class risk))),
              (''side_effects'', PStr (side_effects_str (side_effects risk))),
              (''reversibility'', PStr (reversibility_str (reversibility risk)))]),
          (''suggested_choices'', PList
             [choice ''allow_once'' ''Allow once'',
              PDict [(''action'', PStr ''allow_until''), (''label'', PStr ''Allow for 10 minutes''),
                     (''until_seconds'', PInt 600)],
              choice ''allow_session'' ''Allow for this session'',
              choice ''allow_forever'' ''Allow forever (scoped)'',
              choice ''deny'' ''Deny'']),
          (''scope_preview'', PDict
             [(''allow_once'', PDict [tool, method, (''invocation_hash'', PStr (inv_hash iv))]),
              (''allow_until'', PDict [tool, method, target]),
              (''allow_session'', PDict [tool, method, target,
                 (''session_id'', opt_val (ctx_session_id csum))]),
              (''allow_forever'', PDict [tool, method, target])]),
          (''deny_option'', PDict [(''action'', PStr ''deny'')])])"

section \<open>Lemmas\<close>

text \<open>A preflight answer is always a denial.\<close>

lemma preflight_denies:
  "authorization_preflight_decision iv csum risk mode p e = Some d \<Longrightarrow> d_decision d = DENY"
  by (auto simp: authorization_preflight_decision_def blockchain_preview_invalid_decision_def Let_def
      split: option.splits if_splits)

lemma preflight_pass:
  assumes "authorization_preflight_decision iv csum risk mode p e = None"
    and "is_policy_authorization_pair (inv_tool iv) (inv_method iv)"
  shows "p \<noteq> None" and "mode \<in> {''disabled'', ''enforce'', ''enforce_safe''}"
  using assms auth_descriptor_iff [of "inv_tool iv" "inv_method iv"]
  by (auto simp: authorization_preflight_decision_def Let_def split: option.splits if_splits)

lemma preflight_none:
  assumes "\<not> is_policy_authorization_pair (inv_tool iv) (inv_method iv)"
    and "\<not> is_exact_ops_command (inv_tool iv) (inv_method iv)"
  shows "authorization_preflight_decision iv csum risk mode p e = None"
proof -
  have "auth_descriptor_of (inv_tool iv) (inv_method iv) = None"
    using assms(1) auth_descriptor_iff by blast
  moreover have "\<not> is_exact_blockchain_send (inv_tool iv) (inv_method iv)"
    using assms(1) by (auto simp: is_exact_blockchain_send_def authorization_pair_iff)
  ultimately show ?thesis using assms by (simp add: authorization_preflight_decision_def Let_def)
qed

lemma resolve_exact_ops_decision_Some:
  "resolve_exact_ops_decision env iv csum sub risk s = (Inr (Some d), t) \<Longrightarrow>
     d_decision d = ALLOW \<and> d_reason_code d = ''EXACT_PENDING_ALLOW''"
  by (auto simp: resolve_exact_ops_decision_def elim!: st_bind_InrE split: option.splits)

end
