(* ===== verification/Policy_Service.thy ===== *)
theory Policy_Service
  imports Policy_Confirmation
begin

text \<open>
  The policy service (\<open>modules/policy/runtime/service.py\<close>, class \<open>PolicyCtl\<close>): the
  normalisation of an invocation, grant matching, the evaluation order of \<open>check\<close>, and
  the operations that create and use grants. The service's own fields are the record
  \<open>policy_ctl\<close>; the store is threaded through every call. An operation that raises
  returns \<^const>\<open>Inl\<close> together with the store as the exception leaves it.
\<close>

record policy_ctl =
  ctl_config :: policy_config
  ctl_registry :: risk_registry

section \<open>Normalisation\<close>

definition opt_str :: "pyval option \<Rightarrow> string option" where
  "opt_str value = (case value of None \<Rightarrow> None | Some PNone \<Rightarrow> None | Some v \<Rightarrow> strip_or_none (py_str v))"

text \<open>An invocation arrives as a dictionary or as an object with attributes; both are
  given by their entries.\<close>

datatype raw_invocation = Inv_dict pydict | Inv_obj pydict

definition stable_invocation_hash :: "policy_env \<Rightarrow> string \<Rightarrow> string \<Rightarrow> pydict \<Rightarrow> string" where
  "stable_invocation_hash env tool method args =
     digest env tool method (filter (\<lambda>(key, _). \<not> str_startswith key ''_'') args)"

fun raw_entries :: "raw_invocation \<Rightarrow> pydict" where
  "raw_entries (Inv_dict d) = d"
| "raw_entries (Inv_obj d) = d"

text \<open>\<open>payload.get("args", {})\<close> for a dictionary, \<open>getattr(..., "args", {}) or {}\<close> for an
  object.\<close>

fun raw_args :: "raw_invocation \<Rightarrow> pyval" where
  "raw_args (Inv_dict d) = dict_get_or d ''args'' (PDict [])"
| "raw_args (Inv_obj d) =
     (let v = dict_get_or d ''args'' (PDict []) in if truthy v then v else PDict [])"

definition normalize_invocation :: "policy_env \<Rightarrow> raw_invocation \<Rightarrow> invocation_summary policy_result" where
  "normalize_invocation env raw =
     (let d = raw_entries raw;
          tool0 = text_field d ''tool''; method0 = text_field d ''method'';
          invocation_id = (let i = text_field d ''invocation_id''
                           in if i = [] then ''invocation-local'' else i);
          (tool, method) =
            (if method0 = [] \<and> tool0 \<noteq> []
             then (case str_rsplit_dot tool0 of Some p \<Rightarrow> p | None \<Rightarrow> (tool0, method0))
             else (tool0, method0))
      in if tool = [] then Inl (ValueError ''invocation.tool is required'')
         else if method = [] then Inl (ValueError ''invocation.method is required'')
         else (case raw_args raw of
                 PDict args \<Rightarrow> Inr \<lparr>inv_invocation_id = invocation_id, inv_tool = tool,
                    inv_method = method, inv_args = args,
                    inv_hash = stable_invocation_hash env tool method args\<rparr>
               | _ \<Rightarrow> Inl (ValueError ''invocation.args must be a dict'')))"

definition normalize_context :: "pydict \<Rightarrow> context_summary" where
  "normalize_context d =
     \<lparr>ctx_trace_id = opt_str (dict_get d ''trace_id''),
      ctx_session_id = opt_str (dict_get d ''session_id''),
      ctx_agent_id = opt_str (dict_get d ''agent_id''),
      ctx_subject_id = opt_str (dict_get d ''subject_id''),
      ctx_mode_name = opt_str (dict_get d ''mode_name'')\<rparr>"

section \<open>Targets\<close>

definition arg_path :: "pydict \<Rightarrow> string option" where
  "arg_path args =
     (case opt_str (dict_get args ''path'') of
        Some t \<Rightarrow> Some t
      | None \<Rightarrow> opt_str (dict_get args ''root''))"

definition arg_command :: "pydict \<Rightarrow> string option" where
  "arg_command args =
     (case dict_get args ''argv'' of
        Some (PList argv) \<Rightarrow> strip_or_none (str_join '' '' (map py_str argv))
      | _ \<Rightarrow> opt_str (dict_get args ''command''))"

definition arg_domain :: "policy_env \<Rightarrow> pydict \<Rightarrow> string option policy_result" where
  "arg_domain env args =
     (case opt_str (dict_get args ''domain'') of
        Some d \<Rightarrow> Inr (Some d)
      | None \<Rightarrow>
          (case dict_get args ''url'' of
             Some (PStr url) \<Rightarrow> rbind (url_hostname env url)
               (\<lambda>h. Inr (case h of None \<Rightarrow> None | Some t \<Rightarrow> strip_or_none t))
           | _ \<Rightarrow> Inr None))"

definition opt_item :: "string \<Rightarrow> string option \<Rightarrow> (string \<times> string) list" where
  "opt_item key value = (case value of None \<Rightarrow> [] | Some v \<Rightarrow> [(key, v)])"

definition arg_item :: "pydict \<Rightarrow> string \<Rightarrow> (string \<times> string) list" where
  "arg_item args key = (case dict_get args key of None \<Rightarrow> [] | Some v \<Rightarrow> [(key, py_str v)])"

definition target_facts :: "policy_env \<Rightarrow> pydict \<Rightarrow> (string \<times> string) list policy_result" where
  "target_facts env args =
     rbind (arg_domain env args) (\<lambda>domain.
       Inr (opt_item ''path'' (arg_path args) @ opt_item ''command'' (arg_command args) @
            arg_item args ''host'' @ opt_item ''domain'' domain @
            arg_item args ''namespace'' @ arg_item args ''cluster'' @ arg_item args ''resource''))"

definition default_target_scope :: "policy_env \<Rightarrow> pydict \<Rightarrow> pydict policy_result" where
  "default_target_scope env args =
     rbind (arg_domain env args) (\<lambda>domain.
       Inr (map (\<lambda>(k, v). (k, PStr v))
         (opt_item ''path_prefix'' (arg_path args) @
          (case dict_get args ''argv'' of
             Some (PList (a # _)) \<Rightarrow> opt_item ''cmd_prefix'' (strip_or_none (py_str a))
           | _ \<Rightarrow> []) @
          arg_item args ''host'' @ opt_item ''domain'' domain)))"

definition target_values :: "pydict \<Rightarrow> string \<Rightarrow> string list" where
  "target_values target key =
     (case dict_get target key of
        None \<Rightarrow> []
      | Some PNone \<Rightarrow> []
      | Some (PList items) \<Rightarrow> filter (\<lambda>t. str_strip t \<noteq> []) (map py_str items)
      | Some v \<Rightarrow> [py_str v])"

definition fact :: "(string \<times> string) list \<Rightarrow> string \<Rightarrow> string" where
  "fact facts key = dict_get_or facts key []"

definition arg_equals_ok :: "pydict \<Rightarrow> pyval option \<Rightarrow> bool" where
  "arg_equals_ok args expected =
     (case expected of
        Some (PDict items) \<Rightarrow> list_all (\<lambda>(key, v). py_eq (dict_get_or args key PNone) v) items
      | _ \<Rightarrow> True)"

definition arg_contains_ok :: "pydict \<Rightarrow> pyval option \<Rightarrow> bool" where
  "arg_contains_ok args expected =
     (case expected of
        Some (PDict items) \<Rightarrow> list_all (\<lambda>(key, v).
          str_contains (py_str v)
            (case dict_get_or args key PNone of
               PList xs \<Rightarrow> str_join '' '' (map py_str xs)
             | w \<Rightarrow> py_str w)) items
      | _ \<Rightarrow> True)"

text \<open>The checks run in this order and stop at the first that fails; only the regular
  expressions can raise.\<close>

definition target_matches ::
  "policy_env \<Rightarrow> pydict \<Rightarrow> (string \<times> string) list \<Rightarrow> pydict \<Rightarrow> bool policy_result" where
  "target_matches env target facts args =
     (if target = [] then Inr True
      else if \<not> list_all (\<lambda>p. str_startswith (fact facts ''path'') p) (target_values target ''path_prefix'')
      then Inr False
      else if \<not> list_all (\<lambda>p. str_startswith (fact facts ''command'') p) (target_values target ''cmd_prefix'')
      then Inr False
      else rbind (res_all (\<lambda>e. re_search env e (fact facts ''command'')) (target_values target ''cmd_regex''))
        (\<lambda>ok. Inr (ok
          \<and> list_all (\<lambda>h. fnmatch env (fact facts ''host'') h) (target_values target ''host'')
          \<and> list_all (\<lambda>d. fnmatch env (fact facts ''domain'') d) (target_values target ''domain'')
          \<and> list_all (\<lambda>n. fact facts ''namespace'' = n) (target_values target ''namespace'')
          \<and> list_all (\<lambda>c. fact facts ''cluster'' = c) (target_values target ''cluster'')
          \<and> list_all (\<lambda>r. fact facts ''resource'' = r) (target_values target ''resource'')
          \<and> arg_equals_ok args (dict_get target ''arg_equals'')
          \<and> arg_contains_ok args (dict_get target ''arg_contains''))))"

section \<open>Grant matching\<close>

text \<open>The column checks of \<open>_grant_matches\<close>, before the target.\<close>

definition grant_applies ::
  "string \<Rightarrow> policy_grant \<Rightarrow> invocation_summary \<Rightarrow> context_summary \<Rightarrow> risk_spec \<Rightarrow> bool" where
  "grant_applies now g iv csum risk =
     (g_revoked_at g = None \<and>
      (case g_expires_at g of None \<Rightarrow> True | Some e \<Rightarrow> \<not> e \<le> now) \<and>
      (case g_max_uses g of None \<Rightarrow> True | Some m \<Rightarrow> \<not> g_uses_count g \<ge> m) \<and>
      \<not> (g_duration_type g = ''session'' \<and> \<not> opt_truthy (g_session_id g)) \<and>
      \<not> (opt_truthy (g_session_id g) \<and> g_session_id g \<noteq> ctx_session_id csum) \<and>
      \<not> (opt_truthy (g_invocation_hash g) \<and> g_invocation_hash g \<noteq> Some (inv_hash iv)) \<and>
      \<not> (g_tool g \<noteq> ''*'' \<and> g_tool g \<noteq> inv_tool iv) \<and>
      \<not> (g_method g \<noteq> ''*'' \<and> g_method g \<noteq> inv_method iv) \<and>
      (case g_risk_floor g of None \<Rightarrow> True
       | Some f \<Rightarrow> \<not> POLICY_RISK_ORDER (risk_class risk) < POLICY_RISK_ORDER f))"

definition grant_matches ::
  "policy_env \<Rightarrow> invocation_summary \<Rightarrow> context_summary \<Rightarrow> risk_spec \<Rightarrow> (string \<times> string) list \<Rightarrow>
   policy_grant \<Rightarrow> bool policy_result" where
  "grant_matches env iv csum risk facts g =
     (if \<not> grant_applies (at_match env (g_grant_id g)) g iv csum risk then Inr False
      else target_matches env (g_target_json g) facts (inv_args iv))"

definition find_matching_grants ::
  "policy_env \<Rightarrow> policy_grant list \<Rightarrow> invocation_summary \<Rightarrow> context_summary \<Rightarrow> risk_spec \<Rightarrow>
   grant_match list policy_result" where
  "find_matching_grants env gs iv csum risk =
     rbind (target_facts env (inv_args iv)) (\<lambda>facts.
     rbind (res_filter (grant_matches env iv csum risk facts) gs) (\<lambda>ms.
       Inr (map (\<lambda>g. \<lparr>gm_grant = g, gm_score = grant_specificity_score g\<rparr>) ms)))"

definition sensitive_matcher_ok ::
  "policy_env \<Rightarrow> (string \<times> string) list \<Rightarrow> pydict \<Rightarrow> pyval \<Rightarrow> bool policy_result" where
  "sensitive_matcher_ok env facts args matcher =
     (case matcher of
        PStr t \<Rightarrow> Inr (t \<noteq> [] \<and> str_contains t
          (str_join '' '' [fact facts ''path'', fact facts ''command'', fact facts ''host'',
            fact facts ''domain'']))
      | PDict d \<Rightarrow> target_matches env d facts args
      | _ \<Rightarrow> Inr False)"

definition matches_sensitive_target ::
  "policy_env \<Rightarrow> invocation_summary \<Rightarrow> risk_spec \<Rightarrow> bool policy_result" where
  "matches_sensitive_target env iv risk =
     (if sensitive_targets risk = [] then Inr False
      else rbind (target_facts env (inv_args iv)) (\<lambda>facts.
        res_any (sensitive_matcher_ok env facts (inv_args iv)) (sensitive_targets risk)))"

definition is_write_under_sandbox :: "policy_env \<Rightarrow> policy_config \<Rightarrow> pydict \<Rightarrow> bool policy_result" where
  "is_write_under_sandbox env config args =
     (case arg_path args of
        None \<Rightarrow> Inr False
      | Some raw \<Rightarrow> rbind (expanduser env raw) (\<lambda>raw_path.
          res_any (\<lambda>prefix. rbind (expanduser env prefix) (\<lambda>pref. Inr (str_startswith raw_path pref)))
            (cfg_sandbox_path_prefixes config)))"

section \<open>Decisions\<close>

definition baseline_allow_decision ::
  "string \<Rightarrow> risk_spec \<Rightarrow> bool \<Rightarrow> bool \<Rightarrow> policy_decision option" where
  "baseline_allow_decision mode risk allow_read_only is_sensitive_target =
     (if mode = ''disabled''
      then Some (mk_decision ALLOW ''POLICY_DISABLED'' ''Policy mode is disabled'' risk)
      else if risk_class risk = Read \<and> allow_read_only \<and> \<not> is_sensitive_target
      then Some (mk_decision ALLOW ''READ_ONLY_ALLOW'' ''Read-only operation allowed by default'' risk)
      else None)"

definition confirm_reason ::
  "context_summary \<Rightarrow> risk_spec \<Rightarrow> string \<Rightarrow> policy_config \<Rightarrow> bool \<Rightarrow> (string \<times> string) option" where
  "confirm_reason csum risk mode config is_sensitive_target =
     (if is_sensitive_target
      then Some (''SENSITIVE_TARGET'', ''Sensitive target requires confirmation'')
      else if str_lower (str_strip (or_empty (ctx_mode_name csum))) = ''plan''
              \<and> risk_class risk \<in> {Write, State_change, Exec, Security, Financial, Destructive}
      then Some (''PLAN_MODE_CONFIRM'', ''Plan mode requires confirmation for non-read side effects'')
      else if risk_class risk \<in> set POLICY_HIGH_CONFIRM_RISKS
      then Some (''HIGH_RISK'', ''High-risk action requires confirmation'')
      else if risk_class risk \<in> set POLICY_SIDE_EFFECT_CONFIRM_RISKS \<and> side_effects risk \<noteq> SE_none
      then Some (''SIDE_EFFECTS_CONFIRM'', ''Action with side effects requires confirmation'')
      else if reversibility risk = Rev_unknown \<and> risk_class risk \<noteq> Read
      then Some (''UNKNOWN_REVERSIBILITY'', ''Unknown reversibility requires confirmation'')
      else if mode = ''enforce_safe'' \<and> risk_class risk \<noteq> Read
      then Some (''ENFORCE_SAFE_CONFIRM'', ''enforce_safe mode requires confirmation for non-read actions'')
      else if cfg_default_action config = ''require_confirm''
              \<and> (risk_class risk \<noteq> Read \<or> \<not> cfg_allow_read_only_without_prompt config)
      then Some (''DEFAULT_CONFIRM'', ''Default policy requires confirmation for non-read actions'')
      else None)"

definition confirm_decision ::
  "policy_env \<Rightarrow> policy_config \<Rightarrow> invocation_summary \<Rightarrow> context_summary \<Rightarrow> risk_spec \<Rightarrow>
   pydict option \<Rightarrow> string \<Rightarrow> string \<Rightarrow> policy_decision store_op" where
  "confirm_decision env config iv csum risk confirmation_preview reason_code reason s =
     (case default_target_scope env (inv_args iv) of
        Inl e \<Rightarrow> (Inl e, s)
      | Inr scope \<Rightarrow>
          let d = (mk_decision REQUIRE_CONFIRM reason_code reason risk)
                \<lparr>d_confirm_request := Some (build_confirm_request iv csum risk scope),
                 d_invocation_hash := Some (inv_hash iv),
                 d_confirmation_preview := confirmation_preview\<rparr>
          in if is_policy_authorization_pair (inv_tool iv) (inv_method iv)
                \<or> is_exact_ops_command (inv_tool iv) (inv_method iv)
             then st_bind (get_or_create_exact_confirmation env iv csum
                      (opt_or (ctx_subject_id csum) (cfg_subject_id_default config))
                      confirmation_preview)
                    (\<lambda>pending t. (Inr (d\<lparr>d_approval_id := Some (pc_approval_id pending),
                        d_confirm_request := Some
                          [(''approval_id'', PStr (pc_approval_id pending)),
                           (''choices'', PList [PStr ''allow_once'', PStr ''deny'']),
                           (''preview'', PDict (pc_preview pending))]\<rparr>), t)) s
             else (Inr d, s))"

definition configured_rule_decision ::
  "policy_rule option \<Rightarrow> risk_spec \<Rightarrow> (string \<Rightarrow> string \<Rightarrow> policy_decision store_op) \<Rightarrow>
   policy_decision option store_op" where
  "configured_rule_decision matching_rule risk confirm s =
     (case matching_rule of
        None \<Rightarrow> (Inr None, s)
      | Some rule \<Rightarrow>
          (case rule_mode rule of
             Ask \<Rightarrow> st_bind (confirm ''CONFIG_RULE_ASK''
                      ''Configured exact-tool rule requires confirmation'') (\<lambda>d t. (Inr (Some d), t)) s
           | Auto \<Rightarrow> (Inr (Some ((mk_decision ALLOW ''CONFIG_RULE_AUTO''
                          ''Allowed by configured exact-tool rule'' risk)
                        \<lparr>d_details := [(''rule_mode'', PStr ''auto''),
                                      (''tool_name'', PStr (rule_tool_name rule))]\<rparr>)), s)
           | Block \<Rightarrow> (Inr None, s)))"

text \<open>The last part of the evaluation, reached when no rule, grant or exact
  authorization has decided.\<close>

definition default_decision ::
  "policy_env \<Rightarrow> policy_config \<Rightarrow> policy_config \<Rightarrow> string \<Rightarrow> invocation_summary \<Rightarrow>
   context_summary \<Rightarrow> risk_spec \<Rightarrow> (string \<Rightarrow> string \<Rightarrow> policy_decision store_op) \<Rightarrow>
   policy_decision store_op" where
  "default_decision env own_config config mode iv csum risk confirm s =
     (case matches_sensitive_target env iv risk of
        Inl e \<Rightarrow> (Inl e, s)
      | Inr sensitive \<Rightarrow>
          (case baseline_allow_decision mode risk (cfg_allow_read_only_without_prompt config) sensitive of
             Some d \<Rightarrow> (Inr d, s)
           | None \<Rightarrow>
               (case confirm_reason csum risk mode config sensitive of
                  Some (code, reason) \<Rightarrow> confirm code reason s
                | None \<Rightarrow>
                    let fallback = mk_decision ALLOW ''NO_MATCHING_GRANT''
                          ''No matching grant; default allow'' risk
                    in if risk_class risk = Write
                       then (case is_write_under_sandbox env own_config (inv_args iv) of
                               Inl e \<Rightarrow> (Inl e, s)
                             | Inr True \<Rightarrow> (Inr (mk_decision ALLOW ''SANDBOX_WRITE_ALLOW''
                                   ''Write scoped to sandbox path is allowed'' risk), s)
                             | Inr False \<Rightarrow> (Inr fallback, s))
                       else (Inr fallback, s))))"

definition evaluate_enforced ::
  "policy_env \<Rightarrow> policy_config \<Rightarrow> invocation_summary \<Rightarrow> context_summary \<Rightarrow> risk_spec \<Rightarrow> bool \<Rightarrow>
   string \<Rightarrow> policy_config \<Rightarrow> pydict option \<Rightarrow> policy_decision store_op" where
  "evaluate_enforced env own_config iv csum risk consume_grants mode config confirmation_preview s0 =
     (let s = snd (cleanup_expired (at_cleanup env) s0);
          subject_id = opt_or (ctx_subject_id csum) (cfg_subject_id_default config);
          matching_rule = select_policy_rule iv risk config;
          confirm = confirm_decision env own_config iv csum risk confirmation_preview
      in case blocked_rule_decision matching_rule risk of
           Some d \<Rightarrow> (Inr d, s)
         | None \<Rightarrow>
             (case find_matching_grants env
                     (list_grants (at_list env) (Some subject_id) None None None True s)
                     iv csum risk of
                Inl e \<Rightarrow> (Inl e, s)
              | Inr matches \<Rightarrow>
                  (case matching_grant_decision (at_use env) matches iv risk consume_grants s of
                     (Some d, t) \<Rightarrow> (Inr d, t)
                   | (None, t) \<Rightarrow>
                       st_bind (resolve_exact_authorization_decision env iv csum subject_id risk confirm)
                         (\<lambda>exact u. case exact of
                            Some d \<Rightarrow> (Inr d, u)
                          | None \<Rightarrow>
                              st_bind (configured_rule_decision matching_rule risk confirm)
                                (\<lambda>ruled v. case ruled of
                                   Some d \<Rightarrow> (Inr d, v)
                                 | None \<Rightarrow> default_decision env own_config config mode iv csum risk confirm v)
                                u) t)))"

section \<open>The public operations\<close>

definition ctl_mode :: "policy_ctl \<Rightarrow> policy_store \<Rightarrow> string" where
  "ctl_mode ctl s = opt_or (get_setting ''mode'' s) (cfg_mode (ctl_config ctl))"

definition set_mode :: "string \<Rightarrow> unit store_op" where
  "set_mode mode s =
     (let normalized = str_lower (str_strip mode)
      in if normalized \<notin> {''disabled'', ''log_only'', ''enforce'', ''enforce_safe''}
         then (Inl (ValueError (''Invalid mode: '' @ mode)), s)
         else (Inr (), set_setting ''mode'' normalized s))"

definition register_risk :: "string \<Rightarrow> risk_spec \<Rightarrow> policy_ctl \<Rightarrow> policy_ctl" where
  "register_risk key spec ctl = ctl\<lparr>ctl_registry := dict_set (ctl_registry ctl) key spec\<rparr>"

fun decision_str :: "decision_type \<Rightarrow> string" where
  "decision_str ALLOW = ''ALLOW''"
| "decision_str DENY = ''DENY''"
| "decision_str REQUIRE_CONFIRM = ''REQUIRE_CONFIRM''"

definition ctl_log_decision ::
  "policy_env \<Rightarrow> policy_config \<Rightarrow> invocation_summary \<Rightarrow> context_summary \<Rightarrow> policy_decision \<Rightarrow> unit store_op" where
  "ctl_log_decision env config iv csum d s =
     (if \<not> cfg_decision_log_enabled config then (Inr (), s)
      else st_bind (log_decision (at_log env)
             \<lparr>dr_decision_id = new_decision_id env, dr_trace_id = ctx_trace_id csum,
              dr_session_id = ctx_session_id csum, dr_agent_id = ctx_agent_id csum,
              dr_invocation_id = inv_invocation_id iv, dr_tool = inv_tool iv,
              dr_method = inv_method iv, dr_decision = str_lower (decision_str (d_decision d)),
              dr_matched_grant_id = d_matched_grant_id d, dr_reason_code = d_reason_code d,
              dr_approval_id = d_approval_id d, dr_invocation_hash = Some (inv_hash iv),
              dr_risk_spec = RiskSpec_to_dict (d_risk d), dr_created_at = []\<rparr>)
             (\<lambda>_ t. (Inr (), t)) s)"

text \<open>The optional arguments of \<open>check\<close>.\<close>

record check_options =
  co_risk_override :: "risk_spec option"
  co_trusted_risk_override :: "risk_spec option"
  co_config_overrides :: "policy_config option"
  co_confirmation_preview :: "pydict option"
  co_confirmation_preview_error :: "string option"

definition check_risk :: "policy_ctl \<Rightarrow> check_options \<Rightarrow> invocation_summary \<Rightarrow> risk_spec" where
  "check_risk ctl opts iv =
     (let registered = resolve_risk (ctl_registry ctl) iv
      in if is_policy_authorization_pair (inv_tool iv) (inv_method iv) then registered
         else case co_trusted_risk_override opts of
                Some r \<Rightarrow> r
              | None \<Rightarrow> merge_policy_risk registered (co_risk_override opts))"

definition check_config :: "policy_ctl \<Rightarrow> check_options \<Rightarrow> policy_config" where
  "check_config ctl opts =
     (case co_config_overrides opts of None \<Rightarrow> ctl_config ctl | Some c \<Rightarrow> c)"

definition check_mode :: "policy_ctl \<Rightarrow> check_options \<Rightarrow> policy_store \<Rightarrow> string" where
  "check_mode ctl opts s =
     (case co_config_overrides opts of None \<Rightarrow> ctl_mode ctl s | Some c \<Rightarrow> cfg_mode c)"

definition log_only_decision :: "policy_decision \<Rightarrow> risk_spec \<Rightarrow> policy_decision" where
  "log_only_decision enforced risk =
     (mk_decision ALLOW ''LOG_ONLY_ALLOW'' ''Policy log_only mode does not block actions'' risk)
       \<lparr>d_matched_grant_id := d_matched_grant_id enforced,
        d_confirm_request := d_confirm_request enforced,
        d_details := dict_set (dict_set (d_details enforced) ''would_decision''
            (PStr (decision_str (d_decision enforced))))
          ''would_reason_code'' (PStr (d_reason_code enforced))\<rparr>"

definition check_normalized ::
  "policy_env \<Rightarrow> policy_ctl \<Rightarrow> check_options \<Rightarrow> invocation_summary \<Rightarrow> context_summary \<Rightarrow>
   policy_decision store_op" where
  "check_normalized env ctl opts iv csum s =
     (let risk = check_risk ctl opts iv; config = check_config ctl opts;
          mode = check_mode ctl opts s; preview = co_confirmation_preview opts
      in case authorization_preflight_decision iv csum risk mode preview
                (co_confirmation_preview_error opts) of
           Some d \<Rightarrow> st_bind (ctl_log_decision env (ctl_config ctl) iv csum d) (\<lambda>_ t. (Inr d, t)) s
         | None \<Rightarrow>
             st_bind (evaluate_enforced env (ctl_config ctl) iv csum risk (mode \<noteq> ''log_only'')
                 mode config preview)
               (\<lambda>enforced. st_bind (ctl_log_decision env (ctl_config ctl) iv csum enforced)
                 (\<lambda>_ t. (Inr (if mode = ''log_only'' then log_only_decision enforced risk
                             else enforced), t))) s)"

definition check ::
  "policy_env \<Rightarrow> policy_ctl \<Rightarrow> check_options \<Rightarrow> raw_invocation \<Rightarrow> pydict \<Rightarrow> policy_decision store_op" where
  "check env ctl opts raw ctx s =
     (case normalize_invocation env raw of
        Inl e \<Rightarrow> (Inl e, s)
      | Inr iv \<Rightarrow> check_normalized env ctl opts iv (normalize_context ctx) s)"

definition exact_grant_error :: "string \<Rightarrow> string \<Rightarrow> policy_error" where
  "exact_grant_error tool method =
     (if is_exact_blockchain_send tool method
      then PolicyControlError ''BLOCKCHAIN_SEND_GRANT_REQUIRES_CONFIRMATION''
             ''Blockchain send grants require a pending confirmation.'' []
      else PolicyControlError ''EXACT_AUTHORIZATION_REQUIRES_CONFIRMATION''
             ''Exact action grants require a pending confirmation.'' [])"

definition create_grant :: "policy_env \<Rightarrow> string \<Rightarrow> grant_input \<Rightarrow> string store_op" where
  "create_grant env new_grant_id gi s =
     (if is_policy_authorization_pair (gi_tool gi) (gi_method gi)
      then (Inl (exact_grant_error (gi_tool gi) (gi_method gi)), s)
      else case validate_grant_input (fromisoformat env) gi of
             Inl e \<Rightarrow> (Inl e, s)
           | Inr valid \<Rightarrow> store_create_grant (at_use env) new_grant_id valid s)"

definition create_grant_from_confirmation ::
  "policy_env \<Rightarrow> policy_ctl \<Rightarrow> string \<Rightarrow> raw_invocation \<Rightarrow> pydict \<Rightarrow> string \<Rightarrow> int option \<Rightarrow>
   pydict \<Rightarrow> int option \<Rightarrow> string store_op" where
  "create_grant_from_confirmation env ctl new_grant_id raw ctx action until_seconds
       scope_overrides max_uses s =
     (let csum = normalize_context ctx in
      case rbind (normalize_invocation env raw) (\<lambda>iv.
             if is_policy_authorization_pair (inv_tool iv) (inv_method iv)
             then Inl (exact_grant_error (inv_tool iv) (inv_method iv))
             else rbind (default_target_scope env (inv_args iv)) (\<lambda>scope.
               rbind (confirmation_grant_terms (plus_seconds env) action (ctx_session_id csum)
                   (inv_hash iv) until_seconds) (\<lambda>(duration, expires_at, session_id, invocation_hash).
                 if requires_once_duration (inv_tool iv) (inv_method iv) None \<and> duration \<noteq> ''once''
                 then Inl (ValueError (inv_tool iv @ ''.'' @ inv_method iv @ '' approvals must be allow once''))
                 else Inr \<lparr>gi_effect = ''allow'', gi_tool = inv_tool iv, gi_method = inv_method iv,
                    gi_target_json = dict_update scope scope_overrides,
                    gi_duration_type = duration,
                    gi_subject_id = opt_or (ctx_subject_id csum) (cfg_subject_id_default (ctl_config ctl)),
                    gi_expires_at = expires_at, gi_session_id = session_id,
                    gi_invocation_hash = invocation_hash, gi_max_uses = max_uses,
                    gi_reason = Some (''created_from_confirmation:'' @ action),
                    gi_created_trace_id = ctx_trace_id csum, gi_risk_floor = None,
                    gi_approval_id = None\<rparr>))) of
        Inl e \<Rightarrow> (Inl e, s)
      | Inr gi \<Rightarrow> create_grant env new_grant_id gi s)"

end
