(* ===== verification/Policy_Check.thy ===== *)
theory Policy_Check
  imports Policy_Service
begin

text \<open>
  What \<open>check\<close> decides and keeps: the shape of every outcome, the invariant of the store,
  and the step relation of the service with its reachable states.
\<close>

section \<open>Outcomes of the parts\<close>

lemma confirm_decision_Inr:
  "confirm_decision env config iv csum risk p code reason s = (Inr d, t) \<Longrightarrow>
     d_decision d = REQUIRE_CONFIRM \<and> d_reason_code d = code"
  by (auto simp: confirm_decision_def Let_def elim!: st_bind_InrE split: sum.splits if_splits)

lemma configured_rule_decision_Some:
  assumes "configured_rule_decision rule risk (confirm_decision env c iv csum risk p) s = (Inr (Some d), t)"
  shows "(d_decision d = REQUIRE_CONFIRM \<and> d_reason_code d = ''CONFIG_RULE_ASK'') \<or>
    (d_decision d = ALLOW \<and> d_reason_code d = ''CONFIG_RULE_AUTO'' \<and>
       (\<exists>r. rule = Some r \<and> rule_mode r = Auto))"
  using assms
  by (auto simp: configured_rule_decision_def elim!: st_bind_InrE dest: confirm_decision_Inr
      split: option.splits rule_mode.splits)

lemma confirm_reason_high:
  "risk_class risk \<in> set POLICY_HIGH_CONFIRM_RISKS \<Longrightarrow> confirm_reason csum risk mode config b \<noteq> None"
  by (simp add: confirm_reason_def)

lemma baseline_allow_Some:
  "baseline_allow_decision mode risk ro b = Some d \<Longrightarrow>
     d_decision d = ALLOW \<and>
     (mode = ''disabled'' \<and> d_reason_code d = ''POLICY_DISABLED'' \<or>
      risk_class risk = Read \<and> \<not> b \<and> d_reason_code d = ''READ_ONLY_ALLOW'')"
  by (auto simp: baseline_allow_decision_def split: if_splits)

text \<open>An allowance by default is for a disabled policy or for a risk that no rule of
  \<^const>\<open>confirm_reason\<close> covers.\<close>

lemma default_decision_ALLOW:
  assumes "default_decision env own config mode iv csum risk (confirm_decision env c iv csum risk p) s
      = (Inr d, t)" and "d_decision d = ALLOW"
  shows "(mode = ''disabled'' \<and> d_reason_code d = ''POLICY_DISABLED'') \<or>
    (risk_class risk = Read \<and> d_reason_code d = ''READ_ONLY_ALLOW'') \<or>
    (\<exists>b. confirm_reason csum risk mode config b = None \<and>
       d_reason_code d \<in> {''SANDBOX_WRITE_ALLOW'', ''NO_MATCHING_GRANT''})"
  using assms
  by (auto simp: default_decision_def Let_def dest!: baseline_allow_Some
      dest: confirm_decision_Inr split: sum.splits option.splits if_splits bool.splits)

section \<open>The evaluation\<close>

text \<open>The ways to reach a decision, in the order of the code.\<close>

lemma evaluate_enforced_cases:
  fixes env own iv csum risk config p s0
  defines "s \<equiv> snd (cleanup_expired (at_cleanup env) s0)"
    and "subject \<equiv> opt_or (ctx_subject_id csum) (cfg_subject_id_default config)"
    and "rule \<equiv> select_policy_rule iv risk config"
    and "confirm \<equiv> confirm_decision env own iv csum risk p"
  assumes run: "evaluate_enforced env own iv csum risk cg mode config p s0 = (Inr d, t)"
  obtains
    (blocked) "blocked_rule_decision rule risk = Some d"
  | (granted) ms where "blocked_rule_decision rule risk = None"
      "find_matching_grants env (list_grants (at_list env) (Some subject) None None None True s)
         iv csum risk = Inr ms"
      "matching_grant_decision (at_use env) ms iv risk cg s = (Some d, t)"
  | (exact) ms u where
      "matching_grant_decision (at_use env) ms iv risk cg s = (None, u)"
      "resolve_exact_authorization_decision env iv csum subject risk confirm u = (Inr (Some d), t)"
  | (ruled) ms u v where
      "matching_grant_decision (at_use env) ms iv risk cg s = (None, u)"
      "resolve_exact_authorization_decision env iv csum subject risk confirm u = (Inr None, v)"
      "configured_rule_decision rule risk confirm v = (Inr (Some d), t)"
  | (default) ms u v w where
      "matching_grant_decision (at_use env) ms iv risk cg s = (None, u)"
      "resolve_exact_authorization_decision env iv csum subject risk confirm u = (Inr None, v)"
      "configured_rule_decision rule risk confirm v = (Inr None, w)"
      "default_decision env own config mode iv csum risk confirm w = (Inr d, t)"
proof (cases "blocked_rule_decision rule risk")
  case (Some b)
  with run show ?thesis using blocked
    by (simp add: evaluate_enforced_def Let_def rule_def)
next
  case None
  then obtain ms where ms:
    "find_matching_grants env (list_grants (at_list env) (Some subject) None None None True s)
       iv csum risk = Inr ms"
    using run
    by (auto simp: evaluate_enforced_def Let_def rule_def subject_def s_def split: sum.splits)
  obtain r u where u: "matching_grant_decision (at_use env) ms iv risk cg s = (r, u)"
    by (cases "matching_grant_decision (at_use env) ms iv risk cg s")
  show ?thesis
  proof (cases r)
    case (Some e)
    with run None ms u have "d = e \<and> t = u"
      by (simp add: evaluate_enforced_def Let_def rule_def subject_def s_def)
    with granted [OF None ms] u Some show ?thesis by simp
  next
    case r: None
    have run2: "st_bind (resolve_exact_authorization_decision env iv csum subject risk confirm)
      (\<lambda>exact u. case exact of Some d \<Rightarrow> (Inr d, u) | None \<Rightarrow>
        st_bind (configured_rule_decision rule risk confirm)
          (\<lambda>ruled v. case ruled of Some d \<Rightarrow> (Inr d, v)
            | None \<Rightarrow> default_decision env own config mode iv csum risk confirm v) u) u = (Inr d, t)"
      using run None ms u r
      unfolding evaluate_enforced_def Let_def rule_def subject_def s_def confirm_def by simp
    then show ?thesis
      by (elim st_bind_InrE)
        (use u r in \<open>auto elim!: st_bind_InrE split: option.splits intro: exact ruled default\<close>)
  qed
qed

section \<open>The check\<close>

text \<open>What the code relies on from \<open>hashlib\<close>: a digest is a non-empty text.\<close>

definition digest_ok :: "policy_env \<Rightarrow> bool" where
  "digest_ok env = (\<forall>tool method args. digest env tool method args \<noteq> [])"

lemma normalize_invocation_Inr:
  assumes "normalize_invocation env raw = Inr iv"
  shows "inv_tool iv \<noteq> []" "inv_method iv \<noteq> []"
    "inv_hash iv = stable_invocation_hash env (inv_tool iv) (inv_method iv) (inv_args iv)"
  using assms
  by (auto simp: normalize_invocation_def Let_def split: prod.splits if_splits pyval.splits)

lemma normalize_invocation_hash:
  "normalize_invocation env raw = Inr iv \<Longrightarrow> digest_ok env \<Longrightarrow> inv_hash iv \<noteq> []"
  by (drule normalize_invocation_Inr(3)) (simp add: digest_ok_def stable_invocation_hash_def)

text \<open>The log writes the decision table only.\<close>

lemma ctl_log_decision_frame:
  "grants (snd (ctl_log_decision env config iv csum d s)) = grants s"
  "pendings (snd (ctl_log_decision env config iv csum d s)) = pendings s"
  "settings (snd (ctl_log_decision env config iv csum d s)) = settings s"
  by (simp_all add: ctl_log_decision_def st_bind_def log_decision_def split: option.split)

lemma validate_grant_input_fields:
  assumes "validate_grant_input parse gi = Inr v"
  shows "v = gi\<lparr>gi_expires_at := gi_expires_at v\<rparr>"
  using assms
  by (auto simp: validate_grant_input_def split: if_splits option.splits iso_parse.splits)


section \<open>What the primitive operations keep, the service keeps\<close>

text \<open>The service touches the store only through the operations named here; a property that
  each of them keeps is kept by \<^const>\<open>check\<close> and by the creation of grants.\<close>

locale kept_by_store =
  fixes P :: "policy_store \<Rightarrow> bool"
  assumes kept_cleanup: "P s \<Longrightarrow> P (snd (cleanup_expired now s))"
    and kept_consume: "P s \<Longrightarrow> P (snd (consume_grant_use now gid s))"
    and kept_pending: "P s \<Longrightarrow> pr_invocation_hash r \<noteq> [] \<and> is_exact_pair (pr_tool r) (pr_method r) \<Longrightarrow>
      P (snd (get_or_create_pending_confirmation pinv now e a r s))"
    and kept_matching: "P s \<Longrightarrow>
      P (snd (resolve_matching_active_grant_for_use pinv now sub tool meth h sid s))"
    and kept_log: "P s \<Longrightarrow> P (snd (log_decision now row s))"
    and kept_insert: "P s \<Longrightarrow> \<not> is_policy_authorization_pair (gi_tool gi) (gi_method gi) \<Longrightarrow>
      gi_approval_id gi = None \<Longrightarrow> validate_grant_input parse gi0 = Inr gi \<Longrightarrow>
      P (snd (insert_grant gid gi now s))"
begin

lemma kept_grant_decision: "P s \<Longrightarrow> P (snd (matching_grant_decision now ms iv risk c s))"
  using kept_consume [of s now]
  by (auto simp: matching_grant_decision_def Let_def split: option.splits prod.splits)
    (metis snd_conv)+

lemma kept_exact_confirmation:
  "P s \<Longrightarrow> inv_hash iv \<noteq> [] \<Longrightarrow> is_exact_pair (inv_tool iv) (inv_method iv) \<Longrightarrow>
     P (snd (get_or_create_exact_confirmation env iv csum sub p s))"
  by (auto simp: get_or_create_exact_confirmation_def Let_def kept_pending split: sum.splits)

lemma kept_exact_ops: "P s \<Longrightarrow> P (snd (resolve_exact_ops_decision env iv csum sub risk s))"
  unfolding resolve_exact_ops_decision_def
  by (rule st_bind_keeps [where P = P]) (simp_all add: kept_matching)

lemma kept_confirm:
  assumes "P s" and "inv_hash iv \<noteq> []"
  shows "P (snd (confirm_decision env config iv csum risk p code reason s))"
proof -
  have "P (snd (st_bind (get_or_create_exact_confirmation env iv csum sub p) k s))"
    if "\<And>c t. snd (k c t) = t" "is_exact_pair (inv_tool iv) (inv_method iv)"
    for sub and k :: "pending_confirmation \<Rightarrow> policy_decision store_op"
    by (rule st_bind_keeps [where P = P]) (simp_all add: kept_exact_confirmation assms that)
  then show ?thesis
    by (cases "default_target_scope env (inv_args iv)")
      (simp_all add: confirm_decision_def Let_def assms is_exact_pair_def is_exact_ops_command_def)
qed

lemma kept_ask:
  assumes "P t" and "inv_hash iv \<noteq> []"
  shows "P (snd (st_bind (confirm_decision env own iv csum risk p c r) (\<lambda>d u. (Inr (Some d), u)) t))"
  by (rule st_bind_keeps [where P = P]) (simp_all add: kept_confirm assms)

lemma kept_exact_authorization:
  assumes "P s" and "inv_hash iv \<noteq> []"
  shows "P (snd (resolve_exact_authorization_decision env iv csum sub risk
    (confirm_decision env own iv csum risk p) s))"
proof -
  have "P (snd (st_bind (resolve_exact_ops_decision env iv csum sub risk)
      (\<lambda>decision s. case decision of Some d \<Rightarrow> (Inr (Some d), s)
        | None \<Rightarrow> st_bind (confirm_decision env own iv csum risk p c r) (\<lambda>d s. (Inr (Some d), s)) s) s))"
    for c r
    by (rule st_bind_keeps [where P = P]) (simp_all add: kept_exact_ops kept_ask assms split: option.split)
  then show ?thesis
    by (simp add: resolve_exact_authorization_decision_def kept_ask assms)
qed

lemma kept_configured_rule:
  "P s \<Longrightarrow> inv_hash iv \<noteq> [] \<Longrightarrow>
     P (snd (configured_rule_decision rule risk (confirm_decision env own iv csum risk p) s))"
  by (simp add: configured_rule_decision_def kept_ask split: option.split rule_mode.split)

lemma kept_default:
  "P s \<Longrightarrow> inv_hash iv \<noteq> [] \<Longrightarrow> P (snd (default_decision env own config mode iv csum risk
     (confirm_decision env own iv csum risk p) s))"
  by (auto simp: default_decision_def Let_def kept_confirm split: sum.splits option.splits bool.splits)

lemma kept_enforced:
  assumes P: "P s0" and hash: "inv_hash iv \<noteq> []"
  shows "P (snd (evaluate_enforced env own iv csum risk cg mode config p s0))"
proof -
  let ?s = "snd (cleanup_expired (at_cleanup env) s0)"
  let ?confirm = "confirm_decision env own iv csum risk p"
  let ?subject = "opt_or (ctx_subject_id csum) (cfg_subject_id_default config)"
  let ?rule = "select_policy_rule iv risk config"
  let ?rest = "\<lambda>u. st_bind (configured_rule_decision ?rule risk ?confirm)
      (\<lambda>ruled v. case ruled of Some d \<Rightarrow> (Inr d, v)
        | None \<Rightarrow> default_decision env own config mode iv csum risk ?confirm v) u"
  have s: "P ?s" by (rule kept_cleanup [OF P])
  have rest: "P (snd (?rest u))" if "P u" for u
    by (rule st_bind_keeps [where P = P])
      (simp_all add: kept_configured_rule kept_default hash that split: option.split)
  have tail: "P (snd (st_bind
      (resolve_exact_authorization_decision env iv csum ?subject risk ?confirm)
      (\<lambda>exact u. case exact of Some d \<Rightarrow> (Inr d, u) | None \<Rightarrow> ?rest u) t))"
    if "P t" for t
    by (rule st_bind_keeps [where P = P])
      (simp_all add: kept_exact_authorization hash rest that split: option.split)
  have grant: "P t" if "matching_grant_decision (at_use env) ms iv risk cg ?s = (r, t)" for ms r t
    using kept_grant_decision [OF s, of "at_use env" ms iv risk cg] that by simp
  show ?thesis
    unfolding evaluate_enforced_def Let_def
    by (auto simp: s tail dest: grant split: option.split sum.split prod.split)
qed

lemma kept_ctl_log: "P s \<Longrightarrow> P (snd (ctl_log_decision env config iv csum d s))"
  by (auto simp: ctl_log_decision_def intro!: st_bind_keeps [where P = P] kept_log)

lemma kept_check_normalized:
  assumes "P s" and "inv_hash iv \<noteq> []"
  shows "P (snd (check_normalized env ctl opts iv csum s))"
proof -
  have log: "P (snd (st_bind (ctl_log_decision env c iv csum d) (\<lambda>_ t. (Inr (x :: policy_decision), t)) u))"
    if "P u" for c d x u
    by (rule st_bind_keeps [where P = P]) (simp_all add: kept_ctl_log that)
  show ?thesis
    unfolding check_normalized_def Let_def
    by (auto intro!: log st_bind_keeps [where P = P] kept_enforced assms split: option.split)
qed

lemma kept_check: "P s \<Longrightarrow> digest_ok env \<Longrightarrow> P (snd (check env ctl opts raw ctx s))"
  by (auto simp: check_def kept_check_normalized normalize_invocation_hash split: sum.split)

lemma kept_create_grant:
  assumes "P s" and "gi_approval_id gi = None"
  shows "P (snd (create_grant env gid gi s))"
proof (cases "is_policy_authorization_pair (gi_tool gi) (gi_method gi)")
  case True
  with assms show ?thesis by (simp add: create_grant_def)
next
  case False
  show ?thesis
  proof (cases "validate_grant_input (fromisoformat env) gi")
    case (Inr v)
    then have v: "v = gi\<lparr>gi_expires_at := gi_expires_at v\<rparr>" by (rule validate_grant_input_fields)
    have "gi_tool v = gi_tool gi" "gi_method v = gi_method gi" "gi_approval_id v = None"
      using assms(2) by (subst v; simp)+
    with False have "P (snd (insert_grant gid v now s))" for now
      by (simp add: kept_insert [OF assms(1) _ _ Inr])
    then have "P (snd (store_create_grant now gid v s))" for now
      unfolding store_create_grant_def by (rule st_bind_keeps) simp
    with False Inr show ?thesis by (simp add: create_grant_def)
  qed (simp add: create_grant_def False assms)
qed

lemma kept_create_from_confirmation:
  assumes "P s"
  shows "P (snd (create_grant_from_confirmation env ctl gid raw ctx act secs over mx s))"
  unfolding create_grant_from_confirmation_def Let_def
  by (auto intro!: kept_create_grant simp: assms split: sum.split if_splits)

end

interpretation kept_inv: kept_by_store store_inv
proof
  show "store_inv (snd (insert_grant gid gi now s))"
    if "store_inv s" "\<not> is_policy_authorization_pair (gi_tool gi) (gi_method gi)" "gi_approval_id gi = None"
    for s gi gid now
    using insert_grant_inv [OF that(1) _ that(2,3)] by (metis prod.collapse)
qed (simp_all add: cleanup_expired_inv consume_grant_use_inv get_or_create_pending_inv
    resolve_matching_active_inv log_decision_inv)

end
