(* ===== verification/Policy_System.thy ===== *)
theory Policy_System
  imports Policy_Check
begin

text \<open>
  The policy service as a transition system: one step per public call, whatever its
  arguments and clock readings, and the properties of every reachable store.
\<close>

section \<open>The step relation\<close>

text \<open>A grant handed to \<^const>\<open>create_grant\<close> carries no approval id: in the program only
  \<^const>\<open>resolve_confirmation\<close> fills that field.\<close>

inductive policy_step :: "policy_store \<Rightarrow> policy_store \<Rightarrow> bool" where
  step_check: "digest_ok env \<Longrightarrow> check env ctl opts raw ctx s = (r, t) \<Longrightarrow> policy_step s t"
| step_create: "gi_approval_id gi = None \<Longrightarrow> create_grant env gid gi s = (r, t) \<Longrightarrow> policy_step s t"
| step_create_from_confirmation:
    "create_grant_from_confirmation env ctl gid raw ctx action secs over uses s = (r, t) \<Longrightarrow>
     policy_step s t"
| step_revoke: "revoke_grant now gid s = (b, t) \<Longrightarrow> policy_step s t"
| step_resolve_active:
    "resolve_active_grant_for_use now gid sub tool meth req s = (g, t) \<Longrightarrow> policy_step s t"
| step_resolve_confirmation:
    "resolve_confirmation pinv now gid approval action s = (r, t) \<Longrightarrow> policy_step s t"
| step_resolve_matching:
    "resolve_matching_active_grant_for_use pinv now sub tool meth h sid s = (g, t) \<Longrightarrow> policy_step s t"
| step_cleanup: "cleanup_expired now s = (n, t) \<Longrightarrow> policy_step s t"
| step_set_mode: "set_mode mode s = (r, t) \<Longrightarrow> policy_step s t"

lemma set_mode_inv: "store_inv s \<Longrightarrow> store_inv (snd (set_mode mode s))"
  by (simp add: set_mode_def Let_def set_setting_inv)

lemmas policy_op_invs = kept_inv.kept_check kept_inv.kept_create_grant
  kept_inv.kept_create_from_confirmation
  revoke_grant_inv resolve_active_inv resolve_confirmation_inv resolve_matching_active_inv
  cleanup_expired_inv set_mode_inv

lemma policy_step_inv: "policy_step s t \<Longrightarrow> store_inv s \<Longrightarrow> store_inv t"
  by (induction rule: policy_step.induct) (metis policy_op_invs snd_conv)+

interpretation policy: invariant_system policy_step store_inv
  by unfold_locales (rule policy_step_inv)

lemma policy_reach_inv: "reach policy_step empty_store s \<Longrightarrow> store_inv s"
  by (rule policy.inv_reach [OF _ store_inv_empty])

section \<open>Approvals\<close>

lemma approval_unique:
  assumes inv: "store_inv s" and g: "g \<in> set (grants s)" "h \<in> set (grants s)"
    and a: "g_approval_id g = Some a" "g_approval_id h = Some a"
  shows "g = h"
proof -
  obtain c where c: "c \<in> set (pendings s)" "approved_by c g"
    using store_invD(5) [OF inv g(1)] a(1) by (auto simp: needs_approval_def)
  obtain d where d: "d \<in> set (pendings s)" "approved_by d h"
    using store_invD(5) [OF inv g(2)] a(2) by (auto simp: needs_approval_def)
  have "pc_approval_id c = pc_approval_id d" using c d a by (simp add: approved_by_def)
  with c d store_invD(2) [OF inv] have "c = d"
    by (auto simp: keys_unique_def distinct_map inj_on_def)
  with c d have "g_grant_id g = g_grant_id h" by (simp add: approved_by_def)
  then show ?thesis by (rule same_row [OF inv g])
qed

lemma approved_uses:
  assumes "store_inv s" "g \<in> set (grants s)" "approved_by c g"
  shows "g_uses_count g \<in> {0, 1} \<and> (g_uses_count g = 1 \<longrightarrow> g_revoked_at g \<noteq> None)"
  using store_invD(4) [OF assms(1,2)] assms(3) by (auto simp: grant_ok_def approved_by_def)

lemma list_grants_sub:
  assumes "g \<in> set (list_grants now sub e t m act s)"
  shows "g \<in> set (grants s) \<and> filter_arg sub (g_subject_id g)"
  using assms by (simp add: list_grants_def)

lemma find_matching_grants_Inr:
  assumes "find_matching_grants env gs iv csum risk = Inr ms" and "m \<in> set ms"
  shows "gm_grant m \<in> set gs \<and> grant_applies (at_match env (g_grant_id (gm_grant m))) (gm_grant m) iv csum risk"
  using assms
  by (auto simp: find_matching_grants_def res_filter_iff grant_matches_def split: if_splits)

lemma cleanup_frame [simp]: "pendings (snd (cleanup_expired now s)) = pendings s"
  by (simp add: cleanup_expired_def)

text \<open>What an approval must be to let an exact action through.\<close>

definition approval_covers ::
  "pending_confirmation \<Rightarrow> invocation_summary \<Rightarrow> context_summary \<Rightarrow> string \<Rightarrow> bool" where
  "approval_covers c iv csum subject =
     (pc_state c = Allowed \<and> pc_tool c = inv_tool iv \<and> pc_method c = inv_method iv \<and>
      pc_invocation_hash c = inv_hash iv \<and> pc_subject_id c = subject \<and>
      (opt_truthy (pc_session_id c) \<longrightarrow> ctx_session_id csum \<in> {None, pc_session_id c}))"

lemma exact_pair_no_star: "is_exact_pair tool method \<Longrightarrow> tool \<noteq> ''*'' \<and> method \<noteq> ''*''"
  by (auto simp: is_exact_pair_def authorization_pair_iff)

lemma granted_pair_covered:
  assumes inv: "store_inv s" and hash: "inv_hash iv \<noteq> []" and sub: "subject \<noteq> []"
    and pair: "is_policy_authorization_pair (inv_tool iv) (inv_method iv)"
    and ms: "find_matching_grants env (list_grants now (Some subject) None None None True s)
      iv csum risk = Inr ms"
    and run: "matching_grant_decision use ms iv risk cg s = (Some d, t)" "d_decision d = ALLOW"
  shows "\<exists>c\<in>set (pendings s). approval_covers c iv csum subject \<and> d_approval_id d = Some (pc_approval_id c)"
proof -
  from matching_grant_decision_Some [OF run(1)] obtain m
    where m: "m \<in> set (narrow_matches iv risk ms)" "g_effect (gm_grant m) \<noteq> ''deny''"
      "d = explicit_allow (gm_grant m) iv risk"
    using run(2) by (auto simp: explicit_deny_def split: if_splits)
  let ?g = "gm_grant m"
  have "m \<in> set ms" by (rule narrow_matches_subset [OF m(1)])
  from find_matching_grants_Inr [OF ms this]
  have g: "?g \<in> set (grants s)" "g_subject_id ?g = subject"
    and app: "grant_applies (at_match env (g_grant_id ?g)) ?g iv csum risk"
    using sub by (auto dest!: list_grants_sub simp: filter_arg_def)
  have "needs_approval ?g"
    using narrow_matches_pair(1) [OF pair m(1)] by (auto simp: needs_approval_def opt_truthy_def split: option.splits)
  with store_invD(5) [OF inv g(1)] obtain c where c: "c \<in> set (pendings s)" "approved_by c ?g" by blast
  note ok = store_invD(3) [OF inv c(1)]
  have "approval_covers c iv csum subject"
    using c(2) app g(2) ok exact_pair_no_star [of "pc_tool c" "pc_method c"]
    by (auto simp: approval_covers_def approved_by_def grant_applies_def)
  moreover have "d_approval_id d = Some (pc_approval_id c)"
    using m(3) c(2) by (simp add: explicit_allow_def approved_by_def)
  ultimately show ?thesis using c(1) by blast
qed

lemma matching_active_body_Some:
  assumes run: "matching_active_body pinv now sub tool meth h sid s = ((Some g, a), t)"
  shows "g \<in> set (grants s)" and "usable now g"
    and "\<exists>c\<in>set (pendings s). pc_state c = Allowed \<and> g_approval_id g = Some (pc_approval_id c) \<and>
       pc_tool c = tool \<and> pc_method c = meth \<and> pc_invocation_hash c = h \<and> pc_subject_id c = sub \<and>
       (sid \<noteq> None \<longrightarrow> or_empty (pc_session_id c) = or_empty sid)"
    and "t = s\<lparr>grants := sql_update (\<lambda>r. g_grant_id r = g_grant_id g \<and> g_revoked_at r = None \<and> uses_left r)
      (set_used now (Some now)) (grants s)\<rparr>"
proof -
  let ?q = "\<lambda>g. g_subject_id g = sub \<and> g_effect g = ''allow'' \<and> g_tool g = tool \<and>
      g_method g = meth \<and> g_invocation_hash g = Some h \<and>
      (case sid of None \<Rightarrow> True | Some sid \<Rightarrow> or_empty (g_session_id g) = sid) \<and>
      g_duration_type g = ''once'' \<and> g_approval_id g \<noteq> None \<and> usable now g"
  let ?c = "\<lambda>x c. Some (pc_approval_id c) = g_approval_id x \<and> pc_tool c = tool \<and>
      pc_method c = meth \<and> pc_invocation_hash c = h"
  obtain x xs where x: "sql_order_desc g_created_at (filter ?q (grants s)) = x # xs"
    using run by (cases "sql_order_desc g_created_at (filter ?q (grants s))")
      (auto simp: matching_active_body_def)
  obtain c where c: "find (?c x) (pendings s) = Some c"
    using run x by (cases "find (?c x) (pendings s)") (auto simp: matching_active_body_def)
  have ok: "pc_state c = Allowed \<and> pc_subject_id c = sub \<and>
      (case sid of None \<Rightarrow> True | Some sid \<Rightarrow> or_empty (pc_session_id c) = sid)"
    using run x c by (auto simp: matching_active_body_def split: if_splits option.splits)
  with run x c have res: "g = x" "t = s\<lparr>grants := sql_update
      (\<lambda>r. g_grant_id r = g_grant_id x \<and> g_revoked_at r = None \<and> uses_left r)
      (set_used now (Some now)) (grants s)\<rparr>"
    by (auto simp: matching_active_body_def Let_def split: if_splits option.splits)
  have row: "x \<in> set (grants s) \<and> ?q x" by (rule sql_order_desc_Cons [OF x])
  have conf: "c \<in> set (pendings s) \<and> ?c x c" using c by (auto simp: find_Some_iff)
  show "g \<in> set (grants s)" "usable now g" using row res by auto
  show "\<exists>c\<in>set (pendings s). pc_state c = Allowed \<and> g_approval_id g = Some (pc_approval_id c) \<and>
       pc_tool c = tool \<and> pc_method c = meth \<and> pc_invocation_hash c = h \<and> pc_subject_id c = sub \<and>
       (sid \<noteq> None \<longrightarrow> or_empty (pc_session_id c) = or_empty sid)"
    by (rule bexI [of _ c]) (use ok conf res in \<open>auto simp: or_empty_def split: option.splits\<close>)
  show "t = s\<lparr>grants := sql_update (\<lambda>r. g_grant_id r = g_grant_id g \<and> g_revoked_at r = None \<and> uses_left r)
      (set_used now (Some now)) (grants s)\<rparr>" using res by simp
qed

lemma matching_active_Some:
  assumes "resolve_matching_active_grant_for_use pinv now sub tool meth h sid s = (Inr (Some g), t)"
  shows "matching_active_body pinv now sub tool meth h sid s = ((Some g, None), t)"
  using assms
  by (simp add: resolve_matching_active_grant_for_use_def split: if_splits option.splits prod.splits)

lemmas matching_active_facts = matching_active_body_Some [OF matching_active_Some]

lemma exact_ops_allow:
  assumes "resolve_exact_ops_decision env iv csum sub risk s = (Inr (Some d), t)"
  shows "\<exists>g\<in>set (grants s). resolve_matching_active_grant_for_use (preview_invalid env) (at_exact env)
      sub (inv_tool iv) (inv_method iv) (inv_hash iv) (ctx_session_id csum) s = (Inr (Some g), t) \<and>
    d_approval_id d = g_approval_id g \<and> d_matched_grant_id d = Some (g_grant_id g)"
  using assms
  by (auto simp: resolve_exact_ops_decision_def elim!: st_bind_InrE split: option.splits
      dest: matching_active_facts(1))

lemma confirm_asks:
  "st_bind (confirm_decision env own iv csum risk p c r) (\<lambda>d s. (Inr (Some d), s)) s = (Inr (Some d), t) \<Longrightarrow>
     d_decision d = REQUIRE_CONFIRM"
  by (auto elim!: st_bind_InrE dest: confirm_decision_Inr)

text \<open>An exact action is allowed by the exact branch only for an operations command whose
  one-time grant was consumed in the same call.\<close>

lemma exact_decision_allow:
  assumes "resolve_exact_authorization_decision env iv csum sub risk
      (confirm_decision env own iv csum risk p) s = (Inr (Some d), t)" and "d_decision d = ALLOW"
  shows "is_exact_ops_command (inv_tool iv) (inv_method iv) \<and>
    resolve_exact_ops_decision env iv csum sub risk s = (Inr (Some d), t)"
proof -
  let ?ops = "is_exact_ops_command (inv_tool iv) (inv_method iv)"
  have "\<not> is_policy_authorization_pair (inv_tool iv) (inv_method iv) \<and> ?ops"
    using assms by (auto simp: resolve_exact_authorization_decision_def dest: confirm_asks split: if_splits)
  then show ?thesis
    using assms
    by (auto simp: resolve_exact_authorization_decision_def elim!: st_bind_InrE
        dest!: confirm_decision_Inr split: option.splits)
qed

lemma exact_decision_total:
  assumes "is_exact_pair (inv_tool iv) (inv_method iv)"
  shows "resolve_exact_authorization_decision env iv csum sub risk confirm s \<noteq> (Inr None, t)"
  using assms
  by (auto simp: resolve_exact_authorization_decision_def is_exact_pair_def is_exact_ops_command_def
      elim!: st_bind_InrE split: option.splits if_splits)

lemma ops_not_pair: "is_exact_ops_command tool method \<Longrightarrow> \<not> is_policy_authorization_pair tool method"
  by (auto simp: is_exact_ops_command_def authorization_pair_iff)

lemma enforced_exact_allow:
  assumes inv: "store_inv s" and hash: "inv_hash iv \<noteq> []"
    and pair: "is_exact_pair (inv_tool iv) (inv_method iv)"
    and sub: "opt_or (ctx_subject_id csum) (cfg_subject_id_default config) \<noteq> []" (is "?sub \<noteq> []")
    and run: "evaluate_enforced env own iv csum risk cg mode config p s = (Inr d, t)" "d_decision d = ALLOW"
  shows "\<exists>c\<in>set (pendings s). approval_covers c iv csum ?sub \<and> d_approval_id d = Some (pc_approval_id c)"
  using run(1)
proof (cases rule: evaluate_enforced_cases)
  case blocked
  with run(2) show ?thesis by (auto dest: blocked_rule_decision_Some)
next
  case (granted ms)
  from matching_grant_decision_Some [OF granted(3)] run(2)
  have "\<not> is_exact_ops_command (inv_tool iv) (inv_method iv)"
    by (auto simp: explicit_deny_def split: if_splits)
  with pair have "is_policy_authorization_pair (inv_tool iv) (inv_method iv)"
    by (auto simp: is_exact_pair_def is_exact_ops_command_def)
  from granted_pair_covered [OF cleanup_expired_inv [OF inv] hash sub this granted(2,3) run(2)]
  show ?thesis by simp
next
  case (exact ms u)
  have pend: "pendings u = pendings s"
    using matching_grant_decision_frame [OF exact(1)] by simp
  from exact_decision_allow [OF exact(2) run(2)] exact_ops_allow obtain g
    where g: "resolve_matching_active_grant_for_use (preview_invalid env) (at_exact env)
      ?sub (inv_tool iv) (inv_method iv) (inv_hash iv) (ctx_session_id csum) u = (Inr (Some g), t)"
      "d_approval_id d = g_approval_id g" by blast
  from matching_active_facts(3) [OF g(1)] pend obtain c where c: "c \<in> set (pendings s)"
    "g_approval_id g = Some (pc_approval_id c)" "pc_state c = Allowed" "pc_tool c = inv_tool iv"
    "pc_method c = inv_method iv" "pc_invocation_hash c = inv_hash iv" "pc_subject_id c = ?sub"
    "ctx_session_id csum \<noteq> None \<longrightarrow> or_empty (pc_session_id c) = or_empty (ctx_session_id csum)"
    by auto
  moreover have "opt_truthy (pc_session_id c) \<longrightarrow> ctx_session_id csum \<in> {None, pc_session_id c}"
    using c(8) by (cases "pc_session_id c"; cases "ctx_session_id csum") (auto simp: or_empty_def)
  ultimately show ?thesis using g(2) by (auto simp: approval_covers_def)
next
  case (ruled ms u v)
  with exact_decision_total [OF pair] show ?thesis by blast
next
  case (default ms u v w)
  with exact_decision_total [OF pair] show ?thesis by blast
qed

text \<open>How a successful check came about: the preflight refused, or the evaluation decided and
  the mode was enforcing or \<open>log_only\<close>.\<close>

lemma check_cases:
  assumes run: "check env ctl opts raw ctx s = (Inr d, t)" and iv: "normalize_invocation env raw = Inr iv"
  obtains
    (preflight) "authorization_preflight_decision iv (normalize_context ctx) (check_risk ctl opts iv)
        (check_mode ctl opts s) (co_confirmation_preview opts) (co_confirmation_preview_error opts) = Some d"
      "grants t = grants s" "pendings t = pendings s"
  | (enforced) e u where
      "authorization_preflight_decision iv (normalize_context ctx) (check_risk ctl opts iv)
        (check_mode ctl opts s) (co_confirmation_preview opts) (co_confirmation_preview_error opts) = None"
      "evaluate_enforced env (ctl_config ctl) iv (normalize_context ctx) (check_risk ctl opts iv)
        (check_mode ctl opts s \<noteq> ''log_only'') (check_mode ctl opts s) (check_config ctl opts)
        (co_confirmation_preview opts) s = (Inr e, u)"
      "grants t = grants u" "pendings t = pendings u"
      "d = (if check_mode ctl opts s = ''log_only'' then log_only_decision e (check_risk ctl opts iv) else e)"
proof (cases "authorization_preflight_decision iv (normalize_context ctx) (check_risk ctl opts iv)
        (check_mode ctl opts s) (co_confirmation_preview opts) (co_confirmation_preview_error opts)")
  case None
  have log: "grants t = grants u \<and> pendings t = pendings u"
    if "ctl_log_decision env config iv csum e u = (r, t)" for config csum e u r t
    using ctl_log_decision_frame [of env config iv csum e u] that by simp
  from run iv None show ?thesis
    unfolding check_def check_normalized_def Let_def
    by (auto elim!: st_bind_InrE dest: log intro!: enforced)
next
  case (Some e)
  with run iv have "d = e \<and> grants t = grants s \<and> pendings t = pendings s"
    using ctl_log_decision_frame [of env "ctl_config ctl" iv "normalize_context ctx" e s]
    by (auto simp: check_def check_normalized_def Let_def elim!: st_bind_InrE)
  with Some preflight show ?thesis by simp
qed

lemma preflight_exact_mode:
  assumes "authorization_preflight_decision iv csum risk mode p e = None"
    and "is_exact_pair (inv_tool iv) (inv_method iv)"
  shows "mode \<in> {''disabled'', ''enforce'', ''enforce_safe''}"
  using assms
  by (auto simp: authorization_preflight_decision_def Let_def is_exact_pair_def is_exact_ops_command_def
      split: option.splits if_splits)

end
