(* ===== verification/Policy_Protocol.thy ===== *)
theory Policy_Protocol
  imports Policy_System
begin

text \<open>
  The life of a confirmation. The protocol \<open>pend_step\<close> says what may happen to the table of
  confirmations: a new pending row, or one pending row resolved as allowed or denied. Every
  call of the service refines it; what holds of the protocol then holds of the service.
\<close>

section \<open>The protocol\<close>

inductive pend_step :: "pending_confirmation list \<Rightarrow> pending_confirmation list \<Rightarrow> bool" where
  pend_ask: "pc_state c = Pending \<Longrightarrow> pend_step cs (cs @ [c])"
| pend_resolve: "st \<in> {Allowed, Denied} \<Longrightarrow>
    pend_step cs (sql_update (\<lambda>c. pc_approval_id c = a \<and> pc_state c = Pending) (set_resolved st act gid now) cs)"
| pend_deny:
    "pend_step cs (sql_update (\<lambda>c. pc_approval_id c = a \<and> pc_state c = Pending) (set_denied now) cs)"

abbreviation evolves :: "policy_store \<Rightarrow> policy_store \<Rightarrow> bool" where
  "evolves s t \<equiv> reach pend_step (pendings s) (pendings t)"

lemma evolves_same: "pendings t = pendings s \<Longrightarrow> evolves s t"
  by (simp add: reach_refl)

text \<open>What the protocol guarantees: a resolved row is final, and no row is ever expired.\<close>

lemma pend_step_final:
  "pend_step cs ds \<Longrightarrow> c \<in> set cs \<Longrightarrow> pc_state c \<noteq> Pending \<Longrightarrow> c \<in> set ds"
  by (induction rule: pend_step.induct) (force simp: set_sql_update)+

definition none_expired :: "pending_confirmation list \<Rightarrow> bool" where
  "none_expired cs = (\<forall>c\<in>set cs. pc_state c \<noteq> Expired)"

lemma pend_step_none_expired: "pend_step cs ds \<Longrightarrow> none_expired cs \<Longrightarrow> none_expired ds"
  by (induction rule: pend_step.induct)
    (auto simp: none_expired_def set_sql_update set_resolved_def set_denied_def)

interpretation protocol: invariant_system pend_step none_expired
  by unfold_locales (rule pend_step_none_expired)

interpretation final_row: invariant_system pend_step "\<lambda>cs. c \<in> set cs \<and> pc_state c \<noteq> Pending" for c
  by unfold_locales (blast intro: pend_step_final)

section \<open>The service refines it\<close>

lemma insert_pending_evolves:
  assumes "insert_pending now e a r s = (x, t)"
  shows "evolves s t"
  using assms
  by (auto simp: insert_pending_def sql_insert_Some Let_def reach_refl
      intro!: reach_one pend_ask split: option.splits)

lemma update_denied_evolves: "evolves s (update_pending a (set_denied now) s)"
  by (auto simp: update_pending_def intro: reach_one pend_deny)

lemma get_or_create_pending_evolves:
  "evolves s (snd (get_or_create_pending_confirmation pinv now e a r s))"
  unfolding get_or_create_pending_confirmation_def
proof (rule in_transaction_keeps [where P = "evolves s"])
  show "evolves s t" if "(case sql_order_desc pc_created_at (filter p (pendings s)) of
         c # _ \<Rightarrow> if b c then insert_pending now e a r (update_pending (pc_approval_id c) (set_denied now) s)
           else (Inr c, s)
       | [] \<Rightarrow> insert_pending now e a r s) = (x, t)" for p b x t
    using that
    by (auto split: list.splits if_splits simp: reach_refl
        dest!: insert_pending_evolves intro: reach_trans [OF update_denied_evolves])
qed (rule reach_refl)

lemma insert_grant_pendings: "insert_grant gid gi now s = (r, t) \<Longrightarrow> pendings t = pendings s"
  by (auto simp: insert_grant_def split: option.splits)

lemma resolve_confirmation_body_evolves:
  assumes "resolve_confirmation_body pinv now gid a act s = (Inr x, t)"
  shows "evolves s t"
proof (cases "sql_get pc_approval_id a (pendings s)")
  case None
  with assms show ?thesis by (simp add: resolve_confirmation_body_def)
next
  case (Some c)
  have upd: "evolves s (update_pending a (set_resolved st x g now) u)"
    if "st \<in> {Allowed, Denied}" "pendings u = pendings s" for st x g u
    using that by (auto simp: update_pending_def intro!: reach_one pend_resolve)
  show ?thesis
    using assms Some
    by (auto simp: resolve_confirmation_body_def reach_refl update_denied_evolves
        elim!: st_bind_InrE dest!: insert_grant_pendings intro!: upd split: if_splits)
qed

lemma resolve_confirmation_evolves: "evolves s (snd (resolve_confirmation pinv now gid a act s))"
proof -
  let ?m = "resolve_confirmation_body pinv now gid a act"
  have "evolves s (snd (in_transaction ?m s))"
    by (rule in_transaction_keeps_Inr [where P = "evolves s"], erule resolve_confirmation_body_evolves,
        rule reach_refl)
  then show ?thesis
    unfolding resolve_confirmation_def
    by (rule st_bind_keeps [where P = "evolves s"]) (simp split: prod.splits)
qed

lemma pendings_frames:
  "pendings (snd (consume_grant_use now gid s)) = pendings s"
  "pendings (snd (resolve_active_grant_for_use now gid sub tool meth req s)) = pendings s"
  "pendings (snd (revoke_grant now gid s)) = pendings s"
  "pendings (snd (log_decision now row s)) = pendings s"
  "pendings (snd (insert_grant gid gi now s)) = pendings s"
  "pendings (snd (set_mode mode s)) = pendings s"
  by (auto simp: consume_grant_use_def resolve_active_grant_for_use_def revoke_grant_def log_decision_def
      insert_grant_def set_mode_def set_setting_def Let_def split: option.split)

lemma matching_body_pendings: "pendings (snd (matching_active_body pinv now sub tool meth h sid s)) = pendings s"
  by (auto simp: matching_active_body_def Let_def split: list.split option.split)

lemma resolve_matching_pendings:
  "pendings (snd (resolve_matching_active_grant_for_use pinv now sub tool meth h sid s)) = pendings s"
  using matching_body_pendings [of pinv now sub tool meth h sid s]
  by (auto simp: resolve_matching_active_grant_for_use_def split: prod.split option.split)

interpretation kept_protocol: kept_by_store "evolves s0" for s0
proof
  show "evolves s0 (snd (get_or_create_pending_confirmation pinv now e a r s))" if "evolves s0 s"
    for pinv now e a r s
    by (rule reach_trans [OF that get_or_create_pending_evolves])
qed (simp_all add: pendings_frames resolve_matching_pendings)

lemma policy_step_evolves: "policy_step s t \<Longrightarrow> evolves s t"
proof (induction rule: policy_step.induct)
  case (step_check env ctl opts raw ctx s r t)
  then show ?case using kept_protocol.kept_check [OF reach_refl, of env s ctl opts raw ctx] by simp
next
  case (step_create gi env gid s r t)
  then show ?case using kept_protocol.kept_create_grant [OF reach_refl, of gi s env gid] by simp
next
  case (step_create_from_confirmation env ctl gid raw ctx action secs over uses s r t)
  then show ?case
    using kept_protocol.kept_create_from_confirmation [OF reach_refl, of s env ctl gid raw ctx action secs over uses]
    by simp
next
  case (step_resolve_confirmation pinv now gid approval action s r t)
  then show ?case using resolve_confirmation_evolves [of s pinv now gid approval action] by simp
qed (metis evolves_same pendings_frames resolve_matching_pendings cleanup_frame snd_conv)+

lemma policy_reach_evolves: "reach policy_step s t \<Longrightarrow> evolves s t"
  by (induction rule: reach.induct) (auto intro: reach_refl reach_trans policy_step_evolves)

end
