(* ===== verification/Policy_Terms.thy ===== *)
theory Policy_Terms
  imports Policy_Protocol
begin

text \<open>
  The terms of the grants in a reachable store: every row satisfies what
  \<^const>\<open>validate_grant_input\<close> demands of its input, including the rows that a confirmation
  creates past that check.
\<close>

definition terms_ok :: "policy_grant \<Rightarrow> bool" where
  "terms_ok g =
     (g_effect g \<in> {''allow'', ''deny''} \<and>
      g_duration_type g \<in> {''once'', ''until'', ''session'', ''forever''} \<and>
      (g_duration_type g = ''session'' \<longrightarrow> opt_truthy (g_session_id g)) \<and>
      (requires_once_duration (g_tool g) (g_method g) (g_risk_floor g) \<longrightarrow> g_duration_type g = ''once'') \<and>
      (g_duration_type g = ''once'' \<longrightarrow> opt_truthy (g_invocation_hash g)) \<and>
      (g_duration_type g = ''until'' \<longrightarrow> g_expires_at g \<noteq> None))"

definition all_terms :: "policy_store \<Rightarrow> bool" where
  "all_terms s = list_all terms_ok (grants s)"

definition terms_inv :: "policy_store \<Rightarrow> bool" where
  "terms_inv s = (store_inv s \<and> all_terms s)"

lemma terms_ok_frozen:
  assumes "frozen g = frozen h"
  shows "terms_ok g = terms_ok h"
  using frozen_fields [OF assms] by (simp add: terms_ok_def)

lemmas terms_ok_updates [simp] = frozen_updates [THEN terms_ok_frozen]

lemma all_terms_updates [simp]:
  assumes "all_terms s"
  shows "all_terms (s\<lparr>grants := sql_update p (set_used now r) (grants s)\<rparr>)"
    "all_terms (s\<lparr>grants := sql_update p (set_revoked now) (grants s)\<rparr>)"
  using assms by (auto simp: all_terms_def set_sql_update list_all_iff)

lemma terms_insert:
  assumes "validate_grant_input parse gi0 = Inr gi" and "all_terms s"
  shows "all_terms (snd (insert_grant gid gi now s))"
proof -
  have ok: "gi_effect gi \<in> {''allow'', ''deny''} \<and>
      gi_duration_type gi \<in> {''once'', ''until'', ''session'', ''forever''} \<and>
      (gi_duration_type gi = ''session'' \<longrightarrow> opt_truthy (gi_session_id gi)) \<and>
      (requires_once_duration (gi_tool gi) (gi_method gi) (gi_risk_floor gi) \<longrightarrow> gi_duration_type gi = ''once'') \<and>
      (gi_duration_type gi = ''once'' \<longrightarrow> opt_truthy (gi_invocation_hash gi)) \<and>
      (gi_duration_type gi = ''until'' \<longrightarrow> gi_expires_at gi \<noteq> None)"
    using assms(1)
    by (auto simp: validate_grant_input_def split: if_splits option.splits iso_parse.splits)
  from assms(2) show ?thesis
    by (auto simp: insert_grant_def sql_insert_Some all_terms_def split: option.splits)
      (use ok in \<open>simp add: terms_ok_def\<close>)
qed

lemma terms_grants: "terms_inv s \<Longrightarrow> store_inv t \<Longrightarrow> grants t = grants s \<Longrightarrow> terms_inv t"
  by (simp add: terms_inv_def all_terms_def)

lemma get_or_create_pending_grants:
  "grants (snd (get_or_create_pending_confirmation pinv now e a r s)) = grants s"
proof -
  have "grants t = grants u" if "insert_pending now e a r u = (x, t)" for x t u
    using that by (auto simp: insert_pending_def Let_def split: option.splits)
  then show ?thesis
    unfolding get_or_create_pending_confirmation_def
    by (intro in_transaction_keeps [where P = "\<lambda>t. grants t = grants s"])
      (auto split: list.splits if_splits)
qed

lemma matching_body_terms:
  "all_terms s \<Longrightarrow> all_terms (snd (matching_active_body pinv now sub tool meth h sid s))"
  by (simp add: matching_active_body_def Let_def split: list.split option.split)

lemma matching_grants_terms:
  assumes "all_terms s"
  shows "all_terms (snd (resolve_matching_active_grant_for_use pinv now sub tool meth h sid s))"
  using matching_body_terms [OF assms, of pinv now sub tool meth h sid] assms
  by (auto simp: resolve_matching_active_grant_for_use_def split: prod.split option.split)

lemma consume_terms: "all_terms s \<Longrightarrow> all_terms (snd (consume_grant_use now gid s))"
  by (simp add: consume_grant_use_def Let_def split: option.split)

lemma resolve_active_terms:
  "all_terms s \<Longrightarrow> all_terms (snd (resolve_active_grant_for_use now gid sub tool meth req s))"
  by (simp add: resolve_active_grant_for_use_def Let_def split: option.split)

interpretation kept_terms: kept_by_store terms_inv
proof
  show "terms_inv (snd (insert_grant gid gi now s))"
    if "terms_inv s" "\<not> is_policy_authorization_pair (gi_tool gi) (gi_method gi)" "gi_approval_id gi = None"
      "validate_grant_input parse gi0 = Inr gi"
    for s gi gid now parse gi0
    using kept_inv.kept_insert [OF _ that(2-4)] terms_insert [OF that(4)] that(1) by (simp add: terms_inv_def)
  show "terms_inv (snd (cleanup_expired now s))" if "terms_inv s" for s now
    using that cleanup_expired_inv [of s now] by (simp add: terms_inv_def cleanup_expired_def)
  show "terms_inv (snd (get_or_create_pending_confirmation pinv now e a r s))"
    if "terms_inv s" "pr_invocation_hash r \<noteq> [] \<and> is_exact_pair (pr_tool r) (pr_method r)" for pinv now e a r s
    by (rule terms_grants [OF that(1)])
      (use that in \<open>simp_all add: get_or_create_pending_inv terms_inv_def get_or_create_pending_grants\<close>)
  show "terms_inv (snd (log_decision now row s))" if "terms_inv s" for now row s
    by (rule terms_grants [OF that])
      (use that in \<open>auto simp: log_decision_def terms_inv_def split: option.split\<close>)
qed (simp_all add: terms_inv_def consume_grant_use_inv consume_terms resolve_matching_active_inv
    matching_grants_terms)

lemma resolve_confirmation_body_terms:
  assumes inv: "terms_inv s" and run: "resolve_confirmation_body pinv now gid a act s = (Inr x, t)"
  shows "terms_inv t"
proof (cases "sql_get pc_approval_id a (pendings s)")
  case None
  with run show ?thesis by (simp add: resolve_confirmation_body_def)
next
  case (Some c)
  have hash: "pc_invocation_hash c \<noteq> []"
    using store_invD(3) [of s c] inv sql_get_Some [OF Some] by (simp add: terms_inv_def)
  have ins: "all_terms u" if "insert_grant gid (confirmation_grant_input c act) now s = (Inr (), u)" for u
    using that inv hash
    by (auto simp: insert_grant_def sql_insert_Some all_terms_def terms_inv_def terms_ok_def
        confirmation_grant_input_def split: option.splits)
  have upd: "all_terms (update_pending b f u) = all_terms u" for b f u
    by (simp add: all_terms_def)
  have "store_inv t" by (rule resolve_confirmation_body_inv [OF _ run]) (use inv in \<open>simp add: terms_inv_def\<close>)
  moreover have "all_terms t"
    using run Some inv ins
    by (auto simp: resolve_confirmation_body_def terms_inv_def upd elim!: st_bind_InrE split: if_splits)
  ultimately show ?thesis by (simp add: terms_inv_def)
qed

lemma resolve_confirmation_terms:
  assumes "terms_inv s"
  shows "terms_inv (snd (resolve_confirmation pinv now gid a act s))"
proof -
  let ?m = "resolve_confirmation_body pinv now gid a act"
  have "terms_inv (snd (in_transaction ?m s))"
    by (rule in_transaction_keeps_Inr [where P = terms_inv], erule resolve_confirmation_body_terms [OF assms],
        rule assms)
  then show ?thesis
    unfolding resolve_confirmation_def
    by (rule st_bind_keeps [where P = terms_inv]) (simp split: prod.splits)
qed

lemma set_mode_terms: "terms_inv s \<Longrightarrow> terms_inv (snd (set_mode mode s))"
  by (simp add: terms_inv_def all_terms_def set_mode_inv) (simp add: set_mode_def set_setting_def Let_def)

lemma revoke_terms: "terms_inv s \<Longrightarrow> terms_inv (snd (revoke_grant now gid s))"
  using revoke_grant_inv [of s now gid] by (simp add: terms_inv_def revoke_grant_def Let_def)

lemma resolve_active_terms_inv:
  "terms_inv s \<Longrightarrow> terms_inv (snd (resolve_active_grant_for_use now gid sub tool meth req s))"
  by (simp add: terms_inv_def resolve_active_inv resolve_active_terms)

lemmas terms_op_invs = kept_terms.kept_check kept_terms.kept_create_grant
  kept_terms.kept_create_from_confirmation revoke_terms resolve_active_terms_inv
  resolve_confirmation_terms kept_terms.kept_matching kept_terms.kept_cleanup set_mode_terms

interpretation terms: invariant_system policy_step terms_inv
proof
  fix s t
  assume "terms_inv s" and "policy_step s t"
  from this(2,1) show "terms_inv t"
    by (induction rule: policy_step.induct) (metis terms_op_invs snd_conv)+
qed

lemma policy_reach_terms: "reach policy_step empty_store s \<Longrightarrow> terms_inv s"
  by (erule terms.inv_reach) (simp add: terms_inv_def all_terms_def store_inv_empty, simp add: empty_store_def)

end
