(* ===== verification/Policy_Properties.thy ===== *)
theory Policy_Properties
  imports Policy_Terms
begin

text \<open>
  The properties of the policy service, stated over \<^const>\<open>check\<close> and the operations of the
  store, and the scenario their witnesses run: an operations command is checked, approved
  by the operator and checked again.
\<close>

section \<open>The scenario\<close>

definition demo_env :: policy_env where
  "demo_env = \<lparr>at_cleanup = ''t2'', at_list = ''t2'', at_match = (\<lambda>_. ''t2''), at_use = ''t2'',
     at_exact = ''t2'', at_pending = ''t2'', at_log = ''t2'', plus_seconds = (\<lambda>_. ''t9''),
     new_approval_id = ''ap1'', new_decision_id = ''d1'', preview_invalid = (\<lambda>_. False),
     fromisoformat = Iso_aware, re_search = (\<lambda>_ _. Inr True), fnmatch = (=),
     url_hostname = (\<lambda>_. Inr None), expanduser = Inr, digest = (\<lambda>tool method _. tool @ ''.'' @ method)\<rparr>"

definition demo_ctl :: policy_ctl where
  "demo_ctl = \<lparr>ctl_config = default_policy_config, ctl_registry = []\<rparr>"

definition demo_opts :: check_options where
  "demo_opts = \<lparr>co_risk_override = None, co_trusted_risk_override = None, co_config_overrides = None,
     co_confirmation_preview = None, co_confirmation_preview_error = None\<rparr>"

definition demo_call :: "string \<Rightarrow> string \<Rightarrow> raw_invocation" where
  "demo_call tool method = Inv_dict [(''tool'', PStr tool), (''method'', PStr method),
     (''args'', PDict [(''argv'', PList [PStr ''ls''])])]"

definition demo_summary :: "string \<Rightarrow> string \<Rightarrow> invocation_summary" where
  "demo_summary tool method = \<lparr>inv_invocation_id = ''invocation-local'', inv_tool = tool,
     inv_method = method, inv_args = [(''argv'', PList [PStr ''ls''])],
     inv_hash = tool @ ''.'' @ method\<rparr>"

definition demo_asked :: policy_store where
  "demo_asked = snd (check demo_env demo_ctl demo_opts (demo_call ''ops.command'' ''run'') [] empty_store)"

definition demo_approved :: policy_store where
  "demo_approved = snd (resolve_confirmation (\<lambda>_. False) ''t3'' ''g1'' ''ap1'' ''allow_once'' demo_asked)"

definition demo_env2 :: policy_env where
  "demo_env2 = demo_env\<lparr>new_decision_id := ''d2'', new_approval_id := ''ap2''\<rparr>"

lemma demo_digest: "digest_ok demo_env" "digest_ok demo_env2"
  by (simp_all add: digest_ok_def demo_env_def demo_env2_def)

lemma demo_reach_asked: "reach policy_step empty_store demo_asked"
  unfolding demo_asked_def
  by (rule reach_one, rule step_check [OF demo_digest(1)], rule prod.collapse [symmetric])

lemma demo_reach_approved: "reach policy_step empty_store demo_approved"
  unfolding demo_approved_def
  by (rule reach_step [OF demo_reach_asked], rule step_resolve_confirmation, rule prod.collapse [symmetric])

lemma demo_ops_summary: "normalize_invocation demo_env2 (demo_call ''ops.command'' ''run'') =
    Inr (demo_summary ''ops.command'' ''run'')"
  by code_simp

lemma demo_ops_allowed: "case check demo_env2 demo_ctl demo_opts (demo_call ''ops.command'' ''run'') []
    demo_approved of (Inr d, t) \<Rightarrow> d_decision d = ALLOW | _ \<Rightarrow> False"
  by code_simp

lemma demo_ops_run: "\<exists>d t. check demo_env2 demo_ctl demo_opts (demo_call ''ops.command'' ''run'') []
    demo_approved = (Inr d, t) \<and> d_decision d = ALLOW"
  using demo_ops_allowed by (auto split: prod.splits sum.splits)

section \<open>Exact actions\<close>

text \<open>
  C1: In every reachable state, a check of an exact action (an authorization pair or an
  operations command) that allows it, in whatever mode, for a caller with a non-empty subject,
  its own or the default of the configuration, rests on a confirmation the operator resolved as
  allowed, for the same tool, method, invocation hash and subject. When both the confirmation
  and the check name a session, it is the same session; a check that names no session may rest
  on the confirmation of any session. A digest is assumed not to be the empty text.
\<close>

theorem exact_allow_needs_approval:
  assumes "reach policy_step empty_store s" and "digest_ok env"
    and run: "check env ctl opts raw ctx s = (Inr d, t)" "d_decision d = ALLOW"
    and iv: "normalize_invocation env raw = Inr iv"
    and pair: "is_exact_pair (inv_tool iv) (inv_method iv)"
    and "opt_or (ctx_subject_id (normalize_context ctx)) (cfg_subject_id_default (check_config ctl opts)) \<noteq> []"
      (is "?sub \<noteq> []")
  shows "\<exists>c\<in>set (pendings s). approval_covers c iv (normalize_context ctx) ?sub \<and>
    d_approval_id d = Some (pc_approval_id c)"
  using run(1) iv
proof (cases rule: check_cases)
  case preflight
  with run(2) show ?thesis by (auto dest: preflight_denies)
next
  case (enforced e u)
  have "check_mode ctl opts s \<noteq> ''log_only''"
    using preflight_exact_mode [OF enforced(1) pair] by auto
  with enforced(5) have "d = e" by simp
  with enforced(2) run(2) show ?thesis
    using enforced_exact_allow [OF policy_reach_inv [OF assms(1)]
        normalize_invocation_hash [OF iv assms(2)] pair assms(7)] by blast
qed

theorem exact_allow_needs_approval_witness:
  "\<exists>d t. check demo_env2 demo_ctl demo_opts (demo_call ''ops.command'' ''run'') [] demo_approved = (Inr d, t)
     \<and> (\<exists>c\<in>set (pendings demo_approved).
          approval_covers c (demo_summary ''ops.command'' ''run'') (normalize_context []) ''local'' \<and>
          d_approval_id d = Some (pc_approval_id c))"
proof -
  obtain d t where run: "check demo_env2 demo_ctl demo_opts (demo_call ''ops.command'' ''run'') []
      demo_approved = (Inr d, t)" "d_decision d = ALLOW" using demo_ops_run by blast
  have pair: "is_exact_pair (inv_tool (demo_summary ''ops.command'' ''run''))
      (inv_method (demo_summary ''ops.command'' ''run''))" by code_simp
  have sub: "opt_or (ctx_subject_id (normalize_context []))
      (cfg_subject_id_default (check_config demo_ctl demo_opts)) = ''local''" by code_simp
  from exact_allow_needs_approval [OF demo_reach_approved demo_digest(2) run demo_ops_summary pair] run
  show ?thesis by (auto simp: sub)
qed

lemma exact_consumes:
  assumes inv: "store_inv u"
    and run: "resolve_matching_active_grant_for_use pinv now sub tool meth h sid u = (Inr (Some g), t)"
  shows "g \<in> set (grants u)" "g_uses_count g = 0" "g_revoked_at g = None"
    "set_used now (Some now) g \<in> set (grants t)"
proof -
  note f = matching_active_facts [OF run]
  show g: "g \<in> set (grants u)" by (rule f(1))
  show rev: "g_revoked_at g = None" using f(2) by (simp add: usable_def)
  have "needs_approval g" using f(3) by (auto simp: needs_approval_def)
  with store_invD(5) [OF inv g] obtain c where "approved_by c g" by blast
  with approved_uses [OF inv g] rev show "g_uses_count g = 0" by auto
  show "set_used now (Some now) g \<in> set (grants t)"
    using f(2,4) g rev by (auto simp: set_sql_update usable_def image_iff)
qed

lemma matching_none_ops:
  "matching_grant_decision now ms iv risk cg s = (None, u) \<Longrightarrow>
     is_exact_ops_command (inv_tool iv) (inv_method iv) \<Longrightarrow> u = s"
  by (auto simp: matching_grant_decision_def Let_def split: option.splits if_splits)

lemma cleanup_active_row:
  "g \<in> set (grants (snd (cleanup_expired now s))) \<Longrightarrow> g_revoked_at g = None \<Longrightarrow> g \<in> set (grants s)"
  by (auto simp: cleanup_expired_def set_sql_update set_revoked_def split: if_splits)

text \<open>
  C2: In every reachable state, a check that allows an operations command spends the grant it
  rests on: the grant was unused and active before the call and is used once and revoked
  after it, so the same approval cannot allow a second run.
\<close>

theorem ops_allow_consumes:
  assumes reach: "reach policy_step empty_store s" and "digest_ok env"
    and run: "check env ctl opts raw ctx s = (Inr d, t)" "d_decision d = ALLOW"
    and iv: "normalize_invocation env raw = Inr iv"
    and ops: "is_exact_ops_command (inv_tool iv) (inv_method iv)"
  shows "\<exists>g\<in>set (grants s). d_matched_grant_id d = Some (g_grant_id g) \<and> g_uses_count g = 0 \<and>
    g_revoked_at g = None \<and> set_used (at_exact env) (Some (at_exact env)) g \<in> set (grants t)"
  using run(1) iv
proof (cases rule: check_cases)
  case preflight
  with run(2) show ?thesis by (auto dest: preflight_denies)
next
  case (enforced e v)
  have pair: "is_exact_pair (inv_tool iv) (inv_method iv)"
    using ops by (simp add: is_exact_pair_def is_exact_ops_command_def)
  have "check_mode ctl opts s \<noteq> ''log_only''"
    using preflight_exact_mode [OF enforced(1) pair] by auto
  with enforced have e: "d = e" by simp
  from enforced(2) show ?thesis
  proof (cases rule: evaluate_enforced_cases)
    case blocked
    with run(2) e show ?thesis by (auto dest: blocked_rule_decision_Some)
  next
    case (granted ms)
    from matching_grant_decision_Some [OF granted(3)] run(2) ops e show ?thesis
      by (auto simp: explicit_deny_def split: if_splits)
  next
    case (exact ms u)
    from exact_decision_allow [OF exact(2)] run(2) e exact_ops_allow obtain g sub
      where g: "resolve_matching_active_grant_for_use (preview_invalid env) (at_exact env)
        sub (inv_tool iv) (inv_method iv) (inv_hash iv) (ctx_session_id (normalize_context ctx)) u
          = (Inr (Some g), v)" "d_matched_grant_id d = Some (g_grant_id g)" by blast
    have u: "u = snd (cleanup_expired (at_cleanup env) s)" by (rule matching_none_ops [OF exact(1) ops])
    have "store_inv u" unfolding u by (rule cleanup_expired_inv [OF policy_reach_inv [OF reach]])
    note c = exact_consumes [OF this g(1)]
    from c(1,3) have "g \<in> set (grants s)" unfolding u by (rule cleanup_active_row)
    with c g(2) enforced(3) show ?thesis by auto
  next
    case (ruled ms u v)
    with exact_decision_total [OF pair] show ?thesis by blast
  next
    case (default ms u v w)
    with exact_decision_total [OF pair] show ?thesis by blast
  qed
qed

theorem ops_allow_consumes_witness:
  "\<exists>d t. check demo_env2 demo_ctl demo_opts (demo_call ''ops.command'' ''run'') [] demo_approved = (Inr d, t)
     \<and> (\<exists>g\<in>set (grants demo_approved). d_matched_grant_id d = Some (g_grant_id g) \<and> g_uses_count g = 0 \<and>
          g_revoked_at g = None \<and>
          set_used (at_exact demo_env2) (Some (at_exact demo_env2)) g \<in> set (grants t))"
proof -
  obtain d t where run: "check demo_env2 demo_ctl demo_opts (demo_call ''ops.command'' ''run'') []
      demo_approved = (Inr d, t)" "d_decision d = ALLOW" using demo_ops_run by blast
  have ops: "is_exact_ops_command (inv_tool (demo_summary ''ops.command'' ''run''))
      (inv_method (demo_summary ''ops.command'' ''run''))" by code_simp
  from ops_allow_consumes [OF demo_reach_approved demo_digest(2) run demo_ops_summary ops] run
  show ?thesis by blast
qed

text \<open>
  C3: In every reachable state, a grant of an authorization pair, or any grant that names an
  approval, stems from exactly one confirmation that the operator allowed; no other grant
  stems from that approval, and it has been used at most once.
\<close>

theorem approval_yields_one_use:
  assumes "reach policy_step empty_store s" and g: "g \<in> set (grants s)"
    and "is_policy_authorization_pair (g_tool g) (g_method g) \<or> g_approval_id g \<noteq> None"
  shows "(\<exists>!c. c \<in> set (pendings s) \<and> approved_by c g) \<and>
    (\<forall>h. h \<in> set (grants s) \<and> g_approval_id h = g_approval_id g \<longrightarrow> h = g) \<and>
    g_uses_count g \<in> {0, 1} \<and> (g_uses_count g = 1 \<longrightarrow> g_revoked_at g \<noteq> None)"
proof -
  have inv: "store_inv s" by (rule policy_reach_inv [OF assms(1)])
  from store_invD(5) [OF inv g] assms(3) obtain c where c: "c \<in> set (pendings s)" "approved_by c g"
    by (auto simp: needs_approval_def)
  have uniq: "c' = c" if "c' \<in> set (pendings s)" "approved_by c' g" for c'
    using that c store_invD(2) [OF inv]
    by (auto simp: keys_unique_def distinct_map inj_on_def approved_by_def)
  have a: "g_approval_id g = Some (pc_approval_id c)" using c(2) by (simp add: approved_by_def)
  then have "\<forall>h. h \<in> set (grants s) \<and> g_approval_id h = g_approval_id g \<longrightarrow> h = g"
    by (metis approval_unique [OF inv _ g])
  with c uniq approved_uses [OF inv g c(2)] show ?thesis by blast
qed

theorem approval_yields_one_use_witness:
  "\<exists>g. g \<in> set (grants demo_approved) \<and> (\<exists>!c. c \<in> set (pendings demo_approved) \<and> approved_by c g) \<and>
     g_uses_count g \<in> {0, 1}"
proof -
  have "list_all (\<lambda>g. g_approval_id g \<noteq> None) (grants demo_approved) \<and> grants demo_approved \<noteq> []" by code_simp
  then obtain g where g: "g \<in> set (grants demo_approved)" "g_approval_id g \<noteq> None"
    by (cases "grants demo_approved") auto
  from approval_yields_one_use [OF demo_reach_approved g(1)] g show ?thesis by blast
qed

section \<open>Confirmations\<close>

text \<open>
  C4: The service refines the confirmation protocol: between any two states of an execution the
  table of confirmations changes only by new pending rows and by pending rows becoming
  allowed or denied, and a row that is resolved is final.
\<close>

theorem confirmations_follow_protocol:
  assumes "reach policy_step s t"
  shows "reach pend_step (pendings s) (pendings t) \<and>
    (\<forall>c\<in>set (pendings s). pc_state c \<noteq> Pending \<longrightarrow> c \<in> set (pendings t))"
  using policy_reach_evolves [OF assms] final_row.inv_reach by blast

theorem confirmations_follow_protocol_witness:
  "reach pend_step (pendings empty_store) (pendings demo_approved) \<and>
     (\<exists>c\<in>set (pendings demo_approved). pc_state c = Allowed)"
proof -
  have "list_ex (\<lambda>c. pc_state c = Allowed) (pendings demo_approved)" by code_simp
  then show ?thesis
    using confirmations_follow_protocol [OF demo_reach_approved] by (auto simp: list_ex_iff)
qed



lemma resolve_pending_body:
  assumes "sql_get pc_approval_id a (pendings s) = Some c" "pc_state c = Pending" "now < pc_expires_at c"
    "\<not> (is_exact_blockchain_send (pc_tool c) (pc_method c) \<and> pinv (pc_preview c))"
  shows "resolve_confirmation_body pinv now gid a ''allow_once'' s =
      st_bind (insert_grant gid (confirmation_grant_input c ''allow_once'') now)
        (\<lambda>_ t. (Inr (False, Some gid), update_pending a (set_resolved Allowed (Some ''allow_once'') (Some gid) now) t)) s"
  using assms by (auto simp: resolve_confirmation_body_def)

lemma set_resolved_in:
  assumes "sql_get pc_approval_id a (pendings s) = Some c" "pc_state c = Pending"
  shows "set_resolved st act g now c \<in> set (pendings (update_pending a (set_resolved st act g now) s))"
  using assms by (force simp: update_pending_def set_sql_update image_iff dest: sql_get_Some)

text \<open>
  Allowing a pending confirmation that has not expired and whose preview is valid creates,
  under a fresh identifier, exactly one grant, appended to the others: one use, for that very
  invocation, subject and session, carrying the approval; and the confirmation becomes allowed
  and remembers the grant.
\<close>

lemma allow_creates_one_grant:
  assumes c: "sql_get pc_approval_id a (pendings s) = Some c" "pc_state c = Pending" "now < pc_expires_at c"
    and valid: "\<not> (is_exact_blockchain_send (pc_tool c) (pc_method c) \<and> pinv (pc_preview c))"
    and fresh: "gid \<notin> g_grant_id ` set (grants s)"
  shows "\<exists>g t. resolve_confirmation pinv now gid a ''allow_once'' s = (Inr (Some gid), t) \<and>
    grants t = grants s @ [g] \<and> g_grant_id g = gid \<and> g_max_uses g = Some 1 \<and> g_uses_count g = 0 \<and>
    approved_by (set_resolved Allowed (Some ''allow_once'') (Some gid) now c) g \<and>
    set_resolved Allowed (Some ''allow_once'') (Some gid) now c \<in> set (pendings t)"
proof -
  let ?f = "set_resolved Allowed (Some ''allow_once'') (Some gid) now"
  obtain g where ins: "insert_grant gid (confirmation_grant_input c ''allow_once'') now s =
      (Inr (), s\<lparr>grants := grants s @ [g]\<rparr>)"
    and g: "g_grant_id g = gid" "g_max_uses g = Some 1" "g_uses_count g = 0" "approved_by (?f c) g"
    using fresh sql_get_Some [OF c(1)]
    by (auto simp: insert_grant_def sql_insert_def confirmation_grant_input_def approved_by_def
        set_resolved_def)
  let ?t = "update_pending a ?f (s\<lparr>grants := grants s @ [g]\<rparr>)"
  have "resolve_confirmation pinv now gid a ''allow_once'' s = (Inr (Some gid), ?t)"
    using resolve_pending_body [OF c, of pinv gid] valid ins
    by (simp add: resolve_confirmation_def in_transaction_def st_bind_def)
  moreover have "?f c \<in> set (pendings ?t)" by (rule set_resolved_in) (use c in auto)
  ultimately show ?thesis using g by (intro exI [of _ g] exI [of _ ?t]) simp
qed

text \<open>
  A resolved confirmation answers a repetition of the same action with the same grant id and
  without a write, and every other action with the error \<open>PENDING_CONFIRMATION_ALREADY_RESOLVED\<close>,
  also without a write (a send whose preview no longer parses answers an allowance with the
  preview error instead).
\<close>

lemma resolved_confirmation_is_idempotent:
  assumes c: "sql_get pc_approval_id a (pendings s) = Some c" "pc_state c \<noteq> Pending"
    and valid: "\<not> (act = ''allow_once'' \<and> is_exact_blockchain_send (pc_tool c) (pc_method c) \<and> pinv (pc_preview c))"
  shows "resolve_confirmation pinv now gid a act s =
    (if pc_resolution_action c = Some act then Inr (pc_grant_id c)
     else Inl (PolicyControlError ''PENDING_CONFIRMATION_ALREADY_RESOLVED''
       ''Pending confirmation was already resolved.'' []), s)"
  using assms
  by (auto simp: resolve_confirmation_def resolve_confirmation_body_def in_transaction_def st_bind_def)

section \<open>Use limits\<close>

definition demo_grant :: "string \<Rightarrow> string \<Rightarrow> string \<Rightarrow> grant_input" where
  "demo_grant effect tool method =
     \<lparr>gi_effect = effect, gi_tool = tool, gi_method = method, gi_target_json = [],
      gi_duration_type = ''forever'', gi_subject_id = ''local'', gi_expires_at = None,
      gi_session_id = None, gi_invocation_hash = None, gi_max_uses = Some 2, gi_reason = None,
      gi_created_trace_id = None, gi_risk_floor = None, gi_approval_id = None\<rparr>"

definition demo_granted :: "string \<Rightarrow> policy_store" where
  "demo_granted effect = snd (create_grant demo_env ''g1'' (demo_grant effect ''file'' ''remove'') empty_store)"

lemma demo_reach_granted: "reach policy_step empty_store (demo_granted effect)"
  unfolding demo_granted_def
  by (rule reach_one, rule step_create [OF _ prod.collapse [symmetric]]) (simp add: demo_grant_def)

definition demo_uses :: "use_call list" where
  "demo_uses =
     [Consume ''t3'' ''g1'', Resolve_matching (\<lambda>_. False) ''t3'' ''local'' ''ops.command'' ''run'' ''h'' None, Consume ''t3'' ''g2'',
      Consume ''t4'' ''g1'', Consume ''t5'' ''g1'']"

text \<open>
  C6: In every reachable state, whatever calls of the three spending operations follow, on this grant
  and on others, in whatever order and at whatever clock readings, a grant with \<open>max_uses\<close> is
  returned by them at most as often as its remaining uses allow, and a one-time grant at most once.
\<close>

theorem grant_use_budget:
  assumes reach: "reach policy_step empty_store s" and g: "get_grant gid s = Some g"
    and lim: "g_duration_type g = ''once'' \<or> g_max_uses g = Some m"
  shows "successes (spend_of gid) calls s \<le> (if g_duration_type g = ''once'' then 1 else nat (m - g_uses_count g))"
proof -
  have inv: "store_inv s" by (rule policy_reach_inv [OF reach])
  have row: "g \<in> set (grants s)" "g_grant_id g = gid"
    using sql_get_Some [OF g [unfolded get_grant_def]] by auto
  then have "h = g" if "h \<in> set (grants s)" "g_grant_id h = gid" for h
    by (intro same_row [OF inv that(1)]) (simp_all add: that)
  with inv lim have "limited_store gid s" by (auto simp: limited_store_def limited_rows_def limited_def)
  then have "successes (spend_of gid) calls s \<le> uses_remaining gid s"
    by (rule grant_use.successes_le_budget)
  with g lim show ?thesis by (auto simp: uses_remaining_def split: if_splits)
qed

theorem grant_use_budget_witness:
  "successes (spend_of ''g1'') demo_uses (demo_granted ''allow'') = 2"
proof -
  have "case get_grant ''g1'' (demo_granted ''allow'') of Some g \<Rightarrow> g_max_uses g = Some 2 \<and>
      g_uses_count g = 0 \<and> g_duration_type g = ''forever'' | None \<Rightarrow> False" by code_simp
  then obtain g where g: "get_grant ''g1'' (demo_granted ''allow'') = Some g" "g_max_uses g = Some 2"
    "g_uses_count g = 0" "g_duration_type g = ''forever''" by (auto split: option.splits)
  have "2 \<le> successes (spend_of ''g1'') demo_uses (demo_granted ''allow'')"
    by code_simp
  with grant_use_budget [OF demo_reach_granted g(1), of 2 "demo_uses"] g
  show ?thesis by simp
qed

text \<open>
  In every reachable state the counters are sound: identifiers of grants and of approvals are
  unique, no grant has a negative number of uses or more than its (non-negative) limit, and a
  used one-time grant is revoked.
\<close>

lemma reachable_store_sound:
  assumes "reach policy_step empty_store s"
  shows "distinct (map g_grant_id (grants s)) \<and> distinct (map pc_approval_id (pendings s)) \<and>
    (\<forall>g\<in>set (grants s). 0 \<le> g_uses_count g \<and>
      (\<forall>m. g_max_uses g = Some m \<and> 0 \<le> m \<longrightarrow> g_uses_count g \<le> m) \<and>
      (g_duration_type g = ''once'' \<and> g_uses_count g \<noteq> 0 \<longrightarrow> g_uses_count g = 1 \<and> g_revoked_at g \<noteq> None))"
proof -
  have "0 \<le> g_uses_count g \<and> (\<forall>m. g_max_uses g = Some m \<and> 0 \<le> m \<longrightarrow> g_uses_count g \<le> m) \<and>
      (g_duration_type g = ''once'' \<and> g_uses_count g \<noteq> 0 \<longrightarrow> g_uses_count g = 1 \<and> g_revoked_at g \<noteq> None)"
    if "g \<in> set (grants s)" for g
    using store_invD(4) [OF policy_reach_inv [OF assms] that]
    by (auto simp: grant_ok_def split: option.splits)
  with store_invD(1,2) [OF policy_reach_inv [OF assms]] show ?thesis by (simp add: keys_unique_def)
qed

section \<open>Decisions\<close>

lemma uses_kept_cleanup [simp]:
  "map g_uses_count (grants (snd (cleanup_expired now s))) = map g_uses_count (grants s)"
  by (simp add: cleanup_expired_def sql_update_def set_revoked_def comp_def if_distrib)

lemma cleanup_decisions [simp]: "decisions (snd (cleanup_expired now s)) = decisions s"
  by (simp add: cleanup_expired_def)

lemma ctl_log_fresh:
  assumes "new_decision_id env \<notin> dr_decision_id ` set (decisions s)"
  shows "fst (ctl_log_decision env config iv csum d s) = Inr ()"
  using assms by (auto simp: ctl_log_decision_def st_bind_def log_decision_def sql_insert_def)

text \<open>A check whose evaluation decides, in an enforcing mode, returns that decision.\<close>

lemma check_enforced:
  assumes iv: "normalize_invocation env raw = Inr iv" and mode: "check_mode ctl opts s \<noteq> ''log_only''"
    and pre: "authorization_preflight_decision iv (normalize_context ctx) (check_risk ctl opts iv)
      (check_mode ctl opts s) (co_confirmation_preview opts) (co_confirmation_preview_error opts) = None"
    and ev: "evaluate_enforced env (ctl_config ctl) iv (normalize_context ctx) (check_risk ctl opts iv)
      True (check_mode ctl opts s) (check_config ctl opts) (co_confirmation_preview opts) s = (Inr d, u)"
    and fresh: "new_decision_id env \<notin> dr_decision_id ` set (decisions u)"
  shows "\<exists>t. check env ctl opts raw ctx s = (Inr d, t) \<and> grants t = grants u \<and> pendings t = pendings u"
proof -
  let ?l = "ctl_log_decision env (ctl_config ctl) iv (normalize_context ctx) d u"
  have "check env ctl opts raw ctx s = (Inr d, snd ?l)"
    using iv mode pre ev ctl_log_fresh [OF fresh, of "ctl_config ctl" iv "normalize_context ctx" d]
    by (cases ?l) (simp add: check_def check_normalized_def Let_def st_bind_def)
  then show ?thesis by (simp add: ctl_log_decision_frame)
qed

lemma blocked_evaluation:
  assumes "blocked_rule_decision (select_policy_rule iv risk config) risk = Some d"
  shows "evaluate_enforced env own iv csum risk cg mode config p s =
    (Inr d, snd (cleanup_expired (at_cleanup env) s))"
  using assms by (simp add: evaluate_enforced_def Let_def)

text \<open>
  A configured rule that blocks the tool, for a risk at or above the rule's threshold, makes
  an enforcing check refuse the action whatever grants exist, whatever other rules say and
  even if the mode is \<open>disabled\<close>; no use of a grant is spent.
\<close>

lemma block_rule_denies:
  assumes iv: "normalize_invocation env raw = Inr iv" and mode: "check_mode ctl opts s \<noteq> ''log_only''"
    and rule: "rule \<in> set (cfg_rules (check_config ctl opts))" "rule_matches iv (check_risk ctl opts iv) rule"
      "rule_mode rule = Block"
    and fresh: "new_decision_id env \<notin> dr_decision_id ` set (decisions s)"
  shows "\<exists>d t. check env ctl opts raw ctx s = (Inr d, t) \<and> d_decision d = DENY \<and>
    map g_uses_count (grants t) = map g_uses_count (grants s)"
proof (cases "authorization_preflight_decision iv (normalize_context ctx) (check_risk ctl opts iv)
      (check_mode ctl opts s) (co_confirmation_preview opts) (co_confirmation_preview_error opts)")
  case (Some d)
  let ?l = "ctl_log_decision env (ctl_config ctl) iv (normalize_context ctx) d s"
  have "check env ctl opts raw ctx s = (Inr d, snd ?l)"
    using iv Some ctl_log_fresh [OF fresh, of "ctl_config ctl" iv "normalize_context ctx" d]
    by (cases ?l) (simp add: check_def check_normalized_def Let_def st_bind_def)
  then show ?thesis using preflight_denies [OF Some] by (simp add: ctl_log_decision_frame)
next
  case None
  obtain r where "select_policy_rule iv (check_risk ctl opts iv) (check_config ctl opts) = Some r"
    "rule_mode r = Block" using select_policy_rule_block [OF rule] by blast
  then obtain d where d: "blocked_rule_decision
      (select_policy_rule iv (check_risk ctl opts iv) (check_config ctl opts)) (check_risk ctl opts iv) = Some d"
    by (simp add: blocked_rule_decision_def)
  from check_enforced [OF iv mode None blocked_evaluation [OF d]] fresh blocked_rule_decision_Some [OF d]
  show ?thesis by auto
qed

definition demo_block_ctl :: policy_ctl where
  "demo_block_ctl = demo_ctl\<lparr>ctl_config := default_policy_config
     \<lparr>cfg_rules := [\<lparr>rule_tool_name = ''file.remove'', rule_min_risk_class = Some Write, rule_mode = Block\<rparr>]\<rparr>\<rparr>"

lemma demo_file_summary: "normalize_invocation demo_env2 (demo_call ''file'' ''remove'') =
    Inr (demo_summary ''file'' ''remove'')"
  by code_simp

lemma select_grant_match_deny:
  assumes m: "m \<in> set matches" "g_effect (gm_grant m) = ''deny''"
    and best: "\<And>k. k \<in> set matches \<Longrightarrow> gm_score k \<le> gm_score m"
  shows "\<exists>k. select_grant_match matches = Some k \<and> g_effect (gm_grant k) = ''deny''"
proof -
  obtain k where k: "select_grant_match matches = Some k"
    using m(1) select_grant_match_None [of matches] by (cases "select_grant_match matches") auto
  obtain x xs where x: "matches = x # xs" using m(1) by (cases matches) auto
  let ?b = "max_by gm_score x xs"
  have "?b \<in> set matches" using max_by_in [of gm_score x xs] x by simp
  with best have "gm_score ?b \<le> gm_score m" by blast
  moreover have "gm_score m \<le> gm_score ?b" using m(1) x by (intro max_by_ge) simp
  ultimately have "gm_score m = gm_score ?b" by simp
  with m have "m \<in> set (filter (\<lambda>i. g_effect (gm_grant i) = ''deny'')
      (filter (\<lambda>i. gm_score i = gm_score ?b) matches))" by simp
  then have "best_matches matches = filter (\<lambda>i. g_effect (gm_grant i) = ''deny'')
      (filter (\<lambda>i. gm_score i = gm_score ?b) matches)"
    by (auto simp: best_matches_def x Let_def filter_empty_conv)
  with select_grant_match_best [OF k] k show ?thesis by auto
qed

text \<open>
  Denials take precedence: when a denying grant is among the grants that match the invocation
  with the highest specificity, an enforcing check of an ordinary action refuses it, however
  many allowing grants match as well.
\<close>

lemma explicit_deny_wins:
  assumes run: "check env ctl opts raw ctx s = (Inr d, t)" and iv: "normalize_invocation env raw = Inr iv"
    and mode: "check_mode ctl opts s \<noteq> ''log_only''"
    and ms: "find_matching_grants env (list_grants (at_list env)
        (Some (opt_or (ctx_subject_id (normalize_context ctx)) (cfg_subject_id_default (check_config ctl opts))))
        None None None True (snd (cleanup_expired (at_cleanup env) s))) iv (normalize_context ctx)
        (check_risk ctl opts iv) = Inr ms"
    and m: "m \<in> set (narrow_matches iv (check_risk ctl opts iv) ms)" "g_effect (gm_grant m) = ''deny''"
    and best: "\<And>k. k \<in> set (narrow_matches iv (check_risk ctl opts iv) ms) \<Longrightarrow> gm_score k \<le> gm_score m"
  shows "d_decision d = DENY"
  using run iv
proof (cases rule: check_cases)
  case preflight
  then show ?thesis by (auto dest: preflight_denies)
next
  case (enforced e u)
  let ?risk = "check_risk ctl opts iv"
  obtain k where k: "select_grant_match (narrow_matches iv ?risk ms) = Some k" "g_effect (gm_grant k) = ''deny''"
    using select_grant_match_deny [OF m best] by blast
  then have "matching_grant_decision now ms iv ?risk cg v = (Some (explicit_deny (gm_grant k) ?risk), v)"
    for now cg v by (simp add: matching_grant_decision_def)
  with enforced(2) ms have "d_decision e = DENY"
    by (auto simp: evaluate_enforced_def Let_def explicit_deny_def
        dest: blocked_rule_decision_Some split: option.splits)
  with enforced(5) mode show ?thesis by simp
qed

lemma granted_facts:
  assumes ms: "find_matching_grants env (list_grants now (Some sub) None None None True
      (snd (cleanup_expired clean s))) iv csum risk = Inr ms"
    and run: "matching_grant_decision use ms iv risk cg v = (Some d, t)" "d_decision d = ALLOW"
  shows "\<exists>g\<in>set (grants s). d = explicit_allow g iv risk \<and> g_effect g \<noteq> ''deny'' \<and>
    grant_applies (at_match env (g_grant_id g)) g iv csum risk"
proof -
  from matching_grant_decision_Some [OF run(1)] run(2) obtain m
    where m: "m \<in> set (narrow_matches iv risk ms)" "g_effect (gm_grant m) \<noteq> ''deny''"
      "d = explicit_allow (gm_grant m) iv risk"
    by (auto simp: explicit_deny_def split: if_splits)
  from find_matching_grants_Inr [OF ms narrow_matches_subset [OF m(1)]]
  have "gm_grant m \<in> set (grants (snd (cleanup_expired clean s)))"
    "grant_applies (at_match env (g_grant_id (gm_grant m))) (gm_grant m) iv csum risk"
    by (auto dest: list_grants_sub)
  moreover from this(2) have "g_revoked_at (gm_grant m) = None" by (simp add: grant_applies_def)
  ultimately show ?thesis using m(2,3) cleanup_active_row by blast
qed

text \<open>
  An enforcing check lets a destructive, financial or security action through only on one of
  four grounds: an active grant that applies to the invocation, an exact approval spent in the
  call, a configured rule in mode \<open>auto\<close> that names the tool, or the mode \<open>disabled\<close>.
\<close>

lemma high_risk_needs_ground:
  assumes run: "check env ctl opts raw ctx s = (Inr d, t)" and iv: "normalize_invocation env raw = Inr iv"
    and allow: "d_decision d = ALLOW" and mode: "check_mode ctl opts s \<noteq> ''log_only''"
    and high: "risk_class (check_risk ctl opts iv) \<in> set POLICY_HIGH_CONFIRM_RISKS"
  shows "(\<exists>g\<in>set (grants s). d = explicit_allow g iv (check_risk ctl opts iv) \<and> g_effect g \<noteq> ''deny'' \<and>
      grant_applies (at_match env (g_grant_id g)) g iv (normalize_context ctx) (check_risk ctl opts iv)) \<or>
    d_reason_code d = ''EXACT_PENDING_ALLOW'' \<or>
    (d_reason_code d = ''CONFIG_RULE_AUTO'' \<and>
      (\<exists>rule\<in>set (cfg_rules (check_config ctl opts)).
         rule_mode rule = Auto \<and> rule_matches iv (check_risk ctl opts iv) rule)) \<or>
    (d_reason_code d = ''POLICY_DISABLED'' \<and> check_mode ctl opts s = ''disabled'')"
  using run iv
proof (cases rule: check_cases)
  case preflight
  with allow show ?thesis by (auto dest: preflight_denies)
next
  case (enforced e u)
  with mode have e: "e = d" by simp
  from enforced(2) [unfolded e] show ?thesis
  proof (cases rule: evaluate_enforced_cases)
    case blocked
    with allow show ?thesis by (auto dest: blocked_rule_decision_Some)
  next
    case (granted ms)
    from granted_facts [OF granted(2,3) allow] show ?thesis by blast
  next
    case (exact ms w)
    from exact_decision_allow [OF exact(2) allow] show ?thesis
      by (auto dest: resolve_exact_ops_decision_Some)
  next
    case (ruled ms w v)
    from configured_rule_decision_Some [OF ruled(3)] allow show ?thesis
      by (auto dest: select_policy_rule_Some)
  next
    case (default ms w v x)
    from default_decision_ALLOW [OF default(4) allow] show ?thesis
      using high confirm_reason_high [OF high] by (auto simp: POLICY_HIGH_CONFIRM_RISKS_def)
  qed
qed

end
