(* ===== verification/Policy_Guarantees.thy ===== *)
theory Policy_Guarantees
  imports Policy_Properties
begin

text \<open>
  Further properties of the policy service: the \<open>log_only\<close> mode, the spending of grants, the
  preflight, the creation of grants, risk handling, and the texts shown to and read from the
  operator.
\<close>

section \<open>Modes and spending\<close>

lemma confirm_ordinary_frame:
  assumes "\<not> is_exact_pair (inv_tool iv) (inv_method iv)"
  shows "snd (confirm_decision env own iv csum risk p c r s) = s"
proof -
  have "\<not> (is_policy_authorization_pair (inv_tool iv) (inv_method iv)
      \<or> is_exact_ops_command (inv_tool iv) (inv_method iv))"
    using assms by (simp add: is_exact_pair_def is_exact_ops_command_def)
  then show ?thesis unfolding confirm_decision_def Let_def by (simp split: sum.split)
qed

lemma st_bind_frame: "snd (m s) = s \<Longrightarrow> (\<And>a. snd (f a s) = s) \<Longrightarrow> snd (st_bind m f s) = s"
  by (auto simp: st_bind_def split: prod.splits sum.splits)

text \<open>Past the grants, the evaluation of an ordinary action writes nothing.\<close>

lemma evaluate_ordinary_dry:
  assumes ord: "\<not> is_exact_pair (inv_tool iv) (inv_method iv)"
  shows "snd (evaluate_enforced env own iv csum risk False mode config p s) =
    snd (cleanup_expired (at_cleanup env) s)"
proof -
  let ?confirm = "confirm_decision env own iv csum risk p"
  let ?rule = "select_policy_rule iv risk config"
  have rule: "snd (configured_rule_decision ?rule risk ?confirm u) = u" for u
    by (auto simp: configured_rule_decision_def confirm_ordinary_frame [OF ord] intro!: st_bind_frame
        split: option.split rule_mode.split)
  have def: "snd (default_decision env own config mode iv csum risk ?confirm u) = u" for u
    by (auto simp: default_decision_def Let_def confirm_ordinary_frame [OF ord]
        split: sum.split option.split bool.split)
  have exact: "resolve_exact_authorization_decision env iv csum sub risk ?confirm u = (Inr None, u)" for sub u
    using ord by (simp add: resolve_exact_authorization_decision_def is_exact_pair_def is_exact_ops_command_def)
  have rest: "snd (st_bind (configured_rule_decision ?rule risk ?confirm)
      (\<lambda>ruled v. case ruled of Some d \<Rightarrow> (Inr d, v)
        | None \<Rightarrow> default_decision env own config mode iv csum risk ?confirm v) u) = u" for u
    by (rule st_bind_frame) (simp_all add: rule def split: option.split)
  have dry: "t = u" if "matching_grant_decision now ms iv risk False u = (r, t)" for now ms u r t
    using matching_grant_decision_dry [of now ms iv risk u] that by simp
  show ?thesis
    unfolding evaluate_enforced_def Let_def
    by (auto simp: st_bind_Inr [OF exact] rest dest: dry split: option.split sum.split prod.split)
qed

text \<open>
  In mode \<open>log_only\<close> a check of an ordinary action never stops it: the decision allows it and
  records what would have been decided, no use of a grant is spent and no confirmation is
  created.
\<close>

lemma log_only_never_blocks:
  assumes run: "check env ctl opts raw ctx s = (Inr d, t)" and iv: "normalize_invocation env raw = Inr iv"
    and mode: "check_mode ctl opts s = ''log_only''" and ord: "\<not> is_exact_pair (inv_tool iv) (inv_method iv)"
  shows "d_decision d = ALLOW \<and> d_reason_code d = ''LOG_ONLY_ALLOW'' \<and>
    dict_has (d_details d) ''would_decision'' \<and>
    map g_uses_count (grants t) = map g_uses_count (grants s) \<and> pendings t = pendings s"
  using run iv
proof (cases rule: check_cases)
  case preflight
  with ord show ?thesis by (simp add: preflight_none is_exact_pair_def is_exact_ops_command_def)
next
  case (enforced e u)
  have "u = snd (cleanup_expired (at_cleanup env) s)"
    using arg_cong [OF enforced(2), of snd] mode by (simp add: evaluate_ordinary_dry [OF ord])
  with enforced mode show ?thesis by (simp add: log_only_decision_def dict_has_def)
qed

lemma consume_grant_use_Some:
  assumes "consume_grant_use now gid s = (Some h, t)"
  shows "\<exists>g. get_grant gid s = Some g \<and> usable now g \<and>
    t = s\<lparr>grants := sql_update (\<lambda>r. g_grant_id r = gid \<and> usable now r)
      (set_used now (revoke_on_use now g)) (grants s)\<rparr>"
proof -
  obtain g where g: "get_grant gid s = Some g"
    using assms by (cases "get_grant gid s") (auto simp: consume_grant_use_def)
  have ok: "\<not> (g_revoked_at g \<noteq> None \<or> (case g_expires_at g of None \<Rightarrow> False | Some e \<Rightarrow> e \<le> now)
      \<or> (case g_max_uses g of None \<Rightarrow> False | Some m \<Rightarrow> g_uses_count g \<ge> m))"
    using assms g by (auto simp: consume_grant_use_def split: if_splits)
  then have "usable now g"
    by (auto simp: usable_def not_expired_def uses_left_def not_le split: option.splits)
  moreover have "t = s\<lparr>grants := sql_update (\<lambda>r. g_grant_id r = gid \<and> usable now r)
      (set_used now (revoke_on_use now g)) (grants s)\<rparr>"
    using assms g ok unfolding consume_grant_use_def Let_def by simp
  ultimately show ?thesis using g by blast
qed

lemma granted_spends:
  assumes "matching_grant_decision now ms iv risk True s = (Some d, t)" and "d_decision d = ALLOW"
    and "\<not> is_policy_authorization_pair (inv_tool iv) (inv_method iv)"
  shows "\<exists>h gid. consume_grant_use now gid s = (Some h, t) \<and> d_matched_grant_id d = Some gid"
  using assms
  by (auto simp: matching_grant_decision_def Let_def explicit_deny_def explicit_allow_def
      split: option.splits if_splits prod.splits)

text \<open>
  An enforcing check that allows an ordinary action by a grant spends exactly one use of that
  grant: the grant was active with uses left, its row is the only one the call changes after
  the removal of expired grants, and its last use revokes it.
\<close>

lemma explicit_allow_spends_one_use:
  assumes run: "check env ctl opts raw ctx s = (Inr d, t)" and iv: "normalize_invocation env raw = Inr iv"
    and allow: "d_decision d = ALLOW" "d_reason_code d = ''EXPLICIT_ALLOW''"
    and mode: "check_mode ctl opts s \<noteq> ''log_only''"
    and pair: "\<not> is_policy_authorization_pair (inv_tool iv) (inv_method iv)"
  shows "\<exists>g\<in>set (grants s). d_matched_grant_id d = Some (g_grant_id g) \<and> usable (at_use env) g \<and>
    grants t = sql_update (\<lambda>r. g_grant_id r = g_grant_id g \<and> usable (at_use env) r)
      (set_used (at_use env) (revoke_on_use (at_use env) g)) (grants (snd (cleanup_expired (at_cleanup env) s)))"
  using run iv
proof (cases rule: check_cases)
  case preflight
  with allow show ?thesis by (auto dest: preflight_denies)
next
  case (enforced e u)
  with mode have e: "e = d" by simp
  note ev = enforced(2) [unfolded e]
  from ev show ?thesis
  proof (cases rule: evaluate_enforced_cases)
    case blocked
    with allow show ?thesis by (auto dest: blocked_rule_decision_Some)
  next
    case (granted ms)
    let ?s = "snd (cleanup_expired (at_cleanup env) s)"
    have "matching_grant_decision (at_use env) ms iv (check_risk ctl opts iv) True ?s = (Some d, u)"
      using granted(3) mode by simp
    from granted_spends [OF this allow(1) pair]
    obtain h gid where c: "consume_grant_use (at_use env) gid ?s = (Some h, u)" "d_matched_grant_id d = Some gid" by blast
    from consume_grant_use_Some [OF c(1)] obtain g where g: "get_grant gid ?s = Some g" "usable (at_use env) g"
      "u = ?s\<lparr>grants := sql_update (\<lambda>r. g_grant_id r = gid \<and> usable (at_use env) r)
        (set_used (at_use env) (revoke_on_use (at_use env) g)) (grants ?s)\<rparr>" by blast
    from sql_get_Some [OF g(1) [unfolded get_grant_def]] have row: "g \<in> set (grants ?s)" "g_grant_id g = gid"
      by auto
    have "g \<in> set (grants s)" by (rule cleanup_active_row [OF row(1)]) (use g(2) in \<open>simp add: usable_def\<close>)
    with c(2) g(2,3) row(2) enforced(3) show ?thesis by (intro bexI [of _ g]) simp_all
  next
    case (exact ms w)
    from exact_decision_allow [OF exact(2) allow(1)] allow(2) show ?thesis
      by (auto dest: resolve_exact_ops_decision_Some)
  next
    case (ruled ms w v)
    from configured_rule_decision_Some [OF ruled(3)] allow show ?thesis by auto
  next
    case (default ms w v x)
    from default_decision_ALLOW [OF default(4) allow(1)] allow(2) show ?thesis by auto
  qed
qed

section \<open>Preflight, grants and risk\<close>

text \<open>
  An authorization pair without a verified preview, without the trusted subject or the session
  it requires, or outside the modes \<open>disabled\<close>, \<open>enforce\<close> and \<open>enforce_safe\<close>, is refused before
  any rule or grant is looked at: the check returns a denial and leaves grants and
  confirmations as they were.
\<close>

lemma preflight_refuses:
  assumes iv: "normalize_invocation env raw = Inr iv"
    and desc: "auth_descriptor_of (inv_tool iv) (inv_method iv) = Some a"
    and bad: "co_confirmation_preview opts = None \<or>
      (\<exists>sub. ad_required_subject_id a = Some sub \<and> ctx_subject_id (normalize_context ctx) \<noteq> Some sub) \<or>
      (ad_requires_session a \<and> \<not> opt_truthy (ctx_session_id (normalize_context ctx))) \<or>
      check_mode ctl opts s \<notin> {''disabled'', ''enforce'', ''enforce_safe''}"
    and fresh: "new_decision_id env \<notin> dr_decision_id ` set (decisions s)"
  shows "\<exists>d t. check env ctl opts raw ctx s = (Inr d, t) \<and> d_decision d = DENY \<and>
    grants t = grants s \<and> pendings t = pendings s"
proof -
  have pair: "is_policy_authorization_pair (inv_tool iv) (inv_method iv)"
    using desc auth_descriptor_iff by blast
  have send: "ad_required_subject_id a = None \<and> \<not> ad_requires_session a"
    if "is_exact_blockchain_send (inv_tool iv) (inv_method iv)"
    using desc that
    by (auto simp: is_exact_blockchain_send_def auth_descriptor_of_def POLICY_AUTHORIZATION_DESCRIPTORS_def)
  let ?pre = "authorization_preflight_decision iv (normalize_context ctx) (check_risk ctl opts iv)
      (check_mode ctl opts s) (co_confirmation_preview opts) (co_confirmation_preview_error opts)"
  have "?pre \<noteq> None"
    using bad desc pair send
    by (auto simp: authorization_preflight_decision_def Let_def split: option.splits)
  then obtain d where d: "?pre = Some d" by blast
  let ?l = "ctl_log_decision env (ctl_config ctl) iv (normalize_context ctx) d s"
  have "check env ctl opts raw ctx s = (Inr d, snd ?l)"
    using iv d ctl_log_fresh [OF fresh, of "ctl_config ctl" iv "normalize_context ctx" d]
    by (cases ?l) (simp add: check_def check_normalized_def Let_def st_bind_def)
  then show ?thesis using preflight_denies [OF d] by (simp add: ctl_log_decision_frame)
qed

text \<open>
  In every reachable store each grant has a known effect and duration; a session grant names a
  session, a one-time grant an invocation hash, a timed grant its expiry; and a grant for a
  financial tool, an authorization pair, an operations command or a project start is a
  one-time grant.
\<close>

lemma reachable_grants_have_valid_terms:
  assumes "reach policy_step empty_store s" and "g \<in> set (grants s)"
  shows "terms_ok g"
  using policy_reach_terms [OF assms(1)] assms(2) by (simp add: terms_inv_def all_terms_def list_all_iff)

text \<open>
  The risk a check works with: for an authorization pair the registered one, so no caller
  can lower it; otherwise a trusted override, or the registered risk with the class raised,
  never lowered, to the class the command declares.
\<close>

lemma check_risk_not_lowered:
  "(is_policy_authorization_pair (inv_tool iv) (inv_method iv) \<longrightarrow>
      check_risk ctl opts iv = resolve_risk (ctl_registry ctl) iv) \<and>
   (co_trusted_risk_override opts = None \<longrightarrow>
      POLICY_RISK_ORDER (risk_class (resolve_risk (ctl_registry ctl) iv)) \<le>
        POLICY_RISK_ORDER (risk_class (check_risk ctl opts iv)) \<and>
      (\<forall>c. co_risk_override opts = Some c \<and> \<not> is_policy_authorization_pair (inv_tool iv) (inv_method iv) \<longrightarrow>
        POLICY_RISK_ORDER (risk_class c) \<le> POLICY_RISK_ORDER (risk_class (check_risk ctl opts iv))))"
  by (auto simp: check_risk_def Let_def merge_policy_risk_order split: option.splits)

text \<open>
  Risks registered for the length of a block are gone after it, whatever the block does to the
  registry: each key that the declared tools define has its previous risk again, or none if it
  had none; a key they do not define is as the block left it.
\<close>

lemma temporary_risks_restored:
  "map_of (snd (temporary_tool_risks body tools registry)) key =
     (if key \<in> fst ` set (derive_tool_risk_registry tools) then map_of registry key
      else map_of (snd (body (dict_update registry (derive_tool_risk_registry tools)))) key)"
proof -
  let ?risks = "derive_tool_risk_registry tools"
  let ?prev = "map (\<lambda>(key, _). (key, dict_get registry key)) ?risks"
  have keys: "fst ` set ?prev = fst ` set ?risks" by (force simp: image_iff)
  have saved: "\<forall>(key, spec)\<in>set ?prev. spec = map_of registry key" by (auto simp: dict_get_def)
  have "snd (temporary_tool_risks body tools registry) =
      temporary_exit ?prev (snd (body (dict_update registry ?risks)))"
    by (simp add: temporary_tool_risks_def temporary_enter_def Let_def split: prod.split)
  then show ?thesis
    using temporary_exit_saved [OF saved] temporary_exit_other [of key ?prev] keys by simp
qed

section \<open>Texts\<close>

text \<open>
  The dictionary form of a risk specification reads back as the same specification.
\<close>

lemma risk_spec_roundtrip: "RiskSpec_from_dict (RiskSpec_to_dict r) = Some r"
  by (simp add: RiskSpec_from_dict_def RiskSpec_to_dict_def py_defs)

text \<open>
  The arguments shown to the operator keep the keys in order; the value of a key that contains
  a secret word, in any case, is replaced by a fixed text whatever it was, and no list or
  dictionary is shown beyond its size.
\<close>

lemma sanitize_args_hides:
  "map fst (sanitize_args args) = map fst args \<and>
   (\<forall>(k, v)\<in>set (sanitize_args args).
      (\<forall>w\<in>set SECRET_TOKENS. str_contains w (str_lower k) \<longrightarrow> v = PStr ''[REDACTED]'') \<and>
      (\<forall>xs. v \<noteq> PList xs) \<and>
      (\<forall>d. v = PDict d \<longrightarrow> (\<exists>kind n. d = [(''_type'', PStr kind), (''size'', PInt n)])))"
proof -
  have shape: "(\<forall>xs. sanitize_value v \<noteq> PList xs) \<and>
      (\<forall>d. sanitize_value v = PDict d \<longrightarrow> (\<exists>kind n. d = [(''_type'', PStr kind), (''size'', PInt n)]))" for v
    by (cases v) auto
  show ?thesis
    by (auto simp: sanitize_args_def shape str_contains_any_def list_ex_iff split: if_splits)
qed

text \<open>What a preview may hold: nesting of at most the given depth, lists of at most six entries and
  dictionaries of at most nine, the last one counting what was left out.\<close>

fun preview_within :: "nat \<Rightarrow> pyval \<Rightarrow> bool" where
  "preview_within 0 (PList xs) = False"
| "preview_within 0 (PDict d) = False"
| "preview_within (Suc n) (PList xs) = (length xs \<le> 6 \<and> list_all (preview_within n) xs)"
| "preview_within (Suc n) (PDict d) = (length d \<le> 9 \<and> list_all (\<lambda>(_, v). preview_within n v) d)"
| "preview_within n v = True"

lemma preview_within_str [simp]: "preview_within n (PStr s)"
  by (cases n) simp_all

lemma dict_set_length: "length (dict_set d k v) \<le> Suc (length d)"
  by (induction d k v rule: dict_set.induct) auto

lemma dict_set_all: "list_all (\<lambda>(_, v). P v) d \<Longrightarrow> P v \<Longrightarrow> list_all (\<lambda>(_, v). P v) (dict_set d k v)"
  by (induction d k v rule: dict_set.induct) auto

lemma bounded_preview_dict:
  assumes "list_all (\<lambda>(_, v). preview_within n v) b" and "length b \<le> 8"
  shows "preview_within (Suc n) (PDict (if c then dict_set b k (PStr x) else b))"
  using assms dict_set_length [of b k "PStr x"] dict_set_all [OF assms(1), of "PStr x" k] by auto

lemma bounded_preview_within: "preview_within n (bounded_preview n v)"
proof (induction n arbitrary: v)
  case 0
  then show ?case by (simp add: TRUNCATED_def)
next
  case (Suc n)
  show ?case
  proof (cases v)
    case (PDict d)
    let ?b = "map (\<lambda>(k, c). (k, case c of PStr s \<Rightarrow> if Suc n = 3 \<and> k = ''command'' then PStr s else bounded_preview n c
        | _ \<Rightarrow> bounded_preview n c)) (take 8 d)"
    have "list_all (\<lambda>(_, v). preview_within n v) ?b"
      by (auto simp: list_all_iff Suc.IH split: pyval.split)
    then show ?thesis
      unfolding PDict bounded_preview.simps Let_def by (rule bounded_preview_dict) simp
  qed (auto simp: list_all_iff Suc.IH)
qed

text \<open>
  The preview of any value is bounded: at most three levels deep, at most six entries in a list
  and nine in a dictionary, however large the value is.
\<close>

lemma preview_is_bounded: "preview_within 3 (bounded_preview_value v)"
  by (simp add: bounded_preview_value_def bounded_preview_within)

lemma space_lower [simp]: "is_space (lower_char c) = is_space c"
proof -
  have "of_char c < (256 :: nat)" by simp
  then show ?thesis by (auto simp: is_space_def lower_char_def Let_def)
qed

lemma dropWhile_map_lower:
  "dropWhile is_space (map lower_char s) = map lower_char (dropWhile is_space s)"
  by (induction s) auto

lemma str_strip_lower: "str_strip (str_lower s) = str_lower (str_strip s)"
  by (simp add: py_defs dropWhile_map_lower rev_map)

lemma token_lower: "normalize_confirmation_token (str_lower s) = normalize_confirmation_token s"
  by (simp add: normalize_confirmation_token_def str_strip_lower)

text \<open>
  A reply counts as consent exactly when its normalised text is one of the affirmative words and
  none of the negative ones, as refusal exactly in the mirrored case, and is unclear otherwise:
  a word in both lists never counts as consent. Letter case does not matter.
\<close>

lemma reply_is_unambiguous:
  "(parse_confirmation_response text (Some yes) (Some no) = Affirm \<longleftrightarrow>
      normalize_confirmation_token text \<noteq> [] \<and>
      normalize_confirmation_token text \<in> normalize_confirmation_token ` set yes - normalize_confirmation_token ` set no) \<and>
   (parse_confirmation_response text (Some yes) (Some no) = Deny_response \<longleftrightarrow>
      normalize_confirmation_token text \<noteq> [] \<and>
      normalize_confirmation_token text \<in> normalize_confirmation_token ` set no - normalize_confirmation_token ` set yes) \<and>
   parse_confirmation_response (str_lower text) (Some yes) (Some no) =
     parse_confirmation_response text (Some yes) (Some no)"
  by (auto simp: parse_confirmation_response_def normalized_tokens_def Let_def token_lower)

end
