(* ===== verification/Turn_Lease.thy ===== *)
theory Turn_Lease
  imports SQL_Table
begin

text \<open>
  Session turn leases (\<open>modules/session/storage/turn_leases.py\<close>): at most one worker runs a
  turn of a session, and a fence token tells a superseded worker apart from the current one.
  The table \<open>session_turn_leases\<close> is a list of rows with the session as primary key.
  Instants are microseconds since the epoch: \<open>_to_iso_utc\<close> renders every stored instant in
  UTC, and on these texts the comparison \<open>expires_at > ?\<close> is the order of the instants.
  \<open>lease_env\<close> has the clock reading of a call and \<open>datetime.fromisoformat\<close> (after the
  replacement of \<open>Z\<close>), which gives no instant for a malformed text.
\<close>

record lease_env =
  le_utc_now :: int
  le_fromisoformat :: "string \<Rightarrow> int option"

record lease_row =
  lr_session_id :: string
  lr_owner :: string
  lr_request_id :: string
  lr_fence_token :: int
  lr_acquired_at :: int
  lr_renewed_at :: int
  lr_expires_at :: int
  lr_released_at :: "int option"

record turn_lease =
  sl_session_id :: string
  sl_owner :: string
  sl_request_id :: string
  sl_fence_token :: int
  sl_acquired_at :: int
  sl_renewed_at :: int
  sl_expires_at :: int

definition SessionTurnLease_from_row :: "lease_row \<Rightarrow> turn_lease" where
  "SessionTurnLease_from_row r =
     \<lparr>sl_session_id = lr_session_id r, sl_owner = lr_owner r, sl_request_id = lr_request_id r,
      sl_fence_token = lr_fence_token r, sl_acquired_at = lr_acquired_at r,
      sl_renewed_at = lr_renewed_at r, sl_expires_at = lr_expires_at r\<rparr>"

datatype lease_error =
    Lease_ValueError string
  | Lease_RuntimeError string
  | SessionTurnBusyError string int string int
  | SessionTurnFenceError string

type_synonym lease_table = "lease_row list"
type_synonym 'a lease_op = "lease_table \<Rightarrow> (lease_error + 'a) \<times> lease_table"

section \<open>Operations\<close>

definition lease_expiry :: "lease_env \<Rightarrow> string option \<Rightarrow> int \<Rightarrow> lease_error + (int \<times> int)" where
  "lease_expiry env now_iso ttl_s =
     (let expiry = (\<lambda>now. (now, now + 1000000 * max 1 ttl_s))
      in case now_iso of
           None \<Rightarrow> Inr (expiry (le_utc_now env))
         | Some text \<Rightarrow>
             if text = [] then Inr (expiry (le_utc_now env))
             else (case le_fromisoformat env text of
                     None \<Rightarrow> Inl (Lease_ValueError ''Invalid isoformat string'')
                   | Some now \<Rightarrow> Inr (expiry now)))"

definition retry_after_seconds :: "int \<Rightarrow> int \<Rightarrow> int" where
  "retry_after_seconds expires_at now = max 1 ((expires_at - now) div 1000000)"

definition set_renewed :: "int \<Rightarrow> int \<Rightarrow> lease_row \<Rightarrow> lease_row" where
  "set_renewed now expires r = r\<lparr>lr_renewed_at := now, lr_expires_at := expires\<rparr>"

definition set_released :: "int \<Rightarrow> lease_row \<Rightarrow> lease_row" where
  "set_released now r = r\<lparr>lr_released_at := Some now, lr_renewed_at := now\<rparr>"

text \<open>The row that \<open>_renew_locked\<close> and \<open>release\<close> address.\<close>

definition held_by :: "string \<Rightarrow> string \<Rightarrow> int \<Rightarrow> lease_row \<Rightarrow> bool" where
  "held_by sid owner fence r =
     (lr_session_id r = sid \<and> lr_owner r = owner \<and> lr_fence_token r = fence \<and> lr_released_at r = None)"

definition renew_locked ::
  "string \<Rightarrow> string \<Rightarrow> int \<Rightarrow> int \<Rightarrow> int \<Rightarrow> lease_table \<Rightarrow> bool \<times> lease_table" where
  "renew_locked sid owner fence now expires t =
     (if sid = [] \<or> owner = [] then (False, t)
      else (sql_count (held_by sid owner fence) t > 0,
            sql_update (held_by sid owner fence) (set_renewed now expires) t))"

definition get_locked :: "string \<Rightarrow> lease_table \<Rightarrow> turn_lease option" where
  "get_locked sid t =
     (case sql_get lr_session_id sid t of
        None \<Rightarrow> None
      | Some r \<Rightarrow> if lr_released_at r \<noteq> None then None else Some (SessionTurnLease_from_row r))"

text \<open>\<open>COALESCE(MAX(fence_token), 0)\<close> over the rows that satisfy a condition.\<close>

definition max_fence :: "(lease_row \<Rightarrow> bool) \<Rightarrow> lease_table \<Rightarrow> int" where
  "max_fence p t =
     (case map lr_fence_token (filter p t) of [] \<Rightarrow> 0 | x # xs \<Rightarrow> max_by id x xs)"

text \<open>\<open>INSERT ... ON CONFLICT(session_id) DO UPDATE\<close>, all columns replaced.\<close>

definition upsert_lease :: "lease_row \<Rightarrow> lease_table \<Rightarrow> lease_table" where
  "upsert_lease row t =
     (case sql_insert lr_session_id row t of
        Some u \<Rightarrow> u
      | None \<Rightarrow> sql_update (\<lambda>r. lr_session_id r = lr_session_id row) (\<lambda>_. row) t)"

definition acquire_body ::
  "string \<Rightarrow> string \<Rightarrow> string \<Rightarrow> int \<Rightarrow> int \<Rightarrow> turn_lease lease_op" where
  "acquire_body sid owner request now expires t =
     (case find (\<lambda>r. lr_session_id r = sid \<and> lr_released_at r = None \<and> lr_expires_at r > now) t of
        Some current \<Rightarrow>
          let busy = Inl (SessionTurnBusyError sid
                (max 1 (retry_after_seconds (lr_expires_at current) now))
                (lr_owner current) (lr_expires_at current))
          in if lr_owner current = owner \<and> lr_request_id current = request
             then (case renew_locked sid owner (lr_fence_token current) now expires t of
                     (True, u) \<Rightarrow> (case get_locked sid u of Some l \<Rightarrow> (Inr l, u) | None \<Rightarrow> (busy, u))
                   | (False, u) \<Rightarrow> (busy, u))
             else (busy, t)
      | None \<Rightarrow>
          let next_fence = max_fence (\<lambda>r. lr_session_id r = sid) t + 1;
              u = upsert_lease \<lparr>lr_session_id = sid, lr_owner = owner, lr_request_id = request,
                    lr_fence_token = next_fence, lr_acquired_at = now, lr_renewed_at = now,
                    lr_expires_at = expires, lr_released_at = None\<rparr> t
          in case get_locked sid u of
               None \<Rightarrow> (Inl (Lease_RuntimeError ''failed to acquire session turn lease''), u)
             | Some l \<Rightarrow> (Inr l, u))"

definition acquire ::
  "lease_env \<Rightarrow> string \<Rightarrow> string \<Rightarrow> string \<Rightarrow> int \<Rightarrow> string option \<Rightarrow> turn_lease lease_op" where
  "acquire env session_id owner request_id ttl_s now_iso t =
     (let sid = str_strip session_id; lease_owner = str_strip owner; request = str_strip request_id
      in if sid = [] then (Inl (Lease_ValueError ''session_id is required''), t)
         else if lease_owner = [] then (Inl (Lease_ValueError ''owner is required''), t)
         else if request = [] then (Inl (Lease_ValueError ''request_id is required''), t)
         else case lease_expiry env now_iso ttl_s of
                Inl e \<Rightarrow> (Inl e, t)
              | Inr (now, expires) \<Rightarrow> in_transaction (acquire_body sid lease_owner request now expires) t)"

definition renew ::
  "lease_env \<Rightarrow> string \<Rightarrow> string \<Rightarrow> int \<Rightarrow> int \<Rightarrow> string option \<Rightarrow> bool lease_op" where
  "renew env session_id owner fence_token ttl_s now_iso t =
     (case lease_expiry env now_iso ttl_s of
        Inl e \<Rightarrow> (Inl e, t)
      | Inr (now, expires) \<Rightarrow>
          (case renew_locked (str_strip session_id) (str_strip owner) fence_token now expires t of
             (b, u) \<Rightarrow> (Inr b, u)))"

definition release ::
  "lease_env \<Rightarrow> string \<Rightarrow> string \<Rightarrow> int \<Rightarrow> string option \<Rightarrow> bool lease_op" where
  "release env session_id owner fence_token now_iso t =
     (case lease_expiry env now_iso 1 of
        Inl e \<Rightarrow> (Inl e, t)
      | Inr (now, _) \<Rightarrow>
          let p = held_by (str_strip session_id) (str_strip owner) fence_token
          in (Inr (sql_count p t > 0), sql_update p (set_released now) t))"

definition assert_fence :: "string \<Rightarrow> int \<Rightarrow> lease_table \<Rightarrow> lease_error + unit" where
  "assert_fence session_id fence_token t =
     (let sid = str_strip session_id
      in case sql_get lr_session_id sid t of
           None \<Rightarrow> Inl (SessionTurnFenceError (''session turn lease is not active: '' @ sid))
         | Some r \<Rightarrow>
             if lr_released_at r \<noteq> None
             then Inl (SessionTurnFenceError (''session turn lease is not active: '' @ sid))
             else if lr_fence_token r \<noteq> fence_token
             then Inl (SessionTurnFenceError (''stale session turn fence for '' @ sid))
             else Inr ())"

definition get_active :: "string \<Rightarrow> lease_table \<Rightarrow> turn_lease option" where
  "get_active session_id t = get_locked (str_strip session_id) t"

record lease_status =
  ls_active_count :: nat
  ls_expired_unreleased_count :: nat
  ls_max_fence_token :: int

definition status :: "lease_env \<Rightarrow> string option \<Rightarrow> lease_table \<Rightarrow> lease_error + lease_status" where
  "status env now_iso t =
     rbind (lease_expiry env now_iso 1) (\<lambda>(now, _).
       Inr \<lparr>ls_active_count = sql_count (\<lambda>r. lr_released_at r = None \<and> lr_expires_at r > now) t,
            ls_expired_unreleased_count = sql_count (\<lambda>r. lr_released_at r = None \<and> lr_expires_at r \<le> now) t,
            ls_max_fence_token = max_fence (\<lambda>_. True) t\<rparr>)"

section \<open>The table\<close>

definition lease_inv :: "lease_table \<Rightarrow> bool" where
  "lease_inv t = (keys_unique lr_session_id t \<and> (\<forall>r\<in>set t. 1 \<le> lr_fence_token r))"

definition lease_of :: "string \<Rightarrow> lease_table \<Rightarrow> lease_row option" where
  "lease_of sid t = sql_get lr_session_id sid t"

text \<open>The fence of a session: the token of its row, 0 before the first lease.\<close>

definition fence_of :: "string \<Rightarrow> lease_table \<Rightarrow> int" where
  "fence_of sid t = (case lease_of sid t of None \<Rightarrow> 0 | Some r \<Rightarrow> lr_fence_token r)"

interpretation renewed_rows: keyed_update lr_session_id "set_renewed now e" for now e
  by unfold_locales (simp add: set_renewed_def)

interpretation released_rows: keyed_update lr_session_id "set_released now" for now
  by unfold_locales (simp add: set_released_def)

lemma max_fence_session: "lease_inv t \<Longrightarrow> max_fence (\<lambda>r. lr_session_id r = sid) t = fence_of sid t"
  by (auto simp: max_fence_def lease_inv_def filter_by_key fence_of_def lease_of_def split: option.split)

lemma lease_of_upsert:
  "lease_of sid (upsert_lease row t) = (if sid = lr_session_id row then Some row else lease_of sid t)"
  using sql_get_None [of lr_session_id "lr_session_id row" t]
  by (auto simp: upsert_lease_def sql_insert_def lease_of_def sql_get_replace sql_get_append
      split: option.split)

lemma keys_upsert:
  "keys_unique lr_session_id t \<Longrightarrow> keys_unique lr_session_id (upsert_lease row t)"
proof -
  have "map lr_session_id (sql_update (\<lambda>r. lr_session_id r = lr_session_id row) (\<lambda>_. row) t) = map lr_session_id t"
    by (auto simp: sql_update_def)
  then show "keys_unique lr_session_id t \<Longrightarrow> keys_unique lr_session_id (upsert_lease row t)"
    by (auto simp: upsert_lease_def sql_insert_def keys_unique_def)
qed

lemma set_upsert: "set (upsert_lease row t) \<subseteq> insert row (set t)"
  by (auto simp: upsert_lease_def sql_insert_def set_sql_update)

lemma fence_of_nonneg: "lease_inv t \<Longrightarrow> 0 \<le> fence_of sid t"
  using sql_get_Some [of lr_session_id sid t]
  by (force simp: fence_of_def lease_of_def lease_inv_def split: option.split)

section \<open>Outcomes of an acquisition\<close>

definition running :: "int \<Rightarrow> lease_row \<Rightarrow> bool" where
  "running now r = (lr_released_at r = None \<and> now < lr_expires_at r)"

lemma find_running:
  assumes "lease_inv t"
  shows "find (\<lambda>r. lr_session_id r = sid \<and> lr_released_at r = None \<and> lr_expires_at r > now) t =
    (case lease_of sid t of None \<Rightarrow> None | Some r \<Rightarrow> if running now r then Some r else None)"
  using find_by_key [of lr_session_id t sid "running now"] assms
  unfolding running_def lease_of_def lease_inv_def by simp

lemma acquire_body_busy:
  assumes "lease_inv t" "lease_of sid t = Some r" "running now r"
    and "\<not> (lr_owner r = owner \<and> lr_request_id r = request)"
  shows "acquire_body sid owner request now expires t =
    (Inl (SessionTurnBusyError sid (max 1 (retry_after_seconds (lr_expires_at r) now))
       (lr_owner r) (lr_expires_at r)), t)"
proof -
  have f: "find (\<lambda>r. lr_session_id r = sid \<and> lr_released_at r = None \<and> lr_expires_at r > now) t = Some r"
    using find_running [OF assms(1)] assms by simp
  show ?thesis using assms(4) unfolding acquire_body_def f by (auto simp: Let_def)
qed

lemma lease_of_renewed:
  "lease_of k (sql_update p (set_renewed now e) t) =
     map_option (\<lambda>r. if p r then set_renewed now e r else r) (lease_of k t)"
  by (simp add: lease_of_def renewed_rows.get_update)

lemma lease_of_released:
  "lease_of k (sql_update p (set_released now) t) =
     map_option (\<lambda>r. if p r then set_released now r else r) (lease_of k t)"
  by (simp add: lease_of_def released_rows.get_update)

lemma held_count:
  "lease_inv t \<Longrightarrow> lease_of sid t = Some r \<Longrightarrow>
     sql_count (held_by sid owner fence) t = (if held_by sid owner fence r then 1 else 0)"
  using sql_count_key [of lr_session_id t sid "\<lambda>r. lr_owner r = owner \<and> lr_fence_token r = fence \<and> lr_released_at r = None"]
    sql_get_Some [of lr_session_id sid t r]
  unfolding held_by_def lease_of_def lease_inv_def by simp

lemma acquire_body_again:
  assumes inv: "lease_inv t" and r: "lease_of sid t = Some r" "running now r"
    and own: "lr_owner r = owner" "lr_request_id r = request" and ne: "sid \<noteq> []" "owner \<noteq> []"
  shows "acquire_body sid owner request now expires t =
    (Inr (SessionTurnLease_from_row (set_renewed now expires r)),
     sql_update (held_by sid owner (lr_fence_token r)) (set_renewed now expires) t)"
proof -
  have f: "find (\<lambda>r. lr_session_id r = sid \<and> lr_released_at r = None \<and> lr_expires_at r > now) t = Some r"
    using find_running [OF inv] r by simp
  have h: "held_by sid owner (lr_fence_token r) r"
    using r own sql_get_Some [of lr_session_id sid t r] by (simp add: held_by_def running_def lease_of_def)
  have g: "get_locked sid (sql_update (held_by sid owner (lr_fence_token r)) (set_renewed now expires) t) =
      Some (SessionTurnLease_from_row (set_renewed now expires r))"
    using lease_of_renewed [of sid "held_by sid owner (lr_fence_token r)" now expires t] r h
    by (simp add: get_locked_def lease_of_def running_def set_renewed_def)
  show ?thesis
    using own ne h g unfolding acquire_body_def f
    by (simp add: Let_def renew_locked_def held_count [OF inv r(1)])
qed

definition new_lease :: "string \<Rightarrow> string \<Rightarrow> string \<Rightarrow> int \<Rightarrow> int \<Rightarrow> int \<Rightarrow> lease_row" where
  "new_lease sid owner request fence now expires =
     \<lparr>lr_session_id = sid, lr_owner = owner, lr_request_id = request, lr_fence_token = fence,
      lr_acquired_at = now, lr_renewed_at = now, lr_expires_at = expires, lr_released_at = None\<rparr>"

lemma acquire_body_fresh:
  assumes inv: "lease_inv t" and free: "\<And>r. lease_of sid t = Some r \<Longrightarrow> \<not> running now r"
  shows "acquire_body sid owner request now expires t =
    (Inr (SessionTurnLease_from_row (new_lease sid owner request (fence_of sid t + 1) now expires)),
     upsert_lease (new_lease sid owner request (fence_of sid t + 1) now expires) t)"
proof -
  let ?row = "new_lease sid owner request (fence_of sid t + 1) now expires"
  have f: "find (\<lambda>r. lr_session_id r = sid \<and> lr_released_at r = None \<and> lr_expires_at r > now) t = None"
    using find_running [OF inv] free by (simp split: option.split)
  have "lease_of sid (upsert_lease ?row t) = Some ?row" by (simp add: lease_of_upsert new_lease_def)
  then have "get_locked sid (upsert_lease ?row t) = Some (SessionTurnLease_from_row ?row)"
    by (simp add: get_locked_def lease_of_def new_lease_def)
  then show ?thesis
    unfolding acquire_body_def f
    by (simp add: Let_def max_fence_session [OF inv] new_lease_def)
qed

section \<open>Steps\<close>

inductive lease_step :: "lease_table \<Rightarrow> lease_table \<Rightarrow> bool" where
  step_acquire: "acquire env session owner request ttl now t = (r, u) \<Longrightarrow> lease_step t u"
| step_renew: "renew env session owner fence ttl now t = (b, u) \<Longrightarrow> lease_step t u"
| step_release: "release env session owner fence now t = (b, u) \<Longrightarrow> lease_step t u"

text \<open>What a step may do to the table: renew rows, release rows, or install a new lease with
  the next fence on a session without a running one.\<close>

inductive lease_change :: "lease_table \<Rightarrow> lease_table \<Rightarrow> bool" where
  change_none: "lease_change t t"
| change_renew: "lease_change t (sql_update (held_by sid owner fence) (set_renewed now e) t)"
| change_release: "lease_change t (sql_update (held_by sid owner fence) (set_released now) t)"
| change_new: "(\<And>r. lease_of sid t = Some r \<Longrightarrow> \<not> running now r) \<Longrightarrow>
    lease_change t (upsert_lease (new_lease sid owner request (fence_of sid t + 1) now e) t)"

lemma acquire_body_change:
  assumes inv: "lease_inv t" and ne: "sid \<noteq> []" "owner \<noteq> []"
  shows "lease_change t (snd (in_transaction (acquire_body sid owner request now e) t))"
proof (cases "\<exists>r. lease_of sid t = Some r \<and> running now r")
  case True
  then obtain r where r: "lease_of sid t = Some r" "running now r" by blast
  show ?thesis
  proof (cases "lr_owner r = owner \<and> lr_request_id r = request")
    case True
    with acquire_body_again [OF inv r] ne show ?thesis
      by (simp add: in_transaction_def change_renew)
  next
    case False
    with acquire_body_busy [OF inv r] show ?thesis by (simp add: in_transaction_def change_none)
  qed
next
  case False
  then have "\<And>r. lease_of sid t = Some r \<Longrightarrow> \<not> running now r" by blast
  with acquire_body_fresh [OF inv this] show ?thesis
    by (simp add: in_transaction_def change_new)
qed

lemma lease_step_change: "lease_step t u \<Longrightarrow> lease_inv t \<Longrightarrow> lease_change t u"
proof (induction rule: lease_step.induct)
  case (step_acquire env session owner request ttl now t r u)
  then show ?case
    using acquire_body_change [of t "str_strip session" "str_strip owner" "str_strip request"]
    by (auto simp: acquire_def Let_def change_none split: if_splits sum.splits) (metis snd_conv)
next
  case (step_renew env session owner fence ttl now t b u)
  then show ?case
    by (auto simp: renew_def renew_locked_def change_none change_renew split: sum.splits if_splits)
next
  case (step_release env session owner fence now t b u)
  then show ?case
    by (auto simp: release_def Let_def change_none change_release split: sum.splits)
qed

lemma lease_change_inv: "lease_change t u \<Longrightarrow> lease_inv t \<Longrightarrow> lease_inv u"
proof (induction rule: lease_change.induct)
  case (change_renew t sid owner fence now e)
  then show ?case
    by (auto simp: lease_inv_def renewed_rows.unique_update set_sql_update) (simp add: set_renewed_def)
next
  case (change_release t sid owner fence now)
  then show ?case
    by (auto simp: lease_inv_def released_rows.unique_update set_sql_update) (simp add: set_released_def)
next
  case (change_new sid t now owner request e)
  then show ?case
    using set_upsert fence_of_nonneg [of t sid]
    by (fastforce simp: lease_inv_def keys_upsert new_lease_def)
qed

text \<open>The age of a session: twice its fence, plus one once the lease is released. No step
  lowers it, and a token is accepted exactly at one age.\<close>

definition lease_age :: "string \<Rightarrow> lease_table \<Rightarrow> int" where
  "lease_age sid t = (case lease_of sid t of None \<Rightarrow> 0
     | Some r \<Rightarrow> 2 * lr_fence_token r + (if lr_released_at r = None then 0 else 1))"

lemma lease_change_age: "lease_change t u \<Longrightarrow> lease_age sid t \<le> lease_age sid u"
proof (induction rule: lease_change.induct)
  case (change_renew t sid' owner fence now e)
  then show ?case by (auto simp: lease_age_def lease_of_renewed set_renewed_def split: option.split)
next
  case (change_release t sid' owner fence now)
  then show ?case
    by (auto simp: lease_age_def lease_of_released set_released_def held_by_def split: option.split)
next
  case (change_new sid' t now owner request e)
  then show ?case
    by (auto simp: lease_age_def lease_of_upsert new_lease_def fence_of_def split: option.split)
qed simp

interpretation lease: monotone_system lease_step lease_inv "lease_age sid" for sid
proof
  show "lease_inv t" if "lease_inv s" "lease_step s t" for s t
    by (rule lease_change_inv [OF lease_step_change [OF that(2,1)] that(1)])
  show "lease_age sid s \<le> lease_age sid t" if "lease_inv s" "lease_step s t" for s t
    by (rule lease_change_age [OF lease_step_change [OF that(2,1)]])
qed

lemma assert_fence_age:
  assumes "lease_inv t"
  shows "assert_fence session f t = Inr () \<longleftrightarrow> 1 \<le> f \<and> lease_age (str_strip session) t = 2 * f"
proof (cases "lease_of (str_strip session) t")
  case None
  then show ?thesis by (simp add: assert_fence_def Let_def lease_of_def lease_age_def)
next
  case (Some r)
  then have "1 \<le> lr_fence_token r"
    using assms sql_get_Some [of lr_session_id "str_strip session" t r] by (simp add: lease_inv_def lease_of_def)
  with Some show ?thesis
    by (auto simp: assert_fence_def Let_def lease_of_def lease_age_def)
qed

lemma lease_inv_Nil: "lease_inv []"
  by (simp add: lease_inv_def)

lemmas lease_reach_inv = lease.inv_reach [OF _ lease_inv_Nil]

section \<open>Properties\<close>

definition demo_lease_env :: lease_env where
  "demo_lease_env = \<lparr>le_utc_now = 0, le_fromisoformat = (\<lambda>_. None)\<rparr>"

definition demo_lease_late :: lease_env where
  "demo_lease_late = \<lparr>le_utc_now = 90000000, le_fromisoformat = (\<lambda>_. None)\<rparr>"

definition demo_lease1 :: lease_table where
  "demo_lease1 = snd (acquire demo_lease_env ''s'' ''w1'' ''r1'' 60 None [])"

definition demo_lease2 :: lease_table where
  "demo_lease2 = snd (acquire demo_lease_late ''s'' ''w2'' ''r2'' 60 None demo_lease1)"

lemma demo_lease_reach1: "reach lease_step [] demo_lease1"
  unfolding demo_lease1_def
  by (rule reach_step [OF reach_refl], rule step_acquire, rule prod.collapse [symmetric])

lemma demo_lease_reach2: "reach lease_step demo_lease1 demo_lease2"
  unfolding demo_lease2_def
  by (rule reach_step [OF reach_refl], rule step_acquire, rule prod.collapse [symmetric])

text \<open>The running lease of a session as \<^const>\<open>get_active\<close> shows it.\<close>

lemma get_active_row:
  assumes "get_active session t = Some l"
  obtains r where "lease_of (str_strip session) t = Some r" "lr_released_at r = None"
    "l = SessionTurnLease_from_row r"
  using assms by (auto simp: get_active_def get_locked_def lease_of_def split: option.splits if_splits)

lemma acquire_valid:
  assumes "str_strip session \<noteq> []" "str_strip owner \<noteq> []" "str_strip request \<noteq> []"
    and "lease_expiry env now_iso ttl = Inr (now, expires)"
  shows "acquire env session owner request ttl now_iso t =
    in_transaction (acquire_body (str_strip session) (str_strip owner) (str_strip request) now expires) t"
  using assms by (simp add: acquire_def)

text \<open>
  C7: In every reachable table, while a session has an unreleased lease that has not expired, an
  acquisition by another owner or for another request fails with \<open>SESSION_TURN_BUSY\<close>, naming
  the holder, and leaves the table alone: two workers never hold a turn at the same time.
\<close>

theorem lease_mutual_exclusion:
  assumes reach: "reach lease_step [] t" and held: "get_active session t = Some l" "now < sl_expires_at l"
    and args: "str_strip session \<noteq> []" "str_strip owner \<noteq> []" "str_strip request \<noteq> []"
      "lease_expiry env now_iso ttl = Inr (now, expires)"
    and other: "sl_owner l \<noteq> str_strip owner \<or> sl_request_id l \<noteq> str_strip request"
  shows "\<exists>retry. acquire env session owner request ttl now_iso t =
    (Inl (SessionTurnBusyError (str_strip session) retry (sl_owner l) (sl_expires_at l)), t) \<and> 1 \<le> retry"
proof -
  obtain r where r: "lease_of (str_strip session) t = Some r" "lr_released_at r = None"
    "l = SessionTurnLease_from_row r" by (rule get_active_row [OF held(1)])
  have run: "running now r" using r held(2) by (simp add: running_def SessionTurnLease_from_row_def)
  have "acquire_body (str_strip session) (str_strip owner) (str_strip request) now expires t =
      (Inl (SessionTurnBusyError (str_strip session) (max 1 (retry_after_seconds (lr_expires_at r) now))
        (lr_owner r) (lr_expires_at r)), t)"
    by (rule acquire_body_busy [OF lease_reach_inv [OF reach] r(1) run])
      (use other r in \<open>auto simp: SessionTurnLease_from_row_def\<close>)
  then show ?thesis
    using r(3) by (simp add: acquire_valid [OF args] in_transaction_def SessionTurnLease_from_row_def)
qed

theorem lease_mutual_exclusion_witness:
  "\<exists>retry. acquire demo_lease_env ''s'' ''w2'' ''r2'' 60 None demo_lease1 =
     (Inl (SessionTurnBusyError ''s'' retry ''w1'' 60000000), demo_lease1) \<and> 1 \<le> retry"
proof -
  have "case get_active ''s'' demo_lease1 of Some l \<Rightarrow> sl_expires_at l = 60000000 \<and> sl_owner l = ''w1'' | None \<Rightarrow> False"
    by code_simp
  then obtain l where l: "get_active ''s'' demo_lease1 = Some l" "sl_expires_at l = 60000000" "sl_owner l = ''w1''"
    by (auto split: option.splits)
  have strip: "str_strip ''s'' = ''s''" "str_strip ''w2'' = ''w2''" "str_strip ''r2'' = ''r2''" by code_simp+
  have e: "lease_expiry demo_lease_env None 60 = Inr (0, 60000000)" by code_simp
  from lease_mutual_exclusion [OF demo_lease_reach1 l(1), of 0 "''w2''" "''r2''" demo_lease_env None 60 60000000]
  show ?thesis using l(2,3) strip e by simp
qed

text \<open>
  A fence token that stops being accepted never becomes valid again: if the lease a token
  stands for has been released or taken over, then in every later state \<open>assert_fence\<close> rejects
  the token, and neither a renewal nor a release with it changes anything.
\<close>

lemma stale_fence_stays_stale:
  assumes s: "reach lease_step [] s" "assert_fence session f s = Inr ()"
    and u: "reach lease_step s u" "assert_fence session f u = Inl e"
    and v: "reach lease_step u v"
  shows "(\<exists>e'. assert_fence session f v = Inl e') \<and>
    renew_locked (str_strip session) owner f now exp v = (False, v) \<and>
    sql_update (held_by (str_strip session) owner f) (set_released now) v = v"
proof -
  let ?sid = "str_strip session"
  have inv: "lease_inv s" "lease_inv u" "lease_inv v"
    using lease_reach_inv [OF s(1)] lease.inv_reach [OF u(1)] lease.inv_reach [OF v] by auto
  have f: "1 \<le> f" "lease_age ?sid s = 2 * f" using s(2) assert_fence_age [OF inv(1)] by auto
  have "lease_age ?sid s \<le> lease_age ?sid u" by (rule lease.level_reach [OF u(1) inv(1)])
  with u(2) f assert_fence_age [OF inv(2), of session f] have "2 * f < lease_age ?sid u" by auto
  also have "\<dots> \<le> lease_age ?sid v" by (rule lease.level_reach [OF v inv(2)])
  finally have age: "2 * f < lease_age ?sid v" .
  then have "assert_fence session f v \<noteq> Inr ()" using assert_fence_age [OF inv(3), of session f] by auto
  then have "\<exists>e'. assert_fence session f v = Inl e'" by (cases "assert_fence session f v") auto
  moreover obtain r where r: "lease_of ?sid v = Some r"
    using age f(1) by (cases "lease_of ?sid v") (auto simp: lease_age_def)
  with age have "\<not> held_by ?sid owner f r" by (auto simp: held_by_def lease_age_def split: if_splits)
  then have "sql_count (held_by ?sid owner f) v = 0" using held_count [OF inv(3) r] by simp
  ultimately show ?thesis by (simp add: renew_locked_def sql_update_none)
qed

text \<open>
  An acquisition with valid arguments on a session without a running lease succeeds: it returns
  a lease for the caller that lasts at least one second, with the next fence token; the lease is
  then the active one, its token is accepted, and every other session keeps its row.
\<close>

lemma acquire_free_session_succeeds:
  assumes reach: "reach lease_step [] t"
    and args: "str_strip session \<noteq> []" "str_strip owner \<noteq> []" "str_strip request \<noteq> []"
      "lease_expiry env now_iso ttl = Inr (now, expires)"
    and free: "\<And>l. get_active session t = Some l \<Longrightarrow> sl_expires_at l \<le> now"
  shows "\<exists>l u. acquire env session owner request ttl now_iso t = (Inr l, u) \<and> get_active session u = Some l \<and>
    sl_owner l = str_strip owner \<and> sl_request_id l = str_strip request \<and>
    now + 1000000 \<le> sl_expires_at l \<and> fence_of (str_strip session) t < sl_fence_token l \<and>
    assert_fence session (sl_fence_token l) u = Inr () \<and>
    (\<forall>k. k \<noteq> str_strip session \<longrightarrow> lease_of k u = lease_of k t)"
proof -
  let ?sid = "str_strip session"
  let ?row = "new_lease ?sid (str_strip owner) (str_strip request) (fence_of ?sid t + 1) now expires"
  let ?l = "SessionTurnLease_from_row ?row"
  let ?u = "upsert_lease ?row t"
  have idle: "\<not> running now r" if "lease_of ?sid t = Some r" for r
    using free that
    by (auto simp: get_active_def get_locked_def lease_of_def running_def SessionTurnLease_from_row_def
        split: if_splits)
  have run: "acquire env session owner request ttl now_iso t = (Inr ?l, ?u)"
    by (simp add: acquire_valid [OF args] in_transaction_def
        acquire_body_fresh [OF lease_reach_inv [OF reach] idle])
  have row: "lease_of ?sid ?u = Some ?row" by (simp add: lease_of_upsert new_lease_def)
  have "expires = now + 1000000 * max 1 ttl"
    using args(4) by (auto simp: lease_expiry_def Let_def split: option.splits if_splits)
  then have "now + 1000000 \<le> expires" by simp
  with run row show ?thesis
    by (intro exI [of _ ?l] exI [of _ ?u])
      (auto simp: get_active_def get_locked_def assert_fence_def lease_of_def [symmetric] lease_of_upsert
        SessionTurnLease_from_row_def new_lease_def Let_def)
qed

text \<open>
  The holder of a running lease that asks again for the same request keeps its fence token and
  its acquisition time; only the renewal and expiry times move.
\<close>

lemma reacquire_keeps_fence:
  assumes reach: "reach lease_step [] t" and held: "get_active session t = Some l" "now < sl_expires_at l"
    and args: "str_strip session \<noteq> []" "str_strip owner \<noteq> []" "str_strip request \<noteq> []"
      "lease_expiry env now_iso ttl = Inr (now, expires)"
    and same: "sl_owner l = str_strip owner" "sl_request_id l = str_strip request"
  shows "\<exists>u. acquire env session owner request ttl now_iso t =
      (Inr (l\<lparr>sl_renewed_at := now, sl_expires_at := expires\<rparr>), u) \<and>
    assert_fence session (sl_fence_token l) u = Inr ()"
proof -
  obtain r where r: "lease_of (str_strip session) t = Some r" "lr_released_at r = None"
    "l = SessionTurnLease_from_row r" by (rule get_active_row [OF held(1)])
  have run: "running now r" using r held(2) by (simp add: running_def SessionTurnLease_from_row_def)
  let ?p = "held_by (str_strip session) (str_strip owner) (lr_fence_token r)"
  let ?u = "sql_update ?p (set_renewed now expires) t"
  have own: "lr_owner r = str_strip owner" "lr_request_id r = str_strip request"
    using same r(3) by (simp_all add: SessionTurnLease_from_row_def)
  have p: "?p r" using r own sql_get_Some [of lr_session_id _ t r] by (simp add: held_by_def lease_of_def)
  have "assert_fence session (lr_fence_token r) ?u = Inr ()"
    using lease_of_renewed [of "str_strip session" ?p now expires t] r p
    by (simp add: assert_fence_def Let_def lease_of_def set_renewed_def)
  then show ?thesis
    using acquire_body_again [OF lease_reach_inv [OF reach] r(1) run own args(1,2), of expires] r(3)
    by (simp add: acquire_valid [OF args] in_transaction_def SessionTurnLease_from_row_def set_renewed_def)
qed

end
