(* ===== verification/Promotion_Rate_Limit.thy ===== *)
theory Promotion_Rate_Limit
  imports Prelude
begin

text \<open>
  The rate limit on memory promotions (\<open>modules/memory/trust/rate_limit.py\<close>): per source class
  a sliding window over the times of past promotions. Instants are microseconds; a queue of
  events has its oldest entry first. The file's \<open>defaultdict(deque)\<close> is a function from
  source classes to queues.
\<close>

datatype source_class = User_input | Tool_result | Llm_extracted | Agent_inferred | Imported_bundle

datatype rate_error = InvalidArgumentError string | Rate_KeyError source_class

record rate_limit =
  rl_source_class :: source_class
  rl_window_seconds :: int
  rl_max_promotions :: "int option"

definition RateLimit :: "source_class \<Rightarrow> int \<Rightarrow> int option \<Rightarrow> rate_error + rate_limit" where
  "RateLimit c window m =
     (if window < 0 then Inl (InvalidArgumentError ''window_seconds must be >= 0'')
      else if (case m of None \<Rightarrow> False | Some n \<Rightarrow> n \<le> 0)
      then Inl (InvalidArgumentError ''max_promotions must be positive when set'')
      else Inr \<lparr>rl_source_class = c, rl_window_seconds = window, rl_max_promotions = m\<rparr>)"

definition is_unlimited :: "rate_limit \<Rightarrow> bool" where
  "is_unlimited p = (rl_max_promotions p = None)"

record rate_decision =
  rd_allowed :: bool
  rd_reason_code :: string
  rd_retry_after_seconds :: "int option"
  rd_retry_after_ms :: "int option"
  rd_observed_promotions :: nat
  rd_max_promotions :: "int option"

definition default_max_promotions :: "(source_class \<times> int option) list" where
  "default_max_promotions = [(User_input, None), (Tool_result, Some 100), (Llm_extracted, Some 50),
     (Agent_inferred, Some 30), (Imported_bundle, Some 200)]"

definition default_rate_limits :: "(source_class \<times> rate_limit) list" where
  "default_rate_limits = map (\<lambda>(c, m). (c, \<lparr>rl_source_class = c,
     rl_window_seconds = (if c = Imported_bundle then 0 else 3600), rl_max_promotions = m\<rparr>))
     default_max_promotions"

record limiter =
  lim_policies :: "(source_class \<times> rate_limit) list"
  lim_events :: "source_class \<Rightarrow> int list"

definition PromotionRateLimiter :: "(source_class \<times> rate_limit) list \<Rightarrow> limiter" where
  "PromotionRateLimiter policies =
     \<lparr>lim_policies = (if policies = [] then default_rate_limits else policies), lim_events = (\<lambda>_. [])\<rparr>"

section \<open>Operations\<close>

definition micros :: "int \<Rightarrow> int" where
  "micros seconds = 1000000 * seconds"

text \<open>The loop that removes the events before the window, and the queue it leaves.\<close>

definition windowed_events :: "rate_limit \<Rightarrow> int \<Rightarrow> limiter \<Rightarrow> int list \<times> limiter" where
  "windowed_events p at l =
     (let events = lim_events l (rl_source_class p)
      in if is_unlimited p then (events, l)
         else let kept = dropWhile (\<lambda>e. e < at - micros (rl_window_seconds p)) events
              in (kept, l\<lparr>lim_events := (lim_events l)(rl_source_class p := kept)\<rparr>))"

definition limit_retry_after :: "rate_limit \<Rightarrow> int \<Rightarrow> int list \<Rightarrow> int option" where
  "limit_retry_after p at events =
     (if is_unlimited p \<or> events = [] then None
      else if rl_window_seconds p = 0 then Some 0
      else Some ((max 0 (hd events + micros (rl_window_seconds p) - at) + 999999) div 1000000))"

definition assess :: "source_class \<Rightarrow> int \<Rightarrow> limiter \<Rightarrow> (rate_error + rate_decision) \<times> limiter" where
  "assess c at l =
     (case map_of (lim_policies l) c of
        None \<Rightarrow> (Inl (Rate_KeyError c), l)
      | Some p \<Rightarrow>
          (case windowed_events p at l of (events, l') \<Rightarrow>
             let observed = length events;
                 allowed = \<lparr>rd_allowed = True, rd_reason_code = ''ALLOWED'', rd_retry_after_seconds = None,
                   rd_retry_after_ms = None, rd_observed_promotions = observed,
                   rd_max_promotions = rl_max_promotions p\<rparr>
             in case rl_max_promotions p of
                  None \<Rightarrow> (Inr allowed, l')
                | Some m \<Rightarrow>
                    if int observed \<ge> m
                    then (let r = limit_retry_after p at events
                          in (Inr \<lparr>rd_allowed = False, rd_reason_code = ''RATE_LIMITED'',
                                rd_retry_after_seconds = r,
                                rd_retry_after_ms = map_option (\<lambda>s. s * 1000) r,
                                rd_observed_promotions = observed, rd_max_promotions = Some m\<rparr>, l'))
                    else (Inr allowed, l')))"

definition record_promotion :: "source_class \<Rightarrow> int \<Rightarrow> limiter \<Rightarrow> (rate_error + unit) \<times> limiter" where
  "record_promotion c at l =
     (case map_of (lim_policies l) c of
        None \<Rightarrow> (Inl (Rate_KeyError c), l)
      | Some p \<Rightarrow>
          if is_unlimited p then (Inr (), l)
          else (case windowed_events p at l of (events, l') \<Rightarrow>
                  (Inr (), l'\<lparr>lim_events := (lim_events l')(rl_source_class p := events @ [at])\<rparr>)))"

definition check_and_record ::
  "source_class \<Rightarrow> int \<Rightarrow> limiter \<Rightarrow> (rate_error + rate_decision) \<times> limiter" where
  "check_and_record c at =
     st_bind (assess c at) (\<lambda>d. if rd_allowed d
       then st_bind (record_promotion c at) (\<lambda>_ l. (Inr d, l)) else (\<lambda>l. (Inr d, l)))"

section \<open>The contract: a sliding window over the whole history\<close>

text \<open>The reference keeps every promotion ever allowed and counts those in the window.\<close>

definition spec_check :: "int \<Rightarrow> int \<Rightarrow> int \<Rightarrow> int list \<Rightarrow> bool \<times> int list" where
  "spec_check w m at hist =
     (if int (length (filter (\<lambda>e. at - w \<le> e) hist)) < m then (True, hist @ [at]) else (False, hist))"

fun spec_run :: "int \<Rightarrow> int \<Rightarrow> int list \<Rightarrow> int list \<Rightarrow> bool list \<times> int list" where
  "spec_run w m [] hist = ([], hist)"
| "spec_run w m (at # ts) hist =
     (case spec_check w m at hist of (b, h) \<Rightarrow> (case spec_run w m ts h of (bs, h') \<Rightarrow> (b # bs, h')))"

text \<open>The decisions of the limiter on a sequence of calls; \<open>None\<close> for a call that raises.\<close>

fun limiter_run :: "source_class \<Rightarrow> int list \<Rightarrow> limiter \<Rightarrow> bool option list \<times> limiter" where
  "limiter_run c [] l = ([], l)"
| "limiter_run c (at # ts) l =
     (case check_and_record c at l of (r, l') \<Rightarrow>
        (case limiter_run c ts l' of (bs, l'') \<Rightarrow>
           ((case r of Inl _ \<Rightarrow> None | Inr d \<Rightarrow> Some (rd_allowed d)) # bs, l'')))"

text \<open>The queue is a suffix of the history; what is missing lies before the window.\<close>

definition refines :: "rate_limit \<Rightarrow> int \<Rightarrow> int list \<Rightarrow> limiter \<Rightarrow> bool" where
  "refines p now hist l = (sorted hist \<and> (\<forall>e\<in>set hist. e \<le> now) \<and>
     (\<exists>old. hist = old @ lim_events l (rl_source_class p) \<and>
        (\<forall>e\<in>set old. e < now - micros (rl_window_seconds p))))"

lemma sorted_window:
  assumes "sorted hist"
  shows "dropWhile (\<lambda>e. e < (b :: int)) hist = filter (\<lambda>e. b \<le> e) hist"
  using assms by (induction hist) (auto simp: not_less filter_id_conv intro!: filter_True [symmetric])

lemma window_idem:
  "dropWhile (\<lambda>e. e < (b :: int)) (filter (\<lambda>e. b \<le> e) xs) = filter (\<lambda>e. b \<le> e) xs"
  by (induction xs) auto

lemma window_of_refines:
  assumes "refines p now hist l" and "now \<le> at"
  shows "dropWhile (\<lambda>e. e < at - micros (rl_window_seconds p)) (lim_events l (rl_source_class p)) =
    filter (\<lambda>e. at - micros (rl_window_seconds p) \<le> e) hist"
proof -
  let ?b = "at - micros (rl_window_seconds p)"
  obtain old where old: "hist = old @ lim_events l (rl_source_class p)"
    "\<forall>e\<in>set old. e < now - micros (rl_window_seconds p)" using assms(1) by (auto simp: refines_def)
  have "sorted (lim_events l (rl_source_class p))" using assms(1) old by (simp add: refines_def sorted_append)
  moreover have "filter (\<lambda>e. ?b \<le> e) old = []" using old(2) assms(2) by (force simp: filter_empty_conv)
  ultimately show ?thesis by (simp add: sorted_window old(1))
qed

lemma check_and_record_refines:
  assumes ref: "refines p now hist l" and at: "now \<le> at"
    and p: "map_of (lim_policies l) c = Some p" "rl_max_promotions p = Some m"
    and spec: "spec_check (micros (rl_window_seconds p)) m at hist = (b, h)"
  shows "\<exists>d l'. check_and_record c at l = (Inr d, l') \<and> rd_allowed d = b \<and> refines p at h l' \<and>
    lim_policies l' = lim_policies l"
proof -
  let ?w = "micros (rl_window_seconds p)"
  let ?kept = "filter (\<lambda>e. at - ?w \<le> e) hist"
  note win = window_of_refines [OF ref at]
  have lim: "\<not> is_unlimited p" using p(2) by (simp add: is_unlimited_def)
  have sorted: "sorted hist" and le: "\<forall>e\<in>set hist. e \<le> at"
    using ref at by (auto simp: refines_def)
  have split: "hist = takeWhile (\<lambda>e. e < at - ?w) hist @ ?kept"
    by (metis sorted_window [OF sorted] takeWhile_dropWhile_id)
  have old: "\<forall>e\<in>set (takeWhile (\<lambda>e. e < at - ?w) hist). e < at - ?w" by (auto dest: set_takeWhileD)
  have twice: "dropWhile (\<lambda>e. e < at - ?w) ?kept = ?kept"
    by (rule window_idem)
  let ?l1 = "l\<lparr>lim_events := (lim_events l)(rl_source_class p := ?kept)\<rparr>"
  have w1: "windowed_events p at l = (?kept, ?l1)" "windowed_events p at ?l1 = (?kept, ?l1)"
    using lim win twice by (simp_all add: windowed_events_def Let_def)
  have old_ref: "refines p at hist ?l1"
    using sorted le split old by (auto simp: refines_def)
  show ?thesis
  proof (cases "int (length ?kept) < m")
    case True
    let ?l2 = "?l1\<lparr>lim_events := (lim_events ?l1)(rl_source_class p := ?kept @ [at])\<rparr>"
    have "refines p at (hist @ [at]) ?l2"
      using sorted le split old by (auto simp: refines_def sorted_append)
    moreover have "h = hist @ [at] \<and> b" using spec True by (simp add: spec_check_def)
    moreover have "\<exists>d. check_and_record c at l = (Inr d, ?l2) \<and> rd_allowed d"
      using True p lim w1
      by (simp add: check_and_record_def st_bind_def assess_def record_promotion_def Let_def)
    ultimately show ?thesis by force
  next
    case False
    have "h = hist \<and> \<not> b" using spec False by (simp add: spec_check_def)
    moreover have "\<exists>d. check_and_record c at l = (Inr d, ?l1) \<and> \<not> rd_allowed d"
      using False p lim w1(1) by (simp add: check_and_record_def st_bind_def assess_def Let_def)
    ultimately show ?thesis using old_ref by force
  qed
qed

lemma limiter_run_refines:
  assumes "refines p now hist l" and "sorted (now # ts)"
    and "map_of (lim_policies l) c = Some p" "rl_max_promotions p = Some m"
  shows "fst (limiter_run c ts l) = map Some (fst (spec_run (micros (rl_window_seconds p)) m ts hist))"
  using assms
proof (induction ts arbitrary: now hist l)
  case (Cons at ts)
  obtain b h where spec: "spec_check (micros (rl_window_seconds p)) m at hist = (b, h)"
    by (cases "spec_check (micros (rl_window_seconds p)) m at hist")
  obtain d l' where step: "check_and_record c at l = (Inr d, l')" "rd_allowed d = b"
    "refines p at h l'" "lim_policies l' = lim_policies l"
    using check_and_record_refines [OF Cons.prems(1) _ Cons.prems(3,4) spec] Cons.prems(2) by auto
  have "fst (limiter_run c ts l') = map Some (fst (spec_run (micros (rl_window_seconds p)) m ts h))"
    by (rule Cons.IH [OF step(3)]) (use Cons.prems step(4) in auto)
  with spec step show ?case by (simp add: case_prod_beta)
qed simp

definition allowed_times :: "int list \<Rightarrow> bool list \<Rightarrow> int list" where
  "allowed_times ts bs = map fst (filter snd (zip ts bs))"

lemma spec_run_history: "spec_run w m ts hist = (bs, h) \<Longrightarrow> h = hist @ allowed_times ts bs \<and> length bs = length ts"
proof (induction ts arbitrary: hist bs h)
  case (Cons at ts)
  obtain b h1 bs1 where one: "spec_check w m at hist = (b, h1)" and rest: "spec_run w m ts h1 = (bs1, h)"
    and bs: "bs = b # bs1" using Cons.prems by (auto split: prod.splits)
  have "h1 = hist @ (if b then [at] else [])" using one by (auto simp: spec_check_def split: if_splits)
  with Cons.IH [OF rest] bs show ?case by (simp add: allowed_times_def)
qed (simp add: allowed_times_def)

text \<open>No window of the reference ever holds more than the limit.\<close>

lemma spec_run_window:
  assumes "sorted (now # ts)" and "\<forall>e\<in>set hist. e \<le> now" and "0 \<le> m"
    and "\<And>a. int (length (filter (\<lambda>e. a - w \<le> e \<and> e \<le> a) hist)) \<le> m"
    and "spec_run w m ts hist = (bs, h)"
  shows "int (length (filter (\<lambda>e. a - w \<le> e \<and> e \<le> a) h)) \<le> m"
  using assms
proof (induction ts arbitrary: now hist bs h a)
  case (Cons at ts)
  obtain b h1 bs1 where one: "spec_check w m at hist = (b, h1)" and rest: "spec_run w m ts h1 = (bs1, h)"
    using Cons.prems(5) by (auto split: prod.splits)
  have le: "\<forall>e\<in>set h1. e \<le> at"
    using one Cons.prems(1,2) by (fastforce simp: spec_check_def split: if_splits)
  have win: "int (length (filter (\<lambda>e. a - w \<le> e \<and> e \<le> a) h1)) \<le> m" for a
  proof (cases "int (length (filter (\<lambda>e. at - w \<le> e) hist)) < m \<and> at \<le> a")
    case True
    have "filter (\<lambda>e. a - w \<le> e \<and> e \<le> a) hist =
        filter (\<lambda>e. a - w \<le> e \<and> e \<le> a) (filter (\<lambda>e. at - w \<le> e) hist)"
      unfolding filter_filter using True by (auto intro!: filter_cong)
    then have "length (filter (\<lambda>e. a - w \<le> e \<and> e \<le> a) hist) \<le> length (filter (\<lambda>e. at - w \<le> e) hist)"
      by (metis length_filter_le)
    with True one show ?thesis by (auto simp: spec_check_def split: if_splits)
  next
    case False
    with one Cons.prems(4) [of a] show ?thesis by (auto simp: spec_check_def split: if_splits)
  qed
  show ?case by (rule Cons.IH [OF _ le Cons.prems(3) win rest]) (use Cons.prems(1) in simp)
qed simp

section \<open>Properties\<close>

lemma fresh_refines: "refines p now [] (PromotionRateLimiter policies)"
  by (simp add: refines_def PromotionRateLimiter_def)

lemma fresh_run:
  assumes "map_of (lim_policies (PromotionRateLimiter policies)) c = Some p"
    and "rl_max_promotions p = Some m" and "sorted ts"
  shows "fst (limiter_run c ts (PromotionRateLimiter policies)) =
    map Some (fst (spec_run (micros (rl_window_seconds p)) m ts []))"
proof (cases ts)
  case (Cons a as)
  show ?thesis
    by (rule limiter_run_refines [OF fresh_refines [of p a] _ assms(1,2)]) (use assms(3) Cons in auto)
qed simp

text \<open>
  C8: On calls at non-decreasing times the limiter, which forgets the events before its window,
  decides exactly like the reference that keeps the whole history and counts the promotions in
  the window; no call raises.
\<close>

theorem limiter_refines_sliding_window:
  assumes "map_of (lim_policies (PromotionRateLimiter policies)) c = Some p"
    and "rl_max_promotions p = Some m" and "sorted ts"
  shows "fst (limiter_run c ts (PromotionRateLimiter policies)) =
    map Some (fst (spec_run (micros (rl_window_seconds p)) m ts []))"
  by (rule fresh_run [OF assms])

definition demo_limits :: "(source_class \<times> rate_limit) list" where
  "demo_limits = [(Tool_result, \<lparr>rl_source_class = Tool_result, rl_window_seconds = 10, rl_max_promotions = Some 2\<rparr>)]"

theorem limiter_refines_sliding_window_witness:
  "fst (limiter_run Tool_result [0, 1000000, 2000000, 10500000] (PromotionRateLimiter demo_limits)) =
     [Some True, Some True, Some False, Some True]"
proof -
  have "fst (limiter_run Tool_result [0, 1000000, 2000000, 10500000] (PromotionRateLimiter demo_limits)) =
      map Some (fst (spec_run (micros 10) 2 [0, 1000000, 2000000, 10500000] []))"
    using limiter_refines_sliding_window [of demo_limits Tool_result
        "\<lparr>rl_source_class = Tool_result, rl_window_seconds = 10, rl_max_promotions = Some 2\<rparr>" 2
        "[0, 1000000, 2000000, 10500000]"]
    by (simp add: PromotionRateLimiter_def demo_limits_def)
  also have "\<dots> = [Some True, Some True, Some False, Some True]" by code_simp
  finally show ?thesis .
qed

text \<open>
  Whatever valid limit a source class has, on calls at non-decreasing times no window of the
  configured length, wherever it ends, ever contains more allowed promotions than
  \<open>max_promotions\<close>.
\<close>

lemma promotions_never_exceed_limit:
  assumes p: "map_of (lim_policies (PromotionRateLimiter policies)) c = Some p"
    and valid: "RateLimit (rl_source_class p) w (Some m) = Inr p" and ts: "sorted ts"
    and run: "fst (limiter_run c ts (PromotionRateLimiter policies)) = bs"
  shows "int (length (filter (\<lambda>t. a - micros w \<le> t \<and> t \<le> a)
    (map fst (filter (\<lambda>(t, b). b = Some True) (zip ts bs))))) \<le> m"
proof -
  have lim: "rl_max_promotions p = Some m" "rl_window_seconds p = w" "0 \<le> m"
    using valid by (cases p, auto simp: RateLimit_def split: if_splits)+
  obtain cs h where spec: "spec_run (micros w) m ts [] = (cs, h)" by (cases "spec_run (micros w) m ts []")
  have bs: "bs = map Some cs" using fresh_run [OF p lim(1) ts] run spec lim(2) by simp
  have h: "h = allowed_times ts cs" using spec_run_history [OF spec] by simp
  have "filter (\<lambda>(t, b). b = Some True) (zip ts bs) = map (\<lambda>(t, b). (t, Some b)) (filter snd (zip ts cs))"
    unfolding bs by (induction ts cs rule: list_induct2') auto
  then have "map fst (filter (\<lambda>(t, b). b = Some True) (zip ts bs)) = h"
    by (simp add: h allowed_times_def comp_def case_prod_beta)
  moreover have "int (length (filter (\<lambda>e. a - micros w \<le> e \<and> e \<le> a) h)) \<le> m"
    by (rule spec_run_window [OF _ _ lim(3) _ spec, of "if ts = [] then 0 else hd ts"])
      (use ts lim(3) in \<open>cases ts; simp\<close>)+
  ultimately show ?thesis by simp
qed

lemma refused_queue:
  assumes p: "map_of (lim_policies l) c = Some p" "rl_max_promotions p = Some m" "0 < m" "0 < rl_window_seconds p"
    and run: "assess c at l = (Inr d, l')" "\<not> rd_allowed d"
  shows "\<exists>e es. lim_events l' (rl_source_class p) = e # es \<and> m \<le> int (length (e # es)) \<and>
    rd_observed_promotions d = length (e # es) \<and> lim_policies l' = lim_policies l \<and>
    rd_retry_after_seconds d = Some ((max 0 (e + micros (rl_window_seconds p) - at) + 999999) div 1000000)"
proof -
  let ?kept = "dropWhile (\<lambda>e. e < at - micros (rl_window_seconds p)) (lim_events l (rl_source_class p))"
  have lim: "\<not> is_unlimited p" using p(2) by (simp add: is_unlimited_def)
  have w: "windowed_events p at l = (?kept, l\<lparr>lim_events := (lim_events l)(rl_source_class p := ?kept)\<rparr>)"
    using lim by (simp add: windowed_events_def Let_def)
  have full: "m \<le> int (length ?kept)"
    using run p w by (auto simp: assess_def Let_def split: if_splits)
  with p(3) obtain e es where e: "?kept = e # es" by (cases ?kept) auto
  with run p w full lim show ?thesis
    by (auto simp: assess_def Let_def limit_retry_after_def split: if_splits)
qed

lemma assess_after:
  assumes p: "map_of (lim_policies l) c = Some p" "rl_max_promotions p = Some m"
  shows "\<exists>d l'. assess c at l = (Inr d, l') \<and> (rd_allowed d \<longleftrightarrow>
    int (length (dropWhile (\<lambda>e. e < at - micros (rl_window_seconds p)) (lim_events l (rl_source_class p)))) < m)"
proof -
  have "\<not> is_unlimited p" using p(2) by (simp add: is_unlimited_def)
  with p show ?thesis by (auto simp: assess_def windowed_events_def Let_def)
qed

text \<open>
  The waiting time a refusal announces is enough when it is exceeded: if the queue held exactly
  the limit, then any moment later than the announced number of seconds after the refusal is
  accepted.
\<close>

lemma retry_after_is_enough:
  assumes p: "map_of (lim_policies l) c = Some p" "rl_max_promotions p = Some m" "0 < m" "0 < rl_window_seconds p"
    and run: "assess c at l = (Inr d, l')" "\<not> rd_allowed d" "int (rd_observed_promotions d) = m"
    and later: "at + micros (the (rd_retry_after_seconds d)) < at'"
  shows "\<exists>d' l''. assess c at' l' = (Inr d', l'') \<and> rd_allowed d'"
proof -
  let ?w = "micros (rl_window_seconds p)"
  obtain e es where q: "lim_events l' (rl_source_class p) = e # es" "rd_observed_promotions d = length (e # es)"
    "lim_policies l' = lim_policies l"
    "rd_retry_after_seconds d = Some ((max 0 (e + ?w - at) + 999999) div 1000000)"
    using refused_queue [OF p run(1,2)] by auto
  have "e + ?w - at \<le> micros ((max 0 (e + ?w - at) + 999999) div 1000000)"
    unfolding micros_def by linarith
  with later q(4) have "e < at' - ?w" by simp
  then have "dropWhile (\<lambda>x. x < at' - ?w) (e # es) = dropWhile (\<lambda>x. x < at' - ?w) es" by simp
  then have "length (dropWhile (\<lambda>x. x < at' - ?w) (e # es)) \<le> length es" by (simp add: length_dropWhile_le)
  with run(3) q(2) have "int (length (dropWhile (\<lambda>x. x < at' - ?w) (lim_events l' (rl_source_class p)))) < m"
    by (simp add: q(1))
  with assess_after [of l' c p m at'] p q(3) show ?thesis by auto
qed

text \<open>
  The announced waiting time itself can be too short: when the oldest event leaves the window a
  whole number of seconds after the refusal, a call exactly that many seconds later is refused
  again and told to wait zero seconds, because an event at the very start of the window still
  counts.
\<close>

lemma retry_after_boundary:
  assumes p: "map_of (lim_policies l) c = Some p" "rl_max_promotions p = Some m" "0 < m" "0 < rl_window_seconds p"
    and run: "assess c at l = (Inr d, l')" "\<not> rd_allowed d"
    and whole: "at + micros (the (rd_retry_after_seconds d)) =
      hd (lim_events l' (rl_source_class p)) + micros (rl_window_seconds p)" (is "?at = _")
  shows "\<exists>d' l''. assess c ?at l' = (Inr d', l'') \<and> \<not> rd_allowed d' \<and> rd_retry_after_seconds d' = Some 0"
proof -
  obtain e es where q: "lim_events l' (rl_source_class p) = e # es" "m \<le> int (length (e # es))"
    "lim_policies l' = lim_policies l" using refused_queue [OF p run(1,2)] by auto
  have keep: "dropWhile (\<lambda>x. x < ?at - micros (rl_window_seconds p)) (e # es) = e # es"
    using whole q(1) by simp
  obtain d' l'' where a: "assess c ?at l' = (Inr d', l'')" "\<not> rd_allowed d'"
    using assess_after [of l' c p m ?at] p q keep by auto
  from refused_queue [OF _ p(2-4) a] p(1) q(3) obtain e' es' where
    r: "lim_events l'' (rl_source_class p) = e' # es'"
      "rd_retry_after_seconds d' = Some ((max 0 (e' + micros (rl_window_seconds p) - ?at) + 999999) div 1000000)"
    by auto
  have "lim_events l'' (rl_source_class p) = e # es"
    using a(1) p q(1,3) keep
    by (auto simp: assess_def windowed_events_def is_unlimited_def Let_def split: if_splits)
  with r whole q(1) a show ?thesis by auto
qed

end
