(* ===== verification/Todo_Store.thy ===== *)
theory Todo_Store
  imports Prelude
begin

text \<open>
  Session to-do lists (\<open>modules/session/todo/service.py\<close>): the in-memory store with its two caps
  and least-recently-used eviction, and its JSON file. The \<open>OrderedDict\<close> is the list of its
  items, least recently used first. Clock readings are integers here, \<open>float\<close> in the code,
  which only stores them. \<open>parse_float\<close> is \<open>float\<close> on a text.
\<close>

datatype todo_status = Status_todo | Status_in_progress | Status_done | Status_blocked

fun status_str :: "todo_status \<Rightarrow> string" where
  "status_str Status_todo = ''todo''"
| "status_str Status_in_progress = ''in_progress''"
| "status_str Status_done = ''done''"
| "status_str Status_blocked = ''blocked''"

definition VALID_STATUSES :: "todo_status list" where
  "VALID_STATUSES = [Status_todo, Status_in_progress, Status_done, Status_blocked]"

definition parse_status :: "string \<Rightarrow> todo_status option" where
  "parse_status s = find (\<lambda>x. status_str x = s) VALID_STATUSES"

record todo_item =
  ti_index :: int
  ti_text :: string
  ti_status :: todo_status
  ti_created_at :: int
  ti_updated_at :: int

record todo =
  td_session_id :: string
  td_items :: "todo_item list"
  td_created_at :: int
  td_updated_at :: int

record todo_store =
  ts_max_sessions :: int
  ts_max_items_per_plan :: int
  ts_todos :: "(string \<times> todo) list"

datatype todo_error =
    TodoEmptyError
  | InvalidTodoIndexError
  | InvalidTodoStatusError
  | Todo_ValueError string
  | Todo_TypeError

type_synonym 'a todo_op = "todo_store \<Rightarrow> (todo_error + 'a) \<times> todo_store"

definition summary_counts :: "todo \<Rightarrow> nat \<times> nat \<times> nat" where
  "summary_counts t =
     (length (filter (\<lambda>i. ti_status i = Status_done) (td_items t)), length (td_items t),
      length (filter (\<lambda>i. ti_status i = Status_in_progress) (td_items t)))"

definition summary :: "todo \<Rightarrow> string" where
  "summary t = (case summary_counts t of (n_done, n_total, n_progress) \<Rightarrow>
     nat_digits n_done @ ''/'' @ nat_digits n_total @ '' done, '' @ nat_digits n_progress @ '' in progress'')"

section \<open>The store in memory\<close>

definition InMemoryTodoStore :: "int \<Rightarrow> int \<Rightarrow> todo_error + todo_store" where
  "InMemoryTodoStore max_sessions max_items_per_plan =
     (if max_sessions < 1 then Inl (Todo_ValueError ''max_sessions must be >= 1'')
      else if max_items_per_plan < 1 then Inl (Todo_ValueError ''max_items_per_plan must be >= 1'')
      else Inr \<lparr>ts_max_sessions = max_sessions, ts_max_items_per_plan = max_items_per_plan, ts_todos = []\<rparr>)"

text \<open>\<open>move_to_end\<close> of a key whose value is replaced.\<close>

definition touch :: "string \<Rightarrow> todo \<Rightarrow> (string \<times> todo) list \<Rightarrow> (string \<times> todo) list" where
  "touch sid t d = dict_pop d sid @ [(sid, t)]"

text \<open>The loop that removes the first entry while there are too many.\<close>

fun evict_over_cap :: "int \<Rightarrow> (string \<times> todo) list \<Rightarrow> (string \<times> todo) list" where
  "evict_over_cap cap [] = []"
| "evict_over_cap cap (x # d) = (if int (length (x # d)) > cap then evict_over_cap cap d else x # d)"

definition new_item :: "int \<Rightarrow> int \<Rightarrow> string \<Rightarrow> todo_item" where
  "new_item now index text =
     \<lparr>ti_index = index, ti_text = text, ti_status = Status_todo, ti_created_at = now, ti_updated_at = now\<rparr>"

fun enumerate_from :: "int \<Rightarrow> 'a list \<Rightarrow> (int \<times> 'a) list" where
  "enumerate_from n [] = []"
| "enumerate_from n (x # xs) = (n, x) # enumerate_from (n + 1) xs"

definition set_plan :: "int \<Rightarrow> string \<Rightarrow> string list \<Rightarrow> todo todo_op" where
  "set_plan now sid items s =
     (if int (length items) > ts_max_items_per_plan s then (Inl InvalidTodoIndexError, s)
      else let t = \<lparr>td_session_id = sid,
                 td_items = map (\<lambda>(i, text). new_item now i text) (enumerate_from 0 items),
                 td_created_at = now, td_updated_at = now\<rparr>
           in (Inr t, s\<lparr>ts_todos := evict_over_cap (ts_max_sessions s) (touch sid t (ts_todos s))\<rparr>))"

text \<open>\<open>for offset, item in enumerate(items): item.index = offset\<close>\<close>

definition reindex :: "todo_item list \<Rightarrow> todo_item list" where
  "reindex items = map (\<lambda>(i, item). item\<lparr>ti_index := i\<rparr>) (enumerate_from 0 items)"

definition add_item :: "int \<Rightarrow> string \<Rightarrow> string \<Rightarrow> int \<Rightarrow> todo_item todo_op" where
  "add_item now sid text position s =
     (case dict_get (ts_todos s) sid of
        None \<Rightarrow> (Inl TodoEmptyError, s)
      | Some t \<Rightarrow>
          let n = int (length (td_items t)) in
          if n \<ge> ts_max_items_per_plan s then (Inl InvalidTodoIndexError, s)
          else if position < -1 then (Inl InvalidTodoIndexError, s)
          else let at = (if position = -1 \<or> position \<ge> n then n else position);
                   item = new_item now at text;
                   items = reindex (take (nat at) (td_items t) @ [item] @ drop (nat at) (td_items t))
               in (Inr item, s\<lparr>ts_todos := touch sid (t\<lparr>td_items := items, td_updated_at := now\<rparr>) (ts_todos s)\<rparr>))"

definition update_item_status :: "int \<Rightarrow> string \<Rightarrow> int \<Rightarrow> string \<Rightarrow> todo_item todo_op" where
  "update_item_status now sid index status s =
     (case parse_status status of
        None \<Rightarrow> (Inl InvalidTodoStatusError, s)
      | Some st \<Rightarrow>
          (case dict_get (ts_todos s) sid of
             None \<Rightarrow> (Inl TodoEmptyError, s)
           | Some t \<Rightarrow>
               if index < 0 \<or> index \<ge> int (length (td_items t)) then (Inl InvalidTodoIndexError, s)
               else let item = (td_items t ! nat index)\<lparr>ti_status := st, ti_updated_at := now\<rparr>;
                        t' = t\<lparr>td_items := (td_items t)[nat index := item], td_updated_at := now\<rparr>
                    in (Inr item, s\<lparr>ts_todos := touch sid t' (ts_todos s)\<rparr>)))"

definition get_plan :: "string \<Rightarrow> todo_store \<Rightarrow> todo option \<times> todo_store" where
  "get_plan sid s =
     (case dict_get (ts_todos s) sid of
        None \<Rightarrow> (None, s)
      | Some t \<Rightarrow> (Some t, s\<lparr>ts_todos := touch sid t (ts_todos s)\<rparr>))"

definition clear_plan :: "string \<Rightarrow> todo_store \<Rightarrow> todo_store" where
  "clear_plan sid s = s\<lparr>ts_todos := dict_pop (ts_todos s) sid\<rparr>"

definition session_count :: "todo_store \<Rightarrow> nat" where
  "session_count s = length (ts_todos s)"

section \<open>The file\<close>

text \<open>\<open>dataclasses.asdict\<close>\<close>

definition item_payload :: "todo_item \<Rightarrow> pyval" where
  "item_payload i = PDict [(''index'', PInt (ti_index i)), (''text'', PStr (ti_text i)),
     (''status'', PStr (status_str (ti_status i))), (''created_at'', PInt (ti_created_at i)),
     (''updated_at'', PInt (ti_updated_at i))]"

definition todo_to_payload :: "todo \<Rightarrow> pyval" where
  "todo_to_payload t = PDict [(''session_id'', PStr (td_session_id t)),
     (''items'', PList (map item_payload (td_items t))),
     (''created_at'', PInt (td_created_at t)), (''updated_at'', PInt (td_updated_at t))]"

definition save :: "todo_store \<Rightarrow> pyval" where
  "save s = sort_keys (PDict [(''version'', PInt 1),
     (''sessions'', PDict (map (\<lambda>(sid, t). (sid, todo_to_payload t)) (ts_todos s)))])"

definition coerce_status :: "pyval \<Rightarrow> todo_status" where
  "coerce_status v = (case parse_status (py_str (if truthy v then v else PStr ''todo'')) of
     None \<Rightarrow> Status_todo | Some st \<Rightarrow> st)"

text \<open>\<open>float(value or 0.0)\<close>\<close>

definition float_or_zero :: "(string \<Rightarrow> int option) \<Rightarrow> pyval \<Rightarrow> todo_error + int" where
  "float_or_zero parse_float v =
     (if \<not> truthy v then Inr 0
      else case v of
             PInt i \<Rightarrow> Inr i
           | PBool b \<Rightarrow> Inr 1
           | PStr s \<Rightarrow> (case parse_float s of None \<Rightarrow> Inl (Todo_ValueError ''could not convert string to float'')
                         | Some i \<Rightarrow> Inr i)
           | _ \<Rightarrow> Inl Todo_TypeError)"

fun items_from_payload ::
  "(string \<Rightarrow> int option) \<Rightarrow> int \<Rightarrow> pyval list \<Rightarrow> todo_error + todo_item list" where
  "items_from_payload pf offset [] = Inr []"
| "items_from_payload pf offset (PDict raw # rest) =
     rbind (float_or_zero pf (dict_get_or raw ''created_at'' (PInt 0))) (\<lambda>created.
     rbind (float_or_zero pf (dict_get_or raw ''updated_at'' (PInt 0))) (\<lambda>updated.
     rbind (items_from_payload pf (offset + 1) rest) (\<lambda>items.
       Inr (\<lparr>ti_index = offset, ti_text = text_or_empty (dict_get_or raw ''text'' (PStr [])),
             ti_status = coerce_status (dict_get_or raw ''status'' (PStr ''todo'')),
             ti_created_at = created, ti_updated_at = updated\<rparr> # items))))"
| "items_from_payload pf offset (_ # rest) = items_from_payload pf (offset + 1) rest"

text \<open>What \<open>for ... in enumerate(payload.get("items", []) or [])\<close> runs over.\<close>

definition items_entries :: "pydict \<Rightarrow> todo_error + pyval list" where
  "items_entries payload =
     (let v = dict_get_or payload ''items'' (PList []) in
      if \<not> truthy v then Inr []
      else case v of
             PList xs \<Rightarrow> Inr xs
           | PStr s \<Rightarrow> Inr (map (\<lambda>c. PStr [c]) s)
           | PDict d \<Rightarrow> Inr (map (\<lambda>(k, _). PStr k) d)
           | _ \<Rightarrow> Inl Todo_TypeError)"

definition todo_from_payload :: "(string \<Rightarrow> int option) \<Rightarrow> string \<Rightarrow> pydict \<Rightarrow> todo_error + todo" where
  "todo_from_payload pf sid payload =
     rbind (items_entries payload) (\<lambda>entries.
     rbind (items_from_payload pf 0 entries) (\<lambda>items.
     rbind (float_or_zero pf (dict_get_or payload ''created_at'' (PInt 0))) (\<lambda>created.
     rbind (float_or_zero pf (dict_get_or payload ''updated_at'' (PInt 0))) (\<lambda>updated.
       let id = dict_get_or payload ''session_id'' (PStr sid)
       in Inr \<lparr>td_session_id = (if truthy id then py_str id else sid), td_items = items,
               td_created_at = created, td_updated_at = updated\<rparr>))))"

fun load_sessions ::
  "(string \<Rightarrow> int option) \<Rightarrow> pydict \<Rightarrow> (string \<times> todo) list \<Rightarrow> todo_error + (string \<times> todo) list" where
  "load_sessions pf [] d = Inr d"
| "load_sessions pf ((sid, PDict raw) # rest) d =
     rbind (todo_from_payload pf sid raw) (\<lambda>t. load_sessions pf rest (dict_set d (td_session_id t) t))"
| "load_sessions pf (_ # rest) d = load_sessions pf rest d"

text \<open>\<open>None\<close> for a file that does not exist.\<close>

definition load :: "(string \<Rightarrow> int option) \<Rightarrow> pyval option \<Rightarrow> unit todo_op" where
  "load pf file s =
     (case file of
        None \<Rightarrow> (Inr (), s)
      | Some (PDict payload) \<Rightarrow>
          (case dict_get_or payload ''sessions'' (PDict []) of
             PDict sessions \<Rightarrow>
               (case load_sessions pf sessions [] of
                  Inl e \<Rightarrow> (Inl e, s)
                | Inr d \<Rightarrow> (Inr (), s\<lparr>ts_todos := evict_over_cap (ts_max_sessions s) d\<rparr>))
           | _ \<Rightarrow> (Inl (Todo_ValueError ''Todo store sessions must be a JSON object''), s))
      | Some _ \<Rightarrow> (Inl (Todo_ValueError ''Todo store payload must be a JSON object''), s))"

record file_store =
  fs_store :: todo_store
  fs_file :: "pyval option"

definition FileTodoStore ::
  "(string \<Rightarrow> int option) \<Rightarrow> pyval option \<Rightarrow> int \<Rightarrow> int \<Rightarrow> todo_error + file_store" where
  "FileTodoStore pf file max_sessions max_items =
     rbind (InMemoryTodoStore max_sessions max_items) (\<lambda>s.
       case load pf file s of
         (Inl e, _) \<Rightarrow> Inl e
       | (Inr _, t) \<Rightarrow> Inr \<lparr>fs_store = t, fs_file = file\<rparr>)"

text \<open>The overriding methods: the operation in memory, then \<open>_save\<close> unless it raised.\<close>

definition saved :: "'a todo_op \<Rightarrow> file_store \<Rightarrow> (todo_error + 'a) \<times> file_store" where
  "saved m f =
     (case m (fs_store f) of
        (Inl e, s) \<Rightarrow> (Inl e, f\<lparr>fs_store := s\<rparr>)
      | (Inr a, s) \<Rightarrow> (Inr a, \<lparr>fs_store = s, fs_file = Some (save s)\<rparr>))"

definition file_set_plan :: "int \<Rightarrow> string \<Rightarrow> string list \<Rightarrow> file_store \<Rightarrow> (todo_error + todo) \<times> file_store" where
  "file_set_plan now sid items = saved (set_plan now sid items)"

definition file_add_item :: "int \<Rightarrow> string \<Rightarrow> string \<Rightarrow> int \<Rightarrow> file_store \<Rightarrow> (todo_error + todo_item) \<times> file_store" where
  "file_add_item now sid text position = saved (add_item now sid text position)"

definition file_update_item_status ::
  "int \<Rightarrow> string \<Rightarrow> int \<Rightarrow> string \<Rightarrow> file_store \<Rightarrow> (todo_error + todo_item) \<times> file_store" where
  "file_update_item_status now sid index status = saved (update_item_status now sid index status)"

definition file_clear_plan :: "string \<Rightarrow> file_store \<Rightarrow> (todo_error + unit) \<times> file_store" where
  "file_clear_plan sid = saved (\<lambda>s. (Inr (), clear_plan sid s))"

definition file_get_plan :: "string \<Rightarrow> file_store \<Rightarrow> todo option \<times> file_store" where
  "file_get_plan sid f = (case get_plan sid (fs_store f) of (r, s) \<Rightarrow> (r, f\<lparr>fs_store := s\<rparr>))"

section \<open>Well-formed stores\<close>

definition plan_ok :: "int \<Rightarrow> string \<times> todo \<Rightarrow> bool" where
  "plan_ok cap p = (td_session_id (snd p) = fst p \<and> int (length (td_items (snd p))) \<le> cap \<and>
     map ti_index (td_items (snd p)) = map int [0..<length (td_items (snd p))])"

definition todo_inv :: "todo_store \<Rightarrow> bool" where
  "todo_inv s = (1 \<le> ts_max_sessions s \<and> 1 \<le> ts_max_items_per_plan s \<and>
     distinct (map fst (ts_todos s)) \<and> int (length (ts_todos s)) \<le> ts_max_sessions s \<and>
     (\<forall>p\<in>set (ts_todos s). plan_ok (ts_max_items_per_plan s) p))"

lemma new_item_simps [simp]:
  "ti_index (new_item now i x) = i" "ti_text (new_item now i x) = x" "ti_status (new_item now i x) = Status_todo"
  by (simp_all add: new_item_def)

lemma enumerate_from_zip: "enumerate_from n xs = zip (map (\<lambda>i. n + int i) [0..<length xs]) xs"
proof (induction xs arbitrary: n)
  case (Cons x xs)
  have "map (\<lambda>i. n + 1 + int i) [0..<length xs] = map (\<lambda>i. n + int i) [Suc 0..<Suc (length xs)]"
    by (rule nth_equalityI) (simp_all del: upt_Suc)
  with Cons show ?case by (simp add: upt_conv_Cons del: upt_Suc)
qed simp

lemma enumerate_from_simps [simp]:
  "map fst (enumerate_from 0 xs) = map int [0..<length xs]" "map snd (enumerate_from n xs) = xs"
  "length (enumerate_from n xs) = length xs"
  by (simp_all add: enumerate_from_zip)

lemma enumerate_from_nth: "i < length xs \<Longrightarrow> enumerate_from 0 xs ! i = (int i, xs ! i)"
  by (simp add: enumerate_from_zip)

lemma index_of_enumerated:
  assumes "\<And>i x. ti_index (f i x) = i"
  shows "map ti_index (map (\<lambda>(i, x). f i x) (enumerate_from 0 xs)) = map int [0..<length xs]"
proof -
  have "map ti_index (map (\<lambda>(i, x). f i x) (enumerate_from 0 xs)) = map fst (enumerate_from 0 xs)"
    by (simp add: comp_def case_prod_beta assms)
  then show ?thesis by simp
qed

lemma reindex_props [simp]:
  "map ti_index (reindex xs) = map int [0..<length xs]" "length (reindex xs) = length xs"
  using index_of_enumerated [of "\<lambda>i item. item\<lparr>ti_index := i\<rparr>" xs] by (simp_all add: reindex_def)

lemma evict_is_drop: "evict_over_cap cap d = drop (length d - nat cap) d"
proof (induction d)
  case (Cons x d)
  show ?case
  proof (cases "int (length (x # d)) > cap")
    case True
    then have "length (x # d) - nat cap = Suc (length d - nat cap) \<or> (cap < 0 \<and> nat cap = 0)"
      by (cases "cap < 0") auto
    with True Cons show ?thesis by (cases "nat cap") auto
  next
    case False
    then show ?thesis by simp
  qed
qed simp

lemma touch_keys: "map fst (touch sid t d) = filter (\<lambda>k. k \<noteq> sid) (map fst d) @ [sid]"
  by (induction d) (auto simp: touch_def dict_pop_def)

lemma touch_distinct: "distinct (map fst d) \<Longrightarrow> distinct (map fst (touch sid t d))"
  by (auto simp: touch_keys)

lemma length_filter_other:
  "distinct ks \<Longrightarrow> k \<in> set ks \<Longrightarrow> length (filter (\<lambda>x. x \<noteq> k) ks) + 1 = length ks"
proof (induction ks)
  case (Cons x ks)
  show ?case
  proof (cases "x = k")
    case True
    with Cons.prems have "filter (\<lambda>x. x \<noteq> k) ks = ks" by (auto simp: filter_id_conv)
    with True show ?thesis by simp
  qed (use Cons in auto)
qed simp

lemma touch_length:
  assumes "distinct (map fst d)" and "dict_get d sid = Some t'"
  shows "length (touch sid t d) = length d"
proof -
  have "sid \<in> set (map fst d)" using assms(2) by (force simp: dict_get_def dest: map_of_SomeD)
  then have "length (filter (\<lambda>k. k \<noteq> sid) (map fst d)) + 1 = length (map fst d)"
    using assms(1) by (intro length_filter_other) auto
  moreover have "length (touch sid t d) = length (filter (\<lambda>k. k \<noteq> sid) (map fst d)) + 1"
    using arg_cong [OF touch_keys [of sid t d], of length] by simp
  ultimately show ?thesis by simp
qed

lemma touch_plans: "p \<in> set (touch sid t d) \<Longrightarrow> p \<in> set d \<or> p = (sid, t)"
  by (auto simp: touch_def dict_pop_def)

lemma dict_get_in: "dict_get d k = Some v \<Longrightarrow> (k, v) \<in> set d"
  by (simp add: dict_get_def map_of_SomeD)

lemma touch_inv:
  assumes "todo_inv s" and "dict_get (ts_todos s) sid = Some t'" and "plan_ok (ts_max_items_per_plan s) (sid, t)"
  shows "todo_inv (s\<lparr>ts_todos := touch sid t (ts_todos s)\<rparr>)"
  using assms by (auto simp: todo_inv_def touch_distinct touch_length dest!: touch_plans)

lemma set_plan_inv: "todo_inv s \<Longrightarrow> todo_inv (snd (set_plan now sid items s))"
proof -
  assume inv: "todo_inv s"
  let ?t = "\<lparr>td_session_id = sid, td_items = map (\<lambda>(i, text). new_item now i text) (enumerate_from 0 items),
      td_created_at = now, td_updated_at = now\<rparr>"
  have "plan_ok (ts_max_items_per_plan s) (sid, ?t)" if "\<not> int (length items) > ts_max_items_per_plan s"
    using that index_of_enumerated [of "new_item now" items] by (simp add: plan_ok_def new_item_def)
  then show ?thesis
    using inv touch_distinct [of "ts_todos s" sid ?t]
    by (auto simp: set_plan_def Let_def todo_inv_def evict_is_drop distinct_drop drop_map [symmetric]
        dest!: in_set_dropD touch_plans)
qed

lemma plan_okD:
  "todo_inv s \<Longrightarrow> dict_get (ts_todos s) sid = Some t \<Longrightarrow> plan_ok (ts_max_items_per_plan s) (sid, t)"
  by (auto simp: todo_inv_def dest: dict_get_in)

lemma add_item_inv:
  assumes "todo_inv s"
  shows "todo_inv (snd (add_item now sid text position s))"
proof (cases "dict_get (ts_todos s) sid")
  case (Some t)
  then show ?thesis
    using touch_inv [OF assms Some] plan_okD [OF assms Some] assms
    by (auto simp: add_item_def Let_def plan_ok_def)
qed (simp add: add_item_def assms)

lemma update_item_status_inv:
  assumes "todo_inv s"
  shows "todo_inv (snd (update_item_status now sid index status s))"
proof (cases "dict_get (ts_todos s) sid")
  case (Some t)
  have "map ti_index ((td_items t)[i := (td_items t ! i)\<lparr>ti_status := st, ti_updated_at := now\<rparr>]) =
      map ti_index (td_items t)" for i st
    by (cases "i < length (td_items t)") (auto intro!: nth_equalityI simp: nth_list_update)
  then show ?thesis
    using touch_inv [OF assms Some] plan_okD [OF assms Some] assms Some
    by (auto simp: update_item_status_def Let_def plan_ok_def split: option.split)
qed (simp add: update_item_status_def assms split: option.split)

lemma get_plan_inv: "todo_inv s \<Longrightarrow> todo_inv (snd (get_plan sid s))"
  by (auto simp: get_plan_def touch_inv plan_okD split: option.split)

lemma clear_plan_inv: "todo_inv s \<Longrightarrow> todo_inv (clear_plan sid s)"
proof -
  assume inv: "todo_inv s"
  have "map fst (dict_pop d sid) = filter (\<lambda>k. k \<noteq> sid) (map fst d)" for d :: "(string \<times> todo) list"
    by (induction d) (auto simp: dict_pop_def)
  moreover have "length (dict_pop (ts_todos s) sid) \<le> length (ts_todos s)"
    by (simp add: dict_pop_def)
  moreover have "set (dict_pop (ts_todos s) sid) \<subseteq> set (ts_todos s)" by (auto simp: dict_pop_def)
  ultimately show ?thesis
    using inv unfolding todo_inv_def clear_plan_def by auto
qed

inductive todo_step :: "todo_store \<Rightarrow> todo_store \<Rightarrow> bool" where
  "set_plan now sid items s = (r, t) \<Longrightarrow> todo_step s t"
| "add_item now sid text position s = (r', t) \<Longrightarrow> todo_step s t"
| "update_item_status now sid index status s = (r', t) \<Longrightarrow> todo_step s t"
| "get_plan sid s = (p, t) \<Longrightarrow> todo_step s t"
| "todo_step s (clear_plan sid s)"

interpretation todos: invariant_system todo_step todo_inv
proof
  fix s t
  assume "todo_inv s" "todo_step s t"
  from this(2,1) show "todo_inv t"
    by (induction rule: todo_step.induct)
      (metis set_plan_inv add_item_inv update_item_status_inv get_plan_inv clear_plan_inv snd_conv)+
qed

section \<open>Properties\<close>

definition demo_todos :: todo_store where
  "demo_todos = snd (set_plan 2 ''b'' [''z''] (snd (set_plan 1 ''a'' [''x'', ''y'']
     \<lparr>ts_max_sessions = 2, ts_max_items_per_plan = 3, ts_todos = []\<rparr>)))"

lemma demo_todos_reach:
  "reach todo_step \<lparr>ts_max_sessions = 2, ts_max_items_per_plan = 3, ts_todos = []\<rparr> demo_todos"
  unfolding demo_todos_def
  by (rule reach_step [OF reach_step [OF reach_refl]]; rule todo_step.intros(1); rule prod.collapse [symmetric])

lemma todo_reach_inv:
  assumes "InMemoryTodoStore ms mi = Inr s0" and "reach todo_step s0 s"
  shows "todo_inv s"
proof (rule todos.inv_reach [OF assms(2)])
  show "todo_inv s0" using assms(1) by (auto simp: InMemoryTodoStore_def todo_inv_def split: if_splits)
qed

text \<open>
  Whatever sequence of calls runs on a store, it never holds more sessions than \<open>max_sessions\<close>,
  no two entries for one session, no plan with more than \<open>max_items_per_plan\<close> items, and in every
  plan the item at place \<open>i\<close> carries the index \<open>i\<close>.
\<close>

lemma todo_store_stays_within_caps:
  assumes "InMemoryTodoStore ms mi = Inr s0" and "reach todo_step s0 s"
  shows "int (length (ts_todos s)) \<le> ts_max_sessions s \<and> distinct (map fst (ts_todos s)) \<and>
    (\<forall>(sid, t)\<in>set (ts_todos s). td_session_id t = sid \<and> int (length (td_items t)) \<le> ts_max_items_per_plan s \<and>
       (\<forall>i<length (td_items t). ti_index (td_items t ! i) = int i))"
proof -
  have "ti_index (td_items t ! i) = int i"
    if "map ti_index (td_items t) = map int [0..<length (td_items t)]" "i < length (td_items t)" for t i
    using arg_cong [OF that(1), of "\<lambda>xs. xs ! i"] that(2) by simp
  then have "td_session_id t = sid \<and> int (length (td_items t)) \<le> ts_max_items_per_plan s \<and>
      (\<forall>i<length (td_items t). ti_index (td_items t ! i) = int i)" if "(sid, t) \<in> set (ts_todos s)" for sid t
    using todo_reach_inv [OF assms] that
    by (auto simp: todo_inv_def plan_ok_def dest!: bspec [where x = "(sid, t)"])
  with todo_reach_inv [OF assms] show ?thesis by (auto simp: todo_inv_def)
qed

text \<open>
  Setting a plan in a store with room for at least one session makes that session the most recent
  one and keeps, of the others in their order of use, the most recent ones that fit: only the
  least recently used sessions are dropped, and none unless the store is full.
\<close>

lemma set_plan_evicts_least_recent:
  assumes "todo_inv s" and "int (length items) \<le> ts_max_items_per_plan s"
  shows "\<exists>t. set_plan now sid items s = (Inr t, s\<lparr>ts_todos :=
      (let others = dict_pop (ts_todos s) sid
       in drop (length others + 1 - nat (ts_max_sessions s)) others @ [(sid, t)])\<rparr>) \<and>
    map ti_text (td_items t) = items \<and> (\<forall>i\<in>set (td_items t). ti_status i = Status_todo)"
proof -
  let ?t = "\<lparr>td_session_id = sid, td_items = map (\<lambda>(i, text). new_item now i text) (enumerate_from 0 items),
      td_created_at = now, td_updated_at = now\<rparr>"
  let ?o = "dict_pop (ts_todos s) sid"
  have "1 \<le> ts_max_sessions s" using assms(1) by (simp add: todo_inv_def)
  then have cap: "1 \<le> nat (ts_max_sessions s)" by linarith
  have "set_plan now sid items s = (Inr ?t, s\<lparr>ts_todos :=
      drop (length ?o + 1 - nat (ts_max_sessions s)) ?o @ [(sid, ?t)]\<rparr>)"
    using assms(2) cap by (simp add: set_plan_def Let_def touch_def evict_is_drop)
  moreover have "map ti_text (td_items ?t) = map snd (enumerate_from 0 items)"
    by (simp add: comp_def case_prod_beta new_item_def)
  moreover have "\<forall>i\<in>set (td_items ?t). ti_status i = Status_todo" by (auto simp: new_item_def)
  ultimately show ?thesis by (intro exI [of _ ?t]) (simp add: Let_def)
qed

text \<open>
  Adding an item to a plan with room inserts it at the given place, or at the end for -1 and for
  any place past the end; the other items keep their order, text and status; every other session
  keeps its plan, and the session becomes the most recent one.
\<close>

lemma add_item_inserts:
  assumes t: "dict_get (ts_todos s) sid = Some t" "int (length (td_items t)) < ts_max_items_per_plan s"
    and pos: "-1 \<le> position"
    and at: "at = (if position = -1 \<or> int (length (td_items t)) \<le> position then length (td_items t) else nat position)"
  shows "\<exists>item u s'. add_item now sid text position s = (Inr item, s') \<and>
    ts_todos s' = dict_pop (ts_todos s) sid @ [(sid, u)] \<and> td_items u ! at = item \<and>
    map ti_text (td_items u) = take at (map ti_text (td_items t)) @ [text] @ drop at (map ti_text (td_items t)) \<and>
    map ti_status (td_items u) = take at (map ti_status (td_items t)) @ [Status_todo] @ drop at (map ti_status (td_items t)) \<and>
    (\<forall>k. k \<noteq> sid \<longrightarrow> dict_get (ts_todos s') k = dict_get (ts_todos s) k)"
proof -
  let ?item = "new_item now (int at) text"
  let ?raw = "take at (td_items t) @ [?item] @ drop at (td_items t)"
  let ?u = "t\<lparr>td_items := reindex ?raw, td_updated_at := now\<rparr>"
  let ?s = "s\<lparr>ts_todos := touch sid ?u (ts_todos s)\<rparr>"
  have le: "at \<le> length (td_items t)" using at pos by (auto split: if_splits)
  have run: "add_item now sid text position s = (Inr ?item, ?s)"
  proof (cases "position = -1 \<or> int (length (td_items t)) \<le> position")
    case True
    with t pos at show ?thesis by (auto simp: add_item_def Let_def)
  next
    case False
    with t pos at show ?thesis by (simp add: add_item_def Let_def)
  qed
  have same: "map f (reindex xs) = map f xs" if "\<And>x i. f (x\<lparr>ti_index := i\<rparr>) = f x" for f :: "todo_item \<Rightarrow> 'x" and xs
  proof -
    have "map f (reindex xs) = map f (map snd (enumerate_from 0 xs))"
      unfolding reindex_def map_map by (rule map_cong) (auto simp: that)
    then show ?thesis by simp
  qed
  have nth: "reindex ?raw ! at = ?item"
  proof -
    have "?raw ! at = ?item" using le by (simp add: nth_append)
    moreover have "enumerate_from 0 ?raw ! at = (int at, ?raw ! at)"
      by (rule enumerate_from_nth) (use le in simp)
    ultimately show ?thesis using le by (simp add: reindex_def new_item_def)
  qed
  have other: "dict_get (dict_pop (ts_todos s) sid @ [(sid, v)]) k = dict_get (ts_todos s) k" if "k \<noteq> sid" for k v
    using that by (auto simp: dict_get_def map_add_def split: option.split)
  show ?thesis
    by (rule exI [of _ ?item], rule exI [of _ ?u], rule exI [of _ ?s])
      (use nth in \<open>simp add: run same other take_map drop_map touch_def\<close>)
qed

section \<open>Saving and loading\<close>

lemma map_of_sort_key: "distinct (map fst d) \<Longrightarrow> map_of (sort_key fst d) k = map_of d k"
proof -
  assume d: "distinct (map fst d)"
  then have "distinct (map fst (sort_key fst d))" by (simp add: distinct_map distinct_sort)
  with d have "map_of (sort_key fst d) k = Some v \<longleftrightarrow> map_of d k = Some v" for v
    by (simp add: map_of_eq_Some_iff)
  then show "map_of (sort_key fst d) k = map_of d k"
    by (cases "map_of d k"; cases "map_of (sort_key fst d) k") auto
qed

lemma insort_map_values:
  "insort_key fst (k, f v) (map (\<lambda>(k, v). (k, f v)) xs) = map (\<lambda>(k, v). (k, f v)) (insort_key fst (k, v) xs)"
  by (induction xs) auto

lemma sort_key_map_values:
  "sort_key fst (map (\<lambda>(k, v). (k, f v)) d) = map (\<lambda>(k, v). (k, f v)) (sort_key fst d)"
  by (induction d) (auto simp: insort_map_values)

text \<open>The entries of a saved dictionary.\<close>

lemma sorted_entries:
  assumes "distinct (map fst d)"
  shows "\<exists>e. sort_keys (PDict d) = PDict e \<and> (\<forall>k. dict_get e k = map_option sort_keys (dict_get d k))"
proof -
  let ?s = "map (\<lambda>(k, v). (k, sort_keys v)) d"
  have "map fst ?s = map fst d" by (induction d) auto
  with assms have "distinct (map fst ?s)" by metis
  then have "map_of (sort_key fst ?s) k = map_of ?s k" for k by (rule map_of_sort_key)
  then have "dict_get (sort_key fst ?s) k = map_option sort_keys (dict_get d k)" for k
    by (simp add: dict_get_def map_of_map)
  then show ?thesis by (intro exI [of _ "sort_key fst ?s"]) simp
qed

declare sort_keys.simps(2) [simp del]

lemma float_or_zero_int [simp]: "float_or_zero pf (PInt i) = Inr i"
  by (simp add: float_or_zero_def)

lemma coerce_status_str [simp]: "coerce_status (PStr (status_str st)) = st"
  by (cases st) (simp_all add: coerce_status_def parse_status_def VALID_STATUSES_def)

lemma items_roundtrip:
  "(\<forall>i<length items. ti_index (items ! i) = n + int i) \<Longrightarrow>
     items_from_payload pf n (map (\<lambda>i. sort_keys (item_payload i)) items) = Inr items"
proof (induction items arbitrary: n)
  case (Cons x items)
  obtain e where e: "sort_keys (item_payload x) = PDict e"
    "dict_get e ''text'' = Some (PStr (ti_text x))" "dict_get e ''status'' = Some (PStr (status_str (ti_status x)))"
    "dict_get e ''created_at'' = Some (PInt (ti_created_at x))" "dict_get e ''updated_at'' = Some (PInt (ti_updated_at x))"
    using sorted_entries [of "[(''index'', PInt (ti_index x)), (''text'', PStr (ti_text x)),
      (''status'', PStr (status_str (ti_status x))), (''created_at'', PInt (ti_created_at x)),
      (''updated_at'', PInt (ti_updated_at x))]"]
    unfolding item_payload_def by (auto simp: dict_get_def)
  have "ti_index (items ! i) = n + 1 + int i" if "i < length items" for i
    using Cons.prems that by (auto dest: spec [where x = "Suc i"])
  then have "items_from_payload pf (n + 1) (map (\<lambda>i. sort_keys (item_payload i)) items) = Inr items"
    by (intro Cons.IH) simp
  moreover have "ti_index x = n" using Cons.prems by (auto dest: spec [where x = 0])
  ultimately show ?case by (simp add: e dict_get_or_def)
qed simp

lemma todo_roundtrip:
  assumes "plan_ok cap (sid, t)"
  shows "\<exists>e. sort_keys (todo_to_payload t) = PDict e \<and> todo_from_payload pf sid e = Inr t"
proof -
  obtain e where e: "sort_keys (todo_to_payload t) = PDict e"
    "dict_get e ''session_id'' = Some (PStr (td_session_id t))"
    "dict_get e ''items'' = Some (PList (map (\<lambda>i. sort_keys (item_payload i)) (td_items t)))"
    "dict_get e ''created_at'' = Some (PInt (td_created_at t))" "dict_get e ''updated_at'' = Some (PInt (td_updated_at t))"
    using sorted_entries [of "[(''session_id'', PStr (td_session_id t)),
      (''items'', PList (map item_payload (td_items t))),
      (''created_at'', PInt (td_created_at t)), (''updated_at'', PInt (td_updated_at t))]"]
    unfolding todo_to_payload_def by (auto simp: dict_get_def comp_def)
  have "ti_index (td_items t ! i) = int i" if "i < length (td_items t)" for i
  proof -
    have "map ti_index (td_items t) = map int [0..<length (td_items t)]" using assms by (simp add: plan_ok_def)
    from arg_cong [OF this, of "\<lambda>xs. xs ! i"] that show ?thesis by simp
  qed
  then have "items_from_payload pf 0 (map (\<lambda>i. sort_keys (item_payload i)) (td_items t)) = Inr (td_items t)"
    by (intro items_roundtrip) simp
  moreover have "td_session_id t = sid" using assms by (simp add: plan_ok_def)
  ultimately show ?thesis using e(1)
    by (auto simp: todo_from_payload_def items_entries_def dict_get_or_def e(2-5) Let_def)
qed

lemma load_sessions_roundtrip:
  assumes "\<forall>p\<in>set ts. plan_ok cap p" and "distinct (map fst (d @ ts))"
  shows "load_sessions pf (map (\<lambda>(sid, t). (sid, sort_keys (todo_to_payload t))) ts) d = Inr (d @ ts)"
  using assms
proof (induction ts arbitrary: d)
  case (Cons p ts)
  obtain sid t where p: "p = (sid, t)" by (cases p)
  with Cons.prems(1) have ok: "plan_ok cap (sid, t)" by simp
  from todo_roundtrip [OF ok] obtain e
    where e: "sort_keys (todo_to_payload t) = PDict e" "todo_from_payload pf sid e = Inr t" by blast
  have "td_session_id t = sid" using ok by (simp add: plan_ok_def)
  moreover have "dict_set d sid t = d @ [(sid, t)]" using Cons.prems(2) p by (intro dict_set_new) auto
  moreover have "load_sessions pf (map (\<lambda>(sid, t). (sid, sort_keys (todo_to_payload t))) ts) (d @ [(sid, t)]) =
      Inr ((d @ [(sid, t)]) @ ts)" by (rule Cons.IH) (use Cons.prems p in auto)
  ultimately show ?case by (simp add: p e)
qed simp

text \<open>
  C9: A file written by a well-formed store and read back by a store with the same caps gives every
  session the same plan. The order of the sessions is not the one saved: the file is written with
  sorted keys, so after a restart the sessions count as used in alphabetical order and eviction
  no longer follows their use.
\<close>

theorem todo_file_roundtrip:
  assumes inv: "todo_inv s"
  shows "\<exists>f. FileTodoStore pf (Some (save s)) (ts_max_sessions s) (ts_max_items_per_plan s) = Inr f \<and>
    (\<forall>sid. dict_get (ts_todos (fs_store f)) sid = dict_get (ts_todos s) sid) \<and>
    ts_todos (fs_store f) = sort_key fst (ts_todos s)"
proof -
  let ?sorted = "sort_key fst (ts_todos s)"
  have dist: "distinct (map fst (ts_todos s))" and len: "int (length (ts_todos s)) \<le> ts_max_sessions s"
    and ok: "\<forall>p\<in>set ?sorted. plan_ok (ts_max_items_per_plan s) p"
    using inv by (auto simp: todo_inv_def)
  have sess: "sort_keys (PDict (map (\<lambda>(sid, t). (sid, todo_to_payload t)) (ts_todos s))) =
      PDict (map (\<lambda>(sid, t). (sid, sort_keys (todo_to_payload t))) ?sorted)"
  proof -
    have "map (\<lambda>(k, v). (k, sort_keys v)) (map (\<lambda>(sid, t). (sid, todo_to_payload t)) (ts_todos s)) =
        map (\<lambda>(sid, t). (sid, sort_keys (todo_to_payload t))) (ts_todos s)" by auto
    then show ?thesis by (simp only: sort_keys.simps(2) sort_key_map_values)
  qed
  obtain e where e: "save s = PDict e"
    "dict_get e ''sessions'' = Some (PDict (map (\<lambda>(sid, t). (sid, sort_keys (todo_to_payload t))) ?sorted))"
    using sorted_entries [of "[(''version'', PInt 1),
        (''sessions'', PDict (map (\<lambda>(sid, t). (sid, todo_to_payload t)) (ts_todos s)))]"] sess
    unfolding save_def by (auto simp: dict_get_def)
  have "distinct (map fst ([] @ ?sorted))" using dist by (simp add: distinct_map distinct_sort)
  from load_sessions_roundtrip [OF ok this]
  have "load_sessions pf (map (\<lambda>(sid, t). (sid, sort_keys (todo_to_payload t))) ?sorted) [] = Inr ?sorted" by simp
  moreover have "evict_over_cap (ts_max_sessions s) ?sorted = ?sorted"
    using len by (simp add: evict_is_drop nat_le_iff)
  ultimately have "FileTodoStore pf (Some (save s)) (ts_max_sessions s) (ts_max_items_per_plan s) =
      Inr \<lparr>fs_store = s\<lparr>ts_todos := ?sorted\<rparr>, fs_file = Some (save s)\<rparr>"
    using inv e by (simp add: FileTodoStore_def InMemoryTodoStore_def load_def dict_get_or_def todo_inv_def)
  then show ?thesis using map_of_sort_key [OF dist] by (simp add: dict_get_def)
qed

theorem todo_file_roundtrip_witness:
  "\<exists>f. FileTodoStore (\<lambda>_. None) (Some (save demo_todos)) 2 3 = Inr f \<and>
     dict_get (ts_todos (fs_store f)) ''a'' = dict_get (ts_todos demo_todos) ''a''"
proof -
  have "todo_inv demo_todos" by (rule todo_reach_inv [OF _ demo_todos_reach, of 2 3]) (simp add: InMemoryTodoStore_def)
  moreover have "ts_max_sessions demo_todos = 2" "ts_max_items_per_plan demo_todos = 3" by code_simp+
  ultimately show ?thesis using todo_file_roundtrip [of demo_todos "\<lambda>_. None"] by auto
qed

end
