(* ===== verification/A2A_Models.thy ===== *)
theory A2A_Models
  imports Prelude
begin

text \<open>
  The data of the agent-to-agent runtime (\<open>modules/a2a/models.py\<close>, \<open>errors.py\<close>,
  \<open>constants.py\<close>), the contract of an envelope, and the routing policy
  (\<open>modules/a2a/policy.py\<close>). Job states and receipt statuses, which the code takes from
  its constants only, are datatypes; message types, which it validates, are strings. Time
  stamps are ISO-8601 texts. The progress of a job (0.0, 0.1 or 1.0 in the code) counts
  tenths. The payload dictionaries of the audit log are given by the objects they are made
  from. \<open>a2a_env\<close> has what a call draws from outside: the readings of the clock and the
  fresh identifiers by call site, the functions of the standard library that parse time
  stamps and UUIDs, and the encoding and storage of results.
\<close>

section \<open>Records\<close>

record artifact_ref =
  af_ref :: string
  af_mime :: string
  af_sha256 :: string
  af_size_bytes :: int
  af_label :: "string option"

record observability =
  ob_invocation_id :: string
  ob_execution_id :: string
  ob_handoff_id :: string
  ob_traceparent :: string
  ob_tracestate :: "string option"
  ob_schema_version :: string

record envelope =
  e_msg_id :: string
  e_trace_id :: string
  e_ts :: string
  e_from_agent :: string
  e_to_agent :: "string option"
  e_to_capability :: "string option"
  e_type :: string
  e_method :: string
  e_params :: pydict
  e_attachments :: "artifact_ref list"
  e_timeout_ms :: int
  e_idempotency_key :: string
  e_meta :: pydict
  e_observability :: "observability option"

datatype receipt_status = R_IN_PROGRESS | R_SUCCESS | R_FAILED | R_CANCELED

record idempotency_record =
  ir_key :: string
  ir_scope :: string
  ir_status :: receipt_status
  ir_result_inline :: "pydict option"
  ir_result_ref :: "string option"
  ir_error :: "pydict option"
  ir_task_id :: "string option"
  ir_created_at :: string
  ir_updated_at :: string

datatype job_state = J_PENDING | J_RUNNING | J_SUCCESS | J_FAILED | J_CANCELED

definition terminal_states :: "job_state list" where
  "terminal_states = [J_SUCCESS, J_FAILED, J_CANCELED]"

definition active_states :: "job_state list" where
  "active_states = [J_PENDING, J_RUNNING]"

record job_record =
  j_task_id :: string
  j_trace_id :: string
  j_idempotency_key :: string
  j_agent_id :: string
  j_method :: string
  j_state :: job_state
  j_current_step :: string
  j_progress :: int
  j_result_inline :: "pydict option"
  j_result_ref :: "string option"
  j_error :: "pydict option"
  j_owner_agent_id :: string
  j_idempotency_scope :: string
  j_created_at :: string
  j_updated_at :: string
  j_heartbeat_at :: string

definition is_terminal :: "job_record \<Rightarrow> bool" where
  "is_terminal j = (j_state j \<in> set terminal_states)"

record agent_descriptor =
  ag_agent_id :: string
  ag_capabilities :: "string list"
  ag_endpoint :: string
  ag_tags :: "string list"
  ag_status :: string

definition supports_method :: "agent_descriptor \<Rightarrow> string \<Rightarrow> bool" where
  "supports_method d method = list_ex (\<lambda>prefix. str_startswith method prefix) (ag_capabilities d)"

datatype audit_data =
    Data_none
  | Data_job job_record
  | Data_result_ref "string option"
  | Data_task_id string
  | Data_dict pydict

record audit_record =
  ar_ts :: string
  ar_msg_id :: string
  ar_trace_id :: string
  ar_from_agent :: string
  ar_to_agent :: "string option"
  ar_to_capability :: "string option"
  ar_type :: string
  ar_method :: string
  ar_status :: string
  ar_task_id :: "string option"
  ar_error_code :: "string option"
  ar_error_message :: "string option"
  ar_envelope :: "envelope option"
  ar_data :: audit_data

text \<open>\<open>json_len\<close> is the length of the encoded result, or the text of the exception that the
  encoder raises; \<open>put_bytes\<close> is the artifact store, if there is one, with the reference it
  returns or the text of its exception. \<open>receipt_error\<close>: writing the receipt of a call raises
  a storage error. \<open>audit_error\<close>: appending a record to the audit log raises. \<open>cancelled\<close>:
  \<open>Future.cancel\<close> stopped the job before it began.\<close>

record a2a_env =
  iso_now :: "string \<Rightarrow> string"
  new_uuid :: "string \<Rightarrow> string"
  now_us :: int
  iso_us :: "string \<Rightarrow> int option"
  is_uuid :: "string \<Rightarrow> bool"
  json_len :: "pydict \<Rightarrow> string + nat"
  put_bytes :: "(pydict \<Rightarrow> string \<Rightarrow> string + string) option"
  receipt_error :: bool
  audit_error :: "audit_record \<Rightarrow> bool"
  cancelled :: bool

section \<open>Errors\<close>

definition ERROR_CODES :: "string list" where
  "ERROR_CODES = [''INVALID_ARGUMENT'', ''INVALID_CONFIG'', ''POLICY_DENIED'', ''ALREADY_COMPLETED'',
     ''IN_PROGRESS'', ''OUTCOME_UNKNOWN'', ''JOB_NOT_FOUND'', ''NO_HANDLER'', ''AGENT_NOT_FOUND'',
     ''ROUTE_NOT_FOUND'', ''HANDLER_ERROR'', ''JOB_FAILED'', ''CANCELED'', ''STALE_JOB'', ''FAILED'',
     ''INTERNAL_ERROR'']"

definition normalize_error_code :: "string option \<Rightarrow> string" where
  "normalize_error_code raw =
     (let code = str_upper (str_strip (case raw of None \<Rightarrow> [] | Some c \<Rightarrow> c))
      in if code \<in> set ERROR_CODES then code else ''INTERNAL_ERROR'')"

record a2a_error =
  err_code :: string
  err_message :: string
  err_details :: pydict

definition A2AError :: "string \<Rightarrow> string \<Rightarrow> pydict \<Rightarrow> a2a_error" where
  "A2AError code message details =
     \<lparr>err_code = normalize_error_code (Some code), err_message = message, err_details = details\<rparr>"

definition A2AError_to_dict :: "a2a_error \<Rightarrow> pydict" where
  "A2AError_to_dict e =
     [(''code'', PStr (err_code e)), (''message'', PStr (err_message e))] @
     (if err_details e \<noteq> [] then [(''details'', PDict (err_details e))] else [])"

definition A2AError_str :: "a2a_error \<Rightarrow> string" where
  "A2AError_str e = err_code e @ '': '' @ err_message e"

definition error_dict :: "string \<Rightarrow> string \<Rightarrow> pydict" where
  "error_dict code message = [(''code'', PStr code), (''message'', PStr message)]"

section \<open>The contract of an envelope\<close>

definition MESSAGE_TYPES :: "string list" where
  "MESSAGE_TYPES = [''call'', ''result'', ''job.start'', ''job.status'', ''job.cancel'', ''event.publish'']"

definition IDEMPOTENCY_REQUIRED_TYPES :: "string list" where
  "IDEMPOTENCY_REQUIRED_TYPES = [''call'', ''job.start'']"

definition requires_idempotency :: "envelope \<Rightarrow> bool" where
  "requires_idempotency e = (e_type e \<in> set IDEMPOTENCY_REQUIRED_TYPES)"

definition is_lower_hex :: "char \<Rightarrow> bool" where
  "is_lower_hex c = (c \<in> set ''0123456789abcdef'')"

text \<open>The pattern \<open>00-([0-9a-f]{32})-([0-9a-f]{16})-([0-9a-f]{2})\<close>, matched in full.\<close>

definition is_valid_traceparent :: "string \<Rightarrow> bool" where
  "is_valid_traceparent value =
     (let trace_id = take 32 (drop 3 value); parent_id = take 16 (drop 36 value); flags = drop 53 value
      in value = ''00-'' @ trace_id @ ''-'' @ parent_id @ ''-'' @ flags \<and>
         length trace_id = 32 \<and> length parent_id = 16 \<and> length flags = 2 \<and>
         list_all is_lower_hex trace_id \<and> list_all is_lower_hex parent_id \<and> list_all is_lower_hex flags \<and>
         trace_id \<noteq> replicate 32 (CHR ''0'') \<and> parent_id \<noteq> replicate 16 (CHR ''0''))"

definition A2A_OBSERVABILITY_SCHEMA_VERSION :: string where
  "A2A_OBSERVABILITY_SCHEMA_VERSION = ''openminion.a2a_observability.v1''"

definition validate_observability :: "a2a_env \<Rightarrow> observability \<Rightarrow> string + unit" where
  "validate_observability env ob =
     (if ob_schema_version ob \<noteq> A2A_OBSERVABILITY_SCHEMA_VERSION
      then Inl (''Unsupported A2A observability schema: '' @ repr_str (ob_schema_version ob))
      else case find (\<lambda>(_, value). \<not> is_uuid env (str_strip value))
             [(''invocation_id'', ob_invocation_id ob), (''execution_id'', ob_execution_id ob),
              (''handoff_id'', ob_handoff_id ob)] of
        Some (name, _) \<Rightarrow> Inl (''A2A observability '' @ name @ '' must be a UUID'')
      | None \<Rightarrow>
        if \<not> is_valid_traceparent (ob_traceparent ob)
        then Inl ''A2A observability traceparent must be a valid W3C traceparent''
        else Inr ())"

definition text_given :: "string option \<Rightarrow> bool" where
  "text_given s = (s \<noteq> None \<and> s \<noteq> Some [])"

definition validate_envelope_contract :: "a2a_env \<Rightarrow> envelope \<Rightarrow> string + unit" where
  "validate_envelope_contract env e =
     (if str_strip (e_method e) = [] then Inl ''Envelope method is required''
      else if str_strip (e_from_agent e) = [] then Inl ''Envelope from_agent is required''
      else if \<not> text_given (e_to_agent e) \<and> \<not> text_given (e_to_capability e)
      then Inl ''Either to_agent or to_capability is required''
      else if e_type e \<notin> set MESSAGE_TYPES
      then Inl (''Envelope type '' @ [CHR 0x27] @ e_type e @ [CHR 0x27] @ '' is invalid'')
      else if requires_idempotency e \<and> str_strip (e_idempotency_key e) = []
      then Inl ''idempotency_key is required for call and job.start''
      else case e_observability e of
        None \<Rightarrow> Inr ()
      | Some ob \<Rightarrow> validate_observability env ob)"

definition Envelope_new ::
  "a2a_env \<Rightarrow> string \<Rightarrow> string option \<Rightarrow> string option \<Rightarrow> string \<Rightarrow> string \<Rightarrow> pydict \<Rightarrow> int \<Rightarrow> string \<Rightarrow>
   string option \<Rightarrow> pydict \<Rightarrow> observability option \<Rightarrow> envelope" where
  "Envelope_new env from to cap type method params timeout key trace meta ob =
     \<lparr>e_msg_id = new_uuid env ''msg'',
      e_trace_id = (case trace of Some (c # t) \<Rightarrow> c # t | _ \<Rightarrow> new_uuid env ''trace''),
      e_ts = iso_now env ''envelope'', e_from_agent = from, e_to_agent = to, e_to_capability = cap,
      e_type = type, e_method = method, e_params = params, e_attachments = [], e_timeout_ms = timeout,
      e_idempotency_key = key, e_meta = meta, e_observability = ob\<rparr>"

section \<open>The routing policy\<close>

record a2a_rule =
  ru_action :: string
  ru_from_agent :: "string option"
  ru_to_agent :: "string option"
  ru_to_capability :: "string option"
  ru_method_prefix :: "string option"
  ru_message_type :: "string option"

record policy_engine =
  pe_default_action :: string
  pe_rules :: "a2a_rule list"

definition a2a_rule_matches :: "envelope \<Rightarrow> string \<Rightarrow> a2a_rule \<Rightarrow> bool" where
  "a2a_rule_matches e agent r =
     ((text_given (ru_from_agent r) \<longrightarrow> ru_from_agent r = Some (e_from_agent e)) \<and>
      (text_given (ru_to_agent r) \<longrightarrow> ru_to_agent r = Some agent) \<and>
      (text_given (ru_to_capability r) \<longrightarrow>
         ru_to_capability r = Some (case e_to_capability e of None \<Rightarrow> [] | Some c \<Rightarrow> c)) \<and>
      (text_given (ru_method_prefix r) \<longrightarrow> str_startswith (e_method e) (the (ru_method_prefix r))) \<and>
      (text_given (ru_message_type r) \<longrightarrow> ru_message_type r = Some (e_type e)))"

definition PolicyEngine :: "string \<Rightarrow> a2a_rule list \<Rightarrow> policy_engine" where
  "PolicyEngine default_action rules =
     \<lparr>pe_default_action = (if str_lower default_action = ''deny'' then ''deny'' else ''allow''), pe_rules = rules\<rparr>"

definition norm_text :: "pyval option \<Rightarrow> string option" where
  "norm_text value = (case value of None \<Rightarrow> None | Some PNone \<Rightarrow> None | Some v \<Rightarrow> strip_or_none (py_str v))"

definition normalized_action :: "pyval \<Rightarrow> string" where
  "normalized_action value =
     (let action = str_lower (py_str value) in if action \<in> {''allow'', ''deny''} then action else ''deny'')"

fun rules_from_config :: "pyval list \<Rightarrow> a2a_rule list" where
  "rules_from_config [] = []"
| "rules_from_config (PDict raw # rest) =
     \<lparr>ru_action = normalized_action (dict_get_or raw ''action'' (PStr ''deny'')),
      ru_from_agent = norm_text (dict_get raw ''from_agent''),
      ru_to_agent = norm_text (dict_get raw ''to_agent''),
      ru_to_capability = norm_text (dict_get raw ''to_capability''),
      ru_method_prefix = norm_text (dict_get raw ''method_prefix''),
      ru_message_type = norm_text (dict_get raw ''message_type'')\<rparr> # rules_from_config rest"
| "rules_from_config (_ # rest) = rules_from_config rest"

definition PolicyEngine_from_config :: "string \<Rightarrow> pyval list \<Rightarrow> policy_engine" where
  "PolicyEngine_from_config default_action raw_rules = PolicyEngine default_action (rules_from_config raw_rules)"

fun last_action :: "envelope \<Rightarrow> string \<Rightarrow> string \<Rightarrow> a2a_rule list \<Rightarrow> string" where
  "last_action e agent decision [] = decision"
| "last_action e agent decision (r # rs) =
     last_action e agent (if a2a_rule_matches e agent r then ru_action r else decision) rs"

definition is_allowed :: "policy_engine \<Rightarrow> envelope \<Rightarrow> string \<Rightarrow> bool" where
  "is_allowed p e agent = (last_action e agent (pe_default_action p) (pe_rules p) = ''allow'')"

lemma last_action_eq:
  "last_action e agent decision rules =
     (case filter (a2a_rule_matches e agent) rules of
        [] \<Rightarrow> decision | m # ms \<Rightarrow> ru_action (last (m # ms)))"
  by (induction rules arbitrary: decision) (auto split: list.splits)

end
