(* ===== verification/A2A_Store.thy ===== *)
theory A2A_Store
  imports A2A_Models SQL_Table "HOL-Library.Product_Lexorder"
begin

text \<open>
  The state store of the agent-to-agent runtime. \<open>state_store\<close> is the in-memory store
  (\<open>modules/a2a/storage/memory.py\<close>, class \<open>MemoryStateStore\<close>): receipts by scope and key,
  jobs and agents as dictionaries in insertion order. The receipts of the SQL back ends
  (\<open>modules/a2a/storage/store.py\<close>, class \<open>_StateStoreMixin\<close>) are a table of rows with the
  primary key (scope, key). The locale \<open>receipt_store\<close> is the contract of the protocol
  \<open>StateStore\<close> that the runtime relies on; both back ends are interpretations of it. Each
  operation runs under the lock of its store or as one SQL statement, so it is atomic; it
  takes the readings of the clock as arguments.
\<close>

type_synonym slot = "string \<times> string"

record state_store =
  ss_idempotency :: "slot \<Rightarrow> idempotency_record option"
  ss_jobs :: "(string \<times> job_record) list"
  ss_agents :: "(string \<times> agent_descriptor) list"

definition MemoryStateStore :: state_store where
  "MemoryStateStore = \<lparr>ss_idempotency = (\<lambda>_. None), ss_jobs = [], ss_agents = []\<rparr>"

section \<open>Receipts in memory\<close>

definition in_progress_idempotency :: "string \<Rightarrow> string \<Rightarrow> string \<Rightarrow> idempotency_record" where
  "in_progress_idempotency stamped key scope =
     \<lparr>ir_key = key, ir_scope = scope, ir_status = R_IN_PROGRESS, ir_result_inline = None,
      ir_result_ref = None, ir_error = None, ir_task_id = None,
      ir_created_at = stamped, ir_updated_at = stamped\<rparr>"

definition reserve_idempotency ::
  "string \<Rightarrow> string \<Rightarrow> string \<Rightarrow> state_store \<Rightarrow> (bool \<times> idempotency_record option) \<times> state_store" where
  "reserve_idempotency now key scope s =
     (case ss_idempotency s (scope, key) of
        Some row \<Rightarrow> ((False, Some row), s)
      | None \<Rightarrow>
        let rec = in_progress_idempotency now key scope
        in ((True, Some rec), s\<lparr>ss_idempotency := (ss_idempotency s)((scope, key) \<mapsto> rec)\<rparr>))"

text \<open>The fields that \<open>finish_idempotency\<close> and \<open>set_idempotency_result\<close> write.\<close>

definition receipt_result ::
  "string \<Rightarrow> receipt_status \<Rightarrow> pydict option \<Rightarrow> string option \<Rightarrow> pydict option \<Rightarrow>
   idempotency_record \<Rightarrow> idempotency_record" where
  "receipt_result now status inline ref error row =
     row\<lparr>ir_status := status, ir_result_inline := inline, ir_result_ref := ref, ir_error := error,
         ir_updated_at := now\<rparr>"

definition receipt_with_task ::
  "string \<Rightarrow> receipt_status \<Rightarrow> pydict option \<Rightarrow> string option \<Rightarrow> pydict option \<Rightarrow> string option \<Rightarrow>
   idempotency_record \<Rightarrow> idempotency_record" where
  "receipt_with_task now status inline ref error task row =
     (receipt_result now status inline ref error row)\<lparr>ir_task_id := task\<rparr>"

definition open_reservation :: "idempotency_record \<Rightarrow> idempotency_record \<Rightarrow> bool" where
  "open_reservation reservation row =
     (ir_status row = R_IN_PROGRESS \<and> ir_created_at row = ir_created_at reservation)"

definition finish_idempotency ::
  "string \<Rightarrow> idempotency_record \<Rightarrow> receipt_status \<Rightarrow> pydict option \<Rightarrow> string option \<Rightarrow> pydict option \<Rightarrow>
   state_store \<Rightarrow> bool \<times> state_store" where
  "finish_idempotency now reservation status inline ref error s =
     (let k = (ir_scope reservation, ir_key reservation) in
      case ss_idempotency s k of
        None \<Rightarrow> (False, s)
      | Some row \<Rightarrow>
        if \<not> open_reservation reservation row then (False, s)
        else (True, s\<lparr>ss_idempotency :=
               (ss_idempotency s)(k \<mapsto> receipt_result now status inline ref error row)\<rparr>))"

text \<open>\<open>fresh\<close> is the reading that fills the stamps of a record created here.\<close>

definition set_idempotency_result ::
  "string \<Rightarrow> string \<Rightarrow> string \<Rightarrow> string \<Rightarrow> receipt_status \<Rightarrow> pydict option \<Rightarrow> string option \<Rightarrow>
   pydict option \<Rightarrow> string option \<Rightarrow> state_store \<Rightarrow> idempotency_record \<times> state_store" where
  "set_idempotency_result now fresh key scope status inline ref error task s =
     (let existing = (case ss_idempotency s (scope, key) of
            Some row \<Rightarrow> row | None \<Rightarrow> (in_progress_idempotency fresh key scope)\<lparr>ir_status := status\<rparr>);
          rec = receipt_with_task now status inline ref error task existing;
          rec = (if ir_created_at rec = [] then rec\<lparr>ir_created_at := now\<rparr> else rec)
      in (rec, s\<lparr>ss_idempotency := (ss_idempotency s)((scope, key) \<mapsto> rec)\<rparr>))"

section \<open>Jobs and agents\<close>

definition create_job :: "job_record \<Rightarrow> state_store \<Rightarrow> state_store" where
  "create_job job s = s\<lparr>ss_jobs := dict_set (ss_jobs s) (j_task_id job) job\<rparr>"

definition get_job :: "string \<Rightarrow> state_store \<Rightarrow> job_record option" where
  "get_job task_id s = dict_get (ss_jobs s) task_id"

text \<open>A patch as \<open>_job_patch\<close> builds it; the optional fields are those it may leave out.\<close>

record job_patch =
  jp_stamped :: string
  jp_state :: job_state
  jp_current_step :: string
  jp_progress :: "int option"
  jp_result :: "(pydict option \<times> string option) option"
  jp_error :: "pydict option option"

definition apply_patch :: "job_patch \<Rightarrow> job_record \<Rightarrow> job_record" where
  "apply_patch p j =
     (let j = j\<lparr>j_heartbeat_at := jp_stamped p, j_updated_at := jp_stamped p, j_state := jp_state p,
                j_current_step := jp_current_step p\<rparr>;
          j = (case jp_progress p of None \<Rightarrow> j | Some n \<Rightarrow> j\<lparr>j_progress := n\<rparr>);
          j = (case jp_result p of None \<Rightarrow> j
               | Some (inline, ref) \<Rightarrow> j\<lparr>j_result_inline := inline, j_result_ref := ref\<rparr>)
      in case jp_error p of None \<Rightarrow> j | Some e \<Rightarrow> j\<lparr>j_error := e\<rparr>)"

text \<open>\<open>Inl\<close> is the \<open>KeyError\<close> of an unknown job.\<close>

definition update_job :: "string \<Rightarrow> job_patch \<Rightarrow> state_store \<Rightarrow> (string + job_record) \<times> state_store" where
  "update_job task_id patch s =
     (case dict_get (ss_jobs s) task_id of
        None \<Rightarrow> (Inl task_id, s)
      | Some current \<Rightarrow>
        let next_job = apply_patch patch current
        in (Inr next_job, s\<lparr>ss_jobs := dict_set (ss_jobs s) task_id next_job\<rparr>))"

record job_filter =
  jf_state :: "job_state option"
  jf_states :: "job_state list"
  jf_owner_agent_id :: "string option"
  jf_session_id :: "string option"
  jf_recent :: bool
  jf_limit :: int

definition job_matches :: "job_filter \<Rightarrow> job_record \<Rightarrow> bool" where
  "job_matches f row =
     (let owner = str_strip (case jf_owner_agent_id f of None \<Rightarrow> [] | Some x \<Rightarrow> x);
          session = str_strip (case jf_session_id f of None \<Rightarrow> [] | Some x \<Rightarrow> x)
      in (jf_state f = None \<or> jf_state f = Some (j_state row)) \<and>
         (jf_states f = [] \<or> j_state row \<in> set (jf_states f)) \<and>
         (owner = [] \<or> j_owner_agent_id row = owner) \<and>
         (session = [] \<or> j_idempotency_scope row =
            ''job.start:'' @ j_agent_id row @ '':'' @ j_method row @ '':'' @ session))"

definition store_list_jobs :: "job_filter \<Rightarrow> state_store \<Rightarrow> job_record list" where
  "store_list_jobs f s =
     (let out = filter (job_matches f) (map snd (ss_jobs s));
          out = (if jf_recent f then sql_order_desc (\<lambda>j. (j_created_at j, j_task_id j)) out else out)
      in take (nat (max 1 (min (jf_limit f) 5000))) out)"

definition upsert_agent :: "agent_descriptor \<Rightarrow> state_store \<Rightarrow> state_store" where
  "upsert_agent d s = s\<lparr>ss_agents := dict_set (ss_agents s) (ag_agent_id d) d\<rparr>"

definition store_list_agents :: "state_store \<Rightarrow> agent_descriptor list" where
  "store_list_agents s = map snd (ss_agents s)"

section \<open>Receipts in SQL\<close>

definition receipt_slot :: "idempotency_record \<Rightarrow> slot" where
  "receipt_slot row = (ir_scope row, ir_key row)"

definition sql_get_idempotency :: "slot \<Rightarrow> idempotency_record list \<Rightarrow> idempotency_record option" where
  "sql_get_idempotency k t = sql_get receipt_slot k t"

definition sql_reserve_idempotency ::
  "string \<Rightarrow> string \<Rightarrow> string \<Rightarrow> idempotency_record list \<Rightarrow>
   (bool \<times> idempotency_record option) \<times> idempotency_record list" where
  "sql_reserve_idempotency now key scope t =
     (let row = in_progress_idempotency now key scope in
      case sql_insert receipt_slot row t of
        Some u \<Rightarrow> ((True, Some row), u)
      | None \<Rightarrow> ((False, sql_get_idempotency (scope, key) t), t))"

definition sql_finish_idempotency ::
  "string \<Rightarrow> idempotency_record \<Rightarrow> receipt_status \<Rightarrow> pydict option \<Rightarrow> string option \<Rightarrow> pydict option \<Rightarrow>
   idempotency_record list \<Rightarrow> bool \<times> idempotency_record list" where
  "sql_finish_idempotency now reservation status inline ref error t =
     (let p = (\<lambda>r. receipt_slot r = receipt_slot reservation \<and> open_reservation reservation r)
      in (0 < sql_count p t, sql_update p (receipt_result now status inline ref error) t))"

text \<open>The upsert; \<open>None\<close> is the error of a row that cannot be read back.\<close>

definition sql_set_idempotency_result ::
  "string \<Rightarrow> string \<Rightarrow> string \<Rightarrow> receipt_status \<Rightarrow> pydict option \<Rightarrow> string option \<Rightarrow>
   pydict option \<Rightarrow> string option \<Rightarrow> idempotency_record list \<Rightarrow>
   idempotency_record option \<times> idempotency_record list" where
  "sql_set_idempotency_result now key scope status inline ref error task t =
     (let row = receipt_with_task now status inline ref error task (in_progress_idempotency now key scope);
          u = (case sql_insert receipt_slot row t of
                 Some u \<Rightarrow> u
               | None \<Rightarrow> sql_update (\<lambda>r. receipt_slot r = (scope, key))
                   (receipt_with_task now status inline ref error task) t)
      in (sql_get_idempotency (scope, key) u, u))"

section \<open>The contract of a receipt store\<close>

text \<open>What the operations do to the receipts, as a map from slots to records.\<close>

type_synonym receipts = "slot \<Rightarrow> idempotency_record option"

datatype receipt_op =
    Op_reserve string string string
  | Op_finish string idempotency_record receipt_status "pydict option" "string option" "pydict option"
  | Op_set string string string receipt_status "pydict option" "string option" "pydict option" "string option"

datatype receipt_reply =
    Reply_reserve bool "idempotency_record option"
  | Reply_finish bool
  | Reply_set "idempotency_record option"

fun spec_perform :: "receipt_op \<Rightarrow> receipts \<Rightarrow> receipt_reply \<times> receipts" where
  "spec_perform (Op_reserve now key scope) m =
     (case m (scope, key) of
        Some row \<Rightarrow> (Reply_reserve False (Some row), m)
      | None \<Rightarrow> let row = in_progress_idempotency now key scope
                in (Reply_reserve True (Some row), m((scope, key) \<mapsto> row)))"
| "spec_perform (Op_finish now reservation status inline ref error) m =
     (case m (receipt_slot reservation) of
        None \<Rightarrow> (Reply_finish False, m)
      | Some row \<Rightarrow> if open_reservation reservation row
          then (Reply_finish True,
                m(receipt_slot reservation \<mapsto> receipt_result now status inline ref error row))
          else (Reply_finish False, m))"
| "spec_perform (Op_set now key scope status inline ref error task) m =
     (let row = receipt_with_task now status inline ref error task
        (case m (scope, key) of Some row \<Rightarrow> row | None \<Rightarrow> in_progress_idempotency now key scope)
      in (Reply_set (Some row), m((scope, key) \<mapsto> row)))"

text \<open>Every reading of the clock is a non-empty text.\<close>

fun stamped_op :: "receipt_op \<Rightarrow> bool" where
  "stamped_op (Op_reserve now _ _) = (now \<noteq> [])"
| "stamped_op (Op_finish now _ _ _ _ _) = (now \<noteq> [])"
| "stamped_op (Op_set now _ _ _ _ _ _ _) = (now \<noteq> [])"

text \<open>The replies to a sequence of operations.\<close>

fun replies :: "(receipt_op \<Rightarrow> 's \<Rightarrow> receipt_reply \<times> 's) \<Rightarrow> receipt_op list \<Rightarrow> 's \<Rightarrow> receipt_reply list" where
  "replies perform [] s = []"
| "replies perform (p # ps) s = (case perform p s of (r, t) \<Rightarrow> r # replies perform ps t)"

text \<open>The successful reservations of a slot among the operations and their replies.\<close>

definition wins :: "slot \<Rightarrow> receipt_op list \<Rightarrow> receipt_reply list \<Rightarrow> nat" where
  "wins k ops rs = length (filter (\<lambda>(p, r). case (p, r) of
     (Op_reserve _ key scope, Reply_reserve b _) \<Rightarrow> b \<and> (scope, key) = k | _ \<Rightarrow> False) (zip ops rs))"

lemma spec_keeps: "m k \<noteq> None \<Longrightarrow> snd (spec_perform p m) k \<noteq> None"
  by (cases "(p, m)" rule: spec_perform.cases)
    (auto simp: Let_def split: option.splits if_splits)

lemma spec_wins: "wins k ops (replies spec_perform ops m) \<le> (if m k = None then 1 else 0)"
proof (induction ops arbitrary: m)
  case (Cons p ops)
  obtain r n where p: "spec_perform p m = (r, n)" by force
  have keeps: "n k \<noteq> None" if "m k \<noteq> None" using spec_keeps [of m k p] that p by simp
  have won: "m k = None \<and> n k \<noteq> None" if "wins k [p] [r] \<noteq> 0"
    using that p by (cases p; cases r) (auto simp: wins_def Let_def split: option.splits if_splits)
  have one: "wins k [p] [r] \<le> 1" by (simp add: wins_def)
  have "wins k (p # ops) (r # replies spec_perform ops n) = wins k [p] [r] + wins k ops (replies spec_perform ops n)"
    by (simp add: wins_def)
  with keeps won one Cons.IH [of n] p show ?case
    by (cases "wins k [p] [r] = 0"; cases "m k") (auto split: if_splits)
qed (simp add: wins_def)

locale receipt_store =
  fixes ok :: "'s \<Rightarrow> bool" and look :: "'s \<Rightarrow> receipts"
    and perform :: "receipt_op \<Rightarrow> 's \<Rightarrow> receipt_reply \<times> 's"
  assumes simulates: "ok s \<Longrightarrow> stamped_op p \<Longrightarrow> perform p s = (r, t) \<Longrightarrow>
      ok t \<and> spec_perform p (look s) = (r, look t)"
begin

lemma replies_spec:
  "ok s \<Longrightarrow> list_all stamped_op ps \<Longrightarrow> replies perform ps s = replies spec_perform ps (look s)"
proof (induction ps arbitrary: s)
  case (Cons p ps)
  obtain r t where "perform p s = (r, t)" by force
  with Cons simulates [of s p r t] show ?case by simp
qed simp

lemma slot_won_once:
  "ok s \<Longrightarrow> list_all stamped_op ps \<Longrightarrow> wins k ps (replies perform ps s) \<le> (if look s k = None then 1 else 0)"
  using spec_wins [of k ps "look s"] replies_spec [of s ps] by simp

end

section \<open>The two back ends\<close>

fun mem_perform :: "receipt_op \<Rightarrow> state_store \<Rightarrow> receipt_reply \<times> state_store" where
  "mem_perform (Op_reserve now key scope) s =
     (case reserve_idempotency now key scope s of ((b, row), t) \<Rightarrow> (Reply_reserve b row, t))"
| "mem_perform (Op_finish now r st inline ref error) s =
     (case finish_idempotency now r st inline ref error s of (b, t) \<Rightarrow> (Reply_finish b, t))"
| "mem_perform (Op_set now key scope st inline ref error task) s =
     (case set_idempotency_result now now key scope st inline ref error task s of
        (row, t) \<Rightarrow> (Reply_set (Some row), t))"

fun sql_perform :: "receipt_op \<Rightarrow> idempotency_record list \<Rightarrow> receipt_reply \<times> idempotency_record list" where
  "sql_perform (Op_reserve now key scope) t =
     (case sql_reserve_idempotency now key scope t of ((b, row), u) \<Rightarrow> (Reply_reserve b row, u))"
| "sql_perform (Op_finish now r st inline ref error) t =
     (case sql_finish_idempotency now r st inline ref error t of (b, u) \<Rightarrow> (Reply_finish b, u))"
| "sql_perform (Op_set now key scope st inline ref error task) t =
     (case sql_set_idempotency_result now key scope st inline ref error task t of
        (row, u) \<Rightarrow> (Reply_set row, u))"

definition stamped_receipts :: "receipts \<Rightarrow> bool" where
  "stamped_receipts m = (\<forall>k row. m k = Some row \<longrightarrow> receipt_slot row = k \<and> ir_created_at row \<noteq> [])"

lemma receipt_result_simps [simp]:
  "receipt_slot (receipt_result now st inline ref error row) = receipt_slot row"
  "ir_created_at (receipt_result now st inline ref error row) = ir_created_at row"
  "ir_task_id (receipt_result now st inline ref error row) = ir_task_id row"
  "ir_status (receipt_result now st inline ref error row) = st"
  by (simp_all add: receipt_slot_def receipt_result_def)

lemma in_progress_simps [simp]:
  "receipt_slot (in_progress_idempotency now key scope) = (scope, key)"
  "ir_created_at (in_progress_idempotency now key scope) = now"
  "ir_status (in_progress_idempotency now key scope) = R_IN_PROGRESS"
  by (simp_all add: receipt_slot_def in_progress_idempotency_def)

lemma with_task_simps [simp]:
  "receipt_slot (receipt_with_task now st inline ref error task row) = receipt_slot row"
  "ir_created_at (receipt_with_task now st inline ref error task row) = ir_created_at row"
  "ir_task_id (receipt_with_task now st inline ref error task row) = task"
  "ir_status (receipt_with_task now st inline ref error task row) = st"
  by (simp_all add: receipt_with_task_def receipt_slot_def receipt_result_def)

lemma stamped_receiptsD:
  "stamped_receipts m \<Longrightarrow> m k = Some row \<Longrightarrow> receipt_slot row = k \<and> ir_created_at row \<noteq> []"
  unfolding stamped_receipts_def by blast

lemma stamped_receipts_upd:
  "stamped_receipts m \<Longrightarrow> receipt_slot row = k \<Longrightarrow> ir_created_at row \<noteq> [] \<Longrightarrow> stamped_receipts (m(k \<mapsto> row))"
  by (simp add: stamped_receipts_def)

lemma spec_stamped:
  "stamped_receipts m \<Longrightarrow> stamped_op p \<Longrightarrow> stamped_receipts (snd (spec_perform p m))"
  by (cases p)
    (auto simp: Let_def split: option.split dest: stamped_receiptsD intro!: stamped_receipts_upd)

lemma mem_simulates:
  assumes "stamped_receipts (ss_idempotency s)" and "stamped_op p" and "mem_perform p s = (r, t)"
  shows "spec_perform p (ss_idempotency s) = (r, ss_idempotency t)"
proof (cases p)
  case (Op_reserve now key scope)
  with assms(3) show ?thesis
    by (auto simp: reserve_idempotency_def Let_def split: option.splits)
next
  case (Op_finish now q st inline ref error)
  with assms(3) show ?thesis
    by (auto simp: finish_idempotency_def receipt_slot_def Let_def split: option.splits if_splits)
next
  case (Op_set now key scope st inline ref error task)
  then show ?thesis
    using assms stamped_receiptsD [OF assms(1), of "(scope, key)"]
    by (auto simp: set_idempotency_result_def receipt_with_task_def receipt_result_def
        in_progress_idempotency_def Let_def split: option.splits)
qed

interpretation mem_receipts: receipt_store
  "\<lambda>s. stamped_receipts (ss_idempotency s)" ss_idempotency mem_perform
proof
  fix s p r t
  assume a: "stamped_receipts (ss_idempotency s)" "stamped_op p" "mem_perform p s = (r, t)"
  have "spec_perform p (ss_idempotency s) = (r, ss_idempotency t)"
    using a by (rule mem_simulates)
  then show "stamped_receipts (ss_idempotency t) \<and> spec_perform p (ss_idempotency s) = (r, ss_idempotency t)"
    using spec_stamped [OF a(1,2)] by simp
qed

interpretation finish_row: keyed_update receipt_slot "receipt_result now st inline ref error"
  by unfold_locales simp

interpretation set_row: keyed_update receipt_slot "receipt_with_task now st inline ref error task"
  by unfold_locales simp

lemma sql_simulates:
  assumes "keys_unique receipt_slot s" and "sql_perform p s = (r, t)"
  shows "spec_perform p (\<lambda>k. sql_get_idempotency k s) = (r, \<lambda>k. sql_get_idempotency k t)"
proof (cases p)
  case (Op_reserve now key scope)
  with assms(2) show ?thesis
    by (auto simp: sql_reserve_idempotency_def sql_get_idempotency_def sql_insert_get sql_get_append
        Let_def fun_eq_iff split: option.splits if_splits)
next
  case (Op_finish now q st inline ref error)
  with assms show ?thesis
    by (auto simp: sql_finish_idempotency_def sql_get_idempotency_def sql_count_key [OF assms(1)]
        finish_row.get_update_key Let_def fun_eq_iff split: option.splits if_splits)
next
  case (Op_set now key scope st inline ref error task)
  with assms show ?thesis
    by (auto simp: sql_set_idempotency_result_def sql_get_idempotency_def sql_insert_get
        sql_get_append set_row.get_update_at Let_def fun_eq_iff
        split: option.splits if_splits)
qed

lemma sql_unique:
  assumes "keys_unique receipt_slot s"
  shows "keys_unique receipt_slot (snd (sql_perform p s))"
  using assms
  by (cases p)
    (auto simp: sql_reserve_idempotency_def sql_finish_idempotency_def sql_set_idempotency_result_def
      finish_row.unique_update set_row.unique_update Let_def
      split: option.split prod.split dest: keys_unique_insert)

interpretation sql_receipts: receipt_store
  "keys_unique receipt_slot" "\<lambda>t k. sql_get_idempotency k t" sql_perform
proof
  fix s p r t
  assume a: "keys_unique receipt_slot s" "stamped_op p" "sql_perform p s = (r, t)"
  show "keys_unique receipt_slot t \<and>
      spec_perform p (\<lambda>k. sql_get_idempotency k s) = (r, \<lambda>k. sql_get_idempotency k t)"
    using sql_simulates [OF a(1,3)] sql_unique [OF a(1), of p] a(3) by simp
qed

end
