(* ===== verification/A2A_Runtime.thy ===== *)
theory A2A_Runtime
  imports A2A_Store
begin

text \<open>
  The agent-to-agent runtime (\<open>modules/a2a/runtime.py\<close>, class \<open>A2ARuntime\<close>) and its agent
  registry (\<open>modules/a2a/registry.py\<close>). Handlers are values of the types \<open>'h\<close> and \<open>'j\<close>; what
  a handler does is an argument of the operations that run one. A job's future is the entry
  of its task in \<open>rt_futures\<close>: the arguments of \<open>_run_job\<close> and how far it has run. The
  \<open>threading.Event\<close> of a task is set when the task is in \<open>rt_events_set\<close>. The audit log is
  the list of the records handed to the audit store without an error.
\<close>

datatype handler_outcome = Returned pydict | Raised_a2a a2a_error | Raised string

text \<open>How far \<open>_run_job\<close> has run: not begun; past \<open>_mark_job_running\<close>; in the handler; past the
  handler, with its outcome still to be recorded; done.\<close>

datatype job_phase = Queued | Marked | Executing | Completing handler_outcome | Finished

record ('h, 'j) worker =
  wk_envelope :: envelope
  wk_agent :: string
  wk_handler :: 'h
  wk_job_handler :: "'j option"
  wk_scope :: string
  wk_phase :: job_phase

record ('h, 'j) runtime =
  rt_policy :: policy_engine
  rt_max_inline_bytes :: int
  rt_stale_sec :: int
  rt_handlers :: "(string \<times> 'h) list"
  rt_job_handlers :: "(string \<times> 'j) list"
  rt_store :: state_store
  rt_futures :: "(string \<times> ('h, 'j) worker) list"
  rt_cancel_events :: "string list"
  rt_events_set :: "string list"
  rt_audit :: "audit_record list"

text \<open>\<open>Key_error\<close>: a job the store does not know.\<close>

datatype a2a_exn = Raise_a2a a2a_error | Key_error string

section \<open>Registry\<close>

record ('h, 'j) route =
  ro_descriptor :: agent_descriptor
  ro_handler :: 'h
  ro_job_handler :: "'j option"

definition build_descriptor :: "string \<Rightarrow> string list \<Rightarrow> string list \<Rightarrow> agent_descriptor" where
  "build_descriptor agent_id capabilities tags =
     \<lparr>ag_agent_id = agent_id, ag_capabilities = capabilities, ag_endpoint = ''inproc://'' @ agent_id,
      ag_tags = tags, ag_status = ''online''\<rparr>"

definition registry_register ::
  "agent_descriptor \<Rightarrow> 'h \<Rightarrow> 'j option \<Rightarrow> ('h, 'j) runtime \<Rightarrow> ('h, 'j) runtime" where
  "registry_register d handler job_handler rt =
     rt\<lparr>rt_handlers := dict_set (rt_handlers rt) (ag_agent_id d) handler,
        rt_job_handlers := (case job_handler of
            Some h \<Rightarrow> dict_set (rt_job_handlers rt) (ag_agent_id d) h
          | None \<Rightarrow> dict_pop (rt_job_handlers rt) (ag_agent_id d)),
        rt_store := upsert_agent d (rt_store rt)\<rparr>"

definition register_agent ::
  "string \<Rightarrow> string list \<Rightarrow> 'h \<Rightarrow> string list \<Rightarrow> 'j option \<Rightarrow> ('h, 'j) runtime \<Rightarrow> ('h, 'j) runtime" where
  "register_agent agent_id capabilities handler tags job_handler =
     registry_register (build_descriptor agent_id capabilities tags) handler job_handler"

definition mk_route ::
  "('h, 'j) runtime \<Rightarrow> agent_descriptor \<Rightarrow> 'h \<Rightarrow> ('h, 'j) route" where
  "mk_route rt d h = \<lparr>ro_descriptor = d, ro_handler = h,
     ro_job_handler = dict_get (rt_job_handlers rt) (ag_agent_id d)\<rparr>"

definition quoted :: "string \<Rightarrow> string" where
  "quoted s = [CHR 0x27] @ s @ [CHR 0x27]"

definition resolve_target_agent ::
  "('h, 'j) runtime \<Rightarrow> agent_descriptor list \<Rightarrow> string \<Rightarrow> a2a_error + ('h, 'j) route" where
  "resolve_target_agent rt agents target =
     (case find (\<lambda>d. ag_agent_id d = target) agents of
        None \<Rightarrow> Inl (A2AError ''AGENT_NOT_FOUND'' (''Target agent '' @ quoted target @ '' not found'') [])
      | Some d \<Rightarrow>
        (case dict_get (rt_handlers rt) target of
           None \<Rightarrow> Inl (A2AError ''NO_HANDLER'' (''No local handler for target agent '' @ quoted target) [])
         | Some h \<Rightarrow> Inr (mk_route rt d h)))"

fun route_by_method ::
  "('h, 'j) runtime \<Rightarrow> envelope \<Rightarrow> agent_descriptor list \<Rightarrow> a2a_error + ('h, 'j) route" where
  "route_by_method rt e [] =
     Inl (A2AError ''ROUTE_NOT_FOUND'' (''No route found for method '' @ quoted (e_method e))
       [(''method'', PStr (e_method e)),
        (''to_capability'', case e_to_capability e of None \<Rightarrow> PNone | Some c \<Rightarrow> PStr c)])"
| "route_by_method rt e (d # ds) =
     (if supports_method d (e_method e)
      then case dict_get (rt_handlers rt) (ag_agent_id d) of
             Some h \<Rightarrow> Inr (mk_route rt d h)
           | None \<Rightarrow> route_by_method rt e ds
      else route_by_method rt e ds)"

definition registry_resolve :: "('h, 'j) runtime \<Rightarrow> envelope \<Rightarrow> a2a_error + ('h, 'j) route" where
  "registry_resolve rt e =
     (let agents = store_list_agents (rt_store rt) in
      case e_to_agent e of
        Some (c # target) \<Rightarrow> resolve_target_agent rt agents (c # target)
      | _ \<Rightarrow> route_by_method rt e agents)"

section \<open>Helpers of the runtime\<close>

definition idempotency_scope :: "envelope \<Rightarrow> string \<Rightarrow> string" where
  "idempotency_scope e agent =
     (let base_scope = e_type e @ '':'' @ agent @ '':'' @ e_method e;
          v = dict_get_or (e_meta e) ''session_id'' (PStr []);
          session_id = str_strip (if truthy v then py_str v else [])
      in if session_id \<noteq> [] then base_scope @ '':'' @ session_id else base_scope)"

definition job_scope :: "job_record \<Rightarrow> string" where
  "job_scope job =
     (if j_idempotency_scope job \<noteq> [] then j_idempotency_scope job
      else ''job.start:'' @ j_agent_id job @ '':'' @ j_method job)"

definition is_stale :: "a2a_env \<Rightarrow> string \<Rightarrow> int \<Rightarrow> bool" where
  "is_stale env heartbeat_at stale_after_sec =
     (case iso_us env heartbeat_at of
        None \<Rightarrow> True
      | Some heartbeat \<Rightarrow> now_us env - heartbeat > max 1 stale_after_sec * 1000000)"

definition idempotency_slot_is_stale :: "a2a_env \<Rightarrow> string \<Rightarrow> int \<Rightarrow> bool" where
  "idempotency_slot_is_stale env updated_at stale_after_sec =
     (case iso_us env updated_at of
        None \<Rightarrow> True
      | Some stamped \<Rightarrow> now_us env - stamped > max 1 stale_after_sec * 1000000)"

definition validate_envelope :: "a2a_env \<Rightarrow> envelope \<Rightarrow> a2a_error + unit" where
  "validate_envelope env e =
     (case validate_envelope_contract env e of
        Inl msg \<Rightarrow> Inl (A2AError ''INVALID_ARGUMENT'' msg [])
      | Inr u \<Rightarrow> Inr u)"

definition store_result_if_needed ::
  "a2a_env \<Rightarrow> pydict \<Rightarrow> string \<Rightarrow> ('h, 'j) runtime \<Rightarrow> string + (pydict option \<times> string option)" where
  "store_result_if_needed env result label rt =
     rbind (json_len env result) (\<lambda>n.
       case put_bytes env of
         None \<Rightarrow> Inr (Some result, None)
       | Some put \<Rightarrow>
         if int n \<le> rt_max_inline_bytes rt then Inr (Some result, None)
         else rbind (put result label) (\<lambda>ref. Inr (None, Some ref)))"

definition append_audit :: "a2a_env \<Rightarrow> audit_record \<Rightarrow> ('h, 'j) runtime \<Rightarrow> ('h, 'j) runtime" where
  "append_audit env r rt = (if audit_error env r then rt else rt\<lparr>rt_audit := rt_audit rt @ [r]\<rparr>)"

definition append_audit_record ::
  "a2a_env \<Rightarrow> envelope \<Rightarrow> string option \<Rightarrow> string \<Rightarrow> string option \<Rightarrow> string option \<Rightarrow> string option \<Rightarrow>
   ('h, 'j) runtime \<Rightarrow> ('h, 'j) runtime" where
  "append_audit_record env e agent status task_id code msg =
     append_audit env
       \<lparr>ar_ts = iso_now env ''audit'', ar_msg_id = e_msg_id e, ar_trace_id = e_trace_id e,
        ar_from_agent = e_from_agent e, ar_to_agent = agent, ar_to_capability = e_to_capability e,
        ar_type = e_type e, ar_method = e_method e, ar_status = status, ar_task_id = task_id,
        ar_error_code = code, ar_error_message = msg, ar_envelope = Some e, ar_data = Data_none\<rparr>"

definition append_runtime_audit ::
  "a2a_env \<Rightarrow> string \<Rightarrow> string \<Rightarrow> string \<Rightarrow> string \<Rightarrow> string \<Rightarrow> string \<Rightarrow> string option \<Rightarrow> string option \<Rightarrow>
   string option \<Rightarrow> audit_data \<Rightarrow> ('h, 'j) runtime \<Rightarrow> ('h, 'j) runtime" where
  "append_runtime_audit env trace_id agent method status task_id audit_type cap code msg data =
     append_audit env
       \<lparr>ar_ts = iso_now env ''audit'', ar_msg_id = new_uuid env (''audit:'' @ task_id), ar_trace_id = trace_id,
        ar_from_agent = ''runtime'', ar_to_agent = Some agent, ar_to_capability = cap,
        ar_type = audit_type, ar_method = method, ar_status = status, ar_task_id = Some task_id,
        ar_error_code = code, ar_error_message = msg, ar_envelope = None, ar_data = data\<rparr>"

definition record_boundary_event ::
  "a2a_env \<Rightarrow> string \<Rightarrow> string \<Rightarrow> string \<Rightarrow> string option \<Rightarrow> string option \<Rightarrow> string option \<Rightarrow> string option \<Rightarrow>
   pydict option \<Rightarrow> ('h, 'j) runtime \<Rightarrow> ('h, 'j) runtime" where
  "record_boundary_event env method status trace_id request_id task_id code msg data =
     append_audit env
       \<lparr>ar_ts = iso_now env ''audit'',
        ar_msg_id = (case request_id of Some (c # r) \<Rightarrow> c # r | _ \<Rightarrow> new_uuid env ''audit''),
        ar_trace_id = trace_id, ar_from_agent = ''external'', ar_to_agent = Some ''openminion.local'',
        ar_to_capability = None, ar_type = ''external.boundary'', ar_method = method, ar_status = status,
        ar_task_id = task_id, ar_error_code = code, ar_error_message = msg, ar_envelope = None,
        ar_data = (case data of None \<Rightarrow> Data_none | Some d \<Rightarrow> Data_dict d)\<rparr>"

section \<open>Result envelopes\<close>

definition result_envelope :: "a2a_env \<Rightarrow> envelope \<Rightarrow> string \<Rightarrow> pydict \<Rightarrow> pydict \<Rightarrow> envelope" where
  "result_envelope env request agent params meta =
     Envelope_new env agent (Some (e_from_agent request)) None ''result'' (e_method request) params
       (e_timeout_ms request) (e_idempotency_key request) (Some (e_trace_id request)) meta
       (e_observability request)"

definition success_result_envelope ::
  "a2a_env \<Rightarrow> envelope \<Rightarrow> string \<Rightarrow> pydict option \<Rightarrow> string option \<Rightarrow> bool \<Rightarrow> envelope" where
  "success_result_envelope env request agent inline ref cached =
     (let data = (case inline of Some d \<Rightarrow> d
                  | None \<Rightarrow> (case ref of Some (c # r) \<Rightarrow> [(''result_ref'', PStr (c # r))] | _ \<Rightarrow> []))
      in result_envelope env request agent
           [(''ok'', PBool True), (''status'', PStr ''SUCCESS''), (''cached'', PBool cached),
            (''data'', PDict data)]
           [(''cached'', PBool cached)])"

definition error_result_envelope ::
  "a2a_env \<Rightarrow> envelope \<Rightarrow> string \<Rightarrow> pydict \<Rightarrow> bool \<Rightarrow> string option \<Rightarrow> envelope" where
  "error_result_envelope env request agent error cached task_id =
     result_envelope env request agent
       ([(''ok'', PBool False), (''status'', dict_get_or error ''code'' (PStr ''FAILED'')),
         (''cached'', PBool cached), (''error'', PDict error)] @
        (case task_id of Some (c # t) \<Rightarrow> [(''task_id'', PStr (c # t))] | _ \<Rightarrow> []))
       [(''cached'', PBool cached), (''error'', PBool True)]"

definition in_progress_result_envelope ::
  "a2a_env \<Rightarrow> envelope \<Rightarrow> string \<Rightarrow> string option \<Rightarrow> bool \<Rightarrow> envelope" where
  "in_progress_result_envelope env request agent task_id cached =
     (let task = (case task_id of None \<Rightarrow> [] | Some t \<Rightarrow> [(''task_id'', PStr t)])
      in result_envelope env request agent
           ([(''ok'', PBool False), (''status'', PStr ''IN_PROGRESS''), (''cached'', PBool cached),
             (''data'', PDict task)] @ task)
           [(''cached'', PBool cached), (''in_progress'', PBool True)])"

definition unknown_call_result :: "a2a_env \<Rightarrow> envelope \<Rightarrow> string \<Rightarrow> bool \<Rightarrow> envelope" where
  "unknown_call_result env request agent cached =
     error_result_envelope env request agent
       (error_dict ''OUTCOME_UNKNOWN'' ''Call outcome is unknown; reconcile the effect before reissuing.'')
       cached None"

definition result_from_idempotency ::
  "a2a_env \<Rightarrow> idempotency_record \<Rightarrow> envelope \<Rightarrow> string \<Rightarrow> ('h, 'j) runtime \<Rightarrow> envelope" where
  "result_from_idempotency env existing request agent rt =
     (case ir_status existing of
        R_SUCCESS \<Rightarrow>
          success_result_envelope env request agent (ir_result_inline existing) (ir_result_ref existing) True
      | R_IN_PROGRESS \<Rightarrow>
          if idempotency_slot_is_stale env (ir_updated_at existing) (rt_stale_sec rt)
          then unknown_call_result env request agent True
          else in_progress_result_envelope env request agent (ir_task_id existing) True
      | status \<Rightarrow>
          error_result_envelope env request agent
            (case ir_error existing of
               Some (x # xs) \<Rightarrow> x # xs
             | _ \<Rightarrow> error_dict (if status = R_FAILED then ''FAILED'' else ''CANCELED'') ''Cached failure'')
            True (ir_task_id existing))"

section \<open>Calls\<close>

text \<open>A call up to the point where its handler would run: either its answer, or the handler to
  run with the reservation of its receipt.\<close>

datatype 'h call_entry = Call_done envelope | Call_run string 'h idempotency_record

definition rt_reserve ::
  "string \<Rightarrow> string \<Rightarrow> string \<Rightarrow> ('h, 'j) runtime \<Rightarrow>
   (bool \<times> idempotency_record option) \<times> ('h, 'j) runtime" where
  "rt_reserve now key scope rt =
     (case reserve_idempotency now key scope (rt_store rt) of (r, s) \<Rightarrow> (r, rt\<lparr>rt_store := s\<rparr>))"

definition call_begin ::
  "a2a_env \<Rightarrow> envelope \<Rightarrow> ('h, 'j) runtime \<Rightarrow> (a2a_error + 'h call_entry) \<times> ('h, 'j) runtime" where
  "call_begin env e rt =
     (if e_type e \<noteq> ''call''
      then (Inl (A2AError ''INVALID_ARGUMENT'' (''Envelope type must be '' @ quoted ''call'' @ '' for call()'') []), rt)
      else case rbind (validate_envelope env e) (\<lambda>_. registry_resolve rt e) of
        Inl err \<Rightarrow> (Inl err, rt)
      | Inr route \<Rightarrow>
        let agent = ag_agent_id (ro_descriptor route) in
        if \<not> is_allowed (rt_policy rt) e agent
        then (Inl (A2AError ''POLICY_DENIED'' ''Policy denied call''
                [(''agent'', PStr agent), (''method'', PStr (e_method e))]), rt)
        else (case rt_reserve (iso_now env ''reserve'') (e_idempotency_key e)
                     (idempotency_scope e agent) rt of
            ((_, None), rt) \<Rightarrow> (Inr (Call_done (unknown_call_result env e agent False)), rt)
          | ((False, Some record), rt) \<Rightarrow>
              (Inr (Call_done (result_from_idempotency env record e agent rt)), rt)
          | ((True, Some record), rt) \<Rightarrow>
              (Inr (Call_run agent (ro_handler route) record),
               append_audit_record env e (Some agent) ''CALL_RECEIVED'' None None None rt)))"

text \<open>What the outcome of the handler is recorded as: the result or its reference, or an error.\<close>

definition call_receipt ::
  "a2a_env \<Rightarrow> envelope \<Rightarrow> handler_outcome \<Rightarrow> ('h, 'j) runtime \<Rightarrow>
   (pydict option \<times> string option) \<times> pydict option" where
  "call_receipt env e outcome rt =
     (case outcome of
        Raised_a2a err \<Rightarrow> ((None, None), Some (A2AError_to_dict err))
      | Raised msg \<Rightarrow> ((None, None), Some (error_dict ''HANDLER_ERROR'' msg))
      | Returned result \<Rightarrow>
        (case store_result_if_needed env result (e_method e) rt of
           Inr stored \<Rightarrow> (stored, None)
         | Inl _ \<Rightarrow> ((None, None), Some (error_dict ''OUTCOME_UNKNOWN''
             ''Call result could not be stored; reconcile the effect before reissuing.''))))"

definition dict_text :: "pydict \<Rightarrow> string \<Rightarrow> string" where
  "dict_text d k = py_str (dict_get_or d k PNone)"

definition execute_call_handler ::
  "a2a_env \<Rightarrow> envelope \<Rightarrow> string \<Rightarrow> idempotency_record \<Rightarrow> handler_outcome \<Rightarrow> ('h, 'j) runtime \<Rightarrow>
   envelope \<times> ('h, 'j) runtime" where
  "execute_call_handler env e agent reservation outcome rt =
     (case call_receipt env e outcome rt of ((inline, ref), error) \<Rightarrow>
      if receipt_error env then (unknown_call_result env e agent False, rt)
      else case finish_idempotency (iso_now env ''finish'') reservation
             (if error \<noteq> None then R_FAILED else R_SUCCESS) inline ref error (rt_store rt) of
        (False, s) \<Rightarrow> (unknown_call_result env e agent False, rt\<lparr>rt_store := s\<rparr>)
      | (True, s) \<Rightarrow>
        let response = (case error of
                Some err \<Rightarrow> error_result_envelope env e agent err False None
              | None \<Rightarrow> success_result_envelope env e agent inline ref False)
        in (response,
            append_audit_record env response (e_to_agent response)
              (if error \<noteq> None then ''FAILED'' else ''SUCCESS'') None
              (map_option (\<lambda>err. dict_text err ''code'') error)
              (map_option (\<lambda>err. dict_text err ''message'') error) (rt\<lparr>rt_store := s\<rparr>)))"

text \<open>A whole call, for a handler that leaves the runtime alone.\<close>

definition call ::
  "a2a_env \<Rightarrow> ('h \<Rightarrow> envelope \<Rightarrow> handler_outcome) \<Rightarrow> envelope \<Rightarrow> ('h, 'j) runtime \<Rightarrow>
   (a2a_error + envelope) \<times> ('h, 'j) runtime" where
  "call env run e rt =
     (case call_begin env e rt of
        (Inl err, rt) \<Rightarrow> (Inl err, rt)
      | (Inr (Call_done response), rt) \<Rightarrow> (Inr response, rt)
      | (Inr (Call_run agent handler record), rt) \<Rightarrow>
          (case execute_call_handler env e agent record (run handler e) rt of
             (response, rt) \<Rightarrow> (Inr response, rt)))"

end
