(* ===== verification/A2A_Jobs.thy ===== *)
theory A2A_Jobs
  imports A2A_Runtime
begin

text \<open>
  The jobs of the agent-to-agent runtime (\<open>modules/a2a/runtime.py\<close>): starting or replaying a
  job, the worker that runs it, cancellation, status and the recovery of stale jobs. Every
  operation here holds the lock of the runtime; \<open>worker_step\<close> is \<open>_run_job\<close> cut at the points
  where it holds no lock, so that other operations may come between.
\<close>

section \<open>Writing the state of a job\<close>

definition patch_of :: "string \<Rightarrow> job_state \<Rightarrow> string \<Rightarrow> job_patch" where
  "patch_of stamped st step =
     \<lparr>jp_stamped = stamped, jp_state = st, jp_current_step = step, jp_progress = None,
      jp_result = None, jp_error = None\<rparr>"

definition rt_update_job ::
  "string \<Rightarrow> job_patch \<Rightarrow> ('h, 'j) runtime \<Rightarrow> (a2a_exn + job_record) \<times> ('h, 'j) runtime" where
  "rt_update_job task_id patch rt =
     (case update_job task_id patch (rt_store rt) of
        (Inl k, s) \<Rightarrow> (Inl (Key_error k), rt\<lparr>rt_store := s\<rparr>)
      | (Inr job, s) \<Rightarrow> (Inr job, rt\<lparr>rt_store := s\<rparr>))"

definition rt_set_result ::
  "a2a_env \<Rightarrow> string \<Rightarrow> string \<Rightarrow> receipt_status \<Rightarrow> pydict option \<Rightarrow> string option \<Rightarrow> pydict option \<Rightarrow>
   string \<Rightarrow> ('h, 'j) runtime \<Rightarrow> ('h, 'j) runtime" where
  "rt_set_result env key scope status inline ref error task_id rt =
     rt\<lparr>rt_store := snd (set_idempotency_result (iso_now env ''set'') (iso_now env ''created'')
          key scope status inline ref error (Some task_id) (rt_store rt))\<rparr>"

section \<open>Starting a job\<close>

definition new_job :: "a2a_env \<Rightarrow> envelope \<Rightarrow> string \<Rightarrow> string \<Rightarrow> job_record" where
  "new_job env e agent scope =
     (let now = iso_now env ''job'' in
      \<lparr>j_task_id = new_uuid env ''task'', j_trace_id = e_trace_id e,
       j_idempotency_key = e_idempotency_key e, j_agent_id = agent, j_method = e_method e,
       j_state = J_PENDING, j_current_step = ''queued'', j_progress = 0, j_result_inline = None,
       j_result_ref = None, j_error = None, j_owner_agent_id = e_from_agent e,
       j_idempotency_scope = scope, j_created_at = now, j_updated_at = now, j_heartbeat_at = now\<rparr>)"

definition start_or_replay_job ::
  "a2a_env \<Rightarrow> envelope \<Rightarrow> ('h, 'j) route \<Rightarrow> string \<Rightarrow> ('h, 'j) runtime \<Rightarrow>
   (a2a_error + string) \<times> ('h, 'j) runtime" where
  "start_or_replay_job env e route scope rt =
     (case rt_reserve (iso_now env ''reserve'') (e_idempotency_key e) scope rt of
        ((False, Some existing), rt) \<Rightarrow>
          (case ir_task_id existing of
             Some (c # t) \<Rightarrow> (Inr (c # t), rt)
           | _ \<Rightarrow>
             (if ir_status existing = R_SUCCESS
              then (Inl (A2AError ''ALREADY_COMPLETED'' ''Job already completed for this idempotency key''
                      [(''idempotency_key'', PStr (e_idempotency_key e))]), rt)
              else (Inl (A2AError ''IN_PROGRESS'' ''Job is already in progress for this idempotency key''
                      [(''idempotency_key'', PStr (e_idempotency_key e))]), rt)))
      | (_, rt) \<Rightarrow>
          let agent = ag_agent_id (ro_descriptor route);
              job = new_job env e agent scope;
              task_id = j_task_id job;
              rt = rt\<lparr>rt_store := create_job job (rt_store rt)\<rparr>;
              rt = rt_set_result env (e_idempotency_key e) scope R_IN_PROGRESS None None None task_id rt;
              rt = append_audit_record env e (Some agent) ''JOB_QUEUED'' (Some task_id) None None rt
          in (Inr task_id,
              rt\<lparr>rt_cancel_events := rt_cancel_events rt @ [task_id],
                 rt_futures := dict_set (rt_futures rt) task_id
                   \<lparr>wk_envelope = e, wk_agent = agent, wk_handler = ro_handler route,
                    wk_job_handler = ro_job_handler route, wk_scope = scope, wk_phase = Queued\<rparr>\<rparr>))"

definition job_start ::
  "a2a_env \<Rightarrow> envelope \<Rightarrow> ('h, 'j) runtime \<Rightarrow> (a2a_error + string) \<times> ('h, 'j) runtime" where
  "job_start env e rt =
     (if e_type e \<noteq> ''job.start''
      then (Inl (A2AError ''INVALID_ARGUMENT''
              (''Envelope type must be '' @ quoted ''job.start'' @ '' for job_start()'') []), rt)
      else case rbind (validate_envelope env e) (\<lambda>_. registry_resolve rt e) of
        Inl err \<Rightarrow> (Inl err, rt)
      | Inr route \<Rightarrow>
        let agent = ag_agent_id (ro_descriptor route) in
        if \<not> is_allowed (rt_policy rt) e agent
        then (Inl (A2AError ''POLICY_DENIED'' ''Policy denied job start''
                [(''agent'', PStr agent), (''method'', PStr (e_method e))]), rt)
        else start_or_replay_job env e route (idempotency_scope e agent) rt)"

section \<open>The worker\<close>

definition live_job :: "string \<Rightarrow> ('h, 'j) runtime \<Rightarrow> bool" where
  "live_job task_id rt =
     (case get_job task_id (rt_store rt) of None \<Rightarrow> False | Some job \<Rightarrow> \<not> is_terminal job)"

definition mark_job_running ::
  "a2a_env \<Rightarrow> envelope \<Rightarrow> string \<Rightarrow> string \<Rightarrow> ('h, 'j) runtime \<Rightarrow> (a2a_exn + bool) \<times> ('h, 'j) runtime" where
  "mark_job_running env e agent task_id rt =
     (if \<not> live_job task_id rt then (Inr False, rt)
      else st_bind
        (rt_update_job task_id
           ((patch_of (iso_now env ''patch'') J_RUNNING ''executing'')\<lparr>jp_progress := Some 1\<rparr>))
        (\<lambda>_ rt. (Inr True, append_runtime_audit env (e_trace_id e) agent (e_method e) ''RUNNING'' task_id
           ''job.status'' (e_to_capability e) None None Data_none rt)) rt)"

text \<open>The text of an exception.\<close>

fun exn_str :: "a2a_exn \<Rightarrow> string" where
  "exn_str (Raise_a2a err) = A2AError_str err"
| "exn_str (Key_error k) = repr_str k"

definition mark_job_success ::
  "a2a_env \<Rightarrow> envelope \<Rightarrow> string \<Rightarrow> string \<Rightarrow> string \<Rightarrow> pydict \<Rightarrow> ('h, 'j) runtime \<Rightarrow>
   (string + bool) \<times> ('h, 'j) runtime" where
  "mark_job_success env e agent task_id scope result rt =
     (if \<not> live_job task_id rt then (Inr False, rt)
      else case store_result_if_needed env result (e_method e) rt of
        Inl msg \<Rightarrow> (Inl msg, rt)
      | Inr (inline, ref) \<Rightarrow>
        (case rt_update_job task_id
                ((patch_of (iso_now env ''patch'') J_SUCCESS ''done'')
                   \<lparr>jp_progress := Some 10, jp_result := Some (inline, ref), jp_error := Some None\<rparr>) rt of
           (Inl x, rt) \<Rightarrow> (Inl (exn_str x), rt)
         | (Inr _, rt) \<Rightarrow>
             (Inr True, append_runtime_audit env (e_trace_id e) agent (e_method e) ''SUCCESS'' task_id
                ''job.status'' (e_to_capability e) None None (Data_result_ref ref)
                (rt_set_result env (e_idempotency_key e) scope R_SUCCESS inline ref None task_id rt))))"

definition mark_job_failed ::
  "a2a_env \<Rightarrow> envelope \<Rightarrow> string \<Rightarrow> string \<Rightarrow> string \<Rightarrow> string \<Rightarrow> ('h, 'j) runtime \<Rightarrow>
   (a2a_exn + unit) \<times> ('h, 'j) runtime" where
  "mark_job_failed env e agent task_id scope msg rt =
     (if \<not> live_job task_id rt then (Inr (), rt)
      else let error = error_dict ''JOB_FAILED'' msg in
        st_bind
          (rt_update_job task_id
             ((patch_of (iso_now env ''patch'') J_FAILED ''failed'')\<lparr>jp_error := Some (Some error)\<rparr>))
          (\<lambda>_ rt. (Inr (), append_runtime_audit env (e_trace_id e) agent (e_method e) ''FAILED'' task_id
             ''job.status'' (e_to_capability e) (Some ''JOB_FAILED'') (Some msg) Data_none
             (rt_set_result env (e_idempotency_key e) scope R_FAILED None None (Some error) task_id rt))) rt)"

definition forget_job :: "string \<Rightarrow> ('h, 'j) runtime \<Rightarrow> ('h, 'j) runtime" where
  "forget_job task_id rt =
     rt\<lparr>rt_futures := dict_pop (rt_futures rt) task_id,
        rt_cancel_events := filter (\<lambda>k. k \<noteq> task_id) (rt_cancel_events rt)\<rparr>"

definition set_phase :: "string \<Rightarrow> job_phase \<Rightarrow> ('h, 'j) runtime \<Rightarrow> ('h, 'j) runtime" where
  "set_phase task_id ph rt =
     rt\<lparr>rt_futures := map (\<lambda>(k, w). (k, if k = task_id then w\<lparr>wk_phase := ph\<rparr> else w)) (rt_futures rt)\<rparr>"

fun outcome_msg :: "handler_outcome \<Rightarrow> string" where
  "outcome_msg (Raised_a2a err) = A2AError_str err"
| "outcome_msg (Raised msg) = msg"
| "outcome_msg (Returned _) = []"

text \<open>One stretch of \<open>_run_job\<close>. The handler's outcome is an argument; it matters in the phase
  \<open>Executing\<close> only. In every phase the worker leaves quietly once its event is set, except
  that a mark it is about to write is decided by the state of the job alone.\<close>

definition worker_step ::
  "a2a_env \<Rightarrow> handler_outcome \<Rightarrow> string \<Rightarrow> ('h, 'j) runtime \<Rightarrow> ('h, 'j) runtime" where
  "worker_step env outcome task_id rt =
     (case dict_get (rt_futures rt) task_id of
        None \<Rightarrow> rt
      | Some w \<Rightarrow>
        let is_set = (task_id \<in> set (rt_events_set rt)) in
        (case wk_phase w of
           Queued \<Rightarrow>
             (case mark_job_running env (wk_envelope w) (wk_agent w) task_id rt of
                (Inr started, rt) \<Rightarrow> set_phase task_id (if started then Marked else Finished) rt
              | (Inl x, rt) \<Rightarrow> set_phase task_id (if is_set then Finished else Completing (Raised (exn_str x))) rt)
         | Marked \<Rightarrow> set_phase task_id (if is_set then Finished else Executing) rt
         | Executing \<Rightarrow> set_phase task_id (if is_set then Finished else Completing outcome) rt
         | Completing (Returned result) \<Rightarrow>
             (case mark_job_success env (wk_envelope w) (wk_agent w) task_id (wk_scope w) result rt of
                (Inr _, rt) \<Rightarrow> set_phase task_id Finished rt
              | (Inl msg, rt) \<Rightarrow> set_phase task_id (if is_set then Finished else Completing (Raised msg)) rt)
         | Completing raised \<Rightarrow>
             set_phase task_id Finished
               (snd (mark_job_failed env (wk_envelope w) (wk_agent w) task_id (wk_scope w) (outcome_msg raised) rt))
         | Finished \<Rightarrow> forget_job task_id rt))"

section \<open>Recovery, status, cancellation\<close>

definition STALE_MESSAGE :: string where
  "STALE_MESSAGE = ''Job marked failed during recovery due to stale heartbeat''"

definition recover_stale_job ::
  "a2a_env \<Rightarrow> job_record \<Rightarrow> ('h, 'j) runtime \<Rightarrow> (a2a_exn + bool) \<times> ('h, 'j) runtime" where
  "recover_stale_job env job rt =
     (if is_terminal job \<or> \<not> is_stale env (j_heartbeat_at job) (rt_stale_sec rt) then (Inr False, rt)
      else let error = error_dict ''STALE_JOB'' STALE_MESSAGE in
        st_bind
          (rt_update_job (j_task_id job)
             ((patch_of (iso_now env (''patch:'' @ j_task_id job)) J_FAILED ''recovery_failed'')
                \<lparr>jp_error := Some (Some error)\<rparr>))
          (\<lambda>_ rt. (Inr True, append_runtime_audit env (j_trace_id job) (j_agent_id job) (j_method job)
             ''RECOVERY_FAILED'' (j_task_id job) ''job.status'' None (Some ''STALE_JOB'') (Some STALE_MESSAGE)
             (Data_task_id (j_task_id job))
             (rt_set_result env (j_idempotency_key job) (job_scope job) R_FAILED None None (Some error)
                (j_task_id job) rt))) rt)"

definition job_status ::
  "a2a_env \<Rightarrow> string \<Rightarrow> ('h, 'j) runtime \<Rightarrow> (a2a_exn + job_record) \<times> ('h, 'j) runtime" where
  "job_status env task_id rt =
     (case get_job task_id (rt_store rt) of
        None \<Rightarrow> (Inl (Raise_a2a (A2AError ''JOB_NOT_FOUND'' (''Job '' @ quoted task_id @ '' was not found'') [])), rt)
      | Some job \<Rightarrow>
        if dict_has (rt_futures rt) task_id then (Inr job, rt)
        else st_bind (recover_stale_job env job)
          (\<lambda>recovered rt.
             (Inr (if recovered
                   then (case get_job task_id (rt_store rt) of Some row \<Rightarrow> row | None \<Rightarrow> job)
                   else job), rt)) rt)"

definition job_cancel ::
  "a2a_env \<Rightarrow> string \<Rightarrow> ('h, 'j) runtime \<Rightarrow> (a2a_exn + job_record) \<times> ('h, 'j) runtime" where
  "job_cancel env task_id =
     st_bind (job_status env task_id) (\<lambda>job rt.
       if is_terminal job then (Inr job, rt)
       else let error = error_dict ''CANCELED'' ''Job canceled'' in
         st_bind
           (rt_update_job task_id
              ((patch_of (iso_now env ''patch'') J_CANCELED ''canceled'')\<lparr>jp_error := Some (Some error)\<rparr>))
           (\<lambda>updated rt.
              let rt = (if task_id \<in> set (rt_cancel_events rt)
                        then rt\<lparr>rt_events_set := task_id # rt_events_set rt\<rparr> else rt);
                  rt = (case dict_get (rt_futures rt) task_id of
                          Some w \<Rightarrow> if wk_phase w = Queued \<and> cancelled env then forget_job task_id rt else rt
                        | None \<Rightarrow> rt);
                  rt = rt_set_result env (j_idempotency_key updated) (job_scope updated) R_CANCELED None None
                         (Some error) task_id rt
              in (Inr updated, append_runtime_audit env (j_trace_id updated) (j_agent_id updated)
                    (j_method updated) ''CANCELED'' task_id ''job.cancel'' None (Some ''CANCELED'')
                    (Some ''Job canceled'') (Data_job updated) rt)) rt)"

fun recover_rows ::
  "a2a_env \<Rightarrow> job_record list \<Rightarrow> ('h, 'j) runtime \<Rightarrow> (a2a_exn + string list) \<times> ('h, 'j) runtime" where
  "recover_rows env [] rt = (Inr [], rt)"
| "recover_rows env (row # rows) rt =
     (if dict_has (rt_futures rt) (j_task_id row) then recover_rows env rows rt
      else st_bind (recover_stale_job env row)
        (\<lambda>recovered rt. st_bind (recover_rows env rows)
           (\<lambda>stale rt. (Inr (if recovered then j_task_id row # stale else stale), rt)) rt) rt)"

definition recover_stale_jobs ::
  "a2a_env \<Rightarrow> ('h, 'j) runtime \<Rightarrow> (a2a_exn + string list) \<times> ('h, 'j) runtime" where
  "recover_stale_jobs env rt =
     recover_rows env
       (store_list_jobs \<lparr>jf_state = None, jf_states = active_states, jf_owner_agent_id = None,
          jf_session_id = None, jf_recent = False, jf_limit = 5000\<rparr> (rt_store rt)) rt"

definition A2ARuntime ::
  "a2a_env \<Rightarrow> policy_engine \<Rightarrow> int \<Rightarrow> int \<Rightarrow> state_store \<Rightarrow> audit_record list \<Rightarrow>
   (a2a_exn + string list) \<times> ('h, 'j) runtime" where
  "A2ARuntime env policy max_inline_bytes stale_sec store audit =
     recover_stale_jobs env
       \<lparr>rt_policy = policy, rt_max_inline_bytes = max_inline_bytes, rt_stale_sec = stale_sec,
        rt_handlers = [], rt_job_handlers = [], rt_store = store, rt_futures = [],
        rt_cancel_events = [], rt_events_set = [], rt_audit = audit\<rparr>"

end
