(* ===== verification/A2A_Jobs_Inv.thy ===== *)
theory A2A_Jobs_Inv
  imports A2A_Jobs
begin

text \<open>
  What the jobs and receipts of a state store keep true: \<open>jobs_ok\<close> says that every job has its
  receipt, which names the job and agrees with its state and its result. \<open>advances\<close> is what a
  write to a job does: it keeps that agreement, the jobs with their slots, the slots in use,
  and every finished job. The locale \<open>job_writer\<close> is the contract of such an operation.
\<close>

section \<open>Agreement of jobs and receipts\<close>

fun receipt_of :: "job_state \<Rightarrow> receipt_status" where
  "receipt_of J_PENDING = R_IN_PROGRESS"
| "receipt_of J_RUNNING = R_IN_PROGRESS"
| "receipt_of J_SUCCESS = R_SUCCESS"
| "receipt_of J_FAILED = R_FAILED"
| "receipt_of J_CANCELED = R_CANCELED"

definition job_slot :: "job_record \<Rightarrow> slot" where
  "job_slot j = (j_idempotency_scope j, j_idempotency_key j)"

definition receipt_agrees :: "job_record \<Rightarrow> idempotency_record \<Rightarrow> bool" where
  "receipt_agrees j r =
     (ir_task_id r = Some (j_task_id j) \<and> ir_status r = receipt_of (j_state j) \<and>
      ir_result_inline r = j_result_inline j \<and> ir_result_ref r = j_result_ref j \<and> ir_error r = j_error j)"

text \<open>A job that is not finished has no result yet, so a failure leaves none in its receipt.\<close>

definition unfinished_blank :: "job_record \<Rightarrow> bool" where
  "unfinished_blank j = (\<not> is_terminal j \<longrightarrow> j_result_inline j = None \<and> j_result_ref j = None)"

definition job_ok :: "receipts \<Rightarrow> string \<times> job_record \<Rightarrow> bool" where
  "job_ok m = (\<lambda>(k, j). j_task_id j = k \<and> k \<noteq> [] \<and> j_idempotency_scope j \<noteq> [] \<and>
     unfinished_blank j \<and> (case m (job_slot j) of None \<Rightarrow> False | Some r \<Rightarrow> receipt_agrees j r))"

definition jobs_ok :: "state_store \<Rightarrow> bool" where
  "jobs_ok s = (stamped_receipts (ss_idempotency s) \<and> distinct (map fst (ss_jobs s)) \<and>
     (\<forall>kj\<in>set (ss_jobs s). job_ok (ss_idempotency s) kj))"

definition job_view :: "state_store \<Rightarrow> (string \<times> slot) list" where
  "job_view s = map (\<lambda>(k, j). (k, job_slot j)) (ss_jobs s)"

definition keeps_final :: "state_store \<Rightarrow> state_store \<Rightarrow> bool" where
  "keeps_final s t = (\<forall>k j. get_job k s = Some j \<and> is_terminal j \<longrightarrow> get_job k t = Some j)"

definition advances :: "state_store \<Rightarrow> state_store \<Rightarrow> bool" where
  "advances s t = (jobs_ok t \<and> job_view t = job_view s \<and>
     dom (ss_idempotency t) = dom (ss_idempotency s) \<and> keeps_final s t)"

lemma keeps_final_refl [simp]: "keeps_final s s"
  by (simp add: keeps_final_def)

lemma keeps_final_trans: "keeps_final s t \<Longrightarrow> keeps_final t u \<Longrightarrow> keeps_final s u"
  by (simp add: keeps_final_def)

lemma advances_refl: "jobs_ok s \<Longrightarrow> advances s s"
  by (simp add: advances_def)

lemma advances_trans: "advances s t \<Longrightarrow> advances t u \<Longrightarrow> advances s u"
  by (auto simp: advances_def intro: keeps_final_trans)

section \<open>Looking up jobs\<close>

lemma get_job_in: "jobs_ok s \<Longrightarrow> get_job k s = Some j \<longleftrightarrow> (k, j) \<in> set (ss_jobs s)"
  by (simp add: get_job_def dict_get_def jobs_ok_def)

lemma get_job_ok:
  assumes "jobs_ok s" and "get_job k s = Some j"
  obtains r where "j_task_id j = k" "k \<noteq> []" "j_idempotency_scope j \<noteq> []"
    "ss_idempotency s (job_slot j) = Some r" "receipt_agrees j r" "unfinished_blank j"
proof -
  from assms have "(k, j) \<in> set (ss_jobs s)" by (simp add: get_job_in)
  with assms have "job_ok (ss_idempotency s) (k, j)" unfolding jobs_ok_def by blast
  then show thesis by (auto simp: job_ok_def intro: that split: option.splits)
qed

lemma job_scope_eq: "j_idempotency_scope j \<noteq> [] \<Longrightarrow> job_scope j = j_idempotency_scope j"
  by (simp add: job_scope_def)

text \<open>One job per slot: the receipt names it.\<close>

lemma slot_determines_job:
  assumes "jobs_ok s" and "get_job k s = Some j" and "get_job l s = Some i" and "job_slot j = job_slot i"
  shows "k = l"
  using get_job_ok [OF assms(1,2)] get_job_ok [OF assms(1,3)] assms(4)
  by (metis option.inject receipt_agrees_def)

section \<open>Writing a job with its receipt\<close>

lemma apply_patch_ident [simp]:
  "j_task_id (apply_patch p j) = j_task_id j"
  "j_idempotency_scope (apply_patch p j) = j_idempotency_scope j"
  "j_idempotency_key (apply_patch p j) = j_idempotency_key j"
  "job_slot (apply_patch p j) = job_slot j"
  "job_scope (apply_patch p j) = job_scope j"
  "j_state (apply_patch p j) = jp_state p"
  by (auto simp: apply_patch_def job_slot_def job_scope_def Let_def split: option.split)

definition put_job :: "job_record \<Rightarrow> receipts \<Rightarrow> state_store \<Rightarrow> state_store" where
  "put_job j m s = s\<lparr>ss_jobs := dict_set (ss_jobs s) (j_task_id j) j, ss_idempotency := m\<rparr>"

lemma put_job_advances:
  assumes ok: "jobs_ok s" and j: "get_job k s = Some j" "\<not> is_terminal j"
    and j': "j_task_id j' = k" "job_slot j' = job_slot j" "unfinished_blank j'"
    and m: "stamped_receipts m" "m (job_slot j) = Some r" "receipt_agrees j' r"
      "\<And>x. x \<noteq> job_slot j \<Longrightarrow> m x = ss_idempotency s x"
  shows "advances s (put_job j' m s)"
proof -
  obtain q where q: "ss_idempotency s (job_slot j) = Some q" and k: "k \<noteq> []"
    using get_job_ok [OF ok j(1)] by metis
  have d: "distinct (map fst (ss_jobs s))" using ok by (simp add: jobs_ok_def)
  have mk: "map_of (ss_jobs s) k = Some j" using j(1) by (simp add: get_job_def dict_get_def)
  have dom: "dom m = dom (ss_idempotency s)"
  proof (rule set_eqI)
    fix x show "x \<in> dom m \<longleftrightarrow> x \<in> dom (ss_idempotency s)"
      using m(2) m(4) [of x] q by (cases "x = job_slot j") (auto simp: domIff)
  qed
  have other: "job_ok m (l, i)" if "(l, i) \<in> set (ss_jobs s)" "l \<noteq> k" for l i
  proof -
    have "get_job l s = Some i" using that ok by (simp add: get_job_in)
    with slot_determines_job [OF ok this j(1)] that have "job_slot i \<noteq> job_slot j" by auto
    then show ?thesis using that(1) ok m(4) by (auto simp: jobs_ok_def job_ok_def)
  qed
  have this_job: "job_ok m (k, j')"
    using j' k m(2,3) get_job_ok [OF ok j(1)] by (auto simp: job_ok_def job_slot_def)
  have "jobs_ok (put_job j' m s)"
    using d m(1) j'(1) this_job other mk
    by (auto simp: jobs_ok_def put_job_def dict_set_in dict_set_keys split: if_splits)
  moreover have "job_view (put_job j' m s) = job_view s"
    using dict_set_view [OF mk, of job_slot j'] j' by (simp add: job_view_def put_job_def)
  moreover have "keeps_final s (put_job j' m s)"
    using j j'(1) by (auto simp: keeps_final_def put_job_def get_job_def dict_get_def)
  ultimately show ?thesis using dom by (simp add: advances_def put_job_def)
qed

section \<open>The operations of the runtime that write jobs\<close>

lemma append_audit_frame [simp]:
  "rt_store (append_audit env r rt) = rt_store rt"
  "rt_futures (append_audit env r rt) = rt_futures rt"
  "rt_events_set (append_audit env r rt) = rt_events_set rt"
  "rt_stale_sec (append_audit env r rt) = rt_stale_sec rt"
  by (simp_all add: append_audit_def)

lemma audit_frames [simp]:
  "rt_store (append_runtime_audit env a b c d e f g h i x rt) = rt_store rt"
  "rt_futures (append_runtime_audit env a b c d e f g h i x rt) = rt_futures rt"
  "rt_events_set (append_runtime_audit env a b c d e f g h i x rt) = rt_events_set rt"
  "rt_stale_sec (append_runtime_audit env a b c d e f g h i x rt) = rt_stale_sec rt"
  "rt_store (append_audit_record env q u v w y z rt) = rt_store rt"
  "rt_futures (append_audit_record env q u v w y z rt) = rt_futures rt"
  by (simp_all add: append_runtime_audit_def append_audit_record_def)

lemma set_result_frame [simp]:
  "rt_futures (rt_set_result env key scope st inline ref error k rt) = rt_futures rt"
  "rt_events_set (rt_set_result env key scope st inline ref error k rt) = rt_events_set rt"
  "rt_stale_sec (rt_set_result env key scope st inline ref error k rt) = rt_stale_sec rt"
  by (simp_all add: rt_set_result_def)

lemma update_known_job:
  assumes "get_job k (rt_store rt) = Some j"
  shows "rt_update_job k p rt = (Inr (apply_patch p j), rt\<lparr>rt_store := (rt_store rt)
    \<lparr>ss_jobs := dict_set (ss_jobs (rt_store rt)) k (apply_patch p j)\<rparr>\<rparr>)"
  using assms by (simp add: rt_update_job_def update_job_def get_job_def Let_def)

text \<open>A patch and the receipt written after it.\<close>

definition patch_agrees ::
  "job_patch \<Rightarrow> job_record \<Rightarrow> receipt_status \<Rightarrow> pydict option \<Rightarrow> string option \<Rightarrow> pydict option \<Rightarrow> bool" where
  "patch_agrees p j st inline ref error =
     (receipt_of (jp_state p) = st \<and> j_result_inline (apply_patch p j) = inline \<and>
      j_result_ref (apply_patch p j) = ref \<and> j_error (apply_patch p j) = error)"

lemma write_job_with_receipt:
  assumes ok: "jobs_ok (rt_store rt)" and j: "get_job k (rt_store rt) = Some j" "\<not> is_terminal j"
    and p: "jp_state p \<in> set terminal_states" "patch_agrees p j st inline ref error" and slot: "(scope, key) = job_slot j"
  shows "advances (rt_store rt)
    (rt_store (rt_set_result env key scope st inline ref error k (snd (rt_update_job k p rt))))"
proof -
  let ?s = "rt_store rt" and ?j = "apply_patch p j"
  obtain r where r: "j_task_id j = k" "ss_idempotency ?s (job_slot j) = Some r" "receipt_agrees j r"
    using get_job_ok [OF ok j(1)] by metis
  have st: "stamped_receipts (ss_idempotency ?s)" using ok by (simp add: jobs_ok_def)
  let ?r = "receipt_with_task (iso_now env ''set'') st inline ref error (Some k) r"
  let ?m = "(ss_idempotency ?s)(job_slot j \<mapsto> ?r)"
  have rs: "receipt_slot r = job_slot j" "ir_created_at r \<noteq> []"
    using stamped_receiptsD [OF st r(2)] by auto
  have "rt_store (rt_set_result env key scope st inline ref error k (snd (rt_update_job k p rt))) =
      put_job ?j ?m ?s"
    using r slot rs
    by (simp add: update_known_job [OF j(1)] rt_set_result_def set_idempotency_result_def put_job_def Let_def)
  moreover have "advances ?s (put_job ?j ?m ?s)"
  proof (rule put_job_advances [OF ok j])
    show "stamped_receipts ?m" using rs by (intro stamped_receipts_upd [OF st]) simp_all
    show "receipt_agrees ?j ?r"
      using p(2) r(1) by (simp add: receipt_agrees_def patch_agrees_def receipt_with_task_def receipt_result_def)
    show "unfinished_blank ?j" using p(1) by (simp add: unfinished_blank_def is_terminal_def)
  qed (use r in auto)
  ultimately show ?thesis by simp
qed

lemma patch_job_running:
  assumes ok: "jobs_ok (rt_store rt)" and j: "get_job k (rt_store rt) = Some j" "\<not> is_terminal j"
    and p: "patch_agrees p j R_IN_PROGRESS (j_result_inline j) (j_result_ref j) (j_error j)"
  shows "advances (rt_store rt) (rt_store (snd (rt_update_job k p rt)))"
proof -
  let ?s = "rt_store rt" and ?j = "apply_patch p j"
  obtain r where r: "j_task_id j = k" "ss_idempotency ?s (job_slot j) = Some r" "receipt_agrees j r"
      "unfinished_blank j"
    using get_job_ok [OF ok j(1)] by metis
  have blank: "unfinished_blank ?j" using r(4) j(2) p by (simp add: unfinished_blank_def patch_agrees_def)
  have "receipt_of (j_state j) = R_IN_PROGRESS"
    using j(2) by (cases "j_state j") (auto simp: is_terminal_def terminal_states_def)
  then have "receipt_agrees ?j r"
    using p r by (simp add: receipt_agrees_def patch_agrees_def)
  then have "advances ?s (put_job ?j (ss_idempotency ?s) ?s)"
    using ok r blank by (intro put_job_advances [OF ok j]) (auto simp: jobs_ok_def)
  then show ?thesis using r(1) by (simp add: update_known_job [OF j(1)] put_job_def)
qed

lemma patch_of_agrees [simp]:
  "patch_agrees ((patch_of t J_RUNNING step)\<lparr>jp_progress := n\<rparr>) j R_IN_PROGRESS
     (j_result_inline j) (j_result_ref j) (j_error j)"
  "patch_agrees ((patch_of t J_SUCCESS step)\<lparr>jp_progress := n, jp_result := Some (inline, ref), jp_error := Some None\<rparr>)
     j R_SUCCESS inline ref None"
  "unfinished_blank j \<Longrightarrow> \<not> is_terminal j \<Longrightarrow> receipt_of st = rs \<Longrightarrow>
     patch_agrees ((patch_of t st step)\<lparr>jp_error := Some (Some e)\<rparr>) j rs None None (Some e)"
  by (auto simp: patch_agrees_def patch_of_def apply_patch_def unfinished_blank_def Let_def split: option.split)

end
