(* ===== verification/A2A_Writers.thy ===== *)
theory A2A_Writers
  imports A2A_Jobs_Inv
begin

text \<open>
  Every operation of the runtime that writes a job keeps the agreement of jobs and receipts
  and leaves finished jobs alone. The locale \<open>job_writer\<close> is the contract; the public
  operations \<open>job_status\<close>, \<open>job_cancel\<close> and \<open>recover_stale_jobs\<close> are interpretations of it.
\<close>

section \<open>The marks of the worker\<close>

lemma patch_of_state [simp]: "jp_state (patch_of t st step) = st"
  by (simp add: patch_of_def)

lemma terminal_states_in [simp]:
  "J_SUCCESS \<in> set terminal_states" "J_FAILED \<in> set terminal_states" "J_CANCELED \<in> set terminal_states"
  by (simp_all add: terminal_states_def)

lemma live_job_get:
  assumes "live_job k rt"
  obtains j where "get_job k (rt_store rt) = Some j" "\<not> is_terminal j"
  using assms by (auto simp: live_job_def split: option.splits)

lemma update_frame [simp]:
  "rt_futures (snd (rt_update_job k p rt)) = rt_futures rt"
  "rt_events_set (snd (rt_update_job k p rt)) = rt_events_set rt"
  "rt_stale_sec (snd (rt_update_job k p rt)) = rt_stale_sec rt"
  by (simp_all add: rt_update_job_def split: prod.split sum.split)

lemma mark_running_writes:
  assumes "jobs_ok (rt_store rt)" and "mark_job_running env e agent k rt = (r, rt')"
  shows "advances (rt_store rt) (rt_store rt') \<and> rt_futures rt' = rt_futures rt \<and> r = Inr (live_job k rt)"
proof (cases "live_job k rt")
  case True
  then obtain j where j: "get_job k (rt_store rt) = Some j" "\<not> is_terminal j" by (rule live_job_get)
  from patch_job_running [OF assms(1) j patch_of_agrees(1)] assms(2) True show ?thesis
    by (auto simp: mark_job_running_def st_bind_def update_known_job [OF j(1)])
qed (use assms in \<open>auto simp: mark_job_running_def advances_refl\<close>)

lemma mark_success_writes:
  assumes ok: "jobs_ok (rt_store rt)" and run: "mark_job_success env e agent k scope res rt = (r, rt')"
    and slot: "(k, scope, e_idempotency_key e) \<in> set (job_view (rt_store rt))"
  shows "advances (rt_store rt) (rt_store rt') \<and> rt_futures rt' = rt_futures rt"
proof (cases "live_job k rt")
  case True
  then obtain j where j: "get_job k (rt_store rt) = Some j" "\<not> is_terminal j" by (rule live_job_get)
  have "job_slot j = (scope, e_idempotency_key e)"
    using slot j(1) ok by (auto simp: job_view_def get_job_in jobs_ok_def dest: eq_key_imp_eq_value)
  then have s: "(scope, e_idempotency_key e) = job_slot j" by simp
  have w: "advances (rt_store rt)
     (rt_store (rt_set_result env (e_idempotency_key e) scope R_SUCCESS inline ref None k
        (snd (rt_update_job k ((patch_of t J_SUCCESS step)
           \<lparr>jp_progress := n, jp_result := Some (inline, ref), jp_error := Some None\<rparr>) rt))))"
    for t n step inline ref
    by (rule write_job_with_receipt [OF ok j _ patch_of_agrees(2) s]) simp
  show ?thesis
    using run True ok w [where t = "iso_now env ''patch''" and step = "''done''"]
    by (auto simp: mark_job_success_def update_known_job [OF j(1)] advances_refl split: sum.splits)
qed (use ok run in \<open>auto simp: mark_job_success_def advances_refl\<close>)

lemma fail_job_writes:
  assumes ok: "jobs_ok (rt_store rt)" and j: "get_job k (rt_store rt) = Some j" "\<not> is_terminal j"
    and st: "st \<in> set terminal_states" "receipt_of st = rs"
    and slot: "(scope, key) = job_slot j"
  shows "advances (rt_store rt)
     (rt_store (rt_set_result env key scope rs None None (Some err) k
        (snd (rt_update_job k ((patch_of t st step)\<lparr>jp_error := Some (Some err)\<rparr>) rt))))"
proof (rule write_job_with_receipt [OF ok j])
  have "unfinished_blank j" using get_job_ok [OF ok j(1)] by metis
  then show "patch_agrees ((patch_of t st step)\<lparr>jp_error := Some (Some err)\<rparr>) j rs None None (Some err)"
    using j(2) st(2) by simp
qed (use st slot in simp_all)

lemma mark_failed_writes:
  assumes ok: "jobs_ok (rt_store rt)" and run: "mark_job_failed env e agent k scope msg rt = (r, rt')"
    and slot: "(k, scope, e_idempotency_key e) \<in> set (job_view (rt_store rt))"
  shows "advances (rt_store rt) (rt_store rt') \<and> rt_futures rt' = rt_futures rt"
proof (cases "live_job k rt")
  case True
  then obtain j where j: "get_job k (rt_store rt) = Some j" "\<not> is_terminal j" by (rule live_job_get)
  have "(scope, e_idempotency_key e) = job_slot j"
    using slot j(1) ok by (auto simp: job_view_def get_job_in jobs_ok_def dest: eq_key_imp_eq_value)
  note w = fail_job_writes [OF ok j _ _ this, of J_FAILED R_FAILED]
  show ?thesis
    using run True w [of env "error_dict ''JOB_FAILED'' msg" "iso_now env ''patch''" "''failed''"]
    by (auto simp: mark_job_failed_def st_bind_def update_known_job [OF j(1)] Let_def)
qed (use ok run in \<open>auto simp: mark_job_failed_def advances_refl\<close>)

section \<open>Recovery, status and cancellation\<close>

definition recovered_job :: "a2a_env \<Rightarrow> job_record \<Rightarrow> job_record" where
  "recovered_job env j =
     apply_patch ((patch_of (iso_now env (''patch:'' @ j_task_id j)) J_FAILED ''recovery_failed'')
       \<lparr>jp_error := Some (Some (error_dict ''STALE_JOB'' STALE_MESSAGE))\<rparr>) j"

lemma set_result_jobs [simp]:
  "ss_jobs (rt_store (rt_set_result env key scope st inline ref error k rt)) = ss_jobs (rt_store rt)"
  by (simp add: rt_set_result_def set_idempotency_result_def Let_def)

lemma recover_job_writes:
  assumes ok: "jobs_ok (rt_store rt)" and j: "get_job k (rt_store rt) = Some j"
    and run: "recover_stale_job env j rt = (r, rt')"
  shows "advances (rt_store rt) (rt_store rt') \<and> rt_futures rt' = rt_futures rt \<and>
    rt_stale_sec rt' = rt_stale_sec rt \<and>
    r = Inr (\<not> is_terminal j \<and> is_stale env (j_heartbeat_at j) (rt_stale_sec rt)) \<and>
    (\<forall>l. get_job l (rt_store rt') = (if l = k \<and> r = Inr True then Some (recovered_job env j)
       else get_job l (rt_store rt)))"
proof (cases "\<not> is_terminal j \<and> is_stale env (j_heartbeat_at j) (rt_stale_sec rt)")
  case True
  have k: "j_task_id j = k" and "j_idempotency_scope j \<noteq> []"
    using get_job_ok [OF ok j] by metis+
  then have "(job_scope j, j_idempotency_key j) = job_slot j" by (simp add: job_scope_eq job_slot_def)
  then have "advances (rt_store rt)
     (rt_store (rt_set_result env (j_idempotency_key j) (job_scope j) R_FAILED None None (Some err) k
        (snd (rt_update_job k ((patch_of t J_FAILED step)\<lparr>jp_error := Some (Some err)\<rparr>) rt))))" for err t step
    using True by (intro fail_job_writes [OF ok j]) simp_all
  with True run k show ?thesis
    by (auto simp: recover_stale_job_def st_bind_def update_known_job [OF j] get_job_def dict_get_def
        recovered_job_def Let_def)
qed (use ok run in \<open>auto simp: recover_stale_job_def advances_refl\<close>)

locale job_writer =
  fixes f :: "('h, 'j) runtime \<Rightarrow> 'r \<times> ('h, 'j) runtime"
  assumes writes: "jobs_ok (rt_store rt) \<Longrightarrow> f rt = (r, rt') \<Longrightarrow> advances (rt_store rt) (rt_store rt')"
    and futures: "jobs_ok (rt_store rt) \<Longrightarrow> f rt = (r, rt') \<Longrightarrow> \<exists>P. rt_futures rt' = filter P (rt_futures rt)"
begin

lemma writer_ok: "jobs_ok (rt_store rt) \<Longrightarrow> f rt = (r, rt') \<Longrightarrow> jobs_ok (rt_store rt')"
  using writes by (simp add: advances_def)

end

lemma filter_same: "xs = ys \<Longrightarrow> \<exists>P. xs = filter P ys"
  by (rule exI [of _ "\<lambda>_. True"]) simp

lemma job_status_writes:
  assumes ok: "jobs_ok (rt_store rt)" and run: "job_status env k rt = (r, rt')"
  shows "advances (rt_store rt) (rt_store rt') \<and> rt_futures rt' = rt_futures rt \<and>
    (\<forall>j. r = Inr j \<longrightarrow> get_job k (rt_store rt') = Some j)"
proof (cases "get_job k (rt_store rt)")
  case (Some j)
  show ?thesis
  proof (cases "dict_has (rt_futures rt) k")
    case False
    obtain q u where u: "recover_stale_job env j rt = (q, u)" by force
    note w = recover_job_writes [OF ok Some u]
    have "\<exists>i. get_job k (rt_store u) = Some i"
      using w Some by (cases "q = Inr True") auto
    moreover have "u = rt" if "\<not> (\<not> is_terminal j \<and> is_stale env (j_heartbeat_at j) (rt_stale_sec rt))"
      using u that by (auto simp: recover_stale_job_def)
    ultimately show ?thesis
      using run Some False w u by (auto simp: job_status_def st_bind_def split: if_splits)
  qed (use run Some ok in \<open>auto simp: job_status_def advances_refl\<close>)
qed (use run ok in \<open>auto simp: job_status_def advances_refl\<close>)

interpretation status_writer: job_writer "job_status env k"
proof
  fix rt r rt'
  assume a: "jobs_ok (rt_store rt)" "job_status env k rt = (r, rt')"
  from job_status_writes [OF a] show "advances (rt_store rt) (rt_store rt')" by simp
  from job_status_writes [OF a] show "\<exists>P. rt_futures rt' = filter P (rt_futures rt)"
    by (intro filter_same) simp
qed

lemma forget_filter: "\<exists>P. rt_futures (forget_job k rt) = filter P (rt_futures rt)"
  by (auto simp: forget_job_def dict_pop_def)

lemma forget_frame [simp]: "rt_store (forget_job k rt) = rt_store rt"
  by (simp add: forget_job_def)

lemma set_result_store_cong:
  "rt_store rt = rt_store rt' \<Longrightarrow>
     rt_store (rt_set_result env key scope st inline ref error k rt) =
     rt_store (rt_set_result env key scope st inline ref error k rt')"
  by (simp add: rt_set_result_def)

text \<open>The signals that a cancellation sends: the event of the task and \<open>Future.cancel\<close>.\<close>

definition signal_cancel :: "a2a_env \<Rightarrow> string \<Rightarrow> ('h, 'j) runtime \<Rightarrow> ('h, 'j) runtime" where
  "signal_cancel env k rt =
     (let rt = (if k \<in> set (rt_cancel_events rt) then rt\<lparr>rt_events_set := k # rt_events_set rt\<rparr> else rt)
      in case dict_get (rt_futures rt) k of
           Some w \<Rightarrow> if wk_phase w = Queued \<and> cancelled env then forget_job k rt else rt
         | None \<Rightarrow> rt)"

lemma signal_cancel_frame:
  "rt_store (signal_cancel env k rt) = rt_store rt \<and>
   (\<exists>P. rt_futures (signal_cancel env k rt) = filter P (rt_futures rt))"
  by (auto simp: signal_cancel_def Let_def forget_job_def dict_pop_def
      intro: filter_same split: option.split)

lemma job_cancel_live:
  assumes "job_status env k rt = (Inr j, u)" and "\<not> is_terminal j" and "get_job k (rt_store u) = Some j"
  shows "\<exists>p rt'. job_cancel env k rt = (Inr (apply_patch p j), rt') \<and>
    p = (patch_of (iso_now env ''patch'') J_CANCELED ''canceled'')
      \<lparr>jp_error := Some (Some (error_dict ''CANCELED'' ''Job canceled''))\<rparr> \<and>
    rt_futures rt' = rt_futures (signal_cancel env k u) \<and>
    rt_store rt' = rt_store (rt_set_result env (j_idempotency_key j) (job_scope j) R_CANCELED None None
      (Some (error_dict ''CANCELED'' ''Job canceled'')) k (snd (rt_update_job k p u)))"
proof -
  let ?p = "(patch_of (iso_now env ''patch'') J_CANCELED ''canceled'')
      \<lparr>jp_error := Some (Some (error_dict ''CANCELED'' ''Job canceled''))\<rparr>"
  let ?v = "signal_cancel env k (snd (rt_update_job k ?p u))"
  have "rt_futures ?v = rt_futures (signal_cancel env k u)"
    by (simp add: update_known_job [OF assms(3)] signal_cancel_def forget_job_def Let_def
        split: option.split)
  moreover have "job_cancel env k rt = (Inr (apply_patch ?p j),
      append_runtime_audit env (j_trace_id (apply_patch ?p j)) (j_agent_id (apply_patch ?p j))
        (j_method (apply_patch ?p j)) ''CANCELED'' k ''job.cancel'' None (Some ''CANCELED'')
        (Some ''Job canceled'') (Data_job (apply_patch ?p j))
        (rt_set_result env (j_idempotency_key j) (job_scope j) R_CANCELED None None
           (Some (error_dict ''CANCELED'' ''Job canceled'')) k ?v))"
    using assms by (simp add: job_cancel_def st_bind_def update_known_job signal_cancel_def Let_def)
  ultimately show ?thesis
    using signal_cancel_frame [of env k "snd (rt_update_job k ?p u)"]
    by (auto intro: set_result_store_cong)
qed

lemma job_cancel_writes:
  assumes ok: "jobs_ok (rt_store rt)" and run: "job_cancel env k rt = (r, rt')"
  shows "advances (rt_store rt) (rt_store rt') \<and> (\<exists>P. rt_futures rt' = filter P (rt_futures rt))"
proof -
  obtain q u where u: "job_status env k rt = (q, u)" by force
  note w = job_status_writes [OF ok u]
  then have ok': "jobs_ok (rt_store u)" by (simp add: advances_def)
  show ?thesis
  proof (cases "\<exists>j. q = Inr j \<and> \<not> is_terminal j")
    case True
    then obtain j where j: "q = Inr j" "\<not> is_terminal j" by blast
    with w have g: "get_job k (rt_store u) = Some j" by simp
    have "j_idempotency_scope j \<noteq> []" using get_job_ok [OF ok' g] by metis
    then have slot: "(job_scope j, j_idempotency_key j) = job_slot j" by (simp add: job_scope_eq job_slot_def)
    note c = job_cancel_live [OF u [unfolded j(1)] j(2) g]
    have "advances (rt_store u) (rt_store rt')"
      using c run fail_job_writes [OF ok' g j(2) _ _ slot, of J_CANCELED R_CANCELED] by auto
    moreover have "\<exists>P. rt_futures rt' = filter P (rt_futures rt)"
      using c run signal_cancel_frame [of env k u] w by auto
    ultimately show ?thesis using w advances_trans by blast
  next
    case False
    then have "rt' = u" using run u by (auto simp: job_cancel_def st_bind_def split: sum.splits)
    then show ?thesis using w by (auto intro: filter_same)
  qed
qed

interpretation cancel_writer: job_writer "job_cancel env k"
  by unfold_locales (use job_cancel_writes in blast)+

definition recoverable :: "a2a_env \<Rightarrow> ('h, 'j) runtime \<Rightarrow> job_record \<Rightarrow> bool" where
  "recoverable env rt j =
     (\<not> dict_has (rt_futures rt) (j_task_id j) \<and> \<not> is_terminal j \<and>
      is_stale env (j_heartbeat_at j) (rt_stale_sec rt))"

lemma recover_rows_writes:
  assumes "jobs_ok (rt_store rt)" and "recover_rows env rows rt = (r, rt')"
    and "distinct (map j_task_id rows)" and "\<forall>row\<in>set rows. get_job (j_task_id row) (rt_store rt) = Some row"
  shows "advances (rt_store rt) (rt_store rt') \<and> rt_futures rt' = rt_futures rt \<and>
    r = Inr (map j_task_id (filter (recoverable env rt) rows)) \<and>
    (\<forall>l. get_job l (rt_store rt') =
       (if l \<in> j_task_id ` set (filter (recoverable env rt) rows)
        then map_option (recovered_job env) (get_job l (rt_store rt)) else get_job l (rt_store rt)))"
  using assms
proof (induction rows arbitrary: rt r rt')
  case Nil
  then show ?case by (auto simp: advances_refl)
next
  case (Cons row rows)
  show ?case
  proof (cases "dict_has (rt_futures rt) (j_task_id row)")
    case True
    with Cons.IH [of rt r rt'] Cons.prems show ?thesis by (simp add: recoverable_def)
  next
    case False
    obtain q u where u: "recover_stale_job env row rt = (q, u)" by force
    obtain q' v where v: "recover_rows env rows u = (q', v)" by force
    have row: "get_job (j_task_id row) (rt_store rt) = Some row" using Cons.prems(4) by simp
    note w = recover_job_writes [OF Cons.prems(1) row u]
    have q: "q = Inr (recoverable env rt row)" using w False by (simp add: recoverable_def)
    have same: "recoverable env u = recoverable env rt" using w by (simp add: recoverable_def fun_eq_iff)
    have "\<forall>x\<in>set rows. get_job (j_task_id x) (rt_store u) = Some x"
    proof
      fix x assume "x \<in> set rows"
      then have "j_task_id x \<noteq> j_task_id row" using Cons.prems(3) by (auto simp: image_iff)
      then show "get_job (j_task_id x) (rt_store u) = Some x" using w Cons.prems(4) \<open>x \<in> set rows\<close> by auto
    qed
    then have ih: "advances (rt_store u) (rt_store v) \<and> rt_futures v = rt_futures u \<and>
        q' = Inr (map j_task_id (filter (recoverable env rt) rows)) \<and>
        (\<forall>l. get_job l (rt_store v) =
           (if l \<in> j_task_id ` set (filter (recoverable env rt) rows)
            then map_option (recovered_job env) (get_job l (rt_store u)) else get_job l (rt_store u)))"
      using Cons.IH [OF _ v] w Cons.prems(3) same by (simp add: advances_def)
    have out: "r = Inr (map j_task_id (filter (recoverable env rt) (row # rows)))" "rt' = v"
      using Cons.prems(2) False u v q ih by (auto simp: st_bind_def)
    have "get_job l (rt_store rt') =
        (if l \<in> j_task_id ` set (filter (recoverable env rt) (row # rows))
         then map_option (recovered_job env) (get_job l (rt_store rt)) else get_job l (rt_store rt))" for l
      using ih w q out(2) row Cons.prems(3) by (cases "l = j_task_id row") auto
    with out ih w show ?thesis using advances_trans by auto
  qed
qed

definition active_filter :: job_filter where
  "active_filter = \<lparr>jf_state = None, jf_states = active_states, jf_owner_agent_id = None,
     jf_session_id = None, jf_recent = False, jf_limit = 5000\<rparr>"

lemma active_rows:
  "store_list_jobs active_filter s = take 5000 (filter (\<lambda>j. \<not> is_terminal j) (map snd (ss_jobs s)))"
proof -
  have "job_matches active_filter j \<longleftrightarrow> \<not> is_terminal j" for j
    by (cases "j_state j")
      (auto simp: job_matches_def active_filter_def active_states_def is_terminal_def terminal_states_def)
  then have "job_matches active_filter = (\<lambda>j. \<not> is_terminal j)" by (simp add: fun_eq_iff)
  then show ?thesis by (simp add: store_list_jobs_def active_filter_def)
qed

lemma active_rows_known:
  assumes "jobs_ok s"
  shows "distinct (map j_task_id (store_list_jobs active_filter s)) \<and>
    (\<forall>row\<in>set (store_list_jobs active_filter s). get_job (j_task_id row) s = Some row)"
proof -
  have key: "j_task_id j = k" if "(k, j) \<in> set (ss_jobs s)" for k j
    using assms that by (auto simp: jobs_ok_def job_ok_def)
  then have "map j_task_id (map snd (ss_jobs s)) = map fst (ss_jobs s)" by auto
  then have "distinct (map j_task_id (map snd (ss_jobs s)))"
    using assms unfolding jobs_ok_def by (simp only:)
  then have "distinct (map j_task_id (store_list_jobs active_filter s))"
    unfolding active_rows take_map [symmetric] by (intro distinct_take distinct_map_filter)
  moreover have "get_job (j_task_id row) s = Some row" if "row \<in> set (map snd (ss_jobs s))" for row
    using that key assms by (auto simp: get_job_in)
  ultimately show ?thesis by (auto simp: active_rows dest: in_set_takeD)
qed

lemma recover_stale_jobs_writes:
  assumes "jobs_ok (rt_store rt)" and "recover_stale_jobs env rt = (r, rt')"
  shows "advances (rt_store rt) (rt_store rt') \<and> rt_futures rt' = rt_futures rt \<and>
    r = Inr (map j_task_id (filter (recoverable env rt) (store_list_jobs active_filter (rt_store rt)))) \<and>
    (\<forall>l. get_job l (rt_store rt') =
       (if l \<in> j_task_id ` set (filter (recoverable env rt) (store_list_jobs active_filter (rt_store rt)))
        then map_option (recovered_job env) (get_job l (rt_store rt)) else get_job l (rt_store rt)))"
  using recover_rows_writes [OF assms(1)] active_rows_known [OF assms(1)] assms(2)
  by (simp add: recover_stale_jobs_def active_filter_def [symmetric])

interpretation recover_writer: job_writer "recover_stale_jobs env"
proof
  fix rt r rt'
  assume "jobs_ok (rt_store rt)" "recover_stale_jobs env rt = (r, rt')"
  from recover_stale_jobs_writes [OF this]
  show "advances (rt_store rt) (rt_store rt')" "\<exists>P. rt_futures rt' = filter P (rt_futures rt)"
    by (auto intro: filter_same)
qed

end
