(* ===== verification/A2A_System.thy ===== *)
theory A2A_System
  imports A2A_Writers
begin

text \<open>
  The agent-to-agent runtime as a transition system. A state has the runtime, the calls
  whose handler is running, and the log of the handler runs by slot (a ghost: the program
  does not keep it). Calls and workers are cut where the program holds no lock, so every
  interleaving of concurrent callers, workers, cancellations and recoveries is an
  execution; \<open>step_restart\<close> is a crash of the process and a new runtime on the same store.
\<close>

section \<open>The step relation\<close>

record ('h, 'j) a2a_system =
  sy_rt :: "('h, 'j) runtime"
  sy_calls :: "(envelope \<times> string \<times> idempotency_record) list"
  sy_runs :: "slot list"

text \<open>A clock reading is a non-empty text, and so is a UUID.\<close>

definition env_ok :: "a2a_env \<Rightarrow> bool" where
  "env_ok env = ((\<forall>site. iso_now env site \<noteq> []) \<and> new_uuid env ''task'' \<noteq> [])"

definition wk_slot :: "('h, 'j) worker \<Rightarrow> slot" where
  "wk_slot w = (wk_scope w, e_idempotency_key (wk_envelope w))"

text \<open>The handler runs that a stretch of a worker begins.\<close>

definition begun :: "string \<Rightarrow> ('h, 'j) runtime \<Rightarrow> slot list" where
  "begun k rt =
     (case dict_get (rt_futures rt) k of
        Some w \<Rightarrow> if wk_phase w = Marked \<and> k \<notin> set (rt_events_set rt) then [wk_slot w] else []
      | None \<Rightarrow> [])"

inductive a2a_step :: "('h, 'j) a2a_system \<Rightarrow> ('h, 'j) a2a_system \<Rightarrow> bool" where
  step_register: "a2a_step y (y\<lparr>sy_rt := register_agent agent caps h tags jh (sy_rt y)\<rparr>)"
| step_call_answered: "env_ok env \<Longrightarrow> call_begin env e (sy_rt y) = (r, rt) \<Longrightarrow>
    (\<forall>agent h q. r \<noteq> Inr (Call_run agent h q)) \<Longrightarrow> a2a_step y (y\<lparr>sy_rt := rt\<rparr>)"
| step_call_run: "env_ok env \<Longrightarrow> call_begin env e (sy_rt y) = (Inr (Call_run agent h q), rt) \<Longrightarrow>
    a2a_step y (y\<lparr>sy_rt := rt, sy_calls := (e, agent, q) # sy_calls y,
                  sy_runs := sy_runs y @ [receipt_slot q]\<rparr>)"
| step_call_end: "env_ok env \<Longrightarrow> (e, agent, q) \<in> set (sy_calls y) \<Longrightarrow>
    execute_call_handler env e agent q outcome (sy_rt y) = (response, rt) \<Longrightarrow>
    a2a_step y (y\<lparr>sy_rt := rt, sy_calls := remove1 (e, agent, q) (sy_calls y)\<rparr>)"
| step_job_start: "env_ok env \<Longrightarrow> new_uuid env ''task'' \<notin> fst ` set (ss_jobs (rt_store (sy_rt y))) \<Longrightarrow>
    job_start env e (sy_rt y) = (r, rt) \<Longrightarrow> a2a_step y (y\<lparr>sy_rt := rt\<rparr>)"
| step_worker: "env_ok env \<Longrightarrow> worker_step env outcome k (sy_rt y) = rt \<Longrightarrow>
    a2a_step y (y\<lparr>sy_rt := rt, sy_runs := sy_runs y @ begun k (sy_rt y)\<rparr>)"
| step_status: "env_ok env \<Longrightarrow> job_status env k (sy_rt y) = (r, rt) \<Longrightarrow> a2a_step y (y\<lparr>sy_rt := rt\<rparr>)"
| step_cancel: "env_ok env \<Longrightarrow> job_cancel env k (sy_rt y) = (r, rt) \<Longrightarrow> a2a_step y (y\<lparr>sy_rt := rt\<rparr>)"
| step_recover: "env_ok env \<Longrightarrow> recover_stale_jobs env (sy_rt y) = (r, rt) \<Longrightarrow> a2a_step y (y\<lparr>sy_rt := rt\<rparr>)"
| step_boundary: "a2a_step y (y\<lparr>sy_rt := record_boundary_event env m st tr rq k c msg d (sy_rt y)\<rparr>)"
| step_restart: "env_ok env \<Longrightarrow>
    A2ARuntime env policy inline stale (rt_store (sy_rt y)) (rt_audit (sy_rt y)) = (r, rt) \<Longrightarrow>
    a2a_step y (y\<lparr>sy_rt := rt, sy_calls := []\<rparr>)"

inductive_cases a2a_stepE: "a2a_step y z"

text \<open>The first runtime, on an empty store.\<close>

definition boot :: "policy_engine \<Rightarrow> int \<Rightarrow> int \<Rightarrow> ('h, 'j) a2a_system" where
  "boot policy inline stale =
     \<lparr>sy_rt = \<lparr>rt_policy = policy, rt_max_inline_bytes = inline, rt_stale_sec = stale,
        rt_handlers = [], rt_job_handlers = [], rt_store = MemoryStateStore, rt_futures = [],
        rt_cancel_events = [], rt_events_set = [], rt_audit = []\<rparr>,
      sy_calls = [], sy_runs = []\<rparr>"

section \<open>The invariant\<close>

definition worker_ok :: "(string \<times> slot) list \<Rightarrow> slot list \<Rightarrow> string \<times> ('h, 'j) worker \<Rightarrow> bool" where
  "worker_ok view runs = (\<lambda>(k, w). (k, wk_slot w) \<in> set view \<and>
     (wk_phase w \<in> {Queued, Marked} \<longrightarrow> wk_slot w \<notin> set runs))"

definition call_ok :: "slot set \<Rightarrow> (string \<times> slot) list \<Rightarrow> envelope \<times> string \<times> idempotency_record \<Rightarrow> bool" where
  "call_ok used view = (\<lambda>(_, _, q). receipt_slot q \<in> used \<and> receipt_slot q \<notin> snd ` set view)"

definition system_ok :: "('h, 'j) a2a_system \<Rightarrow> bool" where
  "system_ok y = (let s = rt_store (sy_rt y); fs = rt_futures (sy_rt y) in
     jobs_ok s \<and> distinct (map fst fs) \<and>
     (\<forall>kw\<in>set fs. worker_ok (job_view s) (sy_runs y) kw) \<and>
     (\<forall>c\<in>set (sy_calls y). call_ok (dom (ss_idempotency s)) (job_view s) c) \<and>
     distinct (sy_runs y) \<and> set (sy_runs y) \<subseteq> dom (ss_idempotency s))"

lemma system_okI:
  assumes "jobs_ok (rt_store (sy_rt y))" and "distinct (map fst (rt_futures (sy_rt y)))"
    and "\<And>kw. kw \<in> set (rt_futures (sy_rt y)) \<Longrightarrow> worker_ok (job_view (rt_store (sy_rt y))) (sy_runs y) kw"
    and "\<And>c. c \<in> set (sy_calls y) \<Longrightarrow>
      call_ok (dom (ss_idempotency (rt_store (sy_rt y)))) (job_view (rt_store (sy_rt y))) c"
    and "distinct (sy_runs y)" and "set (sy_runs y) \<subseteq> dom (ss_idempotency (rt_store (sy_rt y)))"
  shows "system_ok y"
  using assms by (simp add: system_ok_def Let_def)

lemma system_okD:
  assumes "system_ok y"
  shows "jobs_ok (rt_store (sy_rt y))" and "distinct (map fst (rt_futures (sy_rt y)))"
    and "kw \<in> set (rt_futures (sy_rt y)) \<Longrightarrow> worker_ok (job_view (rt_store (sy_rt y))) (sy_runs y) kw"
    and "c \<in> set (sy_calls y) \<Longrightarrow>
      call_ok (dom (ss_idempotency (rt_store (sy_rt y)))) (job_view (rt_store (sy_rt y))) c"
    and "distinct (sy_runs y)" and "set (sy_runs y) \<subseteq> dom (ss_idempotency (rt_store (sy_rt y)))"
  using assms by (simp_all add: system_ok_def Let_def)

lemma boot_ok: "system_ok (boot policy inline stale)"
  by (simp add: system_ok_def boot_def MemoryStateStore_def jobs_ok_def stamped_receipts_def)

text \<open>An operation that only advances the store and drops futures keeps the invariant.\<close>

lemma advance_keeps_ok:
  assumes ok: "system_ok y" and adv: "advances (rt_store (sy_rt y)) (rt_store rt)"
    and futs: "rt_futures rt = filter P (rt_futures (sy_rt y))" and calls: "set cs \<subseteq> set (sy_calls y)"
  shows "system_ok (y\<lparr>sy_rt := rt, sy_calls := cs\<rparr>)"
proof (rule system_okI)
  note D = system_okD [OF ok] and A = adv [unfolded advances_def]
  show "jobs_ok (rt_store (sy_rt (y\<lparr>sy_rt := rt, sy_calls := cs\<rparr>)))" using A by simp
  show "distinct (map fst (rt_futures (sy_rt (y\<lparr>sy_rt := rt, sy_calls := cs\<rparr>))))"
    using D(2) futs by (simp add: distinct_map_filter)
  show "worker_ok (job_view (rt_store (sy_rt (y\<lparr>sy_rt := rt, sy_calls := cs\<rparr>))))
      (sy_runs (y\<lparr>sy_rt := rt, sy_calls := cs\<rparr>)) kw"
    if "kw \<in> set (rt_futures (sy_rt (y\<lparr>sy_rt := rt, sy_calls := cs\<rparr>)))" for kw
    using D(3) [of kw] that futs A by simp
  show "call_ok (dom (ss_idempotency (rt_store (sy_rt (y\<lparr>sy_rt := rt, sy_calls := cs\<rparr>)))))
      (job_view (rt_store (sy_rt (y\<lparr>sy_rt := rt, sy_calls := cs\<rparr>)))) c"
    if "c \<in> set (sy_calls (y\<lparr>sy_rt := rt, sy_calls := cs\<rparr>))" for c
    using D(4) [of c] that calls A by auto
qed (use system_okD(5,6) [OF ok] adv in \<open>auto simp: advances_def\<close>)

lemma writer_keeps_ok:
  assumes "system_ok y" and "advances (rt_store (sy_rt y)) (rt_store rt)"
    and "\<exists>P. rt_futures rt = filter P (rt_futures (sy_rt y))"
  shows "system_ok (y\<lparr>sy_rt := rt\<rparr>)"
proof -
  obtain P where "rt_futures rt = filter P (rt_futures (sy_rt y))" using assms(3) by blast
  from advance_keeps_ok [OF assms(1,2) this, of "sy_calls y"] show ?thesis by simp
qed

context job_writer
begin

lemma writer_step:
  assumes "system_ok y" and "f (sy_rt y) = (r, rt)"
  shows "system_ok (y\<lparr>sy_rt := rt\<rparr>) \<and> keeps_final (rt_store (sy_rt y)) (rt_store rt)"
proof -
  have ok: "jobs_ok (rt_store (sy_rt y))" by (rule system_okD(1) [OF assms(1)])
  from writes [OF ok assms(2)] writer_keeps_ok [OF assms(1) _ futures [OF ok assms(2)]] show ?thesis
    by (simp add: advances_def)
qed

end

section \<open>Calls\<close>

lemma rt_reserve_cases:
  assumes "rt_reserve now key scope rt = ((b, row), rt')"
  obtains (taken) q where "b = False" "row = Some q" "rt' = rt" "ss_idempotency (rt_store rt) (scope, key) = Some q"
  | (free) "b = True" "row = Some (in_progress_idempotency now key scope)"
      "ss_idempotency (rt_store rt) (scope, key) = None"
      "rt' = rt\<lparr>rt_store := (rt_store rt)\<lparr>ss_idempotency :=
         (ss_idempotency (rt_store rt))((scope, key) \<mapsto> in_progress_idempotency now key scope)\<rparr>\<rparr>"
proof (cases "ss_idempotency (rt_store rt) (scope, key)")
  case None
  with assms free show thesis by (auto simp: rt_reserve_def reserve_idempotency_def Let_def)
next
  case (Some q)
  with assms taken [of q] show thesis by (auto simp: rt_reserve_def reserve_idempotency_def)
qed

lemma call_begin_cases:
  assumes "call_begin env e rt = (r, rt')"
  obtains (answered) "rt' = rt" "\<And>agent h q. r \<noteq> Inr (Call_run agent h q)"
  | (run) agent h scope where
      "r = Inr (Call_run agent h (in_progress_idempotency (iso_now env ''reserve'') (e_idempotency_key e) scope))"
      "ss_idempotency (rt_store rt) (scope, e_idempotency_key e) = None"
      "rt_store rt' = (rt_store rt)\<lparr>ss_idempotency := (ss_idempotency (rt_store rt))
         ((scope, e_idempotency_key e) \<mapsto>
            in_progress_idempotency (iso_now env ''reserve'') (e_idempotency_key e) scope)\<rparr>"
      "rt_futures rt' = rt_futures rt" "rt_events_set rt' = rt_events_set rt"
proof (cases "e_type e \<noteq> ''call''")
  case True
  with assms answered show thesis by (auto simp: call_begin_def)
next
  case type: False
  show thesis
  proof (cases "rbind (validate_envelope env e) (\<lambda>_. registry_resolve rt e)")
    case (Inl err)
    with assms type answered show thesis by (auto simp: call_begin_def)
  next
    case (Inr route)
    let ?agent = "ag_agent_id (ro_descriptor route)"
    obtain b row u where u: "rt_reserve (iso_now env ''reserve'') (e_idempotency_key e)
        (idempotency_scope e ?agent) rt = ((b, row), u)"
      by (metis prod.exhaust)
    show thesis
    proof (cases "is_allowed (rt_policy rt) e ?agent")
      case False
      with assms type Inr answered show thesis by (auto simp: call_begin_def Let_def)
    next
      case True
      from u show thesis
      proof (cases rule: rt_reserve_cases)
        case (taken q)
        with assms type Inr True u answered show thesis by (auto simp: call_begin_def Let_def)
      next
        case free
        with assms type Inr True u show thesis
          by (intro run [of ?agent "ro_handler route" "idempotency_scope e ?agent"])
            (auto simp: call_begin_def Let_def append_audit_record_def append_audit_def)
      qed
    qed
  qed
qed

lemma jobs_ok_new_receipt:
  assumes "jobs_ok s" and "ss_idempotency s k = None" and "receipt_slot q = k" and "ir_created_at q \<noteq> []"
  shows "jobs_ok (s\<lparr>ss_idempotency := (ss_idempotency s)(k \<mapsto> q)\<rparr>)"
proof -
  have "job_ok ((ss_idempotency s)(k \<mapsto> q)) kj" if "kj \<in> set (ss_jobs s)" for kj
    using assms that by (auto simp: jobs_ok_def job_ok_def split: option.splits)
  then show ?thesis using assms by (simp add: jobs_ok_def stamped_receipts_upd)
qed

lemma job_view_idem [simp]: "job_view (s\<lparr>ss_idempotency := m\<rparr>) = job_view s"
  by (simp add: job_view_def)

lemma job_slots_used: "jobs_ok s \<Longrightarrow> k \<in> snd ` set (job_view s) \<Longrightarrow> ss_idempotency s k \<noteq> None"
  by (auto simp: job_view_def jobs_ok_def job_ok_def split: option.splits dest!: bspec)

lemma call_run_ok:
  assumes ok: "system_ok y" and env: "env_ok env"
    and run: "call_begin env e (sy_rt y) = (Inr (Call_run agent h q), rt)"
  shows "system_ok (y\<lparr>sy_rt := rt, sy_calls := (e, agent, q) # sy_calls y,
    sy_runs := sy_runs y @ [receipt_slot q]\<rparr>)"
  using run
proof (cases rule: call_begin_cases)
  case (run agent' h' scope)
  note D = system_okD [OF ok]
  let ?s = "rt_store (sy_rt y)" and ?k = "(scope, e_idempotency_key e)"
  have q: "q = in_progress_idempotency (iso_now env ''reserve'') (e_idempotency_key e) scope"
    using run by simp
  have k: "?k \<notin> dom (ss_idempotency ?s)" and slot: "receipt_slot q = ?k" using run q by auto
  have fresh: "?k \<notin> snd ` set (job_view ?s)" using job_slots_used [OF D(1)] run(2) by blast
  have s': "rt_store rt = ?s\<lparr>ss_idempotency := (ss_idempotency ?s)(?k \<mapsto> q)\<rparr>" using run q by simp
  have "worker_ok (job_view ?s) (sy_runs y @ [?k]) kw" if "kw \<in> set (rt_futures (sy_rt y))" for kw
    using D(3) [OF that] fresh by (force simp: worker_ok_def)
  moreover have "call_ok (insert ?k (dom (ss_idempotency ?s))) (job_view ?s) c"
    if "c \<in> insert (e, agent, q) (set (sy_calls y))" for c
    using D(4) [of c] that fresh slot by (cases "c = (e, agent, q)") (simp_all add: call_ok_def split_beta)
  moreover have "?k \<notin> set (sy_runs y)" using D(6) k by blast
  moreover have "jobs_ok (rt_store rt)"
    unfolding s' using env by (intro jobs_ok_new_receipt D(1)) (auto simp: slot run q env_ok_def)
  ultimately show ?thesis
    using D(2,5,6) run(4) slot by (intro system_okI) (auto simp: s')
qed (use assms in auto)

lemma execute_call_cases:
  assumes "execute_call_handler env e agent q outcome rt = (response, rt')"
  obtains (same) "rt' = rt"
  | (finished) row inline ref error where
      "ss_idempotency (rt_store rt) (receipt_slot q) = Some row" "open_reservation q row"
      "((inline, ref), error) = call_receipt env e outcome rt"
      "rt_store rt' = (rt_store rt)\<lparr>ss_idempotency := (ss_idempotency (rt_store rt))(receipt_slot q \<mapsto>
         receipt_result (iso_now env ''finish'') (if error \<noteq> None then R_FAILED else R_SUCCESS) inline ref error row)\<rparr>"
      "rt_futures rt' = rt_futures rt"
proof -
  obtain inline ref error where r: "call_receipt env e outcome rt = ((inline, ref), error)"
    by (metis prod.exhaust)
  show thesis
  proof (cases "receipt_error env")
    case True
    with assms r same show thesis by (auto simp: execute_call_handler_def)
  next
    case False
    show thesis
    proof (cases "\<exists>row. ss_idempotency (rt_store rt) (receipt_slot q) = Some row \<and> open_reservation q row")
      case True
      then obtain row where "ss_idempotency (rt_store rt) (receipt_slot q) = Some row" "open_reservation q row"
        by blast
      with assms r False show thesis
        by (intro finished [of row inline ref error])
          (auto simp: execute_call_handler_def finish_idempotency_def receipt_slot_def Let_def)
    next
      case False
      with assms r same show thesis
        by (auto simp: execute_call_handler_def finish_idempotency_def receipt_slot_def Let_def
            split: option.splits if_splits)
    qed
  qed
qed

lemma other_receipt_advances:
  assumes ok: "jobs_ok s" and k: "ss_idempotency s k = Some row" "k \<notin> snd ` set (job_view s)"
    and r: "receipt_slot r = receipt_slot row" "ir_created_at r = ir_created_at row"
  shows "advances s (s\<lparr>ss_idempotency := (ss_idempotency s)(k \<mapsto> r)\<rparr>)"
proof -
  have st: "stamped_receipts (ss_idempotency s)" using ok by (simp add: jobs_ok_def)
  have "job_ok ((ss_idempotency s)(k \<mapsto> r)) (l, j)" if "(l, j) \<in> set (ss_jobs s)" for l j
  proof -
    have "job_slot j \<noteq> k" using that k(2) by (force simp: job_view_def)
    then show ?thesis using ok that by (auto simp: jobs_ok_def job_ok_def)
  qed
  moreover have "stamped_receipts ((ss_idempotency s)(k \<mapsto> r))"
    using stamped_receiptsD [OF st k(1)] r by (intro stamped_receipts_upd [OF st]) simp_all
  moreover have "dom ((ss_idempotency s)(k \<mapsto> r)) = dom (ss_idempotency s)" using k(1) by auto
  moreover have "keeps_final s (s\<lparr>ss_idempotency := (ss_idempotency s)(k \<mapsto> r)\<rparr>)"
    by (simp add: keeps_final_def get_job_def)
  ultimately show ?thesis using ok by (auto simp: advances_def jobs_ok_def)
qed

lemma call_end_advances:
  assumes ok: "system_ok y" and c: "(e, agent, q) \<in> set (sy_calls y)"
    and run: "execute_call_handler env e agent q outcome (sy_rt y) = (response, rt)"
  shows "advances (rt_store (sy_rt y)) (rt_store rt) \<and> rt_futures rt = rt_futures (sy_rt y)"
  using run
proof (cases rule: execute_call_cases)
  case same
  then show ?thesis using system_okD(1) [OF ok] by (simp add: advances_refl)
next
  case (finished row inline ref error)
  have "receipt_slot q \<notin> snd ` set (job_view (rt_store (sy_rt y)))"
    using system_okD(4) [OF ok c] by (simp add: call_ok_def)
  from other_receipt_advances [OF system_okD(1) [OF ok] finished(1) this] finished show ?thesis by simp
qed

section \<open>Jobs\<close>

lemma scope_not_empty [simp]: "idempotency_scope e agent \<noteq> []"
  by (simp add: idempotency_scope_def Let_def)

lemma job_start_cases:
  fixes rt :: "('h, 'j) runtime"
  assumes "job_start env e rt = (r, rt')"
  obtains (same) "rt' = rt"
  | (new) route :: "('h, 'j) route" and scope where
      "r = Inr (new_uuid env ''task'')" "scope \<noteq> []"
      "ss_idempotency (rt_store rt) (scope, e_idempotency_key e) = None"
      "rt_store rt' = put_job (new_job env e (ag_agent_id (ro_descriptor route)) scope)
         ((ss_idempotency (rt_store rt))((scope, e_idempotency_key e) \<mapsto>
            receipt_with_task (iso_now env ''set'') R_IN_PROGRESS None None None (Some (new_uuid env ''task''))
              (in_progress_idempotency (iso_now env ''reserve'') (e_idempotency_key e) scope)))
         (rt_store rt)"
      "rt_futures rt' = dict_set (rt_futures rt) (new_uuid env ''task'')
         \<lparr>wk_envelope = e, wk_agent = ag_agent_id (ro_descriptor route), wk_handler = ro_handler route,
          wk_job_handler = ro_job_handler route, wk_scope = scope, wk_phase = Queued\<rparr>"
  | (unstamped) "iso_now env ''reserve'' = []"
proof (cases "e_type e \<noteq> ''job.start''")
  case True
  with assms same show thesis by (auto simp: job_start_def)
next
  case type: False
  show thesis
  proof (cases "rbind (validate_envelope env e) (\<lambda>_. registry_resolve rt e)")
    case (Inl err)
    with assms type same show thesis by (auto simp: job_start_def)
  next
    case (Inr route)
    let ?agent = "ag_agent_id (ro_descriptor route)"
    let ?scope = "idempotency_scope e ?agent"
    obtain b row u where u: "rt_reserve (iso_now env ''reserve'') (e_idempotency_key e) ?scope rt = ((b, row), u)"
      by (metis prod.exhaust)
    show thesis
    proof (cases "is_allowed (rt_policy rt) e ?agent")
      case False
      with assms type Inr same show thesis by (auto simp: job_start_def Let_def)
    next
      case True
      from u show thesis
      proof (cases rule: rt_reserve_cases)
        case (taken q)
        with assms type Inr True u have "rt' = rt"
          by (auto simp: job_start_def start_or_replay_job_def Let_def split: option.splits list.splits if_splits)
        then show thesis by (rule same)
      next
        case free
        show thesis
        proof (cases "iso_now env ''reserve'' = []")
          case False
          with free assms type Inr True u show thesis
            by (intro new [where route = route and scope = ?scope])
              (auto simp: job_start_def start_or_replay_job_def rt_set_result_def set_idempotency_result_def
                create_job_def put_job_def new_job_def append_audit_record_def append_audit_def Let_def)
        qed (rule unstamped)
      qed
    qed
  qed
qed

lemma job_start_ok:
  assumes ok: "system_ok y" and env: "env_ok env"
    and fresh: "new_uuid env ''task'' \<notin> fst ` set (ss_jobs (rt_store (sy_rt y)))"
    and run: "job_start env e (sy_rt y) = (r, rt)"
  shows "system_ok (y\<lparr>sy_rt := rt\<rparr>) \<and> keeps_final (rt_store (sy_rt y)) (rt_store rt)"
  using run
proof (cases rule: job_start_cases)
  case same
  with ok show ?thesis by simp
next
  case (new route scope)
  note D = system_okD [OF ok]
  let ?s = "rt_store (sy_rt y)" and ?k = "(scope, e_idempotency_key e)" and ?t = "new_uuid env ''task''"
  let ?r = "receipt_with_task (iso_now env ''set'') R_IN_PROGRESS None None None (Some ?t)
     (in_progress_idempotency (iso_now env ''reserve'') (e_idempotency_key e) scope)"
  let ?j = "new_job env e (ag_agent_id (ro_descriptor route)) scope"
  let ?m = "(ss_idempotency ?s)(?k \<mapsto> ?r)"
  have j: "j_task_id ?j = ?t" "job_slot ?j = ?k" "\<not> is_terminal ?j" "unfinished_blank ?j"
    by (simp_all add: new_job_def job_slot_def is_terminal_def terminal_states_def unfinished_blank_def Let_def)
  have agrees: "receipt_agrees ?j ?r"
    by (simp add: receipt_agrees_def new_job_def receipt_with_task_def receipt_result_def Let_def)
  have jobs: "ss_jobs (rt_store rt) = ss_jobs ?s @ [(?t, ?j)]" and idem: "ss_idempotency (rt_store rt) = ?m"
    using new(4) fresh j(1) by (simp_all add: put_job_def dict_set_new)
  have "job_ok ?m (?t, ?j)"
    using j agrees env new(2) by (simp add: job_ok_def env_ok_def new_job_def Let_def)
  moreover have "job_ok ?m kj" if "kj \<in> set (ss_jobs ?s)" for kj
    using D(1) that new(3) by (auto simp: jobs_ok_def job_ok_def split: option.splits)
  moreover have "stamped_receipts ?m"
    using D(1) env by (intro stamped_receipts_upd) (auto simp: jobs_ok_def env_ok_def)
  ultimately have jobs_ok': "jobs_ok (rt_store rt)"
    using D(1) fresh by (auto simp: jobs_ok_def jobs idem)
  have view: "job_view (rt_store rt) = job_view ?s @ [(?t, ?k)]" by (simp add: job_view_def jobs j(2))
  have nf: "?t \<notin> fst ` set (rt_futures (sy_rt y))"
    using D(3) fresh by (force simp: worker_ok_def job_view_def)
  have unused: "?k \<notin> dom (ss_idempotency ?s)" "?k \<notin> set (sy_runs y)" using new(3) D(6) by auto
  have "worker_ok (job_view (rt_store rt)) (sy_runs y) kw" if "kw \<in> set (rt_futures rt)" for kw
    using that D(3) [of kw] nf new(5) unused(2) by (auto simp: dict_set_new worker_ok_def wk_slot_def view)
  moreover have "call_ok (dom ?m) (job_view (rt_store rt)) c" if "c \<in> set (sy_calls y)" for c
    using D(4) [OF that] unused(1) by (auto simp: call_ok_def view)
  moreover have "distinct (map fst (rt_futures rt))" using D(2) nf new(5) by (simp add: dict_set_new)
  ultimately have "system_ok (y\<lparr>sy_rt := rt\<rparr>)"
    using jobs_ok' D(5,6) idem by (intro system_okI) auto
  moreover have "keeps_final ?s (rt_store rt)"
    by (auto simp: keeps_final_def get_job_def dict_get_def jobs split: option.splits)
  ultimately show ?thesis ..
qed (use env in \<open>simp add: env_ok_def\<close>)

section \<open>Workers\<close>

lemma set_phase_frame [simp]: "rt_store (set_phase k ph rt) = rt_store rt"
  by (simp add: set_phase_def)

lemma set_phase_keys [simp]: "map fst (rt_futures (set_phase k ph rt)) = map fst (rt_futures rt)"
  by (simp add: set_phase_def case_prod_unfold)

lemma wk_slot_phase [simp]: "wk_slot (w\<lparr>wk_phase := ph\<rparr>) = wk_slot w"
  by (simp add: wk_slot_def)

text \<open>Moving one worker on, after a write to the store.\<close>

lemma phase_ok:
  assumes ok: "system_ok y" and adv: "advances (rt_store (sy_rt y)) (rt_store rt)"
    and futs: "rt_futures rt = rt_futures (sy_rt y)" and w: "dict_get (rt_futures (sy_rt y)) k = Some w"
    and ph: "ph \<notin> {Queued, Marked} \<or> wk_phase w = Queued" and runs: "runs \<in> {[], [wk_slot w]}"
    and begun: "runs = [] \<or> wk_phase w = Marked \<and> ph \<notin> {Queued, Marked}"
  shows "system_ok (y\<lparr>sy_rt := set_phase k ph rt, sy_runs := sy_runs y @ runs\<rparr>)"
proof (rule system_okI)
  note D = system_okD [OF ok] and A = adv [unfolded advances_def]
  let ?y = "y\<lparr>sy_rt := set_phase k ph rt, sy_runs := sy_runs y @ runs\<rparr>"
  have wk: "(k, w) \<in> set (rt_futures (sy_rt y))"
    using w D(2) by (simp add: dict_get_def)
  have ww: "worker_ok (job_view (rt_store (sy_rt y))) (sy_runs y) (k, w)" by (rule D(3) [OF wk])
  show "worker_ok (job_view (rt_store (sy_rt ?y))) (sy_runs ?y) kw" if kw: "kw \<in> set (rt_futures (sy_rt ?y))" for kw
  proof -
    obtain l x where x: "(l, x) \<in> set (rt_futures (sy_rt y))"
        "kw = (l, if l = k then x\<lparr>wk_phase := ph\<rparr> else x)"
      using kw futs by (auto simp: set_phase_def)
    have xx: "worker_ok (job_view (rt_store (sy_rt y))) (sy_runs y) (l, x)" by (rule D(3) [OF x(1)])
    show ?thesis
    proof (cases "l = k")
      case True
      then have "x = w" using x(1) wk D(2) by (metis eq_key_imp_eq_value)
      then show ?thesis using True ww x(2) A ph runs begun by (auto simp: worker_ok_def)
    next
      case False
      have "wk_slot x \<noteq> wk_slot w"
      proof
        assume eq: "wk_slot x = wk_slot w"
        obtain i j where "(l, i) \<in> set (ss_jobs (rt_store (sy_rt y)))" "job_slot i = wk_slot x"
            "(k, j) \<in> set (ss_jobs (rt_store (sy_rt y)))" "job_slot j = wk_slot w"
          using xx ww by (auto simp: worker_ok_def job_view_def)
        then show False
          using slot_determines_job [OF D(1), of l i k j] False eq D(1) by (simp add: get_job_in)
      qed
      then show ?thesis using False xx x(2) A runs by (auto simp: worker_ok_def)
    qed
  qed
  show "call_ok (dom (ss_idempotency (rt_store (sy_rt ?y)))) (job_view (rt_store (sy_rt ?y))) c"
    if "c \<in> set (sy_calls ?y)" for c
    using D(4) [of c] that A by simp
  show "distinct (sy_runs ?y)" using D(5) runs begun ww by (auto simp: worker_ok_def)
  have "wk_slot w \<in> dom (ss_idempotency (rt_store (sy_rt y)))"
    using job_slots_used [OF D(1), of "wk_slot w"] ww by (force simp: worker_ok_def)
  then show "set (sy_runs ?y) \<subseteq> dom (ss_idempotency (rt_store (sy_rt ?y)))" using D(6) runs A by auto
qed (use system_okD(2) [OF ok] adv futs in \<open>simp_all add: advances_def\<close>)

lemma worker_step_ok:
  assumes ok: "system_ok y" and run: "worker_step env outcome k (sy_rt y) = rt"
  shows "system_ok (y\<lparr>sy_rt := rt, sy_runs := sy_runs y @ begun k (sy_rt y)\<rparr>) \<and>
    advances (rt_store (sy_rt y)) (rt_store rt)"
proof (cases "dict_get (rt_futures (sy_rt y)) k")
  case None
  then have "rt = sy_rt y" "begun k (sy_rt y) = []" using run by (simp_all add: worker_step_def begun_def)
  with advances_refl [OF system_okD(1) [OF ok]] writer_keeps_ok [OF ok, of rt] filter_same show ?thesis by auto
next
  case (Some w)
  note D = system_okD [OF ok]
  let ?rt = "sy_rt y"
  have refl: "advances (rt_store ?rt) (rt_store ?rt)" using D(1) by (rule advances_refl)
  have "(k, w) \<in> set (rt_futures ?rt)" using Some D(2) by (simp add: dict_get_def)
  then have slot: "(k, wk_scope w, e_idempotency_key (wk_envelope w)) \<in> set (job_view (rt_store ?rt))"
    using D(3) by (auto simp: worker_ok_def wk_slot_def)
  note move = phase_ok [OF ok _ _ Some]
  show ?thesis
  proof (cases "wk_phase w")
    case Queued
    obtain r u where u: "mark_job_running env (wk_envelope w) (wk_agent w) k ?rt = (r, u)" by force
    note m = mark_running_writes [OF D(1) u]
    have "begun k ?rt = []" using Some Queued by (simp add: begun_def)
    then show ?thesis using m u run Some Queued move [of u _ "[]"] by (auto simp: worker_step_def)
  next
    case Marked
    then show ?thesis
      using run Some refl
        move [of ?rt "if k \<in> set (rt_events_set ?rt) then Finished else Executing" "begun k ?rt"] by (auto simp: worker_step_def begun_def)
  next
    case Executing
    then show ?thesis using run Some refl move [of ?rt _ "[]"] by (auto simp: worker_step_def begun_def)
  next
    case (Completing x)
    have none: "begun k ?rt = []" using Some Completing by (simp add: begun_def)
    show ?thesis
    proof (cases x)
      case (Returned res)
      obtain r u where u: "mark_job_success env (wk_envelope w) (wk_agent w) k (wk_scope w) res ?rt = (r, u)"
        by force
      note m = mark_success_writes [OF D(1) u slot]
      show ?thesis using m u run Some Completing Returned none move [of u _ "[]"]
        by (cases r) (auto simp: worker_step_def)
    next
      case (Raised_a2a err)
      obtain r u where u: "mark_job_failed env (wk_envelope w) (wk_agent w) k (wk_scope w) (outcome_msg x) ?rt = (r, u)"
        by force
      note m = mark_failed_writes [OF D(1) u slot]
      show ?thesis using m u run Some Completing Raised_a2a none move [of u _ "[]"]
        by (auto simp: worker_step_def)
    next
      case (Raised msg)
      obtain r u where u: "mark_job_failed env (wk_envelope w) (wk_agent w) k (wk_scope w) (outcome_msg x) ?rt = (r, u)"
        by force
      note m = mark_failed_writes [OF D(1) u slot]
      show ?thesis using m u run Some Completing Raised none move [of u _ "[]"]
        by (auto simp: worker_step_def)
    qed
  next
    case Finished
    then have "rt = forget_job k ?rt" "begun k ?rt = []" using run Some by (auto simp: worker_step_def begun_def)
    then show ?thesis using writer_keeps_ok [OF ok, of rt] forget_filter refl by auto
  qed
qed

section \<open>Every execution\<close>

text \<open>A step keeps the invariant and every finished job.\<close>

lemma a2a_step_ok:
  assumes "a2a_step y z" and ok: "system_ok y"
  shows "system_ok z \<and> keeps_final (rt_store (sy_rt y)) (rt_store (sy_rt z))"
  using assms(1)
proof (cases rule: a2a_step.cases)
  case (step_register agent caps h tags jh)
  have adv: "advances (rt_store (sy_rt y)) (rt_store (register_agent agent caps h tags jh (sy_rt y)))"
    using system_okD(1) [OF ok]
    by (simp add: register_agent_def registry_register_def upsert_agent_def advances_def jobs_ok_def
        job_view_def keeps_final_def get_job_def)
  moreover have "\<exists>P. rt_futures (register_agent agent caps h tags jh (sy_rt y)) = filter P (rt_futures (sy_rt y))"
    by (intro filter_same) (simp add: register_agent_def registry_register_def)
  ultimately show ?thesis using step_register writer_keeps_ok [OF ok] by (auto simp: advances_def)
next
  case (step_call_answered env e r rt)
  from step_call_answered(3) have "rt = sy_rt y"
    by (cases rule: call_begin_cases) (use step_call_answered(4) in auto)
  then show ?thesis using step_call_answered ok by simp
next
  case (step_call_run env e agent h q rt)
  have "keeps_final (rt_store (sy_rt y)) (rt_store rt)"
    using step_call_run(3) by (cases rule: call_begin_cases) (auto simp: keeps_final_def get_job_def)
  then show ?thesis using step_call_run call_run_ok [OF ok] by auto
next
  case (step_call_end env e agent q outcome response rt)
  have "rt_futures rt = filter (\<lambda>_. True) (rt_futures (sy_rt y))" "advances (rt_store (sy_rt y)) (rt_store rt)"
    using call_end_advances [OF ok step_call_end(3,4)] by auto
  from advance_keeps_ok [OF ok this(2) this(1), of "remove1 (e, agent, q) (sy_calls y)"] this step_call_end
  show ?thesis by (auto simp: advances_def set_remove1_subset)
next
  case (step_job_start env e r rt)
  then show ?thesis using job_start_ok [OF ok] by auto
next
  case (step_worker env outcome k rt)
  then show ?thesis using worker_step_ok [OF ok] by (auto simp: advances_def)
next
  case (step_status env k r rt)
  then show ?thesis using status_writer.writer_step [OF ok] by auto
next
  case (step_cancel env k r rt)
  then show ?thesis using cancel_writer.writer_step [OF ok] by auto
next
  case (step_recover env r rt)
  then show ?thesis using recover_writer.writer_step [OF ok] by auto
next
  case (step_boundary env m st tr rq k c msg d)
  have "rt_store (record_boundary_event env m st tr rq k c msg d (sy_rt y)) = rt_store (sy_rt y)"
    "rt_futures (record_boundary_event env m st tr rq k c msg d (sy_rt y)) = rt_futures (sy_rt y)"
    by (simp_all add: record_boundary_event_def)
  then show ?thesis
    using step_boundary writer_keeps_ok [OF ok, of "record_boundary_event env m st tr rq k c msg d (sy_rt y)"]
      advances_refl [OF system_okD(1) [OF ok]] filter_same by (auto simp: advances_def)
next
  case (step_restart env policy inline stale r rt)
  let ?u = "\<lparr>rt_policy = policy, rt_max_inline_bytes = inline, rt_stale_sec = stale,
        rt_handlers = [], rt_job_handlers = [], rt_store = rt_store (sy_rt y), rt_futures = [],
        rt_cancel_events = [], rt_events_set = [], rt_audit = rt_audit (sy_rt y)\<rparr>"
  have "recover_stale_jobs env ?u = (r, rt)" using step_restart by (simp add: A2ARuntime_def)
  from recover_stale_jobs_writes [OF _ this] system_okD(1) [OF ok]
  have w: "advances (rt_store (sy_rt y)) (rt_store rt)" "rt_futures rt = []" by auto
  then have "rt_futures rt = filter (\<lambda>_. False) (rt_futures (sy_rt y))" by simp
  from advance_keeps_ok [OF ok w(1) this, of "[]"] w step_restart show ?thesis by (auto simp: advances_def)
qed

interpretation a2a: invariant_system a2a_step system_ok
  by unfold_locales (use a2a_step_ok in blast)

lemma reachable_ok: "reach a2a_step (boot policy inline stale) y \<Longrightarrow> system_ok y"
  by (rule a2a.inv_reach [OF _ boot_ok])

lemma reach_keeps_final:
  "reach a2a_step y z \<Longrightarrow> system_ok y \<Longrightarrow> keeps_final (rt_store (sy_rt y)) (rt_store (sy_rt z))"
proof (induction rule: reach.induct)
  case (reach_step y z u)
  then have "system_ok z" by (auto intro: a2a.inv_reach)
  with reach_step a2a_step_ok [of z u] show ?case by (auto intro: keeps_final_trans)
qed simp

end
