(* ===== verification/A2A_Properties.thy ===== *)
theory A2A_Properties
  imports A2A_System
begin

text \<open>
  The properties of the agent-to-agent runtime over its executions, and the scenario that
  their witnesses run: an agent is registered, answers a call, and works on a job.
\<close>

section \<open>The scenario\<close>

definition a2a_demo_env :: a2a_env where
  "a2a_demo_env = \<lparr>iso_now = (\<lambda>_. ''2026''), new_uuid = (\<lambda>site. site), now_us = 1000000000,
     iso_us = (\<lambda>_. Some 0), is_uuid = (\<lambda>_. True), json_len = (\<lambda>_. Inr 2), put_bytes = None,
     receipt_error = False, audit_error = (\<lambda>_. False), cancelled = False\<rparr>"

definition a2a_demo_envelope :: "string \<Rightarrow> envelope" where
  "a2a_demo_envelope type = \<lparr>e_msg_id = ''m1'', e_trace_id = ''t1'', e_ts = ''2026'', e_from_agent = ''user'',
     e_to_agent = Some ''math'', e_to_capability = None, e_type = type, e_method = ''math.add'',
     e_params = [], e_attachments = [], e_timeout_ms = 1000, e_idempotency_key = ''k1'', e_meta = [],
     e_observability = None\<rparr>"

definition a2a_demo_boot :: "(nat, nat) a2a_system" where
  "a2a_demo_boot = boot (PolicyEngine ''allow'' []) 100 300"

definition a2a_demo_ready :: "(nat, nat) a2a_system" where
  "a2a_demo_ready =
     a2a_demo_boot\<lparr>sy_rt := register_agent ''math'' [''math.''] 7 [] None (sy_rt a2a_demo_boot)\<rparr>"

definition a2a_demo_calling :: "(nat, nat) a2a_system" where
  "a2a_demo_calling =
     (case call_begin a2a_demo_env (a2a_demo_envelope ''call'') (sy_rt a2a_demo_ready) of
        (Inr (Call_run agent h q), rt) \<Rightarrow>
          a2a_demo_ready\<lparr>sy_rt := rt, sy_calls := (a2a_demo_envelope ''call'', agent, q) # sy_calls a2a_demo_ready,
            sy_runs := sy_runs a2a_demo_ready @ [receipt_slot q]\<rparr>
      | _ \<Rightarrow> a2a_demo_ready)"

definition a2a_demo_started :: "(nat, nat) a2a_system" where
  "a2a_demo_started = a2a_demo_calling\<lparr>sy_rt :=
     snd (job_start a2a_demo_env (a2a_demo_envelope ''job.start'') (sy_rt a2a_demo_calling))\<rparr>"

definition a2a_demo_canceled :: "(nat, nat) a2a_system" where
  "a2a_demo_canceled = a2a_demo_started\<lparr>sy_rt := snd (job_cancel a2a_demo_env ''task'' (sy_rt a2a_demo_started))\<rparr>"

lemma a2a_demo_env_ok: "env_ok a2a_demo_env"
  by (simp add: env_ok_def a2a_demo_env_def)

lemma a2a_demo_reach_ready: "reach a2a_step a2a_demo_boot a2a_demo_ready"
  unfolding a2a_demo_ready_def by (intro reach_step [OF reach_refl] step_register)

lemma a2a_demo_reach_calling: "reach a2a_step a2a_demo_boot a2a_demo_calling"
proof -
  have "case call_begin a2a_demo_env (a2a_demo_envelope ''call'') (sy_rt a2a_demo_ready) of
      (Inr (Call_run agent h q), rt) \<Rightarrow> True | _ \<Rightarrow> False"
    by code_simp
  then obtain agent h q rt where c: "call_begin a2a_demo_env (a2a_demo_envelope ''call'') (sy_rt a2a_demo_ready) =
      (Inr (Call_run agent h q), rt)"
    by (auto split: prod.splits sum.splits call_entry.splits)
  have "a2a_step a2a_demo_ready a2a_demo_calling"
    using step_call_run [OF a2a_demo_env_ok c] c by (simp add: a2a_demo_calling_def)
  with a2a_demo_reach_ready show ?thesis by (rule reach_step)
qed

lemma a2a_demo_reach_started: "reach a2a_step a2a_demo_boot a2a_demo_started"
proof -
  have "new_uuid a2a_demo_env ''task'' \<notin> fst ` set (ss_jobs (rt_store (sy_rt a2a_demo_calling)))" by code_simp
  then show ?thesis
    unfolding a2a_demo_started_def
    by (intro reach_step [OF a2a_demo_reach_calling] step_job_start [OF a2a_demo_env_ok _ prod.collapse [symmetric]])
qed

lemma a2a_demo_reach_canceled: "reach a2a_step a2a_demo_boot a2a_demo_canceled"
  unfolding a2a_demo_canceled_def
  by (rule reach_step [OF a2a_demo_reach_started step_cancel [OF a2a_demo_env_ok prod.collapse [symmetric]]])

section \<open>Executions\<close>

text \<open>
  C10: No handler is ever run twice for one idempotency key in one scope: in every execution, with
  calls, jobs, cancellations, recoveries and restarts of the process interleaved in any way, the
  handler runs of calls and of jobs all belong to different slots, and each slot has its receipt.
\<close>

theorem handlers_run_at_most_once:
  assumes "reach a2a_step (boot policy inline stale) y"
  shows "distinct (sy_runs y) \<and> set (sy_runs y) \<subseteq> dom (ss_idempotency (rt_store (sy_rt y)))"
  using system_okD(5,6) [OF reachable_ok [OF assms]] by simp

theorem handlers_run_at_most_once_witness:
  "sy_runs a2a_demo_calling = [(''call:math:math.add'', ''k1'')] \<and> distinct (sy_runs a2a_demo_calling)"
proof
  show "sy_runs a2a_demo_calling = [(''call:math:math.add'', ''k1'')]" by code_simp
  show "distinct (sy_runs a2a_demo_calling)"
    using handlers_run_at_most_once [OF a2a_demo_reach_calling [unfolded a2a_demo_boot_def]] by simp
qed

text \<open>
  A finished job is final: once its state is a success, a failure or a cancellation, its record is
  the same in every later state, whatever its worker, other callers, a recovery or a restart do.
\<close>

lemma finished_jobs_are_final:
  assumes "reach a2a_step (boot policy inline stale) y" and "reach a2a_step y z"
    and "get_job k (rt_store (sy_rt y)) = Some j" and "is_terminal j"
  shows "get_job k (rt_store (sy_rt z)) = Some j"
  using reach_keeps_final [OF assms(2) reachable_ok [OF assms(1)]] assms(3,4) by (simp add: keeps_final_def)

definition a2a_demo_late :: "(nat, nat) a2a_system" where
  "a2a_demo_late = a2a_demo_canceled
     \<lparr>sy_rt := worker_step a2a_demo_env (Returned []) ''task'' (sy_rt a2a_demo_canceled),
      sy_runs := sy_runs a2a_demo_canceled @ begun ''task'' (sy_rt a2a_demo_canceled)\<rparr>"

text \<open>
  In every reachable state each job has a receipt in its slot that names the job and agrees with
  its state, result and error, and no other job has that slot.
\<close>

lemma job_receipts_agree:
  assumes "reach a2a_step (boot policy inline stale) y" and "get_job k (rt_store (sy_rt y)) = Some j"
  shows "(\<exists>r. ss_idempotency (rt_store (sy_rt y)) (job_slot j) = Some r \<and> receipt_agrees j r) \<and>
    (\<forall>l i. get_job l (rt_store (sy_rt y)) = Some i \<and> job_slot i = job_slot j \<longrightarrow> l = k)"
proof -
  have ok: "jobs_ok (rt_store (sy_rt y))" by (rule system_okD(1) [OF reachable_ok [OF assms(1)]])
  show ?thesis
    using get_job_ok [OF ok assms(2)] slot_determines_job [OF ok] assms(2) by metis
qed

section \<open>Replays\<close>

text \<open>
  Starting a job again is idempotent: in every reachable state, a request that passes validation
  and policy and whose slot belongs to a job returns the identifier of that job, whatever its
  state, and changes nothing.
\<close>

lemma job_start_replays:
  assumes reach: "reach a2a_step (boot policy inline stale) y"
    and e: "e_type e = ''job.start''" "validate_envelope_contract env e = Inr ()"
    and route: "registry_resolve (sy_rt y) e = Inr route" "ag_agent_id (ro_descriptor route) = agent"
      "is_allowed (rt_policy (sy_rt y)) e agent"
    and job: "get_job k (rt_store (sy_rt y)) = Some j"
      "job_slot j = (idempotency_scope e agent, e_idempotency_key e)"
  shows "job_start env e (sy_rt y) = (Inr k, sy_rt y)"
proof -
  have ok: "jobs_ok (rt_store (sy_rt y))" by (rule system_okD(1) [OF reachable_ok [OF reach]])
  obtain r where r: "j_task_id j = k" "k \<noteq> []" "ss_idempotency (rt_store (sy_rt y)) (job_slot j) = Some r"
      "receipt_agrees j r"
    using get_job_ok [OF ok job(1)] by metis
  obtain c t where k: "k = c # t" using r(2) by (cases k) auto
  have "rt_reserve (iso_now env ''reserve'') (e_idempotency_key e) (idempotency_scope e agent) (sy_rt y) =
      ((False, Some r), sy_rt y)"
    using r(3) job(2) by (simp add: rt_reserve_def reserve_idempotency_def)
  moreover have "ir_task_id r = Some (c # t)" using r k by (simp add: receipt_agrees_def)
  ultimately show ?thesis
    using e route k by (simp add: job_start_def validate_envelope_def start_or_replay_job_def)
qed

lemma resolve_frame:
  "rt_handlers rt' = rt_handlers rt \<Longrightarrow> rt_job_handlers rt' = rt_job_handlers rt \<Longrightarrow>
   ss_agents (rt_store rt') = ss_agents (rt_store rt) \<Longrightarrow> registry_resolve rt' e = registry_resolve rt e"
proof -
  assume a: "rt_handlers rt' = rt_handlers rt" "rt_job_handlers rt' = rt_job_handlers rt"
    "ss_agents (rt_store rt') = ss_agents (rt_store rt)"
  have m: "mk_route rt' = mk_route rt" using a by (simp add: mk_route_def fun_eq_iff)
  have "route_by_method rt' e ds = route_by_method rt e ds" for ds
    by (induction ds) (auto simp: a m split: option.split)
  moreover have "resolve_target_agent rt' ds t = resolve_target_agent rt ds t" for ds t
    by (simp add: resolve_target_agent_def a m split: option.split)
  ultimately show ?thesis
    by (simp add: registry_resolve_def store_list_agents_def a Let_def split: option.split list.split)
qed

lemma call_begin_run:
  assumes "call_begin env e rt = (Inr (Call_run agent h q), rt')"
  obtains route where "e_type e = ''call''" "validate_envelope_contract env e = Inr ()"
    "registry_resolve rt e = Inr route" "ag_agent_id (ro_descriptor route) = agent"
    "is_allowed (rt_policy rt) e agent" "receipt_slot q = (idempotency_scope e agent, e_idempotency_key e)"
    "q = in_progress_idempotency (iso_now env ''reserve'') (e_idempotency_key e) (idempotency_scope e agent)"
    "ss_idempotency (rt_store rt') (receipt_slot q) = Some q"
    "rt_handlers rt' = rt_handlers rt" "rt_job_handlers rt' = rt_job_handlers rt" "rt_policy rt' = rt_policy rt"
    "ss_agents (rt_store rt') = ss_agents (rt_store rt)"
  using assms
  by (auto simp: call_begin_def validate_envelope_def Let_def rt_reserve_def reserve_idempotency_def
      append_audit_record_def append_audit_def
      split: if_splits sum.splits option.splits bool.splits elim!: that)

lemma error_receipts: "call_receipt env e outcome rt = (stored, error) \<Longrightarrow> error \<noteq> Some []"
  by (auto simp: call_receipt_def A2AError_to_dict_def error_dict_def split: handler_outcome.splits sum.splits)

text \<open>
  A call that has been answered is answered from its receipt: repeating it, with any handler and
  at any later time, runs no handler, changes nothing, and returns the same result or the same
  error, marked as cached.
\<close>

lemma call_replays_receipt:
  assumes start: "call_begin env e rt = (Inr (Call_run agent h q), rt1)"
    and ended: "execute_call_handler env e agent q outcome rt1 = (response, rt2)" "\<not> receipt_error env"
    and receipt: "call_receipt env e outcome rt1 = ((inline, ref), error)"
    and later: "validate_envelope_contract env' e = Inr ()"
  shows "call env' run e rt2 =
    (Inr (case error of
            None \<Rightarrow> success_result_envelope env' e agent inline ref True
          | Some err \<Rightarrow> error_result_envelope env' e agent err True None), rt2)"
proof -
  from start obtain route where r: "e_type e = ''call''" "registry_resolve rt e = Inr route"
      "ag_agent_id (ro_descriptor route) = agent" "is_allowed (rt_policy rt) e agent"
      "receipt_slot q = (idempotency_scope e agent, e_idempotency_key e)"
      "q = in_progress_idempotency (iso_now env ''reserve'') (e_idempotency_key e) (idempotency_scope e agent)"
      "ss_idempotency (rt_store rt1) (receipt_slot q) = Some q"
      "rt_handlers rt1 = rt_handlers rt" "rt_job_handlers rt1 = rt_job_handlers rt" "rt_policy rt1 = rt_policy rt"
      "ss_agents (rt_store rt1) = ss_agents (rt_store rt)"
    by (rule call_begin_run)
  have slot: "(ir_scope q, ir_key q) = receipt_slot q" by (simp add: receipt_slot_def)
  let ?row = "receipt_result (iso_now env ''finish'') (if error \<noteq> None then R_FAILED else R_SUCCESS) inline ref error q"
  have "open_reservation q q" using r(6) by (simp add: open_reservation_def)
  with ended receipt r(7) have two: "rt_store rt2 = (rt_store rt1)\<lparr>ss_idempotency := (ss_idempotency (rt_store rt1))(receipt_slot q \<mapsto> ?row)\<rparr>"
      "rt_handlers rt2 = rt_handlers rt1" "rt_job_handlers rt2 = rt_job_handlers rt1" "rt_policy rt2 = rt_policy rt1"
    by (auto simp: execute_call_handler_def finish_idempotency_def slot append_audit_record_def append_audit_def Let_def)
  have res: "registry_resolve rt2 e = Inr route" using r(2) two r(8,9,11) by (subst resolve_frame) auto
  have "rt_reserve (iso_now env' ''reserve'') (e_idempotency_key e) (idempotency_scope e agent) rt2 =
      ((False, Some ?row), rt2)"
    using r(5) two(1) by (simp add: rt_reserve_def reserve_idempotency_def)
  moreover have "result_from_idempotency env' ?row e agent rt2 =
      (case error of None \<Rightarrow> success_result_envelope env' e agent inline ref True
       | Some err \<Rightarrow> error_result_envelope env' e agent err True None)"
    using error_receipts [OF receipt] r(6)
    by (auto simp: result_from_idempotency_def receipt_result_def in_progress_idempotency_def
        split: option.split list.split)
  ultimately show ?thesis
    using r(1,3,4) res later two(4) r(10) by (simp add: call_def call_begin_def validate_envelope_def)
qed

section \<open>Recovery\<close>

text \<open>
  Recovery never raises on a reachable runtime and fails exactly the stale jobs without a worker:
  of the first five thousand unfinished jobs, those that no worker of this process runs and whose
  heartbeat is too old become failed with the code \<open>STALE_JOB\<close>; they are the ones returned, and
  every other job keeps its record.
\<close>

lemma recovery_fails_stale_jobs:
  assumes "reach a2a_step (boot policy inline stale) y"
  shows "\<exists>ids rt. recover_stale_jobs env (sy_rt y) = (Inr ids, rt) \<and>
    (\<forall>k j. get_job k (rt_store (sy_rt y)) = Some j \<longrightarrow>
       (k \<in> set ids \<longleftrightarrow>
          j \<in> set (take 5000 (filter (\<lambda>j. \<not> is_terminal j) (map snd (ss_jobs (rt_store (sy_rt y)))))) \<and>
          \<not> dict_has (rt_futures (sy_rt y)) k \<and> is_stale env (j_heartbeat_at j) (rt_stale_sec (sy_rt y))) \<and>
       (\<exists>j'. get_job k (rt_store rt) = Some j' \<and>
          (if k \<in> set ids then j_state j' = J_FAILED \<and> j_error j' = Some (error_dict ''STALE_JOB'' STALE_MESSAGE)
           else j' = j)))"
proof -
  let ?rt = "sy_rt y" and ?s = "rt_store (sy_rt y)"
  have ok: "jobs_ok ?s" by (rule system_okD(1) [OF reachable_ok [OF assms]])
  obtain r rt where run: "recover_stale_jobs env ?rt = (r, rt)" by force
  note w = recover_stale_jobs_writes [OF ok run]
  let ?rows = "store_list_jobs active_filter ?s"
  let ?ids = "map j_task_id (filter (recoverable env ?rt) ?rows)"
  have rec: "j_state (recovered_job env j) = J_FAILED \<and>
      j_error (recovered_job env j) = Some (error_dict ''STALE_JOB'' STALE_MESSAGE)" for j
    by (simp add: recovered_job_def patch_of_def apply_patch_def Let_def)
  have "k \<in> set ?ids \<longleftrightarrow> j \<in> set ?rows \<and> recoverable env ?rt j" if "get_job k ?s = Some j" for k j
  proof -
    have k: "j_task_id j = k" using get_job_ok [OF ok that] by metis
    have "x = j" if "x \<in> set ?rows" "j_task_id x = k" for x
      using active_rows_known [OF ok] that \<open>get_job k ?s = Some j\<close> by force
    then show ?thesis using k by auto
  qed
  moreover have "recoverable env ?rt j \<longleftrightarrow> \<not> dict_has (rt_futures ?rt) k \<and> is_stale env (j_heartbeat_at j) (rt_stale_sec ?rt)"
    if "get_job k ?s = Some j" "j \<in> set ?rows" for k j
  proof -
    have "j_task_id j = k" using get_job_ok [OF ok that(1)] by metis
    with that(2) show ?thesis by (auto simp: recoverable_def active_rows dest!: in_set_takeD)
  qed
  ultimately show ?thesis
    using run w rec by (intro exI [of _ ?ids] exI [of _ rt]) (auto simp: active_rows)
qed

section \<open>A worker completes its job\<close>

fun phase_rank :: "job_phase \<Rightarrow> nat" where
  "phase_rank Queued = 6"
| "phase_rank Marked = 5"
| "phase_rank Executing = 4"
| "phase_rank (Completing (Returned _)) = 3"
| "phase_rank (Completing _) = 2"
| "phase_rank Finished = 1"

lemma phase_rank_bounds: "0 < phase_rank ph" "2 \<le> phase_rank (Completing x)" "phase_rank (Completing x) \<le> 3"
  by (cases ph rule: phase_rank.cases; simp; fail) (cases x; simp)+

definition rank_of :: "string \<Rightarrow> ('h, 'j) runtime \<Rightarrow> nat" where
  "rank_of k rt = (case dict_get (rt_futures rt) k of None \<Rightarrow> 0 | Some w \<Rightarrow> phase_rank (wk_phase w))"

definition job_finished :: "string \<Rightarrow> ('h, 'j) runtime \<Rightarrow> bool" where
  "job_finished k rt = (case get_job k (rt_store rt) of None \<Rightarrow> False | Some j \<Rightarrow> is_terminal j)"

fun run_worker :: "string \<Rightarrow> (a2a_env \<times> handler_outcome) list \<Rightarrow> ('h, 'j) runtime \<Rightarrow> ('h, 'j) runtime" where
  "run_worker k [] rt = rt"
| "run_worker k ((env, outcome) # steps) rt = run_worker k steps (worker_step env outcome k rt)"

lemma dict_get_phase:
  "dict_get (rt_futures (set_phase k ph rt)) k = map_option (\<lambda>w. w\<lparr>wk_phase := ph\<rparr>) (dict_get (rt_futures rt) k)"
proof -
  have "map_of (map (\<lambda>(l, w). (l, if l = k then w\<lparr>wk_phase := ph\<rparr> else w)) xs) k =
      map_option (\<lambda>w. w\<lparr>wk_phase := ph\<rparr>) (map_of xs k)" for xs :: "(string \<times> ('a, 'b) worker) list"
    by (induction xs) auto
  then show ?thesis by (simp add: set_phase_def dict_get_def)
qed

lemma set_phase_events [simp]: "rt_events_set (set_phase k ph rt) = rt_events_set rt"
  by (simp add: set_phase_def)

lemma rank_set_phase:
  "dict_get (rt_futures rt) k = Some w \<Longrightarrow> rank_of k (set_phase k ph rt) = phase_rank ph"
  by (simp add: rank_of_def dict_get_phase)

lemma job_finished_phase [simp]: "job_finished k (set_phase k ph rt) = job_finished k rt"
  by (simp add: job_finished_def)

lemma terminal_patch: "jp_state p \<in> set terminal_states \<Longrightarrow> is_terminal (apply_patch p j)"
  by (simp add: is_terminal_def)

lemma live_or_finished:
  "get_job k (rt_store rt) \<noteq> None \<Longrightarrow> live_job k rt \<or> job_finished k rt"
  by (auto simp: live_job_def job_finished_def split: option.splits)

lemma mark_success_finishes:
  assumes "get_job k (rt_store rt) \<noteq> None" and "mark_job_success env e agent k scope res rt = (Inr b, rt')"
  shows "job_finished k rt' \<and> rt_events_set rt' = rt_events_set rt"
proof (cases "live_job k rt")
  case True
  then obtain j where "get_job k (rt_store rt) = Some j" by (rule live_job_get)
  with True assms(2) show ?thesis
    by (auto simp: mark_job_success_def update_known_job job_finished_def get_job_def dict_get_def terminal_patch
        split: sum.splits)
qed (use assms live_or_finished [OF assms(1)] in \<open>auto simp: mark_job_success_def\<close>)

lemma mark_failed_finishes:
  assumes "get_job k (rt_store rt) \<noteq> None" and "mark_job_failed env e agent k scope msg rt = (r, rt')"
  shows "job_finished k rt' \<and> rt_events_set rt' = rt_events_set rt"
proof (cases "live_job k rt")
  case True
  then obtain j where "get_job k (rt_store rt) = Some j" by (rule live_job_get)
  with True assms(2) show ?thesis
    by (auto simp: mark_job_failed_def st_bind_def update_known_job job_finished_def get_job_def dict_get_def
        terminal_patch Let_def)
qed (use assms live_or_finished [OF assms(1)] in \<open>auto simp: mark_job_failed_def\<close>)

lemma mark_success_Inl: "mark_job_success env e agent k scope res rt = (Inl msg, rt') \<Longrightarrow> rt' = rt"
  by (auto simp: mark_job_success_def update_known_job split: if_splits sum.splits elim!: live_job_get)

lemma worker_known:
  assumes "system_ok y" and "dict_get (rt_futures (sy_rt y)) k = Some w"
  shows "get_job k (rt_store (sy_rt y)) \<noteq> None"
proof -
  have "(k, w) \<in> set (rt_futures (sy_rt y))" using assms(2) system_okD(2) [OF assms(1)] by (simp add: dict_get_def)
  from system_okD(3) [OF assms(1) this] obtain j where "(k, j) \<in> set (ss_jobs (rt_store (sy_rt y)))"
    by (auto simp: worker_ok_def job_view_def)
  then show ?thesis using system_okD(1) [OF assms(1)] by (simp add: get_job_in [symmetric])
qed

lemma worker_slot:
  assumes "system_ok y" and "dict_get (rt_futures (sy_rt y)) k = Some w"
  shows "(k, wk_scope w, e_idempotency_key (wk_envelope w)) \<in> set (job_view (rt_store (sy_rt y)))"
proof -
  have "(k, w) \<in> set (rt_futures (sy_rt y))" using assms(2) system_okD(2) [OF assms(1)] by (simp add: dict_get_def)
  from system_okD(3) [OF assms(1) this] show ?thesis by (simp add: worker_ok_def wk_slot_def)
qed

text \<open>Each stretch of a worker brings it closer to its end, and a worker at its end has finished its job.\<close>

definition settled :: "string \<Rightarrow> ('h, 'j) runtime \<Rightarrow> bool" where
  "settled k rt = (k \<notin> set (rt_events_set rt) \<and> (rank_of k rt \<le> 1 \<longrightarrow> job_finished k rt))"

lemma failed_progress:
  assumes ok: "system_ok y" and w: "dict_get (rt_futures (sy_rt y)) k = Some w"
    and ph: "wk_phase w = Completing x" "\<forall>res. x \<noteq> Returned res" and set: "settled k (sy_rt y)"
  shows "rank_of k (worker_step env outcome k (sy_rt y)) \<le> rank_of k (sy_rt y) - 1 \<and>
    settled k (worker_step env outcome k (sy_rt y))"
proof -
  obtain r u where u: "mark_job_failed env (wk_envelope w) (wk_agent w) k (wk_scope w) (outcome_msg x) (sy_rt y) = (r, u)"
    by force
  have f: "rt_futures u = rt_futures (sy_rt y)"
    using mark_failed_writes [OF system_okD(1) [OF ok] u worker_slot [OF ok w]] by simp
  have "worker_step env outcome k (sy_rt y) = set_phase k Finished u"
    using w ph u by (cases x) (auto simp: worker_step_def)
  moreover have "rank_of k (set_phase k Finished u) = 1" using rank_set_phase [of u k w Finished] f w by simp
  moreover have "rank_of k (sy_rt y) = 2" using w ph by (cases x) (auto simp: rank_of_def)
  ultimately show ?thesis
    using mark_failed_finishes [OF worker_known [OF ok w] u] set by (simp add: settled_def)
qed

lemma worker_progress:
  assumes ok: "system_ok y" and set: "settled k (sy_rt y)"
  shows "rank_of k (worker_step env outcome k (sy_rt y)) \<le> rank_of k (sy_rt y) - 1 \<and>
    settled k (worker_step env outcome k (sy_rt y))"
proof (cases "dict_get (rt_futures (sy_rt y)) k")
  case None
  with set show ?thesis by (simp add: worker_step_def rank_of_def settled_def)
next
  case (Some w)
  let ?rt = "sy_rt y"
  have known: "get_job k (rt_store ?rt) \<noteq> None" by (rule worker_known [OF ok Some])
  have ev: "k \<notin> set (rt_events_set ?rt)" using set by (simp add: settled_def)
  have rank: "rank_of k ?rt = phase_rank (wk_phase w)" using Some by (simp add: rank_of_def)
  have move: "rank_of k (set_phase k ph u) = phase_rank ph" if "rt_futures u = rt_futures ?rt" for ph u
    using that Some by (intro rank_set_phase) simp
  show ?thesis
  proof (cases "wk_phase w")
    case Queued
    obtain r u where u: "mark_job_running env (wk_envelope w) (wk_agent w) k ?rt = (r, u)" by force
    have m: "rt_futures u = rt_futures ?rt" "r = Inr (live_job k ?rt)"
      using mark_running_writes [OF system_okD(1) [OF ok] u] by auto
    have "rt_events_set u = rt_events_set ?rt" "\<not> live_job k ?rt \<Longrightarrow> u = ?rt"
      using u known by (auto simp: mark_job_running_def st_bind_def update_known_job split: if_splits elim: live_job_get)
    with m u Some Queued rank ev live_or_finished [OF known] move show ?thesis
      by (auto simp: worker_step_def settled_def)
  next
    case (Completing x)
    show ?thesis
    proof (cases x)
      case (Returned res)
      obtain r u where u: "mark_job_success env (wk_envelope w) (wk_agent w) k (wk_scope w) res ?rt = (r, u)"
        by force
      show ?thesis
      proof (cases r)
        case (Inl msg)
        with u mark_success_Inl have "u = ?rt" by blast
        with u Inl Some Completing Returned rank ev move show ?thesis by (simp add: worker_step_def settled_def)
      next
        case (Inr b)
        have "rt_futures u = rt_futures ?rt"
          using mark_success_writes [OF system_okD(1) [OF ok] u worker_slot [OF ok Some]] by simp
        with u Inr Some Completing Returned rank ev move mark_success_finishes [OF known, of env] show ?thesis
          by (auto simp: worker_step_def settled_def)
      qed
    next
      case (Raised_a2a err)
      then show ?thesis using failed_progress [OF ok Some Completing _ set] by simp
    next
      case (Raised msg)
      then show ?thesis using failed_progress [OF ok Some Completing _ set] by simp
    qed
  next
    case Finished
    with set Some rank show ?thesis
      by (simp add: worker_step_def forget_job_def settled_def rank_of_def dict_get_def job_finished_def)
  qed (use Some rank ev move phase_rank_bounds(2,3) [of outcome] in \<open>auto simp: worker_step_def settled_def\<close>)
qed

lemma run_worker_progress:
  assumes "system_ok y" and "settled k (sy_rt y)"
  shows "rank_of k (run_worker k steps (sy_rt y)) \<le> rank_of k (sy_rt y) - length steps \<and>
    settled k (run_worker k steps (sy_rt y))"
  using assms
proof (induction steps arbitrary: y)
  case (Cons step steps)
  obtain env outcome where step: "step = (env, outcome)" by force
  let ?rt = "worker_step env outcome k (sy_rt y)"
  let ?z = "y\<lparr>sy_rt := ?rt, sy_runs := sy_runs y @ begun k (sy_rt y)\<rparr>"
  have "system_ok ?z" using worker_step_ok [OF Cons.prems(1) refl] by blast
  moreover note worker_progress [OF Cons.prems, of env outcome]
  ultimately show ?case using Cons.IH [of ?z] step by auto
qed simp

text \<open>
  A queued job comes to its end: six stretches of its worker, with any handler outcome, any clock
  and any failure to store the result, end the worker and leave the job finished, unless somebody
  cancelled it in between.
\<close>

lemma queued_job_completes:
  assumes "reach a2a_step (boot policy inline stale) y"
    and "dict_get (rt_futures (sy_rt y)) k = Some w" "wk_phase w = Queued" "k \<notin> set (rt_events_set (sy_rt y))"
    and "length steps = 6"
  shows "dict_get (rt_futures (run_worker k steps (sy_rt y))) k = None \<and>
    (\<exists>j. get_job k (rt_store (run_worker k steps (sy_rt y))) = Some j \<and> is_terminal j)"
proof -
  have "rank_of k (sy_rt y) = 6" using assms(2,3) by (simp add: rank_of_def)
  with run_worker_progress [OF reachable_ok [OF assms(1)], of k steps] assms(4,5)
  have r: "rank_of k (run_worker k steps (sy_rt y)) = 0" "job_finished k (run_worker k steps (sy_rt y))"
    by (auto simp: settled_def)
  then show ?thesis
    by (auto simp: rank_of_def job_finished_def phase_rank_bounds(1) [THEN gr_implies_not0] split: option.splits)
qed

section \<open>Back ends and policy\<close>

text \<open>
  C11: The in-memory store and the SQL stores are interchangeable for receipts: on any sequence of
  reservations, completions and writes of results, starting empty, both give the same replies, and
  of the reservations of one slot at most one succeeds. Every operation has one reading of the clock, also the
  write of a result to a new slot, for which the in-memory store draws the time of creation by a second one.
\<close>

theorem receipt_back_ends_agree:
  assumes "list_all stamped_op ops"
  shows "replies mem_perform ops MemoryStateStore = replies sql_perform ops [] \<and>
    wins k ops (replies mem_perform ops MemoryStateStore) \<le> 1"
proof -
  have start: "stamped_receipts (ss_idempotency MemoryStateStore)"
    by (simp add: stamped_receipts_def MemoryStateStore_def)
  have "ss_idempotency MemoryStateStore = (\<lambda>k. sql_get_idempotency k [])"
    by (simp add: MemoryStateStore_def sql_get_idempotency_def sql_get_def)
  with mem_receipts.replies_spec [OF start assms] sql_receipts.replies_spec [OF keys_unique_Nil assms]
  show ?thesis using mem_receipts.slot_won_once [OF start assms, of k] by (simp split: if_splits)
qed

theorem receipt_back_ends_agree_witness:
  "replies mem_perform [Op_reserve ''t1'' ''k'' ''s'', Op_reserve ''t2'' ''k'' ''s'',
       Op_finish ''t3'' (in_progress_idempotency ''t1'' ''k'' ''s'') R_SUCCESS None None None] MemoryStateStore =
   replies sql_perform [Op_reserve ''t1'' ''k'' ''s'', Op_reserve ''t2'' ''k'' ''s'',
       Op_finish ''t3'' (in_progress_idempotency ''t1'' ''k'' ''s'') R_SUCCESS None None None] []"
  using receipt_back_ends_agree [of "[Op_reserve ''t1'' ''k'' ''s'', Op_reserve ''t2'' ''k'' ''s'',
       Op_finish ''t3'' (in_progress_idempotency ''t1'' ''k'' ''s'') R_SUCCESS None None None]"] by simp

end
