(* ===== verification/Turn_Input_Queue.thy ===== *)
theory Turn_Input_Queue
  imports SQL_Table
begin

text \<open>
  The queue of user inputs for a session's turns (\<open>services/runtime/turn_input/queue.py\<close>,
  class \<open>TurnInputQueue\<close>). Entries are kept in one list; their place is their order. Every
  operation holds the queue's lock, so it is atomic. An operation that raises returns the
  error together with the queue as the exception leaves it. The events handed to
  \<open>on_event\<close> are kept in \<open>tq_events\<close>; an exception of that callback has no effect. Clock
  readings and fresh identifiers are arguments.
\<close>

section \<open>Data\<close>

datatype turn_intent = QUEUE_NEXT | STEER_CURRENT | CANCEL_CURRENT | CANCEL_CURRENT_AND_RUN_NEXT
  | DROP_QUEUED | MOVE_QUEUED

datatype queue_status = QUEUED | RESERVED | RUNNING | COMPLETED | CANCELLED | FAILED | DROPPED | STEER_DEFERRED

fun intent_value :: "turn_intent \<Rightarrow> string" where
  "intent_value QUEUE_NEXT = ''queue_next''"
| "intent_value STEER_CURRENT = ''steer_current''"
| "intent_value CANCEL_CURRENT = ''cancel_current''"
| "intent_value CANCEL_CURRENT_AND_RUN_NEXT = ''cancel_current_and_run_next''"
| "intent_value DROP_QUEUED = ''drop_queued''"
| "intent_value MOVE_QUEUED = ''move_queued''"

fun status_value :: "queue_status \<Rightarrow> string" where
  "status_value QUEUED = ''queued''"
| "status_value RESERVED = ''reserved''"
| "status_value RUNNING = ''running''"
| "status_value COMPLETED = ''completed''"
| "status_value CANCELLED = ''cancelled''"
| "status_value FAILED = ''failed''"
| "status_value DROPPED = ''dropped''"
| "status_value STEER_DEFERRED = ''steer_deferred''"

record queue_entry =
  q_queue_id :: string
  q_session_id :: string
  q_agent_id :: string
  q_text :: string
  q_intent :: turn_intent
  q_status :: queue_status
  q_source_client :: string
  q_idempotency_key :: "string option"
  q_priority :: int
  q_metadata :: pydict
  q_status_version :: int
  q_created_at :: string
  q_started_at :: "string option"
  q_completed_at :: "string option"
  q_trace_id :: "string option"
  q_target_trace_id :: "string option"

record queue_error =
  qe_code :: string
  qe_message :: string
  qe_details :: pydict

definition TurnInputQueueError :: "string \<Rightarrow> string \<Rightarrow> pydict \<Rightarrow> queue_error" where
  "TurnInputQueueError code message details = \<lparr>qe_code = code, qe_message = message, qe_details = details\<rparr>"

definition QUEUE_ACTIVE_STATUSES :: "queue_status list" where
  "QUEUE_ACTIVE_STATUSES = [QUEUED, RESERVED, RUNNING]"

fun TERMINAL_EVENTS :: "queue_status \<Rightarrow> string option" where
  "TERMINAL_EVENTS COMPLETED = Some ''turn_input.completed''"
| "TERMINAL_EVENTS CANCELLED = Some ''turn_input.cancelled''"
| "TERMINAL_EVENTS FAILED = Some ''turn_input.failed''"
| "TERMINAL_EVENTS _ = None"

text \<open>The preview of a text: the whole normalised text, or its beginning followed by the
  ellipsis character.\<close>

datatype preview = Whole string | Cut string

definition redact_text_preview :: "nat \<Rightarrow> string \<Rightarrow> preview" where
  "redact_text_preview limit text =
     (let normalized = str_join '' '' (str_words text)
      in if length normalized \<le> limit then Whole normalized
         else Cut (str_rstrip_by is_space (take (limit - 1) normalized)))"

text \<open>What an event carries: the entry without its text, with the preview; the places of a
  move; or the limit that was hit.\<close>

datatype queue_payload =
    Payload queue_entry preview
  | Payload_moved queue_entry preview "string option" "string option"
  | Payload_full string int

definition event_payload :: "queue_entry \<Rightarrow> queue_payload" where
  "event_payload e = Payload (e\<lparr>q_text := []\<rparr>) (redact_text_preview 80 (q_text e))"

record turn_queue =
  tq_max_pending :: int
  tq_entries :: "queue_entry list"
  tq_idempotency :: "string \<times> string \<times> string \<Rightarrow> string option"
  tq_events :: "(string \<times> queue_payload) list"

type_synonym 'a queue_op = "turn_queue \<Rightarrow> (queue_error + 'a) \<times> turn_queue"

definition TurnInputQueue :: "int \<Rightarrow> turn_queue" where
  "TurnInputQueue max_pending =
     \<lparr>tq_max_pending = max 1 max_pending, tq_entries = [], tq_idempotency = (\<lambda>_. None), tq_events = []\<rparr>"

section \<open>Helpers\<close>

definition emit :: "string \<Rightarrow> queue_payload \<Rightarrow> turn_queue \<Rightarrow> turn_queue" where
  "emit event_type payload q = q\<lparr>tq_events := tq_events q @ [(event_type, payload)]\<rparr>"

definition require_non_empty :: "string \<Rightarrow> string \<Rightarrow> queue_error + string" where
  "require_non_empty value field =
     (let normalized = str_strip value
      in if normalized = [] then Inl (TurnInputQueueError ''INVALID_REQUEST'' (field @ '' must be non-empty.'')
           [(''field'', PStr field)])
         else Inr normalized)"

definition coerce_intent :: "string \<Rightarrow> queue_error + turn_intent" where
  "coerce_intent value =
     (case find (\<lambda>i. intent_value i = value) [QUEUE_NEXT, STEER_CURRENT, CANCEL_CURRENT,
             CANCEL_CURRENT_AND_RUN_NEXT, DROP_QUEUED, MOVE_QUEUED] of
        Some i \<Rightarrow> Inr i
      | None \<Rightarrow> Inl (TurnInputQueueError ''INVALID_INTENT'' (''Invalid turn input intent: '' @ value) []))"

definition coerce_queue_status :: "string \<Rightarrow> queue_error + queue_status" where
  "coerce_queue_status value =
     (case find (\<lambda>s. status_value s = value) [QUEUED, RESERVED, RUNNING, COMPLETED, CANCELLED, FAILED,
             DROPPED, STEER_DEFERRED] of
        Some s \<Rightarrow> Inr s
      | None \<Rightarrow> Inl (TurnInputQueueError ''INVALID_STATUS'' (''Invalid turn input status: '' @ value) []))"

definition idempotency_lookup_key ::
  "string \<Rightarrow> string \<Rightarrow> string option \<Rightarrow> (string \<times> string \<times> string) option" where
  "idempotency_lookup_key session_id agent_id key =
     (let normalized = str_strip (case key of None \<Rightarrow> [] | Some k \<Rightarrow> k)
      in if normalized = [] then None else Some (session_id, agent_id, normalized))"

definition find_by_id :: "string \<Rightarrow> turn_queue \<Rightarrow> queue_entry option" where
  "find_by_id queue_id q = (if queue_id = [] then None else sql_get q_queue_id queue_id (tq_entries q))"

text \<open>The index of the first entry with a property.\<close>

fun index_of :: "('a \<Rightarrow> bool) \<Rightarrow> 'a list \<Rightarrow> nat option" where
  "index_of p [] = None"
| "index_of p (x # xs) = (if p x then Some 0 else map_option Suc (index_of p xs))"

definition conflict :: "string \<Rightarrow> queue_entry \<Rightarrow> queue_error" where
  "conflict message e = TurnInputQueueError ''QUEUE_CONFLICT'' message
     [(''queue_id'', PStr (q_queue_id e)), (''status'', PStr (status_value (q_status e)))]"

definition pending_in :: "string \<Rightarrow> queue_entry list \<Rightarrow> nat" where
  "pending_in session_id es =
     length (filter (\<lambda>e. q_session_id e = session_id \<and> q_status e \<in> set QUEUE_ACTIVE_STATUSES) es)"

definition raise_if_full :: "string \<Rightarrow> unit queue_op" where
  "raise_if_full session_id q =
     (if int (pending_in session_id (tq_entries q)) \<ge> tq_max_pending q
      then (Inl (TurnInputQueueError ''QUEUE_FULL'' ''Turn input queue is full.''
              [(''session_id'', PStr session_id), (''max_pending'', PInt (tq_max_pending q))]),
            emit ''turn_input.queue_full'' (Payload_full session_id (tq_max_pending q)) q)
      else (Inr (), q))"

definition find_for_session :: "string \<Rightarrow> string \<Rightarrow> turn_queue \<Rightarrow> queue_error + (nat \<times> queue_entry)" where
  "find_for_session session_id queue_id q =
     rbind (require_non_empty session_id ''session_id'') (\<lambda>sid.
     rbind (require_non_empty queue_id ''queue_id'') (\<lambda>qid.
       case index_of (\<lambda>e. q_session_id e = sid \<and> q_queue_id e = qid) (tq_entries q) of
         Some i \<Rightarrow> Inr (i, tq_entries q ! i)
       | None \<Rightarrow> Inl (TurnInputQueueError ''QUEUE_ENTRY_NOT_FOUND'' ''Turn input queue entry was not found.''
           [(''session_id'', PStr sid), (''queue_id'', PStr qid)])))"

definition assert_status_version :: "queue_entry \<Rightarrow> int option \<Rightarrow> queue_error + unit" where
  "assert_status_version e status_version =
     (case status_version of
        None \<Rightarrow> Inr ()
      | Some v \<Rightarrow>
        if v \<noteq> q_status_version e
        then Inl (TurnInputQueueError ''QUEUE_CONFLICT'' ''Queue entry status_version is stale.''
          [(''queue_id'', PStr (q_queue_id e)), (''expected_status_version'', PInt (q_status_version e)),
           (''received_status_version'', PInt v)])
        else Inr ())"

definition bump :: "queue_entry \<Rightarrow> queue_entry" where
  "bump e = e\<lparr>q_status_version := q_status_version e + 1\<rparr>"

definition set_entry :: "nat \<Rightarrow> queue_entry \<Rightarrow> turn_queue \<Rightarrow> turn_queue" where
  "set_entry i e q = q\<lparr>tq_entries := (tq_entries q)[i := e]\<rparr>"

section \<open>Adding and listing\<close>

record enqueue_request =
  rq_session_id :: string
  rq_agent_id :: string
  rq_text :: string
  rq_intent :: string
  rq_source_client :: string
  rq_idempotency_key :: "string option"
  rq_priority :: int
  rq_metadata :: pydict
  rq_steer_supported :: bool
  rq_target_trace_id :: "string option"

definition setdefault :: "string \<Rightarrow> pyval \<Rightarrow> pydict \<Rightarrow> pydict" where
  "setdefault k v d = (if dict_has d k then d else d @ [(k, v)])"

definition steer_fields ::
  "turn_intent \<Rightarrow> enqueue_request \<Rightarrow> queue_error + (queue_status \<times> pydict \<times> string option)" where
  "steer_fields intent r =
     (let target = strip_or_none (case rq_target_trace_id r of None \<Rightarrow> [] | Some t \<Rightarrow> t) in
      if intent = STEER_CURRENT \<and> rq_steer_supported r
      then rbind (require_non_empty (case target of None \<Rightarrow> [] | Some t \<Rightarrow> t) ''target_trace_id'')
             (\<lambda>t. Inr (QUEUED, rq_metadata r, Some t))
      else if intent = STEER_CURRENT
      then Inr (STEER_DEFERRED,
             setdefault ''reason'' (PStr ''steer_current_unsupported_v1'')
               (setdefault ''deferred_to'' (PStr ''queue_next'') (rq_metadata r)), target)
      else Inr (QUEUED, rq_metadata r, target))"

definition new_entry ::
  "string \<Rightarrow> string \<Rightarrow> string \<Rightarrow> string \<Rightarrow> string \<Rightarrow> turn_intent \<Rightarrow> queue_status \<times> pydict \<times> string option \<Rightarrow>
   enqueue_request \<Rightarrow> queue_entry" where
  "new_entry new_id now sid aid text intent = (\<lambda>(status, metadata, target) r.
     \<lparr>q_queue_id = new_id, q_session_id = sid, q_agent_id = aid, q_text = text, q_intent = intent,
      q_status = status,
      q_source_client = (let c = str_strip (if rq_source_client r = [] then ''unknown'' else rq_source_client r)
                         in if c = [] then ''unknown'' else c),
      q_idempotency_key = (case rq_idempotency_key r of None \<Rightarrow> None | Some k \<Rightarrow> strip_or_none k),
      q_priority = rq_priority r, q_metadata = metadata, q_status_version = 1, q_created_at = now,
      q_started_at = None, q_completed_at = None, q_trace_id = None, q_target_trace_id = target\<rparr>)"

definition enqueue_locked ::
  "(string \<times> string \<times> string) option \<Rightarrow> queue_entry \<Rightarrow> queue_entry queue_op" where
  "enqueue_locked key entry q =
     (case (case key of None \<Rightarrow> None | Some k \<Rightarrow>
              (case tq_idempotency q k of None \<Rightarrow> None | Some existing_id \<Rightarrow> find_by_id existing_id q)) of
        Some existing \<Rightarrow> (Inr existing, q)
      | None \<Rightarrow>
        st_bind (raise_if_full (q_session_id entry)) (\<lambda>_ q.
          let q = q\<lparr>tq_entries := tq_entries q @ [entry]\<rparr>;
              q = (case key of None \<Rightarrow> q
                   | Some k \<Rightarrow> q\<lparr>tq_idempotency := (tq_idempotency q)(k \<mapsto> q_queue_id entry)\<rparr>)
          in (Inr entry,
              emit (if q_status entry = STEER_DEFERRED then ''turn_input.steer_deferred''
                    else ''turn_input.enqueued'') (event_payload entry) q)) q)"

text \<open>The part of \<open>enqueue\<close> before the lock: the arguments are validated and normalised.\<close>

definition enqueue_args ::
  "string \<Rightarrow> string \<Rightarrow> enqueue_request \<Rightarrow> queue_error + ((string \<times> string \<times> string) option \<times> queue_entry)" where
  "enqueue_args new_id now r =
     rbind (require_non_empty (rq_session_id r) ''session_id'') (\<lambda>sid.
     rbind (require_non_empty (rq_agent_id r) ''agent_id'') (\<lambda>aid.
     rbind (require_non_empty (rq_text r) ''text'') (\<lambda>text.
     rbind (coerce_intent (rq_intent r)) (\<lambda>intent.
     rbind (steer_fields intent r) (\<lambda>fields.
       Inr (idempotency_lookup_key sid aid (rq_idempotency_key r),
            new_entry new_id now sid aid text intent fields r))))))"

definition enqueue :: "string \<Rightarrow> string \<Rightarrow> enqueue_request \<Rightarrow> queue_entry queue_op" where
  "enqueue new_id now r q =
     (case enqueue_args new_id now r of
        Inl err \<Rightarrow> (Inl err, q)
      | Inr (key, entry) \<Rightarrow> enqueue_locked key entry q)"

fun coerce_statuses :: "string list \<Rightarrow> queue_error + queue_status list" where
  "coerce_statuses [] = Inr []"
| "coerce_statuses (s # ss) =
     rbind (coerce_queue_status s) (\<lambda>x. rbind (coerce_statuses ss) (\<lambda>xs. Inr (x # xs)))"

definition list_entries ::
  "string \<Rightarrow> string option \<Rightarrow> string list \<Rightarrow> turn_queue \<Rightarrow> queue_error + queue_entry list" where
  "list_entries session_id agent_id statuses q =
     rbind (require_non_empty session_id ''session_id'') (\<lambda>sid.
     rbind (coerce_statuses statuses) (\<lambda>sts.
       let aid = strip_or_none (case agent_id of None \<Rightarrow> [] | Some a \<Rightarrow> a)
       in Inr (filter (\<lambda>e. q_session_id e = sid \<and> (aid = None \<or> aid = Some (q_agent_id e)) \<and>
                 (sts = [] \<or> q_status e \<in> set sts)) (tq_entries q))))"

definition pending_count :: "string \<Rightarrow> string option \<Rightarrow> turn_queue \<Rightarrow> queue_error + nat" where
  "pending_count session_id agent_id q =
     rbind (list_entries session_id agent_id [''queued'', ''reserved''] q) (\<lambda>es. Inr (length es))"

section \<open>Changing the queue\<close>

text \<open>\<open>drop\<close>\<close>

definition drop_entry :: "string \<Rightarrow> string \<Rightarrow> string \<Rightarrow> int option \<Rightarrow> queue_entry queue_op" where
  "drop_entry now session_id queue_id status_version q =
     (case rbind (find_for_session session_id queue_id q) (\<lambda>(i, e).
           rbind (assert_status_version e status_version) (\<lambda>_.
             if q_status e \<noteq> QUEUED then Inl (conflict ''Only queued entries can be dropped.'' e)
             else Inr (i, (bump e)\<lparr>q_status := DROPPED, q_completed_at := Some now\<rparr>))) of
        Inl err \<Rightarrow> (Inl err, q)
      | Inr (i, updated) \<Rightarrow>
          (Inr updated, emit ''turn_input.dropped'' (event_payload updated) (set_entry i updated q)))"

definition resolve_move_index ::
  "string \<Rightarrow> string option \<Rightarrow> string option \<Rightarrow> queue_entry list \<Rightarrow> queue_error + nat" where
  "resolve_move_index session_id before after es =
     (if \<not> opt_truthy before \<and> \<not> opt_truthy after then Inr (length es)
      else let target_id = (if opt_truthy before then the before else the after) in
        case index_of (\<lambda>e. q_session_id e = session_id \<and> q_queue_id e = target_id) es of
          Some i \<Rightarrow> Inr (if opt_truthy before then i else i + 1)
        | None \<Rightarrow> Inl (TurnInputQueueError ''QUEUE_ENTRY_NOT_FOUND'' ''Move target queue entry was not found.''
            [(''session_id'', PStr session_id), (''target_queue_id'', PStr target_id)]))"

definition list_pop :: "nat \<Rightarrow> 'a list \<Rightarrow> 'a list" where
  "list_pop i xs = take i xs @ drop (i + 1) xs"

definition list_insert :: "nat \<Rightarrow> 'a \<Rightarrow> 'a list \<Rightarrow> 'a list" where
  "list_insert i x xs = take i xs @ x # drop i xs"

text \<open>\<open>move\<close>: the entry is taken out of the list before its new place is looked up, and an
  exception of the look-up leaves it out.\<close>

definition move_entry ::
  "string \<Rightarrow> string \<Rightarrow> int option \<Rightarrow> string option \<Rightarrow> string option \<Rightarrow> queue_entry queue_op" where
  "move_entry session_id queue_id status_version before after q =
     (if opt_truthy before \<and> opt_truthy after
      then (Inl (TurnInputQueueError ''INVALID_MOVE_REQUEST''
              ''Specify only one of before_queue_id or after_queue_id.'' []), q)
      else case rbind (find_for_session session_id queue_id q) (\<lambda>(i, e).
           rbind (assert_status_version e status_version) (\<lambda>_.
             if q_status e \<noteq> QUEUED then Inl (conflict ''Only queued entries can be moved.'' e)
             else Inr (i, e))) of
        Inl err \<Rightarrow> (Inl err, q)
      | Inr (i, e) \<Rightarrow>
        let q = q\<lparr>tq_entries := list_pop i (tq_entries q)\<rparr> in
        (case resolve_move_index session_id before after (tq_entries q) of
           Inl err \<Rightarrow> (Inl err, q)
         | Inr target_index \<Rightarrow>
             let updated = bump e
             in (Inr updated,
                 emit ''turn_input.moved''
                   (Payload_moved (updated\<lparr>q_text := []\<rparr>) (redact_text_preview 80 (q_text updated)) before after)
                   (q\<lparr>tq_entries := list_insert target_index updated (tq_entries q)\<rparr>))))"

definition reserve_next :: "string \<Rightarrow> string \<Rightarrow> string option \<Rightarrow> queue_entry option queue_op" where
  "reserve_next session_id agent_id expected q =
     (case find (\<lambda>e. q_session_id e = session_id \<and> q_agent_id e = agent_id \<and> q_status e = RESERVED)
             (tq_entries q) of
        Some active \<Rightarrow> (Inl (conflict ''A queued entry is already reserved.'' active), q)
      | None \<Rightarrow>
        (case index_of (\<lambda>e. q_session_id e = session_id \<and> q_agent_id e = agent_id \<and> q_status e = QUEUED \<and>
               q_intent e = QUEUE_NEXT) (tq_entries q) of
           None \<Rightarrow> (Inr None, q)
         | Some i \<Rightarrow>
           let e = tq_entries q ! i in
           if opt_truthy expected \<and> Some (q_queue_id e) \<noteq> expected
           then (Inl (TurnInputQueueError ''QUEUE_CONFLICT'' ''The next queued entry changed before reservation.''
                   [(''expected_queue_id'', PStr (the expected)), (''actual_queue_id'', PStr (q_queue_id e))]), q)
           else let updated = (bump e)\<lparr>q_status := RESERVED\<rparr>
                in (Inr (Some updated),
                    emit ''turn_input.dequeued'' (event_payload updated) (set_entry i updated q))))"

definition emit_all :: "string \<Rightarrow> queue_entry list \<Rightarrow> turn_queue \<Rightarrow> turn_queue" where
  "emit_all event_type es q = q\<lparr>tq_events := tq_events q @ map (\<lambda>e. (event_type, event_payload e)) es\<rparr>"

definition reserve_steering :: "string \<Rightarrow> string \<Rightarrow> string \<Rightarrow> queue_entry list queue_op" where
  "reserve_steering session_id agent_id target_trace_id q =
     (case rbind (require_non_empty session_id ''session_id'') (\<lambda>sid.
           rbind (require_non_empty agent_id ''agent_id'') (\<lambda>aid.
           rbind (require_non_empty target_trace_id ''target_trace_id'') (\<lambda>trace. Inr (sid, aid, trace)))) of
        Inl err \<Rightarrow> (Inl err, q)
      | Inr (sid, aid, trace) \<Rightarrow>
        let p = (\<lambda>e. q_session_id e = sid \<and> q_agent_id e = aid \<and> q_target_trace_id e = Some trace \<and>
                   q_intent e = STEER_CURRENT \<and> q_status e = QUEUED);
            f = (\<lambda>e. (bump e)\<lparr>q_status := RESERVED\<rparr>);
            reserved = map f (filter p (tq_entries q))
        in (Inr reserved,
            emit_all ''turn_input.dequeued'' reserved (q\<lparr>tq_entries := sql_update p f (tq_entries q)\<rparr>)))"

definition requested_ids :: "string list \<Rightarrow> string list" where
  "requested_ids queue_ids = filter (\<lambda>k. k \<noteq> []) (map str_strip queue_ids)"

definition steering_update :: "string \<Rightarrow> queue_status \<Rightarrow> queue_entry \<Rightarrow> queue_entry" where
  "steering_update now target e =
     (bump e)\<lparr>q_status := target, q_completed_at := (if target = COMPLETED then Some now else None)\<rparr>"

definition transition_steering_batch ::
  "string \<Rightarrow> string list \<Rightarrow> string \<Rightarrow> queue_status list \<Rightarrow> queue_status \<Rightarrow> queue_entry list queue_op" where
  "transition_steering_batch now queue_ids target_trace_id allowed target q =
     (let requested = requested_ids queue_ids in
      if requested = [] then (Inr [], q)
      else case require_non_empty target_trace_id ''target_trace_id'' of
        Inl err \<Rightarrow> (Inl err, q)
      | Inr trace \<Rightarrow>
        let matches = filter (\<lambda>e. q_queue_id e \<in> set requested) (tq_entries q) in
        if length matches \<noteq> card (set requested)
        then (Inl (TurnInputQueueError ''QUEUE_ENTRY_NOT_FOUND'' ''A steering queue entry was not found.''
                [(''queue_ids'', PList (map PStr requested))]), q)
        else case find (\<lambda>e. q_intent e \<noteq> STEER_CURRENT \<or> q_target_trace_id e \<noteq> Some trace \<or>
                 q_status e \<notin> set allowed) matches of
          Some e \<Rightarrow> (Inl (conflict ''The steering batch state changed before transition.'' e), q)
        | None \<Rightarrow>
          let updated = map (steering_update now target) matches
          in (Inr (map (\<lambda>k. the (sql_get q_queue_id k updated)) requested),
              emit_all (if target = COMPLETED then ''turn_input.completed'' else ''turn_input.requeued'') updated
                (q\<lparr>tq_entries := sql_update (\<lambda>e. q_queue_id e \<in> set requested) (steering_update now target)
                   (tq_entries q)\<rparr>)))"

definition complete_steering :: "string \<Rightarrow> string list \<Rightarrow> string \<Rightarrow> queue_entry list queue_op" where
  "complete_steering now queue_ids trace = transition_steering_batch now queue_ids trace [RESERVED] COMPLETED"

definition compensate_steering :: "string \<Rightarrow> string list \<Rightarrow> string \<Rightarrow> queue_entry list queue_op" where
  "compensate_steering now queue_ids trace =
     transition_steering_batch now queue_ids trace [RESERVED, COMPLETED] QUEUED"

definition replace_by_id :: "string \<Rightarrow> (queue_entry \<Rightarrow> queue_error + queue_entry) \<Rightarrow> queue_entry queue_op" where
  "replace_by_id queue_id updater q =
     (case index_of (\<lambda>e. q_queue_id e = queue_id) (tq_entries q) of
        None \<Rightarrow> (Inl (TurnInputQueueError ''QUEUE_ENTRY_NOT_FOUND'' ''Turn input queue entry was not found.''
                   [(''queue_id'', PStr queue_id)]), q)
      | Some i \<Rightarrow>
        (case updater (tq_entries q ! i) of
           Inl err \<Rightarrow> (Inl err, q)
         | Inr updated \<Rightarrow>
             (Inr updated,
              (case TERMINAL_EVENTS (q_status updated) of
                 Some event_type \<Rightarrow> emit event_type (event_payload updated)
               | None \<Rightarrow> (\<lambda>q. q)) (set_entry i updated q))))"

definition mark_running_entry :: "string \<Rightarrow> string \<Rightarrow> queue_entry \<Rightarrow> queue_error + queue_entry" where
  "mark_running_entry now trace_id e =
     (if q_status e \<noteq> RESERVED then Inl (conflict ''Only reserved entries can start running.'' e)
      else Inr ((bump e)\<lparr>q_status := RUNNING, q_started_at := Some now, q_trace_id := Some trace_id\<rparr>))"

definition requeue_entry :: "queue_entry \<Rightarrow> queue_error + queue_entry" where
  "requeue_entry e =
     (if q_status e \<notin> {RESERVED, RUNNING}
      then Inl (conflict ''Only reserved or running entries can be requeued.'' e)
      else Inr ((bump e)\<lparr>q_status := QUEUED, q_started_at := None, q_trace_id := None\<rparr>))"

definition mark_terminal_entry :: "string \<Rightarrow> queue_status \<Rightarrow> queue_entry \<Rightarrow> queue_error + queue_entry" where
  "mark_terminal_entry now status e =
     (if q_status e \<noteq> RUNNING then Inl (conflict ''Only running entries can become terminal.'' e)
      else Inr ((bump e)\<lparr>q_status := status, q_completed_at := Some now\<rparr>))"

definition mark_running :: "string \<Rightarrow> string \<Rightarrow> string \<Rightarrow> queue_entry queue_op" where
  "mark_running now queue_id trace_id q =
     (case require_non_empty trace_id ''trace_id'' of
        Inl err \<Rightarrow> (Inl err, q)
      | Inr trace \<Rightarrow>
        st_bind (replace_by_id queue_id (mark_running_entry now trace))
          (\<lambda>updated q. (Inr updated, emit ''turn_input.running'' (event_payload updated) q)) q)"

definition requeue :: "string \<Rightarrow> queue_entry queue_op" where
  "requeue queue_id =
     st_bind (replace_by_id queue_id requeue_entry)
       (\<lambda>updated q. (Inr updated, emit ''turn_input.requeued'' (event_payload updated) q))"

definition terminal_status :: "string \<Rightarrow> queue_error + queue_status" where
  "terminal_status status =
     rbind (coerce_queue_status status) (\<lambda>s.
       if TERMINAL_EVENTS s = None
       then Inl (TurnInputQueueError ''INVALID_STATUS'' (''Invalid terminal status: '' @ status) [])
       else Inr s)"

definition mark_terminal :: "string \<Rightarrow> string \<Rightarrow> string \<Rightarrow> queue_entry queue_op" where
  "mark_terminal now queue_id status q =
     (case terminal_status status of
        Inl err \<Rightarrow> (Inl err, q)
      | Inr s \<Rightarrow> replace_by_id queue_id (mark_terminal_entry now s) q)"

definition mark_terminal_by_trace :: "string \<Rightarrow> string \<Rightarrow> string \<Rightarrow> queue_entry option queue_op" where
  "mark_terminal_by_trace now trace_id status q =
     (let trace = str_strip trace_id in
      if trace = [] then (Inr None, q)
      else case terminal_status status of
        Inl err \<Rightarrow> (Inl err, q)
      | Inr s \<Rightarrow>
        (case index_of (\<lambda>e. q_trace_id e = Some trace \<and> q_status e = RUNNING) (tq_entries q) of
           None \<Rightarrow> (Inr None, q)
         | Some i \<Rightarrow>
           (case mark_terminal_entry now s (tq_entries q ! i) of
              Inl err \<Rightarrow> (Inl err, q)
            | Inr updated \<Rightarrow>
                (Inr (Some updated),
                 emit (the (TERMINAL_EVENTS s)) (event_payload updated) (set_entry i updated q)))))"

end
