(* ===== verification/Turn_Queue_Spec.thy ===== *)
theory Turn_Queue_Spec
  imports Turn_Input_Queue
begin

text \<open>
  An abstract description of the turn-input queue, and the proof that the operations of
  \<open>TurnInputQueue\<close> refine it. The description forgets events and the idempotency index and
  keeps the list of entries: entries are appended, advance along the edges of a status
  diagram with their version increased by one, are moved, or are lost by a failed move.
\<close>

section \<open>Lists with positions\<close>

lemma index_of_Some:
  "index_of p xs = Some i \<Longrightarrow> i < length xs \<and> p (xs ! i) \<and> (\<forall>j<i. \<not> p (xs ! j))"
proof (induction xs arbitrary: i)
  case (Cons x xs)
  then show ?case by (auto split: if_splits simp: nth_Cons' less_Suc_eq_0_disj)
qed simp

lemma index_of_None: "index_of p xs = None \<longleftrightarrow> (\<forall>x\<in>set xs. \<not> p x)"
  by (induction xs) auto

lemma index_of_split:
  assumes "index_of p xs = Some i"
  obtains l r where "xs = l @ xs ! i # r" "length l = i" "p (xs ! i)" "\<forall>x\<in>set l. \<not> p x"
proof -
  from index_of_Some [OF assms] have i: "i < length xs" "p (xs ! i)" "\<forall>j<i. \<not> p (xs ! j)" by auto
  then have "\<forall>x\<in>set (take i xs). \<not> p x" by (auto simp: in_set_conv_nth)
  with that [of "take i xs" "drop (Suc i) xs"] i show thesis by (simp add: id_take_nth_drop)
qed

lemma list_pop_split [simp]: "list_pop (length l) (l @ x # r) = l @ r"
  by (simp add: list_pop_def)

lemma list_update_all2:
  assumes "\<And>x. P x x" "i < length xs \<Longrightarrow> P (xs ! i) y"
  shows "list_all2 P xs (xs[i := y])"
  using assms by (cases "i < length xs") (auto simp: list_all2_conv_all_nth nth_list_update)

lemma sql_update_all2:
  assumes "\<And>x. P x x" "\<And>x. x \<in> set xs \<Longrightarrow> p x \<Longrightarrow> P x (f x)"
  shows "list_all2 P xs (sql_update p f xs)"
  using assms by (simp add: list_all2_conv_all_nth sql_update_def)

section \<open>The abstract queue\<close>

definition same_input :: "queue_entry \<Rightarrow> queue_entry \<Rightarrow> bool" where
  "same_input e e' \<longleftrightarrow>
     e' = e\<lparr>q_status := q_status e', q_status_version := q_status_version e', q_started_at := q_started_at e',
            q_completed_at := q_completed_at e', q_trace_id := q_trace_id e'\<rparr>"

fun status_edge :: "queue_status \<Rightarrow> queue_status \<Rightarrow> bool" where
  "status_edge QUEUED s \<longleftrightarrow> s \<in> {RESERVED, DROPPED}"
| "status_edge RESERVED s \<longleftrightarrow> s \<in> {QUEUED, RUNNING, COMPLETED}"
| "status_edge RUNNING s \<longleftrightarrow> s \<in> {QUEUED, COMPLETED, CANCELLED, FAILED}"
| "status_edge _ s \<longleftrightarrow> False"

definition advanced :: "queue_entry \<Rightarrow> queue_entry \<Rightarrow> bool" where
  "advanced e e' \<longleftrightarrow> same_input e e' \<and> q_status_version e' = q_status_version e + 1 \<and>
     status_edge (q_status e) (q_status e')"

definition stays_or_advances :: "queue_entry \<Rightarrow> queue_entry \<Rightarrow> bool" where
  "stays_or_advances e e' \<longleftrightarrow>
     e' = e \<or> advanced e e' \<and> (q_status e' = RESERVED \<longrightarrow> q_intent e = STEER_CURRENT)"

text \<open>A compensated steering input goes back to the queue, also after its completion.\<close>

definition stays_or_compensated :: "queue_entry \<Rightarrow> queue_entry \<Rightarrow> bool" where
  "stays_or_compensated e e' \<longleftrightarrow>
     e' = e \<or> same_input e e' \<and> q_status_version e' = q_status_version e + 1 \<and>
       q_intent e = STEER_CURRENT \<and> q_status e \<in> {RESERVED, COMPLETED} \<and> q_status e' = QUEUED"

definition reserved_for :: "string \<Rightarrow> string \<Rightarrow> queue_entry \<Rightarrow> bool" where
  "reserved_for sid aid e \<longleftrightarrow> q_session_id e = sid \<and> q_agent_id e = aid \<and> q_status e = RESERVED"

inductive plain_change :: "int \<Rightarrow> string set \<Rightarrow> queue_entry list \<Rightarrow> queue_entry list \<Rightarrow> bool" for m n where
  plain_same: "plain_change m n es es"
| plain_added: "int (pending_in (q_session_id e) es) < m \<Longrightarrow> q_status e \<in> {QUEUED, STEER_DEFERRED} \<Longrightarrow>
    q_status_version e = 1 \<Longrightarrow> q_queue_id e \<in> n \<Longrightarrow> plain_change m n es (es @ [e])"
| plain_advanced: "list_all2 stays_or_advances es es' \<Longrightarrow> plain_change m n es es'"
| plain_reserved: "\<forall>x\<in>set (l @ e # r). \<not> reserved_for (q_session_id e) (q_agent_id e) x \<Longrightarrow>
    advanced e e' \<Longrightarrow> q_status e' = RESERVED \<Longrightarrow> plain_change m n (l @ e # r) (l @ e' # r)"
| plain_lost: "q_status e = QUEUED \<Longrightarrow> plain_change m n (l @ e # r) (l @ r)"
| plain_moved: "q_status e = QUEUED \<Longrightarrow> l @ r = l' @ r' \<Longrightarrow>
    plain_change m n (l @ e # r) (l' @ bump e # r')"

definition queue_change :: "int \<Rightarrow> string set \<Rightarrow> queue_entry list \<Rightarrow> queue_entry list \<Rightarrow> bool" where
  "queue_change m n es es' \<longleftrightarrow> plain_change m n es es' \<or> list_all2 stays_or_compensated es es'"

section \<open>Calls\<close>

text \<open>A call of the queue with the clock reading and the fresh identifier it uses.\<close>

datatype queue_call =
    Enqueue string string enqueue_request
  | Drop string string string "int option"
  | Move string string "int option" "string option" "string option"
  | Reserve_next string string "string option"
  | Reserve_steering string string string
  | Complete_steering string "string list" string
  | Compensate_steering string "string list" string
  | Mark_running string string string
  | Requeue string
  | Mark_terminal string string string
  | Mark_terminal_by_trace string string string

fun run_call :: "queue_call \<Rightarrow> turn_queue \<Rightarrow> turn_queue" where
  "run_call (Enqueue new_id now r) q = snd (enqueue new_id now r q)"
| "run_call (Drop now sid qid v) q = snd (drop_entry now sid qid v q)"
| "run_call (Move sid qid v before after) q = snd (move_entry sid qid v before after q)"
| "run_call (Reserve_next sid aid expected) q = snd (reserve_next sid aid expected q)"
| "run_call (Reserve_steering sid aid trace) q = snd (reserve_steering sid aid trace q)"
| "run_call (Complete_steering now ids trace) q = snd (complete_steering now ids trace q)"
| "run_call (Compensate_steering now ids trace) q = snd (compensate_steering now ids trace q)"
| "run_call (Mark_running now qid trace) q = snd (mark_running now qid trace q)"
| "run_call (Requeue qid) q = snd (requeue qid q)"
| "run_call (Mark_terminal now qid status) q = snd (mark_terminal now qid status q)"
| "run_call (Mark_terminal_by_trace now trace status) q = snd (mark_terminal_by_trace now trace status q)"

definition run_calls :: "queue_call list \<Rightarrow> turn_queue \<Rightarrow> turn_queue" where
  "run_calls cs q = fold run_call cs q"

fun is_compensation :: "queue_call \<Rightarrow> bool" where
  "is_compensation (Compensate_steering _ _ _) = True"
| "is_compensation _ = False"

text \<open>The identifiers a sequence of calls draws from \<open>id_factory\<close>.\<close>

fun new_ids :: "queue_call list \<Rightarrow> string list" where
  "new_ids [] = []"
| "new_ids (Enqueue new_id _ _ # cs) = new_id # new_ids cs"
| "new_ids (_ # cs) = new_ids cs"

definition fresh_ids :: "queue_call list \<Rightarrow> bool" where
  "fresh_ids cs \<longleftrightarrow> distinct (new_ids cs) \<and> [] \<notin> set (new_ids cs)"

lemma run_calls_simps [simp]:
  "run_calls [] q = q" "run_calls (c # cs) q = run_calls cs (run_call c q)"
  "run_calls (cs @ ds) q = run_calls ds (run_calls cs q)"
  by (simp_all add: run_calls_def)

lemma new_ids_append [simp]: "new_ids (cs @ ds) = new_ids cs @ new_ids ds"
  by (induction cs rule: new_ids.induct) auto

section \<open>The operations follow the description\<close>

lemma emit_fields [simp]:
  "tq_entries (emit t p q) = tq_entries q" "tq_max_pending (emit t p q) = tq_max_pending q"
  "tq_idempotency (emit t p q) = tq_idempotency q"
  "tq_entries (emit_all t es q) = tq_entries q" "tq_max_pending (emit_all t es q) = tq_max_pending q"
  "tq_idempotency (emit_all t es q) = tq_idempotency q"
  by (simp_all add: emit_def emit_all_def)

lemma set_entry_fields [simp]:
  "tq_entries (set_entry i e q) = (tq_entries q)[i := e]" "tq_max_pending (set_entry i e q) = tq_max_pending q"
  "tq_idempotency (set_entry i e q) = tq_idempotency q"
  by (simp_all add: set_entry_def)

lemma bump_fields [simp]:
  "q_queue_id (bump e) = q_queue_id e" "q_session_id (bump e) = q_session_id e"
  "q_agent_id (bump e) = q_agent_id e" "q_status (bump e) = q_status e" "q_intent (bump e) = q_intent e"
  "q_status_version (bump e) = q_status_version e + 1"
  by (simp_all add: bump_def)

lemma stays_refl [simp]: "stays_or_advances e e" "stays_or_compensated e e"
  by (simp_all add: stays_or_advances_def stays_or_compensated_def)

lemmas entry_change_defs = stays_or_advances_def stays_or_compensated_def advanced_def same_input_def bump_def

text \<open>Writing one advanced entry back at its place.\<close>

lemma plain_set:
  assumes "i < length es \<Longrightarrow> stays_or_advances (es ! i) e'"
  shows "plain_change m n es (es[i := e'])"
  by (rule plain_advanced, rule list_update_all2) (simp_all add: assms)

lemma enqueue_locked_entries:
  "snd (enqueue_locked key e q) = q' \<Longrightarrow> tq_entries q' = tq_entries q \<or>
     int (pending_in (q_session_id e) (tq_entries q)) < tq_max_pending q \<and> tq_entries q' = tq_entries q @ [e]"
  by (auto simp: enqueue_locked_def raise_if_full_def st_bind_def Let_def split: option.splits if_splits)

lemma steer_fields_status: "steer_fields intent r = Inr (s, md, t) \<Longrightarrow> s \<in> {QUEUED, STEER_DEFERRED}"
  by (auto simp: steer_fields_def Let_def split: if_splits)

lemma new_entry_fields [simp]:
  "q_queue_id (new_entry new_id now sid aid text intent f r) = new_id"
  "q_status_version (new_entry new_id now sid aid text intent f r) = 1"
  "q_status (new_entry new_id now sid aid text intent f r) = fst f"
  "q_session_id (new_entry new_id now sid aid text intent f r) = sid"
  by (cases f; simp add: new_entry_def)+

lemma enqueue_args_Inr:
  assumes "enqueue_args new_id now r = Inr (key, e)"
  shows "q_queue_id e = new_id" "q_status e \<in> {QUEUED, STEER_DEFERRED}" "q_status_version e = 1"
    "q_session_id e = str_strip (rq_session_id r)"
    "key = idempotency_lookup_key (str_strip (rq_session_id r)) (str_strip (rq_agent_id r)) (rq_idempotency_key r)"
  using assms
  by (auto simp: enqueue_args_def require_non_empty_def Let_def dest: steer_fields_status split: if_splits)

lemma enqueue_change:
  "plain_change (tq_max_pending q) {new_id} (tq_entries q) (tq_entries (snd (enqueue new_id now r q)))"
proof (cases "enqueue_args new_id now r")
  case (Inr x)
  then obtain key e where args: "enqueue_args new_id now r = Inr (key, e)" by (cases x) auto
  then show ?thesis
    using enqueue_locked_entries [of key e q, OF refl] enqueue_args_Inr(1,2,3) [OF args]
    by (auto simp: enqueue_def intro: plain_same plain_added)
qed (simp add: enqueue_def plain_same)

lemma find_for_session_Inr:
  assumes "find_for_session sid qid q = Inr (i, e)"
  shows "i < length (tq_entries q) \<and> e = tq_entries q ! i \<and> q_session_id e = str_strip sid \<and>
    q_queue_id e = str_strip qid"
  using assms by (auto simp: find_for_session_def require_non_empty_def Let_def dest: index_of_Some
    split: option.splits if_splits)

lemma drop_change: "plain_change m n (tq_entries q) (tq_entries (snd (drop_entry now sid qid v q)))"
  by (auto simp: drop_entry_def rbind_def entry_change_defs dest!: find_for_session_Inr
      intro!: plain_same plain_set split: sum.splits prod.splits if_splits)

lemma resolve_move_index_le: "resolve_move_index sid before after es = Inr t \<Longrightarrow> t \<le> length es"
  by (auto simp: resolve_move_index_def Let_def dest!: index_of_Some split: if_splits option.splits)

lemma pop_changes:
  assumes "i < length es" "q_status (es ! i) = QUEUED"
  shows "plain_change m n es (list_pop i es)"
    "plain_change m n es (list_insert t (bump (es ! i)) (list_pop i es))"
proof -
  from assms(1) obtain l r where es: "es = l @ es ! i # r" and pop: "list_pop i es = l @ r"
    by (metis Suc_eq_plus1 id_take_nth_drop list_pop_def)
  from plain_lost [OF assms(2), of m n l r] show "plain_change m n es (list_pop i es)"
    using es pop by simp
  from plain_moved [OF assms(2) append_take_drop_id [symmetric], of m n l r t]
  show "plain_change m n es (list_insert t (bump (es ! i)) (list_pop i es))"
    using es unfolding pop list_insert_def by simp
qed

lemma move_change: "plain_change m n (tq_entries q) (tq_entries (snd (move_entry sid qid v before after q)))"
  by (auto simp: move_entry_def rbind_def Let_def dest!: find_for_session_Inr
      intro!: plain_same pop_changes split: sum.splits prod.splits if_splits)

lemma reserve_next_Some:
  assumes "reserve_next sid aid expected q = (Inr (Some e'), q')"
  obtains l e r where "tq_entries q = l @ e # r" "tq_entries q' = l @ e' # r"
    "e' = (bump e)\<lparr>q_status := RESERVED\<rparr>" "q_status e = QUEUED" "q_intent e = QUEUE_NEXT"
    "q_session_id e = sid" "q_agent_id e = aid" "\<forall>x\<in>set (tq_entries q). \<not> reserved_for sid aid x"
    "\<forall>x\<in>set l. \<not> (q_session_id x = sid \<and> q_agent_id x = aid \<and> q_status x = QUEUED \<and> q_intent x = QUEUE_NEXT)"
proof -
  let ?p = "\<lambda>e. q_session_id e = sid \<and> q_agent_id e = aid \<and> q_status e = QUEUED \<and> q_intent e = QUEUE_NEXT"
  from assms obtain i where i: "index_of ?p (tq_entries q) = Some i"
    and free: "find (\<lambda>e. q_session_id e = sid \<and> q_agent_id e = aid \<and> q_status e = RESERVED) (tq_entries q) = None"
    and e': "e' = (bump (tq_entries q ! i))\<lparr>q_status := RESERVED\<rparr>"
    and q': "tq_entries q' = (tq_entries q)[i := e']"
    by (auto simp: reserve_next_def Let_def split: option.splits if_splits)
  from i obtain l r where "tq_entries q = l @ tq_entries q ! i # r" "length l = i" "?p (tq_entries q ! i)"
    "\<forall>x\<in>set l. \<not> ?p x" by (rule index_of_split)
  moreover from calculation q' have "tq_entries q' = l @ e' # r" by (metis list_update_length)
  ultimately show thesis using e' free
    by (intro that [of l "tq_entries q ! i" r]) (auto simp: find_None_iff reserved_for_def)
qed

lemma reserve_next_other:
  assumes "reserve_next sid aid expected q = (x, q')" "\<And>e. x \<noteq> Inr (Some e)"
  shows "q' = q"
  using assms by (auto simp: reserve_next_def Let_def split: option.splits if_splits)

lemma reserve_next_change: "plain_change m n (tq_entries q) (tq_entries (snd (reserve_next sid aid expected q)))"
proof (cases "reserve_next sid aid expected q")
  case (Pair x q')
  show ?thesis
  proof (cases "\<exists>e. x = Inr (Some e)")
    case True
    with Pair obtain e' where "reserve_next sid aid expected q = (Inr (Some e'), q')" by auto
    then show ?thesis
      by (rule reserve_next_Some) (auto simp: Pair advanced_def same_input_def bump_def intro!: plain_reserved)
  next
    case False
    then show ?thesis using reserve_next_other [OF Pair] Pair plain_same by auto
  qed
qed

lemma reserve_steering_change:
  "plain_change m n (tq_entries q) (tq_entries (snd (reserve_steering sid aid trace q)))"
  by (auto simp: reserve_steering_def Let_def entry_change_defs
      intro!: plain_same plain_advanced sql_update_all2 split: sum.splits)

text \<open>A steering batch either fails and leaves the queue as it was, or changes exactly the
  requested entries, all of which were in an allowed state.\<close>

lemma steering_batch_Inl:
  "transition_steering_batch now ids trace allowed target q = (Inl err, q') \<Longrightarrow> q' = q"
  by (auto simp: transition_steering_batch_def Let_def split: if_splits sum.splits option.splits)

lemma steering_batch_Inr:
  assumes "transition_steering_batch now ids trace allowed target q = (Inr es, q')"
  shows "tq_entries q' = sql_update (\<lambda>e. q_queue_id e \<in> set (requested_ids ids)) (steering_update now target)
      (tq_entries q)"
    and "tq_idempotency q' = tq_idempotency q \<and> tq_max_pending q' = tq_max_pending q"
    and "requested_ids ids \<noteq> [] \<longrightarrow>
      length (filter (\<lambda>e. q_queue_id e \<in> set (requested_ids ids)) (tq_entries q)) = card (set (requested_ids ids))"
    and "e \<in> set (tq_entries q) \<Longrightarrow> q_queue_id e \<in> set (requested_ids ids) \<Longrightarrow>
      q_intent e = STEER_CURRENT \<and> q_target_trace_id e = Some (str_strip trace) \<and> q_status e \<in> set allowed"
  using assms
  by (auto simp: transition_steering_batch_def require_non_empty_def sql_update_def find_None_iff Let_def
      split: if_splits option.splits)

lemma steering_batch_all2:
  assumes "transition_steering_batch now ids trace allowed target q = (x, q')" "\<And>e. P e e"
    and "\<And>e. q_intent e = STEER_CURRENT \<Longrightarrow> q_status e \<in> set allowed \<Longrightarrow> P e (steering_update now target e)"
  shows "list_all2 P (tq_entries q) (tq_entries q')"
proof (cases x)
  case (Inl err)
  then show ?thesis using assms(1) steering_batch_Inl [of now ids trace allowed target q err q']
    by (simp add: list.rel_refl assms(2))
next
  case (Inr es)
  with assms(1) have b: "transition_steering_batch now ids trace allowed target q = (Inr es, q')" by simp
  show ?thesis
    unfolding steering_batch_Inr(1) [OF b]
    using steering_batch_Inr(4) [OF b] by (auto intro!: sql_update_all2 assms(2,3))
qed

lemma complete_steering_change: "plain_change m n (tq_entries q) (tq_entries (snd (complete_steering now ids trace q)))"
  unfolding complete_steering_def
  by (rule plain_advanced, rule steering_batch_all2 [OF surjective_pairing])
    (auto simp: steering_update_def entry_change_defs)

lemma compensate_steering_change:
  "list_all2 stays_or_compensated (tq_entries q) (tq_entries (snd (compensate_steering now ids trace q)))"
  unfolding compensate_steering_def
  by (rule steering_batch_all2 [OF surjective_pairing]) (auto simp: steering_update_def entry_change_defs)

text \<open>Writing one entry back under its identifier.\<close>

lemma replace_by_id_entries:
  assumes "\<And>e e'. updater e = Inr e' \<Longrightarrow> stays_or_advances e e'"
  shows "plain_change m n (tq_entries q) (tq_entries (snd (replace_by_id queue_id updater q)))"
  using assms
  by (auto simp: replace_by_id_def intro!: plain_same plain_set split: option.splits sum.splits)

lemma st_bind_emit_entries:
  "tq_entries (snd (st_bind f (\<lambda>u q. (Inr (g u), emit t (p u) q)) q)) = tq_entries (snd (f q))"
  by (auto simp: st_bind_def split: prod.splits sum.splits)

lemma entry_updates_advance:
  "mark_running_entry now trace e = Inr e' \<Longrightarrow> stays_or_advances e e'"
  "requeue_entry e = Inr e' \<Longrightarrow> stays_or_advances e e'"
  "terminal_status status = Inr s \<Longrightarrow> mark_terminal_entry now s e = Inr e' \<Longrightarrow> stays_or_advances e e'"
  by (auto simp: mark_running_entry_def requeue_entry_def mark_terminal_entry_def terminal_status_def
      entry_change_defs elim!: TERMINAL_EVENTS.elims split: if_splits)

lemma mark_running_change: "plain_change m n (tq_entries q) (tq_entries (snd (mark_running now qid trace q)))"
  by (auto simp: mark_running_def st_bind_emit_entries [where g = id, simplified] intro: plain_same
      intro!: replace_by_id_entries entry_updates_advance(1) split: sum.splits)

lemma requeue_change: "plain_change m n (tq_entries q) (tq_entries (snd (requeue qid q)))"
  unfolding requeue_def st_bind_emit_entries [where g = id, simplified]
  by (intro replace_by_id_entries entry_updates_advance(2))

lemma mark_terminal_change: "plain_change m n (tq_entries q) (tq_entries (snd (mark_terminal now qid status q)))"
  by (auto simp: mark_terminal_def intro: plain_same
      intro!: replace_by_id_entries entry_updates_advance(3) split: sum.splits)

lemma mark_terminal_by_trace_change:
  "plain_change m n (tq_entries q) (tq_entries (snd (mark_terminal_by_trace now trace status q)))"
  by (auto simp: mark_terminal_by_trace_def Let_def intro: plain_same
      intro!: plain_set entry_updates_advance(3) split: sum.splits option.splits)

lemmas plain_changes = drop_change move_change reserve_next_change reserve_steering_change complete_steering_change
  mark_running_change requeue_change mark_terminal_change mark_terminal_by_trace_change enqueue_change

lemma run_call_change:
  "queue_change (tq_max_pending q) (set (new_ids [c])) (tq_entries q) (tq_entries (run_call c q))"
  by (cases c) (simp_all add: plain_changes compensate_steering_change queue_change_def)

lemma run_call_plain:
  "\<not> is_compensation c \<Longrightarrow>
     plain_change (tq_max_pending q) (set (new_ids [c])) (tq_entries q) (tq_entries (run_call c q))"
  by (cases c) (simp_all add: plain_changes)

lemma st_bind_emit_fields:
  "tq_idempotency (snd (st_bind f (\<lambda>u q. (Inr (g u), emit t (p u) q)) q)) = tq_idempotency (snd (f q))"
  "tq_max_pending (snd (st_bind f (\<lambda>u q. (Inr (g u), emit t (p u) q)) q)) = tq_max_pending (snd (f q))"
  by (auto simp: st_bind_def split: prod.splits sum.splits)

lemma replace_by_id_fields [simp]:
  "tq_idempotency (snd (replace_by_id qid u q)) = tq_idempotency q"
  "tq_max_pending (snd (replace_by_id qid u q)) = tq_max_pending q"
  by (auto simp: replace_by_id_def split: option.splits sum.splits)

lemma steering_batch_fields [simp]:
  "tq_idempotency (snd (transition_steering_batch now ids trace allowed target q)) = tq_idempotency q"
  "tq_max_pending (snd (transition_steering_batch now ids trace allowed target q)) = tq_max_pending q"
  by (auto simp: transition_steering_batch_def Let_def split: if_splits sum.splits option.splits)

lemmas queue_op_defs = drop_entry_def move_entry_def reserve_next_def reserve_steering_def complete_steering_def
  compensate_steering_def mark_running_def requeue_def mark_terminal_def mark_terminal_by_trace_def

text \<open>Only \<open>enqueue\<close> touches the idempotency index, and no call changes the limit.\<close>

lemma run_call_idempotency: "new_ids [c] = [] \<Longrightarrow> tq_idempotency (run_call c q) = tq_idempotency q"
  by (cases c) (auto simp: queue_op_defs st_bind_emit_fields [where g = id, simplified] Let_def
      split: sum.splits option.splits if_splits prod.splits)

lemma enqueue_max_pending [simp]: "tq_max_pending (snd (enqueue new_id now r q)) = tq_max_pending q"
  by (auto simp: enqueue_def enqueue_locked_def raise_if_full_def st_bind_def Let_def
      split: sum.splits option.splits if_splits prod.splits)

lemma run_call_max_pending [simp]: "tq_max_pending (run_call c q) = tq_max_pending q"
  by (cases c) (auto simp: queue_op_defs st_bind_emit_fields [where g = id, simplified] Let_def
      split: sum.splits option.splits if_splits prod.splits)

lemma run_calls_max_pending [simp]: "tq_max_pending (run_calls cs q) = tq_max_pending q"
  by (induction cs arbitrary: q) simp_all

end
