(* ===== verification/Turn_Queue_Inv.thy ===== *)
theory Turn_Queue_Inv
  imports Turn_Queue_Spec
begin

text \<open>
  Invariants of the turn-input queue over sequences of calls, derived from the abstract
  description: reservations and pending inputs are counted, identifiers stay unique and an
  entry only moves to later states of itself, finished inputs stay, and the idempotency index
  keeps pointing at a stored entry. The last section analyses steering batches and moves.
\<close>

section \<open>Counting entries\<close>

lemma filter_all2_le:
  assumes "list_all2 R xs ys" "\<And>x y. R x y \<Longrightarrow> P y \<Longrightarrow> P x"
  shows "length (filter P ys) \<le> length (filter P xs)"
  using assms(1) by (induction rule: list_all2_induct) (auto dest: assms(2))

lemma same_input_fields:
  assumes "same_input e e'"
  shows "q_queue_id e' = q_queue_id e" "q_session_id e' = q_session_id e" "q_agent_id e' = q_agent_id e"
    "q_intent e' = q_intent e"
  using assms unfolding same_input_def by (cases e; cases e'; simp)+

lemma same_input_refl [simp]: "same_input e e"
  by (simp add: same_input_def)

lemma same_input_bump [simp]: "same_input e (bump e)"
  by (simp add: same_input_def bump_def)

lemma same_input_trans: "same_input a b \<Longrightarrow> same_input b c \<Longrightarrow> same_input a c"
  unfolding same_input_def
  by (cases a; cases b; cases c) simp

lemma stays_fields:
  assumes "stays_or_advances e e' \<or> stays_or_compensated e e'"
  shows "q_queue_id e' = q_queue_id e" "q_session_id e' = q_session_id e" "q_agent_id e' = q_agent_id e"
    "q_intent e' = q_intent e" "same_input e e'"
  using assms same_input_fields [of e e']
  by (auto simp: stays_or_advances_def stays_or_compensated_def advanced_def)

section \<open>One reservation at a time\<close>

definition next_reserved :: "string \<Rightarrow> string \<Rightarrow> queue_entry list \<Rightarrow> nat" where
  "next_reserved sid aid es = length (filter (\<lambda>e. reserved_for sid aid e \<and> q_intent e = QUEUE_NEXT) es)"

lemma next_reserved_plain:
  assumes "plain_change m n es es'" "next_reserved sid aid es \<le> 1"
  shows "next_reserved sid aid es' \<le> 1"
  using assms
proof (induction rule: plain_change.induct)
  case (plain_advanced es es')
  have "next_reserved sid aid es' \<le> next_reserved sid aid es"
    unfolding next_reserved_def using plain_advanced(1)
    by (rule filter_all2_le) (auto simp: stays_or_advances_def reserved_for_def advanced_def dest: same_input_fields)
  with plain_advanced show ?case by simp
next
  case (plain_reserved l e r e')
  then have "same_input e e'" by (simp add: advanced_def)
  note fields = same_input_fields [OF this]
  have none: "filter (\<lambda>e. reserved_for sid aid e \<and> q_intent e = QUEUE_NEXT) l = [] \<and>
      filter (\<lambda>e. reserved_for sid aid e \<and> q_intent e = QUEUE_NEXT) r = []"
    if "reserved_for sid aid e'"
    using that plain_reserved(1) fields by (auto simp: filter_empty_conv reserved_for_def)
  show ?case
  proof (cases "reserved_for sid aid e'")
    case True
    with none show ?thesis by (simp add: next_reserved_def)
  next
    case False
    with plain_reserved.prems show ?thesis by (auto simp: next_reserved_def split: if_splits)
  qed
next
  case (plain_moved e l r l' r')
  then have "filter P l @ filter P r = filter P l' @ filter P r'" for P by (metis filter_append)
  from arg_cong [where f = length, OF this] plain_moved show ?case
    by (auto simp: next_reserved_def reserved_for_def split: if_splits)
qed (auto simp: next_reserved_def reserved_for_def split: if_splits)

lemma next_reserved_call:
  assumes "next_reserved sid aid (tq_entries q) \<le> 1"
  shows "next_reserved sid aid (tq_entries (run_call c q)) \<le> 1"
  using run_call_change [of q c] unfolding queue_change_def
proof
  assume "list_all2 stays_or_compensated (tq_entries q) (tq_entries (run_call c q))"
  then have "next_reserved sid aid (tq_entries (run_call c q)) \<le> next_reserved sid aid (tq_entries q)"
    unfolding next_reserved_def by (rule filter_all2_le) (auto simp: stays_or_compensated_def reserved_for_def)
  with assms show ?thesis by simp
qed (use assms next_reserved_plain in blast)

lemma next_reserved_calls:
  "next_reserved sid aid (tq_entries q) \<le> 1 \<Longrightarrow> next_reserved sid aid (tq_entries (run_calls cs q)) \<le> 1"
proof (induction cs arbitrary: q)
  case (Cons c cs)
  then show ?case using next_reserved_call [of sid aid q c] by simp
qed simp

section \<open>The limit on pending inputs\<close>

lemma pending_moved: "l @ r = l' @ r' \<Longrightarrow> pending_in sid (l' @ bump e # r') = pending_in sid (l @ e # r)"
proof -
  assume "l @ r = l' @ r'"
  then have "filter P l @ filter P r = filter P l' @ filter P r'" for P by (metis filter_append)
  from arg_cong [where f = length, OF this] show ?thesis by (simp add: pending_in_def)
qed

lemma pending_plain:
  assumes "plain_change m n es es'" "int (pending_in sid es) \<le> m"
  shows "int (pending_in sid es') \<le> m"
  using assms
proof (induction rule: plain_change.induct)
  case (plain_advanced es es')
  have "pending_in sid es' \<le> pending_in sid es"
    unfolding pending_in_def using plain_advanced(1)
    by (rule filter_all2_le)
      (auto simp: stays_or_advances_def advanced_def QUEUE_ACTIVE_STATUSES_def dest: same_input_fields
        elim!: status_edge.elims)
  with plain_advanced show ?case by simp
next
  case (plain_reserved l e r e')
  then have "q_status e = QUEUED" "q_session_id e' = q_session_id e"
    by (auto simp: advanced_def dest: same_input_fields elim: status_edge.elims)
  with plain_reserved show ?case by (auto simp: pending_in_def QUEUE_ACTIVE_STATUSES_def)
next
  case (plain_moved e l r l' r')
  then show ?case using pending_moved [OF plain_moved(2), of sid e] by simp
qed (auto simp: pending_in_def split: if_splits)

lemma pending_calls:
  "int (pending_in sid (tq_entries q)) \<le> tq_max_pending q \<Longrightarrow> \<not> list_ex is_compensation cs \<Longrightarrow>
     int (pending_in sid (tq_entries (run_calls cs q))) \<le> tq_max_pending q"
proof (induction cs arbitrary: q)
  case (Cons c cs)
  then have "int (pending_in sid (tq_entries (run_call c q))) \<le> tq_max_pending q"
    using pending_plain [OF run_call_plain] by simp
  with Cons.IH [of "run_call c q"] Cons.prems show ?case by simp
qed simp

section \<open>Identifiers and versions\<close>

definition ids :: "turn_queue \<Rightarrow> string set" where
  "ids q = q_queue_id ` set (tq_entries q)"

lemma all2_ids:
  "list_all2 R es es' \<Longrightarrow> (\<And>e e'. R e e' \<Longrightarrow> q_queue_id e' = q_queue_id e) \<Longrightarrow>
     map q_queue_id es' = map q_queue_id es"
  by (induction rule: list_all2_induct) auto

lemma all2_origin: "list_all2 R es es' \<Longrightarrow> e' \<in> set es' \<Longrightarrow> \<exists>e\<in>set es. R e e'"
  by (induction rule: list_all2_induct) auto

lemma distinct_map_middle:
  "distinct (map f (l @ x # r)) \<longleftrightarrow> distinct (map f (l @ r)) \<and> f x \<notin> f ` set (l @ r)"
  by auto

text \<open>How an entry relates to a later state of itself.\<close>

definition later :: "queue_entry \<Rightarrow> queue_entry \<Rightarrow> bool" where
  "later e e' \<longleftrightarrow> same_input e e' \<and> q_status_version e \<le> q_status_version e' \<and>
     (q_status_version e = q_status_version e' \<longrightarrow> e' = e)"

lemma later_refl [simp]: "later e e"
  by (simp add: later_def)

lemma later_trans: "later a b \<Longrightarrow> later b c \<Longrightarrow> later a c"
  unfolding later_def by (metis order.antisym order.trans same_input_trans)

lemma stays_later: "stays_or_advances e e' \<or> stays_or_compensated e e' \<Longrightarrow> later e e'"
  by (auto simp: later_def stays_or_advances_def stays_or_compensated_def advanced_def)

text \<open>Every entry after a call is a later state of one before it, or carries a new identifier.\<close>

lemma all2_later:
  assumes "list_all2 R es es'" "\<And>e e'. R e e' \<Longrightarrow> stays_or_advances e e' \<or> stays_or_compensated e e'" "e' \<in> set es'"
  shows "\<exists>e\<in>set es. q_queue_id e = q_queue_id e' \<and> later e e'"
  using all2_origin [OF assms(1,3)] assms(2) stays_later stays_fields(1) by metis

lemma plain_origin:
  assumes "plain_change m n es es'" "e' \<in> set es'"
  shows "(\<exists>e\<in>set es. q_queue_id e = q_queue_id e' \<and> later e e') \<or> q_queue_id e' \<in> n"
  using assms
proof (induction rule: plain_change.induct)
  case (plain_advanced es es')
  then show ?case using all2_later by blast
next
  case (plain_reserved l e r x)
  then have "later e x" "q_queue_id x = q_queue_id e"
    by (auto simp: advanced_def later_def dest: same_input_fields)
  with plain_reserved show ?case by auto
next
  case (plain_moved e l r l' r')
  have "later e (bump e)" by (simp add: later_def)
  moreover have "set l' \<union> set r' = set l \<union> set r" using plain_moved(2) by (metis set_append)
  ultimately show ?case using plain_moved.prems by fastforce
qed auto

lemma change_origin:
  assumes "queue_change m n es es'" "e' \<in> set es'"
  shows "(\<exists>e\<in>set es. q_queue_id e = q_queue_id e' \<and> later e e') \<or> q_queue_id e' \<in> n"
  using assms plain_origin all2_later unfolding queue_change_def by blast

lemma plain_unique:
  assumes "plain_change m n es es'" "distinct (map q_queue_id es)" "n \<inter> q_queue_id ` set es = {}"
  shows "distinct (map q_queue_id es')"
  using assms
proof (induction rule: plain_change.induct)
  case (plain_advanced es es')
  then show ?case using all2_ids [of stays_or_advances es es'] stays_fields(1) by metis
next
  case (plain_reserved l e r e')
  then have "q_queue_id e' = q_queue_id e" by (auto simp: advanced_def dest: same_input_fields)
  with plain_reserved show ?case by auto
next
  case (plain_moved e l r l' r')
  then show ?case unfolding distinct_map_middle by simp
qed auto

lemma change_unique:
  assumes "queue_change m n es es'" "distinct (map q_queue_id es)" "n \<inter> q_queue_id ` set es = {}"
  shows "distinct (map q_queue_id es')"
  using assms(1) unfolding queue_change_def
proof
  assume "list_all2 stays_or_compensated es es'"
  then show ?thesis using assms(2) all2_ids [of stays_or_compensated es es'] stays_fields(1) by metis
qed (use assms plain_unique in blast)

lemma change_later:
  assumes "queue_change m n es es'" "distinct (map q_queue_id es)" "n \<inter> q_queue_id ` set es = {}"
    and "e \<in> set es" "e' \<in> set es'" "q_queue_id e' = q_queue_id e"
  shows "later e e'"
  using change_origin [OF assms(1,5)] assms(2-4,6) by (auto simp: distinct_map dest: inj_onD)

text \<open>The same over a sequence of calls with fresh identifiers.\<close>

definition ids_ok :: "turn_queue \<Rightarrow> queue_call list \<Rightarrow> bool" where
  "ids_ok q cs \<longleftrightarrow> distinct (map q_queue_id (tq_entries q)) \<and> distinct (new_ids cs) \<and> set (new_ids cs) \<inter> ids q = {}"

lemma new_ids_Cons: "new_ids (c # cs) = new_ids [c] @ new_ids cs"
  using new_ids_append [of "[c]" cs] by simp

lemma run_call_ids: "ids (run_call c q) \<subseteq> ids q \<union> set (new_ids [c])"
proof
  fix k assume "k \<in> ids (run_call c q)"
  then obtain e' where e': "e' \<in> set (tq_entries (run_call c q))" "k = q_queue_id e'" by (auto simp: ids_def)
  from change_origin [OF run_call_change e'(1)] show "k \<in> ids q \<union> set (new_ids [c])"
    unfolding e'(2) by (auto simp: ids_def image_iff) metis
qed

lemma run_calls_ids: "ids (run_calls cs q) \<subseteq> ids q \<union> set (new_ids cs)"
proof (induction cs arbitrary: q)
  case (Cons c cs)
  from Cons [of "run_call c q"] run_call_ids [of c q] show ?case by (subst new_ids_Cons) auto
qed simp

lemma ids_ok_Cons: "ids_ok q (c # cs) \<Longrightarrow> ids_ok (run_call c q) cs"
proof -
  assume "ids_ok q (c # cs)"
  then have ok: "distinct (map q_queue_id (tq_entries q))" "set (new_ids [c]) \<inter> ids q = {}"
    "distinct (new_ids cs)" "set (new_ids cs) \<inter> (ids q \<union> set (new_ids [c])) = {}"
    by (simp_all add: ids_ok_def new_ids_Cons [of c cs] Int_Un_distrib Int_Un_distrib2 Int_commute)
  from change_unique [OF run_call_change ok(1)] ok(2) have "distinct (map q_queue_id (tq_entries (run_call c q)))"
    by (simp add: ids_def)
  with ok(3,4) run_call_ids [of c q] show ?thesis unfolding ids_ok_def by blast
qed

lemma ids_ok_append: "ids_ok q (cs @ ds) \<Longrightarrow> ids_ok (run_calls cs q) ds"
  by (induction cs arbitrary: q) (simp_all add: ids_ok_Cons)

lemma ids_ok_init: "fresh_ids cs \<Longrightarrow> ids_ok (TurnInputQueue m) cs"
  by (simp add: ids_ok_def fresh_ids_def ids_def TurnInputQueue_def)

lemma run_calls_later:
  assumes "ids_ok q cs" "e \<in> set (tq_entries q)" "e' \<in> set (tq_entries (run_calls cs q))"
    "q_queue_id e' = q_queue_id e"
  shows "later e e'"
  using assms
proof (induction cs arbitrary: q e)
  case Nil
  then have "e' = e" unfolding ids_ok_def distinct_map by (metis inj_onD run_calls_simps(1))
  then show ?case by simp
next
  case (Cons c cs)
  let ?q = "run_call c q"
  have "q_queue_id e \<notin> set (new_ids (c # cs))" using Cons.prems(1,2) by (auto simp: ids_ok_def ids_def)
  moreover have "q_queue_id e \<in> ids ?q \<union> set (new_ids cs)"
    using Cons.prems(3,4) run_calls_ids [of cs ?q] unfolding ids_def run_calls_simps by (metis image_eqI subsetD)
  ultimately have "q_queue_id e \<in> ids ?q" by (simp add: new_ids_Cons [of c cs])
  then obtain x where x: "x \<in> set (tq_entries ?q)" "q_queue_id x = q_queue_id e" by (auto simp: ids_def)
  have "later e x"
    using change_later [OF run_call_change _ _ Cons.prems(2) x] Cons.prems(1)
    by (simp add: ids_ok_def ids_def new_ids_Cons [of c cs] Int_Un_distrib2)
  moreover have "later x e'"
    using Cons.IH [OF ids_ok_Cons [OF Cons.prems(1)] x(1)] Cons.prems(3,4) x(2) by simp
  ultimately show ?case by (rule later_trans)
qed

section \<open>Finished inputs\<close>

definition finished :: "queue_entry \<Rightarrow> bool" where
  "finished e \<longleftrightarrow> q_status e \<in> {CANCELLED, FAILED, DROPPED, STEER_DEFERRED} \<or>
     q_status e = COMPLETED \<and> q_intent e \<noteq> STEER_CURRENT"

lemma all2_keeps:
  "list_all2 R es es' \<Longrightarrow> e \<in> set es \<Longrightarrow> (\<And>e'. R e e' \<Longrightarrow> e' = e) \<Longrightarrow> e \<in> set es'"
  by (induction rule: list_all2_induct) auto

lemma finished_stays:
  assumes "finished e"
  shows "stays_or_advances e e' \<Longrightarrow> e' = e" "stays_or_compensated e e' \<Longrightarrow> e' = e"
  using assms
  by (auto simp: finished_def stays_or_advances_def stays_or_compensated_def advanced_def elim: status_edge.elims)

lemma plain_keeps_finished:
  assumes "plain_change m n es es'" "e \<in> set es" "finished e"
  shows "e \<in> set es'"
  using assms
proof (induction rule: plain_change.induct)
  case (plain_advanced es es')
  then show ?case using all2_keeps finished_stays(1) by metis
next
  case (plain_moved x l r l' r')
  then have "e \<in> set (l' @ r')" unfolding plain_moved(2) [symmetric] by (auto simp: finished_def)
  then show ?case by simp
qed (auto simp: finished_def advanced_def)

lemma call_keeps_finished:
  assumes "e \<in> set (tq_entries q)" "finished e"
  shows "e \<in> set (tq_entries (run_call c q))"
  using run_call_change [of q c] unfolding queue_change_def
proof
  assume "list_all2 stays_or_compensated (tq_entries q) (tq_entries (run_call c q))"
  from all2_keeps [OF this assms(1) finished_stays(2) [OF assms(2)]] show ?thesis .
qed (use assms plain_keeps_finished in blast)

lemma calls_keep_finished:
  "e \<in> set (tq_entries q) \<Longrightarrow> finished e \<Longrightarrow> e \<in> set (tq_entries (run_calls cs q))"
  by (induction cs arbitrary: q) (simp_all add: call_keeps_finished)

section \<open>Idempotency keys\<close>

lemma find_by_id_None: "k \<noteq> [] \<Longrightarrow> find_by_id k q = None \<longleftrightarrow> k \<notin> ids q"
  by (simp add: find_by_id_def sql_get_None ids_def)

lemma find_by_id_Some: "find_by_id k q = Some e \<Longrightarrow> e \<in> set (tq_entries q) \<and> q_queue_id e = k"
  by (auto simp: find_by_id_def dest: sql_get_Some split: if_splits)

lemma enqueue_locked_indexed:
  assumes "enqueue_locked (Some k) new q = (Inr e, q')"
  shows "tq_idempotency q' k = Some (q_queue_id e)" "q_queue_id e \<in> ids q'"
  using assms
  by (auto simp: enqueue_locked_def raise_if_full_def st_bind_def ids_def Let_def dest: find_by_id_Some
      split: option.splits if_splits)

lemma enqueue_locked_replays:
  assumes "tq_idempotency q k = Some i" "i \<noteq> []" "i \<in> ids q"
  obtains e where "enqueue_locked (Some k) new q = (Inr e, q)" "q_queue_id e = i" "e \<in> set (tq_entries q)"
proof -
  from assms(2,3) obtain e where "find_by_id i q = Some e" using find_by_id_None [of i q] by auto
  with assms(1) find_by_id_Some [OF this] that show thesis by (simp add: enqueue_locked_def)
qed

lemma enqueue_locked_other:
  assumes "tq_idempotency q k = Some i" "i \<noteq> []" "i \<in> ids q"
  shows "tq_idempotency (snd (enqueue_locked key new q)) k = Some i"
proof (cases "key = Some k")
  case True
  then show ?thesis using enqueue_locked_replays [OF assms, of new] assms(1) by (metis snd_conv)
next
  case False
  then show ?thesis using assms(1)
    by (auto simp: enqueue_locked_def raise_if_full_def st_bind_def Let_def split: option.splits if_splits)
qed

lemma index_kept_call:
  assumes "tq_idempotency q k = Some i" "i \<noteq> []" "i \<in> ids q"
  shows "tq_idempotency (run_call c q) k = Some i"
proof (cases c)
  case (Enqueue new_id now r)
  then show ?thesis using assms(1) enqueue_locked_other [OF assms]
    by (auto simp: enqueue_def split: sum.splits)
qed (use run_call_idempotency [of c q] assms(1) in simp_all)

lemma index_kept:
  assumes "tq_idempotency q k = Some i" "i \<noteq> []" "i \<notin> set (new_ids cs)" "i \<in> ids (run_calls cs q)"
  shows "tq_idempotency (run_calls cs q) k = Some i"
  using assms
proof (induction cs arbitrary: q)
  case (Cons c cs)
  from Cons.prems(3) have new: "i \<notin> set (new_ids [c])" "i \<notin> set (new_ids cs)"
    by (simp_all add: new_ids_Cons [of c cs])
  from Cons.prems(4) new(2) have "i \<in> ids (run_call c q)" using run_calls_ids [of cs "run_call c q"] by auto
  with new(1) have "i \<in> ids q" using run_call_ids [of c q] by auto
  from index_kept_call [OF Cons.prems(1,2) this] show ?case
    using Cons.IH [of "run_call c q"] Cons.prems(2,4) new(2) by simp
qed simp

section \<open>Single operations\<close>

lemma requested_found:
  assumes "distinct (map q_queue_id es)"
    "length (filter (\<lambda>e. q_queue_id e \<in> K) es) = card K" "finite K"
  shows "q_queue_id ` set (filter (\<lambda>e. q_queue_id e \<in> K) es) = K"
proof (rule card_subset_eq [OF assms(3)])
  have "distinct (map q_queue_id (filter (\<lambda>e. q_queue_id e \<in> K) es))"
    using assms(1) by (rule distinct_map_filter)
  from distinct_card [OF this] show "card (q_queue_id ` set (filter (\<lambda>e. q_queue_id e \<in> K) es)) = card K"
    using assms(2) by simp
qed auto

lemma steering_batch_result:
  assumes "transition_steering_batch now qids trace allowed target q = (Inr es, q')"
  shows "es = map (\<lambda>k. the (sql_get q_queue_id k
    (map (steering_update now target) (filter (\<lambda>e. q_queue_id e \<in> set (requested_ids qids)) (tq_entries q)))))
    (requested_ids qids)"
  using assms by (auto simp: transition_steering_batch_def Let_def split: if_splits sum.splits option.splits)

lemma steering_update_fields [simp]:
  "q_queue_id (steering_update now target e) = q_queue_id e" "q_status (steering_update now target e) = target"
  by (simp_all add: steering_update_def bump_def)

lemma steering_batch_member:
  assumes b: "transition_steering_batch now qids trace allowed target q = (Inr es, q')"
    and "distinct (map q_queue_id (tq_entries q))" "k \<in> set (requested_ids qids)"
  obtains e where "e \<in> set (tq_entries q)" "q_queue_id e = k"
    "sql_get q_queue_id k (map (steering_update now target)
       (filter (\<lambda>e. q_queue_id e \<in> set (requested_ids qids)) (tq_entries q))) = Some (steering_update now target e)"
proof -
  let ?ms = "filter (\<lambda>e. q_queue_id e \<in> set (requested_ids qids)) (tq_entries q)"
  have "q_queue_id ` set ?ms = set (requested_ids qids)"
    using requested_found [OF assms(2)] steering_batch_Inr(3) [OF b] assms(3) by fastforce
  then have "k \<in> q_queue_id ` set (map (steering_update now target) ?ms)"
    using assms(3) by (simp add: image_image)
  then obtain x where x: "sql_get q_queue_id k (map (steering_update now target) ?ms) = Some x"
    using sql_get_None [of q_queue_id k "map (steering_update now target) ?ms"] by auto
  have "x \<in> steering_update now target ` set ?ms" "q_queue_id x = k" using sql_get_Some [OF x] by simp_all
  then obtain e where "e \<in> set ?ms" "x = steering_update now target e" by blast
  with x \<open>q_queue_id x = k\<close> that [of e] show thesis by simp
qed

text \<open>A move takes the entry out and, when the target is found, puts it back next to it.\<close>

lemma pop_by_id:
  assumes "distinct (map q_queue_id es)" "i < length es"
  shows "list_pop i es = filter (\<lambda>e. q_queue_id e \<noteq> q_queue_id (es ! i)) es"
proof -
  from assms(2) obtain l r where es: "es = l @ es ! i # r" and pop: "list_pop i es = l @ r"
    by (metis Suc_eq_plus1 id_take_nth_drop list_pop_def)
  from assms(1) have "distinct (map q_queue_id (l @ es ! i # r))" using es by simp
  then have "\<forall>e\<in>set (l @ r). q_queue_id e \<noteq> q_queue_id (es ! i)"
    unfolding distinct_map_middle by (metis image_eqI)
  then have "filter (\<lambda>e. q_queue_id e \<noteq> q_queue_id (es ! i)) (l @ es ! i # r) = l @ r" by simp
  with es pop show ?thesis by simp
qed

lemma move_cases:
  assumes "find_for_session sid qid q = Inr (i, e)" "assert_status_version e v = Inr ()" "q_status e = QUEUED"
    "\<not> (opt_truthy before \<and> opt_truthy after)"
  shows "move_entry sid qid v before after q =
     (case resolve_move_index sid before after (list_pop i (tq_entries q)) of
        Inl err \<Rightarrow> (Inl err, q\<lparr>tq_entries := list_pop i (tq_entries q)\<rparr>)
      | Inr t \<Rightarrow> (Inr (bump e), emit ''turn_input.moved''
          (Payload_moved ((bump e)\<lparr>q_text := []\<rparr>) (redact_text_preview 80 (q_text (bump e))) before after)
          (q\<lparr>tq_entries := list_insert t (bump e) (list_pop i (tq_entries q))\<rparr>)))"
  using assms by (auto simp: move_entry_def Let_def split: sum.splits)

lemma move_entry_Inr:
  assumes "move_entry sid qid v before after q = (Inr e', q')"
  obtains i e t where "find_for_session sid qid q = Inr (i, e)" "e' = bump e"
    "\<not> (opt_truthy before \<and> opt_truthy after)"
    "resolve_move_index sid before after (list_pop i (tq_entries q)) = Inr t"
    "tq_entries q' = list_insert t e' (list_pop i (tq_entries q))"
  using assms
  by (auto simp: move_entry_def Let_def rbind_def split: sum.splits prod.splits if_splits)

lemma resolve_before:
  assumes "resolve_move_index sid before after es = Inr t" "opt_truthy before"
  shows "\<exists>x r. drop t es = x # r \<and> Some (q_queue_id x) = before"
proof -
  from assms obtain b where b: "before = Some b" "index_of (\<lambda>e. q_session_id e = sid \<and> q_queue_id e = b) es = Some t"
    by (cases before) (auto simp: resolve_move_index_def Let_def split: option.splits)
  from index_of_Some [OF b(2)] b(1) show ?thesis by (metis Cons_nth_drop_Suc)
qed

lemma resolve_after:
  assumes "resolve_move_index sid before after es = Inr t" "opt_truthy after" "\<not> opt_truthy before"
  shows "take t es \<noteq> [] \<and> Some (q_queue_id (last (take t es))) = after"
proof -
  from assms obtain b i where b: "after = Some b" "t = i + 1"
    "index_of (\<lambda>e. q_session_id e = sid \<and> q_queue_id e = b) es = Some i"
    by (cases after) (auto simp: resolve_move_index_def Let_def split: option.splits)
  from index_of_Some [OF b(3)] b(1,2) show ?thesis by (auto simp: take_Suc_conv_app_nth)
qed

lemma resolve_end:
  assumes "resolve_move_index sid before after es = Inr t" "\<not> opt_truthy after" "\<not> opt_truthy before"
  shows "t = length es"
  using assms by (auto simp: resolve_move_index_def)

end
