(* ===== verification/Turn_Queue_Properties.thy ===== *)
theory Turn_Queue_Properties
  imports Turn_Queue_Inv
begin

text \<open>
  The properties of the turn-input queue: one reservation at a time, the limit on pending
  inputs, versions that identify an entry's state, finality of finished inputs, idempotent
  enqueueing, steering batches as a whole, and moves with and without their target.
\<close>

section \<open>A scenario\<close>

definition demo_input :: "string \<Rightarrow> string \<Rightarrow> string option \<Rightarrow> enqueue_request" where
  "demo_input text intent key =
     \<lparr>rq_session_id = ''s'', rq_agent_id = ''a'', rq_text = text, rq_intent = intent, rq_source_client = ''c'',
      rq_idempotency_key = key, rq_priority = 0, rq_metadata = [], rq_steer_supported = True,
      rq_target_trace_id = Some ''t''\<rparr>"

definition demo_calls :: "queue_call list" where
  "demo_calls =
     [Enqueue ''1'' ''n'' (demo_input ''x'' ''queue_next'' (Some ''k'')),
      Enqueue ''2'' ''n'' (demo_input ''y'' ''queue_next'' None),
      Enqueue ''3'' ''n'' (demo_input ''z'' ''steer_current'' None)]"

definition demo_queue :: turn_queue where
  "demo_queue = run_calls demo_calls (TurnInputQueue 5)"

section \<open>Properties\<close>

text \<open>C12: Mutual exclusion of reservations. Whatever sequence of calls is made on a new queue,
  at most one \<open>queue_next\<close> input of a session and agent is reserved at any time: two clients
  that serve the same session cannot both hold the next input.\<close>

theorem one_reservation_at_a_time:
  "length (filter (\<lambda>e. q_session_id e = sid \<and> q_agent_id e = aid \<and> q_status e = RESERVED \<and> q_intent e = QUEUE_NEXT)
     (tq_entries (run_calls cs (TurnInputQueue m)))) \<le> 1"
  using next_reserved_calls [of sid aid "TurnInputQueue m" cs]
  by (simp add: next_reserved_def reserved_for_def TurnInputQueue_def)

text \<open>The limit. As long as no steering input is compensated, the inputs of a session that
  are queued, reserved or running never exceed \<open>max_pending_per_session\<close> (at least one).\<close>

lemma pending_within_limit:
  assumes "\<not> list_ex is_compensation cs"
  shows "int (length (filter (\<lambda>e. q_session_id e = sid \<and> q_status e \<in> {QUEUED, RESERVED, RUNNING})
     (tq_entries (run_calls cs (TurnInputQueue m))))) \<le> max 1 m"
  using pending_calls [of sid "TurnInputQueue m" cs] assms
  by (simp add: pending_in_def QUEUE_ACTIVE_STATUSES_def TurnInputQueue_def)

text \<open>Versions identify states. When an input seen in the queue is seen again later, it is the
  same input, its \<open>status_version\<close> has not decreased, and if the version is the same then no
  field has changed. A client that passes the version it saw therefore acts on the state it saw.\<close>

lemma version_identifies_state:
  assumes "fresh_ids (cs @ ds)"
    and "e \<in> set (tq_entries (run_calls cs (TurnInputQueue m)))"
    and "e' \<in> set (tq_entries (run_calls (cs @ ds) (TurnInputQueue m)))"
    and "q_queue_id e' = q_queue_id e"
  shows "same_input e e' \<and> q_status_version e \<le> q_status_version e' \<and>
    (q_status_version e = q_status_version e' \<longrightarrow> e' = e)"
  using run_calls_later [OF ids_ok_append [OF ids_ok_init [OF assms(1)]] assms(2) _ assms(4)] assms(3)
  by (simp add: later_def)

text \<open>Finished inputs are final. An input that was cancelled, failed, dropped or deferred, or
  completed as a \<open>queue_next\<close> input, stays in the queue exactly as it is, whatever is called
  afterwards.\<close>

lemma finished_inputs_are_final:
  assumes "e \<in> set (tq_entries q)"
    and "q_status e \<in> {CANCELLED, FAILED, DROPPED, STEER_DEFERRED} \<or>
      q_status e = COMPLETED \<and> q_intent e \<noteq> STEER_CURRENT"
  shows "e \<in> set (tq_entries (run_calls cs q))"
  using calls_keep_finished assms unfolding finished_def by blast

text \<open>Idempotent enqueueing. After an \<open>enqueue\<close> with an idempotency key succeeded, a later
  \<open>enqueue\<close> of the same session and agent with that key returns the entry stored then, in its
  present state, and changes nothing, for as long as that entry is in the queue.\<close>

lemma enqueue_is_idempotent:
  assumes "fresh_ids (cs @ Enqueue i now r # ds)"
    and "enqueue i now r (run_calls cs (TurnInputQueue m)) = (Inr e, q1)"
    and "enqueue_args i now r = Inr (Some k, new1)" "enqueue_args j now2 r2 = Inr (Some k, new2)"
    and "q2 = run_calls ds q1" "q_queue_id e \<in> q_queue_id ` set (tq_entries q2)"
  shows "\<exists>e2. enqueue j now2 r2 q2 = (Inr e2, q2) \<and> e2 \<in> set (tq_entries q2) \<and> q_queue_id e2 = q_queue_id e"
proof -
  let ?init = "TurnInputQueue m"
  have locked: "enqueue_locked (Some k) new1 (run_calls cs ?init) = (Inr e, q1)"
    using assms(2,3) by (simp add: enqueue_def)
  note indexed = enqueue_locked_indexed [OF locked]
  have q1: "q1 = run_calls (cs @ [Enqueue i now r]) ?init" using assms(2) by simp
  have "ids q1 \<subseteq> set (new_ids (cs @ [Enqueue i now r]))"
    using run_calls_ids [of "cs @ [Enqueue i now r]" ?init] unfolding q1 by (simp add: ids_def TurnInputQueue_def)
  with indexed(2) assms(1) have "q_queue_id e \<noteq> []" "q_queue_id e \<notin> set (new_ids ds)"
    by (auto simp: fresh_ids_def)
  moreover from assms(5,6) have "q_queue_id e \<in> ids (run_calls ds q1)" by (simp add: ids_def)
  ultimately obtain e2 where "enqueue_locked (Some k) new2 q2 = (Inr e2, q2)" "q_queue_id e2 = q_queue_id e"
    "e2 \<in> set (tq_entries q2)"
    using enqueue_locked_replays [OF index_kept [OF indexed(1)]] assms(5) by metis
  then show ?thesis using assms(4) by (auto simp: enqueue_def)
qed

text \<open>Steering batches are all or nothing. \<open>complete_steering\<close> and \<open>compensate_steering\<close> either
  fail and leave the queue as it was, or return one updated entry per requested identifier, all
  of them steering inputs of the given trace that were in an allowed state; no other entry
  changes.\<close>

lemma steering_batch_all_or_nothing:
  assumes "distinct (map q_queue_id (tq_entries q))"
  shows "case transition_steering_batch now qids trace allowed target q of
      (Inl err, q') \<Rightarrow> q' = q
    | (Inr es, q') \<Rightarrow>
        map q_queue_id es = requested_ids qids \<and>
        (\<forall>e'\<in>set es. e' \<in> set (tq_entries q') \<and> q_status e' = target \<and>
          (\<exists>e\<in>set (tq_entries q). e' = steering_update now target e \<and> q_intent e = STEER_CURRENT \<and>
             q_target_trace_id e = Some (str_strip trace) \<and> q_status e \<in> set allowed)) \<and>
        (\<forall>e\<in>set (tq_entries q). q_queue_id e \<notin> set (requested_ids qids) \<longrightarrow> e \<in> set (tq_entries q'))"
proof (cases "transition_steering_batch now qids trace allowed target q")
  case (Pair x q')
  show ?thesis
  proof (cases x)
    case (Inl err)
    with Pair show ?thesis using steering_batch_Inl by auto
  next
    case (Inr es)
    with Pair have b: "transition_steering_batch now qids trace allowed target q = (Inr es, q')" by simp
    note result = steering_batch_result [OF b] and upd = steering_batch_Inr(1) [OF b]
    have one: "q_queue_id (the (sql_get q_queue_id k (map (steering_update now target)
         (filter (\<lambda>e. q_queue_id e \<in> set (requested_ids qids)) (tq_entries q))))) = k"
      if "k \<in> set (requested_ids qids)" for k
      using steering_batch_member [OF b assms that] by (metis option.sel steering_update_fields(1))
    have member: "\<exists>e\<in>set (tq_entries q). e' = steering_update now target e \<and> q_queue_id e \<in> set (requested_ids qids)"
      if e': "e' \<in> set es" for e'
    proof -
      from e' obtain k where k: "k \<in> set (requested_ids qids)" "e' = the (sql_get q_queue_id k
        (map (steering_update now target) (filter (\<lambda>e. q_queue_id e \<in> set (requested_ids qids)) (tq_entries q))))"
        unfolding result by auto
      from steering_batch_member [OF b assms k(1)] k show ?thesis by (metis option.sel)
    qed
    have "map q_queue_id es = requested_ids qids" unfolding result using one by (simp add: map_idI)
    with member steering_batch_Inr(4) [OF b] show ?thesis
      unfolding b by (fastforce simp: upd set_sql_update)
  qed
qed

text \<open>A successful \<open>move\<close> only changes the order. The moved entry has its version increased,
  all other entries keep their order, and the entry stands right before the one named by
  \<open>before_queue_id\<close>, right after the one named by \<open>after_queue_id\<close>, or at the end.\<close>

lemma move_places_entry:
  assumes "distinct (map q_queue_id (tq_entries q))"
    and "move_entry sid qid v before after q = (Inr e', q')"
  shows "\<exists>l r. tq_entries q' = l @ e' # r \<and>
      l @ r = filter (\<lambda>e. q_queue_id e \<noteq> q_queue_id e') (tq_entries q) \<and>
      (\<exists>e\<in>set (tq_entries q). e' = bump e) \<and>
      (opt_truthy before \<longrightarrow> (\<exists>x r'. r = x # r' \<and> Some (q_queue_id x) = before)) \<and>
      (opt_truthy after \<longrightarrow> l \<noteq> [] \<and> Some (q_queue_id (last l)) = after) \<and>
      (\<not> opt_truthy before \<and> \<not> opt_truthy after \<longrightarrow> r = [])"
proof -
  from assms(2) obtain i e t where found: "find_for_session sid qid q = Inr (i, e)" and e': "e' = bump e"
    and one: "\<not> (opt_truthy before \<and> opt_truthy after)"
    and t: "resolve_move_index sid before after (list_pop i (tq_entries q)) = Inr t"
    and q': "tq_entries q' = list_insert t e' (list_pop i (tq_entries q))" by (rule move_entry_Inr)
  from find_for_session_Inr [OF found] have i: "i < length (tq_entries q)" "e = tq_entries q ! i" by auto
  then have pop: "list_pop i (tq_entries q) = filter (\<lambda>e. q_queue_id e \<noteq> q_queue_id e') (tq_entries q)"
    using pop_by_id [OF assms(1) i(1)] e' by simp
  show ?thesis
    by (rule exI [of _ "take t (list_pop i (tq_entries q))"], rule exI [of _ "drop t (list_pop i (tq_entries q))"])
      (use i e' one resolve_before [OF t] resolve_after [OF t] resolve_end [OF t] pop in
        \<open>auto simp: q' list_insert_def\<close>)
qed

text \<open>C13: A \<open>move\<close> of a queued entry, before or after a target, with its current version or with
  none, whose target is the entry itself or no entry of the session, fails with
  \<open>QUEUE_ENTRY_NOT_FOUND\<close>, and the entry that was to be moved is then no longer in the queue:
  it was taken out before the target was looked up. The identifiers of the queue are distinct, and
  those of the entry and of its session are not empty and carry no surrounding spaces.\<close>

theorem failed_move_loses_entry:
  assumes "distinct (map q_queue_id (tq_entries q))" "e \<in> set (tq_entries q)" "q_status e = QUEUED"
    and "str_strip (q_session_id e) = q_session_id e" "q_session_id e \<noteq> []"
    and "str_strip (q_queue_id e) = q_queue_id e" "q_queue_id e \<noteq> []"
    and "version \<in> {None, Some (q_status_version e)}"
    and "before = Some target \<and> \<not> opt_truthy after \<or> \<not> opt_truthy before \<and> after = Some target" and "target \<noteq> []"
    and "target = q_queue_id e \<or> \<not> list_ex (\<lambda>e'. q_session_id e' = q_session_id e \<and> q_queue_id e' = target) (tq_entries q)"
    and "move_entry (q_session_id e) (q_queue_id e) version before after q = (x, q')"
  shows "(\<exists>err. x = Inl err \<and> qe_code err = ''QUEUE_ENTRY_NOT_FOUND'') \<and>
    tq_entries q' = filter (\<lambda>e'. q_queue_id e' \<noteq> q_queue_id e) (tq_entries q)"
proof -
  let ?p = "\<lambda>e'. q_session_id e' = q_session_id e \<and> q_queue_id e' = q_queue_id e"
  from assms(2) have "index_of ?p (tq_entries q) \<noteq> None" by (auto simp: index_of_None)
  then obtain i where i: "index_of ?p (tq_entries q) = Some i" by auto
  note index_of_Some [OF i]
  moreover from this assms(1,2) have "tq_entries q ! i = e" by (metis distinct_map inj_onD nth_mem)
  ultimately have pop: "list_pop i (tq_entries q) = filter (\<lambda>e'. q_queue_id e' \<noteq> q_queue_id e) (tq_entries q)"
    and found: "find_for_session (q_session_id e) (q_queue_id e) q = Inr (i, e)"
    using pop_by_id [OF assms(1)] assms(4-7) i by (auto simp: find_for_session_def require_non_empty_def)
  have "index_of (\<lambda>x. q_session_id x = q_session_id e \<and> q_queue_id x = target) (list_pop i (tq_entries q)) = None"
    using assms(11) by (auto simp: index_of_None pop list_ex_iff)
  then obtain err where "resolve_move_index (q_session_id e) before after (list_pop i (tq_entries q)) = Inl err"
    "qe_code err = ''QUEUE_ENTRY_NOT_FOUND''"
    using assms(9,10) by (auto simp: resolve_move_index_def TurnInputQueueError_def)
  with move_cases [OF found, of version before after] assms(3,8,9,12) pop show ?thesis
    by (auto simp: assert_status_version_def)
qed

theorem failed_move_loses_entry_witness:
  "\<exists>e x q'. e \<in> set (tq_entries demo_queue) \<and> q_queue_id e = ''1'' \<and>
     move_entry ''s'' ''1'' None None (Some ''1'') demo_queue = (x, q') \<and> isl x \<and>
     tq_entries q' = filter (\<lambda>e'. q_queue_id e' \<noteq> ''1'') (tq_entries demo_queue)"
proof -
  have ok: "distinct (map q_queue_id (tq_entries demo_queue))" by code_simp
  have "\<exists>e\<in>set (tq_entries demo_queue). q_queue_id e = ''1'' \<and> q_session_id e = ''s'' \<and> q_status e = QUEUED"
    by code_simp
  then obtain e where e: "e \<in> set (tq_entries demo_queue)" "q_queue_id e = ''1''" "q_session_id e = ''s''"
    "q_status e = QUEUED" by blast
  obtain x q' where m: "move_entry ''s'' ''1'' None None (Some ''1'') demo_queue = (x, q')"
    by (cases "move_entry ''s'' ''1'' None None (Some ''1'') demo_queue")
  have "str_strip ''s'' = ''s''" "str_strip ''1'' = ''1''" by code_simp+
  with failed_move_loses_entry [OF ok e(1,4), of None None "''1''" "Some ''1''" x q'] e m show ?thesis by auto
qed

end
