(* ===== verification/Cron_Schedule.thy ===== *)
theory Cron_Schedule
  imports Prelude
begin

text \<open>
  Schedules of recurring jobs (\<open>modules/task/scheduling/schedule.py\<close>): validation of a job's
  schedule, payload, delivery and misfire policy, cron expressions, the next due instant and the
  due points of a job at a poll. An instant is the number of microseconds since 1970-01-01
  00:00 UTC, a wall-clock time the same count read from a local clock. The time zone database,
  the reading of ISO timestamps, the local time zone of the process, SHA-256 and the
  floating-point milliseconds of a timestamp are parameters in \<open>cron_env\<close>, as is the sequence of
  identifiers that \<open>uuid4\<close> draws. Dates beyond the
  range of \<open>datetime\<close> (year 9999) are not treated.
\<close>

section \<open>Environment and errors\<close>

datatype cron_error =
    Cron_ValueError string
  | Cron_TypeError
  | Cron_AttributeError
  | Cron_KeyError string
  | Cron_RuntimeError string
  | Cron_TaskControlError string string
  | Cron_IntegrityError

type_synonym 'a cron_result = "cron_error + 'a"

text \<open>A zone: the wall clock at an instant, and the instant of a wall-clock time with
  \<open>fold = 0\<close> (the first of two in an ambiguous hour).\<close>

record zone =
  to_local :: "int \<Rightarrow> int"
  to_utc :: "int \<Rightarrow> int"

datatype iso_value = Naive int | Aware int

record cron_env =
  env_zones :: "string \<Rightarrow> zone option"
  env_local_key :: "string option"
  env_local_tzname :: string
  env_fromisoformat :: "string \<Rightarrow> iso_value option"
  env_isoformat :: "int \<Rightarrow> string"
  env_sha256_prefix :: "string \<Rightarrow> nat"
  env_timestamp_ms :: "int \<Rightarrow> int"
  env_uuid4 :: "nat \<Rightarrow> string"

section \<open>Reading integers\<close>

definition is_digit :: "char \<Rightarrow> bool" where
  "is_digit c = (let n = (of_char c :: nat) in 48 \<le> n \<and> n \<le> 57)"

definition digit_val :: "char \<Rightarrow> nat" where
  "digit_val c = of_char c - 48"

definition all_digits :: "string \<Rightarrow> bool" where
  "all_digits s = (s \<noteq> [] \<and> list_all is_digit s)"

text \<open>The value of a run of digits, and \<open>int(text)\<close>, which also takes a sign, surrounding space
  and single underscores between digits.\<close>

fun digits_nat :: "nat \<Rightarrow> string \<Rightarrow> nat" where
  "digits_nat acc [] = acc"
| "digits_nat acc (c # cs) = digits_nat (10 * acc + digit_val c) cs"

fun more_digits :: "nat \<Rightarrow> string \<Rightarrow> nat option" where
  "more_digits acc [] = Some acc"
| "more_digits acc (c # cs) =
     (if is_digit c then more_digits (10 * acc + digit_val c) cs
      else if c = CHR ''_'' \<and> (case cs of [] \<Rightarrow> False | d # _ \<Rightarrow> is_digit d) then more_digits acc cs
      else None)"

definition parse_nat :: "string \<Rightarrow> nat option" where
  "parse_nat s = (case s of [] \<Rightarrow> None | c # _ \<Rightarrow> if is_digit c then more_digits 0 s else None)"

definition parse_int :: "string \<Rightarrow> int option" where
  "parse_int text =
     (case str_strip text of
        [] \<Rightarrow> None
      | c # cs \<Rightarrow>
          if c = CHR ''-'' then map_option (\<lambda>n. - int n) (parse_nat cs)
          else if c = CHR ''+'' then map_option int (parse_nat cs)
          else map_option int (parse_nat (c # cs)))"

fun py_int :: "pyval \<Rightarrow> int cron_result" where
  "py_int (PInt i) = Inr i"
| "py_int (PBool b) = Inr (if b then 1 else 0)"
| "py_int (PStr s) = (case parse_int s of Some i \<Rightarrow> Inr i
     | None \<Rightarrow> Inl (Cron_ValueError (''invalid literal for int() with base 10: '' @ repr_str s)))"
| "py_int _ = Inl Cron_TypeError"

definition py_or :: "pyval \<Rightarrow> pyval \<Rightarrow> pyval" where
  "py_or v w = (if truthy v then v else w)"

section \<open>Timestamps and simple fields\<close>

definition parse_iso_datetime :: "cron_env \<Rightarrow> string \<Rightarrow> int cron_result" where
  "parse_iso_datetime env value =
     (let raw = str_strip value in
      if raw = [] then Inl (Cron_ValueError ''datetime value is required'')
      else case env_fromisoformat env (concat (map (\<lambda>c. if c = CHR ''Z'' then ''+00:00'' else [c]) raw)) of
        None \<Rightarrow> Inl (Cron_ValueError ''Invalid isoformat string'')
      | Some (Naive w) \<Rightarrow> Inr w
      | Some (Aware t) \<Rightarrow> Inr t)"

definition to_iso_utc :: "cron_env \<Rightarrow> int \<Rightarrow> string" where
  "to_iso_utc env t = env_isoformat env t"

definition normalize_wake_mode :: "string option \<Rightarrow> string cron_result" where
  "normalize_wake_mode value =
     (let mode = opt_or (Some (str_strip (opt_or value ''now''))) ''now''
      in if mode \<notin> {''now'', ''next-heartbeat''} then Inl (Cron_ValueError (''unsupported wake_mode: '' @ mode))
         else Inr mode)"

definition normalize_session_target :: "string option \<Rightarrow> string cron_result" where
  "normalize_session_target value =
     (let target = str_strip (opt_or value '''')
      in if target \<notin> {''main'', ''isolated'', ''agent_session''}
         then Inl (Cron_ValueError (''unsupported session_target: '' @ target)) else Inr target)"

section \<open>Payload and delivery\<close>

definition system_event_payload :: "pydict \<Rightarrow> pydict cron_result" where
  "system_event_payload data =
     (let text = text_field data ''event_text'' in
      if text = [] then Inl (Cron_ValueError ''systemEvent payload requires event_text'')
      else let data = dict_set data ''event_text'' (PStr text);
               metadata = dict_get_or data ''metadata'' PNone
           in if metadata \<noteq> PNone \<and> \<not> is_dict metadata
              then Inl (Cron_ValueError ''systemEvent metadata must be an object'') else Inr data)"

definition agent_turn_payload :: "pydict \<Rightarrow> pydict cron_result" where
  "agent_turn_payload data =
     (let message = text_field data ''message'' in
      if message = [] then Inl (Cron_ValueError ''agentTurn payload requires message'')
      else let data = dict_set data ''message'' (PStr message);
               timeout = dict_get_or data ''timeout_seconds'' PNone
           in if timeout = PNone then Inr data
              else rbind (py_int timeout) (\<lambda>n.
                if n \<le> 0 then Inl (Cron_ValueError ''timeout_seconds must be greater than 0'')
                else Inr (dict_set data ''timeout_seconds'' (PInt n))))"

definition idle_tick_payload :: "pydict \<Rightarrow> pydict cron_result" where
  "idle_tick_payload data =
     (let session_id = text_field data ''session_id'' in
      if session_id = [] then Inl (Cron_ValueError ''agentIdleTick payload requires session_id'')
      else let data = dict_set data ''session_id'' (PStr session_id);
               data = dict_set data ''plan_id'' (PStr (text_field data ''plan_id''));
               grace = dict_get_or data ''user_activity_grace_seconds'' PNone
           in if grace = PNone then Inr data
              else Inr (dict_set data ''user_activity_grace_seconds''
                (PInt (case py_int grace of Inl _ \<Rightarrow> 0 | Inr n \<Rightarrow> max 0 n))))"

definition project_cycle_payload :: "pydict \<Rightarrow> pydict cron_result" where
  "project_cycle_payload data =
     (let run_id = text_field data ''run_id''; task_id = text_field data ''task_id'' in
      if run_id = [] \<or> task_id = []
      then Inl (Cron_ValueError ''projectCycle payload requires run_id and task_id'')
      else let data = dict_set (dict_set data ''run_id'' (PStr run_id)) ''task_id'' (PStr task_id)
           in rbind (py_int (py_or (dict_get_or data ''cycle_interval_seconds'' (PInt 1)) (PInt 1))) (\<lambda>n.
                if \<not> (1 \<le> n \<and> n \<le> 3600) then Inl (Cron_ValueError ''cycle_interval_seconds must be in 1..3600'')
                else Inr (dict_set data ''cycle_interval_seconds'' (PInt n))))"

definition normalize_payload :: "pyval \<Rightarrow> pydict cron_result" where
  "normalize_payload payload =
     (case payload of
        PDict d \<Rightarrow>
          let kind = text_field d ''kind''; data = dict_set d ''kind'' (PStr kind) in
          if kind = ''systemEvent'' then system_event_payload data
          else if kind = ''agentTurn'' then agent_turn_payload data
          else if kind = ''agentIdleTick'' then idle_tick_payload data
          else if kind = ''projectCycle'' then project_cycle_payload data
          else Inl (Cron_ValueError ''payload.kind must be systemEvent, agentTurn, agentIdleTick, or projectCycle'')
      | _ \<Rightarrow> Inl (Cron_ValueError ''payload must be an object''))"

definition normalize_delivery :: "pyval \<Rightarrow> pydict cron_result" where
  "normalize_delivery delivery =
     (case py_or delivery (PDict [(''mode'', PStr ''none'')]) of
        PDict raw \<Rightarrow>
          let mode = opt_or (Some (str_strip (py_str (dict_get_or raw ''mode'' (PStr ''none''))))) ''none'';
              field = (\<lambda>k. PStr (str_strip (py_str (py_or (dict_get_or raw k (PStr '''')) (PStr '''')))))
          in if mode \<notin> {''none'', ''announce'', ''webhook''}
             then Inl (Cron_ValueError (''unsupported delivery.mode: '' @ mode))
             else Inr [(''mode'', PStr mode), (''channel'', field ''channel''), (''to'', field ''to''),
                    (''best_effort'', PBool (truthy (dict_get_or raw ''best_effort'' (PBool False))))]
      | _ \<Rightarrow> Inl (Cron_ValueError ''delivery must be an object''))"

definition validate_target_payload_pair :: "string \<Rightarrow> string \<Rightarrow> unit cron_result" where
  "validate_target_payload_pair session_target payload_kind =
     (if session_target = ''main'' \<and> payload_kind \<noteq> ''systemEvent''
      then Inl (Cron_ValueError ''session_target=main requires payload.kind=systemEvent'')
      else if session_target = ''isolated'' \<and> payload_kind \<notin> {''agentTurn'', ''projectCycle''}
      then Inl (Cron_ValueError ''session_target=isolated requires payload.kind=agentTurn or projectCycle'')
      else if session_target = ''agent_session'' \<and> payload_kind \<noteq> ''agentIdleTick''
      then Inl (Cron_ValueError ''session_target=agent_session requires payload.kind=agentIdleTick'')
      else if payload_kind = ''agentIdleTick'' \<and> session_target \<noteq> ''agent_session''
      then Inl (Cron_ValueError ''payload.kind=agentIdleTick requires session_target=agent_session'')
      else Inr ())"

definition default_session_target_for_payload :: "string \<Rightarrow> string" where
  "default_session_target_for_payload payload_kind =
     (if payload_kind = ''systemEvent'' then ''main''
      else if payload_kind = ''agentIdleTick'' then ''agent_session'' else ''isolated'')"

definition default_delete_after_run :: "string \<Rightarrow> bool" where
  "default_delete_after_run schedule_kind = (schedule_kind = ''at'')"

section \<open>Misfire policies\<close>

record misfire_policy =
  mp_mode :: string
  mp_catch_up_max :: int

definition CATCH_UP_PREFIX :: string where
  "CATCH_UP_PREFIX = ''catch_up(max=''"

text \<open>The group of \<open>re.fullmatch(r"catch_up\(max=(\d+)\)", raw)\<close>.\<close>

definition match_catch_up :: "string \<Rightarrow> string option" where
  "match_catch_up raw =
     (let r = drop (length CATCH_UP_PREFIX) raw
      in if str_startswith raw CATCH_UP_PREFIX \<and> r \<noteq> [] \<and> last r = CHR '')'' \<and> all_digits (butlast r)
         then Some (butlast r) else None)"

definition checked_policy :: "string \<Rightarrow> int \<Rightarrow> misfire_policy cron_result" where
  "checked_policy mode n =
     (if mode \<notin> {''skip'', ''run_once'', ''catch_up''}
      then Inl (Cron_ValueError ''misfire_policy must be skip, run_once, or catch_up(max=N)'')
      else Inr \<lparr>mp_mode = mode, mp_catch_up_max = max 1 n\<rparr>)"

definition normalize_misfire_policy :: "pyval \<Rightarrow> misfire_policy cron_result" where
  "normalize_misfire_policy value =
     (case value of
        PNone \<Rightarrow> Inr \<lparr>mp_mode = ''run_once'', mp_catch_up_max = 1\<rparr>
      | PDict d \<Rightarrow>
          let mode = opt_or (Some (str_strip (py_str (dict_get_or d ''mode'' (PStr ''run_once''))))) ''run_once''
          in rbind (py_int (py_or (dict_get_or d ''max'' (PInt 1)) (PInt 1))) (checked_policy mode)
      | _ \<Rightarrow>
          let raw = str_strip (py_str value) in
          if raw = [] then Inr \<lparr>mp_mode = ''run_once'', mp_catch_up_max = 1\<rparr>
          else case match_catch_up raw of
            Some ds \<Rightarrow> checked_policy ''catch_up'' (int (digits_nat 0 ds))
          | None \<Rightarrow> checked_policy raw 1)"

definition encode_misfire_policy :: "misfire_policy \<Rightarrow> string" where
  "encode_misfire_policy policy =
     (if mp_mode policy = ''catch_up''
      then CATCH_UP_PREFIX @ int_str (max 1 (mp_catch_up_max policy)) @ '')'' else mp_mode policy)"

section \<open>Cron expressions\<close>

record cron_spec =
  cs_has_seconds :: bool
  cs_seconds :: "int set"
  cs_minutes :: "int set"
  cs_hours :: "int set"
  cs_days_of_month :: "int set"
  cs_months :: "int set"
  cs_days_of_week :: "int set"
  cs_dom_is_wildcard :: bool
  cs_dow_is_wildcard :: bool

text \<open>\<open>_CRON_FIELD_RE\<close>: a star, a number or a range, with an optional step.\<close>

definition cron_base_ok :: "string \<Rightarrow> bool" where
  "cron_base_ok b = (b = ''*'' \<or> all_digits b \<or>
     CHR ''-'' \<in> set b \<and> all_digits (before_char (CHR ''-'') b) \<and> all_digits (after_char (CHR ''-'') b))"

definition cron_token_ok :: "string \<Rightarrow> bool" where
  "cron_token_ok chunk = (cron_base_ok (before_char (CHR ''/'') chunk) \<and>
     (CHR ''/'' \<in> set chunk \<longrightarrow> all_digits (after_char (CHR ''/'') chunk)))"

definition py_range :: "int \<Rightarrow> int \<Rightarrow> int \<Rightarrow> int set" where
  "py_range start stop step = set (filter (\<lambda>v. (v - start) mod step = 0) [start..stop - 1])"

definition cron_chunk :: "int \<Rightarrow> int \<Rightarrow> bool \<Rightarrow> string \<Rightarrow> int set cron_result" where
  "cron_chunk minimum maximum allow_sunday_7 chunk =
     (if \<not> cron_token_ok chunk then Inl (Cron_ValueError (''unsupported cron field token: '' @ chunk))
      else let base = before_char (CHR ''/'') chunk; step_raw = after_char (CHR ''/'') chunk;
               step = (if step_raw = [] then 1 else int (digits_nat 0 step_raw))
           in if step \<le> 0 then Inl (Cron_ValueError ''cron step must be > 0'')
              else let (start, stop) =
                     (if base = ''*'' then (minimum, maximum)
                      else if CHR ''-'' \<in> set base
                      then (int (digits_nat 0 (before_char (CHR ''-'') base)), int (digits_nat 0 (after_char (CHR ''-'') base)))
                      else (int (digits_nat 0 base), int (digits_nat 0 base)));
                     upper_bound = (if allow_sunday_7 then 7 else maximum)
                   in if start < minimum \<or> stop > upper_bound \<or> stop < start
                      then Inl (Cron_ValueError (''cron field token out of range: '' @ chunk))
                      else Inr (py_range start (stop + 1) step))"

fun cron_chunks :: "int \<Rightarrow> int \<Rightarrow> bool \<Rightarrow> int set \<Rightarrow> string list \<Rightarrow> int set cron_result" where
  "cron_chunks minimum maximum s7 values [] = Inr values"
| "cron_chunks minimum maximum s7 values (chunk # cs) =
     (let chunk = str_strip chunk in
      if chunk = [] then cron_chunks minimum maximum s7 values cs
      else rbind (cron_chunk minimum maximum s7 chunk) (\<lambda>vs. cron_chunks minimum maximum s7 (values \<union> vs) cs))"

definition parse_cron_field :: "int \<Rightarrow> int \<Rightarrow> bool \<Rightarrow> string \<Rightarrow> int set cron_result" where
  "parse_cron_field minimum maximum allow_sunday_7 field_expr =
     (let expr = str_strip field_expr in
      if expr = [] then Inl (Cron_ValueError ''cron field is empty'')
      else rbind (cron_chunks minimum maximum allow_sunday_7 {} (str_split (CHR '','') expr)) (\<lambda>values.
        let values = (if allow_sunday_7 \<and> 7 \<in> values then insert 0 (values - {7}) else values)
        in if values = {} then Inl (Cron_ValueError ''cron field does not resolve to any values'')
           else Inr values))"

definition build_cron_spec ::
  "bool \<Rightarrow> string \<Rightarrow> string \<Rightarrow> string \<Rightarrow> string \<Rightarrow> string \<Rightarrow> string \<Rightarrow> cron_spec cron_result" where
  "build_cron_spec has_seconds second minute hour dom_field month dow =
     rbind (parse_cron_field 0 59 False second) (\<lambda>seconds.
     rbind (parse_cron_field 0 59 False minute) (\<lambda>minutes.
     rbind (parse_cron_field 0 23 False hour) (\<lambda>hours.
     rbind (parse_cron_field 1 31 False dom_field) (\<lambda>days_of_month.
     rbind (parse_cron_field 1 12 False month) (\<lambda>months.
     rbind (parse_cron_field 0 6 True dow) (\<lambda>days_of_week.
       Inr \<lparr>cs_has_seconds = has_seconds, cs_seconds = seconds, cs_minutes = minutes, cs_hours = hours,
         cs_days_of_month = days_of_month, cs_months = months, cs_days_of_week = days_of_week,
         cs_dom_is_wildcard = (dom_field = ''*''), cs_dow_is_wildcard = (dow = ''*'')\<rparr>))))))"

definition parse_cron_expression :: "string \<Rightarrow> cron_spec cron_result" where
  "parse_cron_expression expr =
     (case str_words expr of
        [minute, hour, dom_field, month, dow] \<Rightarrow> build_cron_spec False ''0'' minute hour dom_field month dow
      | [second, minute, hour, dom_field, month, dow] \<Rightarrow> build_cron_spec True second minute hour dom_field month dow
      | _ \<Rightarrow> Inl (Cron_ValueError ''cron expr must have 5 or 6 fields''))"

section \<open>The calendar\<close>

text \<open>Fields of a wall-clock time in the proleptic Gregorian calendar. A year is counted from March,
  so that the leap day is its last.\<close>

definition day_us :: int where "day_us = 86400000000"

definition dt_second :: "int \<Rightarrow> int" where "dt_second w = w div 1000000 mod 60"

definition dt_minute :: "int \<Rightarrow> int" where "dt_minute w = w div 60000000 mod 60"

definition dt_hour :: "int \<Rightarrow> int" where "dt_hour w = w div 3600000000 mod 24"

definition dt_weekday :: "int \<Rightarrow> int" where "dt_weekday w = (w div day_us + 3) mod 7"

text \<open>The number of days since 1 March of the year, from the days since 1970-01-01.\<close>

definition day_of_march_year :: "int \<Rightarrow> int" where
  "day_of_march_year d =
     (let doe = (d + 719468) mod 146097;
          yoe = (doe - doe div 1460 + doe div 36524 - doe div 146096) div 365
      in doe - (365 * yoe + yoe div 4 - yoe div 100))"

definition dt_month :: "int \<Rightarrow> int" where
  "dt_month w = (let mp = (5 * day_of_march_year (w div day_us) + 2) div 153
     in if mp < 10 then mp + 3 else mp - 9)"

definition dt_day :: "int \<Rightarrow> int" where
  "dt_day w = (let doy = day_of_march_year (w div day_us); mp = (5 * doy + 2) div 153
     in doy - (153 * mp + 2) div 5 + 1)"

definition cron_matches :: "cron_spec \<Rightarrow> int \<Rightarrow> bool" where
  "cron_matches spec w =
     (if dt_second w \<notin> cs_seconds spec then False
      else if dt_minute w \<notin> cs_minutes spec then False
      else if dt_hour w \<notin> cs_hours spec then False
      else if dt_month w \<notin> cs_months spec then False
      else let dom_match = dt_day w \<in> cs_days_of_month spec;
               dow_match = (dt_weekday w + 1) mod 7 \<in> cs_days_of_week spec
           in if cs_dom_is_wildcard spec \<and> cs_dow_is_wildcard spec then True
              else if cs_dom_is_wildcard spec then dow_match
              else if cs_dow_is_wildcard spec then dom_match
              else dom_match \<or> dow_match)"

section \<open>The next occurrence\<close>

definition load_timezone :: "cron_env \<Rightarrow> string \<Rightarrow> zone cron_result" where
  "load_timezone env name =
     (case env_zones env name of
        Some z \<Rightarrow> Inr z
      | None \<Rightarrow> Inl (Cron_ValueError (''unknown timezone: '' @ name)))"

definition default_timezone_name :: "cron_env \<Rightarrow> string" where
  "default_timezone_name env =
     (case env_local_key env of
        Some key \<Rightarrow> if str_strip key \<noteq> [] then key
                    else let token = str_strip (env_local_tzname env)
                         in if token \<noteq> [] \<and> env_zones env token \<noteq> None then token else ''UTC''
      | None \<Rightarrow> let token = str_strip (env_local_tzname env)
                in if token \<noteq> [] \<and> env_zones env token \<noteq> None then token else ''UTC'')"

text \<open>One second or one minute, in microseconds.\<close>

definition cron_step :: "cron_spec \<Rightarrow> int" where
  "cron_step spec = (if cs_has_seconds spec then 1000000 else 60000000)"

text \<open>The first wall-clock time of the search: one step later, cut to a whole step.\<close>

definition cron_start :: "cron_spec \<Rightarrow> int \<Rightarrow> int" where
  "cron_start spec w = (w + cron_step spec) div cron_step spec * cron_step spec"

definition cron_horizon :: int where
  "cron_horizon = 366 * 5 * day_us"

function cron_search :: "cron_spec \<Rightarrow> int \<Rightarrow> int \<Rightarrow> int option" where
  "cron_search spec limit cursor =
     (if cursor \<le> limit
      then if cron_matches spec cursor then Some cursor
           else cron_search spec limit (cursor + cron_step spec)
      else None)"
  by pat_completeness auto

termination cron_search
  by (relation "measure (\<lambda>(spec, limit, cursor). nat (limit + 1 - cursor))") (auto simp: cron_step_def)

declare cron_search.simps [simp del]

definition next_cron_occurrence :: "cron_env \<Rightarrow> string \<Rightarrow> string \<Rightarrow> int \<Rightarrow> int option cron_result" where
  "next_cron_occurrence env expr tz_name after =
     rbind (parse_cron_expression expr) (\<lambda>spec.
     rbind (load_timezone env tz_name) (\<lambda>tz.
       let cursor = cron_start spec (to_local tz after)
       in Inr (map_option (to_utc tz) (cron_search spec (cursor + cron_horizon) cursor))))"

section \<open>Schedules\<close>

definition field_is_exact_zero :: "string \<Rightarrow> bool" where
  "field_is_exact_zero field_expr =
     (let token = str_strip field_expr in
      if token = [] then False
      else if list_ex (\<lambda>c. c \<in> set token) [CHR '','', CHR ''/'', CHR ''-'', CHR ''*''] then False
      else parse_int token = Some 0)"

definition is_top_of_hour_expression :: "string \<Rightarrow> bool" where
  "is_top_of_hour_expression expr =
     (let fields = str_words expr in
      if length fields = 5 then field_is_exact_zero (fields ! 0)
      else if length fields = 6 then field_is_exact_zero (fields ! 0) \<and> field_is_exact_zero (fields ! 1)
      else False)"

definition DEFAULT_TOP_OF_HOUR_STAGGER_MS :: int where
  "DEFAULT_TOP_OF_HOUR_STAGGER_MS = 300000"

definition at_schedule :: "cron_env \<Rightarrow> pydict \<Rightarrow> pydict cron_result" where
  "at_schedule env d =
     rbind (parse_iso_datetime env (text_field d ''at'')) (\<lambda>t.
       Inr [(''kind'', PStr ''at''), (''at'', PStr (to_iso_utc env t))])"

definition every_schedule :: "pydict \<Rightarrow> pydict cron_result" where
  "every_schedule d =
     rbind (py_int (dict_get_or d ''every_ms'' (PInt 0))) (\<lambda>every_ms.
       if every_ms \<le> 0 then Inl (Cron_ValueError ''every_ms must be greater than 0'')
       else rbind (py_int (py_or (dict_get_or d ''jitter_ms'' (PInt 0)) (PInt 0))) (\<lambda>jitter_ms.
         if jitter_ms < 0 then Inl (Cron_ValueError ''jitter_ms must be >= 0'')
         else Inr [(''kind'', PStr ''every''), (''every_ms'', PInt every_ms), (''jitter_ms'', PInt jitter_ms)]))"

definition cron_schedule :: "cron_env \<Rightarrow> pydict \<Rightarrow> pydict cron_result" where
  "cron_schedule env d =
     (let expr = text_field d ''expr'' in
      if expr = [] then Inl (Cron_ValueError ''cron schedule requires expr'')
      else rbind (parse_cron_expression expr) (\<lambda>_.
        let tz_name = opt_or (Some (str_strip (py_str (py_or (dict_get_or d ''tz'' (PStr [])) (PStr [])))))
                        (default_timezone_name env)
        in rbind (load_timezone env tz_name) (\<lambda>_.
          let stagger_raw =
                (if dict_has d ''stagger_ms'' then dict_get_or d ''stagger_ms'' (PInt 0)
                 else if dict_has d ''staggerMs'' then dict_get_or d ''staggerMs'' (PInt 0)
                 else PInt (if is_top_of_hour_expression expr then DEFAULT_TOP_OF_HOUR_STAGGER_MS else 0))
          in rbind (py_int (py_or stagger_raw (PInt 0))) (\<lambda>stagger_ms.
            if stagger_ms < 0 then Inl (Cron_ValueError ''stagger_ms must be >= 0'')
            else Inr [(''kind'', PStr ''cron''), (''expr'', PStr expr), (''tz'', PStr tz_name),
                   (''stagger_ms'', PInt stagger_ms)]))))"

definition normalize_schedule :: "cron_env \<Rightarrow> pyval \<Rightarrow> pydict cron_result" where
  "normalize_schedule env schedule =
     (case schedule of
        PDict d \<Rightarrow>
          let kind = text_field d ''kind'' in
          if kind = ''at'' then at_schedule env d
          else if kind = ''every'' then every_schedule d
          else if kind = ''cron'' then cron_schedule env d
          else Inl (Cron_ValueError ''schedule.kind must be one of: at, every, cron'')
      | _ \<Rightarrow> Inl (Cron_ValueError ''schedule must be an object''))"

definition deterministic_jitter_ms :: "cron_env \<Rightarrow> string \<Rightarrow> int \<Rightarrow> int \<Rightarrow> int" where
  "deterministic_jitter_ms env job_id t jitter_ms =
     (if jitter_ms \<le> 0 then 0
      else int (env_sha256_prefix env (job_id @ '':'' @ int_str (env_timestamp_ms env t))) mod (jitter_ms + 1))"

definition deterministic_cron_stagger_ms :: "cron_env \<Rightarrow> string \<Rightarrow> string \<Rightarrow> int \<Rightarrow> int" where
  "deterministic_cron_stagger_ms env job_id expr stagger_ms =
     (if stagger_ms \<le> 0 then 0
      else int (env_sha256_prefix env (job_id @ '':'' @ expr)) mod (stagger_ms + 1))"

text \<open>Fields of a normalised schedule.\<close>

definition sched_text :: "pydict \<Rightarrow> string \<Rightarrow> string" where
  "sched_text d k = (case dict_get d k of Some v \<Rightarrow> py_str v | None \<Rightarrow> [])"

definition sched_int :: "pydict \<Rightarrow> string \<Rightarrow> int" where
  "sched_int d k = (case dict_get d k of Some (PInt i) \<Rightarrow> i | _ \<Rightarrow> 0)"

definition compute_next_due ::
  "cron_env \<Rightarrow> pyval \<Rightarrow> int \<Rightarrow> string \<Rightarrow> int option \<Rightarrow> int option cron_result" where
  "compute_next_due env schedule after job_id last_due =
     rbind (normalize_schedule env schedule) (\<lambda>d.
       if sched_text d ''kind'' = ''at''
       then rbind (parse_iso_datetime env (sched_text d ''at'')) (\<lambda>t. Inr (if t > after then Some t else None))
       else if sched_text d ''kind'' = ''every''
       then let base = (case last_due of Some t \<Rightarrow> t | None \<Rightarrow> after);
                next_due = base + sched_int d ''every_ms'' * 1000;
                jitter_ms = sched_int d ''jitter_ms''
            in Inr (Some (if jitter_ms > 0
                 then next_due + deterministic_jitter_ms env job_id next_due jitter_ms * 1000 else next_due))
       else let expr = sched_text d ''expr'';
                tz_name = opt_or (Some (sched_text d ''tz'')) ''UTC'';
                stagger_ms = sched_int d ''stagger_ms''
            in rbind (next_cron_occurrence env expr tz_name after) (\<lambda>due.
                 Inr (map_option (\<lambda>t. if stagger_ms \<le> 0 then t
                   else t + deterministic_cron_stagger_ms env job_id expr stagger_ms * 1000) due)))"

section \<open>Due points\<close>

definition job_key :: "pydict \<Rightarrow> string cron_result" where
  "job_key job = (case dict_get job ''job_id'' of Some v \<Rightarrow> Inr (py_str v) | None \<Rightarrow> Inl (Cron_KeyError ''job_id''))"

text \<open>The loop that collects due points: at most \<open>n\<close> of them. The result holds the points and the
  cursor behind them.\<close>

fun due_loop ::
  "cron_env \<Rightarrow> pydict \<Rightarrow> pydict \<Rightarrow> int \<Rightarrow> nat \<Rightarrow> int option \<Rightarrow> (int list \<times> int option) cron_result" where
  "due_loop env schedule job now_dt 0 cursor = Inr ([], cursor)"
| "due_loop env schedule job now_dt (Suc n) None = Inr ([], None)"
| "due_loop env schedule job now_dt (Suc n) (Some t) =
     (if t > now_dt then Inr ([], Some t)
      else if sched_text schedule ''kind'' = ''at'' then Inr ([t], None)
      else rbind (job_key job) (\<lambda>job_id.
        rbind (compute_next_due env (PDict schedule) t job_id (Some t)) (\<lambda>cursor.
        rbind (due_loop env schedule job now_dt n cursor) (\<lambda>(ts, c). Inr (t # ts, c)))))"

text \<open>\<open>xs[-n:]\<close> for a positive \<open>n\<close>.\<close>

definition last_n :: "int \<Rightarrow> 'a list \<Rightarrow> 'a list" where
  "last_n n xs = drop (length xs - nat n) xs"

definition select_points :: "misfire_policy \<Rightarrow> bool \<Rightarrow> int \<Rightarrow> int list \<Rightarrow> bool \<Rightarrow> int list" where
  "select_points policy is_at now_dt recent stale_only =
     (if mp_mode policy = ''catch_up''
      then let selected = last_n (max 1 (mp_catch_up_max policy)) recent
           in if selected = [] \<and> stale_only \<and> is_at then [now_dt] else selected
      else if mp_mode policy = ''skip'' then last_n 1 recent
      else let selected = last_n 1 recent in if selected = [] \<and> stale_only then [now_dt] else selected)"

definition MAX_DUE_POINTS :: nat where
  "MAX_DUE_POINTS = 512"

definition select_due_points_for_job ::
  "cron_env \<Rightarrow> pydict \<Rightarrow> int \<Rightarrow> (int list \<times> int option) cron_result" where
  "select_due_points_for_job env job now_dt =
     rbind (normalize_schedule env (dict_get_or job ''schedule'' (PDict []))) (\<lambda>schedule.
       let next_due_raw = str_strip (py_str (py_or (dict_get_or job ''next_due_at'' PNone) (PStr []))) in
       if next_due_raw = [] then Inr ([], None)
       else rbind (parse_iso_datetime env next_due_raw) (\<lambda>start.
         rbind (due_loop env schedule job now_dt MAX_DUE_POINTS (Some start)) (\<lambda>(candidates, cursor).
         rbind (normalize_misfire_policy (dict_get_or job ''misfire_policy'' PNone)) (\<lambda>policy.
         rbind (py_int (dict_get_or job ''max_lateness_s'' (PInt 600))) (\<lambda>late.
           let is_at = (sched_text schedule ''kind'' = ''at'');
               cutoff = now_dt - max 0 late * 1000000;
               recent = filter (\<lambda>t. t \<ge> cutoff) candidates;
               selected = select_points policy is_at now_dt recent (candidates \<noteq> [] \<and> recent = [])
           in if is_at then Inr (selected, None)
              else case cursor of
                Some c \<Rightarrow> Inr (selected, Some c)
              | None \<Rightarrow> rbind (job_key job) (\<lambda>job_id.
                  rbind (compute_next_due env (PDict schedule) now_dt job_id (Some now_dt)) (\<lambda>next_due.
                    Inr (selected, next_due))))))))"

end
