(* ===== verification/Cron_Store.thy ===== *)
theory Cron_Store
  imports SQL_Table Cron_Schedule
begin

text \<open>
  The store of recurring jobs and their runs (\<open>modules/session/storage/cron_store.py\<close>,
  \<open>cron_coordination.py\<close> and the row readers of \<open>rows.py\<close>). A table is the list of its rows in
  insertion order; a column that holds JSON text is the value it encodes, so the order of keys
  in the text is not represented. Timestamps are texts and are compared as texts, as the SQL
  does. The clock reading of a call is its argument \<open>clock\<close>; \<open>uuid4\<close> reads the next identifier
  of \<open>env_uuid4\<close>, and \<open>db_uuids\<close> counts those drawn. Every operation runs under the store's
  lock, so a call is one step; the lookups that \<open>trigger_cron_run\<close> and \<open>set_cron_job_enabled\<close>
  make before they enter the transaction are part of that step.
\<close>

section \<open>Rows\<close>

record cron_job =
  cj_job_id :: string
  cj_name :: string
  cj_description :: "string option"
  cj_enabled :: bool
  cj_agent_id :: "string option"
  cj_schedule :: pydict
  cj_payload :: pydict
  cj_delivery :: pydict
  cj_session_target :: string
  cj_wake_mode :: string
  cj_delete_after_run :: bool
  cj_misfire_policy :: string
  cj_max_lateness_s :: int
  cj_max_concurrency :: int
  cj_concurrency_key :: "string option"
  cj_max_attempts :: int
  cj_retry_backoff_s :: int
  cj_next_due_at :: "string option"
  cj_last_run_at :: "string option"
  cj_created_at :: string
  cj_updated_at :: string

datatype run_state = Run_queued | Run_running | Run_finished | Run_failed | Run_cancelled | Run_timed_out

record cron_run =
  cr_run_id :: string
  cr_job_id :: "string option"
  cr_state :: run_state
  cr_due_at :: string
  cr_available_at :: "string option"
  cr_started_at :: "string option"
  cr_finished_at :: "string option"
  cr_isolated_session_id :: "string option"
  cr_summary :: "string option"
  cr_artifact_refs :: "pyval list"
  cr_error :: "pydict option"
  cr_output :: pydict
  cr_lease_owner :: "string option"
  cr_lease_expires_at :: "string option"
  cr_delivery_targets :: "string list"
  cr_attempts :: int
  cr_created_at :: string
  cr_updated_at :: string

record cron_scheduler_control =
  ctl_paused :: bool
  ctl_reason :: "string option"
  ctl_actor :: "string option"
  ctl_updated_at :: string

record cron_scope_state =
  sc_concurrency_key :: string
  sc_last_success_run_id :: string
  sc_last_success_at :: string
  sc_watermark :: pydict
  sc_updated_at :: string

text \<open>\<open>db_task_jobs\<close> is the column \<open>cron_job_id\<close> of the table \<open>scheduled_tasks\<close>, which need not
  exist.\<close>

record cron_store =
  db_jobs :: "cron_job list"
  db_runs :: "cron_run list"
  db_control :: "cron_scheduler_control option"
  db_scopes :: "cron_scope_state list"
  db_task_jobs :: "string list option"
  db_uuids :: nat

type_synonym 'a cron_op = "cron_store \<Rightarrow> 'a cron_result \<times> cron_store"

definition empty_cron_store :: cron_store where
  "empty_cron_store = \<lparr>db_jobs = [], db_runs = [], db_control = None, db_scopes = [], db_task_jobs = None, db_uuids = 0\<rparr>"

definition run_state_text :: "run_state \<Rightarrow> string" where
  "run_state_text st = (case st of Run_queued \<Rightarrow> ''queued'' | Run_running \<Rightarrow> ''running'' | Run_finished \<Rightarrow> ''finished''
     | Run_failed \<Rightarrow> ''failed'' | Run_cancelled \<Rightarrow> ''cancelled'' | Run_timed_out \<Rightarrow> ''timed_out'')"

definition terminal_run_states :: "run_state list" where
  "terminal_run_states = [Run_finished, Run_failed, Run_cancelled, Run_timed_out]"

definition run_terminal :: "cron_run \<Rightarrow> bool" where
  "run_terminal r = (cr_state r \<in> set terminal_run_states)"

definition run_active :: "cron_run \<Rightarrow> bool" where
  "run_active r = (cr_state r \<in> {Run_queued, Run_running})"

definition opt_value :: "string option \<Rightarrow> pyval" where
  "opt_value x = (case x of None \<Rightarrow> PNone | Some s \<Rightarrow> PStr s)"

definition row_to_cron_job :: "cron_job \<Rightarrow> pydict" where
  "row_to_cron_job j =
     [(''job_id'', PStr (cj_job_id j)), (''name'', PStr (cj_name j)), (''description'', opt_value (cj_description j)),
      (''enabled'', PBool (cj_enabled j)), (''agent_id'', opt_value (cj_agent_id j)),
      (''schedule'', PDict (cj_schedule j)), (''payload'', PDict (cj_payload j)), (''delivery'', PDict (cj_delivery j)),
      (''session_target'', PStr (cj_session_target j)), (''wake_mode'', PStr (cj_wake_mode j)),
      (''delete_after_run'', PBool (cj_delete_after_run j)), (''misfire_policy'', PStr (cj_misfire_policy j)),
      (''max_lateness_s'', PInt (cj_max_lateness_s j)), (''max_concurrency'', PInt (cj_max_concurrency j)),
      (''concurrency_key'', opt_value (cj_concurrency_key j)), (''max_attempts'', PInt (cj_max_attempts j)),
      (''retry_backoff_s'', PInt (cj_retry_backoff_s j)), (''next_due_at'', opt_value (cj_next_due_at j)),
      (''last_run_at'', opt_value (cj_last_run_at j)), (''created_at'', PStr (cj_created_at j)),
      (''updated_at'', PStr (cj_updated_at j))]"

definition row_to_cron_run :: "cron_run \<Rightarrow> pydict" where
  "row_to_cron_run r =
     [(''run_id'', PStr (cr_run_id r)), (''job_id'', opt_value (cr_job_id r)), (''state'', PStr (run_state_text (cr_state r))),
      (''due_at'', PStr (cr_due_at r)), (''available_at'', opt_value (cr_available_at r)),
      (''started_at'', opt_value (cr_started_at r)), (''finished_at'', opt_value (cr_finished_at r)),
      (''isolated_session_id'', opt_value (cr_isolated_session_id r)), (''summary'', opt_value (cr_summary r)),
      (''artifact_refs'', PList (cr_artifact_refs r)),
      (''error'', case cr_error r of None \<Rightarrow> PNone | Some d \<Rightarrow> PDict d), (''output'', PDict (cr_output r)),
      (''lease_owner'', opt_value (cr_lease_owner r)), (''lease_expires_at'', opt_value (cr_lease_expires_at r)),
      (''delivery_targets'', PList (map PStr (cr_delivery_targets r))), (''attempts'', PInt (cr_attempts r)),
      (''created_at'', PStr (cr_created_at r)), (''updated_at'', PStr (cr_updated_at r))]"

section \<open>Statements\<close>

text \<open>An exception rolls the tables back; an identifier that was drawn stays drawn.\<close>

definition cron_transaction :: "'a cron_op \<Rightarrow> 'a cron_op" where
  "cron_transaction m s = (case m s of (Inl e, t) \<Rightarrow> (Inl e, s\<lparr>db_uuids := db_uuids t\<rparr>) | (Inr a, t) \<Rightarrow> (Inr a, t))"

definition uuid4_hex :: "cron_env \<Rightarrow> cron_store \<Rightarrow> string" where
  "uuid4_hex env s = env_uuid4 env (db_uuids s)"

definition uuid_drawn :: "cron_store \<Rightarrow> cron_store" where
  "uuid_drawn s = s\<lparr>db_uuids := Suc (db_uuids s)\<rparr>"

definition find_cron_job :: "string \<Rightarrow> cron_store \<Rightarrow> cron_job option" where
  "find_cron_job job_id s = sql_get cj_job_id job_id (db_jobs s)"

definition find_cron_run :: "string \<Rightarrow> cron_store \<Rightarrow> cron_run option" where
  "find_cron_run run_id s = sql_get cr_run_id run_id (db_runs s)"

text \<open>The job that a run is joined with.\<close>

definition job_of_run :: "cron_store \<Rightarrow> cron_run \<Rightarrow> cron_job option" where
  "job_of_run s r = (case cr_job_id r of None \<Rightarrow> None | Some j \<Rightarrow> find_cron_job j s)"

definition run_in_scope :: "cron_store \<Rightarrow> string \<Rightarrow> cron_run \<Rightarrow> bool" where
  "run_in_scope s k r = (case job_of_run s r of None \<Rightarrow> False | Some j \<Rightarrow> cj_concurrency_key j = Some k)"

definition update_cron_jobs :: "string \<Rightarrow> (cron_job \<Rightarrow> cron_job) \<Rightarrow> cron_store \<Rightarrow> cron_store" where
  "update_cron_jobs job_id f s = s\<lparr>db_jobs := sql_update (\<lambda>j. cj_job_id j = job_id) f (db_jobs s)\<rparr>"

definition update_cron_runs :: "(cron_run \<Rightarrow> bool) \<Rightarrow> (cron_run \<Rightarrow> cron_run) \<Rightarrow> cron_store \<Rightarrow> cron_store" where
  "update_cron_runs p f s = s\<lparr>db_runs := sql_update p f (db_runs s)\<rparr>"

text \<open>\<open>DELETE FROM cron_jobs\<close>, with the foreign key's \<open>ON DELETE SET NULL\<close>.\<close>

definition delete_job_row :: "string \<Rightarrow> cron_store \<Rightarrow> cron_store" where
  "delete_job_row job_id s =
     s\<lparr>db_jobs := filter (\<lambda>j. cj_job_id j \<noteq> job_id) (db_jobs s),
       db_runs := sql_update (\<lambda>r. cr_job_id r = Some job_id) (cr_job_id_update (\<lambda>_. None)) (db_runs s)\<rparr>"

text \<open>The unique index on job and due time; rows without a job never collide.\<close>

definition due_taken :: "cron_run \<Rightarrow> cron_store \<Rightarrow> bool" where
  "due_taken r s = (cr_job_id r \<noteq> None \<and> list_ex (\<lambda>q. cr_job_id q = cr_job_id r \<and> cr_due_at q = cr_due_at r) (db_runs s))"

definition add_run_row :: "cron_run \<Rightarrow> unit cron_op" where
  "add_run_row r s =
     (if find_cron_run (cr_run_id r) s \<noteq> None \<or> cr_job_id r \<noteq> None \<and> job_of_run s r = None
      then (Inl Cron_IntegrityError, s)
      else (Inr (), s\<lparr>db_runs := db_runs s @ [r]\<rparr>))"

definition insert_cron_run :: "cron_run \<Rightarrow> unit cron_op" where
  "insert_cron_run r s = (if due_taken r s then (Inl Cron_IntegrityError, s) else add_run_row r s)"

text \<open>\<open>ON CONFLICT(job_id, due_at) DO NOTHING\<close>: the result is the row count.\<close>

definition insert_cron_run_new :: "cron_run \<Rightarrow> bool cron_op" where
  "insert_cron_run_new r s =
     (if due_taken r s then (Inr False, s) else st_bind (add_run_row r) (\<lambda>_ t. (Inr True, t)) s)"

text \<open>A row as the \<open>INSERT\<close> statements give it.\<close>

definition new_cron_run :: "string \<Rightarrow> string \<Rightarrow> string \<Rightarrow> string option \<Rightarrow> string option \<Rightarrow> string \<Rightarrow> cron_run" where
  "new_cron_run run_id job_id due_iso owner expires now =
     \<lparr>cr_run_id = run_id, cr_job_id = Some job_id, cr_state = Run_queued, cr_due_at = due_iso,
      cr_available_at = Some due_iso, cr_started_at = None, cr_finished_at = None, cr_isolated_session_id = None,
      cr_summary = None, cr_artifact_refs = [], cr_error = None, cr_output = [], cr_lease_owner = owner,
      cr_lease_expires_at = expires, cr_delivery_targets = [], cr_attempts = 0, cr_created_at = now, cr_updated_at = now\<rparr>"

section \<open>Arguments\<close>

text \<open>\<open>parse_iso_datetime(now_iso) if now_iso else utc_now()\<close>\<close>

definition given_time :: "cron_env \<Rightarrow> string option \<Rightarrow> int \<Rightarrow> int cron_result" where
  "given_time env now_iso clock = (if opt_truthy now_iso then parse_iso_datetime env (opt_or now_iso []) else Inr clock)"

definition after_seconds :: "int \<Rightarrow> int \<Rightarrow> int" where
  "after_seconds t n = t + n * 1000000"

text \<open>\<open>str(value or "").strip() or None\<close>\<close>

definition text_or_none :: "string option \<Rightarrow> string option" where
  "text_or_none x = strip_or_none (opt_or x [])"

definition require :: "bool \<Rightarrow> string \<Rightarrow> unit cron_result" where
  "require b msg = (if b then Inr () else Inl (Cron_ValueError msg))"

text \<open>\<open>str(d.get(key) or "")\<close>\<close>

definition field_or_empty :: "pydict \<Rightarrow> string \<Rightarrow> string" where
  "field_or_empty d key = py_str (py_or (dict_get_or d key PNone) (PStr []))"

definition MAX_CRON_ATTEMPTS :: int where "MAX_CRON_ATTEMPTS = 10"

definition MAX_CRON_RETRY_BACKOFF_SECONDS :: int where "MAX_CRON_RETRY_BACKOFF_SECONDS = 86400"

definition DEFAULT_TASK_MIN_EVERY_MS :: int where "DEFAULT_TASK_MIN_EVERY_MS = 10000"

definition initial_next_due :: "cron_env \<Rightarrow> pydict \<Rightarrow> int \<Rightarrow> string \<Rightarrow> string option cron_result" where
  "initial_next_due env schedule now job_id =
     (if sched_text schedule ''kind'' = ''at'' then Inr (Some (sched_text schedule ''at''))
      else rbind (compute_next_due env (PDict schedule) now job_id None) (\<lambda>next_due.
        Inr (map_option (to_iso_utc env) next_due)))"

text \<open>A computation that does not touch the store, and then one that does.\<close>

definition with_result :: "'a cron_result \<Rightarrow> ('a \<Rightarrow> 'b cron_op) \<Rightarrow> 'b cron_op" where
  "with_result r f s = (case r of Inl e \<Rightarrow> (Inl e, s) | Inr a \<Rightarrow> f a s)"

section \<open>Jobs\<close>

record cron_job_args =
  ca_name :: string
  ca_schedule :: pyval
  ca_payload :: pyval
  ca_description :: "string option"
  ca_enabled :: bool
  ca_agent_id :: "string option"
  ca_session_target :: "string option"
  ca_wake_mode :: "string option"
  ca_delivery :: "pyval option"
  ca_delete_after_run :: "bool option"
  ca_misfire_policy :: pyval
  ca_max_lateness_s :: int
  ca_max_concurrency :: int
  ca_concurrency_key :: "string option"
  ca_max_attempts :: int
  ca_retry_backoff_s :: int
  ca_job_id :: "string option"

text \<open>The validated row, for a job identifier.\<close>

definition prepare_cron_job :: "cron_env \<Rightarrow> int \<Rightarrow> cron_job_args \<Rightarrow> string \<Rightarrow> cron_job cron_result" where
  "prepare_cron_job env clock a jid =
     rbind (require (str_strip (ca_name a) \<noteq> []) ''cron job name is required'') (\<lambda>_.
     rbind (normalize_schedule env (ca_schedule a)) (\<lambda>schedule.
     rbind (normalize_payload (ca_payload a)) (\<lambda>payload.
     rbind (case ca_session_target a of
              None \<Rightarrow> Inr (default_session_target_for_payload (sched_text payload ''kind''))
            | Some t \<Rightarrow> normalize_session_target (Some t)) (\<lambda>target.
     rbind (validate_target_payload_pair target (sched_text payload ''kind'')) (\<lambda>_.
     rbind (normalize_wake_mode (ca_wake_mode a)) (\<lambda>wake_mode.
     rbind (normalize_delivery
              (case ca_delivery a of
                 Some d \<Rightarrow> d
               | None \<Rightarrow> if target = ''isolated''
                   then PDict [(''mode'', PStr ''announce''), (''channel'', PStr ''last''), (''to'', PStr ''last'')]
                   else PDict [(''mode'', PStr ''none'')])) (\<lambda>delivery.
     rbind (normalize_misfire_policy (ca_misfire_policy a)) (\<lambda>policy.
     rbind (initial_next_due env schedule clock jid) (\<lambda>next_due.
       let now = to_iso_utc env clock in
       Inr \<lparr>cj_job_id = jid, cj_name = str_strip (ca_name a), cj_description = ca_description a,
            cj_enabled = ca_enabled a, cj_agent_id = text_or_none (ca_agent_id a), cj_schedule = schedule,
            cj_payload = payload, cj_delivery = delivery, cj_session_target = target, cj_wake_mode = wake_mode,
            cj_delete_after_run = (case ca_delete_after_run a of
                None \<Rightarrow> default_delete_after_run (sched_text schedule ''kind'') | Some b \<Rightarrow> b),
            cj_misfire_policy = encode_misfire_policy policy, cj_max_lateness_s = max 0 (ca_max_lateness_s a),
            cj_max_concurrency = max 1 (ca_max_concurrency a), cj_concurrency_key = text_or_none (ca_concurrency_key a),
            cj_max_attempts = max 1 (min (ca_max_attempts a) MAX_CRON_ATTEMPTS),
            cj_retry_backoff_s = max 1 (min (ca_retry_backoff_s a) MAX_CRON_RETRY_BACKOFF_SECONDS),
            cj_next_due_at = (if ca_enabled a then next_due else None), cj_last_run_at = None,
            cj_created_at = now, cj_updated_at = now\<rparr>)))))))))"

text \<open>The identifier is drawn after the arguments are validated, so only when they are valid.\<close>

definition add_cron_job :: "cron_env \<Rightarrow> int \<Rightarrow> cron_job_args \<Rightarrow> string cron_op" where
  "add_cron_job env clock a s =
     (let given = str_strip (opt_or (ca_job_id a) []);
          jid = (if given \<noteq> [] then given else uuid4_hex env s)
      in case prepare_cron_job env clock a jid of
           Inl e \<Rightarrow> (Inl e, s)
         | Inr j \<Rightarrow>
             let s = (if given \<noteq> [] then s else uuid_drawn s)
             in cron_transaction (\<lambda>s. case sql_insert cj_job_id j (db_jobs s) of
                  None \<Rightarrow> (Inl Cron_IntegrityError, s)
                | Some js \<Rightarrow> (Inr jid, s\<lparr>db_jobs := js\<rparr>)) s)"

definition get_cron_job :: "string \<Rightarrow> cron_store \<Rightarrow> cron_job option cron_result" where
  "get_cron_job job_id s =
     rbind (require (str_strip job_id \<noteq> []) ''job_id is required'') (\<lambda>_. Inr (find_cron_job (str_strip job_id) s))"

definition list_cron_jobs :: "bool option \<Rightarrow> int \<Rightarrow> string option \<Rightarrow> bool \<Rightarrow> cron_store \<Rightarrow> pydict list" where
  "list_cron_jobs enabled limit agent_id include_unowned s =
     (let keep = (\<lambda>j. (case enabled of None \<Rightarrow> True | Some b \<Rightarrow> cj_enabled j = b) \<and>
            (case agent_id of None \<Rightarrow> True
             | Some a \<Rightarrow> cj_agent_id j = Some (str_strip a) \<or> include_unowned \<and> cj_agent_id j = None))
      in map row_to_cron_job
           (take (nat (max 1 (min limit 1000))) (sql_order_desc cj_created_at (filter keep (db_jobs s)))))"

definition enabled_next_due :: "cron_env \<Rightarrow> int \<Rightarrow> cron_job \<Rightarrow> bool \<Rightarrow> string option \<Rightarrow> string option cron_result" where
  "enabled_next_due env clock job enabled override =
     (if enabled \<and> override \<noteq> None then Inr override
      else if enabled
      then rbind (normalize_schedule env (PDict (cj_schedule job))) (\<lambda>schedule.
             initial_next_due env schedule clock (cj_job_id job))
      else Inr None)"

definition cancel_queued_runs :: "string \<Rightarrow> string \<Rightarrow> cron_store \<Rightarrow> cron_store" where
  "cancel_queued_runs job_id now =
     update_cron_runs (\<lambda>r. cr_job_id r = Some job_id \<and> cr_state r = Run_queued)
       (\<lambda>r. r\<lparr>cr_state := Run_cancelled, cr_finished_at := Some now, cr_lease_owner := None,
              cr_lease_expires_at := None, cr_updated_at := now\<rparr>)"

definition set_cron_job_enabled ::
  "cron_env \<Rightarrow> int \<Rightarrow> string \<Rightarrow> bool \<Rightarrow> bool \<Rightarrow> string option \<Rightarrow> unit cron_op" where
  "set_cron_job_enabled env clock job_id enabled cancel_queued next_due_at_override s =
     with_result (get_cron_job job_id s) (\<lambda>found s.
       case found of
         None \<Rightarrow> (Inl (Cron_ValueError (''cron job not found: '' @ job_id)), s)
       | Some job \<Rightarrow>
           with_result (enabled_next_due env clock job enabled next_due_at_override) (\<lambda>next_due s.
             let now = to_iso_utc env clock;
                 s = update_cron_jobs (cj_job_id job)
                       (\<lambda>j. j\<lparr>cj_enabled := enabled, cj_next_due_at := next_due, cj_updated_at := now\<rparr>) s
             in (Inr (), if \<not> enabled \<and> cancel_queued then cancel_queued_runs (cj_job_id job) now s else s)) s) s"

definition delete_cron_job :: "string \<Rightarrow> unit cron_op" where
  "delete_cron_job job_id =
     with_result (require (str_strip job_id \<noteq> []) ''job_id is required'') (\<lambda>_ s.
       (Inr (), delete_job_row (str_strip job_id) s))"

text \<open>The count of updated rows decides after the transaction whether the job was found.\<close>

definition replace_cron_job_payload :: "cron_env \<Rightarrow> int \<Rightarrow> string \<Rightarrow> pyval \<Rightarrow> unit cron_op" where
  "replace_cron_job_payload env clock job_id payload =
     with_result (require (str_strip job_id \<noteq> []) ''job_id is required'') (\<lambda>_.
     with_result (normalize_payload payload) (\<lambda>normalized s.
       let jid = str_strip job_id;
           updated = sql_count (\<lambda>j. cj_job_id j = jid) (db_jobs s);
           s = update_cron_jobs jid (\<lambda>j. j\<lparr>cj_payload := normalized, cj_updated_at := to_iso_utc env clock\<rparr>) s
       in if updated = 0 then (Inl (Cron_ValueError (''cron job not found: '' @ jid)), s) else (Inr (), s)))"

definition is_task_owned_job :: "string \<Rightarrow> cron_store \<Rightarrow> bool" where
  "is_task_owned_job job_id s = (case db_task_jobs s of None \<Rightarrow> False | Some js \<Rightarrow> job_id \<in> set js)"

definition is_plain_agent_turn :: "pydict \<Rightarrow> bool" where
  "is_plain_agent_turn payload = (\<not> (field_or_empty payload ''kind'' \<noteq> ''agentTurn'' \<or> dict_has payload ''_openminion_watch''
     \<or> dict_has payload ''_openminion_memory_consolidation''))"

definition active_runs_of :: "string \<Rightarrow> cron_store \<Rightarrow> nat" where
  "active_runs_of job_id s = sql_count (\<lambda>r. cr_job_id r = Some job_id \<and> run_active r) (db_runs s)"

definition active_runs_in_scope :: "string \<Rightarrow> cron_store \<Rightarrow> nat" where
  "active_runs_in_scope k s = sql_count (\<lambda>r. run_in_scope s k r \<and> run_active r) (db_runs s)"

definition schedule_not_past :: "cron_env \<Rightarrow> int \<Rightarrow> pydict \<Rightarrow> unit cron_result" where
  "schedule_not_past env clock schedule =
     (if sched_text schedule ''kind'' = ''at''
      then rbind (parse_iso_datetime env (sched_text schedule ''at'')) (\<lambda>t.
             if t \<le> clock then Inl (Cron_TaskControlError ''task_past_due'' ''one-time task schedule must be in the future'')
             else Inr ())
      else Inr ())"

definition update_task_body ::
  "cron_env \<Rightarrow> int \<Rightarrow> string \<Rightarrow> string \<Rightarrow> pydict \<Rightarrow> string \<Rightarrow> pydict cron_op" where
  "update_task_body env clock jid message schedule expected s =
     (case find_cron_job jid s of
        None \<Rightarrow> (Inl (Cron_ValueError (''cron job not found: '' @ jid)), s)
      | Some row \<Rightarrow>
          if \<not> is_plain_agent_turn (cj_payload row)
          then (Inl (Cron_TaskControlError ''task_unsupported_kind'' ''only plain agentTurn tasks can be updated''), s)
          else if active_runs_of jid s > 0
          then (Inl (Cron_TaskControlError ''task_busy'' ''task has queued or running work''), s)
          else with_result (if cj_enabled row then initial_next_due env schedule clock jid else Inr None) (\<lambda>next_due s.
            if cj_updated_at row \<noteq> expected
            then (Inl (Cron_TaskControlError ''task_revision_conflict'' ''task revision changed; refresh and retry''), s)
            else let now = to_iso_utc env clock; payload = dict_set (cj_payload row) ''message'' (PStr message);
                     s = update_cron_jobs jid (\<lambda>j. j\<lparr>cj_schedule := schedule, cj_payload := payload,
                           cj_next_due_at := next_due, cj_updated_at := now\<rparr>) s
                 in case find_cron_job jid s of
                      None \<Rightarrow> (Inl (Cron_ValueError (''cron job not found: '' @ jid)), s)
                    | Some refreshed \<Rightarrow> (Inr (row_to_cron_job refreshed), s)) s)"

definition update_task_cron_job ::
  "cron_env \<Rightarrow> int \<Rightarrow> string \<Rightarrow> string \<Rightarrow> pyval \<Rightarrow> string \<Rightarrow> pydict cron_op" where
  "update_task_cron_job env clock job_id instruction schedule expected_updated_at =
     (let jid = str_strip job_id; message = str_strip instruction; expected = str_strip expected_updated_at in
      with_result (require (jid \<noteq> [] \<and> message \<noteq> [] \<and> expected \<noteq> [])
        ''job_id, instruction, and expected_updated_at are required'') (\<lambda>_.
      with_result (normalize_schedule env schedule) (\<lambda>normalized.
      with_result (schedule_not_past env clock normalized) (\<lambda>_.
        cron_transaction (update_task_body env clock jid message normalized expected)))))"

section \<open>The pause switch\<close>

definition scheduler_is_paused :: "cron_store \<Rightarrow> bool" where
  "scheduler_is_paused s = (case db_control s of None \<Rightarrow> False | Some c \<Rightarrow> ctl_paused c)"

definition get_cron_scheduler_control :: "cron_env \<Rightarrow> int \<Rightarrow> cron_scheduler_control cron_op" where
  "get_cron_scheduler_control env clock s =
     (case db_control s of
        Some c \<Rightarrow> (Inr c, s)
      | None \<Rightarrow>
          let c = \<lparr>ctl_paused = False, ctl_reason = None, ctl_actor = None, ctl_updated_at = to_iso_utc env clock\<rparr>
          in (Inr c, s\<lparr>db_control := Some c\<rparr>))"

text \<open>Two clock readings: one for a missing row, one for the new revision.\<close>

definition set_cron_scheduler_control ::
  "cron_env \<Rightarrow> int \<Rightarrow> int \<Rightarrow> bool \<Rightarrow> string option \<Rightarrow> string \<Rightarrow> string \<Rightarrow> cron_scheduler_control cron_op" where
  "set_cron_scheduler_control env clock0 clock paused reason actor expected_updated_at =
     st_bind (get_cron_scheduler_control env clock0) (\<lambda>current s.
       if ctl_updated_at current \<noteq> str_strip expected_updated_at
       then (Inl (Cron_TaskControlError ''scheduler_revision_conflict'' ''scheduler revision changed; refresh and retry''), s)
       else get_cron_scheduler_control env clock
              (s\<lparr>db_control := Some \<lparr>ctl_paused = paused, ctl_reason = text_or_none reason,
                   ctl_actor = strip_or_none actor, ctl_updated_at = to_iso_utc env clock\<rparr>\<rparr>))"

section \<open>Reading runs\<close>

definition list_cron_runs :: "string option \<Rightarrow> int \<Rightarrow> string list \<Rightarrow> cron_store \<Rightarrow> pydict list" where
  "list_cron_runs job_id limit states s =
     (let wanted = filter (\<lambda>t. t \<noteq> []) (map str_strip states);
          keep = (\<lambda>r. (case job_id of None \<Rightarrow> True | Some j \<Rightarrow> cr_job_id r = Some j) \<and>
                      (wanted = [] \<or> run_state_text (cr_state r) \<in> set wanted))
      in map row_to_cron_run
           (take (nat (max 1 (min limit 2000))) (sql_order_desc cr_created_at (filter keep (db_runs s)))))"

text \<open>\<open>COALESCE(finished_at, updated_at, created_at)\<close>; the second column is never null.\<close>

definition settled_at :: "cron_run \<Rightarrow> string" where
  "settled_at r = (case cr_finished_at r of Some t \<Rightarrow> t | None \<Rightarrow> cr_updated_at r)"

definition outcome_candidate :: "cron_run \<Rightarrow> bool" where
  "outcome_candidate r = (run_terminal r \<and> cr_job_id r \<noteq> None \<and> \<not> (cr_state r = Run_cancelled \<and> cr_attempts r = 0))"

text \<open>The row that \<open>ROW_NUMBER() OVER (PARTITION BY job_id ORDER BY ... DESC, run_id DESC)\<close>
  numbers 1.\<close>

definition newest_of_job :: "cron_run list \<Rightarrow> cron_run \<Rightarrow> bool" where
  "newest_of_job rs r =
     list_all (\<lambda>q. cr_job_id q = cr_job_id r \<longrightarrow>
       settled_at q < settled_at r \<or> settled_at q = settled_at r \<and> cr_run_id q \<le> cr_run_id r) rs"

definition list_unresolved_task_runs :: "int \<Rightarrow> int \<Rightarrow> cron_store \<Rightarrow> pydict list" where
  "list_unresolved_task_runs limit offset s =
     (let rs = filter outcome_candidate (db_runs s);
          newest = sort_key settled_at (sort_key cr_run_id (filter (newest_of_job rs) rs))
      in map row_to_cron_run (take (nat (max 1 (min limit 1000))) (drop (nat (max 0 offset)) newest)))"

definition delete_old_cron_runs :: "string \<Rightarrow> nat cron_op" where
  "delete_old_cron_runs before_iso =
     with_result (require (str_strip before_iso \<noteq> []) ''before_iso is required'') (\<lambda>_ s.
       let old = (\<lambda>r. cr_created_at r < str_strip before_iso \<and> run_terminal r)
       in (Inr (sql_count old (db_runs s)), s\<lparr>db_runs := filter (\<lambda>r. \<not> old r) (db_runs s)\<rparr>))"

definition delete_terminal_cron_runs :: "string \<Rightarrow> nat cron_op" where
  "delete_terminal_cron_runs job_id =
     with_result (require (str_strip job_id \<noteq> []) ''job_id is required'') (\<lambda>_ s.
       let gone = (\<lambda>r. cr_job_id r = Some (str_strip job_id) \<and> run_terminal r)
       in (Inr (sql_count gone (db_runs s)), s\<lparr>db_runs := filter (\<lambda>r. \<not> gone r) (db_runs s)\<rparr>))"

section \<open>Expired leases\<close>

definition retry_delay_seconds :: "int \<Rightarrow> int \<Rightarrow> int" where
  "retry_delay_seconds attempts base_backoff_s =
     min (base_backoff_s * 2 ^ nat (max 0 (attempts - 1))) MAX_CRON_RETRY_BACKOFF_SECONDS"

text \<open>\<open>int(value or default)\<close>\<close>

definition int_or :: "int option \<Rightarrow> int \<Rightarrow> int" where
  "int_or v d = (case v of None \<Rightarrow> d | Some n \<Rightarrow> if n = 0 then d else n)"

definition requeued :: "string \<Rightarrow> pydict \<Rightarrow> string \<Rightarrow> cron_run \<Rightarrow> cron_run" where
  "requeued available_at err now r =
     r\<lparr>cr_state := Run_queued, cr_available_at := Some available_at, cr_started_at := None, cr_error := Some err,
       cr_lease_owner := None, cr_lease_expires_at := None, cr_updated_at := now\<rparr>"

definition run_failed :: "pydict \<Rightarrow> string \<Rightarrow> cron_run \<Rightarrow> cron_run" where
  "run_failed err now r =
     r\<lparr>cr_state := Run_failed, cr_error := Some err, cr_lease_owner := None, cr_lease_expires_at := None,
       cr_finished_at := Some now, cr_updated_at := now\<rparr>"

definition recover_run :: "cron_env \<Rightarrow> int \<Rightarrow> string \<Rightarrow> cron_run \<times> cron_job \<Rightarrow> cron_store \<Rightarrow> pydict \<times> cron_store" where
  "recover_run env now_dt now_iso row s =
     (let (r, j) = row; attempts = cr_attempts r; attempt_limit = max 1 (int_or (Some (cj_max_attempts j)) 3);
          mine = (\<lambda>q. cr_run_id q = cr_run_id r \<and> cr_state q = Run_running);
          head = (\<lambda>st. [(''run_id'', PStr (cr_run_id r)), (''job_id'', opt_value (cr_job_id r)), (''state'', PStr st),
                         (''attempts'', PInt attempts)])
      in if attempts \<ge> attempt_limit
         then let err = [(''code'', PStr ''cron_lease_expired_max_attempts''),
                    (''message'', PStr ''cron run lease expired after the final attempt''),
                    (''attempts'', PInt attempts), (''max_attempts'', PInt attempt_limit)]
              in (head ''failed'' @ [(''error'', PDict err)], update_cron_runs mine (run_failed err now_iso) s)
         else let delay_s = retry_delay_seconds attempts (max 1 (int_or (Some (cj_retry_backoff_s j)) 30));
                  available_at = to_iso_utc env (after_seconds now_dt delay_s);
                  err = [(''code'', PStr ''cron_lease_expired_retry''),
                    (''message'', PStr ''cron run lease expired; delayed retry scheduled''),
                    (''attempts'', PInt attempts), (''max_attempts'', PInt attempt_limit), (''retry_delay_s'', PInt delay_s)]
              in (head ''queued'' @ [(''available_at'', PStr available_at), (''error'', PDict err)],
                  update_cron_runs mine (requeued available_at err now_iso) s))"

text \<open>Runs joined with their jobs.\<close>

definition joined_runs :: "cron_store \<Rightarrow> (cron_run \<times> cron_job) list" where
  "joined_runs s = concat (map (\<lambda>r. case job_of_run s r of None \<Rightarrow> [] | Some j \<Rightarrow> [(r, j)]) (db_runs s))"

definition lease_expired :: "string \<Rightarrow> cron_run \<Rightarrow> bool" where
  "lease_expired now_iso r = (case cr_lease_expires_at r of None \<Rightarrow> False | Some t \<Rightarrow> t \<le> now_iso)"

definition expired_runs :: "string \<Rightarrow> int \<Rightarrow> cron_store \<Rightarrow> (cron_run \<times> cron_job) list" where
  "expired_runs now_iso limit s =
     take (nat (max 1 (min limit 1000)))
       (sort_key (\<lambda>(r, _). opt_or (cr_lease_expires_at r) [])
         (filter (\<lambda>(r, _). cr_state r = Run_running \<and> lease_expired now_iso r) (joined_runs s)))"

fun recover_cron_rows :: "cron_env \<Rightarrow> int \<Rightarrow> string \<Rightarrow> (cron_run \<times> cron_job) list \<Rightarrow> cron_store \<Rightarrow> pydict list \<times> cron_store" where
  "recover_cron_rows env now_dt now_iso [] s = ([], s)"
| "recover_cron_rows env now_dt now_iso (row # rows) s =
     (let (item, s) = recover_run env now_dt now_iso row s; (items, s) = recover_cron_rows env now_dt now_iso rows s
      in (item # items, s))"

definition recover_expired_locked :: "cron_env \<Rightarrow> int \<Rightarrow> string \<Rightarrow> int \<Rightarrow> cron_store \<Rightarrow> pydict list \<times> cron_store" where
  "recover_expired_locked env now_dt now_iso limit s =
     recover_cron_rows env now_dt now_iso (expired_runs now_iso limit s) s"

definition recover_expired_cron_runs :: "cron_env \<Rightarrow> int \<Rightarrow> string option \<Rightarrow> int \<Rightarrow> pydict list cron_op" where
  "recover_expired_cron_runs env clock now_iso limit =
     with_result (given_time env now_iso clock) (\<lambda>now_dt s.
       let (items, s) = recover_expired_locked env now_dt (to_iso_utc env now_dt) limit s in (Inr items, s))"

section \<open>Due jobs\<close>

definition due_text :: "cron_job \<Rightarrow> string" where
  "due_text j = opt_or (cj_next_due_at j) []"

definition due_job_rows :: "cron_env \<Rightarrow> string \<Rightarrow> int \<Rightarrow> int \<Rightarrow> cron_store \<Rightarrow> cron_job list" where
  "due_job_rows env now_iso now limit s =
     (let armed = filter (\<lambda>j. cj_enabled j \<and> cj_next_due_at j \<noteq> None) (db_jobs s);
          rows = take (nat limit) (sort_key due_text (filter (\<lambda>j. due_text j \<le> now_iso) armed))
      in if rows \<noteq> [] then rows
         else take (nat limit) (filter (\<lambda>j. case parse_iso_datetime env (due_text j) of
             Inl _ \<Rightarrow> False | Inr t \<Rightarrow> t \<le> now) (sort_key due_text armed)))"

definition disarm :: "string \<Rightarrow> cron_job \<Rightarrow> cron_job" where
  "disarm now j = j\<lparr>cj_enabled := False, cj_next_due_at := None, cj_updated_at := now\<rparr>"

definition auto_pause_legacy_short_interval_job :: "cron_job \<Rightarrow> string \<Rightarrow> cron_store \<Rightarrow> cron_store" where
  "auto_pause_legacy_short_interval_job job now_iso =
     (let payload = dict_set (dict_set (cj_payload job) ''_openminion_pause_reason'' (PStr ''TASK_SCHEDULE_INTERVAL_TOO_SHORT''))
            ''_openminion_pause_source'' (PStr ''scheduler'')
      in update_cron_jobs (cj_job_id job) (\<lambda>j. (disarm now_iso j)\<lparr>cj_payload := payload\<rparr>))"

text \<open>The failed run that records a missed one-time task.\<close>

definition missed_run :: "string \<Rightarrow> string \<Rightarrow> string \<Rightarrow> string \<Rightarrow> cron_run" where
  "missed_run run_id job_id due_iso now =
     (new_cron_run run_id job_id due_iso None None now)
       \<lparr>cr_state := Run_failed, cr_available_at := None, cr_finished_at := Some now,
        cr_error := Some [(''code'', PStr ''schedule_missed''),
          (''message'', PStr ''one-time task exceeded its allowed lateness'')]\<rparr>"

definition persist_due_decision ::
  "cron_env \<Rightarrow> cron_job \<Rightarrow> int list \<Rightarrow> int option \<Rightarrow> string \<Rightarrow> unit cron_op" where
  "persist_due_decision env job due_points next_due now s =
     (let job_id = cj_job_id job;
          s = update_cron_jobs job_id
                (\<lambda>j. j\<lparr>cj_next_due_at := map_option (to_iso_utc env) next_due, cj_updated_at := now\<rparr>) s
      in if \<not> (str_strip (field_or_empty (cj_schedule job) ''kind'') = ''at'' \<and> str_strip (cj_misfire_policy job) = ''skip'' \<and>
               due_points = [] \<and> next_due = None \<and> is_task_owned_job job_id s)
         then (Inr (), s)
         else st_bind (insert_cron_run_new (missed_run (uuid4_hex env s) job_id (opt_or (cj_next_due_at job) now) now))
                (\<lambda>_ s. (Inr (), update_cron_jobs job_id (disarm now) s)) (uuid_drawn s))"

definition queued_view :: "cron_run \<Rightarrow> pydict" where
  "queued_view r =
     [(''run_id'', PStr (cr_run_id r)), (''job_id'', opt_value (cr_job_id r)), (''state'', PStr ''queued''),
      (''due_at'', PStr (cr_due_at r)), (''available_at'', PStr (cr_due_at r)), (''lease_owner'', opt_value (cr_lease_owner r)),
      (''lease_expires_at'', opt_value (cr_lease_expires_at r)), (''attempts'', PInt 0),
      (''created_at'', PStr (cr_created_at r)), (''updated_at'', PStr (cr_updated_at r))]"

fun enqueue_points ::
  "cron_env \<Rightarrow> string \<Rightarrow> string \<Rightarrow> string \<Rightarrow> string \<Rightarrow> int list \<Rightarrow> pydict list cron_op" where
  "enqueue_points env owner lease_expires now job_id [] s = (Inr [], s)"
| "enqueue_points env owner lease_expires now job_id (t # ts) s =
     (let run = new_cron_run (uuid4_hex env s) job_id (to_iso_utc env t) (Some owner) (Some lease_expires) now
      in st_bind (insert_cron_run_new run) (\<lambda>inserted.
           st_bind (enqueue_points env owner lease_expires now job_id ts) (\<lambda>queued s.
             (Inr (if inserted then queued_view run # queued else queued), s))) (uuid_drawn s))"

definition active_cron_run_count :: "string \<Rightarrow> string \<Rightarrow> cron_store \<Rightarrow> nat" where
  "active_cron_run_count job_id coordination_key s =
     (if coordination_key \<noteq> [] then active_runs_in_scope coordination_key s else active_runs_of job_id s)"

definition cron_job_scope :: "cron_job \<Rightarrow> string" where
  "cron_job_scope job = str_strip (opt_or (cj_concurrency_key job) [])"

definition run_limit :: "cron_job \<Rightarrow> int" where
  "run_limit job = (if cron_job_scope job \<noteq> [] then 1 else max 1 (cj_max_concurrency job))"

definition interval_too_short :: "pydict \<Rightarrow> bool cron_result" where
  "interval_too_short schedule =
     (if str_strip (field_or_empty schedule ''kind'') = ''every''
      then rbind (py_int (py_or (dict_get_or schedule ''every_ms'' (PInt 0)) (PInt 0)))
             (\<lambda>n. Inr (n < DEFAULT_TASK_MIN_EVERY_MS))
      else Inr False)"

text \<open>The due points that fit into the room below the limit are queued; the next due time is stored
  in any case.\<close>

definition enqueue_selected ::
  "cron_env \<Rightarrow> string \<Rightarrow> string \<Rightarrow> string \<Rightarrow> cron_job \<Rightarrow> int \<Rightarrow> int list \<times> int option \<Rightarrow> pydict list cron_op" where
  "enqueue_selected env owner lease_expires now job room selected =
     (let (due_points, next_due) = selected;
          due_points = (if room > 0 \<and> int (length due_points) > room then take (nat room) due_points else due_points)
      in st_bind (persist_due_decision env job due_points next_due now)
           (\<lambda>_. enqueue_points env owner lease_expires now (cj_job_id job) due_points))"

definition enqueue_job ::
  "cron_env \<Rightarrow> string \<Rightarrow> string \<Rightarrow> int \<Rightarrow> string \<Rightarrow> cron_job \<Rightarrow> pydict list cron_op" where
  "enqueue_job env owner lease_expires now_dt now job =
     with_result (interval_too_short (cj_schedule job)) (\<lambda>too_short s.
       if too_short then (Inr [], auto_pause_legacy_short_interval_job job now s)
       else let active_count = int (active_cron_run_count (cj_job_id job) (cron_job_scope job) s) in
         if active_count \<ge> run_limit job then (Inr [], s)
         else with_result (select_due_points_for_job env (row_to_cron_job job) now_dt)
                (enqueue_selected env owner lease_expires now job (max 0 (run_limit job - active_count))) s)"

fun enqueue_jobs ::
  "cron_env \<Rightarrow> string \<Rightarrow> string \<Rightarrow> int \<Rightarrow> string \<Rightarrow> cron_job list \<Rightarrow> pydict list cron_op" where
  "enqueue_jobs env owner lease_expires now_dt now [] s = (Inr [], s)"
| "enqueue_jobs env owner lease_expires now_dt now (job # jobs) s =
     st_bind (enqueue_job env owner lease_expires now_dt now job) (\<lambda>queued.
       st_bind (enqueue_jobs env owner lease_expires now_dt now jobs) (\<lambda>more s. (Inr (queued @ more), s))) s"

definition enqueue_due_body ::
  "cron_env \<Rightarrow> string \<Rightarrow> string \<Rightarrow> int \<Rightarrow> string \<Rightarrow> int \<Rightarrow> pydict list cron_op" where
  "enqueue_due_body env owner lease_expires now_dt now safe_limit s =
     (let s = snd (recover_expired_locked env now_dt now (max 100 (safe_limit * 2)) s)
      in if scheduler_is_paused s then (Inr [], s)
         else enqueue_jobs env owner lease_expires now_dt now (due_job_rows env now now_dt safe_limit s) s)"

definition enqueue_due_cron_runs ::
  "cron_env \<Rightarrow> int \<Rightarrow> string \<Rightarrow> int \<Rightarrow> int \<Rightarrow> string option \<Rightarrow> pydict list cron_op" where
  "enqueue_due_cron_runs env clock daemon_id lease_ttl_s max_jobs now_iso =
     with_result (require (str_strip daemon_id \<noteq> []) ''daemon_id is required'') (\<lambda>_.
     with_result (given_time env now_iso clock) (\<lambda>now_dt.
       cron_transaction (enqueue_due_body env (str_strip daemon_id)
         (to_iso_utc env (after_seconds now_dt (max 1 lease_ttl_s))) now_dt (to_iso_utc env now_dt) (max 1 (min max_jobs 500)))))"

section \<open>Triggers\<close>

definition trigger_task_body :: "cron_env \<Rightarrow> string \<Rightarrow> string \<Rightarrow> pydict cron_op" where
  "trigger_task_body env now jid s =
     (if scheduler_is_paused s then (Inl (Cron_TaskControlError ''scheduler_paused'' ''task scheduler is paused''), s)
      else case find_cron_job jid s of
        None \<Rightarrow> (Inl (Cron_ValueError (''cron job not found: '' @ jid)), s)
      | Some row \<Rightarrow>
          if \<not> cj_enabled row then (Inl (Cron_TaskControlError ''task_not_active'' ''task is not active''), s)
          else if int (active_runs_of jid s) \<ge> cj_max_concurrency row
          then (Inl (Cron_TaskControlError ''task_busy'' ''task is already at its active-run limit''), s)
          else let run = new_cron_run (uuid4_hex env s) jid now None None now
               in st_bind (insert_cron_run run) (\<lambda>_ s. (Inr (row_to_cron_run run), s)) (uuid_drawn s))"

definition trigger_task_run_now :: "cron_env \<Rightarrow> int \<Rightarrow> string \<Rightarrow> pydict cron_op" where
  "trigger_task_run_now env clock job_id =
     with_result (require (str_strip job_id \<noteq> []) ''job_id is required'') (\<lambda>_.
       cron_transaction (trigger_task_body env (to_iso_utc env clock) (str_strip job_id)))"

definition trigger_cron_run ::
  "cron_env \<Rightarrow> int \<Rightarrow> string \<Rightarrow> string option \<Rightarrow> string option \<Rightarrow> int \<Rightarrow> string cron_op" where
  "trigger_cron_run env clock job_id due_at lease_owner lease_ttl_s s =
     (case find_cron_job job_id s of
        None \<Rightarrow> (Inl (Cron_ValueError (''cron job not found: '' @ job_id)), s)
      | Some job \<Rightarrow>
          with_result (given_time env due_at clock) (\<lambda>due_dt s.
            let run_id = uuid4_hex env s;
                expires = (if opt_truthy lease_owner
                           then Some (to_iso_utc env (after_seconds clock (max 1 lease_ttl_s))) else None);
                run = new_cron_run run_id (cj_job_id job) (to_iso_utc env due_dt) (text_or_none lease_owner) expires
                        (to_iso_utc env clock)
            in cron_transaction (\<lambda>s.
                 if cron_job_scope job \<noteq> [] \<and> active_runs_in_scope (cron_job_scope job) s > 0
                 then (Inl (Cron_ValueError (''cron coordination scope is busy: '' @ cron_job_scope job)), s)
                 else st_bind (insert_cron_run run) (\<lambda>_ s. (Inr run_id, s)) s) (uuid_drawn s)) s)"

section \<open>Claiming runs\<close>

definition scope_has_running_run :: "string \<Rightarrow> string \<Rightarrow> cron_store \<Rightarrow> bool" where
  "scope_has_running_run k excluding s =
     (sql_count (\<lambda>r. run_in_scope s k r \<and> cr_state r = Run_running \<and> cr_run_id r \<noteq> excluding) (db_runs s) > 0)"

definition claimable :: "string \<Rightarrow> string \<Rightarrow> cron_run \<times> cron_job \<Rightarrow> bool" where
  "claimable owner now rj =
     (let (r, j) = rj in cr_state r = Run_queued \<and> cj_enabled j \<and>
        (case cr_available_at r of None \<Rightarrow> True | Some t \<Rightarrow> t \<le> now) \<and>
        (cr_lease_owner r = None \<or> cr_lease_owner r = Some owner \<or> cr_lease_expires_at r = None \<or> lease_expired now r))"

definition claim_candidates :: "string \<Rightarrow> string \<Rightarrow> int \<Rightarrow> cron_store \<Rightarrow> cron_run list" where
  "claim_candidates owner now limit s =
     take (nat limit) (sort_key cr_due_at (map fst (filter (claimable owner now) (joined_runs s))))"

definition claimed :: "string \<Rightarrow> string \<Rightarrow> string \<Rightarrow> cron_run \<Rightarrow> cron_run" where
  "claimed owner lease_expires now r =
     r\<lparr>cr_state := Run_running, cr_started_at := (case cr_started_at r of None \<Rightarrow> Some now | Some t \<Rightarrow> Some t),
       cr_available_at := None, cr_lease_owner := Some owner, cr_lease_expires_at := Some lease_expires,
       cr_attempts := cr_attempts r + 1, cr_updated_at := now\<rparr>"

fun acquire_rows :: "string \<Rightarrow> string \<Rightarrow> string \<Rightarrow> cron_run list \<Rightarrow> cron_store \<Rightarrow> cron_run list \<times> cron_store" where
  "acquire_rows owner lease_expires now [] s = ([], s)"
| "acquire_rows owner lease_expires now (row # rows) s =
     (let run_id = cr_run_id row; job_id = str_strip (opt_or (cr_job_id row) []);
          key = (if job_id = [] then [] else case find_cron_job job_id s of None \<Rightarrow> [] | Some j \<Rightarrow> cron_job_scope j)
      in if key \<noteq> [] \<and> scope_has_running_run key run_id s then acquire_rows owner lease_expires now rows s
         else let p = (\<lambda>r. cr_run_id r = run_id \<and> cr_state r = Run_queued);
                  updated = sql_count p (db_runs s);
                  s = update_cron_runs p (claimed owner lease_expires now) s;
                  (acquired, s') = acquire_rows owner lease_expires now rows s
              in case (updated, find_cron_run run_id s) of
                   (Suc _, Some r) \<Rightarrow> (r # acquired, s')
                 | _ \<Rightarrow> (acquired, s'))"

definition acquire_locked ::
  "cron_env \<Rightarrow> string \<Rightarrow> string \<Rightarrow> int \<Rightarrow> string \<Rightarrow> int \<Rightarrow> cron_store \<Rightarrow> cron_run list \<times> cron_store" where
  "acquire_locked env owner lease_expires now_dt now safe_limit s =
     (let s = snd (recover_expired_locked env now_dt now (max 100 (safe_limit * 2)) s)
      in if scheduler_is_paused s then ([], s)
         else acquire_rows owner lease_expires now (claim_candidates owner now safe_limit s) s)"

definition acquire_cron_runs ::
  "cron_env \<Rightarrow> int \<Rightarrow> string \<Rightarrow> int \<Rightarrow> int \<Rightarrow> string option \<Rightarrow> cron_run list cron_op" where
  "acquire_cron_runs env clock daemon_id lease_ttl_s limit now_iso =
     with_result (require (str_strip daemon_id \<noteq> []) ''daemon_id is required'') (\<lambda>_.
     with_result (given_time env now_iso clock) (\<lambda>now_dt s.
       let (acquired, s) = acquire_locked env (str_strip daemon_id) (to_iso_utc env (after_seconds now_dt (max 1 lease_ttl_s)))
             now_dt (to_iso_utc env now_dt) (max 1 (min limit 500)) s
       in (Inr acquired, s)))"

section \<open>Fenced updates\<close>

text \<open>A fence is the daemon and the attempt that claimed a run. Without a fence every row
  matches.\<close>

type_synonym fence = "(string \<times> int) option"

definition fence_args :: "string option \<Rightarrow> int option \<Rightarrow> fence cron_result" where
  "fence_args daemon_id expected_attempts =
     (case (daemon_id, expected_attempts) of
        (None, None) \<Rightarrow> Inr None
      | (Some d, Some n) \<Rightarrow> Inr (Some (str_strip d, n))
      | _ \<Rightarrow> Inl (Cron_ValueError ''daemon_id and expected_attempts must be provided together''))"

definition holds_fence :: "string \<Rightarrow> int \<Rightarrow> cron_run \<Rightarrow> bool" where
  "holds_fence owner n r = (cr_state r = Run_running \<and> cr_lease_owner r = Some owner \<and> cr_attempts r = n)"

definition fence_matches :: "fence \<Rightarrow> cron_run \<Rightarrow> bool" where
  "fence_matches f r = (case f of None \<Rightarrow> True | Some (owner, n) \<Rightarrow> holds_fence owner n r)"

text \<open>\<open>SELECT ... WHERE run_id = ?\<close> with the fence.\<close>

definition fenced_run :: "fence \<Rightarrow> string \<Rightarrow> cron_store \<Rightarrow> cron_run option" where
  "fenced_run f run_id s = find (\<lambda>r. cr_run_id r = run_id \<and> fence_matches f r) (db_runs s)"

definition renew_cron_run_lease ::
  "cron_env \<Rightarrow> int \<Rightarrow> string \<Rightarrow> string \<Rightarrow> int \<Rightarrow> int \<Rightarrow> string option \<Rightarrow> bool cron_op" where
  "renew_cron_run_lease env clock run_id daemon_id expected_attempts lease_ttl_s now_iso =
     with_result (require (str_strip run_id \<noteq> []) ''run_id is required'') (\<lambda>_.
     with_result (require (str_strip daemon_id \<noteq> []) ''daemon_id is required'') (\<lambda>_.
     with_result (given_time env now_iso clock) (\<lambda>now_dt s.
       let lease_expires = to_iso_utc env (after_seconds now_dt (max 1 lease_ttl_s));
           p = (\<lambda>r. cr_run_id r = str_strip run_id \<and> holds_fence (str_strip daemon_id) expected_attempts r)
       in (Inr (sql_count p (db_runs s) > 0),
           update_cron_runs p (\<lambda>r. r\<lparr>cr_lease_expires_at := Some lease_expires, cr_updated_at := to_iso_utc env now_dt\<rparr>) s))))"

definition persist_scope_watermark ::
  "cron_job option \<Rightarrow> run_state \<Rightarrow> pydict option \<Rightarrow> string \<Rightarrow> string \<Rightarrow> cron_store \<Rightarrow> cron_store" where
  "persist_scope_watermark job state output run_id now_iso s =
     (let key = (case job of None \<Rightarrow> [] | Some j \<Rightarrow> cron_job_scope j);
          watermark = dict_get_or (case output of None \<Rightarrow> [] | Some d \<Rightarrow> d) ''coordination_watermark'' PNone
      in if state \<noteq> Run_finished \<or> key = [] \<or> \<not> is_dict watermark then s
         else let row = \<lparr>sc_concurrency_key = key, sc_last_success_run_id = run_id, sc_last_success_at = now_iso,
                    sc_watermark = (case watermark of PDict d \<Rightarrow> d | _ \<Rightarrow> []), sc_updated_at = now_iso\<rparr>
              in s\<lparr>db_scopes := (if sql_get sc_concurrency_key key (db_scopes s) = None then db_scopes s @ [row]
                   else sql_update (\<lambda>c. sc_concurrency_key c = key) (\<lambda>_. row) (db_scopes s))\<rparr>)"

definition finalize_one_time_job ::
  "cron_job option \<Rightarrow> run_state \<Rightarrow> string \<Rightarrow> string \<Rightarrow> cron_store \<Rightarrow> cron_store" where
  "finalize_one_time_job job state job_id now_iso s =
     (let schedule = (case job of None \<Rightarrow> [] | Some j \<Rightarrow> cj_schedule j) in
      if state \<noteq> Run_finished \<or> py_str (dict_get_or schedule ''kind'' PNone) \<noteq> ''at'' then s
      else if (case job of None \<Rightarrow> False | Some j \<Rightarrow> cj_delete_after_run j) then delete_job_row job_id s
      else update_cron_jobs job_id (disarm now_iso) s)"

record run_outcome =
  ro_state :: run_state
  ro_summary :: "string option"
  ro_artifact_refs :: "pyval list"
  ro_error :: "pydict option"
  ro_output :: "pydict option"
  ro_isolated_session_id :: "string option"

definition settled_run :: "run_outcome \<Rightarrow> string \<Rightarrow> cron_run \<Rightarrow> cron_run" where
  "settled_run res now r =
     r\<lparr>cr_state := ro_state res, cr_summary := ro_summary res, cr_artifact_refs := ro_artifact_refs res, cr_error := ro_error res,
       cr_output := (case ro_output res of None \<Rightarrow> [] | Some d \<Rightarrow> d),
       cr_isolated_session_id := text_or_none (ro_isolated_session_id res), cr_lease_owner := None,
       cr_lease_expires_at := None, cr_finished_at := Some now, cr_updated_at := now\<rparr>"

definition finish_cron_run_locked :: "fence \<Rightarrow> string \<Rightarrow> run_outcome \<Rightarrow> string \<Rightarrow> cron_store \<Rightarrow> cron_run option \<times> cron_store" where
  "finish_cron_run_locked f run_id res now_iso s =
     (case fenced_run f run_id s of
        None \<Rightarrow> (None, s)
      | Some row \<Rightarrow>
          let job = job_of_run s row;
              s = update_cron_runs (\<lambda>r. cr_run_id r = run_id \<and> fence_matches f r) (settled_run res now_iso) s;
              s = (case cr_job_id row of
                     None \<Rightarrow> s
                   | Some job_id \<Rightarrow>
                       finalize_one_time_job job (ro_state res) job_id now_iso
                         (persist_scope_watermark job (ro_state res) (ro_output res) run_id now_iso
                           (update_cron_jobs job_id (\<lambda>j. j\<lparr>cj_last_run_at := Some now_iso, cj_updated_at := now_iso\<rparr>) s)))
          in (find_cron_run run_id s, s))"

definition terminal_state_of :: "string \<Rightarrow> run_state cron_result" where
  "terminal_state_of text =
     (case find (\<lambda>st. run_state_text st = str_strip text) terminal_run_states of
        None \<Rightarrow> Inl (Cron_ValueError (''invalid terminal state: '' @ str_strip text))
      | Some st \<Rightarrow> Inr st)"

definition finish_cron_run ::
  "cron_env \<Rightarrow> int \<Rightarrow> string \<Rightarrow> string \<Rightarrow> run_outcome \<Rightarrow> string option \<Rightarrow> int option \<Rightarrow> string option \<Rightarrow> cron_run option cron_op" where
  "finish_cron_run env clock run_id state res daemon_id expected_attempts now_iso =
     with_result (terminal_state_of state) (\<lambda>st.
     with_result (require (str_strip run_id \<noteq> []) ''run_id is required'') (\<lambda>_.
     with_result (fence_args daemon_id expected_attempts) (\<lambda>f.
     with_result (given_time env now_iso clock) (\<lambda>now_dt s.
       let (run, s) = finish_cron_run_locked f (str_strip run_id) (res\<lparr>ro_state := st\<rparr>) (to_iso_utc env now_dt) s
       in (Inr run, s)))))"

definition dict_setdefault :: "pydict \<Rightarrow> string \<Rightarrow> pyval \<Rightarrow> pydict" where
  "dict_setdefault d k v = (if dict_has d k then d else dict_set d k v)"

text \<open>The decision of \<open>retry_cron_run\<close> for a claimed run: a failed run, or a queued one with a delay.\<close>

definition retry_update :: "cron_env \<Rightarrow> int \<Rightarrow> cron_job option \<Rightarrow> pydict \<Rightarrow> int \<Rightarrow> cron_run \<Rightarrow> cron_run" where
  "retry_update env now_dt job err attempts =
     (let attempt_limit = max 1 (int_or (map_option cj_max_attempts job) 1); now = to_iso_utc env now_dt in
      if attempts \<ge> attempt_limit
      then run_failed (dict_setdefault (dict_setdefault err ''attempts'' (PInt attempts)) ''max_attempts'' (PInt attempt_limit)) now
      else let delay_s = retry_delay_seconds attempts (max 1 (int_or (map_option cj_retry_backoff_s job) 30))
           in requeued (to_iso_utc env (after_seconds now_dt delay_s))
                (dict_update err [(''attempts'', PInt attempts), (''max_attempts'', PInt attempt_limit),
                   (''retry_delay_s'', PInt delay_s)]) now)"

definition retry_cron_run ::
  "cron_env \<Rightarrow> int \<Rightarrow> string \<Rightarrow> pydict \<Rightarrow> string option \<Rightarrow> int option \<Rightarrow> string option \<Rightarrow> cron_run option cron_op" where
  "retry_cron_run env clock run_id err daemon_id expected_attempts now_iso =
     with_result (require (str_strip run_id \<noteq> []) ''run_id is required'') (\<lambda>_.
     with_result (fence_args daemon_id expected_attempts) (\<lambda>f.
     with_result (given_time env now_iso clock) (\<lambda>now_dt s.
       case find (\<lambda>r. cr_run_id r = str_strip run_id \<and> cr_state r = Run_running \<and> fence_matches f r) (db_runs s) of
         None \<Rightarrow> (Inr None, s)
       | Some row \<Rightarrow>
           let s = update_cron_runs
                     (\<lambda>r. cr_run_id r = str_strip run_id \<and> holds_fence (opt_or (cr_lease_owner row) []) (cr_attempts row) r)
                     (retry_update env now_dt (job_of_run s row) err (cr_attempts row)) s
           in (Inr (find_cron_run (str_strip run_id) s), s))))"

section \<open>Delivery marks\<close>

text \<open>Marking and unmarking differ in the change of the list of targets, and in the test that
  makes a change superfluous.\<close>

definition delivery_update ::
  "(string \<Rightarrow> string list \<Rightarrow> bool) \<Rightarrow> (string \<Rightarrow> string list \<Rightarrow> string list) \<Rightarrow>
   cron_env \<Rightarrow> int \<Rightarrow> string \<Rightarrow> string \<Rightarrow> string option \<Rightarrow> int option \<Rightarrow> bool cron_op" where
  "delivery_update done change env clock run_id target daemon_id expected_attempts =
     (let rid = str_strip run_id; tgt = str_strip target in
      with_result (require (rid \<noteq> []) ''run_id is required'') (\<lambda>_.
      with_result (require (tgt \<noteq> []) ''target is required'') (\<lambda>_.
      with_result (fence_args daemon_id expected_attempts) (\<lambda>f s.
        case fenced_run f rid s of
          None \<Rightarrow> if f \<noteq> None then (Inr False, s) else (Inl (Cron_ValueError (''cron run not found: '' @ rid)), s)
        | Some row \<Rightarrow>
            if done tgt (cr_delivery_targets row) then (Inr False, s)
            else (Inr True, update_cron_runs (\<lambda>r. cr_run_id r = rid \<and> fence_matches f r)
                   (\<lambda>r. r\<lparr>cr_delivery_targets := change tgt (cr_delivery_targets row), cr_updated_at := to_iso_utc env clock\<rparr>) s)))))"

definition mark_cron_delivery_target ::
  "cron_env \<Rightarrow> int \<Rightarrow> string \<Rightarrow> string \<Rightarrow> string option \<Rightarrow> int option \<Rightarrow> bool cron_op" where
  "mark_cron_delivery_target = delivery_update (\<lambda>t ts. t \<in> set ts) (\<lambda>t ts. ts @ [t])"

definition unmark_cron_delivery_target ::
  "cron_env \<Rightarrow> int \<Rightarrow> string \<Rightarrow> string \<Rightarrow> string option \<Rightarrow> int option \<Rightarrow> bool cron_op" where
  "unmark_cron_delivery_target = delivery_update (\<lambda>t ts. t \<notin> set ts) remove1"

definition get_cron_scope_state :: "string \<Rightarrow> cron_store \<Rightarrow> cron_scope_state option cron_result" where
  "get_cron_scope_state concurrency_key s =
     rbind (require (str_strip concurrency_key \<noteq> []) ''concurrency_key is required'') (\<lambda>_.
       Inr (sql_get sc_concurrency_key (str_strip concurrency_key) (db_scopes s)))"

end
