(* ===== verification/Cron_Statements.thy ===== *)
theory Cron_Statements
  imports Cron_Store
begin

text \<open>
  The statements that the operations of the cron store are made of, as one step relation, and the
  invariant they keep: identifiers are unique and fresh, runs refer to existing jobs, attempts stay
  within the limit of the job, and at most one run of a concurrency scope is running. A statement
  is \<open>fenced\<close> when it settles only active runs and keeps the delivery marks; the operations that
  the daemons call are made of fenced statements.
\<close>

section \<open>The invariant\<close>

lemma sql_get_filter_other:
  "sql_get key k (filter (\<lambda>r. key r \<noteq> k') t) = (if k = k' then None else sql_get key k t)"
  by (induction t) (auto simp: sql_get_def)

text \<open>Identifiers of \<open>uuid4\<close> do not repeat, and have no surrounding space.\<close>

definition uuids_ok :: "cron_env \<Rightarrow> bool" where
  "uuids_ok env = (inj (env_uuid4 env) \<and> (\<forall>n. env_uuid4 env n \<noteq> [] \<and> str_strip (env_uuid4 env n) = env_uuid4 env n))"

text \<open>The columns of a job that no statement changes.\<close>

definition job_frozen :: "cron_job \<Rightarrow> string \<times> int \<times> int \<times> int \<times> string option" where
  "job_frozen j = (cj_job_id j, cj_max_attempts j, cj_retry_backoff_s j, cj_max_concurrency j, cj_concurrency_key j)"

definition stripped :: "string \<Rightarrow> bool" where
  "stripped s = (s \<noteq> [] \<and> str_strip s = s)"

definition cron_job_ok :: "cron_job \<Rightarrow> bool" where
  "cron_job_ok j = (stripped (cj_job_id j) \<and> 1 \<le> cj_max_attempts j \<and> cj_max_attempts j \<le> MAX_CRON_ATTEMPTS \<and>
     1 \<le> cj_retry_backoff_s j \<and> cj_retry_backoff_s j \<le> MAX_CRON_RETRY_BACKOFF_SECONDS \<and> 1 \<le> cj_max_concurrency j \<and>
     (case cj_concurrency_key j of None \<Rightarrow> True | Some k \<Rightarrow> stripped k))"

definition cron_run_ok :: "cron_store \<Rightarrow> cron_run \<Rightarrow> bool" where
  "cron_run_ok s r =
     (0 \<le> cr_attempts r \<and> cr_attempts r \<le> MAX_CRON_ATTEMPTS \<and>
      (cr_state r = Run_running \<longrightarrow> 1 \<le> cr_attempts r \<and> cr_lease_owner r \<noteq> None \<and> cr_lease_expires_at r \<noteq> None) \<and>
      (case job_of_run s r of
         None \<Rightarrow> cr_job_id r = None
       | Some j \<Rightarrow> cr_attempts r \<le> cj_max_attempts j \<and> (cr_state r = Run_queued \<longrightarrow> cr_attempts r < cj_max_attempts j)))"

definition id_drawn :: "cron_env \<Rightarrow> cron_store \<Rightarrow> string \<Rightarrow> bool" where
  "id_drawn env s i = (\<exists>n < db_uuids s. i = env_uuid4 env n)"

definition scopes_exclusive :: "cron_store \<Rightarrow> bool" where
  "scopes_exclusive s = (\<forall>k. \<forall>r\<in>set (db_runs s). \<forall>q\<in>set (db_runs s).
     cr_state r = Run_running \<and> run_in_scope s k r \<and> cr_state q = Run_running \<and> run_in_scope s k q \<longrightarrow>
     cr_run_id r = cr_run_id q)"

definition due_unique :: "cron_store \<Rightarrow> bool" where
  "due_unique s = (\<forall>r\<in>set (db_runs s). \<forall>q\<in>set (db_runs s).
     cr_job_id r \<noteq> None \<and> cr_job_id r = cr_job_id q \<and> cr_due_at r = cr_due_at q \<longrightarrow> cr_run_id r = cr_run_id q)"

definition cron_inv :: "cron_env \<Rightarrow> cron_store \<Rightarrow> bool" where
  "cron_inv env s = (uuids_ok env \<and> keys_unique cj_job_id (db_jobs s) \<and> keys_unique cr_run_id (db_runs s) \<and>
     (\<forall>j\<in>set (db_jobs s). cron_job_ok j) \<and>
     (\<forall>r\<in>set (db_runs s). cron_run_ok s r \<and> id_drawn env s (cr_run_id r)) \<and>
     scopes_exclusive s \<and> due_unique s)"

section \<open>Statements\<close>

text \<open>The outcome stored with a run.\<close>

definition run_result ::
  "cron_run \<Rightarrow> string option \<times> pyval list \<times> pydict option \<times> pydict \<times> string option \<times> string option" where
  "run_result r = (cr_summary r, cr_artifact_refs r, cr_error r, cr_output r, cr_isolated_session_id r, cr_finished_at r)"

text \<open>A change of a row of \<open>cron_runs\<close> by an update other than a claim.\<close>

definition row_change :: "bool \<Rightarrow> cron_store \<Rightarrow> cron_run \<Rightarrow> cron_run \<Rightarrow> bool" where
  "row_change fenced s r r' =
     (cr_run_id r' = cr_run_id r \<and> cr_job_id r' = cr_job_id r \<and> cr_due_at r' = cr_due_at r \<and> cr_attempts r' = cr_attempts r \<and>
      (fenced \<longrightarrow> set (cr_delivery_targets r) \<subseteq> set (cr_delivery_targets r')) \<and>
      (cr_state r' = cr_state r \<and> cr_lease_owner r' = cr_lease_owner r \<and> run_result r' = run_result r \<and>
         (cr_lease_expires_at r \<noteq> None \<longrightarrow> cr_lease_expires_at r' \<noteq> None) \<or>
       cr_state r = Run_running \<and> cr_state r' = Run_queued \<and>
         (\<exists>j. job_of_run s r = Some j \<and> cr_attempts r < cj_max_attempts j) \<or>
       run_terminal r' \<and> (fenced \<longrightarrow> run_active r)))"

definition fresh_run :: "cron_env \<Rightarrow> cron_store \<Rightarrow> cron_run \<Rightarrow> bool" where
  "fresh_run env s r =
     (cr_run_id r = uuid4_hex env s \<and> cr_attempts r = 0 \<and> (cr_state r = Run_queued \<or> run_terminal r) \<and>
      job_of_run s r \<noteq> None \<and> \<not> due_taken r s)"

definition scope_free :: "cron_store \<Rightarrow> cron_job \<Rightarrow> cron_run \<Rightarrow> bool" where
  "scope_free s j r = (\<forall>k. cj_concurrency_key j = Some k \<longrightarrow> \<not> scope_has_running_run k (cr_run_id r) s)"

inductive cron_stmt :: "cron_env \<Rightarrow> bool \<Rightarrow> cron_store \<Rightarrow> cron_store \<Rightarrow> bool" for env fenced where
  stmt_other: "db_jobs t = db_jobs s \<Longrightarrow> db_runs t = db_runs s \<Longrightarrow> db_uuids s \<le> db_uuids t \<Longrightarrow> cron_stmt env fenced s t"
| stmt_jobs: "(\<And>j. job_frozen (f j) = job_frozen j) \<Longrightarrow> cron_stmt env fenced s (update_cron_jobs job_id f s)"
| stmt_add_job: "cron_job_ok j \<Longrightarrow> cj_job_id j \<notin> cj_job_id ` set (db_jobs s) \<Longrightarrow>
    cron_stmt env fenced s (s\<lparr>db_jobs := db_jobs s @ [j]\<rparr>)"
| stmt_delete_job: "cron_stmt env fenced s (delete_job_row job_id s)"
| stmt_runs: "(\<And>r. r \<in> set (db_runs s) \<Longrightarrow> p r \<Longrightarrow> row_change fenced s r (f r)) \<Longrightarrow>
    cron_stmt env fenced s (update_cron_runs p f s)"
| stmt_claim: "r \<in> set (db_runs s) \<Longrightarrow> cr_state r = Run_queued \<Longrightarrow> job_of_run s r = Some j \<Longrightarrow> cj_enabled j \<Longrightarrow>
    \<not> scheduler_is_paused s \<Longrightarrow> scope_free s j r \<Longrightarrow>
    cron_stmt env fenced s (update_cron_runs (\<lambda>q. cr_run_id q = cr_run_id r \<and> cr_state q = Run_queued)
      (claimed owner lease_expires now) s)"
| stmt_insert: "fresh_run env s r \<Longrightarrow> cron_stmt env fenced s ((uuid_drawn s)\<lparr>db_runs := db_runs s @ [r]\<rparr>)"
| stmt_delete: "(\<And>r. r \<in> set (db_runs s) \<Longrightarrow> \<not> keep r \<Longrightarrow> run_terminal r) \<Longrightarrow>
    cron_stmt env fenced s (s\<lparr>db_runs := filter keep (db_runs s)\<rparr>)"

section \<open>Lemmas on rows\<close>

lemma cron_invD:
  assumes "cron_inv env s"
  shows "keys_unique cj_job_id (db_jobs s)" "keys_unique cr_run_id (db_runs s)"
    "j \<in> set (db_jobs s) \<Longrightarrow> cron_job_ok j" "r \<in> set (db_runs s) \<Longrightarrow> cron_run_ok s r"
    "r \<in> set (db_runs s) \<Longrightarrow> id_drawn env s (cr_run_id r)" "scopes_exclusive s" "due_unique s" "uuids_ok env"
  using assms by (auto simp: cron_inv_def)

lemma find_cron_job_Some: "find_cron_job k s = Some j \<Longrightarrow> j \<in> set (db_jobs s) \<and> cj_job_id j = k"
  by (auto simp: find_cron_job_def dest: sql_get_Some)

lemma job_of_run_Some: "job_of_run s r = Some j \<Longrightarrow> j \<in> set (db_jobs s) \<and> cr_job_id r = Some (cj_job_id j)"
  by (auto simp: job_of_run_def dest!: find_cron_job_Some split: option.splits)

lemma job_of_run_cong: "cr_job_id r' = cr_job_id r \<Longrightarrow> db_jobs t = db_jobs s \<Longrightarrow> job_of_run t r' = job_of_run s r"
  by (simp add: job_of_run_def find_cron_job_def split: option.split)

text \<open>What the invariant reads of a run's job.\<close>

definition job_info :: "cron_store \<Rightarrow> cron_run \<Rightarrow> (string \<times> int \<times> int \<times> int \<times> string option) option" where
  "job_info s r = map_option job_frozen (job_of_run s r)"

lemma job_info_scope: "run_in_scope s k r \<longleftrightarrow> (\<exists>a b c d. job_info s r = Some (a, b, c, d, Some k))"
  by (auto simp: run_in_scope_def job_info_def job_frozen_def split: option.splits)

lemma cron_run_ok_cong:
  assumes "cron_run_ok s r" "job_info t r' = job_info s r" "cr_job_id r' = cr_job_id r" "cr_attempts r' = cr_attempts r"
    "cr_state r' = cr_state r" "cr_lease_owner r' = cr_lease_owner r" "cr_lease_expires_at r \<noteq> None \<longrightarrow> cr_lease_expires_at r' \<noteq> None"
  shows "cron_run_ok t r'"
  using assms by (auto simp: cron_run_ok_def job_info_def job_frozen_def split: option.splits)

lemma id_drawn_mono: "id_drawn env s i \<Longrightarrow> db_uuids s \<le> db_uuids t \<Longrightarrow> id_drawn env t i"
  by (auto simp: id_drawn_def dest: less_le_trans)

text \<open>Where a row of the new table comes from, when no run starts.\<close>

definition row_from :: "cron_store \<Rightarrow> cron_store \<Rightarrow> cron_run \<Rightarrow> cron_run \<Rightarrow> bool" where
  "row_from s t r r' =
     (cr_run_id r' = cr_run_id r \<and> cr_due_at r' = cr_due_at r \<and>
      (cr_job_id r' = None \<or> cr_job_id r' = cr_job_id r \<and> job_info t r' = job_info s r) \<and>
      cron_run_ok t r' \<and> (cr_state r' = Run_running \<longrightarrow> cr_state r = Run_running))"

lemma row_from_scope: "row_from s t r r' \<Longrightarrow> run_in_scope t k r' \<Longrightarrow> run_in_scope s k r"
  by (auto simp: row_from_def job_info_scope) (auto simp: job_info_def job_of_run_def)

lemma cron_inv_rows:
  assumes inv: "cron_inv env s" and jobs: "keys_unique cj_job_id (db_jobs t)" "\<forall>j\<in>set (db_jobs t). cron_job_ok j"
    and runs: "keys_unique cr_run_id (db_runs t)" and uuids: "db_uuids s \<le> db_uuids t"
    and from_s: "\<And>r'. r' \<in> set (db_runs t) \<Longrightarrow> \<exists>r\<in>set (db_runs s). row_from s t r r'"
  shows "cron_inv env t"
proof -
  have ok: "cron_run_ok t r' \<and> id_drawn env t (cr_run_id r')" if "r' \<in> set (db_runs t)" for r'
  proof -
    from from_s [OF that] obtain r where "r \<in> set (db_runs s)" "row_from s t r r'" by blast
    with cron_invD(5) [OF inv, of r] uuids show ?thesis by (auto simp: row_from_def intro: id_drawn_mono)
  qed
  have "scopes_exclusive t" unfolding scopes_exclusive_def
  proof (intro allI ballI impI, elim conjE)
    fix k r' q' assume in_t: "r' \<in> set (db_runs t)" "q' \<in> set (db_runs t)"
      and run: "cr_state r' = Run_running" "cr_state q' = Run_running"
      and sc: "run_in_scope t k r'" "run_in_scope t k q'"
    obtain r q where rq: "r \<in> set (db_runs s)" "row_from s t r r'" "q \<in> set (db_runs s)" "row_from s t q q'"
      using from_s in_t by blast
    with sc have "run_in_scope s k r" "run_in_scope s k q" by (auto intro: row_from_scope)
    moreover have "cr_state r = Run_running" "cr_state q = Run_running" using rq run by (auto simp: row_from_def)
    ultimately have "cr_run_id r = cr_run_id q"
      using cron_invD(6) [OF inv] rq(1,3) unfolding scopes_exclusive_def by blast
    with rq show "cr_run_id r' = cr_run_id q'" by (simp add: row_from_def)
  qed
  moreover have "due_unique t" unfolding due_unique_def
  proof (intro ballI impI, elim conjE)
    fix r' q' assume in_t: "r' \<in> set (db_runs t)" "q' \<in> set (db_runs t)"
      and same: "cr_job_id r' \<noteq> None" "cr_job_id r' = cr_job_id q'" "cr_due_at r' = cr_due_at q'"
    obtain r q where rq: "r \<in> set (db_runs s)" "row_from s t r r'" "q \<in> set (db_runs s)" "row_from s t q q'"
      using from_s in_t by blast
    then have "cr_run_id r = cr_run_id q"
      using cron_invD(7) [OF inv] same unfolding due_unique_def row_from_def by metis
    with rq show "cr_run_id r' = cr_run_id q'" by (simp add: row_from_def)
  qed
  ultimately show ?thesis using jobs runs ok cron_invD(8) [OF inv] by (simp add: cron_inv_def)
qed

lemma job_frozen_fields:
  assumes "job_frozen j = job_frozen i"
  shows "cj_job_id j = cj_job_id i" "cj_max_attempts j = cj_max_attempts i"
    "cj_concurrency_key j = cj_concurrency_key i" "cron_job_ok j = cron_job_ok i"
  using assms by (auto simp: job_frozen_def cron_job_ok_def)

lemma find_updated_job:
  assumes "\<And>j. job_frozen (f j) = job_frozen j"
  shows "find_cron_job k (update_cron_jobs job_id f s) =
    map_option (\<lambda>j. if cj_job_id j = job_id then f j else j) (find_cron_job k s)"
proof -
  have key: "cj_job_id (f j) = cj_job_id j" for j by (rule job_frozen_fields(1) [OF assms])
  have "keyed_update cj_job_id f" by unfold_locales (rule key)
  then show ?thesis by (simp add: find_cron_job_def update_cron_jobs_def keyed_update.get_update)
qed

lemma job_info_updated:
  assumes "\<And>j. job_frozen (f j) = job_frozen j"
  shows "job_info (update_cron_jobs job_id f s) r = job_info s r"
proof (cases "cr_job_id r")
  case (Some k)
  then show ?thesis
    by (cases "find_cron_job k s") (simp_all add: job_info_def job_of_run_def find_updated_job [OF assms] assms)
qed (simp add: job_info_def job_of_run_def)

lemma find_cron_job_deleted:
  "find_cron_job k (delete_job_row job_id s) = (if k = job_id then None else find_cron_job k s)"
  by (simp add: find_cron_job_def delete_job_row_def sql_get_filter_other)

lemma row_from_same: "cron_run_ok s r \<Longrightarrow> job_info t r = job_info s r \<Longrightarrow> row_from s t r r"
  by (auto simp: row_from_def intro: cron_run_ok_cong)

section \<open>Statements keep the invariant\<close>

lemma stmt_other_inv:
  assumes "cron_inv env s" "db_jobs t = db_jobs s" "db_runs t = db_runs s" "db_uuids s \<le> db_uuids t"
  shows "cron_inv env t"
proof (rule cron_inv_rows [OF assms(1)])
  fix r assume "r \<in> set (db_runs t)"
  then have "r \<in> set (db_runs s)" "job_info t r = job_info s r"
    using assms job_of_run_cong [of r r t s] by (simp_all add: job_info_def)
  with cron_invD(4) [OF assms(1)] show "\<exists>r'\<in>set (db_runs s). row_from s t r' r"
    by (blast intro: row_from_same)
qed (use assms in \<open>auto simp: cron_inv_def\<close>)

lemma stmt_jobs_inv:
  assumes "cron_inv env s" and frozen: "\<And>j. job_frozen (f j) = job_frozen j"
  shows "cron_inv env (update_cron_jobs job_id f s)" (is "cron_inv env ?t")
proof (rule cron_inv_rows [OF assms(1)])
  have "map cj_job_id (db_jobs ?t) = map cj_job_id (db_jobs s)"
    by (simp add: update_cron_jobs_def sql_update_def job_frozen_fields(1) [OF frozen])
  with cron_invD(1) [OF assms(1)] show "keys_unique cj_job_id (db_jobs ?t)" by (simp add: keys_unique_def)
  show "\<forall>j\<in>set (db_jobs ?t). cron_job_ok j"
    using assms by (auto simp: update_cron_jobs_def cron_inv_def set_sql_update job_frozen_fields(4) [OF frozen])
  fix r assume "r \<in> set (db_runs ?t)"
  then have "r \<in> set (db_runs s)" by (simp add: update_cron_jobs_def)
  with cron_invD(4) [OF assms(1)] show "\<exists>r'\<in>set (db_runs s). row_from s ?t r' r"
    by (blast intro: row_from_same job_info_updated frozen)
qed (use assms in \<open>auto simp: cron_inv_def update_cron_jobs_def\<close>)

lemma stmt_add_job_inv:
  assumes "cron_inv env s" "cron_job_ok j" and new: "cj_job_id j \<notin> cj_job_id ` set (db_jobs s)"
  shows "cron_inv env (s\<lparr>db_jobs := db_jobs s @ [j]\<rparr>)" (is "cron_inv env ?t")
proof (rule cron_inv_rows [OF assms(1)])
  fix r assume "r \<in> set (db_runs ?t)"
  then have r: "r \<in> set (db_runs s)" "cron_run_ok s r" using cron_invD(4) [OF assms(1)] by simp_all
  then have "job_info ?t r = job_info s r"
    by (auto simp: job_info_def job_of_run_def find_cron_job_def sql_get_append cron_run_ok_def split: option.splits)
  with r show "\<exists>r'\<in>set (db_runs s). row_from s ?t r' r"
    by (blast intro: row_from_same)
qed (use assms in \<open>auto simp: cron_inv_def keys_unique_def\<close>)

lemma stmt_delete_job_inv:
  assumes "cron_inv env s"
  shows "cron_inv env (delete_job_row job_id s)" (is "cron_inv env ?t")
proof (rule cron_inv_rows [OF assms])
  show "keys_unique cr_run_id (db_runs ?t)"
    using cron_invD(2) [OF assms]
    by (simp add: delete_job_row_def keyed_update.unique_update [OF keyed_update.intro])
  fix r' assume "r' \<in> set (db_runs ?t)"
  then obtain r where r: "r \<in> set (db_runs s)"
    and r': "r' = (if cr_job_id r = Some job_id then r\<lparr>cr_job_id := None\<rparr> else r)"
    by (auto simp: delete_job_row_def set_sql_update)
  have ok: "cron_run_ok s r" using cron_invD(4) [OF assms r] .
  have "row_from s ?t r r'"
  proof (cases "cr_job_id r = Some job_id")
    case True
    with ok r' show ?thesis by (auto simp: row_from_def cron_run_ok_def job_of_run_def)
  next
    case False
    then have "job_info ?t r = job_info s r"
      by (auto simp: job_info_def job_of_run_def find_cron_job_deleted split: option.split)
    with False r' ok show ?thesis by (simp add: row_from_same)
  qed
  with r show "\<exists>r\<in>set (db_runs s). row_from s ?t r r'" by blast
qed (use assms in \<open>auto simp: cron_inv_def delete_job_row_def keys_unique_def distinct_map_filter\<close>)

lemma row_change_from:
  assumes change: "row_change fenced s r r'" and ok: "cron_run_ok s r" and "db_jobs t = db_jobs s"
  shows "row_from s t r r'"
proof -
  have job: "job_of_run t r' = job_of_run s r" 
    by (rule job_of_run_cong) (use change assms(3) in \<open>simp_all add: row_change_def\<close>)
  have same: "cr_job_id r' = cr_job_id r" "cr_attempts r' = cr_attempts r" using change by (simp_all add: row_change_def)
  have "cron_run_ok t r' \<and> (cr_state r' = Run_running \<longrightarrow> cr_state r = Run_running)"
    using change unfolding row_change_def
  proof (elim conjE disjE)
    assume "cr_state r' = cr_state r" "cr_lease_owner r' = cr_lease_owner r"
      "cr_lease_expires_at r \<noteq> None \<longrightarrow> cr_lease_expires_at r' \<noteq> None"
    with ok job same show ?thesis by (auto simp: job_info_def intro: cron_run_ok_cong)
  next
    assume "cr_state r' = Run_queued" "\<exists>j. job_of_run s r = Some j \<and> cr_attempts r < cj_max_attempts j"
    with ok job same show ?thesis by (auto simp: cron_run_ok_def)
  next
    assume "run_terminal r'"
    then have "cr_state r' \<noteq> Run_running" "cr_state r' \<noteq> Run_queued" by (auto simp: run_terminal_def terminal_run_states_def)
    with ok job same show ?thesis by (simp add: cron_run_ok_def split: option.splits)
  qed
  with change job show ?thesis by (simp add: row_from_def row_change_def job_info_def)
qed

lemma stmt_runs_inv:
  assumes "cron_inv env s" and change: "\<And>r. r \<in> set (db_runs s) \<Longrightarrow> p r \<Longrightarrow> row_change fenced s r (f r)"
  shows "cron_inv env (update_cron_runs p f s)" (is "cron_inv env ?t")
proof (rule cron_inv_rows [OF assms(1)])
  have "map cr_run_id (db_runs ?t) = map cr_run_id (db_runs s)"
    using change by (auto simp: update_cron_runs_def sql_update_def row_change_def)
  with cron_invD(2) [OF assms(1)] show "keys_unique cr_run_id (db_runs ?t)" by (simp add: keys_unique_def)
  have jobs: "db_jobs ?t = db_jobs s" by (simp add: update_cron_runs_def)
  fix r' assume "r' \<in> set (db_runs ?t)"
  then obtain r where r: "r \<in> set (db_runs s)" "r' = (if p r then f r else r)"
    by (auto simp: update_cron_runs_def set_sql_update)
  have "row_change fenced s r r'" using r change by (auto simp: row_change_def)
  with r jobs cron_invD(4) [OF assms(1)] show "\<exists>r\<in>set (db_runs s). row_from s ?t r r'"
    by (blast intro: row_change_from)
qed (use assms in \<open>auto simp: cron_inv_def update_cron_runs_def\<close>)

lemma stmt_delete_inv:
  assumes "cron_inv env s"
  shows "cron_inv env (s\<lparr>db_runs := filter keep (db_runs s)\<rparr>)" (is "cron_inv env ?t")
proof (rule cron_inv_rows [OF assms])
  fix r assume "r \<in> set (db_runs ?t)"
  then have "r \<in> set (db_runs s)" "job_info ?t r = job_info s r"
    using job_of_run_cong [of r r ?t s] by (simp_all add: job_info_def)
  with cron_invD(4) [OF assms] show "\<exists>r'\<in>set (db_runs s). row_from s ?t r' r"
    by (blast intro: row_from_same)
qed (use assms in \<open>auto simp: cron_inv_def keys_unique_def distinct_map_filter\<close>)

lemma new_id_fresh:
  assumes "uuids_ok env" "id_drawn env s i"
  shows "i \<noteq> uuid4_hex env s"
  using assms by (auto simp: uuids_ok_def id_drawn_def uuid4_hex_def dest: injD)

lemma stmt_insert_inv:
  assumes inv: "cron_inv env s" and new: "fresh_run env s r"
  shows "cron_inv env ((uuid_drawn s)\<lparr>db_runs := db_runs s @ [r]\<rparr>)" (is "cron_inv env ?t")
proof -
  have not_old: "cr_run_id q \<noteq> cr_run_id r" if "q \<in> set (db_runs s)" for q
    using new_id_fresh [OF cron_invD(8) [OF inv] cron_invD(5) [OF inv that]] new by (simp add: fresh_run_def)
  have info: "job_of_run ?t q = job_of_run s q" for q by (rule job_of_run_cong) (simp_all add: uuid_drawn_def)
  then have scope: "run_in_scope ?t k q = run_in_scope s k q" for k q by (simp add: run_in_scope_def)
  obtain j where j: "job_of_run s r = Some j" using new by (auto simp: fresh_run_def)
  then have "cron_job_ok j" using job_of_run_Some cron_invD(3) [OF inv] by blast
  then have ok_r: "cron_run_ok ?t r" using new j info
    by (auto simp: cron_run_ok_def fresh_run_def cron_job_ok_def MAX_CRON_ATTEMPTS_def run_terminal_def terminal_run_states_def)
  have ok: "cron_run_ok ?t q \<and> id_drawn env ?t (cr_run_id q)" if "q \<in> set (db_runs s)" for q
    using cron_invD(4,5) [OF inv that] info id_drawn_mono [of env s _ ?t] by (auto simp: cron_run_ok_def uuid_drawn_def)
  have drawn_r: "id_drawn env ?t (cr_run_id r)"
    using new by (auto simp: id_drawn_def fresh_run_def uuid4_hex_def uuid_drawn_def)
  have not_running: "cr_state r \<noteq> Run_running" using new
    by (auto simp: fresh_run_def run_terminal_def terminal_run_states_def)
  have "scopes_exclusive ?t" using cron_invD(6) [OF inv] not_running unfolding scopes_exclusive_def scope by auto
  moreover have "due_unique ?t" unfolding due_unique_def
  proof (intro ballI impI, elim conjE)
    have other: "cr_job_id q \<noteq> cr_job_id r \<or> cr_due_at q \<noteq> cr_due_at r" if "q \<in> set (db_runs s)" for q
      using that new job_of_run_Some [OF j] by (auto simp: fresh_run_def due_taken_def list_ex_iff)
    fix a b assume ab: "a \<in> set (db_runs ?t)" "b \<in> set (db_runs ?t)" "cr_job_id a \<noteq> None" "cr_job_id a = cr_job_id b"
      "cr_due_at a = cr_due_at b"
    then consider "a = r \<and> b = r" | "a = r \<and> b \<in> set (db_runs s)" | "b = r \<and> a \<in> set (db_runs s)"
      | "a \<in> set (db_runs s) \<and> b \<in> set (db_runs s)" by auto
    then show "cr_run_id a = cr_run_id b"
    proof cases
      case 4
      with cron_invD(7) [OF inv] ab(3-5) show ?thesis unfolding due_unique_def by blast
    qed (use other ab(4,5) in auto)
  qed
  moreover have "keys_unique cr_run_id (db_runs ?t)"
    using cron_invD(2) [OF inv] not_old by (simp add: keys_unique_def) (metis imageE)
  ultimately show ?thesis using ok ok_r drawn_r cron_invD(1,3,8) [OF inv] by (simp add: cron_inv_def uuid_drawn_def)
qed

lemma claimed_fields [simp]:
  "cr_run_id (claimed w e n r) = cr_run_id r" "cr_job_id (claimed w e n r) = cr_job_id r"
  "cr_due_at (claimed w e n r) = cr_due_at r" "cr_state (claimed w e n r) = Run_running"
  "cr_attempts (claimed w e n r) = cr_attempts r + 1" "cr_lease_owner (claimed w e n r) = Some w"
  "cr_lease_expires_at (claimed w e n r) = Some e" "cr_delivery_targets (claimed w e n r) = cr_delivery_targets r"
  by (simp_all add: claimed_def)

interpretation claim: keyed_update cr_run_id "claimed w e n"
  by unfold_locales simp

lemma scope_free_runs:
  assumes "scope_free s j r" "job_of_run s r = Some j" "q \<in> set (db_runs s)" "cr_state q = Run_running"
    "run_in_scope s k q" "run_in_scope s k r"
  shows "cr_run_id q = cr_run_id r"
  using assms by (auto simp: scope_free_def run_in_scope_def scope_has_running_run_def sql_count_def filter_empty_conv)

lemma stmt_claim_inv:
  assumes inv: "cron_inv env s" and r: "r \<in> set (db_runs s)" "cr_state r = Run_queued" "job_of_run s r = Some j"
    and free: "scope_free s j r"
  shows "cron_inv env (update_cron_runs (\<lambda>q. cr_run_id q = cr_run_id r \<and> cr_state q = Run_queued) (claimed w e n) s)"
    (is "cron_inv env ?t")
proof -
  let ?old = "\<lambda>q q'. q \<in> set (db_runs s) \<and> cr_run_id q' = cr_run_id q \<and> cr_due_at q' = cr_due_at q \<and> cr_job_id q' = cr_job_id q \<and>
    (q' = q \<or> q = r \<and> q' = claimed w e n r)"
  have info: "job_of_run ?t q' = job_of_run s q" if "cr_job_id q' = cr_job_id q" for q q'
    by (rule job_of_run_cong) (use that in \<open>simp_all add: update_cron_runs_def\<close>)
  then have scope: "run_in_scope ?t k q' = run_in_scope s k q" if "cr_job_id q' = cr_job_id q" for k q q'
    using that by (simp add: run_in_scope_def)
  have same: "q = r" if "q \<in> set (db_runs s)" "cr_run_id q = cr_run_id r" for q
    using that r(1) cron_invD(2) [OF inv] by (auto simp: keys_unique_def distinct_map inj_on_def)
  have old: "\<exists>q. ?old q q'" if "q' \<in> set (db_runs ?t)" for q'
  proof -
    from that obtain q where "q \<in> set (db_runs s)"
      "q' = (if cr_run_id q = cr_run_id r \<and> cr_state q = Run_queued then claimed w e n q else q)"
      by (auto simp: update_cron_runs_def set_sql_update)
    with same [of q] show ?thesis by (auto split: if_splits)
  qed
  have "cron_job_ok j" using job_of_run_Some [OF r(3)] cron_invD(3) [OF inv] by blast
  then have ok_r: "cron_run_ok ?t (claimed w e n r)"
    using cron_invD(4) [OF inv r(1)] r info [of "claimed w e n r" r]
    by (auto simp: cron_run_ok_def cron_job_ok_def)
  have ok: "cron_run_ok ?t q' \<and> id_drawn env ?t (cr_run_id q')" if "q' \<in> set (db_runs ?t)" for q'
  proof -
    from old [OF that] obtain q where q: "?old q q'" by blast
    then have "id_drawn env ?t (cr_run_id q')" using cron_invD(5) [OF inv, of q] by (simp add: id_drawn_def update_cron_runs_def)
    moreover have "cron_run_ok ?t q'" using q ok_r cron_invD(4) [OF inv, of q] info [of q q] by (auto simp: cron_run_ok_def)
    ultimately show ?thesis by simp
  qed
  have "scopes_exclusive ?t" unfolding scopes_exclusive_def
  proof (intro allI ballI impI, elim conjE)
    fix k a' b' assume ab: "a' \<in> set (db_runs ?t)" "b' \<in> set (db_runs ?t)" "cr_state a' = Run_running" "cr_state b' = Run_running"
      "run_in_scope ?t k a'" "run_in_scope ?t k b'"
    obtain a b where o: "?old a a'" "?old b b'" using old ab(1,2) by blast
    have sc: "run_in_scope s k a" "run_in_scope s k b"
      using o ab(5,6) scope [of a' a k] scope [of b' b k] by simp_all
    have run: "c = r \<or> cr_state c = Run_running" if "?old c c'" "cr_state c' = Run_running" for c c' using that by auto
    then have "(a = r \<or> cr_state a = Run_running) \<and> (b = r \<or> cr_state b = Run_running)" using o ab(3,4) by blast
    then have "cr_run_id a = cr_run_id b"
      using o sc scope_free_runs [OF free r(3)] cron_invD(6) [OF inv] unfolding scopes_exclusive_def by metis
    with o show "cr_run_id a' = cr_run_id b'" by simp
  qed
  moreover have "due_unique ?t" unfolding due_unique_def
  proof (intro ballI impI, elim conjE)
    fix a' b' assume ab: "a' \<in> set (db_runs ?t)" "b' \<in> set (db_runs ?t)" "cr_job_id a' \<noteq> None" "cr_job_id a' = cr_job_id b'"
      "cr_due_at a' = cr_due_at b'"
    obtain a b where o: "?old a a'" "?old b b'" using old ab(1,2) by blast
    then have "cr_run_id a = cr_run_id b" using cron_invD(7) [OF inv] ab(3-5) by (simp add: due_unique_def)
    with o show "cr_run_id a' = cr_run_id b'" by simp
  qed
  moreover have "keys_unique cr_run_id (db_runs ?t)"
    using cron_invD(2) [OF inv] by (simp add: update_cron_runs_def claim.unique_update)
  ultimately show ?thesis using ok cron_invD(1,3,8) [OF inv] by (simp add: cron_inv_def update_cron_runs_def)
qed

lemma cron_stmt_inv:
  assumes "cron_inv env s" "cron_stmt env fenced s t"
  shows "cron_inv env t"
  using assms(2,1)
proof (induction rule: cron_stmt.induct)
  case (stmt_other t s)
  then show ?case by (blast intro: stmt_other_inv)
next
  case (stmt_runs s p f)
  then show ?case by (blast intro: stmt_runs_inv)
qed (simp_all add: stmt_jobs_inv stmt_add_job_inv stmt_delete_job_inv stmt_claim_inv stmt_insert_inv stmt_delete_inv)

section \<open>The life of a run\<close>

text \<open>Attempts only grow, and an attempt that is over does not start again: \<open>run_level\<close> is even
  while an attempt runs and odd before and after it.\<close>

definition run_level :: "cron_run \<Rightarrow> int" where
  "run_level r = 2 * cr_attempts r + (if cr_state r = Run_running then 0 else 1)"

definition run_later :: "bool \<Rightarrow> cron_run \<Rightarrow> cron_run \<Rightarrow> bool" where
  "run_later fenced r r' =
     (cr_run_id r' = cr_run_id r \<and> run_level r \<le> run_level r' \<and>
      (run_level r' = run_level r \<and> cr_state r = Run_running \<longrightarrow> cr_lease_owner r' = cr_lease_owner r) \<and>
      (fenced \<longrightarrow> set (cr_delivery_targets r) \<subseteq> set (cr_delivery_targets r')) \<and>
      (fenced \<and> run_terminal r \<longrightarrow> cr_state r' = cr_state r \<and> run_result r' = run_result r))"

lemma run_later_refl [simp]: "run_later fenced r r"
  by (simp add: run_later_def)

lemma level_running:
  assumes "run_level r' = run_level r" "cr_state r = Run_running"
  shows "cr_state r' = Run_running" "cr_attempts r' = cr_attempts r"
  using assms by (auto simp: run_level_def split: if_splits) presburger+

lemma run_later_trans:
  assumes "run_later fenced r q" "run_later fenced q p"
  shows "run_later fenced r p"
proof -
  have "cr_lease_owner p = cr_lease_owner r" if "run_level p = run_level r" "cr_state r = Run_running"
  proof -
    have "run_level q = run_level r" using assms that(1) by (simp add: run_later_def)
    moreover from this have "cr_state q = Run_running" using that(2) by (rule level_running)
    ultimately show ?thesis using assms that by (simp add: run_later_def)
  qed
  moreover have "run_terminal q" if "fenced" "run_terminal r"
    using assms(1) that by (simp add: run_later_def run_terminal_def)
  ultimately show ?thesis using assms by (auto simp: run_later_def)
qed

lemma active_not_terminal: "run_active r \<longleftrightarrow> \<not> run_terminal r"
  by (cases "cr_state r") (auto simp: run_active_def run_terminal_def terminal_run_states_def)

lemma running_not_terminal: "cr_state r = Run_running \<Longrightarrow> \<not> run_terminal r" "cr_state r = Run_queued \<Longrightarrow> \<not> run_terminal r"
  by (simp_all add: run_terminal_def terminal_run_states_def)

lemma row_change_later:
  assumes "row_change fenced s r r'"
  shows "run_later fenced r r'"
  using assms unfolding row_change_def
proof (elim conjE disjE)
  assume "run_terminal r'" "fenced \<longrightarrow> run_active r" "cr_attempts r' = cr_attempts r"
  moreover from this have "cr_state r' \<noteq> Run_running" using running_not_terminal by blast
  ultimately show ?thesis using assms by (auto simp: run_later_def row_change_def run_level_def active_not_terminal)
qed (auto simp: run_later_def run_level_def running_not_terminal)

lemma claimed_later: "cr_state r = Run_queued \<Longrightarrow> run_later fenced r (claimed w e n r)"
  by (simp add: run_later_def run_level_def running_not_terminal)

text \<open>Every row is a later version of an old row, or new.\<close>

lemma stmt_row_origin:
  assumes "cron_stmt env fenced s t" "r' \<in> set (db_runs t)"
  shows "(\<exists>r\<in>set (db_runs s). run_later fenced r r') \<or> cr_run_id r' = uuid4_hex env s"
  using assms
proof (induction rule: cron_stmt.induct)
  case (stmt_delete_job s job_id)
  then obtain r where "r \<in> set (db_runs s)" "r' = (if cr_job_id r = Some job_id then r\<lparr>cr_job_id := None\<rparr> else r)"
    by (auto simp: delete_job_row_def set_sql_update)
  then show ?case
    by (intro disjI1 bexI [of _ r]) (auto simp: run_later_def run_level_def run_result_def)
next
  case (stmt_runs s p f)
  then obtain r where r: "r \<in> set (db_runs s)" "r' = (if p r then f r else r)"
    by (auto simp: update_cron_runs_def set_sql_update)
  with stmt_runs(1) [of r] have "run_later fenced r r'" by (auto intro: row_change_later)
  with r show ?case by blast
next
  case (stmt_claim q s j w e n)
  then obtain r where r: "r \<in> set (db_runs s)"
    "r' = (if cr_run_id r = cr_run_id q \<and> cr_state r = Run_queued then claimed w e n r else r)"
    by (auto simp: update_cron_runs_def set_sql_update)
  then have "run_later fenced r r'" by (auto intro: claimed_later)
  with r show ?case by blast
next
  case (stmt_insert s r)
  then show ?case by (auto simp: fresh_run_def intro: run_later_refl)
qed (auto simp: update_cron_jobs_def intro: run_later_refl)

lemma stmt_uuids: "cron_stmt env fenced s t \<Longrightarrow> db_uuids s \<le> db_uuids t"
  by (induction rule: cron_stmt.induct)
    (simp_all add: update_cron_jobs_def delete_job_row_def update_cron_runs_def uuid_drawn_def)

text \<open>A statement that starts a run finds the switch off, the job enabled and its scope free.\<close>

lemma stmt_starts:
  assumes "cron_stmt env fenced s t" "keys_unique cr_run_id (db_runs s)" "r' \<in> set (db_runs t)" "cr_state r' = Run_running"
    and "\<forall>r\<in>set (db_runs s). cr_run_id r = cr_run_id r' \<longrightarrow> cr_state r \<noteq> Run_running"
  shows "\<not> scheduler_is_paused s \<and> (\<exists>j. job_of_run s r' = Some j \<and> cj_enabled j)"
  using assms
proof (induction rule: cron_stmt.induct)
  case (stmt_delete_job s job_id)
  then show ?case by (auto simp: delete_job_row_def set_sql_update split: if_splits)
next
  case (stmt_runs s p f)
  then obtain r where r: "r \<in> set (db_runs s)" "r' = (if p r then f r else r)"
    by (auto simp: update_cron_runs_def set_sql_update)
  with stmt_runs.hyps [of r] stmt_runs.prems show ?case
    by (auto simp: row_change_def running_not_terminal split: if_splits)
next
  case (stmt_claim q s j w e n)
  then obtain r where r: "r \<in> set (db_runs s)"
    "r' = (if cr_run_id r = cr_run_id q \<and> cr_state r = Run_queued then claimed w e n r else r)"
    by (auto simp: update_cron_runs_def set_sql_update)
  then have r': "r' = claimed w e n r" "cr_run_id r = cr_run_id q" using stmt_claim.prems by (auto split: if_splits)
  then have "r = q" using stmt_claim.hyps(1) stmt_claim.prems(1) r(1)
    by (auto simp: keys_unique_def distinct_map inj_on_def)
  then have "job_of_run s r' = job_of_run s q" unfolding r' by (intro job_of_run_cong) simp_all
  with stmt_claim.hyps show ?case by simp
next
  case (stmt_insert s r)
  then show ?case by (auto simp: fresh_run_def running_not_terminal)
qed (auto simp: update_cron_jobs_def)

section \<open>Sequences of statements\<close>

interpretation stmts: invariant_system "cron_stmt env fenced" "cron_inv env"
  by unfold_locales (rule cron_stmt_inv)

lemma reach_uuids: "reach (cron_stmt env fenced) s t \<Longrightarrow> db_uuids s \<le> db_uuids t"
  by (induction rule: reach.induct) (auto dest: stmt_uuids)

lemma reach_row_origin:
  assumes "reach (cron_stmt env fenced) s t" "uuids_ok env" "r' \<in> set (db_runs t)" "id_drawn env s (cr_run_id r')"
  shows "\<exists>r\<in>set (db_runs s). run_later fenced r r'"
  using assms
proof (induction arbitrary: r' rule: reach.induct)
  case (reach_step s t u)
  have "id_drawn env t (cr_run_id r')"
    using reach_step(1,6) by (auto intro: id_drawn_mono reach_uuids)
  then have "cr_run_id r' \<noteq> uuid4_hex env t" by (rule new_id_fresh [OF reach_step(4)])
  then obtain q where "q \<in> set (db_runs t)" "run_later fenced q r'"
    using stmt_row_origin [OF reach_step(2,5)] by blast
  moreover from this have "cr_run_id q = cr_run_id r'" by (simp add: run_later_def)
  ultimately show ?case using reach_step by (metis run_later_trans)
qed (blast intro: run_later_refl)

lemma found_drawn: "cron_inv env s \<Longrightarrow> find_cron_run i s = Some r \<Longrightarrow> id_drawn env s i"
  by (auto simp: find_cron_run_def cron_inv_def dest!: sql_get_Some)

lemma reach_find:
  assumes "reach (cron_stmt env fenced) s t" "cron_inv env s" "find_cron_run i t = Some r'" "id_drawn env s i"
  shows "\<exists>r. find_cron_run i s = Some r \<and> run_later fenced r r'"
proof -
  have r': "r' \<in> set (db_runs t)" "cr_run_id r' = i" using assms(3) by (auto simp: find_cron_run_def dest: sql_get_Some)
  with assms cron_invD(8) reach_row_origin obtain r where r: "r \<in> set (db_runs s)" "run_later fenced r r'" by blast
  with r' have "cr_run_id r = i" by (simp add: run_later_def)
  with r cron_invD(2) [OF assms(2)] have "find_cron_run i s = Some r"
    by (auto simp: find_cron_run_def dest: sql_get_unique)
  with r show ?thesis by blast
qed

lemma reach_run:
  assumes "reach (cron_stmt env fenced) s t" "cron_inv env s" "find_cron_run i s = Some r" "find_cron_run i t = Some r'"
  shows "run_later fenced r r'"
proof -
  have "id_drawn env s i" using assms(2,3) by (rule found_drawn)
  from reach_find [OF assms(1,2,4) this] assms(3) show ?thesis by simp
qed

text \<open>The fence of an attempt, once lost, is lost for good.\<close>

lemma lost_fence:
  assumes "cron_inv env s" "reach (cron_stmt env fenced) s t" "reach (cron_stmt env fenced) t u"
    and r: "find_cron_run i s = Some r" "holds_fence owner n r"
    and lost: "\<forall>q. find_cron_run i t = Some q \<longrightarrow> \<not> holds_fence owner n q"
    and "find_cron_run i u = Some p"
  shows "\<not> holds_fence owner n p"
proof
  assume p: "holds_fence owner n p"
  have inv_t: "cron_inv env t" using assms(1,2) by (rule stmts.inv_reach [rotated])
  have "id_drawn env s i" using assms(1) r(1) by (rule found_drawn)
  then have "id_drawn env t i" using assms(2) by (auto intro: id_drawn_mono reach_uuids)
  from reach_find [OF assms(3) inv_t assms(7) this] obtain q where
    q: "find_cron_run i t = Some q" "run_later fenced q p" by blast
  have later: "run_later fenced r q" using reach_run [OF assms(2,1) r(1) q(1)] .
  have lv: "run_level r = 2 * n" "run_level p = 2 * n" using r(2) p by (simp_all add: holds_fence_def run_level_def)
  with later q(2) have same: "run_level q = run_level r" by (simp add: run_later_def)
  have run: "cr_state r = Run_running" using r(2) by (simp add: holds_fence_def)
  have "holds_fence owner n q"
    using level_running [OF same run] later same run r(2) by (simp add: holds_fence_def run_later_def)
  with lost q(1) show False by blast
qed

end
