(* ===== verification/Cron_Lemmas.thy ===== *)
theory Cron_Lemmas
  imports Cron_Schedule
begin

text \<open>
  Lemmas on schedules: reading and printing of numbers, the values of cron fields, the search
  for the next occurrence, and the loop that collects due points.
\<close>

section \<open>Numbers\<close>

lemma more_digits_all: "list_all is_digit s \<Longrightarrow> more_digits acc s = Some (digits_nat acc s)"
  by (induction acc s rule: digits_nat.induct) auto

lemma digits_nat_append: "digits_nat acc (s @ t) = digits_nat (digits_nat acc s) t"
  by (induction acc s rule: digits_nat.induct) simp_all

lemma digit_char:
  assumes "n < 10"
  shows "is_digit (char_of (48 + n))" "digit_val (char_of (48 + n)) = n"
  using assms by (simp_all add: is_digit_def digit_val_def of_char_of Let_def)

lemma nat_digits_ne: "nat_digits n \<noteq> []"
  by (subst nat_digits.simps) simp

lemma all_digits_nat_digits: "list_all is_digit (nat_digits n)"
proof (induction n rule: nat_digits.induct)
  case (1 n)
  then show ?case by (subst nat_digits.simps) (simp add: digit_char)
qed

lemma digits_nat_nat_digits [simp]: "digits_nat 0 (nat_digits n) = n"
proof (induction n rule: nat_digits.induct)
  case (1 n)
  then show ?case by (subst nat_digits.simps) (auto simp: digits_nat_append digit_char)
qed

section \<open>Misfire policies\<close>

lemma match_catch_up_printed:
  "match_catch_up (CATCH_UP_PREFIX @ nat_digits n @ '')'') = Some (nat_digits n)"
  by (simp add: match_catch_up_def str_startswith_def all_digits_def nat_digits_ne all_digits_nat_digits butlast_append)

lemma strip_catch_up: "str_strip (CATCH_UP_PREFIX @ s @ '')'') = CATCH_UP_PREFIX @ s @ '')''"
  by (rule str_strip_id) (simp_all add: CATCH_UP_PREFIX_def is_space_def)

lemma checked_policy_Inr:
  "checked_policy mode n = Inr p \<longleftrightarrow>
     mode \<in> {''skip'', ''run_once'', ''catch_up''} \<and> p = \<lparr>mp_mode = mode, mp_catch_up_max = max 1 n\<rparr>"
  by (auto simp: checked_policy_def)

lemma normalize_misfire_Inr:
  assumes "normalize_misfire_policy v = Inr p"
  shows "mp_mode p \<in> {''skip'', ''run_once'', ''catch_up''}" "mp_catch_up_max p \<ge> 1"
  using assms by (auto simp: normalize_misfire_policy_def checked_policy_Inr Let_def split: pyval.splits if_splits option.splits)

lemma normalize_encoded:
  assumes "mp_mode p \<in> {''skip'', ''run_once'', ''catch_up''}" "mp_catch_up_max p \<ge> 1"
  shows "normalize_misfire_policy (PStr (encode_misfire_policy p)) =
    Inr (if mp_mode p = ''catch_up'' then p else p\<lparr>mp_catch_up_max := 1\<rparr>)"
proof (cases "mp_mode p = ''catch_up''")
  case True
  then have enc: "encode_misfire_policy p = CATCH_UP_PREFIX @ nat_digits (nat (mp_catch_up_max p)) @ '')''"
    using assms(2) by (simp add: encode_misfire_policy_def int_str_def)
  show ?thesis
    using True assms(2) unfolding enc
    by (cases p) (simp add: normalize_misfire_policy_def strip_catch_up match_catch_up_printed checked_policy_def Let_def)
next
  case False
  then have "mp_mode p = ''skip'' \<or> mp_mode p = ''run_once''" using assms(1) by auto
  moreover have "str_strip ''skip'' = ''skip''" "str_strip ''run_once'' = ''run_once''"
    "match_catch_up ''skip'' = None" "match_catch_up ''run_once'' = None" by code_simp+
  ultimately show ?thesis
    by (cases p) (auto simp: encode_misfire_policy_def normalize_misfire_policy_def checked_policy_def Let_def)
qed

section \<open>Cron fields\<close>

lemma py_range_bounds: "v \<in> py_range start stop step \<Longrightarrow> start \<le> v \<and> v < stop"
  by (auto simp: py_range_def)

lemma cron_chunk_bounds:
  assumes "cron_chunk minimum maximum s7 chunk = Inr vs" "v \<in> vs"
  shows "minimum \<le> v \<and> v \<le> (if s7 then 7 else maximum)"
  using assms
  by (auto simp: cron_chunk_def Let_def dest!: py_range_bounds split: if_splits prod.splits)

lemma cron_chunks_bounds:
  assumes "cron_chunks minimum maximum s7 acc cs = Inr vs"
    and "\<forall>v\<in>acc. minimum \<le> v \<and> v \<le> (if s7 then 7 else maximum)"
  shows "\<forall>v\<in>vs. minimum \<le> v \<and> v \<le> (if s7 then 7 else maximum)"
  using assms
proof (induction minimum maximum s7 acc cs rule: cron_chunks.induct)
  case (2 minimum maximum s7 acc chunk cs)
  show ?case
  proof (cases "str_strip chunk = []")
    case True
    with 2 show ?thesis by simp
  next
    case False
    with "2.prems"(1) obtain ws where ws: "cron_chunk minimum maximum s7 (str_strip chunk) = Inr ws"
      "cron_chunks minimum maximum s7 (acc \<union> ws) cs = Inr vs" by auto
    with "2.IH"(2) [OF refl False] "2.prems"(2) cron_chunk_bounds [OF ws(1)] show ?thesis by blast
  qed
qed simp

lemma parse_cron_field_range:
  assumes "parse_cron_field minimum maximum False s = Inr vs"
  shows "vs \<noteq> {} \<and> vs \<subseteq> {minimum..maximum}"
  using assms cron_chunks_bounds [of minimum maximum False "{}"]
  by (fastforce simp: parse_cron_field_def Let_def split: if_splits)

lemma parse_cron_weekday_range:
  assumes "parse_cron_field 0 6 True s = Inr vs"
  shows "vs \<noteq> {} \<and> vs \<subseteq> {0..6}"
proof -
  from assms obtain ws where ws: "cron_chunks 0 6 True {} (str_split (CHR '','') (str_strip s)) = Inr ws"
    and vs: "vs = (if 7 \<in> ws then insert 0 (ws - {7}) else ws)" "vs \<noteq> {}"
    by (auto simp: parse_cron_field_def Let_def split: if_splits)
  have "\<forall>v\<in>ws. 0 \<le> v \<and> v \<le> 7" using cron_chunks_bounds [OF ws] by simp
  then have "v \<in> {0..6}" if "v \<in> vs" for v
    using that vs(1) by (cases "v = 7") (force split: if_splits)+
  with vs(2) show ?thesis by blast
qed

text \<open>What a field denotes: the values of its comma-separated parts together, the empty ones left out.\<close>

definition part_values :: "int \<Rightarrow> int \<Rightarrow> bool \<Rightarrow> string \<Rightarrow> int set" where
  "part_values minimum maximum s7 part =
     (if str_strip part = [] then {} else case cron_chunk minimum maximum s7 (str_strip part) of Inl _ \<Rightarrow> {} | Inr vs \<Rightarrow> vs)"

definition field_values :: "int \<Rightarrow> int \<Rightarrow> bool \<Rightarrow> string \<Rightarrow> int set" where
  "field_values minimum maximum s7 field = \<Union> (part_values minimum maximum s7 ` set (str_split (CHR '','') (str_strip field)))"

lemma cron_chunks_values:
  "cron_chunks minimum maximum s7 acc parts = Inr vs \<Longrightarrow> vs = acc \<union> \<Union> (part_values minimum maximum s7 ` set parts)"
proof (induction parts arbitrary: acc)
  case (Cons part parts)
  show ?case
  proof (cases "str_strip part = []")
    case False
    with Cons.prems obtain ws where ws: "cron_chunk minimum maximum s7 (str_strip part) = Inr ws"
      "cron_chunks minimum maximum s7 (acc \<union> ws) parts = Inr vs" by (auto simp: Let_def)
    moreover have "part_values minimum maximum s7 part = ws" using False ws(1) by (simp add: part_values_def)
    ultimately show ?thesis using Cons.IH [OF ws(2)] by (simp add: Un_assoc)
  qed (use Cons in \<open>simp add: part_values_def\<close>)
qed simp

lemma parse_cron_field_values:
  assumes "parse_cron_field minimum maximum False s = Inr vs"
  shows "vs = field_values minimum maximum False s"
proof -
  have "cron_chunks minimum maximum False {} (str_split (CHR '','') (str_strip s)) = Inr vs"
    using assms by (auto simp: parse_cron_field_def Let_def split: if_splits)
  from cron_chunks_values [OF this] show ?thesis by (simp add: field_values_def)
qed

lemma parse_cron_weekday_values:
  assumes "parse_cron_field 0 6 True s = Inr vs"
  shows "vs = (\<lambda>v. v mod 7) ` field_values 0 6 True s"
proof -
  from assms obtain ws where ws: "cron_chunks 0 6 True {} (str_split (CHR '','') (str_strip s)) = Inr ws"
    and vs: "vs = (if 7 \<in> ws then insert 0 (ws - {7}) else ws)"
    by (auto simp: parse_cron_field_def Let_def split: if_splits)
  have "ws = field_values 0 6 True s" using cron_chunks_values [OF ws] by (simp add: field_values_def)
  moreover have "v mod 7 = (if v = 7 then 0 else v)" if "v \<in> ws" for v using cron_chunks_bounds [OF ws] that by auto
  then have "(\<lambda>v. v mod 7) ` ws = (\<lambda>v. if v = 7 then 0 else v) ` ws" by (rule image_cong [OF refl])
  ultimately show ?thesis using vs by auto
qed

section \<open>The search\<close>

lemma cron_step_pos [simp]: "0 < cron_step spec"
  by (simp add: cron_step_def)

lemma cron_start_bounds:
  shows "w < cron_start spec w" "cron_start spec w \<le> w + cron_step spec" "cron_step spec dvd cron_start spec w"
proof -
  let ?s = "cron_step spec"
  have "(w + ?s) div ?s * ?s + (w + ?s) mod ?s = w + ?s" by (rule div_mult_mod_eq)
  moreover have "0 \<le> (w + ?s) mod ?s" "(w + ?s) mod ?s < ?s" using cron_step_pos [of spec] by simp_all
  ultimately show "w < cron_start spec w" "cron_start spec w \<le> w + ?s" unfolding cron_start_def by linarith+
  show "?s dvd cron_start spec w" by (simp add: cron_start_def)
qed

lemma cron_start_least:
  assumes "w < t" "cron_step spec dvd t"
  obtains n where "t = cron_start spec w + int n * cron_step spec"
proof -
  let ?s = "cron_step spec"
  obtain a where a: "t = ?s * a" using assms(2) by blast
  obtain b where b: "cron_start spec w = ?s * b" using cron_start_bounds(3) by blast
  have "?s * b < ?s * (a + 1)" using cron_start_bounds(2) [of spec w] assms(1) a b by (simp add: algebra_simps)
  then have "b < a + 1" using cron_step_pos mult_less_cancel_left_pos by blast
  then have "b \<le> a" by simp
  then have "t = cron_start spec w + int (nat (a - b)) * ?s" using a b by (simp add: algebra_simps)
  then show thesis by (rule that)
qed

lemma cron_search_Some:
  assumes "cron_search spec limit c = Some w"
  shows "\<exists>n. w = c + int n * cron_step spec \<and> w \<le> limit \<and> cron_matches spec w \<and>
    (\<forall>k<n. \<not> cron_matches spec (c + int k * cron_step spec))"
  using assms
proof (induction spec limit c rule: cron_search.induct)
  case (1 spec limit c)
  show ?case
  proof (cases "cron_matches spec c")
    case True
    with "1.prems" show ?thesis by (intro exI [of _ 0]) (simp add: cron_search.simps [of spec limit c] split: if_splits)
  next
    case False
    with "1.prems" have le: "c \<le> limit" and rest: "cron_search spec limit (c + cron_step spec) = Some w"
      by (simp_all add: cron_search.simps [of spec limit c] split: if_splits)
    from "1.IH" [OF le False rest] obtain n where n: "w = c + cron_step spec + int n * cron_step spec" "w \<le> limit"
      "cron_matches spec w" "\<forall>k<n. \<not> cron_matches spec (c + cron_step spec + int k * cron_step spec)" by blast
    have "\<not> cron_matches spec (c + int k * cron_step spec)" if "k < Suc n" for k
      using that False n(4) by (cases k) (auto simp: algebra_simps)
    with n show ?thesis by (intro exI [of _ "Suc n"]) (simp add: algebra_simps)
  qed
qed

lemma cron_search_None:
  assumes "cron_search spec limit c = None" "c + int n * cron_step spec \<le> limit"
  shows "\<not> cron_matches spec (c + int n * cron_step spec)"
  using assms
proof (induction spec limit c arbitrary: n rule: cron_search.induct)
  case (1 spec limit c)
  have "c \<le> limit" using "1.prems"(2) cron_step_pos [of spec] by (smt (verit) mult_nonneg_nonneg of_nat_0_le_iff)
  with "1.prems"(1) have nc: "\<not> cron_matches spec c" and rest: "cron_search spec limit (c + cron_step spec) = None"
    by (simp_all add: cron_search.simps [of spec limit c] split: if_splits)
  show ?case
  proof (cases n)
    case 0
    with nc show ?thesis by simp
  next
    case (Suc k)
    then have "c + cron_step spec + int k * cron_step spec \<le> limit" using "1.prems"(2) by (simp add: algebra_simps)
    from "1.IH" [OF \<open>c \<le> limit\<close> nc rest this] show ?thesis using Suc by (simp add: algebra_simps)
  qed
qed

section \<open>Normalised schedules\<close>

definition at_form :: "cron_env \<Rightarrow> int \<Rightarrow> pydict" where
  "at_form env t = [(''kind'', PStr ''at''), (''at'', PStr (to_iso_utc env t))]"

definition every_form :: "int \<Rightarrow> int \<Rightarrow> pydict" where
  "every_form p j = [(''kind'', PStr ''every''), (''every_ms'', PInt p), (''jitter_ms'', PInt j)]"

definition cron_form :: "string \<Rightarrow> string \<Rightarrow> int \<Rightarrow> pydict" where
  "cron_form expr tz st =
     [(''kind'', PStr ''cron''), (''expr'', PStr expr), (''tz'', PStr tz), (''stagger_ms'', PInt st)]"

lemma sched_fields [simp]:
  "sched_text (at_form env t) ''kind'' = ''at''" "sched_text (at_form env t) ''at'' = to_iso_utc env t"
  "sched_text (every_form p j) ''kind'' = ''every''" "sched_int (every_form p j) ''every_ms'' = p"
  "sched_int (every_form p j) ''jitter_ms'' = j"
  "sched_text (cron_form expr tz st) ''kind'' = ''cron''" "sched_text (cron_form expr tz st) ''expr'' = expr"
  "sched_text (cron_form expr tz st) ''tz'' = tz" "sched_int (cron_form expr tz st) ''stagger_ms'' = st"
  by (simp_all add: at_form_def every_form_def cron_form_def sched_text_def sched_int_def dict_get_def)

lemma normalize_schedule_cases:
  assumes "normalize_schedule env s = Inr d"
  obtains (at) t where "d = at_form env t"
  | (every) p j where "d = every_form p j" "0 < p" "0 \<le> j"
  | (cron) expr tz st spec where "d = cron_form expr tz st" "str_strip expr = expr" "expr \<noteq> []"
      "parse_cron_expression expr = Inr spec" "env_zones env tz \<noteq> None" "0 \<le> st"
  using assms
  by (auto simp: normalize_schedule_def at_schedule_def every_schedule_def cron_schedule_def load_timezone_def
      text_field_def at_form_def every_form_def cron_form_def Let_def
      split: pyval.splits if_splits option.splits)

lemma strip_kinds [simp]:
  "str_strip ''at'' = ''at''" "str_strip ''every'' = ''every''" "str_strip ''cron'' = ''cron''"
  by (simp_all add: str_strip_id is_space_def)

lemma text_field_forms [simp]:
  "text_field (at_form env t) ''kind'' = ''at''" "text_field (at_form env t) ''at'' = str_strip (to_iso_utc env t)"
  "text_field (every_form p j) ''kind'' = ''every''" "text_field (cron_form expr tz st) ''kind'' = ''cron''"
  "text_field (cron_form expr tz st) ''expr'' = str_strip expr"
  by (simp_all add: text_field_def at_form_def every_form_def cron_form_def dict_get_or_def dict_get_def)

lemma parse_iso_strip [simp]: "parse_iso_datetime env (str_strip s) = parse_iso_datetime env s"
  by (simp add: parse_iso_datetime_def)

lemma normalize_every: "0 < p \<Longrightarrow> 0 \<le> j \<Longrightarrow> normalize_schedule env (PDict (every_form p j)) = Inr (every_form p j)"
  by (simp add: normalize_schedule_def every_schedule_def) (simp add: every_form_def dict_get_or_def dict_get_def py_or_def)

lemma normalize_at:
  "parse_iso_datetime env (to_iso_utc env t) = Inr t \<Longrightarrow>
     normalize_schedule env (PDict (at_form env t)) = Inr (at_form env t)"
  by (simp add: normalize_schedule_def at_schedule_def Let_def) (simp add: at_form_def)

lemma normalize_cron:
  assumes "str_strip expr = expr" "expr \<noteq> []" "parse_cron_expression expr = Inr spec"
    "env_zones env tz \<noteq> None" "str_strip tz = tz" "tz \<noteq> []" "0 \<le> st"
  shows "normalize_schedule env (PDict (cron_form expr tz st)) = Inr (cron_form expr tz st)"
  using assms
  by (auto simp: normalize_schedule_def cron_schedule_def Let_def)
    (auto simp: cron_form_def dict_get_or_def dict_has_def dict_get_def py_or_def opt_or_def load_timezone_def
      split: option.splits)

section \<open>Collecting due points\<close>

lemma due_loop_points:
  assumes "due_loop env d job now n c = Inr (ts, c')"
  shows "length ts \<le> n" "\<forall>t\<in>set ts. t \<le> now"
  using assms
  by (induction env d job now n c arbitrary: ts c' rule: due_loop.induct)
    (fastforce split: if_splits prod.splits)+

lemma due_loop_cursor:
  assumes "due_loop env d job now n (Some t) = Inr (ts, Some c)" "length ts < n"
  shows "now < c"
  using assms
proof (induction n arbitrary: t ts)
  case (Suc n)
  show ?case
  proof (cases "now < t \<or> sched_text d ''kind'' = ''at''")
    case True
    with Suc.prems show ?thesis by (auto split: if_splits)
  next
    case False
    with Suc.prems(1) obtain job_id cur us where u: "compute_next_due env (PDict d) t job_id (Some t) = Inr cur"
      "due_loop env d job now n cur = Inr (us, Some c)" "ts = t # us" by (auto split: prod.splits)
    then obtain x where "cur = Some x" "length us < n" using Suc.prems(2) by (cases n; cases cur) auto
    with Suc.IH u show ?thesis by simp
  qed
qed simp

lemma jitter_nonneg: "0 \<le> j \<Longrightarrow> 0 \<le> deterministic_jitter_ms env job_id t j"
  by (simp add: deterministic_jitter_ms_def)

lemma compute_every:
  assumes "0 < p" "0 \<le> j"
  obtains x where "compute_next_due env (PDict (every_form p j)) after job_id prev = Inr (Some x)"
    "(case prev of Some t \<Rightarrow> t | None \<Rightarrow> after) + p * 1000 \<le> x"
    "j = 0 \<Longrightarrow> x = (case prev of Some t \<Rightarrow> t | None \<Rightarrow> after) + p * 1000"
  using assms jitter_nonneg [OF assms(2)]
  by (simp add: compute_next_due_def normalize_every Let_def)

lemma due_loop_every:
  assumes "due_loop env (every_form p j) job now n (Some t) = Inr (ts, c)" "0 < p" "0 \<le> j"
  shows "\<exists>x. c = Some x \<and> t + int (length ts) * (p * 1000) \<le> x \<and> (j = 0 \<longrightarrow> x = t + int (length ts) * (p * 1000))"
  using assms(1)
proof (induction n arbitrary: t ts)
  case (Suc n)
  show ?case
  proof (cases "now < t")
    case True
    with Suc.prems show ?thesis by auto
  next
    case False
    with Suc.prems obtain job_id cur us where u: "compute_next_due env (PDict (every_form p j)) t job_id (Some t) = Inr cur"
      "due_loop env (every_form p j) job now n cur = Inr (us, c)" "ts = t # us" by (auto split: prod.splits)
    from compute_every [OF assms(2,3), of env t job_id "Some t"] u(1) obtain x where x: "cur = Some x"
      "t + p * 1000 \<le> x" "j = 0 \<Longrightarrow> x = t + p * 1000" by auto
    from Suc.IH u(2) x(1) obtain y where "c = Some y" "x + int (length us) * (p * 1000) \<le> y"
      "j = 0 \<longrightarrow> y = x + int (length us) * (p * 1000)" by blast
    with x(2,3) u(3) show ?thesis by (auto simp: algebra_simps)
  qed
qed auto

lemma select_due_points_empty:
  "select_due_points_for_job env job now = Inr (sel, next) \<Longrightarrow>
     str_strip (py_str (py_or (dict_get_or job ''next_due_at'' PNone) (PStr []))) = [] \<Longrightarrow> sel = []"
  by (auto simp: select_due_points_for_job_def Let_def)

lemma parse_iso_given: "parse_iso_datetime env s = Inr t \<Longrightarrow> str_strip s \<noteq> []"
  by (auto simp: parse_iso_datetime_def)

lemma select_args:
  assumes "select_due_points_for_job env job now = Inr (sel, next)"
    "str_strip (py_str (py_or (dict_get_or job ''next_due_at'' PNone) (PStr []))) \<noteq> []"
  obtains d start policy late where
    "normalize_schedule env (dict_get_or job ''schedule'' (PDict [])) = Inr d"
    "parse_iso_datetime env (py_str (py_or (dict_get_or job ''next_due_at'' PNone) (PStr []))) = Inr start"
    "normalize_misfire_policy (dict_get_or job ''misfire_policy'' PNone) = Inr policy"
    "py_int (dict_get_or job ''max_lateness_s'' (PInt 600)) = Inr late"
  using assms by (auto simp: select_due_points_for_job_def Let_def split: prod.splits)

lemma select_points_of:
  assumes "select_due_points_for_job env job now = Inr (sel, next)"
    and "normalize_schedule env (dict_get_or job ''schedule'' (PDict [])) = Inr d"
    and "parse_iso_datetime env (py_str (py_or (dict_get_or job ''next_due_at'' PNone) (PStr []))) = Inr start"
    and "normalize_misfire_policy (dict_get_or job ''misfire_policy'' PNone) = Inr policy"
    and "py_int (dict_get_or job ''max_lateness_s'' (PInt 600)) = Inr late"
  obtains ts cursor where
    "due_loop env d job now MAX_DUE_POINTS (Some start) = Inr (ts, cursor)"
    "sel = select_points policy (sched_text d ''kind'' = ''at'') now (filter (\<lambda>t. t \<ge> now - max 0 late * 1000000) ts)
       (ts \<noteq> [] \<and> filter (\<lambda>t. t \<ge> now - max 0 late * 1000000) ts = [])"
    "sched_text d ''kind'' \<noteq> ''at'' \<and> cursor \<noteq> None \<longrightarrow> next = cursor"
proof -
  note raw = parse_iso_given [OF assms(3)]
  from assms raw obtain ts cursor where
    loop: "due_loop env d job now MAX_DUE_POINTS (Some start) = Inr (ts, cursor)"
    by (auto simp: select_due_points_for_job_def Let_def split: prod.splits)
  from assms raw loop show thesis
    by (intro that [OF loop]) (auto simp: select_due_points_for_job_def Let_def split: if_splits option.splits)
qed

text \<open>A poll of a periodic job returns: no operation of it fails.\<close>

lemma due_loop_every_total:
  assumes "job_key job = Inr k" "0 < p" "0 \<le> j"
  shows "\<exists>ts c. due_loop env (every_form p j) job now n (Some t) = Inr (ts, c)"
proof (induction n arbitrary: t)
  case (Suc n)
  obtain x where x: "compute_next_due env (PDict (every_form p j)) t k (Some t) = Inr (Some x)"
    using compute_every [OF assms(2,3)] by metis
  obtain us c where u: "due_loop env (every_form p j) job now n (Some x) = Inr (us, c)" using Suc by blast
  show ?case by (cases "now < t") (auto simp: assms(1) x u)
qed simp

lemma select_every_total:
  assumes "normalize_schedule env (dict_get_or job ''schedule'' (PDict [])) = Inr (every_form p j)"
    and "parse_iso_datetime env (py_str (py_or (dict_get_or job ''next_due_at'' PNone) (PStr []))) = Inr start"
    and "normalize_misfire_policy (dict_get_or job ''misfire_policy'' PNone) = Inr policy"
    and "py_int (dict_get_or job ''max_lateness_s'' (PInt 600)) = Inr late"
    and "dict_has job ''job_id''" "0 < p" "0 \<le> j"
  shows "\<exists>sel next. select_due_points_for_job env job now = Inr (sel, next)"
proof -
  from assms(5) obtain k where k: "job_key job = Inr k"
    by (auto simp: job_key_def dict_has_def dict_get_def split: option.splits)
  obtain ts c where loop: "due_loop env (every_form p j) job now MAX_DUE_POINTS (Some start) = Inr (ts, c)"
    using due_loop_every_total [OF k assms(6,7)] by blast
  from due_loop_every [OF loop assms(6,7)] obtain x where "c = Some x" by blast
  with loop show ?thesis
    using assms(1-4) parse_iso_given [OF assms(2)] by (simp add: select_due_points_for_job_def Let_def)
qed

lemma normalized_every:
  assumes "normalize_schedule env s = Inr (every_form p j)"
  shows "0 < p" "0 \<le> j"
  using assms by (auto elim!: normalize_schedule_cases simp: at_form_def every_form_def cron_form_def)

lemma run_once_selects_one:
  assumes "mp_mode policy = ''run_once''" "ts \<noteq> []"
  shows "length (select_points policy is_at now (filter q ts) (ts \<noteq> [] \<and> filter q ts = [])) = 1"
proof (cases "filter q ts")
  case Nil
  with assms show ?thesis by (simp add: select_points_def last_n_def)
next
  case (Cons t us)
  with assms(1) show ?thesis by (simp add: select_points_def last_n_def)
qed

lemma select_points_bounded:
  assumes "mp_catch_up_max policy \<ge> 1"
  shows "int (length (select_points policy is_at now recent stale)) \<le>
      (if mp_mode policy = ''catch_up'' then mp_catch_up_max policy else 1)"
    "set (select_points policy is_at now recent stale) \<subseteq> insert now (set recent)"
  using assms by (auto simp: select_points_def last_n_def Let_def dest: in_set_dropD)

lemma digit_not_space: "is_digit c \<Longrightarrow> \<not> is_space c"
  by (auto simp: is_digit_def is_space_def Let_def)

lemma nat_digits_chars: "c \<in> set (nat_digits n) \<Longrightarrow> is_digit c"
  using all_digits_nat_digits [of n] by (auto simp: list_all_iff)

lemma int_str_chars: "c \<in> set (int_str i) \<Longrightarrow> \<not> is_space c \<and> c \<noteq> CHR ''Z''"
proof -
  assume "c \<in> set (int_str i)"
  then have "c = CHR ''-'' \<or> is_digit c" by (auto simp: int_str_def dest: nat_digits_chars split: if_splits)
  moreover have "\<not> is_space (CHR ''-'')" "\<not> is_digit (CHR ''Z'')" by (simp_all add: is_space_def is_digit_def)
  ultimately show ?thesis using digit_not_space by auto
qed

lemma int_str_ne: "int_str i \<noteq> []"
  by (simp add: int_str_def nat_digits_ne)

lemma strip_int_str: "str_strip (int_str i) = int_str i"
  by (intro str_strip_id int_str_ne) (metis hd_in_set last_in_set int_str_ne int_str_chars)+

lemma parse_nat_nat_digits: "parse_nat (nat_digits n) = Some n"
proof (cases "nat_digits n")
  case (Cons c cs)
  then have "is_digit c" using nat_digits_chars [of c n] by simp
  moreover have "more_digits 0 (nat_digits n) = Some n" using more_digits_all [OF all_digits_nat_digits] by simp
  ultimately show ?thesis unfolding parse_nat_def Cons by simp
qed (simp add: nat_digits_ne)

lemma parse_int_int_str: "parse_int (int_str i) = Some i"
proof (cases "i < 0")
  case True
  then show ?thesis using strip_int_str [of i] parse_nat_nat_digits by (simp add: parse_int_def int_str_def)
next
  case False
  obtain c cs where cs: "nat_digits (nat i) = c # cs" using nat_digits_ne by (cases "nat_digits (nat i)") auto
  then have "is_digit c" using nat_digits_chars [of c "nat i"] by simp
  then have "c \<noteq> CHR ''-''" "c \<noteq> CHR ''+''" by (auto simp: is_digit_def)
  moreover have "int_str i = c # cs" using False cs by (simp add: int_str_def)
  ultimately show ?thesis
    using strip_int_str [of i] parse_nat_nat_digits [of "nat i"] cs False by (simp add: parse_int_def)
qed

end
