(* ===== verification/Cron_Calls.thy ===== *)
theory Cron_Calls
  imports Cron_Statements Cron_Lemmas
begin

text \<open>
  The calls of the cron store as a step relation, and the proof that every call is a sequence of
  the statements of \<open>Cron_Statements\<close>. A call is \<open>fenced\<close> as the daemons make it: a run is settled
  with the fence of its claim, and delivery marks are not taken back. The table of scheduled tasks
  belongs to another component and may change at any time.
\<close>

abbreviation cron_steps :: "cron_env \<Rightarrow> bool \<Rightarrow> cron_store \<Rightarrow> cron_store \<Rightarrow> bool" where
  "cron_steps env fenced \<equiv> reach (cron_stmt env fenced)"

inductive cron_call :: "cron_env \<Rightarrow> bool \<Rightarrow> cron_store \<Rightarrow> cron_store \<Rightarrow> bool" for env fenced where
  call_add: "add_cron_job env clock a s = (x, t) \<Longrightarrow> cron_call env fenced s t"
| call_enable: "set_cron_job_enabled env clock job_id on cancel over s = (x', t) \<Longrightarrow> cron_call env fenced s t"
| call_delete: "delete_cron_job job_id s = (x', t) \<Longrightarrow> cron_call env fenced s t"
| call_payload: "replace_cron_job_payload env clock job_id payload s = (x', t) \<Longrightarrow> cron_call env fenced s t"
| call_update_task: "update_task_cron_job env clock job_id instruction schedule expected s = (d, t) \<Longrightarrow> cron_call env fenced s t"
| call_get_control: "get_cron_scheduler_control env clock s = (c, t) \<Longrightarrow> cron_call env fenced s t"
| call_set_control: "set_cron_scheduler_control env clock0 clock paused reason actor expected s = (c, t) \<Longrightarrow> cron_call env fenced s t"
| call_delete_old: "delete_old_cron_runs before s = (k, t) \<Longrightarrow> cron_call env fenced s t"
| call_delete_terminal: "delete_terminal_cron_runs job_id s = (k, t) \<Longrightarrow> cron_call env fenced s t"
| call_recover: "recover_expired_cron_runs env clock now_iso limit s = (ds, t) \<Longrightarrow> cron_call env fenced s t"
| call_enqueue: "enqueue_due_cron_runs env clock daemon_id ttl max_jobs now_iso s = (ds, t) \<Longrightarrow> cron_call env fenced s t"
| call_trigger_task: "trigger_task_run_now env clock job_id s = (d, t) \<Longrightarrow> cron_call env fenced s t"
| call_trigger: "trigger_cron_run env clock job_id due_at owner ttl s = (x, t) \<Longrightarrow> cron_call env fenced s t"
| call_acquire: "acquire_cron_runs env clock daemon_id ttl limit now_iso s = (rs, t) \<Longrightarrow> cron_call env fenced s t"
| call_renew: "renew_cron_run_lease env clock run_id daemon n ttl now_iso s = (y, t) \<Longrightarrow> cron_call env fenced s t"
| call_finish: "finish_cron_run env clock run_id state res daemon_id expected now_iso s = (o', t) \<Longrightarrow>
    (fenced \<longrightarrow> daemon_id \<noteq> None) \<Longrightarrow> cron_call env fenced s t"
| call_retry: "retry_cron_run env clock run_id err daemon_id expected now_iso s = (o', t) \<Longrightarrow> cron_call env fenced s t"
| call_mark: "mark_cron_delivery_target env clock run_id target daemon_id expected s = (y, t) \<Longrightarrow> cron_call env fenced s t"
| call_unmark: "unmark_cron_delivery_target env clock run_id target daemon_id expected s = (y, t) \<Longrightarrow>
    \<not> fenced \<Longrightarrow> cron_call env fenced s t"
| call_tasks: "cron_call env fenced s (s\<lparr>db_task_jobs := js\<rparr>)"

section \<open>Composition\<close>

named_theorems cron_job_keeps \<open>updates of a job that keep its frozen columns\<close>

lemma steps_refl: "cron_steps env b s s"
  by (rule reach_refl)

lemma steps_one: "cron_stmt env b s t \<Longrightarrow> cron_steps env b s t"
  by (rule reach_step [OF reach_refl])

lemma with_resultE:
  assumes "with_result x f s = (r, t)"
  obtains e where "x = Inl e" "r = Inl e" "t = s" | a where "x = Inr a" "f a s = (r, t)"
  using assms by (cases x) (auto simp: with_result_def)

lemma with_result_steps:
  assumes "with_result x f s = (r, t)" "\<And>a. x = Inr a \<Longrightarrow> f a s = (r, t) \<Longrightarrow> cron_steps env b s t"
  shows "cron_steps env b s t"
  using assms by (auto elim: with_resultE intro: steps_refl)

lemma st_bind_steps:
  assumes "st_bind m f s = (r, t)" and first: "\<And>x u. m s = (x, u) \<Longrightarrow> cron_steps env b s u"
    and then_t: "\<And>a u. m s = (Inr a, u) \<Longrightarrow> f a u = (r, t) \<Longrightarrow> cron_steps env b u t"
  shows "cron_steps env b s t"
proof -
  obtain x u where m: "m s = (x, u)" by (cases "m s")
  show ?thesis
  proof (cases x)
    case (Inl e)
    with assms(1) m first show ?thesis by (simp add: st_bind_def)
  next
    case (Inr a)
    with assms(1) m have "f a u = (r, t)" by (simp add: st_bind_def)
    with m Inr show ?thesis by (blast intro: reach_trans first then_t)
  qed
qed

lemma transaction_steps:
  assumes "cron_transaction m s = (r, t)" and body: "\<And>x u. m s = (x, u) \<Longrightarrow> cron_steps env b s u"
  shows "cron_steps env b s t"
proof -
  obtain x u where m: "m s = (x, u)" by (cases "m s")
  with body have "cron_steps env b s u" by blast
  moreover from this have "cron_steps env b s (s\<lparr>db_uuids := db_uuids u\<rparr>)"
    by (intro steps_one stmt_other) (simp_all add: reach_uuids)
  ultimately show ?thesis using assms(1) m by (auto simp: cron_transaction_def split: sum.splits)
qed

lemma drawn_steps: "cron_steps env b s (uuid_drawn s)"
  by (intro steps_one stmt_other) (simp_all add: uuid_drawn_def)

lemma runs_steps:
  "(\<And>r. r \<in> set (db_runs s) \<Longrightarrow> p r \<Longrightarrow> row_change b s r (f r)) \<Longrightarrow> cron_steps env b s (update_cron_runs p f s)"
  by (intro steps_one stmt_runs)

section \<open>Jobs\<close>

lemma stripped_strip: "str_strip x \<noteq> [] \<Longrightarrow> stripped (str_strip x)"
  by (simp add: stripped_def)

lemma text_or_none_stripped: "text_or_none x = Some k \<Longrightarrow> stripped k"
  by (auto simp: text_or_none_def strip_or_none_def Let_def stripped_def split: if_splits)

lemma prepared_job_ok:
  assumes "prepare_cron_job env clock a jid = Inr j" "stripped jid"
  shows "cron_job_ok j" "cj_job_id j = jid"
  using assms by (auto simp: prepare_cron_job_def cron_job_ok_def Let_def MAX_CRON_ATTEMPTS_def
      MAX_CRON_RETRY_BACKOFF_SECONDS_def dest: text_or_none_stripped split: option.split)

lemma add_cron_job_steps:
  assumes "add_cron_job env clock a s = (x, t)" "uuids_ok env"
  shows "cron_steps env b s t"
proof -
  define given where "given = str_strip (opt_or (ca_job_id a) [])"
  define jid where "jid = (if given \<noteq> [] then given else uuid4_hex env s)"
  define u where "u = (if given \<noteq> [] then s else uuid_drawn s)"
  have jid: "stripped jid" using assms(2)
    by (simp add: jid_def given_def stripped_def uuids_ok_def uuid4_hex_def)
  have u: "cron_steps env b s u" by (simp add: u_def drawn_steps steps_refl)
  have eq: "add_cron_job env clock a s = (case prepare_cron_job env clock a jid of Inl e \<Rightarrow> (Inl e, s)
      | Inr j \<Rightarrow> cron_transaction (\<lambda>s. case sql_insert cj_job_id j (db_jobs s) of None \<Rightarrow> (Inl Cron_IntegrityError, s)
          | Some js \<Rightarrow> (Inr jid, s\<lparr>db_jobs := js\<rparr>)) u)"
    by (simp only: add_cron_job_def Let_def given_def jid_def u_def)
  show ?thesis
  proof (cases "prepare_cron_job env clock a jid")
    case (Inl e)
    with assms(1) show ?thesis by (simp add: eq steps_refl)
  next
    case (Inr j)
    let ?ins = "\<lambda>s. case sql_insert cj_job_id j (db_jobs s) of None \<Rightarrow> (Inl Cron_IntegrityError, s)
        | Some js \<Rightarrow> (Inr jid, s\<lparr>db_jobs := js\<rparr>)"
    have "cron_transaction ?ins u = (x, t)"
      using assms(1) Inr by (simp add: eq)
    then have "cron_steps env b u t"
    proof (rule transaction_steps)
      fix y v assume "?ins u = (y, v)"
      then show "cron_steps env b u v"
        using prepared_job_ok [OF Inr jid]
        by (auto simp: sql_insert_def split: if_splits intro!: steps_refl steps_one stmt_add_job)
    qed
    with u show ?thesis by (rule reach_trans)
  qed
qed

lemma disarm_keeps [cron_job_keeps]: "job_frozen (disarm now j) = job_frozen j"
  by (simp add: disarm_def job_frozen_def)

lemma jobs_steps: "(\<And>j. job_frozen (f j) = job_frozen j) \<Longrightarrow> cron_steps env b s (update_cron_jobs i f s)"
  by (intro steps_one stmt_jobs)

lemma job_delete_steps: "cron_steps env b s (delete_job_row i s)"
  by (intro steps_one stmt_delete_job)

lemma cancel_steps: "cron_steps env b s (cancel_queued_runs i now s)"
  unfolding cancel_queued_runs_def
  by (intro runs_steps) (simp add: row_change_def run_terminal_def terminal_run_states_def run_active_def)

lemma set_enabled_steps:
  assumes "set_cron_job_enabled env clock job_id on cancel over s = (x, t)"
  shows "cron_steps env b s t"
  using assms unfolding set_cron_job_enabled_def
  by (auto simp: Let_def job_frozen_def elim!: with_resultE split: option.splits if_splits
      intro!: steps_refl jobs_steps reach_trans [OF jobs_steps cancel_steps])

lemma delete_cron_job_steps: "delete_cron_job job_id s = (x, t) \<Longrightarrow> cron_steps env b s t"
  unfolding delete_cron_job_def by (auto elim!: with_resultE intro: steps_refl job_delete_steps)

lemma replace_payload_steps: "replace_cron_job_payload env clock job_id payload s = (x, t) \<Longrightarrow> cron_steps env b s t"
  unfolding replace_cron_job_payload_def
  by (auto simp: Let_def job_frozen_def elim!: with_resultE split: if_splits intro!: steps_refl jobs_steps)

lemma update_task_steps:
  assumes "update_task_cron_job env clock job_id instruction schedule expected s = (x, t)"
  shows "cron_steps env b s t"
proof -
  have body: "cron_steps env b s u" if "update_task_body env clock jid msg sched ex s = (y, u)" for jid msg sched ex y u
    using that unfolding update_task_body_def
    by (auto simp: Let_def job_frozen_def elim!: with_resultE split: option.splits if_splits
        intro!: steps_refl jobs_steps)
  show ?thesis using assms unfolding update_task_cron_job_def Let_def
    by (elim with_resultE) (auto intro: steps_refl transaction_steps body)
qed

lemma other_steps: "db_jobs t = db_jobs s \<Longrightarrow> db_runs t = db_runs s \<Longrightarrow> db_uuids t = db_uuids s \<Longrightarrow> cron_steps env b s t"
  by (intro steps_one stmt_other) simp_all

lemma control_frame:
  "get_cron_scheduler_control env clock s = (c, t) \<Longrightarrow> db_jobs t = db_jobs s \<and> db_runs t = db_runs s \<and> db_uuids t = db_uuids s"
  by (auto simp: get_cron_scheduler_control_def Let_def split: option.splits)

lemma set_control_steps:
  assumes "set_cron_scheduler_control env clock0 clock paused reason actor expected s = (c, t)"
  shows "cron_steps env b s t"
  using assms unfolding set_cron_scheduler_control_def
  by (auto simp: st_bind_def split: prod.splits sum.splits if_splits dest!: control_frame intro!: other_steps)

lemma run_delete_steps:
  "(\<And>r. \<not> keep r \<Longrightarrow> run_terminal r) \<Longrightarrow> cron_steps env b s (s\<lparr>db_runs := filter keep (db_runs s)\<rparr>)"
  by (intro steps_one stmt_delete)

lemma delete_runs_steps:
  "delete_old_cron_runs before s = (k, t) \<Longrightarrow> cron_steps env b s t"
  "delete_terminal_cron_runs job_id s = (k, t) \<Longrightarrow> cron_steps env b s t"
  unfolding delete_old_cron_runs_def delete_terminal_cron_runs_def
  by (auto simp: Let_def elim!: with_resultE intro!: steps_refl run_delete_steps)

section \<open>New runs\<close>

text \<open>The part of a new row that the statements look at.\<close>

definition starts_fresh :: "cron_run \<Rightarrow> bool" where
  "starts_fresh r = (cr_job_id r \<noteq> None \<and> cr_attempts r = 0 \<and> (cr_state r = Run_queued \<or> run_terminal r))"

lemma new_run_fresh:
  "starts_fresh (new_cron_run i j due w e now)" "cr_run_id (new_cron_run i j due w e now) = i"
  "starts_fresh (missed_run i j due now)" "cr_run_id (missed_run i j due now) = i"
  by (simp_all add: starts_fresh_def new_cron_run_def missed_run_def run_terminal_def terminal_run_states_def)

lemma add_row_steps:
  assumes "add_run_row r (uuid_drawn s) = (x, t)" "cr_run_id r = uuid4_hex env s" "starts_fresh r" "\<not> due_taken r (uuid_drawn s)"
  shows "cron_steps env b s t"
proof (cases "t = uuid_drawn s")
  case False
  then have t: "t = (uuid_drawn s)\<lparr>db_runs := db_runs s @ [r]\<rparr>" and "job_of_run (uuid_drawn s) r \<noteq> None"
    using assms(1,3) by (auto simp: add_run_row_def starts_fresh_def uuid_drawn_def split: if_splits)
  moreover have "job_of_run (uuid_drawn s) r = job_of_run s r"
    by (rule job_of_run_cong) (simp_all add: uuid_drawn_def)
  ultimately have "fresh_run env s r"
    using assms by (simp add: fresh_run_def starts_fresh_def due_taken_def uuid_drawn_def)
  with t show ?thesis by (simp add: steps_one stmt_insert)
qed (simp add: drawn_steps)

lemma insert_steps:
  assumes "cr_run_id r = uuid4_hex env s" "starts_fresh r"
  shows "insert_cron_run r (uuid_drawn s) = (x, t) \<Longrightarrow> cron_steps env b s t"
    and "insert_cron_run_new r (uuid_drawn s) = (y, t) \<Longrightarrow> cron_steps env b s t"
  using assms add_row_steps [of r s _ t]
  by (auto simp: insert_cron_run_def insert_cron_run_new_def st_bind_def drawn_steps
      split: if_splits prod.splits sum.splits)

lemma trigger_task_steps:
  assumes "trigger_task_run_now env clock job_id s = (x, t)"
  shows "cron_steps env b s t"
proof -
  have body: "cron_steps env b s u" if "trigger_task_body env now jid s = (y, u)" for now jid y u
    using that unfolding trigger_task_body_def Let_def st_bind_def
    by (auto simp: new_run_fresh split: option.splits if_splits prod.splits sum.splits
        intro: steps_refl insert_steps(1) [OF new_run_fresh(2,1)])
  show ?thesis using assms unfolding trigger_task_run_now_def
    by (auto elim!: with_resultE intro: steps_refl transaction_steps body)
qed

lemma trigger_steps:
  assumes "trigger_cron_run env clock job_id due_at owner ttl s = (x, t)"
  shows "cron_steps env b s t"
proof (cases "find_cron_job job_id s")
  case (Some job)
  show ?thesis
  proof (cases "given_time env due_at clock")
    case (Inr due)
    define run where "run = new_cron_run (uuid4_hex env s) (cj_job_id job) (to_iso_utc env due) (text_or_none owner)
      (if opt_truthy owner then Some (to_iso_utc env (after_seconds clock (max 1 ttl))) else None) (to_iso_utc env clock)"
    let ?body = "\<lambda>s. if cron_job_scope job \<noteq> [] \<and> active_runs_in_scope (cron_job_scope job) s > 0
        then (Inl (Cron_ValueError (''cron coordination scope is busy: '' @ cron_job_scope job)), s)
        else st_bind (insert_cron_run run) (\<lambda>_ s. (Inr (cr_run_id run), s)) s"
    have run: "cr_run_id run = uuid4_hex env s" "starts_fresh run" by (simp_all add: run_def new_run_fresh)
    have t: "cron_transaction ?body (uuid_drawn s) = (x, t)"
      using assms Some Inr unfolding run(1) by (simp add: trigger_cron_run_def with_result_def Let_def run_def cong: if_cong)
    obtain y u where u: "?body (uuid_drawn s) = (y, u)" by (cases "?body (uuid_drawn s)")
    then have su: "cron_steps env b s u"
      by (auto simp: st_bind_def drawn_steps split: if_splits prod.splits sum.splits intro: insert_steps(1) [OF run])
    moreover have "cron_steps env b s ((uuid_drawn s)\<lparr>db_uuids := db_uuids u\<rparr>)"
      using reach_uuids [OF su] by (intro steps_one stmt_other) (simp_all add: uuid_drawn_def)
    ultimately show ?thesis using t u by (auto simp: cron_transaction_def split: sum.splits)
  qed (use assms Some in \<open>simp add: trigger_cron_run_def with_result_def steps_refl\<close>)
qed (use assms in \<open>simp add: trigger_cron_run_def steps_refl\<close>)

section \<open>Due jobs\<close>

lemma persist_due_steps:
  assumes "persist_due_decision env job ts next_due now s = (x, t)"
  shows "cron_steps env b s t"
proof -
  let ?u = "update_cron_jobs (cj_job_id job)
    (\<lambda>j. j\<lparr>cj_next_due_at := map_option (to_iso_utc env) next_due, cj_updated_at := now\<rparr>) s"
  have u: "cron_steps env b s ?u" by (intro jobs_steps) (simp add: job_frozen_def)
  have "cron_steps env b ?u t"
    using assms unfolding persist_due_decision_def Let_def st_bind_def
    by (auto split: if_splits prod.splits sum.splits
        intro: steps_refl insert_steps(2) [OF new_run_fresh(4,3)]
          reach_trans [OF insert_steps(2) [OF new_run_fresh(4,3)] jobs_steps [OF disarm_keeps]])
  with u show ?thesis by (rule reach_trans)
qed

lemma enqueue_points_steps:
  assumes "enqueue_points env w e now i ts s = (x, t)"
  shows "cron_steps env b s t"
  using assms
proof (induction ts arbitrary: s x t)
  case (Cons a ts)
  let ?run = "new_cron_run (uuid4_hex env s) i (to_iso_utc env a) (Some w) (Some e) now"
  obtain y u where u: "insert_cron_run_new ?run (uuid_drawn s) = (y, u)" by (cases "insert_cron_run_new ?run (uuid_drawn s)")
  have su: "cron_steps env b s u" by (rule insert_steps(2) [OF new_run_fresh(2,1) u])
  show ?case
  proof (cases y)
    case (Inl err)
    with Cons.prems u su show ?thesis by (simp add: st_bind_def Let_def)
  next
    case (Inr ins)
    obtain z v where v: "enqueue_points env w e now i ts u = (z, v)" by (cases "enqueue_points env w e now i ts u")
    with Cons.prems u Inr have "t = v" by (auto simp: st_bind_def Let_def split: sum.splits)
    with Cons.IH [OF v] su show ?thesis by (auto intro: reach_trans)
  qed
qed (simp add: steps_refl)

lemma persist_enqueue_steps:
  "st_bind (persist_due_decision env job ts next_due now) (\<lambda>_. enqueue_points env w e now i us) s = (x, t) \<Longrightarrow> cron_steps env b s t"
  by (rule st_bind_steps) (auto intro: persist_due_steps enqueue_points_steps)

lemma enqueue_selected_steps:
  "enqueue_selected env w e now job room sel s = (x, t) \<Longrightarrow> cron_steps env b s t"
  by (cases sel) (auto simp: enqueue_selected_def Let_def intro: persist_enqueue_steps)

lemma auto_pause_steps: "cron_steps env b s (auto_pause_legacy_short_interval_job job now s)"
  unfolding auto_pause_legacy_short_interval_job_def Let_def
  by (intro jobs_steps) (simp add: job_frozen_def disarm_def)

lemma enqueue_job_steps:
  assumes "enqueue_job env w e now_dt now job s = (x, t)"
  shows "cron_steps env b s t"
  using assms unfolding enqueue_job_def Let_def
  by (auto elim!: with_resultE split: if_splits intro: steps_refl auto_pause_steps enqueue_selected_steps)

lemma enqueue_jobs_steps:
  assumes "enqueue_jobs env w e now_dt now jobs s = (x, t)"
  shows "cron_steps env b s t"
  using assms
proof (induction jobs arbitrary: s x t)
  case (Cons job jobs)
  show ?case
  proof (rule st_bind_steps [OF Cons.prems [unfolded enqueue_jobs.simps]])
    fix q u assume "st_bind (enqueue_jobs env w e now_dt now jobs) (\<lambda>more s. (Inr (q @ more), s)) u = (x, t)"
    then show "cron_steps env b u t"
      by (auto simp: st_bind_def split: prod.splits sum.splits dest: Cons.IH)
  qed (rule enqueue_job_steps)
qed (simp add: steps_refl)

section \<open>Snapshots of joined rows\<close>

text \<open>The loops over a query's result update one run at a time; the rows still to come are
  current.\<close>

definition rows_current :: "run_state \<Rightarrow> cron_store \<Rightarrow> (cron_run \<times> cron_job) list \<Rightarrow> bool" where
  "rows_current st s rows = (distinct (map (\<lambda>(r, j). cr_run_id r) rows) \<and>
     (\<forall>(r, j)\<in>set rows. r \<in> set (db_runs s) \<and> job_of_run s r = Some j \<and> cr_state r = st))"

lemma joined_runs_iff: "(r, j) \<in> set (joined_runs s) \<longleftrightarrow> r \<in> set (db_runs s) \<and> job_of_run s r = Some j"
  by (auto simp: joined_runs_def split: option.splits)

lemma joined_ids_distinct:
  assumes "keys_unique cr_run_id (db_runs s)"
  shows "distinct (map (\<lambda>(r, j). cr_run_id r) (joined_runs s))"
proof -
  let ?join = "\<lambda>r. case job_of_run s r of None \<Rightarrow> [] | Some j \<Rightarrow> [(r, j)]"
  have "distinct (map (\<lambda>(r, j). cr_run_id r) (concat (map ?join rs)))" if "distinct (map cr_run_id rs)" for rs
    using that by (induction rs) (auto split: option.splits)
  with assms show ?thesis by (simp add: joined_runs_def keys_unique_def)
qed

lemma distinct_map_sorted: "distinct (map g (sort_key f xs)) = distinct (map g xs)"
  by (simp add: distinct_map distinct_sort)

lemma expired_current:
  assumes "cron_inv env s"
  shows "rows_current Run_running s (expired_runs now limit s)"
proof -
  let ?f = "filter (\<lambda>(r, _). cr_state r = Run_running \<and> lease_expired now r) (joined_runs s)"
  have "distinct (map (\<lambda>(r, j). cr_run_id r) ?f)"
    by (rule distinct_map_filter [OF joined_ids_distinct [OF cron_invD(2) [OF assms]]])
  then show ?thesis
    by (auto simp: rows_current_def expired_runs_def distinct_map_sorted take_map [symmetric] joined_runs_iff dest!: in_set_takeD)
qed

text \<open>An update of one run leaves the rows of the others current.\<close>

lemma rows_current_tail:
  assumes "rows_current st s ((r, j) # rows)" and "t = update_cron_runs (\<lambda>q. cr_run_id q = cr_run_id r \<and> P q) f s"
  shows "rows_current st t rows"
proof -
  have "q \<in> set (db_runs t) \<and> job_of_run t q = Some i \<and> cr_state q = st" if q: "(q, i) \<in> set rows" for q i
  proof -
    have in_s: "q \<in> set (db_runs s)" "job_of_run s q = Some i" "cr_state q = st" using assms(1) q by (auto simp: rows_current_def)
    have "cr_run_id q \<noteq> cr_run_id r" using assms(1) q by (force simp: rows_current_def)
    with in_s(1) have "q \<in> set (db_runs t)" by (force simp: assms(2) update_cron_runs_def set_sql_update)
    moreover have "job_of_run t q = job_of_run s q" by (rule job_of_run_cong) (simp_all add: assms(2) update_cron_runs_def)
    ultimately show ?thesis using in_s by simp
  qed
  then show ?thesis using assms(1) by (auto simp: rows_current_def)
qed

lemma same_run:
  assumes "cron_inv env s" "r \<in> set (db_runs s)" "q \<in> set (db_runs s)" "cr_run_id q = cr_run_id r"
  shows "q = r"
  using assms(2-4) cron_invD(2) [OF assms(1)] by (auto simp: keys_unique_def distinct_map inj_on_def)

section \<open>Expired leases\<close>

lemma failed_change:
  assumes "run_active r"
  shows "row_change b s r (run_failed err now r)"
  using assms by (simp add: row_change_def run_failed_def run_terminal_def terminal_run_states_def)

lemma requeued_change:
  assumes "cr_state r = Run_running" "job_of_run s r = Some j" "cr_attempts r < cj_max_attempts j"
  shows "row_change b s r (requeued av err now r)"
  using assms by (auto simp: row_change_def requeued_def)

lemma running_active: "cr_state r = Run_running \<Longrightarrow> run_active r" "cr_state r = Run_queued \<Longrightarrow> run_active r"
  by (simp_all add: run_active_def)

lemma attempt_limit: "cron_job_ok j \<Longrightarrow> max 1 (int_or (Some (cj_max_attempts j)) d) = cj_max_attempts j"
  by (auto simp: cron_job_ok_def int_or_def)

lemma recover_run_update:
  assumes "recover_run env now_dt now (r, j) s = (item, t)" "cron_job_ok j"
  obtains err where "cr_attempts r \<ge> cj_max_attempts j"
      "t = update_cron_runs (\<lambda>q. cr_run_id q = cr_run_id r \<and> cr_state q = Run_running) (run_failed err now) s"
  | err av where "cr_attempts r < cj_max_attempts j"
      "t = update_cron_runs (\<lambda>q. cr_run_id q = cr_run_id r \<and> cr_state q = Run_running) (requeued av err now) s"
  using assms(1) unfolding recover_run_def Let_def attempt_limit [OF assms(2)] prod.case
  by (cases "cr_attempts r \<ge> cj_max_attempts j") (auto intro: that)

lemma recover_run_steps:
  assumes "recover_run env now_dt now (r, j) s = (item, t)" "cron_inv env s" "rows_current Run_running s ((r, j) # rows)"
  shows "cron_steps env b s t" "rows_current Run_running t rows"
proof -
  have r: "r \<in> set (db_runs s)" "job_of_run s r = Some j" "cr_state r = Run_running" using assms(3) by (auto simp: rows_current_def)
  then have "cron_job_ok j" using job_of_run_Some cron_invD(3) [OF assms(2)] by blast
  note upd = recover_run_update [OF assms(1) this]
  have same: "q = r" if "q \<in> set (db_runs s)" "cr_run_id q = cr_run_id r \<and> cr_state q = Run_running" for q
    using same_run [OF assms(2) r(1) that(1)] that(2) by blast
  show "cron_steps env b s t"
  proof (rule upd)
    fix err assume "t = update_cron_runs (\<lambda>q. cr_run_id q = cr_run_id r \<and> cr_state q = Run_running) (run_failed err now) s"
    then show ?thesis by (auto intro!: runs_steps failed_change dest: running_active)
  next
    fix err av assume lt: "cr_attempts r < cj_max_attempts j"
      and "t = update_cron_runs (\<lambda>q. cr_run_id q = cr_run_id r \<and> cr_state q = Run_running) (requeued av err now) s"
    then show ?thesis using same r by (auto intro!: runs_steps requeued_change)
  qed
  show "rows_current Run_running t rows"
    by (rule upd) (rule rows_current_tail [OF assms(3)], assumption)+
qed

lemma recover_cron_rows_steps:
  assumes "recover_cron_rows env now_dt now rows s = (items, t)" "cron_inv env s" "rows_current Run_running s rows"
  shows "cron_steps env b s t"
  using assms
proof (induction rows arbitrary: s items)
  case (Cons row rows)
  obtain r j where row: "row = (r, j)" by (cases row)
  obtain item u where u: "recover_run env now_dt now (r, j) s = (item, u)" by (cases "recover_run env now_dt now (r, j) s")
  note first = recover_run_steps [OF u Cons.prems(2) Cons.prems(3) [unfolded row]]
  obtain more where "recover_cron_rows env now_dt now rows u = (more, t)"
    using Cons.prems(1) u row by (auto split: prod.splits)
  with Cons.IH [OF _ stmts.inv_reach [OF first(1) Cons.prems(2)] first(2)] first(1) show ?case
    by (auto intro: reach_trans)
qed (simp add: steps_refl)

lemma recover_locked_steps:
  assumes "cron_inv env s"
  shows "cron_steps env b s (snd (recover_expired_locked env now_dt now limit s))"
proof (cases "recover_expired_locked env now_dt now limit s")
  case (Pair items t)
  with recover_cron_rows_steps [OF _ assms expired_current [OF assms]] show ?thesis by (auto simp: recover_expired_locked_def)
qed

lemma recover_steps:
  assumes "recover_expired_cron_runs env clock now_iso limit s = (x, t)" "cron_inv env s"
  shows "cron_steps env b s t"
  using assms(1) unfolding recover_expired_cron_runs_def
proof (rule with_result_steps)
  fix now_dt
  assume "(let (items, s) = recover_expired_locked env now_dt (to_iso_utc env now_dt) limit s in (Inr items, s)) = (x, t)"
  then have "t = snd (recover_expired_locked env now_dt (to_iso_utc env now_dt) limit s)" by (simp add: Let_def split_beta)
  then show "cron_steps env b s t" by (simp add: recover_locked_steps assms(2))
qed

lemma enqueue_body_steps:
  assumes "enqueue_due_body env w e now_dt now lim s = (x, t)" "cron_inv env s"
  shows "cron_steps env b s t"
  using assms(1) unfolding enqueue_due_body_def Let_def
  by (auto split: if_splits intro: recover_locked_steps [OF assms(2)]
      reach_trans [OF recover_locked_steps [OF assms(2)]] enqueue_jobs_steps)

lemma enqueue_due_steps:
  assumes "enqueue_due_cron_runs env clock daemon_id ttl max_jobs now_iso s = (x, t)" "cron_inv env s"
  shows "cron_steps env b s t"
  using assms(1) unfolding enqueue_due_cron_runs_def
  by (elim with_resultE) (auto intro: steps_refl transaction_steps enqueue_body_steps [OF _ assms(2)])

section \<open>Claims\<close>

definition candidates_current :: "cron_store \<Rightarrow> cron_run list \<Rightarrow> bool" where
  "candidates_current s rs = (distinct (map cr_run_id rs) \<and>
     (\<forall>r\<in>set rs. r \<in> set (db_runs s) \<and> cr_state r = Run_queued \<and> (\<exists>j. job_of_run s r = Some j \<and> cj_enabled j)))"

lemma claim_candidates_current:
  assumes "cron_inv env s"
  shows "candidates_current s (claim_candidates owner now limit s)"
proof -
  let ?f = "filter (claimable owner now) (joined_runs s)"
  have "distinct (map (\<lambda>(r, j). cr_run_id r) ?f)"
    by (rule distinct_map_filter [OF joined_ids_distinct [OF cron_invD(2) [OF assms]]])
  then have "distinct (map cr_run_id (map fst ?f))" by (simp add: comp_def case_prod_unfold)
  then have "distinct (map cr_run_id (sort_key cr_due_at (map fst ?f)))" by (simp only: distinct_map_sorted)
  then have "distinct (map cr_run_id (claim_candidates owner now limit s))"
    unfolding claim_candidates_def by (simp only: take_map [symmetric] distinct_take)
  then show ?thesis
    by (auto simp: candidates_current_def claim_candidates_def claimable_def joined_runs_iff Let_def dest!: in_set_takeD)
qed

text \<open>The scope that the loop looks up is that of the run's job.\<close>

definition row_scope :: "cron_store \<Rightarrow> cron_run \<Rightarrow> string" where
  "row_scope s r = (let job_id = str_strip (opt_or (cr_job_id r) []) in
     if job_id = [] then [] else case find_cron_job job_id s of None \<Rightarrow> [] | Some j \<Rightarrow> cron_job_scope j)"

lemma acquire_rows_Cons:
  "acquire_rows owner e now (row # rows) s =
     (if row_scope s row \<noteq> [] \<and> scope_has_running_run (row_scope s row) (cr_run_id row) s
      then acquire_rows owner e now rows s
      else let p = (\<lambda>r. cr_run_id r = cr_run_id row \<and> cr_state r = Run_queued);
               u = update_cron_runs p (claimed owner e now) s; (acquired, t) = acquire_rows owner e now rows u
           in case (sql_count p (db_runs s), find_cron_run (cr_run_id row) u) of
                (Suc _, Some r) \<Rightarrow> (r # acquired, t) | _ \<Rightarrow> (acquired, t))"
  by (simp add: row_scope_def Let_def)

declare acquire_rows.simps(2) [simp del]

lemma acquire_rows_store:
  "snd (acquire_rows owner e now (row # rows) s) =
     (if row_scope s row \<noteq> [] \<and> scope_has_running_run (row_scope s row) (cr_run_id row) s
      then snd (acquire_rows owner e now rows s)
      else snd (acquire_rows owner e now rows
        (update_cron_runs (\<lambda>q. cr_run_id q = cr_run_id row \<and> cr_state q = Run_queued) (claimed owner e now) s)))"
  by (auto simp: acquire_rows_Cons Let_def split: prod.split nat.split option.split)

lemma cron_job_scope_key: "cron_job_ok j \<Longrightarrow> cron_job_scope j = (case cj_concurrency_key j of None \<Rightarrow> [] | Some k \<Rightarrow> k)"
  by (auto simp: cron_job_ok_def cron_job_scope_def opt_or_def stripped_def split: option.splits)

lemma row_scope_job:
  assumes "cron_inv env s" "job_of_run s r = Some j"
  shows "row_scope s r = (case cj_concurrency_key j of None \<Rightarrow> [] | Some k \<Rightarrow> k)"
proof -
  have j: "j \<in> set (db_jobs s)" "cr_job_id r = Some (cj_job_id j)" "find_cron_job (cj_job_id j) s = Some j"
    using assms(2) job_of_run_Some [OF assms(2)] by (simp_all add: job_of_run_def)
  then have "cron_job_ok j" using cron_invD(3) [OF assms(1)] by blast
  with j show ?thesis by (simp add: row_scope_def Let_def opt_or_def cron_job_ok_def stripped_def cron_job_scope_key)
qed

lemma claim_steps:
  assumes "cron_inv env s" "candidates_current s (r # rows)" "\<not> scheduler_is_paused s"
    and free: "row_scope s r = [] \<or> \<not> scope_has_running_run (row_scope s r) (cr_run_id r) s"
  shows "cron_stmt env b s (update_cron_runs (\<lambda>q. cr_run_id q = cr_run_id r \<and> cr_state q = Run_queued) (claimed owner e now) s)"
proof -
  obtain j where r: "r \<in> set (db_runs s)" "cr_state r = Run_queued" "job_of_run s r = Some j" "cj_enabled j"
    using assms(2) by (auto simp: candidates_current_def)
  have "cron_job_ok j" using job_of_run_Some [OF r(3)] cron_invD(3) [OF assms(1)] by blast
  then have "scope_free s j r" using free row_scope_job [OF assms(1) r(3)]
    by (auto simp: scope_free_def cron_job_ok_def stripped_def)
  with r assms(3) show ?thesis by (rule stmt_claim)
qed

lemma candidates_tail:
  assumes "candidates_current s (r # rows)" and "t = update_cron_runs (\<lambda>q. cr_run_id q = cr_run_id r \<and> P q) f s"
  shows "candidates_current t rows"
proof -
  have "q \<in> set (db_runs t) \<and> job_of_run t q = job_of_run s q" if "q \<in> set rows" for q
  proof -
    have "q \<in> set (db_runs s)" "cr_run_id r \<notin> cr_run_id ` set rows" using assms(1) that by (simp_all add: candidates_current_def)
    moreover from this have "cr_run_id q \<noteq> cr_run_id r" using that by (metis imageI)
    ultimately have "q \<in> set (db_runs t)" by (force simp: assms(2) update_cron_runs_def set_sql_update)
    moreover have "job_of_run t q = job_of_run s q" by (rule job_of_run_cong) (simp_all add: assms(2) update_cron_runs_def)
    ultimately show ?thesis by simp
  qed
  then show ?thesis using assms(1) by (auto simp: candidates_current_def)
qed

lemma acquire_rows_steps:
  assumes "cron_inv env s" "candidates_current s rows" "\<not> scheduler_is_paused s"
  shows "cron_steps env b s (snd (acquire_rows owner e now rows s))"
  using assms
proof (induction rows arbitrary: s)
  case (Cons r rows)
  let ?u = "update_cron_runs (\<lambda>q. cr_run_id q = cr_run_id r \<and> cr_state q = Run_queued) (claimed owner e now) s"
  show ?case
  proof (cases "row_scope s r \<noteq> [] \<and> scope_has_running_run (row_scope s r) (cr_run_id r) s")
    case True
    have "candidates_current s rows" using Cons.prems(2) by (simp add: candidates_current_def)
    with True Cons show ?thesis by (simp add: acquire_rows_store)
  next
    case False
    then have u: "cron_stmt env b s ?u" using claim_steps [OF Cons.prems] by blast
    have "cron_steps env b ?u (snd (acquire_rows owner e now rows ?u))"
      using Cons.IH [OF cron_stmt_inv [OF Cons.prems(1) u] candidates_tail [OF Cons.prems(2) refl]] Cons.prems(3)
      by (simp add: scheduler_is_paused_def update_cron_runs_def)
    with False steps_one [OF u] show ?thesis by (simp add: acquire_rows_store) (blast intro: reach_trans)
  qed
qed (simp add: steps_refl)

lemma acquire_locked_steps:
  assumes "cron_inv env s" "u = snd (recover_expired_locked env now_dt now (max 100 (lim * 2)) s)"
  shows "cron_steps env b s u" "cron_inv env u" "cron_steps env b u (snd (acquire_locked env w e now_dt now lim s))"
proof -
  show u: "cron_steps env b s u" unfolding assms(2) by (rule recover_locked_steps [OF assms(1)])
  then show inv: "cron_inv env u" using assms(1) by (rule stmts.inv_reach)
  show "cron_steps env b u (snd (acquire_locked env w e now_dt now lim s))"
    using acquire_rows_steps [OF inv claim_candidates_current [OF inv]] unfolding acquire_locked_def assms(2)
    by (simp add: Let_def steps_refl)
qed

lemma acquire_steps:
  assumes "acquire_cron_runs env clock daemon_id ttl limit now_iso s = (x, t)" "cron_inv env s"
  shows "cron_steps env b s t"
  using assms(1) unfolding acquire_cron_runs_def
  by (elim with_resultE)
    (auto simp: Let_def split_beta intro: steps_refl reach_trans [OF acquire_locked_steps(1,3) [OF assms(2) refl]])

section \<open>Fenced updates\<close>

lemma renew_steps:
  assumes "renew_cron_run_lease env clock run_id daemon n ttl now_iso s = (x, t)"
  shows "cron_steps env b s t"
  using assms unfolding renew_cron_run_lease_def
  by (elim with_resultE) (auto simp: Let_def row_change_def run_result_def intro!: runs_steps intro: steps_refl)

lemma watermark_steps: "cron_steps env b s (persist_scope_watermark job st out i now s)"
  by (intro other_steps) (simp_all add: persist_scope_watermark_def Let_def)

lemma finalize_steps: "cron_steps env b s (finalize_one_time_job job st i now s)"
  by (auto simp: finalize_one_time_job_def Let_def
      intro: steps_refl job_delete_steps jobs_steps [OF disarm_keeps])

lemma fence_active: "fence_matches (Some f) r \<Longrightarrow> run_active r"
  by (cases f) (simp add: fence_matches_def holds_fence_def run_active_def)

lemma settled_change:
  assumes "fenced \<longrightarrow> f \<noteq> None" "fence_matches f r" "ro_state res \<in> set terminal_run_states"
  shows "row_change fenced s r (settled_run res now r)"
proof -
  have "fenced \<longrightarrow> run_active r" using assms(1,2) by (auto intro: fence_active)
  with assms(3) show ?thesis by (simp add: row_change_def settled_run_def run_terminal_def)
qed

lemma finish_locked_steps:
  assumes "finish_cron_run_locked f i res now s = (x, t)" "fenced \<longrightarrow> f \<noteq> None" "ro_state res \<in> set terminal_run_states"
  shows "cron_steps env fenced s t"
proof (cases "fenced_run f i s")
  case (Some row)
  let ?u = "update_cron_runs (\<lambda>r. cr_run_id r = i \<and> fence_matches f r) (settled_run res now) s"
  have u: "cron_steps env fenced s ?u" using assms(2,3) by (auto intro!: runs_steps settled_change)
  let ?v = "\<lambda>jid. update_cron_jobs jid (\<lambda>j. j\<lparr>cj_last_run_at := Some now, cj_updated_at := now\<rparr>) ?u"
  have v: "cron_steps env fenced ?u (?v jid)" for jid by (intro jobs_steps) (simp add: job_frozen_def)
  have "cron_steps env fenced ?u t"
    using assms(1) Some v unfolding finish_cron_run_locked_def Let_def
    by (auto split: option.splits intro: steps_refl reach_trans [OF reach_trans [OF v watermark_steps] finalize_steps])
  with u show ?thesis by (rule reach_trans)
qed (use assms in \<open>simp add: finish_cron_run_locked_def steps_refl\<close>)

lemma terminal_state_of_Inr: "terminal_state_of text = Inr st \<Longrightarrow> st \<in> set terminal_run_states"
  by (auto simp: terminal_state_of_def find_Some_iff split: option.splits)

lemma fence_args_Inr: "fence_args d n = Inr f \<Longrightarrow> f = None \<longleftrightarrow> d = None"
  by (auto simp: fence_args_def split: option.splits)

lemma finish_steps:
  assumes "finish_cron_run env clock run_id state res daemon_id n now_iso s = (x, t)" "fenced \<longrightarrow> daemon_id \<noteq> None"
  shows "cron_steps env fenced s t"
  using assms(1) unfolding finish_cron_run_def
proof (elim with_resultE, simp_all only: Let_def steps_refl)
  fix st f now_dt
  assume args: "terminal_state_of state = Inr st" "fence_args daemon_id n = Inr f"
    and call: "(case finish_cron_run_locked f (str_strip run_id) (res\<lparr>ro_state := st\<rparr>) (to_iso_utc env now_dt) s of
      (run, s) \<Rightarrow> (Inr run, s)) = (x, t)"
  obtain run where "finish_cron_run_locked f (str_strip run_id) (res\<lparr>ro_state := st\<rparr>) (to_iso_utc env now_dt) s = (run, t)"
    using call by (auto split: prod.splits)
  then show "cron_steps env fenced s t"
    by (rule finish_locked_steps) (use args fence_args_Inr assms(2) terminal_state_of_Inr in auto)
qed

lemma retry_change:
  assumes "cron_inv env s" "row \<in> set (db_runs s)" "cr_state row = Run_running"
  shows "row_change b s row (retry_update env now_dt (job_of_run s row) err (cr_attempts row) row)"
proof (cases "job_of_run s row")
  case None
  have "cr_attempts row \<ge> 1" using cron_invD(4) [OF assms(1,2)] assms(3) by (simp add: cron_run_ok_def)
  with None show ?thesis by (auto simp: retry_update_def Let_def int_or_def intro: failed_change running_active assms(3))
next
  case (Some j)
  then have "cron_job_ok j" using job_of_run_Some cron_invD(3) [OF assms(1)] by blast
  note lim = attempt_limit [OF this, of 1]
  show ?thesis
    using requeued_change [OF assms(3) Some] failed_change [OF running_active(1) [OF assms(3)]]
    unfolding retry_update_def Let_def Some option.map lim by (simp add: not_le)
qed

lemma retry_steps:
  assumes "retry_cron_run env clock run_id err daemon_id n now_iso s = (x, t)" "cron_inv env s"
  shows "cron_steps env b s t"
  using assms(1) unfolding retry_cron_run_def
proof (elim with_resultE, simp_all only: Let_def steps_refl)
  fix f now_dt
  let ?p = "\<lambda>r. cr_run_id r = str_strip run_id \<and> cr_state r = Run_running \<and> fence_matches f r"
  let ?q = "\<lambda>row r. cr_run_id r = str_strip run_id \<and> holds_fence (opt_or (cr_lease_owner row) []) (cr_attempts row) r"
  let ?g = "\<lambda>row. retry_update env now_dt (job_of_run s row) err (cr_attempts row)"
  assume call: "(case find ?p (db_runs s) of None \<Rightarrow> (Inr None, s)
     | Some row \<Rightarrow> (Inr (find_cron_run (str_strip run_id) (update_cron_runs (?q row) (?g row) s)), update_cron_runs (?q row) (?g row) s)) = (x, t)"
  show "cron_steps env b s t"
  proof (cases "find ?p (db_runs s)")
    case (Some row)
    then have row: "row \<in> set (db_runs s)" "cr_run_id row = str_strip run_id" "cr_state row = Run_running"
      by (auto simp: find_Some_iff)
    have "row_change b s r (?g row r)" if "r \<in> set (db_runs s)" "?q row r" for r
      using retry_change [OF assms(2) row(1,3)] same_run [OF assms(2) row(1) that(1)] that(2) row(2) by simp
    then have "cron_steps env b s (update_cron_runs (?q row) (?g row) s)" by (intro runs_steps)
    with call Some show ?thesis by simp
  qed (use call in \<open>simp add: steps_refl\<close>)
qed

lemma delivery_steps:
  assumes "delivery_update done change env clock run_id target daemon_id n s = (x, t)" "cron_inv env s"
    and grows: "\<And>g ts. b \<Longrightarrow> set ts \<subseteq> set (change g ts)"
  shows "cron_steps env b s t"
  using assms(1) unfolding delivery_update_def Let_def
proof (elim with_resultE, simp_all only: steps_refl)
  fix f
  let ?i = "str_strip run_id" and ?g = "str_strip target"
  let ?upd = "\<lambda>row. update_cron_runs (\<lambda>r. cr_run_id r = ?i \<and> fence_matches f r)
    (\<lambda>r. r\<lparr>cr_delivery_targets := change ?g (cr_delivery_targets row), cr_updated_at := to_iso_utc env clock\<rparr>) s"
  assume call: "(case fenced_run f ?i s of
      None \<Rightarrow> if f \<noteq> None then (Inr False, s) else (Inl (Cron_ValueError (''cron run not found: '' @ ?i)), s)
    | Some row \<Rightarrow> if done ?g (cr_delivery_targets row) then (Inr False, s) else (Inr True, ?upd row)) = (x, t)"
  show "cron_steps env b s t"
  proof (cases "fenced_run f ?i s")
    case (Some row)
    then have row: "row \<in> set (db_runs s)" "cr_run_id row = ?i" by (auto simp: fenced_run_def find_Some_iff)
    have "row_change b s r (r\<lparr>cr_delivery_targets := change ?g (cr_delivery_targets row), cr_updated_at := to_iso_utc env clock\<rparr>)"
      if "r \<in> set (db_runs s)" "cr_run_id r = ?i \<and> fence_matches f r" for r
      using same_run [OF assms(2) row(1) that(1)] that(2) row(2) grows by (simp add: row_change_def run_result_def)
    then have "cron_steps env b s (?upd row)" by (intro runs_steps)
    with call Some show ?thesis by (auto split: if_splits intro: steps_refl)
  qed (use call in \<open>auto split: if_splits intro: steps_refl\<close>)
qed

section \<open>Reading back\<close>

lemma fenced_run_Some:
  assumes "cron_inv env s" "fenced_run f i s = Some r"
  shows "find_cron_run i s = Some r" "fence_matches f r"
proof -
  have r: "r \<in> set (db_runs s)" "cr_run_id r = i" "fence_matches f r" using assms(2) by (auto simp: fenced_run_def find_Some_iff)
  show "find_cron_run i s = Some r" using sql_get_unique [OF cron_invD(2) [OF assms(1)] r(1)] r(2) by (simp add: find_cron_run_def)
  show "fence_matches f r" by (rule r(3))
qed

lemma find_run_updated:
  assumes "\<And>r. cr_run_id (f r) = cr_run_id r"
  shows "find_cron_run i (update_cron_runs p f s) = map_option (\<lambda>r. if p r then f r else r) (find_cron_run i s)"
proof -
  have "keyed_update cr_run_id f" by unfold_locales (rule assms)
  then show ?thesis by (simp add: find_cron_run_def update_cron_runs_def keyed_update.get_update)
qed

section \<open>What a poll claims\<close>

lemma acquire_rows_result:
  assumes "keys_unique cr_run_id (db_runs s)" "candidates_current s rows" "r \<in> set (fst (acquire_rows owner e now rows s))"
  shows "\<exists>q\<in>set rows. r = claimed owner e now q"
  using assms
proof (induction rows arbitrary: s)
  case (Cons row rows)
  let ?u = "update_cron_runs (\<lambda>q. cr_run_id q = cr_run_id row \<and> cr_state q = Run_queued) (claimed owner e now) s"
  have cur: "candidates_current s rows" "row \<in> set (db_runs s)" "cr_state row = Run_queued"
    using Cons.prems(2) by (simp_all add: candidates_current_def)
  have found: "find_cron_run (cr_run_id row) ?u = Some (claimed owner e now row)"
    using sql_get_unique [OF Cons.prems(1) cur(2)] cur(3)
    by (simp add: find_cron_run_def update_cron_runs_def claim.get_update)
  have uniq: "keys_unique cr_run_id (db_runs ?u)" using Cons.prems(1) by (simp add: update_cron_runs_def claim.unique_update)
  have "r = claimed owner e now row \<or> r \<in> set (fst (acquire_rows owner e now rows s)) \<or> r \<in> set (fst (acquire_rows owner e now rows ?u))"
    using Cons.prems(3) by (auto simp: acquire_rows_Cons Let_def found split: if_splits prod.splits nat.splits)
  with Cons.IH [OF Cons.prems(1) cur(1)] Cons.IH [OF uniq candidates_tail [OF Cons.prems(2) refl]] show ?case by auto
qed simp

lemma acquire_result:
  assumes "acquire_cron_runs env clock daemon_id ttl limit now_iso s = (Inr runs, t)" "cron_inv env s" "r \<in> set runs"
  obtains now_dt u q where "given_time env now_iso clock = Inr now_dt" "cron_steps env b s u" "cron_steps env b u t"
    "u = snd (recover_expired_locked env now_dt (to_iso_utc env now_dt) (max 100 (max 1 (min limit 500) * 2)) s)"
    "\<not> scheduler_is_paused u"
    "q \<in> set (claim_candidates (str_strip daemon_id) (to_iso_utc env now_dt) (max 1 (min limit 500)) u)"
    "r = claimed (str_strip daemon_id) (to_iso_utc env (after_seconds now_dt (max 1 ttl))) (to_iso_utc env now_dt) q"
proof -
  let ?w = "str_strip daemon_id" and ?lim = "max 1 (min limit 500)"
  obtain now_dt where now_dt: "given_time env now_iso clock = Inr now_dt"
    and call: "acquire_locked env ?w (to_iso_utc env (after_seconds now_dt (max 1 ttl))) now_dt (to_iso_utc env now_dt) ?lim s = (runs, t)"
    using assms(1) by (auto simp: acquire_cron_runs_def Let_def elim!: with_resultE split: prod.splits)
  let ?now = "to_iso_utc env now_dt"
  define u where "u = snd (recover_expired_locked env now_dt ?now (max 100 (?lim * 2)) s)"
  note u = acquire_locked_steps [OF assms(2) u_def]
  have off: "\<not> scheduler_is_paused u"
    and runs: "runs = fst (acquire_rows ?w (to_iso_utc env (after_seconds now_dt (max 1 ttl))) ?now (claim_candidates ?w ?now ?lim u) u)"
    using call assms(3) by (auto simp: acquire_locked_def u_def Let_def split: if_splits)
  from acquire_rows_result [OF cron_invD(2) [OF u(2)] claim_candidates_current [OF u(2)]] assms(3) runs obtain q where
    "q \<in> set (claim_candidates ?w ?now ?lim u)" "r = claimed ?w (to_iso_utc env (after_seconds now_dt (max 1 ttl))) ?now q"
    by blast
  with now_dt u(1,3) call u_def off that show thesis by (metis snd_conv)
qed

lemma candidate_run: "q \<in> set (claim_candidates w now lim u) \<Longrightarrow> \<exists>j. q \<in> set (db_runs u) \<and> job_of_run u q = Some j \<and> claimable w now (q, j)"
  by (auto simp: claim_candidates_def joined_runs_iff dest!: in_set_takeD)

lemma acquired_drawn:
  assumes "acquire_cron_runs env clock daemon_id ttl limit now_iso s = (Inr runs, t)" "cron_inv env s" "r \<in> set runs"
  shows "id_drawn env t (cr_run_id r)"
proof (rule acquire_result [OF assms, where b = True])
  fix now_dt u q
  assume steps: "cron_steps env True s u" "cron_steps env True u t"
    and q: "q \<in> set (claim_candidates (str_strip daemon_id) (to_iso_utc env now_dt) (max 1 (min limit 500)) u)"
    "r = claimed (str_strip daemon_id) (to_iso_utc env (after_seconds now_dt (max 1 ttl))) (to_iso_utc env now_dt) q"
  have "cron_inv env u" using steps(1) assms(2) by (rule stmts.inv_reach)
  then have "id_drawn env u (cr_run_id r)" using candidate_run [OF q(1)] q(2) cron_invD(5) by fastforce
  then show ?thesis using reach_uuids [OF steps(2)] by (rule id_drawn_mono)
qed

section \<open>Every call is a sequence of statements\<close>

lemma cron_call_steps:
  assumes "cron_inv env s" "cron_call env fenced s t"
  shows "cron_steps env fenced s t"
  using assms(2,1)
proof (induction rule: cron_call.induct)
  case (call_get_control clock s c t)
  then show ?case by (auto dest: control_frame intro: other_steps)
next
  case (call_tasks s js)
  then show ?case by (intro other_steps) simp_all
next
  case (call_mark clock run_id target daemon_id expected s y t)
  then show ?case unfolding mark_cron_delivery_target_def by (rule delivery_steps) auto
next
  case (call_unmark clock run_id target daemon_id expected s y t)
  then show ?case unfolding unmark_cron_delivery_target_def by (auto intro: delivery_steps)
qed (auto dest: cron_invD(8) intro: add_cron_job_steps set_enabled_steps delete_cron_job_steps replace_payload_steps update_task_steps
      set_control_steps delete_runs_steps recover_steps enqueue_due_steps trigger_task_steps trigger_steps acquire_steps renew_steps
      finish_steps retry_steps)

interpretation calls: simulated_system "cron_stmt env fenced" "cron_inv env" "cron_call env fenced"
  by unfold_locales (rule cron_call_steps)

lemma empty_cron_inv: "uuids_ok env \<Longrightarrow> cron_inv env empty_cron_store"
  by (simp add: cron_inv_def empty_cron_store_def scopes_exclusive_def due_unique_def)

end
