(* ===== verification/Cron_Coordination.thy ===== *)
theory Cron_Coordination
  imports Cron_Store
begin

text \<open>
  Coordination of the scheduler with the store (\<open>modules/task/scheduling/coordination.py\<close>): what
  health reports say of the scheduler, one poll for runs, the outcome of a run, and its delivery.
  The state is the store with the events emitted so far and the deliveries handed to the
  delivery handler, each with the run and the target. \<open>clk i\<close> is the reading of the clock at the
  \<open>i\<close>-th call of the store. The delivery handler is a parameter: it returns or raises an
  exception with a text.
\<close>

section \<open>Readiness\<close>

definition scheduler_status_command :: string where
  "scheduler_status_command = ''openminion service status cron''"

text \<open>\<open>item.get(key)\<close> on a value that may not be an object.\<close>

fun py_get :: "pyval \<Rightarrow> string \<Rightarrow> pyval cron_result" where
  "py_get (PDict d) k = Inr (dict_get_or d k PNone)"
| "py_get _ _ = Inl Cron_AttributeError"

definition is_scheduler_component :: "pyval \<Rightarrow> bool cron_result" where
  "is_scheduler_component item =
     rbind (py_get item ''component'') (\<lambda>c. rbind (py_get (py_or c (PDict [])) ''component_kind'') (\<lambda>kind.
       Inr (py_eq kind (PStr ''cron_scheduler''))))"

text \<open>\<open>next(..., None)\<close> over the components; a mapping has its keys as items.\<close>

fun find_scheduler :: "pyval list \<Rightarrow> pyval option cron_result" where
  "find_scheduler [] = Inr None"
| "find_scheduler (x # xs) = rbind (is_scheduler_component x) (\<lambda>b. if b then Inr (Some x) else find_scheduler xs)"

fun py_iter :: "pyval \<Rightarrow> pyval list cron_result" where
  "py_iter (PList xs) = Inr xs"
| "py_iter (PDict d) = Inr (map (\<lambda>(k, _). PStr k) d)"
| "py_iter (PStr s) = Inr (map (\<lambda>c. PStr [c]) s)"
| "py_iter _ = Inl Cron_TypeError"

text \<open>State, reason and heartbeat.\<close>

definition scheduler_health :: "pydict \<Rightarrow> (string \<times> pyval \<times> pyval) cron_result" where
  "scheduler_health health_payload =
     (case dict_get_or health_payload ''normalized_health_snapshot'' PNone of
        PDict snapshot \<Rightarrow>
          if \<not> dict_has snapshot ''components'' then Inr (''unknown'', PStr ''health_snapshot_unavailable'', PNone)
          else rbind (py_iter (dict_get_or snapshot ''components'' (PList []))) (\<lambda>items.
            rbind (find_scheduler items) (\<lambda>found.
              case found of
                None \<Rightarrow> Inr (''degraded'', PStr ''scheduler_not_attached'', PNone)
              | Some scheduler \<Rightarrow>
                  rbind (py_get scheduler ''readiness'') (\<lambda>r.
                  rbind (py_get scheduler ''last_heartbeat_at'') (\<lambda>heartbeat.
                  rbind (py_get scheduler ''status_message'') (\<lambda>message.
                    let readiness = py_str (py_or r (PStr ''unknown'')) in
                    if readiness = ''ready'' \<and> truthy heartbeat then Inr (''ready'', PNone, heartbeat)
                    else if readiness = ''ready'' then Inr (''unknown'', PStr ''scheduler_heartbeat_unavailable'', heartbeat)
                    else Inr (''degraded'', message, heartbeat))))))
      | _ \<Rightarrow> Inr (''unknown'', PStr ''health_snapshot_unavailable'', PNone))"

definition scheduler_readiness_from_health :: "pydict \<Rightarrow> bool \<Rightarrow> bool option \<Rightarrow> pydict cron_result" where
  "scheduler_readiness_from_health health_payload reachable identity_matches =
     rbind (if \<not> reachable then Inr (''unreachable'', PStr ''daemon_unreachable'', PNone)
            else case identity_matches of
              None \<Rightarrow> Inr (''unknown'', PStr ''daemon_identity_unavailable'', PNone)
            | Some False \<Rightarrow> Inr (''degraded'', PStr ''daemon_identity_mismatch'', PNone)
            | Some True \<Rightarrow> scheduler_health health_payload) (\<lambda>(state, reason, heartbeat).
       let result = [(''state'', PStr state), (''hosted_by'', PStr ''daemon''), (''reason'', reason)];
           result = (if truthy heartbeat then dict_set result ''last_heartbeat_at'' heartbeat else result)
       in Inr (if state \<noteq> ''ready'' then dict_set result ''check_command'' (PStr scheduler_status_command) else result))"

definition resolve_scheduler_readiness :: "pydict cron_result option \<Rightarrow> pydict cron_result" where
  "resolve_scheduler_readiness query =
     (case query of Some answer \<Rightarrow> answer | None \<Rightarrow> scheduler_readiness_from_health [] True None)"

section \<open>The system around the store\<close>

record cron_sys =
  cy_db :: cron_store
  cy_events :: "(string \<times> pydict) list"
  cy_sent :: "(string \<times> string) list"

type_synonym 'a sys_op = "cron_sys \<Rightarrow> 'a cron_result \<times> cron_sys"

definition emit_event :: "string \<Rightarrow> pydict \<Rightarrow> cron_sys \<Rightarrow> cron_sys" where
  "emit_event event_type payload y = y\<lparr>cy_events := cy_events y @ [(event_type, payload)]\<rparr>"

definition on_db :: "'a cron_op \<Rightarrow> 'a sys_op" where
  "on_db m y = (case m (cy_db y) of (x, s) \<Rightarrow> (x, y\<lparr>cy_db := s\<rparr>))"

definition emit_recovered :: "pydict list \<Rightarrow> cron_sys \<Rightarrow> cron_sys" where
  "emit_recovered items y =
     fold (\<lambda>item. emit_event (if py_eq (dict_get_or item ''state'' PNone) (PStr ''failed'')
       then ''cron.run.retry_exhausted'' else ''cron.run.lease_recovered'') item) items y"

definition recover_and_acquire_cron_runs ::
  "cron_env \<Rightarrow> (nat \<Rightarrow> int) \<Rightarrow> string \<Rightarrow> int \<Rightarrow> int \<Rightarrow> bool \<Rightarrow> cron_run list sys_op" where
  "recover_and_acquire_cron_runs env clk daemon_id lease_ttl_seconds capacity can_start_background_work =
     st_bind (on_db (recover_expired_cron_runs env (clk 0) None 100)) (\<lambda>recovered y.
     st_bind (on_db (get_cron_scheduler_control env (clk 1))) (\<lambda>control.
       if ctl_paused control
       then (\<lambda>y. (Inr [], emit_event ''cron.scheduler.paused''
              [(''reason'', opt_value (ctl_reason control)), (''actor'', opt_value (ctl_actor control)),
               (''updated_at'', PStr (ctl_updated_at control))] y))
       else st_bind (on_db (enqueue_due_cron_runs env (clk 2) daemon_id lease_ttl_seconds (max 1 (capacity * 2)) None)) (\<lambda>_.
         if \<not> can_start_background_work
         then (\<lambda>y. (Inr [], emit_event ''cron.scheduler.foreground_deferred'' [(''capacity'', PInt capacity)] y))
         else on_db (acquire_cron_runs env (clk 3) daemon_id lease_ttl_seconds capacity None)))
       (emit_recovered recovered y))"

section \<open>The outcome of a run\<close>

record exec_result =
  er_summary :: string
  er_artifact_refs :: "pyval list"
  er_output :: pydict
  er_isolated_session_id :: "string option"
  er_error :: "pydict option"

definition outcome_of :: "exec_result \<Rightarrow> pydict option \<Rightarrow> run_outcome" where
  "outcome_of result err =
     \<lparr>ro_state = Run_finished, ro_summary = (if er_summary result = [] then None else Some (er_summary result)),
      ro_artifact_refs = er_artifact_refs result, ro_error = err, ro_output = Some (er_output result),
      ro_isolated_session_id = er_isolated_session_id result\<rparr>"

definition fence_rejected :: "string \<Rightarrow> string \<Rightarrow> string \<Rightarrow> int \<Rightarrow> cron_sys \<Rightarrow> cron_sys" where
  "fence_rejected run_id job_id daemon_id expected_attempts =
     emit_event ''cron.run.fence_rejected''
       [(''run_id'', PStr run_id), (''job_id'', PStr job_id), (''daemon_id'', PStr daemon_id),
        (''attempts'', PInt expected_attempts)]"

definition finish_outcome ::
  "cron_env \<Rightarrow> int \<Rightarrow> string \<Rightarrow> string \<Rightarrow> string \<Rightarrow> run_outcome \<Rightarrow> string \<Rightarrow> int \<Rightarrow> string sys_op" where
  "finish_outcome env clock run_id job_id state outcome daemon_id expected_attempts =
     st_bind (on_db (finish_cron_run env clock run_id state outcome (Some daemon_id) (Some expected_attempts) None)) (\<lambda>finished y.
       case finished of
         Some _ \<Rightarrow> (Inr state, y)
       | None \<Rightarrow> (Inr ''lease_lost'', fence_rejected run_id job_id daemon_id expected_attempts y))"

definition retry_outcome ::
  "cron_env \<Rightarrow> int \<Rightarrow> string \<Rightarrow> string \<Rightarrow> pydict \<Rightarrow> string \<Rightarrow> int \<Rightarrow> string sys_op" where
  "retry_outcome env clock run_id job_id err daemon_id expected_attempts =
     st_bind (on_db (retry_cron_run env clock run_id err (Some daemon_id) (Some expected_attempts) None)) (\<lambda>retried y.
       case retried of
         Some r \<Rightarrow>
           (Inr (run_state_text (cr_state r)),
            emit_event (if cr_state r = Run_queued then ''cron.run.retry_scheduled'' else ''cron.run.retry_exhausted'')
              [(''run_id'', PStr run_id), (''job_id'', PStr job_id), (''attempts'', PInt (cr_attempts r)),
               (''available_at'', opt_value (cr_available_at r)),
               (''error'', case cr_error r of None \<Rightarrow> PNone | Some d \<Rightarrow> PDict d)] y)
       | None \<Rightarrow> (Inr ''lease_lost'', fence_rejected run_id job_id daemon_id expected_attempts y))"

definition persist_cron_run_outcome ::
  "cron_env \<Rightarrow> int \<Rightarrow> string \<Rightarrow> string \<Rightarrow> string \<Rightarrow> exec_result \<Rightarrow> pydict option \<Rightarrow> string \<Rightarrow> int \<Rightarrow> string sys_op" where
  "persist_cron_run_outcome env clock run_id job_id state result err daemon_id expected_attempts =
     (let finish = finish_outcome env clock run_id job_id state (outcome_of result err) daemon_id expected_attempts in
      case err of
        Some e \<Rightarrow> if dict_get_or e ''retryable'' PNone = PBool True
                  then retry_outcome env clock run_id job_id e daemon_id expected_attempts else finish
      | None \<Rightarrow> finish)"

section \<open>Delivery\<close>

definition TASK_DELIVERY_ERROR_MESSAGE_LIMIT :: nat where
  "TASK_DELIVERY_ERROR_MESSAGE_LIMIT = 500"

text \<open>\<open>str(exc)\<close>; the texts of exceptions that carry no message of this code are not represented.\<close>

definition cron_error_text :: "cron_error \<Rightarrow> string" where
  "cron_error_text e =
     (case e of Cron_ValueError m \<Rightarrow> m | Cron_RuntimeError m \<Rightarrow> m | Cron_TaskControlError _ m \<Rightarrow> m
      | Cron_KeyError k \<Rightarrow> repr_str k | _ \<Rightarrow> [])"

definition delivery_mode :: "cron_job \<Rightarrow> string" where
  "delivery_mode job = opt_or (Some (str_strip (py_str (py_or (dict_get_or (cj_delivery job) ''mode'' (PStr ''none'')) (PStr ''none''))))) ''none''"

definition delivery_field :: "cron_job \<Rightarrow> string \<Rightarrow> string" where
  "delivery_field job k = str_strip (py_str (py_or (dict_get_or (cj_delivery job) k (PStr [])) (PStr [])))"

definition delivery_marker :: "cron_job \<Rightarrow> string" where
  "delivery_marker job = delivery_mode job @ '':'' @
     (if delivery_field job ''to'' \<noteq> [] then delivery_field job ''to'' else delivery_field job ''channel'')"

definition delivery_not_requested :: "cron_job \<Rightarrow> exec_result \<Rightarrow> bool" where
  "delivery_not_requested job result =
     (is_dict (dict_get_or (cj_payload job) ''_openminion_watch'' PNone) \<and>
        \<not> truthy (dict_get_or (er_output result) ''watch_delivery_requested'' (PBool False)) \<or>
      delivery_mode job = ''none'' \<or>
      delivery_mode job = ''webhook'' \<and> str_strip (er_summary result) = [])"

definition delivery_outcome :: "string \<Rightarrow> cron_job \<Rightarrow> string list \<Rightarrow> pydict" where
  "delivery_outcome state job targets =
     [(''state'', PStr state), (''mode'', PStr (delivery_mode job)), (''targets'', PList (map PStr targets))]"

definition delivery_failed :: "cron_job \<Rightarrow> cron_run \<Rightarrow> string \<Rightarrow> cron_sys \<Rightarrow> pydict \<times> cron_sys" where
  "delivery_failed job run message y =
     (let err = [(''code'', PStr ''cron_delivery_failed''), (''message'', PStr (take TASK_DELIVERY_ERROR_MESSAGE_LIMIT message))]
      in (delivery_outcome ''failed'' job [] @ [(''error'', PDict err)],
          emit_event ''cron.delivery.failed''
            [(''run_id'', PStr (cr_run_id run)), (''job_id'', PStr (cj_job_id job)), (''mode'', PStr (delivery_mode job)),
             (''target'', PStr (delivery_marker job)),
             (''best_effort'', PBool (truthy (dict_get_or (cj_delivery job) ''best_effort'' (PBool False)))),
             (''error'', PDict err)] y))"

text \<open>The exceptions that end the attempt before the store is asked.\<close>

definition no_handler_text :: "cron_job \<Rightarrow> string" where
  "no_handler_text job = ''delivery mode '' @ [char_of (39 :: nat)] @ delivery_mode job @ [char_of (39 :: nat)] @
     '' is configured but no delivery handler is installed''"

definition delivery_target_missing :: "cron_job \<Rightarrow> bool" where
  "delivery_target_missing job = (delivery_field job ''to'' = [] \<and> delivery_mode job \<in> {''announce'', ''webhook''})"

text \<open>The parts of a delivery: renewal of the lease, the mark, the handler. A part that ends the
  delivery returns its outcome.\<close>

definition delivery_event :: "cron_job \<Rightarrow> cron_run \<Rightarrow> pydict" where
  "delivery_event job run = [(''run_id'', PStr (cr_run_id run)), (''target'', PStr (delivery_marker job))]"

definition delivery_renew ::
  "cron_env \<Rightarrow> int \<Rightarrow> string \<Rightarrow> int \<Rightarrow> int \<Rightarrow> cron_job \<Rightarrow> cron_run \<Rightarrow> cron_sys \<Rightarrow> pydict option \<times> cron_sys" where
  "delivery_renew env clock daemon_id expected_attempts lease_ttl_seconds job run y =
     (case on_db (renew_cron_run_lease env clock (cr_run_id run) daemon_id expected_attempts lease_ttl_seconds None) y of
        (Inl e, y) \<Rightarrow> (let (d, y) = delivery_failed job run (cron_error_text e) y in (Some d, y))
      | (Inr True, y) \<Rightarrow> (None, y)
      | (Inr False, y) \<Rightarrow>
          (Some (delivery_outcome ''not_requested'' job []),
           emit_event ''cron.delivery.fence_rejected'' (delivery_event job run) y))"

definition delivery_mark ::
  "cron_env \<Rightarrow> int \<Rightarrow> string \<Rightarrow> int \<Rightarrow> cron_job \<Rightarrow> cron_run \<Rightarrow> cron_sys \<Rightarrow> pydict option \<times> cron_sys" where
  "delivery_mark env clock daemon_id expected_attempts job run y =
     (case on_db (mark_cron_delivery_target env clock (cr_run_id run) (delivery_marker job) (Some daemon_id) (Some expected_attempts)) y of
        (Inl e, y) \<Rightarrow> (let (d, y) = delivery_failed job run (cron_error_text e) y in (Some d, y))
      | (Inr True, y) \<Rightarrow> (None, y)
      | (Inr False, y) \<Rightarrow>
          (Some (delivery_outcome ''ambiguous'' job [delivery_marker job]),
           emit_event ''cron.delivery.ambiguous'' (delivery_event job run) y))"

type_synonym delivery_handler = "string \<Rightarrow> string \<Rightarrow> cron_job \<Rightarrow> cron_run \<Rightarrow> exec_result \<Rightarrow> string option"

definition delivery_send :: "delivery_handler \<Rightarrow> cron_job \<Rightarrow> cron_run \<Rightarrow> exec_result \<Rightarrow> cron_sys \<Rightarrow> pydict \<times> cron_sys" where
  "delivery_send handler job run result y =
     (let y = y\<lparr>cy_sent := cy_sent y @ [(cr_run_id run, delivery_marker job)]\<rparr>
      in case handler (delivery_mode job) (delivery_field job ''to'') job run result of
           Some message \<Rightarrow> delivery_failed job run message y
         | None \<Rightarrow>
             (delivery_outcome ''succeeded'' job [delivery_marker job],
              emit_event ''cron.delivery.succeeded''
                [(''run_id'', PStr (cr_run_id run)), (''job_id'', PStr (cj_job_id job)), (''mode'', PStr (delivery_mode job)),
                 (''target'', PStr (delivery_marker job))] y))"

definition deliver_cron_run ::
  "cron_env \<Rightarrow> (nat \<Rightarrow> int) \<Rightarrow> delivery_handler option \<Rightarrow> string \<Rightarrow> int \<Rightarrow> int \<Rightarrow> cron_job \<Rightarrow> cron_run \<Rightarrow> exec_result \<Rightarrow>
   cron_sys \<Rightarrow> pydict \<times> cron_sys" where
  "deliver_cron_run env clk handler daemon_id expected_attempts lease_ttl_seconds job run result y =
     (if delivery_not_requested job result then (delivery_outcome ''not_requested'' job [], y)
      else case handler of
        None \<Rightarrow> delivery_failed job run (no_handler_text job) y
      | Some h \<Rightarrow>
          if delivery_target_missing job then delivery_failed job run ''delivery target is required'' y
          else case delivery_renew env (clk 0) daemon_id expected_attempts lease_ttl_seconds job run y of
            (Some d, y) \<Rightarrow> (d, y)
          | (None, y) \<Rightarrow>
              (case delivery_mark env (clk 1) daemon_id expected_attempts job run y of
                 (Some d, y) \<Rightarrow> (d, y)
               | (None, y) \<Rightarrow> delivery_send h job run result y))"

end
