(* ===== verification/Cron_Scheduler.thy ===== *)
theory Cron_Scheduler
  imports Cron_Coordination
begin

text \<open>
  The scheduler of a daemon (\<open>services/cron/scheduler.py\<close>): results of executors, the work on one
  claimed run, the renewal of its lease, and one round of the scheduler's loop. Threads are not
  modelled: a worker is the sequence of its calls, and \<open>Cron_Workers\<close> interleaves the calls of
  several. Executors, the delivery handler, the admission probe, the cancellation hook and the
  recorder of task outcomes are parameters. Floating-point fields of events (lag, durations) are
  left out.
\<close>

section \<open>Results of executors\<close>

text \<open>What an executor does: it returns a value of some type, or raises.\<close>

datatype exec_value =
    Exec_none
  | Exec_result exec_result
  | Exec_str string
  | Exec_dict pydict
  | Exec_other string
  | Exec_timeout string
  | Exec_cron_error string string bool pydict
  | Exec_raises string

datatype worker_exn = Wx_timeout string | Wx_cron string string bool pydict | Wx_other string

definition empty_result :: exec_result where
  "empty_result = \<lparr>er_summary = [], er_artifact_refs = [], er_output = [], er_isolated_session_id = None, er_error = None\<rparr>"

definition result_of_dict :: "pydict \<Rightarrow> exec_result" where
  "result_of_dict value =
     (let summary = str_strip (py_str (py_or (dict_get_or value ''summary'' (PStr [])) (PStr [])))
      in \<lparr>er_summary = summary,
          er_artifact_refs = (case dict_get_or value ''artifact_refs'' (PList []) of PList xs \<Rightarrow> xs | _ \<Rightarrow> []),
          er_output = (case dict_get_or value ''output'' (PDict []) of PDict d \<Rightarrow> d | _ \<Rightarrow> []),
          er_isolated_session_id = (case dict_get_or value ''isolated_session_id'' PNone of
             PStr s \<Rightarrow> strip_or_none s | _ \<Rightarrow> None),
          er_error = (if truthy (dict_get_or value ''error'' PNone)
             then Some [(''code'', PStr ''cron_failed''),
                    (''message'', PStr (if summary \<noteq> [] then summary else ''cron executor reported failure'')),
                    (''retryable'', PBool False)]
             else None)\<rparr>)"

definition normalize_result :: "exec_value \<Rightarrow> worker_exn + exec_result" where
  "normalize_result v =
     (case v of
        Exec_none \<Rightarrow> Inr empty_result
      | Exec_result r \<Rightarrow> Inr r
      | Exec_str s \<Rightarrow> Inr (empty_result\<lparr>er_summary := s\<rparr>)
      | Exec_dict d \<Rightarrow> Inr (result_of_dict d)
      | Exec_other ty \<Rightarrow> Inl (Wx_other (''unsupported cron execution result type: '' @ ty))
      | Exec_timeout m \<Rightarrow> Inl (Wx_timeout m)
      | Exec_cron_error code m retryable details \<Rightarrow> Inl (Wx_cron code m retryable details)
      | Exec_raises m \<Rightarrow> Inl (Wx_other m))"

type_synonym cron_executor = "cron_job \<Rightarrow> cron_run \<Rightarrow> exec_value"

definition default_system_event_executor :: cron_executor where
  "default_system_event_executor job run = Exec_result (empty_result\<lparr>er_summary := text_field (cj_payload job) ''event_text''\<rparr>)"

definition missing_agent_turn_executor :: cron_executor where
  "missing_agent_turn_executor job run = Exec_raises ''agentTurn execution is not configured''"

section \<open>The scheduler\<close>

record cron_scheduler =
  sch_daemon_id :: string
  sch_daemon_component_id :: string
  sch_daemon_pid :: "int option"
  sch_lease_ttl_seconds :: int
  sch_max_concurrent_runs :: int
  sch_execute_system_event :: "cron_executor option"
  sch_execute_agent_turn :: "cron_executor option"
  sch_delivery_handler :: "delivery_handler option"
  sch_record_task_outcomes :: "(string option \<Rightarrow> int cron_result) option"
  sch_cancel_execution :: "(string \<Rightarrow> bool) option"
  sch_started :: bool
  sch_stopped :: bool
  sch_workers :: "string list"

text \<open>\<open>CronScheduler.__init__\<close>, for a daemon identifier drawn beforehand when none is given.\<close>

definition new_scheduler :: "string \<Rightarrow> string \<Rightarrow> int option \<Rightarrow> int \<Rightarrow> int \<Rightarrow> cron_scheduler" where
  "new_scheduler daemon_id component_id pid lease_ttl_seconds max_concurrent_runs =
     \<lparr>sch_daemon_id = str_strip daemon_id,
      sch_daemon_component_id = (let c = str_strip component_id in if c = [] then ''primary'' else c), sch_daemon_pid = pid,
      sch_lease_ttl_seconds = max 1 lease_ttl_seconds, sch_max_concurrent_runs = max 1 max_concurrent_runs,
      sch_execute_system_event = None, sch_execute_agent_turn = None, sch_delivery_handler = None,
      sch_record_task_outcomes = None, sch_cancel_execution = None, sch_started = False, sch_stopped = False, sch_workers = []\<rparr>"

text \<open>The payload that the event hook receives.\<close>

definition emit_payload :: "cron_scheduler \<Rightarrow> pydict \<Rightarrow> pydict" where
  "emit_payload sch payload =
     (let d = dict_setdefault (dict_setdefault payload ''daemon_id'' (PStr (sch_daemon_id sch)))
            ''daemon_component_id'' (PStr (sch_daemon_component_id sch))
      in case sch_daemon_pid sch of None \<Rightarrow> d | Some pid \<Rightarrow> dict_setdefault d ''daemon_pid'' (PInt pid))"

definition scheduler_start :: "cron_scheduler \<Rightarrow> cron_sys \<Rightarrow> cron_scheduler cron_result \<times> cron_sys" where
  "scheduler_start sch y =
     (if sch_stopped sch then (Inl (Cron_RuntimeError ''cron scheduler has been stopped''), y)
      else if sch_started sch then (Inr sch, y)
      else (Inr (sch\<lparr>sch_started := True\<rparr>),
            emit_event ''cron.scheduler.started'' [(''daemon_id'', PStr (sch_daemon_id sch))] y))"

definition scheduler_shutdown :: "cron_scheduler \<Rightarrow> cron_sys \<Rightarrow> cron_scheduler \<times> cron_sys" where
  "scheduler_shutdown sch y =
     (if sch_stopped sch then (sch, y)
      else (sch\<lparr>sch_stopped := True\<rparr>, emit_event ''cron.scheduler.stopped'' [(''daemon_id'', PStr (sch_daemon_id sch))] y))"

definition scheduler_status :: "cron_scheduler \<Rightarrow> pydict" where
  "scheduler_status sch =
     [(''daemon_id'', PStr (sch_daemon_id sch)), (''daemon_component_id'', PStr (sch_daemon_component_id sch)),
      (''daemon_pid'', case sch_daemon_pid sch of None \<Rightarrow> PNone | Some p \<Rightarrow> PInt p), (''started'', PBool (sch_started sch)),
      (''stopped'', PBool (sch_stopped sch)), (''active_runs'', PInt (int (length (sch_workers sch)))),
      (''active_run_ids'', PList (map PStr (sort (sch_workers sch)))),
      (''max_concurrent_runs'', PInt (sch_max_concurrent_runs sch)), (''lease_ttl_seconds'', PInt (sch_lease_ttl_seconds sch))]"

section \<open>The work on a claimed run\<close>

definition claimed_job :: "cron_run \<Rightarrow> cron_store \<Rightarrow> worker_exn + cron_job" where
  "claimed_job run s =
     (let job_id = str_strip (py_str (opt_value (cr_job_id run))) in
      if job_id = [] then Inl (Wx_other ''cron run missing job_id'')
      else case get_cron_job job_id s of
        Inl e \<Rightarrow> Inl (Wx_other (cron_error_text e))
      | Inr None \<Rightarrow> Inl (Wx_other (''cron job not found: '' @ job_id))
      | Inr (Some job) \<Rightarrow> Inr job)"

definition run_executor :: "cron_scheduler \<Rightarrow> cron_job \<Rightarrow> cron_run \<Rightarrow> worker_exn + exec_result" where
  "run_executor sch job run =
     (let kind = text_field (cj_payload job) ''kind'';
          system_event = (case sch_execute_system_event sch of Some f \<Rightarrow> f | None \<Rightarrow> default_system_event_executor);
          agent_turn = (case sch_execute_agent_turn sch of Some f \<Rightarrow> f | None \<Rightarrow> missing_agent_turn_executor)
      in if kind = ''systemEvent'' then normalize_result (system_event job run)
         else if kind \<in> {''agentTurn'', ''agentIdleTick'', ''projectCycle''}
         then rbind (normalize_result (agent_turn job run)) (\<lambda>result.
                Inr (if str_strip (opt_or (er_isolated_session_id result) []) = []
                  then result\<lparr>er_isolated_session_id := Some (''cron:'' @ cj_job_id job @ '':'' @ cr_run_id run)\<rparr> else result))
         else Inl (Wx_other (''unsupported cron payload kind: '' @ kind)))"

definition with_delivery :: "exec_result \<Rightarrow> pydict \<Rightarrow> exec_result" where
  "with_delivery result delivery =
     result\<lparr>er_output := dict_set (er_output result) ''delivery'' (PDict delivery), er_error := None\<rparr>"

definition execute_claimed_run ::
  "cron_env \<Rightarrow> (nat \<Rightarrow> int) \<Rightarrow> cron_scheduler \<Rightarrow> cron_run \<Rightarrow> cron_sys \<Rightarrow> (worker_exn + cron_job \<times> exec_result) \<times> cron_sys" where
  "execute_claimed_run env clk sch run y =
     (case rbind (claimed_job run (cy_db y)) (\<lambda>job. rbind (run_executor sch job run) (\<lambda>result. Inr (job, result))) of
        Inl e \<Rightarrow> (Inl e, y)
      | Inr (job, result) \<Rightarrow>
          if er_error result \<noteq> None then (Inr (job, result), y)
          else let (d, y) = deliver_cron_run env clk (sch_delivery_handler sch) (sch_daemon_id sch) (cr_attempts run)
                     (sch_lease_ttl_seconds sch) job run result y
               in (Inr (job, with_delivery result d), y))"

text \<open>State, error, result and job that the worker stores.\<close>

definition worker_outcome ::
  "worker_exn + cron_job \<times> exec_result \<Rightarrow> string \<times> pydict option \<times> exec_result \<times> cron_job option" where
  "worker_outcome x =
     (case x of
        Inr (job, result) \<Rightarrow>
          (case er_error result of
             Some e \<Rightarrow> (''failed'', Some e, result, Some job)
           | None \<Rightarrow> (''finished'', None, result, Some job))
      | Inl (Wx_timeout m) \<Rightarrow>
          (''timed_out'', Some [(''code'', PStr ''cron_timeout''), (''message'', PStr m), (''retryable'', PBool False)], empty_result, None)
      | Inl (Wx_cron code m retryable details) \<Rightarrow>
          (''failed'', Some [(''code'', PStr code), (''message'', PStr m), (''retryable'', PBool retryable),
             (''details'', PDict details)], empty_result, None)
      | Inl (Wx_other m) \<Rightarrow>
          (''failed'', Some [(''code'', PStr ''cron_failed''), (''message'', PStr m), (''retryable'', PBool False)], empty_result, None))"

definition record_task_outcome :: "cron_scheduler \<Rightarrow> string option \<Rightarrow> unit sys_op" where
  "record_task_outcome sch job_id y =
     (case sch_record_task_outcomes sch of
        None \<Rightarrow> (Inr (), y)
      | Some record_outcomes \<Rightarrow>
          (case record_outcomes job_id of
             Inl e \<Rightarrow> (Inl e, y)
           | Inr n \<Rightarrow> (Inr (), if n > 0
               then emit_event ''cron.task_outcomes.reconciled'' [(''job_id'', opt_value job_id), (''count'', PInt n)] y else y)))"

definition disable_terminal_watch :: "cron_env \<Rightarrow> int \<Rightarrow> cron_job option \<Rightarrow> exec_result \<Rightarrow> cron_sys \<Rightarrow> cron_sys" where
  "disable_terminal_watch env clock job result y =
     (case job of
        None \<Rightarrow> y
      | Some j \<Rightarrow>
          let job_id = str_strip (cj_job_id j) in
          if \<not> truthy (dict_get_or (er_output result) ''watch_terminal'' (PBool False)) \<or> job_id = [] then y
          else case on_db (set_cron_job_enabled env clock job_id False False None) y of
            (Inr _, y) \<Rightarrow> y
          | (Inl e, y) \<Rightarrow> emit_event ''cron.watch.disable_error''
              [(''job_id'', PStr job_id), (''error'', PStr (cron_error_text e))] y)"

definition terminal_texts :: "string set" where
  "terminal_texts = {''finished'', ''failed'', ''cancelled'', ''timed_out''}"

text \<open>The end of a worker: \<open>clk 0\<close> is read when the outcome is stored, \<open>clk 1\<close> when a watch is
  disabled.\<close>

definition worker_settle ::
  "cron_env \<Rightarrow> (nat \<Rightarrow> int) \<Rightarrow> cron_scheduler \<Rightarrow> cron_run \<Rightarrow> worker_exn + cron_job \<times> exec_result \<Rightarrow> cron_sys \<Rightarrow> cron_sys" where
  "worker_settle env clk sch run x y =
     (let (state, err, result, job) = worker_outcome x;
          run_id = str_strip (cr_run_id run); job_id = str_strip (py_str (opt_value (cr_job_id run)));
          (persisted, y) = persist_cron_run_outcome env (clk 0) run_id job_id state result err (sch_daemon_id sch) (cr_attempts run) y;
          persisted_state = (case persisted of Inl _ \<Rightarrow> state | Inr st \<Rightarrow> st);
          (res, y) = (case persisted of
             Inl e \<Rightarrow> (Inl e, y)
           | Inr st \<Rightarrow> if st \<in> terminal_texts
               then record_task_outcome sch (Some job_id) (disable_terminal_watch env (clk 1) job result y) else (Inr (), y));
          y = (case res of
             Inl e \<Rightarrow> emit_event ''cron.run.finish_error'' [(''run_id'', PStr run_id), (''error'', PStr (cron_error_text e))] y
           | Inr _ \<Rightarrow> y)
      in if persisted_state \<in> terminal_texts
         then emit_event ''cron.run.finished''
                [(''run_id'', PStr run_id), (''job_id'', PStr job_id), (''state'', PStr persisted_state),
                 (''summary'', PStr (er_summary result)), (''error'', case err of None \<Rightarrow> PNone | Some e \<Rightarrow> PDict e)] y
         else y)"

definition worker_main ::
  "cron_env \<Rightarrow> (nat \<Rightarrow> int) \<Rightarrow> cron_scheduler \<Rightarrow> cron_run \<Rightarrow> cron_sys \<Rightarrow> cron_sys" where
  "worker_main env clk sch run y =
     (let (x, y) = execute_claimed_run env clk sch run y in worker_settle env (\<lambda>i. clk (2 + i)) sch run x y)"

section \<open>Renewal and rounds\<close>

definition cancel_claimed_execution :: "cron_scheduler \<Rightarrow> string \<Rightarrow> cron_sys \<Rightarrow> cron_sys" where
  "cancel_claimed_execution sch run_id y =
     (case sch_cancel_execution sch of
        None \<Rightarrow> y
      | Some cancel \<Rightarrow> emit_event ''cron.run.cancel_requested''
          [(''run_id'', PStr run_id), (''accepted'', PBool (cancel run_id))] y)"

text \<open>One round of the renewer; the result says whether it goes on.\<close>

definition lease_renewer_round :: "cron_env \<Rightarrow> int \<Rightarrow> cron_scheduler \<Rightarrow> string \<Rightarrow> int \<Rightarrow> cron_sys \<Rightarrow> bool \<times> cron_sys" where
  "lease_renewer_round env clock sch run_id expected_attempts y =
     (case on_db (renew_cron_run_lease env clock run_id (sch_daemon_id sch) expected_attempts (sch_lease_ttl_seconds sch) None) y of
        (Inl e, y) \<Rightarrow>
          (False, cancel_claimed_execution sch run_id
             (emit_event ''cron.lease.error'' [(''run_id'', PStr run_id), (''error'', PStr (cron_error_text e))] y))
      | (Inr True, y) \<Rightarrow> (True, y)
      | (Inr False, y) \<Rightarrow>
          (False, cancel_claimed_execution sch run_id
             (emit_event ''cron.lease.lost'' [(''run_id'', PStr run_id), (''daemon_id'', PStr (sch_daemon_id sch))] y)))"

definition reap_workers :: "(string \<Rightarrow> bool) \<Rightarrow> cron_scheduler \<Rightarrow> cron_scheduler" where
  "reap_workers alive sch = sch\<lparr>sch_workers := filter alive (sch_workers sch)\<rparr>"

definition start_worker :: "cron_run \<Rightarrow> cron_scheduler \<times> cron_sys \<Rightarrow> cron_scheduler \<times> cron_sys" where
  "start_worker run w =
     (let (sch, y) = w; run_id = str_strip (cr_run_id run) in
      if run_id = [] \<or> run_id \<in> set (sch_workers sch) then (sch, y)
      else (sch\<lparr>sch_workers := sch_workers sch @ [run_id]\<rparr>,
            emit_event ''cron.run.started'' [(''run_id'', PStr run_id), (''job_id'', opt_value (cr_job_id run)),
              (''daemon_id'', PStr (sch_daemon_id sch))] y))"

definition scheduler_round ::
  "cron_env \<Rightarrow> (nat \<Rightarrow> int) \<Rightarrow> bool \<Rightarrow> (string \<Rightarrow> bool) \<Rightarrow> cron_scheduler \<Rightarrow> cron_sys \<Rightarrow> cron_scheduler \<times> cron_sys" where
  "scheduler_round env clk can_start alive sch y =
     (let sch = reap_workers alive sch;
          capacity = max 0 (sch_max_concurrent_runs sch - int (length (sch_workers sch)));
          (acquired, y) = (if capacity > 0
             then recover_and_acquire_cron_runs env clk (sch_daemon_id sch) (sch_lease_ttl_seconds sch) capacity can_start y
             else (Inr [], y));
          (sch, y) = (case acquired of
             Inl e \<Rightarrow> (sch, emit_event ''cron.scheduler.error''
                [(''error'', PStr (cron_error_text e)), (''stage'', PStr ''run_acquisition'')] y)
           | Inr runs \<Rightarrow>
               (let (sch, y) = fold start_worker runs (sch, y)
                in case record_task_outcome sch None y of
                     (Inr _, y) \<Rightarrow> (sch, y)
                   | (Inl e, y) \<Rightarrow> (sch, emit_event ''cron.scheduler.error''
                        [(''error'', PStr (cron_error_text e)), (''stage'', PStr ''task_outcomes'')] y)))
      in (sch, emit_event ''cron.scheduler.heartbeat'' [(''active_runs'', PInt (int (length (sch_workers sch))))] y))"

end
