(* ===== verification/Cron_Workers.thy ===== *)
theory Cron_Workers
  imports Cron_Calls Cron_Scheduler
begin

text \<open>
  Several daemons on one store: the calls of their workers interleave with each other and with
  every other call of the store, and a worker may vanish at any point with its daemon. A worker's
  calls are those of \<open>worker_main\<close>, cut where it asks the store: it looks the job up and runs the
  executor, renews the lease, marks the target, calls the delivery handler, and stores the
  outcome.
\<close>

section \<open>Workers\<close>

datatype worker_phase =
    Wp_claimed
  | Wp_renew cron_job exec_result
  | Wp_mark cron_job exec_result
  | Wp_send cron_job exec_result
  | Wp_settle "worker_exn + cron_job \<times> exec_result"

record cron_worker =
  cw_run :: cron_run
  cw_phase :: worker_phase

definition after_delivery :: "cron_job \<Rightarrow> exec_result \<Rightarrow> pydict \<times> cron_sys \<Rightarrow> worker_phase \<times> cron_sys" where
  "after_delivery job result dy = (case dy of (d, y) \<Rightarrow> (Wp_settle (Inr (job, with_delivery result d)), y))"

definition phase_claimed :: "cron_scheduler \<Rightarrow> cron_run \<Rightarrow> cron_sys \<Rightarrow> worker_phase \<times> cron_sys" where
  "phase_claimed sch run y =
     (case rbind (claimed_job run (cy_db y)) (\<lambda>job. rbind (run_executor sch job run) (\<lambda>result. Inr (job, result))) of
        Inl e \<Rightarrow> (Wp_settle (Inl e), y)
      | Inr (job, result) \<Rightarrow>
          if er_error result \<noteq> None then (Wp_settle (Inr (job, result)), y)
          else if delivery_not_requested job result
          then after_delivery job result (delivery_outcome ''not_requested'' job [], y)
          else if sch_delivery_handler sch = None then after_delivery job result (delivery_failed job run (no_handler_text job) y)
          else if delivery_target_missing job
          then after_delivery job result (delivery_failed job run ''delivery target is required'' y)
          else (Wp_renew job result, y))"

definition phase_renew ::
  "cron_env \<Rightarrow> int \<Rightarrow> cron_scheduler \<Rightarrow> cron_run \<Rightarrow> cron_job \<Rightarrow> exec_result \<Rightarrow> cron_sys \<Rightarrow> worker_phase \<times> cron_sys" where
  "phase_renew env clock sch run job result y =
     (case delivery_renew env clock (sch_daemon_id sch) (cr_attempts run) (sch_lease_ttl_seconds sch) job run y of
        (Some d, y) \<Rightarrow> after_delivery job result (d, y)
      | (None, y) \<Rightarrow> (Wp_mark job result, y))"

definition phase_mark ::
  "cron_env \<Rightarrow> int \<Rightarrow> cron_scheduler \<Rightarrow> cron_run \<Rightarrow> cron_job \<Rightarrow> exec_result \<Rightarrow> cron_sys \<Rightarrow> worker_phase \<times> cron_sys" where
  "phase_mark env clock sch run job result y =
     (case delivery_mark env clock (sch_daemon_id sch) (cr_attempts run) job run y of
        (Some d, y) \<Rightarrow> after_delivery job result (d, y)
      | (None, y) \<Rightarrow> (Wp_send job result, y))"

text \<open>The next phase of a worker, \<open>None\<close> when it is through.\<close>

fun worker_phase_step ::
  "cron_env \<Rightarrow> (nat \<Rightarrow> int) \<Rightarrow> cron_scheduler \<Rightarrow> cron_run \<Rightarrow> worker_phase \<Rightarrow> cron_sys \<Rightarrow> worker_phase option \<times> cron_sys" where
  "worker_phase_step env clk sch run Wp_claimed y = (case phase_claimed sch run y of (p, y) \<Rightarrow> (Some p, y))"
| "worker_phase_step env clk sch run (Wp_renew job result) y =
     (case phase_renew env (clk 0) sch run job result y of (p, y) \<Rightarrow> (Some p, y))"
| "worker_phase_step env clk sch run (Wp_mark job result) y =
     (case phase_mark env (clk 0) sch run job result y of (p, y) \<Rightarrow> (Some p, y))"
| "worker_phase_step env clk sch run (Wp_send job result) y =
     (case sch_delivery_handler sch of
        None \<Rightarrow> (None, y)
      | Some h \<Rightarrow> (case after_delivery job result (delivery_send h job run result y) of (p, y) \<Rightarrow> (Some p, y)))"
| "worker_phase_step env clk sch run (Wp_settle x) y = (None, worker_settle env clk sch run x y)"

section \<open>Interleaving\<close>

record cron_world =
  wd_sys :: cron_sys
  wd_workers :: "cron_worker list"

definition empty_world :: "cron_store \<Rightarrow> cron_world" where
  "empty_world s = \<lparr>wd_sys = \<lparr>cy_db = s, cy_events = [], cy_sent = []\<rparr>, wd_workers = []\<rparr>"

inductive world_step :: "cron_env \<Rightarrow> cron_world \<Rightarrow> cron_world \<Rightarrow> bool" for env where
  world_call: "cron_call env True (cy_db y) s \<Longrightarrow>
    world_step env \<lparr>wd_sys = y, wd_workers = ws\<rparr> \<lparr>wd_sys = y\<lparr>cy_db := s\<rparr>, wd_workers = ws\<rparr>"
| world_claim: "acquire_cron_runs env clock daemon_id ttl limit now_iso (cy_db y) = (Inr runs, s) \<Longrightarrow>
    world_step env \<lparr>wd_sys = y, wd_workers = ws\<rparr>
      \<lparr>wd_sys = y\<lparr>cy_db := s\<rparr>, wd_workers = ws @ map (\<lambda>r. \<lparr>cw_run = r, cw_phase = Wp_claimed\<rparr>) runs\<rparr>"
| world_phase: "worker_phase_step env clk sch (cw_run w) (cw_phase w) y = (Some p, y') \<Longrightarrow>
    world_step env \<lparr>wd_sys = y, wd_workers = ws @ w # vs\<rparr> \<lparr>wd_sys = y', wd_workers = ws @ w\<lparr>cw_phase := p\<rparr> # vs\<rparr>"
| world_end: "worker_phase_step env clk sch (cw_run w) (cw_phase w) y = (None, y') \<Longrightarrow>
    world_step env \<lparr>wd_sys = y, wd_workers = ws @ w # vs\<rparr> \<lparr>wd_sys = y', wd_workers = ws @ vs\<rparr>"
| world_crash: "world_step env \<lparr>wd_sys = y, wd_workers = ws @ w # vs\<rparr> \<lparr>wd_sys = y, wd_workers = ws @ vs\<rparr>"

section \<open>A worker on its own is \<open>worker_main\<close>\<close>

text \<open>Running the phases to the end, each with its clock readings.\<close>

fun run_phases ::
  "nat \<Rightarrow> cron_env \<Rightarrow> (nat \<Rightarrow> nat \<Rightarrow> int) \<Rightarrow> cron_scheduler \<Rightarrow> cron_run \<Rightarrow> worker_phase \<Rightarrow> cron_sys \<Rightarrow> cron_sys option" where
  "run_phases 0 env clks sch run p y = None"
| "run_phases (Suc n) env clks sch run p y =
     (let k = (case p of Wp_renew _ _ \<Rightarrow> 0 | Wp_mark _ _ \<Rightarrow> 1 | _ \<Rightarrow> 2) in
      case worker_phase_step env (clks k) sch run p y of
        (None, y) \<Rightarrow> Some y
      | (Some p, y) \<Rightarrow> run_phases n env clks sch run p y)"

text \<open>A worker whose steps nobody interrupts behaves as \<open>worker_main\<close>: it is through after at
  most five steps, with the same store, events and deliveries.\<close>

lemma run_phases_main:
  "run_phases 5 env (\<lambda>k i. clk (k + i)) sch run Wp_claimed y = Some (worker_main env clk sch run y)"
  by (auto simp: numeral_eq_Suc phase_claimed_def phase_renew_def phase_mark_def after_delivery_def worker_main_def
      execute_claimed_run_def deliver_cron_run_def Let_def split: sum.splits prod.splits option.splits)

section \<open>Workers call the store\<close>

lemma emit_event_fields [simp]: "cy_db (emit_event e p y) = cy_db y" "cy_sent (emit_event e p y) = cy_sent y"
  by (simp_all add: emit_event_def)

lemma delivery_failed_fields: "delivery_failed job run m y = (d, y') \<Longrightarrow> cy_db y' = cy_db y \<and> cy_sent y' = cy_sent y"
  by (auto simp: delivery_failed_def Let_def)

abbreviation fenced_calls :: "cron_env \<Rightarrow> cron_store \<Rightarrow> cron_store \<Rightarrow> bool" where
  "fenced_calls env \<equiv> reach (cron_call env True)"

lemma one_call: "cron_call env True s t \<Longrightarrow> fenced_calls env s t"
  by (rule reach_step [OF reach_refl])

lemma on_db_result:
  assumes "on_db m y = (x, y')"
  shows "m (cy_db y) = (x, cy_db y')" "cy_sent y' = cy_sent y"
  using assms by (auto simp: on_db_def split: prod.splits)

lemma renew_fields:
  assumes "delivery_renew env clock d n ttl job run y = (x, y')"
  shows "fenced_calls env (cy_db y) (cy_db y')" "cy_sent y' = cy_sent y"
proof -
  obtain z u where u: "on_db (renew_cron_run_lease env clock (cr_run_id run) d n ttl None) y = (z, u)" by fastforce
  have "cy_db y' = cy_db u \<and> cy_sent y' = cy_sent u"
    using assms u by (auto simp: delivery_renew_def Let_def split: sum.splits bool.splits prod.splits dest: delivery_failed_fields)
  with on_db_result [OF u] show "fenced_calls env (cy_db y) (cy_db y')" "cy_sent y' = cy_sent y"
    by (auto intro: one_call call_renew)
qed

lemma mark_fields:
  assumes "delivery_mark env clock d n job run y = (x, y')"
  shows "fenced_calls env (cy_db y) (cy_db y')" "cy_sent y' = cy_sent y"
    and "x = None \<Longrightarrow>
      mark_cron_delivery_target env clock (cr_run_id run) (delivery_marker job) (Some d) (Some n) (cy_db y) = (Inr True, cy_db y')"
proof -
  obtain z u where u: "on_db (mark_cron_delivery_target env clock (cr_run_id run) (delivery_marker job) (Some d) (Some n)) y = (z, u)"
    by fastforce
  have "cy_db y' = cy_db u \<and> cy_sent y' = cy_sent u \<and> (x = None \<longrightarrow> z = Inr True)"
    using assms u by (auto simp: delivery_mark_def Let_def split: sum.splits bool.splits prod.splits dest: delivery_failed_fields)
  with on_db_result [OF u] show "fenced_calls env (cy_db y) (cy_db y')" "cy_sent y' = cy_sent y"
    "x = None \<Longrightarrow>
      mark_cron_delivery_target env clock (cr_run_id run) (delivery_marker job) (Some d) (Some n) (cy_db y) = (Inr True, cy_db y')"
    by (auto intro: one_call call_mark)
qed

lemma send_fields:
  "delivery_send h job run result y = (d, y') \<Longrightarrow>
     cy_db y' = cy_db y \<and> cy_sent y' = cy_sent y @ [(cr_run_id run, delivery_marker job)]"
  by (auto simp: delivery_send_def Let_def split: option.splits dest!: delivery_failed_fields)

lemma finish_outcome_fields:
  assumes "finish_outcome env clock i j st out d n y = (x, y')"
  shows "fenced_calls env (cy_db y) (cy_db y')" "cy_sent y' = cy_sent y"
proof -
  obtain z u where u: "on_db (finish_cron_run env clock i st out (Some d) (Some n) None) y = (z, u)" by fastforce
  have "cy_db y' = cy_db u \<and> cy_sent y' = cy_sent u"
    using assms u by (auto simp: finish_outcome_def st_bind_def fence_rejected_def split: sum.splits option.splits)
  with on_db_result [OF u] show "fenced_calls env (cy_db y) (cy_db y')" "cy_sent y' = cy_sent y"
    by (auto intro: one_call call_finish)
qed

lemma retry_outcome_fields:
  assumes "retry_outcome env clock i j err d n y = (x, y')"
  shows "fenced_calls env (cy_db y) (cy_db y')" "cy_sent y' = cy_sent y"
proof -
  obtain z u where u: "on_db (retry_cron_run env clock i err (Some d) (Some n) None) y = (z, u)" by fastforce
  have "cy_db y' = cy_db u \<and> cy_sent y' = cy_sent u"
    using assms u by (auto simp: retry_outcome_def st_bind_def fence_rejected_def split: sum.splits option.splits)
  with on_db_result [OF u] show "fenced_calls env (cy_db y) (cy_db y')" "cy_sent y' = cy_sent y"
    by (auto intro: one_call call_retry)
qed

lemma persist_fields:
  assumes "persist_cron_run_outcome env clock i j st result err d n y = (x, y')"
  shows "fenced_calls env (cy_db y) (cy_db y')" "cy_sent y' = cy_sent y"
  using assms
  by (auto simp: persist_cron_run_outcome_def Let_def split: option.splits if_splits
      dest: finish_outcome_fields retry_outcome_fields)

lemma disable_watch_fields:
  "fenced_calls env (cy_db y) (cy_db (disable_terminal_watch env clock job result y))"
  "cy_sent (disable_terminal_watch env clock job result y) = cy_sent y"
  by (auto simp: disable_terminal_watch_def Let_def split: option.splits sum.splits prod.splits
      dest: on_db_result intro: reach_refl one_call call_enable)

lemma record_fields: "record_task_outcome sch j y = (x, y') \<Longrightarrow> cy_db y' = cy_db y \<and> cy_sent y' = cy_sent y"
  by (auto simp: record_task_outcome_def split: option.splits sum.splits if_splits)

lemma settle_fields:
  "fenced_calls env (cy_db y) (cy_db (worker_settle env clk sch run x y))"
  "cy_sent (worker_settle env clk sch run x y) = cy_sent y"
proof -
  obtain st err result job where o: "worker_outcome x = (st, err, result, job)" by (metis prod_cases4)
  let ?i = "str_strip (cr_run_id run)" and ?j = "str_strip (py_str (opt_value (cr_job_id run)))"
  obtain z u where u: "persist_cron_run_outcome env (clk 0) ?i ?j st result err (sch_daemon_id sch) (cr_attempts run) y = (z, u)"
    by fastforce
  let ?v = "disable_terminal_watch env (clk 1) job result u"
  have "cy_db (worker_settle env clk sch run x y) \<in> {cy_db u, cy_db ?v} \<and>
    cy_sent (worker_settle env clk sch run x y) = cy_sent u"
    using o u by (auto simp: worker_settle_def Let_def disable_watch_fields split: sum.splits prod.splits dest: record_fields)
  with persist_fields [OF u] disable_watch_fields(1) [of env u "clk 1" job result]
  show "fenced_calls env (cy_db y) (cy_db (worker_settle env clk sch run x y))"
    "cy_sent (worker_settle env clk sch run x y) = cy_sent y"
    by (auto intro: reach_trans)
qed

section \<open>Marks and deliveries\<close>

lemma drawn_stripped: "uuids_ok env \<Longrightarrow> id_drawn env s i \<Longrightarrow> str_strip i = i"
  by (auto simp: uuids_ok_def id_drawn_def)

lemma delivery_mode_ends: "delivery_mode job \<noteq> []" "\<not> is_space (hd (delivery_mode job))"
proof -
  let ?m = "str_strip (py_str (py_or (dict_get_or (cj_delivery job) ''mode'' (PStr ''none'')) (PStr ''none'')))"
  have "delivery_mode job = (if ?m \<noteq> [] then ?m else ''none'')" by (simp add: delivery_mode_def opt_or_def)
  then show "delivery_mode job \<noteq> []" "\<not> is_space (hd (delivery_mode job))"
    using str_strip_ends(1) [of "py_str (py_or (dict_get_or (cj_delivery job) ''mode'' (PStr ''none'')) (PStr ''none''))"]
    by (auto simp: is_space_def)
qed

lemma marker_stripped: "str_strip (delivery_marker job) = delivery_marker job"
proof (rule str_strip_id)
  show "delivery_marker job \<noteq> []" by (simp add: delivery_marker_def)
  show "\<not> is_space (hd (delivery_marker job))" using delivery_mode_ends [of job] by (simp add: delivery_marker_def)
  have "\<not> is_space (last (CHR '':'' # delivery_field job k))" for k
  proof (cases "delivery_field job k = []")
    case False
    then show ?thesis unfolding delivery_field_def by (simp add: str_strip_ends)
  qed (simp add: is_space_def)
  from this [of "''to''"] this [of "''channel''"] show "\<not> is_space (last (delivery_marker job))"
    by (auto simp: delivery_marker_def split: if_splits)
qed

text \<open>A mark is set on a run that did not have it.\<close>

lemma mark_sets:
  assumes "mark_cron_delivery_target env clock i m (Some d) (Some n) s = (Inr True, t)" "cron_inv env s"
    "str_strip i = i" "str_strip m = m"
  obtains r r' where "find_cron_run i s = Some r" "m \<notin> set (cr_delivery_targets r)"
    "find_cron_run i t = Some r'" "m \<in> set (cr_delivery_targets r')"
proof -
  let ?f = "Some (str_strip d, n)"
  obtain r where r: "fenced_run ?f i s = Some r" "m \<notin> set (cr_delivery_targets r)"
    and t: "t = update_cron_runs (\<lambda>r. cr_run_id r = i \<and> fence_matches ?f r)
      (\<lambda>q. q\<lparr>cr_delivery_targets := cr_delivery_targets r @ [m], cr_updated_at := to_iso_utc env clock\<rparr>) s"
    using assms(1,3,4)
    by (auto simp: mark_cron_delivery_target_def delivery_update_def Let_def fence_args_def elim!: with_resultE
        split: option.splits if_splits)
  note found = fenced_run_Some [OF assms(2) r(1)]
  have "cr_run_id r = i" using found(1) by (auto simp: find_cron_run_def dest: sql_get_Some)
  with found have "find_cron_run i t = Some (r\<lparr>cr_delivery_targets := cr_delivery_targets r @ [m], cr_updated_at := to_iso_utc env clock\<rparr>)"
    by (simp add: t find_run_updated)
  then show thesis using found(1) r(2) by (auto intro!: that)
qed

section \<open>The invariant of the interleaving\<close>

definition send_pending :: "cron_worker \<Rightarrow> (string \<times> string) list" where
  "send_pending w = (case cw_phase w of Wp_send job _ \<Rightarrow> [(cr_run_id (cw_run w), delivery_marker job)] | _ \<Rightarrow> [])"

definition marked :: "cron_env \<Rightarrow> cron_store \<Rightarrow> string \<times> string \<Rightarrow> bool" where
  "marked env s p = (case p of (i, m) \<Rightarrow>
     id_drawn env s i \<and> (\<forall>r. find_cron_run i s = Some r \<longrightarrow> m \<in> set (cr_delivery_targets r)))"

definition world_inv :: "cron_env \<Rightarrow> cron_world \<Rightarrow> bool" where
  "world_inv env w =
     (let s = cy_db (wd_sys w); all = cy_sent (wd_sys w) @ concat (map send_pending (wd_workers w))
      in cron_inv env s \<and> distinct all \<and> (\<forall>p\<in>set all. marked env s p) \<and>
         (\<forall>v\<in>set (wd_workers w). id_drawn env s (cr_run_id (cw_run v))))"

lemma calls_kept:
  assumes "fenced_calls env s t" "cron_inv env s"
  shows "cron_inv env t" "id_drawn env s i \<Longrightarrow> id_drawn env t i" "marked env s p \<Longrightarrow> marked env t p"
proof -
  have steps: "cron_steps env True s t" by (rule calls.calls_steps [OF assms])
  show "cron_inv env t" by (rule calls.calls_inv [OF assms])
  show drawn: "id_drawn env s i \<Longrightarrow> id_drawn env t i" for i using reach_uuids [OF steps] by (rule id_drawn_mono [rotated])
  show "marked env t p" if "marked env s p"
  proof (cases p)
    case (Pair i m)
    with that have i: "id_drawn env s i" by (simp add: marked_def)
    have "m \<in> set (cr_delivery_targets r')" if "find_cron_run i t = Some r'" for r'
    proof -
      from reach_find [OF steps assms(2) that i] obtain r where "find_cron_run i s = Some r" "run_later True r r'" by blast
      with \<open>marked env s p\<close> Pair show ?thesis by (auto simp: marked_def run_later_def)
    qed
    with Pair drawn [OF i] show ?thesis by (simp add: marked_def)
  qed
qed

text \<open>A step that calls the store and sends nothing.\<close>

lemma world_inv_calls:
  assumes "world_inv env \<lparr>wd_sys = y, wd_workers = ws\<rparr>" "fenced_calls env (cy_db y) (cy_db y')" "cy_sent y' = cy_sent y"
    and pend: "concat (map send_pending vs) = concat (map send_pending ws)"
    and runs: "\<And>v. v \<in> set vs \<Longrightarrow> id_drawn env (cy_db y') (cr_run_id (cw_run v))"
  shows "world_inv env \<lparr>wd_sys = y', wd_workers = vs\<rparr>"
  using assms(1,3) calls_kept [OF assms(2)] pend runs by (auto simp: world_inv_def Let_def)

section \<open>Every step keeps the invariant\<close>

lemma no_send_phases:
  "after_delivery job result dy = (p, y') \<Longrightarrow> send_pending (w\<lparr>cw_phase := p\<rparr>) = [] \<and> y' = snd dy"
  by (auto simp: after_delivery_def send_pending_def split: prod.splits)

lemma phase_claimed_fields:
  assumes "phase_claimed sch run y = (p, y')"
  shows "cy_db y' = cy_db y \<and> cy_sent y' = cy_sent y \<and> send_pending (w\<lparr>cw_phase := p\<rparr>) = []"
  using assms unfolding phase_claimed_def
  by (auto simp: after_delivery_def delivery_failed_def Let_def send_pending_def split: sum.splits prod.splits if_splits)

lemma world_inv_move:
  assumes inv: "world_inv env \<lparr>wd_sys = y, wd_workers = ws @ w # vs\<rparr>"
    and calls: "fenced_calls env (cy_db y) (cy_db y')" and sent: "cy_sent y' = cy_sent y"
    and pend: "send_pending w = []" "send_pending (w\<lparr>cw_phase := p\<rparr>) = []"
  shows "world_inv env \<lparr>wd_sys = y', wd_workers = ws @ w\<lparr>cw_phase := p\<rparr> # vs\<rparr>"
proof (rule world_inv_calls [OF inv calls sent])
  have "cron_inv env (cy_db y)" using inv by (simp add: world_inv_def Let_def)
  then show "id_drawn env (cy_db y') (cr_run_id (cw_run v))" if "v \<in> set (ws @ w\<lparr>cw_phase := p\<rparr> # vs)" for v
    using calls_kept(2) [OF calls] inv that by (auto simp: world_inv_def Let_def)
qed (simp add: pend)

lemma world_inv_end:
  assumes inv: "world_inv env \<lparr>wd_sys = y, wd_workers = ws @ w # vs\<rparr>"
    and calls: "fenced_calls env (cy_db y) (cy_db y')" and sent: "cy_sent y' = cy_sent y"
  shows "world_inv env \<lparr>wd_sys = y', wd_workers = ws @ vs\<rparr>"
proof -
  have "world_inv env \<lparr>wd_sys = y, wd_workers = ws @ vs\<rparr>" using inv by (auto simp: world_inv_def Let_def)
  moreover have "id_drawn env (cy_db y') (cr_run_id (cw_run v))" if "v \<in> set (ws @ vs)" for v
    using calls_kept(2) [OF calls] inv that by (auto simp: world_inv_def Let_def)
  ultimately show ?thesis by (rule world_inv_calls [OF _ calls sent refl])
qed

lemma world_inv_marked:
  assumes inv: "world_inv env \<lparr>wd_sys = y, wd_workers = ws @ w # vs\<rparr>" and pend: "send_pending w = []"
    and calls: "fenced_calls env (cy_db y) (cy_db y')" and sent: "cy_sent y' = cy_sent y"
    and mark: "mark_cron_delivery_target env clock (cr_run_id (cw_run w)) (delivery_marker job) (Some d) (Some n) (cy_db y) = (Inr True, cy_db y')"
  shows "world_inv env \<lparr>wd_sys = y', wd_workers = ws @ w\<lparr>cw_phase := Wp_send job result\<rparr> # vs\<rparr>"
proof -
  let ?i = "cr_run_id (cw_run w)" and ?m = "delivery_marker job"
  have inv_y: "cron_inv env (cy_db y)" and drawn: "id_drawn env (cy_db y) ?i" using inv by (simp_all add: world_inv_def Let_def)
  note strip = drawn_stripped [OF cron_invD(8) [OF inv_y] drawn]
  obtain r r' where r: "find_cron_run ?i (cy_db y) = Some r" "?m \<notin> set (cr_delivery_targets r)"
    and r': "find_cron_run ?i (cy_db y') = Some r'" "?m \<in> set (cr_delivery_targets r')"
    by (rule mark_sets [OF mark inv_y strip marker_stripped])
  have new: "(?i, ?m) \<notin> set (cy_sent y @ concat (map send_pending (ws @ w # vs)))"
  proof
    assume "(?i, ?m) \<in> set (cy_sent y @ concat (map send_pending (ws @ w # vs)))"
    then have "marked env (cy_db y) (?i, ?m)" using inv unfolding world_inv_def Let_def by (metis cron_world.select_convs)
    with r show False by (simp add: marked_def)
  qed
  have mine: "marked env (cy_db y') (?i, ?m)" using r' calls_kept(2) [OF calls inv_y drawn] by (simp add: marked_def)
  have inv': "world_inv env \<lparr>wd_sys = y', wd_workers = ws @ w # vs\<rparr>"
    using calls_kept(2) [OF calls inv_y] inv by (intro world_inv_calls [OF inv calls sent refl]) (auto simp: world_inv_def Let_def)
  have "send_pending (w\<lparr>cw_phase := Wp_send job result\<rparr>) = [(?i, ?m)]" by (simp add: send_pending_def)
  with inv' new mine pend sent show ?thesis by (auto simp: world_inv_def Let_def)
qed

lemma world_inv_sent:
  assumes inv: "world_inv env \<lparr>wd_sys = y, wd_workers = ws @ w # vs\<rparr>" and pend: "send_pending w = [pr]"
    and y': "cy_db y' = cy_db y" "cy_sent y' = cy_sent y @ [pr]" and "send_pending (w\<lparr>cw_phase := p\<rparr>) = []"
  shows "world_inv env \<lparr>wd_sys = y', wd_workers = ws @ w\<lparr>cw_phase := p\<rparr> # vs\<rparr>"
  using assms by (auto simp: world_inv_def Let_def)

lemma world_phase_inv:
  assumes inv: "world_inv env \<lparr>wd_sys = y, wd_workers = ws @ w # vs\<rparr>"
    and step: "worker_phase_step env clk sch (cw_run w) (cw_phase w) y = (Some p, y')"
  shows "world_inv env \<lparr>wd_sys = y', wd_workers = ws @ w\<lparr>cw_phase := p\<rparr> # vs\<rparr>"
proof (cases "cw_phase w")
  case Wp_claimed
  then have "phase_claimed sch (cw_run w) y = (p, y')" using step by (simp split: prod.splits)
  from phase_claimed_fields [OF this, of w] show ?thesis
    by (intro world_inv_move [OF inv]) (simp_all add: reach_refl send_pending_def Wp_claimed)
next
  case (Wp_renew job result)
  obtain x u where u: "delivery_renew env (clk 0) (sch_daemon_id sch) (cr_attempts (cw_run w)) (sch_lease_ttl_seconds sch) job (cw_run w) y = (x, u)"
    by fastforce
  then have "y' = u \<and> send_pending (w\<lparr>cw_phase := p\<rparr>) = []" using step Wp_renew
    by (auto simp: phase_renew_def after_delivery_def send_pending_def split: option.splits)
  with renew_fields [OF u] Wp_renew show ?thesis by (intro world_inv_move [OF inv]) (simp_all add: send_pending_def)
next
  case (Wp_mark job result)
  obtain x u where u: "delivery_mark env (clk 0) (sch_daemon_id sch) (cr_attempts (cw_run w)) job (cw_run w) y = (x, u)"
    by fastforce
  show ?thesis
  proof (cases x)
    case None
    with u step Wp_mark have "p = Wp_send job result" "y' = u" by (simp_all add: phase_mark_def)
    with mark_fields [OF u] None Wp_mark show ?thesis
      by (auto intro: world_inv_marked [OF inv] simp: send_pending_def)
  next
    case (Some dd)
    with u step Wp_mark have "y' = u \<and> send_pending (w\<lparr>cw_phase := p\<rparr>) = []"
      by (auto simp: phase_mark_def after_delivery_def send_pending_def)
    with mark_fields [OF u] Wp_mark show ?thesis by (intro world_inv_move [OF inv]) (simp_all add: send_pending_def)
  qed
next
  case (Wp_send job result)
  then obtain h d where "delivery_send h job (cw_run w) result y = (d, y')" and "send_pending (w\<lparr>cw_phase := p\<rparr>) = []"
    using step by (auto simp: after_delivery_def send_pending_def split: option.splits prod.splits)
  with send_fields [OF this(1)] Wp_send show ?thesis
    by (intro world_inv_sent [OF inv]) (simp_all add: send_pending_def)
qed (use step in simp)

lemma world_step_inv:
  assumes "world_inv env v" "world_step env v w"
  shows "world_inv env w"
  using assms(2,1)
proof (induction rule: world_step.induct)
  case (world_call y s ws)
  then have calls: "fenced_calls env (cy_db y) (cy_db (y\<lparr>cy_db := s\<rparr>))" by (auto intro: one_call)
  show ?case using calls_kept(2) [OF calls] world_call.prems
    by (intro world_inv_calls [OF world_call.prems calls]) (auto simp: world_inv_def Let_def)
next
  case (world_claim clock daemon_id ttl limit now_iso y runs s ws)
  then have calls: "fenced_calls env (cy_db y) (cy_db (y\<lparr>cy_db := s\<rparr>))" by (auto intro: one_call call_acquire)
  have inv: "cron_inv env (cy_db y)" using world_claim.prems by (simp add: world_inv_def Let_def)
  show ?case
  proof (rule world_inv_calls [OF world_claim.prems calls])
    fix v assume "v \<in> set (ws @ map (\<lambda>r. \<lparr>cw_run = r, cw_phase = Wp_claimed\<rparr>) runs)"
    then show "id_drawn env (cy_db (y\<lparr>cy_db := s\<rparr>)) (cr_run_id (cw_run v))"
      using acquired_drawn [OF world_claim.hyps inv] calls_kept(2) [OF calls inv] world_claim.prems
      by (auto simp: world_inv_def Let_def)
  qed (simp_all add: send_pending_def comp_def)
next
  case (world_phase clk sch w y p y' ws vs)
  then show ?case by (blast intro: world_phase_inv)
next
  case (world_end clk sch w y y' ws vs)
  then have "fenced_calls env (cy_db y) (cy_db y') \<and> cy_sent y' = cy_sent y"
    using settle_fields by (cases "cw_phase w") (auto split: prod.splits option.splits intro: reach_refl)
  with world_end.prems show ?case by (blast intro: world_inv_end)
next
  case (world_crash y ws w vs)
  then show ?case by (rule world_inv_end) (simp_all add: reach_refl)
qed

interpretation world: invariant_system "world_step env" "world_inv env"
  by unfold_locales (rule world_step_inv)

lemma empty_world_inv: "cron_inv env s \<Longrightarrow> world_inv env (empty_world s)"
  by (simp add: world_inv_def empty_world_def Let_def)

end
