(* ===== verification/Cron_Properties.thy ===== *)
theory Cron_Properties
  imports Cron_Lemmas
begin

text \<open>
  The properties of schedules: cron fields denote values of the calendar, the search finds the
  least occurrence under a fixed offset and may step back where the clock is set back, the due
  points of a poll are bounded, the next due instant lies in the future unless too many points
  were missed, and normalised forms are stable.
\<close>

section \<open>A sample environment\<close>

text \<open>Timestamps are printed as decimal numbers; one zone has a fixed offset, one is set back by an
  hour at an instant.\<close>

definition fixed_zone :: "int \<Rightarrow> zone" where
  "fixed_zone off = \<lparr>to_local = (\<lambda>t. t + off), to_utc = (\<lambda>w. w - off)\<rparr>"

definition hour_us :: int where
  "hour_us = 3600000000"

text \<open>A zone whose offset falls from \<open>off\<close> plus one hour to \<open>off\<close> at instant \<open>T\<close>: the hour before
  is shown twice, and a wall-clock time of it with \<open>fold = 0\<close> is the earlier instant.\<close>

definition fall_back_zone :: "int \<Rightarrow> int \<Rightarrow> zone" where
  "fall_back_zone T off =
     \<lparr>to_local = (\<lambda>t. if t < T then t + off + hour_us else t + off),
      to_utc = (\<lambda>w. if w < T + off + hour_us then w - off - hour_us else w - off)\<rparr>"

definition cron_demo_env :: cron_env where
  "cron_demo_env =
     \<lparr>env_zones = (\<lambda>s. if s = ''UTC'' then Some (fixed_zone 0)
                        else if s = ''DST'' then Some (fall_back_zone 0 0) else None),
      env_local_key = None, env_local_tzname = ''UTC'',
      env_fromisoformat = (\<lambda>s. map_option Aware (parse_int s)), env_isoformat = int_str,
      env_sha256_prefix = length, env_timestamp_ms = (\<lambda>t. t div 1000),
      env_uuid4 = nat_digits\<rparr>"

section \<open>Cron expressions\<close>




text \<open>C15: In a zone with a fixed offset the next occurrence is the least one. It lies strictly after
  the given instant, on a whole second or minute, it matches the expression, and nothing between
  matches. If there is none, nothing matches for five years of 366 days.\<close>

theorem next_cron_is_least:
  assumes "parse_cron_expression expr = Inr spec" "env_zones env tz = Some (fixed_zone off)"
  shows "case next_cron_occurrence env expr tz after of
      Inl _ \<Rightarrow> False
    | Inr (Some d) \<Rightarrow> after < d \<and> cron_step spec dvd d + off \<and> cron_matches spec (d + off) \<and>
        (\<forall>t. after < t \<and> t < d \<and> cron_step spec dvd t + off \<longrightarrow> \<not> cron_matches spec (t + off))
    | Inr None \<Rightarrow> \<forall>t. after < t \<and> t \<le> after + cron_horizon \<and> cron_step spec dvd t + off \<longrightarrow>
        \<not> cron_matches spec (t + off)"
proof -
  let ?c = "cron_start spec (after + off)" and ?s = "cron_step spec"
  let ?r = "cron_search spec (?c + cron_horizon) ?c"
  have result: "next_cron_occurrence env expr tz after = Inr (map_option (\<lambda>w. w - off) ?r)"
    using assms by (simp add: next_cron_occurrence_def load_timezone_def fixed_zone_def Let_def)
  note start = cron_start_bounds [where spec = spec and w = "after + off"]
  have grid: "\<exists>n. t + off = ?c + int n * ?s" if "after < t" "?s dvd t + off" for t
    using cron_start_least [of "after + off" "t + off" spec] that by auto
  show ?thesis
  proof (cases ?r)
    case None
    have "\<not> cron_matches spec (t + off)" if t: "after < t" "t \<le> after + cron_horizon" "?s dvd t + off" for t
    proof -
      from grid [OF t(1,3)] obtain n where n: "t + off = ?c + int n * ?s" by blast
      have "?c + int n * ?s \<le> ?c + cron_horizon" using n t(2) start(1) by linarith
      from cron_search_None [OF None this] n show ?thesis by simp
    qed
    with None result show ?thesis by simp
  next
    case (Some w)
    from cron_search_Some [OF Some] obtain n where n: "w = ?c + int n * ?s" "cron_matches spec w"
      "\<forall>k<n. \<not> cron_matches spec (?c + int k * ?s)" by blast
    have "\<not> cron_matches spec (t + off)" if t: "after < t" "t < w - off" "?s dvd t + off" for t
    proof -
      from grid [OF t(1,3)] obtain k where k: "t + off = ?c + int k * ?s" by blast
      then have "int k * ?s < int n * ?s" using n(1) t(2) by linarith
      then have "k < n" using cron_step_pos [of spec] by (simp add: mult_less_cancel_right)
      with n(3) k show ?thesis by simp
    qed
    moreover have "after + off < w" using start(1) n(1) cron_step_pos [of spec]
      by (smt (verit) mult_nonneg_nonneg of_nat_0_le_iff)
    moreover have "?s dvd w" using start(3) n(1) by simp
    ultimately show ?thesis using Some result n(2) by simp
  qed
qed

theorem next_cron_is_least_witness:
  "\<exists>d. next_cron_occurrence cron_demo_env ''* * * * *'' ''UTC'' 30000000 = Inr (Some d) \<and> 30000000 < d"
proof -
  have "case next_cron_occurrence cron_demo_env ''* * * * *'' ''UTC'' 30000000 of Inr (Some _) \<Rightarrow> True | _ \<Rightarrow> False"
    "case parse_cron_expression ''* * * * *'' of Inl _ \<Rightarrow> False | Inr _ \<Rightarrow> True" by code_simp+
  then obtain d spec where d: "next_cron_occurrence cron_demo_env ''* * * * *'' ''UTC'' 30000000 = Inr (Some d)"
    and spec: "parse_cron_expression ''* * * * *'' = Inr spec" by (auto split: sum.splits option.splits)
  have "env_zones cron_demo_env ''UTC'' = Some (fixed_zone 0)" by (simp add: cron_demo_env_def)
  from next_cron_is_least [OF spec this, of 30000000] d show ?thesis by simp
qed

text \<open>C16: Where the clock is set back by an hour, the search steps back in time. When an occurrence is
  asked for during the second pass of the repeated hour, and the expression matches some
  wall-clock time (a full minute, or a full second if it has six fields) that is left of that hour, the search finds the next such time, but reads it
  with \<open>fold = 0\<close>: the answer is an instant of the first pass, before the instant asked for. The
  instant one hour later, with the same reading of the clock, is the one after the instant asked for.\<close>

theorem cron_steps_back_in_repeated_hour:
  assumes "parse_cron_expression expr = Inr spec" "env_zones env tz = Some (fall_back_zone T off)"
    and "T \<le> after" and w: "after + off < w" "w < T + off + hour_us" "cron_step spec dvd w" "cron_matches spec w"
  shows "\<exists>d. next_cron_occurrence env expr tz after = Inr (Some d) \<and> T - hour_us \<le> d \<and> d < T \<and>
    after < d + hour_us \<and> d + hour_us + off \<le> w \<and> cron_matches spec (d + hour_us + off)"
proof -
  let ?c = "cron_start spec (after + off)" and ?s = "cron_step spec"
  from cron_start_least [OF w(1,3)] obtain n where n: "w = ?c + int n * ?s" .
  note start = cron_start_bounds [where spec = spec and w = "after + off"]
  have limit: "?c + int n * ?s \<le> ?c + cron_horizon"
    using w(2) assms(3) start(1) unfolding n [symmetric] by (simp add: cron_horizon_def day_us_def hour_us_def)
  obtain v where v: "cron_search spec (?c + cron_horizon) ?c = Some v"
    using cron_search_None [OF _ limit] w(4) n by (cases "cron_search spec (?c + cron_horizon) ?c") auto
  from cron_search_Some [OF v] obtain k where k: "v = ?c + int k * ?s" "cron_matches spec v"
    "\<forall>i<k. \<not> cron_matches spec (?c + int i * ?s)" by blast
  have "k \<le> n" using k(3) w(4) n by (meson not_le)
  then have "v \<le> w" unfolding k(1) n by (simp add: mult_right_mono)
  moreover have "?c \<le> v" unfolding k(1) by (simp add: less_imp_le)
  moreover have "next_cron_occurrence env expr tz after = Inr (Some (v - off - hour_us))"
    using assms(1-3) v \<open>v \<le> w\<close> w(2) by (simp add: next_cron_occurrence_def load_timezone_def fall_back_zone_def Let_def)
  ultimately show ?thesis using w(2) start(1) assms(3) k(2) by (intro exI [of _ "v - off - hour_us"]) auto
qed

theorem cron_steps_back_in_repeated_hour_witness:
  "\<exists>d. next_cron_occurrence cron_demo_env ''50 * * * *'' ''DST'' 1800000000 = Inr (Some d) \<and> d < 0"
proof -
  have "case parse_cron_expression ''50 * * * *'' of Inl _ \<Rightarrow> False
    | Inr spec \<Rightarrow> cron_step spec = 60000000 \<and> cron_matches spec 3000000000" by code_simp
  then obtain spec where spec: "parse_cron_expression ''50 * * * *'' = Inr spec" "cron_step spec = 60000000"
    "cron_matches spec 3000000000" by (auto split: sum.splits)
  have "env_zones cron_demo_env ''DST'' = Some (fall_back_zone 0 0)" by (simp add: cron_demo_env_def)
  from cron_steps_back_in_repeated_hour [OF spec(1) this, of 1800000000 3000000000] spec(2,3) show ?thesis
    by (auto simp: hour_us_def)
qed

section \<open>Due points of a poll\<close>

text \<open>A poll starts a bounded number of runs, none of them late. The due points selected for a
  job are at most \<open>catch_up_max\<close> under the policy \<open>catch_up\<close> and at most one otherwise, and each
  lies between \<open>now\<close> less the allowed lateness and \<open>now\<close>.\<close>

lemma selected_points_bounded:
  assumes "select_due_points_for_job env job now = Inr (selected, next_due)"
    and "normalize_misfire_policy (dict_get_or job ''misfire_policy'' PNone) = Inr policy"
    and "py_int (dict_get_or job ''max_lateness_s'' (PInt 600)) = Inr late"
  shows "int (length selected) \<le> (if mp_mode policy = ''catch_up'' then mp_catch_up_max policy else 1) \<and>
    (\<forall>t\<in>set selected. now - max 0 late * 1000000 \<le> t \<and> t \<le> now)"
proof (cases "str_strip (py_str (py_or (dict_get_or job ''next_due_at'' PNone) (PStr []))) = []")
  case True
  then have "selected = []" using select_due_points_empty [OF assms(1)] by simp
  then show ?thesis using normalize_misfire_Inr(2) [OF assms(2)] by simp
next
  case False
  from select_args [OF assms(1) False] obtain d start where
    "normalize_schedule env (dict_get_or job ''schedule'' (PDict [])) = Inr d"
    "parse_iso_datetime env (py_str (py_or (dict_get_or job ''next_due_at'' PNone) (PStr []))) = Inr start" by blast
  then obtain ts cursor where
    loop: "due_loop env d job now MAX_DUE_POINTS (Some start) = Inr (ts, cursor)"
    and sel: "selected = select_points policy (sched_text d ''kind'' = ''at'') now
       (filter (\<lambda>t. t \<ge> now - max 0 late * 1000000) ts)
       (ts \<noteq> [] \<and> filter (\<lambda>t. t \<ge> now - max 0 late * 1000000) ts = [])" by (rule select_points_of [OF assms(1) _ _ assms(2,3)])
  note b = select_points_bounded [OF normalize_misfire_Inr(2) [OF assms(2)]]
  have "set selected \<subseteq> insert now (set (filter (\<lambda>t. t \<ge> now - max 0 late * 1000000) ts))"
    unfolding sel by (rule b(2))
  with due_loop_points(2) [OF loop] have range: "\<forall>t\<in>set selected. now - max 0 late * 1000000 \<le> t \<and> t \<le> now" by auto
  have "int (length selected) \<le> (if mp_mode policy = ''catch_up'' then mp_catch_up_max policy else 1)"
    unfolding sel by (rule b(1))
  with range show ?thesis by blast
qed

definition demo_job :: "int \<Rightarrow> pydict" where
  "demo_job start =
     [(''job_id'', PStr ''j''), (''next_due_at'', PStr (int_str start)),
      (''schedule'', PDict [(''kind'', PStr ''every''), (''every_ms'', PInt 1)])]"

lemma demo_job_fields:
  "normalize_schedule cron_demo_env (dict_get_or (demo_job 1000) ''schedule'' (PDict [])) = Inr (every_form 1 0)"
  "parse_iso_datetime cron_demo_env (py_str (py_or (dict_get_or (demo_job 1000) ''next_due_at'' PNone) (PStr []))) = Inr 1000"
  "normalize_misfire_policy (dict_get_or (demo_job 1000) ''misfire_policy'' PNone) =
     Inr \<lparr>mp_mode = ''run_once'', mp_catch_up_max = 1\<rparr>"
  "py_int (dict_get_or (demo_job 1000) ''max_lateness_s'' (PInt 600)) = Inr 600"
  "dict_has (demo_job 1000) ''job_id''"
  by code_simp+

text \<open>C17: Polling makes progress. A poll of a job that runs every \<open>p\<close> milliseconds, with any jitter,
  returns; if its next due instant is less than 512 periods ago, the new one lies in the future.\<close>

theorem every_job_next_due_in_future:
  assumes "normalize_schedule env (dict_get_or job ''schedule'' (PDict [])) = Inr (every_form p j)"
    and "parse_iso_datetime env (py_str (py_or (dict_get_or job ''next_due_at'' PNone) (PStr []))) = Inr start"
    and "normalize_misfire_policy (dict_get_or job ''misfire_policy'' PNone) = Inr policy"
    and "py_int (dict_get_or job ''max_lateness_s'' (PInt 600)) = Inr late" "dict_has job ''job_id''"
    and "now < start + 512 * (p * 1000)"
  shows "\<exists>selected c. select_due_points_for_job env job now = Inr (selected, Some c) \<and> now < c"
proof -
  note pj = normalized_every [OF assms(1)]
  obtain selected next_due where sel: "select_due_points_for_job env job now = Inr (selected, next_due)"
    using select_every_total [OF assms(1-5) pj] by blast
  obtain ts cursor where
    loop: "due_loop env (every_form p j) job now MAX_DUE_POINTS (Some start) = Inr (ts, cursor)"
    and nx: "sched_text (every_form p j) ''kind'' \<noteq> ''at'' \<and> cursor \<noteq> None \<longrightarrow> next_due = cursor"
    by (rule select_points_of [OF sel assms(1-4)]) (rule that)
  from due_loop_every [OF loop pj] obtain c where c: "cursor = Some c" "start + int (length ts) * (p * 1000) \<le> c"
    by blast
  have "now < c"
  proof (cases "length ts < MAX_DUE_POINTS")
    case True
    then show ?thesis using due_loop_cursor loop c(1) by blast
  next
    case False
    then have "length ts = 512" using due_loop_points(1) [OF loop] by (simp add: MAX_DUE_POINTS_def)
    then show ?thesis using c(2) assms(6) by simp
  qed
  with c(1) nx sel show ?thesis by simp
qed

theorem every_job_next_due_in_future_witness:
  "\<exists>sel c. select_due_points_for_job cron_demo_env (demo_job 1000) 3000 = Inr (sel, Some c) \<and> 3000 < c"
proof -
  have "3000 < 1000 + 512 * ((1 :: int) * 1000)" by simp
  from every_job_next_due_in_future [OF demo_job_fields this] show ?thesis .
qed

text \<open>After a long outage one poll is not enough. When at least 512 periods of a job without
  jitter were missed, the poll stops after 512 of them: the new next due instant is still in the
  past, so the job is due again at once, and under the policy \<open>run_once\<close> every such poll starts
  a run.\<close>

lemma long_outage_keeps_job_due:
  assumes "normalize_schedule env (dict_get_or job ''schedule'' (PDict [])) = Inr (every_form p 0)"
    and "parse_iso_datetime env (py_str (py_or (dict_get_or job ''next_due_at'' PNone) (PStr []))) = Inr start"
    and "normalize_misfire_policy (dict_get_or job ''misfire_policy'' PNone) = Inr policy"
    and "py_int (dict_get_or job ''max_lateness_s'' (PInt 600)) = Inr late" "dict_has job ''job_id''"
    and "mp_mode policy = ''run_once''" "start + 512 * (p * 1000) \<le> now"
  shows "\<exists>t. select_due_points_for_job env job now = Inr ([t], Some (start + 512 * (p * 1000)))"
proof -
  note pj = normalized_every [OF assms(1)]
  obtain selected next_due where res: "select_due_points_for_job env job now = Inr (selected, next_due)"
    using select_every_total [OF assms(1-5) pj] by blast
  obtain ts cursor where
    loop: "due_loop env (every_form p 0) job now MAX_DUE_POINTS (Some start) = Inr (ts, cursor)"
    and sel: "selected = select_points policy (sched_text (every_form p 0) ''kind'' = ''at'') now
       (filter (\<lambda>t. t \<ge> now - max 0 late * 1000000) ts)
       (ts \<noteq> [] \<and> filter (\<lambda>t. t \<ge> now - max 0 late * 1000000) ts = [])"
    and nx: "sched_text (every_form p 0) ''kind'' \<noteq> ''at'' \<and> cursor \<noteq> None \<longrightarrow> next_due = cursor"
    by (rule select_points_of [OF res assms(1-4)])
  from due_loop_every [OF loop pj] have c: "cursor = Some (start + int (length ts) * (p * 1000))" by auto
  have "length ts = 512"
  proof (rule ccontr)
    assume "length ts \<noteq> 512"
    then have lt: "length ts < 512" using due_loop_points(1) [OF loop] by (simp add: MAX_DUE_POINTS_def)
    then have "now < start + int (length ts) * (p * 1000)"
      using due_loop_cursor [of env _ job now MAX_DUE_POINTS start ts] loop c by (simp add: MAX_DUE_POINTS_def)
    also have "\<dots> \<le> start + 512 * (p * 1000)" using lt pj(1) by simp
    finally show False using assms(7) by simp
  qed
  moreover from this have "ts \<noteq> []" by auto
  then have "length selected = 1" unfolding sel by (rule run_once_selects_one [OF assms(6)])
  then obtain t where "selected = [t]" by (auto simp: length_Suc_conv)
  ultimately show ?thesis using c nx res by simp
qed

section \<open>Stored forms\<close>

text \<open>A misfire policy survives storage. Whatever value a policy was read from, its stored text is
  read back with the same mode and, for \<open>catch_up\<close>, the same maximum.\<close>

lemma misfire_policy_roundtrip:
  assumes "normalize_misfire_policy v = Inr p"
  shows "\<exists>p'. normalize_misfire_policy (PStr (encode_misfire_policy p)) = Inr p' \<and> mp_mode p' = mp_mode p \<and>
    (mp_mode p = ''catch_up'' \<longrightarrow> p' = p)"
  using normalize_encoded normalize_misfire_Inr [OF assms] by simp

text \<open>Normalising a schedule twice is the same as once, so a stored schedule keeps its meaning
  each time it is read; provided that timestamps are read back as they were printed and that the
  names of time zones carry no surrounding space.\<close>

lemma normalize_schedule_idempotent:
  assumes "\<And>t. parse_iso_datetime env (to_iso_utc env t) = Inr t"
    and "\<And>k. env_zones env k \<noteq> None \<Longrightarrow> str_strip k = k \<and> k \<noteq> []"
    and "normalize_schedule env s = Inr d"
  shows "normalize_schedule env (PDict d) = Inr d"
  using assms(3)
proof (cases rule: normalize_schedule_cases)
  case (at t)
  then show ?thesis using normalize_at assms(1) by simp
next
  case (every p j)
  then show ?thesis using normalize_every by simp
next
  case (cron expr tz st spec)
  then show ?thesis using normalize_cron assms(2) by simp
qed

end
