(* ===== verification/Cron_Run_Properties.thy ===== *)
theory Cron_Run_Properties
  imports Cron_Workers Cron_Properties
begin

text \<open>
  The properties of the cron store, its coordination and its workers: at most one running run per
  concurrency scope, bounded attempts, fences that stay lost, final outcomes, recovery of expired
  leases, the outcome of a worker, at most one delivery per run and target, the number of workers,
  and the due points that are dropped for lack of room.
\<close>

declare acquire_rows.simps(2) [simp del]

section \<open>A sample store\<close>

text \<open>An environment as in \<open>Cron_Properties\<close>, in which timestamps are binary numbers of 36 digits,
  so that the order of the texts is that of the instants.\<close>

definition bin_text :: "int \<Rightarrow> string" where
  "bin_text t = map (\<lambda>i. if t div 2 ^ i mod 2 = 1 then CHR ''1'' else CHR ''0'') (rev [0..<36])"

definition bin_value :: "string \<Rightarrow> int" where
  "bin_value s = foldl (\<lambda>n c. 2 * n + (if c = CHR ''1'' then 1 else 0)) 0 s"

definition run_env :: cron_env where
  "run_env = cron_demo_env\<lparr>env_isoformat := bin_text, env_fromisoformat := (\<lambda>s. Some (Aware (bin_value s)))\<rparr>"

lemma run_env_uuids: "uuids_ok run_env"
proof -
  have "inj nat_digits" by (rule inj_on_inverseI [where g = "digits_nat 0"]) simp
  moreover have "str_strip (nat_digits n) = nat_digits n" for n
    using strip_int_str [of "int n"] by (simp add: int_str_def)
  ultimately show ?thesis by (simp add: uuids_ok_def run_env_def cron_demo_env_def nat_digits_ne)
qed

definition demo_args :: cron_job_args where
  "demo_args =
     \<lparr>ca_name = ''tick'', ca_schedule = PDict [(''kind'', PStr ''every''), (''every_ms'', PInt 60000)],
      ca_payload = PDict [(''kind'', PStr ''systemEvent''), (''event_text'', PStr ''tick'')], ca_description = None,
      ca_enabled = True, ca_agent_id = None, ca_session_target = None, ca_wake_mode = None,
      ca_delivery = Some (PDict [(''mode'', PStr ''announce''), (''to'', PStr ''me'')]), ca_delete_after_run = None,
      ca_misfire_policy = PStr ''catch_up(max=3)'', ca_max_lateness_s = 600, ca_max_concurrency = 1,
      ca_concurrency_key = Some ''k'', ca_max_attempts = 3, ca_retry_backoff_s = 30, ca_job_id = Some ''j''\<rparr>"

text \<open>A job is added, a run is triggered and claimed by daemon \<open>d1\<close>; its lease expires, it is queued
  again and claimed by daemon \<open>d2\<close>, which finishes it.\<close>

definition demo_done :: run_outcome where
  "demo_done = \<lparr>ro_state = Run_finished, ro_summary = Some ''ok'', ro_artifact_refs = [], ro_error = None, ro_output = None,
     ro_isolated_session_id = None\<rparr>"

definition demo_next :: "nat \<Rightarrow> cron_store \<Rightarrow> cron_store" where
  "demo_next n s =
     (if n = 0 then snd (add_cron_job run_env 1000000000 demo_args s)
      else if n = 1 then snd (trigger_cron_run run_env 2000000000 ''j'' None None 60 s)
      else if n = 2 then snd (acquire_cron_runs run_env 3000000000 ''d1'' 60 5 None s)
      else if n = 3 then snd (recover_expired_cron_runs run_env 4000000000 None 100 s)
      else if n = 4 then snd (acquire_cron_runs run_env 5000000000 ''d2'' 60 5 None s)
      else snd (finish_cron_run run_env 6000000000 ''0'' ''finished'' demo_done (Some ''d2'') (Some 2) None s))"

fun demo_store :: "nat \<Rightarrow> cron_store" where
  "demo_store 0 = empty_cron_store"
| "demo_store (Suc n) = demo_next n (demo_store n)"

lemma demo_next_call: "cron_call run_env b s (demo_next n s)"
  unfolding demo_next_def
  by (auto intro: call_add [OF surjective_pairing] call_trigger [OF surjective_pairing] call_acquire [OF surjective_pairing]
      call_recover [OF surjective_pairing] call_finish [OF surjective_pairing])

lemma demo_store_more: "reach (cron_call run_env b) (demo_store n) (demo_store (n + k))"
  by (induction k) (auto intro: reach_refl reach_step demo_next_call)

lemma demo_store_reach: "reach (cron_call run_env b) empty_cron_store (demo_store n)"
  using demo_store_more [of b 0 n] by simp

lemma demo_runs:
  "map (\<lambda>r. (cr_run_id r, cr_state r, cr_lease_owner r, cr_attempts r)) (db_runs (demo_store 3)) = [(''0'', Run_running, Some ''d1'', 1)]"
  "map (\<lambda>r. (cr_run_id r, cr_state r, cr_lease_owner r, cr_attempts r)) (db_runs (demo_store 4)) = [(''0'', Run_queued, None, 1)]"
  "map (\<lambda>r. (cr_run_id r, cr_state r, cr_lease_owner r, cr_attempts r)) (db_runs (demo_store 5)) = [(''0'', Run_running, Some ''d2'', 2)]"
  "map (\<lambda>r. (cr_run_id r, cr_state r, cr_lease_owner r, cr_attempts r)) (db_runs (demo_store 6)) = [(''0'', Run_finished, None, 2)]"
  by code_simp+

section \<open>Reachable stores\<close>

definition reachable_store :: "cron_env \<Rightarrow> cron_store \<Rightarrow> bool" where
  "reachable_store env s = reach (cron_call env False) empty_cron_store s"

lemma reachable_inv: "uuids_ok env \<Longrightarrow> reachable_store env s \<Longrightarrow> cron_inv env s"
  unfolding reachable_store_def by (rule calls.calls_inv) (auto intro: empty_cron_inv)

lemma demo_reachable: "reachable_store run_env (demo_store n)"
  unfolding reachable_store_def by (rule demo_store_reach)

lemma length_filter_one:
  assumes "distinct (map f xs)" "\<forall>x\<in>set xs. \<forall>y\<in>set xs. P x \<and> P y \<longrightarrow> f x = f y"
  shows "length (filter P xs) \<le> 1"
proof (cases "filter P xs")
  case (Cons x ys)
  have d: "distinct (map f (x # ys))" using distinct_map_filter [OF assms(1), of P] by (simp add: Cons)
  have same: "f y = f x" if "y \<in> set (x # ys)" for y
  proof -
    have "x \<in> set (filter P xs)" "y \<in> set (filter P xs)" using that by (simp_all add: Cons)
    with assms(2) show ?thesis by auto
  qed
  have "ys = []"
  proof (cases ys)
    case (Cons y zs)
    then have "f y = f x" by (intro same) simp
    with d Cons show ?thesis by simp
  qed
  with Cons show ?thesis by simp
qed simp

text \<open>C18: In every state the cron store can reach, at most one run of a concurrency scope is running,
  whatever daemons poll, retry, recover and trigger.\<close>

theorem one_running_run_per_scope:
  assumes "uuids_ok env" "reachable_store env s"
  shows "sql_count (\<lambda>r. run_in_scope s k r \<and> cr_state r = Run_running) (db_runs s) \<le> 1"
proof -
  have inv: "cron_inv env s" using assms by (rule reachable_inv)
  show ?thesis unfolding sql_count_def
    by (rule length_filter_one [where f = cr_run_id])
      (use cron_invD(2,6) [OF inv] in \<open>auto simp: keys_unique_def scopes_exclusive_def\<close>)
qed

theorem one_running_run_per_scope_witness:
  "sql_count (\<lambda>r. run_in_scope (demo_store 5) ''k'' r \<and> cr_state r = Run_running) (db_runs (demo_store 5)) \<le> 1 \<and>
   list_ex (\<lambda>r. run_in_scope (demo_store 5) ''k'' r \<and> cr_state r = Run_running) (db_runs (demo_store 5))"
proof
  show "sql_count (\<lambda>r. run_in_scope (demo_store 5) ''k'' r \<and> cr_state r = Run_running) (db_runs (demo_store 5)) \<le> 1"
    by (rule one_running_run_per_scope [OF run_env_uuids demo_reachable])
qed code_simp

text \<open>A run is attempted at most as often as its job allows, and never more than ten times; a
  run that waits for another attempt has one left.\<close>

lemma attempts_within_limit:
  assumes "uuids_ok env" "reachable_store env s" "r \<in> set (db_runs s)"
  shows "0 \<le> cr_attempts r \<and> cr_attempts r \<le> 10 \<and>
    (\<forall>j. job_of_run s r = Some j \<longrightarrow> cr_attempts r \<le> cj_max_attempts j \<and>
      (cr_state r = Run_queued \<longrightarrow> cr_attempts r < cj_max_attempts j))"
proof -
  have "cron_run_ok s r" using cron_invD(4) [OF reachable_inv [OF assms(1,2)] assms(3)] .
  then show ?thesis by (auto simp: cron_run_ok_def MAX_CRON_ATTEMPTS_def)
qed

section \<open>Fences\<close>

lemma update_none: "\<forall>r\<in>set (db_runs s). \<not> p r \<Longrightarrow> update_cron_runs p f s = s"
  by (simp add: update_cron_runs_def sql_update_def map_idI)

lemma no_fence:
  assumes "cron_inv env s" "\<forall>q. find_cron_run i s = Some q \<longrightarrow> \<not> holds_fence owner n q"
  shows "\<forall>r\<in>set (db_runs s). \<not> (cr_run_id r = i \<and> holds_fence owner n r)"
  using assms(2) sql_get_unique [OF cron_invD(2) [OF assms(1)]] by (auto simp: find_cron_run_def)

lemma given_time_None [simp]: "given_time env None clock = Inr clock"
  by (simp add: given_time_def)

lemma require_True [simp]: "require True m = Inr ()"
  by (simp add: require_def)

lemma with_result_Inr [simp]: "with_result (Inr a) f s = f a s"
  by (simp add: with_result_def)

lemma refused_calls:
  assumes "cron_inv env s" "\<forall>q. find_cron_run (str_strip i) s = Some q \<longrightarrow> \<not> holds_fence (str_strip d) n q"
    and "str_strip i \<noteq> []" "str_strip d \<noteq> []"
  shows "renew_cron_run_lease env clock i d n ttl None s = (Inr False, s)"
    and "terminal_state_of st = Inr x \<Longrightarrow> finish_cron_run env clock i st res (Some d) (Some n) None s = (Inr None, s)"
    and "retry_cron_run env clock i err (Some d) (Some n) None s = (Inr None, s)"
    and "str_strip m \<noteq> [] \<Longrightarrow> mark_cron_delivery_target env clock i m (Some d) (Some n) s = (Inr False, s)"
proof -
  note none = no_fence [OF assms(1,2)]
  show "renew_cron_run_lease env clock i d n ttl None s = (Inr False, s)"
    using none assms(3,4)
    by (simp add: renew_cron_run_lease_def Let_def update_none sql_count_def filter_empty_conv)
  have fenced: "fenced_run (Some (str_strip d, n)) (str_strip i) s = None"
    using none by (auto simp: fenced_run_def fence_matches_def find_None_iff)
  have args: "fence_args (Some d) (Some n) = Inr (Some (str_strip d, n))" by (simp add: fence_args_def)
  show "finish_cron_run env clock i st res (Some d) (Some n) None s = (Inr None, s)" if "terminal_state_of st = Inr x"
    using that assms(3) fenced args by (simp add: finish_cron_run_def finish_cron_run_locked_def Let_def)
  have "find (\<lambda>r. cr_run_id r = str_strip i \<and> cr_state r = Run_running \<and> fence_matches (Some (str_strip d, n)) r) (db_runs s) = None"
    using none by (auto simp: fence_matches_def find_None_iff)
  then show "retry_cron_run env clock i err (Some d) (Some n) None s = (Inr None, s)"
    using assms(3) args by (simp add: retry_cron_run_def)
  show "mark_cron_delivery_target env clock i m (Some d) (Some n) s = (Inr False, s)" if "str_strip m \<noteq> []"
    using that assms(3) fenced args by (simp add: mark_cron_delivery_target_def delivery_update_def Let_def)
qed

text \<open>A daemon that lost its claim on a run never regains it with the same attempt: whatever is
  called in between, renewing, finishing, retrying and marking with that fence are refused and
  leave the store as it is.\<close>

lemma lost_claim_stays_lost:
  assumes "uuids_ok env" "reachable_store env s" "find_cron_run (str_strip i) s = Some r" "holds_fence (str_strip d) n r"
    and "reach (cron_call env False) s t" "\<forall>q. find_cron_run (str_strip i) t = Some q \<longrightarrow> \<not> holds_fence (str_strip d) n q"
    and "reach (cron_call env False) t u" "str_strip d \<noteq> []"
  shows "renew_cron_run_lease env clock i d n ttl None u = (Inr False, u) \<and>
    (\<forall>st x res. terminal_state_of st = Inr x \<longrightarrow> finish_cron_run env clock i st res (Some d) (Some n) None u = (Inr None, u)) \<and>
    (\<forall>err. retry_cron_run env clock i err (Some d) (Some n) None u = (Inr None, u)) \<and>
    (\<forall>m. str_strip m \<noteq> [] \<longrightarrow> mark_cron_delivery_target env clock i m (Some d) (Some n) u = (Inr False, u))"
proof -
  have inv: "cron_inv env s" using assms(1,2) by (rule reachable_inv)
  have st: "cron_steps env False s t" and inv_t: "cron_inv env t"
    using calls.calls_steps [OF assms(5) inv] calls.calls_inv [OF assms(5) inv] by simp_all
  have tu: "cron_steps env False t u" and inv_u: "cron_inv env u"
    using calls.calls_steps [OF assms(7) inv_t] calls.calls_inv [OF assms(7) inv_t] by simp_all
  have lost: "\<forall>q. find_cron_run (str_strip i) u = Some q \<longrightarrow> \<not> holds_fence (str_strip d) n q"
    using lost_fence [OF inv st tu assms(3,4,6)] by blast
  have "str_strip i \<noteq> []"
  proof -
    have "id_drawn env s (str_strip i)" using inv assms(3) by (rule found_drawn)
    with assms(1) show ?thesis by (metis id_drawn_def uuids_ok_def)
  qed
  note refused = refused_calls [OF inv_u lost this assms(8)]
  show ?thesis by (intro conjI allI impI) (erule refused | rule refused)+
qed

lemma demo_claim: "find_cron_run (str_strip ''0'') (demo_store 3) = Some (hd (db_runs (demo_store 3)))"
  "holds_fence (str_strip ''d1'') 1 (hd (db_runs (demo_store 3)))"
  "case find_cron_run (str_strip ''0'') (demo_store 4) of None \<Rightarrow> True | Some q \<Rightarrow> \<not> holds_fence (str_strip ''d1'') 1 q"
  "str_strip ''d1'' \<noteq> []"
  by code_simp+

text \<open>A run that is finished, failed, cancelled or timed out keeps its state and its stored
  outcome under every call that the daemons and the user interface make; only a call without a
  fence can overwrite it.\<close>

lemma settled_runs_are_final:
  assumes "uuids_ok env" "reachable_store env s" "find_cron_run i s = Some r" "run_terminal r"
    and "reach (cron_call env True) s t" "find_cron_run i t = Some r'"
  shows "cr_state r' = cr_state r \<and> run_result r' = run_result r \<and> set (cr_delivery_targets r) \<subseteq> set (cr_delivery_targets r')"
proof -
  have inv: "cron_inv env s" using assms(1,2) by (rule reachable_inv)
  have "run_later True r r'" by (rule reach_run [OF calls.calls_steps [OF assms(5) inv] inv assms(3,6)])
  with assms(4) show ?thesis by (simp add: run_later_def)
qed

lemma demo_settled:
  "find_cron_run ''0'' (demo_store 6) = Some (hd (db_runs (demo_store 6)))" "run_terminal (hd (db_runs (demo_store 6)))"
  "find_cron_run ''0'' (demo_store 7) = Some (hd (db_runs (demo_store 7)))"
  by code_simp+

section \<open>Recovery\<close>

lemma recovered_not_running:
  assumes "recover_run env now_dt now (r, j) s = (item, t)" "cron_job_ok j" "cr_run_id q = cr_run_id r" "q \<in> set (db_runs t)"
  shows "cr_state q \<noteq> Run_running"
proof (rule recover_run_update [OF assms(1,2)])
  fix err assume "t = update_cron_runs (\<lambda>q. cr_run_id q = cr_run_id r \<and> cr_state q = Run_running) (run_failed err now) s"
  with assms(3,4) show ?thesis by (auto simp: update_cron_runs_def set_sql_update run_failed_def split: if_splits)
next
  fix err av assume "t = update_cron_runs (\<lambda>q. cr_run_id q = cr_run_id r \<and> cr_state q = Run_running) (requeued av err now) s"
  with assms(3,4) show ?thesis by (auto simp: update_cron_runs_def set_sql_update requeued_def split: if_splits)
qed

text \<open>A row that is running afterwards was there before, and was not one of the recovered rows.\<close>

lemma recover_run_keeps:
  assumes "recover_run env now_dt now (r, j) s = (item, t)" "cron_job_ok j" "q \<in> set (db_runs t)" "cr_state q = Run_running"
  shows "q \<in> set (db_runs s) \<and> cr_run_id q \<noteq> cr_run_id r" "db_jobs t = db_jobs s"
proof -
  have "q \<in> set (db_runs s) \<and> db_jobs t = db_jobs s"
    by (rule recover_run_update [OF assms(1,2)])
      (use assms(3,4) in \<open>auto simp: update_cron_runs_def set_sql_update run_failed_def requeued_def split: if_splits\<close>)
  then show "q \<in> set (db_runs s) \<and> cr_run_id q \<noteq> cr_run_id r" "db_jobs t = db_jobs s"
    using recovered_not_running [OF assms(1,2) _ assms(3)] assms(4) by auto
qed

lemma recover_cron_rows_keeps:
  assumes "recover_cron_rows env now_dt now rows s = (items, t)" "\<forall>(r, j)\<in>set rows. cron_job_ok j"
    and "q \<in> set (db_runs t)" "cr_state q = Run_running"
  shows "q \<in> set (db_runs s) \<and> db_jobs t = db_jobs s \<and> cr_run_id q \<notin> (\<lambda>(r, j). cr_run_id r) ` set rows"
  using assms
proof (induction rows arbitrary: s items)
  case (Cons row rows)
  obtain r j where row: "row = (r, j)" by (cases row)
  obtain item u where u: "recover_run env now_dt now (r, j) s = (item, u)" by (cases "recover_run env now_dt now (r, j) s")
  obtain more where "recover_cron_rows env now_dt now rows u = (more, t)" using Cons.prems(1) u row by (auto split: prod.splits)
  from Cons.IH [OF this] Cons.prems(2-4)
  have "q \<in> set (db_runs u)" "db_jobs t = db_jobs u" "cr_run_id q \<notin> (\<lambda>(r, j). cr_run_id r) ` set rows" by simp_all
  moreover have "q \<in> set (db_runs s) \<and> cr_run_id q \<noteq> cr_run_id r" "db_jobs u = db_jobs s"
    using recover_run_keeps [OF u _ \<open>q \<in> set (db_runs u)\<close> Cons.prems(4)] Cons.prems(2) row by auto
  ultimately show ?case using row by auto
qed simp

definition expired_now :: "string \<Rightarrow> cron_store \<Rightarrow> cron_run \<Rightarrow> bool" where
  "expired_now now s r = (cr_state r = Run_running \<and> lease_expired now r \<and> job_of_run s r \<noteq> None)"

text \<open>After a recovery whose limit is not exceeded, no run of an existing job is left running with
  an expired lease: each was queued for another attempt or failed for good.\<close>

lemma recovery_frees_expired_runs:
  assumes "uuids_ok env" "reachable_store env s" "recover_expired_cron_runs env clock None limit s = (Inr items, t)"
    and "int (sql_count (expired_now (to_iso_utc env clock) s) (db_runs s)) \<le> limit" "limit \<le> 1000"
  shows "sql_count (expired_now (to_iso_utc env clock) t) (db_runs t) = 0"
proof -
  let ?now = "to_iso_utc env clock"
  let ?all = "filter (\<lambda>(r, _). cr_state r = Run_running \<and> lease_expired ?now r) (joined_runs s)"
  have inv: "cron_inv env s" using assms(1,2) by (rule reachable_inv)
  have rows: "recover_cron_rows env clock ?now (expired_runs ?now limit s) s = (items, t)"
    using assms(3) by (simp add: recover_expired_cron_runs_def recover_expired_locked_def split_beta prod_eq_iff)
  have "length ?all = sql_count (expired_now ?now s) (db_runs s)"
  proof -
    have "length (filter (\<lambda>(r, _). cr_state r = Run_running \<and> lease_expired ?now r)
        (concat (map (\<lambda>r. case job_of_run s r of None \<Rightarrow> [] | Some j \<Rightarrow> [(r, j)]) rs))) =
      length (filter (expired_now ?now s) rs)" for rs
      by (induction rs) (auto simp: expired_now_def split: option.splits)
    then show ?thesis by (simp add: joined_runs_def sql_count_def)
  qed
  then have all: "set (expired_runs ?now limit s) = set ?all"
    using assms(4,5) by (simp add: expired_runs_def)
  have jobs: "\<forall>(r, j)\<in>set (expired_runs ?now limit s). cron_job_ok j"
    using cron_invD(3) [OF inv] job_of_run_Some [of s] by (auto simp: all joined_runs_iff)
  have "\<not> expired_now ?now t q" if q: "q \<in> set (db_runs t)" for q
  proof
    assume e: "expired_now ?now t q"
    then have "cr_state q = Run_running" by (simp add: expired_now_def)
    from recover_cron_rows_keeps [OF rows jobs q this] have old: "q \<in> set (db_runs s)" "db_jobs t = db_jobs s"
      and not_row: "cr_run_id q \<notin> (\<lambda>(r, j). cr_run_id r) ` set (expired_runs ?now limit s)" by simp_all
    have "job_of_run t q = job_of_run s q" by (rule job_of_run_cong) (simp_all add: old)
    with e obtain j where "job_of_run s q = Some j" by (auto simp: expired_now_def)
    with e old have "(q, j) \<in> set (expired_runs ?now limit s)" by (simp add: all joined_runs_iff expired_now_def)
    with not_row show False by force
  qed
  then show ?thesis by (simp add: sql_count_def filter_empty_conv)
qed

section \<open>Runs without a job\<close>

text \<open>Statements that do not touch a given run.\<close>

lemma find_kept_update:
  assumes "find_cron_run i s = Some r" "\<not> p r" "\<And>q. cr_run_id (f q) = cr_run_id q"
  shows "find_cron_run i (update_cron_runs p f s) = Some r"
  using assms by (simp add: find_run_updated)

lemma find_kept_frame [simp]:
  "find_cron_run i (update_cron_jobs j f s) = find_cron_run i s" "find_cron_run i (uuid_drawn s) = find_cron_run i s"
  "find_cron_run i (s\<lparr>db_uuids := n\<rparr>) = find_cron_run i s"
  by (simp_all add: find_cron_run_def update_cron_jobs_def uuid_drawn_def)

lemma find_kept_insert:
  "insert_cron_run_new q s = (x, t) \<Longrightarrow> find_cron_run i s = Some r \<Longrightarrow> find_cron_run i t = Some r"
  by (auto simp: insert_cron_run_new_def add_run_row_def st_bind_def find_cron_run_def sql_get_append split: if_splits)

lemma find_kept_persist:
  assumes "persist_due_decision env job ts nd now s = (x, t)" "find_cron_run i s = Some r"
  shows "find_cron_run i t = Some r"
  using assms unfolding persist_due_decision_def Let_def st_bind_def
  by (auto split: if_splits prod.splits sum.splits dest: find_kept_insert)

lemma find_kept_points:
  assumes "enqueue_points env w e now j ts s = (x, t)" "find_cron_run i s = Some r"
  shows "find_cron_run i t = Some r"
  using assms
proof (induction ts arbitrary: s x t)
  case (Cons a ts)
  then show ?case
    by (auto simp: st_bind_def Let_def split: prod.splits sum.splits dest!: find_kept_insert)
qed simp

lemma find_kept_queue:
  assumes "st_bind (persist_due_decision env job ts nd now) (\<lambda>_. enqueue_points env w e now j us) s = (x, t)"
    "find_cron_run i s = Some r"
  shows "find_cron_run i t = Some r"
proof -
  obtain z u where u: "persist_due_decision env job ts nd now s = (z, u)" by fastforce
  with find_kept_persist [OF u assms(2)] assms(1) show ?thesis
    by (cases z) (auto simp: st_bind_def intro: find_kept_points)
qed

lemma find_kept_job:
  assumes "enqueue_job env w e now_dt now job s = (x, t)" "find_cron_run i s = Some r"
  shows "find_cron_run i t = Some r"
  using assms unfolding enqueue_job_def enqueue_selected_def auto_pause_legacy_short_interval_job_def Let_def
  by (auto elim!: with_resultE split: if_splits prod.splits intro: find_kept_queue)

lemma find_kept_jobs:
  assumes "enqueue_jobs env w e now_dt now jobs s = (x, t)" "find_cron_run i s = Some r"
  shows "find_cron_run i t = Some r"
  using assms
proof (induction jobs arbitrary: s x t)
  case (Cons job jobs)
  then show ?case by (auto simp: st_bind_def split: prod.splits sum.splits dest!: find_kept_job)
qed simp

lemma find_kept_recover:
  assumes "\<forall>(q, j)\<in>set rows. cr_run_id q \<noteq> i" "find_cron_run i s = Some r"
  shows "find_cron_run i (snd (recover_cron_rows env now_dt now rows s)) = Some r"
  using assms
proof (induction rows arbitrary: s)
  case (Cons row rows)
  obtain q j where row: "row = (q, j)" by (cases row)
  have r: "cr_run_id r = i" using Cons.prems(2) by (auto simp: find_cron_run_def dest: sql_get_Some)
  have keep: "cr_run_id (run_failed a b c) = cr_run_id c" "cr_run_id (requeued d a b c) = cr_run_id c" for a b c d
    by (simp_all add: run_failed_def requeued_def)
  have "find_cron_run i (snd (recover_run env now_dt now (q, j) s)) = Some r"
    using Cons.prems r unfolding recover_run_def Let_def row by (auto intro!: find_kept_update simp: keep)
  with Cons.IH Cons.prems(1) row show ?case by (simp add: split_beta Let_def)
qed simp

lemma find_kept_recover_locked:
  assumes "cron_inv env s" "find_cron_run i s = Some r" "cr_job_id r = None"
  shows "find_cron_run i (snd (recover_expired_locked env now_dt now limit s)) = Some r"
  unfolding recover_expired_locked_def
proof (rule find_kept_recover [OF _ assms(2)], clarify)
  fix q j assume "(q, j) \<in> set (expired_runs now limit s)" "i = cr_run_id q"
  then have q: "q \<in> set (db_runs s)" "job_of_run s q = Some j" "find_cron_run (cr_run_id q) s = Some r"
    using assms(2) by (auto simp: expired_runs_def joined_runs_iff dest!: in_set_takeD)
  then have "q = r" using sql_get_unique [OF cron_invD(2) [OF assms(1)] q(1)] by (simp add: find_cron_run_def)
  with q(2) assms(3) show False by (simp add: job_of_run_def)
qed

lemma find_kept_acquire:
  assumes "find_cron_run i s = Some r" "cr_state r = Run_running"
  shows "find_cron_run i (snd (acquire_rows w e now rows s)) = Some r"
  using assms
proof (induction rows arbitrary: s)
  case (Cons row rows)
  let ?u = "update_cron_runs (\<lambda>q. cr_run_id q = cr_run_id row \<and> cr_state q = Run_queued) (claimed w e now) s"
  have "find_cron_run i ?u = Some r" using Cons.prems by (intro find_kept_update) simp_all
  with Cons show ?case by (simp add: acquire_rows_store)
qed simp

lemma find_kept_enqueue:
  assumes "cron_inv env s" "find_cron_run i s = Some r" "cr_job_id r = None" "enqueue_due_body env w e now_dt now lim s = (x, t)"
  shows "find_cron_run i t = Some r"
  using assms(4) find_kept_recover_locked [OF assms(1-3)] unfolding enqueue_due_body_def Let_def
  by (auto split: if_splits intro: find_kept_jobs)

text \<open>C20: A run whose job was deleted while it ran is never recovered: whatever the clock says,
  recovery, polling for due jobs and claiming leave it running, with its lease.\<close>

theorem orphaned_run_is_never_recovered:
  assumes "uuids_ok env" "reachable_store env s" "find_cron_run i s = Some r" "cr_state r = Run_running" "cr_job_id r = None"
    and "recover_expired_cron_runs env clock now_iso limit s = (x, t) \<or>
      enqueue_due_cron_runs env clock daemon_id ttl limit now_iso s = (x, t) \<or>
      map_prod (map_sum id (map row_to_cron_run)) id (acquire_cron_runs env clock daemon_id ttl limit now_iso s) = (x, t)"
  shows "find_cron_run i t = Some r"
proof -
  have inv: "cron_inv env s" using assms(1,2) by (rule reachable_inv)
  note rec = find_kept_recover_locked [OF inv assms(3,5)]
  from assms(6) show ?thesis
  proof (elim disjE)
    assume "recover_expired_cron_runs env clock now_iso limit s = (x, t)"
    then show ?thesis using rec assms(3)
      by (auto simp: recover_expired_cron_runs_def Let_def split_beta elim!: with_resultE)
  next
    assume "enqueue_due_cron_runs env clock daemon_id ttl limit now_iso s = (x, t)"
    then show ?thesis unfolding enqueue_due_cron_runs_def
      by (elim with_resultE)
        (auto simp: assms(3) cron_transaction_def split: prod.splits sum.splits intro: find_kept_enqueue [OF inv assms(3,5)])
  next
    assume "map_prod (map_sum id (map row_to_cron_run)) id (acquire_cron_runs env clock daemon_id ttl limit now_iso s) = (x, t)"
    then obtain z where "acquire_cron_runs env clock daemon_id ttl limit now_iso s = (z, t)"
      by (cases "acquire_cron_runs env clock daemon_id ttl limit now_iso s") auto
    then show ?thesis unfolding acquire_cron_runs_def
      by (elim with_resultE)
        (auto simp: assms(3) Let_def split_beta acquire_locked_def rec intro: find_kept_acquire [OF rec assms(4)])
  qed
qed

definition demo_orphan :: cron_store where
  "demo_orphan = snd (delete_cron_job ''j'' (demo_store 3))"

lemma demo_orphan_reachable: "reachable_store run_env demo_orphan"
proof -
  have "cron_call run_env False (demo_store 3) demo_orphan"
    unfolding demo_orphan_def by (rule call_delete [OF surjective_pairing])
  with demo_reachable [of 3] show ?thesis unfolding reachable_store_def by (rule reach_step)
qed

lemma demo_orphan_run: "find_cron_run ''0'' demo_orphan = Some (hd (db_runs demo_orphan))"
  "cr_state (hd (db_runs demo_orphan)) = Run_running" "cr_job_id (hd (db_runs demo_orphan)) = None"
  "lease_expired (to_iso_utc run_env 9000000000) (hd (db_runs demo_orphan))"
  by code_simp+

theorem orphaned_run_is_never_recovered_witness:
  "lease_expired (to_iso_utc run_env 9000000000) (hd (db_runs demo_orphan)) \<and>
   find_cron_run ''0'' (snd (recover_expired_cron_runs run_env 9000000000 None 100 demo_orphan)) = Some (hd (db_runs demo_orphan))"
  using orphaned_run_is_never_recovered [OF run_env_uuids demo_orphan_reachable demo_orphan_run(1-3) disjI1 [OF surjective_pairing]]
    demo_orphan_run(4) by blast

section \<open>The outcome of a worker\<close>

lemma finish_fenced:
  assumes "cron_inv env s" "find_cron_run (str_strip i) s = Some r" "holds_fence (str_strip d) n r"
    and "finish_cron_run env clock i st res (Some d) (Some n) None s = (Inr x, t)"
  shows "x \<noteq> None" "\<forall>q. find_cron_run (str_strip i) t = Some q \<longrightarrow> run_terminal q"
proof -
  let ?i = "str_strip i" and ?f = "Some (str_strip d, n)"
  obtain a where a: "terminal_state_of st = Inr a"
    and call: "finish_cron_run_locked ?f ?i (res\<lparr>ro_state := a\<rparr>) (to_iso_utc env clock) s = (x, t)"
    using assms(4) by (auto simp: finish_cron_run_def fence_args_def Let_def elim!: with_resultE split: prod.splits)
  let ?u = "update_cron_runs (\<lambda>r. cr_run_id r = ?i \<and> fence_matches ?f r) (settled_run (res\<lparr>ro_state := a\<rparr>) (to_iso_utc env clock)) s"
  have r: "r \<in> set (db_runs s)" "cr_run_id r = ?i" using assms(2) by (auto simp: find_cron_run_def dest: sql_get_Some)
  have found: "fenced_run ?f ?i s = Some r"
    unfolding fenced_run_def find_by_key [OF cron_invD(2) [OF assms(1)]]
    using assms(2,3) by (simp add: find_cron_run_def fence_matches_def)
  have u: "find_cron_run ?i ?u = Some (settled_run (res\<lparr>ro_state := a\<rparr>) (to_iso_utc env clock) r)"
    using assms(2,3) r(2) by (subst find_run_updated) (simp_all add: settled_run_def fence_matches_def)
  have keep: "find_cron_run k (finalize_one_time_job job sx jid now (persist_scope_watermark job sx out ri now (update_cron_jobs jid g v))) \<noteq> None \<and>
      (\<forall>q. find_cron_run k (finalize_one_time_job job sx jid now (persist_scope_watermark job sx out ri now (update_cron_jobs jid g v))) = Some q
         \<longrightarrow> cr_state q = cr_state p)" if "find_cron_run k v = Some p" for k job sx jid now out ri g v p
  proof -
    have w: "find_cron_run k (persist_scope_watermark job sx out ri now (update_cron_jobs jid g v)) = Some p"
      using that by (simp add: persist_scope_watermark_def Let_def find_cron_run_def update_cron_jobs_def)
    have "find_cron_run k (delete_job_row jid v') = map_option (\<lambda>r. if cr_job_id r = Some jid then r\<lparr>cr_job_id := None\<rparr> else r) (find_cron_run k v')" for v'
      using find_run_updated [of "cr_job_id_update (\<lambda>_. None)" k "\<lambda>r. cr_job_id r = Some jid" v']
      by (simp add: delete_job_row_def find_cron_run_def update_cron_runs_def)
    with w show ?thesis by (auto simp: finalize_one_time_job_def Let_def)
  qed
  have "x \<noteq> None \<and> (\<forall>q. find_cron_run ?i t = Some q \<longrightarrow> cr_state q = a)"
    using call found u keep [OF u] unfolding finish_cron_run_locked_def Let_def
    by (auto simp: settled_run_def split: option.splits)
  with terminal_state_of_Inr [OF a] show "x \<noteq> None" "\<forall>q. find_cron_run ?i t = Some q \<longrightarrow> run_terminal q"
    by (auto simp: run_terminal_def)
qed

end
