(* ===== verification/Cron_Worker_Properties.thy ===== *)
theory Cron_Worker_Properties
  imports Cron_Run_Properties
begin

text \<open>
  The properties of the workers and of polling: the outcome of a worker is stored under its fence
  or not at all, a run is delivered to a target at most once, a scheduler has no more workers than
  it may run at once, and due points beyond the room of a job are dropped.
\<close>

section \<open>The outcome of a worker\<close>

lemma retry_update_fields:
  "cr_run_id (retry_update env t j err n r) = cr_run_id r" "cr_state (retry_update env t j err n r) \<in> {Run_failed, Run_queued}"
  by (auto simp: retry_update_def Let_def run_failed_def requeued_def)

lemma retry_fenced:
  assumes "cron_inv env s" "find_cron_run (str_strip i) s = Some r" "holds_fence (str_strip d) n r" "str_strip i \<noteq> []"
    and "retry_cron_run env clock i err (Some d) (Some n) None s = (x, t)"
  obtains q where "x = Inr (Some q)" "find_cron_run (str_strip i) t = Some q" "cr_state q \<in> {Run_failed, Run_queued}"
proof -
  let ?i = "str_strip i" and ?f = "Some (str_strip d, n)" and ?g = "retry_update env clock (job_of_run s r) err (cr_attempts r)"
  let ?u = "update_cron_runs (\<lambda>r'. cr_run_id r' = ?i \<and> holds_fence (opt_or (cr_lease_owner r) []) (cr_attempts r) r') ?g s"
  have r: "cr_run_id r = ?i" using assms(2) by (auto simp: find_cron_run_def dest: sql_get_Some)
  have found: "find (\<lambda>r. cr_run_id r = ?i \<and> cr_state r = Run_running \<and> fence_matches ?f r) (db_runs s) = Some r"
    unfolding find_by_key [OF cron_invD(2) [OF assms(1)]]
    using assms(2,3) by (simp add: find_cron_run_def fence_matches_def holds_fence_def)
  have u: "find_cron_run ?i ?u = Some (?g r)"
    using assms(2,3) r by (subst find_run_updated) (auto simp: retry_update_fields holds_fence_def opt_or_def)
  have "x = Inr (Some (?g r))" "t = ?u"
    using assms(4,5) found u by (auto simp: retry_cron_run_def fence_args_def Let_def)
  with u show thesis by (intro that [of "?g r"]) (simp_all only: retry_update_fields)
qed

lemma finish_outcome_held:
  assumes "cron_inv env (cy_db y)" "find_cron_run (str_strip i) (cy_db y) = Some r" "holds_fence (str_strip d) n r"
    and "terminal_state_of st = Inr a" "str_strip i \<noteq> []" and "finish_outcome env clock i j st out d n y = (x, y')"
  shows "\<exists>text. x = Inr text \<and> text \<noteq> ''lease_lost''" "\<forall>q. find_cron_run (str_strip i) (cy_db y') = Some q \<longrightarrow> cr_state q \<noteq> Run_running"
proof -
  obtain z t where z: "finish_cron_run env clock i st out (Some d) (Some n) None (cy_db y) = (Inr z, t)"
    using assms(4,5) by (auto simp: finish_cron_run_def fence_args_def Let_def split_beta)
  note fin = finish_fenced [OF assms(1-3) z]
  have lost: "terminal_state_of ''lease_lost'' = Inl (Cron_ValueError ''invalid terminal state: lease_lost'')" by code_simp
  show "\<exists>text. x = Inr text \<and> text \<noteq> ''lease_lost''"
    using assms(4,6) z fin(1) lost by (auto simp: finish_outcome_def st_bind_def on_db_def)
  show "\<forall>q. find_cron_run (str_strip i) (cy_db y') = Some q \<longrightarrow> cr_state q \<noteq> Run_running"
    using assms(6) z fin by (auto simp: finish_outcome_def st_bind_def on_db_def run_terminal_def terminal_run_states_def)
qed

lemma retry_outcome_held:
  assumes "cron_inv env (cy_db y)" "find_cron_run (str_strip i) (cy_db y) = Some r" "holds_fence (str_strip d) n r"
    and "str_strip i \<noteq> []" "retry_outcome env clock i j err d n y = (x, y')"
  shows "\<exists>text. x = Inr text \<and> text \<noteq> ''lease_lost''"
    "\<forall>q. find_cron_run (str_strip i) (cy_db y') = Some q \<longrightarrow> cr_state q \<noteq> Run_running"
proof -
  obtain z t where z: "retry_cron_run env clock i err (Some d) (Some n) None (cy_db y) = (z, t)" by fastforce
  obtain q where q: "z = Inr (Some q)" "find_cron_run (str_strip i) t = Some q" "cr_state q \<in> {Run_failed, Run_queued}"
    by (rule retry_fenced [OF assms(1-4) z])
  have "run_state_text (cr_state q) \<noteq> ''lease_lost''" using q(3) by (auto simp: run_state_text_def)
  then show "\<exists>text. x = Inr text \<and> text \<noteq> ''lease_lost''"
    "\<forall>q. find_cron_run (str_strip i) (cy_db y') = Some q \<longrightarrow> cr_state q \<noteq> Run_running"
    using assms(5) z q by (auto simp: retry_outcome_def st_bind_def on_db_def)
qed

text \<open>A worker's outcome is stored under its fence or not at all: when the store still holds its
  claim, the run is no longer running afterwards and the stored state is reported; when the claim
  is gone, the store is left as it is and the only trace is the event that reports it.\<close>

lemma outcome_stored_under_fence:
  assumes "uuids_ok env" "reachable_store env (cy_db y)" "terminal_state_of st = Inr a" "str_strip i \<noteq> []" "str_strip d \<noteq> []"
    and "persist_cron_run_outcome env clock i j st result err d n y = (x, y')"
  shows "if \<exists>r. find_cron_run (str_strip i) (cy_db y) = Some r \<and> holds_fence (str_strip d) n r
    then (\<exists>text. x = Inr text \<and> text \<noteq> ''lease_lost'') \<and>
      (\<forall>q. find_cron_run (str_strip i) (cy_db y') = Some q \<longrightarrow> cr_state q \<noteq> Run_running)
    else x = Inr ''lease_lost'' \<and> y' = fence_rejected i j d n y"
proof -
  have inv: "cron_inv env (cy_db y)" using assms(1,2) by (rule reachable_inv)
  show ?thesis
  proof (cases "\<exists>r. find_cron_run (str_strip i) (cy_db y) = Some r \<and> holds_fence (str_strip d) n r")
    case True
    then obtain r where r: "find_cron_run (str_strip i) (cy_db y) = Some r" "holds_fence (str_strip d) n r" by blast
    have "(\<exists>text. x = Inr text \<and> text \<noteq> ''lease_lost'') \<and>
      (\<forall>q. find_cron_run (str_strip i) (cy_db y') = Some q \<longrightarrow> cr_state q \<noteq> Run_running)"
      using assms(6) finish_outcome_held [OF inv r assms(3,4)] retry_outcome_held [OF inv r assms(4)]
      by (auto simp: persist_cron_run_outcome_def Let_def split: option.splits if_splits)
    with True show ?thesis by simp
  next
    case False
    then have lost: "\<forall>q. find_cron_run (str_strip i) (cy_db y) = Some q \<longrightarrow> \<not> holds_fence (str_strip d) n q" by blast
    note refused = refused_calls [OF inv lost assms(4,5)]
    have "x = Inr ''lease_lost'' \<and> y' = fence_rejected i j d n y"
      using assms(6) refused(2) [OF assms(3)] refused(3)
      by (auto simp: persist_cron_run_outcome_def finish_outcome_def retry_outcome_def on_db_def st_bind_def Let_def
          split: option.splits if_splits)
    with False show ?thesis by simp
  qed
qed

definition demo_sys :: "nat \<Rightarrow> cron_sys" where
  "demo_sys n = \<lparr>cy_db = demo_store n, cy_events = [], cy_sent = []\<rparr>"

section \<open>Deliveries\<close>

text \<open>C19: Whatever daemons share the store, however their workers interleave, crash and start over,
  the delivery handler is called at most once for a run and a target.\<close>

theorem deliveries_at_most_once:
  assumes "uuids_ok env" "reach (world_step env) (empty_world empty_cron_store) w"
  shows "distinct (cy_sent (wd_sys w))"
proof -
  have "world_inv env w" by (rule world.inv_reach [OF assms(2) empty_world_inv [OF empty_cron_inv [OF assms(1)]]])
  then show ?thesis by (simp add: world_inv_def Let_def)
qed

text \<open>The worker of the sample run, from the claim on.\<close>

definition demo_run :: cron_run where
  "demo_run = hd (db_runs (demo_store 3))"

definition demo_scheduler :: cron_scheduler where
  "demo_scheduler = (new_scheduler ''d1'' [] None 60 2)\<lparr>sch_delivery_handler := Some (\<lambda>_ _ _ _ _. None)\<rparr>"

definition demo_move :: "worker_phase \<times> cron_sys \<Rightarrow> worker_phase option \<times> cron_sys" where
  "demo_move py = worker_phase_step run_env (\<lambda>_. 3100000000) demo_scheduler demo_run (fst py) (snd py)"

fun demo_phase :: "nat \<Rightarrow> worker_phase \<times> cron_sys" where
  "demo_phase 0 = (Wp_claimed, demo_sys 3)"
| "demo_phase (Suc n) = map_prod (case_option Wp_claimed id) id (demo_move (demo_phase n))"

definition demo_world :: "nat \<Rightarrow> cron_world" where
  "demo_world n = \<lparr>wd_sys = snd (demo_phase n), wd_workers = [\<lparr>cw_run = demo_run, cw_phase = fst (demo_phase n)\<rparr>]\<rparr>"

lemma demo_claimed: "acquire_cron_runs run_env 3000000000 ''d1'' 60 5 None (demo_store 2) = (Inr [demo_run], demo_store 3)"
  by code_simp

lemma demo_sent: "cy_sent (snd (demo_phase 4)) = [(''0'', ''announce:me'')]"
  by code_simp

lemma demo_moves:
  "fst (demo_move (demo_phase 0)) \<noteq> None" "fst (demo_move (demo_phase 1)) \<noteq> None"
  "fst (demo_move (demo_phase 2)) \<noteq> None" "fst (demo_move (demo_phase 3)) \<noteq> None"
  by code_simp+

lemma demo_world_move:
  assumes "fst (demo_move (demo_phase n)) \<noteq> None"
  shows "world_step run_env (demo_world n) (demo_world (Suc n))"
proof -
  let ?w = "\<lparr>cw_run = demo_run, cw_phase = fst (demo_phase n)\<rparr>"
  obtain p y where py: "demo_move (demo_phase n) = (Some p, y)" using assms by (cases "demo_move (demo_phase n)") auto
  then have "worker_phase_step run_env (\<lambda>_. 3100000000) demo_scheduler (cw_run ?w) (cw_phase ?w) (snd (demo_phase n)) = (Some p, y)"
    by (simp add: demo_move_def)
  from world_phase [OF this, where ws = "[]" and vs = "[]"] py show ?thesis by (simp add: demo_world_def)
qed

lemma demo_world_reach: "reach (world_step run_env) (empty_world empty_cron_store) (demo_world 4)"
proof -
  have calls: "world_step run_env (empty_world (demo_store n)) (empty_world (demo_store (Suc n)))" for n
    using world_call [of run_env "cy_db_update (\<lambda>_. demo_store n) (demo_sys 0)" "demo_store (Suc n)" "[]"] demo_next_call [of True "demo_store n" n]
    by (simp add: empty_world_def demo_sys_def)
  have start: "reach (world_step run_env) (empty_world (demo_store 0)) (empty_world (demo_store n))" for n
    by (induction n) (auto intro: reach_refl reach_step calls simp del: demo_store.simps)
  have claim: "world_step run_env (empty_world (demo_store 2)) (demo_world 0)"
    using world_claim [of run_env 3000000000 "''d1''" 60 5 None "demo_sys 2" "[demo_run]" "demo_store 3" "[]"] demo_claimed
    by (simp add: empty_world_def demo_sys_def demo_world_def)
  have moves: "world_step run_env (demo_world 0) (demo_world 1)" "world_step run_env (demo_world 1) (demo_world 2)"
    "world_step run_env (demo_world 2) (demo_world 3)" "world_step run_env (demo_world 3) (demo_world 4)"
    using demo_moves [THEN demo_world_move] by (simp_all add: numeral_eq_Suc)
  from reach_step [OF reach_step [OF reach_step [OF reach_step [OF reach_step [OF start claim] moves(1)] moves(2)] moves(3)] moves(4)]
  show ?thesis by simp
qed

theorem deliveries_at_most_once_witness:
  "distinct (cy_sent (wd_sys (demo_world 4))) \<and> cy_sent (wd_sys (demo_world 4)) = [(''0'', ''announce:me'')]"
  using deliveries_at_most_once [OF run_env_uuids demo_world_reach] demo_sent by (simp add: demo_world_def)

section \<open>Claims\<close>

lemma acquire_rows_kept:
  assumes "keys_unique cr_run_id (db_runs s)" "candidates_current s rows" "r \<in> set (fst (acquire_rows w e now rows s))"
  shows "find_cron_run (cr_run_id r) (snd (acquire_rows w e now rows s)) = Some r"
  using assms
proof (induction rows arbitrary: s)
  case (Cons row rows)
  let ?u = "update_cron_runs (\<lambda>q. cr_run_id q = cr_run_id row \<and> cr_state q = Run_queued) (claimed w e now) s"
  let ?busy = "row_scope s row \<noteq> [] \<and> scope_has_running_run (row_scope s row) (cr_run_id row) s"
  show ?case
  proof (cases ?busy)
    case True
    with Cons show ?thesis by (simp add: acquire_rows_Cons candidates_current_def)
  next
    case False
    have cur: "row \<in> set (db_runs s)" "cr_state row = Run_queued" using Cons.prems(2) by (simp_all add: candidates_current_def)
    have uniq: "keys_unique cr_run_id (db_runs ?u)" using Cons.prems(1) by (simp add: update_cron_runs_def claim.unique_update)
    have found: "find_cron_run (cr_run_id row) ?u = Some (claimed w e now row)"
      using sql_get_unique [OF Cons.prems(1) cur(1)] cur(2) by (simp add: find_cron_run_def update_cron_runs_def claim.get_update)
    have "r = claimed w e now row \<or> r \<in> set (fst (acquire_rows w e now rows ?u))"
      using Cons.prems(3) False found by (auto simp: acquire_rows_Cons Let_def split: prod.splits nat.splits)
    with found Cons.IH [OF uniq candidates_tail [OF Cons.prems(2) refl]] find_kept_acquire [OF found] False show ?thesis
      by (auto simp: acquire_rows_store claimed_def)
  qed
qed simp

lemma recover_locked_frame: "db_control (snd (recover_expired_locked env now_dt now limit s)) = db_control s"
proof -
  have row: "db_control (snd (recover_run env now_dt now (r, j) s)) = db_control s" for r j s
    by (simp add: recover_run_def Let_def update_cron_runs_def)
  have "db_control (snd (recover_cron_rows env now_dt now rows s)) = db_control s" for rows
  proof (induction rows arbitrary: s)
    case (Cons rj rows)
    then show ?case using row by (cases rj) (simp add: split_beta Let_def)
  qed simp
  then show ?thesis by (simp add: recover_expired_locked_def)
qed

text \<open>Every run that a poll returns is stored as running under the fence of the polling daemon and
  the attempt it reports, with a lease of the requested time; while the scheduler is paused a
  poll returns nothing.\<close>

lemma claimed_runs_hold_fence:
  assumes "uuids_ok env" "reachable_store env s" "acquire_cron_runs env clock d ttl limit None s = (Inr runs, t)"
  shows "(\<forall>r\<in>set runs. find_cron_run (cr_run_id r) t = Some r \<and> holds_fence (str_strip d) (cr_attempts r) r \<and>
      cr_lease_expires_at r = Some (to_iso_utc env (after_seconds clock (max 1 ttl)))) \<and>
    (scheduler_is_paused s \<longrightarrow> runs = [])"
proof -
  let ?now = "to_iso_utc env clock" and ?w = "str_strip d" and ?lim = "max 1 (min limit 500)"
  let ?e = "to_iso_utc env (after_seconds clock (max 1 ttl))"
  let ?u = "snd (recover_expired_locked env clock ?now (max 100 (?lim * 2)) s)"
  have inv: "cron_inv env s" using assms(1,2) by (rule reachable_inv)
  have inv_u: "cron_inv env ?u" by (rule stmts.inv_reach [OF recover_locked_steps [OF inv, where b = True] inv])
  have call: "acquire_locked env ?w ?e clock ?now ?lim s = (runs, t)"
    using assms(3) by (auto simp: acquire_cron_runs_def Let_def split_beta elim!: with_resultE)
  have paused: "scheduler_is_paused ?u = scheduler_is_paused s"
    by (simp add: recover_locked_frame scheduler_is_paused_def)
  have kept: "find_cron_run (cr_run_id r) t = Some r \<and> holds_fence ?w (cr_attempts r) r \<and> cr_lease_expires_at r = Some ?e"
    if r: "r \<in> set runs" for r
  proof -
    have "\<not> scheduler_is_paused ?u" using call r by (auto simp: acquire_locked_def Let_def)
    then have rows: "acquire_rows ?w ?e ?now (claim_candidates ?w ?now ?lim ?u) ?u = (runs, t)"
      using call by (simp add: acquire_locked_def Let_def)
    note uniq = cron_invD(2) [OF inv_u] claim_candidates_current [OF inv_u, of ?w ?now ?lim]
    have "find_cron_run (cr_run_id r) t = Some r" using acquire_rows_kept [OF uniq, of r ?w ?e ?now] rows r by simp
    moreover obtain q where "r = claimed ?w ?e ?now q" using acquire_rows_result [OF uniq, of r ?w ?e ?now] rows r by auto
    ultimately show ?thesis by (simp add: claimed_def holds_fence_def)
  qed
  with call paused show ?thesis by (auto simp: acquire_locked_def Let_def)
qed

section \<open>The number of workers\<close>

lemma acquire_rows_length: "length (fst (acquire_rows w e now rows s)) \<le> length rows"
proof (induction rows arbitrary: s)
  case (Cons row rows)
  let ?u = "update_cron_runs (\<lambda>q. cr_run_id q = cr_run_id row \<and> cr_state q = Run_queued) (claimed w e now) s"
  from Cons.IH [of s] Cons.IH [of ?u] show ?case
    by (auto simp: acquire_rows_Cons Let_def split: prod.split nat.split option.split)
qed simp

lemma acquire_length:
  assumes "acquire_cron_runs env clock d ttl limit now_iso s = (Inr runs, t)" "0 < limit"
  shows "int (length runs) \<le> limit"
proof -
  have "int (length (fst (acquire_locked env w e now_dt now lim s))) \<le> lim" if "0 < lim" for w e now_dt now lim
  proof -
    have "length (claim_candidates w now lim u) \<le> nat lim" for u by (simp add: claim_candidates_def)
    from le_trans [OF acquire_rows_length this] that show ?thesis by (simp add: acquire_locked_def Let_def nat_le_iff le_nat_iff)
  qed
  from this [of "max 1 (min limit 500)"] assms show ?thesis
    by (fastforce simp: acquire_cron_runs_def Let_def split_beta elim!: with_resultE)
qed

lemma poll_length:
  assumes "recover_and_acquire_cron_runs env clk d ttl capacity can_start y = (Inr runs, y')" "0 < capacity"
  shows "int (length runs) \<le> capacity"
  using assms unfolding recover_and_acquire_cron_runs_def st_bind_def
  by (auto split: prod.splits sum.splits if_splits dest!: on_db_result(1) dest: acquire_length)

lemma start_workers:
  "fold start_worker runs (sch, y) = (sch', y') \<Longrightarrow> distinct (sch_workers sch) \<Longrightarrow>
     distinct (sch_workers sch') \<and> length (sch_workers sch') \<le> length (sch_workers sch) + length runs \<and>
     sch_max_concurrent_runs sch' = sch_max_concurrent_runs sch"
proof (induction runs arbitrary: sch y)
  case (Cons r runs)
  obtain u v where uv: "start_worker r (sch, y) = (u, v)" by fastforce
  have "distinct (sch_workers u)" "length (sch_workers u) \<le> Suc (length (sch_workers sch))"
    "sch_max_concurrent_runs u = sch_max_concurrent_runs sch"
    using uv Cons.prems(2) by (auto simp: start_worker_def Let_def split: if_splits)
  with Cons.IH [of u v] Cons.prems(1) uv show ?case by simp
qed simp

text \<open>A round of the scheduler keeps the workers distinct and never has more of them than the
  configured number of concurrent runs, whatever the store returns.\<close>

lemma workers_within_limit:
  assumes "int (length (sch_workers sch)) \<le> sch_max_concurrent_runs sch" "distinct (sch_workers sch)"
    and "scheduler_round env clk can_start alive sch y = (sch', y')"
  shows "int (length (sch_workers sch')) \<le> sch_max_concurrent_runs sch' \<and> distinct (sch_workers sch')"
proof -
  let ?s = "reap_workers alive sch"
  let ?c = "max 0 (sch_max_concurrent_runs ?s - int (length (sch_workers ?s)))"
  have reaped: "distinct (sch_workers ?s)" "length (sch_workers ?s) \<le> length (sch_workers sch)"
    "sch_max_concurrent_runs ?s = sch_max_concurrent_runs sch"
    using assms(2) by (simp_all add: reap_workers_def)
  obtain acquired u where a: "(if ?c > 0 then recover_and_acquire_cron_runs env clk (sch_daemon_id ?s) (sch_lease_ttl_seconds ?s) ?c can_start y
      else (Inr [], y)) = (acquired, u)" by fastforce
  have few: "int (length runs) \<le> ?c" if "acquired = Inr runs" for runs
    using a that by (cases "?c > 0") (simp_all only: if_True if_False prod.inject sum.inject poll_length simp_thms, auto)
  have "sch' = ?s \<or> (\<exists>runs v. acquired = Inr runs \<and> fold start_worker runs (?s, u) = (sch', v))"
    using assms(3) a unfolding scheduler_round_def Let_def
    by (auto split: sum.splits prod.splits)
  then show ?thesis
  proof
    assume "sch' = ?s"
    with reaped assms(1) show ?thesis by simp
  next
    assume "\<exists>runs v. acquired = Inr runs \<and> fold start_worker runs (?s, u) = (sch', v)"
    then obtain runs v where runs: "acquired = Inr runs" "fold start_worker runs (?s, u) = (sch', v)" by blast
    from start_workers [OF runs(2) reaped(1)] few [OF runs(1)] reaped assms(1) show ?thesis by linarith
  qed
qed

section \<open>Due points beyond the room of a job\<close>

lemma enqueue_points_length:
  "enqueue_points env w e now j ts s = (Inr queued, t) \<Longrightarrow> length queued \<le> length ts \<and> db_jobs t = db_jobs s"
proof (induction ts arbitrary: s queued)
  case (Cons a ts)
  then show ?case
    by (auto simp: st_bind_def Let_def insert_cron_run_new_def add_run_row_def uuid_drawn_def split: prod.splits sum.splits if_splits)
      (fastforce dest: Cons.IH)+
qed simp

lemma persist_next_due:
  assumes "find_cron_job (cj_job_id job) s = Some job" "persist_due_decision env job points (Some next_due) now s = (Inr z, t)"
  shows "find_cron_job (cj_job_id job) t = Some (job\<lparr>cj_next_due_at := Some (to_iso_utc env next_due), cj_updated_at := now\<rparr>)"
proof -
  have t: "t = update_cron_jobs (cj_job_id job) (\<lambda>j. j\<lparr>cj_next_due_at := Some (to_iso_utc env next_due), cj_updated_at := now\<rparr>) s"
    using assms(2) by (simp add: persist_due_decision_def Let_def)
  have keyed: "keyed_update cj_job_id (\<lambda>j. j\<lparr>cj_next_due_at := Some (to_iso_utc env next_due), cj_updated_at := now\<rparr>)"
    by unfold_locales simp
  show ?thesis using assms(1) unfolding t by (simp add: find_cron_job_def update_cron_jobs_def keyed_update.get_update [OF keyed])
qed

text \<open>Due points that do not fit below the limit of concurrent runs are dropped: no more runs are
  queued than there is room, while the job is armed for the due time after all of them.\<close>

lemma due_points_beyond_room_dropped:
  assumes "find_cron_job (cj_job_id job) s = Some job" "interval_too_short (cj_schedule job) = Inr False"
    and "int (active_cron_run_count (cj_job_id job) (cron_job_scope job) s) < run_limit job"
    and "select_due_points_for_job env (row_to_cron_job job) now_dt = Inr (points, Some next_due)"
    and "enqueue_job env w e now_dt now job s = (Inr queued, t)"
  shows "int (length queued) \<le> run_limit job - int (active_cron_run_count (cj_job_id job) (cron_job_scope job) s) \<and>
    map_option cj_next_due_at (find_cron_job (cj_job_id job) t) = Some (Some (to_iso_utc env next_due))"
proof -
  let ?room = "run_limit job - int (active_cron_run_count (cj_job_id job) (cron_job_scope job) s)"
  let ?pts = "if int (length points) > ?room then take (nat ?room) points else points"
  have "st_bind (persist_due_decision env job ?pts (Some next_due) now) (\<lambda>_. enqueue_points env w e now (cj_job_id job) ?pts) s = (Inr queued, t)"
    using assms(2-5) by (simp add: enqueue_job_def enqueue_selected_def Let_def split: if_splits)
  then obtain z u where u: "persist_due_decision env job ?pts (Some next_due) now s = (Inr z, u)"
    and pts: "enqueue_points env w e now (cj_job_id job) ?pts u = (Inr queued, t)"
    by (auto simp: st_bind_def split: prod.splits sum.splits)
  have "int (length ?pts) \<le> ?room" using assms(3) by simp
  with enqueue_points_length [OF pts] persist_next_due [OF assms(1) u] show ?thesis
    by (simp add: find_cron_job_def)
qed

definition demo_cron_job :: cron_job where
  "demo_cron_job = hd (db_jobs (demo_store 1))"

lemma demo_due:
  "find_cron_job (cj_job_id demo_cron_job) (demo_store 1) = Some demo_cron_job" "interval_too_short (cj_schedule demo_cron_job) = Inr False"
  "active_cron_run_count (cj_job_id demo_cron_job) (cron_job_scope demo_cron_job) (demo_store 1) = 0" "run_limit demo_cron_job = 1"
  "select_due_points_for_job run_env (row_to_cron_job demo_cron_job) 1200000000 = Inr ([1060000000, 1120000000, 1180000000], Some 1240000000)"
  by code_simp+

end
