(* ===== verification/Channel_Sessions.thy ===== *)
theory Channel_Sessions
  imports SQL_Table
begin

text \<open>
  Sessions of the control plane and their routing: the tables of chats, sessions and agents with
  their operations (\<open>modules/controlplane/storage/store.py\<close>), the role of a user
  (\<open>runtime/auth.py\<close>), the parser of slash commands (\<open>runtime/parser.py\<close>) and the router
  (\<open>runtime/router.py\<close>), which binds a chat to the session that a message asks for if its user may
  have it. Timestamps are instants; \<open>uuid i\<close> is the \<open>i\<close>-th identifier that is drawn.
\<close>

section \<open>Tables\<close>

record chat_binding =
  cb_chat_key :: string
  cb_session_id :: string
  cb_active_agent_id :: "string option"
  cb_updated_at :: int

record cp_session =
  se_session_id :: string
  se_user_key :: "string option"
  se_chat_key :: "string option"
  se_title :: "string option"
  se_created_at :: int
  se_updated_at :: int

record session_agent =
  sa_session_id :: string
  sa_agent_id :: string
  sa_updated_at :: int

record session_tables =
  st_bindings :: "chat_binding list"
  st_sessions :: "cp_session list"
  st_agents :: "session_agent list"
  st_known_agents :: "(string \<times> string) list"
  st_uuids :: nat

definition DEFAULT_AGENT :: string where
  "DEFAULT_AGENT = ''agent:default''"

definition empty_session_tables :: session_tables where
  "empty_session_tables =
     \<lparr>st_bindings = [], st_sessions = [], st_agents = [],
      st_known_agents = [(DEFAULT_AGENT, ''Default Agent''), (''agent:brain'', ''Brain Agent'')], st_uuids = 0\<rparr>"

text \<open>\<open>INSERT ... ON CONFLICT(key) DO UPDATE\<close>: \<open>merge old new\<close> is the row that replaces an old one.\<close>

definition sql_upsert :: "('r \<Rightarrow> 'k) \<Rightarrow> ('r \<Rightarrow> 'r \<Rightarrow> 'r) \<Rightarrow> 'r \<Rightarrow> 'r list \<Rightarrow> 'r list" where
  "sql_upsert key merge row rows =
     (if sql_get key (key row) rows = None then rows @ [row]
      else sql_update (\<lambda>r. key r = key row) (\<lambda>r. merge r row) rows)"

section \<open>Sessions\<close>

definition get_chat_binding :: "string \<Rightarrow> session_tables \<Rightarrow> chat_binding option" where
  "get_chat_binding chat_key s = sql_get cb_chat_key chat_key (st_bindings s)"

definition put_chat_binding :: "int \<Rightarrow> string \<Rightarrow> string \<Rightarrow> string option \<Rightarrow> session_tables \<Rightarrow> session_tables" where
  "put_chat_binding now chat_key session_id agent_id s =
     s\<lparr>st_bindings := sql_upsert cb_chat_key (\<lambda>_ new. new)
        \<lparr>cb_chat_key = chat_key, cb_session_id = session_id, cb_active_agent_id = agent_id, cb_updated_at = now\<rparr> (st_bindings s)\<rparr>"

definition coalesce :: "'a option \<Rightarrow> 'a option \<Rightarrow> 'a option" where
  "coalesce x y = (case x of None \<Rightarrow> y | Some _ \<Rightarrow> x)"

definition ensure_session_locked :: "int \<Rightarrow> string \<Rightarrow> string option \<Rightarrow> string option \<Rightarrow> session_tables \<Rightarrow> session_tables" where
  "ensure_session_locked now session_id user_key chat_key s =
     s\<lparr>st_sessions := sql_upsert se_session_id
        (\<lambda>old new. old\<lparr>se_user_key := coalesce (se_user_key old) (se_user_key new),
           se_chat_key := coalesce (se_chat_key old) (se_chat_key new), se_updated_at := se_updated_at new\<rparr>)
        \<lparr>se_session_id = session_id, se_user_key = user_key, se_chat_key = chat_key, se_title = None, se_created_at = now,
         se_updated_at = now\<rparr> (st_sessions s)\<rparr>"

definition set_session_agent_locked :: "int \<Rightarrow> string \<Rightarrow> string \<Rightarrow> session_tables \<Rightarrow> session_tables" where
  "set_session_agent_locked now session_id agent_id s =
     s\<lparr>st_agents := sql_upsert sa_session_id (\<lambda>_ new. new)
        \<lparr>sa_session_id = session_id, sa_agent_id = agent_id, sa_updated_at = now\<rparr> (st_agents s)\<rparr>"

definition resolve_agent :: "string \<Rightarrow> session_tables \<Rightarrow> string" where
  "resolve_agent session_id s =
     (case sql_get sa_session_id session_id (st_agents s) of
        None \<Rightarrow> DEFAULT_AGENT
      | Some r \<Rightarrow> if sa_agent_id r = [] then DEFAULT_AGENT else sa_agent_id r)"

definition set_chat_binding :: "int \<Rightarrow> string \<Rightarrow> string \<Rightarrow> string option \<Rightarrow> session_tables \<Rightarrow> session_tables" where
  "set_chat_binding now chat_key session_id agent_id s =
     (let s = ensure_session_locked now session_id None (Some chat_key) (put_chat_binding now chat_key session_id agent_id s)
      in case agent_id of
           None \<Rightarrow> s
         | Some a \<Rightarrow> if a = [] then s else set_session_agent_locked now session_id a s)"

definition new_session :: "(nat \<Rightarrow> string) \<Rightarrow> int \<Rightarrow> string \<Rightarrow> string \<Rightarrow> session_tables \<Rightarrow> string \<times> session_tables" where
  "new_session uuid now user_key chat_key s =
     (let session_id = ''sess-'' @ take 12 (uuid (st_uuids s)); s = s\<lparr>st_uuids := Suc (st_uuids s)\<rparr>
      in (session_id, set_session_agent_locked now session_id DEFAULT_AGENT
            (put_chat_binding now chat_key session_id (Some DEFAULT_AGENT)
              (ensure_session_locked now session_id (Some user_key) (Some chat_key) s))))"

definition resolve_session :: "(nat \<Rightarrow> string) \<Rightarrow> int \<Rightarrow> string \<Rightarrow> string \<Rightarrow> session_tables \<Rightarrow> string \<times> session_tables" where
  "resolve_session uuid now user_key chat_key s =
     (case get_chat_binding chat_key s of
        Some b \<Rightarrow> (cb_session_id b, ensure_session_locked now (cb_session_id b) (Some user_key) (Some chat_key) s)
      | None \<Rightarrow> new_session uuid now user_key chat_key s)"

definition rebind_session :: "(nat \<Rightarrow> string) \<Rightarrow> int \<Rightarrow> string \<Rightarrow> string \<Rightarrow> session_tables \<Rightarrow> string \<times> session_tables" where
  "rebind_session = new_session"

definition bind_session :: "int \<Rightarrow> string \<Rightarrow> string \<Rightarrow> string \<Rightarrow> session_tables \<Rightarrow> session_tables" where
  "bind_session now user_key chat_key session_id s =
     (let s = ensure_session_locked now session_id (Some user_key) (Some chat_key) s
      in put_chat_binding now chat_key session_id (Some (resolve_agent session_id s)) s)"

definition session_owner :: "string \<Rightarrow> session_tables \<Rightarrow> string option" where
  "session_owner session_id s =
     (case sql_get se_session_id session_id (st_sessions s) of None \<Rightarrow> None | Some r \<Rightarrow> se_user_key r)"

definition bind_session_owned :: "int \<Rightarrow> string \<Rightarrow> string \<Rightarrow> string \<Rightarrow> bool \<Rightarrow> session_tables \<Rightarrow> bool \<times> session_tables" where
  "bind_session_owned now user_key chat_key session_id is_admin s =
     (case session_owner session_id s of
        None \<Rightarrow> (False, s)
      | Some owner \<Rightarrow>
          if owner \<noteq> user_key \<and> \<not> is_admin then (False, s)
          else (True, bind_session now user_key chat_key session_id s))"

definition list_sessions :: "string \<Rightarrow> string option \<Rightarrow> session_tables \<Rightarrow> (cp_session \<times> string) list" where
  "list_sessions user_key chat_key s =
     map (\<lambda>r. (r, case sql_get sa_session_id (se_session_id r) (st_agents s) of None \<Rightarrow> DEFAULT_AGENT | Some a \<Rightarrow> sa_agent_id a))
       (sql_order_desc se_updated_at
         (filter (\<lambda>r. se_user_key r = Some user_key \<and> (opt_truthy chat_key \<longrightarrow> se_chat_key r = chat_key)) (st_sessions s)))"

definition set_session_title :: "int \<Rightarrow> string \<Rightarrow> string \<Rightarrow> session_tables \<Rightarrow> session_tables" where
  "set_session_title now session_id title s =
     (let s = ensure_session_locked now session_id None None s
      in s\<lparr>st_sessions := sql_update (\<lambda>r. se_session_id r = session_id)
            (\<lambda>r. r\<lparr>se_title := Some (str_strip title), se_updated_at := now\<rparr>) (st_sessions s)\<rparr>)"

definition get_session_title :: "string \<Rightarrow> session_tables \<Rightarrow> string option" where
  "get_session_title session_id s =
     (case sql_get se_session_id session_id (st_sessions s) of None \<Rightarrow> None | Some r \<Rightarrow> se_title r)"

text \<open>Chat, session, and owner and chat of the session if it has a row.\<close>

definition list_session_bindings :: "int \<Rightarrow> session_tables \<Rightarrow> (string \<times> string \<times> string option \<times> string option) list" where
  "list_session_bindings limit s =
     map (\<lambda>b. case sql_get se_session_id (cb_session_id b) (st_sessions s) of
            None \<Rightarrow> (cb_chat_key b, cb_session_id b, None, None)
          | Some r \<Rightarrow> (cb_chat_key b, cb_session_id b, se_user_key r, se_chat_key r))
       (take (nat (max 1 limit)) (sql_order_desc cb_updated_at (st_bindings s)))"

text \<open>\<open>None\<close> is the error for an unknown agent.\<close>

definition set_agent :: "int \<Rightarrow> string \<Rightarrow> string \<Rightarrow> session_tables \<Rightarrow> session_tables option" where
  "set_agent now session_id agent_id s =
     (if \<not> dict_has (st_known_agents s) agent_id then None
      else Some (set_session_agent_locked now session_id agent_id (ensure_session_locked now session_id None None s)))"

definition ensure_agent :: "string \<Rightarrow> string option \<Rightarrow> session_tables \<Rightarrow> session_tables" where
  "ensure_agent agent_id name s =
     (if dict_has (st_known_agents s) agent_id then s
      else s\<lparr>st_known_agents := dict_set (st_known_agents s) agent_id (opt_or name agent_id)\<rparr>)"

definition list_agents :: "session_tables \<Rightarrow> (string \<times> string) list" where
  "list_agents s = st_known_agents s"

section \<open>Roles and commands\<close>

definition ADMIN_COMMANDS :: "string list" where
  "ADMIN_COMMANDS = [''artifact.purge'', ''memory.promote'', ''config.set'', ''approve'', ''deny'']"

definition role_for :: "string list \<Rightarrow> string \<Rightarrow> string" where
  "role_for admin_user_keys user_key = (if user_key \<in> set admin_user_keys then ''admin'' else ''user'')"

definition is_admin :: "string list \<Rightarrow> string \<Rightarrow> bool" where
  "is_admin admin_user_keys user_key = (role_for admin_user_keys user_key = ''admin'')"

definition auth_check :: "string list \<Rightarrow> string \<Rightarrow> string \<Rightarrow> bool \<times> string" where
  "auth_check admin_user_keys user_key command_canonical =
     (if command_canonical \<in> set ADMIN_COMMANDS \<and> \<not> is_admin admin_user_keys user_key
      then (False, ''command '' @ [char_of (39 :: nat)] @ command_canonical @ [char_of (39 :: nat)] @ '' requires admin role'')
      else (True, ''ok''))"

record parsed_command =
  pc_canonical :: string
  pc_original_text :: string
  pc_args :: "string list"

definition SUBCOMMAND_ROOTS :: "string list" where
  "SUBCOMMAND_ROOTS = [''agent'', ''artifact'', ''config'', ''memory'', ''pair'', ''profile'', ''run'', ''session'', ''skill'']"

definition parse_command :: "string \<Rightarrow> parsed_command option" where
  "parse_command text =
     (let stripped = str_strip text in
      if \<not> (str_startswith stripped ''/'' \<or> str_startswith stripped ''!'') then None
      else case str_words (str_strip (drop 1 stripped)) of
        [] \<Rightarrow> None
      | head # args \<Rightarrow>
          let canonical = str_lower head in
          Some (case args of
            sub # rest \<Rightarrow>
              if canonical \<in> set SUBCOMMAND_ROOTS
              then \<lparr>pc_canonical = canonical @ ''.'' @ str_lower sub, pc_original_text = stripped, pc_args = rest\<rparr>
              else \<lparr>pc_canonical = canonical, pc_original_text = stripped, pc_args = args\<rparr>
          | [] \<Rightarrow> \<lparr>pc_canonical = canonical, pc_original_text = stripped, pc_args = []\<rparr>))"

section \<open>The router\<close>

definition SESSION_RESERVED :: "string list" where
  "SESSION_RESERVED = [''new'', ''use'', ''title'', ''id'', ''status'', ''list'', ''export'', ''sessions'']"

text \<open>\<open>stripped.split(maxsplit=1)[1]\<close> is the rest after the first word.\<close>

definition extract_session_override :: "string \<Rightarrow> string option" where
  "extract_session_override text =
     (let stripped = str_strip text in
      if \<not> str_startswith stripped ''/session '' then None
      else let candidate = str_lstrip (dropWhile (\<lambda>c. \<not> is_space c) stripped)
           in if str_lower candidate \<in> set SESSION_RESERVED then None else Some candidate)"

definition mention_char :: "char \<Rightarrow> bool" where
  "mention_char c = (let n = (of_char c :: nat) in
     48 \<le> n \<and> n \<le> 58 \<or> 65 \<le> n \<and> n \<le> 90 \<or> 97 \<le> n \<and> n \<le> 122 \<or> n = 95 \<or> n = 45)"

text \<open>The first match of \<open>@([A-Za-z0-9:_-]+)\<close>.\<close>

fun find_mention :: "string \<Rightarrow> string option" where
  "find_mention [] = None"
| "find_mention (c # cs) =
     (if c = CHR ''@'' \<and> takeWhile mention_char cs \<noteq> [] then Some (takeWhile mention_char cs) else find_mention cs)"

definition router_agent :: "string \<Rightarrow> string \<Rightarrow> session_tables \<Rightarrow> string \<times> session_tables" where
  "router_agent text session_id s =
     (case find_mention text of
        Some agent_name \<Rightarrow> (agent_name, ensure_agent agent_name (Some agent_name) s)
      | None \<Rightarrow> (resolve_agent session_id s, s))"

definition extract_trace_id :: "pydict \<Rightarrow> string option" where
  "extract_trace_id meta =
     (let direct = text_field meta ''trace_id''; cp_trace = text_field meta ''controlplane.trace_id'' in
      if direct \<noteq> [] then Some direct
      else if cp_trace \<noteq> [] then Some cp_trace
      else case dict_get_or meta ''control_event'' PNone of
        PDict nested \<Rightarrow> (let nested_trace = text_field nested ''trace_id'' in if nested_trace \<noteq> [] then Some nested_trace else None)
      | _ \<Rightarrow> None)"

record resolved_context =
  rc_user_key :: string
  rc_chat_key :: string
  rc_session_id :: string
  rc_agent_id :: string
  rc_role :: string
  rc_trace_id :: string
  rc_span_id :: string

text \<open>The session of a message, with the audit events of the decision.\<close>

definition router_session ::
  "(nat \<Rightarrow> string) \<Rightarrow> int \<Rightarrow> bool \<Rightarrow> string \<Rightarrow> string \<Rightarrow> string \<Rightarrow> session_tables \<Rightarrow> string \<times> (string \<times> pydict) list \<times> session_tables" where
  "router_session uuid now admin user_key chat_key text s =
     (case extract_session_override text of
        None \<Rightarrow> (let (session_id, s) = resolve_session uuid now user_key chat_key s in (session_id, [], s))
      | Some requested \<Rightarrow>
          (let owner = session_owner requested s;
               about = [(''user_key'', PStr user_key), (''chat_key'', PStr chat_key), (''requested_session_id'', PStr requested),
                        (''owner_user_key'', case owner of None \<Rightarrow> PNone | Some k \<Rightarrow> PStr k)]
           in case bind_session_owned now user_key chat_key requested admin s of
                (True, s) \<Rightarrow>
                  (requested, if owner \<noteq> None \<and> owner \<noteq> Some user_key \<and> admin then [(''session.bind.admin_override'', about)] else [], s)
              | (False, s) \<Rightarrow>
                  (let (session_id, s) = resolve_session uuid now user_key chat_key s
                   in (session_id, [(''session.bind.denied'',
                        about @ [(''reason'', PStr (if owner = None then ''missing_session'' else ''owner_mismatch''))])], s))))"

definition router_resolve ::
  "(nat \<Rightarrow> string) \<Rightarrow> int \<Rightarrow> string list \<Rightarrow> string \<Rightarrow> string \<Rightarrow> string \<Rightarrow> pydict \<Rightarrow> session_tables \<Rightarrow>
   resolved_context \<times> (string \<times> pydict) list \<times> session_tables" where
  "router_resolve uuid now admin_user_keys user_key chat_key text meta s =
     (let (session_id, events, s) = router_session uuid now (is_admin admin_user_keys user_key) user_key chat_key text s;
          (agent_id, s) = router_agent text session_id s;
          (trace_id, s) = (case extract_trace_id meta of
             Some t \<Rightarrow> (t, s) | None \<Rightarrow> (uuid (st_uuids s), s\<lparr>st_uuids := Suc (st_uuids s)\<rparr>))
      in (\<lparr>rc_user_key = user_key, rc_chat_key = chat_key, rc_session_id = session_id, rc_agent_id = agent_id, rc_role = ''user'',
           rc_trace_id = trace_id, rc_span_id = take 16 (uuid (st_uuids s))\<rparr>, events, s\<lparr>st_uuids := Suc (st_uuids s)\<rparr>))"

end
