(* ===== verification/Channel_Queues.thy ===== *)
theory Channel_Queues
  imports SQL_Table
begin

text \<open>
  The durable queues of the control plane (\<open>modules/controlplane/storage/inbox_outbox.py\<close>): messages
  received from channels wait in the inbox, replies in the outbox. Rows are claimed by a worker,
  acknowledged, or put back with a delay until their attempts are used up. The timestamps of the
  code are UTC texts of one format, whose order is that of the instants; here they are the
  instants, in microseconds. \<open>clk i\<close> is the \<open>i\<close>-th reading of the clock within a call, and
  \<open>uuid i\<close> the \<open>i\<close>-th identifier that is drawn.
\<close>

section \<open>Rows\<close>

datatype inbox_status = Ib_new | Ib_processing | Ib_failed | Ib_done | Ib_dead

record inbox_row =
  ib_inbox_id :: string
  ib_channel :: string
  ib_chat_id :: string
  ib_channel_message_id :: string
  ib_user_id :: string
  ib_thread_id :: "string option"
  ib_received_at :: int
  ib_payload :: pydict
  ib_status :: inbox_status
  ib_error :: "string option"
  ib_attempts :: int
  ib_next_attempt_at :: int
  ib_locked_at :: "int option"
  ib_lock_owner :: "string option"

datatype outbox_status = Ob_pending | Ob_sending | Ob_failed | Ob_sent | Ob_dead

record outbox_row =
  ob_outbox_id :: string
  ob_channel :: string
  ob_chat_id :: string
  ob_thread_id :: "string option"
  ob_reply_to :: "string option"
  ob_payload :: pydict
  ob_status :: outbox_status
  ob_created_at :: int
  ob_next_attempt_at :: int
  ob_attempts :: int
  ob_last_error :: "string option"
  ob_lock_owner :: "string option"
  ob_locked_at :: "int option"

record channel_queues =
  cq_inbox :: "inbox_row list"
  cq_outbox :: "outbox_row list"
  cq_uuids :: nat

definition empty_queues :: channel_queues where
  "empty_queues = \<lparr>cq_inbox = [], cq_outbox = [], cq_uuids = 0\<rparr>"

definition iso_after :: "int \<Rightarrow> int \<Rightarrow> int" where
  "iso_after clock seconds = clock + max 0 seconds * 1000000"

definition iso_ago :: "int \<Rightarrow> int \<Rightarrow> int" where
  "iso_ago clock seconds = clock - max 0 seconds * 1000000"

text \<open>\<open>given or uuid.uuid4().hex\<close>, with the count of drawn identifiers.\<close>

definition given_or_uuid :: "(nat \<Rightarrow> string) \<Rightarrow> string option \<Rightarrow> nat \<Rightarrow> string \<times> nat" where
  "given_or_uuid uuid given n = (if opt_truthy given then (opt_or given [], n) else (uuid n, Suc n))"

definition ERROR_LIMIT :: nat where
  "ERROR_LIMIT = 2000"

definition backoff_seconds :: "int \<Rightarrow> int \<Rightarrow> int" where
  "backoff_seconds max_backoff_s attempts = min max_backoff_s (2 ^ nat (max 0 (attempts - 1)))"

text \<open>Both queues claim in the same way: the oldest of the candidates, if it is still ready.\<close>

definition claim_row ::
  "('r \<Rightarrow> string) \<Rightarrow> ('r \<Rightarrow> int) \<Rightarrow> ('r \<Rightarrow> bool) \<Rightarrow> ('r \<Rightarrow> bool) \<Rightarrow> ('r \<Rightarrow> 'r) \<Rightarrow> 'r list \<Rightarrow> 'r option \<times> 'r list" where
  "claim_row key arrived candidate ready lock rows =
     (case sort_key arrived (filter candidate rows) of
        [] \<Rightarrow> (None, rows)
      | row # _ \<Rightarrow>
          let p = (\<lambda>r. key r = key row \<and> ready r); count = sql_count p rows; rows = sql_update p lock rows
          in if count \<noteq> 1 then (None, rows) else (sql_get key (key row) rows, rows))"

section \<open>Inbox\<close>

definition ib_slot :: "inbox_row \<Rightarrow> string \<times> string \<times> string" where
  "ib_slot r = (ib_channel r, ib_chat_id r, ib_channel_message_id r)"

definition ib_ready :: "inbox_row \<Rightarrow> bool" where
  "ib_ready r = (ib_status r = Ib_new \<or> ib_status r = Ib_failed)"

definition update_inbox :: "(inbox_row \<Rightarrow> bool) \<Rightarrow> (inbox_row \<Rightarrow> inbox_row) \<Rightarrow> channel_queues \<Rightarrow> channel_queues" where
  "update_inbox p f s = s\<lparr>cq_inbox := sql_update p f (cq_inbox s)\<rparr>"

definition get_inbox :: "string \<Rightarrow> channel_queues \<Rightarrow> inbox_row option" where
  "get_inbox inbox_id s = sql_get ib_inbox_id inbox_id (cq_inbox s)"

definition new_inbox_row ::
  "string \<Rightarrow> int \<Rightarrow> string \<Rightarrow> string \<Rightarrow> string \<Rightarrow> string \<Rightarrow> pydict \<Rightarrow> string option \<Rightarrow> inbox_row" where
  "new_inbox_row inbox_id now channel chat_id channel_message_id user_id payload thread_id =
     \<lparr>ib_inbox_id = inbox_id, ib_channel = channel, ib_chat_id = chat_id, ib_channel_message_id = channel_message_id,
      ib_user_id = user_id, ib_thread_id = thread_id, ib_received_at = now, ib_payload = payload, ib_status = Ib_new,
      ib_error = None, ib_attempts = 0, ib_next_attempt_at = now, ib_locked_at = None, ib_lock_owner = None\<rparr>"

text \<open>A second row for the same message is dropped; \<open>None\<close> is the integrity error of a given
  identifier that another message has.\<close>

definition enqueue_inbox ::
  "(nat \<Rightarrow> string) \<Rightarrow> int \<Rightarrow> string \<Rightarrow> string \<Rightarrow> string \<Rightarrow> string \<Rightarrow> pydict \<Rightarrow> string option \<Rightarrow> string option \<Rightarrow>
   channel_queues \<Rightarrow> (string \<times> bool) option \<times> channel_queues" where
  "enqueue_inbox uuid now channel chat_id channel_message_id user_id payload thread_id inbound_id s =
     (let (inbox_id, n) = given_or_uuid uuid inbound_id (cq_uuids s); s = s\<lparr>cq_uuids := n\<rparr>;
          row = new_inbox_row inbox_id now channel chat_id channel_message_id user_id payload thread_id
      in case sql_get ib_slot (ib_slot row) (cq_inbox s) of
           Some old \<Rightarrow> (Some (ib_inbox_id old, False), s)
         | None \<Rightarrow> (case sql_insert ib_inbox_id row (cq_inbox s) of
             None \<Rightarrow> (None, s)
           | Some rows \<Rightarrow> (Some (inbox_id, True), s\<lparr>cq_inbox := rows\<rparr>)))"

definition reclaim_inbox :: "int \<Rightarrow> channel_queues \<Rightarrow> channel_queues" where
  "reclaim_inbox cutoff =
     update_inbox (\<lambda>r. ib_status r = Ib_processing \<and> (case ib_locked_at r of None \<Rightarrow> False | Some t \<Rightarrow> t < cutoff))
       (\<lambda>r. r\<lparr>ib_status := Ib_new, ib_lock_owner := None, ib_locked_at := None\<rparr>)"

definition lock_inbox_row :: "string \<Rightarrow> int \<Rightarrow> inbox_row \<Rightarrow> inbox_row" where
  "lock_inbox_row lock_owner now r =
     r\<lparr>ib_status := Ib_processing, ib_attempts := ib_attempts r + 1, ib_lock_owner := Some lock_owner, ib_locked_at := Some now\<rparr>"

definition claim_inbox :: "(nat \<Rightarrow> int) \<Rightarrow> string \<Rightarrow> int \<Rightarrow> channel_queues \<Rightarrow> inbox_row option \<times> channel_queues" where
  "claim_inbox clk lock_owner reclaim_ttl_s s =
     (let now = clk 0; s = reclaim_inbox (iso_ago (clk 1) reclaim_ttl_s) s;
          (row, rows) = claim_row ib_inbox_id ib_received_at (\<lambda>r. ib_ready r \<and> ib_next_attempt_at r \<le> now) ib_ready
            (lock_inbox_row lock_owner now) (cq_inbox s)
      in (row, s\<lparr>cq_inbox := rows\<rparr>))"

definition ack_inbox :: "string \<Rightarrow> channel_queues \<Rightarrow> channel_queues" where
  "ack_inbox inbox_id = update_inbox (\<lambda>r. ib_inbox_id r = inbox_id)
     (\<lambda>r. r\<lparr>ib_status := Ib_done, ib_lock_owner := None, ib_locked_at := None, ib_error := None\<rparr>)"

definition fail_inbox :: "string \<Rightarrow> string \<Rightarrow> channel_queues \<Rightarrow> channel_queues" where
  "fail_inbox inbox_id err = update_inbox (\<lambda>r. ib_inbox_id r = inbox_id)
     (\<lambda>r. r\<lparr>ib_status := Ib_failed, ib_error := Some (take ERROR_LIMIT err), ib_lock_owner := None, ib_locked_at := None\<rparr>)"

text \<open>The result says whether the message is dead.\<close>

definition mark_inbox_retry :: "int \<Rightarrow> string \<Rightarrow> string \<Rightarrow> int \<Rightarrow> int \<Rightarrow> channel_queues \<Rightarrow> bool \<times> channel_queues" where
  "mark_inbox_retry clock inbox_id err max_attempts max_backoff_s s =
     (let attempts = (case get_inbox inbox_id s of None \<Rightarrow> 0 | Some r \<Rightarrow> ib_attempts r)
      in if attempts \<ge> max_attempts
         then (True, update_inbox (\<lambda>r. ib_inbox_id r = inbox_id)
                (\<lambda>r. r\<lparr>ib_status := Ib_dead, ib_error := Some (take ERROR_LIMIT err), ib_lock_owner := None, ib_locked_at := None\<rparr>) s)
         else (False, update_inbox (\<lambda>r. ib_inbox_id r = inbox_id)
                (\<lambda>r. r\<lparr>ib_status := Ib_failed, ib_next_attempt_at := iso_after clock (backoff_seconds max_backoff_s attempts),
                  ib_error := Some (take ERROR_LIMIT err), ib_lock_owner := None, ib_locked_at := None\<rparr>) s))"

section \<open>Outbox\<close>

definition ob_ready :: "outbox_row \<Rightarrow> bool" where
  "ob_ready r = (ob_status r = Ob_pending \<or> ob_status r = Ob_failed)"

definition update_outbox :: "(outbox_row \<Rightarrow> bool) \<Rightarrow> (outbox_row \<Rightarrow> outbox_row) \<Rightarrow> channel_queues \<Rightarrow> channel_queues" where
  "update_outbox p f s = s\<lparr>cq_outbox := sql_update p f (cq_outbox s)\<rparr>"

definition get_outbox :: "string \<Rightarrow> channel_queues \<Rightarrow> outbox_row option" where
  "get_outbox outbox_id s = sql_get ob_outbox_id outbox_id (cq_outbox s)"

text \<open>A given identifier that is in use replaces that row.\<close>

definition enqueue_outbox ::
  "(nat \<Rightarrow> string) \<Rightarrow> int \<Rightarrow> string \<Rightarrow> string \<Rightarrow> pydict \<Rightarrow> string option \<Rightarrow> string option \<Rightarrow> string option \<Rightarrow>
   channel_queues \<Rightarrow> string \<times> channel_queues" where
  "enqueue_outbox uuid now channel chat_id payload thread_id reply_to outbox_id s =
     (let (oid, n) = given_or_uuid uuid outbox_id (cq_uuids s); s = s\<lparr>cq_uuids := n\<rparr>;
          row = \<lparr>ob_outbox_id = oid, ob_channel = channel, ob_chat_id = chat_id, ob_thread_id = thread_id, ob_reply_to = reply_to,
                 ob_payload = payload, ob_status = Ob_pending, ob_created_at = now, ob_next_attempt_at = now, ob_attempts = 0,
                 ob_last_error = None, ob_lock_owner = None, ob_locked_at = None\<rparr>
      in (oid, if get_outbox oid s = None then s\<lparr>cq_outbox := cq_outbox s @ [row]\<rparr>
               else update_outbox (\<lambda>r. ob_outbox_id r = oid) (\<lambda>_. row) s))"

definition reclaim_outbox :: "int \<Rightarrow> channel_queues \<Rightarrow> channel_queues" where
  "reclaim_outbox cutoff =
     update_outbox (\<lambda>r. ob_status r = Ob_sending \<and> (case ob_locked_at r of None \<Rightarrow> False | Some t \<Rightarrow> t < cutoff))
       (\<lambda>r. r\<lparr>ob_status := Ob_pending, ob_lock_owner := None, ob_locked_at := None\<rparr>)"

definition lock_outbox_row :: "string \<Rightarrow> int \<Rightarrow> outbox_row \<Rightarrow> outbox_row" where
  "lock_outbox_row lock_owner now r =
     r\<lparr>ob_status := Ob_sending, ob_attempts := ob_attempts r + 1, ob_lock_owner := Some lock_owner, ob_locked_at := Some now\<rparr>"

definition claim_outbox :: "(nat \<Rightarrow> int) \<Rightarrow> string \<Rightarrow> int \<Rightarrow> channel_queues \<Rightarrow> outbox_row option \<times> channel_queues" where
  "claim_outbox clk lock_owner reclaim_ttl_s s =
     (let now = clk 0; s = reclaim_outbox (iso_ago (clk 1) reclaim_ttl_s) s;
          (row, rows) = claim_row ob_outbox_id ob_created_at (\<lambda>r. ob_ready r \<and> ob_next_attempt_at r \<le> now) ob_ready
            (lock_outbox_row lock_owner now) (cq_outbox s)
      in (row, s\<lparr>cq_outbox := rows\<rparr>))"

definition mark_outbox_sent :: "string \<Rightarrow> channel_queues \<Rightarrow> channel_queues" where
  "mark_outbox_sent outbox_id = update_outbox (\<lambda>r. ob_outbox_id r = outbox_id)
     (\<lambda>r. r\<lparr>ob_status := Ob_sent, ob_lock_owner := None, ob_locked_at := None, ob_last_error := None\<rparr>)"

definition mark_outbox_retry :: "int \<Rightarrow> string \<Rightarrow> string \<Rightarrow> int \<Rightarrow> int \<Rightarrow> channel_queues \<Rightarrow> bool \<times> channel_queues" where
  "mark_outbox_retry clock outbox_id err max_attempts max_backoff_s s =
     (let attempts = (case get_outbox outbox_id s of None \<Rightarrow> 0 | Some r \<Rightarrow> ob_attempts r)
      in if attempts \<ge> max_attempts
         then (True, update_outbox (\<lambda>r. ob_outbox_id r = outbox_id)
                (\<lambda>r. r\<lparr>ob_status := Ob_dead, ob_last_error := Some (take ERROR_LIMIT err), ob_lock_owner := None, ob_locked_at := None\<rparr>) s)
         else (False, update_outbox (\<lambda>r. ob_outbox_id r = outbox_id)
                (\<lambda>r. r\<lparr>ob_status := Ob_failed, ob_next_attempt_at := iso_after clock (backoff_seconds max_backoff_s attempts),
                  ob_last_error := Some (take ERROR_LIMIT err), ob_lock_owner := None, ob_locked_at := None\<rparr>) s))"

section \<open>The contract of both queues\<close>

text \<open>What a queue promises to its workers, seen through the fate of each row: whether it is settled
  (processed or given up), and its attempts.\<close>

definition row_budget :: "int \<Rightarrow> (bool \<times> int) option \<Rightarrow> nat" where
  "row_budget m x = (case x of None \<Rightarrow> 0 | Some (settled, n) \<Rightarrow> if settled then 0 else nat (max 1 (m - n)))"

locale retry_queue =
  fixes row_ids :: "'s \<Rightarrow> string list" and fate :: "'s \<Rightarrow> string \<Rightarrow> (bool \<times> int) option" and row_id :: "'r \<Rightarrow> string"
    and claim :: "(nat \<Rightarrow> int) \<Rightarrow> string \<Rightarrow> int \<Rightarrow> 's \<Rightarrow> 'r option \<times> 's" and finish :: "string \<Rightarrow> 's \<Rightarrow> 's"
    and retry :: "int \<Rightarrow> string \<Rightarrow> string \<Rightarrow> int \<Rightarrow> int \<Rightarrow> 's \<Rightarrow> bool \<times> 's"
  assumes fate_ids: "fate s k \<noteq> None \<Longrightarrow> k \<in> set (row_ids s)"
    and claim_none: "distinct (row_ids s) \<Longrightarrow> claim clk w ttl s = (None, t) \<Longrightarrow> row_ids t = row_ids s \<and> fate t = fate s"
    and claim_some: "distinct (row_ids s) \<Longrightarrow> claim clk w ttl s = (Some r, t) \<Longrightarrow>
      row_ids t = row_ids s \<and> (\<exists>n. fate s (row_id r) = Some (False, n) \<and> fate t = (fate s)(row_id r \<mapsto> (False, n + 1)))"
    and finish_fate: "distinct (row_ids s) \<Longrightarrow> fate s k = Some (b, n) \<Longrightarrow>
      row_ids (finish k s) = row_ids s \<and> fate (finish k s) = (fate s)(k \<mapsto> (True, n))"
    and retry_fate: "distinct (row_ids s) \<Longrightarrow> fate s k = Some (b, n) \<Longrightarrow> retry clock k err m backoff s = (dead, t) \<Longrightarrow>
      row_ids t = row_ids s \<and> (dead \<longleftrightarrow> m \<le> n) \<and> fate t = (fate s)(k \<mapsto> (dead, n))"
begin

lemma total_upd:
  assumes "distinct (row_ids s)" "k \<in> set (row_ids s)" "row_ids t = row_ids s" "fate t = (fate s)(k \<mapsto> x)"
  shows "sum_list (map (\<lambda>i. row_budget m (fate t i)) (row_ids t)) + row_budget m (fate s k) =
    sum_list (map (\<lambda>i. row_budget m (fate s i)) (row_ids s)) + row_budget m (Some x)"
proof -
  have sums: "sum_list (map f (row_ids s)) = f k + sum_list (map f (remove1 k (row_ids s)))" for f :: "string \<Rightarrow> nat"
    by (rule sum_list_map_remove1 [OF assms(2)])
  have "map (\<lambda>i. row_budget m (fate t i)) (remove1 k (row_ids s)) = map (\<lambda>i. row_budget m (fate s i)) (remove1 k (row_ids s))"
    using assms(1,4) by (auto simp: set_remove1_eq)
  then have rest: "sum_list (map (\<lambda>i. row_budget m (fate t i)) (remove1 k (row_ids s))) =
      sum_list (map (\<lambda>i. row_budget m (fate s i)) (remove1 k (row_ids s)))" by (rule arg_cong)
  have "fate t k = Some x" by (simp add: assms(4))
  with sums [of "\<lambda>i. row_budget m (fate t i)"] sums [of "\<lambda>i. row_budget m (fate s i)"] rest show ?thesis unfolding assms(3) by simp
qed

text \<open>A worker that finds a row uses up one of the attempts that are left, or settles the row.\<close>

lemma run_uses_budget:
  assumes d: "distinct (row_ids s)" and c: "claim clk w ttl s = (Some r, t)"
    and u: "u = finish (row_id r) t \<or> (\<exists>dead. retry clock (row_id r) err m backoff t = (dead, u))"
  shows "row_ids u = row_ids s"
    and "sum_list (map (\<lambda>i. row_budget m (fate u i)) (row_ids u)) < sum_list (map (\<lambda>i. row_budget m (fate s i)) (row_ids s))"
    and "row_budget m (fate u (row_id r)) < row_budget m (fate s (row_id r))" and "i \<noteq> row_id r \<Longrightarrow> fate u i = fate s i"
proof -
  let ?k = "row_id r"
  obtain n where n: "row_ids t = row_ids s" "fate s ?k = Some (False, n)" "fate t = (fate s)(?k \<mapsto> (False, n + 1))"
    using claim_some [OF d c] by blast
  have dt: "distinct (row_ids t)" and ft: "fate t ?k = Some (False, n + 1)" using d n by simp_all
  from u obtain b where ids: "row_ids u = row_ids s" and fu: "fate u = (fate s)(?k \<mapsto> (b, n + 1))" and b: "b \<or> n + 1 < m"
  proof
    assume "u = finish ?k t"
    with finish_fate [OF dt ft] n that show thesis by simp
  next
    assume "\<exists>dead. retry clock ?k err m backoff t = (dead, u)"
    then obtain dead where "retry clock ?k err m backoff t = (dead, u)" by blast
    with retry_fate [OF dt ft this] n that show thesis by force
  qed
  have k: "?k \<in> set (row_ids s)" using n(2) fate_ids by blast
  show "row_ids u = row_ids s" by (rule ids)
  have less: "row_budget m (Some (b, n + 1)) < row_budget m (fate s ?k)" using b n(2) by (auto simp: row_budget_def)
  then show "row_budget m (fate u ?k) < row_budget m (fate s ?k)" and "i \<noteq> ?k \<Longrightarrow> fate u i = fate s i" by (simp_all add: fu)
  from less total_upd [OF d k ids fu, of m] show
    "sum_list (map (\<lambda>i. row_budget m (fate u i)) (row_ids u)) < sum_list (map (\<lambda>i. row_budget m (fate s i)) (row_ids s))"
    by simp
qed

end

section \<open>Rows of a queue\<close>

definition row_fate :: "('r \<Rightarrow> string) \<Rightarrow> ('r \<Rightarrow> bool) \<Rightarrow> ('r \<Rightarrow> int) \<Rightarrow> 'r list \<Rightarrow> string \<Rightarrow> (bool \<times> int) option" where
  "row_fate key settled attempts rows k = map_option (\<lambda>r. (settled r, attempts r)) (sql_get key k rows)"

locale queue_rows =
  fixes key :: "'r \<Rightarrow> string" and settled ready :: "'r \<Rightarrow> bool" and attempts :: "'r \<Rightarrow> int"
  assumes ready_open: "ready r \<Longrightarrow> \<not> settled r"
begin

text \<open>The claimed row is ready, a candidate, and no candidate arrived earlier.\<close>

lemma claim_row_cases:
  assumes uniq: "keys_unique key rows" and c: "claim_row key arrived candidate ready lock rows = (x, rows')"
    and cand: "\<And>r. candidate r \<Longrightarrow> ready r" and lock: "\<And>r. key (lock r) = key r"
  obtains "x = None" "rows' = rows" "\<forall>r\<in>set rows. \<not> candidate r"
  | r where "x = Some (lock r)" "r \<in> set rows" "candidate r" "\<forall>q\<in>set rows. candidate q \<longrightarrow> arrived r \<le> arrived q"
    "rows' = sql_update (\<lambda>q. key q = key r \<and> ready q) lock rows"
proof (cases "sort_key arrived (filter candidate rows)")
  case Nil
  then have "filter candidate rows = []" by (metis set_empty set_sort)
  with Nil c show thesis by (intro that(1)) (auto simp: claim_row_def filter_empty_conv)
next
  case (Cons r rs)
  have "r \<in> set (filter candidate rows)" by (metis Cons list.set_intros(1) set_sort)
  then have r: "r \<in> set rows" "candidate r" by simp_all
  have first: "arrived r \<le> arrived q" if "q \<in> set rows" "candidate q" for q
  proof -
    have "sorted (map arrived (r # rs))" by (metis Cons sorted_sort_key)
    moreover have "q \<in> set (r # rs)" using that unfolding Cons [symmetric] by simp
    ultimately show ?thesis by auto
  qed
  have get: "sql_get key (key r) rows = Some r" by (rule sql_get_unique [OF uniq r(1)])
  have "keyed_update key lock" by unfold_locales (rule lock)
  then have "sql_get key (key r) (sql_update (\<lambda>q. key q = key r \<and> ready q) lock rows) = Some (lock r)"
    using get cand [OF r(2)] by (simp add: keyed_update.get_update)
  moreover have "sql_count (\<lambda>q. key q = key r \<and> ready q) rows = 1"
    using sql_count_key [OF uniq] get cand [OF r(2)] by simp
  ultimately show thesis using Cons c r first by (intro that(2) [of r]) (auto simp: claim_row_def Let_def)
qed

lemma fate_update:
  assumes "\<And>r. key (f r) = key r" "\<And>r. settled (f r) = b" "\<And>r. attempts (f r) = attempts r"
    and "row_fate key settled attempts rows k = Some (b', n)"
  shows "row_fate key settled attempts (sql_update (\<lambda>r. key r = k) f rows) = (row_fate key settled attempts rows)(k \<mapsto> (b, n))"
proof
  fix i
  have "keyed_update key f" by unfold_locales (rule assms(1))
  then show "row_fate key settled attempts (sql_update (\<lambda>r. key r = k) f rows) i = ((row_fate key settled attempts rows)(k \<mapsto> (b, n))) i"
    using assms(4)
    by (cases "sql_get key i rows") (auto simp: row_fate_def keyed_update.get_update assms(2,3) dest: sql_get_Some)
qed

lemma fate_same:
  assumes "\<And>r. key (f r) = key r" "\<And>r. p r \<Longrightarrow> settled (f r) = settled r" "\<And>r. attempts (f r) = attempts r"
  shows "row_fate key settled attempts (sql_update p f rows) = row_fate key settled attempts rows"
proof
  fix i
  have "keyed_update key f" by unfold_locales (rule assms(1))
  then show "row_fate key settled attempts (sql_update p f rows) i = row_fate key settled attempts rows i"
    by (cases "sql_get key i rows") (auto simp: row_fate_def keyed_update.get_update assms(2,3))
qed

lemma fate_claimed:
  assumes "keys_unique key rows" "r \<in> set rows" "ready r" "\<And>r. key (lock r) = key r" "\<And>r. \<not> settled (lock r)"
    "\<And>r. attempts (lock r) = attempts r + 1"
  shows "row_fate key settled attempts rows (key r) = Some (False, attempts r)"
    and "row_fate key settled attempts (sql_update (\<lambda>q. key q = key r \<and> ready q) lock rows) =
      (row_fate key settled attempts rows)(key r \<mapsto> (False, attempts r + 1))"
proof -
  have get: "sql_get key (key r) rows = Some r" by (rule sql_get_unique [OF assms(1,2)])
  then show "row_fate key settled attempts rows (key r) = Some (False, attempts r)"
    using ready_open [OF assms(3)] by (simp add: row_fate_def)
  have "keyed_update key lock" by unfold_locales (rule assms(4))
  then show "row_fate key settled attempts (sql_update (\<lambda>q. key q = key r \<and> ready q) lock rows) =
      (row_fate key settled attempts rows)(key r \<mapsto> (False, attempts r + 1))"
    using get assms(3,5,6)
    by (intro ext, case_tac "sql_get key x rows") (auto simp: row_fate_def keyed_update.get_update dest: sql_get_Some)
qed

end

section \<open>The inbox keeps the contract\<close>

definition ib_settled :: "inbox_row \<Rightarrow> bool" where
  "ib_settled r = (ib_status r = Ib_done \<or> ib_status r = Ib_dead)"

definition inbox_fate :: "channel_queues \<Rightarrow> string \<Rightarrow> (bool \<times> int) option" where
  "inbox_fate s = row_fate ib_inbox_id ib_settled ib_attempts (cq_inbox s)"

definition inbox_ids :: "channel_queues \<Rightarrow> string list" where
  "inbox_ids s = map ib_inbox_id (cq_inbox s)"

interpretation inbox_rows: queue_rows ib_inbox_id ib_settled ib_ready ib_attempts
  by unfold_locales (auto simp: ib_ready_def ib_settled_def)

lemmas inbox_row_defs = update_inbox_def lock_inbox_row_def ib_settled_def ib_ready_def

lemma inbox_ids_update: "(\<And>r. ib_inbox_id (f r) = ib_inbox_id r) \<Longrightarrow> inbox_ids (update_inbox p f s) = inbox_ids s"
  by (simp add: inbox_ids_def update_inbox_def sql_update_def)

lemma reclaim_inbox_fate: "inbox_fate (reclaim_inbox c s) = inbox_fate s" "inbox_ids (reclaim_inbox c s) = inbox_ids s"
  unfolding inbox_fate_def reclaim_inbox_def
  by (auto simp: update_inbox_def ib_settled_def inbox_ids_def sql_update_def [symmetric] intro!: inbox_rows.fate_same)
    (simp add: sql_update_def)

lemma claim_inbox_rows:
  assumes "distinct (inbox_ids s)" "claim_inbox clk w ttl s = (x, t)"
  obtains "x = None" "t = reclaim_inbox (iso_ago (clk 1) ttl) s" "\<forall>r\<in>set (cq_inbox t). \<not> (ib_ready r \<and> ib_next_attempt_at r \<le> clk 0)"
  | r where "x = Some (lock_inbox_row w (clk 0) r)" "r \<in> set (cq_inbox (reclaim_inbox (iso_ago (clk 1) ttl) s))"
    "ib_ready r" "ib_next_attempt_at r \<le> clk 0"
    "\<forall>q\<in>set (cq_inbox (reclaim_inbox (iso_ago (clk 1) ttl) s)). ib_ready q \<and> ib_next_attempt_at q \<le> clk 0 \<longrightarrow> ib_received_at r \<le> ib_received_at q"
    "t = update_inbox (\<lambda>q. ib_inbox_id q = ib_inbox_id r \<and> ib_ready q) (lock_inbox_row w (clk 0)) (reclaim_inbox (iso_ago (clk 1) ttl) s)"
proof -
  let ?u = "reclaim_inbox (iso_ago (clk 1) ttl) s"
  obtain rows where rows: "claim_row ib_inbox_id ib_received_at (\<lambda>r. ib_ready r \<and> ib_next_attempt_at r \<le> clk 0) ib_ready
      (lock_inbox_row w (clk 0)) (cq_inbox ?u) = (x, rows)" and t: "t = ?u\<lparr>cq_inbox := rows\<rparr>"
    using assms(2) by (auto simp: claim_inbox_def Let_def split: prod.splits)
  have uniq: "keys_unique ib_inbox_id (cq_inbox ?u)"
    using assms(1) reclaim_inbox_fate(2) [of "iso_ago (clk 1) ttl" s] by (simp add: keys_unique_def inbox_ids_def)
  show thesis
    by (rule inbox_rows.claim_row_cases [OF uniq rows]) (use that t in \<open>auto simp: update_inbox_def lock_inbox_row_def\<close>)
qed

interpretation inbox: retry_queue inbox_ids inbox_fate ib_inbox_id claim_inbox ack_inbox mark_inbox_retry
proof
  fix s t :: channel_queues and k clk w ttl r b n clock err m backoff dead
  show "inbox_fate s k \<noteq> None \<Longrightarrow> k \<in> set (inbox_ids s)"
    by (auto simp: inbox_fate_def row_fate_def inbox_ids_def dest: sql_get_Some)
  show "inbox_ids t = inbox_ids s \<and> inbox_fate t = inbox_fate s" if "distinct (inbox_ids s)" "claim_inbox clk w ttl s = (None, t)"
    by (rule claim_inbox_rows [OF that]) (auto simp: reclaim_inbox_fate)
  show "inbox_ids t = inbox_ids s \<and>
      (\<exists>n. inbox_fate s (ib_inbox_id r) = Some (False, n) \<and> inbox_fate t = (inbox_fate s)(ib_inbox_id r \<mapsto> (False, n + 1)))"
    if d: "distinct (inbox_ids s)" and c: "claim_inbox clk w ttl s = (Some r, t)"
  proof (rule claim_inbox_rows [OF d c])
    let ?u = "reclaim_inbox (iso_ago (clk 1) ttl) s"
    fix q
    assume q: "Some r = Some (lock_inbox_row w (clk 0) q)" "q \<in> set (cq_inbox ?u)" "ib_ready q"
      and t: "t = update_inbox (\<lambda>q'. ib_inbox_id q' = ib_inbox_id q \<and> ib_ready q') (lock_inbox_row w (clk 0)) ?u"
    have uniq: "keys_unique ib_inbox_id (cq_inbox ?u)"
      using d reclaim_inbox_fate(2) [of "iso_ago (clk 1) ttl" s] by (simp add: keys_unique_def inbox_ids_def)
    have fate: "inbox_fate ?u (ib_inbox_id q) = Some (False, ib_attempts q)"
      "inbox_fate t = (inbox_fate ?u)(ib_inbox_id q \<mapsto> (False, ib_attempts q + 1))"
      using inbox_rows.fate_claimed [OF uniq q(2,3), of "lock_inbox_row w (clk 0)"]
      by (simp_all add: inbox_fate_def t update_inbox_def lock_inbox_row_def ib_settled_def)
    have "inbox_ids t = inbox_ids s" by (simp add: t inbox_ids_update lock_inbox_row_def reclaim_inbox_fate(2))
    with fate q(1) show ?thesis by (simp add: reclaim_inbox_fate(1) lock_inbox_row_def)
  qed simp
  show "inbox_ids (ack_inbox k s) = inbox_ids s \<and> inbox_fate (ack_inbox k s) = (inbox_fate s)(k \<mapsto> (True, n))"
    if "inbox_fate s k = Some (b, n)"
    using that unfolding ack_inbox_def inbox_fate_def
    by (auto simp: inbox_ids_update update_inbox_def ib_settled_def inbox_ids_def sql_update_def [symmetric] intro!: inbox_rows.fate_update)
      (simp add: sql_update_def)
  show "inbox_ids t = inbox_ids s \<and> (dead \<longleftrightarrow> m \<le> n) \<and> inbox_fate t = (inbox_fate s)(k \<mapsto> (dead, n))"
    if f: "inbox_fate s k = Some (b, n)" and r: "mark_inbox_retry clock k err m backoff s = (dead, t)"
  proof -
    obtain q where "get_inbox k s = Some q" "ib_attempts q = n" using f by (auto simp: inbox_fate_def row_fate_def get_inbox_def)
    with f r show ?thesis
      unfolding inbox_fate_def mark_inbox_retry_def Let_def
      by (auto simp: update_inbox_def inbox_ids_def ib_settled_def split: if_splits intro!: inbox_rows.fate_update)
        (simp_all add: sql_update_def)
  qed
qed

section \<open>The outbox keeps the contract\<close>

definition ob_settled :: "outbox_row \<Rightarrow> bool" where
  "ob_settled r = (ob_status r = Ob_sent \<or> ob_status r = Ob_dead)"

definition outbox_fate :: "channel_queues \<Rightarrow> string \<Rightarrow> (bool \<times> int) option" where
  "outbox_fate s = row_fate ob_outbox_id ob_settled ob_attempts (cq_outbox s)"

definition outbox_ids :: "channel_queues \<Rightarrow> string list" where
  "outbox_ids s = map ob_outbox_id (cq_outbox s)"

interpretation outbox_rows: queue_rows ob_outbox_id ob_settled ob_ready ob_attempts
  by unfold_locales (auto simp: ob_ready_def ob_settled_def)

lemmas outbox_row_defs = update_outbox_def lock_outbox_row_def ob_settled_def ob_ready_def

lemma outbox_ids_update: "(\<And>r. ob_outbox_id (f r) = ob_outbox_id r) \<Longrightarrow> outbox_ids (update_outbox p f s) = outbox_ids s"
  by (simp add: outbox_ids_def update_outbox_def sql_update_def)

lemma reclaim_outbox_fate: "outbox_fate (reclaim_outbox c s) = outbox_fate s" "outbox_ids (reclaim_outbox c s) = outbox_ids s"
  unfolding outbox_fate_def reclaim_outbox_def
  by (auto simp: update_outbox_def ob_settled_def outbox_ids_def sql_update_def [symmetric] intro!: outbox_rows.fate_same)
    (simp add: sql_update_def)

lemma claim_outbox_rows:
  assumes "distinct (outbox_ids s)" "claim_outbox clk w ttl s = (x, t)"
  obtains "x = None" "t = reclaim_outbox (iso_ago (clk 1) ttl) s" "\<forall>r\<in>set (cq_outbox t). \<not> (ob_ready r \<and> ob_next_attempt_at r \<le> clk 0)"
  | r where "x = Some (lock_outbox_row w (clk 0) r)" "r \<in> set (cq_outbox (reclaim_outbox (iso_ago (clk 1) ttl) s))"
    "ob_ready r" "ob_next_attempt_at r \<le> clk 0"
    "\<forall>q\<in>set (cq_outbox (reclaim_outbox (iso_ago (clk 1) ttl) s)). ob_ready q \<and> ob_next_attempt_at q \<le> clk 0 \<longrightarrow> ob_created_at r \<le> ob_created_at q"
    "t = update_outbox (\<lambda>q. ob_outbox_id q = ob_outbox_id r \<and> ob_ready q) (lock_outbox_row w (clk 0)) (reclaim_outbox (iso_ago (clk 1) ttl) s)"
proof -
  let ?u = "reclaim_outbox (iso_ago (clk 1) ttl) s"
  obtain rows where rows: "claim_row ob_outbox_id ob_created_at (\<lambda>r. ob_ready r \<and> ob_next_attempt_at r \<le> clk 0) ob_ready
      (lock_outbox_row w (clk 0)) (cq_outbox ?u) = (x, rows)" and t: "t = ?u\<lparr>cq_outbox := rows\<rparr>"
    using assms(2) by (auto simp: claim_outbox_def Let_def split: prod.splits)
  have uniq: "keys_unique ob_outbox_id (cq_outbox ?u)"
    using assms(1) reclaim_outbox_fate(2) [of "iso_ago (clk 1) ttl" s] by (simp add: keys_unique_def outbox_ids_def)
  show thesis
    by (rule outbox_rows.claim_row_cases [OF uniq rows]) (use that t in \<open>auto simp: update_outbox_def lock_outbox_row_def\<close>)
qed

interpretation outbox: retry_queue outbox_ids outbox_fate ob_outbox_id claim_outbox mark_outbox_sent mark_outbox_retry
proof
  fix s t :: channel_queues and k clk w ttl r b n clock err m backoff dead
  show "outbox_fate s k \<noteq> None \<Longrightarrow> k \<in> set (outbox_ids s)"
    by (auto simp: outbox_fate_def row_fate_def outbox_ids_def dest: sql_get_Some)
  show "outbox_ids t = outbox_ids s \<and> outbox_fate t = outbox_fate s" if "distinct (outbox_ids s)" "claim_outbox clk w ttl s = (None, t)"
    by (rule claim_outbox_rows [OF that]) (auto simp: reclaim_outbox_fate)
  show "outbox_ids t = outbox_ids s \<and>
      (\<exists>n. outbox_fate s (ob_outbox_id r) = Some (False, n) \<and> outbox_fate t = (outbox_fate s)(ob_outbox_id r \<mapsto> (False, n + 1)))"
    if d: "distinct (outbox_ids s)" and c: "claim_outbox clk w ttl s = (Some r, t)"
  proof (rule claim_outbox_rows [OF d c])
    let ?u = "reclaim_outbox (iso_ago (clk 1) ttl) s"
    fix q
    assume q: "Some r = Some (lock_outbox_row w (clk 0) q)" "q \<in> set (cq_outbox ?u)" "ob_ready q"
      and t: "t = update_outbox (\<lambda>q'. ob_outbox_id q' = ob_outbox_id q \<and> ob_ready q') (lock_outbox_row w (clk 0)) ?u"
    have uniq: "keys_unique ob_outbox_id (cq_outbox ?u)"
      using d reclaim_outbox_fate(2) [of "iso_ago (clk 1) ttl" s] by (simp add: keys_unique_def outbox_ids_def)
    have fate: "outbox_fate ?u (ob_outbox_id q) = Some (False, ob_attempts q)"
      "outbox_fate t = (outbox_fate ?u)(ob_outbox_id q \<mapsto> (False, ob_attempts q + 1))"
      using outbox_rows.fate_claimed [OF uniq q(2,3), of "lock_outbox_row w (clk 0)"]
      by (simp_all add: outbox_fate_def t update_outbox_def lock_outbox_row_def ob_settled_def)
    have "outbox_ids t = outbox_ids s" by (simp add: t outbox_ids_update lock_outbox_row_def reclaim_outbox_fate(2))
    with fate q(1) show ?thesis by (simp add: reclaim_outbox_fate(1) lock_outbox_row_def)
  qed simp
  show "outbox_ids (mark_outbox_sent k s) = outbox_ids s \<and> outbox_fate (mark_outbox_sent k s) = (outbox_fate s)(k \<mapsto> (True, n))"
    if "outbox_fate s k = Some (b, n)"
    using that unfolding mark_outbox_sent_def outbox_fate_def
    by (auto simp: outbox_ids_update update_outbox_def ob_settled_def outbox_ids_def sql_update_def [symmetric] intro!: outbox_rows.fate_update)
      (simp add: sql_update_def)
  show "outbox_ids t = outbox_ids s \<and> (dead \<longleftrightarrow> m \<le> n) \<and> outbox_fate t = (outbox_fate s)(k \<mapsto> (dead, n))"
    if f: "outbox_fate s k = Some (b, n)" and r: "mark_outbox_retry clock k err m backoff s = (dead, t)"
  proof -
    obtain q where "get_outbox k s = Some q" "ob_attempts q = n" using f by (auto simp: outbox_fate_def row_fate_def get_outbox_def)
    with f r show ?thesis
      unfolding outbox_fate_def mark_outbox_retry_def Let_def
      by (auto simp: update_outbox_def outbox_ids_def ob_settled_def split: if_splits intro!: outbox_rows.fate_update)
        (simp_all add: sql_update_def)
  qed
qed

end
