(* ===== verification/Channel_Access.thy ===== *)
theory Channel_Access
  imports Channel_Sessions Channel_Queues
begin

text \<open>
  Who may talk to the agent over a channel: pairings, principals and their channel subjects
  (\<open>modules/controlplane/storage/principals.py\<close>), pairing tokens and attempts
  (\<open>storage/pair_tokens.py\<close>, \<open>pairing/store.py\<close>), the fixed-window rate limits
  (\<open>storage/store.py\<close>, \<open>runtime/rate_limit.py\<close>) and the scopes of a message (\<open>runtime/security.py\<close>).
  Timestamps of rows are instants, those of tokens and rate limits are seconds. The hash function is
  a parameter.
\<close>

section \<open>Tables\<close>

record pairing_row =
  pa_pairing_id :: string
  pa_channel :: string
  pa_chat_id :: string
  pa_user_id :: string
  pa_session_id :: string
  pa_created_at :: int
  pa_last_seen_at :: int
  pa_status :: string
  pa_scopes :: "string list"
  pa_note :: "string option"

record principal_row =
  pr_principal_id :: string
  pr_created_at :: int
  pr_updated_at :: int
  pr_meta :: pydict

record subject_row =
  su_principal_id :: string
  su_channel :: string
  su_subject_id :: string
  su_status :: string
  su_scopes :: "string list"
  su_note :: "string option"
  su_created_at :: int
  su_last_seen_at :: int
  su_meta :: pydict

record pair_token =
  tk_token_hash :: string
  tk_channel :: string
  tk_token_hint :: string
  tk_created_at_ts :: int
  tk_expires_at_ts :: int
  tk_used_at_ts :: "int option"
  tk_expected_account_id :: "string option"
  tk_expected_chat_key :: "string option"
  tk_consumer_account_id :: "string option"
  tk_consumer_chat_key :: "string option"
  tk_scopes :: "string list"

record pair_attempt_row =
  pt_channel :: string
  pt_account_id :: string
  pt_chat_key :: "string option"
  pt_attempted_at_ts :: int
  pt_token_hash_prefix :: string
  pt_outcome :: string
  pt_detail :: pydict

record rate_limit_row =
  rl_key_type :: string
  rl_key_id :: string
  rl_window_start :: int
  rl_count :: int

record access_tables =
  ac_pairings :: "pairing_row list"
  ac_principals :: "principal_row list"
  ac_subjects :: "subject_row list"
  ac_tokens :: "pair_token list"
  ac_attempts :: "pair_attempt_row list"
  ac_rate_limits :: "rate_limit_row list"
  ac_uuids :: nat

definition empty_access :: access_tables where
  "empty_access = \<lparr>ac_pairings = [], ac_principals = [], ac_subjects = [], ac_tokens = [], ac_attempts = [], ac_rate_limits = [],
     ac_uuids = 0\<rparr>"

datatype access_error = Access_ValueError string | Access_IntegrityError

definition PRINCIPAL_BINDING_STATUS_ACTIVE :: string where
  "PRINCIPAL_BINDING_STATUS_ACTIVE = ''active''"

definition PRINCIPAL_BINDING_STATUS_INACTIVE :: string where
  "PRINCIPAL_BINDING_STATUS_INACTIVE = ''inactive''"

definition DEFAULT_MINIMAL_SCOPES :: "string list" where
  "DEFAULT_MINIMAL_SCOPES = [''cp.message.read'', ''cp.message.write'', ''session.read'', ''session.write'', ''run.start'']"

text \<open>Scopes are read back without the blank ones.\<close>

definition scopes_list :: "string list \<Rightarrow> string list" where
  "scopes_list scopes = filter (\<lambda>x. str_strip x \<noteq> []) scopes"

section \<open>Principals and pairings\<close>

definition pa_chat :: "pairing_row \<Rightarrow> string \<times> string" where
  "pa_chat r = (pa_channel r, pa_chat_id r)"

definition su_subject :: "subject_row \<Rightarrow> string \<times> string" where
  "su_subject r = (su_channel r, su_subject_id r)"

definition upsert_principal_row :: "string \<Rightarrow> int \<Rightarrow> int \<Rightarrow> pydict option \<Rightarrow> access_tables \<Rightarrow> access_tables" where
  "upsert_principal_row principal_id created_at updated_at meta s =
     s\<lparr>ac_principals := sql_upsert pr_principal_id
        (\<lambda>old new. case meta of None \<Rightarrow> old\<lparr>pr_updated_at := pr_updated_at new\<rparr>
           | Some m \<Rightarrow> old\<lparr>pr_updated_at := pr_updated_at new, pr_meta := m\<rparr>)
        \<lparr>pr_principal_id = principal_id, pr_created_at = created_at, pr_updated_at = updated_at,
         pr_meta = (case meta of None \<Rightarrow> [] | Some m \<Rightarrow> m)\<rparr> (ac_principals s)\<rparr>"

definition upsert_channel_subject :: "subject_row \<Rightarrow> access_tables \<Rightarrow> access_tables" where
  "upsert_channel_subject row s =
     s\<lparr>ac_subjects := sql_upsert su_subject (\<lambda>old new. new\<lparr>su_created_at := su_created_at old\<rparr>) row (ac_subjects s)\<rparr>"

definition existing_created_at :: "string \<Rightarrow> string \<Rightarrow> int \<Rightarrow> access_tables \<Rightarrow> int" where
  "existing_created_at channel subject_id fallback s =
     (case sql_get su_subject (channel, subject_id) (ac_subjects s) of None \<Rightarrow> fallback | Some r \<Rightarrow> su_created_at r)"

definition binding_meta :: "string \<Rightarrow> string \<Rightarrow> string \<Rightarrow> pydict" where
  "binding_meta source user_id session_id =
     [(''source'', PStr source), (''user_id'', PStr user_id), (''session_id'', PStr session_id)]"

text \<open>A chat that is paired already keeps its pairing identifier.\<close>

definition upsert_pairing ::
  "(nat \<Rightarrow> string) \<Rightarrow> int \<Rightarrow> string \<Rightarrow> string \<Rightarrow> string \<Rightarrow> string \<Rightarrow> string option \<Rightarrow> string list \<Rightarrow> string option \<Rightarrow> string option \<Rightarrow>
   access_tables \<Rightarrow> (access_error + string) \<times> access_tables" where
  "upsert_pairing uuid now channel chat_id user_id session_id status scopes note pairing_id s =
     (let active = opt_or status PRINCIPAL_BINDING_STATUS_ACTIVE;
          (pid, n) = given_or_uuid uuid pairing_id (ac_uuids s); s = s\<lparr>ac_uuids := n\<rparr>;
          row = \<lparr>pa_pairing_id = pid, pa_channel = channel, pa_chat_id = chat_id, pa_user_id = user_id, pa_session_id = session_id,
                 pa_created_at = now, pa_last_seen_at = now, pa_status = active, pa_scopes = scopes, pa_note = note\<rparr>
      in if sql_get pa_chat (pa_chat row) (ac_pairings s) = None \<and> sql_get pa_pairing_id pid (ac_pairings s) \<noteq> None
         then (Inl Access_IntegrityError, s)
         else let s = s\<lparr>ac_pairings := sql_upsert pa_chat
                    (\<lambda>old new. new\<lparr>pa_pairing_id := pa_pairing_id old, pa_created_at := pa_created_at old\<rparr>) row (ac_pairings s)\<rparr>;
                  resolved_pid = (case sql_get pa_chat (channel, chat_id) (ac_pairings s) of None \<Rightarrow> pid | Some r \<Rightarrow> pa_pairing_id r);
                  s = upsert_principal_row resolved_pid now now None s
              in (Inr resolved_pid, upsert_channel_subject
                   \<lparr>su_principal_id = resolved_pid, su_channel = channel, su_subject_id = chat_id, su_status = active, su_scopes = scopes,
                    su_note = note, su_created_at = existing_created_at channel chat_id now s, su_last_seen_at = now,
                    su_meta = binding_meta ''cp_pairings_dual_write'' user_id session_id\<rparr> s))"

definition get_pairing :: "string \<Rightarrow> string \<Rightarrow> access_tables \<Rightarrow> pairing_row option" where
  "get_pairing channel chat_id s =
     map_option (\<lambda>r. r\<lparr>pa_scopes := scopes_list (pa_scopes r)\<rparr>)
       (find (\<lambda>r. pa_chat r = (channel, chat_id) \<and> pa_status r = PRINCIPAL_BINDING_STATUS_ACTIVE) (ac_pairings s))"

definition list_pairings :: "string option \<Rightarrow> int \<Rightarrow> access_tables \<Rightarrow> pairing_row list" where
  "list_pairings channel limit s =
     map (\<lambda>r. r\<lparr>pa_scopes := scopes_list (pa_scopes r)\<rparr>)
       (take (nat (max 1 limit)) (sql_order_desc pa_last_seen_at
         (filter (\<lambda>r. pa_status r = PRINCIPAL_BINDING_STATUS_ACTIVE \<and> (opt_truthy channel \<longrightarrow> Some (pa_channel r) = channel)) (ac_pairings s))))"

definition touch_pairing :: "int \<Rightarrow> string \<Rightarrow> string \<Rightarrow> access_tables \<Rightarrow> access_tables" where
  "touch_pairing now channel chat_id s =
     s\<lparr>ac_pairings := sql_update (\<lambda>r. pa_chat r = (channel, chat_id) \<and> pa_status r = PRINCIPAL_BINDING_STATUS_ACTIVE)
         (\<lambda>r. r\<lparr>pa_last_seen_at := now\<rparr>) (ac_pairings s),
       ac_subjects := sql_update (\<lambda>r. su_subject r = (channel, chat_id)) (\<lambda>r. r\<lparr>su_last_seen_at := now\<rparr>) (ac_subjects s)\<rparr>"

text \<open>The copy of one pairing into the tables of principals, with the counters of new principals,
  new subjects and updated subjects.\<close>

definition backfill_row :: "int \<Rightarrow> pairing_row \<Rightarrow> (nat \<times> nat \<times> nat) \<times> access_tables \<Rightarrow> (nat \<times> nat \<times> nat) \<times> access_tables" where
  "backfill_row now pairing cs =
     (let ((principal_new, subject_new, subject_updated), s) = cs; pid = pa_pairing_id pairing;
          principal_new = (if sql_get pr_principal_id pid (ac_principals s) = None then Suc principal_new else principal_new);
          s = upsert_principal_row pid (pa_created_at pairing) now None s;
          fresh = (sql_get su_subject (pa_chat pairing) (ac_subjects s) = None)
      in ((principal_new, if fresh then Suc subject_new else subject_new, if fresh then subject_updated else Suc subject_updated),
          upsert_channel_subject
            \<lparr>su_principal_id = pid, su_channel = pa_channel pairing, su_subject_id = pa_chat_id pairing,
             su_status = opt_or (Some (pa_status pairing)) PRINCIPAL_BINDING_STATUS_ACTIVE, su_scopes = pa_scopes pairing,
             su_note = pa_note pairing,
             su_created_at = existing_created_at (pa_channel pairing) (pa_chat_id pairing) (pa_created_at pairing) s,
             su_last_seen_at = pa_last_seen_at pairing,
             su_meta = binding_meta ''cp_pairings_backfill'' (pa_user_id pairing) (pa_session_id pairing)\<rparr> s))"

definition backfill_pairings_to_principals ::
  "int \<Rightarrow> string option \<Rightarrow> string option \<Rightarrow> int option \<Rightarrow> access_tables \<Rightarrow> (nat \<times> nat \<times> nat \<times> nat) \<times> access_tables" where
  "backfill_pairings_to_principals now channel status limit s =
     (let active = opt_or status PRINCIPAL_BINDING_STATUS_ACTIVE;
          rows = sort_key pa_created_at (filter (\<lambda>r. pa_status r = active \<and> (channel \<noteq> None \<longrightarrow> Some (pa_channel r) = channel)) (ac_pairings s));
          rows = (case limit of None \<Rightarrow> rows | Some k \<Rightarrow> take (nat (max 1 k)) rows);
          (counts, s) = fold (backfill_row now) rows ((0, 0, 0), s)
      in ((length rows, counts), s))"

definition upsert_principal ::
  "(nat \<Rightarrow> string) \<Rightarrow> int \<Rightarrow> string option \<Rightarrow> pydict option \<Rightarrow> access_tables \<Rightarrow> (access_error + string) \<times> access_tables" where
  "upsert_principal uuid now principal_id meta s =
     (let (given, n) = given_or_uuid uuid principal_id (ac_uuids s); s = s\<lparr>ac_uuids := n\<rparr>; pid = str_strip given
      in if pid = [] then (Inl (Access_ValueError ''principal_id must be non-empty''), s)
         else (Inr pid, upsert_principal_row pid now now meta s))"

definition bind_principal_subject ::
  "int \<Rightarrow> string \<Rightarrow> string \<Rightarrow> string \<Rightarrow> string option \<Rightarrow> string list \<Rightarrow> string option \<Rightarrow> pydict option \<Rightarrow>
   access_tables \<Rightarrow> (access_error + unit) \<times> access_tables" where
  "bind_principal_subject now principal_id channel subject_id status scopes note meta s =
     (let pid = str_strip principal_id; chan = str_strip channel; sub = str_strip subject_id in
      if pid = [] then (Inl (Access_ValueError ''principal_id must be non-empty''), s)
      else if chan = [] \<or> sub = [] then (Inl (Access_ValueError ''channel and subject_id must be non-empty''), s)
      else if sql_get pr_principal_id pid (ac_principals s) = None
      then (Inl (Access_ValueError (''principal_id not found: '' @ pid)), s)
      else (Inr (), upsert_channel_subject
             \<lparr>su_principal_id = pid, su_channel = chan, su_subject_id = sub, su_status = opt_or status PRINCIPAL_BINDING_STATUS_ACTIVE,
              su_scopes = scopes, su_note = note, su_created_at = existing_created_at chan sub now s, su_last_seen_at = now,
              su_meta = (case meta of None \<Rightarrow> [] | Some m \<Rightarrow> m)\<rparr> s))"

definition resolve_principal :: "string \<Rightarrow> string \<Rightarrow> access_tables \<Rightarrow> string option" where
  "resolve_principal channel subject_id s =
     (let chan = str_strip channel; sub = str_strip subject_id in
      if chan = [] \<or> sub = [] then None
      else case find (\<lambda>r. su_subject r = (chan, sub) \<and> su_status r = PRINCIPAL_BINDING_STATUS_ACTIVE) (ac_subjects s) of
        None \<Rightarrow> None
      | Some r \<Rightarrow> let pid = str_strip (su_principal_id r) in if pid = [] then None else Some pid)"

definition get_channel_subject :: "string \<Rightarrow> string \<Rightarrow> access_tables \<Rightarrow> subject_row option" where
  "get_channel_subject channel subject_id s =
     (let chan = str_strip channel; sub = str_strip subject_id in
      if chan = [] \<or> sub = [] then None
      else map_option (\<lambda>r. r\<lparr>su_scopes := scopes_list (su_scopes r)\<rparr>) (sql_get su_subject (chan, sub) (ac_subjects s)))"

definition list_channel_subjects :: "string option \<Rightarrow> string option \<Rightarrow> int \<Rightarrow> access_tables \<Rightarrow> subject_row list" where
  "list_channel_subjects channel status limit s =
     (let chan = str_strip (opt_or channel []); state = str_strip (opt_or status [])
      in map (\<lambda>r. r\<lparr>su_scopes := scopes_list (su_scopes r)\<rparr>)
           (take (nat (max 1 limit)) (sql_order_desc su_last_seen_at
             (filter (\<lambda>r. (chan \<noteq> [] \<longrightarrow> su_channel r = chan) \<and> (state \<noteq> [] \<longrightarrow> su_status r = state)) (ac_subjects s)))))"

text \<open>The same assignments are made in both tables.\<close>

definition update_channel_subject ::
  "int \<Rightarrow> string \<Rightarrow> string \<Rightarrow> string option \<Rightarrow> string list option \<Rightarrow> string option \<Rightarrow> access_tables \<Rightarrow> bool \<times> access_tables" where
  "update_channel_subject now channel subject_id status scopes note s =
     (let chan = str_strip channel; sub = str_strip subject_id in
      if chan = [] \<or> sub = [] then (False, s)
      else (sql_count (\<lambda>r. su_subject r = (chan, sub)) (ac_subjects s) > 0,
            s\<lparr>ac_subjects := sql_update (\<lambda>r. su_subject r = (chan, sub))
                (\<lambda>r. r\<lparr>su_last_seen_at := now, su_status := (case status of None \<Rightarrow> su_status r | Some x \<Rightarrow> x),
                   su_scopes := (case scopes of None \<Rightarrow> su_scopes r | Some x \<Rightarrow> x),
                   su_note := (case note of None \<Rightarrow> su_note r | Some x \<Rightarrow> Some x)\<rparr>) (ac_subjects s),
              ac_pairings := sql_update (\<lambda>r. pa_chat r = (chan, sub))
                (\<lambda>r. r\<lparr>pa_last_seen_at := now, pa_status := (case status of None \<Rightarrow> pa_status r | Some x \<Rightarrow> x),
                   pa_scopes := (case scopes of None \<Rightarrow> pa_scopes r | Some x \<Rightarrow> x),
                   pa_note := (case note of None \<Rightarrow> pa_note r | Some x \<Rightarrow> Some x)\<rparr>) (ac_pairings s)\<rparr>))"

definition touch_channel_subject :: "int \<Rightarrow> string \<Rightarrow> string \<Rightarrow> access_tables \<Rightarrow> access_tables" where
  "touch_channel_subject now channel subject_id s =
     (let chan = str_strip channel; sub = str_strip subject_id in
      if chan = [] \<or> sub = [] then s
      else s\<lparr>ac_subjects := sql_update (\<lambda>r. su_subject r = (chan, sub)) (\<lambda>r. r\<lparr>su_last_seen_at := now\<rparr>) (ac_subjects s)\<rparr>)"

section \<open>Rate limits\<close>

definition rl_key :: "rate_limit_row \<Rightarrow> string \<times> string \<times> int" where
  "rl_key r = (rl_key_type r, rl_key_id r, rl_window_start r)"

text \<open>Count of the current window, whether it is within the limit; windows that are long over are
  deleted.\<close>

definition increment_rate_limit :: "int \<Rightarrow> string \<Rightarrow> string \<Rightarrow> int \<Rightarrow> int \<Rightarrow> access_tables \<Rightarrow> (bool \<times> int) \<times> access_tables" where
  "increment_rate_limit now key_type key_id window_seconds limit s =
     (let seconds = max 1 window_seconds; window_start = now - now mod seconds;
          row = \<lparr>rl_key_type = key_type, rl_key_id = key_id, rl_window_start = window_start, rl_count = 1\<rparr>;
          rows = sql_upsert rl_key (\<lambda>old _. old\<lparr>rl_count := rl_count old + 1\<rparr>) row (ac_rate_limits s);
          count = (case sql_get rl_key (rl_key row) rows of None \<Rightarrow> 0 | Some r \<Rightarrow> rl_count r);
          rows = filter (\<lambda>r. \<not> (rl_key_type r = key_type \<and> rl_key_id r = key_id \<and> rl_window_start r < window_start - seconds * 3)) rows
      in ((count \<le> limit, count), s\<lparr>ac_rate_limits := rows\<rparr>))"

record rate_limit_policy =
  rp_chat_window_s :: int
  rp_chat_limit :: int
  rp_user_window_s :: int
  rp_user_limit :: int
  rp_session_window_s :: int
  rp_session_limit :: int

definition default_rate_limit_policy :: rate_limit_policy where
  "default_rate_limit_policy = \<lparr>rp_chat_window_s = 60, rp_chat_limit = 30, rp_user_window_s = 60, rp_user_limit = 30,
     rp_session_window_s = 60, rp_session_limit = 40\<rparr>"

section \<open>Messages and their authorization\<close>

record auth_context =
  au_role :: string
  au_scopes :: "string list"
  au_principal_id :: "string option"

record inbound_message =
  in_user_key :: string
  in_chat_key :: string
  in_text :: string
  in_channel :: string
  in_thread_key :: "string option"
  in_meta :: pydict
  in_inbound_id :: "string option"
  in_channel_message_id :: "string option"
  in_chat_id :: "string option"
  in_user_id :: "string option"
  in_thread_id :: "string option"
  in_reply_to :: "string option"
  in_metadata :: pydict
  in_auth :: "auth_context option"

text \<open>The checks in their order; \<open>clk i\<close> is the second at which the \<open>i\<close>-th is made. A check that is
  refused ends the sequence.\<close>

fun rate_checks ::
  "(nat \<Rightarrow> int) \<Rightarrow> nat \<Rightarrow> (string \<times> string \<times> int \<times> int) list \<Rightarrow> access_tables \<Rightarrow> (bool \<times> string) \<times> access_tables" where
  "rate_checks clk i [] s = ((True, ''ok''), s)"
| "rate_checks clk i ((key_type, key_id, window_s, limit) # checks) s =
     (case increment_rate_limit (clk i) key_type key_id window_s limit s of
        ((allowed, _), s) \<Rightarrow>
          if allowed then rate_checks clk (Suc i) checks s else ((False, ''rate limit exceeded for '' @ key_type), s))"

definition rate_limiter_check ::
  "(nat \<Rightarrow> int) \<Rightarrow> rate_limit_policy \<Rightarrow> inbound_message \<Rightarrow> string \<Rightarrow> access_tables \<Rightarrow> (bool \<times> string) \<times> access_tables" where
  "rate_limiter_check clk policy inbound session_id =
     rate_checks clk 0
       [(''chat_id'', opt_or (in_chat_id inbound) (in_chat_key inbound), rp_chat_window_s policy, rp_chat_limit policy),
        (''user_id'', opt_or (in_user_id inbound) (in_user_key inbound), rp_user_window_s policy, rp_user_limit policy),
        (''session_id'', session_id, rp_session_window_s policy, rp_session_limit policy)]"

definition AUTH_ROLE_UNPAIRED :: string where
  "AUTH_ROLE_UNPAIRED = ''unpaired''"

definition is_pair_command :: "string \<Rightarrow> bool" where
  "is_pair_command text = (case str_words text of [] \<Rightarrow> False | w # _ \<Rightarrow> str_lower w = ''/pair'')"

definition COMMAND_SCOPE_OVERRIDES :: "(string \<times> string list) list" where
  "COMMAND_SCOPE_OVERRIDES = [(''cancel'', [''run.cancel'']), (''approve'', [''policy.approve'']), (''deny'', [''policy.approve'']),
     (''grants'', [''policy.approve''])]"

text \<open>The authorization that the identity service reads from the binding; the cached service, which only
  caches \<open>resolve\<close>, passes the call on.\<close>

definition identity_auth_context :: "string \<Rightarrow> string \<Rightarrow> string list \<Rightarrow> access_tables \<Rightarrow> auth_context option" where
  "identity_auth_context channel subject_id default_scopes s =
     (case get_channel_subject channel subject_id s of
        None \<Rightarrow> None
      | Some b \<Rightarrow>
          (let status = opt_or (Some (su_status b)) PRINCIPAL_BINDING_STATUS_INACTIVE;
               scopes = filter (\<lambda>scope. str_strip scope \<noteq> []) (su_scopes b)
           in if status \<noteq> PRINCIPAL_BINDING_STATUS_ACTIVE then None
              else Some \<lparr>au_role = ''paired'', au_scopes = (if scopes = [] then default_scopes else scopes),
                         au_principal_id = Some (su_principal_id b)\<rparr>))"

text \<open>An authorizer on the store above, with or without the identity service on the same store.\<close>

record scope_authorizer =
  sz_identity_api :: bool
  sz_command_registry :: "(string \<Rightarrow> string list option) option"
  sz_default_scopes :: "string list"

definition auth_from_principal_mapping ::
  "int \<Rightarrow> scope_authorizer \<Rightarrow> string \<Rightarrow> string \<Rightarrow> access_tables \<Rightarrow> auth_context option \<times> access_tables" where
  "auth_from_principal_mapping now sz channel chat_id s =
     (case (if sz_identity_api sz then identity_auth_context channel chat_id (sz_default_scopes sz) s else None) of
        Some auth \<Rightarrow> (Some auth, touch_channel_subject now channel chat_id s)
      | None \<Rightarrow>
     (case resolve_principal channel chat_id s of
        None \<Rightarrow> (None, s)
      | Some principal_id \<Rightarrow>
          (let binding = get_channel_subject channel chat_id s;
               status = str_lower (str_strip (case binding of None \<Rightarrow> PRINCIPAL_BINDING_STATUS_ACTIVE
                          | Some b \<Rightarrow> opt_or (Some (su_status b)) PRINCIPAL_BINDING_STATUS_ACTIVE));
               scopes = (case binding of None \<Rightarrow> [] | Some b \<Rightarrow> su_scopes b)
           in if status \<noteq> PRINCIPAL_BINDING_STATUS_ACTIVE then (None, s)
              else (Some \<lparr>au_role = ''paired'', au_scopes = (if scopes = [] then sz_default_scopes sz else scopes),
                      au_principal_id = Some principal_id\<rparr>, touch_channel_subject now channel chat_id s))))"

definition auth_for_inbound ::
  "int \<Rightarrow> scope_authorizer \<Rightarrow> inbound_message \<Rightarrow> access_tables \<Rightarrow> auth_context \<times> access_tables" where
  "auth_for_inbound now sz inbound s =
     (case in_auth inbound of
        Some auth \<Rightarrow> (auth, s)
      | None \<Rightarrow>
          (let channel = in_channel inbound; chat_id = opt_or (in_chat_id inbound) (in_chat_key inbound)
           in case auth_from_principal_mapping now sz channel chat_id s of
                (Some auth, s) \<Rightarrow> (auth, s)
              | (None, s) \<Rightarrow>
                  ((case get_pairing channel chat_id s of
                      Some p \<Rightarrow> \<lparr>au_role = ''paired'', au_scopes = (if pa_scopes p = [] then sz_default_scopes sz else pa_scopes p),
                                 au_principal_id = Some (pa_pairing_id p)\<rparr>
                    | None \<Rightarrow> \<lparr>au_role = AUTH_ROLE_UNPAIRED, au_scopes = [], au_principal_id = None\<rparr>), s)))"

definition required_scopes :: "scope_authorizer \<Rightarrow> parsed_command \<Rightarrow> string list" where
  "required_scopes sz command =
     (case (case sz_command_registry sz of None \<Rightarrow> None | Some f \<Rightarrow> f (pc_canonical command)) of
        Some scopes \<Rightarrow> scopes
      | None \<Rightarrow> dict_get_or COMMAND_SCOPE_OVERRIDES (pc_canonical command) (sz_default_scopes sz))"

definition scopes_allowed :: "string list \<Rightarrow> auth_context \<Rightarrow> bool \<times> string" where
  "scopes_allowed required auth =
     (let missing = filter (\<lambda>x. x \<notin> set (au_scopes auth)) required
      in if missing \<noteq> [] then (False, ''missing scopes: '' @ str_join '', '' missing) else (True, ''ok''))"

definition command_allowed :: "scope_authorizer \<Rightarrow> parsed_command \<Rightarrow> auth_context \<Rightarrow> bool \<times> string" where
  "command_allowed sz command auth = scopes_allowed (required_scopes sz command) auth"

definition message_allowed :: "auth_context \<Rightarrow> bool \<times> string" where
  "message_allowed auth =
     (if ''chat.interact'' \<in> set (au_scopes auth) then (True, ''ok'')
      else scopes_allowed [''cp.message.write'', ''run.start''] auth)"

end
