(* ===== verification/Channel_Pairing.thy ===== *)
theory Channel_Pairing
  imports Channel_Access
begin

text \<open>
  Pairing a chat with the owner: one-time tokens and recorded attempts
  (\<open>modules/controlplane/storage/pair_tokens.py\<close>, \<open>pairing/store.py\<close>), the service that redeems a token
  from a message (\<open>pairing/service.py\<close>) and the administration of bindings (\<open>pairing/admin.py\<close>).
  The hash function and the older token store of a channel are parameters; times of tokens are
  seconds.
\<close>

section \<open>Tokens\<close>

definition token_char :: "char \<Rightarrow> bool" where
  "token_char c = (let n = (of_char c :: nat) in
     48 \<le> n \<and> n \<le> 57 \<or> 65 \<le> n \<and> n \<le> 90 \<or> 97 \<le> n \<and> n \<le> 122 \<or> n = 95 \<or> n = 45)"

definition token_allowed :: "string \<Rightarrow> bool" where
  "token_allowed t = (1 \<le> length t \<and> length t \<le> 64 \<and> list_all token_char t)"

definition token_hash :: "(string \<Rightarrow> string) \<Rightarrow> string \<Rightarrow> string option \<Rightarrow> string" where
  "token_hash sha256 token pepper = sha256 (opt_or pepper [] @ token)"

text \<open>\<open>fresh\<close> is the token that is generated when none is given.\<close>

definition validate_or_generate_token :: "string \<Rightarrow> string option \<Rightarrow> access_error + string" where
  "validate_or_generate_token fresh token =
     (let generated = opt_or token (str_rstrip_by (\<lambda>c. c = CHR ''='') fresh)
      in if token_allowed generated then Inr generated
         else Inl (Access_ValueError ''pair token must match channel-safe charset and length''))"

record pair_create_result =
  pc_token :: string
  pc_token_hint :: string
  pc_token_hash_prefix :: string
  pc_expires_at_ts :: int
  pc_scopes :: "string list"

definition issue_pair_token ::
  "(string \<Rightarrow> string) \<Rightarrow> int \<Rightarrow> string \<Rightarrow> string \<Rightarrow> string option \<Rightarrow> string option \<Rightarrow> string list \<Rightarrow> string option \<Rightarrow> int \<Rightarrow> string option \<Rightarrow>
   access_tables \<Rightarrow> (access_error + pair_create_result) \<times> access_tables" where
  "issue_pair_token sha256 now fresh channel expected_account_id expected_chat_key scopes token ttl_seconds hash_pepper s =
     (let chan = str_strip channel in
      if chan = [] then (Inl (Access_ValueError ''channel is required''), s)
      else case validate_or_generate_token fresh token of
        Inl e \<Rightarrow> (Inl e, s)
      | Inr generated \<Rightarrow>
          (let hashed = token_hash sha256 generated hash_pepper; expires = now + max 60 ttl_seconds;
               scoped = filter (\<lambda>x. str_strip x \<noteq> []) scopes;
               row = \<lparr>tk_token_hash = hashed, tk_channel = chan, tk_token_hint = take 4 generated, tk_created_at_ts = now,
                      tk_expires_at_ts = expires, tk_used_at_ts = None, tk_expected_account_id = expected_account_id,
                      tk_expected_chat_key = expected_chat_key, tk_consumer_account_id = None, tk_consumer_chat_key = None,
                      tk_scopes = scoped\<rparr>
           in case sql_insert tk_token_hash row (ac_tokens s) of
                None \<Rightarrow> (Inl Access_IntegrityError, s)
              | Some rows \<Rightarrow>
                  (Inr \<lparr>pc_token = generated, pc_token_hint = take 4 generated, pc_token_hash_prefix = take 12 hashed,
                        pc_expires_at_ts = expires, pc_scopes = scoped\<rparr>, s\<lparr>ac_tokens := rows\<rparr>)))"

record consume_result =
  co_ok :: bool
  co_reason :: string
  co_token_hint :: string
  co_token_hash_prefix :: string
  co_scopes :: "string list"

definition pair_token_failure :: "string \<Rightarrow> string \<Rightarrow> string \<Rightarrow> consume_result" where
  "pair_token_failure reason token_hint hashed =
     \<lparr>co_ok = False, co_reason = reason, co_token_hint = token_hint, co_token_hash_prefix = take 12 hashed, co_scopes = []\<rparr>"

definition pair_expected_mismatch :: "pair_token \<Rightarrow> string \<Rightarrow> string \<Rightarrow> string" where
  "pair_expected_mismatch row account_id chat_key =
     (if tk_expected_account_id row \<noteq> None \<and> tk_expected_account_id row \<noteq> Some account_id then ''user_mismatch''
      else if tk_expected_chat_key row \<noteq> None \<and> tk_expected_chat_key row \<noteq> Some chat_key then ''chat_mismatch''
      else [])"

definition consume_pair_token ::
  "(string \<Rightarrow> string) \<Rightarrow> int \<Rightarrow> string \<Rightarrow> string \<Rightarrow> string \<Rightarrow> string \<Rightarrow> string option \<Rightarrow> access_tables \<Rightarrow> consume_result \<times> access_tables" where
  "consume_pair_token sha256 now channel token account_id chat_key hash_pepper s =
     (let chan = str_strip channel; hashed = token_hash sha256 token hash_pepper in
      case find (\<lambda>r. tk_token_hash r = hashed \<and> tk_channel r = chan) (ac_tokens s) of
        None \<Rightarrow> (pair_token_failure ''invalid_token'' (take 4 token) hashed, s)
      | Some row \<Rightarrow>
          (let hint = opt_or (Some (tk_token_hint row)) (take 4 token); mismatch = pair_expected_mismatch row account_id chat_key in
           if tk_used_at_ts row \<noteq> None then (pair_token_failure ''already_used'' hint hashed, s)
           else if tk_expires_at_ts row < now then (pair_token_failure ''expired_token'' hint hashed, s)
           else if mismatch \<noteq> [] then (pair_token_failure mismatch hint hashed, s)
           else let p = (\<lambda>r. tk_token_hash r = hashed \<and> tk_channel r = chan \<and> tk_used_at_ts r = None \<and> tk_expires_at_ts r \<ge> now);
                    changed = sql_count p (ac_tokens s);
                    s = s\<lparr>ac_tokens := sql_update p (\<lambda>r. r\<lparr>tk_used_at_ts := Some now, tk_consumer_account_id := Some account_id,
                          tk_consumer_chat_key := Some chat_key\<rparr>) (ac_tokens s)\<rparr>
                in if changed \<noteq> 1 then (pair_token_failure ''token_race'' (take 4 token) hashed, s)
                   else (\<lparr>co_ok = True, co_reason = ''paired'', co_token_hint = hint, co_token_hash_prefix = take 12 hashed,
                          co_scopes = filter (\<lambda>x. x \<noteq> []) (map str_strip (tk_scopes row))\<rparr>, s)))"

section \<open>Attempts\<close>

definition count_recent_pair_attempts :: "string \<Rightarrow> string \<Rightarrow> int \<Rightarrow> access_tables \<Rightarrow> nat" where
  "count_recent_pair_attempts channel account_id since_ts s =
     sql_count (\<lambda>r. pt_channel r = channel \<and> pt_account_id r = account_id \<and> pt_attempted_at_ts r \<ge> since_ts) (ac_attempts s)"

definition count_recent_pair_attempts_for_chat :: "string \<Rightarrow> string \<Rightarrow> int \<Rightarrow> access_tables \<Rightarrow> nat" where
  "count_recent_pair_attempts_for_chat channel chat_key since_ts s =
     sql_count (\<lambda>r. pt_channel r = channel \<and> pt_chat_key r = Some chat_key \<and> pt_attempted_at_ts r \<ge> since_ts) (ac_attempts s)"

definition record_pair_attempt ::
  "(string \<Rightarrow> string) \<Rightarrow> int \<Rightarrow> string \<Rightarrow> string \<Rightarrow> string option \<Rightarrow> string \<Rightarrow> string \<Rightarrow> string option \<Rightarrow> pydict \<Rightarrow> access_tables \<Rightarrow> access_tables" where
  "record_pair_attempt sha256 now channel account_id chat_key token outcome hash_pepper detail s =
     s\<lparr>ac_attempts := ac_attempts s @ [\<lparr>pt_channel = channel, pt_account_id = account_id, pt_chat_key = chat_key,
        pt_attempted_at_ts = now, pt_token_hash_prefix = take 12 (token_hash sha256 token hash_pepper), pt_outcome = outcome,
        pt_detail = detail\<rparr>]\<rparr>"

definition has_pair_channel_data :: "string \<Rightarrow> access_tables \<Rightarrow> bool" where
  "has_pair_channel_data channel s = (sql_count (\<lambda>r. tk_channel r = channel) (ac_tokens s) > 0)"

text \<open>Rows of the older token store; its user and chat numbers become account and chat keys.\<close>

record legacy_token =
  lt_token_hash :: string
  lt_channel :: "string option"
  lt_token_hint :: "string option"
  lt_created_at_ts :: "int option"
  lt_expires_at_ts :: "int option"
  lt_used_at_ts :: "int option"
  lt_expected_account_id :: "string option"
  lt_expected_chat_key :: "string option"
  lt_expected_user_id :: "int option"
  lt_expected_chat_id :: "int option"
  lt_consumer_account_id :: "string option"
  lt_consumer_chat_key :: "string option"
  lt_scopes :: "string list"

definition legacy_key :: "string \<Rightarrow> string option \<Rightarrow> int option \<Rightarrow> string option" where
  "legacy_key prefix key number = (case key of Some k \<Rightarrow> Some k | None \<Rightarrow> map_option (\<lambda>n. prefix @ int_str n) number)"

definition int_or_default :: "int option \<Rightarrow> int \<Rightarrow> int" where
  "int_or_default x d = (case x of None \<Rightarrow> d | Some n \<Rightarrow> if n = 0 then d else n)"

definition copy_token :: "int \<Rightarrow> legacy_token \<Rightarrow> pair_token" where
  "copy_token now row =
     \<lparr>tk_token_hash = lt_token_hash row, tk_channel = opt_or (lt_channel row) ''telegram'',
      tk_token_hint = opt_or (lt_token_hint row) (take 4 (lt_token_hash row)), tk_created_at_ts = int_or_default (lt_created_at_ts row) now,
      tk_expires_at_ts = int_or_default (lt_expires_at_ts row) 0, tk_used_at_ts = lt_used_at_ts row,
      tk_expected_account_id = legacy_key ''telegram-bot:user:'' (lt_expected_account_id row) (lt_expected_user_id row),
      tk_expected_chat_key = legacy_key ''telegram-bot:chat:'' (lt_expected_chat_key row) (lt_expected_chat_id row),
      tk_consumer_account_id = lt_consumer_account_id row, tk_consumer_chat_key = lt_consumer_chat_key row,
      tk_scopes = filter (\<lambda>x. x \<noteq> []) (map str_strip (lt_scopes row))\<rparr>"

fun bulk_insert_pair_tokens :: "int \<Rightarrow> legacy_token list \<Rightarrow> access_tables \<Rightarrow> nat \<times> access_tables" where
  "bulk_insert_pair_tokens now [] s = (0, s)"
| "bulk_insert_pair_tokens now (row # rows) s =
     (case sql_insert tk_token_hash (copy_token now row) (ac_tokens s) of
        None \<Rightarrow> bulk_insert_pair_tokens now rows s
      | Some tokens \<Rightarrow> (let (n, s) = bulk_insert_pair_tokens now rows (s\<lparr>ac_tokens := tokens\<rparr>) in (Suc n, s)))"

record legacy_attempt =
  la_channel :: "string option"
  la_account_id :: "string option"
  la_chat_key :: "string option"
  la_user_id :: "int option"
  la_chat_id :: "int option"
  la_attempted_at_ts :: "int option"
  la_token_hash_prefix :: "string option"
  la_outcome :: "string option"
  la_detail :: pydict

definition bulk_insert_pair_attempts :: "int \<Rightarrow> legacy_attempt list \<Rightarrow> access_tables \<Rightarrow> nat \<times> access_tables" where
  "bulk_insert_pair_attempts now rows s =
     (length rows, s\<lparr>ac_attempts := ac_attempts s @ map (\<lambda>row.
        \<lparr>pt_channel = opt_or (la_channel row) ''telegram'',
         pt_account_id = opt_or (legacy_key ''telegram-bot:user:'' (la_account_id row) (la_user_id row)) [],
         pt_chat_key = legacy_key ''telegram-bot:chat:'' (la_chat_key row) (la_chat_id row),
         pt_attempted_at_ts = int_or_default (la_attempted_at_ts row) now,
         pt_token_hash_prefix = opt_or (la_token_hash_prefix row) [], pt_outcome = opt_or (la_outcome row) ''unknown'',
         pt_detail = la_detail row\<rparr>) rows\<rparr>)"

section \<open>The service\<close>

record pairing_policy =
  pp_enabled :: bool
  pp_mode :: string
  pp_token_ttl_seconds :: int
  pp_attempt_window_seconds :: int
  pp_max_attempts_per_user :: int
  pp_max_attempts_per_chat :: int
  pp_hash_pepper :: "string option"
  pp_allow_in_groups :: bool
  pp_default_scopes :: "string list"

definition default_pairing_policy :: pairing_policy where
  "default_pairing_policy = \<lparr>pp_enabled = True, pp_mode = ''required'', pp_token_ttl_seconds = 600, pp_attempt_window_seconds = 60,
     pp_max_attempts_per_user = 6, pp_max_attempts_per_chat = 20, pp_hash_pepper = None, pp_allow_in_groups = False,
     pp_default_scopes = DEFAULT_MINIMAL_SCOPES\<rparr>"

record pairing_attempt =
  pg_channel :: string
  pg_token :: string
  pg_account_id :: string
  pg_chat_key :: string
  pg_chat_type :: string
  pg_extra :: pydict

text \<open>\<open>RecentPairAttemptsLRU\<close>: counts by prefix, the one that was used last at the end.\<close>

record recent_attempts =
  ra_max_size :: nat
  ra_seen :: "(string \<times> int) list"

definition new_recent_attempts :: "int \<Rightarrow> recent_attempts" where
  "new_recent_attempts max_size = \<lparr>ra_max_size = nat (max 128 max_size), ra_seen = []\<rparr>"

definition lru_bump :: "string \<Rightarrow> recent_attempts \<Rightarrow> int \<times> recent_attempts" where
  "lru_bump token_prefix l =
     (let current = dict_get_or (ra_seen l) token_prefix 0 + 1;
          seen = dict_pop (ra_seen l) token_prefix @ [(token_prefix, current)];
          seen = (if length seen > ra_max_size l then tl seen else seen)
      in (current, l\<lparr>ra_seen := seen\<rparr>))"

text \<open>The state of the service: the tables, the sessions that the bridge resolves, the recent
  attempts, and the audit events.\<close>

record pairing_state =
  ps_access :: access_tables
  ps_sessions :: session_tables
  ps_lru :: recent_attempts
  ps_audit :: "(string \<times> string \<times> string) list"

text \<open>The parameters: hash function, identifiers, the readings of the clock (in seconds, and as
  instants), the older token store of the channel, and whether there is a bridge.\<close>

record pairing_env =
  pe_sha256 :: "string \<Rightarrow> string"
  pe_uuid :: "nat \<Rightarrow> string"
  pe_legacy :: "(pairing_attempt \<Rightarrow> consume_result option) option"
  pe_bridge :: bool

definition pairing_audit :: "string \<Rightarrow> string \<Rightarrow> string \<Rightarrow> pairing_state \<Rightarrow> pairing_state" where
  "pairing_audit event_type outcome channel w = w\<lparr>ps_audit := ps_audit w @ [(event_type, outcome, channel)]\<rparr>"

definition record_attempt :: "pairing_env \<Rightarrow> pairing_policy \<Rightarrow> int \<Rightarrow> pairing_attempt \<Rightarrow> string \<Rightarrow> pairing_state \<Rightarrow> pairing_state" where
  "record_attempt env policy now attempt outcome w =
     w\<lparr>ps_access := record_pair_attempt (pe_sha256 env) now (pg_channel attempt) (pg_account_id attempt) (Some (pg_chat_key attempt))
        (pg_token attempt) outcome (pp_hash_pepper policy)
        (dict_update [(''chat_type'', PStr (pg_chat_type attempt))] (pg_extra attempt)) (ps_access w)\<rparr>"

definition is_rate_limited :: "pairing_policy \<Rightarrow> int \<Rightarrow> pairing_attempt \<Rightarrow> access_tables \<Rightarrow> bool" where
  "is_rate_limited policy now attempt s =
     (let since = now - max 1 (pp_attempt_window_seconds policy)
      in int (count_recent_pair_attempts (pg_channel attempt) (pg_account_id attempt) since s) \<ge> pp_max_attempts_per_user policy \<or>
         int (count_recent_pair_attempts_for_chat (pg_channel attempt) (pg_chat_key attempt) since s) \<ge> pp_max_attempts_per_chat policy)"

text \<open>\<open>str(extra.get(key) or fallback)\<close>\<close>

definition extra_or :: "pairing_attempt \<Rightarrow> string \<Rightarrow> string \<Rightarrow> string" where
  "extra_or attempt key fallback =
     (let v = dict_get_or (pg_extra attempt) key PNone in if truthy v then py_str v else fallback)"

definition try_legacy_redeem :: "pairing_env \<Rightarrow> pairing_attempt \<Rightarrow> consume_result \<Rightarrow> pairing_state \<Rightarrow> consume_result \<times> pairing_state" where
  "try_legacy_redeem env attempt consume w =
     (if pg_channel attempt \<noteq> ''telegram'' \<or> dict_get_or (pg_extra attempt) ''telegram_user_id'' PNone = PNone \<or>
         dict_get_or (pg_extra attempt) ''telegram_chat_id'' PNone = PNone then (consume, w)
      else case pe_legacy env of
        None \<Rightarrow> (consume, w)
      | Some redeem \<Rightarrow>
          (case redeem attempt of
             None \<Rightarrow> (consume, w)
           | Some legacy \<Rightarrow> (legacy\<lparr>co_ok := True\<rparr>, pairing_audit ''cp.pairing.legacy_redeem'' ''ok'' (pg_channel attempt) w)))"

text \<open>A failure of the bridge is logged and does not undo the pairing.\<close>

definition bridge_pairing :: "pairing_env \<Rightarrow> pairing_policy \<Rightarrow> int \<Rightarrow> pairing_attempt \<Rightarrow> consume_result \<Rightarrow> pairing_state \<Rightarrow> pairing_state" where
  "bridge_pairing env policy now attempt consume w =
     (if \<not> pe_bridge env then w
      else let (session_id, sessions) = resolve_session (pe_uuid env) now (extra_or attempt ''session_user_key'' (pg_account_id attempt))
                 (extra_or attempt ''session_chat_key'' (pg_chat_key attempt)) (ps_sessions w);
               scopes = (if co_scopes consume = [] then pp_default_scopes policy else co_scopes consume);
               (_, access) = upsert_pairing (pe_uuid env) now (pg_channel attempt) (extra_or attempt ''subject_id'' (pg_chat_key attempt))
                 (extra_or attempt ''user_id'' (pg_account_id attempt)) session_id (Some PRINCIPAL_BINDING_STATUS_ACTIVE) scopes
                 (Some (pg_channel attempt @ ''_pair_bridge'')) None (ps_access w)
           in w\<lparr>ps_sessions := sessions, ps_access := access\<rparr>)"

datatype pair_reply = Not_handled | Groups_refused | Too_many | Rejected string | Paired

text \<open>\<open>clk 0\<close> is read when the rate limit is checked, \<open>clk 1\<close> when the token is redeemed and
  \<open>clk 2\<close> when the attempt is recorded; \<open>now\<close> is the instant of the bridge.\<close>

definition handle_pairing_attempt ::
  "pairing_env \<Rightarrow> pairing_policy \<Rightarrow> (nat \<Rightarrow> int) \<Rightarrow> int \<Rightarrow> pairing_attempt option \<Rightarrow> pairing_state \<Rightarrow> pair_reply \<times> pairing_state" where
  "handle_pairing_attempt env policy clk now extracted w =
     (if \<not> pp_enabled policy \<or> pp_mode policy = ''off'' then (Not_handled, w)
      else case extracted of
        None \<Rightarrow> (Not_handled, w)
      | Some attempt \<Rightarrow>
          if pg_chat_type attempt \<noteq> ''private'' \<and> \<not> pp_allow_in_groups policy then (Groups_refused, w)
          else if \<not> token_allowed (pg_token attempt)
          then (Rejected ''invalid_format'', record_attempt env policy (clk 2) attempt ''invalid_format'' w)
          else let (lru_count, lru) = lru_bump (take 12 (pg_token attempt)) (ps_lru w); w = w\<lparr>ps_lru := lru\<rparr> in
            if lru_count > 8 then (Too_many, record_attempt env policy (clk 2) attempt ''lru_limited'' w)
            else if is_rate_limited policy (clk 0) attempt (ps_access w)
            then (Too_many, record_attempt env policy (clk 2) attempt ''rate_limited'' w)
            else let (consume, access) = consume_pair_token (pe_sha256 env) (clk 1) (pg_channel attempt) (pg_token attempt)
                       (pg_account_id attempt) (pg_chat_key attempt) (pp_hash_pepper policy) (ps_access w);
                     w = w\<lparr>ps_access := access\<rparr>;
                     (consume, w) = (if \<not> co_ok consume \<and> co_reason consume = ''invalid_token'' \<and> pe_legacy env \<noteq> None
                       then try_legacy_redeem env attempt consume w else (consume, w));
                     reason = opt_or (Some (co_reason consume)) ''unknown'';
                     w = record_attempt env policy (clk 2) attempt reason w
                 in if co_ok consume
                    then (Paired, pairing_audit ''cp.pairing.token.consumed'' ''ok'' (pg_channel attempt)
                           (bridge_pairing env policy now attempt consume w))
                    else (Rejected reason, pairing_audit ''cp.pairing.token.rejected'' reason (pg_channel attempt) w))"

definition issue_token ::
  "pairing_env \<Rightarrow> pairing_policy \<Rightarrow> int \<Rightarrow> string \<Rightarrow> string \<Rightarrow> string option \<Rightarrow> string option \<Rightarrow> int option \<Rightarrow> string list \<Rightarrow> string option \<Rightarrow>
   pairing_state \<Rightarrow> (access_error + pair_create_result) \<times> pairing_state" where
  "issue_token env policy now fresh channel expected_account_id expected_chat_key ttl scopes token w =
     (case issue_pair_token (pe_sha256 env) now fresh channel expected_account_id expected_chat_key
             (if scopes = [] then pp_default_scopes policy else scopes) token
             (case ttl of None \<Rightarrow> pp_token_ttl_seconds policy | Some t \<Rightarrow> if t = 0 then pp_token_ttl_seconds policy else t)
             (pp_hash_pepper policy) (ps_access w) of
        (Inl e, access) \<Rightarrow> (Inl e, w\<lparr>ps_access := access\<rparr>)
      | (Inr issued, access) \<Rightarrow> (Inr issued, pairing_audit ''cp.pairing.token.issued'' ''ok'' channel (w\<lparr>ps_access := access\<rparr>)))"

section \<open>Administration\<close>

definition admin_revoke :: "int \<Rightarrow> string \<Rightarrow> string \<Rightarrow> string option \<Rightarrow> access_tables \<Rightarrow> subject_row option \<times> access_tables" where
  "admin_revoke now channel subject_id note s =
     (if get_channel_subject channel subject_id s = None then (None, s)
      else let s = snd (update_channel_subject now channel subject_id (Some PRINCIPAL_BINDING_STATUS_INACTIVE) None note s)
           in (get_channel_subject channel subject_id s, s))"

definition admin_set_scopes :: "int \<Rightarrow> string \<Rightarrow> string \<Rightarrow> string list \<Rightarrow> access_tables \<Rightarrow> subject_row option \<times> access_tables" where
  "admin_set_scopes now channel subject_id scopes s =
     (if get_channel_subject channel subject_id s = None then (None, s)
      else let s = snd (update_channel_subject now channel subject_id None (Some scopes) None s)
           in (get_channel_subject channel subject_id s, s))"

end
