(* ===== verification/Channel_Workers.thy ===== *)
theory Channel_Workers
  imports Channel_Pairing
begin

text \<open>
  The workers of the control plane (\<open>modules/controlplane/runtime/worker\<close>). The inbox worker takes a
  message, finds out who sent it, refuses what the sender may not do, and hands the rest to the
  dispatcher, whose answer goes to the outbox; the outbox worker hands answers to the channels.
  The dispatcher, which runs commands and the agent, and the channels are parameters: they return a
  result or raise an exception with a text, and the dispatcher may change the state. \<open>clk i\<close> is
  the \<open>i\<close>-th reading of the clock; \<open>iso\<close> writes an instant as a text.
\<close>

section \<open>State\<close>

record control_plane =
  cp_access :: access_tables
  cp_sessions :: session_tables
  cp_queues :: channel_queues
  cp_audit :: "(string \<times> pydict) list"

definition cp_emit :: "string \<Rightarrow> pydict \<Rightarrow> control_plane \<Rightarrow> control_plane" where
  "cp_emit event_type details c = c\<lparr>cp_audit := cp_audit c @ [(event_type, details)]\<rparr>"

record dispatch_result =
  dp_payload :: pydict
  dp_session_id :: string
  dp_agent_id :: string

record inbox_worker =
  iw_authorizer :: "scope_authorizer option"
  iw_rate_policy :: "rate_limit_policy option"
  iw_lock_owner :: string
  iw_max_attempts :: int
  iw_max_backoff_s :: int
  iw_dispatch :: "inbound_message \<Rightarrow> control_plane \<Rightarrow> (string + dispatch_result) \<times> control_plane"
  iw_uuid :: "nat \<Rightarrow> string"
  iw_iso :: "int \<Rightarrow> string"

datatype inbox_result =
    Ir_unpaired string
  | Ir_denied string string
  | Ir_rate_limited string string
  | Ir_done string string
  | Ir_retry string string
  | Ir_dead string string

section \<open>The message of a row\<close>

text \<open>\<open>str(d.get(k))\<close> when it is true.\<close>

definition get_text :: "pydict \<Rightarrow> string \<Rightarrow> string option" where
  "get_text d k = (let v = dict_get_or d k PNone in if truthy v then Some (py_str v) else None)"

definition get_mapping :: "pydict \<Rightarrow> string \<Rightarrow> pydict" where
  "get_mapping d k = (case dict_get_or d k PNone of PDict x \<Rightarrow> x | _ \<Rightarrow> [])"

fun iter_items :: "pyval \<Rightarrow> string + pyval list" where
  "iter_items (PList xs) = Inr xs"
| "iter_items (PDict d) = Inr (map (\<lambda>(k, _). PStr k) d)"
| "iter_items (PStr s) = Inr (map (\<lambda>c. PStr [c]) s)"
| "iter_items (PInt _) = Inl ([char_of (39 :: nat)] @ ''int'' @ [char_of (39 :: nat)] @ '' object is not iterable'')"
| "iter_items (PBool _) = Inl ([char_of (39 :: nat)] @ ''bool'' @ [char_of (39 :: nat)] @ '' object is not iterable'')"
| "iter_items PNone = Inr []"

definition load_auth :: "pyval \<Rightarrow> string + auth_context option" where
  "load_auth raw =
     (case raw of
        PDict d \<Rightarrow>
          (let role = str_strip (opt_or (get_text d ''role'') []); scopes_raw = dict_get_or d ''scopes'' PNone in
           if role = [] then Inr None
           else rbind (if truthy scopes_raw then iter_items scopes_raw else Inr []) (\<lambda>items.
             Inr (Some \<lparr>au_role = role, au_scopes = filter (\<lambda>x. str_strip x \<noteq> []) (map py_str items),
               au_principal_id = (let v = dict_get_or d ''principal_id'' PNone in if v = PNone then None else Some (py_str v))\<rparr>)))
      | _ \<Rightarrow> Inr None)"

definition normalize_optional_str :: "string option \<Rightarrow> string option" where
  "normalize_optional_str value = (case value of None \<Rightarrow> None | Some v \<Rightarrow> let t = str_strip v in if t = [] then None else Some t)"

text \<open>The part after the last colon.\<close>

definition derive_thread_id :: "string \<Rightarrow> string option" where
  "derive_thread_id thread_key =
     normalize_optional_str (Some (rev (takeWhile (\<lambda>c. c \<noteq> CHR '':'') (rev thread_key))))"

definition derive_thread_key :: "string \<Rightarrow> string \<Rightarrow> string" where
  "derive_thread_key channel thread_id = (if channel = ''telegram'' then ''telegram-topic:'' @ thread_id else thread_id)"

definition canonicalize_inbound_message :: "inbound_message \<Rightarrow> inbound_message" where
  "canonicalize_inbound_message inbound =
     (let metadata = (if in_metadata inbound = [] then in_meta inbound else in_metadata inbound);
          meta = (if in_meta inbound = [] then metadata else in_meta inbound);
          thread_key = normalize_optional_str (in_thread_key inbound);
          thread_id = (case normalize_optional_str (in_thread_id inbound) of
             Some t \<Rightarrow> Some t
           | None \<Rightarrow> (case thread_key of None \<Rightarrow> None | Some k \<Rightarrow> derive_thread_id k));
          thread_key = (case thread_key of
             Some k \<Rightarrow> Some k
           | None \<Rightarrow> map_option (derive_thread_key (in_channel inbound)) thread_id)
      in inbound\<lparr>in_metadata := metadata, in_meta := meta, in_thread_id := thread_id, in_thread_key := thread_key\<rparr>)"

definition row_to_inbound :: "inbox_row \<Rightarrow> string + inbound_message" where
  "row_to_inbound row =
     (let payload = ib_payload row; metadata = get_mapping payload ''metadata''; meta = get_mapping payload ''meta'';
          metadata = (if metadata = [] then meta else metadata); meta = (if meta = [] then metadata else meta)
      in rbind (load_auth (dict_get_or payload ''auth'' PNone)) (\<lambda>auth.
        Inr (canonicalize_inbound_message
          \<lparr>in_user_key = opt_or (get_text payload ''user_key'') (opt_or (get_text payload ''user_id'') (ib_user_id row)),
           in_chat_key = opt_or (get_text payload ''chat_key'') (opt_or (get_text payload ''chat_id'') (ib_chat_id row)),
           in_text = opt_or (get_text payload ''text'') [], in_channel = opt_or (get_text payload ''channel'') (ib_channel row),
           in_thread_key = get_text payload ''thread_key'', in_meta = meta, in_inbound_id = Some (ib_inbox_id row),
           in_channel_message_id = Some (ib_channel_message_id row), in_chat_id = Some (ib_chat_id row),
           in_user_id = Some (ib_user_id row), in_thread_id = (if opt_truthy (ib_thread_id row) then ib_thread_id row else None),
           in_reply_to = get_text payload ''reply_to'', in_metadata = metadata, in_auth = auth\<rparr>)))"

section \<open>The inbox worker\<close>

definition PAIRING_REQUIRED_HINT :: string where
  "PAIRING_REQUIRED_HINT = ''This chat is not paired. Send /pair for setup instructions.''"

definition queue_text_reply :: "inbox_worker \<Rightarrow> int \<Rightarrow> inbox_row \<Rightarrow> string \<Rightarrow> string \<Rightarrow> control_plane \<Rightarrow> control_plane" where
  "queue_text_reply iw now row text payload_type c =
     c\<lparr>cp_queues := snd (enqueue_outbox (iw_uuid iw) now (ib_channel row) (ib_chat_id row)
        [(''type'', PStr payload_type), (''text'', PStr text), (''generated_at'', PStr (iw_iso iw now))]
        (if opt_truthy (ib_thread_id row) then ib_thread_id row else None)
        (Some (opt_or (get_text (ib_payload row) ''reply_to'') (ib_channel_message_id row))) None (cp_queues c))\<rparr>"

definition ack :: "string \<Rightarrow> control_plane \<Rightarrow> control_plane" where
  "ack inbox_id c = c\<lparr>cp_queues := ack_inbox inbox_id (cp_queues c)\<rparr>"

definition authorize_inbound ::
  "inbox_worker \<Rightarrow> int \<Rightarrow> inbound_message \<Rightarrow> control_plane \<Rightarrow> (inbound_message \<times> auth_context option) \<times> control_plane" where
  "authorize_inbound iw now inbound c =
     (case iw_authorizer iw of
        None \<Rightarrow> ((inbound, in_auth inbound), c)
      | Some sz \<Rightarrow>
          (case auth_for_inbound now sz inbound (cp_access c) of
             (auth, access) \<Rightarrow> ((inbound\<lparr>in_auth := Some auth\<rparr>, Some auth), c\<lparr>cp_access := access\<rparr>)))"

text \<open>The checks before the dispatch; \<open>Some\<close> ends the processing with a result.\<close>

definition handle_unpaired ::
  "inbox_worker \<Rightarrow> int \<Rightarrow> inbox_row \<Rightarrow> inbound_message \<Rightarrow> auth_context option \<Rightarrow> control_plane \<Rightarrow> inbox_result option \<times> control_plane" where
  "handle_unpaired iw now row inbound auth c =
     (case (iw_authorizer iw, auth) of
        (Some _, Some a) \<Rightarrow>
          if au_role a \<noteq> AUTH_ROLE_UNPAIRED \<or> is_pair_command (in_text inbound) then (None, c)
          else (Some (Ir_unpaired (ib_inbox_id row)),
                ack (ib_inbox_id row) (queue_text_reply iw now row PAIRING_REQUIRED_HINT ''auth_error'' c))
      | _ \<Rightarrow> (None, c))"

definition handle_scope_denial ::
  "inbox_worker \<Rightarrow> int \<Rightarrow> inbox_row \<Rightarrow> inbound_message \<Rightarrow> auth_context option \<Rightarrow> parsed_command option \<Rightarrow> control_plane \<Rightarrow>
   inbox_result option \<times> control_plane" where
  "handle_scope_denial iw now row inbound auth parsed c =
     (case (iw_authorizer iw, auth) of
        (Some sz, Some a) \<Rightarrow>
          if is_pair_command (in_text inbound) then (None, c)
          else (case (case parsed of None \<Rightarrow> message_allowed a | Some cmd \<Rightarrow> command_allowed sz cmd a) of
            (allowed, reason) \<Rightarrow>
              if allowed then (None, c)
              else (Some (Ir_denied (ib_inbox_id row) reason),
                    ack (ib_inbox_id row) (cp_emit ''cp.error''
                      [(''outcome'', PStr ''denied''), (''reason'', PStr reason), (''inbox_id'', PStr (ib_inbox_id row))]
                      (queue_text_reply iw now row (''Permission denied: '' @ reason) ''auth_error'' c))))
      | _ \<Rightarrow> (None, c))"

definition rate_limit_already_checked :: "inbound_message \<Rightarrow> bool" where
  "rate_limit_already_checked inbound =
     (truthy (dict_get_or (in_meta inbound) ''controlplane_rate_limit_checked'' PNone) \<or>
      truthy (dict_get_or (in_metadata inbound) ''controlplane_rate_limit_checked'' PNone))"

definition handle_rate_limit ::
  "inbox_worker \<Rightarrow> (nat \<Rightarrow> int) \<Rightarrow> inbox_row \<Rightarrow> inbound_message \<Rightarrow> control_plane \<Rightarrow> inbox_result option \<times> control_plane" where
  "handle_rate_limit iw clk row inbound c =
     (case iw_rate_policy iw of
        None \<Rightarrow> (None, c)
      | Some policy \<Rightarrow>
          if rate_limit_already_checked inbound then (None, c)
          else let (session_id, sessions) = resolve_session (iw_uuid iw) (clk 0) (in_user_key inbound) (in_chat_key inbound) (cp_sessions c);
                   ((allowed, reason), access) = rate_limiter_check (\<lambda>i. clk (1 + i) div 1000000) policy inbound session_id (cp_access c);
                   c = c\<lparr>cp_sessions := sessions, cp_access := access\<rparr>
               in if allowed then (None, c)
                  else (Some (Ir_rate_limited (ib_inbox_id row) reason),
                        ack (ib_inbox_id row) (cp_emit ''cp.error''
                          [(''outcome'', PStr ''rate_limited''), (''reason'', PStr reason), (''inbox_id'', PStr (ib_inbox_id row))]
                          (queue_text_reply iw (clk 4) row (''Rate limited: '' @ reason) ''rate_limited'' c))))"

definition touch_bindings :: "int \<Rightarrow> inbox_row \<Rightarrow> control_plane \<Rightarrow> control_plane" where
  "touch_bindings now row c =
     c\<lparr>cp_access := touch_channel_subject now (ib_channel row) (ib_chat_id row)
        (touch_pairing now (ib_channel row) (ib_chat_id row) (cp_access c))\<rparr>"

definition update_id :: "inbox_row \<Rightarrow> inbound_message \<Rightarrow> pyval" where
  "update_id row inbound =
     (let a = dict_get_or (in_metadata inbound) ''update_id'' PNone; b = dict_get_or (in_meta inbound) ''update_id'' PNone
      in if truthy a then a else if truthy b then b
         else if ib_channel_message_id row \<noteq> [] then PStr (ib_channel_message_id row) else PNone)"

definition dispatch_to_outbox ::
  "inbox_worker \<Rightarrow> int \<Rightarrow> inbox_row \<Rightarrow> inbound_message \<Rightarrow> control_plane \<Rightarrow> (string + inbox_result) \<times> control_plane" where
  "dispatch_to_outbox iw now row inbound =
     st_bind (iw_dispatch iw inbound) (\<lambda>result c.
       let (outbox_id, queues) = enqueue_outbox (iw_uuid iw) now (ib_channel row) (ib_chat_id row) (dp_payload result)
             (if opt_truthy (ib_thread_id row) then ib_thread_id row else None)
             (Some (opt_or (in_reply_to inbound) (ib_channel_message_id row))) None (cp_queues c);
           c = cp_emit ''cp.outbox.enqueued''
                 [(''reason'', PStr ''enqueued''), (''outbox_id'', PStr outbox_id), (''inbox_id'', PStr (ib_inbox_id row)),
                  (''channel'', PStr (ib_channel row)), (''chat_id'', PStr (ib_chat_id row)), (''update_id'', update_id row inbound)]
                 (c\<lparr>cp_queues := queues\<rparr>);
           c = cp_emit (if py_eq (dict_get_or (dp_payload result) ''type'' PNone) (PStr ''command_result'')
                 then ''cp.command.executed'' else ''cp.chat.dispatched'')
                 [(''session_id'', PStr (dp_session_id result)), (''agent_id'', PStr (dp_agent_id result)),
                  (''inbox_id'', PStr (ib_inbox_id row))] (touch_bindings now row c)
       in (Inr (Ir_done (ib_inbox_id row) (dp_session_id result)), ack (ib_inbox_id row) c))"

definition mark_retry_or_dead :: "inbox_worker \<Rightarrow> int \<Rightarrow> string \<Rightarrow> string \<Rightarrow> control_plane \<Rightarrow> inbox_result \<times> control_plane" where
  "mark_retry_or_dead iw now inbox_id message c =
     (let err = take ERROR_LIMIT message;
          (dead, queues) = mark_inbox_retry now inbox_id err (iw_max_attempts iw) (iw_max_backoff_s iw) (cp_queues c)
      in (if dead then Ir_dead inbox_id err else Ir_retry inbox_id err,
          cp_emit (if dead then ''cp.inbox.deadletter'' else ''cp.inbox.retry'')
            [(''outcome'', PStr (if dead then ''dead'' else ''retry'')), (''inbox_id'', PStr inbox_id), (''error'', PStr err)]
            (c\<lparr>cp_queues := queues\<rparr>)))"

text \<open>\<open>None\<close> when a check let the message pass.\<close>

definition check_message ::
  "inbox_worker \<Rightarrow> (nat \<Rightarrow> int) \<Rightarrow> inbox_row \<Rightarrow> inbound_message \<Rightarrow> auth_context option \<Rightarrow> control_plane \<Rightarrow> inbox_result option \<times> control_plane" where
  "check_message iw clk row inbound auth c =
     (case handle_unpaired iw (clk 0) row inbound auth c of
        (Some r, c) \<Rightarrow> (Some r, c)
      | (None, c) \<Rightarrow>
          (case handle_scope_denial iw (clk 0) row inbound auth (parse_command (in_text inbound)) c of
             (Some r, c) \<Rightarrow> (Some r, c)
           | (None, c) \<Rightarrow> handle_rate_limit iw clk row inbound c))"

definition process_row :: "inbox_worker \<Rightarrow> (nat \<Rightarrow> int) \<Rightarrow> inbox_row \<Rightarrow> control_plane \<Rightarrow> (string + inbox_result) \<times> control_plane" where
  "process_row iw clk row c =
     (case row_to_inbound row of
        Inl e \<Rightarrow> (Inl e, c)
      | Inr inbound \<Rightarrow>
          (let c = cp_emit ''channel.message.received'' [(''channel'', PStr (ib_channel row)), (''chat_id'', PStr (ib_chat_id row)),
                     (''inbox_id'', PStr (ib_inbox_id row))] c;
               ((inbound, auth), c) = authorize_inbound iw (clk 2) inbound c
           in case check_message iw (\<lambda>i. clk (3 + i)) row inbound auth c of
                (Some r, c) \<Rightarrow> (Inr r, c)
              | (None, c) \<Rightarrow> dispatch_to_outbox iw (clk 8) row inbound c))"

definition inbox_run_once :: "inbox_worker \<Rightarrow> (nat \<Rightarrow> int) \<Rightarrow> control_plane \<Rightarrow> inbox_result option \<times> control_plane" where
  "inbox_run_once iw clk c =
     (case claim_inbox clk (iw_lock_owner iw) 120 (cp_queues c) of
        (None, queues) \<Rightarrow> (None, c\<lparr>cp_queues := queues\<rparr>)
      | (Some row, queues) \<Rightarrow>
          (case process_row iw clk row (c\<lparr>cp_queues := queues\<rparr>) of
             (Inr r, c) \<Rightarrow> (Some r, c)
           | (Inl e, c) \<Rightarrow> (let (r, c) = mark_retry_or_dead iw (clk 9) (ib_inbox_id row) e c in (Some r, c))))"

section \<open>The outbox worker\<close>

record outbox_worker =
  ow_lock_owner :: string
  ow_max_attempts :: int
  ow_max_backoff_s :: int
  ow_deliver :: "outbox_row \<Rightarrow> string option"

datatype outbox_result = Or_sent string | Or_retry string string | Or_dead string string

definition outbox_run_once :: "outbox_worker \<Rightarrow> (nat \<Rightarrow> int) \<Rightarrow> control_plane \<Rightarrow> outbox_result option \<times> control_plane" where
  "outbox_run_once ow clk c =
     (case claim_outbox clk (ow_lock_owner ow) 120 (cp_queues c) of
        (None, queues) \<Rightarrow> (None, c\<lparr>cp_queues := queues\<rparr>)
      | (Some row, queues) \<Rightarrow>
          (let c = c\<lparr>cp_queues := queues\<rparr>; oid = ob_outbox_id row;
               about = [(''outbox_id'', PStr oid), (''channel'', PStr (ob_channel row)), (''chat_id'', PStr (ob_chat_id row))]
           in case ow_deliver ow row of
                None \<Rightarrow>
                  (let c = cp_emit ''cp.route.outbox.selected'' (about @ [(''reason'', PStr ''registry_route'')]) c;
                       c = c\<lparr>cp_queues := mark_outbox_sent oid (cp_queues c)\<rparr>
                   in (Some (Or_sent oid), cp_emit ''cp.delivery.sent'' (about @ [(''reason'', PStr ''delivery_ok'')])
                        (cp_emit ''channel.message.sent'' (about @ [(''reason'', PStr ''registry_route'')]) c)))
              | Some e \<Rightarrow>
                  (let c = cp_emit ''cp.delivery.failed'' (about @ [(''reason'', PStr ''delivery_exception''), (''error'', PStr e)]) c;
                       (dead, queues) = mark_outbox_retry (clk 2) oid e (ow_max_attempts ow) (ow_max_backoff_s ow) (cp_queues c);
                       c = c\<lparr>cp_queues := queues\<rparr>
                   in (Some (if dead then Or_dead oid e else Or_retry oid e),
                       if dead then cp_emit ''cp.outbox.deadletter'' [(''outbox_id'', PStr oid), (''error'', PStr e),
                         (''reason'', PStr ''max_attempts_exceeded'')] c else c))))"

end
