(* ===== verification/Channel_Properties.thy ===== *)
theory Channel_Properties
  imports Channel_Workers
begin

text \<open>
  What the control plane keeps: chats stay in the sessions of their users, queued messages are
  tried only as often as their attempts allow, and what a worker that was late does to a message that
  was processed meanwhile.
\<close>

section \<open>Sessions\<close>

lemma sql_get_upsert:
  assumes "\<And>r. key r = key row \<Longrightarrow> key (merge r row) = key row"
  shows "sql_get key k (sql_upsert key merge row rows) =
    (if k = key row then Some (case sql_get key k rows of None \<Rightarrow> row | Some r \<Rightarrow> merge r row) else sql_get key k rows)"
proof -
  have "sql_get key k (sql_update (\<lambda>r. key r = key row) (\<lambda>r. merge r row) rows) =
      (if k = key row then map_option (\<lambda>r. merge r row) (sql_get key k rows) else sql_get key k rows)"
    by (induction rows) (auto simp: sql_get_def sql_update_def assms)
  then show ?thesis by (auto simp: sql_upsert_def sql_get_append split: option.splits)
qed

lemma session_owner_ensure:
  "session_owner k (ensure_session_locked now sid u c s) =
     (if k = sid then coalesce (session_owner sid s) u else session_owner k s)"
  by (auto simp: session_owner_def ensure_session_locked_def sql_get_upsert coalesce_def split: option.splits)

lemma owner_frames [simp]:
  "session_owner k (put_chat_binding now ck sid a s) = session_owner k s"
  "session_owner k (set_session_agent_locked now sid a' s) = session_owner k s"
  "session_owner k (s\<lparr>st_uuids := n\<rparr>) = session_owner k s"
  "session_owner k (ensure_agent a'' nm s) = session_owner k s"
  by (simp_all add: session_owner_def put_chat_binding_def set_session_agent_locked_def ensure_agent_def)

lemma binding_frames [simp]:
  "get_chat_binding ck (ensure_session_locked now sid u c s) = get_chat_binding ck s"
  "get_chat_binding ck (set_session_agent_locked now sid a' s) = get_chat_binding ck s"
  "get_chat_binding ck (s\<lparr>st_uuids := n\<rparr>) = get_chat_binding ck s"
  "get_chat_binding ck (ensure_agent a'' nm s) = get_chat_binding ck s"
  by (simp_all add: get_chat_binding_def ensure_session_locked_def set_session_agent_locked_def ensure_agent_def)

lemma get_put_binding:
  "get_chat_binding ck (put_chat_binding now ck' sid a s) =
     (if ck = ck' then Some \<lparr>cb_chat_key = ck, cb_session_id = sid, cb_active_agent_id = a, cb_updated_at = now\<rparr>
      else get_chat_binding ck s)"
  by (simp add: get_chat_binding_def put_chat_binding_def sql_get_upsert split: option.splits)

definition bound_session :: "string \<Rightarrow> session_tables \<Rightarrow> string option" where
  "bound_session chat_key s = map_option cb_session_id (get_chat_binding chat_key s)"

lemma bound_session_put: "bound_session ck (put_chat_binding now ck' sid a s) = (if ck = ck' then Some sid else bound_session ck s)"
  by (simp add: bound_session_def get_put_binding)

lemma bound_session_frames [simp]:
  "bound_session ck (ensure_session_locked now sid u c s) = bound_session ck s"
  "bound_session ck (set_session_agent_locked now sid a' s) = bound_session ck s"
  "bound_session ck (s\<lparr>st_uuids := n\<rparr>) = bound_session ck s"
  "bound_session ck (ensure_agent a'' nm s) = bound_session ck s"
  by (simp_all add: bound_session_def)

lemmas session_simps = session_owner_ensure bound_session_put

lemma new_session_effect:
  assumes "new_session uuid now u c s = (sid, t)"
  shows "sid = ''sess-'' @ take 12 (uuid (st_uuids s))" "session_owner k t = (if k = sid then coalesce (session_owner sid s) (Some u) else session_owner k s)"
    "bound_session c' t = (if c' = c then Some sid else bound_session c' s)"
  using assms by (auto simp: new_session_def Let_def session_simps)

lemma resolve_session_effect:
  assumes "resolve_session uuid now u c s = (sid, t)"
  shows "bound_session c s = Some sid \<or> sid = ''sess-'' @ take 12 (uuid (st_uuids s))"
    "session_owner k t = (if k = sid then coalesce (session_owner sid s) (Some u) else session_owner k s)"
    "bound_session c' t = (if c' = c then Some sid else bound_session c' s)"
proof (atomize (full), cases "get_chat_binding c s")
  case None
  with assms have "new_session uuid now u c s = (sid, t)" by (simp add: resolve_session_def)
  from new_session_effect [OF this] show "(bound_session c s = Some sid \<or> sid = ''sess-'' @ take 12 (uuid (st_uuids s))) \<and>
      session_owner k t = (if k = sid then coalesce (session_owner sid s) (Some u) else session_owner k s) \<and>
      bound_session c' t = (if c' = c then Some sid else bound_session c' s)" by auto
next
  case (Some b)
  with assms show "(bound_session c s = Some sid \<or> sid = ''sess-'' @ take 12 (uuid (st_uuids s))) \<and>
      session_owner k t = (if k = sid then coalesce (session_owner sid s) (Some u) else session_owner k s) \<and>
      bound_session c' t = (if c' = c then Some sid else bound_session c' s)"
    by (auto simp: resolve_session_def session_simps bound_session_def)
qed

lemma bind_owned_effect:
  assumes "bind_session_owned now u c sid adm s = (b, t)"
  shows "b \<Longrightarrow> session_owner sid s = Some u \<or> adm \<and> session_owner sid s \<noteq> None" "\<not> b \<Longrightarrow> t = s"
    "session_owner k s \<noteq> None \<Longrightarrow> session_owner k t = session_owner k s"
    "b \<Longrightarrow> bound_session c' t = (if c' = c then Some sid else bound_session c' s)"
  using assms by (auto simp: bind_session_owned_def bind_session_def Let_def session_simps coalesce_def split: option.splits if_splits)

lemma router_session_effect:
  assumes "router_session uuid now adm u c text s = (sid, ev, t)"
  shows "bound_session c s = Some sid \<or> sid = ''sess-'' @ take 12 (uuid (st_uuids s)) \<or>
      session_owner sid s = Some u \<or> adm \<and> session_owner sid s \<noteq> None"
    "session_owner k s \<noteq> None \<Longrightarrow> session_owner k t = session_owner k s" "session_owner sid s = None \<Longrightarrow> session_owner sid t = Some u"
    "bound_session c' t = (if c' = c then Some sid else bound_session c' s)"
proof -
  define fallback where "fallback = (\<exists>v. resolve_session uuid now u c s = (sid, v) \<and> t = v)"
  consider "fallback" | "bind_session_owned now u c sid adm s = (True, t)"
  proof (cases "extract_session_override text")
    case None
    then show thesis using that assms by (auto simp: router_session_def fallback_def split: prod.splits)
  next
    case (Some r)
    then show thesis using that assms bind_owned_effect(2) [of now u c r adm s False]
      by (cases "bind_session_owned now u c r adm s") (auto simp: router_session_def Let_def fallback_def split: prod.splits bool.splits)
  qed
  then have "(bound_session c s = Some sid \<or> sid = ''sess-'' @ take 12 (uuid (st_uuids s)) \<or>
      session_owner sid s = Some u \<or> adm \<and> session_owner sid s \<noteq> None) \<and>
    (session_owner k s \<noteq> None \<longrightarrow> session_owner k t = session_owner k s) \<and> (session_owner sid s = None \<longrightarrow> session_owner sid t = Some u) \<and>
    bound_session c' t = (if c' = c then Some sid else bound_session c' s)" for k c'
  proof cases
    case 1
    then have "resolve_session uuid now u c s = (sid, t)" by (simp add: fallback_def)
    from resolve_session_effect [OF this] show ?thesis by (auto simp: coalesce_def split: option.splits)
  next
    case 2
    from bind_owned_effect [OF 2] show ?thesis by auto
  qed
  then show "bound_session c s = Some sid \<or> sid = ''sess-'' @ take 12 (uuid (st_uuids s)) \<or>
      session_owner sid s = Some u \<or> adm \<and> session_owner sid s \<noteq> None"
    "session_owner k s \<noteq> None \<Longrightarrow> session_owner k t = session_owner k s" "session_owner sid s = None \<Longrightarrow> session_owner sid t = Some u"
    "bound_session c' t = (if c' = c then Some sid else bound_session c' s)" by blast+
qed

text \<open>A message of a user who is no administrator never moves its chat into a session of somebody
  else: the session it is routed to was the chat's session before, or belongs to the user. Other
  chats keep their session, and a session keeps its owner.\<close>

lemma chats_join_own_sessions:
  assumes "router_resolve uuid now admins u c text meta s = (ctx, ev, t)" "\<not> is_admin admins u"
    and "session_owner (''sess-'' @ take 12 (uuid (st_uuids s))) s = None"
  shows "bound_session c t = Some (rc_session_id ctx) \<and>
    (bound_session c s = Some (rc_session_id ctx) \<or> session_owner (rc_session_id ctx) t = Some u) \<and>
    (\<forall>c'. c' \<noteq> c \<longrightarrow> bound_session c' t = bound_session c' s) \<and>
    (\<forall>k owner. session_owner k s = Some owner \<longrightarrow> session_owner k t = Some owner)"
proof -
  obtain sid ev' v where r: "router_session uuid now False u c text s = (sid, ev', v)" by (metis prod_cases3)
  have "rc_session_id ctx = sid" "\<forall>k. session_owner k t = session_owner k v" "\<forall>k. bound_session k t = bound_session k v"
    using assms(1,2) r
    by (auto simp: router_resolve_def router_agent_def Let_def split: prod.splits option.splits)
  with router_session_effect [OF r] assms(3) show ?thesis by fastforce
qed

definition demo_sessions :: session_tables where
  "demo_sessions = snd (new_session (\<lambda>n. nat_digits n) 1 ''alice'' ''chat-a'' empty_session_tables)"

section \<open>Attempts run out\<close>

definition outbox_budget :: "int \<Rightarrow> control_plane \<Rightarrow> nat" where
  "outbox_budget m c = (\<Sum>i\<leftarrow>outbox_ids (cp_queues c). row_budget m (outbox_fate (cp_queues c) i))"

definition inbox_budget :: "int \<Rightarrow> control_plane \<Rightarrow> nat" where
  "inbox_budget m c = (\<Sum>i\<leftarrow>inbox_ids (cp_queues c). row_budget m (inbox_fate (cp_queues c) i))"

text \<open>A sequence of runs, by workers with their clocks.\<close>

fun worker_runs :: "('w \<Rightarrow> (nat \<Rightarrow> int) \<Rightarrow> 's \<Rightarrow> 'x option \<times> 's) \<Rightarrow> ('w \<times> (nat \<Rightarrow> int)) list \<Rightarrow> 's \<Rightarrow> 'x option list \<times> 's" where
  "worker_runs run [] c = ([], c)"
| "worker_runs run ((w, clk) # rs) c = (let (x, c) = run w clk c; (xs, c) = worker_runs run rs c in (x # xs, c))"

lemma worker_runs_budget:
  assumes step: "\<And>w clk c x c'. good w \<Longrightarrow> keep c \<Longrightarrow> run w clk c = (x, c') \<Longrightarrow> keep c' \<and> (if hit x then 1 else 0) + budget c' \<le> (budget c :: nat)"
  shows "keep c \<Longrightarrow> worker_runs run rs c = (xs, c') \<Longrightarrow> \<forall>(w, clk)\<in>set rs. good w \<Longrightarrow> length (filter hit xs) + budget c' \<le> budget c"
proof (induction rs arbitrary: c xs c')
  case (Cons r rs)
  obtain w clk where r: "r = (w, clk)" by (cases r)
  obtain x v where x: "run w clk c = (x, v)" by fastforce
  obtain ys u where ys: "worker_runs run rs v = (ys, u)" by fastforce
  have st: "keep v" "(if hit x then 1 else 0) + budget v \<le> budget c" using step [OF _ Cons.prems(1) x] Cons.prems(3) r by auto
  have rest: "length (filter hit ys) + budget u \<le> budget v" by (rule Cons.IH [OF st(1) ys]) (use Cons.prems in auto)
  have "xs = x # ys" "c' = u" using Cons.prems(2) r x ys by simp_all
  with st(2) rest show ?case by auto
qed simp

lemma cp_emit_queues [simp]: "cp_queues (cp_emit e d c) = cp_queues c"
  by (simp add: cp_emit_def)

lemma outbox_run_budget:
  assumes "distinct (outbox_ids (cp_queues c))" "outbox_run_once ow clk c = (x, c')"
  shows "outbox_ids (cp_queues c') = outbox_ids (cp_queues c)"
    "(if x \<noteq> None then 1 else 0) + outbox_budget (ow_max_attempts ow) c' \<le> outbox_budget (ow_max_attempts ow) c"
proof -
  obtain r q where q: "claim_outbox clk (ow_lock_owner ow) 120 (cp_queues c) = (r, q)" by fastforce
  have "outbox_ids (cp_queues c') = outbox_ids (cp_queues c) \<and>
    (if x \<noteq> None then 1 else 0) + outbox_budget (ow_max_attempts ow) c' \<le> outbox_budget (ow_max_attempts ow) c"
  proof (cases r)
    case None
    with q outbox.claim_none [OF assms(1)] assms(2) show ?thesis
      by (auto simp: outbox_run_once_def outbox_budget_def)
  next
    case (Some row)
    have fin: "cp_queues c' = mark_outbox_sent (ob_outbox_id row) q \<or>
        (\<exists>err dead. mark_outbox_retry (clk 2) (ob_outbox_id row) err (ow_max_attempts ow) (ow_max_backoff_s ow) q = (dead, cp_queues c'))"
      using assms(2) q Some by (auto simp: outbox_run_once_def Let_def split: option.splits prod.splits if_splits)
    have "outbox_ids (cp_queues c') = outbox_ids (cp_queues c) \<and> outbox_budget (ow_max_attempts ow) c' < outbox_budget (ow_max_attempts ow) c"
      unfolding outbox_budget_def
      using fin outbox.run_uses_budget [OF assms(1) q [unfolded Some], of "cp_queues c'"] by blast
    then show ?thesis by auto
  qed
  then show "outbox_ids (cp_queues c') = outbox_ids (cp_queues c)"
    "(if x \<noteq> None then 1 else 0) + outbox_budget (ow_max_attempts ow) c' \<le> outbox_budget (ow_max_attempts ow) c" by simp_all
qed

text \<open>Deliveries end: however the channels answer, the workers of the outbox deliver a message that
  is waiting at most as often as its attempts allow; each run that finds a message uses up one of
  the attempts that are left, so that without new messages only finitely many runs find one.\<close>

lemma outbox_attempts_run_out:
  assumes "distinct (outbox_ids (cp_queues c))" "worker_runs outbox_run_once rs c = (xs, c')" "\<forall>(ow, clk)\<in>set rs. ow_max_attempts ow = m"
  shows "length (filter (\<lambda>x. x \<noteq> None) xs) + outbox_budget m c' \<le> outbox_budget m c"
  by (rule worker_runs_budget [of "\<lambda>ow. ow_max_attempts ow = m" "\<lambda>c. distinct (outbox_ids (cp_queues c))", OF _ assms])
    (metis outbox_run_budget)

definition demo_plane :: control_plane where
  "demo_plane = \<lparr>cp_access = empty_access, cp_sessions = empty_session_tables,
     cp_queues = snd (enqueue_outbox (\<lambda>n. nat_digits n) 5 ''cli'' ''chat'' [] None None None empty_queues), cp_audit = []\<rparr>"

section \<open>Attempts of the inbox run out\<close>

abbreviation waiting :: "control_plane \<Rightarrow> inbox_row list" where
  "waiting c \<equiv> cq_inbox (cp_queues c)"

lemma waiting_frames [simp]:
  "waiting (queue_text_reply iw now row text ty c) = waiting c"
  "waiting (cp_emit e d c) = waiting c"
  "waiting (touch_bindings now row c) = waiting c"
  by (simp_all add: queue_text_reply_def enqueue_outbox_def update_outbox_def cp_emit_def touch_bindings_def Let_def split: prod.splits)

lemma waiting_ack [simp]: "waiting (ack k c) = cq_inbox (ack_inbox k (cp_queues c))"
  by (simp add: ack_def)

lemma ack_inbox_rows: "cq_inbox q = cq_inbox q' \<Longrightarrow> cq_inbox (ack_inbox k q) = cq_inbox (ack_inbox k q')"
  by (simp add: ack_inbox_def update_inbox_def)

lemma handled_acks:
  "handle_unpaired iw now row msg auth c = (x, c') \<Longrightarrow> waiting c' = (if x = None then waiting c else waiting (ack (ib_inbox_id row) c))"
  "handle_scope_denial iw now row msg auth parsed c = (x, c') \<Longrightarrow> waiting c' = (if x = None then waiting c else waiting (ack (ib_inbox_id row) c))"
  "handle_rate_limit iw clk row msg c = (x, c') \<Longrightarrow> waiting c' = (if x = None then waiting c else waiting (ack (ib_inbox_id row) c))"
  by (auto simp: handle_unpaired_def handle_scope_denial_def handle_rate_limit_def Let_def intro!: ack_inbox_rows
      split: option.splits if_splits prod.splits)

lemma check_acks:
  "check_message iw clk row msg auth c = (x, c') \<Longrightarrow> waiting c' = (if x = None then waiting c else waiting (ack (ib_inbox_id row) c))"
  by (auto simp: check_message_def split: option.splits prod.splits dest!: handled_acks intro!: ack_inbox_rows)

lemma dispatch_acks:
  assumes "\<forall>msg c. waiting (snd (iw_dispatch iw msg c)) = waiting c" "dispatch_to_outbox iw now row msg c = (x, c')"
  shows "waiting c' = (if isl x then waiting c else waiting (ack (ib_inbox_id row) c))"
proof -
  obtain y u where u: "iw_dispatch iw msg c = (y, u)" by fastforce
  with assms(1) have "waiting u = waiting c" by (metis snd_conv)
  then show ?thesis using assms(2) u
    by (cases y) (auto simp: dispatch_to_outbox_def st_bind_def enqueue_outbox_def update_outbox_def Let_def split: prod.splits intro!: ack_inbox_rows)
qed

lemma process_acks:
  assumes "\<forall>msg c. waiting (snd (iw_dispatch iw msg c)) = waiting c" "process_row iw clk row c = (x, c')"
  shows "waiting c' = (if isl x then waiting c else waiting (ack (ib_inbox_id row) c))"
proof (cases "row_to_inbound row")
  case (Inl e)
  with assms(2) show ?thesis by (auto simp: process_row_def)
next
  case (Inr msg0)
  let ?c = "cp_emit ''channel.message.received'' [(''channel'', PStr (ib_channel row)), (''chat_id'', PStr (ib_chat_id row)),
    (''inbox_id'', PStr (ib_inbox_id row))] c"
  obtain msg auth u where u: "authorize_inbound iw (clk 2) msg0 ?c = ((msg, auth), u)" by (metis prod.collapse)
  then have "waiting u = waiting c" by (auto simp: authorize_inbound_def cp_emit_def split: option.splits prod.splits)
  moreover obtain y v where v: "check_message iw (\<lambda>i. clk (3 + i)) row msg auth u = (y, v)" by fastforce
  note check_acks [OF v]
  ultimately show ?thesis using assms(2) Inr u v dispatch_acks [OF assms(1), of "clk 8" row msg v x c']
    by (cases y) (auto simp: process_row_def Let_def intro!: ack_inbox_rows)
qed

lemma inbox_by_rows:
  assumes "cq_inbox q = cq_inbox q'"
  shows "inbox_ids q = inbox_ids q'" "inbox_fate q = inbox_fate q'"
    "cq_inbox (snd (mark_inbox_retry t k e m b q)) = cq_inbox (snd (mark_inbox_retry t k e m b q'))"
  using assms by (simp_all add: inbox_ids_def inbox_fate_def mark_inbox_retry_def get_inbox_def update_inbox_def Let_def)

text \<open>The message that a run of the inbox was about.\<close>

fun result_id :: "inbox_result \<Rightarrow> string" where
  "result_id (Ir_unpaired k) = k"
| "result_id (Ir_denied k _) = k"
| "result_id (Ir_rate_limited k _) = k"
| "result_id (Ir_done k _) = k"
| "result_id (Ir_retry k _) = k"
| "result_id (Ir_dead k _) = k"

lemma process_result_id: "process_row iw clk row c = (Inr x, c') \<Longrightarrow> result_id x = ib_inbox_id row"
  by (auto simp: process_row_def check_message_def handle_unpaired_def handle_scope_denial_def handle_rate_limit_def dispatch_to_outbox_def Let_def
      split: sum.splits prod.splits option.splits if_splits elim!: st_bind_InrE)

text \<open>What a run does to the inbox: nothing, or it claims a message and settles or retries it.\<close>

lemma inbox_run_cases:
  assumes "distinct (inbox_ids (cp_queues c))" "inbox_run_once iw clk c = (x, c')" "\<forall>msg c. waiting (snd (iw_dispatch iw msg c)) = waiting c"
  obtains (idle) "x = None" "inbox_ids (cp_queues c') = inbox_ids (cp_queues c)" "inbox_fate (cp_queues c') = inbox_fate (cp_queues c)"
  | (ran) row q u err res where "x = Some res" "result_id res = ib_inbox_id row"
    "claim_inbox clk (iw_lock_owner iw) 120 (cp_queues c) = (Some row, q)" "cq_inbox (cp_queues c') = cq_inbox u"
    "u = ack_inbox (ib_inbox_id row) q \<or>
      (\<exists>dead. mark_inbox_retry (clk 9) (ib_inbox_id row) err (iw_max_attempts iw) (iw_max_backoff_s iw) q = (dead, u))"
proof -
  let ?m = "iw_max_attempts iw"
  obtain r q where q: "claim_inbox clk (iw_lock_owner iw) 120 (cp_queues c) = (r, q)" by fastforce
  show thesis
  proof (cases r)
    case None
    with q inbox.claim_none [OF assms(1)] assms(2) show thesis by (intro idle) (auto simp: inbox_run_once_def)
  next
    case (Some row)
    obtain y v where v: "process_row iw clk row (c\<lparr>cp_queues := q\<rparr>) = (y, v)" by fastforce
    show thesis
    proof (cases y)
      case (Inl e)
      then have "waiting v = cq_inbox q" using process_acks [OF assms(3) v] by simp
      note same = inbox_by_rows(3) [OF this, of "clk 9" "ib_inbox_id row" "take ERROR_LIMIT e" ?m "iw_max_backoff_s iw"]
      obtain dead q' where q': "mark_inbox_retry (clk 9) (ib_inbox_id row) (take ERROR_LIMIT e) ?m (iw_max_backoff_s iw) (cp_queues v) = (dead, q')" by fastforce
      obtain dead' u where u: "mark_inbox_retry (clk 9) (ib_inbox_id row) (take ERROR_LIMIT e) ?m (iw_max_backoff_s iw) q = (dead', u)" by fastforce
      show thesis
        by (rule ran [of "if dead then Ir_dead (ib_inbox_id row) (take ERROR_LIMIT e) else Ir_retry (ib_inbox_id row) (take ERROR_LIMIT e)" row q u
              "take ERROR_LIMIT e"])
           (use assms(2) q Some v Inl q' u same in \<open>auto simp: inbox_run_once_def mark_retry_or_dead_def Let_def\<close>)
    next
      case (Inr z)
      then have "waiting v = cq_inbox (ack_inbox (ib_inbox_id row) q)" using process_acks [OF assms(3) v] by simp
      then show thesis using assms(2) q Some v Inr process_result_id [OF v [unfolded Inr]]
        by (intro ran [of z row q "ack_inbox (ib_inbox_id row) q"]) (auto simp: inbox_run_once_def)
    qed
  qed
qed

lemma inbox_run_budget:
  assumes "distinct (inbox_ids (cp_queues c))" "inbox_run_once iw clk c = (x, c')" "\<forall>msg c. waiting (snd (iw_dispatch iw msg c)) = waiting c"
  shows "inbox_ids (cp_queues c') = inbox_ids (cp_queues c) \<and>
    (if x \<noteq> None then 1 else 0) + inbox_budget (iw_max_attempts iw) c' \<le> inbox_budget (iw_max_attempts iw) c"
    and "inbox_ids (cp_queues c') = inbox_ids (cp_queues c) \<and>
    (if map_option result_id x = Some k then 1 else 0) + row_budget (iw_max_attempts iw) (inbox_fate (cp_queues c') k)
      \<le> row_budget (iw_max_attempts iw) (inbox_fate (cp_queues c) k)"
proof -
  have "inbox_ids (cp_queues c') = inbox_ids (cp_queues c) \<and>
      (if x \<noteq> None then 1 else 0) + inbox_budget (iw_max_attempts iw) c' \<le> inbox_budget (iw_max_attempts iw) c \<and>
      (if map_option result_id x = Some k then 1 else 0) + row_budget (iw_max_attempts iw) (inbox_fate (cp_queues c') k)
        \<le> row_budget (iw_max_attempts iw) (inbox_fate (cp_queues c) k)"
    using assms
  proof (cases rule: inbox_run_cases)
    case (ran row q u err res)
    note used = inbox.run_uses_budget [OF assms(1) ran(3,5)]
    show ?thesis using used(1,2,3) used(4) [of k] ran(1,2) unfolding inbox_budget_def inbox_by_rows(1,2) [OF ran(4)]
      by (cases "k = ib_inbox_id row") auto
  qed (simp add: inbox_budget_def)
  then show "inbox_ids (cp_queues c') = inbox_ids (cp_queues c) \<and>
      (if x \<noteq> None then 1 else 0) + inbox_budget (iw_max_attempts iw) c' \<le> inbox_budget (iw_max_attempts iw) c"
    "inbox_ids (cp_queues c') = inbox_ids (cp_queues c) \<and>
      (if map_option result_id x = Some k then 1 else 0) + row_budget (iw_max_attempts iw) (inbox_fate (cp_queues c') k)
        \<le> row_budget (iw_max_attempts iw) (inbox_fate (cp_queues c) k)" by blast+
qed

text \<open>C24: Attempts of the inbox run out. When workers with the same number of attempts run one after
  another, each run to its end, on an inbox whose identifiers are distinct, then whatever their
  dispatchers answer, as long as they leave the inbox alone: a message that is not settled and has been
  tried \<open>n\<close> times is found by at most \<open>m - n\<close> runs, and by one if that is less, a settled one by none, and
  all messages together by at most the sum of these numbers; what is left of them after the runs is
  smaller at least by the number of runs that found a message.\<close>

theorem inbox_attempts_run_out:
  assumes "distinct (inbox_ids (cp_queues c))" "worker_runs inbox_run_once rs c = (xs, c')"
    and "\<forall>(iw, clk)\<in>set rs. iw_max_attempts iw = m \<and> (\<forall>msg c. waiting (snd (iw_dispatch iw msg c)) = waiting c)"
  shows "length (filter (\<lambda>x. map_option result_id x = Some k) xs) + row_budget m (inbox_fate (cp_queues c') k)
      \<le> row_budget m (inbox_fate (cp_queues c) k) \<and>
    length (filter (\<lambda>x. x \<noteq> None) xs) + inbox_budget m c' \<le> inbox_budget m c"
proof
  let ?good = "\<lambda>iw. iw_max_attempts iw = m \<and> (\<forall>msg c. waiting (snd (iw_dispatch iw msg c)) = waiting c)"
  show "length (filter (\<lambda>x. map_option result_id x = Some k) xs) + row_budget m (inbox_fate (cp_queues c') k)
      \<le> row_budget m (inbox_fate (cp_queues c) k)"
    by (rule worker_runs_budget [of ?good "\<lambda>c. distinct (inbox_ids (cp_queues c))", OF _ assms]) (metis inbox_run_budget(2))
  show "length (filter (\<lambda>x. x \<noteq> None) xs) + inbox_budget m c' \<le> inbox_budget m c"
    by (rule worker_runs_budget [of ?good "\<lambda>c. distinct (inbox_ids (cp_queues c))", OF _ assms]) (metis inbox_run_budget(1))
qed

definition demo_failing_worker :: inbox_worker where
  "demo_failing_worker = \<lparr>iw_authorizer = None, iw_rate_policy = None, iw_lock_owner = ''w'', iw_max_attempts = 2, iw_max_backoff_s = 60,
     iw_dispatch = (\<lambda>_ c. (Inl ''model down'', c)), iw_uuid = nat_digits, iw_iso = int_str\<rparr>"

definition demo_inbox :: channel_queues where
  "demo_inbox = empty_queues\<lparr>cq_inbox := [new_inbox_row ''m'' 0 ''cli'' ''chat'' ''1'' ''u'' [] None]\<rparr>"

definition demo_inbox_runs :: "(inbox_worker \<times> (nat \<Rightarrow> int)) list" where
  "demo_inbox_runs = map (\<lambda>t. (demo_failing_worker, \<lambda>_. t)) [10, 20000000, 30000000]"

theorem inbox_attempts_run_out_witness:
  "inbox_budget 2 (demo_plane\<lparr>cp_queues := demo_inbox\<rparr>) = 2 \<and>
   (case worker_runs inbox_run_once demo_inbox_runs (demo_plane\<lparr>cp_queues := demo_inbox\<rparr>) of (xs, c') \<Rightarrow>
      xs = [Some (Ir_retry ''m'' ''model down''), Some (Ir_dead ''m'' ''model down''), None] \<and>
      length (filter (\<lambda>x. x \<noteq> None) xs) + inbox_budget 2 c' \<le> 2)"
proof -
  let ?c = "demo_plane\<lparr>cp_queues := demo_inbox\<rparr>"
  have facts: "distinct (inbox_ids (cp_queues ?c))" "inbox_budget 2 ?c = 2"
    "fst (worker_runs inbox_run_once demo_inbox_runs ?c) = [Some (Ir_retry ''m'' ''model down''), Some (Ir_dead ''m'' ''model down''), None]"
    by code_simp+
  have "\<forall>(iw, clk)\<in>set demo_inbox_runs. iw_max_attempts iw = 2 \<and> (\<forall>msg c. waiting (snd (iw_dispatch iw msg c)) = waiting c)"
    by (auto simp: demo_inbox_runs_def demo_failing_worker_def)
  from inbox_attempts_run_out [OF facts(1) prod.collapse [symmetric] this] facts(2,3) show ?thesis by (auto split: prod.splits)
qed

section \<open>A late worker\<close>

text \<open>The steps of two workers on one message: the first is slow, the second takes the message over
  when its lock is stale and processes it, then the first reports a failure.\<close>

definition late_failure :: "int \<Rightarrow> int \<Rightarrow> int \<Rightarrow> string \<Rightarrow> string \<Rightarrow> string \<Rightarrow> int \<Rightarrow> int \<Rightarrow> channel_queues \<Rightarrow> channel_queues list" where
  "late_failure t1 t2 t3 w1 w2 k m b s0 =
     (let s1 = snd (claim_inbox (\<lambda>_. t1) w1 120 s0); s2 = snd (claim_inbox (\<lambda>_. t2) w2 120 s1);
          s3 = ack_inbox k s2; s4 = snd (mark_inbox_retry t3 k ''dispatch failed'' m b s3) in [s1, s2, s3, s4])"

lemma claim_inbox_single:
  assumes "cq_inbox s = [r]" "ib_next_attempt_at r \<le> clk 0"
    and "ib_ready r \<or> ib_status r = Ib_processing \<and> (\<exists>t. ib_locked_at r = Some t \<and> t < iso_ago (clk 1) ttl)"
  shows "\<exists>q. claim_inbox clk w ttl s = (Some q, s\<lparr>cq_inbox := [q]\<rparr>) \<and> ib_inbox_id q = ib_inbox_id r \<and>
    ib_attempts q = ib_attempts r + 1 \<and> ib_status q = Ib_processing \<and> ib_locked_at q = Some (clk 0) \<and> ib_lock_owner q = Some w \<and>
    ib_next_attempt_at q = ib_next_attempt_at r"
  using assms
  by (auto simp: claim_inbox_def claim_row_def reclaim_inbox_def update_inbox_def sql_update_def sql_count_def sql_get_def
      ib_ready_def lock_inbox_row_def Let_def)

text \<open>C25: A message that was processed and acknowledged can be processed again: the failure of a worker
  whose lock was taken over is written without asking who holds the message, so that it goes
  back into the queue and the next worker gets it.\<close>

theorem done_message_processed_again:
  assumes "late_failure t1 t2 t3 w1 w2 k m b s0 = [s1, s2, s3, s4]"
    and "cq_inbox s0 = [new_inbox_row k t0 ch chat msg u payload th]"
    and "t0 \<le> t1" "t1 + 120 * 1000000 < t2" "2 < m"
  shows "map_option ib_status (get_inbox k s3) = Some Ib_done \<and>
    (\<forall>t w3. t3 + max 0 b * 1000000 \<le> t \<longrightarrow>
       (\<exists>r. fst (claim_inbox (\<lambda>_. t) w3 120 s4) = Some r \<and> ib_inbox_id r = k \<and> ib_attempts r = 3))"
proof -
  let ?r0 = "new_inbox_row k t0 ch chat msg u payload th"
  note s = assms(1) [unfolded late_failure_def Let_def, simplified]
  have "ib_next_attempt_at ?r0 \<le> t1" "ib_ready ?r0" using assms(3) by (simp_all add: new_inbox_row_def ib_ready_def)
  with claim_inbox_single [OF assms(2), of "\<lambda>_. t1" 120 w1] obtain q1 where q1: "s1 = s0\<lparr>cq_inbox := [q1]\<rparr>" "ib_inbox_id q1 = k"
    "ib_attempts q1 = 1" "ib_status q1 = Ib_processing" "ib_locked_at q1 = Some t1" "ib_next_attempt_at q1 = t0"
    using s by (auto simp: new_inbox_row_def)
  have "t1 < iso_ago t2 120" using assms(4) by (simp add: iso_ago_def)
  with claim_inbox_single [of s1 q1 "\<lambda>_. t2" 120 w2] q1 assms(3,4) obtain q2 where q2: "s2 = s1\<lparr>cq_inbox := [q2]\<rparr>" "ib_inbox_id q2 = k"
    "ib_attempts q2 = 2" using s by auto
  let ?q3 = "q2\<lparr>ib_status := Ib_done, ib_lock_owner := None, ib_locked_at := None, ib_error := None\<rparr>"
  have s3: "cq_inbox s3 = [?q3]" using s q2 by (auto simp: ack_inbox_def update_inbox_def sql_update_def)
  then have g: "get_inbox k s3 = Some ?q3" using q2 by (simp add: get_inbox_def sql_get_def)
  obtain q4 where q4: "cq_inbox s4 = [q4]" "ib_inbox_id q4 = k" "ib_attempts q4 = 2" "ib_ready q4"
    "ib_next_attempt_at q4 = iso_after t3 (backoff_seconds b 2)"
    using s s3 g q2 assms(5) by (auto simp: mark_inbox_retry_def update_inbox_def sql_update_def ib_ready_def)
  have "iso_after t3 (backoff_seconds b 2) \<le> t" if "t3 + max 0 b * 1000000 \<le> t" for t
    using that by (auto simp: iso_after_def backoff_seconds_def)
  then have "\<exists>r. fst (claim_inbox (\<lambda>_. t) w3 120 s4) = Some r \<and> ib_inbox_id r = k \<and> ib_attempts r = 3" if "t3 + max 0 b * 1000000 \<le> t" for t w3
    using claim_inbox_single [OF q4(1), of "\<lambda>_. t" 120 w3] that q4(2-5) by auto
  with g show ?thesis by simp
qed

theorem done_message_processed_again_witness:
  "case late_failure 1 200000000 210000000 ''a'' ''b'' ''m'' 5 60 demo_inbox of
     [s1, s2, s3, s4] \<Rightarrow> map_option ib_status (get_inbox ''m'' s3) = Some Ib_done \<and>
        map_option ib_attempts (fst (claim_inbox (\<lambda>_. 300000000) ''c'' 120 s4)) = Some 3
   | _ \<Rightarrow> False"
proof -
  obtain s1 s2 s3 s4 where s: "late_failure 1 200000000 210000000 ''a'' ''b'' ''m'' 5 60 demo_inbox = [s1, s2, s3, s4]"
    by (auto simp: late_failure_def Let_def)
  have "cq_inbox demo_inbox = [new_inbox_row ''m'' 0 ''cli'' ''chat'' ''1'' ''u'' [] None]" by (simp add: demo_inbox_def)
  from done_message_processed_again [OF s this] have "map_option ib_status (get_inbox ''m'' s3) = Some Ib_done"
    "\<exists>r. fst (claim_inbox (\<lambda>_. 300000000) ''c'' 120 s4) = Some r \<and> ib_inbox_id r = ''m'' \<and> ib_attempts r = 3" by auto
  with s show ?thesis by auto
qed

end
