(* ===== verification/Channel_Access_Properties.thy ===== *)
theory Channel_Access_Properties
  imports Channel_Properties
begin

text \<open>
  Properties of access: the rate limits of chats, users and sessions hold in every window, and a chat
  whose binding was revoked is refused before the dispatcher sees its messages.
\<close>

section \<open>Rate limits\<close>

definition rl_cnt :: "string \<Rightarrow> string \<Rightarrow> int \<Rightarrow> access_tables \<Rightarrow> int" where
  "rl_cnt kt kid ws s = (case sql_get rl_key (kt, kid, ws) (ac_rate_limits s) of None \<Rightarrow> 0 | Some r \<Rightarrow> rl_count r)"

definition window_start :: "int \<Rightarrow> int \<Rightarrow> int" where
  "window_start now w = now - now mod max 1 w"

lemma window_start_mono: "t \<le> t' \<Longrightarrow> window_start t w \<le> window_start t' w"
proof -
  assume "t \<le> t'"
  then have "t div max 1 w \<le> t' div max 1 w" by (intro zdiv_mono1) auto
  then have "max 1 w * (t div max 1 w) \<le> max 1 w * (t' div max 1 w)" by (intro mult_left_mono) auto
  then show ?thesis by (simp add: window_start_def minus_mod_eq_mult_div)
qed

lemma sql_get_filter_key:
  assumes "\<And>r. key r = k \<Longrightarrow> P r = b"
  shows "sql_get key k (filter P t) = (if b then sql_get key k t else None)"
  using assms by (induction t) (auto simp: sql_get_def)

lemma increment_effect:
  assumes "increment_rate_limit now kt kid w l s = ((ok, n), s')"
  shows "ok \<longleftrightarrow> rl_cnt kt kid (window_start now w) s + 1 \<le> l"
    "rl_cnt kt' kid' ws s' = (if (kt', kid') \<noteq> (kt, kid) then rl_cnt kt' kid' ws s
       else if ws = window_start now w then rl_cnt kt kid ws s + 1
       else if ws < window_start now w - max 1 w * 3 then 0 else rl_cnt kt kid ws s)"
proof -
  let ?ws = "window_start now w"
  let ?row = "\<lparr>rl_key_type = kt, rl_key_id = kid, rl_window_start = ?ws, rl_count = 1\<rparr>"
  let ?rows = "sql_upsert rl_key (\<lambda>old _. old\<lparr>rl_count := rl_count old + 1\<rparr>) ?row (ac_rate_limits s)"
  let ?keep = "\<lambda>r. \<not> (rl_key_type r = kt \<and> rl_key_id r = kid \<and> rl_window_start r < ?ws - max 1 w * 3)"
  have get: "sql_get rl_key k ?rows = (if k = (kt, kid, ?ws)
      then Some (case sql_get rl_key k (ac_rate_limits s) of None \<Rightarrow> ?row | Some r \<Rightarrow> r\<lparr>rl_count := rl_count r + 1\<rparr>)
      else sql_get rl_key k (ac_rate_limits s))" for k
    by (subst sql_get_upsert) (auto simp: rl_key_def)
  have s': "s' = s\<lparr>ac_rate_limits := filter ?keep ?rows\<rparr>"
    and ok: "ok \<longleftrightarrow> (case sql_get rl_key (kt, kid, ?ws) ?rows of None \<Rightarrow> 0 | Some r \<Rightarrow> rl_count r) \<le> l"
    using assms by (auto simp: increment_rate_limit_def Let_def window_start_def rl_key_def)
  show "ok \<longleftrightarrow> rl_cnt kt kid ?ws s + 1 \<le> l"
    using ok by (auto simp: get rl_cnt_def split: option.splits)
  have "sql_get rl_key (kt', kid', ws) (filter ?keep ?rows) =
      (if (kt', kid') = (kt, kid) \<and> ws < ?ws - max 1 w * 3 then None else sql_get rl_key (kt', kid', ws) ?rows)"
    by (subst sql_get_filter_key [where b = "\<not> ((kt', kid') = (kt, kid) \<and> ws < ?ws - max 1 w * 3)"]) (auto simp: rl_key_def)
  moreover have "0 \<le> max 1 w * 3" by simp
  ultimately show "rl_cnt kt' kid' ws s' = (if (kt', kid') \<noteq> (kt, kid) then rl_cnt kt' kid' ws s
       else if ws = ?ws then rl_cnt kt kid ws s + 1 else if ws < ?ws - max 1 w * 3 then 0 else rl_cnt kt kid ws s)"
    unfolding s' by (auto simp: rl_cnt_def get split: option.splits)
qed

lemma rate_checks_other:
  assumes "rate_checks clk j checks s = (r, s')" "kt \<notin> fst ` set checks"
  shows "rl_cnt kt kid ws s' = rl_cnt kt kid ws s"
  using assms
proof (induction clk j checks s arbitrary: r rule: rate_checks.induct)
  case (2 clk i kt1 kid1 w1 l1 checks s)
  obtain ok n u where u: "increment_rate_limit (clk i) kt1 kid1 w1 l1 s = ((ok, n), u)" by (metis prod.collapse)
  then have "rl_cnt kt kid ws u = rl_cnt kt kid ws s" using increment_effect(2) [OF u, of kt kid ws] 2(3) by auto
  with 2 u show ?case by (auto split: if_splits)
qed simp

text \<open>The check with number \<open>i\<close> of a sequence, for a key of its type.\<close>

lemma rate_checks_effect:
  assumes "rate_checks clk j checks s = ((ok, m), s')" "distinct (map fst checks)"
    and "i < length checks" "checks ! i = (kt, kid', w, l)"
  shows "kid' \<noteq> kid \<or> window_start (clk (j + i)) w < ws \<Longrightarrow> rl_cnt kt kid ws s' = rl_cnt kt kid ws s"
    "kid' = kid \<Longrightarrow> ws = window_start (clk (j + i)) w \<Longrightarrow>
      rl_cnt kt kid ws s \<le> rl_cnt kt kid ws s' \<and> (ok \<longrightarrow> rl_cnt kt kid ws s' = rl_cnt kt kid ws s + 1 \<and> rl_cnt kt kid ws s + 1 \<le> l)"
  using assms
proof (induction clk j checks s arbitrary: i rule: rate_checks.induct)
  case (2 clk j kt1 kid1 w1 l1 checks s)
  obtain ok1 n u where u: "increment_rate_limit (clk j) kt1 kid1 w1 l1 s = ((ok1, n), u)" by (metis prod.collapse)
  note inc = increment_effect [OF u]
  {
    case 1
    show ?case
    proof (cases i)
      case 0
      with 1 inc(2) [of kt kid ws] have "rl_cnt kt kid ws u = rl_cnt kt kid ws s" by auto
      with 1 0 u show ?thesis using rate_checks_other [of clk "Suc j" checks u _ s' kt] by (auto split: if_splits)
    next
      case (Suc i')
      then have "kt \<in> fst ` set checks" using 1 nth_mem [of i' checks] by force
      then have "kt1 \<noteq> kt" using 1 by auto
      then have "rl_cnt kt kid ws u = rl_cnt kt kid ws s" using inc(2) [of kt kid ws] by auto
      then show ?thesis using 1 Suc u "2.IH"(1) [OF u [symmetric] refl] by (auto split: if_splits)
    qed
  next
    case 2
    show ?case
    proof (cases i)
      case 0
      with 2 inc(2) [of kt kid ws] have "rl_cnt kt kid ws u = rl_cnt kt kid ws s + 1" by auto
      with 2 0 u inc(1) show ?thesis using rate_checks_other [of clk "Suc j" checks u _ s' kt] by (auto split: if_splits)
    next
      case (Suc i')
      then have "kt \<in> fst ` set checks" using 2 nth_mem [of i' checks] by force
      then have "kt1 \<noteq> kt" using 2 by auto
      then have "rl_cnt kt kid ws u = rl_cnt kt kid ws s" using inc(2) [of kt kid ws] by auto
      then show ?thesis using 2 Suc u "2.IH"(2) [OF u [symmetric] refl, where i = i'] by (auto split: if_splits)
    qed
  }
qed simp_all

text \<open>A sequence of messages that go through the limiter, with the clock and the session of each.\<close>

fun rate_runs :: "rate_limit_policy \<Rightarrow> ((nat \<Rightarrow> int) \<times> inbound_message \<times> string) list \<Rightarrow> access_tables \<Rightarrow> bool list \<times> access_tables" where
  "rate_runs policy [] s = ([], s)"
| "rate_runs policy ((clk, msg, sid) # ms) s =
     (let ((ok, _), s) = rate_limiter_check clk policy msg sid s; (oks, s) = rate_runs policy ms s in (ok # oks, s))"

text \<open>The key that a message has in the check with number \<open>i\<close>, and the window and limit of the check.\<close>

definition rate_key :: "nat \<Rightarrow> inbound_message \<Rightarrow> string \<Rightarrow> string" where
  "rate_key i msg sid = [opt_or (in_chat_id msg) (in_chat_key msg), opt_or (in_user_id msg) (in_user_key msg), sid] ! i"

definition rate_bound :: "rate_limit_policy \<Rightarrow> nat \<Rightarrow> int \<times> int" where
  "rate_bound policy i = [(rp_chat_window_s policy, rp_chat_limit policy), (rp_user_window_s policy, rp_user_limit policy),
     (rp_session_window_s policy, rp_session_limit policy)] ! i"

definition passed :: "rate_limit_policy \<Rightarrow> nat \<Rightarrow> string \<Rightarrow> int \<Rightarrow> ((nat \<Rightarrow> int) \<times> inbound_message \<times> string) \<times> bool \<Rightarrow> bool" where
  "passed policy i kid ws x = (case x of ((clk, msg, sid), ok) \<Rightarrow>
     ok \<and> rate_key i msg sid = kid \<and> window_start (clk i) (fst (rate_bound policy i)) = ws)"

lemma limiter_effect:
  assumes "rate_limiter_check clk policy msg sid s = ((ok, m), s')" "i < 3" "rate_bound policy i = (w, l)"
    and "kt = [''chat_id'', ''user_id'', ''session_id''] ! i"
  shows "rate_key i msg sid \<noteq> kid \<or> window_start (clk i) w < ws \<Longrightarrow> rl_cnt kt kid ws s' = rl_cnt kt kid ws s"
    "rate_key i msg sid = kid \<Longrightarrow> ws = window_start (clk i) w \<Longrightarrow>
      rl_cnt kt kid ws s \<le> rl_cnt kt kid ws s' \<and> (ok \<longrightarrow> rl_cnt kt kid ws s' = rl_cnt kt kid ws s + 1 \<and> rl_cnt kt kid ws s + 1 \<le> l)"
proof -
  note r = assms(1) [unfolded rate_limiter_check_def]
  let ?cs = "[(''chat_id'', opt_or (in_chat_id msg) (in_chat_key msg), rp_chat_window_s policy, rp_chat_limit policy),
    (''user_id'', opt_or (in_user_id msg) (in_user_key msg), rp_user_window_s policy, rp_user_limit policy),
    (''session_id'', sid, rp_session_window_s policy, rp_session_limit policy)]"
  have "i = 0 \<or> i = 1 \<or> i = 2" using assms(2) by auto
  then have "?cs ! i = (kt, rate_key i msg sid, w, l)" using assms(3,4) by (auto simp: rate_key_def rate_bound_def)
  note e = rate_checks_effect [OF r _ _ this]
  show "rate_key i msg sid \<noteq> kid \<or> window_start (clk i) w < ws \<Longrightarrow> rl_cnt kt kid ws s' = rl_cnt kt kid ws s"
    using e(1) assms(2) by simp
  show "rate_key i msg sid = kid \<Longrightarrow> ws = window_start (clk i) w \<Longrightarrow>
      rl_cnt kt kid ws s \<le> rl_cnt kt kid ws s' \<and> (ok \<longrightarrow> rl_cnt kt kid ws s' = rl_cnt kt kid ws s + 1 \<and> rl_cnt kt kid ws s + 1 \<le> l)"
    using e(2) assms(2) by simp
qed

lemma passed_later:
  assumes "\<forall>x\<in>set ms. t \<le> fst x i" "ws < window_start t (fst (rate_bound policy i))"
  shows "filter (passed policy i kid ws) (zip ms oks) = []"
proof -
  have "\<not> passed policy i kid ws x" if "x \<in> set (zip ms oks)" for x
  proof -
    obtain clk msg sid ok where x: "x = ((clk, msg, sid), ok)" by (metis prod.collapse)
    with that have "(clk, msg, sid) \<in> set ms" by (auto dest: set_zip_leftD)
    then have "t \<le> clk i" using assms(1) by auto
    from window_start_mono [OF this, of "fst (rate_bound policy i)"] assms(2) show ?thesis by (auto simp: passed_def x)
  qed
  then show ?thesis by (auto simp: filter_empty_conv)
qed

lemma rate_runs_bound:
  assumes "i < 3" "rate_bound policy i = (w, l)" "kt = [''chat_id'', ''user_id'', ''session_id''] ! i"
  shows "rate_runs policy ms s = (oks, s') \<Longrightarrow> sorted (map (\<lambda>x. fst x i) ms) \<Longrightarrow>
    int (length (filter (passed policy i kid ws) (zip ms oks))) \<le> max 0 (l - rl_cnt kt kid ws s)"
proof (induction ms arbitrary: s oks)
  case (Cons x ms)
  obtain clk msg sid where x: "x = (clk, msg, sid)" by (cases x)
  obtain ok m u where u: "rate_limiter_check clk policy msg sid s = ((ok, m), u)" by (metis prod.collapse)
  obtain oks' v where v: "rate_runs policy ms u = (oks', v)" by fastforce
  have oks: "oks = ok # oks'" "s' = v" using Cons.prems(1) x u v by (simp_all)
  have IH: "int (length (filter (passed policy i kid ws) (zip ms oks'))) \<le> max 0 (l - rl_cnt kt kid ws u)"
    by (rule Cons.IH) (use v oks Cons.prems in auto)
  note eff = limiter_effect [OF u assms]
  have p: "passed policy i kid ws ((clk, msg, sid), b) \<longleftrightarrow> b \<and> rate_key i msg sid = kid \<and> window_start (clk i) w = ws" for b
    by (simp add: passed_def assms(2))
  consider (same) "rate_key i msg sid = kid" "ws = window_start (clk i) w"
    | (before) "rate_key i msg sid \<noteq> kid \<or> window_start (clk i) w < ws"
    | (after) "ws < window_start (clk i) w" by linarith
  then show ?case
  proof cases
    case same
    have "length (filter (passed policy i kid ws) (zip (x # ms) oks)) = (if ok then 1 else 0) + length (filter (passed policy i kid ws) (zip ms oks'))"
      by (simp add: oks x p same(1) same(2) [symmetric])
    with eff(2) [OF same] IH show ?thesis by (cases ok) auto
  next
    case before
    with eff(1) IH show ?thesis by (auto simp: oks x p)
  next
    case after
    then have "filter (passed policy i kid ws) (zip ms oks') = []"
      using Cons.prems(2) by (intro passed_later [of ms "clk i"]) (auto simp: x assms(2))
    with after show ?thesis by (auto simp: oks x p)
  qed
qed simp

text \<open>The rate limits hold: of the messages of one chat, of one user and in one session, no more
  pass in an aligned window than the policy allows for a chat, a user and a session, whatever other
  messages come in between, as long as the clock does not go back.\<close>

lemma rate_limit_per_window:
  assumes "rate_runs policy ms s = (oks, s')" "ac_rate_limits s = []"
    and "i < 3" "sorted (map (\<lambda>x. fst x i) ms)"
  shows "int (length (filter (passed policy i kid ws) (zip ms oks))) \<le> max 0 (snd (rate_bound policy i))"
proof -
  have "rl_cnt kt kid ws s = 0" for kt using assms(2) by (simp add: rl_cnt_def sql_get_def)
  with rate_runs_bound [OF assms(3) prod.collapse [symmetric] refl assms(1,4), of kid ws] show ?thesis by simp
qed

definition demo_message :: "string \<Rightarrow> inbound_message" where
  "demo_message text = \<lparr>in_user_key = ''u'', in_chat_key = ''chat'', in_text = text, in_channel = ''cli'', in_thread_key = None, in_meta = [],
     in_inbound_id = None, in_channel_message_id = None, in_chat_id = None, in_user_id = None, in_thread_id = None, in_reply_to = None,
     in_metadata = [], in_auth = None\<rparr>"

definition demo_rate_policy :: rate_limit_policy where
  "demo_rate_policy = default_rate_limit_policy\<lparr>rp_chat_limit := 2\<rparr>"

definition demo_messages :: "((nat \<Rightarrow> int) \<times> inbound_message \<times> string) list" where
  "demo_messages = map (\<lambda>t. (\<lambda>_. t, demo_message ''hi'', ''sess'')) [120, 121, 122, 180]"

section \<open>Revocation\<close>

text \<open>No table has an active binding for the chat.\<close>

definition not_bound :: "string \<Rightarrow> string \<Rightarrow> access_tables \<Rightarrow> bool" where
  "not_bound ch chat s =
     ((\<forall>r\<in>set (ac_subjects s). su_subject r = (ch, chat) \<longrightarrow> su_status r \<noteq> PRINCIPAL_BINDING_STATUS_ACTIVE) \<and>
      (\<forall>r\<in>set (ac_pairings s). pa_chat r = (ch, chat) \<longrightarrow> pa_status r \<noteq> PRINCIPAL_BINDING_STATUS_ACTIVE))"

lemma revoke_unbinds:
  assumes "admin_revoke now ch sub note s = (Some b, s')"
  shows "not_bound (str_strip ch) (str_strip sub) s'"
proof -
  have "str_strip ch \<noteq> []" "str_strip sub \<noteq> []" using assms by (auto simp: admin_revoke_def get_channel_subject_def Let_def split: if_splits)
  with assms show ?thesis
    by (auto simp: admin_revoke_def update_channel_subject_def not_bound_def Let_def set_sql_update su_subject_def pa_chat_def
        PRINCIPAL_BINDING_STATUS_ACTIVE_def PRINCIPAL_BINDING_STATUS_INACTIVE_def split: if_splits)
qed

lemma unbound_is_unpaired:
  assumes "not_bound ch chat s" "str_strip ch = ch" "str_strip chat = chat"
    and "in_auth msg = None" "in_channel msg = ch" "opt_or (in_chat_id msg) (in_chat_key msg) = chat"
  shows "auth_for_inbound now sz msg s = (\<lparr>au_role = AUTH_ROLE_UNPAIRED, au_scopes = [], au_principal_id = None\<rparr>, s)"
proof -
  have "find (\<lambda>r. su_subject r = (ch, chat) \<and> su_status r = PRINCIPAL_BINDING_STATUS_ACTIVE) (ac_subjects s) = None"
    "find (\<lambda>r. pa_chat r = (ch, chat) \<and> pa_status r = PRINCIPAL_BINDING_STATUS_ACTIVE) (ac_pairings s) = None"
    using assms(1) by (auto simp: not_bound_def find_None_iff)
  moreover have "identity_auth_context ch chat scopes s = None" for scopes
    using assms(1-3) by (auto simp: identity_auth_context_def get_channel_subject_def not_bound_def Let_def opt_or_def PRINCIPAL_BINDING_STATUS_ACTIVE_def
        PRINCIPAL_BINDING_STATUS_INACTIVE_def dest: sql_get_Some split: option.splits)
  ultimately show ?thesis using assms(2-6)
    by (simp add: auth_for_inbound_def auth_from_principal_mapping_def resolve_principal_def get_pairing_def Let_def)
qed

lemma unbound_is_refused:
  assumes "not_bound ch chat (cp_access c)" "str_strip ch = ch" "str_strip chat = chat"
    and "iw_authorizer iw = Some sz" "row_to_inbound row = Inr msg"
    and "in_auth msg = None" "in_channel msg = ch" "opt_or (in_chat_id msg) (in_chat_key msg) = chat" "\<not> is_pair_command (in_text msg)"
  shows "process_row iw clk row c = (Inr (Ir_unpaired (ib_inbox_id row)),
     ack (ib_inbox_id row) (queue_text_reply iw (clk 3) row PAIRING_REQUIRED_HINT ''auth_error''
       (cp_emit ''channel.message.received'' [(''channel'', PStr (ib_channel row)), (''chat_id'', PStr (ib_chat_id row)),
          (''inbox_id'', PStr (ib_inbox_id row))] c)))"
  using unbound_is_unpaired [OF assms(1-3,6-8)] assms(4-9)
  by (simp add: process_row_def authorize_inbound_def check_message_def handle_unpaired_def Let_def cp_emit_def)

text \<open>C21: Revocation takes effect on messages that are authorized when they are processed: when an
  administrator has revoked the binding of a chat, a message from it that carries no stored
  authorization and is no \<open>/pair\<close> command never reaches the dispatcher, whichever it is, with and
  without the identity service. The sender gets the hint to pair the chat, the message is
  acknowledged, and bindings and sessions stay as they are. A message that was queued together with
  its authorization is not covered: it is authorized by what was stored.\<close>

theorem revoked_chat_is_refused:
  assumes "admin_revoke now ch sub note (cp_access c) = (Some b, access)" "iw_authorizer iw = Some sz"
    and "row_to_inbound row = Inr msg" "in_auth msg = None" "\<not> is_pair_command (in_text msg)"
    and "in_channel msg = str_strip ch" "opt_or (in_chat_id msg) (in_chat_key msg) = str_strip sub"
  shows "\<exists>c'. (\<forall>d. process_row (iw\<lparr>iw_dispatch := d\<rparr>) clk row (c\<lparr>cp_access := access\<rparr>) = (Inr (Ir_unpaired (ib_inbox_id row)), c')) \<and>
    cp_access c' = access \<and> cp_sessions c' = cp_sessions c \<and>
    cp_queues c' = cp_queues (ack (ib_inbox_id row) (queue_text_reply iw (clk 3) row PAIRING_REQUIRED_HINT ''auth_error'' c))"
proof -
  have nb: "not_bound (str_strip ch) (str_strip sub) (cp_access (c\<lparr>cp_access := access\<rparr>))" using revoke_unbinds [OF assms(1)] by simp
  have "process_row (iw\<lparr>iw_dispatch := d\<rparr>) clk row (c\<lparr>cp_access := access\<rparr>) = (Inr (Ir_unpaired (ib_inbox_id row)),
      ack (ib_inbox_id row) (queue_text_reply iw (clk 3) row PAIRING_REQUIRED_HINT ''auth_error''
       (cp_emit ''channel.message.received'' [(''channel'', PStr (ib_channel row)), (''chat_id'', PStr (ib_chat_id row)),
          (''inbox_id'', PStr (ib_inbox_id row))] (c\<lparr>cp_access := access\<rparr>))))" for d
    using unbound_is_refused [OF nb str_strip_idem str_strip_idem, of "iw\<lparr>iw_dispatch := d\<rparr>" sz row msg clk] assms(2-)
    by (simp add: queue_text_reply_def)
  then show ?thesis by (auto simp: ack_def queue_text_reply_def cp_emit_def)
qed

definition demo_row :: inbox_row where
  "demo_row = new_inbox_row ''m'' 0 ''cli'' ''chat'' ''1'' ''u'' [(''text'', PStr ''hello'')] None"

definition demo_access :: access_tables where
  "demo_access = snd (upsert_pairing nat_digits 1 ''cli'' ''chat'' ''u'' ''sess'' None DEFAULT_MINIMAL_SCOPES None None empty_access)"

definition demo_authorizer :: scope_authorizer where
  "demo_authorizer = \<lparr>sz_identity_api = True, sz_command_registry = None, sz_default_scopes = DEFAULT_MINIMAL_SCOPES\<rparr>"

definition demo_inbox_worker :: inbox_worker where
  "demo_inbox_worker = \<lparr>iw_authorizer = Some demo_authorizer, iw_rate_policy = None, iw_lock_owner = ''w'', iw_max_attempts = 5,
     iw_max_backoff_s = 60, iw_dispatch = (\<lambda>_ c. (Inr \<lparr>dp_payload = [], dp_session_id = ''sess'', dp_agent_id = ''main''\<rparr>, c)),
     iw_uuid = nat_digits, iw_iso = int_str\<rparr>"

definition demo_before :: control_plane where
  "demo_before = \<lparr>cp_access = demo_access, cp_sessions = empty_session_tables, cp_queues = empty_queues, cp_audit = []\<rparr>"

definition demo_after :: control_plane where
  "demo_after = demo_before\<lparr>cp_access := snd (admin_revoke 5 ''cli'' ''chat'' None demo_access)\<rparr>"

theorem revoked_chat_is_refused_witness:
  "fst (process_row demo_inbox_worker (\<lambda>_. 7) demo_row demo_before) = Inr (Ir_done ''m'' ''sess'') \<and>
   fst (process_row demo_inbox_worker (\<lambda>_. 7) demo_row demo_after) = Inr (Ir_unpaired ''m'')"
proof -
  have facts: "fst (process_row demo_inbox_worker (\<lambda>_. 7) demo_row demo_before) = Inr (Ir_done ''m'' ''sess'')"
    "fst (admin_revoke 5 ''cli'' ''chat'' None demo_access) \<noteq> None"
    "(case row_to_inbound demo_row of Inl _ \<Rightarrow> False | Inr msg \<Rightarrow> in_auth msg = None \<and> \<not> is_pair_command (in_text msg) \<and>
       in_channel msg = str_strip ''cli'' \<and> opt_or (in_chat_id msg) (in_chat_key msg) = str_strip ''chat'')"
    by code_simp+
  obtain b access where r: "admin_revoke 5 ''cli'' ''chat'' None (cp_access demo_before) = (Some b, access)"
    using facts(2) by (cases "admin_revoke 5 ''cli'' ''chat'' None demo_access") (auto simp: demo_before_def)
  obtain msg where m: "row_to_inbound demo_row = Inr msg" "in_auth msg = None" "\<not> is_pair_command (in_text msg)"
    "in_channel msg = str_strip ''cli''" "opt_or (in_chat_id msg) (in_chat_key msg) = str_strip ''chat''"
    using facts(3) by (auto split: sum.splits)
  have a: "iw_authorizer demo_inbox_worker = Some demo_authorizer" by (simp add: demo_inbox_worker_def)
  have after: "demo_after = demo_before\<lparr>cp_access := access\<rparr>" using r by (simp add: demo_after_def demo_before_def)
  from revoked_chat_is_refused [OF r a m, of "\<lambda>_. 7"] obtain c' where
    "\<forall>d. process_row (demo_inbox_worker\<lparr>iw_dispatch := d\<rparr>) (\<lambda>_. 7) demo_row demo_after = (Inr (Ir_unpaired (ib_inbox_id demo_row)), c')"
    unfolding after by blast
  then have "process_row (demo_inbox_worker\<lparr>iw_dispatch := iw_dispatch demo_inbox_worker\<rparr>) (\<lambda>_. 7) demo_row demo_after =
    (Inr (Ir_unpaired (ib_inbox_id demo_row)), c')" by blast
  then show ?thesis using facts(1) by (simp add: demo_row_def new_inbox_row_def)
qed

end
