(* ===== verification/Channel_Pairing_Properties.thy ===== *)
theory Channel_Pairing_Properties
  imports Channel_Workers
begin

text \<open>
  Properties of pairing: a token pairs one chat, once, and only the chat it was issued for; guesses
  are bounded. The relation \<open>pairing_step\<close> has the operations that work on the tables while the service
  runs, attempts to pair and, in \<open>table_step\<close>, the others; tokens and attempts that are copied from the older store are there when it starts.
\<close>

section \<open>Steps\<close>

inductive table_step :: "pairing_policy \<Rightarrow> pairing_state \<Rightarrow> pairing_state \<Rightarrow> bool" for policy where
  step_issue: "issue_token env policy now fresh ch acct chat ttl scopes token w = (r, w') \<Longrightarrow> table_step policy w w'"
| step_revoke: "admin_revoke now ch sub note (ps_access w) = (r, s') \<Longrightarrow> table_step policy w (w\<lparr>ps_access := s'\<rparr>)"
| step_scopes: "admin_set_scopes now ch sub scopes (ps_access w) = (r, s') \<Longrightarrow> table_step policy w (w\<lparr>ps_access := s'\<rparr>)"
| step_pairing: "upsert_pairing uuid now ch chat u sid st scopes note pid (ps_access w) = (r', s') \<Longrightarrow> table_step policy w (w\<lparr>ps_access := s'\<rparr>)"
| step_principal: "upsert_principal uuid now pid meta (ps_access w) = (r', s') \<Longrightarrow> table_step policy w (w\<lparr>ps_access := s'\<rparr>)"
| step_bind: "bind_principal_subject now pid ch sub st scopes note meta (ps_access w) = (r'', s') \<Longrightarrow> table_step policy w (w\<lparr>ps_access := s'\<rparr>)"
| step_touch: "table_step policy w (w\<lparr>ps_access := touch_channel_subject now ch sub (touch_pairing now ch sub (ps_access w))\<rparr>)"
| step_rate: "increment_rate_limit now kt kid window limit (ps_access w) = (r3, s') \<Longrightarrow> table_step policy w (w\<lparr>ps_access := s'\<rparr>)"

inductive pairing_step :: "pairing_policy \<Rightarrow> pairing_state \<Rightarrow> pairing_state \<Rightarrow> bool" for policy where
  step_attempt: "handle_pairing_attempt env policy clk now x w = (reply, w') \<Longrightarrow> pairing_step policy w w'"
| step_table: "table_step policy w w' \<Longrightarrow> pairing_step policy w w'"

text \<open>What most operations leave alone.\<close>

definition same_tokens :: "access_tables \<Rightarrow> access_tables \<Rightarrow> bool" where
  "same_tokens s s' = (ac_tokens s' = ac_tokens s \<and> ac_attempts s' = ac_attempts s)"

lemma upsert_pairing_tokens:
  "upsert_pairing uuid now ch chat u sid st scopes note pid s = (r, s') \<Longrightarrow> same_tokens s s'"
  by (auto simp: upsert_pairing_def same_tokens_def upsert_principal_row_def upsert_channel_subject_def Let_def
      split: prod.splits if_splits)

lemma access_frames:
  "admin_revoke now ch sub note s = (r, s') \<Longrightarrow> same_tokens s s'"
  "admin_set_scopes now ch sub scopes s = (r, s') \<Longrightarrow> same_tokens s s'"
  "upsert_principal uuid now pid' meta s = (r', s') \<Longrightarrow> same_tokens s s'"
  "bind_principal_subject now pid ch sub st scopes note' meta' s = (r'', s') \<Longrightarrow> same_tokens s s'"
  "same_tokens s (touch_channel_subject now ch sub (touch_pairing now ch sub s))"
  "increment_rate_limit now kt kid window limit s = (r3, s') \<Longrightarrow> same_tokens s s'"
  by (auto simp: same_tokens_def admin_revoke_def admin_set_scopes_def update_channel_subject_def upsert_principal_def
      bind_principal_subject_def upsert_principal_row_def upsert_channel_subject_def touch_channel_subject_def touch_pairing_def
      increment_rate_limit_def Let_def split: if_splits prod.splits)

lemma bridge_tokens: "same_tokens (ps_access w) (ps_access (bridge_pairing env policy now a co w))"
  using upsert_pairing_tokens
  by (auto simp: bridge_pairing_def Let_def same_tokens_def split: prod.splits)

section \<open>Redeeming a token\<close>

text \<open>The condition under which a token is redeemed.\<close>

definition redeemable :: "int \<Rightarrow> string \<Rightarrow> string \<Rightarrow> string \<Rightarrow> string \<Rightarrow> pair_token \<Rightarrow> bool" where
  "redeemable now h chan account_id chat_key r =
     (tk_token_hash r = h \<and> tk_channel r = chan \<and> tk_used_at_ts r = None \<and> now \<le> tk_expires_at_ts r \<and>
      tk_expected_account_id r \<in> {None, Some account_id} \<and> tk_expected_chat_key r \<in> {None, Some chat_key})"

definition redeemed :: "int \<Rightarrow> string \<Rightarrow> string \<Rightarrow> pair_token \<Rightarrow> pair_token" where
  "redeemed now account_id chat_key r =
     r\<lparr>tk_used_at_ts := Some now, tk_consumer_account_id := Some account_id, tk_consumer_chat_key := Some chat_key\<rparr>"

lemma mismatch_empty: "pair_expected_mismatch r account_id chat_key = [] \<longleftrightarrow>
   tk_expected_account_id r \<in> {None, Some account_id} \<and> tk_expected_chat_key r \<in> {None, Some chat_key}"
  by (auto simp: pair_expected_mismatch_def)

lemma redeemable_alt: "redeemable now h chan acct chat r \<longleftrightarrow>
   tk_token_hash r = h \<and> tk_channel r = chan \<and> tk_used_at_ts r = None \<and> now \<le> tk_expires_at_ts r \<and> pair_expected_mismatch r acct chat = []"
  unfolding redeemable_def mismatch_empty by blast

lemma update_by_key:
  assumes "keys_unique key t" "sql_get key k t = Some r" "P r"
  shows "sql_update (\<lambda>q. key q = k \<and> P q) f t = sql_update (\<lambda>q. key q = k) f t"
proof -
  have "P q" if "q \<in> set t" "key q = k" for q using sql_get_unique [OF assms(1) that(1)] that(2) assms(2,3) by simp
  then show ?thesis by (auto simp: sql_update_def)
qed

lemma consume_cases:
  assumes uniq: "keys_unique tk_token_hash (ac_tokens s)"
    and c: "consume_pair_token sha now ch token acct chat pepper s = (co, s')"
  obtains "\<not> co_ok co" "s' = s" "co_reason co \<noteq> []"
    "\<And>r. sql_get tk_token_hash (token_hash sha token pepper) (ac_tokens s) = Some r \<Longrightarrow> tk_channel r = str_strip ch \<Longrightarrow> co_reason co \<noteq> ''invalid_token''"
  | r where "co_ok co" "co_reason co = ''paired''" "sql_get tk_token_hash (token_hash sha token pepper) (ac_tokens s) = Some r"
    "redeemable now (token_hash sha token pepper) (str_strip ch) acct chat r"
    "s' = s\<lparr>ac_tokens := sql_update (\<lambda>q. tk_token_hash q = token_hash sha token pepper) (redeemed now acct chat) (ac_tokens s)\<rparr>"
proof -
  let ?h = "token_hash sha token pepper"
  note find = find_by_key [OF uniq, of ?h "\<lambda>r. tk_channel r = str_strip ch"]
  show thesis
  proof (cases "\<exists>r. sql_get tk_token_hash ?h (ac_tokens s) = Some r \<and> redeemable now ?h (str_strip ch) acct chat r")
    case True
    then obtain r where r: "sql_get tk_token_hash ?h (ac_tokens s) = Some r" "redeemable now ?h (str_strip ch) acct chat r" by blast
    let ?P = "\<lambda>q. tk_channel q = str_strip ch \<and> tk_used_at_ts q = None \<and> now \<le> tk_expires_at_ts q"
    have P: "?P r" and m: "pair_expected_mismatch r acct chat = []" using r(2) by (simp_all add: redeemable_alt)
    have one: "sql_count (\<lambda>q. tk_token_hash q = ?h \<and> ?P q) (ac_tokens s) = 1" using sql_count_key [OF uniq, of ?h ?P] r(1) P by simp
    show thesis using c find one update_by_key [OF uniq r(1), of ?P, OF P] r P m
      by (intro that(2) [of r]) (auto simp: consume_pair_token_def Let_def redeemed_def [abs_def])
  next
    case False
    have "\<not> co_ok co \<and> s' = s \<and> co_reason co \<noteq> [] \<and>
       (\<forall>r. sql_get tk_token_hash ?h (ac_tokens s) = Some r \<and> tk_channel r = str_strip ch \<longrightarrow> co_reason co \<noteq> ''invalid_token'')"
    proof (cases "sql_get tk_token_hash ?h (ac_tokens s)")
      case None
      with c find show ?thesis by (auto simp: consume_pair_token_def Let_def pair_token_failure_def)
    next
      case (Some r)
      then have h: "tk_token_hash r = ?h" by (auto dest: sql_get_Some)
      have "pair_expected_mismatch r acct chat \<noteq> ''invalid_token''" by (simp add: pair_expected_mismatch_def)
      with c find Some False h show ?thesis
        by (auto simp: consume_pair_token_def Let_def pair_token_failure_def redeemable_alt split: if_splits)
    qed
    then show thesis using that(1) by blast
  qed
qed

lemma record_attempt_frames [simp]:
  "ac_tokens (ps_access (record_attempt env policy t a o' w)) = ac_tokens (ps_access w)"
  "ac_pairings (ps_access (record_attempt env policy t a o' w)) = ac_pairings (ps_access w)"
  "ac_subjects (ps_access (record_attempt env policy t a o' w)) = ac_subjects (ps_access w)"
  "ac_principals (ps_access (record_attempt env policy t a o' w)) = ac_principals (ps_access w)"
  "ps_sessions (record_attempt env policy t a o' w) = ps_sessions w"
  by (simp_all add: record_attempt_def record_pair_attempt_def)

lemma pairing_audit_frames [simp]:
  "ps_access (pairing_audit e o' ch w) = ps_access w" "ps_sessions (pairing_audit e o' ch w) = ps_sessions w"
  by (simp_all add: pairing_audit_def)

text \<open>What an attempt does to the tokens, in the three ways it can end.\<close>

definition attempt_hash :: "pairing_env \<Rightarrow> pairing_policy \<Rightarrow> pairing_attempt \<Rightarrow> string" where
  "attempt_hash env policy a = token_hash (pe_sha256 env) (pg_token a) (pp_hash_pepper policy)"

definition same_access :: "pairing_state \<Rightarrow> pairing_state \<Rightarrow> bool" where
  "same_access w w' = (ac_pairings (ps_access w') = ac_pairings (ps_access w) \<and> ac_subjects (ps_access w') = ac_subjects (ps_access w) \<and>
     ac_principals (ps_access w') = ac_principals (ps_access w) \<and> ac_tokens (ps_access w') = ac_tokens (ps_access w) \<and> ps_sessions w' = ps_sessions w)"

text \<open>An attempt is refused before its token is looked at, or the token is checked.\<close>

definition unchecked_outcomes :: "string set" where
  "unchecked_outcomes = {''invalid_format'', ''lru_limited'', ''rate_limited''}"

definition legacy_or_not :: "pairing_env \<Rightarrow> pairing_attempt \<Rightarrow> consume_result \<Rightarrow> pairing_state \<Rightarrow> consume_result \<times> pairing_state" where
  "legacy_or_not env a co v = (if \<not> co_ok co \<and> co_reason co = ''invalid_token'' \<and> pe_legacy env \<noteq> None then try_legacy_redeem env a co v else (co, v))"

text \<open>The guards before the tokens are looked at.\<close>

definition admitted :: "pairing_policy \<Rightarrow> (nat \<Rightarrow> int) \<Rightarrow> pairing_attempt \<Rightarrow> pairing_state \<Rightarrow> bool" where
  "admitted policy clk a w \<longleftrightarrow> pp_enabled policy \<and> pp_mode policy \<noteq> ''off'' \<and> (pg_chat_type a = ''private'' \<or> pp_allow_in_groups policy) \<and>
     token_allowed (pg_token a) \<and> fst (lru_bump (take 12 (pg_token a)) (ps_lru w)) \<le> 8 \<and> \<not> is_rate_limited policy (clk 0) a (ps_access w)"

lemma handle_attempt_cases:
  assumes h: "handle_pairing_attempt env policy clk now (Some a) w = (reply, w')"
  obtains (early) lru outcome where "\<not> admitted policy clk a w" "reply \<noteq> Paired" "outcome \<in> unchecked_outcomes"
    "w' = w \<or> w' = record_attempt env policy (clk 2) a outcome (w\<lparr>ps_lru := lru\<rparr>)"
  | (checked) lru co s' co' v where "admitted policy clk a w"
    "consume_pair_token (pe_sha256 env) (clk 1) (pg_channel a) (pg_token a) (pg_account_id a) (pg_chat_key a) (pp_hash_pepper policy)
       (ps_access w) = (co, s')"
    "legacy_or_not env a co (w\<lparr>ps_lru := lru, ps_access := s'\<rparr>) = (co', v)"
    "reply = (if co_ok co' then Paired else Rejected (opt_or (Some (co_reason co')) ''unknown''))"
    "w' = (let u = record_attempt env policy (clk 2) a (opt_or (Some (co_reason co')) ''unknown'') v in
       if co_ok co' then pairing_audit ''cp.pairing.token.consumed'' ''ok'' (pg_channel a) (bridge_pairing env policy now a co' u)
       else pairing_audit ''cp.pairing.token.rejected'' (opt_or (Some (co_reason co')) ''unknown'') (pg_channel a) u)"
proof -
  obtain n lru where lru: "lru_bump (take 12 (pg_token a)) (ps_lru w) = (n, lru)" by fastforce
  obtain co s' where co: "consume_pair_token (pe_sha256 env) (clk 1) (pg_channel a) (pg_token a) (pg_account_id a) (pg_chat_key a)
      (pp_hash_pepper policy) (ps_access w) = (co, s')" by fastforce
  obtain co' v where v: "legacy_or_not env a co (w\<lparr>ps_lru := lru, ps_access := s'\<rparr>) = (co', v)" by fastforce
  show thesis
  proof (cases "admitted policy clk a w")
    case True
    then show thesis using h lru co v unfolding legacy_or_not_def admitted_def
      by (intro checked [OF True co v]) (auto simp: handle_pairing_attempt_def Let_def)
  next
    case False
    let ?e = "\<lambda>outcome. reply \<noteq> Paired \<and> (w' = w \<or> w' = record_attempt env policy (clk 2) a outcome w \<or>
       w' = record_attempt env policy (clk 2) a outcome (w\<lparr>ps_lru := lru\<rparr>))"
    have w: "w\<lparr>ps_lru := ps_lru w\<rparr> = w" by simp
    have "\<exists>outcome\<in>unchecked_outcomes. ?e outcome"
      using h lru False by (auto simp: handle_pairing_attempt_def Let_def admitted_def unchecked_outcomes_def split: if_splits)
    then show thesis using early [OF False] w by metis
  qed
qed

lemma bridge_same_tokens:
  "ac_tokens (ps_access (bridge_pairing env policy now a c v)) = ac_tokens (ps_access v)"
  "ac_attempts (ps_access (bridge_pairing env policy now a c v)) = ac_attempts (ps_access v)"
  using bridge_tokens by (simp_all add: same_tokens_def)

lemma legacy_or_not_cases:
  assumes "legacy_or_not env a co v = (co', u)"
  shows "ps_access u = ps_access v" "ps_sessions u = ps_sessions v"
    "co' = co \<or> co_ok co' \<and> pe_legacy env \<noteq> None \<and> \<not> co_ok co \<and> co_reason co = ''invalid_token''"
  using assms by (auto simp: legacy_or_not_def try_legacy_redeem_def split: if_splits option.splits)

lemma attempt_cases:
  assumes uniq: "keys_unique tk_token_hash (ac_tokens (ps_access w))"
    and h: "handle_pairing_attempt env policy clk now (Some a) w = (reply, w')"
  obtains (refused) "reply \<noteq> Paired" "same_access w w'"
  | (paired) r where "reply = Paired" "sql_get tk_token_hash (attempt_hash env policy a) (ac_tokens (ps_access w)) = Some r"
    "redeemable (clk 1) (attempt_hash env policy a) (str_strip (pg_channel a)) (pg_account_id a) (pg_chat_key a) r"
    "ac_tokens (ps_access w') = sql_update (\<lambda>q. tk_token_hash q = attempt_hash env policy a) (redeemed (clk 1) (pg_account_id a) (pg_chat_key a))
       (ac_tokens (ps_access w))"
  | (legacy) "reply = Paired" "pe_legacy env \<noteq> None" "ac_tokens (ps_access w') = ac_tokens (ps_access w)"
    "\<And>r. sql_get tk_token_hash (attempt_hash env policy a) (ac_tokens (ps_access w)) = Some r \<Longrightarrow> tk_channel r \<noteq> str_strip (pg_channel a)"
  using h
proof (cases rule: handle_attempt_cases)
  case (early lru outcome)
  then show thesis by (intro refused) (auto simp: same_access_def)
next
  case (checked lru co s' co' v)
  note leg = legacy_or_not_cases [OF checked(3)]
  show thesis
    using uniq checked(2)
  proof (cases rule: consume_cases)
    case 1
    show thesis
    proof (cases "co_ok co'")
      case True
      then have "pe_legacy env \<noteq> None" "co_reason co = ''invalid_token''" using leg(3) 1(1) by auto
      with True 1 checked leg show thesis by (intro legacy) (auto simp: Let_def bridge_same_tokens attempt_hash_def)
    next
      case False
      with checked(4,5) leg 1(2) show thesis by (intro refused) (auto simp: same_access_def Let_def)
    qed
  next
    case (2 r)
    with leg(3) have "co' = co" by auto
    with 2 checked(4,5) leg(1) show thesis by (intro paired [of r]) (auto simp: Let_def bridge_same_tokens attempt_hash_def)
  qed
qed

definition demo_env :: pairing_env where
  "demo_env = \<lparr>pe_sha256 = (\<lambda>x. x), pe_uuid = nat_digits, pe_legacy = None, pe_bridge = True\<rparr>"

definition demo_pairing :: pairing_state where
  "demo_pairing = snd (issue_token demo_env default_pairing_policy 100 ''fresh'' ''telegram'' (Some ''alice'') None None [] (Some ''s3cret'')
     \<lparr>ps_access = empty_access, ps_sessions = empty_session_tables, ps_lru = new_recent_attempts 128, ps_audit = []\<rparr>)"

definition demo_attempt :: "string \<Rightarrow> pairing_attempt" where
  "demo_attempt account = \<lparr>pg_channel = ''telegram'', pg_token = ''s3cret'', pg_account_id = account, pg_chat_key = ''chat-1'',
     pg_chat_type = ''private'', pg_extra = []\<rparr>"

definition demo_try :: "string \<Rightarrow> int \<Rightarrow> pairing_state \<Rightarrow> pair_reply \<times> pairing_state" where
  "demo_try account t = handle_pairing_attempt demo_env default_pairing_policy (\<lambda>_. t) (t * 1000000) (Some (demo_attempt account))"

lemma demo_replies:
  "fst (demo_try ''mallory'' 110 demo_pairing) = Rejected ''user_mismatch''"
  "fst (demo_try ''alice'' 120 demo_pairing) = Paired"
  "fst (demo_try ''alice'' 130 (snd (demo_try ''alice'' 120 demo_pairing))) = Rejected ''already_used''"
  "map tk_token_hash (ac_tokens (ps_access demo_pairing)) = [''s3cret'']"
  by code_simp+

text \<open>Without an older token store a chat is paired only by a token that was issued for its channel,
  is unused and not expired, and is meant for the account and the chat that present it. Every
  other attempt leaves pairings, subjects, principals, sessions and tokens as they are.\<close>

lemma pairing_needs_valid_token:
  assumes "handle_pairing_attempt env policy clk now (Some a) w = (reply, w')"
    and "keys_unique tk_token_hash (ac_tokens (ps_access w))" "pe_legacy env = None"
  shows "if reply = Paired
    then \<exists>r\<in>set (ac_tokens (ps_access w)).
      redeemable (clk 1) (attempt_hash env policy a) (str_strip (pg_channel a)) (pg_account_id a) (pg_chat_key a) r
    else same_access w w'"
  using assms(2,1)
proof (cases rule: attempt_cases)
  case (paired r)
  then show ?thesis by (auto dest: sql_get_Some)
qed (use assms(3) in simp_all)

text \<open>A token that was used stays as it is.\<close>

interpretation redeem_update: keyed_update tk_token_hash "redeemed now acct chat"
  by unfold_locales (simp add: redeemed_def)

lemma no_attempt [simp]: "handle_pairing_attempt env policy clk now None w = (Not_handled, w)"
  by (simp add: handle_pairing_attempt_def)

lemma attempt_tokens:
  assumes "handle_pairing_attempt env policy clk now x w = (reply, w')" "keys_unique tk_token_hash (ac_tokens (ps_access w))"
  shows "keys_unique tk_token_hash (ac_tokens (ps_access w'))"
    "sql_get tk_token_hash h (ac_tokens (ps_access w)) = Some r \<Longrightarrow> tk_used_at_ts r \<noteq> None \<Longrightarrow>
      sql_get tk_token_hash h (ac_tokens (ps_access w')) = Some r"
proof -
  have "keys_unique tk_token_hash (ac_tokens (ps_access w')) \<and>
    (sql_get tk_token_hash h (ac_tokens (ps_access w)) = Some r \<and> tk_used_at_ts r \<noteq> None \<longrightarrow>
      sql_get tk_token_hash h (ac_tokens (ps_access w')) = Some r)"
  proof (cases x)
    case None
    with assms show ?thesis by auto
  next
    case (Some a)
    show ?thesis
      using assms(2) assms(1) [unfolded Some]
    proof (cases rule: attempt_cases)
      case (paired q)
      then show ?thesis using assms(2)
        by (auto simp: redeem_update.unique_update redeem_update.get_update_at redeemable_def)
    qed (use assms in \<open>auto simp: same_access_def\<close>)
  qed
  then show "keys_unique tk_token_hash (ac_tokens (ps_access w'))"
    "sql_get tk_token_hash h (ac_tokens (ps_access w)) = Some r \<Longrightarrow> tk_used_at_ts r \<noteq> None \<Longrightarrow>
      sql_get tk_token_hash h (ac_tokens (ps_access w')) = Some r" by blast+
qed

lemma issue_tokens:
  assumes "issue_token env policy now fresh ch acct chat ttl scopes token w = (x, w')"
  shows "ac_attempts (ps_access w') = ac_attempts (ps_access w)"
    "ac_tokens (ps_access w') = ac_tokens (ps_access w) \<or>
     (\<exists>row. sql_insert tk_token_hash row (ac_tokens (ps_access w)) = Some (ac_tokens (ps_access w')))"
  using assms
  by (auto simp: issue_token_def issue_pair_token_def Let_def split: prod.splits sum.splits if_splits option.splits)

lemma table_step_frames:
  assumes "table_step policy w w'"
  shows "ac_attempts (ps_access w') = ac_attempts (ps_access w)"
    "ac_tokens (ps_access w') = ac_tokens (ps_access w) \<or>
     (\<exists>row. sql_insert tk_token_hash row (ac_tokens (ps_access w)) = Some (ac_tokens (ps_access w')))"
proof -
  have "ac_attempts (ps_access w') = ac_attempts (ps_access w) \<and> (ac_tokens (ps_access w') = ac_tokens (ps_access w) \<or>
     (\<exists>row. sql_insert tk_token_hash row (ac_tokens (ps_access w)) = Some (ac_tokens (ps_access w'))))"
    using assms
  proof cases
    case step_issue
    with issue_tokens [OF this] show ?thesis by blast
  qed (auto dest!: access_frames(1-4,6) upsert_pairing_tokens simp: same_tokens_def access_frames(5) [unfolded same_tokens_def])
  then show "ac_attempts (ps_access w') = ac_attempts (ps_access w)"
    "ac_tokens (ps_access w') = ac_tokens (ps_access w) \<or>
     (\<exists>row. sql_insert tk_token_hash row (ac_tokens (ps_access w)) = Some (ac_tokens (ps_access w')))" by blast+
qed

lemma step_tokens:
  assumes "pairing_step policy w w'" "keys_unique tk_token_hash (ac_tokens (ps_access w))"
  shows "keys_unique tk_token_hash (ac_tokens (ps_access w')) \<and>
    (sql_get tk_token_hash h (ac_tokens (ps_access w)) = Some r \<and> tk_used_at_ts r \<noteq> None \<longrightarrow>
      sql_get tk_token_hash h (ac_tokens (ps_access w')) = Some r)"
  using assms(1)
proof cases
  case step_attempt
  then show ?thesis using attempt_tokens assms(2) by blast
next
  case step_table
  from table_step_frames(2) [OF this] assms(2) show ?thesis
    by (auto intro: keys_unique_insert simp: sql_insert_Some sql_get_append keys_unique_def)
qed

lemma steps_tokens:
  assumes "(pairing_step policy)\<^sup>*\<^sup>* w w'" "keys_unique tk_token_hash (ac_tokens (ps_access w))"
  shows "keys_unique tk_token_hash (ac_tokens (ps_access w')) \<and>
    (sql_get tk_token_hash h (ac_tokens (ps_access w)) = Some r \<and> tk_used_at_ts r \<noteq> None \<longrightarrow>
      sql_get tk_token_hash h (ac_tokens (ps_access w')) = Some r)"
  using assms by (induction rule: rtranclp_induct) (use step_tokens in blast)+

text \<open>C22: A token of the control plane pairs once, with and without the older store of Telegram beside it:
  when an attempt has paired a chat with a token that the table of tokens has for the channel, no
  later attempt with the same token on the channel pairs anything, whatever the service and its
  administrators do in between, and the token keeps the account and the chat that used it. Token
  hashes are unique, as the primary key has it. A token that only the older store knows is redeemed
  there, and is not covered.\<close>

theorem token_redeemed_once:
  assumes "keys_unique tk_token_hash (ac_tokens (ps_access w))"
    and "sql_get tk_token_hash (attempt_hash env policy a) (ac_tokens (ps_access w)) = Some r0" "tk_channel r0 = str_strip (pg_channel a)"
    and "handle_pairing_attempt env policy clk now (Some a) w = (Paired, w1)"
    and "(pairing_step policy)\<^sup>*\<^sup>* w1 w2"
    and "handle_pairing_attempt env' policy clk' now' (Some b) w2 = (reply, w3)"
    and "attempt_hash env' policy b = attempt_hash env policy a" "str_strip (pg_channel b) = str_strip (pg_channel a)"
  shows "reply \<noteq> Paired \<and>
    (\<exists>r. sql_get tk_token_hash (attempt_hash env policy a) (ac_tokens (ps_access w3)) = Some r \<and>
      tk_consumer_account_id r = Some (pg_account_id a) \<and> tk_consumer_chat_key r = Some (pg_chat_key a))"
proof -
  let ?h = "attempt_hash env policy a"
  obtain r where r: "sql_get tk_token_hash ?h (ac_tokens (ps_access w1)) = Some (redeemed (clk 1) (pg_account_id a) (pg_chat_key a) r)"
    "tk_channel r = str_strip (pg_channel a)"
    using assms(1,4)
  proof (cases rule: attempt_cases)
    case (paired r)
    then show thesis by (intro that [of r]) (auto simp: redeem_update.get_update_at redeemable_def)
  qed (use assms(2,3) in auto)
  define q where "q = redeemed (clk 1) (pg_account_id a) (pg_chat_key a) r"
  have used: "tk_used_at_ts q \<noteq> None" "tk_channel q = str_strip (pg_channel a)" "tk_consumer_account_id q = Some (pg_account_id a)"
    "tk_consumer_chat_key q = Some (pg_chat_key a)" using r(2) by (simp_all add: q_def redeemed_def)
  have u2: "keys_unique tk_token_hash (ac_tokens (ps_access w2))" "sql_get tk_token_hash ?h (ac_tokens (ps_access w2)) = Some q"
    using steps_tokens [OF assms(5) attempt_tokens(1) [OF assms(4,1)]] r(1) used(1) q_def by auto
  have "reply \<noteq> Paired"
    using u2(1) assms(6)
  proof (cases rule: attempt_cases)
    case (paired q')
    then show ?thesis using u2(2) used(1) assms(7) by (auto simp: redeemable_def)
  next
    case legacy
    then show ?thesis using u2(2) used(2) assms(7,8) by auto
  qed
  moreover have "sql_get tk_token_hash ?h (ac_tokens (ps_access w3)) = Some q"
    by (rule attempt_tokens(2) [OF assms(6) u2(1,2) used(1)])
  ultimately show ?thesis using used by blast
qed

theorem token_redeemed_once_witness:
  "fst (demo_try ''alice'' 120 demo_pairing) = Paired \<and> fst (demo_try ''alice'' 130 (snd (demo_try ''alice'' 120 demo_pairing))) \<noteq> Paired"
proof -
  have u: "keys_unique tk_token_hash (ac_tokens (ps_access demo_pairing))" by (simp add: keys_unique_def demo_replies)
  have r: "case sql_get tk_token_hash (attempt_hash demo_env default_pairing_policy (demo_attempt ''alice'')) (ac_tokens (ps_access demo_pairing)) of
    None \<Rightarrow> False | Some r \<Rightarrow> tk_channel r = str_strip (pg_channel (demo_attempt ''alice''))" by code_simp
  then obtain r0 where r0: "sql_get tk_token_hash (attempt_hash demo_env default_pairing_policy (demo_attempt ''alice'')) (ac_tokens (ps_access demo_pairing)) = Some r0"
    "tk_channel r0 = str_strip (pg_channel (demo_attempt ''alice''))" by (auto split: option.splits)
  obtain w1 where w1: "demo_try ''alice'' 120 demo_pairing = (Paired, w1)" using demo_replies(2) by (metis prod.collapse)
  obtain x w3 where w3: "demo_try ''alice'' 130 w1 = (x, w3)" by fastforce
  from token_redeemed_once [OF u r0 w1 [unfolded demo_try_def] rtranclp.rtrancl_refl w3 [unfolded demo_try_def] refl refl]
  show ?thesis using w1 w3 by simp
qed

section \<open>Guesses\<close>

text \<open>An attempt is blind when its reply and all it leaves behind do not depend on the tokens that are
  stored, in the table or in the older store, and the tokens stay as they are. Every other attempt
  looks at the tokens.\<close>

definition with_tokens :: "pair_token list \<Rightarrow> pairing_state \<Rightarrow> pairing_state" where
  "with_tokens ts w = w\<lparr>ps_access := (ps_access w)\<lparr>ac_tokens := ts\<rparr>\<rparr>"

definition blind :: "pairing_env \<Rightarrow> pairing_policy \<Rightarrow> (nat \<Rightarrow> int) \<Rightarrow> int \<Rightarrow> pairing_attempt \<Rightarrow> pairing_state \<Rightarrow> bool" where
  "blind env policy clk now a w =
     (\<exists>reply w'. \<forall>ts legacy. handle_pairing_attempt (env\<lparr>pe_legacy := legacy\<rparr>) policy clk now (Some a) (with_tokens ts w) = (reply, with_tokens ts w'))"

text \<open>The attempts of an execution: who made it, when it was recorded, and whether it looked at the
  tokens. The clock does not run back while an attempt is handled.\<close>

record pairing_event =
  pv_attempt :: pairing_attempt
  pv_time :: int
  pv_looked :: bool

inductive pairing_run :: "pairing_policy \<Rightarrow> pairing_state \<Rightarrow> pairing_event list \<Rightarrow> pairing_state \<Rightarrow> bool" for policy w where
  run_start: "pairing_run policy w [] w"
| run_attempt: "pairing_run policy w es u \<Longrightarrow> handle_pairing_attempt env policy clk now (Some a) u = (reply, v) \<Longrightarrow> clk 0 \<le> clk 2 \<Longrightarrow>
    pairing_run policy w (es @ [\<lparr>pv_attempt = a, pv_time = clk 2, pv_looked = (\<not> blind env policy clk now a u)\<rparr>]) v"
| run_table: "pairing_run policy w es u \<Longrightarrow> table_step policy u v \<Longrightarrow> pairing_run policy w es v"

definition attempt_window :: "pairing_policy \<Rightarrow> int" where
  "attempt_window policy = max 1 (pp_attempt_window_seconds policy)"

text \<open>The rows and the events of one account, or of one chat.\<close>

datatype guesser = Account string string | Chat string string

fun row_of :: "guesser \<Rightarrow> pair_attempt_row \<Rightarrow> bool" where
  "row_of (Account ch acct) r = (pt_channel r = ch \<and> pt_account_id r = acct)"
| "row_of (Chat ch chat) r = (pt_channel r = ch \<and> pt_chat_key r = Some chat)"

fun made_by :: "guesser \<Rightarrow> pairing_event \<Rightarrow> bool" where
  "made_by (Account ch acct) e = (pg_channel (pv_attempt e) = ch \<and> pg_account_id (pv_attempt e) = acct)"
| "made_by (Chat ch chat) e = (pg_channel (pv_attempt e) = ch \<and> pg_chat_key (pv_attempt e) = chat)"

fun guess_limit :: "pairing_policy \<Rightarrow> guesser \<Rightarrow> int" where
  "guess_limit policy (Account ch acct) = pp_max_attempts_per_user policy"
| "guess_limit policy (Chat ch chat) = pp_max_attempts_per_chat policy"

definition rows_since :: "guesser \<Rightarrow> int \<Rightarrow> access_tables \<Rightarrow> nat" where
  "rows_since g t s = length (filter (\<lambda>r. row_of g r \<and> t \<le> pt_attempted_at_ts r) (ac_attempts s))"

definition looks_since :: "guesser \<Rightarrow> int \<Rightarrow> pairing_event list \<Rightarrow> nat" where
  "looks_since g t es = length (filter (\<lambda>e. pv_looked e \<and> made_by g e \<and> t \<le> pv_time e) es)"

lemma length_filter_mono: "(\<And>x. P x \<Longrightarrow> Q x) \<Longrightarrow> length (filter P xs) \<le> length (filter Q xs)"
  by (induction xs) (simp_all add: le_SucI)

lemma not_limited:
  assumes "\<not> is_rate_limited policy t a s" "made_by g \<lparr>pv_attempt = a, pv_time = t', pv_looked = x\<rparr>"
  shows "int (rows_since g (t - attempt_window policy) s) < guess_limit policy g"
  using assms by (cases g) (auto simp: is_rate_limited_def rows_since_def attempt_window_def count_recent_pair_attempts_def
      count_recent_pair_attempts_for_chat_def sql_count_def Let_def conj_assoc)

text \<open>An attempt that the guards stop is blind.\<close>

lemma with_tokens_simps [simp]:
  "ps_lru (with_tokens ts w) = ps_lru w" "(with_tokens ts w)\<lparr>ps_lru := l\<rparr> = with_tokens ts (w\<lparr>ps_lru := l\<rparr>)"
  "record_attempt (env\<lparr>pe_legacy := legacy\<rparr>) policy t a x (with_tokens ts w) = with_tokens ts (record_attempt env policy t a x w)"
  "is_rate_limited policy t a (ps_access (with_tokens ts w)) = is_rate_limited policy t a (ps_access w)"
  by (simp_all add: with_tokens_def record_attempt_def record_pair_attempt_def is_rate_limited_def count_recent_pair_attempts_def
      count_recent_pair_attempts_for_chat_def)

lemma stopped_is_blind:
  assumes "\<not> admitted policy clk a w"
  shows "blind env policy clk now a w"
proof -
  obtain n l where lru: "lru_bump (take 12 (pg_token a)) (ps_lru w) = (n, l)" by fastforce
  define out where "out =
    (if \<not> pp_enabled policy \<or> pp_mode policy = ''off'' then (Not_handled, w)
     else if pg_chat_type a \<noteq> ''private'' \<and> \<not> pp_allow_in_groups policy then (Groups_refused, w)
     else if \<not> token_allowed (pg_token a) then (Rejected ''invalid_format'', record_attempt env policy (clk 2) a ''invalid_format'' w)
     else (Too_many, record_attempt env policy (clk 2) a (if n > 8 then ''lru_limited'' else ''rate_limited'') (w\<lparr>ps_lru := l\<rparr>)))"
  have "handle_pairing_attempt (env\<lparr>pe_legacy := legacy\<rparr>) policy clk now (Some a) (with_tokens ts w) = (fst out, with_tokens ts (snd out))" for legacy ts
    using assms lru unfolding out_def handle_pairing_attempt_def admitted_def by (auto simp: Let_def)
  then show ?thesis unfolding blind_def by blast
qed

lemma admitted_not_limited: "admitted policy clk a w \<Longrightarrow> \<not> is_rate_limited policy (clk 0) a (ps_access w)"
  by (simp add: admitted_def)

text \<open>Every attempt keeps the recorded rows, and one that the guards let through adds its own.\<close>

lemma attempt_rows:
  assumes "handle_pairing_attempt env policy clk now (Some a) w = (reply, w')"
  shows "\<exists>new. ac_attempts (ps_access w') = ac_attempts (ps_access w) @ new \<and>
    (admitted policy clk a w \<longrightarrow> (\<exists>r\<in>set new. (\<forall>g t x. made_by g \<lparr>pv_attempt = a, pv_time = t, pv_looked = x\<rparr> \<longrightarrow> row_of g r) \<and> pt_attempted_at_ts r = clk 2))"
  using assms
proof (cases rule: handle_attempt_cases)
  case (early lru outcome)
  then show ?thesis by (auto simp: record_attempt_def record_pair_attempt_def)
next
  case (checked lru co s' co' v)
  have "ac_attempts s' = ac_attempts (ps_access w)"
    using checked(2) by (auto simp: consume_pair_token_def Let_def split: option.splits if_splits)
  with legacy_or_not_cases(1) [OF checked(3)] have v: "ac_attempts (ps_access v) = ac_attempts (ps_access w)" by simp
  have row: "row_of g r" if "made_by g \<lparr>pv_attempt = a, pv_time = t, pv_looked = x\<rparr>" "pt_channel r = pg_channel a" "pt_account_id r = pg_account_id a"
    "pt_chat_key r = Some (pg_chat_key a)" for g t x r using that by (cases g) auto
  show ?thesis using checked(5) v row
    by (auto simp: Let_def bridge_same_tokens record_attempt_def record_pair_attempt_def)
qed

lemma looks_snoc: "looks_since g t (es @ [e]) = looks_since g t es + (if pv_looked e \<and> made_by g e \<and> t \<le> pv_time e then 1 else 0)"
  by (simp add: looks_since_def)

text \<open>Every look has left its row.\<close>

lemma looks_are_recorded: "pairing_run policy w es u \<Longrightarrow> looks_since g t es \<le> rows_since g t (ps_access u)"
proof (induction rule: pairing_run.induct)
  case (run_attempt es u env clk now a reply v)
  let ?e = "\<lparr>pv_attempt = a, pv_time = clk 2, pv_looked = (\<not> blind env policy clk now a u)\<rparr>"
  from attempt_rows [OF run_attempt.hyps(2)] obtain new where new: "ac_attempts (ps_access v) = ac_attempts (ps_access u) @ new"
    "admitted policy clk a u \<Longrightarrow> \<exists>r\<in>set new. (made_by g ?e \<longrightarrow> row_of g r) \<and> pt_attempted_at_ts r = clk 2" by blast
  have rows: "rows_since g t (ps_access v) = rows_since g t (ps_access u) + length (filter (\<lambda>r. row_of g r \<and> t \<le> pt_attempted_at_ts r) new)"
    by (simp add: rows_since_def new(1))
  show ?case
  proof (cases "pv_looked ?e \<and> made_by g ?e \<and> t \<le> pv_time ?e")
    case True
    then have "admitted policy clk a u" using stopped_is_blind [of policy clk a u env now] by auto
    with new(2) True have "filter (\<lambda>r. row_of g r \<and> t \<le> pt_attempted_at_ts r) new \<noteq> []" by (auto simp: filter_empty_conv)
    then have "1 \<le> length (filter (\<lambda>r. row_of g r \<and> t \<le> pt_attempted_at_ts r) new)" by (simp add: Suc_leI)
    with True run_attempt.IH rows show ?thesis by (simp add: looks_snoc)
  next
    case False
    then have "looks_since g t (es @ [?e]) = looks_since g t es" unfolding looks_snoc by auto
    with run_attempt.IH rows show ?thesis by linarith
  qed
qed (simp_all add: looks_since_def rows_since_def table_step_frames(1))

definition paced :: "pairing_policy \<Rightarrow> guesser \<Rightarrow> pairing_event list \<Rightarrow> bool" where
  "paced policy g es = (\<forall>pre e post. es = pre @ e # post \<and> pv_looked e \<and> made_by g e \<longrightarrow>
     int (looks_since g (pv_time e - attempt_window policy) pre) < guess_limit policy g)"

lemma paced_snoc:
  "paced policy g (es @ [e]) \<longleftrightarrow> paced policy g es \<and>
     (pv_looked e \<and> made_by g e \<longrightarrow> int (looks_since g (pv_time e - attempt_window policy) es) < guess_limit policy g)"
proof -
  have "es @ [e] = pre @ q # post \<longleftrightarrow> post = [] \<and> pre = es \<and> q = e \<or> (\<exists>post'. post = post' @ [e] \<and> es = pre @ q # post')" for pre q post
    by (cases post rule: rev_cases) auto
  then show ?thesis by (auto simp: paced_def)
qed

lemma runs_paced: "pairing_run policy w es u \<Longrightarrow> paced policy g es"
proof (induction rule: pairing_run.induct)
  case (run_attempt es u env clk now a reply v)
  have "int (looks_since g (clk 2 - attempt_window policy) es) < guess_limit policy g"
    if "\<not> blind env policy clk now a u" "made_by g \<lparr>pv_attempt = a, pv_time = clk 2, pv_looked = (\<not> blind env policy clk now a u)\<rparr>"
  proof -
    have "admitted policy clk a u" using that(1) stopped_is_blind by blast
    then have "int (rows_since g (clk 0 - attempt_window policy) (ps_access u)) < guess_limit policy g"
      using admitted_not_limited not_limited that(2) by blast
    moreover have "looks_since g (clk 2 - attempt_window policy) es \<le> looks_since g (clk 0 - attempt_window policy) es"
      unfolding looks_since_def by (rule length_filter_mono) (use run_attempt.hyps(3) in auto)
    moreover note looks_are_recorded [OF run_attempt.hyps(1), of g "clk 0 - attempt_window policy"]
    ultimately show ?thesis by linarith
  qed
  then show ?case using run_attempt.IH unfolding paced_snoc pairing_event.select_convs by blast
qed (auto simp: paced_def)

lemma window_bound:
  fixes w T m :: int
  assumes "\<forall>pre r post. xs = pre @ r # post \<and> P r \<and> Q r \<longrightarrow> int (length (filter (\<lambda>q. P q \<and> Q q \<and> at r - w \<le> at q) pre)) < m"
  shows "int (length (filter (\<lambda>r. P r \<and> Q r \<and> T \<le> at r \<and> at r \<le> T + w) xs)) \<le> max 0 m"
  using assms
proof (induction xs rule: rev_induct)
  case (snoc r xs)
  let ?F = "\<lambda>r. P r \<and> Q r \<and> T \<le> at r \<and> at r \<le> T + w"
  have IH: "int (length (filter ?F xs)) \<le> max 0 m"
    by (rule snoc.IH) (use snoc.prems in \<open>metis append.assoc append_Cons\<close>)
  show ?case
  proof (cases "?F r")
    case True
    then have "int (length (filter (\<lambda>q. P q \<and> Q q \<and> at r - w \<le> at q) xs)) < m" using snoc.prems by auto
    moreover have "length (filter ?F xs) \<le> length (filter (\<lambda>q. P q \<and> Q q \<and> at r - w \<le> at q) xs)"
      by (rule length_filter_mono) (use True in auto)
    ultimately show ?thesis using True by simp
  qed (use IH in auto)
qed simp

text \<open>C23: Tokens cannot be guessed quickly. In every execution, in which attempts are handled one after
  another, the clock does not run back while one is handled, and tokens, bindings and rate limits are
  written in between, and in every window of the
  configured length, at most the configured number of attempts of one account, and at most the
  configured number of one chat, look at the tokens; the reply to every other attempt, and all it
  leaves behind, is independent of the tokens that are stored, which it leaves alone.\<close>

theorem brute_force_bounded:
  assumes "pairing_run policy w es w'"
  shows "int (length (filter (\<lambda>e. pv_looked e \<and> made_by g e \<and> T \<le> pv_time e \<and> pv_time e \<le> T + attempt_window policy) es))
    \<le> max 0 (guess_limit policy g)"
  by (rule window_bound) (use runs_paced [OF assms, of g] in \<open>auto simp: paced_def looks_since_def\<close>)

fun demo_guesses :: "int \<Rightarrow> nat \<Rightarrow> pairing_state" where
  "demo_guesses t 0 = demo_pairing"
| "demo_guesses t (Suc n) = snd (demo_try ''mallory'' (t + int n) (demo_guesses t n))"

lemma demo_guesses_run: "\<exists>es. pairing_run default_pairing_policy demo_pairing es (demo_guesses t n) \<and> length es = n"
proof (induction n)
  case (Suc n)
  then obtain es where es: "pairing_run default_pairing_policy demo_pairing es (demo_guesses t n)" "length es = n" by blast
  show ?case
    using run_attempt [OF es(1), of demo_env "\<lambda>_. t + int n" "(t + int n) * 1000000" "demo_attempt ''mallory''"
        "fst (demo_try ''mallory'' (t + int n) (demo_guesses t n))" "demo_guesses t (Suc n)"] es(2)
    by (auto simp: demo_try_def intro!: exI)
qed (auto intro: run_start)

theorem brute_force_bounded_witness:
  "map pt_outcome (ac_attempts (ps_access (demo_guesses 200 7))) = replicate 6 ''user_mismatch'' @ [''rate_limited''] \<and>
   (\<exists>es. pairing_run default_pairing_policy demo_pairing es (demo_guesses 200 7) \<and> length es = 7 \<and>
     int (length (filter (\<lambda>e. pv_looked e \<and> made_by (Account ''telegram'' ''mallory'') e \<and> 200 \<le> pv_time e \<and> pv_time e \<le> 260) es)) \<le> 6)"
proof -
  have "map pt_outcome (ac_attempts (ps_access (demo_guesses 200 7))) = replicate 6 ''user_mismatch'' @ [''rate_limited'']" by code_simp
  moreover obtain es where es: "pairing_run default_pairing_policy demo_pairing es (demo_guesses 200 7)" "length es = 7"
    using demo_guesses_run by blast
  moreover note brute_force_bounded [OF es(1), of "Account ''telegram'' ''mallory''" 200]
  ultimately show ?thesis by (auto simp: attempt_window_def default_pairing_policy_def)
qed

end
