(* ===== verification/Goal_Store.thy ===== *)
theory Goal_Store
  imports SQL_Table
begin

text \<open>
  Goals of the agent: their schema with its validation (\<open>modules/brain/schemas/goals.py\<close>) and the
  repository that keeps them (\<open>modules/brain/storage/goals/repository.py\<close>). A row holds the goal as
  JSON text, here the goal itself; it is validated whenever it is read, not when it is written.
  Timestamps are instants; \<open>clk i\<close> is the \<open>i\<close>-th reading of the clock within a call. Amounts of
  money are only compared, so they are integers here.
\<close>

section \<open>Schema\<close>

datatype mission_status = Ms_active | Ms_paused | Ms_awaiting_async | Ms_completed | Ms_cancelled | Ms_halted

fun status_text :: "mission_status \<Rightarrow> string" where
  "status_text Ms_active = ''active''"
| "status_text Ms_paused = ''paused''"
| "status_text Ms_awaiting_async = ''awaiting_async''"
| "status_text Ms_completed = ''completed''"
| "status_text Ms_cancelled = ''cancelled''"
| "status_text Ms_halted = ''halted''"

datatype verifier_family = Vf_structural | Vf_freshness | Vf_artifact_presence | Vf_success_criteria_match

datatype failure_kind = Fk_deliverable_missing | Fk_success_criterion_unmet | Fk_budget_exhausted | Fk_blocker_unresolved
  | Fk_capability_boundary | Fk_operator_cancelled

datatype blocker_kind = Bk_human_approval | Bk_external_signal | Bk_wait_for_artifact

record success_criterion =
  sc_criterion_id :: string
  sc_description :: string
  sc_structural_check :: string

record deliverable =
  dv_deliverable_id :: string
  dv_description :: string
  dv_verification_hint :: verifier_family

record failure_condition =
  fc_condition_id :: string
  fc_kind :: failure_kind
  fc_description :: string

record external_blocker =
  eb_blocker_id :: string
  eb_kind :: blocker_kind
  eb_descriptor :: string
  eb_created_at :: string

record milestone =
  mi_milestone_id :: string
  mi_description :: string
  mi_structural_check :: string

record goal =
  g_goal_id :: string
  g_description :: string
  g_success_criteria :: "success_criterion list"
  g_deliverables :: "deliverable list"
  g_failure_conditions :: "failure_condition list"
  g_status :: mission_status
  g_apd_plan_id :: "string option"
  g_parent_goal_id :: "string option"
  g_wall_clock_budget_seconds :: "int option"
  g_milestone_checkpoints :: "milestone list"
  g_cost_budget_tokens :: "int option"
  g_cost_budget_dollars :: "int option"
  g_external_blockers :: "external_blocker list"
  g_owner_agent_id :: "string option"

text \<open>The validation error of the schema is a \<open>ValueError\<close> too; its text is left out.\<close>

datatype goal_error = Goal_ValidationError | Goal_ValueError string | Goal_KeyError string | Goal_IntegrityError | Goal_RuntimeError string

definition strip_criterion :: "success_criterion \<Rightarrow> success_criterion" where
  "strip_criterion c = \<lparr>sc_criterion_id = str_strip (sc_criterion_id c), sc_description = str_strip (sc_description c),
     sc_structural_check = str_strip (sc_structural_check c)\<rparr>"

definition strip_deliverable :: "deliverable \<Rightarrow> deliverable" where
  "strip_deliverable d = d\<lparr>dv_deliverable_id := str_strip (dv_deliverable_id d), dv_description := str_strip (dv_description d)\<rparr>"

definition strip_condition :: "failure_condition \<Rightarrow> failure_condition" where
  "strip_condition c = c\<lparr>fc_condition_id := str_strip (fc_condition_id c), fc_description := str_strip (fc_description c)\<rparr>"

definition strip_blocker :: "external_blocker \<Rightarrow> external_blocker" where
  "strip_blocker b = b\<lparr>eb_blocker_id := str_strip (eb_blocker_id b), eb_descriptor := str_strip (eb_descriptor b),
     eb_created_at := str_strip (eb_created_at b)\<rparr>"

definition strip_milestone :: "milestone \<Rightarrow> milestone" where
  "strip_milestone m = \<lparr>mi_milestone_id = str_strip (mi_milestone_id m), mi_description = str_strip (mi_description m),
     mi_structural_check = str_strip (mi_structural_check m)\<rparr>"

definition criterion_ok :: "success_criterion \<Rightarrow> bool" where
  "criterion_ok c = (sc_criterion_id c \<noteq> [] \<and> sc_description c \<noteq> [] \<and> sc_structural_check c \<noteq> [])"

definition deliverable_ok :: "deliverable \<Rightarrow> bool" where
  "deliverable_ok d = (dv_deliverable_id d \<noteq> [] \<and> dv_description d \<noteq> [])"

definition condition_ok :: "failure_condition \<Rightarrow> bool" where
  "condition_ok c = (fc_condition_id c \<noteq> [] \<and> fc_description c \<noteq> [])"

definition blocker_ok :: "external_blocker \<Rightarrow> bool" where
  "blocker_ok b = (eb_blocker_id b \<noteq> [] \<and> eb_descriptor b \<noteq> [] \<and> eb_created_at b \<noteq> [])"

definition milestone_ok :: "milestone \<Rightarrow> bool" where
  "milestone_ok m = (mi_milestone_id m \<noteq> [] \<and> mi_description m \<noteq> [] \<and> mi_structural_check m \<noteq> [])"

definition require_unique_ids :: "('a \<Rightarrow> string) \<Rightarrow> 'a list \<Rightarrow> bool" where
  "require_unique_ids key items = (length items = card (key ` set items))"

definition at_least :: "int \<Rightarrow> int option \<Rightarrow> bool" where
  "at_least k x = (case x of None \<Rightarrow> True | Some n \<Rightarrow> k \<le> n)"

definition goal_strip :: "goal \<Rightarrow> goal" where
  "goal_strip g = g\<lparr>g_goal_id := str_strip (g_goal_id g), g_description := str_strip (g_description g),
     g_success_criteria := map strip_criterion (g_success_criteria g), g_deliverables := map strip_deliverable (g_deliverables g),
     g_failure_conditions := map strip_condition (g_failure_conditions g),
     g_milestone_checkpoints := map strip_milestone (g_milestone_checkpoints g),
     g_external_blockers := map strip_blocker (g_external_blockers g),
     g_apd_plan_id := strip_or_none (opt_or (g_apd_plan_id g) []), g_parent_goal_id := strip_or_none (opt_or (g_parent_goal_id g) []),
     g_owner_agent_id := strip_or_none (opt_or (g_owner_agent_id g) [])\<rparr>"

definition ids_unique :: "goal \<Rightarrow> bool" where
  "ids_unique g =
     (require_unique_ids sc_criterion_id (g_success_criteria g) \<and> require_unique_ids dv_deliverable_id (g_deliverables g) \<and>
      require_unique_ids fc_condition_id (g_failure_conditions g) \<and> require_unique_ids mi_milestone_id (g_milestone_checkpoints g) \<and>
      require_unique_ids eb_blocker_id (g_external_blockers g))"

definition goal_ok :: "goal \<Rightarrow> bool" where
  "goal_ok g =
     (g_goal_id g \<noteq> [] \<and> g_description g \<noteq> [] \<and> g_success_criteria g \<noteq> [] \<and> g_deliverables g \<noteq> [] \<and>
      list_all criterion_ok (g_success_criteria g) \<and> list_all deliverable_ok (g_deliverables g) \<and>
      list_all condition_ok (g_failure_conditions g) \<and> list_all milestone_ok (g_milestone_checkpoints g) \<and>
      list_all blocker_ok (g_external_blockers g) \<and> at_least 1 (g_wall_clock_budget_seconds g) \<and> at_least 1 (g_cost_budget_tokens g) \<and>
      at_least 1 (g_cost_budget_dollars g) \<and> ids_unique g)"

definition goal_model_validate :: "goal \<Rightarrow> goal_error + goal" where
  "goal_model_validate g = (let g = goal_strip g in if goal_ok g then Inr g else Inl Goal_ValidationError)"

section \<open>Transitions and budgets\<close>

fun allowed_goal_status_transitions :: "mission_status \<Rightarrow> mission_status list" where
  "allowed_goal_status_transitions Ms_active = [Ms_active, Ms_paused, Ms_awaiting_async, Ms_completed, Ms_cancelled, Ms_halted]"
| "allowed_goal_status_transitions Ms_paused = [Ms_paused, Ms_active, Ms_cancelled, Ms_halted]"
| "allowed_goal_status_transitions Ms_awaiting_async = [Ms_awaiting_async, Ms_active, Ms_paused, Ms_completed, Ms_cancelled, Ms_halted]"
| "allowed_goal_status_transitions Ms_completed = [Ms_completed]"
| "allowed_goal_status_transitions Ms_cancelled = [Ms_cancelled]"
| "allowed_goal_status_transitions Ms_halted = [Ms_halted]"

definition validate_goal_status_transition :: "mission_status \<Rightarrow> mission_status \<Rightarrow> goal_error + mission_status" where
  "validate_goal_status_transition prior new =
     (if new \<notin> set (allowed_goal_status_transitions prior)
      then Inl (Goal_ValueError (''Illegal Goal.status transition: '' @ repr_str (status_text prior) @ '' -> '' @ repr_str (status_text new)))
      else Inr new)"

definition build_operator_cancelled_failure_condition :: "string \<Rightarrow> string \<Rightarrow> failure_condition" where
  "build_operator_cancelled_failure_condition goal_id reason =
     \<lparr>fc_condition_id = str_strip ((let g = str_strip goal_id in if g = [] then ''goal'' else g) @ ''-operator-cancelled''),
      fc_kind = Fk_operator_cancelled,
      fc_description = (let r = str_strip reason in if r = [] then ''operator_cancelled'' else r)\<rparr>"

definition evaluate_goal_wall_clock_budget :: "goal \<Rightarrow> int \<Rightarrow> failure_condition option" where
  "evaluate_goal_wall_clock_budget g elapsed_seconds =
     (case g_wall_clock_budget_seconds g of
        None \<Rightarrow> None
      | Some budget \<Rightarrow> if elapsed_seconds \<le> budget then None
          else Some (strip_condition \<lparr>fc_condition_id = g_goal_id g @ ''-wall-clock-budget'', fc_kind = Fk_budget_exhausted,
                 fc_description = ''wall_clock_budget''\<rparr>))"

definition evaluate_goal_cost_budget :: "goal \<Rightarrow> int \<Rightarrow> int \<Rightarrow> failure_condition option" where
  "evaluate_goal_cost_budget g consumed_tokens consumed_dollars =
     (let exhausted = (\<lambda>suffix. Some (strip_condition \<lparr>fc_condition_id = g_goal_id g @ suffix, fc_kind = Fk_budget_exhausted,
                 fc_description = ''cost_budget''\<rparr>));
          over = (\<lambda>budget consumed. case budget of None \<Rightarrow> False | Some b \<Rightarrow> consumed > b)
      in if over (g_cost_budget_tokens g) consumed_tokens then exhausted ''-cost-budget-tokens''
         else if over (g_cost_budget_dollars g) consumed_dollars then exhausted ''-cost-budget-dollars''
         else None)"

definition goal_has_unresolved_external_blockers :: "goal \<Rightarrow> bool" where
  "goal_has_unresolved_external_blockers g = (g_external_blockers g \<noteq> [])"

section \<open>Tables\<close>

record goal_row =
  gr_goal_id :: string
  gr_status :: mission_status
  gr_description :: string
  gr_parent_goal_id :: "string option"
  gr_apd_plan_id :: "string option"
  gr_goal_json :: goal
  gr_created_at :: int
  gr_updated_at :: int
  gr_latest_reason :: string

record goal_binding =
  gb_session_id :: string
  gb_goal_id :: string
  gb_active :: bool
  gb_created_at :: int
  gb_updated_at :: int
  gb_last_seen_at :: int

record goal_audit =
  ga_entity_id :: string
  ga_timestamp :: int
  ga_prior_status :: "mission_status option"
  ga_new_status :: "mission_status option"
  ga_reason :: string
  ga_actor :: string
  ga_action_authorization :: pydict

record goal_tables =
  gt_goals :: "goal_row list"
  gt_bindings :: "goal_binding list"
  gt_audit :: "goal_audit list"

definition empty_goal_tables :: goal_tables where
  "empty_goal_tables = \<lparr>gt_goals = [], gt_bindings = [], gt_audit = []\<rparr>"

definition gb_key :: "goal_binding \<Rightarrow> string \<times> string" where
  "gb_key b = (gb_session_id b, gb_goal_id b)"

definition open_statuses :: "mission_status list" where
  "open_statuses = [Ms_active, Ms_paused, Ms_awaiting_async]"

section \<open>Repository\<close>

definition strip_required :: "string \<Rightarrow> string \<Rightarrow> goal_error + string" where
  "strip_required value label = (let t = str_strip value in if t = [] then Inl (Goal_ValueError (label @ '' is required'')) else Inr t)"

definition goal_create :: "int \<Rightarrow> goal \<Rightarrow> goal_tables \<Rightarrow> (goal_error + goal) \<times> goal_tables" where
  "goal_create now g s =
     (case sql_insert gr_goal_id
             \<lparr>gr_goal_id = g_goal_id g, gr_status = g_status g, gr_description = g_description g, gr_parent_goal_id = g_parent_goal_id g,
              gr_apd_plan_id = g_apd_plan_id g, gr_goal_json = g, gr_created_at = now, gr_updated_at = now, gr_latest_reason = []\<rparr>
             (gt_goals s) of
        None \<Rightarrow> (Inl Goal_IntegrityError, s)
      | Some rows \<Rightarrow> (Inr g, s\<lparr>gt_goals := rows\<rparr>))"

definition persisted_row :: "int \<Rightarrow> goal \<Rightarrow> string \<Rightarrow> goal_row \<Rightarrow> goal_row" where
  "persisted_row now g latest_reason r =
     r\<lparr>gr_status := g_status g, gr_description := g_description g, gr_parent_goal_id := g_parent_goal_id g,
       gr_apd_plan_id := g_apd_plan_id g, gr_goal_json := g, gr_updated_at := now, gr_latest_reason := str_strip latest_reason\<rparr>"

definition persist_goal :: "int \<Rightarrow> goal \<Rightarrow> string \<Rightarrow> goal_tables \<Rightarrow> (goal_error + goal) \<times> goal_tables" where
  "persist_goal now g latest_reason s =
     (Inr g, s\<lparr>gt_goals := sql_update (\<lambda>r. gr_goal_id r = g_goal_id g) (persisted_row now g latest_reason) (gt_goals s)\<rparr>)"

definition goal_get :: "string \<Rightarrow> goal_tables \<Rightarrow> goal_error + goal option" where
  "goal_get goal_id s =
     (case sql_get gr_goal_id goal_id (gt_goals s) of
        None \<Rightarrow> Inr None
      | Some r \<Rightarrow> rbind (goal_model_validate (gr_goal_json r)) (\<lambda>g. Inr (Some g)))"

definition require_goal :: "string \<Rightarrow> goal_tables \<Rightarrow> (goal_error + goal) \<times> goal_tables" where
  "require_goal goal_id s =
     (rbind (goal_get goal_id s) (\<lambda>x. case x of None \<Rightarrow> Inl (Goal_KeyError (''Unknown goal_id: '' @ repr_str goal_id)) | Some g \<Rightarrow> Inr g), s)"

fun validate_goals :: "goal_row list \<Rightarrow> goal_error + goal list" where
  "validate_goals [] = Inr []"
| "validate_goals (r # rs) = rbind (goal_model_validate (gr_goal_json r)) (\<lambda>g. rbind (validate_goals rs) (\<lambda>gs. Inr (g # gs)))"

definition list_active_goals :: "goal_tables \<Rightarrow> goal_error + goal list" where
  "list_active_goals s = validate_goals (sql_order_desc gr_updated_at (filter (\<lambda>r. gr_status r \<in> set open_statuses) (gt_goals s)))"

definition upsert_binding :: "goal_binding \<Rightarrow> goal_binding list \<Rightarrow> goal_binding list" where
  "upsert_binding b bs =
     (if sql_get gb_key (gb_key b) bs = None then bs @ [b]
      else sql_update (\<lambda>r. gb_key r = gb_key b)
        (\<lambda>r. r\<lparr>gb_active := gb_active b, gb_updated_at := gb_updated_at b, gb_last_seen_at := gb_last_seen_at b\<rparr>) bs)"

definition bind_to_session :: "int \<Rightarrow> string \<Rightarrow> string \<Rightarrow> bool \<Rightarrow> goal_tables \<Rightarrow> (goal_error + goal) \<times> goal_tables" where
  "bind_to_session now goal_id session_id active =
     st_bind (\<lambda>s. (strip_required goal_id ''goal_id'', s)) (\<lambda>gid.
     st_bind (\<lambda>s. (strip_required session_id ''session_id'', s)) (\<lambda>sid.
     st_bind (require_goal gid) (\<lambda>g s.
       let bs = (if active then sql_update (\<lambda>b. gb_session_id b = sid \<and> gb_active b)
                   (\<lambda>b. b\<lparr>gb_active := False, gb_updated_at := now, gb_last_seen_at := now\<rparr>) (gt_bindings s)
                 else gt_bindings s);
           bs = upsert_binding \<lparr>gb_session_id = sid, gb_goal_id = gid, gb_active = active, gb_created_at = now, gb_updated_at = now,
                  gb_last_seen_at = now\<rparr> bs
       in (Inr g, s\<lparr>gt_bindings := bs\<rparr>))))"

text \<open>Bindings and goals are joined; the binding that was updated last comes first, then the goal.\<close>

definition list_active_for_session :: "string \<Rightarrow> goal_tables \<Rightarrow> goal_error + goal list" where
  "list_active_for_session session_id s =
     (let sid = str_strip session_id in
      if sid = [] then Inr []
      else let pairs = concat (map (\<lambda>b. map (\<lambda>r. (b, r)) (filter (\<lambda>r. gr_goal_id r = gb_goal_id b \<and> gr_status r \<in> set open_statuses) (gt_goals s)))
                 (filter (\<lambda>b. gb_session_id b = sid \<and> gb_active b) (gt_bindings s)))
           in validate_goals (map snd (sql_order_desc (\<lambda>(b, r). gb_updated_at b) (sql_order_desc (\<lambda>(b, r). gr_updated_at r) pairs))))"

definition is_bound_to_session :: "string \<Rightarrow> string \<Rightarrow> goal_tables \<Rightarrow> bool" where
  "is_bound_to_session goal_id session_id s =
     (let gid = str_strip goal_id; sid = str_strip session_id
      in gid \<noteq> [] \<and> sid \<noteq> [] \<and> sql_count (\<lambda>b. gb_session_id b = sid \<and> gb_goal_id b = gid \<and> gb_active b) (gt_bindings s) > 0)"

definition list_by_parent :: "string \<Rightarrow> goal_tables \<Rightarrow> goal_error + goal list" where
  "list_by_parent parent_goal_id s =
     validate_goals (sql_order_desc gr_updated_at (filter (\<lambda>r. gr_parent_goal_id r = Some (str_strip parent_goal_id)) (gt_goals s)))"

definition list_by_plan_id :: "string \<Rightarrow> goal_tables \<Rightarrow> goal_error + goal list" where
  "list_by_plan_id plan_id s =
     validate_goals (sql_order_desc gr_updated_at (filter (\<lambda>r. gr_apd_plan_id r = Some (str_strip plan_id)) (gt_goals s)))"

definition record_goal_audit ::
  "int \<Rightarrow> string \<Rightarrow> mission_status option \<Rightarrow> mission_status option \<Rightarrow> string \<Rightarrow> string \<Rightarrow> pydict \<Rightarrow> goal_tables \<Rightarrow> goal_tables" where
  "record_goal_audit now goal_id prior new reason actor authorization s =
     s\<lparr>gt_audit := gt_audit s @ [\<lparr>ga_entity_id = goal_id, ga_timestamp = now, ga_prior_status = prior, ga_new_status = new,
        ga_reason = str_strip reason, ga_actor = (let a = str_strip actor in if a = [] then ''system'' else a),
        ga_action_authorization = authorization\<rparr>]\<rparr>"

definition transition_status :: "(nat \<Rightarrow> int) \<Rightarrow> string \<Rightarrow> mission_status \<Rightarrow> string \<Rightarrow> goal_tables \<Rightarrow> (goal_error + goal) \<times> goal_tables" where
  "transition_status clk goal_id new reason =
     st_bind (require_goal goal_id) (\<lambda>g.
     st_bind (\<lambda>s. (validate_goal_status_transition (g_status g) new, s)) (\<lambda>st.
     st_bind (persist_goal (clk 0) (g\<lparr>g_status := st\<rparr>) reason) (\<lambda>g' s.
       (Inr g', record_goal_audit (clk 1) (g_goal_id g) (Some (g_status g)) (Some st) reason ''system'' [] s))))"

definition goal_replace :: "(nat \<Rightarrow> int) \<Rightarrow> goal \<Rightarrow> string \<Rightarrow> goal_tables \<Rightarrow> (goal_error + goal) \<times> goal_tables" where
  "goal_replace clk g reason =
     st_bind (require_goal (g_goal_id g)) (\<lambda>current.
     st_bind (persist_goal (clk 0) g reason) (\<lambda>g' s.
       (Inr g', if g_status current \<noteq> g_status g
                then record_goal_audit (clk 1) (g_goal_id g) (Some (g_status current)) (Some (g_status g)) reason ''system'' [] s else s)))"

definition set_apd_plan_id :: "int \<Rightarrow> string \<Rightarrow> string \<Rightarrow> goal_tables \<Rightarrow> (goal_error + goal) \<times> goal_tables" where
  "set_apd_plan_id now goal_id plan_id =
     st_bind (require_goal goal_id) (\<lambda>g. persist_goal now (g\<lparr>g_apd_plan_id := strip_or_none plan_id\<rparr>) [])"

definition set_owner :: "int \<Rightarrow> string \<Rightarrow> string option \<Rightarrow> goal_tables \<Rightarrow> (goal_error + goal) \<times> goal_tables" where
  "set_owner now goal_id owner =
     st_bind (require_goal goal_id) (\<lambda>g. persist_goal now (g\<lparr>g_owner_agent_id := strip_or_none (opt_or owner [])\<rparr>) [])"

definition goal_pause :: "(nat \<Rightarrow> int) \<Rightarrow> string \<Rightarrow> string \<Rightarrow> goal_tables \<Rightarrow> (goal_error + goal) \<times> goal_tables" where
  "goal_pause clk goal_id reason = transition_status clk goal_id Ms_paused reason"

definition goal_resume :: "(nat \<Rightarrow> int) \<Rightarrow> string \<Rightarrow> string \<Rightarrow> goal_tables \<Rightarrow> (goal_error + goal) \<times> goal_tables" where
  "goal_resume clk goal_id reason = transition_status clk goal_id Ms_active reason"

definition goal_abort :: "(nat \<Rightarrow> int) \<Rightarrow> string \<Rightarrow> string \<Rightarrow> goal_tables \<Rightarrow> (goal_error + goal) \<times> goal_tables" where
  "goal_abort clk goal_id reason =
     st_bind (require_goal goal_id) (\<lambda>g.
     st_bind (\<lambda>s. (validate_goal_status_transition (g_status g) Ms_cancelled, s)) (\<lambda>st.
     st_bind (persist_goal (clk 0) (g\<lparr>g_status := st, g_failure_conditions := g_failure_conditions g @
         [build_operator_cancelled_failure_condition (g_goal_id g) reason]\<rparr>) reason) (\<lambda>g' s.
       (Inr g', record_goal_audit (clk 1) (g_goal_id g) (Some (g_status g)) (Some Ms_cancelled)
          (if reason = [] then ''operator_cancelled'' else reason) ''system'' [] s))))"

definition add_external_blocker :: "int \<Rightarrow> string \<Rightarrow> external_blocker \<Rightarrow> goal_tables \<Rightarrow> (goal_error + goal) \<times> goal_tables" where
  "add_external_blocker now goal_id b =
     st_bind (require_goal goal_id) (\<lambda>g.
       persist_goal now (g\<lparr>g_external_blockers := g_external_blockers g @ [b]\<rparr>) (''blocker:'' @ eb_blocker_id b))"

definition clear_external_blocker :: "int \<Rightarrow> string \<Rightarrow> string \<Rightarrow> goal_tables \<Rightarrow> (goal_error + goal) \<times> goal_tables" where
  "clear_external_blocker now goal_id blocker_id =
     st_bind (require_goal goal_id) (\<lambda>g.
       let normalized = str_strip blocker_id
       in persist_goal now (g\<lparr>g_external_blockers := filter (\<lambda>b. eb_blocker_id b \<noteq> normalized) (g_external_blockers g)\<rparr>)
            (''blocker_cleared:'' @ normalized))"

record drift_signal =
  ds_signal_id :: string
  ds_goal_id :: string
  ds_kind :: string
  ds_description :: string
  ds_evidence :: pydict

definition record_drift_signal_audit :: "int \<Rightarrow> drift_signal \<Rightarrow> goal_tables \<Rightarrow> goal_tables" where
  "record_drift_signal_audit now d =
     record_goal_audit now (ds_goal_id d) None None (''mrdd_drift:'' @ ds_kind d @ '':'' @ ds_description d) ''mrdd_drift_detector''
       [(''signal_id'', PStr (ds_signal_id d)), (''kind'', PStr (ds_kind d)), (''evidence'', PDict (ds_evidence d))]"

text \<open>\<open>LifecycleAuditRecord\<close>: a blank text is replaced by nothing before it is validated, and identifier,
  reason and actor have to be texts.\<close>

definition lifecycle_audit_record :: "goal_audit \<Rightarrow> goal_error + goal_audit" where
  "lifecycle_audit_record a =
     (if str_strip (ga_entity_id a) = [] \<or> str_strip (ga_reason a) = [] \<or> str_strip (ga_actor a) = [] then Inl Goal_ValidationError
      else Inr (a\<lparr>ga_entity_id := str_strip (ga_entity_id a), ga_reason := str_strip (ga_reason a), ga_actor := str_strip (ga_actor a)\<rparr>))"

fun validate_audits :: "goal_audit list \<Rightarrow> goal_error + goal_audit list" where
  "validate_audits [] = Inr []"
| "validate_audits (a # as) = rbind (lifecycle_audit_record a) (\<lambda>x. rbind (validate_audits as) (\<lambda>xs. Inr (x # xs)))"

definition list_goal_audit_trail :: "string \<Rightarrow> goal_tables \<Rightarrow> goal_error + goal_audit list" where
  "list_goal_audit_trail goal_id s = validate_audits (sort_key ga_timestamp (filter (\<lambda>a. ga_entity_id a = goal_id) (gt_audit s)))"

definition transfer_owner :: "(nat \<Rightarrow> int) \<Rightarrow> string \<Rightarrow> string \<Rightarrow> string \<Rightarrow> string \<Rightarrow> goal_tables \<Rightarrow> (goal_error + goal) \<times> goal_tables" where
  "transfer_owner clk goal_id from_agent to_agent reason =
     st_bind (set_owner (clk 0) goal_id (Some to_agent)) (\<lambda>g s.
       (Inr g, record_goal_audit (clk 1) goal_id (Some (g_status g)) (Some (g_status g)) reason to_agent
          [(''transfer_owner'', PBool True), (''from_agent'', PStr (str_strip from_agent)), (''to_agent'', PStr (str_strip to_agent))] s))"

end
