(* ===== verification/Goal_Runtime.thy ===== *)
theory Goal_Runtime
  imports Goal_Store
begin

text \<open>
  What the runtime does with stored goals: the effects of plans, budgets, children and operational
  stops on the status of a goal (\<open>modules/brain/runtime/goal/long_running.py\<close>), the authorization of
  actions (\<open>policy.py\<close>) and the hierarchy of goals (\<open>hierarchy.py\<close>).
\<close>

section \<open>Status of long-running goals\<close>

definition find_goal :: "string \<Rightarrow> goal_tables \<Rightarrow> (goal_error + goal option) \<times> goal_tables" where
  "find_goal goal_id s = (goal_get goal_id s, s)"

text \<open>The goal part of \<open>advance_from_cron\<close>.\<close>

definition advance_from_cron :: "(nat \<Rightarrow> int) \<Rightarrow> string option \<Rightarrow> goal_tables \<Rightarrow> (goal_error + unit) \<times> goal_tables" where
  "advance_from_cron clk goal_id s =
     (if \<not> opt_truthy goal_id then (Inr (), s)
      else st_bind (find_goal (opt_or goal_id [])) (\<lambda>x s.
        case x of
          None \<Rightarrow> (Inr (), s)
        | Some g \<Rightarrow>
            if \<not> goal_has_unresolved_external_blockers g \<and> g_status g \<in> {Ms_paused, Ms_awaiting_async}
            then st_bind (goal_resume clk (g_goal_id g) ''cron_advance'') (\<lambda>_ s. (Inr (), s)) s
            else (Inr (), s)) s)"

definition resolve_goal_for_plan :: "string \<Rightarrow> string option \<Rightarrow> goal_tables \<Rightarrow> (goal_error + goal option) \<times> goal_tables" where
  "resolve_goal_for_plan plan_id root_goal_id s =
     (let gid = str_strip (opt_or root_goal_id []) in
      st_bind (\<lambda>s. if gid = [] then (Inr None, s) else find_goal gid s) (\<lambda>x s.
        case x of
          Some g \<Rightarrow> (Inr (Some g), s)
        | None \<Rightarrow> (rbind (list_by_plan_id plan_id s) (\<lambda>gs. Inr (case gs of [g] \<Rightarrow> Some g | _ \<Rightarrow> None)), s)) s)"

definition apply_task_plan_signal ::
  "(nat \<Rightarrow> int) \<Rightarrow> string \<Rightarrow> string option \<Rightarrow> string \<Rightarrow> string \<Rightarrow> goal_tables \<Rightarrow> (goal_error + goal option) \<times> goal_tables" where
  "apply_task_plan_signal clk plan_id root_goal_id terminal_status reason =
     st_bind (resolve_goal_for_plan plan_id root_goal_id) (\<lambda>x s.
       case x of
         None \<Rightarrow> (Inr None, s)
       | Some g \<Rightarrow>
           st_bind (\<lambda>s. if g_apd_plan_id g \<noteq> Some plan_id then set_apd_plan_id (clk 0) (g_goal_id g) plan_id s else (Inr g, s)) (\<lambda>g s.
             if terminal_status = ''completed''
             then st_bind (transition_status (\<lambda>i. clk (1 + i)) (g_goal_id g) Ms_completed reason) (\<lambda>g s. (Inr (Some g), s)) s
             else if terminal_status \<in> {''blocked'', ''failed''}
             then st_bind (transition_status (\<lambda>i. clk (1 + i)) (g_goal_id g) Ms_halted reason) (\<lambda>g s. (Inr (Some g), s)) s
             else (Inr (Some g), s)) s)"

definition project_goal_status_for_termination :: "string \<Rightarrow> bool \<Rightarrow> mission_status" where
  "project_goal_status_for_termination reason budget_exhausted_terminal =
     (let r = str_strip reason in
      if r \<in> {''verified_closeout'', ''completed'', ''success''} then Ms_completed
      else if r \<in> {''needs_user'', ''waiting_user'', ''paused''} then Ms_paused
      else if r \<in> {''job_pending'', ''awaiting_external'', ''awaiting_async''} then Ms_awaiting_async
      else if r = ''budget_exhausted'' \<and> \<not> budget_exhausted_terminal then Ms_active
      else if r \<in> {''budget_exhausted'', ''tool_failure'', ''failed'', ''halted''} then Ms_halted
      else if r \<in> {''explicit_cancel'', ''cancelled'', ''canceled''} then Ms_cancelled
      else Ms_halted)"

definition apply_termination_signal ::
  "(nat \<Rightarrow> int) \<Rightarrow> string \<Rightarrow> string \<Rightarrow> bool \<Rightarrow> goal_tables \<Rightarrow> (goal_error + goal option) \<times> goal_tables" where
  "apply_termination_signal clk goal_id reason budget_exhausted_terminal =
     st_bind (find_goal goal_id) (\<lambda>x s.
       case x of
         None \<Rightarrow> (Inr None, s)
       | Some g \<Rightarrow>
           (let st = project_goal_status_for_termination reason budget_exhausted_terminal
            in if st = g_status g then (Inr (Some g), s)
               else st_bind (transition_status clk (g_goal_id g) st reason) (\<lambda>g s. (Inr (Some g), s)) s))"

definition roll_up_child_goals :: "(nat \<Rightarrow> int) \<Rightarrow> string \<Rightarrow> goal_tables \<Rightarrow> (goal_error + goal option) \<times> goal_tables" where
  "roll_up_child_goals clk parent_goal_id =
     st_bind (find_goal parent_goal_id) (\<lambda>x s.
       case x of
         None \<Rightarrow> (Inr None, s)
       | Some parent \<Rightarrow>
           st_bind (\<lambda>s. (list_by_parent (g_goal_id parent) s, s)) (\<lambda>children s.
             if children = [] then (Inr (Some parent), s)
             else if list_all (\<lambda>c. g_status c = Ms_completed) children
             then st_bind (transition_status clk (g_goal_id parent) Ms_completed ''child_goal_rollup_completed'') (\<lambda>g s. (Inr (Some g), s)) s
             else if list_ex (\<lambda>c. g_status c \<in> {Ms_halted, Ms_cancelled}) children
             then st_bind (transition_status clk (g_goal_id parent) Ms_halted ''child_goal_rollup_failed'') (\<lambda>g s. (Inr (Some g), s)) s
             else (Inr (Some parent), s)) s)"

definition consume_cost :: "(nat \<Rightarrow> int) \<Rightarrow> string \<Rightarrow> int \<Rightarrow> int \<Rightarrow> goal_tables \<Rightarrow> (goal_error + goal option) \<times> goal_tables" where
  "consume_cost clk goal_id consumed_tokens consumed_dollars =
     st_bind (find_goal goal_id) (\<lambda>x s.
       case x of
         None \<Rightarrow> (Inr None, s)
       | Some g \<Rightarrow>
           (case evaluate_goal_cost_budget g consumed_tokens consumed_dollars of
              None \<Rightarrow> (Inr (Some g), s)
            | Some exhausted \<Rightarrow>
                st_bind (goal_replace clk (g\<lparr>g_status := Ms_halted, g_failure_conditions := g_failure_conditions g @ [exhausted]\<rparr>) ''cost_budget'')
                  (\<lambda>g s. (Inr (Some g), s)) s))"

section \<open>Authorization of actions\<close>

datatype action_risk_tier = Tier_silent | Tier_approve | Tier_halt

record goal_authorization =
  az_allowed :: bool
  az_requires_user_confirm :: bool
  az_reason :: string
  az_risk_tier :: action_risk_tier

definition goal_policy_risk_tier :: "bool \<Rightarrow> bool \<Rightarrow> action_risk_tier" where
  "goal_policy_risk_tier allowed requires_user_confirm =
     (if allowed \<and> \<not> requires_user_confirm then Tier_silent else if requires_user_confirm then Tier_approve else Tier_halt)"

definition goal_authorization_of :: "bool \<Rightarrow> bool \<Rightarrow> string \<Rightarrow> goal_authorization" where
  "goal_authorization_of allowed requires_user_confirm reason =
     \<lparr>az_allowed = allowed, az_requires_user_confirm = requires_user_confirm, az_reason = reason,
      az_risk_tier = goal_policy_risk_tier allowed requires_user_confirm\<rparr>"

definition authorize_goal_action :: "string option \<Rightarrow> string option \<Rightarrow> goal_authorization" where
  "authorize_goal_action profile_policy action_type =
     (let action = str_lower (str_strip (opt_or action_type [])) in
      if action = ''none'' then goal_authorization_of False False ''action_type_none''
      else let p = str_lower (str_strip (opt_or profile_policy [])); policy = (if p = [] then ''suggest'' else p) in
        if policy = ''auto_full'' then goal_authorization_of True False ''policy_auto_full''
        else if policy = ''auto_safe''
        then (if action \<in> {''watch'', ''task''} then goal_authorization_of True False ''policy_auto_safe_watch_task''
              else goal_authorization_of False True ''policy_auto_safe_non_watch_task'')
        else if policy = ''suggest'' then goal_authorization_of False True ''policy_suggest''
        else goal_authorization_of False True ''policy_unknown_default_safe'')"

section \<open>Hierarchy\<close>

record goal_node =
  gn_goal_id :: string
  gn_parent_goal_id :: "string option"
  gn_depth :: int
  gn_goal :: string
  gn_action_type :: string
  gn_priority :: string

definition list_child_goals :: "goal_node list \<Rightarrow> string \<Rightarrow> goal_node list" where
  "list_child_goals nodes parent_goal_id =
     (let target = str_strip parent_goal_id in if target = [] then [] else filter (\<lambda>n. opt_or (gn_parent_goal_id n) [] = target) nodes)"

text \<open>\<open>{node.goal_id: node for node in nodes}\<close>: the last node with an identifier counts.\<close>

definition by_id :: "goal_node list \<Rightarrow> string \<Rightarrow> goal_node option" where
  "by_id nodes k = find (\<lambda>n. gn_goal_id n = k) (rev nodes)"

fun ancestors_loop :: "nat \<Rightarrow> goal_node list \<Rightarrow> string list \<Rightarrow> goal_node \<Rightarrow> goal_node list" where
  "ancestors_loop 0 nodes seen current = []"
| "ancestors_loop (Suc k) nodes seen current =
     (if \<not> opt_truthy (gn_parent_goal_id current) then []
      else let parent_id = opt_or (gn_parent_goal_id current) [] in
        if parent_id \<in> set seen then []
        else case by_id nodes parent_id of
          None \<Rightarrow> []
        | Some parent \<Rightarrow> parent # ancestors_loop k nodes (parent_id # seen) parent)"

definition get_goal_ancestors :: "goal_node list \<Rightarrow> string \<Rightarrow> int \<Rightarrow> goal_node list" where
  "get_goal_ancestors nodes goal_id max_depth =
     (let target = str_strip goal_id in
      if target = [] then []
      else case by_id nodes target of
        None \<Rightarrow> []
      | Some current \<Rightarrow> rev (ancestors_loop (nat max_depth) nodes [gn_goal_id current] current))"

fun depth_loop :: "nat \<Rightarrow> goal_node list \<Rightarrow> string list \<Rightarrow> goal_node \<Rightarrow> int \<Rightarrow> int" where
  "depth_loop 0 nodes seen current depth = depth"
| "depth_loop (Suc k) nodes seen current depth =
     (if \<not> opt_truthy (gn_parent_goal_id current) then depth
      else case by_id nodes (opt_or (gn_parent_goal_id current) []) of
        None \<Rightarrow> depth
      | Some parent \<Rightarrow>
          if gn_goal_id parent \<in> set seen then depth
          else depth_loop k nodes (gn_goal_id parent # seen) parent (depth + 1))"

definition compute_structural_depth :: "goal_node list \<Rightarrow> string \<Rightarrow> int \<Rightarrow> int" where
  "compute_structural_depth nodes goal_id max_depth =
     (let target = str_strip goal_id in
      if target = [] then -1
      else case by_id nodes target of
        None \<Rightarrow> -1
      | Some current \<Rightarrow> depth_loop (nat max_depth) nodes [gn_goal_id current] current 0)"

definition children_of :: "goal_node list \<Rightarrow> string \<Rightarrow> goal_node list" where
  "children_of nodes parent_id = filter (\<lambda>n. opt_truthy (gn_parent_goal_id n) \<and> gn_parent_goal_id n = Some parent_id) nodes"

text \<open>One level of the search: visited identifiers, the nodes found, and the next level.\<close>

fun descend_level :: "goal_node list \<Rightarrow> goal_node list \<Rightarrow> string list \<Rightarrow> string list \<times> goal_node list \<times> goal_node list" where
  "descend_level nodes [] visited = (visited, [], [])"
| "descend_level nodes (n # frontier) visited =
     (if gn_goal_id n \<in> set visited then descend_level nodes frontier visited
      else let (visited, found, next_frontier) = descend_level nodes frontier (gn_goal_id n # visited)
           in (visited, n # found, children_of nodes (gn_goal_id n) @ next_frontier))"

fun descend :: "nat \<Rightarrow> goal_node list \<Rightarrow> goal_node list \<Rightarrow> string list \<Rightarrow> goal_node list" where
  "descend 0 nodes frontier visited = []"
| "descend (Suc k) nodes frontier visited =
     (if frontier = [] then []
      else let (visited, found, next_frontier) = descend_level nodes frontier visited in found @ descend k nodes next_frontier visited)"

definition list_descendant_goals :: "goal_node list \<Rightarrow> string \<Rightarrow> int \<Rightarrow> goal_node list" where
  "list_descendant_goals nodes root_goal_id max_depth =
     (let target = str_strip root_goal_id in
      if target = [] then [] else descend (nat max_depth) nodes (children_of nodes target) [target])"

text \<open>The depth of a goal is the number of ancestors that are found, also in a hierarchy with cycles or
  missing parents.\<close>

lemma by_id_key: "by_id nodes k = Some n \<Longrightarrow> gn_goal_id n = k"
  by (auto simp: by_id_def find_Some_iff)

lemma depth_loop_ancestors: "depth_loop k nodes seen current d = d + int (length (ancestors_loop k nodes seen current))"
proof (induction k arbitrary: seen current d)
  case (Suc k)
  show ?case
  proof (cases "by_id nodes (opt_or (gn_parent_goal_id current) [])")
    case (Some n)
    then have "gn_goal_id n = opt_or (gn_parent_goal_id current) []" by (rule by_id_key)
    with Some Suc show ?thesis by (simp add: Let_def)
  qed (simp add: Let_def)
qed simp

lemma depth_counts_ancestors:
  "compute_structural_depth nodes goal_id max_depth =
     (if str_strip goal_id = [] \<or> by_id nodes (str_strip goal_id) = None then -1 else int (length (get_goal_ancestors nodes goal_id max_depth)))"
  by (auto simp: compute_structural_depth_def get_goal_ancestors_def depth_loop_ancestors Let_def)

text \<open>Descendants are listed once each, and the root is not among them.\<close>

lemma descend_level_visited:
  assumes "descend_level nodes frontier visited = (visited', found, next_frontier)"
  shows "set visited' = set visited \<union> gn_goal_id ` set found" "distinct (map gn_goal_id found)" "gn_goal_id ` set found \<inter> set visited = {}"
proof -
  have "set visited' = set visited \<union> gn_goal_id ` set found \<and> distinct (map gn_goal_id found) \<and> gn_goal_id ` set found \<inter> set visited = {}"
    using assms
  proof (induction frontier arbitrary: visited visited' found next_frontier)
    case (Cons n frontier)
    show ?case
    proof (cases "gn_goal_id n \<in> set visited")
      case False
      obtain v f m where l: "descend_level nodes frontier (gn_goal_id n # visited) = (v, f, m)" by (metis prod_cases3)
      with Cons.prems False have "visited' = v" "found = n # f" by (simp_all add: Let_def)
      with Cons.IH [OF l] False show ?thesis by auto
    qed (use Cons in simp)
  qed simp
  then show "set visited' = set visited \<union> gn_goal_id ` set found" "distinct (map gn_goal_id found)" "gn_goal_id ` set found \<inter> set visited = {}"
    by simp_all
qed

lemma descend_distinct: "distinct (map gn_goal_id (descend k nodes frontier visited)) \<and> gn_goal_id ` set (descend k nodes frontier visited) \<inter> set visited = {}"
proof (induction k arbitrary: frontier visited)
  case (Suc k)
  obtain v f n where l: "descend_level nodes frontier visited = (v, f, n)" by (metis prod_cases3)
  note lv = descend_level_visited [OF l]
  show ?case
  proof (cases "frontier = []")
    case False
    then have d: "descend (Suc k) nodes frontier visited = f @ descend k nodes n v" using l by simp
    show ?thesis unfolding d using lv Suc [of n v] by (simp add: lv(1) Int_Un_distrib Int_Un_distrib2 disjoint_iff) blast
  qed simp
qed simp

lemma descendants_distinct:
  "distinct (map gn_goal_id (list_descendant_goals nodes root max_depth)) \<and> str_strip root \<notin> gn_goal_id ` set (list_descendant_goals nodes root max_depth)"
proof (cases "str_strip root = []")
  case False
  then have "list_descendant_goals nodes root max_depth = descend (nat max_depth) nodes (children_of nodes (str_strip root)) [str_strip root]"
    by (simp add: list_descendant_goals_def Let_def)
  then show ?thesis using descend_distinct [of "nat max_depth" nodes "children_of nodes (str_strip root)" "[str_strip root]"] by simp
qed (simp add: list_descendant_goals_def Let_def)

end
