(* ===== verification/Goal_Loop.thy ===== *)
theory Goal_Loop
  imports Goal_Runtime
begin

text \<open>
  The loop that works on a goal turn by turn (\<open>modules/brain/runtime/goal\<close>): the controller with its
  run store and caps (\<open>loop.py\<close>) and the ledger of steps (\<open>ledger.py\<close>). The controller has no proof store.
  Clocks are milliseconds; \<open>clk i\<close> is the \<open>i\<close>-th reading within a call.
\<close>

section \<open>Runs\<close>

datatype goal_run_outcome = Ro_satisfied | Ro_continue | Ro_blocked | Ro_needs_user | Ro_awaiting_async | Ro_halted

fun outcome_text :: "goal_run_outcome \<Rightarrow> string" where
  "outcome_text Ro_satisfied = ''satisfied''"
| "outcome_text Ro_continue = ''continue''"
| "outcome_text Ro_blocked = ''blocked''"
| "outcome_text Ro_needs_user = ''needs_user''"
| "outcome_text Ro_awaiting_async = ''awaiting_async''"
| "outcome_text Ro_halted = ''halted''"

definition terminal_outcomes :: "goal_run_outcome list" where
  "terminal_outcomes = [Ro_satisfied, Ro_blocked, Ro_needs_user, Ro_awaiting_async, Ro_halted]"

fun outcome_to_status :: "goal_run_outcome \<Rightarrow> mission_status" where
  "outcome_to_status Ro_satisfied = Ms_completed"
| "outcome_to_status Ro_continue = Ms_active"
| "outcome_to_status Ro_blocked = Ms_paused"
| "outcome_to_status Ro_needs_user = Ms_paused"
| "outcome_to_status Ro_awaiting_async = Ms_awaiting_async"
| "outcome_to_status Ro_halted = Ms_halted"

record goal_run_caps =
  gc_max_auto_turns :: int
  gc_max_wall_clock_seconds :: int
  gc_repeated_no_progress_limit :: int
  gc_token_cost_cap :: string
  gc_user_interrupt_enabled :: bool

definition default_goal_run_caps :: goal_run_caps where
  "default_goal_run_caps = \<lparr>gc_max_auto_turns = 3, gc_max_wall_clock_seconds = 15 * 60, gc_repeated_no_progress_limit = 2,
     gc_token_cost_cap = ''runtime_cap_or_unknown'', gc_user_interrupt_enabled = True\<rparr>"

record goal_run_cap_state =
  gk_max_auto_turns :: int
  gk_turns_used :: int
  gk_max_wall_clock_seconds :: int
  gk_elapsed_seconds :: int
  gk_token_cost_cap :: string
  gk_user_interrupt_enabled :: bool
  gk_repeated_no_progress_limit :: int
  gk_repeated_no_progress_count :: int

record goal_run_state =
  gs_run_id :: string
  gs_session_id :: string
  gs_goal_id :: string
  gs_started_at_ms :: int
  gs_updated_at_ms :: int
  gs_turn_count :: int
  gs_last_evaluator_reason :: string
  gs_status :: mission_status
  gs_caps :: goal_run_caps
  gs_latest_evidence_refs :: "string list"
  gs_latest_next_instruction :: string
  gs_repeated_no_progress_count :: int
  gs_active :: bool
  gs_proof_packet_ref :: "string option"

record goal_run_evaluation =
  ge_goal_id :: string
  ge_outcome :: goal_run_outcome
  ge_mission_status :: mission_status
  ge_reason :: string
  ge_evidence_refs :: "string list"
  ge_next_instruction :: string

text \<open>The constructor validates.\<close>

definition GoalRunEvaluation ::
  "string \<Rightarrow> goal_run_outcome \<Rightarrow> mission_status \<Rightarrow> string \<Rightarrow> string list \<Rightarrow> string \<Rightarrow> goal_error + goal_run_evaluation" where
  "GoalRunEvaluation goal_id outcome mission_status reason evidence_refs next_instruction =
     (let reason = str_strip reason in
      if goal_id = [] \<or> reason = [] \<or> mission_status \<noteq> outcome_to_status outcome then Inl Goal_ValidationError
      else Inr \<lparr>ge_goal_id = goal_id, ge_outcome = outcome, ge_mission_status = mission_status, ge_reason = reason,
                ge_evidence_refs = evidence_refs, ge_next_instruction = str_strip next_instruction\<rparr>)"

record goal_decision =
  gd_should_continue :: bool
  gd_mission_status :: mission_status
  gd_stop_reason :: string
  gd_continuation_prompt :: string
  gd_cap_state :: goal_run_cap_state

record goal_run_step =
  gl_run_id :: string
  gl_session_id :: string
  gl_goal_id :: string
  gl_turn_index :: int
  gl_started_at_ms :: int
  gl_ended_at_ms :: int
  gl_prompt_ref :: string
  gl_action_summary :: string
  gl_tool_evidence_refs :: "string list"
  gl_verification_summary :: string
  gl_evaluator_outcome :: goal_run_outcome
  gl_mission_status :: mission_status
  gl_evaluator_reason :: string
  gl_next_instruction :: string
  gl_error_refs :: "string list"
  gl_autonomy_run_id :: string
  gl_proof_ref :: string

definition strip_step :: "goal_run_step \<Rightarrow> goal_run_step" where
  "strip_step x = x\<lparr>gl_prompt_ref := str_strip (gl_prompt_ref x), gl_action_summary := str_strip (gl_action_summary x),
     gl_verification_summary := str_strip (gl_verification_summary x), gl_evaluator_reason := str_strip (gl_evaluator_reason x),
     gl_next_instruction := str_strip (gl_next_instruction x), gl_autonomy_run_id := str_strip (gl_autonomy_run_id x),
     gl_proof_ref := str_strip (gl_proof_ref x)\<rparr>"

text \<open>The stores, the drawn identifiers, and the sessions that a driver has claimed.\<close>

record goal_world =
  gw_goals :: goal_tables
  gw_runs :: "goal_run_state list"
  gw_steps :: "goal_run_step list"
  gw_uuids :: nat
  gw_claimed :: "string list"

definition on_goals :: "(goal_tables \<Rightarrow> (goal_error + 'a) \<times> goal_tables) \<Rightarrow> goal_world \<Rightarrow> (goal_error + 'a) \<times> goal_world" where
  "on_goals f w = (case f (gw_goals w) of (r, s) \<Rightarrow> (r, w\<lparr>gw_goals := s\<rparr>))"

section \<open>Run store\<close>

definition run_save :: "goal_run_state \<Rightarrow> goal_world \<Rightarrow> goal_world" where
  "run_save st w = w\<lparr>gw_runs := (if sql_get gs_run_id (gs_run_id st) (gw_runs w) = None then gw_runs w @ [st]
      else sql_update (\<lambda>r. gs_run_id r = gs_run_id st) (\<lambda>_. st) (gw_runs w))\<rparr>"

definition run_get :: "string \<Rightarrow> goal_world \<Rightarrow> goal_run_state option" where
  "run_get run_id w = sql_get gs_run_id (str_strip run_id) (gw_runs w)"

definition first_row :: "'a list \<Rightarrow> 'a option" where
  "first_row rows = (case rows of [] \<Rightarrow> None | r # _ \<Rightarrow> Some r)"

definition active_for_session :: "string \<Rightarrow> goal_world \<Rightarrow> goal_run_state option" where
  "active_for_session session_id w =
     first_row (sql_order_desc gs_updated_at_ms (filter (\<lambda>r. gs_session_id r = str_strip session_id \<and> gs_active r) (gw_runs w)))"

definition latest_for_session :: "string \<Rightarrow> goal_world \<Rightarrow> goal_run_state option" where
  "latest_for_session session_id w =
     first_row (sql_order_desc gs_updated_at_ms (filter (\<lambda>r. gs_session_id r = str_strip session_id) (gw_runs w)))"

definition deactivate_session :: "int \<Rightarrow> string \<Rightarrow> string \<Rightarrow> goal_world \<Rightarrow> goal_world" where
  "deactivate_session now session_id except_run_id w =
     (let sid = str_strip session_id in
      if sid = [] then w
      else case active_for_session sid w of
        None \<Rightarrow> w
      | Some st \<Rightarrow> if gs_run_id st = except_run_id then w
                  else run_save (st\<lparr>gs_active := False, gs_updated_at_ms := now\<rparr>) w)"

section \<open>Ledger\<close>

definition ledger_append :: "goal_run_step \<Rightarrow> goal_world \<Rightarrow> goal_world" where
  "ledger_append step w = w\<lparr>gw_steps := gw_steps w @ [step]\<rparr>"

definition list_for_run :: "string \<Rightarrow> goal_world \<Rightarrow> goal_run_step list" where
  "list_for_run run_id w = sort_key gl_turn_index (filter (\<lambda>x. gl_run_id x = str_strip run_id) (gw_steps w))"

record ledger_summary =
  gx_run_id :: string
  gx_step_count :: nat
  gx_latest_outcome :: string
  gx_latest_reason :: string
  gx_latest_next_instruction :: string
  gx_evidence_refs :: "string list"
  gx_error_refs :: "string list"

text \<open>\<open>tuple(dict.fromkeys(xs))\<close>: first occurrences.\<close>

definition first_occurrences :: "string list \<Rightarrow> string list" where
  "first_occurrences xs = rev (remdups (rev xs))"

definition summary_for_run :: "string \<Rightarrow> goal_world \<Rightarrow> ledger_summary" where
  "summary_for_run run_id w =
     (let steps = list_for_run run_id w in
      if steps = [] then \<lparr>gx_run_id = str_strip run_id, gx_step_count = 0, gx_latest_outcome = [], gx_latest_reason = [],
        gx_latest_next_instruction = [], gx_evidence_refs = [], gx_error_refs = []\<rparr>
      else \<lparr>gx_run_id = gl_run_id (last steps), gx_step_count = length steps, gx_latest_outcome = outcome_text (gl_evaluator_outcome (last steps)),
        gx_latest_reason = gl_evaluator_reason (last steps), gx_latest_next_instruction = gl_next_instruction (last steps),
        gx_evidence_refs = first_occurrences (concat (map gl_tool_evidence_refs steps)),
        gx_error_refs = first_occurrences (concat (map gl_error_refs steps))\<rparr>)"

definition append_wake_event :: "int \<Rightarrow> string \<Rightarrow> string \<Rightarrow> string \<Rightarrow> string \<Rightarrow> string list \<Rightarrow> goal_world \<Rightarrow> goal_world" where
  "append_wake_event now run_id session_id goal_id reason evidence_refs w =
     ledger_append (strip_step \<lparr>gl_run_id = run_id, gl_session_id = session_id, gl_goal_id = goal_id, gl_turn_index = int (length (list_for_run run_id w)),
       gl_started_at_ms = now, gl_ended_at_ms = now, gl_prompt_ref = [], gl_action_summary = ''async wake'', gl_tool_evidence_refs = evidence_refs,
       gl_verification_summary = [], gl_evaluator_outcome = Ro_continue, gl_mission_status = Ms_active, gl_evaluator_reason = reason,
       gl_next_instruction = [], gl_error_refs = [], gl_autonomy_run_id = [], gl_proof_ref = []\<rparr>) w"

section \<open>Controller\<close>

definition start_goal_run ::
  "(nat \<Rightarrow> string) \<Rightarrow> (nat \<Rightarrow> int) \<Rightarrow> string \<Rightarrow> string \<Rightarrow> goal_run_caps option \<Rightarrow> goal_world \<Rightarrow> (goal_error + goal_run_state) \<times> goal_world" where
  "start_goal_run uuid clk session_id goal_id caps =
     st_bind (\<lambda>w. (strip_required session_id ''session_id'', w)) (\<lambda>sid.
     st_bind (\<lambda>w. (strip_required goal_id ''goal_id'', w)) (\<lambda>gid.
     st_bind (on_goals (require_goal gid)) (\<lambda>_ w.
       if \<not> is_bound_to_session gid sid (gw_goals w)
       then (Inl (Goal_ValueError (''Goal is not active for this session: '' @ gid)), w)
       else let st = \<lparr>gs_run_id = ''grud_'' @ take 12 (uuid (gw_uuids w)), gs_session_id = sid, gs_goal_id = gid, gs_started_at_ms = clk 0,
                 gs_updated_at_ms = clk 0, gs_turn_count = 0, gs_last_evaluator_reason = [], gs_status = Ms_active,
                 gs_caps = (case caps of None \<Rightarrow> default_goal_run_caps | Some c \<Rightarrow> c), gs_latest_evidence_refs = [],
                 gs_latest_next_instruction = [], gs_repeated_no_progress_count = 0, gs_active = True, gs_proof_packet_ref = None\<rparr>
            in (Inr st, run_save st (deactivate_session (clk 1) sid [] (w\<lparr>gw_uuids := Suc (gw_uuids w)\<rparr>))))))"

definition set_session_run :: "mission_status \<Rightarrow> string \<Rightarrow> int \<Rightarrow> string \<Rightarrow> string \<Rightarrow> goal_world \<Rightarrow> goal_run_state option \<times> goal_world" where
  "set_session_run status default_reason now session_id reason w =
     (case active_for_session session_id w of
        None \<Rightarrow> (None, w)
      | Some st \<Rightarrow>
          (let st = st\<lparr>gs_active := False, gs_status := status,
                 gs_last_evaluator_reason := str_strip (if reason = [] then default_reason else reason), gs_updated_at_ms := now\<rparr>
           in (Some st, run_save st w)))"

definition stop_session_run :: "int \<Rightarrow> string \<Rightarrow> string \<Rightarrow> goal_world \<Rightarrow> goal_run_state option \<times> goal_world" where
  "stop_session_run = set_session_run Ms_cancelled ''operator_stop''"

definition pause_session_run :: "int \<Rightarrow> string \<Rightarrow> string \<Rightarrow> goal_world \<Rightarrow> goal_run_state option \<times> goal_world" where
  "pause_session_run = set_session_run Ms_paused ''operator_pause''"

definition resume_session_run :: "(nat \<Rightarrow> int) \<Rightarrow> string \<Rightarrow> string \<Rightarrow> goal_world \<Rightarrow> goal_run_state option \<times> goal_world" where
  "resume_session_run clk session_id reason w =
     (case latest_for_session session_id w of
        None \<Rightarrow> (None, w)
      | Some st \<Rightarrow>
          if gs_active st then (Some st, w)
          else if gs_status st \<notin> {Ms_paused, Ms_awaiting_async} then (None, w)
          else let st = st\<lparr>gs_active := True, gs_status := Ms_active,
                     gs_last_evaluator_reason := str_strip (if reason = [] then ''operator_resume'' else reason), gs_updated_at_ms := clk 0\<rparr>
               in (Some st, run_save st (deactivate_session (clk 1) session_id (gs_run_id st) w)))"

definition next_repeated_reason_count :: "goal_run_state \<Rightarrow> goal_run_evaluation \<Rightarrow> int" where
  "next_repeated_reason_count st ev =
     (if ge_outcome ev \<noteq> Ro_continue then 0
      else if ge_reason ev \<noteq> [] \<and> ge_reason ev = gs_last_evaluator_reason st then gs_repeated_no_progress_count st + 1
      else 1)"

definition goal_run_cap_state_of :: "int \<Rightarrow> goal_run_state \<Rightarrow> goal_run_cap_state" where
  "goal_run_cap_state_of now st =
     \<lparr>gk_max_auto_turns = gc_max_auto_turns (gs_caps st), gk_turns_used = gs_turn_count st,
      gk_max_wall_clock_seconds = gc_max_wall_clock_seconds (gs_caps st), gk_elapsed_seconds = max 0 ((now - gs_started_at_ms st) div 1000),
      gk_token_cost_cap = gc_token_cost_cap (gs_caps st), gk_user_interrupt_enabled = gc_user_interrupt_enabled (gs_caps st),
      gk_repeated_no_progress_limit = gc_repeated_no_progress_limit (gs_caps st),
      gk_repeated_no_progress_count = gs_repeated_no_progress_count st\<rparr>"

definition cap_stop_reason :: "goal_run_state \<Rightarrow> goal_run_cap_state \<Rightarrow> string" where
  "cap_stop_reason st k =
     (if gk_turns_used k \<ge> gc_max_auto_turns (gs_caps st) then ''cap:max_auto_turns''
      else if gk_elapsed_seconds k \<ge> gc_max_wall_clock_seconds (gs_caps st) then ''cap:max_wall_clock_seconds''
      else if gs_repeated_no_progress_count st \<ge> gc_repeated_no_progress_limit (gs_caps st) then ''cap:repeated_no_progress''
      else [])"

definition build_continuation_prompt :: "goal_run_state \<Rightarrow> goal_run_evaluation \<Rightarrow> string" where
  "build_continuation_prompt st ev =
     (let refs = filter (\<lambda>x. x \<noteq> []) (map str_strip (ge_evidence_refs ev)); instruction = str_strip (ge_next_instruction ev)
      in str_join [CHR 0x0A]
        ([''Continue goal '' @ str_strip (gs_goal_id st) @ ''.'', ''Evaluator outcome: '' @ outcome_text (ge_outcome ev) @ ''.'',
          ''Reason: '' @ str_strip (ge_reason ev)] @
         (if refs = [] then [] else [''Evidence: '' @ str_join '', '' refs]) @
         (if instruction = [] then [] else [''Next instruction: '' @ instruction])))"

definition should_continue :: "int \<Rightarrow> goal_run_state \<Rightarrow> goal_run_evaluation \<Rightarrow> goal_decision" where
  "should_continue now st ev =
     (let k = goal_run_cap_state_of now st; cap_stop = cap_stop_reason st k in
      if ge_outcome ev \<in> set terminal_outcomes
      then \<lparr>gd_should_continue = False, gd_mission_status = ge_mission_status ev, gd_stop_reason = ge_reason ev, gd_continuation_prompt = [],
            gd_cap_state = k\<rparr>
      else if cap_stop \<noteq> []
      then \<lparr>gd_should_continue = False, gd_mission_status = Ms_paused, gd_stop_reason = cap_stop, gd_continuation_prompt = [], gd_cap_state = k\<rparr>
      else \<lparr>gd_should_continue = True, gd_mission_status = Ms_active, gd_stop_reason = [],
            gd_continuation_prompt = build_continuation_prompt st ev, gd_cap_state = k\<rparr>)"

definition apply_terminal_goal_status :: "(nat \<Rightarrow> int) \<Rightarrow> goal_run_state \<Rightarrow> string \<Rightarrow> goal_world \<Rightarrow> (goal_error + goal_run_state) \<times> goal_world" where
  "apply_terminal_goal_status clk st reason w =
     (if gs_status st = Ms_cancelled then (Inr st, w)
      else st_bind (on_goals (transition_status clk (gs_goal_id st) (gs_status st) reason)) (\<lambda>_ w. (Inr st, w)) w)"

text \<open>The reference of the proof packet, without a proof store.\<close>

definition proof_ref :: "goal_run_state \<Rightarrow> string option" where
  "proof_ref st = (if gs_run_id st = [] then None else Some (''awrk-proof:'' @ gs_run_id st))"

definition evaluated :: "int \<Rightarrow> goal_run_state \<Rightarrow> goal_run_evaluation \<Rightarrow> goal_run_state" where
  "evaluated now st ev = st\<lparr>gs_turn_count := gs_turn_count st + 1, gs_last_evaluator_reason := ge_reason ev,
     gs_latest_evidence_refs := ge_evidence_refs ev, gs_latest_next_instruction := ge_next_instruction ev,
     gs_repeated_no_progress_count := next_repeated_reason_count st ev, gs_updated_at_ms := now\<rparr>"

definition record_evaluation ::
  "(nat \<Rightarrow> int) \<Rightarrow> goal_run_state \<Rightarrow> goal_run_evaluation \<Rightarrow> goal_world \<Rightarrow> (goal_error + goal_run_state \<times> goal_decision) \<times> goal_world" where
  "record_evaluation clk st ev w =
     (if ge_goal_id ev \<noteq> gs_goal_id st then (Inl (Goal_ValueError ''evaluation goal_id does not match active goal''), w)
      else let updated = evaluated (clk 0) st ev; decision = should_continue (clk 1) updated ev;
               persisted = updated\<lparr>gs_status := gd_mission_status decision, gs_active := gd_should_continue decision\<rparr>
           in if gd_should_continue decision then (Inr (persisted, decision), run_save persisted w)
              else st_bind (apply_terminal_goal_status (\<lambda>i. clk (2 + i)) persisted
                       (if gd_stop_reason decision = [] then ge_reason ev else gd_stop_reason decision)) (\<lambda>persisted w.
                     let w = run_save persisted w; persisted = persisted\<lparr>gs_proof_packet_ref := proof_ref persisted\<rparr>
                     in (Inr (persisted, decision), run_save persisted w)) w)"

fun replay_loop :: "(nat \<Rightarrow> nat \<Rightarrow> int) \<Rightarrow> goal_run_evaluation list \<Rightarrow> goal_run_state \<Rightarrow> goal_world \<Rightarrow> (goal_error + goal_run_state) \<times> goal_world" where
  "replay_loop clk [] st w =
     (if gs_active st
      then let st = st\<lparr>gs_active := False, gs_status := Ms_paused, gs_last_evaluator_reason := ''replay_evaluations_exhausted'',
                 gs_updated_at_ms := clk 0 0\<rparr> in (Inr st, run_save st w)
      else (Inr st, w))"
| "replay_loop clk (ev # evs) st w =
     (case record_evaluation (clk 0) st ev w of
        (Inl e, w) \<Rightarrow> (Inl e, w)
      | (Inr (st, decision), w) \<Rightarrow> if \<not> gd_should_continue decision then (Inr st, w) else replay_loop (\<lambda>n. clk (Suc n)) evs st w)"

definition run_replay ::
  "(nat \<Rightarrow> string) \<Rightarrow> (nat \<Rightarrow> nat \<Rightarrow> int) \<Rightarrow> string \<Rightarrow> string \<Rightarrow> goal_run_evaluation list \<Rightarrow> goal_run_caps option \<Rightarrow> goal_world \<Rightarrow>
   (goal_error + goal_run_state) \<times> goal_world" where
  "run_replay uuid clk session_id goal_id evaluations caps =
     st_bind (start_goal_run uuid (clk 0) session_id goal_id caps) (replay_loop (\<lambda>n. clk (Suc n)) evaluations)"

section \<open>Replays and displays\<close>

fun outcome_of_text :: "string \<Rightarrow> goal_run_outcome option" where
  "outcome_of_text t =
     (if t = ''satisfied'' then Some Ro_satisfied else if t = ''continue'' then Some Ro_continue else if t = ''blocked'' then Some Ro_blocked
      else if t = ''needs_user'' then Some Ro_needs_user else if t = ''awaiting_async'' then Some Ro_awaiting_async
      else if t = ''halted'' then Some Ro_halted else None)"

definition replay_entry :: "string \<Rightarrow> string \<Rightarrow> goal_error + goal_run_evaluation" where
  "replay_entry goal_id entry =
     (let normalized = str_strip (before_char (CHR '':'') entry) in
      case (if CHR '':'' \<in> set entry then outcome_of_text normalized else None) of
        None \<Rightarrow> Inl (Goal_ValueError (''replay evaluations must use outcome:reason entries; outcome must be one of '' @
                 ''awaiting_async,blocked,continue,halted,needs_user,satisfied''))
      | Some outcome \<Rightarrow>
          let reason = str_strip (after_char (CHR '':'') entry)
          in GoalRunEvaluation goal_id outcome (outcome_to_status outcome) (if reason = [] then normalized else reason) [] [])"

fun replay_entries :: "string \<Rightarrow> string list \<Rightarrow> goal_error + goal_run_evaluation list" where
  "replay_entries goal_id [] = Inr []"
| "replay_entries goal_id (e # es) = rbind (replay_entry goal_id e) (\<lambda>x. rbind (replay_entries goal_id es) (\<lambda>xs. Inr (x # xs)))"

definition parse_replay_evaluations :: "string \<Rightarrow> string \<Rightarrow> goal_error + goal_run_evaluation list" where
  "parse_replay_evaluations goal_id raw =
     replay_entries goal_id (filter (\<lambda>e. e \<noteq> []) (map str_strip (str_split (CHR '','') raw)))"

text \<open>Characters are code points: the middle dot is \<open>0xB7\<close>.\<close>

definition format_goal_focus_segment :: "goal_run_state option \<Rightarrow> string" where
  "format_goal_focus_segment x =
     (case x of
        None \<Rightarrow> []
      | Some st \<Rightarrow>
          if \<not> gs_active st then []
          else let reason = (if gs_last_evaluator_reason st = [] then ''started'' else gs_last_evaluator_reason st);
                   reason = (if length reason > 48 then str_rstrip_by is_space (take 45 reason) @ ''...'' else reason)
               in ''goal: '' @ status_text (gs_status st) @ '' turn '' @ int_str (gs_turn_count st) @ '' '' @ [CHR 0xB7] @ '' '' @ reason)"

end
