(* ===== verification/Goal_Verify.thy ===== *)
theory Goal_Verify
  imports Goal_Runtime
begin

text \<open>
  Verification (\<open>modules/brain/runtime/verification/policy.py\<close>): the verifier families, the freshness checks,
  the structural check of an action; the verification of a goal (\<open>runtime/goal/verification.py\<close>); the
  terminal state that verifier results lead to (\<open>services/brain/adapters/run_verification.py\<close>); and the
  resolution of turns with a typed goal (\<open>services/gateway/turn_intent.py\<close>). Events written to the log are
  left out. Of commands and action results, the fields that verification reads.
\<close>

section \<open>Actions\<close>

datatype action_status = As_success | As_retry | As_failed | As_blocked | As_needs_user | As_timeout

fun action_status_text :: "action_status \<Rightarrow> string" where
  "action_status_text As_success = ''success''"
| "action_status_text As_retry = ''retry''"
| "action_status_text As_failed = ''failed''"
| "action_status_text As_blocked = ''blocked''"
| "action_status_text As_needs_user = ''needs_user''"
| "action_status_text As_timeout = ''timeout''"

datatype command_kind = Ck_tool | Ck_agent | Ck_ask_user | Ck_finish | Ck_think

datatype risk_level = Rk_low | Rk_med | Rk_high

record brain_command =
  bc_command_id :: string
  bc_kind :: command_kind
  bc_success_criteria :: pydict
  bc_risk_level :: risk_level

record action_artifact =
  af_ref :: string
  af_label :: "string option"
  af_meta :: pydict

record action_result =
  ar_command_id :: string
  ar_status :: action_status
  ar_outputs :: pydict
  ar_artifact_refs :: "action_artifact list"
  ar_memory_refs :: "string list"

datatype verification_mode = Vm_none | Vm_rule_based | Vm_second_opinion | Vm_panel_judge

section \<open>Freshness\<close>

datatype freshness_domain = Fd_general | Fd_finance | Fd_news | Fd_weather | Fd_regulation | Fd_shopping | Fd_sports | Fd_other

fun domain_text :: "freshness_domain \<Rightarrow> string" where
  "domain_text Fd_general = ''general''"
| "domain_text Fd_finance = ''finance''"
| "domain_text Fd_news = ''news''"
| "domain_text Fd_weather = ''weather''"
| "domain_text Fd_regulation = ''regulation''"
| "domain_text Fd_shopping = ''shopping''"
| "domain_text Fd_sports = ''sports''"
| "domain_text Fd_other = ''other''"

datatype freshness_answer_mode = Fa_local_only | Fa_browse_then_answer

record freshness_contract =
  fr_domain :: freshness_domain
  fr_time_sensitive :: bool
  fr_needs_live_data :: bool
  fr_needs_sources :: bool
  fr_needs_exact_date :: bool
  fr_answer_mode :: freshness_answer_mode

text \<open>The validator that runs after construction.\<close>

definition normalize_requirements :: "freshness_contract \<Rightarrow> freshness_contract" where
  "normalize_requirements c =
     (let c = (if fr_needs_live_data c then c\<lparr>fr_time_sensitive := True, fr_answer_mode := Fa_browse_then_answer\<rparr> else c);
          c = (if fr_needs_sources c \<or> fr_needs_exact_date c then c\<lparr>fr_time_sensitive := True\<rparr> else c)
      in if \<not> fr_time_sensitive c
         then c\<lparr>fr_needs_live_data := False, fr_needs_sources := False, fr_needs_exact_date := False, fr_answer_mode := Fa_local_only\<rparr> else c)"

record freshness_obligations =
  fo_require_live_data :: bool
  fo_require_sources :: bool
  fo_require_exact_date :: bool
  fo_require_explicit_failure_wording :: bool
  fo_answer_mode :: freshness_answer_mode

definition map_freshness_obligations :: "freshness_contract \<Rightarrow> freshness_obligations" where
  "map_freshness_obligations c =
     \<lparr>fo_require_live_data = fr_needs_live_data c, fo_require_sources = fr_needs_sources c, fo_require_exact_date = fr_needs_exact_date c,
      fo_require_explicit_failure_wording = fr_needs_live_data c, fo_answer_mode = fr_answer_mode c\<rparr>"

definition has_structured_evidence :: "action_result option \<Rightarrow> bool" where
  "has_structured_evidence x =
     (case x of None \<Rightarrow> False | Some a \<Rightarrow> ar_outputs a \<noteq> [] \<or> ar_artifact_refs a \<noteq> [] \<or> ar_memory_refs a \<noteq> [])"

definition tool_result_name :: "pyval \<Rightarrow> string list" where
  "tool_result_name item =
     (case item of
        PDict d \<Rightarrow>
          (let status = str_lower (str_strip (text_or_empty (dict_get_or d ''status'' (PStr []))));
               name = str_strip (text_or_empty (dict_get_or d ''tool_name'' (PStr [])))
           in if dict_get_or d ''ok'' PNone = PBool False \<or> status \<in> {''error'', ''failed'', ''blocked''} then []
              else if name = [] then [] else [name])
      | _ \<Rightarrow> [])"

definition successful_tool_result_names :: "action_result option \<Rightarrow> string list" where
  "successful_tool_result_names x =
     (case x of
        None \<Rightarrow> []
      | Some a \<Rightarrow> (case dict_get_or (ar_outputs a) ''tool_results'' (PList []) of PList items \<Rightarrow> concat (map tool_result_name items) | _ \<Rightarrow> []))"

definition ALL_MODEL_TOOL_IDS :: "string list" where
  "ALL_MODEL_TOOL_IDS = [
    ''file.list_dir'', ''file.read'', ''file.read_range'', ''file.write'', ''file.find'', ''file.trash'', ''file.search'', ''file.edit'',
    ''code.patch'', ''code.grep'', ''code.repo_map'', ''code.repo_index'', ''code.symbol_find'', ''tool.list'', ''tool.get'',
    ''tool.author'', ''tool.inspect'', ''tool.register'', ''exec.run'', ''exec.poll'', ''exec.kill'', ''exec.list'', ''exec.clear'',
    ''exec.paste'', ''exec.send_keys'', ''exec.submit'', ''web.search'', ''web.fetch'', ''weather'', ''time'', ''location'',
    ''host.metrics'', ''host.inventory_report'', ''ip.public'', ''ip.local'', ''browser'', ''blockchain.inspect'', ''blockchain.debug'',
    ''blockchain.resolve_contract'', ''blockchain.prepare_transaction'', ''blockchain.send_transaction'', ''commerce.inspect'',
    ''commerce.prepare_order'', ''commerce.place_order'', ''commerce.prepare_order_action'', ''commerce.apply_order_action'',
    ''ops.target.list'', ''ops.target.inspect'', ''ops.host.snapshot'', ''ops.service.inspect'', ''ops.logs.query'',
    ''ops.network.inspect'', ''ops.process.inspect'', ''ops.network.port_owner'', ''ops.command.observe'', ''ops.file.read'',
    ''ops.command.plan'', ''ops.command.run'', ''ops.job.inspect'', ''ops.job.cancel'', ''cloud.ssm.inventory'',
    ''cloud.ssm.command_status'', ''observability.prometheus.rules'', ''observability.prometheus.alerts'',
    ''observability.prometheus.query'', ''observability.otel.trace'', ''k8s.workload.get'', ''k8s.workload.list'', ''k8s.events.list'',
    ''k8s.logs.get'', ''k8s.rollout.status'', ''iac.validate'', ''iac.plan.create'', ''iac.plan.show'', ''iac.provider.facts'',
    ''gitops.app.status'', ''gitops.app.diff'', ''gitops.source.revision'', ''gitops.drift.inspect'', ''config.ansible.check'',
    ''config.ansible.facts'', ''config.salt.test'', ''config.salt.job_status'', ''security.scan_code'', ''security.scan_dependencies'',
    ''security.scan_artifact'', ''security.scan_secrets'', ''security.publish_report'', ''security.review_report'',
    ''security.scan_snapshot'', ''security.scan_image'', ''security.evaluate_aws_snapshot'', ''security.export_sarif'',
    ''security.compare_scans'', ''gws.call'', ''gws.schema'', ''gws.auth.setup'', ''gws.auth.login'', ''gws.auth.export'',
    ''skill.ingest'', ''skill.ingest_url'', ''skill.inspect'', ''skill.list'', ''skill.get'', ''skill.remove'', ''memory.write'',
    ''memory.search'', ''memory.forget'', ''graph.query'', ''graph.neighborhood'', ''graph.refresh'', ''git.status'', ''git.diff'',
    ''git.log'', ''git.show'', ''git.blame'', ''git.branch'', ''git.checkout'', ''git.add'', ''git.commit'', ''git.stash'', ''git.reset'',
    ''git.reflog'', ''git.fetch'', ''git.push'', ''git.tag'', ''plan.set'', ''plan.add'', ''plan.update'', ''plan.complete'',
    ''plan.list'', ''plan.clear'', ''todo.write'', ''task.schedule'', ''task.consolidate_memory'', ''task.watch'', ''task.cancel'',
    ''task.list'', ''task.pause'', ''task.resume'', ''task.show'', ''task.run_now'', ''task.update'', ''task.delete_history'',
    ''task.scheduler_status'', ''task.scheduler_pause'', ''task.scheduler_resume'', ''github.list_prs'', ''github.fetch_pr'',
    ''github.fetch_diff'', ''github.fetch_comments'', ''github.fetch_checks'', ''github.commit_files'', ''github.open_pr'',
    ''github.update_pr'', ''github.merge_pr'', ''github.dispatch_workflow'', ''github.list_workflow_runs'', ''github.create_release'',
    ''github.post_pr_review'', ''github.post_pr_comment'', ''task.delegate'', ''agent.list'', ''agent.get'']"

definition model_tool_id_by_lower :: "string \<Rightarrow> string option" where
  "model_tool_id_by_lower t = List.find (\<lambda>i. str_lower i = t) ALL_MODEL_TOOL_IDS"

definition TOOL_WRAPPER_PREFIXES :: "string list" where
  "TOOL_WRAPPER_PREFIXES = [''tool.'', ''tools.'', ''function.'', ''functions.'']"

definition strip_tool_wrapper_prefix :: "string \<Rightarrow> string" where
  "strip_tool_wrapper_prefix raw_name =
     (let token = str_strip raw_name; lowered = str_lower token in
      if token = [] \<or> model_tool_id_by_lower lowered \<noteq> None then token
      else case List.find (\<lambda>p. str_startswith lowered p) TOOL_WRAPPER_PREFIXES of
        None \<Rightarrow> token | Some p \<Rightarrow> str_strip (drop (length p) token))"

definition normalize_raw_model_tool_name :: "string \<Rightarrow> string option" where
  "normalize_raw_model_tool_name raw_name =
     (let token = strip_tool_wrapper_prefix raw_name in if token = [] then None else model_tool_id_by_lower (str_lower token))"

definition has_freshness_domain_evidence :: "freshness_contract \<Rightarrow> action_result option \<Rightarrow> bool" where
  "has_freshness_domain_evidence c x =
     (domain_text (fr_domain c) \<notin> set ALL_MODEL_TOOL_IDS \<or>
      list_ex (\<lambda>n. normalize_raw_model_tool_name n = Some (domain_text (fr_domain c))) (successful_tool_result_names x))"

definition DATED_EVIDENCE_KEYS :: "string list" where
  "DATED_EVIDENCE_KEYS = [''current_datetime'', ''date'', ''evidence_date'', ''observed_at'', ''published_at'', ''query_time'', ''retrieved_at'', ''utc'']"

fun contains_dated_evidence :: "pyval \<Rightarrow> bool" where
  "contains_dated_evidence (PDict d) =
     list_ex (\<lambda>(k, v). str_strip k \<in> set DATED_EVIDENCE_KEYS \<and> str_strip (text_or_empty v) \<noteq> [] \<or> contains_dated_evidence v) d"
| "contains_dated_evidence (PList xs) = list_ex contains_dated_evidence xs"
| "contains_dated_evidence _ = False"

text \<open>References to artifacts are objects and references to memories texts, neither of them a dictionary or a list.\<close>

definition has_dated_evidence :: "action_result option \<Rightarrow> bool" where
  "has_dated_evidence x = (case x of None \<Rightarrow> False | Some a \<Rightarrow> contains_dated_evidence (PDict (ar_outputs a)))"

definition verify_freshness_answer :: "freshness_contract option \<Rightarrow> freshness_obligations option \<Rightarrow> action_result option \<Rightarrow> string list" where
  "verify_freshness_answer contract obligations x =
     (case (contract, obligations) of
        (Some c, Some ob) \<Rightarrow>
          if \<not> fr_time_sensitive c then []
          else (if fo_require_live_data ob
                then (if \<not> has_structured_evidence x then [''Missing live-data evidence for a freshness-sensitive answer.'']
                      else if \<not> has_freshness_domain_evidence c x
                      then [''Missing '' @ domain_text (fr_domain c) @ ''-domain live-data evidence for a freshness-sensitive answer.''] else [])
                else []) @
               (if fo_require_exact_date ob \<and> \<not> has_dated_evidence x
                then [''Missing exact-date evidence for an exact-date freshness answer.''] else [])
      | _ \<Rightarrow> [])"

definition build_freshness_failure_message :: "freshness_contract option \<Rightarrow> string list \<Rightarrow> string" where
  "build_freshness_failure_message contract reasons =
     (case contract of
        None \<Rightarrow> ''I could not produce a grounded current answer from the available evidence.''
      | Some c \<Rightarrow>
          if \<not> fr_time_sensitive c then ''I could not produce a grounded current answer from the available evidence.''
          else ''I couldn'' @ [CHR 0x27] @ ''t provide a grounded current '' @ domain_text (fr_domain c) @ '' answer because '' @
            (if reasons = [] then ''required live-data obligations were not met'' else str_join ''; '' reasons) @
            ''. Please retry with live data available so I can answer with sources and an exact date.'')"

section \<open>Verifiers\<close>

fun mode_rank :: "verification_mode \<Rightarrow> nat" where
  "mode_rank Vm_none = 0"
| "mode_rank Vm_rule_based = 1"
| "mode_rank Vm_second_opinion = 2"
| "mode_rank Vm_panel_judge = 3"

definition resolve_verification_mode :: "verification_mode \<Rightarrow> verification_mode option \<Rightarrow> verification_mode" where
  "resolve_verification_mode current candidate =
     (case candidate of
        None \<Rightarrow> current
      | Some c \<Rightarrow> if c = Vm_none then current else if current = Vm_none then c else if mode_rank c > mode_rank current then c else current)"

text \<open>The reasons against an action; \<open>verify\<close> passes when there are none.\<close>

definition verify_reasons :: "brain_command \<Rightarrow> action_result \<Rightarrow> verification_mode \<Rightarrow> string list" where
  "verify_reasons command a mode =
     (if ar_status a \<noteq> As_success then [''Action status is '' @ action_status_text (ar_status a) @ ''.''] else []) @
     (if mode \<in> {Vm_rule_based, Vm_second_opinion, Vm_panel_judge}
      then (if \<not> has_structured_evidence (Some a) then [''Missing structured evidence in action result.'']
            else concat (map (\<lambda>(k, v). let actual = dict_get_or (ar_outputs a) k PNone
                in if \<not> py_eq actual v
                   then [''Success criteria '' @ [CHR 0x27] @ k @ [CHR 0x27] @ '' not met. Expected '' @ py_str v @ '', got '' @ py_str actual @ ''.'']
                   else []) (bc_success_criteria command)))
      else []) @
     (if mode = Vm_panel_judge \<and> bc_kind command = Ck_tool \<and> bc_risk_level command = Rk_high \<and> ar_artifact_refs a = []
      then [''High-risk tool step requires artifact evidence for panel_judge mode.''] else [])"

definition brain_verify :: "brain_command \<Rightarrow> action_result \<Rightarrow> verification_mode \<Rightarrow> bool" where
  "brain_verify command a mode = (verify_reasons command a mode = [])"

record verifier_result =
  ve_family :: verifier_family
  ve_goal_id :: string
  ve_run_id :: string
  ve_target_id :: string
  ve_passed :: bool
  ve_reasons :: "string list"

text \<open>\<open>getattr(command, "freshness_contract", None)\<close> and the obligations: the command classes forbid extra
  fields and declare neither.\<close>

definition command_freshness_contract :: "brain_command \<Rightarrow> freshness_contract option" where
  "command_freshness_contract command = None"

definition command_freshness_obligations :: "brain_command \<Rightarrow> freshness_obligations option" where
  "command_freshness_obligations command = None"

definition verifier_reasons :: "verifier_family \<Rightarrow> brain_command \<Rightarrow> action_result \<Rightarrow> verification_mode \<Rightarrow> string list" where
  "verifier_reasons family command a mode =
     (if family = Vf_artifact_presence
      then (if ar_artifact_refs a = [] then [''Missing artifact_refs for artifact_presence verifier.''] else [])
      else if family = Vf_freshness
      then (let contract = command_freshness_contract command; obligations = command_freshness_obligations command
            in if contract = None \<or> obligations = None then [''Missing freshness contract for freshness verifier.'']
               else verify_freshness_answer contract obligations (Some a))
      else if \<not> brain_verify command a mode then [''Structural verify(...) reported failure.''] else [])"

text \<open>\<open>VerifierInvocation\<close> checks the identifiers, then \<open>run_verifier\<close> runs; the target is always given.\<close>

definition run_verifier ::
  "verifier_family \<Rightarrow> string \<Rightarrow> string \<Rightarrow> brain_command \<Rightarrow> action_result \<Rightarrow> string \<Rightarrow> verification_mode \<Rightarrow> goal_error + verifier_result" where
  "run_verifier family goal_id run_id command a target_id mode =
     (if goal_id = [] then Inl (Goal_ValueError ''VerifierInvocation.goal_id is required'')
      else if run_id = [] then Inl (Goal_ValueError ''VerifierInvocation.run_id is required'')
      else let reasons = verifier_reasons family command a mode
           in Inr \<lparr>ve_family = family, ve_goal_id = goal_id, ve_run_id = run_id, ve_target_id = target_id, ve_passed = (reasons = []),
                   ve_reasons = reasons\<rparr>)"

definition is_run_completion_confirmed :: "goal \<Rightarrow> verifier_result list \<Rightarrow> bool" where
  "is_run_completion_confirmed g results =
     (g_success_criteria g \<noteq> [] \<and> g_deliverables g \<noteq> [] \<and>
      (let passed = map ve_target_id (filter ve_passed results)
       in list_all (\<lambda>c. sc_criterion_id c \<in> set passed) (g_success_criteria g) \<and>
          list_all (\<lambda>d. dv_deliverable_id d \<in> set passed) (g_deliverables g)))"

section \<open>Verification of a goal\<close>

datatype verification_status = Vs_passed | Vs_failed | Vs_incomplete

record goal_verification =
  vr_status :: verification_status
  vr_unmet_criteria :: "string list"
  vr_missing_deliverables :: "string list"
  vr_triggered_failures :: "failure_condition list"
  vr_verifier_results :: "verifier_result list"

type_synonym verification_inputs = "string \<Rightarrow> (brain_command \<times> action_result) option"

text \<open>The loop over targets: those that lack an input or fail their verifier, and the results.\<close>

fun verify_targets ::
  "string \<Rightarrow> string \<Rightarrow> verification_mode \<Rightarrow> verification_inputs \<Rightarrow> (string \<times> verifier_family) list \<Rightarrow> goal_error + string list \<times> verifier_result list" where
  "verify_targets goal_id run_id mode inputs [] = Inr ([], [])"
| "verify_targets goal_id run_id mode inputs ((k, family) # items) =
     (case inputs k of
        None \<Rightarrow> rbind (verify_targets goal_id run_id mode inputs items) (\<lambda>(unmet, results). Inr (k # unmet, results))
      | Some (command, a) \<Rightarrow>
          rbind (run_verifier family goal_id run_id command a k mode) (\<lambda>r.
          rbind (verify_targets goal_id run_id mode inputs items) (\<lambda>(unmet, results).
            Inr (if ve_passed r then unmet else k # unmet, r # results))))"

definition verify_goal ::
  "goal \<Rightarrow> string \<Rightarrow> verification_mode \<Rightarrow> verification_inputs \<Rightarrow> verification_inputs \<Rightarrow> int option \<Rightarrow> goal_error + goal_verification" where
  "verify_goal g run_id mode criterion_inputs deliverable_inputs elapsed =
     (let exhausted = (case elapsed of None \<Rightarrow> [] | Some t \<Rightarrow> (case evaluate_goal_wall_clock_budget g t of None \<Rightarrow> [] | Some c \<Rightarrow> [c]));
          failures = exhausted @ filter (\<lambda>c. fc_kind c = Fk_operator_cancelled \<and> g_status g = Ms_cancelled) (g_failure_conditions g)
      in rbind (verify_targets (g_goal_id g) run_id mode criterion_inputs (map (\<lambda>c. (sc_criterion_id c, Vf_structural)) (g_success_criteria g))) (\<lambda>(unmet, results).
         rbind (verify_targets (g_goal_id g) run_id mode deliverable_inputs (map (\<lambda>d. (dv_deliverable_id d, dv_verification_hint d)) (g_deliverables g))) (\<lambda>(missing, more).
           Inr \<lparr>vr_status = (if failures \<noteq> [] then Vs_failed
                 else if unmet \<noteq> [] \<or> missing \<noteq> [] then (if results @ more \<noteq> [] then Vs_failed else Vs_incomplete) else Vs_passed),
                vr_unmet_criteria = unmet, vr_missing_deliverables = missing, vr_triggered_failures = failures,
                vr_verifier_results = results @ more\<rparr>)))"

definition verify_goal_completion ::
  "string \<Rightarrow> string \<Rightarrow> verification_mode \<Rightarrow> verification_inputs \<Rightarrow> verification_inputs \<Rightarrow> int option \<Rightarrow> goal_tables \<Rightarrow> goal_error + goal_verification" where
  "verify_goal_completion goal_id run_id mode criterion_inputs deliverable_inputs elapsed s =
     rbind (fst (require_goal goal_id s)) (\<lambda>g. verify_goal g run_id mode criterion_inputs deliverable_inputs elapsed)"

section \<open>Terminal states\<close>

datatype run_terminal_state = Rt_completed | Rt_cancelled | Rt_failed | Rt_blocked | Rt_needs_human | Rt_budget_exhausted

fun terminal_text :: "run_terminal_state \<Rightarrow> string" where
  "terminal_text Rt_completed = ''completed''"
| "terminal_text Rt_cancelled = ''cancelled''"
| "terminal_text Rt_failed = ''failed''"
| "terminal_text Rt_blocked = ''blocked''"
| "terminal_text Rt_needs_human = ''needs_human''"
| "terminal_text Rt_budget_exhausted = ''budget_exhausted''"

fun failure_kind_to_terminal :: "failure_kind \<Rightarrow> run_terminal_state" where
  "failure_kind_to_terminal Fk_deliverable_missing = Rt_failed"
| "failure_kind_to_terminal Fk_success_criterion_unmet = Rt_failed"
| "failure_kind_to_terminal Fk_budget_exhausted = Rt_budget_exhausted"
| "failure_kind_to_terminal Fk_blocker_unresolved = Rt_blocked"
| "failure_kind_to_terminal Fk_capability_boundary = Rt_needs_human"
| "failure_kind_to_terminal Fk_operator_cancelled = Rt_cancelled"

definition derive_run_terminal_state :: "goal \<Rightarrow> verifier_result list \<Rightarrow> failure_condition list \<Rightarrow> run_terminal_state" where
  "derive_run_terminal_state g results fired =
     (case fired of
        c # _ \<Rightarrow> failure_kind_to_terminal (fc_kind c)
      | [] \<Rightarrow> if is_run_completion_confirmed g results then Rt_completed else Rt_failed)"

definition resolve_run_terminal_persistence :: "run_terminal_state \<Rightarrow> string" where
  "resolve_run_terminal_persistence t =
     (if t = Rt_completed then ''completed'' else if t = Rt_cancelled then ''cancelled'' else ''failed'')"

section \<open>Turns with a typed goal\<close>

datatype mission_type = Mt_coding | Mt_research | Mt_operations | Mt_exploratory

record mission_verifier_expectation =
  mx_expected_verifier_families :: "verifier_family list"
  mx_autonomous_completion_supported :: bool

fun get_mission_verifier_expectation :: "mission_type \<Rightarrow> mission_verifier_expectation" where
  "get_mission_verifier_expectation Mt_coding =
     \<lparr>mx_expected_verifier_families = [Vf_artifact_presence, Vf_success_criteria_match], mx_autonomous_completion_supported = True\<rparr>"
| "get_mission_verifier_expectation Mt_research =
     \<lparr>mx_expected_verifier_families = [Vf_artifact_presence, Vf_freshness], mx_autonomous_completion_supported = True\<rparr>"
| "get_mission_verifier_expectation Mt_operations =
     \<lparr>mx_expected_verifier_families = [Vf_structural, Vf_success_criteria_match], mx_autonomous_completion_supported = True\<rparr>"
| "get_mission_verifier_expectation Mt_exploratory =
     \<lparr>mx_expected_verifier_families = [], mx_autonomous_completion_supported = False\<rparr>"

definition should_emit_exploratory_disclosure :: "mission_type \<Rightarrow> (mission_type \<times> string) option" where
  "should_emit_exploratory_disclosure t =
     (if mx_autonomous_completion_supported (get_mission_verifier_expectation t) then None
      else Some (t, if t = Mt_exploratory then ''mission_type_is_exploratory'' else ''no_verifier_expectation_registered''))"

record structured_turn_intent =
  ti_goal_id :: string
  ti_description :: string
  ti_mission_type :: "mission_type option"
  ti_success_criteria :: "success_criterion list"
  ti_deliverables :: "deliverable list"
  ti_failure_conditions :: "failure_condition list"

datatype typed_turn_intent = Structured_intent structured_turn_intent | Freeform_chat

definition resolve_typed_goal :: "typed_turn_intent \<Rightarrow> goal_error + goal option" where
  "resolve_typed_goal intent =
     (case intent of
        Freeform_chat \<Rightarrow> Inr None
      | Structured_intent t \<Rightarrow>
          rbind (goal_model_validate \<lparr>g_goal_id = ti_goal_id t, g_description = ti_description t, g_success_criteria = ti_success_criteria t,
              g_deliverables = ti_deliverables t, g_failure_conditions = ti_failure_conditions t, g_status = Ms_active, g_apd_plan_id = None,
              g_parent_goal_id = None, g_wall_clock_budget_seconds = None, g_milestone_checkpoints = [], g_cost_budget_tokens = None,
              g_cost_budget_dollars = None, g_external_blockers = [], g_owner_agent_id = None\<rparr>) (\<lambda>g. Inr (Some g)))"

definition empty_action_result :: "string \<Rightarrow> action_result" where
  "empty_action_result command_id =
     \<lparr>ar_command_id = command_id, ar_status = As_failed, ar_outputs = [], ar_artifact_refs = [], ar_memory_refs = []\<rparr>"

definition resolve_criterion_family :: "structured_turn_intent \<Rightarrow> verifier_family" where
  "resolve_criterion_family t =
     (case ti_mission_type t of
        None \<Rightarrow> Vf_structural
      | Some m \<Rightarrow> (case mx_expected_verifier_families (get_mission_verifier_expectation m) of f # _ \<Rightarrow> f | [] \<Rightarrow> Vf_structural))"

definition resolve_deliverable_family :: "structured_turn_intent \<Rightarrow> deliverable \<Rightarrow> verifier_family" where
  "resolve_deliverable_family t d =
     (case ti_mission_type t of
        None \<Rightarrow> dv_verification_hint d
      | Some m \<Rightarrow>
          (let families = mx_expected_verifier_families (get_mission_verifier_expectation m)
           in if dv_verification_hint d \<in> set families then dv_verification_hint d
              else case families of f # _ \<Rightarrow> f | [] \<Rightarrow> dv_verification_hint d))"

text \<open>Every target is checked on a command that does nothing; \<open>uuid i\<close> is the identifier of the \<open>i\<close>-th of them.\<close>

fun verify_no_op :: "(nat \<Rightarrow> string) \<Rightarrow> string \<Rightarrow> string \<Rightarrow> (string \<times> verifier_family) list \<Rightarrow> goal_error + verifier_result list" where
  "verify_no_op uuid goal_id run_id [] = Inr []"
| "verify_no_op uuid goal_id run_id ((k, family) # items) =
     rbind (run_verifier family goal_id run_id
         \<lparr>bc_command_id = uuid 0, bc_kind = Ck_tool, bc_success_criteria = [], bc_risk_level = Rk_low\<rparr> (empty_action_result (uuid 0)) k Vm_rule_based) (\<lambda>r.
     rbind (verify_no_op (\<lambda>i. uuid (Suc i)) goal_id run_id items) (\<lambda>rs. Inr (r # rs)))"

definition build_fail_closed_terminal_resolution ::
  "(nat \<Rightarrow> string) \<Rightarrow> typed_turn_intent \<Rightarrow> string \<Rightarrow> goal_error + (goal \<times> verifier_result list \<times> failure_condition list) option" where
  "build_fail_closed_terminal_resolution uuid intent run_id =
     rbind (resolve_typed_goal intent) (\<lambda>x.
       case (x, intent) of
         (Some g, Structured_intent t) \<Rightarrow>
           if (case ti_mission_type t of None \<Rightarrow> False | Some m \<Rightarrow> \<not> mx_autonomous_completion_supported (get_mission_verifier_expectation m))
           then Inr None
           else rbind (verify_no_op uuid (g_goal_id g) run_id
                    (map (\<lambda>c. (sc_criterion_id c, resolve_criterion_family t)) (g_success_criteria g) @
                     map (\<lambda>d. (dv_deliverable_id d, resolve_deliverable_family t d)) (g_deliverables g))) (\<lambda>results.
                  Inr (Some (g, results, [])))
       | _ \<Rightarrow> Inr None)"

end
