(* ===== verification/Goal_Driver.thy ===== *)
theory Goal_Driver
  imports Goal_Loop Goal_Verify
begin

text \<open>
  One turn after the other (\<open>modules/brain/runtime/goal\<close>): the evaluator of a turn (\<open>evaluator.py\<close>), the
  context card (\<open>context.py\<close>) and the driver (\<open>driver.py\<close>), whose loop ends because every turn is counted
  against a cap. The runner of a turn and the verifier are parameters; both may fail.
\<close>

section \<open>Evaluation of a turn\<close>

record goal_turn_result =
  tr_proposed_outcome :: goal_run_outcome
  tr_reason :: string
  tr_evidence_refs :: "string list"
  tr_next_instruction :: string
  tr_error_refs :: "string list"

definition verified_outcome :: "goal_run_outcome \<Rightarrow> goal_verification option \<Rightarrow> goal_run_outcome" where
  "verified_outcome proposed verification =
     (if proposed \<noteq> Ro_satisfied then proposed
      else case verification of Some v \<Rightarrow> if vr_status v = Vs_passed then Ro_satisfied else Ro_continue | None \<Rightarrow> Ro_continue)"

fun verification_status_text :: "verification_status \<Rightarrow> string" where
  "verification_status_text Vs_passed = ''passed''"
| "verification_status_text Vs_failed = ''failed''"
| "verification_status_text Vs_incomplete = ''incomplete''"

definition evaluation_reason :: "goal_turn_result \<Rightarrow> goal_verification option \<Rightarrow> goal_run_outcome \<Rightarrow> string" where
  "evaluation_reason result verification outcome =
     (if tr_proposed_outcome result = Ro_satisfied \<and> outcome \<noteq> Ro_satisfied
      then ''verification_required:'' @ (case verification of None \<Rightarrow> ''not_checked'' | Some v \<Rightarrow> verification_status_text (vr_status v))
      else tr_reason result)"

definition evaluate_turn :: "string \<Rightarrow> goal_turn_result \<Rightarrow> goal_verification option \<Rightarrow> goal_error + goal_run_evaluation" where
  "evaluate_turn goal_id result verification =
     (let outcome = verified_outcome (tr_proposed_outcome result) verification
      in GoalRunEvaluation goal_id outcome (outcome_to_status outcome) (evaluation_reason result verification outcome)
           (tr_evidence_refs result) (if outcome = Ro_continue then tr_next_instruction result else []))"

section \<open>Context card\<close>

definition cap_summary :: "goal_run_state \<Rightarrow> string" where
  "cap_summary st =
     ''turns='' @ int_str (gs_turn_count st) @ ''/'' @ int_str (gc_max_auto_turns (gs_caps st)) @ ''; wall_clock='' @
     int_str (gc_max_wall_clock_seconds (gs_caps st)) @ ''s; no_progress='' @ int_str (gs_repeated_no_progress_count st) @ ''/'' @
     int_str (gc_repeated_no_progress_limit (gs_caps st))"

definition bullets :: "string list \<Rightarrow> string list" where
  "bullets items = map (\<lambda>x. ''- '' @ x) (take 5 items)"

definition goal_context_prompt :: "goal \<Rightarrow> goal_run_state \<Rightarrow> ledger_summary \<Rightarrow> string" where
  "goal_context_prompt g st summary =
     (let instruction = (if gs_latest_next_instruction st = [] then gx_latest_next_instruction summary else gs_latest_next_instruction st);
          blockers = map eb_descriptor (g_external_blockers g);
          refs = (if gx_evidence_refs summary = [] then gs_latest_evidence_refs st else gx_evidence_refs summary)
      in str_join [CHR 0x0A]
        ([''Active goal: '' @ g_goal_id g, ''Status: '' @ status_text (gs_status st), ''Definition of done:''] @
         bullets (map sc_description (g_success_criteria g)) @
         (if g_deliverables g = [] then [] else ''Deliverables:'' # bullets (map dv_description (g_deliverables g))) @
         (if instruction = [] then [] else [''Current next step:'', ''- '' @ instruction]) @
         (if blockers = [] then [] else ''Known blockers:'' # bullets blockers) @
         (if refs = [] then [] else ''Evidence refs:'' # bullets refs) @ [''Caps: '' @ cap_summary st]))"

section \<open>Driver\<close>

record goal_driver =
  gv_uuid :: "nat \<Rightarrow> string"
  gv_turn_runner :: "string \<Rightarrow> goal_world \<Rightarrow> (goal_error + goal_turn_result) \<times> goal_world"
  gv_verifier :: "(goal \<Rightarrow> goal_run_state \<Rightarrow> goal_turn_result \<Rightarrow> goal_error + goal_verification option) option"

definition verification_summary :: "goal_verification option \<Rightarrow> string" where
  "verification_summary verification =
     (case verification of
        None \<Rightarrow> ''not_checked''
      | Some v \<Rightarrow> ''status='' @ verification_status_text (vr_status v) @ ''; unmet='' @ nat_digits (length (vr_unmet_criteria v)) @
          ''; missing='' @ nat_digits (length (vr_missing_deliverables v)) @ ''; failures='' @ nat_digits (length (vr_triggered_failures v)))"

definition turn_step ::
  "int \<Rightarrow> int \<Rightarrow> goal_run_state \<Rightarrow> goal_turn_result \<Rightarrow> goal_verification option \<Rightarrow> goal_run_evaluation \<Rightarrow> goal_run_step" where
  "turn_step started ended st result verification ev = strip_step
     \<lparr>gl_run_id = gs_run_id st, gl_session_id = gs_session_id st, gl_goal_id = gs_goal_id st, gl_turn_index = gs_turn_count st,
      gl_started_at_ms = started, gl_ended_at_ms = ended, gl_prompt_ref = ''goal-card:'' @ gs_run_id st @ '':'' @ int_str (gs_turn_count st),
      gl_action_summary = tr_reason result, gl_tool_evidence_refs = tr_evidence_refs result,
      gl_verification_summary = verification_summary verification, gl_evaluator_outcome = ge_outcome ev, gl_mission_status = ge_mission_status ev,
      gl_evaluator_reason = ge_reason ev, gl_next_instruction = ge_next_instruction ev, gl_error_refs = tr_error_refs result,
      gl_autonomy_run_id = gs_run_id st, gl_proof_ref = opt_or (gs_proof_packet_ref st) []\<rparr>"

definition verifier_verdict :: "goal_driver \<Rightarrow> goal \<Rightarrow> goal_run_state \<Rightarrow> goal_turn_result \<Rightarrow> goal_error + goal_verification option" where
  "verifier_verdict dr g st result = (case gv_verifier dr of None \<Rightarrow> Inr None | Some f \<Rightarrow> f g st result)"

text \<open>The body of the loop. The clock is read before the turn, in \<open>record_evaluation\<close>, and after it.\<close>

definition goal_turn ::
  "goal_driver \<Rightarrow> (nat \<Rightarrow> int) \<Rightarrow> goal_run_state \<Rightarrow> goal_world \<Rightarrow> (goal_error + goal_run_state \<times> goal_decision) \<times> goal_world" where
  "goal_turn dr clk st =
     st_bind (on_goals (require_goal (gs_goal_id st))) (\<lambda>g.
     st_bind (\<lambda>w. gv_turn_runner dr (goal_context_prompt g st (summary_for_run (gs_run_id st) w)) w) (\<lambda>result.
     st_bind (\<lambda>w. (verifier_verdict dr g st result, w)) (\<lambda>verification.
     st_bind (\<lambda>w. (evaluate_turn (gs_goal_id st) result verification, w)) (\<lambda>ev.
     st_bind (record_evaluation (\<lambda>i. clk (1 + i)) st ev) (\<lambda>(st, decision) w.
       (Inr (st, decision), ledger_append (turn_step (clk 0) (clk 5) st result verification ev) w))))))"

text \<open>Recording an evaluation counts the turn; the run goes on only below the cap.\<close>

lemma record_evaluation_counts:
  assumes "record_evaluation clk st ev w = (Inr (st', d), w')"
  shows "gs_turn_count st' = gs_turn_count st + 1" "gs_caps st' = gs_caps st" "gs_active st' = gd_should_continue d" "gs_run_id st' = gs_run_id st"
    "gs_goal_id st' = gs_goal_id st" "gs_status st' = gd_mission_status d"
    "gd_should_continue d \<Longrightarrow> gs_turn_count st' < gc_max_auto_turns (gs_caps st)"
proof -
  let ?u = "evaluated (clk 0) st ev"
  have d: "d = should_continue (clk 1) ?u ev" and fields: "gs_turn_count st' = gs_turn_count ?u \<and> gs_caps st' = gs_caps ?u \<and>
      gs_active st' = gd_should_continue d \<and> gs_run_id st' = gs_run_id ?u \<and> gs_goal_id st' = gs_goal_id ?u \<and> gs_status st' = gd_mission_status d"
    using assms
    by (auto simp: record_evaluation_def Let_def st_bind_def on_goals_def apply_terminal_goal_status_def split: if_splits prod.splits sum.splits)
  from fields show "gs_turn_count st' = gs_turn_count st + 1" "gs_caps st' = gs_caps st" "gs_active st' = gd_should_continue d"
    "gs_run_id st' = gs_run_id st" "gs_goal_id st' = gs_goal_id st" "gs_status st' = gd_mission_status d" by (simp_all add: evaluated_def)
  show "gd_should_continue d \<Longrightarrow> gs_turn_count st' < gc_max_auto_turns (gs_caps st)"
    using d fields by (auto simp: should_continue_def Let_def cap_stop_reason_def goal_run_cap_state_of_def evaluated_def split: if_splits)
qed

lemma on_goals_InrE:
  assumes "on_goals f w = (Inr a, w')"
  obtains s where "f (gw_goals w) = (Inr a, s)" "w' = w\<lparr>gw_goals := s\<rparr>"
  using assms by (auto simp: on_goals_def split: prod.splits)

lemma require_goal_keeps: "snd (require_goal k s) = s"
  by (simp add: require_goal_def)

lemma goal_turn_recorded:
  assumes "goal_turn dr clk st w = (Inr (st', d), w')"
  obtains g result verification w2 ev w3 where "fst (require_goal (gs_goal_id st) (gw_goals w)) = Inr g"
    "gv_turn_runner dr (goal_context_prompt g st (summary_for_run (gs_run_id st) w)) w = (Inr result, w2)"
    "verifier_verdict dr g st result = Inr verification"
    "evaluate_turn (gs_goal_id st) result verification = Inr ev"
    "record_evaluation (\<lambda>i. clk (1 + i)) st ev w2 = (Inr (st', d), w3)"
    "w' = ledger_append (turn_step (clk 0) (clk 5) st' result verification ev) w3"
proof -
  from assms show thesis unfolding goal_turn_def
  proof (elim st_bind_InrE on_goals_InrE)
    fix g t result w2 verification w2' ev w2'' x w3 s
    assume read: "require_goal (gs_goal_id st) (gw_goals w) = (Inr g, s)" "t = w\<lparr>gw_goals := s\<rparr>"
      and steps: "gv_turn_runner dr (goal_context_prompt g st (summary_for_run (gs_run_id st) t)) t = (Inr result, w2)"
        "(verifier_verdict dr g st result, w2) = (Inr verification, w2')"
        "(evaluate_turn (gs_goal_id st) result verification, w2') = (Inr ev, w2'')"
        "record_evaluation (\<lambda>i. clk (1 + i)) st ev w2'' = (Inr x, w3)"
        "(case x of (sta, decision) \<Rightarrow> \<lambda>w. (Inr (sta, decision),
            ledger_append (turn_step (clk 0) (clk 5) sta result verification ev) w)) w3 = (Inr (st', d), w')"
    from read have "t = w" using require_goal_keeps[of "gs_goal_id st" "gw_goals w"] by simp
    with read steps show thesis by (intro that[of g result w2 verification ev w3]) (auto split: prod.splits)
  qed
qed

function continue_active_run ::
  "goal_driver \<Rightarrow> (nat \<Rightarrow> nat \<Rightarrow> int) \<Rightarrow> goal_run_state \<Rightarrow> goal_world \<Rightarrow> (goal_error + goal_run_state) \<times> goal_world" where
  "continue_active_run dr clk st w =
     (if \<not> gs_active st then (Inr st, w)
      else case goal_turn dr (clk 0) st w of
        (Inl e, w') \<Rightarrow> (Inl e, w')
      | (Inr (st', decision), w') \<Rightarrow>
          if \<not> gd_should_continue decision then (Inr st', w') else continue_active_run dr (\<lambda>n. clk (Suc n)) st' w')"
  by pat_completeness auto

termination
proof (relation "measure (\<lambda>(dr, clk, st, w). nat (gc_max_auto_turns (gs_caps st) - gs_turn_count st))", goal_cases)
  case (2 dr clk st w a w' b st' d)
  then have turn: "goal_turn dr (clk 0) st w = (Inr (st', d), w')" and go: "gd_should_continue d" by auto
  from turn obtain ev w2 w3 where recorded: "record_evaluation (\<lambda>i. clk 0 (1 + i)) st ev w2 = (Inr (st', d), w3)"
    by (rule goal_turn_recorded)
  note counted = record_evaluation_counts[OF recorded]
  show ?case using counted(1,2) counted(7)[OF go] by simp
qed simp

declare continue_active_run.simps [simp del]

definition claim_session :: "string \<Rightarrow> (goal_world \<Rightarrow> (goal_error + 'a) \<times> goal_world) \<Rightarrow> goal_world \<Rightarrow> (goal_error + 'a) \<times> goal_world" where
  "claim_session session_id body w =
     (if session_id \<in> set (gw_claimed w) then (Inl (Goal_RuntimeError (''goal continuation already active: '' @ session_id)), w)
      else case body (w\<lparr>gw_claimed := session_id # gw_claimed w\<rparr>) of
        (r, w') \<Rightarrow> (r, w'\<lparr>gw_claimed := filter (\<lambda>x. x \<noteq> session_id) (gw_claimed w')\<rparr>))"

definition run_until_stop ::
  "goal_driver \<Rightarrow> (nat \<Rightarrow> nat \<Rightarrow> int) \<Rightarrow> string \<Rightarrow> string \<Rightarrow> goal_run_caps option \<Rightarrow> goal_world \<Rightarrow> (goal_error + goal_run_state) \<times> goal_world" where
  "run_until_stop dr clk session_id goal_id caps =
     claim_session session_id (st_bind (start_goal_run (gv_uuid dr) (clk 0) session_id goal_id caps)
       (continue_active_run dr (\<lambda>n. clk (Suc n))))"

definition resume_until_stop ::
  "goal_driver \<Rightarrow> (nat \<Rightarrow> nat \<Rightarrow> int) \<Rightarrow> goal_run_state \<Rightarrow> goal_world \<Rightarrow> (goal_error + goal_run_state) \<times> goal_world" where
  "resume_until_stop dr clk st = claim_session (gs_session_id st) (continue_active_run dr clk st)"

definition resume_goal_after_async_wake ::
  "(nat \<Rightarrow> int) \<Rightarrow> string \<Rightarrow> string \<Rightarrow> string list \<Rightarrow> goal_world \<Rightarrow> goal_run_state option \<times> goal_world" where
  "resume_goal_after_async_wake clk session_id reason evidence_refs w =
     (case resume_session_run clk session_id reason w of
        (None, w) \<Rightarrow> (None, w)
      | (Some st, w) \<Rightarrow> (Some st, append_wake_event (clk 2) (gs_run_id st) (gs_session_id st) (gs_goal_id st) reason evidence_refs w))"

definition build_child_task_step :: "int \<Rightarrow> goal_run_state \<Rightarrow> string \<Rightarrow> string \<Rightarrow> string \<Rightarrow> string list \<Rightarrow> goal_run_step" where
  "build_child_task_step now st task_id role summary evidence_refs = strip_step
     \<lparr>gl_run_id = gs_run_id st, gl_session_id = gs_session_id st, gl_goal_id = gs_goal_id st, gl_turn_index = gs_turn_count st,
      gl_started_at_ms = now, gl_ended_at_ms = now, gl_prompt_ref = ''child-task:'' @ task_id,
      gl_action_summary = ''child task '' @ role @ '': '' @ summary, gl_tool_evidence_refs = evidence_refs, gl_verification_summary = [],
      gl_evaluator_outcome = Ro_continue, gl_mission_status = Ms_active, gl_evaluator_reason = ''child_task_summary_ingested'',
      gl_next_instruction = [], gl_error_refs = [], gl_autonomy_run_id = [], gl_proof_ref = []\<rparr>"

definition build_learning_candidate :: "goal_run_state \<Rightarrow> string option \<Rightarrow> pydict" where
  "build_learning_candidate st ref =
     [(''kind'', PStr ''strategy_outcome''), (''goal_id'', PStr (gs_goal_id st)), (''run_id'', PStr (gs_run_id st)),
      (''status'', PStr (status_text (gs_status st))),
      (''proof_ref'', PStr (if opt_truthy ref then opt_or ref [] else opt_or (gs_proof_packet_ref st) [])),
      (''review_required'', PBool True)]"

end
