(* ===== verification/Goal_Lemmas.thy ===== *)
theory Goal_Lemmas
  imports Goal_Driver
begin

text \<open>
  Facts about goals that the properties share: a goal that was read is stable under validation,
  what a status change stores, which operations keep a goal that has ended, and what a completed
  turn tells.
\<close>

section \<open>Reading and writing a goal\<close>

lemma strip_optional_idem: "strip_or_none (opt_or (strip_or_none (opt_or x [])) []) = strip_or_none (opt_or x [])"
  by (cases x) (auto simp: strip_or_none_def opt_or_def Let_def str_strip_idem)

lemma goal_strip_idem: "goal_strip (goal_strip g) = goal_strip g"
  by (simp add: goal_strip_def strip_optional_idem str_strip_idem o_def strip_criterion_def strip_deliverable_def strip_condition_def
      strip_blocker_def strip_milestone_def)

lemma goal_strip_status [simp]: "goal_strip (g\<lparr>g_status := x\<rparr>) = goal_strip g\<lparr>g_status := x\<rparr>" "g_status (goal_strip g) = g_status g"
  by (simp_all add: goal_strip_def)

lemma goal_ok_status [simp]: "goal_ok (g\<lparr>g_status := x\<rparr>) = goal_ok g"
  by (simp add: goal_ok_def ids_unique_def)

lemma goal_model_validate_Inr:
  assumes "goal_model_validate g0 = Inr g"
  shows "goal_strip g = g" "goal_ok g" "g = goal_strip g0"
  using assms by (auto simp: goal_model_validate_def Let_def goal_strip_idem split: if_splits)

lemma goal_model_validate_stable: "goal_strip g = g \<Longrightarrow> goal_ok g \<Longrightarrow> goal_model_validate (g\<lparr>g_status := x\<rparr>) = Inr (g\<lparr>g_status := x\<rparr>)"
  by (simp add: goal_model_validate_def)

lemma require_goal_InrD:
  assumes "require_goal k s = (Inr g, t)"
  obtains r where "t = s" "sql_get gr_goal_id k (gt_goals s) = Some r" "goal_model_validate (gr_goal_json r) = Inr g"
  using assms by (auto simp: require_goal_def goal_get_def split: option.splits)

lemma require_goal_row:
  "sql_get gr_goal_id k (gt_goals s) = Some r \<Longrightarrow> fst (require_goal k s) = goal_model_validate (gr_goal_json r)"
  by (cases "goal_model_validate (gr_goal_json r)") (simp_all add: require_goal_def goal_get_def)

interpretation persisted_rows: keyed_update gr_goal_id "persisted_row now g reason" for now g reason
  by unfold_locales (simp add: persisted_row_def)

lemma persisted_row_simps [simp]:
  "gr_goal_json (persisted_row now g reason r) = g" "gr_status (persisted_row now g reason r) = g_status g"
  "gr_goal_id (persisted_row now g reason r) = gr_goal_id r"
  by (simp_all add: persisted_row_def)

lemma persist_goal_row:
  assumes "persist_goal now g reason s = (x, t)" "sql_get gr_goal_id k (gt_goals s) = Some r" "g_goal_id g = k"
  shows "x = Inr g" "sql_get gr_goal_id k (gt_goals t) = Some (persisted_row now g reason r)"
  using assms by (auto simp: persist_goal_def persisted_rows.get_update_at)

text \<open>A status change that succeeds stores the goal with the new status, and it can be read again.\<close>

lemma transition_status_stored:
  assumes "transition_status clk k new reason s = (Inr g', s')"
  obtains g where "require_goal k s = (Inr g, s)" "new \<in> set (allowed_goal_status_transitions (g_status g))" "g' = g\<lparr>g_status := new\<rparr>"
    "s' = record_goal_audit (clk 1) (g_goal_id g) (Some (g_status g)) (Some new) reason ''system'' [] (snd (persist_goal (clk 0) g' reason s))"
    "g_goal_id g = k \<Longrightarrow> require_goal k s' = (Inr g', s')"
proof -
  from assms obtain g where g: "require_goal k s = (Inr g, s)" and allowed: "new \<in> set (allowed_goal_status_transitions (g_status g))"
    and g': "g' = g\<lparr>g_status := new\<rparr>"
    and s': "s' = record_goal_audit (clk 1) (g_goal_id g) (Some (g_status g)) (Some new) reason ''system'' [] (snd (persist_goal (clk 0) g' reason s))"
    unfolding transition_status_def
    by (elim st_bind_InrE) (auto simp: validate_goal_status_transition_def persist_goal_def split: if_splits elim!: require_goal_InrD)
  from g obtain r where r: "sql_get gr_goal_id k (gt_goals s) = Some r" "goal_model_validate (gr_goal_json r) = Inr g"
    by (auto elim: require_goal_InrD)
  have "require_goal k s' = (Inr g', s')" if k: "g_goal_id g = k"
  proof -
    have "sql_get gr_goal_id k (gt_goals (snd (persist_goal (clk 0) g' reason s))) = Some (persisted_row (clk 0) g' reason r)"
      using r(1) k g' by (intro persist_goal_row(2)[of "clk 0" g' reason s]) (auto simp: prod_eq_iff)
    then have "goal_get k s' = Inr (Some g')"
      using goal_model_validate_stable[OF goal_model_validate_Inr(1,2)[OF r(2)], of new]
      by (simp add: s' record_goal_audit_def goal_get_def g')
    then show ?thesis by (simp add: require_goal_def)
  qed
  then show thesis using that g allowed g' s' by blast
qed

text \<open>A goal that cannot be read cannot be changed either: every call of the repository and of the long-running service that
  writes the goal of a given identifier reads it first. The calls that create a goal or only append to the audit
  trail are not among them.\<close>

definition writes_refused :: "goal_error \<Rightarrow> string \<Rightarrow> goal_tables \<Rightarrow> bool" where
  "writes_refused e k s =
     ((\<forall>clk new reason. transition_status clk k new reason s = (Inl e, s)) \<and>
      (\<forall>clk reason. goal_pause clk k reason s = (Inl e, s) \<and> goal_resume clk k reason s = (Inl e, s) \<and> goal_abort clk k reason s = (Inl e, s)) \<and>
      (\<forall>clk g reason. g_goal_id g = k \<longrightarrow> goal_replace clk g reason s = (Inl e, s)) \<and>
      (\<forall>now plan owner. set_apd_plan_id now k plan s = (Inl e, s) \<and> set_owner now k owner s = (Inl e, s)) \<and>
      (\<forall>clk a b reason. transfer_owner clk k a b reason s = (Inl e, s)) \<and>
      (\<forall>now b bid. add_external_blocker now k b s = (Inl e, s) \<and> clear_external_blocker now k bid s = (Inl e, s)) \<and>
      (\<forall>clk tokens dollars. consume_cost clk k tokens dollars s = (Inl e, s)) \<and>
      (\<forall>clk reason flag. apply_termination_signal clk k reason flag s = (Inl e, s) \<and> roll_up_child_goals clk k s = (Inl e, s)))"

lemma unreadable_goal: "goal_get k s = Inl e \<Longrightarrow> writes_refused e k s"
  by (simp add: writes_refused_def transition_status_def goal_pause_def goal_resume_def goal_abort_def goal_replace_def set_apd_plan_id_def set_owner_def
      transfer_owner_def add_external_blocker_def clear_external_blocker_def consume_cost_def apply_termination_signal_def roll_up_child_goals_def
      find_goal_def st_bind_def require_goal_def)

lemma require_unique_ids_distinct: "require_unique_ids key items = distinct (map key items)"
  by (simp add: require_unique_ids_def distinct_card[symmetric] card_distinct) (metis card_distinct distinct_card length_map list.set_map)

lemma str_strip_nonempty:
  assumes "c \<in> set s" "\<not> is_space c"
  shows "str_strip s \<noteq> []"
proof -
  have l: "dropWhile is_space s \<noteq> []" using assms by (auto simp: dropWhile_eq_Nil_conv)
  then have "\<exists>x\<in>set (dropWhile is_space s). \<not> is_space x" using hd_dropWhile[OF l] hd_in_set[OF l] by blast
  then show ?thesis by (simp add: str_strip_def str_lstrip_def str_rstrip_by_def dropWhile_eq_Nil_conv)
qed

lemma evaluate_goal_cost_budget_condition:
  assumes "evaluate_goal_cost_budget g tokens dollars = Some c" "goal_strip g = g" "goal_ok g"
  shows "strip_condition c = c" "condition_ok c"
    "evaluate_goal_cost_budget (g\<lparr>g_status := x, g_failure_conditions := y\<rparr>) tokens dollars = Some c"
proof -
  obtain suffix where c: "c = strip_condition \<lparr>fc_condition_id = g_goal_id g @ suffix, fc_kind = Fk_budget_exhausted, fc_description = ''cost_budget''\<rparr>"
    and suffix: "suffix \<in> {''-cost-budget-tokens'', ''-cost-budget-dollars''}"
    using assms(1) by (auto simp: evaluate_goal_cost_budget_def Let_def split: if_splits)
  show "strip_condition c = c" by (simp add: c strip_condition_def)
  have "evaluate_goal_cost_budget (g\<lparr>g_status := x, g_failure_conditions := y\<rparr>) tokens dollars = evaluate_goal_cost_budget g tokens dollars"
    by (simp add: evaluate_goal_cost_budget_def)
  with assms(1) show "evaluate_goal_cost_budget (g\<lparr>g_status := x, g_failure_conditions := y\<rparr>) tokens dollars = Some c" by simp
  have "CHR ''b'' \<in> set suffix" "\<not> is_space (CHR ''b'')" "str_strip ''cost_budget'' \<noteq> []" using suffix by auto code_simp+
  then show "condition_ok c" using str_strip_nonempty[of "CHR ''b''" "g_goal_id g @ suffix"] by (simp add: c condition_ok_def strip_condition_def)
qed

text \<open>One charge over the budget: the goal is halted, with the condition added.\<close>

lemma consume_cost_over:
  assumes "require_goal k s = (Inr g, s)" "g_goal_id g = k" "evaluate_goal_cost_budget g tokens dollars = Some c"
  obtains s' r where "consume_cost clk k tokens dollars s = (Inr (Some (g\<lparr>g_status := Ms_halted, g_failure_conditions := g_failure_conditions g @ [c]\<rparr>)), s')"
    "sql_get gr_goal_id k (gt_goals s') = Some r" "gr_goal_json r = g\<lparr>g_status := Ms_halted, g_failure_conditions := g_failure_conditions g @ [c]\<rparr>"
proof -
  let ?g = "g\<lparr>g_status := Ms_halted, g_failure_conditions := g_failure_conditions g @ [c]\<rparr>"
  let ?p = "snd (persist_goal (clk 0) ?g ''cost_budget'' s)"
  let ?s' = "if g_status g \<noteq> Ms_halted then record_goal_audit (clk 1) (g_goal_id g) (Some (g_status g)) (Some Ms_halted) ''cost_budget'' ''system'' [] ?p else ?p"
  from assms(1) obtain r where r: "sql_get gr_goal_id k (gt_goals s) = Some r" "goal_model_validate (gr_goal_json r) = Inr g"
    by (auto elim: require_goal_InrD)
  have "goal_get k s = Inr (Some g)" using r by (simp add: goal_get_def)
  then have "consume_cost clk k tokens dollars s = (Inr (Some ?g), ?s')"
    using assms by (simp add: consume_cost_def find_goal_def st_bind_def goal_replace_def persist_goal_def)
  moreover have "sql_get gr_goal_id k (gt_goals ?s') = Some (persisted_row (clk 0) ?g ''cost_budget'' r)"
    using persist_goal_row(2)[OF surjective_pairing r(1), of ?g "clk 0" "''cost_budget''"] assms(2) by (simp add: record_goal_audit_def)
  ultimately show thesis using that[of ?s' "persisted_row (clk 0) ?g ''cost_budget'' r"] by simp
qed

lemma validate_audits_bad: "a \<in> set as \<Longrightarrow> lifecycle_audit_record a = Inl Goal_ValidationError \<Longrightarrow> validate_audits as = Inl Goal_ValidationError"
proof (induction as)
  case (Cons b as)
  then show ?case by (cases "lifecycle_audit_record b") (auto simp: lifecycle_audit_record_def split: if_splits)
qed simp

section \<open>Turns of a run\<close>

text \<open>The run and the world after a number of turns that all went on.\<close>

fun after_turns :: "goal_driver \<Rightarrow> (nat \<Rightarrow> nat \<Rightarrow> int) \<Rightarrow> nat \<Rightarrow> goal_run_state \<Rightarrow> goal_world \<Rightarrow> (goal_run_state \<times> goal_world) option" where
  "after_turns dr clk 0 st w = Some (st, w)"
| "after_turns dr clk (Suc n) st w =
     (case goal_turn dr (clk 0) st w of
        (Inl _, _) \<Rightarrow> None
      | (Inr (st', d), w') \<Rightarrow> if gd_should_continue d then after_turns dr (\<lambda>i. clk (Suc i)) n st' w' else None)"

text \<open>A run that is driven ends inactive, within its cap, and its last turn is the one that ended it.\<close>

lemma continue_active_run_ends:
  assumes "continue_active_run dr clk st w = (Inr st', w')" "gs_active st" "gs_turn_count st < gc_max_auto_turns (gs_caps st)"
  shows "\<not> gs_active st' \<and> gs_turn_count st < gs_turn_count st' \<and> gs_turn_count st' \<le> gc_max_auto_turns (gs_caps st) \<and>
    gs_caps st' = gs_caps st \<and> gs_run_id st' = gs_run_id st \<and> gs_goal_id st' = gs_goal_id st \<and>
    (\<exists>st0 d w0. let n = nat (gs_turn_count st' - gs_turn_count st) - 1 in after_turns dr clk n st w = Some (st0, w0) \<and>
       gs_run_id st0 = gs_run_id st \<and> gs_goal_id st0 = gs_goal_id st \<and> goal_turn dr (clk n) st0 w0 = (Inr (st', d), w'))"
  using assms
proof (induction dr clk st w rule: continue_active_run.induct)
  case (1 dr clk st w)
  obtain st1 d w1 where turn: "goal_turn dr (clk 0) st w = (Inr (st1, d), w1)"
    and rest: "(if \<not> gd_should_continue d then (Inr st1, w1) else continue_active_run dr (\<lambda>n. clk (Suc n)) st1 w1) = (Inr st', w')"
    using 1(2,3) by (simp add: continue_active_run.simps[of dr clk st] split: prod.splits sum.splits)
  from turn obtain ev w2 w3 where recorded: "record_evaluation (\<lambda>i. clk 0 (1 + i)) st ev w2 = (Inr (st1, d), w3)"
    by (rule goal_turn_recorded)
  note counted = record_evaluation_counts[OF recorded]
  show ?case
  proof (cases "gd_should_continue d")
    case False
    with rest have "st' = st1" "w' = w1" by simp_all
    with False counted 1(4) turn show ?thesis by (auto simp: Let_def)
  next
    case go: True
    with rest have run: "continue_active_run dr (\<lambda>n. clk (Suc n)) st1 w1 = (Inr st', w')" by simp
    have active: "gs_active st1" "gs_turn_count st1 < gc_max_auto_turns (gs_caps st1)" using go counted counted(7)[OF go] by simp_all
    from 1(1)[OF _ turn[symmetric] refl refl, OF _ _ run active] 1(3) go
    have IH: "\<not> gs_active st'" "gs_turn_count st1 < gs_turn_count st'" "gs_turn_count st' \<le> gc_max_auto_turns (gs_caps st1)"
      "gs_caps st' = gs_caps st1" "gs_run_id st' = gs_run_id st1" "gs_goal_id st' = gs_goal_id st1"
      and last: "\<exists>st0 d w0. let n = nat (gs_turn_count st' - gs_turn_count st1) - 1 in after_turns dr (\<lambda>i. clk (Suc i)) n st1 w1 = Some (st0, w0) \<and>
         gs_run_id st0 = gs_run_id st1 \<and> gs_goal_id st0 = gs_goal_id st1 \<and> goal_turn dr (clk (Suc n)) st0 w0 = (Inr (st', d), w')"
      by blast+
    let ?n = "nat (gs_turn_count st' - gs_turn_count st1) - 1"
    have n: "nat (gs_turn_count st' - gs_turn_count st) - 1 = Suc ?n" using IH(2) counted(1) by simp
    from last obtain st0 d' w0 where st0: "after_turns dr (\<lambda>i. clk (Suc i)) ?n st1 w1 = Some (st0, w0)" "gs_run_id st0 = gs_run_id st1"
      "gs_goal_id st0 = gs_goal_id st1" "goal_turn dr (clk (Suc ?n)) st0 w0 = (Inr (st', d'), w')" by (auto simp: Let_def)
    have "after_turns dr clk (Suc ?n) st w = Some (st0, w0)" using turn go st0(1) by simp
    with st0 IH counted show ?thesis unfolding n Let_def by auto
  qed
qed

lemma run_until_stop_InrD:
  assumes "run_until_stop dr clk session_id goal_id caps w = (Inr st, w')"
  obtains st0 w0 w1 where "start_goal_run (gv_uuid dr) (clk 0) session_id goal_id caps (w\<lparr>gw_claimed := session_id # gw_claimed w\<rparr>) = (Inr st0, w0)"
    "continue_active_run dr (\<lambda>n. clk (Suc n)) st0 w0 = (Inr st, w1)" "w' = w1\<lparr>gw_claimed := filter (\<lambda>x. x \<noteq> session_id) (gw_claimed w1)\<rparr>"
  using assms unfolding run_until_stop_def claim_session_def
  by (auto split: if_splits prod.splits elim!: st_bind_InrE)

lemma start_goal_run_fresh:
  assumes "start_goal_run uuid clk session_id goal_id caps w = (Inr st, w')"
  shows "gs_active st" "gs_turn_count st = 0" "gs_caps st = (case caps of None \<Rightarrow> default_goal_run_caps | Some c \<Rightarrow> c)"
    "gs_goal_id st = str_strip goal_id"
  using assms unfolding start_goal_run_def strip_required_def
  by (auto elim!: st_bind_InrE simp: Let_def split: if_splits)

lemma run_until_stop_ends:
  assumes "run_until_stop dr clk session_id goal_id caps w = (Inr st, w')" "1 \<le> gc_max_auto_turns (case caps of None \<Rightarrow> default_goal_run_caps | Some c \<Rightarrow> c)"
  shows "\<not> gs_active st \<and> 1 \<le> gs_turn_count st \<and> gs_turn_count st \<le> gc_max_auto_turns (case caps of None \<Rightarrow> default_goal_run_caps | Some c \<Rightarrow> c)"
    "\<exists>st0 w0 st1 w1 d w2. start_goal_run (gv_uuid dr) (clk 0) session_id goal_id caps (w\<lparr>gw_claimed := session_id # gw_claimed w\<rparr>) = (Inr st0, w0) \<and>
       after_turns dr (\<lambda>i. clk (Suc i)) (nat (gs_turn_count st) - 1) st0 w0 = Some (st1, w1) \<and>
       gs_run_id st1 = gs_run_id st \<and> gs_goal_id st1 = str_strip goal_id \<and>
       goal_turn dr (clk (nat (gs_turn_count st))) st1 w1 = (Inr (st, d), w2) \<and> gw_goals w' = gw_goals w2"
proof -
  from assms(1) obtain st0 w0 w2 where start: "start_goal_run (gv_uuid dr) (clk 0) session_id goal_id caps (w\<lparr>gw_claimed := session_id # gw_claimed w\<rparr>) = (Inr st0, w0)"
    and run: "continue_active_run dr (\<lambda>n. clk (Suc n)) st0 w0 = (Inr st, w2)"
    and w': "w' = w2\<lparr>gw_claimed := filter (\<lambda>x. x \<noteq> session_id) (gw_claimed w2)\<rparr>" by (rule run_until_stop_InrD)
  note fresh = start_goal_run_fresh[OF start]
  note ends = continue_active_run_ends[OF run fresh(1)]
  show turns: "\<not> gs_active st \<and> 1 \<le> gs_turn_count st \<and> gs_turn_count st \<le> gc_max_auto_turns (case caps of None \<Rightarrow> default_goal_run_caps | Some c \<Rightarrow> c)"
    using ends fresh assms(2) by simp
  have n: "Suc (nat (gs_turn_count st) - 1) = nat (gs_turn_count st)" using turns by simp
  from ends fresh assms(2) obtain st1 w1 d where "after_turns dr (\<lambda>i. clk (Suc i)) (nat (gs_turn_count st) - 1) st0 w0 = Some (st1, w1)"
    "gs_run_id st1 = gs_run_id st" "gs_goal_id st1 = str_strip goal_id"
    "goal_turn dr (clk (Suc (nat (gs_turn_count st) - 1))) st1 w1 = (Inr (st, d), w2)" by (auto simp: Let_def)
  with start w' show "\<exists>st0 w0 st1 w1 d w2. start_goal_run (gv_uuid dr) (clk 0) session_id goal_id caps (w\<lparr>gw_claimed := session_id # gw_claimed w\<rparr>) = (Inr st0, w0) \<and>
       after_turns dr (\<lambda>i. clk (Suc i)) (nat (gs_turn_count st) - 1) st0 w0 = Some (st1, w1) \<and>
       gs_run_id st1 = gs_run_id st \<and> gs_goal_id st1 = str_strip goal_id \<and>
       goal_turn dr (clk (nat (gs_turn_count st))) st1 w1 = (Inr (st, d), w2) \<and> gw_goals w' = gw_goals w2"
    unfolding n by (intro exI[of _ st0] exI[of _ w0] exI[of _ st1] exI[of _ w1] exI[of _ d] exI[of _ w2]) simp
qed

text \<open>Only a verified proposal completes.\<close>

lemma decision_completed:
  "gd_mission_status (should_continue now st ev) = Ms_completed \<Longrightarrow> ge_mission_status ev = Ms_completed"
  by (auto simp: should_continue_def Let_def split: if_splits)

lemma evaluate_turn_completed:
  assumes "evaluate_turn k result verification = Inr ev" "ge_mission_status ev = Ms_completed"
  shows "tr_proposed_outcome result = Ro_satisfied" "\<exists>v. verification = Some v \<and> vr_status v = Vs_passed"
  using assms
  by (auto simp: evaluate_turn_def GoalRunEvaluation_def Let_def verified_outcome_def split: if_splits option.splits elim!: outcome_to_status.elims)

lemma record_evaluation_decision:
  "record_evaluation clk st ev w = (Inr (st', d), w') \<Longrightarrow> d = should_continue (clk 1) (evaluated (clk 0) st ev) ev"
  by (auto simp: record_evaluation_def Let_def st_bind_def split: if_splits prod.splits sum.splits)

lemma run_save_goals [simp]: "gw_goals (run_save st w) = gw_goals w"
  by (simp add: run_save_def)

lemma run_save_stored: "sql_get gs_run_id (gs_run_id st) (gw_runs (run_save st w)) = Some st"
  by (cases "sql_get gs_run_id (gs_run_id st) (gw_runs w)") (auto simp: run_save_def sql_get_append sql_get_replace, metis sql_get_Some image_eqI)

lemma resume_session_run_goals: "resume_session_run clk session_id reason w = (x, w') \<Longrightarrow> gw_goals w' = gw_goals w"
  by (auto simp: resume_session_run_def deactivate_session_def Let_def split: option.splits if_splits)

text \<open>A turn that ends the run moves the stored goal to the status of the decision.\<close>

lemma record_evaluation_ends:
  assumes "record_evaluation clk st ev w = (Inr (st', d), w')" "gd_mission_status d \<noteq> Ms_active" "gd_mission_status d \<noteq> Ms_cancelled"
  obtains reason g where "transition_status (\<lambda>i. clk (2 + i)) (gs_goal_id st) (gd_mission_status d) reason (gw_goals w) = (Inr g, gw_goals w')"
proof -
  let ?u = "evaluated (clk 0) st ev"
  let ?p = "?u\<lparr>gs_status := gd_mission_status d, gs_active := gd_should_continue d\<rparr>"
  let ?r = "if gd_stop_reason d = [] then ge_reason ev else gd_stop_reason d"
  have d: "d = should_continue (clk 1) ?u ev" by (rule record_evaluation_decision[OF assms(1)])
  have stop: "\<not> gd_should_continue d" using d assms(2) by (auto simp: should_continue_def Let_def split: if_splits)
  have "st_bind (apply_terminal_goal_status (\<lambda>i. clk (2 + i)) ?p ?r) (\<lambda>persisted w.
      let w = run_save persisted w; persisted = persisted\<lparr>gs_proof_packet_ref := proof_ref persisted\<rparr>
      in (Inr (persisted, d), run_save persisted w)) w = (Inr (st', d), w')"
    using assms(1) stop d unfolding record_evaluation_def Let_def by (auto split: if_splits)
  then obtain p w1 where "apply_terminal_goal_status (\<lambda>i. clk (2 + i)) ?p ?r w = (Inr p, w1)" "gw_goals w' = gw_goals w1"
    by (elim st_bind_InrE) (auto simp: Let_def)
  then show thesis using assms(3) that
    by (auto simp: apply_terminal_goal_status_def evaluated_def elim!: st_bind_InrE on_goals_InrE)
qed

lemma goal_turn_completed:
  assumes "goal_turn dr clk st0 w0 = (Inr (st, d), w')" "gs_status st = Ms_completed"
  obtains g result w1 v where "fst (require_goal (gs_goal_id st0) (gw_goals w0)) = Inr g"
    "gv_turn_runner dr (goal_context_prompt g st0 (summary_for_run (gs_run_id st0) w0)) w0 = (Inr result, w1)"
    "tr_proposed_outcome result = Ro_satisfied" "verifier_verdict dr g st0 result = Inr (Some v)" "vr_status v = Vs_passed"
proof -
  from assms(1) obtain g result verification w2 ev w3 where turn: "fst (require_goal (gs_goal_id st0) (gw_goals w0)) = Inr g"
    "gv_turn_runner dr (goal_context_prompt g st0 (summary_for_run (gs_run_id st0) w0)) w0 = (Inr result, w2)"
    "verifier_verdict dr g st0 result = Inr verification" "evaluate_turn (gs_goal_id st0) result verification = Inr ev"
    "record_evaluation (\<lambda>i. clk (1 + i)) st0 ev w2 = (Inr (st, d), w3)" by (rule goal_turn_recorded)
  from record_evaluation_counts(6)[OF turn(5)] record_evaluation_decision[OF turn(5)] assms(2) decision_completed
  have "ge_mission_status ev = Ms_completed" by metis
  from evaluate_turn_completed[OF turn(4) this] turn(1-3) that show thesis by blast
qed

section \<open>Verification\<close>

definition target_passes :: "verification_mode \<Rightarrow> verification_inputs \<Rightarrow> string \<Rightarrow> verifier_family \<Rightarrow> bool" where
  "target_passes mode inputs k family = (case inputs k of None \<Rightarrow> False | Some (command, a) \<Rightarrow> verifier_reasons family command a mode = [])"

lemma run_verifier_Inr:
  "run_verifier family goal_id run_id command a k mode = Inr r \<Longrightarrow>
     ve_target_id r = k \<and> ve_passed r = (verifier_reasons family command a mode = [])"
  by (auto simp: run_verifier_def Let_def split: if_splits)

lemma verify_targets_unmet:
  "verify_targets goal_id run_id mode inputs items = Inr (unmet, results) \<Longrightarrow>
     unmet = map fst (filter (\<lambda>(k, family). \<not> target_passes mode inputs k family) items)"
  by (induction items arbitrary: unmet results)
    (auto simp: target_passes_def rbind_Inr_iff split: option.splits prod.splits if_splits dest!: run_verifier_Inr)

lemma verify_targets_results:
  "verify_targets goal_id run_id mode inputs items = Inr (unmet, results) \<Longrightarrow>
     map (\<lambda>r. (ve_target_id r, ve_passed r)) results =
     map (\<lambda>(k, family). (k, target_passes mode inputs k family)) (filter (\<lambda>(k, family). inputs k \<noteq> None) items)"
  by (induction items arbitrary: unmet results)
    (auto simp: target_passes_def rbind_Inr_iff split: option.splits prod.splits if_splits dest!: run_verifier_Inr)

lemma verify_goal_InrE:
  assumes "verify_goal g run_id mode ci di elapsed = Inr v"
  obtains unmet results missing more where
    "verify_targets (g_goal_id g) run_id mode ci (map (\<lambda>c. (sc_criterion_id c, Vf_structural)) (g_success_criteria g)) = Inr (unmet, results)"
    "verify_targets (g_goal_id g) run_id mode di (map (\<lambda>d. (dv_deliverable_id d, dv_verification_hint d)) (g_deliverables g)) = Inr (missing, more)"
    "vr_verifier_results v = results @ more" "vr_missing_deliverables v = missing" "vr_unmet_criteria v = unmet"
    "(vr_status v = Vs_passed) = (vr_triggered_failures v = [] \<and> unmet = [] \<and> missing = [])"
  using assms unfolding verify_goal_def Let_def by (auto simp: rbind_Inr_iff split: prod.splits if_splits)

text \<open>A goal passes when nothing has failed it and every criterion and deliverable was checked and passed.\<close>

lemma verify_goal_passed:
  assumes "verify_goal g run_id mode ci di elapsed = Inr v"
  shows "vr_status v = Vs_passed \<longleftrightarrow> vr_triggered_failures v = [] \<and>
     list_all (\<lambda>c. target_passes mode ci (sc_criterion_id c) Vf_structural) (g_success_criteria g) \<and>
     list_all (\<lambda>d. target_passes mode di (dv_deliverable_id d) (dv_verification_hint d)) (g_deliverables g)"
  using assms by (elim verify_goal_InrE) (auto dest!: verify_targets_unmet simp: filter_empty_conv list_all_iff)

text \<open>The targets of the results that passed are the targets that pass.\<close>

lemma verify_targets_passed:
  assumes "verify_targets goal_id run_id mode inputs items = Inr (unmet, results)"
  shows "ve_target_id ` set (filter ve_passed results) = fst ` set (filter (\<lambda>(k, family). target_passes mode inputs k family) items)"
proof -
  have "ve_target_id ` set (filter ve_passed results) = fst ` {x \<in> set (map (\<lambda>r. (ve_target_id r, ve_passed r)) results). snd x}" by force
  also have "\<dots> = fst ` set (filter (\<lambda>(k, family). target_passes mode inputs k family) items)"
    unfolding verify_targets_results[OF assms] by (force simp: target_passes_def split: option.splits)
  finally show ?thesis .
qed

lemma verify_no_op_fails:
  "verify_no_op uuid goal_id run_id items = Inr results \<Longrightarrow> length results = length items \<and> list_all (\<lambda>r. \<not> ve_passed r) results"
proof (induction items arbitrary: uuid results)
  case (Cons x items)
  obtain k family where "x = (k, family)" by force
  with Cons.prems obtain r rs where r: "run_verifier family goal_id run_id \<lparr>bc_command_id = uuid 0, bc_kind = Ck_tool, bc_success_criteria = [], bc_risk_level = Rk_low\<rparr>
      (empty_action_result (uuid 0)) k Vm_rule_based = Inr r"
    and rs: "verify_no_op (\<lambda>i. uuid (Suc i)) goal_id run_id items = Inr rs" and "results = r # rs" by (auto simp: rbind_Inr_iff)
  moreover from run_verifier_Inr[OF r] have "\<not> ve_passed r"
    by (simp add: verifier_reasons_def command_freshness_contract_def brain_verify_def verify_reasons_def empty_action_result_def Let_def)
  ultimately show ?case using Cons.IH[OF rs] by simp
qed simp

end
