(* ===== verification/Goal_System.thy ===== *)
theory Goal_System
  imports Goal_Lemmas
begin

text \<open>
  The store of goals as a transition system: a step is one call of the repository or of the long-running
  service that writes. \<open>replace\<close> and the charge of costs that calls it do not go through the table of
  transitions: \<open>goal_step k\<close> has them for every goal but \<open>k\<close>. A goal \<open>k\<close> that has ended stays as it ended.
\<close>

inductive goal_step :: "string \<Rightarrow> goal_tables \<Rightarrow> goal_tables \<Rightarrow> bool" for k where
  gst_create: "goal_model_validate g = Inr g \<Longrightarrow> goal_step k s (snd (goal_create now g s))"
| gst_bind: "goal_step k s (snd (bind_to_session now gid sid active s))"
| gst_transition: "goal_step k s (snd (transition_status clk gid new reason s))"
| gst_pause: "goal_step k s (snd (goal_pause clk gid reason s))"
| gst_resume: "goal_step k s (snd (goal_resume clk gid reason s))"
| gst_abort: "goal_step k s (snd (goal_abort clk gid reason s))"
| gst_plan: "goal_step k s (snd (set_apd_plan_id now gid plan s))"
| gst_owner: "goal_step k s (snd (set_owner now gid owner s))"
| gst_transfer: "goal_step k s (snd (transfer_owner clk gid a b reason s))"
| gst_block: "goal_step k s (snd (add_external_blocker now gid b s))"
| gst_unblock: "goal_step k s (snd (clear_external_blocker now gid bid s))"
| gst_drift: "goal_step k s (record_drift_signal_audit now d s)"
| gst_cron: "goal_step k s (snd (advance_from_cron clk mgid s))"
| gst_plan_signal: "goal_step k s (snd (apply_task_plan_signal clk plan root status reason s))"
| gst_termination: "goal_step k s (snd (apply_termination_signal clk gid reason flag s))"
| gst_rollup: "goal_step k s (snd (roll_up_child_goals clk gid s))"
| gst_replace: "goal_model_validate g = Inr g \<Longrightarrow> g_goal_id g \<noteq> k \<Longrightarrow> goal_step k s (snd (goal_replace clk g reason s))"
| gst_cost: "gid \<noteq> k \<Longrightarrow> goal_step k s (snd (consume_cost clk gid tokens dollars s))"

definition goal_row_ok :: "goal_row \<Rightarrow> bool" where
  "goal_row_ok r = (gr_status r = g_status (gr_goal_json r) \<and> gr_goal_id r = str_strip (g_goal_id (gr_goal_json r)))"

definition goal_rows_ok :: "goal_tables \<Rightarrow> bool" where
  "goal_rows_ok s = (keys_unique gr_goal_id (gt_goals s) \<and> (\<forall>r\<in>set (gt_goals s). goal_row_ok r))"

definition has_ended :: "string \<Rightarrow> mission_status \<Rightarrow> goal_tables \<Rightarrow> bool" where
  "has_ended k x s = (x \<in> {Ms_completed, Ms_cancelled, Ms_halted} \<and> goal_rows_ok s \<and>
     map_option gr_status (sql_get gr_goal_id k (gt_goals s)) = Some x)"

definition keeps :: "('s \<Rightarrow> bool) \<Rightarrow> ('s \<Rightarrow> 'r \<times> 's) \<Rightarrow> bool" where
  "keeps P m = (\<forall>s. P s \<longrightarrow> P (snd (m s)))"

lemma keepsD: "keeps P m \<Longrightarrow> P s \<Longrightarrow> P (snd (m s))"
  by (simp add: keeps_def)

lemma keeps_return [intro]: "keeps P (\<lambda>s. (f s, s))"
  by (simp add: keeps_def)

lemma keeps_bind [intro]: "keeps P m \<Longrightarrow> (\<And>a. keeps P (f a)) \<Longrightarrow> keeps P (st_bind m f)"
  unfolding keeps_def st_bind_def by (auto split: prod.splits sum.splits)

lemma keeps_require:
  assumes "\<And>g s. P s \<Longrightarrow> require_goal k s = (Inr g, s) \<Longrightarrow> P (snd (f g s))"
  shows "keeps P (st_bind (require_goal k) f)"
  unfolding keeps_def
proof (intro allI impI)
  fix s assume "P s"
  then show "P (snd (st_bind (require_goal k) f s))"
    using assms[of s] require_goal_keeps[of k s] by (cases "require_goal k s"; cases "fst (require_goal k s)") (auto simp: st_bind_def)
qed

lemma has_ended_goals: "gt_goals t = gt_goals s \<Longrightarrow> has_ended k x t = has_ended k x s"
  by (simp add: has_ended_def goal_rows_ok_def)

lemma has_ended_audit [simp]: "has_ended k x (record_goal_audit now gid p n reason actor auth s) = has_ended k x s"
  by (rule has_ended_goals) (simp add: record_goal_audit_def)

text \<open>The one write of the repository: a goal that was read, stored under its identifier with an allowed status.\<close>

lemma persist_keeps_ended:
  assumes "has_ended k x s" "require_goal j s = (Inr g, s)" "g_status g' \<in> set (allowed_goal_status_transitions (g_status g))"
    "g_goal_id g' = g_goal_id g"
  shows "has_ended k x (snd (persist_goal now g' reason s))"
proof -
  from assms(2) obtain r where r: "sql_get gr_goal_id j (gt_goals s) = Some r" "goal_model_validate (gr_goal_json r) = Inr g"
    by (auto elim: require_goal_InrD)
  from r(1) have row: "r \<in> set (gt_goals s)" "gr_goal_id r = j" by (auto dest: sql_get_Some)
  with assms(1) have ok: "goal_row_ok r" by (auto simp: has_ended_def goal_rows_ok_def)
  from goal_model_validate_Inr(3)[OF r(2)] ok row have g: "g_goal_id g = j" "g_status g = gr_status r"
    by (auto simp: goal_row_ok_def goal_strip_def)
  have j: "str_strip j = j" using ok row by (auto simp: goal_row_ok_def)
  have rows: "goal_rows_ok (snd (persist_goal now g' reason s))"
    using assms(1,4) g j
    by (auto simp: has_ended_def goal_rows_ok_def persist_goal_def persisted_rows.unique_update set_sql_update goal_row_ok_def)
  have "map_option gr_status (sql_get gr_goal_id k (gt_goals (snd (persist_goal now g' reason s)))) = Some x"
  proof (cases "k = j")
    case True
    then have "gr_status r = x" using assms(1) r(1) by (auto simp: has_ended_def)
    then have "g_status g' = x" using assms(1,3) g(2) by (auto simp: has_ended_def)
    with True r(1) g assms(4) show ?thesis by (simp add: persist_goal_def persisted_rows.get_update_at)
  next
    case False
    with g assms(1,4) show ?thesis by (auto simp: has_ended_def persist_goal_def persisted_rows.get_update_at)
  qed
  with rows assms(1) show ?thesis by (simp add: has_ended_def)
qed

lemma persist_other_keeps:
  assumes "has_ended k x s" "g_goal_id g \<noteq> k" "str_strip (g_goal_id g) = g_goal_id g"
  shows "has_ended k x (snd (persist_goal now g reason s))"
  using assms
  by (auto simp: has_ended_def goal_rows_ok_def persist_goal_def persisted_rows.unique_update persisted_rows.get_update_at set_sql_update goal_row_ok_def)

lemma same_status_allowed: "x \<in> set (allowed_goal_status_transitions x)"
  by (cases x) simp_all

lemma persist_keeps_rule:
  assumes "\<And>g. g_status (f g) = g_status g" "\<And>g. g_goal_id (f g) = g_goal_id g"
  shows "keeps (has_ended k x) (st_bind (require_goal j) (\<lambda>g. persist_goal now (f g) reason))"
  by (intro keeps_require persist_keeps_ended) (auto simp: assms same_status_allowed)

lemma transition_keeps: "keeps (has_ended k x) (transition_status clk gid new reason)"
  unfolding transition_status_def
proof (rule keeps_require)
  fix g :: goal and s
  assume "has_ended k x s" "require_goal gid s = (Inr g, s)"
  then show "has_ended k x (snd (st_bind (\<lambda>s. (validate_goal_status_transition (g_status g) new, s)) (\<lambda>st.
     st_bind (persist_goal (clk 0) (g\<lparr>g_status := st\<rparr>) reason) (\<lambda>g' s.
       (Inr g', record_goal_audit (clk 1) (g_goal_id g) (Some (g_status g)) (Some st) reason ''system'' [] s))) s))"
    using persist_keeps_ended[of k x s gid g "g\<lparr>g_status := new\<rparr>" "clk 0" reason]
    by (auto simp: st_bind_def validate_goal_status_transition_def persist_goal_def)
qed

lemma abort_keeps: "keeps (has_ended k x) (goal_abort clk gid reason)"
  unfolding goal_abort_def
proof (rule keeps_require)
  fix g :: goal and s
  let ?g = "g\<lparr>g_status := Ms_cancelled, g_failure_conditions := g_failure_conditions g @ [build_operator_cancelled_failure_condition (g_goal_id g) reason]\<rparr>"
  assume "has_ended k x s" "require_goal gid s = (Inr g, s)"
  then show "has_ended k x (snd (st_bind (\<lambda>s. (validate_goal_status_transition (g_status g) Ms_cancelled, s)) (\<lambda>st.
     st_bind (persist_goal (clk 0) (g\<lparr>g_status := st, g_failure_conditions := g_failure_conditions g @
         [build_operator_cancelled_failure_condition (g_goal_id g) reason]\<rparr>) reason) (\<lambda>g' s.
       (Inr g', record_goal_audit (clk 1) (g_goal_id g) (Some (g_status g)) (Some Ms_cancelled)
          (if reason = [] then ''operator_cancelled'' else reason) ''system'' [] s))) s))"
    using persist_keeps_ended[of k x s gid g ?g "clk 0" reason]
    by (auto simp: st_bind_def validate_goal_status_transition_def persist_goal_def)
qed

lemma create_keeps:
  assumes "goal_model_validate g = Inr g"
  shows "keeps (has_ended k x) (goal_create now g)"
  unfolding keeps_def
proof (intro allI impI)
  fix s assume ended: "has_ended k x s"
  have g: "str_strip (g_goal_id g) = g_goal_id g" using arg_cong[OF goal_model_validate_Inr(3)[OF assms], of g_goal_id] by (simp add: goal_strip_def)
  show "has_ended k x (snd (goal_create now g s))"
  proof (cases "sql_get gr_goal_id (g_goal_id g) (gt_goals s)")
    case None
    then have "k \<noteq> g_goal_id g" using ended by (auto simp: has_ended_def)
    with None ended g show ?thesis
      by (auto simp: goal_create_def sql_insert_def has_ended_def goal_rows_ok_def goal_row_ok_def keys_unique_def sql_get_append sql_get_None)
  qed (use ended in \<open>simp add: goal_create_def sql_insert_get\<close>)
qed

lemma bind_keeps: "keeps (has_ended k x) (bind_to_session now gid sid active)"
  unfolding bind_to_session_def
  by (intro keeps_bind keeps_return keeps_require) (simp add: Let_def has_ended_def goal_rows_ok_def)

lemma owner_keeps: "keeps (has_ended k x) (set_owner now gid owner)" "keeps (has_ended k x) (set_apd_plan_id now gid plan)"
  unfolding set_owner_def set_apd_plan_id_def by (rule persist_keeps_rule; simp)+

lemma blocker_keeps: "keeps (has_ended k x) (clear_external_blocker now gid bid)" "keeps (has_ended k x) (add_external_blocker now gid b)"
  unfolding clear_external_blocker_def add_external_blocker_def Let_def by (rule persist_keeps_rule; simp)+

lemma transfer_keeps: "keeps (has_ended k x) (transfer_owner clk gid a b reason)"
  unfolding transfer_owner_def by (intro keeps_bind owner_keeps) (simp add: keeps_def)

lemma find_goal_keeps: "keeps P (find_goal gid)"
  by (simp add: keeps_def find_goal_def)

lemma keeps_cases [intro]:
  "(a = None \<Longrightarrow> keeps P n) \<Longrightarrow> (\<And>y. a = Some y \<Longrightarrow> keeps P (f y)) \<Longrightarrow> keeps P (\<lambda>s. case a of None \<Rightarrow> n s | Some y \<Rightarrow> f y s)"
  "(c \<Longrightarrow> keeps P m) \<Longrightarrow> (\<not> c \<Longrightarrow> keeps P m') \<Longrightarrow> keeps P (\<lambda>s. if c then m s else m' s)"
  by (auto simp: keeps_def split: option.splits)

lemmas goal_keeps = keeps_bind keeps_cases keeps_return find_goal_keeps transition_keeps owner_keeps

lemma cron_keeps: "keeps (has_ended k x) (advance_from_cron clk mgid)"
  unfolding advance_from_cron_def goal_resume_def by (intro goal_keeps)

lemma plan_signal_keeps: "keeps (has_ended k x) (apply_task_plan_signal clk plan root status reason)"
  unfolding apply_task_plan_signal_def resolve_goal_for_plan_def Let_def by (intro goal_keeps)

lemma termination_keeps: "keeps (has_ended k x) (apply_termination_signal clk gid reason flag)"
  unfolding apply_termination_signal_def Let_def by (intro goal_keeps)

lemma rollup_keeps: "keeps (has_ended k x) (roll_up_child_goals clk gid)"
  unfolding roll_up_child_goals_def by (intro goal_keeps)

lemma found_goal_id:
  assumes "goal_get gid s = Inr (Some g)" "has_ended k x s"
  shows "g_goal_id g = gid \<and> str_strip gid = gid"
proof -
  from assms(1) obtain r where r: "sql_get gr_goal_id gid (gt_goals s) = Some r" "goal_model_validate (gr_goal_json r) = Inr g"
    by (auto simp: goal_get_def elim!: rbind_InrE split: option.splits)
  then have "goal_row_ok r" "gr_goal_id r = gid" using assms(2) by (auto simp: has_ended_def goal_rows_ok_def dest: sql_get_Some)
  then show ?thesis using goal_model_validate_Inr(3) [OF r(2)] by (auto simp: goal_row_ok_def goal_strip_def)
qed

lemma replace_other_keeps:
  assumes "g_goal_id g \<noteq> k" "str_strip (g_goal_id g) = g_goal_id g"
  shows "keeps (has_ended k x) (goal_replace clk g reason)"
  unfolding goal_replace_def
proof (intro keeps_bind)
  show "keeps (has_ended k x) (require_goal (g_goal_id g))" by (simp add: keeps_def require_goal_keeps)
  show "keeps (has_ended k x) (persist_goal (clk 0) g reason)" using persist_other_keeps [OF _ assms] by (simp add: keeps_def)
qed (simp add: keeps_def)

lemma cost_other_keeps:
  assumes "gid \<noteq> k"
  shows "keeps (has_ended k x) (consume_cost clk gid tokens dollars)"
  unfolding keeps_def
proof (intro allI impI)
  fix s assume ended: "has_ended k x s"
  show "has_ended k x (snd (consume_cost clk gid tokens dollars s))"
  proof (cases "goal_get gid s")
    case (Inr found)
    then show ?thesis
    proof (cases found)
      case (Some g)
      have "g_goal_id g = gid \<and> str_strip gid = gid" by (rule found_goal_id [OF _ ended]) (use Inr Some in simp)
      then have "keeps (has_ended k x) (goal_replace clk (g\<lparr>g_status := y, g_failure_conditions := cs\<rparr>) reason)" for y cs reason
        using assms by (intro replace_other_keeps) auto
      then have kept: "keeps (has_ended k x) (st_bind (goal_replace clk (g\<lparr>g_status := y, g_failure_conditions := cs\<rparr>) reason)
          (\<lambda>g s. (Inr (Some g), s)))" for y cs reason by (intro keeps_bind) (simp_all add: keeps_def)
      show ?thesis
      proof (cases "evaluate_goal_cost_budget g tokens dollars")
        case None
        with Inr Some ended show ?thesis by (simp add: consume_cost_def find_goal_def st_bind_def)
      next
        case over: (Some c)
        have "consume_cost clk gid tokens dollars s = st_bind (goal_replace clk
            (g\<lparr>g_status := Ms_halted, g_failure_conditions := g_failure_conditions g @ [c]\<rparr>) ''cost_budget'') (\<lambda>g s. (Inr (Some g), s)) s"
          using Inr Some over by (simp add: consume_cost_def find_goal_def st_bind_def)
        then show ?thesis using keepsD [OF kept ended] by simp
      qed
    qed (use ended in \<open>simp add: consume_cost_def find_goal_def st_bind_def\<close>)
  qed (use ended in \<open>simp add: consume_cost_def find_goal_def st_bind_def\<close>)
qed

lemma validated_strip: "goal_model_validate g = Inr g \<Longrightarrow> str_strip (g_goal_id g) = g_goal_id g"
  by (drule goal_model_validate_Inr(3), drule arg_cong [of _ _ g_goal_id]) (simp add: goal_strip_def)

interpretation ended: invariant_system "goal_step k" "has_ended k x" for k x
proof unfold_locales
  fix s t
  assume "has_ended k x s" "goal_step k s t"
  from this(2,1) show "has_ended k x t"
    by cases (auto intro: keepsD create_keeps bind_keeps transition_keeps abort_keeps owner_keeps transfer_keeps blocker_keeps cron_keeps
        plan_signal_keeps termination_keeps rollup_keeps replace_other_keeps validated_strip cost_other_keeps simp: goal_pause_def goal_resume_def record_drift_signal_audit_def)
qed

end
