(* ===== verification/Goal_Properties.thy ===== *)
theory Goal_Properties
  imports Goal_System
begin

text \<open>
  Properties of goals and of the runs that work on them.
\<close>

section \<open>A sample\<close>

definition sample_goal :: goal where
  "sample_goal = \<lparr>g_goal_id = ''g1'', g_description = ''ship'',
     g_success_criteria = [\<lparr>sc_criterion_id = ''c1'', sc_description = ''tests pass'', sc_structural_check = ''exit_code''\<rparr>],
     g_deliverables = [\<lparr>dv_deliverable_id = ''d1'', dv_description = ''report'', dv_verification_hint = Vf_artifact_presence\<rparr>],
     g_failure_conditions = [], g_status = Ms_active, g_apd_plan_id = None, g_parent_goal_id = None, g_wall_clock_budget_seconds = None,
     g_milestone_checkpoints = [], g_cost_budget_tokens = Some 10, g_cost_budget_dollars = None, g_external_blockers = [],
     g_owner_agent_id = None\<rparr>"

definition sample_tables :: goal_tables where
  "sample_tables = snd (bind_to_session 1 ''g1'' ''s1'' True (snd (goal_create 0 sample_goal empty_goal_tables)))"

definition sample_world :: goal_world where
  "sample_world = \<lparr>gw_goals = sample_tables, gw_runs = [], gw_steps = [], gw_uuids = 0, gw_claimed = []\<rparr>"

definition sample_turn :: "goal_run_outcome \<Rightarrow> goal_turn_result" where
  "sample_turn outcome = \<lparr>tr_proposed_outcome = outcome, tr_reason = ''done'', tr_evidence_refs = [], tr_next_instruction = [], tr_error_refs = []\<rparr>"

definition sample_inputs :: verification_inputs where
  "sample_inputs = (\<lambda>_. Some (\<lparr>bc_command_id = ''m1'', bc_kind = Ck_tool, bc_success_criteria = [(''exit_code'', PInt 0)], bc_risk_level = Rk_low\<rparr>,
     \<lparr>ar_command_id = ''m1'', ar_status = As_success, ar_outputs = [(''exit_code'', PInt 0)],
      ar_artifact_refs = [\<lparr>af_ref = ''report.md'', af_label = None, af_meta = []\<rparr>], ar_memory_refs = []\<rparr>))"

definition sample_driver :: goal_driver where
  "sample_driver = \<lparr>gv_uuid = nat_digits, gv_turn_runner = (\<lambda>prompt w. (Inr (sample_turn Ro_satisfied), w)),
     gv_verifier = Some (\<lambda>g st result. rbind (verify_goal g (gs_run_id st) Vm_rule_based sample_inputs sample_inputs None) (\<lambda>v. Inr (Some v)))\<rparr>"

lemma sample_run:
  obtains st w where "run_until_stop sample_driver (\<lambda>_ _. 0) ''s1'' ''g1'' None sample_world = (Inr st, w)" "gs_status st = Ms_completed"
proof -
  have "case run_until_stop sample_driver (\<lambda>_ _. 0) ''s1'' ''g1'' None sample_world of (Inr st, w) \<Rightarrow> gs_status st = Ms_completed | _ \<Rightarrow> False"
    by code_simp
  with that show thesis by (auto split: prod.splits sum.splits)
qed

text \<open>A run that was started, and a driver whose turn is interrupted by the operator.\<close>

definition started_world :: goal_world where
  "started_world = snd (start_goal_run nat_digits (\<lambda>_. 0) ''s1'' ''g1'' None sample_world)"

definition started_run :: goal_run_state where
  "started_run = the (active_for_session ''s1'' started_world)"

definition sample_evaluation :: "goal_run_outcome \<Rightarrow> goal_run_evaluation" where
  "sample_evaluation outcome = \<lparr>ge_goal_id = ''g1'', ge_outcome = outcome, ge_mission_status = outcome_to_status outcome, ge_reason = ''done'',
     ge_evidence_refs = [], ge_next_instruction = []\<rparr>"

definition paused_world :: goal_world where
  "paused_world = snd (record_evaluation (\<lambda>_. 5) started_run (sample_evaluation Ro_needs_user) started_world)"

definition stopping_driver :: goal_driver where
  "stopping_driver = \<lparr>gv_uuid = nat_digits,
     gv_turn_runner = (\<lambda>prompt w. (Inr (sample_turn Ro_continue), snd (stop_session_run 3 ''s1'' [] w))), gv_verifier = None\<rparr>"

section \<open>Runs\<close>

text \<open>C26: driving a goal ends. \<open>run_until_stop\<close> is a total function whatever the turns, the verifier and the
  clock do; when it returns a run, the run is no longer active, it has recorded at least one turn and at most
  as many as its cap allows.\<close>

theorem goal_run_turns_bounded:
  assumes "run_until_stop dr clk session_id goal_id caps w = (Inr st, w')" and "cap = (case caps of None \<Rightarrow> default_goal_run_caps | Some c \<Rightarrow> c)"
    and "1 \<le> gc_max_auto_turns cap"
  shows "\<not> gs_active st \<and> 1 \<le> gs_turn_count st \<and> gs_turn_count st \<le> gc_max_auto_turns cap"
  using run_until_stop_ends(1)[OF assms(1)] assms(2,3) by simp

theorem goal_run_turns_bounded_witness:
  "\<exists>st w'. run_until_stop sample_driver (\<lambda>_ _. 0) ''s1'' ''g1'' None sample_world = (Inr st, w') \<and> \<not> gs_active st \<and> gs_turn_count st \<le> 3"
proof -
  obtain st w where run: "run_until_stop sample_driver (\<lambda>_ _. 0) ''s1'' ''g1'' None sample_world = (Inr st, w)" by (rule sample_run)
  from goal_run_turns_bounded[OF run refl] run show ?thesis by (simp add: default_goal_run_caps_def)
qed

text \<open>C27: a goal is completed by a run only when the last turn proposed it and the verification of the goal passed. When the
  verifier of the driver is \<open>verify_goal\<close>, on inputs that it takes from the turn, and a run that started with a cap of at
  least one turn returns as completed, take the run and the world as they are after all
  its turns but the last, from the start of the run: in the last turn the goal is read from the store, the turn is run
  and proposes that the goal is satisfied, and the verification of that goal, for that turn, passes: nothing had failed
  the goal, and every criterion and every deliverable had an input and its verifier passed on it.\<close>

theorem goal_completes_only_verified:
  assumes "run_until_stop dr clk session_id goal_id caps w = (Inr st, w')" and "gs_status st = Ms_completed"
    and "1 \<le> gc_max_auto_turns (case caps of None \<Rightarrow> default_goal_run_caps | Some c \<Rightarrow> c)"
    and "gv_verifier dr = Some (\<lambda>g st result. rbind (verify_goal g (gs_run_id st) mode (criterion_inputs result) (deliverable_inputs result) (elapsed st)) (\<lambda>v. Inr (Some v)))"
  shows "\<exists>st0 w0 st1 w1 d w2 g result w3 v.
    start_goal_run (gv_uuid dr) (clk 0) session_id goal_id caps (w\<lparr>gw_claimed := session_id # gw_claimed w\<rparr>) = (Inr st0, w0) \<and>
    after_turns dr (\<lambda>i. clk (Suc i)) (nat (gs_turn_count st) - 1) st0 w0 = Some (st1, w1) \<and>
    goal_turn dr (clk (nat (gs_turn_count st))) st1 w1 = (Inr (st, d), w2) \<and> gw_goals w' = gw_goals w2 \<and>
    fst (require_goal (str_strip goal_id) (gw_goals w1)) = Inr g \<and>
    gv_turn_runner dr (goal_context_prompt g st1 (summary_for_run (gs_run_id st) w1)) w1 = (Inr result, w3) \<and>
    tr_proposed_outcome result = Ro_satisfied \<and>
    verify_goal g (gs_run_id st) mode (criterion_inputs result) (deliverable_inputs result) (elapsed st1) = Inr v \<and> vr_triggered_failures v = [] \<and>
    list_all (\<lambda>c. target_passes mode (criterion_inputs result) (sc_criterion_id c) Vf_structural) (g_success_criteria g) \<and>
    list_all (\<lambda>d. target_passes mode (deliverable_inputs result) (dv_deliverable_id d) (dv_verification_hint d)) (g_deliverables g)"
proof -
  from run_until_stop_ends(2)[OF assms(1,3)] obtain st0 w0 st1 w1 d w2
    where start: "start_goal_run (gv_uuid dr) (clk 0) session_id goal_id caps (w\<lparr>gw_claimed := session_id # gw_claimed w\<rparr>) = (Inr st0, w0)"
      "after_turns dr (\<lambda>i. clk (Suc i)) (nat (gs_turn_count st) - 1) st0 w0 = Some (st1, w1)"
    and ids: "gs_run_id st1 = gs_run_id st" "gs_goal_id st1 = str_strip goal_id"
    and turn: "goal_turn dr (clk (nat (gs_turn_count st))) st1 w1 = (Inr (st, d), w2)" "gw_goals w' = gw_goals w2" by blast
  from turn(1) assms(2) obtain g result w3 v where read: "fst (require_goal (gs_goal_id st1) (gw_goals w1)) = Inr g"
    and run: "gv_turn_runner dr (goal_context_prompt g st1 (summary_for_run (gs_run_id st1) w1)) w1 = (Inr result, w3)"
      "tr_proposed_outcome result = Ro_satisfied"
    and verdict: "verifier_verdict dr g st1 result = Inr (Some v)" "vr_status v = Vs_passed"
    by (rule goal_turn_completed)
  have v: "verify_goal g (gs_run_id st) mode (criterion_inputs result) (deliverable_inputs result) (elapsed st1) = Inr v"
    using verdict(1) assms(4) ids(1) by (auto simp: verifier_verdict_def rbind_Inr_iff)
  show ?thesis using start turn v verify_goal_passed[OF v] verdict(2) read run ids
    by (intro exI[of _ st0] exI[of _ w0] exI[of _ st1] exI[of _ w1] exI[of _ d] exI[of _ w2] exI[of _ g] exI[of _ result] exI[of _ w3] exI[of _ v]) simp
qed

theorem goal_completes_only_verified_witness:
  "\<exists>st w'. run_until_stop sample_driver (\<lambda>_ _. 0) ''s1'' ''g1'' None sample_world = (Inr st, w') \<and>
    (\<exists>st0 w0 st1 w1 g result w2. after_turns sample_driver (\<lambda>_ _. 0) (nat (gs_turn_count st) - 1) st0 w0 = Some (st1, w1) \<and>
      fst (require_goal (str_strip ''g1'') (gw_goals w1)) = Inr g \<and>
      gv_turn_runner sample_driver (goal_context_prompt g st1 (summary_for_run (gs_run_id st) w1)) w1 = (Inr result, w2) \<and>
      tr_proposed_outcome result = Ro_satisfied)"
proof -
  obtain st w where run: "run_until_stop sample_driver (\<lambda>_ _. 0) ''s1'' ''g1'' None sample_world = (Inr st, w)" "gs_status st = Ms_completed"
    by (rule sample_run)
  have verifier: "gv_verifier sample_driver = Some (\<lambda>g st result. rbind (verify_goal g (gs_run_id st) Vm_rule_based sample_inputs sample_inputs None) (\<lambda>v. Inr (Some v)))"
    by (simp add: sample_driver_def)
  from goal_completes_only_verified[OF run, of Vm_rule_based "\<lambda>_. sample_inputs" "\<lambda>_. sample_inputs" "\<lambda>_. None"] verifier run
  show ?thesis by (simp add: default_goal_run_caps_def) blast
qed

text \<open>C28: a goal that has ended stays as it ended under the calls that the transition table governs. Whatever sequence of
  creations, bindings, transitions, pauses, resumes, aborts, changes of plan, owner and blockers, drift records, cron
  advances, plan signals, termination signals and roll-ups follows, of this goal or of others, a completed, cancelled or
  halted goal keeps its status. The two calls that write around the table, \<open>replace\<close> and \<open>consume_cost\<close>, are allowed for
  other goals only: on the goal itself they do change it.\<close>

theorem finished_goals_are_final:
  assumes "reach (goal_step k) s t" and "has_ended k x s"
  shows "map_option gr_status (sql_get gr_goal_id k (gt_goals t)) = Some x"
  using ended.inv_reach[OF assms] by (simp add: has_ended_def)

theorem finished_goals_are_final_witness:
  "map_option gr_status (sql_get gr_goal_id ''g1'' (gt_goals (snd (consume_cost (\<lambda>_. 7) ''g2'' 99 0
     (snd (goal_resume (\<lambda>_. 6) ''g1'' ''again'' (snd (goal_abort (\<lambda>_. 5) ''g1'' ''enough'' sample_tables)))))))) = Some Ms_cancelled"
proof (rule finished_goals_are_final[where s = "snd (goal_abort (\<lambda>_. 5) ''g1'' ''enough'' sample_tables)"])
  show "reach (goal_step ''g1'') (snd (goal_abort (\<lambda>_. 5) ''g1'' ''enough'' sample_tables)) (snd (consume_cost (\<lambda>_. 7) ''g2'' 99 0
     (snd (goal_resume (\<lambda>_. 6) ''g1'' ''again'' (snd (goal_abort (\<lambda>_. 5) ''g1'' ''enough'' sample_tables))))))"
    by (rule reach_step [OF reach_one [where step = "goal_step ''g1''", OF gst_resume] gst_cost]) simp
qed code_simp

section \<open>What goes wrong\<close>

text \<open>C29: an operator's stop during a turn is lost. The turn stops the run of the session, which is stored as cancelled
  and inactive; the driver then records the turn from the state that it held before, and the run is stored as
  active again and goes on.\<close>

theorem stop_during_turn_is_lost:
  assumes "active_for_session session_id w = Some st" and "fst (require_goal (gs_goal_id st) (gw_goals w)) = Inr g"
    and "stop_session_run now session_id reason w = (Some stopped, w1)"
    and "gv_turn_runner dr (goal_context_prompt g st (summary_for_run (gs_run_id st) w)) w = (Inr result, w1)"
    and "verifier_verdict dr g st result = Inr verification" and "evaluate_turn (gs_goal_id st) result verification = Inr ev"
    and "gd_should_continue (should_continue (clk 2) (evaluated (clk 1) st ev) ev)"
  shows "sql_get gs_run_id (gs_run_id st) (gw_runs w1) = Some stopped \<and> \<not> gs_active stopped \<and> gs_status stopped = Ms_cancelled \<and>
    (\<exists>st' d w'. goal_turn dr clk st w = (Inr (st', d), w') \<and> sql_get gs_run_id (gs_run_id st) (gw_runs w') = Some st' \<and>
       gs_active st' \<and> gs_status st' = Ms_active)"
proof -
  let ?u = "evaluated (clk 1) st ev" and ?d = "should_continue (clk 2) (evaluated (clk 1) st ev) ev"
  let ?st' = "?u\<lparr>gs_status := gd_mission_status ?d, gs_active := gd_should_continue ?d\<rparr>"
  have stopped: "stopped = st\<lparr>gs_active := False, gs_status := Ms_cancelled,
      gs_last_evaluator_reason := str_strip (if reason = [] then ''operator_stop'' else reason), gs_updated_at_ms := now\<rparr>" "w1 = run_save stopped w"
    using assms(1,3) by (auto simp: stop_session_run_def set_session_run_def Let_def)
  have status: "gd_mission_status ?d = Ms_active" using assms(7) by (auto simp: should_continue_def Let_def split: if_splits)
  have "ge_goal_id ev = gs_goal_id st" using assms(6) by (auto simp: evaluate_turn_def GoalRunEvaluation_def Let_def split: if_splits)
  then have recorded: "record_evaluation (\<lambda>i. clk (1 + i)) st ev w1 = (Inr (?st', ?d), run_save ?st' w1)"
    using assms(7) by (simp add: record_evaluation_def Let_def numeral_2_eq_2)
  have "require_goal (gs_goal_id st) (gw_goals w) = (Inr g, gw_goals w)"
    using assms(2) require_goal_keeps[of "gs_goal_id st" "gw_goals w"] by (simp add: prod_eq_iff)
  then have "goal_turn dr clk st w = (Inr (?st', ?d), ledger_append (turn_step (clk 0) (clk 5) ?st' result verification ev) (run_save ?st' w1))"
    using assms(4,5,6) recorded unfolding goal_turn_def by (simp add: st_bind_def on_goals_def)
  moreover from run_save_stored[of ?st' w1] have "sql_get gs_run_id (gs_run_id st) (gw_runs (run_save ?st' w1)) = Some ?st'"
    by (simp add: evaluated_def)
  moreover from run_save_stored[of stopped w] have "sql_get gs_run_id (gs_run_id st) (gw_runs w1) = Some stopped" using stopped by simp
  ultimately show ?thesis using stopped status assms(7) by (simp add: ledger_append_def)
qed

theorem stop_during_turn_is_lost_witness:
  "\<not> gs_active (the (fst (stop_session_run 3 ''s1'' [] started_world))) \<and>
   (\<exists>st' d w'. goal_turn stopping_driver (\<lambda>_. 0) started_run started_world = (Inr (st', d), w') \<and>
      sql_get gs_run_id (gs_run_id started_run) (gw_runs w') = Some st' \<and> gs_active st' \<and> gs_status st' = Ms_active)"
proof -
  have stop: "stop_session_run 3 ''s1'' [] started_world =
      (Some (the (fst (stop_session_run 3 ''s1'' [] started_world))), snd (stop_session_run 3 ''s1'' [] started_world))"
    unfolding prod_eq_iff by (simp only: fst_conv snd_conv) code_simp
  have turn: "gv_turn_runner stopping_driver p started_world = (Inr (sample_turn Ro_continue), snd (stop_session_run 3 ''s1'' [] started_world))" for p
    by (simp add: stopping_driver_def)
  let ?ev = "\<lparr>ge_goal_id = ''g1'', ge_outcome = Ro_continue, ge_mission_status = Ms_active, ge_reason = ''done'', ge_evidence_refs = [], ge_next_instruction = []\<rparr>"
  have read: "active_for_session ''s1'' started_world = Some started_run" "fst (require_goal (gs_goal_id started_run) (gw_goals started_world)) = Inr sample_goal"
    and ev: "verifier_verdict stopping_driver sample_goal started_run (sample_turn Ro_continue) = Inr None"
      "evaluate_turn (gs_goal_id started_run) (sample_turn Ro_continue) None = Inr ?ev"
    and go: "gd_should_continue (should_continue 0 (evaluated 0 started_run ?ev) ?ev)" by code_simp+
  from stop_during_turn_is_lost[OF read stop turn ev, of "\<lambda>_. 0"] go show ?thesis by simp
qed

text \<open>C30: a run that was resumed after it needed the user, or after a cap, cannot complete its goal: the stop paused the stored
  goal, resuming reactivates the run only, and a satisfied and verified turn is refused because a paused
  goal may not become completed. Nothing of that turn is stored.\<close>

theorem resumed_run_cannot_complete:
  assumes "require_goal (gs_goal_id st) (gw_goals w) = (Inr g, gw_goals w)" and "g_goal_id g = gs_goal_id st"
    and "record_evaluation clk st ev w = (Inr (st1, d), w1)" and "gd_mission_status d = Ms_paused"
    and "resume_session_run clk1 session_id reason w1 = (Some st2, w2)" and "gs_goal_id st2 = gs_goal_id st"
    and "ge_goal_id ev2 = gs_goal_id st" and "ge_outcome ev2 = Ro_satisfied" and "ge_mission_status ev2 = Ms_completed"
  shows "record_evaluation clk2 st2 ev2 w2 =
    (Inl (Goal_ValueError (''Illegal Goal.status transition: '' @ repr_str ''paused'' @ '' -> '' @ repr_str ''completed'')), w2)"
proof -
  from record_evaluation_ends[OF assms(3)] assms(4) obtain reason1 g1
    where "transition_status (\<lambda>i. clk (2 + i)) (gs_goal_id st) Ms_paused reason1 (gw_goals w) = (Inr g1, gw_goals w1)" by auto
  then have "require_goal (gs_goal_id st) (gw_goals w1) = (Inr g1, gw_goals w1) \<and> g_status g1 = Ms_paused"
    using assms(1,2) by (auto elim!: transition_status_stored)
  then have "require_goal (gs_goal_id st) (gw_goals w2) = (Inr g1, gw_goals w2)" "g_status g1 = Ms_paused"
    using resume_session_run_goals[OF assms(5)] by simp_all
  then show ?thesis using assms(6-9)
    by (simp add: record_evaluation_def Let_def should_continue_def terminal_outcomes_def apply_terminal_goal_status_def evaluated_def
        transition_status_def st_bind_def on_goals_def validate_goal_status_transition_def)
qed

theorem resumed_run_cannot_complete_witness:
  "fst (record_evaluation (\<lambda>_. 9) (the (fst (resume_session_run (\<lambda>_. 8) ''s1'' [] paused_world))) (sample_evaluation Ro_satisfied)
     (snd (resume_session_run (\<lambda>_. 8) ''s1'' [] paused_world))) =
   Inl (Goal_ValueError (''Illegal Goal.status transition: '' @ repr_str ''paused'' @ '' -> '' @ repr_str ''completed''))"
proof -
  obtain st1 d where asked: "record_evaluation (\<lambda>_. 5) started_run (sample_evaluation Ro_needs_user) started_world = (Inr (st1, d), paused_world)"
    "gd_mission_status d = Ms_paused"
  proof -
    have "case fst (record_evaluation (\<lambda>_. 5) started_run (sample_evaluation Ro_needs_user) started_world) of
        Inr (st1, d) \<Rightarrow> gd_mission_status d = Ms_paused | Inl _ \<Rightarrow> False" by code_simp
    with that show thesis by (auto simp: paused_world_def prod_eq_iff split: sum.splits prod.splits)
  qed
  let ?r = "resume_session_run (\<lambda>_. 8) ''s1'' [] paused_world"
  have resumed: "?r = (Some (the (fst ?r)), snd ?r)" unfolding prod_eq_iff by (simp only: fst_conv snd_conv) code_simp
  have read: "fst (require_goal (gs_goal_id started_run) (gw_goals started_world)) = Inr sample_goal"
    and ids: "g_goal_id sample_goal = gs_goal_id started_run" "gs_goal_id (the (fst ?r)) = gs_goal_id started_run"
      "ge_goal_id (sample_evaluation Ro_satisfied) = gs_goal_id started_run" by code_simp+
  from read have "require_goal (gs_goal_id started_run) (gw_goals started_world) = (Inr sample_goal, gw_goals started_world)"
    by (simp add: prod_eq_iff require_goal_keeps)
  from resumed_run_cannot_complete[OF this ids(1) asked resumed ids(2,3)] show ?thesis by (simp add: sample_evaluation_def)
qed

text \<open>C31: charging costs twice over the same budget loses the goal. The first charge halts it, whatever its status was, a
  completed one too; a second charge that exceeds the same one of the two budgets (tokens or dollars), of any amount, adds
  the failure condition of the same identifier again, without validation. From then on the stored goal cannot be read, and
  \<open>transition_status\<close>, \<open>pause\<close>, \<open>resume\<close>, \<open>abort\<close>, \<open>replace\<close>, \<open>set_apd_plan_id\<close>, \<open>set_owner\<close>, \<open>transfer_owner\<close>,
  \<open>add_external_blocker\<close>, \<open>clear_external_blocker\<close>, \<open>consume_cost\<close>, \<open>apply_termination_signal\<close> and
  \<open>roll_up_child_goals\<close> on it all fail with the validation error and change nothing.\<close>

theorem second_exhaustion_loses_goal:
  assumes "require_goal k s = (Inr g, s)" and "g_goal_id g = k" and "evaluate_goal_cost_budget g tokens dollars = Some c"
    and "evaluate_goal_cost_budget g tokens' dollars' = Some c" and "fc_condition_id c \<notin> fc_condition_id ` set (g_failure_conditions g)"
  shows "\<exists>g1 s1 g2 s2. consume_cost clk k tokens dollars s = (Inr (Some g1), s1) \<and> g_status g1 = Ms_halted \<and> require_goal k s1 = (Inr g1, s1) \<and>
    consume_cost clk1 k tokens' dollars' s1 = (Inr (Some g2), s2) \<and> goal_get k s2 = Inl Goal_ValidationError \<and>
    writes_refused Goal_ValidationError k s2"
proof -
  let ?g1 = "g\<lparr>g_status := Ms_halted, g_failure_conditions := g_failure_conditions g @ [c]\<rparr>"
  obtain r0 :: goal_row where "goal_model_validate (gr_goal_json r0) = Inr g" using assms(1) by (auto elim: require_goal_InrD)
  note g = goal_model_validate_Inr(1,2)[OF this]
  note c = evaluate_goal_cost_budget_condition[OF assms(4) g]
  have strip: "map strip_condition (g_failure_conditions g) = g_failure_conditions g" using arg_cong[OF g(1), of g_failure_conditions] by (simp add: goal_strip_def)
  have stripped: "goal_strip (g\<lparr>g_status := x, g_failure_conditions := g_failure_conditions g @ cs\<rparr>) = g\<lparr>g_status := x, g_failure_conditions := g_failure_conditions g @ cs\<rparr>"
    if "map strip_condition cs = cs" for x cs
  proof -
    have "goal_strip (g\<lparr>g_status := x, g_failure_conditions := g_failure_conditions g @ cs\<rparr>) =
        goal_strip g\<lparr>g_status := x, g_failure_conditions := map strip_condition (g_failure_conditions g @ cs)\<rparr>" by (simp add: goal_strip_def)
    with g(1) strip that show ?thesis by simp
  qed
  from assms(1-3) obtain s1 r1 where first: "consume_cost clk k tokens dollars s = (Inr (Some ?g1), s1)" "sql_get gr_goal_id k (gt_goals s1) = Some r1"
    "gr_goal_json r1 = ?g1" by (rule consume_cost_over)
  have "goal_ok ?g1" using g(2) c(2) assms(5) by (auto simp: goal_ok_def ids_unique_def require_unique_ids_distinct)
  then have "goal_model_validate ?g1 = Inr ?g1" using stripped[of "[c]"] c(1) by (simp add: goal_model_validate_def)
  then have read: "require_goal k s1 = (Inr ?g1, s1)" using first(2,3) by (simp add: require_goal_def goal_get_def)
  have "g_goal_id ?g1 = k" using assms(2) by simp
  from read this c(3)[of "g_failure_conditions g @ [c]" Ms_halted] obtain s2 r2 where second: "consume_cost clk1 k tokens' dollars' s1 =
      (Inr (Some (?g1\<lparr>g_status := Ms_halted, g_failure_conditions := g_failure_conditions ?g1 @ [c]\<rparr>)), s2)"
    "sql_get gr_goal_id k (gt_goals s2) = Some r2" "gr_goal_json r2 = ?g1\<lparr>g_status := Ms_halted, g_failure_conditions := g_failure_conditions ?g1 @ [c]\<rparr>"
    by (rule consume_cost_over)
  have "\<not> goal_ok (goal_strip (gr_goal_json r2))"
    using stripped[of "[c, c]" Ms_halted] c(1) second(3) by (simp add: goal_ok_def ids_unique_def require_unique_ids_distinct)
  then have lost: "goal_get k s2 = Inl Goal_ValidationError" using second(2) by (simp add: goal_get_def goal_model_validate_def)
  show ?thesis using first(1) read second(1) lost unreadable_goal[OF lost] by (intro exI conjI) (assumption | simp)+
qed

theorem second_exhaustion_loses_goal_witness:
  "\<exists>g1 s1 g2 s2. consume_cost (\<lambda>_. 5) ''g1'' 11 0 sample_tables = (Inr (Some g1), s1) \<and> g_status g1 = Ms_halted \<and>
    consume_cost (\<lambda>_. 6) ''g1'' 25 3 s1 = (Inr (Some g2), s2) \<and> goal_get ''g1'' s2 = Inl Goal_ValidationError"
proof -
  let ?c = "\<lparr>fc_condition_id = ''g1-cost-budget-tokens'', fc_kind = Fk_budget_exhausted, fc_description = ''cost_budget''\<rparr>"
  have "fst (require_goal ''g1'' sample_tables) = Inr sample_goal" by code_simp
  then have read: "require_goal ''g1'' sample_tables = (Inr sample_goal, sample_tables)" by (simp add: prod_eq_iff require_goal_keeps)
  have "g_goal_id sample_goal = ''g1''" "evaluate_goal_cost_budget sample_goal 11 0 = Some ?c" "evaluate_goal_cost_budget sample_goal 25 3 = Some ?c" by code_simp+
  from second_exhaustion_loses_goal[OF read this, of "\<lambda>_. 5" "\<lambda>_. 6"] show ?thesis by (force simp: sample_goal_def)
qed

text \<open>a status change with a blank reason, the default of \<open>transition_status\<close>, \<open>pause\<close> and \<open>resume\<close>, makes the audit trail of the goal
  unreadable, whatever is recorded later: the blank reason becomes nothing where a text is required.\<close>

lemma blank_reason_breaks_audit_trail:
  assumes "transition_status clk k new reason s = (Inr g, s')" and "str_strip reason = []" and "g_goal_id g = k"
  shows "list_goal_audit_trail k (s'\<lparr>gt_audit := gt_audit s' @ later\<rparr>) = Inl Goal_ValidationError"
proof -
  let ?a = "\<lambda>x. \<lparr>ga_entity_id = k, ga_timestamp = clk 1, ga_prior_status = x, ga_new_status = Some new, ga_reason = [], ga_actor = ''system'', ga_action_authorization = []\<rparr>"
  have "str_strip ''system'' = ''system''" by code_simp
  with assms obtain x where "?a x \<in> set (gt_audit s')"
    by (elim transition_status_stored) (auto simp: record_goal_audit_def persist_goal_def Let_def)
  moreover have "lifecycle_audit_record (?a x) = Inl Goal_ValidationError" by (simp add: lifecycle_audit_record_def str_strip_def py_defs)
  ultimately show ?thesis unfolding list_goal_audit_trail_def by (intro validate_audits_bad[of "?a x"]) auto
qed

section \<open>Verification\<close>

text \<open>a deliverable of the freshness family is never verified: the verifier asks the command for a freshness contract, which no
  command has. So a goal with such a deliverable never passes, whatever its inputs are.\<close>

lemma freshness_deliverable_never_verified:
  assumes "verify_goal g run_id mode ci di elapsed = Inr v" and "d \<in> set (g_deliverables g)" and "dv_verification_hint d = Vf_freshness"
  shows "dv_deliverable_id d \<in> set (vr_missing_deliverables v) \<and> vr_status v \<noteq> Vs_passed"
proof -
  have fails: "\<not> target_passes mode di (dv_deliverable_id d) (dv_verification_hint d)"
    using assms(3) by (auto simp: target_passes_def verifier_reasons_def command_freshness_contract_def Let_def split: option.splits)
  from assms(1) have "vr_missing_deliverables v =
      map fst (filter (\<lambda>(k, family). \<not> target_passes mode di k family) (map (\<lambda>d. (dv_deliverable_id d, dv_verification_hint d)) (g_deliverables g)))"
    by (elim verify_goal_InrE) (auto dest: verify_targets_unmet)
  with fails assms(2) have "dv_deliverable_id d \<in> set (vr_missing_deliverables v)" by force
  moreover have "vr_status v \<noteq> Vs_passed" using verify_goal_passed[OF assms(1)] fails assms(2) by (auto simp: list_all_iff)
  ultimately show ?thesis by simp
qed

definition news_goal :: goal where
  "news_goal = sample_goal\<lparr>g_deliverables := [\<lparr>dv_deliverable_id = ''d1'', dv_description = ''digest'', dv_verification_hint = Vf_freshness\<rparr>]\<rparr>"

text \<open>C32: the two notions of completion agree: when nothing has failed the goal and no criterion has the identifier of a deliverable, the terminal
  state derived from the verifier results is completed exactly when the verification of the goal passed.\<close>

theorem completion_checks_agree:
  assumes "verify_goal g run_id mode ci di elapsed = Inr v" and "goal_ok g" and "vr_triggered_failures v = []"
    and "set (map sc_criterion_id (g_success_criteria g)) \<inter> set (map dv_deliverable_id (g_deliverables g)) = {}"
  shows "(derive_run_terminal_state g (vr_verifier_results v) (vr_triggered_failures v) = Rt_completed) = (vr_status v = Vs_passed)"
proof -
  from assms(1) obtain unmet results missing more where
    crit: "verify_targets (g_goal_id g) run_id mode ci (map (\<lambda>c. (sc_criterion_id c, Vf_structural)) (g_success_criteria g)) = Inr (unmet, results)" and
    deliv: "verify_targets (g_goal_id g) run_id mode di (map (\<lambda>d. (dv_deliverable_id d, dv_verification_hint d)) (g_deliverables g)) = Inr (missing, more)"
    and results: "vr_verifier_results v = results @ more" by (rule verify_goal_InrE)
  have unique: "distinct (map sc_criterion_id (g_success_criteria g))" "distinct (map dv_deliverable_id (g_deliverables g))"
    using assms(2) by (simp_all add: goal_ok_def ids_unique_def require_unique_ids_distinct)
  let ?C = "{sc_criterion_id c |c. c \<in> set (g_success_criteria g) \<and> target_passes mode ci (sc_criterion_id c) Vf_structural}"
  let ?D = "{dv_deliverable_id d |d. d \<in> set (g_deliverables g) \<and> target_passes mode di (dv_deliverable_id d) (dv_verification_hint d)}"
  have passed: "ve_target_id ` set (filter ve_passed (vr_verifier_results v)) = ?C \<union> ?D"
  proof -
    have "ve_target_id ` set (filter ve_passed results) = ?C" unfolding verify_targets_passed[OF crit] by force
    moreover have "ve_target_id ` set (filter ve_passed more) = ?D" unfolding verify_targets_passed[OF deliv] by force
    ultimately show ?thesis by (simp add: results image_Un)
  qed
  have "c \<in> set (g_success_criteria g) \<Longrightarrow> sc_criterion_id c \<in> ?C \<union> ?D \<longleftrightarrow> target_passes mode ci (sc_criterion_id c) Vf_structural" for c
    using assms(4) unique(1) by (auto simp: distinct_map inj_on_def)
  moreover have "d \<in> set (g_deliverables g) \<Longrightarrow> dv_deliverable_id d \<in> ?C \<union> ?D \<longleftrightarrow> target_passes mode di (dv_deliverable_id d) (dv_verification_hint d)" for d
    using assms(4) unique(2) by (auto simp: distinct_map inj_on_def)
  ultimately have "is_run_completion_confirmed g (vr_verifier_results v) = (vr_status v = Vs_passed)"
    using assms(2,3) verify_goal_passed[OF assms(1)] passed by (auto simp: is_run_completion_confirmed_def Let_def list_all_iff goal_ok_def)
  then show ?thesis using assms(3) by (simp add: derive_run_terminal_state_def)
qed

theorem completion_checks_agree_witness:
  "\<exists>v. verify_goal sample_goal ''r1'' Vm_rule_based sample_inputs sample_inputs None = Inr v \<and>
     (derive_run_terminal_state sample_goal (vr_verifier_results v) (vr_triggered_failures v) = Rt_completed) = (vr_status v = Vs_passed)"
proof -
  have "case verify_goal sample_goal ''r1'' Vm_rule_based sample_inputs sample_inputs None of Inr v \<Rightarrow> vr_triggered_failures v = [] | Inl _ \<Rightarrow> False" by code_simp
  then obtain v where v: "verify_goal sample_goal ''r1'' Vm_rule_based sample_inputs sample_inputs None = Inr v" "vr_triggered_failures v = []"
    by (auto split: sum.splits)
  have "goal_ok sample_goal" by code_simp
  moreover have "set (map sc_criterion_id (g_success_criteria sample_goal)) \<inter> set (map dv_deliverable_id (g_deliverables sample_goal)) = {}"
    by (simp add: sample_goal_def)
  ultimately show ?thesis using completion_checks_agree[OF v(1) _ v(2)] v(1) by blast
qed

text \<open>When they share an identifier, a criterion that passed stands in for the deliverable that failed.\<close>

definition shared_goal :: goal where
  "shared_goal = sample_goal\<lparr>g_deliverables := [\<lparr>dv_deliverable_id = ''c1'', dv_description = ''digest'', dv_verification_hint = Vf_freshness\<rparr>]\<rparr>"

lemma shared_identifier_confirms_missing_deliverable:
  "case verify_goal shared_goal ''r1'' Vm_rule_based sample_inputs sample_inputs None of
    Inr v \<Rightarrow> vr_status v = Vs_failed \<and> derive_run_terminal_state shared_goal (vr_verifier_results v) [] = Rt_completed | Inl _ \<Rightarrow> False"
  by code_simp

text \<open>a turn with a typed goal is resolved closed: every criterion and every deliverable is verified on an action that did nothing, all
  of these results fail, and the run is stored as failed, whatever the intent and the kind of mission are.\<close>

lemma typed_turns_fail_closed:
  assumes "build_fail_closed_terminal_resolution uuid intent run_id = Inr (Some (g, results, fired))"
  shows "length results = length (g_success_criteria g) + length (g_deliverables g) \<and> list_all (\<lambda>r. \<not> ve_passed r) results \<and>
    derive_run_terminal_state g results fired = Rt_failed \<and> resolve_run_terminal_persistence (derive_run_terminal_state g results fired) = ''failed''"
proof -
  obtain t where t: "intent = Structured_intent t"
    using assms by (cases intent) (auto simp: build_fail_closed_terminal_resolution_def resolve_typed_goal_def)
  from assms have ran: "verify_no_op uuid (g_goal_id g) run_id
        (map (\<lambda>c. (sc_criterion_id c, resolve_criterion_family t)) (g_success_criteria g) @
         map (\<lambda>d. (dv_deliverable_id d, resolve_deliverable_family t d)) (g_deliverables g)) = Inr results" and fired: "fired = []"
    by (auto simp: build_fail_closed_terminal_resolution_def rbind_Inr_iff t split: option.splits if_splits)
  have closed: "length results = length (g_success_criteria g) + length (g_deliverables g)" "list_all (\<lambda>r. \<not> ve_passed r) results"
    using verify_no_op_fails[OF ran] by simp_all
  then have "\<not> is_run_completion_confirmed g results"
    by (cases "g_success_criteria g") (auto simp: is_run_completion_confirmed_def Let_def list_all_iff filter_empty_conv)
  with closed fired show ?thesis by (simp add: derive_run_terminal_state_def resolve_run_terminal_persistence_def)
qed

end
