(* ===== verification/Session_Log.thy ===== *)
theory Session_Log
  imports SQL_Table
begin

text \<open>
  The runtime session store (\<open>modules/storage/runtime/session_store\<close>): sessions, the event log with the run
  facts kept beside it, retention holds (\<open>lifecycle.py\<close>, \<open>run_facts.py\<close>).
  Timestamps are instants. A payload is stored as JSON with sorted keys and read back, so it is the
  sorted value. The fence of a turn is a parameter, SHA-256 another. A key column holds the
  identifier itself: its encoding as a JSON text is injective, and the digest column only serves an
  index. The schema version of a hold is a constant and left out; the row number of a message is its
  position and not stored.
\<close>

section \<open>Tables\<close>

record session_row =
  sn_id :: string
  sn_session_key :: string
  sn_channel :: string
  sn_target :: string
  sn_metadata :: pydict
  sn_created_at :: int
  sn_updated_at :: int
  sn_status :: string
  sn_last_activity_at :: int
  sn_closed_at :: "int option"
  sn_expires_at :: "int option"
  sn_active_agent_id :: "string option"

record session_event =
  en_id :: int
  en_session_id :: string
  en_event_type :: string
  en_payload :: pydict
  en_created_at :: int
  en_canonical_event_id :: "string option"

record event_facts =
  ef_event_id :: int
  ef_session_id :: string
  ef_run_key :: string
  ef_run_state :: string
  ef_has_step :: bool
  ef_has_error :: bool
  ef_conversation_key :: string
  ef_thread_key :: string
  ef_has_invocation :: bool
  ef_has_attach :: bool
  ef_attach_role :: string

record retention_hold =
  rh_hold_id :: string
  rh_session_id :: string
  rh_reason :: string
  rh_actor_id :: string
  rh_created_at :: int
  rh_released_at :: "int option"

record message_row =
  mg_id :: string
  mg_session_id :: string
  mg_conversation_id :: string
  mg_thread_id :: string
  mg_attach_id :: string
  mg_role :: string
  mg_body :: string
  mg_metadata :: pydict
  mg_created_at :: int
  mg_append_seq :: int

record session_log =
  sl_sessions :: "session_row list"
  sl_events :: "session_event list"
  sl_facts :: "event_facts list"
  sl_holds :: "retention_hold list"
  sl_messages :: "message_row list"
  sl_last_event_id :: int

definition empty_log :: session_log where
  "empty_log = \<lparr>sl_sessions = [], sl_events = [], sl_facts = [], sl_holds = [], sl_messages = [], sl_last_event_id = 0\<rparr>"

datatype log_error = Log_ValueError string | Log_StoreIntegrityError string | Log_ForeignKeyError | Log_FenceError | Log_UniqueError | Log_RuntimeError string

section \<open>Run facts\<close>

definition RUN_STATES :: "string list" where
  "RUN_STATES = [''queued'', ''running'', ''waiting_tool'', ''responding'', ''completed'', ''failed'', ''cancelled'']"

definition payload_text :: "pydict \<Rightarrow> string \<Rightarrow> string" where
  "payload_text payload key = str_strip (py_str (dict_get_or payload key (PStr [])))"

definition payload_id :: "pydict \<Rightarrow> string \<Rightarrow> string" where
  "payload_id payload key = str_strip (text_or_empty (dict_get_or payload key (PStr [])))"

definition is_run_type :: "string \<Rightarrow> bool" where
  "is_run_type event_type = str_startswith event_type ''run.''"

definition normalize_run_state :: "pyval \<Rightarrow> string \<Rightarrow> string" where
  "normalize_run_state state event_type =
     (let candidate = str_lower (str_strip (text_or_empty state)); suffix = str_lower (str_strip (drop 4 event_type)) in
      if candidate \<in> set RUN_STATES then candidate
      else if is_run_type event_type \<and> suffix \<in> set RUN_STATES then suffix
      else ''running'')"

definition extract_event_error :: "pydict \<Rightarrow> string" where
  "extract_event_error payload = (case dict_get_or payload ''error'' PNone of PNone \<Rightarrow> [] | v \<Rightarrow> str_strip (py_str v))"

definition event_run_facts :: "session_event \<Rightarrow> event_facts" where
  "event_run_facts e =
     (let payload = en_payload e; run_key = payload_text payload ''run_id''; has_run = (run_key \<noteq> [])
      in \<lparr>ef_event_id = en_id e, ef_session_id = en_session_id e, ef_run_key = run_key,
          ef_run_state = (if has_run then normalize_run_state (dict_get_or payload ''state'' PNone) (en_event_type e) else []),
          ef_has_step = (has_run \<and> payload_text payload ''step'' \<noteq> []), ef_has_error = (has_run \<and> extract_event_error payload \<noteq> []),
          ef_conversation_key = payload_id payload ''conversation_id'', ef_thread_key = payload_id payload ''thread_id'',
          ef_has_invocation = (payload_text payload ''invocation_id'' \<noteq> []), ef_has_attach = (payload_text payload ''attach_id'' \<noteq> []),
          ef_attach_role = str_lower (payload_text payload ''attach_role'')\<rparr>)"

text \<open>The backfill of migration 13: the events in batches by identifier. \<open>None\<close> means that the fuel ran out.\<close>

fun backfill_event_run_facts :: "nat \<Rightarrow> int \<Rightarrow> session_log \<Rightarrow> session_log option" where
  "backfill_event_run_facts 0 after_id s = None"
| "backfill_event_run_facts (Suc n) after_id s =
     (let batch = take 1000 (sort_key en_id (filter (\<lambda>e. after_id < en_id e) (sl_events s))) in
      if batch = [] then Some s
      else backfill_event_run_facts n (en_id (last batch)) (s\<lparr>sl_facts := sl_facts s @ map event_run_facts batch\<rparr>))"

section \<open>Writing events\<close>

text \<open>A callback that refuses the token raises.\<close>

definition assert_fence_if_requested ::
  "(string \<Rightarrow> int \<Rightarrow> bool) \<Rightarrow> string \<Rightarrow> int option \<Rightarrow> session_log \<Rightarrow> (log_error + unit) \<times> session_log" where
  "assert_fence_if_requested fence session_id token s =
     (case token of None \<Rightarrow> (Inr (), s) | Some t \<Rightarrow> if fence session_id t then (Inr (), s) else (Inl Log_FenceError, s))"

definition metadata_json :: "pydict \<Rightarrow> pydict" where
  "metadata_json payload = (case sort_keys (PDict payload) of PDict d \<Rightarrow> d | _ \<Rightarrow> [])"

definition touch_session :: "int \<Rightarrow> string \<Rightarrow> session_log \<Rightarrow> session_log" where
  "touch_session now session_id s =
     s\<lparr>sl_sessions := sql_update (\<lambda>r. sn_id r = session_id) (\<lambda>r. r\<lparr>sn_updated_at := now, sn_last_activity_at := now\<rparr>) (sl_sessions s)\<rparr>"

text \<open>The row with the next identifier, its facts, and the activity of the session.\<close>

definition store_event :: "int \<Rightarrow> string \<Rightarrow> string \<Rightarrow> pydict \<Rightarrow> string option \<Rightarrow> session_log \<Rightarrow> (log_error + session_event) \<times> session_log" where
  "store_event now session_id event_type payload canonical s =
     (if sql_get sn_id session_id (sl_sessions s) = None then (Inl Log_ForeignKeyError, s)
      else let e = \<lparr>en_id = sl_last_event_id s + 1, en_session_id = session_id, en_event_type = event_type, en_payload = metadata_json payload,
                    en_created_at = now, en_canonical_event_id = canonical\<rparr>
           in (Inr e, touch_session now session_id
                 (s\<lparr>sl_events := sl_events s @ [e], sl_facts := sl_facts s @ [event_run_facts e], sl_last_event_id := sl_last_event_id s + 1\<rparr>)))"

definition insert_event_locked :: "int \<Rightarrow> string \<Rightarrow> string \<Rightarrow> pydict \<Rightarrow> session_log \<Rightarrow> (log_error + session_event) \<times> session_log" where
  "insert_event_locked now session_id event_type payload = store_event now session_id event_type payload None"

definition find_canonical :: "string \<Rightarrow> session_log \<Rightarrow> session_event option" where
  "find_canonical canonical s = List.find (\<lambda>e. en_canonical_event_id e = Some canonical) (sl_events s)"

definition commit_canonical_event_locked ::
  "int \<Rightarrow> string \<Rightarrow> string \<Rightarrow> string \<Rightarrow> pydict \<Rightarrow> session_log \<Rightarrow> (log_error + session_event \<times> bool) \<times> session_log" where
  "commit_canonical_event_locked now session_id canonical_event_id event_type payload s =
     (let canonical = str_strip canonical_event_id in
      if canonical = [] then (Inl (Log_ValueError ''canonical_event_id is required''), s)
      else case find_canonical canonical s of
        None \<Rightarrow> st_bind (store_event now session_id event_type payload (Some canonical)) (\<lambda>e s. (Inr (e, False), s)) s
      | Some e \<Rightarrow>
          if en_session_id e \<noteq> session_id \<or> en_event_type e \<noteq> event_type \<or> en_payload e \<noteq> metadata_json payload
          then (Inl (Log_StoreIntegrityError (''canonical event '' @ repr_str canonical @ '' conflicts with stored event'')), s)
          else (Inr (e, True), s))"

definition append_event ::
  "(string \<Rightarrow> int \<Rightarrow> bool) \<Rightarrow> int \<Rightarrow> string \<Rightarrow> string \<Rightarrow> pydict \<Rightarrow> string option \<Rightarrow> int option \<Rightarrow> session_log \<Rightarrow>
   (log_error + session_event) \<times> session_log" where
  "append_event fence now session_id event_type payload canonical_event_id token = in_transaction
     (st_bind (assert_fence_if_requested fence session_id token) (\<lambda>_.
        let canonical = str_strip (opt_or canonical_event_id []) in
        if canonical \<noteq> [] then st_bind (commit_canonical_event_locked now session_id canonical event_type payload) (\<lambda>(e, _) s. (Inr e, s))
        else insert_event_locked now session_id event_type payload))"

definition get_event_by_canonical_id :: "string \<Rightarrow> session_log \<Rightarrow> log_error + session_event option" where
  "get_event_by_canonical_id canonical_event_id s =
     (let canonical = str_strip canonical_event_id in
      if canonical = [] then Inl (Log_ValueError ''canonical_event_id is required'') else Inr (find_canonical canonical s))"

section \<open>Captures and their holds\<close>

definition MEMORY_CAPTURE_HOLD_ACTOR :: string where
  "MEMORY_CAPTURE_HOLD_ACTOR = ''memory_capture''"

definition memory_capture_hold_identity :: "(string \<Rightarrow> string) \<Rightarrow> string \<Rightarrow> string \<Rightarrow> string \<times> string" where
  "memory_capture_hold_identity sha session_id capture_id =
     (let reason = ''memory_capture:'' @ capture_id; material = session_id @ '':'' @ reason @ '':'' @ MEMORY_CAPTURE_HOLD_ACTOR
      in (''hold-'' @ take 16 (sha material), reason))"

definition get_retention_hold :: "string \<Rightarrow> session_log \<Rightarrow> retention_hold option" where
  "get_retention_hold hold_id s = sql_get rh_hold_id hold_id (sl_holds s)"

definition capture_hold_matches :: "retention_hold \<Rightarrow> string \<Rightarrow> string \<Rightarrow> bool" where
  "capture_hold_matches h session_id reason = (rh_session_id h = session_id \<and> rh_reason h = reason \<and> rh_actor_id h = MEMORY_CAPTURE_HOLD_ACTOR)"

definition hold_conflict :: "retention_hold \<Rightarrow> log_error" where
  "hold_conflict h = Log_StoreIntegrityError (''retention hold '' @ repr_str (rh_hold_id h) @ '' conflicts with capture'')"

definition ensure_capture_hold_locked ::
  "(string \<Rightarrow> string) \<Rightarrow> int \<Rightarrow> string \<Rightarrow> string \<Rightarrow> session_log \<Rightarrow> (log_error + retention_hold) \<times> session_log" where
  "ensure_capture_hold_locked sha now session_id capture_id s =
     (let (hold_id, reason) = memory_capture_hold_identity sha session_id capture_id in
      case get_retention_hold hold_id s of
        Some h \<Rightarrow> (if capture_hold_matches h session_id reason then (Inr h, s) else (Inl (hold_conflict h), s))
      | None \<Rightarrow>
          let h = \<lparr>rh_hold_id = hold_id, rh_session_id = session_id, rh_reason = reason, rh_actor_id = MEMORY_CAPTURE_HOLD_ACTOR,
                   rh_created_at = now, rh_released_at = None\<rparr>
          in (Inr h, s\<lparr>sl_holds := sl_holds s @ [h]\<rparr>))"

definition capture_id_matches_payload :: "string \<Rightarrow> pydict \<Rightarrow> bool" where
  "capture_id_matches_payload capture_id payload = (str_strip (text_or_empty (dict_get_or payload ''capture_id'' PNone)) = capture_id)"

text \<open>The checks that both commits of a capture start with.\<close>

definition check_capture :: "string \<Rightarrow> pydict \<Rightarrow> log_error + string" where
  "check_capture capture_id payload =
     (let capture = str_strip capture_id in
      if capture = [] then Inl (Log_ValueError ''capture_id is required'')
      else if \<not> capture_id_matches_payload capture payload
      then Inl (Log_StoreIntegrityError ''capture_id does not match the canonical event payload'')
      else Inr capture)"

record capture_commit =
  cc_event :: session_event
  cc_retention_hold :: "retention_hold option"
  cc_replayed :: bool

definition commit_terminal_turn_outcome ::
  "(string \<Rightarrow> int \<Rightarrow> bool) \<Rightarrow> (string \<Rightarrow> string) \<Rightarrow> int \<Rightarrow> string \<Rightarrow> string \<Rightarrow> string \<Rightarrow> pydict \<Rightarrow> string \<Rightarrow> string \<Rightarrow> int option \<Rightarrow> session_log \<Rightarrow>
   (log_error + capture_commit) \<times> session_log" where
  "commit_terminal_turn_outcome fence sha now session_id canonical capture_id payload event_type capture_state token s =
     (case check_capture capture_id payload of
        Inl e \<Rightarrow> (Inl e, s)
      | Inr capture \<Rightarrow> in_transaction
          (st_bind (assert_fence_if_requested fence session_id token) (\<lambda>_.
           st_bind (commit_canonical_event_locked now session_id canonical event_type payload) (\<lambda>(e, replayed).
           st_bind (\<lambda>s. if str_strip capture_state = ''pending''
                        then st_bind (ensure_capture_hold_locked sha now session_id capture) (\<lambda>h s. (Inr (Some h), s)) s
                        else (Inr None, s)) (\<lambda>h s.
             (Inr \<lparr>cc_event = e, cc_retention_hold = h, cc_replayed = replayed\<rparr>, s))))) s)"

definition released_hold :: "int \<Rightarrow> retention_hold \<Rightarrow> retention_hold" where
  "released_hold now h = h\<lparr>rh_released_at := Some now\<rparr>"

definition commit_capture_result_and_release_hold ::
  "(string \<Rightarrow> int \<Rightarrow> bool) \<Rightarrow> (string \<Rightarrow> string) \<Rightarrow> int \<Rightarrow> string \<Rightarrow> string \<Rightarrow> string \<Rightarrow> pydict \<Rightarrow> string \<Rightarrow> int option \<Rightarrow> session_log \<Rightarrow>
   (log_error + capture_commit) \<times> session_log" where
  "commit_capture_result_and_release_hold fence sha now session_id canonical capture_id payload event_type token s =
     (case check_capture capture_id payload of
        Inl e \<Rightarrow> (Inl e, s)
      | Inr capture \<Rightarrow> in_transaction
          (st_bind (assert_fence_if_requested fence session_id token) (\<lambda>_.
           st_bind (commit_canonical_event_locked now session_id canonical event_type payload) (\<lambda>(e, replayed) s.
             let (hold_id, reason) = memory_capture_hold_identity sha session_id capture in
             case get_retention_hold hold_id s of
               None \<Rightarrow> (Inl (Log_StoreIntegrityError (''capture '' @ repr_str capture @ '' has no retention hold'')), s)
             | Some h \<Rightarrow>
                 if \<not> capture_hold_matches h session_id reason then (Inl (hold_conflict h), s)
                 else if rh_released_at h \<noteq> None \<and> \<not> replayed
                 then (Inl (Log_StoreIntegrityError (''capture '' @ repr_str capture @ '' already has a terminal result'')), s)
                 else if rh_released_at h = None
                 then (Inr \<lparr>cc_event = e, cc_retention_hold = Some (released_hold now h), cc_replayed = replayed\<rparr>,
                       s\<lparr>sl_holds := sql_update (\<lambda>r. rh_hold_id r = hold_id) (released_hold now) (sl_holds s)\<rparr>)
                 else (Inr \<lparr>cc_event = e, cc_retention_hold = Some h, cc_replayed = replayed\<rparr>, s)))) s)"

section \<open>Reading events\<close>

definition EVENT_PAGE_MAX :: int where
  "EVENT_PAGE_MAX = 2000"

definition session_events :: "string \<Rightarrow> session_log \<Rightarrow> session_event list" where
  "session_events session_id s = filter (\<lambda>e. en_session_id e = session_id) (sl_events s)"

text \<open>\<open>like\<close> is the SQL operator for a prefix.\<close>

definition list_events :: "(string \<Rightarrow> string \<Rightarrow> bool) \<Rightarrow> string \<Rightarrow> int \<Rightarrow> bool \<Rightarrow> string option \<Rightarrow> session_log \<Rightarrow> session_event list" where
  "list_events like session_id limit newest_first event_type_prefix s =
     (let prefix = str_strip (opt_or event_type_prefix []);
          rows = filter (\<lambda>e. prefix = [] \<or> like (prefix @ ''%'') (en_event_type e)) (session_events session_id s);
          ordered = (if newest_first then sql_order_desc en_id rows else sort_key en_id rows)
      in take (nat limit) ordered)"

definition count_events :: "(string \<Rightarrow> string \<Rightarrow> bool) \<Rightarrow> string \<Rightarrow> string option \<Rightarrow> session_log \<Rightarrow> nat" where
  "count_events like session_id event_type_prefix s =
     (let prefix = str_strip (opt_or event_type_prefix [])
      in length (filter (\<lambda>e. prefix = [] \<or> like (prefix @ ''%'') (en_event_type e)) (session_events session_id s)))"

definition list_events_before_id :: "string \<Rightarrow> int \<Rightarrow> int \<Rightarrow> session_log \<Rightarrow> session_event list" where
  "list_events_before_id session_id before_id limit s =
     take (nat (min limit EVENT_PAGE_MAX)) (sql_order_desc en_id (filter (\<lambda>e. en_id e < max 1 before_id) (session_events session_id s)))"

definition list_events_after_id :: "string \<Rightarrow> int \<Rightarrow> int \<Rightarrow> int \<Rightarrow> session_log \<Rightarrow> session_event list" where
  "list_events_after_id session_id after_id high_water_id limit s =
     take (nat (min limit EVENT_PAGE_MAX))
       (sort_key en_id (filter (\<lambda>e. max 0 after_id < en_id e \<and> en_id e \<le> max 0 high_water_id) (session_events session_id s)))"

text \<open>In chunks of 500 identifiers, sorted, so the chunks follow each other.\<close>

definition list_events_by_id :: "string \<Rightarrow> int list \<Rightarrow> session_log \<Rightarrow> session_event list" where
  "list_events_by_id session_id event_ids s = sort_key en_id (filter (\<lambda>e. en_id e \<noteq> 0 \<and> en_id e \<in> set event_ids) (session_events session_id s))"

definition event_high_water :: "string \<Rightarrow> session_log \<Rightarrow> int" where
  "event_high_water session_id s = foldr (\<lambda>e m. max (en_id e) m) (session_events session_id s) 0"

text \<open>The join of the facts with their events.\<close>

definition joined :: "string \<Rightarrow> session_log \<Rightarrow> (event_facts \<times> session_event) list" where
  "joined session_id s =
     concat (map (\<lambda>f. case sql_get en_id (ef_event_id f) (sl_events s) of None \<Rightarrow> [] | Some e \<Rightarrow> [(f, e)])
       (filter (\<lambda>f. ef_session_id f = session_id) (sl_facts s)))"

definition list_run_events :: "string \<Rightarrow> string \<Rightarrow> int \<Rightarrow> session_log \<Rightarrow> session_event list" where
  "list_run_events session_id run_id limit s =
     (if run_id = [] then []
      else take (nat (min limit EVENT_PAGE_MAX))
        (map snd (sql_order_desc (\<lambda>(f, e). ef_event_id f)
           (filter (\<lambda>(f, e). ef_run_key f = run_id \<and> is_run_type (en_event_type e)) (joined session_id s)))))"

definition max_id :: "int list \<Rightarrow> int option" where
  "max_id ids = (case ids of [] \<Rightarrow> None | i # is \<Rightarrow> Some (foldr max is i))"

record run_aggregate =
  ra_run_id :: string
  ra_event_count :: nat
  ra_started_at :: int
  ra_last_id :: "int option"
  ra_step_id :: "int option"
  ra_error_id :: "int option"
  ra_terminal_id :: "int option"

definition min_id :: "int list \<Rightarrow> int option" where
  "min_id ids = (case ids of [] \<Rightarrow> None | i # is \<Rightarrow> Some (foldr min is i))"

definition run_aggregate_of :: "(event_facts \<times> session_event) list \<Rightarrow> string list \<Rightarrow> session_log \<Rightarrow> string \<Rightarrow> run_aggregate list" where
  "run_aggregate_of rows terminal_states s run_id =
     (let mine = filter (\<lambda>(f, e). ef_run_key f = run_id) rows; ids = (\<lambda>p. map (ef_event_id \<circ> fst) (filter (p \<circ> fst) mine)) in
      case min_id (ids (\<lambda>_. True)) of
        None \<Rightarrow> []
      | Some first \<Rightarrow>
          (case sql_get en_id first (sl_events s) of
             None \<Rightarrow> []
           | Some head \<Rightarrow> [\<lparr>ra_run_id = run_id, ra_event_count = length mine, ra_started_at = en_created_at head, ra_last_id = max_id (ids (\<lambda>_. True)),
                 ra_step_id = max_id (ids ef_has_step), ra_error_id = max_id (ids ef_has_error),
                 ra_terminal_id = max_id (ids (\<lambda>f. ef_run_state f \<in> set terminal_states))\<rparr>]))"

definition summarize_recent_runs :: "string \<Rightarrow> int \<Rightarrow> string list \<Rightarrow> session_log \<Rightarrow> run_aggregate list" where
  "summarize_recent_runs session_id scan_limit terminal_states s =
     (let rows = filter (\<lambda>(f, e). is_run_type (en_event_type e)) (joined session_id s);
          recent = take (nat (max 1 scan_limit)) (sql_order_desc (\<lambda>(f, e). ef_event_id f) rows);
          listed = remdups (filter (\<lambda>k. k \<noteq> []) (map (ef_run_key \<circ> fst) recent))
      in concat (map (run_aggregate_of rows terminal_states s) listed))"

record thread_facts =
  tf_latest_id :: "int option"
  tf_run_event_id :: "int option"
  tf_start_id :: "int option"
  tf_attach_id :: "int option"
  tf_present :: "string list"

definition in_thread_clause :: "string \<Rightarrow> string \<Rightarrow> string \<Rightarrow> event_facts \<Rightarrow> bool" where
  "in_thread_clause session_id conversation_id thread_id f =
     ((conversation_id = [] \<or>
       (if conversation_id = session_id then ef_conversation_key f \<in> {[], conversation_id} else ef_conversation_key f = conversation_id)) \<and>
      (thread_id = [] \<or> ef_thread_key f \<in> {[], thread_id}))"

definition summarize_thread_events ::
  "string \<Rightarrow> string \<Rightarrow> string \<Rightarrow> string \<Rightarrow> string \<Rightarrow> string \<Rightarrow> string list \<Rightarrow> session_log \<Rightarrow> thread_facts" where
  "summarize_thread_events session_id conversation_id thread_id start_event_type attach_event_type writer_role flag_event_types s =
     (let rows = filter (\<lambda>(f, e). in_thread_clause session_id conversation_id thread_id f) (joined session_id s);
          ids = (\<lambda>p. map (ef_event_id \<circ> fst) (filter (\<lambda>(f, e). p f e) rows))
      in \<lparr>tf_latest_id = max_id (ids (\<lambda>f e. True)), tf_run_event_id = max_id (ids (\<lambda>f e. is_run_type (en_event_type e) \<and> ef_run_key f \<noteq> [])),
          tf_start_id = max_id (ids (\<lambda>f e. en_event_type e = start_event_type \<and> ef_has_invocation f)),
          tf_attach_id = max_id (ids (\<lambda>f e. en_event_type e = attach_event_type \<and> ef_has_attach f \<and> ef_attach_role f \<in> {[], writer_role})),
          tf_present = filter (\<lambda>t. list_ex (\<lambda>(f, e). en_event_type e = t) rows) flag_event_types\<rparr>)"

end
