(* ===== verification/Session_Store.thy ===== *)
theory Session_Store
  imports Session_Log
begin

text \<open>
  Sessions and messages of the runtime session store (\<open>lifecycle.py\<close>, \<open>sessions.py\<close>, \<open>messages.py\<close>,
  \<open>rows.py\<close>). One call reads the clock once; \<open>iso_text\<close> writes an instant as text. The rows of a
  session have the defaults of \<open>row_to_session\<close> already, since every statement stores them.
  Not here: session keys, rooms, participants, contexts and the metadata index.
\<close>

section \<open>Session rows\<close>

definition VALID_SESSION_STATUSES :: "string list" where
  "VALID_SESSION_STATUSES = [''active'', ''idle'', ''paused'', ''stale'', ''closed'']"

definition normalize_session_status :: "string \<Rightarrow> log_error + string" where
  "normalize_session_status raw =
     (let value = str_lower (str_strip raw) in
      if value \<in> set VALID_SESSION_STATUSES then Inr value else Inl (Log_ValueError (''Invalid session status: '' @ repr_str raw)))"

definition get_session :: "string \<Rightarrow> session_log \<Rightarrow> session_row option" where
  "get_session session_id s = sql_get sn_id session_id (sl_sessions s)"

definition new_session_row :: "string \<Rightarrow> string \<Rightarrow> string \<Rightarrow> string \<Rightarrow> pydict \<Rightarrow> int \<Rightarrow> int \<Rightarrow> string option \<Rightarrow> session_row" where
  "new_session_row session_id session_key channel target metadata created_at updated_at active_agent_id =
     \<lparr>sn_id = session_id, sn_session_key = session_key, sn_channel = channel, sn_target = target, sn_metadata = metadata_json metadata,
      sn_created_at = created_at, sn_updated_at = updated_at, sn_status = ''active'', sn_last_activity_at = updated_at, sn_closed_at = None,
      sn_expires_at = None, sn_active_agent_id = Option.bind active_agent_id strip_or_none\<rparr>"

text \<open>The identifier and the session key are both unique.\<close>

definition insert_session ::
  "string \<Rightarrow> string \<Rightarrow> string \<Rightarrow> string \<Rightarrow> pydict \<Rightarrow> int \<Rightarrow> int \<Rightarrow> string option \<Rightarrow> bool \<Rightarrow> session_log \<Rightarrow> (log_error + unit) \<times> session_log" where
  "insert_session session_id session_key channel target metadata created_at updated_at active_agent_id ignore_conflict s =
     (if list_ex (\<lambda>r. sn_id r = session_id \<or> sn_session_key r = session_key) (sl_sessions s)
      then ((if ignore_conflict then Inr () else Inl Log_UniqueError), s)
      else (Inr (), s\<lparr>sl_sessions := sl_sessions s @
              [new_session_row session_id session_key channel target metadata created_at updated_at active_agent_id]\<rparr>))"

text \<open>The foreign keys remove the holds with the session.\<close>

definition delete_session :: "string \<Rightarrow> session_log \<Rightarrow> bool \<times> session_log" where
  "delete_session session_id s =
     (let sid = str_strip session_id in
      if sid = [] then (False, s)
      else (list_ex (\<lambda>r. sn_id r = sid) (sl_sessions s),
            s\<lparr>sl_messages := filter (\<lambda>m. mg_session_id m \<noteq> sid) (sl_messages s), sl_facts := filter (\<lambda>f. ef_session_id f \<noteq> sid) (sl_facts s),
              sl_events := filter (\<lambda>e. en_session_id e \<noteq> sid) (sl_events s), sl_sessions := filter (\<lambda>r. sn_id r \<noteq> sid) (sl_sessions s),
              sl_holds := filter (\<lambda>h. rh_session_id h \<noteq> sid) (sl_holds s)\<rparr>))"

definition session_not_found :: "string \<Rightarrow> log_error" where
  "session_not_found session_id = Log_ValueError (''Session not found: '' @ session_id)"

definition update_session :: "string \<Rightarrow> (session_row \<Rightarrow> session_row) \<Rightarrow> session_log \<Rightarrow> session_log" where
  "update_session session_id upd s = s\<lparr>sl_sessions := sql_update (\<lambda>r. sn_id r = session_id) upd (sl_sessions s)\<rparr>"

text \<open>Every update below keeps the key, so reading the row back gives the updated row.\<close>

definition update_session_metadata ::
  "(string \<Rightarrow> int \<Rightarrow> bool) \<Rightarrow> int \<Rightarrow> string \<Rightarrow> pydict \<Rightarrow> int option \<Rightarrow> session_log \<Rightarrow> (log_error + session_row) \<times> session_log" where
  "update_session_metadata fence now session_id patch token = in_transaction
     (st_bind (assert_fence_if_requested fence session_id token) (\<lambda>_ s.
        case get_session session_id s of
          None \<Rightarrow> (Inl (session_not_found session_id), s)
        | Some current \<Rightarrow>
            let upd = (\<lambda>r. r\<lparr>sn_metadata := metadata_json (dict_update (sn_metadata current) patch), sn_updated_at := now\<rparr>)
            in (Inr (upd current), update_session session_id upd s)))"

definition touch_session_activity :: "int \<Rightarrow> string \<Rightarrow> int option \<Rightarrow> session_log \<Rightarrow> (log_error + session_row) \<times> session_log" where
  "touch_session_activity now session_id last_activity_at s =
     (let at = (case last_activity_at of None \<Rightarrow> now | Some t \<Rightarrow> t) in
      case get_session session_id s of
        None \<Rightarrow> (Inl (session_not_found session_id), s)
      | Some r \<Rightarrow> (Inr (r\<lparr>sn_updated_at := at, sn_last_activity_at := at\<rparr>), touch_session at session_id s))"

text \<open>\<open>None\<close> for \<open>closed_at\<close> and \<open>expires_at\<close> is \<open>LIFECYCLE_UNSET\<close>.\<close>

definition update_session_lifecycle ::
  "(string \<Rightarrow> int \<Rightarrow> bool) \<Rightarrow> int \<Rightarrow> string \<Rightarrow> string option \<Rightarrow> int option \<Rightarrow> int option option \<Rightarrow> int option option \<Rightarrow> int option \<Rightarrow> session_log \<Rightarrow>
   (log_error + session_row) \<times> session_log" where
  "update_session_lifecycle fence now session_id status last_activity_at closed_at expires_at token = in_transaction
     (st_bind (assert_fence_if_requested fence session_id token) (\<lambda>_ s.
        case get_session session_id s of
          None \<Rightarrow> (Inl (session_not_found session_id), s)
        | Some current \<Rightarrow>
            let next_status = (let v = str_strip (opt_or status (sn_status current)) in if v = [] then sn_status current else v);
                upd = (\<lambda>r. r\<lparr>sn_status := next_status,
                   sn_last_activity_at := (case last_activity_at of None \<Rightarrow> sn_last_activity_at current | Some t \<Rightarrow> t),
                   sn_closed_at := (case closed_at of None \<Rightarrow> sn_closed_at current | Some c \<Rightarrow> c),
                   sn_expires_at := (case expires_at of None \<Rightarrow> sn_expires_at current | Some x \<Rightarrow> x), sn_updated_at := now\<rparr>)
            in (Inr (upd current), update_session session_id upd s)))"

section \<open>Status changes\<close>

definition note_event ::
  "(string \<Rightarrow> int \<Rightarrow> bool) \<Rightarrow> int \<Rightarrow> string \<Rightarrow> string \<Rightarrow> pydict \<Rightarrow> int option \<Rightarrow> session_log \<Rightarrow> (log_error + unit) \<times> session_log" where
  "note_event fence now session_id event_type payload token =
     st_bind (append_event fence now session_id event_type payload None token) (\<lambda>_ s. (Inr (), s))"

definition note_if ::
  "bool \<Rightarrow> (session_log \<Rightarrow> (log_error + unit) \<times> session_log) \<Rightarrow> session_log \<Rightarrow> (log_error + unit) \<times> session_log" where
  "note_if b m s = (if b then m s else (Inr (), s))"

definition closed_text :: "(int \<Rightarrow> string) \<Rightarrow> int \<Rightarrow> session_row \<Rightarrow> pyval" where
  "closed_text iso_text now r = PStr (iso_text (case sn_closed_at r of None \<Rightarrow> now | Some c \<Rightarrow> c))"

definition set_session_status ::
  "(int \<Rightarrow> string) \<Rightarrow> (string \<Rightarrow> int \<Rightarrow> bool) \<Rightarrow> int \<Rightarrow> string \<Rightarrow> string \<Rightarrow> string option \<Rightarrow> int option \<Rightarrow> session_log \<Rightarrow>
   (log_error + session_row) \<times> session_log" where
  "set_session_status iso_text fence now session_id status reason token s =
     (case get_session session_id s of
        None \<Rightarrow> (Inl (session_not_found session_id), s)
      | Some current \<Rightarrow>
          (case normalize_session_status status of
             Inl e \<Rightarrow> (Inl e, s)
           | Inr next_status \<Rightarrow>
               let next_closed_at = (if next_status = ''closed'' then (case sn_closed_at current of None \<Rightarrow> Some now | c \<Rightarrow> c) else None);
                   why = PStr (str_strip (opt_or reason []))
               in st_bind (update_session_lifecycle fence now session_id (Some next_status) (Some now) (Some next_closed_at) None token) (\<lambda>updated.
                  st_bind (note_if (sn_status current \<noteq> sn_status updated)
                     (note_event fence now session_id ''session.status.changed''
                        [(''previous_status'', PStr (sn_status current)), (''status'', PStr (sn_status updated)), (''reason'', why)] token)) (\<lambda>_.
                  st_bind (note_if (sn_status current \<noteq> ''closed'' \<and> sn_status updated = ''closed'')
                     (note_event fence now session_id ''session.closed'' [(''closed_at'', closed_text iso_text now updated), (''reason'', why)] token)) (\<lambda>_ s.
                  (Inr updated, s)))) s))"

definition close_session :: "(int \<Rightarrow> string) \<Rightarrow> int \<Rightarrow> string \<Rightarrow> string option \<Rightarrow> session_log \<Rightarrow> (log_error + session_row) \<times> session_log" where
  "close_session iso_text now session_id reason =
     set_session_status iso_text (\<lambda>_ _. True) now session_id ''closed'' (Some (opt_or reason ''manual_close'')) None"

definition resume_session ::
  "(int \<Rightarrow> string) \<Rightarrow> (string \<Rightarrow> int \<Rightarrow> bool) \<Rightarrow> int \<Rightarrow> string \<Rightarrow> string option \<Rightarrow> int option \<Rightarrow> session_log \<Rightarrow> (log_error + session_row) \<times> session_log" where
  "resume_session iso_text fence now session_id reason token s =
     (case get_session session_id s of
        None \<Rightarrow> (Inl (session_not_found session_id), s)
      | Some current \<Rightarrow>
          if sn_expires_at current \<noteq> None
          then (Inl (Log_ValueError (''Session has expired and cannot be resumed: '' @ session_id)), s)
          else if sn_status current = ''active'' then (Inr current, s)
          else st_bind (set_session_status iso_text fence now session_id ''active'' (Some (opt_or reason ''explicit_resume'')) token) (\<lambda>updated.
               st_bind (note_event fence now session_id ''session.resumed''
                  [(''previous_status'', PStr (sn_status current)), (''reason'', PStr (str_strip (opt_or reason ''explicit_resume'')))] token) (\<lambda>_ s.
               (Inr updated, s))) s)"

text \<open>The part of \<open>list_sessions\<close> that the sweep uses: one status, oldest first.\<close>

definition list_sessions_by_status :: "string \<Rightarrow> nat \<Rightarrow> session_log \<Rightarrow> session_row list" where
  "list_sessions_by_status status limit s = take limit (sort_key sn_updated_at (sort_key sn_id (filter (\<lambda>r. sn_status r = status) (sl_sessions s))))"

fun mark_each_stale :: "(int \<Rightarrow> string) \<Rightarrow> int \<Rightarrow> int \<Rightarrow> session_row list \<Rightarrow> session_log \<Rightarrow> (log_error + unit) \<times> session_log" where
  "mark_each_stale iso_text now stale_after [] s = (Inr (), s)"
| "mark_each_stale iso_text now stale_after (r # rs) s =
     st_bind (set_session_status iso_text (\<lambda>_ _. True) now (sn_id r) ''stale'' (Some ''stale_timeout'') None) (\<lambda>_.
     st_bind (note_event (\<lambda>_ _. True) now (sn_id r) ''session.stale''
        [(''reason'', PStr ''stale_timeout''), (''last_activity_at'', PStr (iso_text (sn_last_activity_at r))), (''timeout_seconds'', PInt stale_after)] None) (\<lambda>_.
     mark_each_stale iso_text now stale_after rs)) s"

text \<open>Instants count microseconds.\<close>

definition mark_stale_sessions :: "(int \<Rightarrow> string) \<Rightarrow> int \<Rightarrow> int \<Rightarrow> session_log \<Rightarrow> (log_error + nat) \<times> session_log" where
  "mark_stale_sessions iso_text now timeout_seconds s =
     (let stale_after = max 1 timeout_seconds;
          stale = filter (\<lambda>r. stale_after * 1000000 < now - sn_last_activity_at r) (list_sessions_by_status ''active'' 10000 s)
      in st_bind (mark_each_stale iso_text now stale_after stale) (\<lambda>_ s. (Inr (length stale), s)) s)"

definition expire_session ::
  "(int \<Rightarrow> string) \<Rightarrow> int \<Rightarrow> string \<Rightarrow> int option \<Rightarrow> string option \<Rightarrow> session_log \<Rightarrow> (log_error + session_row) \<times> session_log" where
  "expire_session iso_text now session_id expires_at reason s =
     (case get_session session_id s of
        None \<Rightarrow> (Inl (session_not_found session_id), s)
      | Some current \<Rightarrow>
          let expiration = (case expires_at of None \<Rightarrow> now | Some t \<Rightarrow> t) in
          st_bind (update_session_lifecycle (\<lambda>_ _. True) now session_id (Some ''closed'') (Some now)
                     (Some (case sn_closed_at current of None \<Rightarrow> Some now | c \<Rightarrow> c)) (Some (Some expiration)) None) (\<lambda>updated.
          st_bind (note_if (sn_status current \<noteq> sn_status updated)
             (note_event (\<lambda>_ _. True) now session_id ''session.status.changed''
                [(''previous_status'', PStr (sn_status current)), (''status'', PStr (sn_status updated)), (''reason'', PStr ''expired'')] None)) (\<lambda>_.
          st_bind (note_event (\<lambda>_ _. True) now session_id ''session.expired''
             [(''previous_status'', PStr (sn_status current)), (''status'', PStr (sn_status updated)), (''expires_at'', PStr (iso_text expiration)),
              (''closed_at'', closed_text iso_text now updated), (''reason'', PStr (str_strip (opt_or reason ''ttl_expired'')))] None) (\<lambda>_ s.
          (Inr updated, s)))) s)"

section \<open>Messages\<close>

definition normalize_optional_text :: "string option \<Rightarrow> string" where
  "normalize_optional_text raw = str_strip (opt_or raw [])"

definition set_if_text :: "string \<Rightarrow> string \<Rightarrow> pydict \<Rightarrow> pydict" where
  "set_if_text key v d = (if v \<noteq> [] then dict_set d key (PStr v) else d)"

definition default_if_text :: "string \<Rightarrow> string \<Rightarrow> pydict \<Rightarrow> pydict" where
  "default_if_text key v d = (if v \<noteq> [] \<and> \<not> dict_has d key then dict_set d key (PStr v) else d)"

record message_args =
  ma_session_id :: string
  ma_conversation_id :: "string option"
  ma_thread_id :: "string option"
  ma_attach_id :: "string option"
  ma_role :: string
  ma_body :: string
  ma_metadata :: pydict
  ma_participant_id :: "string option"
  ma_participant_type :: "string option"
  ma_display_name :: "string option"

definition message_metadata :: "message_args \<Rightarrow> pydict" where
  "message_metadata a =
     default_if_text ''attach_id'' (normalize_optional_text (ma_attach_id a))
      (default_if_text ''thread_id'' (normalize_optional_text (ma_thread_id a))
       (default_if_text ''conversation_id'' (normalize_optional_text (ma_conversation_id a))
        (set_if_text ''display_name'' (normalize_optional_text (ma_display_name a))
         (set_if_text ''participant_type'' (str_lower (normalize_optional_text (ma_participant_type a)))
          (set_if_text ''participant_id'' (normalize_optional_text (ma_participant_id a)) (ma_metadata a))))))"

definition next_append_seq :: "string \<Rightarrow> session_log \<Rightarrow> int" where
  "next_append_seq session_id s = foldr (\<lambda>m k. max (mg_append_seq m) k) (filter (\<lambda>m. mg_session_id m = session_id) (sl_messages s)) 0 + 1"

definition append_message ::
  "(string \<Rightarrow> int \<Rightarrow> bool) \<Rightarrow> int \<Rightarrow> string \<Rightarrow> message_args \<Rightarrow> int option \<Rightarrow> session_log \<Rightarrow> (log_error + message_row) \<times> session_log" where
  "append_message fence now message_id a token = in_transaction
     (st_bind (assert_fence_if_requested fence (ma_session_id a) token) (\<lambda>_ s.
        if get_session (ma_session_id a) s = None then (Inl Log_ForeignKeyError, s)
        else if list_ex (\<lambda>m. mg_id m = message_id) (sl_messages s) then (Inl Log_UniqueError, s)
        else let m = \<lparr>mg_id = message_id, mg_session_id = ma_session_id a, mg_conversation_id = normalize_optional_text (ma_conversation_id a),
                      mg_thread_id = normalize_optional_text (ma_thread_id a), mg_attach_id = normalize_optional_text (ma_attach_id a),
                      mg_role = ma_role a, mg_body = ma_body a, mg_metadata = metadata_json (message_metadata a), mg_created_at = now,
                      mg_append_seq = next_append_seq (ma_session_id a) s\<rparr>
             in (Inr m, (touch_session now (ma_session_id a) s)\<lparr>sl_messages := sl_messages s @ [m]\<rparr>)))"

text \<open>The rows of a session in their one order, each with its position.\<close>

definition session_messages :: "string \<Rightarrow> session_log \<Rightarrow> (nat \<times> message_row) list" where
  "session_messages session_id s =
     (let rows = sort_key mg_created_at (sort_key mg_append_seq (filter (\<lambda>m. mg_session_id m = session_id) (sl_messages s)))
      in zip [1..<length rows + 1] rows)"

definition message_filter :: "string option \<Rightarrow> string option \<Rightarrow> nat \<times> message_row \<Rightarrow> bool" where
  "message_filter conversation_id thread_id = (\<lambda>(i, m).
     (normalize_optional_text conversation_id = [] \<or> mg_conversation_id m = normalize_optional_text conversation_id) \<and>
     (normalize_optional_text thread_id = [] \<or> mg_thread_id m = normalize_optional_text thread_id))"

definition list_messages :: "string \<Rightarrow> int \<Rightarrow> string option \<Rightarrow> string option \<Rightarrow> session_log \<Rightarrow> (nat \<times> message_row) list" where
  "list_messages session_id limit conversation_id thread_id s =
     take (nat limit) (filter (message_filter conversation_id thread_id) (session_messages session_id s))"

definition list_messages_after_rowid ::
  "string \<Rightarrow> int \<Rightarrow> int \<Rightarrow> string option \<Rightarrow> string option \<Rightarrow> session_log \<Rightarrow> (nat \<times> message_row) list" where
  "list_messages_after_rowid session_id after_rowid limit conversation_id thread_id s =
     take (nat limit) (filter (\<lambda>r. message_filter conversation_id thread_id r \<and> max 0 after_rowid < int (fst r)) (session_messages session_id s))"

definition take_last :: "nat \<Rightarrow> 'a list \<Rightarrow> 'a list" where
  "take_last n xs = drop (length xs - n) xs"

definition list_recent_messages ::
  "string \<Rightarrow> int \<Rightarrow> string option \<Rightarrow> string option \<Rightarrow> string list \<Rightarrow> int \<Rightarrow> session_log \<Rightarrow> (nat \<times> message_row) list" where
  "list_recent_messages session_id limit conversation_id thread_id exclude_message_ids after_rowid s =
     (if limit \<le> 0 then []
      else let rows = take (nat limit + length exclude_message_ids) (rev (filter (message_filter conversation_id thread_id) (session_messages session_id s)))
           in take_last (nat limit) (filter (\<lambda>(i, m). mg_id m \<notin> set exclude_message_ids \<and> after_rowid < int i) (rev rows)))"

definition count_messages :: "string \<Rightarrow> string option \<Rightarrow> string option \<Rightarrow> session_log \<Rightarrow> nat" where
  "count_messages session_id conversation_id thread_id s = length (filter (message_filter conversation_id thread_id) (session_messages session_id s))"

definition latest_conversation_id :: "string \<Rightarrow> session_log \<Rightarrow> string option" where
  "latest_conversation_id session_id s =
     (let sid = str_strip session_id; rows = filter (\<lambda>(i, m). str_strip (mg_conversation_id m) \<noteq> []) (session_messages sid s) in
      if sid = [] \<or> rows = [] then None else strip_or_none (mg_conversation_id (snd (last rows))))"

section \<open>Messages keep their order\<close>

lemma rev_take_rev: "rev (take n (rev xs)) = take_last n xs"
  by (simp add: take_last_def rev_take)

text \<open>Without exclusions the recent messages are the last ones of the thread, in their order.\<close>

lemma recent_messages_last:
  "0 < limit \<Longrightarrow> list_recent_messages sid limit conv thread [] 0 s =
     take_last (nat limit) (filter (message_filter conv thread) (session_messages sid s))"
proof -
  assume "0 < limit"
  have pos: "0 < i" if "(i, m) \<in> set (session_messages sid s)" for i m
    using set_zip_leftD that by (fastforce simp: session_messages_def Let_def simp del: upt_Suc)
  let ?rows = "take_last (nat limit) (filter (message_filter conv thread) (session_messages sid s))"
  have "set ?rows \<subseteq> set (session_messages sid s)" by (auto simp: take_last_def dest: in_set_dropD)
  then have "filter (\<lambda>(i, m). mg_id m \<notin> set [] \<and> 0 < int i) ?rows = ?rows" by (fastforce simp: filter_id_conv dest: pos)
  then show ?thesis using \<open>0 < limit\<close> by (simp add: list_recent_messages_def Let_def rev_take_rev) (simp add: take_last_def)
qed

end
