(* ===== verification/Run_Status.thy ===== *)
theory Run_Status
  imports Session_Store
begin

text \<open>
  Runs and threads read from the event log (\<open>modules/task/run/status.py\<close>): the events that a run writes, the
  list of runs, the lifecycle of a thread, the routing decision of the gateway, and the terminal event of
  an invocation. The reader of an invocation pages backwards; its loop has fuel, and \<open>None\<close> means that
  the fuel ran out. Texts arrive as texts, so \<open>str\<close> of an argument is the argument.
\<close>

section \<open>Writing run events\<close>

definition with_ids :: "string option \<Rightarrow> string option \<Rightarrow> string option \<Rightarrow> pydict \<Rightarrow> pydict" where
  "with_ids conversation_id thread_id attach_id d =
     set_if_text ''attach_id'' (normalize_optional_text attach_id)
       (set_if_text ''thread_id'' (normalize_optional_text thread_id) (set_if_text ''conversation_id'' (normalize_optional_text conversation_id) d))"

record run_event_args =
  re_session_id :: string
  re_run_id :: string
  re_state :: string
  re_current_step :: string
  re_payload :: pydict
  re_conversation_id :: "string option"
  re_thread_id :: "string option"
  re_attach_id :: "string option"

definition run_event_payload :: "run_event_args \<Rightarrow> pydict" where
  "run_event_payload a =
     dict_update
       (with_ids (re_conversation_id a) (re_thread_id a) (re_attach_id a)
         [(''run_id'', PStr (str_strip (re_run_id a))), (''state'', PStr (normalize_run_state (PStr (re_state a)) [])),
          (''step'', PStr (str_strip (re_current_step a)))]) (re_payload a)"

definition append_run_state_event ::
  "(string \<Rightarrow> int \<Rightarrow> bool) \<Rightarrow> int \<Rightarrow> run_event_args \<Rightarrow> int option \<Rightarrow> session_log \<Rightarrow> (log_error + session_event) \<times> session_log" where
  "append_run_state_event fence now a token s =
     (if str_strip (re_run_id a) = [] then (Inl (Log_ValueError ''`run_id` is required.''), s)
      else append_event fence now (re_session_id a) (''run.'' @ normalize_run_state (PStr (re_state a)) []) (run_event_payload a) None token s)"

record run_checkpoint =
  rc_checkpoint_id :: string
  rc_run_id :: string
  rc_goal_id :: string
  rc_sequence :: int
  rc_state_snapshot :: pydict
  rc_created_at :: string

definition run_checkpoint_dict :: "run_checkpoint \<Rightarrow> pydict" where
  "run_checkpoint_dict c =
     [(''checkpoint_id'', PStr (rc_checkpoint_id c)), (''run_id'', PStr (rc_run_id c)), (''goal_id'', PStr (rc_goal_id c)),
      (''sequence'', PInt (rc_sequence c)), (''state_snapshot'', PDict (rc_state_snapshot c)), (''created_at'', PStr (rc_created_at c))]"

definition append_run_checkpoint_event ::
  "(string \<Rightarrow> int \<Rightarrow> bool) \<Rightarrow> int \<Rightarrow> string \<Rightarrow> run_checkpoint \<Rightarrow> string option \<Rightarrow> string option \<Rightarrow> int option \<Rightarrow> session_log \<Rightarrow>
   (log_error + session_event) \<times> session_log" where
  "append_run_checkpoint_event fence now session_id c conversation_id thread_id token s =
     (if rc_run_id c = [] then (Inl (Log_ValueError ''RunCheckpoint.run_id is required''), s)
      else if rc_goal_id c = [] then (Inl (Log_ValueError ''RunCheckpoint.goal_id is required''), s)
      else if rc_checkpoint_id c = [] then (Inl (Log_ValueError ''RunCheckpoint.checkpoint_id is required''), s)
      else append_event fence now session_id ''run.checkpoint'' (with_ids conversation_id thread_id None (run_checkpoint_dict c)) None token s)"

definition append_lifecycle_event ::
  "(string \<Rightarrow> int \<Rightarrow> bool) \<Rightarrow> int \<Rightarrow> string \<Rightarrow> string \<Rightarrow> string option \<Rightarrow> string option \<Rightarrow> string option \<Rightarrow> pydict \<Rightarrow> int option \<Rightarrow> session_log \<Rightarrow>
   (log_error + session_event) \<times> session_log" where
  "append_lifecycle_event fence now session_id event_type conversation_id thread_id attach_id payload token s =
     (if str_strip event_type = [] then (Inl (Log_ValueError ''`event_type` is required.''), s)
      else append_event fence now session_id (str_strip event_type) (dict_update (with_ids conversation_id thread_id attach_id []) payload) None token s)"

section \<open>Reading runs\<close>

definition TERMINAL_RUN_STATES :: "string list" where
  "TERMINAL_RUN_STATES = [''cancelled'', ''completed'', ''failed'']"

definition RUN_STATUS_DEFAULT_SCAN_LIMIT :: int where
  "RUN_STATUS_DEFAULT_SCAN_LIMIT = 2000"

record run_event =
  rv_id :: int
  rv_run_id :: string
  rv_session_id :: string
  rv_event_type :: string
  rv_state :: string
  rv_current_step :: string
  rv_payload :: pydict
  rv_created_at :: int

definition to_run_event :: "session_event \<Rightarrow> run_event option" where
  "to_run_event e =
     (let run_id = payload_text (en_payload e) ''run_id'' in
      if run_id = [] then None
      else Some \<lparr>rv_id = en_id e, rv_run_id = run_id, rv_session_id = en_session_id e, rv_event_type = en_event_type e,
                 rv_state = normalize_run_state (dict_get_or (en_payload e) ''state'' PNone) (en_event_type e),
                 rv_current_step = payload_text (en_payload e) ''step'', rv_payload = en_payload e, rv_created_at = en_created_at e\<rparr>)"

record run_summary =
  ru_run_id :: string
  ru_state :: string
  ru_current_step :: string
  ru_started_at :: int
  ru_ended_at :: "int option"
  ru_event_count :: nat
  ru_error :: string

text \<open>The event with an identifier that a summary names; an absent or zero identifier has none.\<close>

definition event_at :: "string \<Rightarrow> int option \<Rightarrow> session_log \<Rightarrow> session_event option" where
  "event_at session_id i s = (case i of None \<Rightarrow> None | Some k \<Rightarrow> sql_get en_id k (list_events_by_id session_id [k] s))"

definition summary_of_run :: "string \<Rightarrow> session_log \<Rightarrow> run_aggregate \<Rightarrow> run_summary list" where
  "summary_of_run session_id s a =
     (let event_of = (\<lambda>i. Option.bind (event_at session_id i s) to_run_event) in
      case event_of (ra_last_id a) of
        None \<Rightarrow> []
      | Some l \<Rightarrow> [\<lparr>ru_run_id = ra_run_id a, ru_state = rv_state l,
           ru_current_step = (case event_of (ra_step_id a) of None \<Rightarrow> [] | Some e \<Rightarrow> rv_current_step e), ru_started_at = ra_started_at a,
           ru_ended_at = map_option rv_created_at (event_of (ra_terminal_id a)), ru_event_count = ra_event_count a,
           ru_error = (case event_of (ra_error_id a) of None \<Rightarrow> [] | Some e \<Rightarrow> extract_event_error (rv_payload e))\<rparr>])"

definition list_session_runs :: "string \<Rightarrow> int \<Rightarrow> int \<Rightarrow> session_log \<Rightarrow> run_summary list" where
  "list_session_runs session_id limit scan_limit s =
     (let safe_limit = max 1 (min limit 500);
          runs = summarize_recent_runs session_id (max safe_limit scan_limit) TERMINAL_RUN_STATES s;
          newest = take (nat safe_limit) (sql_order_desc ra_started_at (sql_order_desc ra_run_id runs))
      in concat (map (summary_of_run session_id s) newest))"

definition list_session_run_events :: "string \<Rightarrow> string \<Rightarrow> int \<Rightarrow> session_log \<Rightarrow> run_event list" where
  "list_session_run_events session_id run_id limit s =
     (let rid = str_strip run_id in
      if rid = [] then [] else List.map_filter to_run_event (rev (list_run_events session_id rid (max 1 (min limit 1000)) s)))"

section \<open>Threads\<close>

datatype thread_state = Th_awaiting | Th_undelivered | Th_settled | Th_failed | Th_cancelled | Th_detached

fun thread_state_text :: "thread_state \<Rightarrow> string" where
  "thread_state_text Th_awaiting = ''awaiting_response''"
| "thread_state_text Th_undelivered = ''response_ready_undelivered''"
| "thread_state_text Th_settled = ''settled''"
| "thread_state_text Th_failed = ''failed''"
| "thread_state_text Th_cancelled = ''cancelled''"
| "thread_state_text Th_detached = ''detached''"

datatype delivery_state = Dl_none | Dl_persisted | Dl_delivered | Dl_acked

definition ATTACH_ROLE_WRITER :: string where
  "ATTACH_ROLE_WRITER = ''writer''"

definition THREAD_FLAG_EVENT_TYPES :: "string list" where
  "THREAD_FLAG_EVENT_TYPES = [''response.persisted'', ''response.delivered'', ''response.acked'', ''run.cancel_requested'', ''client.detached'']"

definition resolve_delivery_state :: "string list \<Rightarrow> delivery_state" where
  "resolve_delivery_state present =
     (if ''response.acked'' \<in> set present then Dl_acked else if ''response.delivered'' \<in> set present then Dl_delivered
      else if ''response.persisted'' \<in> set present then Dl_persisted else Dl_none)"

definition infer_thread_id :: "message_row list \<Rightarrow> string \<Rightarrow> string \<Rightarrow> string" where
  "infer_thread_id messages conversation_id session_id =
     (let default = (if conversation_id \<noteq> [] then conversation_id else session_id) in
      if messages = [] then default
      else let m = last messages; from_meta = payload_text (mg_metadata m) ''thread_id'';
               candidate = (if from_meta \<noteq> [] then from_meta else str_strip (mg_thread_id m))
           in if candidate \<noteq> [] then candidate else default)"

definition event_matches_thread :: "string \<Rightarrow> string \<Rightarrow> string \<Rightarrow> session_event \<Rightarrow> bool" where
  "event_matches_thread conversation_id thread_id session_id e =
     (let event_conversation = payload_id (en_payload e) ''conversation_id''; event_thread = payload_id (en_payload e) ''thread_id'' in
      if conversation_id \<noteq> [] \<and> event_conversation \<noteq> [] \<and> event_conversation \<noteq> conversation_id then False
      else if conversation_id \<noteq> [] \<and> event_conversation = [] \<and> conversation_id \<noteq> session_id then False
      else if thread_id \<noteq> [] \<and> event_thread \<noteq> [] \<and> event_thread \<noteq> thread_id then False
      else True)"

definition is_internal_error_outbound :: "message_row option \<Rightarrow> bool" where
  "is_internal_error_outbound message =
     (case message of
        None \<Rightarrow> False
      | Some m \<Rightarrow> str_strip (mg_role m) = ''outbound'' \<and>
          (str_lower (payload_id (mg_metadata m) ''brain_status'') = ''error'' \<or> str_lower (payload_id (mg_metadata m) ''finish_reason'') = ''error''))"

definition resolve_writer_attach_id :: "session_event option \<Rightarrow> message_row list \<Rightarrow> string" where
  "resolve_writer_attach_id attach_event messages =
     (case attach_event of
        Some e \<Rightarrow> payload_text (en_payload e) ''attach_id''
      | None \<Rightarrow> if messages = [] then [] else payload_text (mg_metadata (last messages)) ''attach_id'')"

definition detach_qualifier :: "bool \<Rightarrow> bool \<Rightarrow> string" where
  "detach_qualifier cancel_requested detached =
     (if detached then ''detached_before_delivery'' else if cancel_requested then ''cancel_requested'' else [])"

definition completed_state :: "run_event \<Rightarrow> delivery_state \<Rightarrow> message_row option \<Rightarrow> bool \<Rightarrow> bool \<Rightarrow> thread_state \<times> string \<times> string" where
  "completed_state r delivery latest_message cancel_requested detached =
     (if delivery \<in> {Dl_delivered, Dl_acked} then (Th_settled, [], [])
      else if is_internal_error_outbound latest_message then (Th_settled, ''internal_error_outbound'', [])
      else let pending = (case latest_message of None \<Rightarrow> [] | Some m \<Rightarrow> if mg_role m = ''outbound'' then str_strip (mg_id m) else [])
           in (Th_undelivered, detach_qualifier cancel_requested detached, if pending \<noteq> [] then pending else rv_run_id r))"

definition message_state :: "delivery_state \<Rightarrow> message_row option \<Rightarrow> bool \<Rightarrow> bool \<Rightarrow> thread_state \<times> string \<times> string" where
  "message_state delivery latest_message cancel_requested detached =
     (let rest = (if detached then (Th_detached, [], []) else (Th_settled, ''no_state_events'', [])) in
      case latest_message of
        None \<Rightarrow> rest
      | Some m \<Rightarrow>
          if mg_role m = ''inbound'' then (Th_awaiting, [], [])
          else if mg_role m = ''outbound''
          then (if is_internal_error_outbound latest_message then (Th_settled, ''internal_error_outbound'', [])
                else if delivery \<in> {Dl_none, Dl_persisted} then (Th_undelivered, detach_qualifier cancel_requested detached, str_strip (mg_id m))
                else (Th_settled, [], []))
          else rest)"

definition resolve_thread_state ::
  "run_event option \<Rightarrow> delivery_state \<Rightarrow> message_row option \<Rightarrow> bool \<Rightarrow> bool \<Rightarrow> thread_state \<times> string \<times> string" where
  "resolve_thread_state latest_run_event delivery latest_message cancel_requested detached =
     (case latest_run_event of
        None \<Rightarrow> message_state delivery latest_message cancel_requested detached
      | Some r \<Rightarrow>
          if rv_state r = ''failed'' then (Th_failed, [], [])
          else if rv_state r = ''cancelled'' then (Th_cancelled, [], [])
          else if rv_state r \<in> {''running'', ''responding'', ''waiting_tool'', ''queued''} then (Th_awaiting, [], [])
          else if rv_state r = ''completed'' then completed_state r delivery latest_message cancel_requested detached
          else message_state delivery latest_message cancel_requested detached)"

record thread_lifecycle =
  tl_conversation_id :: string
  tl_thread_id :: string
  tl_thread_state :: thread_state
  tl_delivery_state :: delivery_state
  tl_writer_attach_id :: string
  tl_latest_run_id :: string
  tl_latest_run_state :: string
  tl_invocation_id :: string
  tl_invocation_source_event_id :: int
  tl_invocation_started_at :: "int option"
  tl_latest_event_id :: int
  tl_latest_message_id :: string
  tl_latest_message_role :: string
  tl_qualifier :: string
  tl_pending_response_id :: string
  tl_updated_at :: "int option"

definition invocation_start_fields :: "session_event option \<Rightarrow> string \<times> int \<times> int option" where
  "invocation_start_fields e =
     (case e of None \<Rightarrow> ([], 0, None) | Some e \<Rightarrow> (payload_text (en_payload e) ''invocation_id'', en_id e, Some (en_created_at e)))"

definition thread_messages :: "string \<Rightarrow> string \<Rightarrow> string \<Rightarrow> session_log \<Rightarrow> message_row list" where
  "thread_messages session_id conversation thread s = map snd (list_recent_messages session_id 50 (Some conversation) (Some thread) [] 0 s)"

definition last_message :: "message_row list \<Rightarrow> message_row option" where
  "last_message messages = (if messages = [] then None else Some (last messages))"

definition thread_summary :: "string \<Rightarrow> string \<Rightarrow> string \<Rightarrow> session_log \<Rightarrow> thread_facts" where
  "thread_summary session_id conversation thread s =
     summarize_thread_events session_id conversation thread ''run.queued'' ''client.attach'' ATTACH_ROLE_WRITER THREAD_FLAG_EVENT_TYPES s"

definition resolve_thread_lifecycle :: "string \<Rightarrow> string option \<Rightarrow> string option \<Rightarrow> session_log \<Rightarrow> thread_lifecycle" where
  "resolve_thread_lifecycle session_id conversation_id thread_id s =
     (let conversation = normalize_optional_text conversation_id; asked = normalize_optional_text thread_id;
          messages = thread_messages session_id conversation asked s;
          thread = (if asked \<noteq> [] then asked else infer_thread_id messages conversation session_id);
          facts = thread_summary session_id conversation thread s;
          latest_event = event_at session_id (tf_latest_id facts) s;
          run = Option.bind (event_at session_id (tf_run_event_id facts) s) to_run_event;
          (invocation_id, invocation_source, invocation_started) = invocation_start_fields (event_at session_id (tf_start_id facts) s);
          delivery = resolve_delivery_state (tf_present facts);
          message = last_message messages;
          (state, qualifier, pending) = resolve_thread_state run delivery message
             (''run.cancel_requested'' \<in> set (tf_present facts)) (''client.detached'' \<in> set (tf_present facts))
      in \<lparr>tl_conversation_id = conversation, tl_thread_id = thread, tl_thread_state = state, tl_delivery_state = delivery,
          tl_writer_attach_id = resolve_writer_attach_id (event_at session_id (tf_attach_id facts) s) messages,
          tl_latest_run_id = (case run of None \<Rightarrow> [] | Some r \<Rightarrow> rv_run_id r), tl_latest_run_state = (case run of None \<Rightarrow> [] | Some r \<Rightarrow> rv_state r),
          tl_invocation_id = invocation_id, tl_invocation_source_event_id = invocation_source, tl_invocation_started_at = invocation_started,
          tl_latest_event_id = (case latest_event of None \<Rightarrow> 0 | Some e \<Rightarrow> en_id e),
          tl_latest_message_id = (case message of None \<Rightarrow> [] | Some m \<Rightarrow> mg_id m), tl_latest_message_role = (case message of None \<Rightarrow> [] | Some m \<Rightarrow> mg_role m),
          tl_qualifier = qualifier, tl_pending_response_id = pending,
          tl_updated_at = (case latest_event of Some e \<Rightarrow> Some (en_created_at e) | None \<Rightarrow> map_option mg_created_at message)\<rparr>)"

section \<open>Routing\<close>

datatype thread_action = Ta_replay | Ta_resume | Ta_fork | Ta_reject

record thread_decision =
  td_action :: thread_action
  td_reason_code :: string
  td_thread_id :: string
  td_should_replay_pending :: bool

definition new_thread_id_for_decision :: "string \<Rightarrow> string \<Rightarrow> string" where
  "new_thread_id_for_decision uuid prefix =
     (let safe = str_strip (if prefix = [] then ''thread'' else prefix) in (if safe = [] then ''thread'' else safe) @ '':'' @ uuid)"

definition current_thread :: "thread_lifecycle \<Rightarrow> string \<Rightarrow> string \<Rightarrow> string \<Rightarrow> string" where
  "current_thread lifecycle session_id conversation requested =
     (if requested \<noteq> [] then requested
      else if str_strip (tl_thread_id lifecycle) \<noteq> [] then str_strip (tl_thread_id lifecycle)
      else if conversation \<noteq> [] then conversation
      else if str_strip session_id \<noteq> [] then str_strip session_id else ''thread'')"

definition resolve_thread_routing_decision ::
  "string \<Rightarrow> thread_lifecycle \<Rightarrow> string \<Rightarrow> string \<Rightarrow> string \<Rightarrow> string \<Rightarrow> bool \<Rightarrow> bool \<Rightarrow> bool \<Rightarrow> bool \<Rightarrow> thread_decision" where
  "resolve_thread_routing_decision uuid lifecycle session_id conversation_id requested_thread_id attach_id resume_requested reset_requested
      explicit_thread auto_resume_inferred =
     (let conversation = str_strip conversation_id; attach = str_strip attach_id;
          thread = current_thread lifecycle session_id conversation (str_strip requested_thread_id);
          fork = (\<lambda>reason. \<lparr>td_action = Ta_fork, td_reason_code = reason,
                   td_thread_id = new_thread_id_for_decision uuid (if conversation \<noteq> [] then conversation else session_id), td_should_replay_pending = False\<rparr>);
          resume = (\<lambda>reason. \<lparr>td_action = Ta_resume, td_reason_code = reason, td_thread_id = thread, td_should_replay_pending = False\<rparr>)
      in if reset_requested then fork ''reset_requested''
         else if tl_thread_state lifecycle = Th_undelivered
         then \<lparr>td_action = Ta_replay, td_reason_code = ''undelivered_response_pending'', td_thread_id = thread, td_should_replay_pending = True\<rparr>
         else if tl_thread_state lifecycle = Th_settled \<and> \<not> resume_requested
         then (if attach = [] \<or> attach \<noteq> tl_writer_attach_id lifecycle then fork ''settled_without_resume'' else resume ''writer_attach_match'')
         else resume (if explicit_thread then ''explicit_thread_requested''
                      else if auto_resume_inferred then ''implicit_resume_without_explicit_session''
                      else if resume_requested then ''resume_requested'' else ''lifecycle_'' @ thread_state_text (tl_thread_state lifecycle)))"

section \<open>The terminal event of an invocation\<close>

definition is_invocation_start :: "string \<Rightarrow> session_event \<Rightarrow> bool" where
  "is_invocation_start run_id e =
     (en_event_type e = ''run.queued'' \<and> payload_text (en_payload e) ''run_id'' = run_id \<and> payload_text (en_payload e) ''invocation_id'' \<noteq> [])"

text \<open>One page: the events of the thread up to the start, newest first, and the start when it is there.\<close>

fun scan_page :: "(session_event \<Rightarrow> bool) \<Rightarrow> (session_event \<Rightarrow> bool) \<Rightarrow> session_event list \<Rightarrow> session_event list \<times> session_event option" where
  "scan_page mine start [] = ([], None)"
| "scan_page mine start (e # es) =
     (if \<not> mine e then scan_page mine start es
      else if start e then ([e], Some e)
      else let (ms, st) = scan_page mine start es in (e # ms, st))"

fun scan_back ::
  "nat \<Rightarrow> (session_event \<Rightarrow> bool) \<Rightarrow> (session_event \<Rightarrow> bool) \<Rightarrow> string \<Rightarrow> int \<Rightarrow> session_log \<Rightarrow> (session_event list \<times> session_event option) option" where
  "scan_back 0 mine start session_id before_id s = None"
| "scan_back (Suc n) mine start session_id before_id s =
     (let page = list_events_before_id session_id before_id RUN_STATUS_DEFAULT_SCAN_LIMIT s in
      if page = [] then Some ([], None)
      else case scan_page mine start page of
        (ms, Some st) \<Rightarrow> Some (ms, Some st)
      | (ms, None) \<Rightarrow> map_option (\<lambda>(older, st). (ms @ older, st)) (scan_back n mine start session_id (en_id (last page)) s))"

record invocation_terminal =
  iv_invocation_id :: string
  iv_resolved_state :: string
  iv_source_event_id :: int
  iv_source_event_type :: string
  iv_source_timestamp :: int
  iv_run_id :: string
  iv_thread_id :: string

definition invocation_terminal_projection :: "session_event \<Rightarrow> session_event \<Rightarrow> string \<Rightarrow> string \<Rightarrow> invocation_terminal" where
  "invocation_terminal_projection start source state run_id =
     \<lparr>iv_invocation_id = py_str (dict_get_or (en_payload start) ''invocation_id'' (PStr [])), iv_resolved_state = state, iv_source_event_id = en_id source,
      iv_source_event_type = en_event_type source, iv_source_timestamp = en_created_at source, iv_run_id = run_id,
      iv_thread_id = py_str (dict_get_or (en_payload start) ''thread_id'' (PStr []))\<rparr>"

text \<open>The forward pass over the matching events, oldest first.\<close>

fun first_terminal :: "session_event \<Rightarrow> string \<Rightarrow> bool \<Rightarrow> bool \<Rightarrow> bool \<Rightarrow> session_event list \<Rightarrow> invocation_terminal option" where
  "first_terminal start run_id completed persisted delivered [] = None"
| "first_terminal start run_id completed persisted delivered (e # es) =
     (if payload_text (en_payload e) ''run_id'' \<noteq> run_id then first_terminal start run_id completed persisted delivered es
      else let r = (if is_run_type (en_event_type e) then to_run_event e else None); state = (case r of None \<Rightarrow> [] | Some r \<Rightarrow> rv_state r) in
      if state = ''failed'' then Some (invocation_terminal_projection start e ''failed'' run_id)
      else if state = ''cancelled'' then Some (invocation_terminal_projection start e ''cancelled'' run_id)
      else let completed = (completed \<or> state = ''completed''); persisted = (persisted \<or> en_event_type e = ''response.persisted'');
               delivered = (delivered \<or> en_event_type e \<in> {''response.delivered'', ''response.acked''})
           in if completed \<and> persisted \<and> delivered then Some (invocation_terminal_projection start e ''settled'' run_id)
              else first_terminal start run_id completed persisted delivered es)"

definition resolve_invocation_terminal ::
  "nat \<Rightarrow> string \<Rightarrow> session_event \<Rightarrow> string \<Rightarrow> string \<Rightarrow> session_log \<Rightarrow> invocation_terminal option option" where
  "resolve_invocation_terminal fuel session_id trigger conversation_id thread_id s =
     (let run_id = payload_text (en_payload trigger) ''run_id'' in
      if run_id = [] then Some None
      else map_option (\<lambda>(matching, start). case start of None \<Rightarrow> None | Some st \<Rightarrow> first_terminal st run_id False False False (rev matching))
        (scan_back fuel (event_matches_thread conversation_id thread_id session_id) (is_invocation_start run_id) session_id (en_id trigger + 1) s))"

end
