(* ===== verification/Session_System.thy ===== *)
theory Session_System
  imports Run_Status
begin

text \<open>
  The session store as a transition system: what every call keeps of the log. A call is a sequence of
  primitive writes (\<open>log_step\<close>); \<open>log_call\<close> are the calls that keep every session, \<open>store_call\<close> adds the
  deletion of one, \<open>sparing_call k\<close> the deletion of every session but \<open>k\<close>. The invariant \<open>log_ok\<close>: the facts are those of the events, the identifiers grow, a
  canonical identifier has one event, a hold identifier one hold.
\<close>

section \<open>Primitive writes and calls\<close>

inductive log_step :: "session_log \<Rightarrow> session_log \<Rightarrow> bool" where
  step_rows: "log_step s (s\<lparr>sl_sessions := rows, sl_messages := ms\<rparr>)"
| step_event: "store_event now sid et p c s = (Inr e, t) \<Longrightarrow> (\<And>x. c = Some x \<Longrightarrow> find_canonical x s = None) \<Longrightarrow> log_step s t"
| step_hold: "get_retention_hold (rh_hold_id h) s = None \<Longrightarrow> log_step s (s\<lparr>sl_holds := sl_holds s @ [h]\<rparr>)"
| step_release: "log_step s (s\<lparr>sl_holds := sql_update (\<lambda>r. rh_hold_id r = i) (released_hold now) (sl_holds s)\<rparr>)"

inductive log_call :: "session_log \<Rightarrow> session_log \<Rightarrow> bool" where
  call_event: "log_call s (snd (append_event fence now sid et p c token s))"
| call_outcome: "log_call s (snd (commit_terminal_turn_outcome fence sha now sid c cap p et st token s))"
| call_result: "log_call s (snd (commit_capture_result_and_release_hold fence sha now sid c cap p et token s))"
| call_insert: "log_call s (snd (insert_session sid key ch tg md cr up ag ig s))"
| call_metadata: "log_call s (snd (update_session_metadata fence now sid patch token s))"
| call_touch: "log_call s (snd (touch_session_activity now sid at s))"
| call_lifecycle: "log_call s (snd (update_session_lifecycle fence now sid st at cl ex token s))"
| call_status: "log_call s (snd (set_session_status iso_text fence now sid st reason token s))"
| call_close: "log_call s (snd (close_session iso_text now sid reason s))"
| call_resume: "log_call s (snd (resume_session iso_text fence now sid reason token s))"
| call_stale: "log_call s (snd (mark_stale_sessions iso_text now timeout s))"
| call_expire: "log_call s (snd (expire_session iso_text now sid ex reason s))"
| call_message: "log_call s (snd (append_message fence now mid a token s))"
| call_run_state: "log_call s (snd (append_run_state_event fence now ra token s))"
| call_checkpoint: "log_call s (snd (append_run_checkpoint_event fence now sid ck conv thr token s))"
| call_lifecycle_event: "log_call s (snd (append_lifecycle_event fence now sid et conv thr att p token s))"

inductive store_step :: "session_log \<Rightarrow> session_log \<Rightarrow> bool" where
  store_log: "log_step s t \<Longrightarrow> store_step s t"
| store_delete: "store_step s (snd (delete_session sid s))"

inductive store_call :: "session_log \<Rightarrow> session_log \<Rightarrow> bool" where
  store_keep: "log_call s t \<Longrightarrow> store_call s t"
| store_delete_call: "store_call s (snd (delete_session sid s))"

text \<open>The calls of a log in which one session is never deleted; the others may be.\<close>

inductive sparing_step :: "string \<Rightarrow> session_log \<Rightarrow> session_log \<Rightarrow> bool" for k where
  spare_log: "log_step s t \<Longrightarrow> sparing_step k s t"
| spare_delete: "str_strip sid \<noteq> k \<Longrightarrow> sparing_step k s (snd (delete_session sid s))"

inductive sparing_call :: "string \<Rightarrow> session_log \<Rightarrow> session_log \<Rightarrow> bool" for k where
  spare_call: "log_call s t \<Longrightarrow> sparing_call k s t"
| spare_delete_call: "str_strip sid \<noteq> k \<Longrightarrow> sparing_call k s (snd (delete_session sid s))"

section \<open>Calls are sequences of writes\<close>

definition writes :: "(session_log \<Rightarrow> ('e + 'a) \<times> session_log) \<Rightarrow> bool" where
  "writes m = (\<forall>s. reach log_step s (snd (m s)))"

named_theorems writes_intros

lemma writesD: "writes m \<Longrightarrow> reach log_step s (snd (m s))"
  by (simp add: writes_def)

lemma writes_return [writes_intros]: "writes (\<lambda>s. (r s, s))"
  by (auto simp: writes_def intro: reach_refl)

lemma writes_bind [writes_intros]:
  assumes "writes m" and "\<And>a. writes (f a)"
  shows "writes (st_bind m f)"
proof (unfold writes_def, rule allI)
  fix s
  obtain r t where m: "m s = (r, t)" by (cases "m s")
  then have st: "reach log_step s t" using writesD [OF assms(1), of s] by simp
  show "reach log_step s (snd (st_bind m f s))"
  proof (cases r)
    case (Inr a)
    then show ?thesis using m st writesD [OF assms(2), of t a] by (auto simp: mon_simps intro: reach_trans)
  qed (use m st in \<open>auto simp: mon_simps\<close>)
qed

lemma writes_transaction [writes_intros]: "writes m \<Longrightarrow> writes (in_transaction m)"
  by (auto simp: writes_def in_transaction_def intro: reach_refl split: prod.splits sum.splits) (metis snd_conv)

lemma writes_if [writes_intros]: "writes m \<Longrightarrow> writes n \<Longrightarrow> writes (\<lambda>s. if b s then m s else n s)"
  by (auto simp: writes_def)

lemma writes_if_const [writes_intros]: "writes m \<Longrightarrow> writes n \<Longrightarrow> writes (if b then m else n)"
  by simp

lemma writes_sum [writes_intros]:
  "(\<And>e. writes (m e)) \<Longrightarrow> (\<And>a. writes (n a)) \<Longrightarrow> writes (\<lambda>s. case x s of Inl e \<Rightarrow> m e s | Inr a \<Rightarrow> n a s)"
  by (auto simp: writes_def split: sum.splits)

lemma writes_option [writes_intros]:
  "writes m \<Longrightarrow> (\<And>a. writes (n a)) \<Longrightarrow> writes (\<lambda>s. case x s of None \<Rightarrow> m s | Some a \<Rightarrow> n a s)"
  by (auto simp: writes_def split: option.splits)

lemma writes_pair [writes_intros]: "(\<And>a b. writes (m a b)) \<Longrightarrow> writes (\<lambda>s. case x s of (a, b) \<Rightarrow> m a b s)"
  by (auto simp: writes_def split: prod.splits)

lemma writes_rows: "writes (\<lambda>s. (r s, s\<lparr>sl_sessions := f s\<rparr>))"
proof (unfold writes_def, rule allI)
  fix s
  have "log_step s (s\<lparr>sl_sessions := f s, sl_messages := sl_messages s\<rparr>)" by (rule step_rows)
  then show "reach log_step s (snd (r s, s\<lparr>sl_sessions := f s\<rparr>))" by (simp add: reach_one)
qed

lemma writes_store_event: "(\<And>x. c = Some x \<Longrightarrow> find_canonical x s = None) \<Longrightarrow> reach log_step s (snd (store_event now sid et p c s))"
  by (cases "fst (store_event now sid et p c s)")
    (auto simp: store_event_def Let_def intro!: reach_refl reach_one step_event [of now sid et p c s] split: if_splits)

lemma writes_insert_event [writes_intros]: "writes (insert_event_locked now sid et p)"
  by (auto simp: writes_def insert_event_locked_def intro: writes_store_event)

lemma writes_canonical [writes_intros]: "writes (commit_canonical_event_locked now sid c et p)"
proof (unfold writes_def, rule allI)
  fix s
  have "reach log_step s (snd (st_bind (store_event now sid et p (Some x)) (\<lambda>e s. (Inr (e, False), s)) s))" if "find_canonical x s = None" for x
  proof -
    have "reach log_step s (snd (store_event now sid et p (Some x) s))" using that by (intro writes_store_event) simp
    then show ?thesis by (cases "store_event now sid et p (Some x) s") (auto simp: st_bind_def split: sum.splits)
  qed
  then show "reach log_step s (snd (commit_canonical_event_locked now sid c et p s))"
    by (auto simp: commit_canonical_event_locked_def Let_def intro: reach_refl split: option.splits)
qed

lemma writes_fence [writes_intros]: "writes (assert_fence_if_requested fence sid token)"
  by (auto simp: writes_def assert_fence_if_requested_def intro: reach_refl split: option.splits)

lemma writes_append_event [writes_intros]: "writes (append_event fence now sid et p c token)"
  unfolding append_event_def Let_def by (auto intro!: writes_intros split: prod.splits)

lemma writes_ensure_hold [writes_intros]: "writes (ensure_capture_hold_locked sha now sid cap)"
  by (auto simp: writes_def ensure_capture_hold_locked_def Let_def intro!: reach_refl reach_one step_hold split: option.splits prod.splits)

lemma writes_outcome [writes_intros]: "writes (commit_terminal_turn_outcome fence sha now sid c cap p et st token)"
  unfolding commit_terminal_turn_outcome_def by (auto intro!: writes_intros split: prod.splits sum.splits)

lemma writes_result [writes_intros]: "writes (commit_capture_result_and_release_hold fence sha now sid c cap p et token)"
proof -
  have rel: "writes (\<lambda>s. (r s, s\<lparr>sl_holds := sql_update (\<lambda>r. rh_hold_id r = i) (released_hold now) (sl_holds s)\<rparr>))" for r :: "session_log \<Rightarrow> log_error + capture_commit" and i
    by (auto simp: writes_def intro!: reach_one step_release)
  show ?thesis
    unfolding commit_capture_result_and_release_hold_def Let_def
    by (cases "memory_capture_hold_identity sha sid (str_strip cap)")
      (auto intro!: writes_intros rel simp: check_capture_def Let_def split: prod.splits sum.splits if_splits)
qed

lemma writes_insert_session [writes_intros]: "writes (insert_session sid key ch tg md cr up ag ig)"
  unfolding insert_session_def by (intro writes_intros writes_rows)

lemma writes_metadata [writes_intros]: "writes (update_session_metadata fence now sid patch token)"
  unfolding update_session_metadata_def update_session_def Let_def by (intro writes_intros writes_rows)

lemma writes_touch [writes_intros]: "writes (touch_session_activity now sid at)"
  unfolding touch_session_activity_def touch_session_def Let_def by (intro writes_intros writes_rows)

lemma writes_lifecycle [writes_intros]: "writes (update_session_lifecycle fence now sid st at cl ex token)"
  unfolding update_session_lifecycle_def update_session_def Let_def by (intro writes_intros writes_rows)

lemma writes_note [writes_intros]: "writes (note_event fence now sid et p token)"
  unfolding note_event_def by (intro writes_intros)

lemma writes_note_if [writes_intros]: "writes m \<Longrightarrow> writes (note_if b m)"
  unfolding note_if_def by (intro writes_intros)

lemma writes_status [writes_intros]: "writes (set_session_status iso_text fence now sid st reason token)"
  unfolding set_session_status_def Let_def by (intro writes_intros)

lemma writes_close [writes_intros]: "writes (close_session iso_text now sid reason)"
  unfolding close_session_def by (intro writes_intros)

lemma writes_resume [writes_intros]: "writes (resume_session iso_text fence now sid reason token)"
  unfolding resume_session_def by (intro writes_intros)

lemma writes_mark_each [writes_intros]: "writes (mark_each_stale iso_text now after rs)"
proof (induction rs)
  case Nil
  then show ?case by (auto simp: writes_def intro: reach_refl)
next
  case (Cons r rs)
  have "mark_each_stale iso_text now after (r # rs) =
     st_bind (set_session_status iso_text (\<lambda>_ _. True) now (sn_id r) ''stale'' (Some ''stale_timeout'') None) (\<lambda>_.
     st_bind (note_event (\<lambda>_ _. True) now (sn_id r) ''session.stale''
        [(''reason'', PStr ''stale_timeout''), (''last_activity_at'', PStr (iso_text (sn_last_activity_at r))), (''timeout_seconds'', PInt after)] None) (\<lambda>_.
     mark_each_stale iso_text now after rs))" by (rule ext) simp
  then show ?case using Cons.IH by (auto intro!: writes_intros)
qed

lemma writes_stale [writes_intros]: "writes (mark_stale_sessions iso_text now timeout)"
proof (unfold writes_def, rule allI)
  fix s
  have "reach log_step s (snd (st_bind (mark_each_stale iso_text now k rs) (\<lambda>_ s. (Inr n, s)) s))" for k rs and n :: nat
    by (rule writesD) (intro writes_intros)
  then show "reach log_step s (snd (mark_stale_sessions iso_text now timeout s))" by (simp add: mark_stale_sessions_def Let_def)
qed

lemma writes_expire [writes_intros]: "writes (expire_session iso_text now sid ex reason)"
  unfolding expire_session_def Let_def by (intro writes_intros)

lemma writes_message [writes_intros]: "writes (append_message fence now mid a token)"
proof -
  have rows: "writes (\<lambda>s. (Inr (f s) :: log_error + message_row, (touch_session now sid s)\<lparr>sl_messages := g s\<rparr>))" for f g sid
  proof (unfold writes_def, rule allI)
    fix s
    have "log_step s (s\<lparr>sl_sessions := sl_sessions (touch_session now sid s), sl_messages := g s\<rparr>)" by (rule step_rows)
    then show "reach log_step s (snd (Inr (f s) :: log_error + message_row, (touch_session now sid s)\<lparr>sl_messages := g s\<rparr>))"
      by (simp add: touch_session_def reach_one)
  qed
  show ?thesis unfolding append_message_def Let_def by (intro writes_intros rows)
qed

lemma writes_run_state [writes_intros]: "writes (append_run_state_event fence now ra token)"
  unfolding append_run_state_event_def by (intro writes_intros)

lemma writes_checkpoint [writes_intros]: "writes (append_run_checkpoint_event fence now sid ck conv thr token)"
  unfolding append_run_checkpoint_event_def by (intro writes_intros)

lemma writes_lifecycle_event [writes_intros]: "writes (append_lifecycle_event fence now sid et conv thr att p token)"
  unfolding append_lifecycle_event_def by (intro writes_intros)

lemma log_call_steps: "log_call s t \<Longrightarrow> reach log_step s t"
  by (induction rule: log_call.induct) (intro writesD writes_intros)+

lemma store_steps: "reach log_step s t \<Longrightarrow> reach store_step s t"
  by (induction rule: reach.induct) (auto intro: reach.intros store_log)

lemma store_call_steps: "store_call s t \<Longrightarrow> reach store_step s t"
  by (induction rule: store_call.induct) (auto dest: log_call_steps intro: store_steps reach_one store_delete)

lemma sparing_steps: "reach log_step s t \<Longrightarrow> reach (sparing_step k) s t"
  by (induction rule: reach.induct) (auto intro: reach.intros spare_log)

lemma sparing_call_steps: "sparing_call k s t \<Longrightarrow> reach (sparing_step k) s t"
  by (induction rule: sparing_call.induct) (auto dest: log_call_steps intro: sparing_steps reach_one spare_delete)

end
