(* ===== verification/Session_Lemmas.thy ===== *)
theory Session_Lemmas
  imports Session_System
begin

text \<open>
  The invariant of the session log and what it gives the readers: the summary of a thread over the facts
  reads the events themselves, and the paged scan of an invocation reads them all.
\<close>

section \<open>The invariant\<close>

definition canonical_unique :: "session_event list \<Rightarrow> bool" where
  "canonical_unique es = (\<forall>e\<in>set es. \<forall>e'\<in>set es. en_canonical_event_id e \<noteq> None \<longrightarrow> en_canonical_event_id e = en_canonical_event_id e' \<longrightarrow> e = e')"

definition log_ok :: "session_log \<Rightarrow> bool" where
  "log_ok s =
     (sl_facts s = map event_run_facts (sl_events s) \<and> sorted_wrt (<) (map en_id (sl_events s)) \<and>
      (\<forall>e\<in>set (sl_events s). 0 < en_id e \<and> en_id e \<le> sl_last_event_id s) \<and> 0 \<le> sl_last_event_id s \<and>
      canonical_unique (sl_events s) \<and> keys_unique rh_hold_id (sl_holds s))"

lemma empty_log_ok: "log_ok empty_log"
  by (simp add: log_ok_def empty_log_def canonical_unique_def)

lemma event_run_facts_ids [simp]: "ef_event_id (event_run_facts e) = en_id e" "ef_session_id (event_run_facts e) = en_session_id e"
  by (simp_all add: event_run_facts_def Let_def)

lemma released_hold_keys [simp]:
  "rh_hold_id (released_hold now h) = rh_hold_id h" "rh_session_id (released_hold now h) = rh_session_id h"
  "rh_reason (released_hold now h) = rh_reason h" "rh_actor_id (released_hold now h) = rh_actor_id h"
  "rh_released_at (released_hold now h) = Some now"
  by (simp_all add: released_hold_def)

interpretation hold_release: keyed_update rh_hold_id "released_hold now" for now
  by unfold_locales simp

interpretation session_touch: keyed_update sn_id "\<lambda>r. r\<lparr>sn_updated_at := now, sn_last_activity_at := now\<rparr>" for now
  by unfold_locales simp

lemma touched_session: "sql_get sn_id k (sl_sessions (touch_session now sid s)) = None \<longleftrightarrow> sql_get sn_id k (sl_sessions s) = None"
proof -
  have "map sn_id (sl_sessions (touch_session now sid s)) = map sn_id (sl_sessions s)"
    by (simp add: touch_session_def session_touch.keys_update)
  then have "sn_id ` set (sl_sessions (touch_session now sid s)) = sn_id ` set (sl_sessions s)" by (metis set_map)
  then show ?thesis by (simp add: sql_get_None)
qed

lemma find_canonical_None: "find_canonical c s = None \<longleftrightarrow> (\<forall>e\<in>set (sl_events s). en_canonical_event_id e \<noteq> Some c)"
  by (auto simp: find_canonical_def find_None_iff)

lemma find_canonical_in:
  assumes "canonical_unique (sl_events s)" and "e \<in> set (sl_events s)" and "en_canonical_event_id e = Some c"
  shows "find_canonical c s = Some e"
proof (cases "find_canonical c s")
  case None
  then show ?thesis using assms by (auto simp: find_canonical_None)
next
  case (Some e')
  then have "e' \<in> set (sl_events s)" "en_canonical_event_id e' = Some c" by (auto simp: find_canonical_def find_Some_iff)
  then show ?thesis using assms Some by (auto simp: canonical_unique_def)
qed

lemma store_event_Inr:
  assumes "store_event now sid et p c s = (Inr e, t)"
  shows "e = \<lparr>en_id = sl_last_event_id s + 1, en_session_id = sid, en_event_type = et, en_payload = metadata_json p, en_created_at = now,
              en_canonical_event_id = c\<rparr>"
    and "sl_events t = sl_events s @ [e]" and "sl_facts t = sl_facts s @ [event_run_facts e]" and "sl_last_event_id t = sl_last_event_id s + 1"
    and "sl_holds t = sl_holds s"
  using assms by (auto simp: store_event_def touch_session_def Let_def split: if_splits)

lemma log_step_ok:
  assumes "log_ok s" and "log_step s t"
  shows "log_ok t"
  using assms(2)
proof cases
  case (step_event now sid et p c e)
  have fresh: "c = Some x \<Longrightarrow> e' \<in> set (sl_events s) \<Longrightarrow> en_canonical_event_id e' \<noteq> Some x" for x e'
    using step_event(2) by (auto simp: find_canonical_None)
  have c: "en_canonical_event_id e = c" and i: "en_id e = sl_last_event_id s + 1" using store_event_Inr(1) [OF step_event(1)] by simp_all
  have "en_canonical_event_id e = None \<or> en_canonical_event_id e' \<noteq> en_canonical_event_id e" if "e' \<in> set (sl_events s)" for e'
    using fresh [OF _ that] c by (cases c) auto
  then have "canonical_unique (sl_events s @ [e])"
    using assms(1) unfolding log_ok_def canonical_unique_def set_append by (metis Un_iff empty_iff empty_set set_ConsD)
  moreover have "sorted_wrt (<) (map en_id (sl_events s @ [e]))"
    using assms(1) i by (auto simp: log_ok_def sorted_wrt_append)
  ultimately show ?thesis using assms(1) store_event_Inr [OF step_event(1)] i by (auto simp: log_ok_def)
next
  case (step_hold h)
  then show ?thesis using assms(1) by (auto simp: log_ok_def get_retention_hold_def sql_get_None keys_unique_def)
next
  case (step_release i now)
  then show ?thesis using assms(1) by (simp add: log_ok_def hold_release.unique_update)
qed (use assms(1) in \<open>simp_all add: log_ok_def\<close>)

lemma delete_session_ok: "log_ok s \<Longrightarrow> log_ok (snd (delete_session sid s))"
  by (auto simp: log_ok_def delete_session_def Let_def filter_map o_def canonical_unique_def keys_unique_def
    sorted_wrt_map intro: sorted_wrt_filter distinct_map_filter)

interpretation log: invariant_system store_step log_ok
  by unfold_locales (auto elim!: store_step.cases intro: log_step_ok delete_session_ok)

interpretation session_calls: simulated_system store_step log_ok store_call
  by unfold_locales (auto intro: store_call_steps)

definition stored_log :: "session_log \<Rightarrow> bool" where
  "stored_log s = reach store_call empty_log s"

lemma stored_log_ok: "stored_log s \<Longrightarrow> log_ok s"
  unfolding stored_log_def by (rule session_calls.calls_inv [OF _ empty_log_ok])

section \<open>What later calls keep\<close>

text \<open>The events of a session are never changed, and a released hold of it stays released, as long as it is not
  deleted: both as quantities that no call lowers.\<close>

definition released_ids :: "session_log \<Rightarrow> (string \<times> string \<times> string \<times> string) set" where
  "released_ids s = (\<lambda>h. (rh_hold_id h, rh_session_id h, rh_reason h, rh_actor_id h)) ` {h \<in> set (sl_holds s). rh_released_at h \<noteq> None}"

lemma released_after_update:
  "h \<in> set hs \<Longrightarrow> rh_released_at h \<noteq> None \<Longrightarrow>
   \<exists>h'\<in>set (sql_update p (released_hold now) hs). rh_released_at h' \<noteq> None \<and> rh_hold_id h' = rh_hold_id h \<and> rh_session_id h' = rh_session_id h \<and>
      rh_reason h' = rh_reason h \<and> rh_actor_id h' = rh_actor_id h"
  by (rule bexI [of _ "if p h then released_hold now h else h"]) (auto simp: set_sql_update)

lemma log_step_keeps:
  assumes "log_step s t"
  shows "set (sl_events s) \<subseteq> set (sl_events t)" and "released_ids s \<subseteq> released_ids t"
  using assms
proof (induction rule: log_step.induct)
  case (step_event now sid et p c s e t)
  {
    case 1
    then show ?case using store_event_Inr(2) [OF step_event(1)] by auto
  next
    case 2
    then show ?case using store_event_Inr(5) [OF step_event(1)] by (auto simp: released_ids_def)
  }
next
  case (step_release s i now)
  {
    case 2
    then show ?case using released_after_update by (fastforce simp: released_ids_def image_iff)
  }
qed (auto simp: released_ids_def)

definition events_of :: "string \<Rightarrow> session_log \<Rightarrow> session_event set" where
  "events_of k s = {e \<in> set (sl_events s). en_session_id e = k}"

definition releases_of :: "string \<Rightarrow> session_log \<Rightarrow> (string \<times> string \<times> string \<times> string) set" where
  "releases_of k s = {r \<in> released_ids s. fst (snd r) = k}"

lemma sparing_step_ok: "log_ok s \<Longrightarrow> sparing_step k s t \<Longrightarrow> log_ok t"
  by (auto elim!: sparing_step.cases intro: log_step_ok delete_session_ok)

lemma sparing_step_keeps:
  assumes "sparing_step k s t"
  shows "events_of k s \<subseteq> events_of k t" and "releases_of k s \<subseteq> releases_of k t"
  using assms
proof (induction rule: sparing_step.induct)
  case (spare_log s t)
  {
    case 1
    then show ?case using log_step_keeps(1) [OF spare_log] by (auto simp: events_of_def)
  next
    case 2
    then show ?case using log_step_keeps(2) [OF spare_log] by (auto simp: releases_of_def)
  }
qed (auto simp: events_of_def releases_of_def released_ids_def delete_session_def Let_def)

interpretation spared_calls: simulated_system "sparing_step k" log_ok "sparing_call k" for k
  by unfold_locales (auto intro: sparing_step_ok sparing_call_steps)

interpretation spared_events: monotone_system "sparing_step k" log_ok "events_of k" for k
  by unfold_locales (rule sparing_step_keeps)

interpretation spared_releases: monotone_system "sparing_step k" log_ok "releases_of k" for k
  by unfold_locales (rule sparing_step_keeps)

lemma calls_keep_events: "reach (sparing_call k) s t \<Longrightarrow> log_ok s \<Longrightarrow> events_of k s \<subseteq> events_of k t"
  by (rule spared_events.level_reach [OF spared_calls.calls_steps])

lemma calls_keep_releases: "reach (sparing_call k) s t \<Longrightarrow> log_ok s \<Longrightarrow> releases_of k s \<subseteq> releases_of k t"
  by (rule spared_releases.level_reach [OF spared_calls.calls_steps])

lemma calls_keep_ok: "reach (sparing_call k) s t \<Longrightarrow> log_ok s \<Longrightarrow> log_ok t"
  by (rule spared_calls.calls_inv)

lemma calls_keep_event:
  "reach (sparing_call k) s t \<Longrightarrow> log_ok s \<Longrightarrow> e \<in> set (sl_events s) \<Longrightarrow> en_session_id e = k \<Longrightarrow> e \<in> set (sl_events t)"
  using calls_keep_events by (auto simp: events_of_def)

lemma calls_keep_canonical:
  assumes "log_ok s" and "reach (sparing_call (en_session_id e)) s t" and "e \<in> set (sl_events s)" and "en_canonical_event_id e = Some c"
  shows "find_canonical c t = Some e"
proof (rule find_canonical_in)
  show "canonical_unique (sl_events t)" using calls_keep_ok [OF assms(2,1)] by (simp add: log_ok_def)
  show "e \<in> set (sl_events t)" using calls_keep_event [OF assms(2,1,3)] by simp
qed (rule assms(4))

lemma released_in:
  assumes "log_ok s" and "(i, sid, reason, actor) \<in> released_ids s"
  shows "\<exists>h. get_retention_hold i s = Some h \<and> rh_released_at h \<noteq> None \<and> rh_session_id h = sid \<and> rh_reason h = reason \<and> rh_actor_id h = actor"
proof -
  obtain h where h: "h \<in> set (sl_holds s)" "rh_hold_id h = i" "rh_released_at h \<noteq> None" "rh_session_id h = sid" "rh_reason h = reason" "rh_actor_id h = actor"
    using assms(2) by (auto simp: released_ids_def)
  then have "get_retention_hold i s = Some h"
    using assms(1) sql_get_unique [of rh_hold_id "sl_holds s" h] by (auto simp: log_ok_def get_retention_hold_def)
  then show ?thesis using h by blast
qed

section \<open>Reading the log\<close>

lemma log_ok_unique: "log_ok s \<Longrightarrow> keys_unique en_id (sl_events s)"
  by (simp add: log_ok_def keys_unique_def strict_sorted_iff)

lemma session_events_sorted: "log_ok s \<Longrightarrow> sorted_wrt (<) (map en_id (session_events sid s))"
  by (auto simp: log_ok_def session_events_def sorted_wrt_map intro: sorted_wrt_filter)

lemma joined_ok:
  assumes "log_ok s"
  shows "joined sid s = map (\<lambda>e. (event_run_facts e, e)) (session_events sid s)"
proof -
  have get: "sql_get en_id (en_id e) (sl_events s) = Some e" if "e \<in> set (sl_events s)" for e
    using log_ok_unique [OF assms] that by (rule sql_get_unique)
  have "concat (map (\<lambda>f. case sql_get en_id (ef_event_id f) (sl_events s) of None \<Rightarrow> [] | Some e \<Rightarrow> [(f, e)])
          (filter (\<lambda>f. ef_session_id f = sid) (map event_run_facts es))) =
        map (\<lambda>e. (event_run_facts e, e)) (filter (\<lambda>e. en_session_id e = sid) es)" if "set es \<subseteq> set (sl_events s)" for es
    using that by (induction es) (auto simp: get)
  then show ?thesis using assms by (simp add: joined_def session_events_def log_ok_def)
qed

definition last_id :: "session_event list \<Rightarrow> int option" where
  "last_id es = (if es = [] then None else Some (en_id (last es)))"

lemma foldr_max_sorted: "sorted (i # is) \<Longrightarrow> foldr max is i = (last (i # is) :: int)"
proof (induction "is" arbitrary: i rule: rev_induct)
  case (snoc k ks)
  have "foldr max ks (max k i) = k" if "\<forall>x\<in>set ks. x \<le> k" "i \<le> k" for i
    using that by (induction ks) auto
  then show ?case using snoc.prems by (auto simp: sorted_append)
qed simp

lemma max_id_sorted: "sorted_wrt (<) (map en_id es) \<Longrightarrow> max_id (map en_id es) = last_id es"
proof (cases es)
  case (Cons e es')
  assume "sorted_wrt (<) (map en_id es)"
  then have "sorted (map en_id es)" by (rule strict_sorted_imp_sorted)
  then show ?thesis using Cons foldr_max_sorted [of "en_id e" "map en_id es'"] by (simp add: max_id_def last_id_def last_map)
qed (simp add: max_id_def last_id_def)

lemma in_thread_facts: "in_thread_clause sid conv thread (event_run_facts e) = event_matches_thread conv thread sid e"
  by (auto simp: in_thread_clause_def event_matches_thread_def event_run_facts_def Let_def)

definition thread_events :: "string \<Rightarrow> string \<Rightarrow> string \<Rightarrow> session_log \<Rightarrow> session_event list" where
  "thread_events sid conv thread s = filter (event_matches_thread conv thread sid) (session_events sid s)"

lemma thread_events_sorted: "log_ok s \<Longrightarrow> sorted_wrt (<) (map en_id (filter p (thread_events sid conv thread s)))"
  using session_events_sorted [of s sid] by (auto simp: thread_events_def sorted_wrt_map intro: sorted_wrt_filter)

lemma summary_ids:
  assumes "log_ok s"
  shows "max_id (map (ef_event_id \<circ> fst) (filter (\<lambda>(f, e). p f e)
           (filter (\<lambda>(f, e). in_thread_clause sid conv thread f) (joined sid s)))) =
         last_id (filter (\<lambda>e. p (event_run_facts e) e) (thread_events sid conv thread s))"
proof -
  have "map (ef_event_id \<circ> fst) (filter (\<lambda>(f, e). p f e) (filter (\<lambda>(f, e). in_thread_clause sid conv thread f) (joined sid s))) =
        map en_id (filter (\<lambda>e. p (event_run_facts e) e) (thread_events sid conv thread s))"
    by (simp add: joined_ok [OF assms] filter_map o_def thread_events_def in_thread_facts)
  then show ?thesis using max_id_sorted [OF thread_events_sorted [OF assms]] by simp
qed

text \<open>What \<open>status.py\<close> reads of the events of a thread, without the facts.\<close>

definition read_thread :: "string \<Rightarrow> string \<Rightarrow> string \<Rightarrow> session_log \<Rightarrow> thread_facts" where
  "read_thread sid conv thread s =
     (let es = thread_events sid conv thread s in
      \<lparr>tf_latest_id = last_id es,
       tf_run_event_id = last_id (filter (\<lambda>e. is_run_type (en_event_type e) \<and> to_run_event e \<noteq> None) es),
       tf_start_id = last_id (filter (\<lambda>e. en_event_type e = ''run.queued'' \<and> payload_text (en_payload e) ''invocation_id'' \<noteq> []) es),
       tf_attach_id = last_id (filter (\<lambda>e. en_event_type e = ''client.attach'' \<and> payload_text (en_payload e) ''attach_id'' \<noteq> [] \<and>
           str_lower (payload_text (en_payload e) ''attach_role'') \<in> {[], ''writer''}) es),
       tf_present = filter (\<lambda>t. t \<in> en_event_type ` set es) THREAD_FLAG_EVENT_TYPES\<rparr>)"

lemma facts_of_event:
  "ef_run_key (event_run_facts e) \<noteq> [] \<longleftrightarrow> to_run_event e \<noteq> None"
  "ef_has_invocation (event_run_facts e) \<longleftrightarrow> payload_text (en_payload e) ''invocation_id'' \<noteq> []"
  "ef_has_attach (event_run_facts e) \<longleftrightarrow> payload_text (en_payload e) ''attach_id'' \<noteq> []"
  "ef_attach_role (event_run_facts e) = str_lower (payload_text (en_payload e) ''attach_role'')"
  by (simp_all add: event_run_facts_def to_run_event_def Let_def)

lemma thread_summary_read:
  assumes "log_ok s"
  shows "thread_summary sid conv thread s = read_thread sid conv thread s"
proof -
  have "list_ex (\<lambda>(f, e). en_event_type e = t) (filter (\<lambda>(f, e). in_thread_clause sid conv thread f) (joined sid s)) \<longleftrightarrow>
        t \<in> en_event_type ` set (thread_events sid conv thread s)" for t
    by (auto simp: joined_ok [OF assms] list_ex_iff thread_events_def in_thread_facts)
  then show ?thesis
    unfolding thread_summary_def summarize_thread_events_def read_thread_def Let_def summary_ids [OF assms]
    by (simp add: ATTACH_ROLE_WRITER_def facts_of_event)
qed

lemma event_at_last:
  assumes ok: "log_ok s" and es: "set es \<subseteq> set (session_events sid s)" and nonempty: "es \<noteq> []"
  shows "event_at sid (last_id es) s = Some (last es)"
proof -
  let ?e = "last es" and ?rows = "list_events_by_id sid [en_id (last es)] s"
  have e: "?e \<in> set (session_events sid s)" using es last_in_set [OF nonempty] by blast
  then have pos: "0 < en_id ?e" and mem: "?e \<in> set (sl_events s)" using ok by (auto simp: session_events_def log_ok_def)
  then have "?e \<in> set ?rows" using e by (simp add: list_events_by_id_def)
  then obtain r where r: "sql_get en_id (en_id ?e) ?rows = Some r" by (cases "sql_get en_id (en_id ?e) ?rows") (auto simp: sql_get_None)
  then have "r \<in> set ?rows" "en_id r = en_id ?e" by (auto dest: sql_get_Some)
  then have "r \<in> set (sl_events s)" "en_id r = en_id ?e" by (auto simp: list_events_by_id_def session_events_def)
  then have "r = ?e" using log_ok_unique [OF ok] mem unfolding keys_unique_def distinct_map by (auto dest: inj_onD)
  then show ?thesis using r nonempty by (simp add: event_at_def last_id_def)
qed

lemma event_at_Nil [simp]: "event_at sid (last_id []) s = None"
  by (simp add: event_at_def last_id_def)

lemma event_at_thread:
  assumes "log_ok s"
  shows "event_at sid (last_id (filter p (thread_events sid conv thread s))) s =
    (let es = filter p (thread_events sid conv thread s) in if es = [] then None else Some (last es))"
proof (cases "filter p (thread_events sid conv thread s) = []")
  case False
  have "set (filter p (thread_events sid conv thread s)) \<subseteq> set (session_events sid s)" by (auto simp: thread_events_def)
  then show ?thesis using event_at_last [OF assms _ False] False by (simp add: Let_def)
qed simp

section \<open>The paged scan\<close>

definition events_below :: "string \<Rightarrow> int \<Rightarrow> session_log \<Rightarrow> session_event list" where
  "events_below sid b s = rev (filter (\<lambda>e. en_id e < b) (session_events sid s))"

lemma sort_key_rev_strict:
  assumes "sorted_wrt (<) (map (f :: 'a \<Rightarrow> int) xs)"
  shows "sort_key f (rev xs) = xs"
proof (rule map_sorted_distinct_set_unique [where f = f])
  show "inj_on f (set (sort_key f (rev xs)) \<union> set xs)" using assms by (simp add: strict_sorted_iff distinct_map)
  show "distinct (map f (sort_key f (rev xs)))" using assms by (simp add: strict_sorted_iff distinct_map)
qed (use assms in \<open>simp_all add: strict_sorted_iff\<close>)

lemma page_below:
  assumes "log_ok s"
  shows "list_events_before_id sid b RUN_STATUS_DEFAULT_SCAN_LIMIT s = take 2000 (events_below sid b s)"
proof -
  have pos: "0 < en_id e" if "e \<in> set (session_events sid s)" for e using that assms by (auto simp: session_events_def log_ok_def)
  have eq: "filter (\<lambda>e. en_id e < max 1 b) (session_events sid s) = filter (\<lambda>e. en_id e < b) (session_events sid s)"
    by (rule filter_cong) (auto dest: pos)
  have "sorted_wrt (<) (map en_id (filter (\<lambda>e. en_id e < b) (session_events sid s)))"
    using session_events_sorted [OF assms, of sid] by (auto simp: sorted_wrt_map intro: sorted_wrt_filter)
  then show ?thesis
    by (simp add: list_events_before_id_def eq sql_order_desc_def sort_key_rev_strict events_below_def EVENT_PAGE_MAX_def
        RUN_STATUS_DEFAULT_SCAN_LIMIT_def del: rev_filter)
qed

lemma filter_below_sorted:
  assumes "sorted_wrt (>) (map (f :: 'a \<Rightarrow> int) (xs @ ys))" and "xs \<noteq> []"
  shows "filter (\<lambda>x. f x < f (last xs)) (xs @ ys) = ys"
proof -
  obtain zs z where xs: "xs = zs @ [z]" using assms(2) by (metis append_butlast_last_id)
  have "\<forall>y\<in>set ys. f y < f z" and "\<forall>x\<in>set zs. f z < f x" using assms(1) by (auto simp: xs sorted_wrt_append sorted_wrt_map)
  then show ?thesis by (auto simp: xs filter_empty_conv filter_id_conv)
qed

lemma below_rest:
  assumes ok: "log_ok s" and page: "take 2000 (events_below sid b s) = page" "page \<noteq> []"
  shows "events_below sid (en_id (last page)) s = drop 2000 (events_below sid b s)"
proof -
  let ?all = "events_below sid b s"
  have "sorted_wrt (\<lambda>x y. en_id x < en_id y) (filter (\<lambda>e. en_id e < b) (session_events sid s))"
    using session_events_sorted [OF ok, of sid] by (auto simp: sorted_wrt_map intro: sorted_wrt_filter)
  then have sorted: "sorted_wrt (>) (map en_id (page @ drop 2000 ?all))"
    by (simp add: page(1) [symmetric] events_below_def sorted_wrt_map sorted_wrt_rev del: rev_filter)
  have "last page \<in> set ?all" using page last_in_set [OF page(2)] by (metis in_set_takeD)
  then have lt: "en_id (last page) < b" by (auto simp: events_below_def)
  have "events_below sid (en_id (last page)) s = filter (\<lambda>e. en_id e < en_id (last page)) ?all"
    using lt by (auto simp: events_below_def rev_filter intro!: filter_cong)
  also have "\<dots> = drop 2000 ?all" using filter_below_sorted [OF sorted page(2)] page(1) by (metis append_take_drop_id)
  finally show ?thesis .
qed

lemma scan_page_append:
  "scan_page mine start (xs @ ys) =
     (case scan_page mine start xs of (ms, Some st) \<Rightarrow> (ms, Some st)
      | (ms, None) \<Rightarrow> (case scan_page mine start ys of (older, st) \<Rightarrow> (ms @ older, st)))"
  by (induction xs) (auto split: prod.splits option.splits)

lemma scan_back_all:
  assumes "log_ok s"
  shows "length (events_below sid b s) < fuel \<Longrightarrow>
    scan_back fuel mine start sid b s = Some (scan_page mine start (events_below sid b s))"
proof (induction fuel arbitrary: b)
  case (Suc n)
  let ?all = "events_below sid b s"
  show ?case
  proof (cases "?all = []")
    case True
    then show ?thesis by (simp add: page_below [OF assms])
  next
    case False
    then have ne: "take 2000 ?all \<noteq> []" by simp
    let ?page = "take 2000 ?all"
    have rest: "events_below sid (en_id (last ?page)) s = drop 2000 ?all" by (rule below_rest [OF assms refl ne])
    then have "length (events_below sid (en_id (last ?page)) s) < n" using Suc.prems False by (cases ?all) auto
    then have IH: "scan_back n mine start sid (en_id (last ?page)) s = Some (scan_page mine start (drop 2000 ?all))"
      using Suc.IH rest by simp
    have "scan_page mine start ?all = scan_page mine start (?page @ drop 2000 ?all)" by simp
    then show ?thesis using ne IH by (auto simp: page_below [OF assms] Let_def scan_page_append simp del: append_take_drop_id split: prod.splits option.splits)
  qed
qed simp

lemma below_length: "length (events_below sid b s) \<le> length (sl_events s)"
  using length_filter_le order_trans by (fastforce simp: events_below_def session_events_def)

section \<open>The backfill\<close>

lemma filter_above_sorted:
  assumes "sorted_wrt (<) (map (f :: 'a \<Rightarrow> int) (xs @ ys))" and "xs \<noteq> []"
  shows "filter (\<lambda>x. f (last xs) < f x) (xs @ ys) = ys"
proof -
  obtain zs z where xs: "xs = zs @ [z]" using assms(2) by (metis append_butlast_last_id)
  have "\<forall>y\<in>set ys. f z < f y" and "\<forall>x\<in>set zs. f x < f z" using assms(1) by (auto simp: xs sorted_wrt_append sorted_wrt_map)
  then show ?thesis by (auto simp: xs filter_empty_conv filter_id_conv)
qed

lemma backfill_from:
  "sorted_wrt (<) (map en_id (sl_events s)) \<Longrightarrow> length (filter (\<lambda>e. a < en_id e) (sl_events s)) < fuel \<Longrightarrow>
   backfill_event_run_facts fuel a s = Some (s\<lparr>sl_facts := sl_facts s @ map event_run_facts (filter (\<lambda>e. a < en_id e) (sl_events s))\<rparr>)"
proof (induction fuel arbitrary: a s)
  case (Suc n)
  let ?r = "filter (\<lambda>e. a < en_id e) (sl_events s)"
  have sorted: "sorted_wrt (<) (map en_id ?r)" using Suc.prems(1) by (auto simp: sorted_wrt_map intro: sorted_wrt_filter)
  then have key: "sort_key en_id ?r = ?r" by (intro sort_key_id_if_sorted strict_sorted_imp_sorted)
  show ?case
  proof (cases "?r = []")
    case False
    let ?b = "take 1000 ?r" and ?s = "s\<lparr>sl_facts := sl_facts s @ map event_run_facts (take 1000 ?r)\<rparr>"
    have ne: "?b \<noteq> []" using False by simp
    have "last ?b \<in> set ?r" using last_in_set [OF ne] by (meson in_set_takeD)
    then have "filter (\<lambda>e. en_id (last ?b) < en_id e) (sl_events s) = filter (\<lambda>e. en_id (last ?b) < en_id e) ?r" by (auto intro!: filter_cong)
    also have "\<dots> = drop 1000 ?r" using filter_above_sorted [of en_id ?b "drop 1000 ?r", OF _ ne] sorted by (simp del: filter_append)
    finally have rest: "filter (\<lambda>e. en_id (last ?b) < en_id e) (sl_events ?s) = drop 1000 ?r" by simp
    have "length (drop 1000 ?r) < n" using Suc.prems(2) False by (cases ?r) auto
    then have "backfill_event_run_facts n (en_id (last ?b)) ?s = Some (?s\<lparr>sl_facts := sl_facts ?s @ map event_run_facts (drop 1000 ?r)\<rparr>)"
      using Suc.IH [of ?s "en_id (last ?b)"] Suc.prems(1) rest by simp
    moreover have "map event_run_facts ?b @ map event_run_facts (drop 1000 ?r) = map event_run_facts ?r" by (metis append_take_drop_id map_append)
    ultimately show ?thesis using ne key by (simp add: Let_def)
  qed (simp add: key)
qed simp

text \<open>The migration gives an old log, one without facts, the facts that new events are stored with.\<close>

lemma backfill_establishes_facts:
  assumes "log_ok s" and "length (sl_events s) < fuel"
  shows "backfill_event_run_facts fuel 0 (s\<lparr>sl_facts := []\<rparr>) = Some s"
proof -
  have "filter (\<lambda>e. 0 < en_id e) (sl_events s) = sl_events s" using assms(1) by (auto simp: log_ok_def filter_id_conv)
  then show ?thesis using backfill_from [of "s\<lparr>sl_facts := []\<rparr>" 0 fuel] assms by (simp add: log_ok_def)
qed

end
