(* ===== verification/Session_Properties.thy ===== *)
theory Session_Properties
  imports Session_Lemmas
begin

text \<open>
  Properties of the session log and of the run readers over it.
\<close>

section \<open>Sample log\<close>

lemma stored_empty: "stored_log empty_log"
  by (simp add: stored_log_def reach_refl)

lemma stored_call: "stored_log s \<Longrightarrow> log_call s t \<Longrightarrow> stored_log t"
  by (auto simp: stored_log_def intro: reach.intros store_keep)

definition any_fence :: "string \<Rightarrow> int \<Rightarrow> bool" where
  "any_fence sid token = True"

definition log_with_session :: session_log where
  "log_with_session = snd (insert_session ''s'' ''k'' ''cli'' ''me'' [] 0 0 None False empty_log)"

definition two_sessions :: session_log where
  "two_sessions = snd (insert_session ''other'' ''k2'' ''cli'' ''me'' [] 0 0 None False log_with_session)"

definition log_run :: "int \<Rightarrow> string \<Rightarrow> string \<Rightarrow> session_log \<Rightarrow> session_log" where
  "log_run now run_id state s = snd (append_run_state_event any_fence now
     \<lparr>re_session_id = ''s'', re_run_id = run_id, re_state = state, re_current_step = [], re_payload = [(''invocation_id'', PStr ''i'')],
      re_conversation_id = None, re_thread_id = Some ''t'', re_attach_id = None\<rparr> None s)"

definition log_response :: "int \<Rightarrow> string \<Rightarrow> string \<Rightarrow> session_log \<Rightarrow> session_log" where
  "log_response now run_id event_type s =
     snd (append_lifecycle_event any_fence now ''s'' event_type None (Some ''t'') None [(''run_id'', PStr run_id)] None s)"

definition log_outbound :: "int \<Rightarrow> string \<Rightarrow> session_log \<Rightarrow> session_log" where
  "log_outbound now mid s = snd (append_message any_fence now mid
     \<lparr>ma_session_id = ''s'', ma_conversation_id = None, ma_thread_id = Some ''t'', ma_attach_id = None, ma_role = ''outbound'', ma_body = ''hi'',
      ma_metadata = [], ma_participant_id = None, ma_participant_type = None, ma_display_name = None\<rparr> None s)"

definition undelivered_log :: session_log where
  "undelivered_log = log_outbound 3 ''m1'' (log_run 2 ''r1'' ''completed'' (log_run 1 ''r1'' ''queued'' log_with_session))"

definition delivered_log :: session_log where
  "delivered_log = log_response 5 ''r1'' ''response.delivered'' (log_response 4 ''r1'' ''response.persisted'' undelivered_log)"

definition second_response_log :: session_log where
  "second_response_log = log_response 9 ''r2'' ''response.persisted'' (log_outbound 8 ''m2'' (log_run 7 ''r2'' ''completed'' (log_run 6 ''r2'' ''queued'' delivered_log)))"

lemma log_call_samples: "log_call s (log_run now r st s)" "log_call s (log_response now r et s)" "log_call s (log_outbound now m s)"
  unfolding log_run_def log_response_def log_outbound_def by (rule log_call.intros)+

lemma stored_samples: "stored_log log_with_session" "stored_log undelivered_log" "stored_log delivered_log" "stored_log second_response_log"
  unfolding second_response_log_def delivered_log_def undelivered_log_def log_with_session_def
  by (intro stored_call [OF _ log_call_samples(1)] stored_call [OF _ log_call_samples(2)] stored_call [OF _ log_call_samples(3)]
      stored_call [OF stored_empty call_insert])+

section \<open>Canonical events and captures\<close>

lemma canonical_replay:
  assumes "find_canonical (str_strip c) s = Some e" and "str_strip c \<noteq> []"
  shows "commit_canonical_event_locked now sid c et p s =
    (if en_session_id e = sid \<and> en_event_type e = et \<and> en_payload e = metadata_json p then (Inr (e, True), s)
     else (Inl (Log_StoreIntegrityError (''canonical event '' @ repr_str (str_strip c) @ '' conflicts with stored event'')), s))"
  using assms by (auto simp: commit_canonical_event_locked_def)

lemma store_event_result:
  "store_event now sid et p c s = (Inr e, t) \<Longrightarrow>
   e \<in> set (sl_events t) \<and> en_canonical_event_id e = c \<and> en_session_id e = sid \<and> en_event_type e = et \<and> en_payload e = metadata_json p \<and> sl_holds t = sl_holds s"
  using store_event_Inr [of now sid et p c s e t] by simp

lemma canonical_commit_Inr:
  assumes "commit_canonical_event_locked now sid c et p s = (Inr (e, replayed), t)"
  shows "e \<in> set (sl_events t) \<and> en_canonical_event_id e = Some (str_strip c) \<and> en_session_id e = sid \<and> en_event_type e = et \<and>
     en_payload e = metadata_json p \<and> sl_holds t = sl_holds s"
  using assms
  by (auto simp: commit_canonical_event_locked_def Let_def find_canonical_def find_Some_iff dest: store_event_result
      elim!: st_bind_InrE split: if_splits option.splits)

lemma append_canonical_Inr:
  assumes "append_event fence now sid et p (Some c) token s = (Inr e, t)" and "str_strip c \<noteq> []"
  shows "e \<in> set (sl_events t) \<and> en_canonical_event_id e = Some (str_strip c) \<and> en_session_id e = sid \<and> en_event_type e = et \<and>
     en_payload e = metadata_json p"
proof -
  have c: "c \<noteq> []" using assms(2) by auto
  obtain u replayed where "commit_canonical_event_locked now sid (str_strip c) et p u = (Inr (e, replayed), t)"
    using assms by (auto simp: append_event_def opt_or_def c dest!: in_transaction_InrD elim!: st_bind_InrE)
  then show ?thesis by (auto dest: canonical_commit_Inr)
qed

definition fence_refuses :: "(string \<Rightarrow> int \<Rightarrow> bool) \<Rightarrow> string \<Rightarrow> int option \<Rightarrow> bool" where
  "fence_refuses fence sid token = (case token of None \<Rightarrow> False | Some n \<Rightarrow> \<not> fence sid n)"

lemma append_canonical_replay:
  assumes "find_canonical (str_strip c) s = Some e" and "str_strip c \<noteq> []"
  shows "append_event fence now sid et p (Some c) token s =
    (if fence_refuses fence sid token then (Inl Log_FenceError, s)
     else if en_session_id e = sid \<and> en_event_type e = et \<and> en_payload e = metadata_json p then (Inr e, s)
     else (Inl (Log_StoreIntegrityError (''canonical event '' @ repr_str (str_strip c) @ '' conflicts with stored event'')), s))"
proof -
  have c: "c \<noteq> []" using assms(2) by auto
  show ?thesis using assms canonical_replay [of "str_strip c" s e now sid et p]
    by (auto simp: append_event_def assert_fence_if_requested_def fence_refuses_def in_transaction_def st_bind_def opt_or_def c split: option.splits)
qed

lemma log_ok_call: "log_ok s \<Longrightarrow> writes m \<Longrightarrow> m s = (r, t) \<Longrightarrow> log_ok t"
  using writesD [of m s] store_steps log.inv_reach by (metis snd_conv)

lemma filter_canonical:
  assumes "log_ok s" and "e \<in> set (sl_events s)" and "en_canonical_event_id e = Some c"
  shows "filter (\<lambda>x. en_canonical_event_id x = Some c) (sl_events s) = [e]"
proof -
  have "filter (\<lambda>x. en_canonical_event_id x = Some c) (sl_events s) = filter (\<lambda>x. en_id x = en_id e) (sl_events s)"
    using assms log_ok_unique [OF assms(1)]
    by (intro filter_cong refl) (auto simp: log_ok_def canonical_unique_def keys_unique_def distinct_map dest: inj_onD)
  then show ?thesis using filter_by_key [OF log_ok_unique [OF assms(1)]] sql_get_unique [OF log_ok_unique [OF assms(1)] assms(2)] by simp
qed

text \<open>C33: An event with a canonical identifier is stored once. Whatever calls of the store follow, the deletion of
  other sessions included, as long as its own session is not deleted, the log holds that one event under the
  identifier. An append under the identifier then never changes the log: with the token of a stale turn it is
  refused by the fence, with the same session, type and payload it returns the stored event, and with any
  other content it is refused as a conflict.\<close>

theorem canonical_event_stored_once:
  assumes "stored_log s" and "str_strip c \<noteq> []" and "append_event fence now sid et p (Some c) token s = (Inr e, s1)"
    and "reach (sparing_call sid) s1 t"
  shows "filter (\<lambda>x. en_canonical_event_id x = Some (str_strip c)) (sl_events t) = [e] \<and>
    append_event fence' now' sid' et' p' (Some c) token' t =
      (if fence_refuses fence' sid' token' then (Inl Log_FenceError, t)
       else if sid' = sid \<and> et' = et \<and> metadata_json p' = metadata_json p then (Inr e, t)
       else (Inl (Log_StoreIntegrityError (''canonical event '' @ repr_str (str_strip c) @ '' conflicts with stored event'')), t))"
proof -
  have ok: "log_ok s1" using log_ok_call [OF stored_log_ok [OF assms(1)] writes_append_event assms(3)] .
  have e: "e \<in> set (sl_events s1)" "en_canonical_event_id e = Some (str_strip c)" "en_session_id e = sid" "en_event_type e = et"
    "en_payload e = metadata_json p" using append_canonical_Inr [OF assms(3,2)] by auto
  have in_t: "e \<in> set (sl_events t)" and ok_t: "log_ok t" using calls_keep_event [OF assms(4) ok e(1,3)] calls_keep_ok [OF assms(4) ok] by auto
  have "find_canonical (str_strip c) t = Some e" by (rule calls_keep_canonical [OF ok _ e(1,2)]) (use assms(4) e(3) in simp)
  then show ?thesis using filter_canonical [OF ok_t in_t e(2)] append_canonical_replay [of c t e] assms(2) e(3-5) by auto
qed

theorem canonical_event_stored_once_witness:
  "\<exists>e. fst (append_event any_fence 1 ''s'' ''turn.outcome'' [(''n'', PInt 1)] (Some ''c1'') None two_sessions) = Inr e \<and>
    fst (append_event any_fence 2 ''s'' ''turn.outcome'' [(''n'', PInt 1)] (Some ''c1'') (Some 7) (snd (delete_session ''other''
       (snd (append_event any_fence 1 ''s'' ''turn.outcome'' [(''n'', PInt 1)] (Some ''c1'') None two_sessions))))) = Inr e"
proof -
  let ?a = "append_event any_fence 1 ''s'' ''turn.outcome'' [(''n'', PInt 1)] (Some ''c1'') None two_sessions"
  have "(case fst ?a of Inr e \<Rightarrow> True | Inl _ \<Rightarrow> False)" by code_simp
  then obtain e where e: "?a = (Inr e, snd ?a)" by (cases ?a) (auto split: sum.splits)
  have c: "str_strip ''c1'' \<noteq> []" "str_strip ''other'' \<noteq> ''s''" by code_simp+
  have spared: "reach (sparing_call ''s'') (snd ?a) (snd (delete_session ''other'' (snd ?a)))" by (rule reach_one [where step = "sparing_call ''s''", OF spare_delete_call [OF c(2)]])
  have open_fence: "\<not> fence_refuses any_fence ''s'' (Some 7)" by (simp add: fence_refuses_def any_fence_def)
  have "stored_log two_sessions" unfolding two_sessions_def by (rule stored_call [OF stored_samples(1) call_insert])
  from canonical_event_stored_once [OF this c(1) e spared, of any_fence 2 "''s''" "''turn.outcome''" "[(''n'', PInt 1)]" "Some 7"] open_fence
  have "fst (append_event any_fence 2 ''s'' ''turn.outcome'' [(''n'', PInt 1)] (Some ''c1'') (Some 7) (snd (delete_session ''other'' (snd ?a)))) = Inr e" by simp
  moreover have "fst ?a = Inr e" using e by (metis fst_conv)
  ultimately show ?thesis by blast
qed

lemma capture_result_steps:
  assumes "commit_capture_result_and_release_hold fence sha now sid c cap p et token s = (Inr r, t)"
  shows "(fst (memory_capture_hold_identity sha sid (str_strip cap)), sid, snd (memory_capture_hold_identity sha sid (str_strip cap)),
      MEMORY_CAPTURE_HOLD_ACTOR) \<in> released_ids t"
proof -
  obtain i reason where id: "memory_capture_hold_identity sha sid (str_strip cap) = (i, reason)" by fastforce
  obtain u h where h: "get_retention_hold i u = Some h" "capture_hold_matches h sid reason"
      and t: "t = u \<and> rh_released_at h \<noteq> None \<or> t = u\<lparr>sl_holds := sql_update (\<lambda>r. rh_hold_id r = i) (released_hold now) (sl_holds u)\<rparr>"
    using assms
    by (auto simp: commit_capture_result_and_release_hold_def check_capture_def Let_def id dest!: in_transaction_InrD elim!: st_bind_InrE
        split: if_splits option.splits prod.splits sum.splits)
  have m: "h \<in> set (sl_holds u)" "rh_hold_id h = i" using h(1) by (auto simp: get_retention_hold_def dest: sql_get_Some)
  from t show ?thesis
  proof
    assume "t = u \<and> rh_released_at h \<noteq> None"
    then show ?thesis using h(2) m by (force simp: id released_ids_def capture_hold_matches_def)
  next
    assume "t = u\<lparr>sl_holds := sql_update (\<lambda>r. rh_hold_id r = i) (released_hold now) (sl_holds u)\<rparr>"
    then have "released_hold now h \<in> set (sl_holds t)" using m by (auto simp: set_sql_update image_iff intro!: bexI [of _ h])
    then show ?thesis using h(2) m
      by (auto simp: id released_ids_def capture_hold_matches_def intro!: image_eqI [of _ _ "released_hold now h"])
  qed
qed

text \<open>A commit for a capture whose hold is released stores nothing, and is accepted only as the replay of an event
  that is stored already.\<close>

lemma second_result_stores_nothing:
  assumes "get_retention_hold (fst (memory_capture_hold_identity sha sid (str_strip cap))) s = Some h" and "rh_released_at h \<noteq> None"
    and "commit_capture_result_and_release_hold fence sha now sid c cap p et token s = (out, t)"
  shows "t = s" and "out = Inr r \<Longrightarrow> cc_replayed r \<and> find_canonical (str_strip c) s = Some (cc_event r) \<and>
    en_session_id (cc_event r) = sid \<and> en_event_type (cc_event r) = et \<and> en_payload (cc_event r) = metadata_json p"
proof -
  obtain i reason where id: "memory_capture_hold_identity sha sid (str_strip cap) = (i, reason)" by fastforce
  have committed: "get_retention_hold i u = Some h \<and> (replayed \<longrightarrow> u = s \<and> find_canonical (str_strip c) s = Some e)"
    if "commit_canonical_event_locked now sid c et p s = (Inr (e, replayed), u)" for e replayed u
  proof
    show "get_retention_hold i u = Some h" using assms(1) canonical_commit_Inr [OF that] by (simp add: id get_retention_hold_def)
    show "replayed \<longrightarrow> u = s \<and> find_canonical (str_strip c) s = Some e"
      using that by (auto simp: commit_canonical_event_locked_def Let_def elim!: st_bind_InrE split: if_splits option.splits)
  qed
  have accepted: "t = s \<and> cc_replayed r \<and> find_canonical (str_strip c) s = Some (cc_event r) \<and>
      en_session_id (cc_event r) = sid \<and> en_event_type (cc_event r) = et \<and> en_payload (cc_event r) = metadata_json p" if out: "out = Inr r" for r
  proof -
    obtain e replayed u where u: "commit_canonical_event_locked now sid c et p s = (Inr (e, replayed), u)"
      using assms(3) out
      by (cases "commit_canonical_event_locked now sid c et p s"; cases "fst (commit_canonical_event_locked now sid c et p s)")
        (auto simp: commit_capture_result_and_release_hold_def in_transaction_def st_bind_def assert_fence_if_requested_def split: sum.splits option.splits if_splits)
    have cap: "x = str_strip cap" if "check_capture cap p = Inr x" for x using that by (auto simp: check_capture_def Let_def split: if_splits)
    have "get_retention_hold i u = Some h" using committed [OF u] by blast
    then have "replayed \<and> t = u \<and> cc_event r = e \<and> cc_replayed r = replayed"
      using assms(2,3) out u
      by (auto simp: commit_capture_result_and_release_hold_def in_transaction_def st_bind_def assert_fence_if_requested_def id dest!: cap
          split: sum.splits option.splits if_splits)
    with committed [OF u] canonical_commit_Inr [OF u] show ?thesis by auto
  qed
  show "t = s"
  proof (cases out)
    case (Inl x)
    then show ?thesis using assms(3)
      by (auto simp: commit_capture_result_and_release_hold_def in_transaction_def split: sum.splits prod.splits)
  qed (use accepted in blast)
  show "out = Inr r \<Longrightarrow> cc_replayed r \<and> find_canonical (str_strip c) s = Some (cc_event r) \<and>
    en_session_id (cc_event r) = sid \<and> en_event_type (cc_event r) = et \<and> en_payload (cc_event r) = metadata_json p" using accepted by blast
qed

text \<open>C34: After the result of a capture is committed, a commit for that capture stores nothing more. Its retention hold
  is released for good, whatever calls of the store follow, the deletion of other sessions included, as long as
  its own session is not deleted; and every further commit for the capture leaves the log as it is, the event
  that it had inserted rolled back with the rest. It is refused, unless an event of the same session, type and
  payload is stored already under its canonical identifier, which it then returns as a replay: the first result
  again, or one that another call had appended.\<close>

theorem capture_result_is_final:
  assumes "stored_log s" and "commit_capture_result_and_release_hold fence sha now sid c cap p et token s = (Inr r, s1)"
    and "reach (sparing_call sid) s1 t"
  shows "(\<exists>h. get_retention_hold (fst (memory_capture_hold_identity sha sid (str_strip cap))) t = Some h \<and> rh_released_at h \<noteq> None) \<and>
    (\<exists>out. commit_capture_result_and_release_hold fence' sha now' sid c' cap p' et' token' t = (out, t) \<and>
       (case out of
          Inl _ \<Rightarrow> True
        | Inr r' \<Rightarrow> cc_replayed r' \<and> find_canonical (str_strip c') t = Some (cc_event r') \<and> en_session_id (cc_event r') = sid \<and>
            en_event_type (cc_event r') = et' \<and> en_payload (cc_event r') = metadata_json p'))"
proof -
  have ok: "log_ok s1" using log_ok_call [OF stored_log_ok [OF assms(1)] writes_result assms(2)] .
  have "(fst (memory_capture_hold_identity sha sid (str_strip cap)), sid, snd (memory_capture_hold_identity sha sid (str_strip cap)),
      MEMORY_CAPTURE_HOLD_ACTOR) \<in> releases_of sid s1"
    using capture_result_steps [OF assms(2)] by (simp add: releases_of_def)
  then have "(fst (memory_capture_hold_identity sha sid (str_strip cap)), sid, snd (memory_capture_hold_identity sha sid (str_strip cap)),
      MEMORY_CAPTURE_HOLD_ACTOR) \<in> released_ids t"
    using calls_keep_releases [OF assms(3) ok] by (auto simp: releases_of_def)
  from released_in [OF calls_keep_ok [OF assms(3) ok] this]
  obtain h where h: "get_retention_hold (fst (memory_capture_hold_identity sha sid (str_strip cap))) t = Some h" "rh_released_at h \<noteq> None" by blast
  obtain out u where call: "commit_capture_result_and_release_hold fence' sha now' sid c' cap p' et' token' t = (out, u)" by fastforce
  show ?thesis using h call second_result_stores_nothing [OF h call] by (auto split: sum.split)
qed

definition captured_log :: session_log where
  "captured_log = snd (commit_terminal_turn_outcome any_fence id 1 ''s'' ''o1'' ''cap'' [(''capture_id'', PStr ''cap'')] ''turn.outcome'' ''pending'' None log_with_session)"

definition result_log :: session_log where
  "result_log = snd (commit_capture_result_and_release_hold any_fence id 2 ''s'' ''r1'' ''cap'' [(''capture_id'', PStr ''cap'')] ''memory.capture.result'' None captured_log)"

theorem capture_result_is_final_witness:
  "\<exists>x. commit_capture_result_and_release_hold any_fence id 3 ''s'' ''r2'' ''cap'' [(''capture_id'', PStr ''cap'')] ''memory.capture.result'' None
       (snd (delete_session ''other'' result_log)) = (Inl x, snd (delete_session ''other'' result_log))"
proof -
  let ?b = "commit_capture_result_and_release_hold any_fence id 3 ''s'' ''r2'' ''cap'' [(''capture_id'', PStr ''cap'')] ''memory.capture.result'' None
       (snd (delete_session ''other'' result_log))"
  have stored: "stored_log captured_log" unfolding captured_log_def by (rule stored_call [OF stored_samples(1) call_outcome])
  let ?a = "commit_capture_result_and_release_hold any_fence id 2 ''s'' ''r1'' ''cap'' [(''capture_id'', PStr ''cap'')] ''memory.capture.result'' None captured_log"
  have "(case fst ?a of Inr e \<Rightarrow> True | Inl _ \<Rightarrow> False)" by code_simp
  then obtain r where r: "?a = (Inr r, result_log)" unfolding result_log_def by (cases ?a) (auto split: sum.splits)
  have spared: "reach (sparing_call ''s'') result_log (snd (delete_session ''other'' result_log))"
    by (rule reach_one [where step = "sparing_call ''s''", OF spare_delete_call]) code_simp
  from capture_result_is_final [OF stored r spared, of any_fence 3 "''r2''" "[(''capture_id'', PStr ''cap'')]" "''memory.capture.result''" None]
  obtain out where out: "?b = (out, snd (delete_session ''other'' result_log))" by blast
  have "case fst ?b of Inl _ \<Rightarrow> True | Inr _ \<Rightarrow> False" by code_simp
  then show ?thesis using out by (cases out) auto
qed

section \<open>Threads\<close>

text \<open>C35: The summary of a thread, one aggregate query over the facts stored beside the events, is what a
  reading of the events themselves gives: the same latest event, latest run event, latest invocation
  start, latest attachment of a writer and flags, over the events that \<open>_event_matches_thread\<close> puts in the
  thread, in every log that calls of the store produce.\<close>

theorem thread_summary_reads_events:
  assumes "stored_log s"
  shows "summarize_thread_events sid conv thread ''run.queued'' ''client.attach'' ATTACH_ROLE_WRITER THREAD_FLAG_EVENT_TYPES s =
    read_thread sid conv thread s"
  using thread_summary_read [OF stored_log_ok [OF assms]] by (simp add: thread_summary_def)

theorem thread_summary_reads_events_witness:
  "summarize_thread_events ''s'' [] ''t'' ''run.queued'' ''client.attach'' ATTACH_ROLE_WRITER THREAD_FLAG_EVENT_TYPES second_response_log =
     read_thread ''s'' [] ''t'' second_response_log \<and> tf_run_event_id (read_thread ''s'' [] ''t'' second_response_log) = Some 6"
proof
  show "tf_run_event_id (read_thread ''s'' [] ''t'' second_response_log) = Some 6" by code_simp
qed (rule thread_summary_reads_events [OF stored_samples(4)])

text \<open>C36: The terminal event of an invocation is found whatever the length of the log: with a fuel above the
  number of stored events the backward scan ends, and its pages together are the events of the thread from
  the trigger back to the start of the invocation, as one unpaged reading gives them.\<close>

theorem invocation_scan_reads_all:
  assumes "stored_log s" and "length (sl_events s) < fuel"
  shows "resolve_invocation_terminal fuel sid trigger conv thread s =
    (let run_id = payload_text (en_payload trigger) ''run_id'';
         (matching, start) = scan_page (event_matches_thread conv thread sid) (is_invocation_start run_id)
            (rev (filter (\<lambda>e. en_id e \<le> en_id trigger) (session_events sid s)))
     in Some (if run_id = [] then None else Option.bind start (\<lambda>st. first_terminal st run_id False False False (rev matching))))"
proof -
  have "length (events_below sid (en_id trigger + 1) s) < fuel" using below_length assms(2) by (rule order_le_less_trans)
  moreover have "events_below sid (en_id trigger + 1) s = rev (filter (\<lambda>e. en_id e \<le> en_id trigger) (session_events sid s))"
    by (simp add: events_below_def zle_iff_zadd [symmetric] zless_add1_eq le_less)
  ultimately show ?thesis using scan_back_all [OF stored_log_ok [OF assms(1)], of sid "en_id trigger + 1" fuel]
    by (auto simp: resolve_invocation_terminal_def Let_def split: prod.splits option.splits)
qed

theorem invocation_scan_reads_all_witness:
  "\<exists>r. resolve_invocation_terminal 9 ''s'' (last (sl_events delivered_log)) [] ''t'' delivered_log = Some (Some r) \<and> iv_resolved_state r = ''settled''"
proof -
  let ?e = "last (sl_events delivered_log)"
  have fuel: "length (sl_events delivered_log) < 9" by code_simp
  let ?run_id = "payload_text (en_payload ?e) ''run_id''"
  have "(case scan_page (event_matches_thread [] ''t'' ''s'') (is_invocation_start ?run_id)
            (rev (filter (\<lambda>e. en_id e \<le> en_id ?e) (session_events ''s'' delivered_log))) of (matching, start) \<Rightarrow>
         case (if ?run_id = [] then None else Option.bind start (\<lambda>st. first_terminal st ?run_id False False False (rev matching))) of
           Some r \<Rightarrow> iv_resolved_state r = ''settled'' | None \<Rightarrow> False)" by code_simp
  then show ?thesis unfolding invocation_scan_reads_all [OF stored_samples(3) fuel] Let_def by (auto split: prod.splits option.splits)
qed

section \<open>Delivery of responses\<close>

lemma normalize_stripped: "str_strip v = v \<Longrightarrow> normalize_optional_text (Some v) = v"
  by (auto simp: normalize_optional_text_def opt_or_def)

definition latest_run :: "string \<Rightarrow> string \<Rightarrow> string \<Rightarrow> session_log \<Rightarrow> run_event option" where
  "latest_run sid conv thread s =
     (let es = filter (\<lambda>e. is_run_type (en_event_type e) \<and> to_run_event e \<noteq> None) (thread_events sid conv thread s)
      in if es = [] then None else to_run_event (last es))"

lemma lifecycle_read:
  fixes sid :: string
  assumes "log_ok s" and "str_strip conv = conv" and "str_strip thread = thread" and "thread \<noteq> []"
  defines "lc \<equiv> resolve_thread_lifecycle sid (Some conv) (Some thread) s" and "facts \<equiv> read_thread sid conv thread s"
  shows "(tl_thread_state lc, tl_qualifier lc, tl_pending_response_id lc) =
      resolve_thread_state (latest_run sid conv thread s) (resolve_delivery_state (tf_present facts))
        (last_message (thread_messages sid conv thread s)) (''run.cancel_requested'' \<in> set (tf_present facts)) (''client.detached'' \<in> set (tf_present facts))"
    and "tl_thread_id lc = thread"
proof -
  have run: "Option.bind (event_at sid (tf_run_event_id facts) s) to_run_event = latest_run sid conv thread s"
    by (simp add: facts_def read_thread_def Let_def event_at_thread [OF assms(1)] latest_run_def)
  show "(tl_thread_state lc, tl_qualifier lc, tl_pending_response_id lc) =
      resolve_thread_state (latest_run sid conv thread s) (resolve_delivery_state (tf_present facts))
        (last_message (thread_messages sid conv thread s)) (''run.cancel_requested'' \<in> set (tf_present facts)) (''client.detached'' \<in> set (tf_present facts))"
    using assms(4) run unfolding lc_def resolve_thread_lifecycle_def
    by (simp add: normalize_stripped [OF assms(2)] normalize_stripped [OF assms(3)] thread_summary_read [OF assms(1)] facts_def [symmetric] Let_def
        split: prod.splits)
  show "tl_thread_id lc = thread" using assms(4) unfolding lc_def resolve_thread_lifecycle_def
    by (simp add: normalize_stripped [OF assms(2)] normalize_stripped [OF assms(3)] Let_def split: prod.splits)
qed

lemma present_flag:
  "t \<in> set THREAD_FLAG_EVENT_TYPES \<Longrightarrow> t \<in> set (tf_present (read_thread sid conv thread s)) \<longleftrightarrow> (\<exists>e\<in>set (thread_events sid conv thread s). en_event_type e = t)"
  by (auto simp: read_thread_def Let_def)

lemma delivery_flags:
  "resolve_delivery_state (tf_present (read_thread sid conv thread s)) \<in> {Dl_delivered, Dl_acked} \<longleftrightarrow>
   (\<exists>e\<in>set (thread_events sid conv thread s). en_event_type e \<in> {''response.delivered'', ''response.acked''})"
  using present_flag [of "''response.delivered''" sid conv thread s] present_flag [of "''response.acked''" sid conv thread s]
  by (auto simp: resolve_delivery_state_def THREAD_FLAG_EVENT_TYPES_def)

lemma delivered_not_pending: "d \<in> {Dl_delivered, Dl_acked} \<Longrightarrow> fst (resolve_thread_state r d m c x) \<noteq> Th_undelivered"
  by (auto simp: resolve_thread_state_def completed_state_def message_state_def Let_def split: option.splits)

text \<open>C37: A response that was not delivered is replayed: when the latest run of a thread has completed, no
  response of the thread was ever delivered or acknowledged, and the last message is not an internal
  error, the thread is projected as undelivered with a response to replay, and the gateway's decision,
  unless a reset is asked for, is to replay it in that thread.\<close>

theorem undelivered_response_replayed:
  assumes "stored_log s" and "str_strip conv = conv" and "str_strip thread = thread" and "thread \<noteq> []"
    and "latest_run sid conv thread s = Some r" and "rv_state r = ''completed''"
    and "\<forall>e\<in>set (thread_events sid conv thread s). en_event_type e \<notin> {''response.delivered'', ''response.acked''}"
    and "\<not> is_internal_error_outbound (last_message (thread_messages sid conv thread s))"
  shows "let lc = resolve_thread_lifecycle sid (Some conv) (Some thread) s
    in tl_thread_state lc = Th_undelivered \<and> tl_pending_response_id lc \<noteq> [] \<and>
       resolve_thread_routing_decision uuid lc sid conv thread attach resume False explicit inferred =
         \<lparr>td_action = Ta_replay, td_reason_code = ''undelivered_response_pending'', td_thread_id = thread, td_should_replay_pending = True\<rparr>"
proof -
  have "resolve_delivery_state (tf_present (read_thread sid conv thread s)) \<notin> {Dl_delivered, Dl_acked}" using delivery_flags assms(7) by blast
  moreover have "rv_run_id r \<noteq> []" using assms(5) by (auto simp: latest_run_def to_run_event_def Let_def split: if_splits)
  ultimately show ?thesis
    using lifecycle_read [OF stored_log_ok [OF assms(1)] assms(2-4), where sid = sid] assms(4,5,6,8)
    by (auto simp: resolve_thread_state_def completed_state_def Let_def resolve_thread_routing_decision_def current_thread_def assms(2,3) split: option.splits)
qed

theorem undelivered_response_replayed_witness:
  "td_action (resolve_thread_routing_decision ''u'' (resolve_thread_lifecycle ''s'' (Some []) (Some ''t'') undelivered_log) ''s'' [] ''t'' [] False False False False) =
     Ta_replay"
proof -
  have "str_strip ''t'' = ''t''" "list_all (\<lambda>e. en_event_type e \<notin> {''response.delivered'', ''response.acked''}) (thread_events ''s'' [] ''t'' undelivered_log)"
    "\<not> is_internal_error_outbound (last_message (thread_messages ''s'' [] ''t'' undelivered_log))"
    by code_simp+
  moreover have "case latest_run ''s'' [] ''t'' undelivered_log of Some r \<Rightarrow> rv_state r = ''completed'' | None \<Rightarrow> False" by code_simp
  then obtain r where "latest_run ''s'' [] ''t'' undelivered_log = Some r" "rv_state r = ''completed''" by (auto split: option.splits)
  ultimately show ?thesis
    using undelivered_response_replayed [OF stored_samples(2) str_strip_Nil, of "''t''" "''s''" r "''u''" "[]" False False False]
    by (simp add: list_all_iff Let_def)
qed

text \<open>C38: Once one response of a thread was delivered or acknowledged, no response of the thread is replayed any more.
  The delivery flags are collected over all events of the thread, not over those of its latest run: whatever calls
  of the store follow, the deletion of other sessions included, as long as the session itself is not deleted, the
  thread is not projected as undelivered, however many runs complete and responses fail to reach the user, and the
  gateway does not decide to replay.\<close>

theorem delivered_thread_never_replayed:
  assumes "stored_log s" and "str_strip conv = conv" and "str_strip thread = thread" and "thread \<noteq> []"
    and "e \<in> set (thread_events sid conv thread s)" and "en_event_type e \<in> {''response.delivered'', ''response.acked''}"
    and "reach (sparing_call sid) s t"
  shows "let lc = resolve_thread_lifecycle sid (Some conv) (Some thread) t
    in tl_thread_state lc \<noteq> Th_undelivered \<and>
       td_action (resolve_thread_routing_decision uuid lc sid conv thread attach resume reset explicit inferred) \<noteq> Ta_replay"
proof -
  have ok: "log_ok t" using calls_keep_ok [OF assms(7) stored_log_ok [OF assms(1)]] .
  have "e \<in> set (thread_events sid conv thread t)"
    using assms(5) calls_keep_event [OF assms(7) stored_log_ok [OF assms(1)]] by (auto simp: thread_events_def session_events_def)
  then have "resolve_delivery_state (tf_present (read_thread sid conv thread t)) \<in> {Dl_delivered, Dl_acked}" using delivery_flags assms(6) by blast
  then have "tl_thread_state (resolve_thread_lifecycle sid (Some conv) (Some thread) t) \<noteq> Th_undelivered"
    using lifecycle_read(1) [OF ok assms(2-4), where sid = sid] by (metis delivered_not_pending fst_conv)
  then show ?thesis by (auto simp: resolve_thread_routing_decision_def Let_def)
qed

theorem delivered_thread_never_replayed_witness:
  "tl_latest_run_state (resolve_thread_lifecycle ''s'' (Some []) (Some ''t'') second_response_log) = ''completed'' \<and>
   resolve_invocation_terminal 9 ''s'' (last (sl_events second_response_log)) [] ''t'' second_response_log = Some None \<and>
   td_action (resolve_thread_routing_decision ''u'' (resolve_thread_lifecycle ''s'' (Some []) (Some ''t'') second_response_log) ''s'' [] ''t'' [] False False False False) \<noteq>
     Ta_replay"
proof -
  have e: "last (sl_events delivered_log) \<in> set (thread_events ''s'' [] ''t'' delivered_log)"
    "en_event_type (last (sl_events delivered_log)) \<in> {''response.delivered'', ''response.acked''}" "str_strip ''t'' = ''t''" by code_simp+
  have "reach (sparing_call ''s'') delivered_log second_response_log" unfolding second_response_log_def
    by (rule reach_step, rule reach_step, rule reach_step, rule reach_step, rule reach_refl) (rule spare_call, rule log_call_samples)+
  from delivered_thread_never_replayed [OF stored_samples(3) str_strip_Nil e(3) _ e(1,2) this, of "''u''" "[]" False False False False]
  have "td_action (resolve_thread_routing_decision ''u'' (resolve_thread_lifecycle ''s'' (Some []) (Some ''t'') second_response_log) ''s'' [] ''t'' [] False False False False) \<noteq>
     Ta_replay" by (simp add: Let_def)
  moreover have "tl_latest_run_state (resolve_thread_lifecycle ''s'' (Some []) (Some ''t'') second_response_log) = ''completed''"
    "resolve_invocation_terminal 9 ''s'' (last (sl_events second_response_log)) [] ''t'' second_response_log = Some None" by code_simp+
  ultimately show ?thesis by blast
qed

end
