(* ===== verification/Run_Terminal.thy ===== *)
theory Run_Terminal
  imports Session_Properties Goal_Verify
begin

text \<open>
  The terminal event of a turn: the verdict of the verifiers bound to the run in the event log
  (\<open>services/brain/adapters/run_verification.py\<close>) and the emission by the gateway with its fallback
  (\<open>services/gateway/turn/lifecycle.py\<close>, \<open>_emit_run_state\<close> of \<open>services/gateway/service.py\<close>). The resolver of typed turns
  and the emitter of the notice are parameters; either may raise. The emitter that the gateway is wired to is
  \<open>emit_invocation_lifecycle_sync\<close> of \<open>services/agent/service.py\<close>, over the telemetry service as a parameter. A fence
  error is raised again, every other exception is logged and leads to the fallback.
\<close>

section \<open>Binding the verdict\<close>

text \<open>The fields of a run that the binding reads.\<close>

record task_run =
  rn_run_id :: string
  rn_session_id :: string
  rn_goal_id :: string

fun family_text :: "verifier_family \<Rightarrow> string" where
  "family_text Vf_structural = ''structural''"
| "family_text Vf_freshness = ''freshness''"
| "family_text Vf_artifact_presence = ''artifact_presence''"
| "family_text Vf_success_criteria_match = ''success_criteria_match''"

definition verifier_result_dict :: "verifier_result \<Rightarrow> pydict" where
  "verifier_result_dict r =
     [(''family'', PStr (family_text (ve_family r))), (''goal_id'', PStr (ve_goal_id r)), (''run_id'', PStr (ve_run_id r)),
      (''target_id'', PStr (ve_target_id r)), (''passed'', PBool (ve_passed r)), (''verdict'', PStr (if ve_passed r then ''pass'' else ''fail'')),
      (''reasons'', PList (map PStr (ve_reasons r)))]"

definition validate_run_goal_binding :: "task_run \<Rightarrow> goal \<Rightarrow> log_error + unit" where
  "validate_run_goal_binding run g =
     (if rn_run_id run = [] then Inl (Log_ValueError ''Run.run_id is required for bind_run_terminal_event'')
      else if rn_goal_id run = [] then Inl (Log_ValueError ''Run.goal_id is required for bind_run_terminal_event'')
      else if rn_goal_id run \<noteq> g_goal_id g
      then Inl (Log_ValueError (''Run.goal_id ('' @ repr_str (rn_goal_id run) @ '') does not match Goal.goal_id ('' @ repr_str (g_goal_id g) @
         ''); structural binding requires matching identifiers.''))
      else Inr ())"

definition checkpoint_snapshot :: "run_terminal_state \<Rightarrow> verifier_result list \<Rightarrow> failure_condition list \<Rightarrow> pydict" where
  "checkpoint_snapshot terminal results fired =
     [(''terminal_state'', PStr (terminal_text terminal)), (''terminal_state_provenance'', PStr ''typed_verifier_reduction''),
      (''verifier_result_count'', PInt (int (length results))), (''verifier_results'', PList (map (PDict \<circ> verifier_result_dict) results)),
      (''fired_failure_condition_ids'', PList (map (PStr \<circ> fc_condition_id) fired))]"

definition terminal_event_payload :: "string \<Rightarrow> goal \<Rightarrow> run_terminal_state \<Rightarrow> verifier_result list \<Rightarrow> failure_condition list \<Rightarrow> pydict" where
  "terminal_event_payload checkpoint_id g terminal results fired =
     [(''terminal_state'', PStr (terminal_text terminal)), (''terminal_state_provenance'', PStr ''typed_verifier_reduction''),
      (''checkpoint_id'', PStr checkpoint_id), (''verifier_result_count'', PInt (int (length results))),
      (''verifier_pass_count'', PInt (int (length (filter ve_passed results)))),
      (''verifier_fail_count'', PInt (int (length (filter (Not \<circ> ve_passed) results)))),
      (''fired_failure_condition_ids'', PList (map (PStr \<circ> fc_condition_id) fired)), (''goal_id'', PStr (g_goal_id g))]"

fun set_defaults :: "pydict \<Rightarrow> pydict \<Rightarrow> pydict" where
  "set_defaults d [] = d"
| "set_defaults d ((k, v) # extra) = set_defaults (if dict_has d k then d else dict_set d k v) extra"

record terminal_args =
  ta_session_id :: string
  ta_run_id :: string
  ta_legacy_state :: string
  ta_current_step :: string
  ta_payload :: pydict
  ta_conversation_id :: "string option"
  ta_thread_id :: "string option"
  ta_attach_id :: "string option"

text \<open>The gateway leaves \<open>sequence\<close> and \<open>created_at\<close> at their defaults; the step, the identifiers of the thread
  and the extra payload are those of the emission.\<close>

definition bind_run_terminal_event ::
  "(string \<Rightarrow> int \<Rightarrow> bool) \<Rightarrow> int \<Rightarrow> task_run \<Rightarrow> goal \<Rightarrow> verifier_result list \<Rightarrow> failure_condition list \<Rightarrow> string \<Rightarrow> terminal_args \<Rightarrow> int option \<Rightarrow>
   session_log \<Rightarrow> (log_error + session_event) \<times> session_log" where
  "bind_run_terminal_event fence now run g results fired checkpoint_id a token s =
     (case validate_run_goal_binding run g of
        Inl x \<Rightarrow> (Inl x, s)
      | Inr _ \<Rightarrow>
          let terminal = derive_run_terminal_state g results fired;
              checkpoint = \<lparr>rc_checkpoint_id = checkpoint_id, rc_run_id = rn_run_id run, rc_goal_id = g_goal_id g, rc_sequence = 0,
                 rc_state_snapshot = checkpoint_snapshot terminal results fired, rc_created_at = []\<rparr>
          in st_bind (append_run_checkpoint_event fence now (rn_session_id run) checkpoint (ta_conversation_id a) (ta_thread_id a) token) (\<lambda>_.
             append_run_state_event fence now
               \<lparr>re_session_id = rn_session_id run, re_run_id = rn_run_id run, re_state = resolve_run_terminal_persistence terminal,
                re_current_step = ta_current_step a, re_payload = set_defaults (terminal_event_payload checkpoint_id g terminal results fired) (ta_payload a),
                re_conversation_id = ta_conversation_id a, re_thread_id = ta_thread_id a, re_attach_id = ta_attach_id a\<rparr> token) s)"

section \<open>Emission by the gateway\<close>

definition emit_run_state ::
  "(string \<Rightarrow> int \<Rightarrow> bool) \<Rightarrow> int \<Rightarrow> terminal_args \<Rightarrow> int option \<Rightarrow> session_log \<Rightarrow> (log_error + session_event option) \<times> session_log" where
  "emit_run_state fence now a token s =
     (case append_run_state_event fence now
        \<lparr>re_session_id = ta_session_id a, re_run_id = ta_run_id a, re_state = ta_legacy_state a, re_current_step = ta_current_step a,
         re_payload = ta_payload a, re_conversation_id = None, re_thread_id = None, re_attach_id = None\<rparr> token s of
        (Inr e, t) \<Rightarrow> (Inr (Some e), t)
      | (Inl x, t) \<Rightarrow> if x = Log_FenceError then (Inl x, t) else (Inr None, t))"

text \<open>The emitter of the agent: the telemetry service, if there is one, with the exceptions that the agent catches.
  The errors of the session store that derive from \<open>ValueError\<close> or \<open>RuntimeError\<close> are among them, those of the
  database driver are not.\<close>

fun agent_catches :: "log_error \<Rightarrow> bool" where
  "agent_catches (Log_ValueError _) = True"
| "agent_catches (Log_RuntimeError _) = True"
| "agent_catches (Log_StoreIntegrityError _) = True"
| "agent_catches Log_FenceError = True"
| "agent_catches Log_ForeignKeyError = False"
| "agent_catches Log_UniqueError = False"

definition emit_invocation_lifecycle_sync ::
  "(invocation_terminal \<Rightarrow> log_error + bool) option \<Rightarrow> invocation_terminal \<Rightarrow> log_error + bool" where
  "emit_invocation_lifecycle_sync telemetryctl p =
     (case telemetryctl of
        None \<Rightarrow> Inr False
      | Some emit \<Rightarrow> (case emit p of Inl x \<Rightarrow> if agent_catches x then Inr False else Inl x | Inr b \<Rightarrow> Inr b))"

text \<open>The scan has the fuel of the log's length. Telemetry gets the terminal event of the invocation.\<close>

definition emit_resolved_invocation_terminal ::
  "(invocation_terminal \<Rightarrow> log_error + bool) \<Rightarrow> session_event \<Rightarrow> string \<Rightarrow> string \<Rightarrow> session_log \<Rightarrow> log_error + bool" where
  "emit_resolved_invocation_terminal telemetry source conversation_id thread_id s =
     (case resolve_invocation_terminal (Suc (length (sl_events s))) (en_session_id source) source conversation_id thread_id s of
        Some (Some p) \<Rightarrow> telemetry p
      | _ \<Rightarrow> Inr False)"

definition emit_resolved ::
  "(invocation_terminal \<Rightarrow> log_error + bool) \<Rightarrow> terminal_args \<Rightarrow> session_event \<Rightarrow> session_log \<Rightarrow> log_error + bool" where
  "emit_resolved telemetry a source s =
     emit_resolved_invocation_terminal telemetry source (opt_or (ta_conversation_id a) []) (opt_or (ta_thread_id a) []) s"

definition emit_legacy_state ::
  "(invocation_terminal \<Rightarrow> log_error + bool) \<Rightarrow> (string \<Rightarrow> int \<Rightarrow> bool) \<Rightarrow> int \<Rightarrow> terminal_args \<Rightarrow> int option \<Rightarrow> session_log \<Rightarrow>
   (log_error + session_event option) \<times> session_log" where
  "emit_legacy_state telemetry fence now a token = st_bind (emit_run_state fence now a token) (\<lambda>e s.
     case e of
       None \<Rightarrow> (Inr None, s)
     | Some source \<Rightarrow> (case emit_resolved telemetry a source s of Inl x \<Rightarrow> (Inl x, s) | Inr _ \<Rightarrow> (Inr (Some source), s)))"

type_synonym terminal_resolution = "task_run \<times> goal \<times> verifier_result list \<times> failure_condition list"

definition emit_terminal_run_state ::
  "(log_error + terminal_resolution option) option \<Rightarrow> (invocation_terminal \<Rightarrow> log_error + bool) \<Rightarrow> (string \<Rightarrow> int \<Rightarrow> bool) \<Rightarrow> int \<Rightarrow> terminal_args \<Rightarrow>
   int option \<Rightarrow> session_log \<Rightarrow> (log_error + session_event option) \<times> session_log" where
  "emit_terminal_run_state resolver telemetry fence now a token s =
     (let legacy = emit_legacy_state telemetry fence now a token in
      case resolver of
        None \<Rightarrow> legacy s
      | Some (Inl x) \<Rightarrow> if x = Log_FenceError then (Inl x, s) else legacy s
      | Some (Inr None) \<Rightarrow> legacy s
      | Some (Inr (Some (run, g, results, fired))) \<Rightarrow>
          (case bind_run_terminal_event fence now run g results fired (rn_run_id run @ '':terminal'') a token s of
             (Inl x, t) \<Rightarrow> if x = Log_FenceError then (Inl x, t) else legacy t
           | (Inr e, t) \<Rightarrow>
               (case emit_resolved telemetry a e t of
                  Inr _ \<Rightarrow> (Inr (Some e), t)
                | Inl x \<Rightarrow> if x = Log_FenceError then (Inl x, t) else legacy t)))"

definition emit_turn_event ::
  "(invocation_terminal \<Rightarrow> log_error + bool) \<Rightarrow> (string \<Rightarrow> int \<Rightarrow> bool) \<Rightarrow> int \<Rightarrow> string \<Rightarrow> string \<Rightarrow> string option \<Rightarrow> string option \<Rightarrow> string option \<Rightarrow> pydict \<Rightarrow>
   int option \<Rightarrow> session_log \<Rightarrow> (log_error + session_event) \<times> session_log" where
  "emit_turn_event telemetry fence now session_id event_type conversation_id thread_id attach_id payload token =
     st_bind (append_lifecycle_event fence now session_id event_type conversation_id thread_id attach_id payload token) (\<lambda>e s.
       if event_type \<in> {''response.delivered'', ''response.acked''}
       then (case emit_resolved_invocation_terminal telemetry e (opt_or conversation_id []) (opt_or thread_id []) s of Inl x \<Rightarrow> (Inl x, s) | Inr _ \<Rightarrow> (Inr e, s))
       else (Inr e, s))"

definition emit_memory_event ::
  "(string \<Rightarrow> int \<Rightarrow> bool) \<Rightarrow> int \<Rightarrow> string \<Rightarrow> string \<Rightarrow> string option \<Rightarrow> string option \<Rightarrow> string option \<Rightarrow> pydict \<Rightarrow> int option \<Rightarrow> session_log \<Rightarrow>
   (log_error + unit) \<times> session_log" where
  "emit_memory_event fence now session_id event_type conversation_id thread_id attach_id payload token s =
     (case append_lifecycle_event fence now session_id event_type conversation_id thread_id attach_id payload token s of
        (Inr _, t) \<Rightarrow> (Inr (), t)
      | (Inl x, t) \<Rightarrow> if x = Log_FenceError then (Inl x, t) else (Inr (), t))"

section \<open>Reading the verdict back\<close>

lemma get_metadata_json: "dict_get_or (metadata_json d) k v = (case map_of d k of None \<Rightarrow> v | Some w \<Rightarrow> sort_keys w)"
  by (simp add: metadata_json_def py_defs map_of_map split: option.splits)

lemma writes_bind_terminal: "writes (bind_run_terminal_event fence now run g results fired ck a token)"
  unfolding bind_run_terminal_event_def Let_def by (intro writes_intros)

lemma map_of_with_ids: "k \<notin> {''conversation_id'', ''thread_id'', ''attach_id''} \<Longrightarrow> map_of (with_ids c t x d) k = map_of d k"
  by (simp add: with_ids_def set_if_text_def)

lemma map_of_rev_None: "map_of (rev d) k = None \<longleftrightarrow> map_of d k = None"
  by (simp add: map_of_eq_None_iff)

lemma run_payload_fields:
  assumes "map_of (re_payload a) ''run_id'' = None" and "map_of (re_payload a) ''state'' = None"
  shows "payload_text (metadata_json (run_event_payload a)) ''run_id'' = str_strip (re_run_id a)"
    and "dict_get_or (metadata_json (run_event_payload a)) ''state'' v = PStr (normalize_run_state (PStr (re_state a)) [])"
  using assms
  by (simp_all add: payload_text_def get_metadata_json run_event_payload_def map_of_dict_update map_of_with_ids map_of_rev_None [THEN iffD2])

lemma set_defaults_None: "map_of d k = None \<Longrightarrow> map_of extra k = None \<Longrightarrow> map_of (set_defaults d extra) k = None"
  by (induction d extra rule: set_defaults.induct) (auto split: if_splits)

lemma append_plain: "append_event fence now sid et p None token s = (Inr e, t) \<Longrightarrow> store_event now sid et p None s = (Inr e, t)"
  by (auto simp: append_event_def opt_or_def insert_event_locked_def assert_fence_if_requested_def dest!: in_transaction_InrD
      elim!: st_bind_InrE split: option.splits if_splits)

lemma sql_order_desc_strict: "sorted_wrt (<) (map (f :: 'a \<Rightarrow> int) xs) \<Longrightarrow> sql_order_desc f xs = rev xs"
  by (simp add: sql_order_desc_def sort_key_rev_strict)

lemma newest_run_event:
  assumes "log_ok t" and "sl_events t = es @ [e]" and "en_session_id e = sid" and "is_run_type (en_event_type e)"
    and "to_run_event e = Some r" and "rv_run_id r = rid" and "str_strip rid = rid"
  shows "list_session_run_events sid rid 1 t = [r]"
proof -
  have key: "ef_run_key (event_run_facts x) = payload_text (en_payload x) ''run_id''" for x by (simp add: event_run_facts_def Let_def)
  let ?p = "\<lambda>x. payload_text (en_payload x) ''run_id'' = rid \<and> is_run_type (en_event_type x)"
  have rid: "payload_text (en_payload e) ''run_id'' = rid" "rid \<noteq> []" using assms(5,6) by (auto simp: to_run_event_def Let_def split: if_splits)
  let ?mine = "filter ?p (session_events sid t)"
  have snoc: "?mine = filter ?p (filter (\<lambda>x. en_session_id x = sid) es) @ [e]" using assms(2-4) rid(1) by (simp add: session_events_def)
  have "filter (\<lambda>(f, e). ef_run_key f = rid \<and> is_run_type (en_event_type e)) (joined sid t) = map (\<lambda>x. (event_run_facts x, x)) ?mine"
    by (simp add: joined_ok [OF assms(1)] filter_map o_def key)
  moreover have "sorted_wrt (<) (map (\<lambda>(f, e). ef_event_id f) (map (\<lambda>x. (event_run_facts x, x)) ?mine))"
    using session_events_sorted [OF assms(1), of sid] by (auto simp: sorted_wrt_map o_def intro: sorted_wrt_filter)
  ultimately have "list_run_events sid rid 1 t = [e]"
    using rid(2) snoc by (simp add: list_run_events_def sql_order_desc_strict EVENT_PAGE_MAX_def del: filter_append)
  then show ?thesis using assms(5,7) rid(2) by (simp add: list_session_run_events_def map_filter_simps)
qed

lemma run_state_readback:
  assumes "log_ok s" and "append_run_state_event fence now a token s = (Inr e, t)"
    and "map_of (re_payload a) ''run_id'' = None" and "map_of (re_payload a) ''state'' = None" and "re_state a \<in> set RUN_STATES"
  shows "log_ok t \<and> en_session_id e = re_session_id a \<and> (\<exists>r. to_run_event e = Some r \<and> rv_state r = re_state a) \<and>
    (\<exists>r. list_session_run_events (re_session_id a) (str_strip (re_run_id a)) 1 t = [r] \<and> rv_state r = re_state a)"
proof -
  let ?st = "normalize_run_state (PStr (re_state a)) []"
  have lower: "str_lower (str_strip x) = x" if "x \<in> set RUN_STATES" for x using that by (auto simp: RUN_STATES_def) (code_simp)+
  have st: "normalize_run_state (PStr (re_state a)) et = re_state a" for et using assms(5) lower by (auto simp: normalize_run_state_def Let_def)
  have rid: "str_strip (re_run_id a) \<noteq> []" and app: "store_event now (re_session_id a) (''run.'' @ ?st) (run_event_payload a) None s = (Inr e, t)"
    using assms(2) by (auto simp: append_run_state_event_def dest!: append_plain split: if_splits)
  note fields = run_payload_fields [OF assms(3,4)]
  have e: "en_session_id e = re_session_id a" "en_event_type e = ''run.'' @ ?st" "en_payload e = metadata_json (run_event_payload a)"
    using store_event_result [OF app] store_event_Inr(1) [OF app] by simp_all
  obtain r where r: "to_run_event e = Some r" "rv_state r = re_state a" "rv_run_id r = str_strip (re_run_id a)"
    using rid by (auto simp: to_run_event_def e(3) fields st Let_def)
  have ok: "log_ok t" using log_ok_call [OF assms(1) writes_run_state assms(2)] .
  have "is_run_type (en_event_type e)" by (simp add: e(2) is_run_type_def str_startswith_iff)
  then have "list_session_run_events (re_session_id a) (str_strip (re_run_id a)) 1 t = [r]"
    using newest_run_event [OF ok store_event_Inr(2) [OF app] e(1)] r by simp
  with r e(1) ok show ?thesis by blast
qed

end
