(* ===== verification/Run_Terminal_Properties.thy ===== *)
theory Run_Terminal_Properties
  imports Run_Terminal
begin

text \<open>
  What the log says of a turn that has a typed goal.
\<close>

section \<open>A sample turn\<close>

definition terminal_goal :: goal where
  "terminal_goal = \<lparr>g_goal_id = ''g'', g_description = ''ship'', g_success_criteria = [\<lparr>sc_criterion_id = ''c'', sc_description = [], sc_structural_check = []\<rparr>],
     g_deliverables = [\<lparr>dv_deliverable_id = ''d'', dv_description = [], dv_verification_hint = Vf_structural\<rparr>], g_failure_conditions = [],
     g_status = Ms_active, g_apd_plan_id = None, g_parent_goal_id = None, g_wall_clock_budget_seconds = None, g_milestone_checkpoints = [],
     g_cost_budget_tokens = None, g_cost_budget_dollars = None, g_external_blockers = [], g_owner_agent_id = None\<rparr>"

definition terminal_run :: task_run where
  "terminal_run = \<lparr>rn_run_id = ''r1'', rn_session_id = ''s'', rn_goal_id = ''g''\<rparr>"

definition sample_terminal :: terminal_args where
  "sample_terminal = \<lparr>ta_session_id = ''s'', ta_run_id = ''r1'', ta_legacy_state = ''completed'', ta_current_step = ''turn.completed'',
     ta_payload = [(''response_chars'', PStr ''2'')], ta_conversation_id = None, ta_thread_id = Some ''t'', ta_attach_id = None\<rparr>"

definition passed_result :: "string \<Rightarrow> verifier_result" where
  "passed_result target = \<lparr>ve_family = Vf_structural, ve_goal_id = ''g'', ve_run_id = ''r1'', ve_target_id = target, ve_passed = True, ve_reasons = []\<rparr>"

definition queued_log :: session_log where
  "queued_log = log_run 1 ''r1'' ''queued'' log_with_session"

lemma queued_log_stored: "stored_log queued_log"
  unfolding queued_log_def by (rule stored_call [OF stored_samples(1) log_call_samples(1)])

definition bound_sample :: "verifier_result list \<Rightarrow> (log_error + session_event) \<times> session_log" where
  "bound_sample results = bind_run_terminal_event any_fence 2 terminal_run terminal_goal results [] (rn_run_id terminal_run @ '':terminal'') sample_terminal None queued_log"

section \<open>Binding and fallback\<close>

lemma persistence_is_run_state: "resolve_run_terminal_persistence t \<in> set RUN_STATES"
  by (simp add: resolve_run_terminal_persistence_def RUN_STATES_def)

lemma terminal_payload_keys:
  "map_of (terminal_event_payload ck g t results fired) ''run_id'' = None" "map_of (terminal_event_payload ck g t results fired) ''state'' = None"
  by (simp_all add: terminal_event_payload_def)

lemma bound_readback:
  assumes "log_ok s" and "bind_run_terminal_event fence now run g results fired ck a token s = (Inr e, t)"
    and "map_of (ta_payload a) ''run_id'' = None" and "map_of (ta_payload a) ''state'' = None"
  shows "log_ok t \<and> en_session_id e = rn_session_id run \<and>
    (\<exists>r. list_session_run_events (rn_session_id run) (str_strip (rn_run_id run)) 1 t = [r] \<and>
         rv_state r = resolve_run_terminal_persistence (derive_run_terminal_state g results fired))"
proof -
  let ?st = "derive_run_terminal_state g results fired"
  obtain c u where c: "append_run_checkpoint_event fence now (rn_session_id run)
       \<lparr>rc_checkpoint_id = ck, rc_run_id = rn_run_id run, rc_goal_id = g_goal_id g, rc_sequence = 0,
        rc_state_snapshot = checkpoint_snapshot ?st results fired, rc_created_at = []\<rparr> (ta_conversation_id a) (ta_thread_id a) token s = (Inr c, u)"
    and e: "append_run_state_event fence now
       \<lparr>re_session_id = rn_session_id run, re_run_id = rn_run_id run, re_state = resolve_run_terminal_persistence ?st,
        re_current_step = ta_current_step a, re_payload = set_defaults (terminal_event_payload ck g ?st results fired) (ta_payload a),
        re_conversation_id = ta_conversation_id a, re_thread_id = ta_thread_id a, re_attach_id = ta_attach_id a\<rparr> token u = (Inr e, t)"
    using assms(2) by (auto simp: bind_run_terminal_event_def Let_def elim!: st_bind_InrE split: sum.splits)
  have "log_ok u" using log_ok_call [OF assms(1) writes_checkpoint c] .
  from run_state_readback [OF this e] show ?thesis
    using persistence_is_run_state set_defaults_None [OF terminal_payload_keys(1) assms(3)] set_defaults_None [OF terminal_payload_keys(2) assms(4)] by simp
qed

lemma bound_last:
  assumes "bind_run_terminal_event fence now run g results fired ck a token s = (Inr e, t)"
  obtains et p u where "append_event fence now (rn_session_id run) et p None token u = (Inr e, t)"
  using assms by (auto simp: bind_run_terminal_event_def append_run_state_event_def Let_def elim!: st_bind_InrE split: sum.splits if_splits)

lemma append_again:
  assumes "append_event fence now sid et p None token s = (Inr e, t)"
  shows "\<exists>e' t'. append_event fence now' sid et' p' None token t = (Inr e', t')"
proof -
  have "store_event now sid et p None s = (Inr e, t)" by (rule append_plain [OF assms])
  then have "sql_get sn_id sid (sl_sessions s) \<noteq> None" "sl_sessions t = sl_sessions (touch_session now sid s)"
    by (auto simp: store_event_def touch_session_def Let_def split: if_splits)
  then have "sql_get sn_id sid (sl_sessions t) \<noteq> None" using touched_session by metis
  moreover have "\<forall>n. token = Some n \<longrightarrow> fence sid n"
    using assms by (auto simp: append_event_def assert_fence_if_requested_def dest!: in_transaction_InrD elim!: st_bind_InrE split: option.splits if_splits)
  ultimately show ?thesis
    by (auto simp: append_event_def assert_fence_if_requested_def in_transaction_def st_bind_def opt_or_def insert_event_locked_def store_event_def Let_def
        split: option.splits)
qed

text \<open>C39: The verdict of the verifiers is what the log says of the run. When the verdict of a typed goal was bound
  and the telemetry took the notice, the newest event of the run reads as completed exactly when no failure
  condition fired and every success criterion and deliverable was confirmed by a verifier, as cancelled
  exactly when the first failure condition is the operator's, and as failed otherwise.\<close>

theorem typed_verdict_read_back:
  assumes "stored_log s" and "bind_run_terminal_event fence now run g results fired (rn_run_id run @ '':terminal'') a token s = (Inr e, t)"
    and "map_of (ta_payload a) ''run_id'' = None" and "map_of (ta_payload a) ''state'' = None" and "emit_resolved telemetry a e t = Inr b"
  shows "emit_terminal_run_state (Some (Inr (Some (run, g, results, fired)))) telemetry fence now a token s = (Inr (Some e), t) \<and>
    (\<exists>r. list_session_run_events (rn_session_id run) (str_strip (rn_run_id run)) 1 t = [r] \<and>
         rv_state r = (if fired = [] \<and> is_run_completion_confirmed g results then ''completed''
                       else if fired \<noteq> [] \<and> fc_kind (hd fired) = Fk_operator_cancelled then ''cancelled'' else ''failed''))"
proof -
  have "failure_kind_to_terminal k \<noteq> Rt_completed" "failure_kind_to_terminal k = Rt_cancelled \<longleftrightarrow> k = Fk_operator_cancelled" for k by (cases k; simp)+
  then have "resolve_run_terminal_persistence (derive_run_terminal_state g results fired) =
      (if fired = [] \<and> is_run_completion_confirmed g results then ''completed''
       else if fired \<noteq> [] \<and> fc_kind (hd fired) = Fk_operator_cancelled then ''cancelled'' else ''failed'')"
    by (auto simp: resolve_run_terminal_persistence_def derive_run_terminal_state_def split: list.splits)
  moreover have "emit_terminal_run_state (Some (Inr (Some (run, g, results, fired)))) telemetry fence now a token s = (Inr (Some e), t)"
    using assms(2,5) by (simp add: emit_terminal_run_state_def Let_def)
  ultimately show ?thesis using bound_readback [OF stored_log_ok [OF assms(1)] assms(2-4)] by auto
qed

theorem typed_verdict_read_back_witness:
  "\<exists>r. list_session_run_events ''s'' ''r1'' 1
     (snd (emit_terminal_run_state (Some (Inr (Some (terminal_run, terminal_goal, [passed_result ''c'', passed_result ''d''], [])))) (\<lambda>_. Inr True)
        any_fence 2 sample_terminal None queued_log)) = [r] \<and> rv_state r = ''completed''"
proof -
  let ?rs = "[passed_result ''c'', passed_result ''d'']"
  have "case bound_sample ?rs of (Inr e, t) \<Rightarrow> (case emit_resolved (\<lambda>_. Inr True) sample_terminal e t of Inr _ \<Rightarrow> True | Inl _ \<Rightarrow> False) | (Inl _, _) \<Rightarrow> False"
    by code_simp
  then obtain e t b where b: "bound_sample ?rs = (Inr e, t)" "emit_resolved (\<lambda>_. Inr True) sample_terminal e t = Inr b"
    by (auto split: prod.splits sum.splits)
  have keys: "map_of (ta_payload sample_terminal) ''run_id'' = None" "map_of (ta_payload sample_terminal) ''state'' = None"
    "is_run_completion_confirmed terminal_goal ?rs" "str_strip (rn_run_id terminal_run) = ''r1''" "rn_session_id terminal_run = ''s''" by code_simp+
  from typed_verdict_read_back [OF queued_log_stored b(1) [unfolded bound_sample_def] keys(1,2) b(2)] show ?thesis using keys(3-5) by simp
qed

text \<open>C40: A failing notice turns a verdict over. The notice runs inside the block whose exceptions lead to the
  fallback, after the verdict was stored: if it raises, as the agent's emitter does when its telemetry service raises an
  error of the database driver, which the agent does not catch, the gateway appends a second terminal event with
  the state of the untyped turn, and a run whose goal no verifier confirmed reads as completed.\<close>

theorem failed_notice_overrides_verdict:
  assumes "stored_log s" and "bind_run_terminal_event fence now run g results fired (rn_run_id run @ '':terminal'') a token s = (Inr e, t)"
    and "map_of (ta_payload a) ''run_id'' = None" and "map_of (ta_payload a) ''state'' = None"
    and "emit_resolved telemetry a e t = Inl x" and "x \<noteq> Log_FenceError"
    and "ta_session_id a = rn_session_id run" and "ta_run_id a = rn_run_id run" and "ta_legacy_state a = ''completed''" and "str_strip (rn_run_id run) \<noteq> []"
  shows "e \<in> set (sl_events (snd (emit_terminal_run_state (Some (Inr (Some (run, g, results, fired)))) telemetry fence now a token s))) \<and>
    (\<exists>r. list_session_run_events (rn_session_id run) (str_strip (rn_run_id run)) 1
           (snd (emit_terminal_run_state (Some (Inr (Some (run, g, results, fired)))) telemetry fence now a token s)) = [r] \<and> rv_state r = ''completed'')"
proof -
  let ?args = "\<lparr>re_session_id = ta_session_id a, re_run_id = ta_run_id a, re_state = ta_legacy_state a, re_current_step = ta_current_step a,
         re_payload = ta_payload a, re_conversation_id = None, re_thread_id = None, re_attach_id = None\<rparr>"
  obtain et p u where last: "append_event fence now (rn_session_id run) et p None token u = (Inr e, t)" using bound_last [OF assms(2)] .
  obtain e' t' where leg: "append_run_state_event fence now ?args token t = (Inr e', t')"
    using append_again [OF last, of now "''run.'' @ normalize_run_state (PStr (re_state ?args)) []" "run_event_payload ?args"] assms(7,8,10)
    by (auto simp: append_run_state_event_def)
  have ok: "log_ok t" using bound_readback [OF stored_log_ok [OF assms(1)] assms(2-4)] by blast
  have "snd (emit_terminal_run_state (Some (Inr (Some (run, g, results, fired)))) telemetry fence now a token s) = t'"
    using assms(2,5,6) leg by (auto simp: emit_terminal_run_state_def emit_legacy_state_def emit_run_state_def st_bind_def Let_def split: sum.splits)
  moreover have "e \<in> set (sl_events t)" using append_plain [OF last] by (auto dest: store_event_result)
  then have "e \<in> set (sl_events t')"
    using calls_keep_event [OF reach_one [where step = "sparing_call (en_session_id e)", OF spare_call [OF call_run_state]] ok, of e fence now ?args token] leg by simp
  ultimately show ?thesis using run_state_readback [OF ok leg] assms(3,4,7-9) by (simp add: RUN_STATES_def)
qed

theorem failed_notice_overrides_verdict_witness:
  "derive_run_terminal_state terminal_goal [] [] = Rt_failed \<and>
   (\<exists>r. list_session_run_events ''s'' ''r1'' 1
     (snd (emit_terminal_run_state (Some (Inr (Some (terminal_run, terminal_goal, [], [])))) (emit_invocation_lifecycle_sync (Some (\<lambda>_. Inl Log_UniqueError)))
        any_fence 2 sample_terminal None queued_log)) = [r] \<and> rv_state r = ''completed'')"
proof -
  let ?tel = "emit_invocation_lifecycle_sync (Some (\<lambda>_. Inl Log_UniqueError))"
  have "case bound_sample [] of (Inr e, t) \<Rightarrow> (case emit_resolved ?tel sample_terminal e t of Inr _ \<Rightarrow> False | Inl x \<Rightarrow> x \<noteq> Log_FenceError) | (Inl _, _) \<Rightarrow> False"
    by code_simp
  then obtain e t x where b: "bound_sample [] = (Inr e, t)" "emit_resolved ?tel sample_terminal e t = Inl x" "x \<noteq> Log_FenceError"
    by (auto split: prod.splits sum.splits)
  have keys: "map_of (ta_payload sample_terminal) ''run_id'' = None" "map_of (ta_payload sample_terminal) ''state'' = None"
    "str_strip (rn_run_id terminal_run) = ''r1''" "rn_session_id terminal_run = ''s''" "ta_session_id sample_terminal = rn_session_id terminal_run"
    "ta_run_id sample_terminal = rn_run_id terminal_run" "ta_legacy_state sample_terminal = ''completed''" "str_strip (rn_run_id terminal_run) \<noteq> []"
    "derive_run_terminal_state terminal_goal [] [] = Rt_failed" by code_simp+
  from failed_notice_overrides_verdict [OF queued_log_stored b(1) [unfolded bound_sample_def] keys(1,2) b(2,3) keys(5-8)]
  show ?thesis using keys(3,4,9) by simp
qed

end
