(* ===== verification/Spec2Isabelle.thy ===== *)
theory Spec2Isabelle
  imports Policy_Guarantees Turn_Lease Promotion_Rate_Limit Todo_Store A2A_Properties Turn_Queue_Properties Cron_Worker_Properties
    Channel_Access_Properties Channel_Pairing_Properties Goal_Properties Run_Terminal_Properties
begin

text \<open>
  OpenMinion is an agent runtime: a language model drives tools on behalf of a user, and around
  it services decide what it may do, keep its sessions, talk to other agents and run jobs by the
  clock. This development verifies the parts that make those decisions and keep that state; the
  language models, tools, channels and user interfaces are outside it.

  \<^bold>\<open>The parts and how they interact.\<close> The policy service (\<open>src/src/openminion/modules/policy\<close>) is asked
  before every tool call. It normalises the invocation, classifies its risk, consults the
  configured rules and the grants in its store, and answers allow, deny or confirm; a
  confirmation is stored, shown to the operator, and resolved into a grant. Turns of a session
  are taken under a lease with a fencing token (\<open>modules/session/storage/turn_leases.py\<close>), fed
  from the queue of user inputs (\<open>services/runtime/turn_input/queue.py\<close>), and keep a plan in the
  to-do store (\<open>modules/session/todo\<close>). The agent-to-agent runtime (\<open>modules/a2a\<close>) routes calls
  and jobs between agents with receipts by idempotency key. Promotions into long-term memory
  pass a rate limit (\<open>modules/memory/trust/rate_limit.py\<close>). Recurring jobs have schedules with
  cron expressions (\<open>modules/task/scheduling/schedule.py\<close>); their jobs and runs are rows of the
  session store (\<open>modules/session/storage/cron_store.py\<close>, \<open>cron_coordination.py\<close>), which the
  schedulers of several daemons poll (\<open>services/cron/scheduler.py\<close>): they claim runs under a lease,
  execute them in worker threads, deliver the result and store the outcome
  (\<open>modules/task/scheduling/coordination.py\<close>). Messages from chat services come in through the
  control plane (\<open>modules/controlplane\<close>): they wait in an inbox, a worker finds out who sent them,
  refuses what the sender may not do or does too often, and hands the rest to the dispatcher,
  whose answer goes to the outbox; a chat becomes known by redeeming a pairing token. A goal of a
  session (\<open>modules/brain\<close>: \<open>schemas/goals.py\<close>, \<open>storage/goals\<close>, \<open>runtime/goal\<close>) is worked on by runs of turns,
  each judged by verifiers (\<open>runtime/verification/policy.py\<close>) before the goal may complete. What happens
  in a session is written to the event log of the runtime session store
  (\<open>modules/storage/runtime/session_store\<close>); the states of runs and threads, and the gateway's decision to
  resume, fork or replay, are read from it (\<open>modules/task/run/status.py\<close>), and a turn ends with the verdict
  of its verifiers stored there (\<open>services/brain/adapters/run_verification.py\<close>,
  \<open>services/gateway/turn/lifecycle.py\<close>).

  \<^bold>\<open>How the program is modelled.\<close> A Python function is a HOL function with the same name (without
  a leading underscore; a name that HOL or another part already has gets a suffix). A class with
  state is a record, and its methods take the record and return it updated; an exception is the
  left summand of the result, and where a method raises after it changed the state, the state it
  leaves is returned beside the exception. Texts are lists of Latin-1 characters; JSON-like
  values are the datatype \<open>pyval\<close> of Prelude, which has no floating-point numbers. A database
  table is a list of rows (SQL_Table); a transaction restores the tables when its body raises.
  Clock readings, fresh identifiers, hash functions, regular expressions, time zones and the
  outcome of handlers are arguments or fields of an environment record. Instants are
  integers in Turn_Lease, Promotion_Rate_Limit, Cron_Schedule, the Channel, Goal and Session theories
  (microseconds; seconds for pairing tokens and rate limits, as in the code), and ISO texts, compared
  as the code compares them, elsewhere.

  \<^bold>\<open>Prelude and SQL_Table.\<close> Python's string, dictionary and truth-value operations, the result and
  state combinators, reachability (\<open>reach\<close>) with the locales \<open>invariant_system\<close>,
  \<open>monotone_system\<close> and \<open>simulated_system\<close> (calls that are sequences of smaller steps) that the
  transition systems below interpret, and tables with the locale
  \<open>keyed_update\<close> for updates that keep the key.

  \<^bold>\<open>Policy.\<close> Policy_Models holds the data of \<open>models.py\<close> and \<open>constants.py\<close> and the redaction of
  arguments; Policy_Store the tables and operations of \<open>storage/store.py\<close>; Policy_Grants, Policy_Risk
  and Policy_Confirmation the functions of \<open>grants.py\<close>, \<open>runtime/action_policy.py\<close> and
  \<open>runtime/confirmation.py\<close>; Policy_Service the class \<open>PolicyCtl\<close> of \<open>runtime/service.py\<close>.
  Policy_Store_Inv has the invariant of the store and the locale \<open>use_budget\<close>; Policy_Check
  analyses \<open>check\<close> under the locale \<open>kept_by_store\<close>, an invariant that every store operation keeps;
  Policy_System is the transition system of all public calls, Policy_Protocol the life of a
  confirmation, Policy_Terms the terms of stored grants. Policy_Properties and Policy_Guarantees
  state the results: exact actions need an approval and use it once, confirmations follow their
  protocol, use limits hold, block rules and denials win, high risks need a ground, secrets are
  hidden. Two facts of the code are part of the statements: no caller of \<open>create_grant\<close> sets an
  approval identifier, so the step relation creates such grants without one; and the preview of a
  confirmation is modelled as the payload that \<open>confirmation_preview_payload\<close> builds.

  \<^bold>\<open>Turn_Lease, Promotion_Rate_Limit, Todo_Store.\<close> One theory per component, with its operations, its
  step relation or its abstract specification (the limiter refines a sliding window), and its
  properties: mutual exclusion and fencing, the limit per window, the caps and the file format.

  \<^bold>\<open>Agent-to-agent runtime.\<close> A2A_Models, A2A_Store, A2A_Runtime and A2A_Jobs hold the messages, the state
  store, calls and jobs of \<open>runtime.py\<close>, \<open>registry.py\<close>, \<open>policy.py\<close> and \<open>storage\<close>. The locale
  \<open>receipt_store\<close> is what the runtime relies on; the in-memory store and the SQL tables both
  interpret it. Calls and workers are cut where the code holds no lock, so that the executions of
  A2A_System are all interleavings of callers, workers, cancellations, recoveries and restarts.
  A2A_Jobs_Inv and A2A_Writers (locale \<open>job_writer\<close>) prove its invariant, A2A_Properties the results:
  a handler runs at most once per key, finished jobs are final, jobs and receipts agree, stale
  jobs are recovered, a started job ends.

  \<^bold>\<open>Turn-input queue.\<close> Turn_Input_Queue is the class \<open>TurnInputQueue\<close>; every operation holds its lock,
  so a run is a list of calls (\<open>run_calls\<close>). Turn_Queue_Spec describes the queue abstractly, by what
  may happen to a list of entries, and proves that every call follows the description;
  Turn_Queue_Inv and Turn_Queue_Properties derive the rest: one reservation at a time, the limit,
  versions, finality, idempotency, batches, and the loss of an entry by a failed move.

  \<^bold>\<open>Schedules.\<close> Cron_Schedule is the whole of \<open>schedule.py\<close>, Cron_Lemmas its lemmas, Cron_Properties the
  results. The calendar is computed from day numbers; the time zone is a pair of functions
  between instants and wall-clock times.

  \<^bold>\<open>Cron runs.\<close> Cron_Store holds the four tables and every operation of \<open>CronStore\<close> and
  \<open>CronCoordinationStore\<close>; it reads the clock and draws identifiers through its environment.
  Cron_Statements describes what a single SQL statement may do to the rows (\<open>cron_stmt\<close>), with the
  invariant of the store and the order in which a run may develop; Cron_Calls proves that every
  operation is a sequence of such statements, so that what the statements keep, the calls keep.
  Cron_Coordination and Cron_Scheduler are the functions of \<open>coordination.py\<close> and the class
  \<open>CronScheduler\<close>; an event is recorded, a call of the delivery handler is recorded with its run and
  target, and the executors are parameters. Cron_Workers cuts a worker where it asks the store
  and interleaves the parts of all workers of all daemons with each other, with every other call
  and with crashes (\<open>world_step\<close>); the uninterrupted sequence of the parts is \<open>worker_main\<close>.
  Cron_Run_Properties and Cron_Worker_Properties state the results: one running run per
  concurrency scope, bounded attempts, claims that stay lost, outcomes stored once and under the
  fence, at most one delivery per run and target, recovery of expired leases and its exception for
  deleted jobs, the number of workers, and the due points that are dropped. They assume that
  identifiers drawn from \<open>uuid4\<close> are distinct and not blank.

  \<^bold>\<open>Control plane.\<close> Channel_Queues holds the inbox and the outbox of \<open>storage/inbox_outbox.py\<close>; the
  locale \<open>retry_queue\<close> is what the workers rely on (a claim uses up an attempt, a failure puts the
  message back or gives it up), and both queues interpret it, by way of the locale \<open>queue_rows\<close> on
  their rows. Channel_Sessions has the sessions of \<open>storage/store.py\<close> with roles, slash commands and
  the router; Channel_Access principals, pairings, rate limits and scopes (\<open>storage/principals.py\<close>,
  \<open>runtime/rate_limit.py\<close>, \<open>runtime/security.py\<close>); Channel_Pairing the tokens and the pairing service
  (\<open>storage/pair_tokens.py\<close>, \<open>pairing\<close>); Channel_Workers the workers (\<open>runtime/worker\<close>). The dispatcher
  and the channels are parameters of the workers, the older token store of one channel and
  SHA-256 of the pairing service. Channel_Properties, Channel_Pairing_Properties and
  Channel_Access_Properties show: chats join only sessions of their own users,
  attempts run out under workers that run one after the other, a stored token pairs once and only the
  chat it is meant for, the guesses that reach the tokens are bounded per window, the
  limits hold per window, revocation takes effect on messages that are authorized when they are
  processed, and a late worker can bring back a message that was processed. The authorizer has its
  identity service (\<open>runtime/identity.py\<close>) or not. Each operation runs in a transaction under a lock, so a run is a sequence of calls.

  \<^bold>\<open>Goals.\<close> Goal_Store holds the schema of goals (\<open>schemas/goals.py\<close>) and the repository over its tables;
  Goal_Runtime the service for long-running goals, the authorization of actions and the hierarchy;
  Goal_Verify the verifiers, the freshness checks, the verification of a goal, terminal states and the
  resolution of turns with a typed goal; Goal_Loop the run controller with its caps and ledger
  (\<open>runtime/goal/loop.py\<close>, \<open>ledger.py\<close>); Goal_Driver the evaluation of a turn and the driver, whose turn runner
  and verifier are parameters. Goal_Lemmas follows each operation, Goal_System is the transition
  system of the calls that write, in which a finished goal stays finished as long as \<open>replace\<close> and
  \<open>consume_cost\<close>, which write around the table of transitions, are called for other goals only. Goal_Properties states the results: a
  run takes no more turns than its caps allow, a goal completes only when a verifier passed it, the
  two completion checks agree, and four ways in which the code loses a stop, a goal or a completion.

  \<^bold>\<open>Session log, runs and threads.\<close> Session_Log holds the tables, the run facts beside the events, canonical
  events, captures with their retention holds, and the readers (\<open>lifecycle.py\<close>, \<open>run_facts.py\<close>);
  Session_Store sessions and messages (\<open>sessions.py\<close>, \<open>messages.py\<close>); Run_Status all of \<open>status.py\<close>.
  Session_System proves that every call is a sequence of primitive writes and gives the transition
  system: without the deletion of sessions, with it, and with the deletion of all but one session; Session_Lemmas its invariant (the facts are
  those of the events, identifiers grow, canonical identifiers are unique) and what it gives the
  readers. Session_Properties states the results: a canonical event is stored once, a capture stores no second
  result, the aggregate over the facts equals a reading of the events, the paged scan of an invocation
  reads all of them, an undelivered response is replayed, and none any more after the first
  delivery in the thread. Run_Terminal is the end of a turn, where the verdict of Goal_Verify meets the log, and
  Run_Terminal_Properties says that the log reads as the verdict, unless a failing notice of the agent
  (\<open>emit_invocation_lifecycle_sync\<close>) turns it over.

  \<^bold>\<open>Loops and bounds.\<close> All functions are total. The search for a cron occurrence ends because its
  cursor passes a limit five years ahead (a measure on the distance); the collection of due points
  carries the bound 512 of the code as its recursion argument; string splitting recurses on the
  length; \<open>run_phases\<close> has fuel 5, the number of parts of a worker, and its theorem says that this is
  enough. The loop of the goal driver recurses on the turns that the caps leave; the walks up and
  down the hierarchy of goals recurse on the depth that the code allows. The backward scan of the session log and
  the backfill of its facts have fuel, and more fuel than stored events is proved to be enough. The
  endless loops of the scheduler and of the renewal of leases are modelled by their rounds.

  \<^bold>\<open>Not modelled.\<close> Storage engines and migrations (the stores above them are modelled over tables),
  network transports and servers, language model providers, prompt texts, embedding-based
  retrieval and ranking (floating point), tools and skills (input and output of many kinds), the
  command line and the wiring of processes. The dictionary forms of records (\<open>to_dict\<close>) are
  modelled only where a property depends on them. Dates beyond the range of \<open>datetime\<close>, and
  characters outside Latin-1, are not treated.

  Of the parts that are modelled: rooms, participants, contexts and keys of runtime sessions, the
  proof packets and the status display of goals, and the hydration of a session's goals are left out.
  The agent loop with its strategies, the packing of contexts, the adapters of the policy service and
  the dispatcher of the control plane would be next; they drive models and tools whose answers are
  parameters here.
\<close>

end
